(* ===== verification/Prelude.thy ===== *)
theory Prelude
  imports Main "HOL-Library.Word" "HOL-Library.Char_ord" "HOL-Library.List_Lexorder"
begin

text \<open>
  Shared vocabulary of the development.

  \<^item> Instants are nanoseconds since the Unix epoch, as Go's \<open>time.Time\<close> in UTC.  The control
    database keeps them as RFC3339 text with a resolution of one second, so every value that is
    written to a column goes through \<open>sec\<close>, which drops the fraction.  For the years 0 to 9999
    the lexicographic order of such UTC texts is the numeric order of the instants, so a
    comparison of two columns in SQL is a comparison of two truncated instants here.
  \<^item> A table is the list of its rows in insertion order; \<open>tbl_update\<close>, \<open>tbl_delete\<close>,
    \<open>tbl_get\<close> and \<open>tbl_count\<close> are \<open>UPDATE\<close>, \<open>DELETE\<close>, \<open>SELECT ... WHERE key = ?\<close> and
    \<open>COUNT(*)\<close>.
  \<^item> A nullable text column is a string whose empty value stands for \<open>NULL\<close>: the code writes
    it through \<open>nullString\<close>, which maps the empty string to \<open>NULL\<close>, and reads it through
    \<open>sql.NullString.String\<close>, which maps \<open>NULL\<close> to the empty string.  \<open>null_eq\<close> is SQL equality
    on such a column: it never holds for \<open>NULL\<close>.
\<close>

named_theorems tbl_simps \<open>rewrite rules for the table operations\<close>
named_theorems inv_intros \<open>preservation of the store invariants by the store operations\<close>

section \<open>Time\<close>

type_synonym instant = int

definition nano :: int where "nano = 1000000000"

definition sec :: "instant \<Rightarrow> instant" where
  "sec t = t div nano * nano"

definition seconds :: "int \<Rightarrow> int" where "seconds n = n * nano"
definition minutes :: "int \<Rightarrow> int" where "minutes n = seconds (n * 60)"
definition hours :: "int \<Rightarrow> int" where "hours n = minutes (n * 60)"

lemma sec_sec [simp]: "sec (sec t) = sec t"
  by (simp add: sec_def nano_def)

lemma sec_le: "sec t \<le> t"
  by (simp add: sec_def nano_def div_times_less_eq_dividend)

lemma sec_mono: "s \<le> t \<Longrightarrow> sec s \<le> sec t"
  by (simp add: sec_def nano_def zdiv_mono1)

lemma sec_gt: "t < sec t + nano"
  unfolding sec_def nano_def by presburger

section \<open>Tables\<close>

definition tbl_get :: "('a \<Rightarrow> bool) \<Rightarrow> 'a list \<Rightarrow> 'a option" where
  "tbl_get P xs = List.find P xs"

definition tbl_update :: "('a \<Rightarrow> bool) \<Rightarrow> ('a \<Rightarrow> 'a) \<Rightarrow> 'a list \<Rightarrow> 'a list" where
  "tbl_update P f xs = map (\<lambda>x. if P x then f x else x) xs"

definition tbl_delete :: "('a \<Rightarrow> bool) \<Rightarrow> 'a list \<Rightarrow> 'a list" where
  "tbl_delete P xs = filter (\<lambda>x. \<not> P x) xs"

definition tbl_count :: "('a \<Rightarrow> bool) \<Rightarrow> 'a list \<Rightarrow> nat" where
  "tbl_count P xs = length (filter P xs)"

definition null_eq :: "string \<Rightarrow> string \<Rightarrow> bool" where
  "null_eq col v \<longleftrightarrow> col \<noteq> [] \<and> col = v"

definition limit_or :: "nat \<Rightarrow> int \<Rightarrow> nat" where
  "limit_or d n = (if n \<le> 0 then d else nat n)"

definition order_desc :: "('a \<Rightarrow> int) \<Rightarrow> 'a list \<Rightarrow> 'a list" where
  "order_desc k xs = sort_key (\<lambda>x. - k x) xs"

lemma set_order_desc [simp]: "set (order_desc k xs) = set xs"
  by (simp add: order_desc_def)

lemma length_order_desc [simp]: "length (order_desc k xs) = length xs"
  by (simp add: order_desc_def)

lemma order_desc_sorted: "sorted_wrt (\<lambda>a b. k b \<le> k a) (order_desc k xs)"
proof -
  have "sorted (map (\<lambda>x. - k x) (order_desc k xs))"
    by (simp add: order_desc_def)
  then show ?thesis
    by (simp add: sorted_map)
qed

lemma tbl_get_Some:
  "tbl_get P xs = Some x \<Longrightarrow> x \<in> set xs \<and> P x"
  by (auto simp: tbl_get_def find_Some_iff)

lemma tbl_get_None [tbl_simps]: "tbl_get P xs = None \<longleftrightarrow> (\<forall>x\<in>set xs. \<not> P x)"
  by (auto simp: tbl_get_def find_None_iff)

lemma tbl_get_Nil [simp]: "tbl_get P [] = None"
  by (simp add: tbl_get_def)

lemma tbl_get_Cons [simp]: "tbl_get P (x # xs) = (if P x then Some x else tbl_get P xs)"
  by (simp add: tbl_get_def)

lemma tbl_get_append [simp]:
  "tbl_get P (xs @ ys) = (case tbl_get P xs of None \<Rightarrow> tbl_get P ys | Some x \<Rightarrow> Some x)"
  by (induction xs) auto

lemma tbl_update_Nil [simp]: "tbl_update P f [] = []"
  by (simp add: tbl_update_def)

lemma tbl_update_Cons [simp]:
  "tbl_update P f (x # xs) = (if P x then f x else x) # tbl_update P f xs"
  by (simp add: tbl_update_def)

lemma length_tbl_update [simp]: "length (tbl_update P f xs) = length xs"
  by (simp add: tbl_update_def)

lemma set_tbl_update [tbl_simps]:
  "set (tbl_update P f xs) = (\<lambda>x. if P x then f x else x) ` set xs"
  by (simp add: tbl_update_def)

lemma set_tbl_delete [tbl_simps, simp]: "set (tbl_delete P xs) = {x \<in> set xs. \<not> P x}"
  by (auto simp: tbl_delete_def)

lemma tbl_delete_Nil [simp]: "tbl_delete P [] = []"
  by (simp add: tbl_delete_def)

lemma tbl_delete_Cons [simp]:
  "tbl_delete P (x # xs) = (if P x then tbl_delete P xs else x # tbl_delete P xs)"
  by (simp add: tbl_delete_def)

lemma tbl_count_0 [tbl_simps]: "tbl_count P xs = 0 \<longleftrightarrow> (\<forall>x\<in>set xs. \<not> P x)"
  by (auto simp: tbl_count_def filter_empty_conv)

lemma tbl_count_pos [tbl_simps]: "0 < tbl_count P xs \<longleftrightarrow> (\<exists>x\<in>set xs. P x)"
  using tbl_count_0 [of P xs] by auto

lemma map_tbl_update:
  assumes "\<And>x. P x \<Longrightarrow> k (f x) = k x"
  shows "map k (tbl_update P f xs) = map k xs"
  using assms by (induction xs) auto

lemma image_tbl_update:
  assumes "\<And>x. P x \<Longrightarrow> k (f x) = k x"
  shows "k ` set (tbl_update P f xs) = k ` set xs"
  using map_tbl_update [of P k f xs] assms by (metis list.set_map)

lemma tbl_get_unique:
  assumes "distinct (map k xs)" and "x \<in> set xs" and "k x = v"
  shows "tbl_get (\<lambda>y. k y = v) xs = Some x"
  using assms by (induction xs) (auto simp: rev_image_eqI)

lemma tbl_get_update_same:
  assumes "tbl_get (\<lambda>y. k y = v) xs = Some x" and "\<And>y. k (f y) = k y"
  shows "tbl_get (\<lambda>y. k y = v) (tbl_update (\<lambda>y. k y = v) f xs) = Some (f x)"
  using assms by (induction xs) (auto split: if_splits)

lemma tbl_get_update_other:
  assumes "\<And>y. k (f y) = k y" and "v \<noteq> w"
  shows "tbl_get (\<lambda>y. k y = w) (tbl_update (\<lambda>y. k y = v) f xs) = tbl_get (\<lambda>y. k y = w) xs"
  using assms by (induction xs) auto

lemma tbl_get_update_frame:
  assumes "\<And>y. P y \<Longrightarrow> k (f y) = k y \<and> k y \<noteq> w"
  shows "tbl_get (\<lambda>y. k y = w) (tbl_update P f xs) = tbl_get (\<lambda>y. k y = w) xs"
  using assms by (induction xs) auto

lemma tbl_get_update_key:
  assumes "\<And>y. k (f y) = k y"
  shows "tbl_get (\<lambda>y. k y = w) (tbl_update P f xs) =
    map_option (\<lambda>y. if P y then f y else y) (tbl_get (\<lambda>y. k y = w) xs)"
  using assms by (induction xs) auto

lemma distinct_map_tbl_delete:
  "distinct (map k xs) \<Longrightarrow> distinct (map k (tbl_delete P xs))"
  by (simp add: tbl_delete_def distinct_map_filter)

lemma tbl_update_none: "\<forall>x\<in>set xs. \<not> P x \<Longrightarrow> tbl_update P f xs = xs"
  by (induction xs) auto

lemma tbl_delete_none: "\<forall>x\<in>set xs. \<not> P x \<Longrightarrow> tbl_delete P xs = xs"
  by (induction xs) auto

lemma null_eq_refl [simp]: "null_eq c c \<longleftrightarrow> c \<noteq> []"
  by (simp add: null_eq_def)

lemma null_eq_empty [simp]: "\<not> null_eq [] v" "\<not> null_eq c []"
  by (auto simp: null_eq_def)

section \<open>Association lists for in-memory maps keyed by text\<close>

text \<open>
  The Go maps of the server processes are finite maps from text; they are modelled as functions
  \<open>string \<rightharpoonup> 'v\<close>.
\<close>

abbreviation in_map :: "'k \<Rightarrow> ('k \<rightharpoonup> 'v) \<Rightarrow> bool" where
  "in_map k m \<equiv> m k \<noteq> None"

end
