(* ===== verification/Go_Strings.thy ===== *)
theory Go_Strings
  imports Prelude
begin

text \<open>
  The parts of Go's \<open>strings\<close> package the program calls, on byte strings.  A Go string is a
  sequence of bytes, here a \<open>char list\<close>.
\<close>

section \<open>Prefixes, suffixes and splitting\<close>

definition HasPrefix :: "string \<Rightarrow> string \<Rightarrow> bool" where
  "HasPrefix s p \<longleftrightarrow> take (length p) s = p"

definition TrimPrefix :: "string \<Rightarrow> string \<Rightarrow> string" where
  "TrimPrefix s p = (if HasPrefix s p then drop (length p) s else s)"

definition HasSuffix :: "string \<Rightarrow> string \<Rightarrow> bool" where
  "HasSuffix s p \<longleftrightarrow> HasPrefix (rev s) (rev p)"

definition TrimSuffix :: "string \<Rightarrow> string \<Rightarrow> string" where
  "TrimSuffix s p = (if HasSuffix s p then take (length s - length p) s else s)"

fun Contains :: "string \<Rightarrow> string \<Rightarrow> bool" where
  "Contains [] p = HasPrefix [] p"
| "Contains (c # s) p = (HasPrefix (c # s) p \<or> Contains s p)"

fun SplitChar :: "char \<Rightarrow> string \<Rightarrow> string list" where
  "SplitChar c [] = [[]]"
| "SplitChar c (x # s) =
     (if x = c then [] # SplitChar c s
      else (case SplitChar c s of [] \<Rightarrow> [[x]] | w # ws \<Rightarrow> (x # w) # ws))"

fun JoinWith :: "string \<Rightarrow> string list \<Rightarrow> string" where
  "JoinWith sep [] = []"
| "JoinWith sep [w] = w"
| "JoinWith sep (w # v # ws) = w @ sep @ JoinWith sep (v # ws)"

lemma HasPrefix_Nil [simp]: "HasPrefix s []"
  by (simp add: HasPrefix_def)

lemma HasPrefix_Cons [simp]:
  "HasPrefix (c # s) (d # p) \<longleftrightarrow> c = d \<and> HasPrefix s p"
  by (auto simp: HasPrefix_def)

lemma HasPrefix_empty [simp]: "HasPrefix [] (d # p) = False"
  by (simp add: HasPrefix_def)

lemma HasPrefix_code [code]:
  "HasPrefix s [] = True" "HasPrefix [] (d # p) = False"
  "HasPrefix (c # s) (d # p) = (c = d \<and> HasPrefix s p)"
  by simp_all

lemma HasPrefix_iff: "HasPrefix s p \<longleftrightarrow> (\<exists>t. s = p @ t)"
  by (metis HasPrefix_def append_eq_conv_conj append_take_drop_id)

lemma HasPrefix_append [simp]: "HasPrefix (p @ t) p"
  by (auto simp: HasPrefix_iff)

lemma TrimPrefix_append [simp]: "TrimPrefix (p @ t) p = t"
  by (simp add: TrimPrefix_def)

lemma HasSuffix_iff: "HasSuffix s p \<longleftrightarrow> (\<exists>t. s = t @ p)"
  unfolding HasSuffix_def HasPrefix_iff
  by (metis rev_append rev_rev_ident)

lemma SplitChar_not_Nil [simp]: "SplitChar c s \<noteq> []"
  by (induction s) (auto split: list.splits)

lemma SplitChar_no: "c \<notin> set s \<Longrightarrow> SplitChar c s = [s]"
  by (induction s) auto

lemma SplitChar_append:
  "c \<notin> set w \<Longrightarrow> SplitChar c (w @ c # s) = w # SplitChar c s"
  by (induction w) auto

lemma SplitChar_parts: "w \<in> set (SplitChar c s) \<Longrightarrow> c \<notin> set w"
  by (induction s arbitrary: w) (auto split: if_splits list.splits)

lemma Join_Split: "JoinWith [c] (SplitChar c s) = s"
proof (induction s)
  case Nil
  then show ?case by simp
next
  case (Cons x s)
  obtain w ws where ws: "SplitChar c s = w # ws"
    by (meson SplitChar_not_Nil neq_Nil_conv)
  with Cons show ?case by (cases ws) auto
qed

lemma Split_Join:
  "ws \<noteq> [] \<Longrightarrow> \<forall>w\<in>set ws. c \<notin> set w \<Longrightarrow> SplitChar c (JoinWith [c] ws) = ws"
  by (induction "[c]" ws rule: JoinWith.induct) (auto simp: SplitChar_no SplitChar_append)

section \<open>White space and case\<close>

text \<open>
  \<open>strings.TrimSpace\<close> removes leading and trailing white space as Unicode defines it; the list
  holds the UTF-8 encodings of those code points.
\<close>

definition space_runes :: "string list" where
  "space_runes =
     [[CHR 0x09], [CHR 0x0A], [CHR 0x0B], [CHR 0x0C], [CHR 0x0D], [CHR 0x20],
      [CHR 0xC2, CHR 0x85], [CHR 0xC2, CHR 0xA0], [CHR 0xE1, CHR 0x9A, CHR 0x80],
      [CHR 0xE2, CHR 0x80, CHR 0x80], [CHR 0xE2, CHR 0x80, CHR 0x81],
      [CHR 0xE2, CHR 0x80, CHR 0x82], [CHR 0xE2, CHR 0x80, CHR 0x83],
      [CHR 0xE2, CHR 0x80, CHR 0x84], [CHR 0xE2, CHR 0x80, CHR 0x85],
      [CHR 0xE2, CHR 0x80, CHR 0x86], [CHR 0xE2, CHR 0x80, CHR 0x87],
      [CHR 0xE2, CHR 0x80, CHR 0x88], [CHR 0xE2, CHR 0x80, CHR 0x89],
      [CHR 0xE2, CHR 0x80, CHR 0x8A], [CHR 0xE2, CHR 0x80, CHR 0xA8],
      [CHR 0xE2, CHR 0x80, CHR 0xA9], [CHR 0xE2, CHR 0x80, CHR 0xAF],
      [CHR 0xE2, CHR 0x81, CHR 0x9F], [CHR 0xE3, CHR 0x80, CHR 0x80]]"

definition leading_space :: "string list \<Rightarrow> string \<Rightarrow> nat" where
  "leading_space rs s = (case List.find (HasPrefix s) rs of None \<Rightarrow> 0 | Some r \<Rightarrow> length r)"

function trim_left :: "string list \<Rightarrow> string \<Rightarrow> string" where
  "trim_left rs s =
     (if s = [] \<or> leading_space rs s = 0 then s
      else trim_left rs (drop (leading_space rs s) s))"
  by pat_completeness auto
termination
  by (relation "measure (\<lambda>(rs, s). length s)") auto

declare trim_left.simps [simp del]

definition TrimSpace :: "string \<Rightarrow> string" where
  "TrimSpace s = rev (trim_left (map rev space_runes) (rev (trim_left space_runes s)))"

lemma trim_left_Nil [simp]: "trim_left rs [] = []"
  by (simp add: trim_left.simps)

lemma TrimSpace_Nil [simp]: "TrimSpace [] = []"
  by (simp add: TrimSpace_def)

lemma trim_left_fixed: "leading_space rs (trim_left rs s) = 0 \<or> trim_left rs s = []"
proof (induction rs s rule: trim_left.induct)
  case (1 rs s)
  then show ?case
    by (cases "s = [] \<or> leading_space rs s = 0") (auto simp: trim_left.simps [of rs s])
qed

text \<open>
  \<open>strings.ToLower\<close>, as far as comparing the result with an ASCII text can tell: ASCII letters,
  and the two other code points whose lower case is an ASCII letter (U+0130 and U+212A).  Other
  bytes keep their value; the real function maps them to text that is not ASCII either.
\<close>

definition lower_char :: "char \<Rightarrow> char" where
  "lower_char c = (let n = of_char c :: nat in if 65 \<le> n \<and> n \<le> 90 then char_of (n + 32) else c)"

text \<open>The same on the bits of the character, which is what evaluation uses.\<close>

lemma lower_char_code [code]:
  "lower_char (Char b0 b1 b2 b3 b4 b5 b6 b7) =
     (if \<not> b7 \<and> b6 \<and> \<not> b5 \<and> (b0 \<or> b1 \<or> b2 \<or> b3 \<or> b4) \<and> \<not> (b4 \<and> b3 \<and> (b2 \<or> (b1 \<and> b0)))
      then Char b0 b1 b2 b3 b4 True b6 b7 else Char b0 b1 b2 b3 b4 b5 b6 b7)"
  by (cases b0; cases b1; cases b2; cases b3; cases b4; cases b5; cases b6; cases b7)
    (simp_all add: lower_char_def char_of_def bit_iff_odd)

fun ToLower :: "string \<Rightarrow> string" where
  "ToLower [] = []"
| "ToLower (c # s) =
     (if HasPrefix (c # s) [CHR 0xC4, CHR 0xB0]
      then CHR ''i'' # ToLower (drop 1 s)
      else if HasPrefix (c # s) [CHR 0xE2, CHR 0x84, CHR 0xAA]
      then CHR ''k'' # ToLower (drop 2 s)
      else lower_char c # ToLower s)"

text \<open>Decimal text of a number (\<open>%d\<close>, \<open>strconv.Itoa\<close>).\<close>

fun dec_nat :: "nat \<Rightarrow> string" where
  "dec_nat n = (if n < 10 then [char_of (48 + n)] else dec_nat (n div 10) @ [char_of (48 + n mod 10)])"

declare dec_nat.simps [simp del]

definition dec_int :: "int \<Rightarrow> string" where
  "dec_int n = (if n < 0 then CHR ''-'' # dec_nat (nat (- n)) else dec_nat (nat n))"

lemma digit_char_inj:
  assumes "a < 10" and "b < 10" and "(char_of (48 + a :: nat) :: char) = char_of (48 + b :: nat)"
  shows "a = b"
proof -
  from assms(3) have "of_char (char_of (48 + a) :: char) = (of_char (char_of (48 + b) :: char) :: nat)"
    by simp
  with assms(1,2) show ?thesis by simp
qed

lemma dec_nat_inj: "dec_nat m = dec_nat n \<Longrightarrow> m = n"
proof (induction m arbitrary: n rule: dec_nat.induct)
  case (1 m)
  have nn: "dec_nat k \<noteq> []" for k by (subst dec_nat.simps) simp
  show ?case
  proof (cases "m < 10")
    case True
    then have m: "dec_nat m = [char_of (48 + m)]" by (subst dec_nat.simps) simp
    show ?thesis
    proof (cases "n < 10")
      case True
      then have "dec_nat n = [char_of (48 + n)]" by (subst dec_nat.simps) simp
      with 1(2) m have "(char_of (48 + m) :: char) = char_of (48 + n)" by simp
      with \<open>m < 10\<close> True show ?thesis by (blast intro: digit_char_inj)
    next
      case False
      then have "dec_nat n = dec_nat (n div 10) @ [char_of (48 + n mod 10)]"
        by (subst dec_nat.simps) simp
      with 1(2) m nn [of "n div 10"] show ?thesis by simp
    qed
  next
    case False
    then have m: "dec_nat m = dec_nat (m div 10) @ [char_of (48 + m mod 10)]"
      by (subst dec_nat.simps) simp
    show ?thesis
    proof (cases "n < 10")
      case True
      then have "dec_nat n = [char_of (48 + n)]" by (subst dec_nat.simps) simp
      with 1(2) m nn show ?thesis by simp
    next
      case False
      then have n: "dec_nat n = dec_nat (n div 10) @ [char_of (48 + n mod 10)]"
        by (subst dec_nat.simps) simp
      with m 1(2) have d: "dec_nat (m div 10) = dec_nat (n div 10)"
        and c: "(char_of (48 + m mod 10) :: char) = char_of (48 + n mod 10)" by auto
      from c have "m mod 10 = n mod 10" by (rule digit_char_inj [rotated 2]) auto
      moreover from 1(1) [OF \<open>\<not> m < 10\<close> d] have "m div 10 = n div 10" .
      ultimately show ?thesis by (metis div_mult_mod_eq)
    qed
  qed
qed

definition is_digit :: "char \<Rightarrow> bool" where
  "is_digit c \<longleftrightarrow> 48 \<le> (of_char c :: nat) \<and> (of_char c :: nat) \<le> 57"

text \<open>\<open>strings.EqualFold\<close>; the two code points below fold to ASCII letters.\<close>

fun fold_text :: "string \<Rightarrow> string" where
  "fold_text [] = []"
| "fold_text (c # s) =
     (if HasPrefix (c # s) [CHR 0xC5, CHR 0xBF] then CHR ''s'' # fold_text (drop 1 s)
      else if HasPrefix (c # s) [CHR 0xE2, CHR 0x84, CHR 0xAA] then CHR ''k'' # fold_text (drop 2 s)
      else lower_char c # fold_text s)"

definition EqualFold :: "string \<Rightarrow> string \<Rightarrow> bool" where
  "EqualFold a b \<longleftrightarrow> fold_text a = fold_text b"

end
