(* ===== verification/Json.thy ===== *)
theory Json
  imports Go_Strings
begin

text \<open>
  JSON documents, as far as the program builds them with \<open>json.Marshal\<close> and reads them with
  \<open>json.Unmarshal\<close>.  Columns and messages that carry JSON hold the document itself:
  \<open>JBad s\<close> is a text \<open>s\<close> that does not parse (so \<open>JBad []\<close> is the empty text), and a number
  with a fraction keeps its literal in \<open>JDec\<close>.  \<open>json_text\<close> is the compact text Marshal writes,
  for the places where the program looks at the text itself (deduplication keys).
\<close>

datatype json =
    JNull
  | JBool bool
  | JNum int
  | JDec string
  | JStr string
  | JList "json list"
  | JObj "(string \<times> json) list"
  | JBad string

definition json_braces :: json where "json_braces = JObj []"
definition json_none :: json where "json_none = JBad []"

text \<open>A field of an object; of two members with one name the last counts.\<close>

definition obj_get :: "string \<Rightarrow> (string \<times> json) list \<Rightarrow> json option" where
  "obj_get k ms = map_option snd (List.find (\<lambda>m. fst m = k) (rev ms))"

text \<open>
  Decoding one struct field: \<open>None\<close> is the type error of Unmarshal, a missing or \<open>null\<close> member
  leaves the zero value.
\<close>

definition field_string :: "string \<Rightarrow> (string \<times> json) list \<Rightarrow> string option" where
  "field_string k ms =
     (case obj_get k ms of None \<Rightarrow> Some [] | Some JNull \<Rightarrow> Some []
      | Some (JStr s) \<Rightarrow> Some s | Some _ \<Rightarrow> None)"

definition field_int :: "string \<Rightarrow> (string \<times> json) list \<Rightarrow> int option" where
  "field_int k ms =
     (case obj_get k ms of None \<Rightarrow> Some 0 | Some JNull \<Rightarrow> Some 0
      | Some (JNum n) \<Rightarrow> Some n | Some _ \<Rightarrow> None)"

definition field_bool :: "string \<Rightarrow> (string \<times> json) list \<Rightarrow> bool option" where
  "field_bool k ms =
     (case obj_get k ms of None \<Rightarrow> Some False | Some JNull \<Rightarrow> Some False
      | Some (JBool b) \<Rightarrow> Some b | Some _ \<Rightarrow> None)"

fun decode_all :: "('a \<Rightarrow> 'b option) \<Rightarrow> 'a list \<Rightarrow> 'b list option" where
  "decode_all f [] = Some []"
| "decode_all f (x # xs) =
     (case f x of None \<Rightarrow> None
      | Some y \<Rightarrow> (case decode_all f xs of None \<Rightarrow> None | Some ys \<Rightarrow> Some (y # ys)))"

definition decode_string :: "json \<Rightarrow> string option" where
  "decode_string j = (case j of JStr s \<Rightarrow> Some s | JNull \<Rightarrow> Some [] | _ \<Rightarrow> None)"

definition field_strings :: "string \<Rightarrow> (string \<times> json) list \<Rightarrow> string list option" where
  "field_strings k ms =
     (case obj_get k ms of None \<Rightarrow> Some [] | Some JNull \<Rightarrow> Some []
      | Some (JList js) \<Rightarrow> decode_all decode_string js | Some _ \<Rightarrow> None)"

lemma obj_get_Nil [simp]: "obj_get k [] = None"
  by (simp add: obj_get_def)

lemma obj_get_snoc [simp]:
  "obj_get k (ms @ [m]) = (if fst m = k then Some (snd m) else obj_get k ms)"
  by (simp add: obj_get_def)

lemma decode_all_map: "(\<And>x. x \<in> set xs \<Longrightarrow> f (g x) = Some x) \<Longrightarrow> decode_all f (map g xs) = Some xs"
  by (induction xs) auto

section \<open>The text of a document\<close>

definition hex_digit :: "nat \<Rightarrow> char" where
  "hex_digit n = (if n < 10 then char_of (48 + n) else char_of (87 + n))"

definition json_char :: "char \<Rightarrow> string" where
  "json_char c =
     (let n = of_char c :: nat in
      if c = CHR 0x22 then [CHR 0x5C, CHR 0x22]
      else if c = CHR 0x5C then [CHR 0x5C, CHR 0x5C]
      else if n = 8 then [CHR 0x5C, CHR ''b'']
      else if n = 9 then [CHR 0x5C, CHR ''t'']
      else if n = 10 then [CHR 0x5C, CHR ''n'']
      else if n = 12 then [CHR 0x5C, CHR ''f'']
      else if n = 13 then [CHR 0x5C, CHR ''r'']
      else if n < 32 \<or> c = CHR ''<'' \<or> c = CHR ''>'' \<or> c = CHR ''&''
      then [CHR 0x5C, CHR ''u'', CHR ''0'', CHR ''0'', hex_digit (n div 16), hex_digit (n mod 16)]
      else [c])"

definition json_quote :: "string \<Rightarrow> string" where
  "json_quote s = [CHR 0x22] @ concat (map json_char s) @ [CHR 0x22]"

fun json_text :: "json \<Rightarrow> string" where
  "json_text JNull = ''null''"
| "json_text (JBool b) = (if b then ''true'' else ''false'')"
| "json_text (JNum n) = dec_int n"
| "json_text (JDec s) = s"
| "json_text (JStr s) = json_quote s"
| "json_text (JList js) = ''['' @ JoinWith '','' (map json_text js) @ '']''"
| "json_text (JObj ms) =
     [CHR 0x7B] @ JoinWith '','' (map (\<lambda>m. json_quote (fst m) @ '':'' @ json_text (snd m)) ms) @ [CHR 0x7D]"
| "json_text (JBad s) = s"

text \<open>
  No text of a document that Marshal wrote contains a NUL byte, which the deduplication keys use
  as their separator.
\<close>

fun marshalled :: "json \<Rightarrow> bool" where
  "marshalled (JDec s) = (CHR 0x00 \<notin> set s)"
| "marshalled (JBad s) = False"
| "marshalled (JList js) = list_all marshalled js"
| "marshalled (JObj ms) = list_all (\<lambda>m. marshalled (snd m)) ms"
| "marshalled _ = True"

lemma nul_not_digit: "k < 80 \<Longrightarrow> CHR 0x00 \<noteq> char_of (48 + k :: nat)"
proof
  assume k: "k < 80" and "CHR 0x00 = char_of (48 + k :: nat)"
  then have "(of_char (CHR 0x00) :: nat) = of_char (char_of (48 + k :: nat) :: char)" by simp
  with k show False by simp
qed

lemma nul_dec_nat: "CHR 0x00 \<notin> set (dec_nat n)"
proof (induction n rule: dec_nat.induct)
  case (1 n)
  then show ?case
    by (subst dec_nat.simps) (auto dest: nul_not_digit [of n, simplified] nul_not_digit [of "n mod 10", simplified]
      simp: nul_not_digit nul_not_digit [symmetric])
qed

lemma nul_dec_int: "CHR 0x00 \<notin> set (dec_int n)"
  by (simp add: dec_int_def nul_dec_nat)

lemma nul_hex_digit: "n < 16 \<Longrightarrow> hex_digit n \<noteq> CHR 0x00"
  using nul_not_digit [of n] nul_not_digit [of "39 + n"] by (auto simp: hex_digit_def)

lemma nul_json_char: "CHR 0x00 \<notin> set (json_char c)"
proof -
  have "(of_char c :: nat) div 16 < 16"
    using nat_of_char_less_256 [of c] by (simp add: div_less_iff_less_mult)
  moreover have "(of_char c :: nat) mod 16 < 16" by simp
  ultimately have h: "hex_digit (of_char c div 16) \<noteq> CHR 0x00" "hex_digit (of_char c mod 16) \<noteq> CHR 0x00"
    by (simp_all add: nul_hex_digit)
  show ?thesis
  proof (cases "c = CHR 0x00")
    case True
    with h show ?thesis by (simp add: json_char_def)
  next
    case False
    with h show ?thesis unfolding json_char_def Let_def by simp
  qed
qed

lemma nul_json_quote: "CHR 0x00 \<notin> set (json_quote s)"
  by (simp add: json_quote_def nul_json_char)

lemma nul_Join: "c \<notin> set sep \<Longrightarrow> \<forall>w\<in>set ws. c \<notin> set w \<Longrightarrow> c \<notin> set (JoinWith sep ws)"
  by (induction sep ws rule: JoinWith.induct) auto

lemma nul_json_text: "marshalled j \<Longrightarrow> CHR 0x00 \<notin> set (json_text j)"
proof (induction j)
  case (JList js)
  then have "CHR 0x00 \<notin> set (JoinWith '','' (map json_text js))"
    by (intro nul_Join) (auto simp: list_all_iff)
  then show ?case by simp
next
  case (JObj ms)
  then have "CHR 0x00 \<notin> set (JoinWith '','' (map (\<lambda>m. json_quote (fst m) @ '':'' @ json_text (snd m)) ms))"
    by (intro nul_Join) (fastforce simp: list_all_iff nul_json_quote)+
  then show ?case by simp
qed (auto simp: nul_dec_int nul_json_quote)

end
