(* ===== verification/Json_Parse.thy ===== *)
theory Json_Parse
  imports Json
begin

text \<open>
  Reading the text of a JSON document (\<open>encoding/json\<close>), for the places where the program parses a
  text: the parameters at the end of a deduplication key, the output of \<open>restic\<close>.  A text that is
  not one document gives \<open>JBad\<close>.  The fuel bounds the nesting and the members of a document; every
  use of it consumes a character within two steps, so twice the length of the text is enough.
  Bytes above 127 are taken over as they are (Go replaces those that are not valid UTF-8).
\<close>

type_synonym 'a parser = "string \<Rightarrow> ('a \<times> string) option"

definition is_space :: "char \<Rightarrow> bool" where
  "is_space c \<longleftrightarrow> c = CHR '' '' \<or> c = CHR 0x09 \<or> c = CHR 0x0A \<or> c = CHR 0x0D"

definition skip_space :: "string \<Rightarrow> string" where
  "skip_space = dropWhile is_space"

section \<open>Strings\<close>

definition unhex :: "char \<Rightarrow> nat option" where
  "unhex c =
     (let n = of_char c :: nat in
      if 48 \<le> n \<and> n \<le> 57 then Some (n - 48)
      else if 97 \<le> n \<and> n \<le> 102 then Some (n - 87)
      else if 65 \<le> n \<and> n \<le> 70 then Some (n - 55) else None)"

definition unhex4 :: "nat parser" where
  "unhex4 s =
     (case s of
        a # b # c # d # r \<Rightarrow>
          (case (unhex a, unhex b, unhex c, unhex d) of
             (Some w, Some x, Some y, Some z) \<Rightarrow> Some (((w * 16 + x) * 16 + y) * 16 + z, r)
           | _ \<Rightarrow> None)
      | _ \<Rightarrow> None)"

definition utf8 :: "nat \<Rightarrow> string" where
  "utf8 n =
     (if n < 128 then [char_of n]
      else if n < 2048 then [char_of (192 + n div 64), char_of (128 + n mod 64)]
      else if n < 65536
      then [char_of (224 + n div 4096), char_of (128 + n div 64 mod 64), char_of (128 + n mod 64)]
      else [char_of (240 + n div 262144), char_of (128 + n div 4096 mod 64), char_of (128 + n div 64 mod 64),
            char_of (128 + n mod 64)])"

definition escaped :: "char \<Rightarrow> char option" where
  "escaped c =
     (if c = CHR 0x22 \<or> c = CHR 0x5C \<or> c = CHR ''/'' then Some c
      else if c = CHR ''b'' then Some (CHR 0x08)
      else if c = CHR ''f'' then Some (CHR 0x0C)
      else if c = CHR ''n'' then Some (CHR 0x0A)
      else if c = CHR ''r'' then Some (CHR 0x0D)
      else if c = CHR ''t'' then Some (CHR 0x09) else None)"

text \<open>The code point of an escape: a lone half of a surrogate pair becomes U+FFFD.\<close>

definition unicode_escape :: "string parser" where
  "unicode_escape s =
     (case unhex4 s of
        None \<Rightarrow> None
      | Some (u, r) \<Rightarrow>
          if u < 55296 \<or> 57344 \<le> u then Some (utf8 u, r)
          else
            case (if u < 56320 \<and> HasPrefix r [CHR 0x5C, CHR ''u''] then unhex4 (drop 2 r) else None) of
              Some (v, r') \<Rightarrow>
                if 56320 \<le> v \<and> v < 57344 then Some (utf8 (65536 + (u - 55296) * 1024 + (v - 56320)), r')
                else Some (utf8 65533, r)
            | None \<Rightarrow> Some (utf8 65533, r))"

lemma unhex4_shorter: "unhex4 s = Some (u, r) \<Longrightarrow> length r < length s"
  by (auto simp: unhex4_def split: list.splits option.splits)

lemma unicode_escape_shorter [termination_simp]:
  "unicode_escape s = Some (u, r) \<Longrightarrow> length r < length s"
  by (auto simp: unicode_escape_def split: option.splits if_splits dest!: unhex4_shorter)

definition prepend :: "string \<Rightarrow> (string \<times> string) option \<Rightarrow> (string \<times> string) option" where
  "prepend p = map_option (apfst ((@) p))"

function parse_string :: "string parser" where
  "parse_string [] = None"
| "parse_string (c # s) =
     (if c = CHR 0x22 then Some ([], s)
      else if c = CHR 0x5C then
        (case s of
           [] \<Rightarrow> None
         | e # r \<Rightarrow>
             if e = CHR ''u'' then
               (case unicode_escape r of None \<Rightarrow> None | Some (p, r') \<Rightarrow> prepend p (parse_string r'))
             else (case escaped e of None \<Rightarrow> None | Some x \<Rightarrow> prepend [x] (parse_string r)))
      else if (of_char c :: nat) < 32 then None
      else prepend [c] (parse_string s))"
  by pat_completeness auto
termination
  by (relation "measure length") (auto dest: unicode_escape_shorter)

section \<open>Numbers\<close>

definition digits_value :: "string \<Rightarrow> nat" where
  "digits_value ds = foldl (\<lambda>v c. v * 10 + (of_char c - 48)) 0 ds"

text \<open>The digits of a whole number: no leading zero.\<close>

definition parse_digits :: "string parser" where
  "parse_digits s =
     (let ds = takeWhile is_digit s in
      if ds = [] \<or> (hd ds = CHR ''0'' \<and> tl ds \<noteq> []) then None else Some (ds, drop (length ds) s))"

definition parse_fraction :: "string parser" where
  "parse_fraction s =
     (case s of
        c # r \<Rightarrow>
          if c = CHR ''.'' then
            let ds = takeWhile is_digit r in if ds = [] then None else Some (c # ds, drop (length ds) r)
          else Some ([], s)
      | [] \<Rightarrow> Some ([], []))"

definition parse_exponent :: "string parser" where
  "parse_exponent s =
     (case s of
        c # r \<Rightarrow>
          if c = CHR ''e'' \<or> c = CHR ''E'' then
            let sg = (case r of d # _ \<Rightarrow> if d = CHR ''+'' \<or> d = CHR ''-'' then [d] else [] | [] \<Rightarrow> []);
                ds = takeWhile is_digit (drop (length sg) r)
            in if ds = [] then None else Some (c # sg @ ds, drop (length sg + length ds) r)
          else Some ([], s)
      | [] \<Rightarrow> Some ([], []))"

definition parse_number :: "json parser" where
  "parse_number s =
     (let sg = (case s of c # _ \<Rightarrow> if c = CHR ''-'' then [c] else [] | [] \<Rightarrow> []) in
      case parse_digits (drop (length sg) s) of
        None \<Rightarrow> None
      | Some (ds, r) \<Rightarrow>
          (case parse_fraction r of
             None \<Rightarrow> None
           | Some (fr, r1) \<Rightarrow>
               (case parse_exponent r1 of
                  None \<Rightarrow> None
                | Some (ex, r2) \<Rightarrow>
                    Some (if fr = [] \<and> ex = []
                          then JNum (if sg = [] then int (digits_value ds) else - int (digits_value ds))
                          else JDec (sg @ ds @ fr @ ex), r2))))"

section \<open>Documents\<close>

definition parse_literal :: "json parser" where
  "parse_literal t =
     (if HasPrefix t ''null'' then Some (JNull, drop 4 t)
      else if HasPrefix t ''true'' then Some (JBool True, drop 4 t)
      else if HasPrefix t ''false'' then Some (JBool False, drop 5 t)
      else parse_number t)"


fun parse_value :: "nat \<Rightarrow> json parser"
and parse_items :: "nat \<Rightarrow> json list parser"
and parse_members :: "nat \<Rightarrow> (string \<times> json) list parser"
where
  "parse_value 0 s = None"
| "parse_value (Suc n) s =
     (case skip_space s of
        [] \<Rightarrow> None
      | c # r \<Rightarrow>
          if c = CHR 0x22 then map_option (apfst JStr) (parse_string r)
          else if c = CHR ''['' then
            (if HasPrefix (skip_space r) '']'' then Some (JList [], drop 1 (skip_space r))
             else map_option (apfst JList) (parse_items n r))
          else if c = CHR 0x7B then
            (if HasPrefix (skip_space r) [CHR 0x7D] then Some (JObj [], drop 1 (skip_space r))
             else map_option (apfst JObj) (parse_members n r))
          else parse_literal (c # r))"
| "parse_items 0 s = None"
| "parse_items (Suc n) s =
     (case parse_value n s of
        None \<Rightarrow> None
      | Some (j, r) \<Rightarrow>
          (case skip_space r of
             [] \<Rightarrow> None
           | c # r' \<Rightarrow>
               if c = CHR '','' then map_option (apfst ((#) j)) (parse_items n r')
               else if c = CHR '']'' then Some ([j], r') else None))"
| "parse_members 0 s = None"
| "parse_members (Suc n) s =
     (case skip_space s of
        [] \<Rightarrow> None
      | q # r \<Rightarrow>
          if q \<noteq> CHR 0x22 then None
          else
            case parse_string r of
              None \<Rightarrow> None
            | Some (k, r1) \<Rightarrow>
                (case skip_space r1 of
                   [] \<Rightarrow> None
                 | d # r2 \<Rightarrow>
                     if d \<noteq> CHR '':'' then None
                     else
                       case parse_value n r2 of
                         None \<Rightarrow> None
                       | Some (j, r3) \<Rightarrow>
                           (case skip_space r3 of
                              [] \<Rightarrow> None
                            | c # r' \<Rightarrow>
                                if c = CHR '','' then map_option (apfst ((#) (k, j))) (parse_members n r')
                                else if c = CHR 0x7D then Some ([(k, j)], r') else None)))"

definition parse_json :: "string \<Rightarrow> json" where
  "parse_json s =
     (case parse_value (2 * length s + 2) s of
        Some (j, r) \<Rightarrow> if skip_space r = [] then j else JBad s
      | None \<Rightarrow> JBad s)"

section \<open>Reading back what Marshal wrote\<close>

text \<open>The documents without a number that has a fraction.\<close>

fun whole :: "json \<Rightarrow> bool" where
  "whole (JDec s) = False"
| "whole (JBad s) = False"
| "whole (JList js) = list_all whole js"
| "whole (JObj ms) = list_all (\<lambda>m. whole (snd m)) ms"
| "whole _ = True"

lemma skip_space_head [simp]: "\<not> is_space c \<Longrightarrow> skip_space (c # s) = c # s"
  by (simp add: skip_space_def)

lemma parse_string_quote [simp]: "parse_string (CHR 0x22 # r) = Some ([], r)"
  by simp

lemma unhex_digit: "n < 16 \<Longrightarrow> unhex (hex_digit n) = Some n"
  by (auto simp: unhex_def hex_digit_def)

lemma unicode_escape_low:
  assumes "(of_char c :: nat) < 128"
  shows "unicode_escape (CHR ''0'' # CHR ''0'' # hex_digit (of_char c div 16) # hex_digit (of_char c mod 16) # r) = Some ([c], r)"
proof -
  have "unhex (hex_digit (of_char c div 16)) = Some (of_char c div 16)"
    using assms by (intro unhex_digit) simp
  moreover have "unhex (hex_digit (of_char c mod 16)) = Some (of_char c mod 16)"
    by (intro unhex_digit) simp
  moreover have "unhex (CHR ''0'') = Some 0" by (simp add: unhex_def)
  ultimately have "unhex4 (CHR ''0'' # CHR ''0'' # hex_digit (of_char c div 16) # hex_digit (of_char c mod 16) # r) = Some (of_char c, r)"
    by (simp add: unhex4_def mult.commute)
  with assms show ?thesis by (simp add: unicode_escape_def utf8_def)
qed

lemma parse_json_char: "parse_string (json_char c @ r) = prepend [c] (parse_string r)"
proof -
  have named: "parse_string (CHR 0x5C # e # r) = prepend [c] (parse_string r)"
    if "escaped e = Some c" "e \<noteq> CHR ''u''" for e
    using that by simp
  have code: "c = char_of (of_char c :: nat)" by simp
  have "(char_of (8 :: nat) :: char) = CHR 0x08" "(char_of (9 :: nat) :: char) = CHR 0x09"
    "(char_of (10 :: nat) :: char) = CHR 0x0A" "(char_of (12 :: nat) :: char) = CHR 0x0C"
    "(char_of (13 :: nat) :: char) = CHR 0x0D"
    by (simp_all add: char_of_def bit_iff_odd)
  note chars = this
  let ?n = "of_char c :: nat"
  let ?special = "c = CHR 0x22 \<or> c = CHR 0x5C \<or> ?n = 8 \<or> ?n = 9 \<or> ?n = 10 \<or> ?n = 12 \<or> ?n = 13"
  show ?thesis
  proof (cases ?special)
    case True
    then consider "c = CHR 0x22" | "c = CHR 0x5C" | "c = CHR 0x08" | "c = CHR 0x09" | "c = CHR 0x0A" | "c = CHR 0x0C" | "c = CHR 0x0D"
      using code chars by (elim disjE) metis+
    then show ?thesis
      by cases (simp_all add: json_char_def escaped_def)
  next
    case False
    show ?thesis
    proof (cases "?n < 32 \<or> c = CHR ''<'' \<or> c = CHR ''>'' \<or> c = CHR ''&''")
      case True
      then have "?n < 128" by auto
      with True False show ?thesis
        by (simp add: json_char_def Let_def unicode_escape_low del: append_Cons)
          (simp add: unicode_escape_low)
    next
      case plain: False
      with False have "json_char c = [c]" by (simp add: json_char_def Let_def)
      with plain False show ?thesis by simp
    qed
  qed
qed

lemma parse_quoted: "parse_string (concat (map json_char s) @ CHR 0x22 # r) = Some (s, r)"
  by (induction s) (simp_all add: parse_json_char prepend_def del: parse_string.simps(2))

text \<open>What may stand behind a value inside a document.\<close>

definition stops :: "string \<Rightarrow> bool" where
  "stops r \<longleftrightarrow> r = [] \<or> hd r \<in> {CHR '','', CHR '']'', CHR 0x7D}"

lemma stops_head [simp]: "stops (CHR '','' # r)" "stops (CHR '']'' # r)" "stops (CHR 0x7D # r)" "stops []"
  by (simp_all add: stops_def)

lemma stops_digits: "stops r \<Longrightarrow> takeWhile is_digit r = []"
  by (cases r) (auto simp: stops_def is_digit_def)

lemma digit_char: "n < 10 \<Longrightarrow> is_digit (char_of (48 + n :: nat))"
  by (simp add: is_digit_def)

lemma digits_value_snoc: "n < 10 \<Longrightarrow> digits_value (ds @ [char_of (48 + n :: nat)]) = digits_value ds * 10 + n"
  by (simp add: digits_value_def)

lemma digits_value_one: "n < 10 \<Longrightarrow> digits_value [char_of (48 + n :: nat)] = n"
  by (simp add: digits_value_def)

lemma dec_nat_digits: "list_all is_digit (dec_nat n) \<and> digits_value (dec_nat n) = n \<and> dec_nat n \<noteq> []"
proof (induction n rule: dec_nat.induct)
  case (1 n)
  then show ?case
    by (subst (1 2 3) dec_nat.simps)
      (auto simp: digit_char digits_value_snoc digits_value_one)
qed

lemma dec_nat_head: "0 < n \<Longrightarrow> hd (dec_nat n) \<noteq> CHR ''0''"
proof (induction n rule: dec_nat.induct)
  case (1 n)
  show ?case
  proof (cases "n < 10")
    case True
    have "(char_of (48 :: nat) :: char) = CHR ''0''" by (simp add: char_of_def bit_iff_odd)
    then have "char_of (48 + n) \<noteq> CHR ''0''"
      using True 1(2) digit_char_inj [of n 0] by auto
    with True show ?thesis by (subst dec_nat.simps) simp
  next
    case False
    with 1 dec_nat_digits [of "n div 10"] show ?thesis by (subst dec_nat.simps) simp
  qed
qed

lemma takeWhile_digits:
  assumes "list_all is_digit ds" and "stops r"
  shows "takeWhile is_digit (ds @ r) = ds"
  using assms by (simp add: stops_digits list_all_iff)

lemma parse_digits_dec: "stops r \<Longrightarrow> parse_digits (dec_nat n @ r) = Some (dec_nat n, r)"
proof (cases "n = 0")
  case True
  assume "stops r"
  moreover have "dec_nat 0 = ''0''" by (subst dec_nat.simps) (simp add: char_of_def bit_iff_odd)
  ultimately show ?thesis using True takeWhile_digits [of "''0''" r] dec_nat_digits [of 0]
    by (simp add: parse_digits_def)
next
  case False
  assume "stops r"
  with False dec_nat_digits [of n] dec_nat_head [of n] show ?thesis
    by (simp add: parse_digits_def takeWhile_digits)
qed

lemma parse_number_tail:
  assumes "stops r"
  shows "parse_fraction r = Some ([], r)" and "parse_exponent r = Some ([], r)"
  using assms by (auto simp: parse_fraction_def parse_exponent_def stops_def split: list.splits)

lemma digit_head: "is_digit c \<Longrightarrow> c \<noteq> CHR ''-'' \<and> c \<noteq> CHR ''n'' \<and> c \<noteq> CHR ''t'' \<and> c \<noteq> CHR ''f''
    \<and> c \<noteq> CHR 0x22 \<and> c \<noteq> CHR ''['' \<and> c \<noteq> CHR 0x7B \<and> \<not> is_space c \<and> c \<noteq> CHR '']'' \<and> c \<noteq> CHR 0x7D"
  by (auto simp: is_digit_def is_space_def)

lemma dec_nat_Cons: obtains c ds where "dec_nat n = c # ds" "is_digit c"
  using dec_nat_digits [of n] by (cases "dec_nat n") auto

lemma parse_number_dec: "stops r \<Longrightarrow> parse_number (dec_int n @ r) = Some (JNum n, r)"
proof -
  assume r: "stops r"
  obtain c ds where c: "dec_nat (nat n) = c # ds" "is_digit c" by (rule dec_nat_Cons)
  show ?thesis
    using r parse_digits_dec [OF r, of "nat n"] parse_digits_dec [OF r, of "nat (- n)"]
      dec_nat_digits [of "nat n"] dec_nat_digits [of "nat (- n)"] digit_head [OF c(2)] c(1)
    by (simp add: parse_number_def dec_int_def parse_number_tail Let_def)
qed

lemma dec_int_Cons: obtains c ds where "dec_int n = c # ds" "c = CHR ''-'' \<or> is_digit c"
  by (metis dec_int_def dec_nat_Cons)

lemma parse_literal_dec: "stops r \<Longrightarrow> parse_literal (dec_int n @ r) = Some (JNum n, r)"
proof -
  assume "stops r"
  moreover obtain c ds where "dec_int n = c # ds" "c = CHR ''-'' \<or> is_digit c" by (rule dec_int_Cons)
  ultimately show ?thesis
    using parse_number_dec [of r n] digit_head [of c] by (auto simp: parse_literal_def HasPrefix_def)
qed

lemma dec_int_head:
  obtains c ds where "dec_int n = c # ds" "\<not> is_space c" "c \<noteq> CHR 0x22" "c \<noteq> CHR ''[''" "c \<noteq> CHR 0x7B" "c \<noteq> CHR '']''"
proof -
  obtain c ds where c: "dec_int n = c # ds" "c = CHR ''-'' \<or> is_digit c" by (rule dec_int_Cons)
  from c(2) show ?thesis
  proof
    assume "c = CHR ''-''"
    with c(1) show ?thesis by (intro that [of c ds]) (simp_all add: is_space_def)
  next
    assume "is_digit c"
    from digit_head [OF this] c(1) show ?thesis by (intro that [of c ds]) simp_all
  qed
qed

lemma json_text_head:
  assumes "whole j"
  obtains c t where "json_text j = c # t" "\<not> is_space c" "c \<noteq> CHR '']''"
proof (cases j)
  case (JNum n)
  obtain c ds where "dec_int n = c # ds" "\<not> is_space c" "c \<noteq> CHR '']''" by (rule dec_int_head)
  with JNum show ?thesis by (intro that [of c ds]) simp_all
next
  case JNull
  then show ?thesis by (intro that [of "CHR ''n''" "''ull''"]) (auto simp: is_space_def)
next
  case (JBool b)
  then show ?thesis
    by (cases b) (auto simp: is_space_def intro: that [of "CHR ''t''" "''rue''"] that [of "CHR ''f''" "''alse''"])
next
  case (JStr x)
  then show ?thesis by (intro that) (auto simp: json_quote_def is_space_def)
next
  case (JList x)
  then show ?thesis by (intro that) (auto simp: is_space_def)
next
  case (JObj x)
  then show ?thesis by (intro that) (auto simp: is_space_def)
qed (use assms in simp_all)

definition reads_back :: "json \<Rightarrow> bool" where
  "reads_back j \<longleftrightarrow>
     (\<forall>n r. stops r \<longrightarrow> 2 * length (json_text j) + 1 \<le> n \<longrightarrow> parse_value n (json_text j @ r) = Some (j, r))"

lemma reads_backD:
  "reads_back j \<Longrightarrow> stops r \<Longrightarrow> 2 * length (json_text j) + 1 \<le> n \<Longrightarrow> parse_value n (json_text j @ r) = Some (j, r)"
  by (simp add: reads_back_def)

lemma items_read_back:
  assumes "js \<noteq> []" and "\<forall>j\<in>set js. reads_back j" and "2 * length (JoinWith '','' (map json_text js)) + 2 \<le> n"
  shows "parse_items n (JoinWith '','' (map json_text js) @ '']'' @ r) = Some (js, r)"
  using assms
proof (induction js arbitrary: n)
  case Nil
  then show ?case by simp
next
  case (Cons j js)
  then obtain m where n: "n = Suc m" by (cases n) auto
  show ?case
  proof (cases js)
    case Nil
    with Cons.prems n have "parse_value m (json_text j @ '']'' @ r) = Some (j, '']'' @ r)"
      by (intro reads_backD) auto
    with Nil n show ?thesis by (simp add: is_space_def)
  next
    case (Cons k ks)
    let ?rest = "JoinWith '','' (map json_text js) @ '']'' @ r"
    from Cons.prems n Cons have "parse_value m (json_text j @ '','' @ ?rest) = Some (j, '','' @ ?rest)"
      by (intro reads_backD) auto
    moreover from Cons.prems n Cons have "parse_items m ?rest = Some (js, r)"
      by (intro Cons.IH) auto
    ultimately show ?thesis using Cons n by (simp add: is_space_def)
  qed
qed

definition member_text :: "string \<times> json \<Rightarrow> string" where
  "member_text m = json_quote (fst m) @ '':'' @ json_text (snd m)"

lemma member_text_append:
  "member_text (k, j) @ r = CHR 0x22 # concat (map json_char k) @ CHR 0x22 # CHR '':'' # json_text j @ r"
  by (simp add: member_text_def json_quote_def)

lemma members_read_back:
  assumes "ms \<noteq> []" and "\<forall>m\<in>set ms. reads_back (snd m)" and "2 * length (JoinWith '','' (map member_text ms)) + 2 \<le> n"
  shows "parse_members n (JoinWith '','' (map member_text ms) @ [CHR 0x7D] @ r) = Some (ms, r)"
  using assms
proof (induction ms arbitrary: n)
  case Nil
  then show ?case by simp
next
  case (Cons m ms)
  then obtain i where n: "n = Suc i" by (cases n) auto
  obtain k j where m: "m = (k, j)" by (cases m)
  have key: "parse_string (concat (map json_char k) @ CHR 0x22 # s) = Some (k, s)" for s
    by (rule parse_quoted)
  show ?case
  proof (cases ms)
    case Nil
    with Cons.prems n m have "parse_value i (json_text j @ [CHR 0x7D] @ r) = Some (j, [CHR 0x7D] @ r)"
      by (intro reads_backD) (auto simp: member_text_def)
    with Nil n m key show ?thesis by (simp add: is_space_def member_text_append del: parse_string.simps)
  next
    case (Cons q qs)
    let ?rest = "JoinWith '','' (map member_text ms) @ [CHR 0x7D] @ r"
    from Cons.prems n m Cons have "parse_value i (json_text j @ '','' @ ?rest) = Some (j, '','' @ ?rest)"
      by (intro reads_backD) (auto simp: member_text_def)
    moreover from Cons.prems n Cons have "parse_members i ?rest = Some (ms, r)"
      by (intro Cons.IH) auto
    ultimately show ?thesis using Cons n m key
      by (simp add: is_space_def member_text_append del: parse_string.simps)
  qed
qed

lemma parse_value_text: "whole j \<Longrightarrow> reads_back j"
proof (induction j)
  case (JNum x)
  show ?case unfolding reads_back_def
  proof (intro allI impI)
    fix n r assume "stops r" and le: "2 * length (json_text (JNum x)) + 1 \<le> n"
    obtain c ds where c: "dec_int x = c # ds" "\<not> is_space c" "c \<noteq> CHR 0x22" "c \<noteq> CHR ''[''" "c \<noteq> CHR 0x7B"
      by (rule dec_int_head)
    moreover obtain m where "n = Suc m" using le by (cases n) auto
    ultimately show "parse_value n (json_text (JNum x) @ r) = Some (JNum x, r)"
      using parse_literal_dec [OF \<open>stops r\<close>, of x] by simp
  qed
next
  case (JList js)
  then have all: "\<forall>j\<in>set js. reads_back j" by (auto simp: list_all_iff)
  show ?case unfolding reads_back_def
  proof (intro allI impI)
    fix n r assume n: "2 * length (json_text (JList js)) + 1 \<le> n"
    then obtain m where m: "n = Suc m" by (cases n) auto
    show "parse_value n (json_text (JList js) @ r) = Some (JList js, r)"
    proof (cases js)
      case Nil
      with m show ?thesis by (simp add: is_space_def HasPrefix_def)
    next
      case (Cons j ks)
      with JList.prems obtain c t where c: "json_text j = c # t" "\<not> is_space c" "c \<noteq> CHR '']''"
        by (auto elim: json_text_head)
      from Cons c(1) obtain t' where "JoinWith '','' (map json_text js) = c # t'" by (cases ks) auto
      moreover have "parse_items m (JoinWith '','' (map json_text js) @ '']'' @ r) = Some (js, r)"
        using Cons all m n by (intro items_read_back) auto
      ultimately show ?thesis using m c by (simp add: is_space_def HasPrefix_def)
    qed
  qed
next
  case (JObj ms)
  then have all: "\<forall>m\<in>set ms. reads_back (snd m)" by (fastforce simp: list_all_iff)
  have doc: "json_text (JObj ms) = CHR 0x7B # JoinWith '','' (map member_text ms) @ [CHR 0x7D]"
    by (simp add: member_text_def [abs_def])
  show ?case unfolding reads_back_def
  proof (intro allI impI)
    fix n r assume n: "2 * length (json_text (JObj ms)) + 1 \<le> n"
    then obtain m where m: "n = Suc m" by (cases n) auto
    show "parse_value n (json_text (JObj ms) @ r) = Some (JObj ms, r)"
    proof (cases ms)
      case Nil
      with m show ?thesis by (simp add: is_space_def HasPrefix_def)
    next
      case (Cons q qs)
      obtain t where "JoinWith '','' (map member_text ms) = CHR 0x22 # t"
        using Cons by (cases qs) (auto simp: member_text_def json_quote_def)
      moreover have "parse_members m (JoinWith '','' (map member_text ms) @ [CHR 0x7D] @ r) = Some (ms, r)"
        using Cons all m n doc by (intro members_read_back) auto
      ultimately show ?thesis using m doc by (simp add: is_space_def HasPrefix_def del: json_text.simps)
    qed
  qed
next
  case (JStr s)
  show ?case unfolding reads_back_def
  proof (intro allI impI)
    fix n r assume "2 * length (json_text (JStr s)) + 1 \<le> n"
    then show "parse_value n (json_text (JStr s) @ r) = Some (JStr s, r)"
      using parse_quoted [of s r] by (cases n) (auto simp: json_quote_def is_space_def simp del: parse_string.simps)
  qed
next
  case JNull
  show ?case unfolding reads_back_def
  proof (intro allI impI)
    fix n r assume "2 * length (json_text JNull) + 1 \<le> n"
    then show "parse_value n (json_text JNull @ r) = Some (JNull, r)"
      by (cases n) (simp_all add: is_space_def parse_literal_def HasPrefix_def)
  qed
next
  case (JBool b)
  show ?case unfolding reads_back_def
  proof (intro allI impI)
    fix n r assume "2 * length (json_text (JBool b)) + 1 \<le> n"
    then show "parse_value n (json_text (JBool b) @ r) = Some (JBool b, r)"
      by (cases n; cases b) (simp_all add: is_space_def parse_literal_def HasPrefix_def)
  qed
qed simp_all

lemma parse_json_text: "whole j \<Longrightarrow> parse_json (json_text j) = j"
proof -
  assume "whole j"
  then have "parse_value (2 * length (json_text j) + 2) (json_text j @ []) = Some (j, [])"
    by (intro reads_backD parse_value_text) auto
  then show ?thesis by (simp add: parse_json_def skip_space_def)
qed

end
