(* ===== verification/Registry.thy ===== *)
theory Registry
  imports Prelude
begin

text \<open>
  The registry of connected agents (\<open>agentreg/registry.go\<close>): one stream per agent, replaced when
  the agent connects again, with the capabilities that were reported on that very stream.  A
  context is a number that is never used twice; \<open>reg_done\<close> holds the contexts that have ended,
  because the registry cancelled them or because the connection went away.  The send channel of a
  stream has room for 32 messages.
\<close>

section \<open>State\<close>

record 'm stream =
  st_ctx :: nat
  st_chan :: "'m list"
  st_caps_ready :: bool
  st_safe :: bool

record 'm registry =
  reg_streams :: "string \<rightharpoonup> 'm stream"
  reg_done :: "nat list"
  reg_next :: nat

datatype send_err = ErrAgentNotConnected | ErrCapabilitiesPending | ErrUnsafeDatabaseRestore | ErrContextDone

text \<open>A send that finds the channel full waits until there is room or the context ends.\<close>

datatype 'm send_result = Sent "'m registry" | SendFailed send_err | SendBlocks

definition chan_cap :: nat where "chan_cap = 32"

definition NewRegistry :: "'m registry" where
  "NewRegistry = \<lparr>reg_streams = Map.empty, reg_done = [], reg_next = 0\<rparr>"

section \<open>Operations\<close>

definition cancel_ctx :: "nat \<Rightarrow> 'm registry \<Rightarrow> 'm registry" where
  "cancel_ctx c r = r\<lparr>reg_done := c # reg_done r\<rparr>"

definition Register :: "string \<Rightarrow> 'm registry \<Rightarrow> nat \<times> 'm registry" where
  "Register agent r =
     (let r1 = (case reg_streams r agent of None \<Rightarrow> r | Some existing \<Rightarrow> cancel_ctx (st_ctx existing) r);
          c = reg_next r1
      in (c, r1\<lparr>reg_streams := (reg_streams r1)(agent \<mapsto> \<lparr>st_ctx = c, st_chan = [], st_caps_ready = False, st_safe = False\<rparr>),
                reg_next := Suc c\<rparr>))"

definition Unregister :: "string \<Rightarrow> 'm registry \<Rightarrow> 'm registry" where
  "Unregister agent r =
     (case reg_streams r agent of
        None \<Rightarrow> r
      | Some st \<Rightarrow> (cancel_ctx (st_ctx st) r)\<lparr>reg_streams := (reg_streams r)(agent := None)\<rparr>)"

definition UnregisterIf :: "string \<Rightarrow> nat \<Rightarrow> 'm registry \<Rightarrow> bool \<times> 'm registry" where
  "UnregisterIf agent c r =
     (case reg_streams r agent of
        None \<Rightarrow> (False, r)
      | Some st \<Rightarrow>
          if st_ctx st \<noteq> c then (False, r)
          else (True, (cancel_ctx c r)\<lparr>reg_streams := (reg_streams r)(agent := None)\<rparr>))"

text \<open>The results are: ready, safe database restore, connected.\<close>

definition ConnectionCapabilities :: "'m registry \<Rightarrow> string \<Rightarrow> bool \<times> bool \<times> bool" where
  "ConnectionCapabilities r agent =
     (case reg_streams r agent of None \<Rightarrow> (False, False, False) | Some st \<Rightarrow> (st_caps_ready st, st_safe st, True))"

definition ReportCapabilities :: "string \<Rightarrow> nat \<Rightarrow> bool \<Rightarrow> 'm registry \<Rightarrow> bool \<times> 'm registry" where
  "ReportCapabilities agent c safe r =
     (case reg_streams r agent of
        None \<Rightarrow> (False, r)
      | Some st \<Rightarrow>
          if st_ctx st \<noteq> c then (False, r)
          else (True, r\<lparr>reg_streams := (reg_streams r)(agent \<mapsto> st\<lparr>st_caps_ready := True, st_safe := safe\<rparr>)\<rparr>))"

text \<open>
  The \<open>select\<close> between the channel and the context: when both are ready Go takes either, which is
  the argument \<open>pick\<close>.
\<close>

definition select_send :: "bool \<Rightarrow> string \<Rightarrow> 'm stream \<Rightarrow> 'm \<Rightarrow> 'm registry \<Rightarrow> 'm send_result" where
  "select_send pick agent st msg r =
     (let room = length (st_chan st) < chan_cap; over = st_ctx st \<in> set (reg_done r) in
      if room \<and> (\<not> over \<or> pick)
      then Sent (r\<lparr>reg_streams := (reg_streams r)(agent \<mapsto> st\<lparr>st_chan := st_chan st @ [msg]\<rparr>)\<rparr>)
      else if over then SendFailed ErrContextDone
      else SendBlocks)"

definition SendWithCapability :: "bool \<Rightarrow> string \<Rightarrow> 'm \<Rightarrow> bool \<Rightarrow> 'm registry \<Rightarrow> 'm send_result" where
  "SendWithCapability pick agent msg requireSafe r =
     (case reg_streams r agent of
        None \<Rightarrow> SendFailed ErrAgentNotConnected
      | Some st \<Rightarrow>
          if \<not> st_caps_ready st then SendFailed ErrCapabilitiesPending
          else if requireSafe \<and> \<not> st_safe st then SendFailed ErrUnsafeDatabaseRestore
          else select_send pick agent st msg r)"

definition Send :: "bool \<Rightarrow> string \<Rightarrow> 'm \<Rightarrow> 'm registry \<Rightarrow> 'm send_result" where
  "Send pick agent msg r =
     (case reg_streams r agent of
        None \<Rightarrow> SendFailed ErrAgentNotConnected | Some st \<Rightarrow> select_send pick agent st msg r)"

definition Connected :: "'m registry \<Rightarrow> string \<Rightarrow> bool" where
  "Connected r agent \<longleftrightarrow> reg_streams r agent \<noteq> None"

text \<open>The sender of the stream takes the next message off the channel.\<close>

definition take_message :: "string \<Rightarrow> nat \<Rightarrow> 'm registry \<Rightarrow> 'm option \<times> 'm registry" where
  "take_message agent c r =
     (case reg_streams r agent of
        Some st \<Rightarrow>
          if st_ctx st = c \<and> st_chan st \<noteq> []
          then (Some (hd (st_chan st)), r\<lparr>reg_streams := (reg_streams r)(agent \<mapsto> st\<lparr>st_chan := tl (st_chan st)\<rparr>)\<rparr>)
          else (None, r)
      | None \<Rightarrow> (None, r))"

section \<open>Runs of the registry\<close>

datatype 'm reg_op =
    OpRegister string | OpUnregister string | OpUnregisterIf string nat | OpReport string nat bool
  | OpSendWithCapability bool string 'm bool | OpSend bool string 'm | OpTake string nat | OpHangup nat

text \<open>The state, and the reports that were accepted, the latest first.\<close>

definition sent_or :: "'m registry \<Rightarrow> 'm send_result \<Rightarrow> 'm registry" where
  "sent_or r res = (case res of Sent r' \<Rightarrow> r' | _ \<Rightarrow> r)"

fun reg_exec :: "'m reg_op \<Rightarrow> 'm registry \<times> (nat \<times> bool) list \<Rightarrow> 'm registry \<times> (nat \<times> bool) list" where
  "reg_exec (OpRegister a) (r, rep) = (snd (Register a r), rep)"
| "reg_exec (OpUnregister a) (r, rep) = (Unregister a r, rep)"
| "reg_exec (OpUnregisterIf a c) (r, rep) = (snd (UnregisterIf a c r), rep)"
| "reg_exec (OpReport a c safe) (r, rep) =
     (case ReportCapabilities a c safe r of (ok, r') \<Rightarrow> (r', if ok then (c, safe) # rep else rep))"
| "reg_exec (OpSendWithCapability p a m q) (r, rep) = (sent_or r (SendWithCapability p a m q r), rep)"
| "reg_exec (OpSend p a m) (r, rep) = (sent_or r (Send p a m r), rep)"
| "reg_exec (OpTake a c) (r, rep) = (snd (take_message a c r), rep)"
| "reg_exec (OpHangup c) (r, rep) = (cancel_ctx c r, rep)"

definition reg_run :: "'m reg_op list \<Rightarrow> 'm registry \<times> (nat \<times> bool) list" where
  "reg_run ops = fold reg_exec ops (NewRegistry, [])"

section \<open>Lemmas\<close>

text \<open>Contexts in use are below the counter and belong to one agent; the record of a stream is what was
  last reported on it.\<close>

definition reg_ok :: "'m registry \<times> (nat \<times> bool) list \<Rightarrow> bool" where
  "reg_ok s \<longleftrightarrow>
     (case s of (r, rep) \<Rightarrow>
        (\<forall>p\<in>set rep. fst p < reg_next r) \<and>
        (\<forall>a st. reg_streams r a = Some st \<longrightarrow> st_ctx st < reg_next r \<and> length (st_chan st) \<le> chan_cap \<and>
           (\<forall>b st'. reg_streams r b = Some st' \<longrightarrow> st_ctx st' = st_ctx st \<longrightarrow> a = b) \<and>
           st_caps_ready st = (map_of rep (st_ctx st) \<noteq> None) \<and>
           (st_caps_ready st \<longrightarrow> map_of rep (st_ctx st) = Some (st_safe st))))"

lemma reg_okD:
  assumes "reg_ok (r, rep)"
  shows "\<forall>p\<in>set rep. fst p < reg_next r"
    and "reg_streams r a = Some st \<Longrightarrow> st_ctx st < reg_next r \<and> length (st_chan st) \<le> chan_cap \<and>
           st_caps_ready st = (map_of rep (st_ctx st) \<noteq> None) \<and> (st_caps_ready st \<longrightarrow> map_of rep (st_ctx st) = Some (st_safe st))"
    and "reg_streams r a = Some st \<Longrightarrow> reg_streams r b = Some st' \<Longrightarrow> st_ctx st' = st_ctx st \<Longrightarrow> a = b"
  using assms by (auto simp: reg_ok_def)

text \<open>Replacing the content of a channel, ending contexts or removing a stream keeps the invariant.\<close>

lemma reg_ok_chan:
  assumes "reg_ok (r, rep)" and "reg_streams r a = Some st" and "length q \<le> chan_cap"
  shows "reg_ok (r\<lparr>reg_streams := (reg_streams r)(a \<mapsto> st\<lparr>st_chan := q\<rparr>)\<rparr>, rep)"
  using assms unfolding reg_ok_def by (auto split: if_splits)

lemma reg_ok_cong:
  assumes "reg_ok (r, rep)" and "reg_streams r' = reg_streams r" and "reg_next r' = reg_next r"
  shows "reg_ok (r', rep)"
  using assms unfolding reg_ok_def by simp

lemma reg_ok_cancel [simp]: "reg_ok (cancel_ctx c r, rep) = reg_ok (r, rep)"
  by (simp add: reg_ok_def cancel_ctx_def)

lemma reg_ok_remove: "reg_ok (r, rep) \<Longrightarrow> reg_ok (r\<lparr>reg_streams := (reg_streams r)(a := None)\<rparr>, rep)"
  unfolding reg_ok_def by (auto split: if_splits)

lemma reg_ok_drop: "reg_ok (r, rep) \<Longrightarrow> reg_ok ((cancel_ctx c r)\<lparr>reg_streams := (reg_streams r)(a := None)\<rparr>, rep)"
  by (rule reg_ok_cong [OF reg_ok_remove [of r rep a]]) (simp_all add: cancel_ctx_def)

lemma select_send_ok:
  assumes "reg_ok (r, rep)" and "reg_streams r a = Some st"
  shows "reg_ok (sent_or r (select_send pick a st msg r), rep)"
  using assms reg_ok_chan [OF assms, of "st_chan st @ [msg]"]
  by (auto simp: select_send_def sent_or_def Let_def)

lemma Register_ok:
  assumes "reg_ok (r, rep)"
  shows "reg_ok (snd (Register a r), rep)"
proof -
  have none: "map_of rep (reg_next r) = None"
    using reg_okD(1) [OF assms] by (auto simp: map_of_eq_None_iff)
  have lt: "st_ctx st \<noteq> reg_next r" if "reg_streams r b = Some st" for b st
    using reg_okD(2) [OF assms that] by simp
  show ?thesis
    using assms none lt unfolding reg_ok_def Register_def Let_def cancel_ctx_def
    by (auto split: option.splits if_splits simp: less_Suc_eq chan_cap_def) (metis less_irrefl_nat)+
qed

lemma Report_ok:
  assumes "reg_ok (r, rep)" and "ReportCapabilities a c safe r = (ok, r')"
  shows "reg_ok (r', if ok then (c, safe) # rep else rep)"
proof (cases "\<exists>st. reg_streams r a = Some st \<and> st_ctx st = c")
  case True
  then obtain st where st: "reg_streams r a = Some st" "st_ctx st = c" by blast
  then have r': "ok" "r' = r\<lparr>reg_streams := (reg_streams r)(a \<mapsto> st\<lparr>st_caps_ready := True, st_safe := safe\<rparr>)\<rparr>"
    using assms(2) by (auto simp: ReportCapabilities_def)
  have "st_ctx st' \<noteq> c" if "reg_streams r b = Some st'" "b \<noteq> a" for b st'
    using reg_okD(3) [OF assms(1) that(1) st(1)] st(2) that(2) by auto
  then show ?thesis using assms(1) st r'(1) unfolding r'(2) reg_ok_def by (auto split: if_splits)
next
  case False
  then have "\<not> ok" "r' = r" using assms(2) by (auto simp: ReportCapabilities_def split: option.splits if_splits)
  with assms(1) show ?thesis by simp
qed

lemma reg_exec_ok: "reg_ok s \<Longrightarrow> reg_ok (reg_exec oper s)"
proof (induction oper s rule: reg_exec.induct)
  case (2 a r rep)
  then show ?case by (simp add: Unregister_def reg_ok_drop split: option.split)
next
  case (3 a c r rep)
  then show ?case by (simp add: UnregisterIf_def reg_ok_drop split: option.split)
next
  case (4 a c safe r rep)
  then show ?case using Report_ok [of r rep a c safe] by (auto split: prod.splits)
next
  case (5 p a m q r rep)
  then show ?case
    using select_send_ok [of r rep a] by (auto simp: SendWithCapability_def sent_or_def split: option.splits)
next
  case (6 p a m r rep)
  then show ?case using select_send_ok [of r rep a] by (auto simp: Send_def sent_or_def split: option.splits)
next
  case (7 a c r rep)
  show ?case
  proof (cases "\<exists>st. reg_streams r a = Some st \<and> st_ctx st = c \<and> st_chan st \<noteq> []")
    case True
    then obtain st where "reg_streams r a = Some st" "st_ctx st = c" "st_chan st \<noteq> []" by blast
    moreover have "length (tl (st_chan st)) \<le> chan_cap"
      using reg_okD(2) [OF 7 calculation(1)] by (simp add: le_diff_conv)
    ultimately show ?thesis using reg_ok_chan [OF 7] by (simp add: take_message_def)
  next
    case False
    with 7 show ?thesis by (auto simp: take_message_def split: option.splits)
  qed
qed (auto intro: Register_ok)

lemma reg_run_ok: "reg_ok (reg_run ops)"
proof -
  have "reg_ok (fold reg_exec ops s)" if "reg_ok s" for s
    using that
  proof (induction ops arbitrary: s)
    case (Cons oper ops)
    from Cons.IH [OF reg_exec_ok [OF Cons.prems]] show ?case by simp
  qed simp
  then show ?thesis by (simp add: reg_run_def reg_ok_def NewRegistry_def)
qed

section \<open>What clients rely on\<close>

text \<open>
  The dispatcher sees the registry only through these operations.  Its contract: a message can be
  delivered only to a connected agent, a guarded message only to a stream that has reported the
  capability, and sending changes neither who is connected nor what was reported.
\<close>

locale agent_link =
  fixes link_connected :: "'r \<Rightarrow> string \<Rightarrow> bool"
    and link_caps :: "'r \<Rightarrow> string \<Rightarrow> bool \<times> bool \<times> bool"
    and link_send :: "string \<Rightarrow> 'm \<Rightarrow> 'r \<Rightarrow> 'r option"
    and link_send_guarded :: "string \<Rightarrow> 'm \<Rightarrow> 'r \<Rightarrow> 'r option"
  assumes send_connected: "link_send a m r = Some r' \<Longrightarrow> link_connected r a"
    and guarded_capable: "link_send_guarded a m r = Some r' \<Longrightarrow> link_caps r a = (True, True, True)"
    and caps_connected: "snd (snd (link_caps r a)) = link_connected r a"
    and send_frame: "link_send a m r = Some r' \<Longrightarrow> link_caps r' b = link_caps r b"
    and guarded_frame: "link_send_guarded a m r = Some r' \<Longrightarrow> link_caps r' b = link_caps r b"
begin

lemma guarded_connected: "link_send_guarded a m r = Some r' \<Longrightarrow> link_connected r a"
  using guarded_capable [of a m r r'] caps_connected [of r a] by simp

lemma sends_keep_connections:
  "link_send a m r = Some r' \<or> link_send_guarded a m r = Some r' \<Longrightarrow> link_connected r' b = link_connected r b"
  using send_frame [of a m r r' b] guarded_frame [of a m r r' b] caps_connected [of r b] caps_connected [of r' b] by metis

end

definition delivered :: "'m send_result \<Rightarrow> 'm registry option" where
  "delivered res = (case res of Sent r \<Rightarrow> Some r | _ \<Rightarrow> None)"

lemma select_send_frame:
  assumes "delivered (select_send pick a st msg r) = Some r'" and "reg_streams r a = Some st"
  shows "ConnectionCapabilities r' b = ConnectionCapabilities r b"
  using assms by (auto simp: delivered_def select_send_def ConnectionCapabilities_def Let_def split: if_splits)

interpretation link: agent_link Connected ConnectionCapabilities
  "\<lambda>a m r. delivered (Send pick a m r)" "\<lambda>a m r. delivered (SendWithCapability pick a m True r)"
proof
  fix a m r r' b
  show "delivered (Send pick a m r) = Some r' \<Longrightarrow> Connected r a"
    by (auto simp: Send_def delivered_def Connected_def split: option.splits)
  show "delivered (SendWithCapability pick a m True r) = Some r' \<Longrightarrow> ConnectionCapabilities r a = (True, True, True)"
    by (auto simp: SendWithCapability_def delivered_def ConnectionCapabilities_def split: option.splits if_splits)
  show "snd (snd (ConnectionCapabilities r a)) = Connected r a"
    by (simp add: ConnectionCapabilities_def Connected_def split: option.split)
  show "delivered (Send pick a m r) = Some r' \<Longrightarrow> ConnectionCapabilities r' b = ConnectionCapabilities r b"
    by (auto simp: Send_def delivered_def split: option.splits dest: select_send_frame [unfolded delivered_def])
  show "delivered (SendWithCapability pick a m True r) = Some r' \<Longrightarrow> ConnectionCapabilities r' b = ConnectionCapabilities r b"
    by (auto simp: SendWithCapability_def delivered_def split: option.splits if_splits
        dest: select_send_frame [unfolded delivered_def])
qed

section \<open>Properties\<close>

text \<open>Whatever the connections of an agent have been, a message that requires the safe restore
  capability is delivered only to the stream whose own last accepted report, made on that stream
  after it was registered, said that the capability is there; a report or a clean-up that belongs to
  a replaced stream changes nothing.\<close>

theorem guarded_send_uses_own_report:
  assumes "reg_run ops = (r, rep)" and "SendWithCapability pick agent msg True r = Sent r'"
  shows "\<exists>st. reg_streams r agent = Some st \<and> map_of rep (st_ctx st) = Some True \<and>
      reg_streams r' agent = Some (st\<lparr>st_chan := st_chan st @ [msg]\<rparr>) \<and> length (st_chan st) < chan_cap \<and>
      (\<forall>c safe. c \<noteq> st_ctx st \<longrightarrow> ReportCapabilities agent c safe r' = (False, r') \<and> UnregisterIf agent c r' = (False, r'))"
proof -
  from assms(2) obtain st where st: "reg_streams r agent = Some st" "st_caps_ready st" "st_safe st"
    "select_send pick agent st msg r = Sent r'"
    by (auto simp: SendWithCapability_def split: option.splits if_splits)
  have "map_of rep (st_ctx st) = Some True"
    using reg_okD(2) [of r rep agent st] reg_run_ok [of ops] assms(1) st by simp
  moreover have "length (st_chan st) < chan_cap"
    "r' = r\<lparr>reg_streams := (reg_streams r)(agent \<mapsto> st\<lparr>st_chan := st_chan st @ [msg]\<rparr>)\<rparr>"
    using st(4) by (auto simp: select_send_def Let_def split: if_splits)
  ultimately show ?thesis using st(1) by (auto simp: ReportCapabilities_def UnregisterIf_def)
qed

theorem guarded_send_uses_own_report_witness:
  "\<exists>r rep r'. reg_run [OpRegister ''a1'', OpReport ''a1'' 0 True, OpRegister ''a1'', OpReport ''a1'' 1 True, OpReport ''a1'' 0 False]
       = (r, rep) \<and> SendWithCapability True ''a1'' (7::nat) True r = Sent r' \<and> map_of rep 1 = Some True"
proof -
  let ?ops = "[OpRegister ''a1'', OpReport ''a1'' 0 True, OpRegister ''a1'', OpReport ''a1'' 1 True, OpReport ''a1'' 0 False] :: nat reg_op list"
  obtain r rep where r: "reg_run ?ops = (r, rep)" by (metis prod.exhaust)
  have s: "\<exists>r'. SendWithCapability True ''a1'' (7::nat) True r = Sent r'" and c: "\<exists>st. reg_streams r ''a1'' = Some st \<and> st_ctx st = 1"
    using r by (auto simp: reg_run_def NewRegistry_def Register_def ReportCapabilities_def SendWithCapability_def select_send_def
        cancel_ctx_def chan_cap_def Let_def)
  from s obtain r' where "SendWithCapability True ''a1'' (7::nat) True r = Sent r'" by blast
  with guarded_send_uses_own_report [OF r this] r c show ?thesis by auto
qed

end
