(* ===== verification/Model.thy ===== *)
theory Model
  imports Json
begin

text \<open>
  The shared domain types of \<open>internal/model\<close>: kinds, operations, run states, restore phases,
  the rows the server keeps, and the pure rules over them (which phases release the restore
  occupancy, which databases are system databases, which extra dump arguments are allowed).
  The program writes these enumerations as string constants; here they are datatypes with the
  same constructors, and a final constructor for any other text where the program lets one in.
\<close>

section \<open>Enumerations\<close>

datatype kind =
    KindFilesystem | KindPostgreSQL | KindMySQL | KindMongoDB | KindSQLite | KindOther string

datatype operation =
    OpBackup | OpRestore | OpRestoreDryRun | OpCheck | OpForget | OpSnapshots | OpSnapshotLs
  | OpVerifyRemote | OpValidatePaths | OpProbeCaps

datatype run_status = RunQueued | RunDispatched | RunRunning | RunSucceeded | RunFailed | RunCancelled

datatype restore_phase =
    RestorePhaseQueued | RestorePhaseRunning | RestorePhasePreBackup | RestorePhaseRestoring
  | RestorePhaseRollingBack | RestorePhaseCancelling | RestorePhaseSucceeded | RestorePhaseFailed
  | RestorePhasePreBackupFailed | RestorePhaseRolledBack | RestorePhaseNewTargetCleaned
  | RestorePhaseRollbackFailed | RestorePhaseManualRecoveryNeeded | RestorePhaseManualRecoveryDone
  | RestorePhaseOther string

datatype agent_status = AgentOnline | AgentOffline
datatype repo_status = RepoPending | RepoReady | RepoError
datatype log_source = RunLogSourceAgent | RunLogSourceServer
datatype deletion_source = SnapshotDeletionManual | SnapshotDeletionOrphan
datatype deletion_state =
    SnapshotDeletionCandidate | SnapshotDeletionPending | SnapshotDeletionRunning
  | SnapshotDeletionSucceeded

instantiation run_status :: enum
begin
definition "enum_run_status = [RunQueued, RunDispatched, RunRunning, RunSucceeded, RunFailed, RunCancelled]"
definition "enum_all_run_status P \<longleftrightarrow>
  P RunQueued \<and> P RunDispatched \<and> P RunRunning \<and> P RunSucceeded \<and> P RunFailed \<and> P RunCancelled"
definition "enum_ex_run_status P \<longleftrightarrow>
  P RunQueued \<or> P RunDispatched \<or> P RunRunning \<or> P RunSucceeded \<or> P RunFailed \<or> P RunCancelled"
instance
proof
  show "(UNIV :: run_status set) = set enum_class.enum"
    using run_status.exhaust by (auto simp: enum_run_status_def)
  show "distinct (enum_class.enum :: run_status list)"
    by (simp add: enum_run_status_def)
  show "enum_class.enum_all P \<longleftrightarrow> Ball UNIV P" for P :: "run_status \<Rightarrow> bool"
    by (auto simp: enum_all_run_status_def) (metis run_status.exhaust)
  show "enum_class.enum_ex P \<longleftrightarrow> Bex UNIV P" for P :: "run_status \<Rightarrow> bool"
    by (auto simp: enum_ex_run_status_def) (metis run_status.exhaust)
qed
end

text \<open>The text of a kind, an operation and a phase, and the reading of a phase from its text.\<close>

fun kind_text :: "kind \<Rightarrow> string" where
  "kind_text KindFilesystem = ''filesystem''"
| "kind_text KindPostgreSQL = ''postgresql''"
| "kind_text KindMySQL = ''mysql''"
| "kind_text KindMongoDB = ''mongodb''"
| "kind_text KindSQLite = ''sqlite''"
| "kind_text (KindOther s) = s"

fun op_text :: "operation \<Rightarrow> string" where
  "op_text OpBackup = ''backup''"
| "op_text OpRestore = ''restore''"
| "op_text OpRestoreDryRun = ''restore_dry_run''"
| "op_text OpCheck = ''check''"
| "op_text OpForget = ''forget''"
| "op_text OpSnapshots = ''snapshots''"
| "op_text OpSnapshotLs = ''snapshot_ls''"
| "op_text OpVerifyRemote = ''verify_storage_remote''"
| "op_text OpValidatePaths = ''validate_paths''"
| "op_text OpProbeCaps = ''probe_capabilities''"

fun phase_text :: "restore_phase \<Rightarrow> string" where
  "phase_text RestorePhaseQueued = ''queued''"
| "phase_text RestorePhaseRunning = ''running''"
| "phase_text RestorePhasePreBackup = ''pre_backup''"
| "phase_text RestorePhaseRestoring = ''restoring''"
| "phase_text RestorePhaseRollingBack = ''rolling_back''"
| "phase_text RestorePhaseCancelling = ''cancelling''"
| "phase_text RestorePhaseSucceeded = ''succeeded''"
| "phase_text RestorePhaseFailed = ''failed''"
| "phase_text RestorePhasePreBackupFailed = ''pre_backup_failed''"
| "phase_text RestorePhaseRolledBack = ''rolled_back''"
| "phase_text RestorePhaseNewTargetCleaned = ''new_target_cleaned''"
| "phase_text RestorePhaseRollbackFailed = ''rollback_failed''"
| "phase_text RestorePhaseManualRecoveryNeeded = ''manual_recovery_required''"
| "phase_text RestorePhaseManualRecoveryDone = ''manual_recovery_resolved''"
| "phase_text (RestorePhaseOther s) = s"

definition known_phases :: "restore_phase list" where
  "known_phases =
     [RestorePhaseQueued, RestorePhaseRunning, RestorePhasePreBackup, RestorePhaseRestoring,
      RestorePhaseRollingBack, RestorePhaseCancelling, RestorePhaseSucceeded, RestorePhaseFailed,
      RestorePhasePreBackupFailed, RestorePhaseRolledBack, RestorePhaseNewTargetCleaned,
      RestorePhaseRollbackFailed, RestorePhaseManualRecoveryNeeded, RestorePhaseManualRecoveryDone]"

definition phase_of_text :: "string \<Rightarrow> restore_phase" where
  "phase_of_text s =
     (case List.find (\<lambda>p. phase_text p = s) known_phases of None \<Rightarrow> RestorePhaseOther s | Some p \<Rightarrow> p)"

lemma phase_text_of_text: "phase_text (phase_of_text s) = s"
  by (auto simp: phase_of_text_def find_Some_iff split: option.splits)

lemma phase_of_text_known: "list_all (\<lambda>p. phase_of_text (phase_text p) = p) known_phases"
  by code_simp

lemma phase_of_text_of_text: "p \<in> set known_phases \<Longrightarrow> phase_of_text (phase_text p) = p"
  using phase_of_text_known by (simp add: list_all_iff)

lemma op_text_inj: "op_text a = op_text b \<Longrightarrow> a = b"
  by (cases a; cases b) auto

lemma op_text_no_nul: "CHR 0x00 \<notin> set (op_text a)"
  by (cases a) auto

section \<open>Run states\<close>

definition isTerminal :: "run_status \<Rightarrow> bool" where
  "isTerminal s \<longleftrightarrow> s = RunSucceeded \<or> s = RunFailed \<or> s = RunCancelled"

lemma isTerminal_simps [simp]:
  "isTerminal RunSucceeded" "isTerminal RunFailed" "isTerminal RunCancelled"
  "\<not> isTerminal RunQueued" "\<not> isTerminal RunDispatched" "\<not> isTerminal RunRunning"
  by (auto simp: isTerminal_def)

lemma not_isTerminal: "\<not> isTerminal s \<longleftrightarrow> s \<in> {RunQueued, RunDispatched, RunRunning}"
  by (cases s) auto

section \<open>Restore phases\<close>

definition RestorePhaseReleasesOccupancy :: "restore_phase \<Rightarrow> bool" where
  "RestorePhaseReleasesOccupancy phase =
     (case phase of
        RestorePhaseSucceeded \<Rightarrow> True | RestorePhaseFailed \<Rightarrow> True
      | RestorePhasePreBackupFailed \<Rightarrow> True | RestorePhaseRolledBack \<Rightarrow> True
      | RestorePhaseNewTargetCleaned \<Rightarrow> True | RestorePhaseManualRecoveryDone \<Rightarrow> True
      | _ \<Rightarrow> False)"

definition RestoreSafePhases :: "restore_phase list" where
  "RestoreSafePhases =
     [RestorePhaseSucceeded, RestorePhaseFailed, RestorePhasePreBackupFailed,
      RestorePhaseRolledBack, RestorePhaseNewTargetCleaned, RestorePhaseManualRecoveryDone]"

definition RestorePhaseNeedsManualResolution :: "restore_phase \<Rightarrow> bool" where
  "RestorePhaseNeedsManualResolution phase \<longleftrightarrow>
     phase = RestorePhaseManualRecoveryNeeded \<or> phase = RestorePhaseRollbackFailed"

definition RestorePhaseIsTerminal :: "restore_phase \<Rightarrow> bool" where
  "RestorePhaseIsTerminal phase \<longleftrightarrow>
     RestorePhaseReleasesOccupancy phase \<or>
     phase = RestorePhaseRollbackFailed \<or> phase = RestorePhaseManualRecoveryNeeded"

lemma safe_phases_agree: "p \<in> set RestoreSafePhases \<longleftrightarrow> RestorePhaseReleasesOccupancy p"
  by (cases p) (auto simp: RestoreSafePhases_def RestorePhaseReleasesOccupancy_def)

lemma terminal_phase_cases:
  "RestorePhaseIsTerminal p \<longleftrightarrow> RestorePhaseReleasesOccupancy p \<or> RestorePhaseNeedsManualResolution p"
  by (auto simp: RestorePhaseIsTerminal_def RestorePhaseNeedsManualResolution_def)

lemma needs_resolution_occupies:
  "RestorePhaseNeedsManualResolution p \<Longrightarrow> \<not> RestorePhaseReleasesOccupancy p"
  by (auto simp: RestorePhaseNeedsManualResolution_def RestorePhaseReleasesOccupancy_def)

section \<open>System databases and extra arguments\<close>

definition SystemDatabases :: "kind \<Rightarrow> string list" where
  "SystemDatabases k =
     (case k of
        KindMySQL \<Rightarrow> [''mysql'', ''information_schema'', ''performance_schema'', ''sys'']
      | KindPostgreSQL \<Rightarrow> [''postgres'', ''template0'', ''template1'']
      | KindMongoDB \<Rightarrow> [''admin'', ''local'', ''config'']
      | _ \<Rightarrow> [])"

definition IsSystemDatabase :: "kind \<Rightarrow> string \<Rightarrow> bool" where
  "IsSystemDatabase k name =
     (let list = SystemDatabases k in
      if list = [] then False
      else (if k = KindMySQL then ToLower name else name) \<in> set list)"

definition AllowedExtraArgs :: "kind \<Rightarrow> string list" where
  "AllowedExtraArgs k =
     (case k of
        KindPostgreSQL \<Rightarrow> [''--no-owner'', ''--no-privileges'', ''--no-acl'', ''--blobs'',
          ''--no-comments'', ''--no-publications'', ''--no-subscriptions'',
          ''--no-security-labels'', ''--inserts'']
      | KindMySQL \<Rightarrow> [''--single-transaction'', ''--quick'', ''--routines'', ''--skip-routines'',
          ''--events'', ''--skip-events'', ''--triggers'', ''--skip-triggers'', ''--hex-blob'',
          ''--skip-lock-tables'']
      | _ \<Rightarrow> [])"

definition AllowedExtraArgPrefixes :: "kind \<Rightarrow> string list" where
  "AllowedExtraArgPrefixes k =
     (if k = KindMySQL then [''--tables='', ''--ignore-table=''] else [])"

text \<open>\<open>Inl a\<close> is the error "extra_args contains disallowed option" for the option \<open>a\<close>.\<close>

fun ValidateExtraArgs :: "kind \<Rightarrow> string list \<Rightarrow> string + unit" where
  "ValidateExtraArgs k [] = Inr ()"
| "ValidateExtraArgs k (arg # args) =
     (if TrimSpace arg = [] then Inl arg
      else if arg \<in> set (AllowedExtraArgs k) then ValidateExtraArgs k args
      else if list_ex (\<lambda>p. HasPrefix arg p \<and> length p < length arg) (AllowedExtraArgPrefixes k)
      then ValidateExtraArgs k args
      else Inl arg)"

text \<open>Mapping of restic exit codes to stable error codes; the empty code means no mapping.\<close>

definition MapResticExitCode :: "int \<Rightarrow> string" where
  "MapResticExitCode code =
     (if code = 3 then ''partial_source_read''
      else if code = 10 then ''repository_missing''
      else if code = 11 then ''repository_locked''
      else if code = 12 then ''wrong_repository_password''
      else if code = 130 then ''cancelled''
      else [])"

section \<open>Rows\<close>

record admin =
  adm_id :: string
  adm_username :: string
  adm_password_hash :: string
  adm_created_at :: instant
  adm_last_login_at :: "instant option"

record session =
  ses_id_hash :: string
  ses_admin_id :: string
  ses_expires_at :: instant
  ses_created_at :: instant
  ses_last_seen_at :: instant

record enrollment_token =
  tok_id :: string
  tok_hash :: string
  tok_expires_at :: instant
  tok_used_at :: "instant option"
  tok_target_agent_id :: string

record tool_info =
  tool_name :: string
  tool_path :: string
  tool_version :: string

record path_mapping =
  map_host_path :: string
  map_runtime_path :: string
  map_read_only :: bool

record agent =
  agt_id :: string
  agt_name :: string
  agt_hostname :: string
  agt_os :: string
  agt_arch :: string
  agt_version :: string
  agt_status :: agent_status
  agt_last_seen_at :: "instant option"
  agt_enrolled_at :: instant
  agt_token_hash :: string
  agt_capabilities :: "tool_info list"
  agt_source_mappings :: "path_mapping list"
  agt_restore_mappings :: "path_mapping list"
  agt_safe_database_restore :: bool
  agt_revoked :: bool

record storage_target =
  tgt_id :: string
  tgt_name :: string
  tgt_type :: string
  tgt_remote_name :: string
  tgt_remote_path :: string
  tgt_encrypted_config :: string
  tgt_created_at :: instant
  tgt_updated_at :: instant

record repository =
  repo_id :: string
  repo_agent_id :: string
  repo_storage_target_id :: string
  repo_path :: string
  repo_encrypted_password :: string
  repo_status :: repo_status
  repo_last_check_at :: "instant option"
  repo_detached_at :: "instant option"
  repo_created_at :: instant
  repo_updated_at :: instant

record retention =
  keep_last :: int
  keep_daily :: int
  keep_weekly :: int
  keep_monthly :: int

record plan_source =
  src_paths :: "string list"
  src_excludes :: "string list"
  src_one_file_system :: bool
  src_host :: string
  src_port :: int
  src_username :: string
  src_database :: string
  src_auth_source :: string
  src_extra_args :: "string list"
  src_estimated_dump_bytes :: int
  src_capture_oplog :: bool
  src_path :: string

record plan =
  plan_id :: string
  plan_name :: string
  plan_agent_id :: string
  plan_kind :: kind
  plan_schedule :: string
  plan_timezone :: string
  plan_enabled :: bool
  plan_source_of :: plan_source
  plan_repository_id :: string
  plan_retention :: retention
  plan_timeout_seconds :: int
  plan_created_at :: instant
  plan_updated_at :: instant

record run =
  run_id :: string
  run_plan_id :: string
  run_agent_id :: string
  run_operation :: operation
  run_status :: run_status
  run_queued_at :: instant
  run_started_at :: "instant option"
  run_finished_at :: "instant option"
  run_progress :: json
  run_snapshot_id :: string
  run_error_code :: string
  run_error_message :: string
  run_repository_id :: string
  run_attempt :: int
  run_lease_expires_at :: "instant option"
  run_scheduled_at :: "instant option"
  run_dedup_key :: string

record run_log =
  rlog_id :: int
  rlog_source :: log_source
  rlog_source_seq :: "64 word"
  rlog_run_id :: string
  rlog_timestamp :: instant
  rlog_level :: string
  rlog_message :: string

record system_log =
  slog_id :: int
  slog_agent_id :: string
  slog_source_seq :: "64 word"
  slog_timestamp :: instant
  slog_type :: string
  slog_level :: string
  slog_message :: string

record restore_target =
  rt_target_path :: string
  rt_include_paths :: "string list"
  rt_overwrite_mode :: string
  rt_host :: string
  rt_port :: int
  rt_username :: string
  rt_database :: string
  rt_auth_source :: string

record restore_request =
  rr_id :: string
  rr_run_id :: string
  rr_snapshot_id :: string
  rr_kind :: kind
  rr_target_json :: json
  rr_overwrite :: bool
  rr_confirmation_hash :: string
  rr_pre_restore_run_id :: string
  rr_rollback_snapshot_id :: string
  rr_phase :: restore_phase
  rr_created_at :: instant

record audit_event =
  aud_id :: string
  aud_occurred_at :: instant
  aud_actor_type :: string
  aud_actor_id :: string
  aud_action :: string
  aud_resource_type :: string
  aud_resource_id :: string
  aud_detail :: json

record snapshot =
  snap_id :: string
  snap_time :: string
  snap_host :: string
  snap_tags :: "string list"
  snap_paths :: "string list"

record snapshot_deletion =
  del_id :: string
  del_repository_id :: string
  del_agent_id :: string
  del_snapshot_id :: string
  del_source :: deletion_source
  del_state :: deletion_state
  del_first_seen_at :: instant
  del_last_seen_at :: instant
  del_seen_count :: int
  del_next_attempt_at :: "instant option"
  del_attempt :: int
  del_run_id :: string
  del_lease_expires_at :: "instant option"
  del_error_code :: string
  del_error_message :: string
  del_requested_by :: string
  del_created_at :: instant
  del_updated_at :: instant
  del_completed_at :: "instant option"

record cleanup_state =
  cln_repository_id :: string
  cln_scan_run_id :: string
  cln_last_scan_started_at :: "instant option"
  cln_last_scan_completed_at :: "instant option"
  cln_next_attempt_at :: "instant option"
  cln_updated_at :: instant

end
