(* ===== verification/Paths.thy ===== *)
theory Paths
  imports Go_Strings "HOL-Library.Sublist"
begin

text \<open>
  Slash-separated paths: Go's \<open>path.Clean\<close>, the key under which a directory listing is cached
  (\<open>NormalizeSnapshotPath\<close> in \<open>store/store.go\<close>), the overlap of two restore targets
  (\<open>filesystemTargetsOverlap\<close> in \<open>store/sqlite.go\<close>), and what these guarantee.
\<close>

section \<open>Lexical cleaning\<close>

text \<open>The components kept so far are held in reverse.\<close>

fun clean_parts :: "bool \<Rightarrow> string list \<Rightarrow> string list \<Rightarrow> string list" where
  "clean_parts rooted acc [] = rev acc"
| "clean_parts rooted acc (c # cs) =
     (if c = [] \<or> c = ''.'' then clean_parts rooted acc cs
      else if c = ''..'' then
        (case acc of
           [] \<Rightarrow> clean_parts rooted (if rooted then [] else [''..'']) cs
         | p # ps \<Rightarrow> if p = ''..'' then clean_parts rooted (''..'' # acc) cs
                     else clean_parts rooted ps cs)
      else clean_parts rooted (c # acc) cs)"

definition Clean :: "string \<Rightarrow> string" where
  "Clean p =
     (let rooted = HasPrefix p ''/'';
          out = JoinWith ''/'' (clean_parts rooted [] (SplitChar CHR ''/'' p))
      in if rooted then CHR ''/'' # out else if out = [] then ''.'' else out)"

abbreviation IsAbs :: "string \<Rightarrow> bool" where
  "IsAbs p \<equiv> HasPrefix p ''/''"

text \<open>\<open>Dir\<close> and \<open>Base\<close> of \<open>path\<close> and, on Linux, of \<open>path/filepath\<close>.\<close>

definition Dir :: "string \<Rightarrow> string" where
  "Dir p = Clean (JoinWith ''/'' (butlast (SplitChar CHR ''/'' p) @ [[]]))"

definition Base :: "string \<Rightarrow> string" where
  "Base p =
     (if p = [] then ''.''
      else let q = rev (dropWhile (\<lambda>c. c = CHR ''/'') (rev p)) in
           if q = [] then ''/'' else last (SplitChar CHR ''/'' q))"

text \<open>What a component list looks like once it is clean.\<close>

definition plain_part :: "string \<Rightarrow> bool" where
  "plain_part c \<longleftrightarrow> c \<noteq> [] \<and> c \<noteq> ''.'' \<and> CHR ''/'' \<notin> set c"

fun clean_shape :: "bool \<Rightarrow> string list \<Rightarrow> bool" where
  "clean_shape rooted [] = True"
| "clean_shape rooted (c # cs) =
     (plain_part c \<and>
      (if c = ''..'' then \<not> rooted \<and> clean_shape rooted cs else ''..'' \<notin> set cs \<and> list_all plain_part cs))"

lemma clean_shape_plain: "clean_shape rooted cs \<Longrightarrow> list_all plain_part cs"
  by (induction rooted cs rule: clean_shape.induct) (auto split: if_splits)

lemma clean_shape_snoc:
  "clean_shape r (cs @ [c]) \<longleftrightarrow>
     clean_shape r cs \<and> plain_part c \<and>
     (c = ''..'' \<longrightarrow> \<not> r \<and> set cs \<subseteq> {''..''})"
  by (induction r cs rule: clean_shape.induct) auto

lemma clean_parts_shape:
  assumes "clean_shape rooted (rev acc)" and "\<forall>c\<in>set cs. CHR ''/'' \<notin> set c"
  shows "clean_shape rooted (clean_parts rooted acc cs)"
  using assms
proof (induction rooted acc cs rule: clean_parts.induct)
  case (1 rooted acc)
  then show ?case by simp
next
  case (2 rooted acc c cs)
  show ?case
  proof (cases "c = [] \<or> c = ''.''")
    case True
    with 2 show ?thesis by auto
  next
    case plain: False
    show ?thesis
    proof (cases "c = ''..''")
      case False
      with plain 2 show ?thesis by (auto simp: clean_shape_snoc plain_part_def)
    next
      case dots: True
      show ?thesis
      proof (cases acc)
        case Nil
        with dots 2 show ?thesis by (auto simp: plain_part_def)
      next
        case (Cons p ps)
        show ?thesis
        proof (cases "p = ''..''")
          case True
          from 2 Cons True have shape: "clean_shape rooted (rev acc)" and "\<not> rooted" "set acc \<subseteq> {''..''}"
            by (auto simp: clean_shape_snoc)
          then have "clean_shape rooted (rev acc @ [c])"
            unfolding clean_shape_snoc using dots by (auto simp: plain_part_def)
          with Cons dots True 2 show ?thesis by simp
        next
          case False
          with Cons dots 2 show ?thesis by (auto simp: clean_shape_snoc)
        qed
      qed
    qed
  qed
qed

lemma clean_parts_fixed:
  assumes "clean_shape rooted (rev acc @ cs)"
  shows "clean_parts rooted acc cs = rev acc @ cs"
  using assms
proof (induction cs arbitrary: acc)
  case Nil
  then show ?case by simp
next
  case (Cons c cs)
  have shape: "clean_shape rooted ((rev acc @ [c]) @ cs)" using Cons.prems by simp
  have pre: "clean_shape r xs" if "clean_shape r (xs @ ys)" for r xs ys
    using that by (induction r xs rule: clean_shape.induct) auto
  have here: "clean_shape rooted (rev acc @ [c])" using pre [OF shape] .
  have rest: "clean_parts rooted (c # acc) cs = rev (c # acc) @ cs"
    using Cons.IH [of "c # acc"] Cons.prems by simp
  from here have c: "c \<noteq> []" "c \<noteq> ''.''" and
    dots: "c = ''..'' \<Longrightarrow> \<not> rooted \<and> set acc \<subseteq> {''..''}"
    by (auto simp: clean_shape_snoc plain_part_def)
  show ?case
  proof (cases "c = ''..''")
    case False
    with c rest show ?thesis by simp
  next
    case True
    with dots have "\<not> rooted" "set acc \<subseteq> {''..''}" by auto
    with True rest show ?thesis by (cases acc) auto
  qed
qed

lemma clean_shape_not_dot: "clean_shape r cs \<Longrightarrow> JoinWith ''/'' cs = ''.'' \<Longrightarrow> False"
proof (cases cs)
  case (Cons c ds)
  assume "clean_shape r cs" "JoinWith ''/'' cs = ''.''"
  with Cons show False
    by (cases ds) (auto simp: plain_part_def append_eq_Cons_conv split: if_splits)
qed simp

lemma Join_head:
  "cs \<noteq> [] \<Longrightarrow> hd cs \<noteq> [] \<Longrightarrow> JoinWith sep cs \<noteq> [] \<and> hd (JoinWith sep cs) = hd (hd cs)"
  by (induction sep cs rule: JoinWith.induct) auto

text \<open>The parts of a cleaned path.\<close>

definition parts_of :: "string \<Rightarrow> string list" where
  "parts_of p = clean_parts (HasPrefix p ''/'') [] (SplitChar CHR ''/'' p)"

lemma parts_of_shape: "clean_shape (HasPrefix p ''/'') (parts_of p)"
  unfolding parts_of_def by (rule clean_parts_shape) (auto dest: SplitChar_parts)

lemma clean_parts_skip_empty: "clean_parts r acc ([] # cs) = clean_parts r acc cs"
  by simp

lemma Clean_of_shape:
  assumes "clean_shape r cs"
  defines "q \<equiv> (if r then CHR ''/'' # JoinWith ''/'' cs else if cs = [] then ''.'' else JoinWith ''/'' cs)"
  shows "Clean q = q"
proof (cases cs)
  case Nil
  then show ?thesis by (simp add: q_def Clean_def)
next
  case (Cons c ds)
  from assms(1) have plain: "list_all plain_part cs" by (rule clean_shape_plain)
  then have nosl: "\<forall>w\<in>set cs. CHR ''/'' \<notin> set w" by (auto simp: list_all_iff plain_part_def)
  have split: "SplitChar CHR ''/'' (JoinWith ''/'' cs) = cs"
    using Split_Join [OF _ nosl] Cons by simp
  have c: "c \<noteq> []" "CHR ''/'' \<notin> set c" using plain Cons by (auto simp: plain_part_def)
  have head: "JoinWith ''/'' cs \<noteq> []" "hd (JoinWith ''/'' cs) = hd c"
    using Join_head [of cs "''/''"] Cons c by auto
  show ?thesis
  proof (cases r)
    case True
    have "clean_parts True [] (SplitChar CHR ''/'' q) = cs"
      using clean_parts_fixed [of True "[]" cs] assms(1) True split by (simp add: q_def)
    with True show ?thesis by (simp add: Clean_def q_def Let_def)
  next
    case False
    have q: "q = JoinWith ''/'' cs" using False Cons by (simp add: q_def)
    have "hd q \<noteq> CHR ''/''" using head c q by (metis list.set_sel(1))
    then have "\<not> HasPrefix q ''/''" by (auto simp: HasPrefix_iff)
    moreover have "clean_parts False [] (SplitChar CHR ''/'' q) = cs"
      using clean_parts_fixed [of False "[]" cs] assms(1) False split q by simp
    ultimately show ?thesis using head q by (simp add: Clean_def Let_def)
  qed
qed

lemma Clean_parts:
  "Clean p =
     (if HasPrefix p ''/'' then CHR ''/'' # JoinWith ''/'' (parts_of p)
      else if parts_of p = [] then ''.'' else JoinWith ''/'' (parts_of p))"
proof -
  have "JoinWith ''/'' (parts_of p) = [] \<longleftrightarrow> parts_of p = []"
  proof (cases "parts_of p")
    case (Cons c ds)
    with parts_of_shape [of p] have "c \<noteq> []" by (auto simp: plain_part_def)
    with Cons show ?thesis using Join_head [of "parts_of p" "''/''"] by auto
  qed simp
  then show ?thesis by (cases "HasPrefix p ''/''") (simp_all add: Clean_def parts_of_def Let_def)
qed

lemma Clean_idem [simp]: "Clean (Clean p) = Clean p"
  using Clean_of_shape [OF parts_of_shape [of p]] by (simp add: Clean_parts [of p])

lemma Clean_rooted: "HasPrefix p ''/'' \<Longrightarrow> HasPrefix (Clean p) ''/''"
  by (simp add: Clean_parts)

lemma rooted_no_dotdot:
  assumes "HasPrefix p ''/''"
  shows "''..'' \<notin> set (parts_of p)"
  using parts_of_shape [of p] assms by (cases "parts_of p") (auto split: if_splits)

section \<open>Cache keys of directories\<close>

definition replace_backslash :: "string \<Rightarrow> string" where
  "replace_backslash s = map (\<lambda>c. if c = CHR 0x5C then CHR ''/'' else c) s"

definition NormalizeSnapshotPath :: "string \<Rightarrow> string" where
  "NormalizeSnapshotPath raw =
     (let p = replace_backslash (TrimSpace raw) in
      if p = [] \<or> p = ''.'' \<or> p = ''/'' then ''/''
      else let p' = (if HasPrefix p ''/'' then p else CHR ''/'' # p); q = Clean p' in
           if q = ''.'' \<or> q = [] then ''/'' else q)"

lemma Normalize_cases:
  obtains "NormalizeSnapshotPath raw = ''/''"
  | q where "NormalizeSnapshotPath raw = Clean q" "HasPrefix q ''/''"
proof (cases "replace_backslash (TrimSpace raw) \<in> {[], ''.'', ''/''}")
  case True
  then show ?thesis using that(1) by (auto simp: NormalizeSnapshotPath_def Let_def)
next
  case False
  define p where "p = replace_backslash (TrimSpace raw)"
  define q where "q = (if HasPrefix p ''/'' then p else CHR ''/'' # p)"
  have r: "HasPrefix q ''/''" by (simp add: q_def)
  then have "HasPrefix (Clean q) ''/''" by (rule Clean_rooted)
  then have "Clean q \<noteq> []" "Clean q \<noteq> ''.''" by auto
  with False have "NormalizeSnapshotPath raw = Clean q"
    by (simp add: NormalizeSnapshotPath_def Let_def p_def [symmetric] q_def [symmetric])
  with r that(2) show ?thesis by blast
qed

lemma Clean_root [simp]: "Clean ''/'' = ''/''"
  by (simp add: Clean_def)

lemma Normalize_clean: "Clean (NormalizeSnapshotPath raw) = NormalizeSnapshotPath raw"
  by (cases rule: Normalize_cases [of raw]) simp_all

lemma Normalize_rooted: "HasPrefix (NormalizeSnapshotPath raw) ''/''"
  by (cases rule: Normalize_cases [of raw]) (simp_all add: Clean_rooted)

lemma Normalize_no_dotdot: "''..'' \<notin> set (parts_of (NormalizeSnapshotPath raw))"
  by (rule rooted_no_dotdot) (rule Normalize_rooted)

section \<open>Overlapping restore targets\<close>

definition filesystemTargetsOverlap :: "string \<Rightarrow> string \<Rightarrow> bool" where
  "filesystemTargetsOverlap a0 b0 =
     (let a = TrimSuffix (Clean a0) ''/''; b = TrimSuffix (Clean b0) ''/'' in
      if a = [] \<or> b = [] then False
      else if a = b then True
      else HasPrefix a (b @ ''/'') \<or> HasPrefix b (a @ ''/''))"

lemma overlap_sym: "filesystemTargetsOverlap a b = filesystemTargetsOverlap b a"
  by (auto simp: filesystemTargetsOverlap_def Let_def)

lemma SplitChar_append_gen: "SplitChar c (s @ c # t) = SplitChar c s @ SplitChar c t"
  by (induction s) (auto split: list.splits)

lemma Join_append:
  "xs \<noteq> [] \<Longrightarrow> ys \<noteq> [] \<Longrightarrow> JoinWith sep (xs @ ys) = JoinWith sep xs @ sep @ JoinWith sep ys"
proof (induction sep xs rule: JoinWith.induct)
  case (2 sep w)
  then show ?case by (cases ys) auto
qed auto

lemma Join_inj:
  assumes "list_all plain_part xs" and "list_all plain_part ys"
    and "JoinWith ''/'' xs = JoinWith ''/'' ys"
  shows "xs = ys"
proof -
  have nil: "JoinWith ''/'' zs = [] \<longleftrightarrow> zs = []" if "list_all plain_part zs" for zs
    using that Join_head [of zs "''/''"] by (cases zs) (auto simp: plain_part_def)
  have split: "SplitChar CHR ''/'' (JoinWith ''/'' zs) = zs" if "list_all plain_part zs" "zs \<noteq> []" for zs
    using that Split_Join [of zs "CHR ''/''"] by (auto simp: list_all_iff plain_part_def)
  show ?thesis
  proof (cases "xs = []")
    case True
    with assms nil show ?thesis by metis
  next
    case False
    with assms nil have "ys \<noteq> []" by metis
    with False assms split show ?thesis by metis
  qed
qed

lemma Join_prefix:
  assumes "list_all plain_part xs" and "list_all plain_part ys" and "ys \<noteq> []"
  shows "HasPrefix (JoinWith ''/'' xs) (JoinWith ''/'' ys @ ''/'') \<longleftrightarrow> strict_prefix ys xs"
proof
  assume "strict_prefix ys xs"
  then obtain z zs where "xs = ys @ z # zs" by (rule strict_prefixE')
  then show "HasPrefix (JoinWith ''/'' xs) (JoinWith ''/'' ys @ ''/'')"
    using assms(3) by (auto simp: Join_append HasPrefix_iff)
next
  assume "HasPrefix (JoinWith ''/'' xs) (JoinWith ''/'' ys @ ''/'')"
  then obtain t where t: "JoinWith ''/'' xs = JoinWith ''/'' ys @ CHR ''/'' # t"
    by (auto simp: HasPrefix_iff)
  then have "xs \<noteq> []" by auto
  then have "xs = SplitChar CHR ''/'' (JoinWith ''/'' xs)"
    using Split_Join [of xs "CHR ''/''"] assms(1) by (auto simp: list_all_iff plain_part_def)
  also have "\<dots> = SplitChar CHR ''/'' (JoinWith ''/'' ys) @ SplitChar CHR ''/'' t"
    unfolding t by (rule SplitChar_append_gen)
  also have "SplitChar CHR ''/'' (JoinWith ''/'' ys) = ys"
    using Split_Join [of ys "CHR ''/''"] assms by (auto simp: list_all_iff plain_part_def)
  finally show "strict_prefix ys xs" by (auto simp: strict_prefix_def)
qed

lemma Join_no_trailing_slash:
  assumes "list_all plain_part xs" and "xs \<noteq> []"
  shows "\<not> HasSuffix (CHR ''/'' # JoinWith ''/'' xs) ''/''"
proof
  assume "HasSuffix (CHR ''/'' # JoinWith ''/'' xs) ''/''"
  then obtain t where t: "CHR ''/'' # JoinWith ''/'' xs = t @ ''/''" by (auto simp: HasSuffix_iff)
  moreover have "JoinWith ''/'' xs \<noteq> []"
    using assms Join_head [of xs "''/''"] by (cases xs) (auto simp: plain_part_def)
  ultimately obtain u where u: "JoinWith ''/'' xs = u @ [CHR ''/'']"
    by (cases t) auto
  have "xs = SplitChar CHR ''/'' (JoinWith ''/'' xs)"
    using Split_Join [of xs "CHR ''/''"] assms by (auto simp: list_all_iff plain_part_def)
  also have "\<dots> = SplitChar CHR ''/'' u @ [[]]"
    unfolding u using SplitChar_append_gen [of "CHR ''/''" u "[]"] by simp
  finally have "xs = SplitChar CHR ''/'' u @ [[]]" .
  then have "[] \<in> set xs" by (metis in_set_conv_decomp)
  with assms(1) show False by (auto simp: list_all_iff plain_part_def)
qed

text \<open>On absolute targets the test compares whole path components, and the root overlaps nothing.\<close>

lemma overlap_parts:
  assumes "HasPrefix a ''/''" and "HasPrefix b ''/''"
  shows "filesystemTargetsOverlap a b \<longleftrightarrow>
           parts_of a \<noteq> [] \<and> parts_of b \<noteq> [] \<and>
           (prefix (parts_of a) (parts_of b) \<or> prefix (parts_of b) (parts_of a))"
proof -
  have trim: "TrimSuffix (Clean p) ''/'' = (if parts_of p = [] then [] else Clean p)"
    if "HasPrefix p ''/''" for p
    using that Join_no_trailing_slash [OF clean_shape_plain [OF parts_of_shape], of p]
    by (auto simp: Clean_parts TrimSuffix_def HasSuffix_def)
  have pa: "list_all plain_part (parts_of a)" and pb: "list_all plain_part (parts_of b)"
    by (rule clean_shape_plain [OF parts_of_shape])+
  show ?thesis
  proof (cases "parts_of a = [] \<or> parts_of b = []")
    case True
    then show ?thesis using assms by (auto simp: filesystemTargetsOverlap_def Let_def trim)
  next
    case False
    have ca: "Clean a = CHR ''/'' # JoinWith ''/'' (parts_of a)"
      and cb: "Clean b = CHR ''/'' # JoinWith ''/'' (parts_of b)" using assms by (simp_all add: Clean_parts)
    have eq: "Clean a = Clean b \<longleftrightarrow> parts_of a = parts_of b"
      unfolding ca cb using Join_inj [OF pa pb] by auto
    have ab: "HasPrefix (Clean a) (Clean b @ ''/'') \<longleftrightarrow> strict_prefix (parts_of b) (parts_of a)"
      and ba: "HasPrefix (Clean b) (Clean a @ ''/'') \<longleftrightarrow> strict_prefix (parts_of a) (parts_of b)"
      unfolding ca cb using Join_prefix [OF pa pb] Join_prefix [OF pb pa] False by simp_all
    have ta: "TrimSuffix (Clean a) ''/'' = Clean a" and tb: "TrimSuffix (Clean b) ''/'' = Clean b"
      using False assms trim by auto
    have ne: "Clean a \<noteq> []" "Clean b \<noteq> []" by (simp_all add: ca cb)
    have "filesystemTargetsOverlap a b \<longleftrightarrow>
      Clean a = Clean b \<or> HasPrefix (Clean a) (Clean b @ ''/'') \<or> HasPrefix (Clean b) (Clean a @ ''/'')"
      unfolding filesystemTargetsOverlap_def Let_def ta tb using ne by argo
    then have "filesystemTargetsOverlap a b \<longleftrightarrow>
      parts_of a = parts_of b \<or> strict_prefix (parts_of b) (parts_of a) \<or> strict_prefix (parts_of a) (parts_of b)"
      unfolding eq ab ba .
    with False show ?thesis by (auto simp: strict_prefix_def)
  qed
qed

end
