(* ===== verification/Store_State.thy ===== *)
theory Store_State
  imports Model Paths
begin

text \<open>
  The control database of the server (\<open>internal/server/store\<close>): its tables, its errors and the
  integrity constraints of the migrations that the operations run into.

  A write transaction is a function from the database to an error or the database after the
  commit; an error means that the transaction was rolled back.  The writes are serialised by the
  store's mutex and by SQLite's single writer, so one operation is one step.  What the driver may
  report beside a violated constraint (a full disk, a lost connection, a busy writer) is not part
  of the model; \<open>ErrSql\<close> is an error that is none of the store's named values.
\<close>

section \<open>Errors\<close>

datatype store_err =
    ErrNotFound | ErrDuplicateRun | ErrInvalidTransition | ErrTokenInvalid | ErrAdminExists
  | ErrInUse | ErrDuplicateStorageTarget | ErrPlanHasSnapshots | ErrCacheGenerationChanged
  | ErrDatabaseRestoreBusy | ErrRestoreConflict | ErrRestoreTargetBusy | ErrSql string

text \<open>\<open>and_then x f\<close> is "return the error of \<open>x\<close>, otherwise go on with its value".\<close>

fun and_then :: "'e + 'a \<Rightarrow> ('a \<Rightarrow> 'e + 'b) \<Rightarrow> 'e + 'b" where
  "and_then (Inl e) f = Inl e"
| "and_then (Inr x) f = f x"

lemma and_then_Inr: "and_then x f = Inr z \<longleftrightarrow> (\<exists>y. x = Inr y \<and> f y = Inr z)"
  by (cases x) auto

lemma and_then_Inl: "and_then x f = Inl e \<longleftrightarrow> x = Inl e \<or> (\<exists>y. x = Inr y \<and> f y = Inl e)"
  by (cases x) auto

section \<open>Rows that only the store knows\<close>

record cache_state =
  cst_repository_id :: string
  cst_generation :: int
  cst_list_verified_at :: "instant option"
  cst_list_fingerprint :: string
  cst_updated_at :: instant

record list_cache =
  lc_repository_id :: string
  lc_generation :: int
  lc_snapshots :: json
  lc_fingerprint :: string
  lc_verified_at :: instant

record tree_cache =
  tc_repository_id :: string
  tc_snapshot_id :: string
  tc_path :: string
  tc_generation :: int
  tc_tree :: json
  tc_verified_at :: instant

record run_secret =
  rsec_run_id :: string
  rsec_target_password :: string
  rsec_rclone_config :: string
  rsec_created_at :: instant

record telegram_row =
  tg_encrypted_token :: string
  tg_chat_id :: string
  tg_updated_at :: instant

section \<open>The database\<close>

record db =
  db_admins :: "admin list"
  db_sessions :: "session list"
  db_tokens :: "enrollment_token list"
  db_agents :: "agent list"
  db_telegram :: "telegram_row option"
  db_targets :: "storage_target list"
  db_repos :: "repository list"
  db_plans :: "plan list"
  db_plan_secrets :: "(string \<times> string) list"
  db_cursors :: "(string \<times> instant) list"
  db_runs :: "run list"
  db_run_secrets :: "run_secret list"
  db_run_logs :: "run_log list"
  db_run_log_seq :: int
  db_restores :: "restore_request list"
  db_audits :: "audit_event list"
  db_server_logs :: "system_log list"
  db_server_log_seq :: int
  db_agent_logs :: "system_log list"
  db_agent_log_seq :: int
  db_cache_states :: "cache_state list"
  db_list_cache :: "list_cache list"
  db_tree_cache :: "tree_cache list"
  db_deletions :: "snapshot_deletion list"
  db_cleanup :: "cleanup_state list"
  db_observed :: "run list"

definition empty_db :: db where
  "empty_db =
     \<lparr>db_admins = [], db_sessions = [], db_tokens = [], db_agents = [], db_telegram = None,
      db_targets = [], db_repos = [], db_plans = [], db_plan_secrets = [], db_cursors = [],
      db_runs = [], db_run_secrets = [], db_run_logs = [], db_run_log_seq = 0, db_restores = [],
      db_audits = [], db_server_logs = [], db_server_log_seq = 0, db_agent_logs = [],
      db_agent_log_seq = 0, db_cache_states = [], db_list_cache = [], db_tree_cache = [],
      db_deletions = [], db_cleanup = [], db_observed = []\<rparr>"

section \<open>Runs: constraints of the table\<close>

text \<open>A run as the columns hold it: instants at the resolution of a second.\<close>

definition run_row :: "run \<Rightarrow> run" where
  "run_row r = r\<lparr>run_queued_at := sec (run_queued_at r),
                 run_started_at := map_option sec (run_started_at r),
                 run_finished_at := map_option sec (run_finished_at r),
                 run_lease_expires_at := map_option sec (run_lease_expires_at r),
                 run_scheduled_at := map_option sec (run_scheduled_at r)\<rparr>"

definition active_status :: "run_status \<Rightarrow> bool" where
  "active_status s \<longleftrightarrow> s \<in> {RunQueued, RunDispatched, RunRunning}"

text \<open>The key of \<open>idx_runs_active_dedup\<close> and the slot of \<open>UNIQUE (plan_id, scheduled_at)\<close>.\<close>

definition holds_key :: "run \<Rightarrow> bool" where
  "holds_key r \<longleftrightarrow> run_dedup_key r \<noteq> [] \<and> active_status (run_status r)"

definition holds_slot :: "run \<Rightarrow> bool" where
  "holds_slot r \<longleftrightarrow> run_plan_id r \<noteq> [] \<and> run_scheduled_at r \<noteq> None"

definition run_slot :: "run \<Rightarrow> string \<times> instant option" where
  "run_slot r = (run_plan_id r, run_scheduled_at r)"

definition run_conflict :: "run list \<Rightarrow> run \<Rightarrow> bool" where
  "run_conflict rs r \<longleftrightarrow>
     list_ex (\<lambda>x. run_id x = run_id r) rs \<or>
     (holds_slot r \<and> list_ex (\<lambda>x. holds_slot x \<and> run_slot x = run_slot r) rs) \<or>
     (holds_key r \<and> list_ex (\<lambda>x. holds_key x \<and> run_dedup_key x = run_dedup_key r) rs)"

definition runs_ok :: "run list \<Rightarrow> bool" where
  "runs_ok rs \<longleftrightarrow>
     distinct (map run_id rs) \<and>
     distinct (map run_slot (filter holds_slot rs)) \<and>
     distinct (map run_dedup_key (filter holds_key rs))"

lemma active_terminal: "active_status s \<longleftrightarrow> \<not> isTerminal s"
  by (cases s) (auto simp: active_status_def)

lemma runs_ok_Nil [simp]: "runs_ok []"
  by (simp add: runs_ok_def)

lemma runs_ok_snoc:
  assumes "runs_ok rs" and "\<not> run_conflict rs r"
  shows "runs_ok (rs @ [r])"
  using assms unfolding runs_ok_def run_conflict_def list_ex_iff by auto

lemma distinct_filter_sub:
  "distinct (map k (filter Q xs)) \<Longrightarrow> distinct (map k (filter Q (filter S xs)))"
  using distinct_map_filter [of k "filter Q xs" S] by (simp add: conj_commute)

lemma runs_ok_delete: "runs_ok rs \<Longrightarrow> runs_ok (tbl_delete P rs)"
  unfolding runs_ok_def tbl_delete_def
  by (blast intro: distinct_filter_sub distinct_map_filter)

text \<open>An update that keeps identities, slots and keys and makes no finished run active again.\<close>

definition keeps_run :: "(run \<Rightarrow> bool) \<Rightarrow> (run \<Rightarrow> run) \<Rightarrow> bool" where
  "keeps_run P f \<longleftrightarrow>
     (\<forall>r. P r \<longrightarrow> run_id (f r) = run_id r \<and> run_plan_id (f r) = run_plan_id r \<and>
          run_scheduled_at (f r) = run_scheduled_at r \<and> run_dedup_key (f r) = run_dedup_key r \<and>
          (isTerminal (run_status r) \<longrightarrow> isTerminal (run_status (f r))))"

lemma filter_map_sub:
  assumes "\<forall>x\<in>set xs. Q (f x) \<longrightarrow> Q x \<and> k (f x) = k x" and "distinct (map k (filter Q xs))"
  shows "distinct (map k (filter Q (map f xs)))"
  using assms
proof (induction xs)
  case Nil
  then show ?case by simp
next
  case (Cons x xs)
  have "k ` {y \<in> f ` set xs. Q y} \<subseteq> k ` {y \<in> set xs. Q y}"
    using Cons.prems(1) by auto
  with Cons show ?case by (auto split: if_splits)
qed

lemma runs_ok_update:
  assumes "runs_ok rs" and "keeps_run P f"
  shows "runs_ok (tbl_update P f rs)"
proof -
  let ?g = "\<lambda>x. if P x then f x else x"
  have "map run_id (map ?g rs) = map run_id rs"
    using assms(2) by (auto simp: keeps_run_def)
  moreover have "distinct (map run_slot (filter holds_slot (map ?g rs)))"
    using assms by (intro filter_map_sub) (auto simp: runs_ok_def keeps_run_def holds_slot_def run_slot_def)
  moreover have "distinct (map run_dedup_key (filter holds_key (map ?g rs)))"
    using assms by (intro filter_map_sub)
      (auto simp: runs_ok_def keeps_run_def holds_key_def active_terminal)
  ultimately show ?thesis
    using assms(1) by (simp only: runs_ok_def tbl_update_def)
qed

lemma runs_ok_id_unique:
  assumes "runs_ok rs" and "a \<in> set rs" and "b \<in> set rs" and "run_id a = run_id b"
  shows "a = b"
  using assms by (auto simp: runs_ok_def distinct_map dest: inj_onD)

lemma runs_ok_get:
  assumes "runs_ok rs" and "r \<in> set rs"
  shows "tbl_get (\<lambda>x. run_id x = run_id r) rs = Some r"
  using assms by (intro tbl_get_unique) (auto simp: runs_ok_def)

section \<open>JSON columns\<close>

text \<open>The struct with the single field \<open>target_path\<close>, as \<open>filesystemTargetBusy\<close> decodes it.\<close>

definition decode_target_path :: "json \<Rightarrow> string option" where
  "decode_target_path j =
     (case j of JObj ms \<Rightarrow> field_string ''target_path'' ms | JNull \<Rightarrow> Some [] | _ \<Rightarrow> None)"

text \<open>\<open>json.Unmarshal\<close> into a \<open>RestoreTarget\<close>.  The caller ignores the error: a member of the
  wrong type leaves the zero value in its field (or list element) and decoding goes on.\<close>

definition or_zero :: "'a \<Rightarrow> 'a option \<Rightarrow> 'a" where
  "or_zero z v = (case v of Some x \<Rightarrow> x | None \<Rightarrow> z)"

definition lax_strings :: "string \<Rightarrow> (string \<times> json) list \<Rightarrow> string list" where
  "lax_strings k ms =
     (case obj_get k ms of
        Some (JList js) \<Rightarrow> map (\<lambda>j. or_zero [] (decode_string j)) js | _ \<Rightarrow> [])"

definition decode_target :: "json \<Rightarrow> restore_target" where
  "decode_target j =
     (let ms = (case j of JObj ms \<Rightarrow> ms | _ \<Rightarrow> []); str = (\<lambda>k. or_zero [] (field_string k ms)) in
      \<lparr>rt_target_path = str ''target_path'', rt_include_paths = lax_strings ''include_paths'' ms,
       rt_overwrite_mode = str ''overwrite_mode'', rt_host = str ''host'',
       rt_port = or_zero 0 (field_int ''port'' ms), rt_username = str ''username'',
       rt_database = str ''database'', rt_auth_source = str ''auth_source''\<rparr>)"

definition omitempty :: "string \<Rightarrow> string \<Rightarrow> (string \<times> json) list" where
  "omitempty k v = (if v = [] then [] else [(k, JStr v)])"

definition target_json :: "restore_target \<Rightarrow> json" where
  "target_json t =
     JObj (omitempty ''target_path'' (rt_target_path t) @
           (if rt_include_paths t = [] then [] else [(''include_paths'', JList (map JStr (rt_include_paths t)))]) @
           omitempty ''overwrite_mode'' (rt_overwrite_mode t) @
           omitempty ''host'' (rt_host t) @
           (if rt_port t = 0 then [] else [(''port'', JNum (rt_port t))]) @
           omitempty ''username'' (rt_username t) @
           omitempty ''database'' (rt_database t) @
           omitempty ''auth_source'' (rt_auth_source t))"

definition snapshot_json :: "snapshot \<Rightarrow> json" where
  "snapshot_json s =
     JObj [(''id'', JStr (snap_id s)), (''time'', JStr (snap_time s)), (''host'', JStr (snap_host s)),
           (''tags'', JList (map JStr (snap_tags s))), (''paths'', JList (map JStr (snap_paths s)))]"

definition decode_snapshot :: "json \<Rightarrow> snapshot option" where
  "decode_snapshot j =
     (case j of
        JObj ms \<Rightarrow>
          (case (field_string ''id'' ms, field_string ''time'' ms, field_string ''host'' ms,
                 field_strings ''tags'' ms, field_strings ''paths'' ms) of
             (Some i, Some t, Some h, Some gs, Some ps) \<Rightarrow>
               Some \<lparr>snap_id = i, snap_time = t, snap_host = h, snap_tags = gs, snap_paths = ps\<rparr>
           | _ \<Rightarrow> None)
      | JNull \<Rightarrow> Some \<lparr>snap_id = [], snap_time = [], snap_host = [], snap_tags = [], snap_paths = []\<rparr>
      | _ \<Rightarrow> None)"

definition decode_snapshots :: "json \<Rightarrow> snapshot list option" where
  "decode_snapshots j =
     (case j of JList js \<Rightarrow> decode_all decode_snapshot js | JNull \<Rightarrow> Some [] | _ \<Rightarrow> None)"

lemma decode_strings_map: "decode_all decode_string (map JStr xs) = Some xs"
  by (induction xs) (auto simp: decode_string_def)

lemma decode_snapshot_json: "decode_snapshot (snapshot_json s) = Some s"
  by (simp add: decode_snapshot_def snapshot_json_def field_string_def field_strings_def obj_get_def
      decode_strings_map)

lemma decode_snapshots_json: "decode_snapshots (JList (map snapshot_json ss)) = Some ss"
  by (simp add: decode_snapshots_def decode_all_map decode_snapshot_json)

section \<open>Sample rows\<close>

text \<open>Concrete rows on which the theorems with hypotheses are instantiated.\<close>

definition sample_run :: "string \<Rightarrow> operation \<Rightarrow> run_status \<Rightarrow> run" where
  "sample_run i oper st =
     \<lparr>run_id = i, run_plan_id = [], run_agent_id = ''a1'', run_operation = oper, run_status = st,
      run_queued_at = 0, run_started_at = None, run_finished_at = None, run_progress = json_braces,
      run_snapshot_id = [], run_error_code = [], run_error_message = [], run_repository_id = ''p1'',
      run_attempt = 0, run_lease_expires_at = None, run_scheduled_at = None, run_dedup_key = []\<rparr>"

definition sample_request :: "string \<Rightarrow> string \<Rightarrow> kind \<Rightarrow> restore_phase \<Rightarrow> restore_request" where
  "sample_request i rid k ph =
     \<lparr>rr_id = i, rr_run_id = rid, rr_snapshot_id = ''s1'', rr_kind = k, rr_target_json = json_braces,
      rr_overwrite = False, rr_confirmation_hash = [], rr_pre_restore_run_id = [],
      rr_rollback_snapshot_id = [], rr_phase = ph, rr_created_at = 0\<rparr>"

definition sample_cache :: cache_state where
  "sample_cache = \<lparr>cst_repository_id = ''p1'', cst_generation = 4, cst_list_verified_at = None,
     cst_list_fingerprint = [], cst_updated_at = 0\<rparr>"

lemmas samples = sample_run_def sample_request_def sample_cache_def empty_db_def

lemma sample_run_fields [simp]:
  "run_id (sample_run i oper st) = i" "run_status (sample_run i oper st) = st"
  "run_operation (sample_run i oper st) = oper" "run_dedup_key (sample_run i oper st) = []"
  "run_plan_id (sample_run i oper st) = []" "run_scheduled_at (sample_run i oper st) = None"
  "run_repository_id (sample_run i oper st) = ''p1''" "run_agent_id (sample_run i oper st) = ''a1''"
  by (simp_all add: sample_run_def)

lemma sample_request_fields [simp]:
  "rr_id (sample_request i rid k ph) = i" "rr_run_id (sample_request i rid k ph) = rid"
  "rr_kind (sample_request i rid k ph) = k" "rr_phase (sample_request i rid k ph) = ph"
  by (simp_all add: sample_request_def)

lemma empty_db_tables [simp]:
  "db_runs empty_db = []" "db_restores empty_db = []" "db_cache_states empty_db = []"
  "db_list_cache empty_db = []" "db_tree_cache empty_db = []" "db_plans empty_db = []"
  "db_observed empty_db = []" "db_audits empty_db = []" "db_deletions empty_db = []"
  "db_cleanup empty_db = []" "db_agents empty_db = []" "db_tokens empty_db = []"
  "db_repos empty_db = []" "db_targets empty_db = []" "db_run_logs empty_db = []"
  "db_sessions empty_db = []" "db_admins empty_db = []" "db_agent_logs empty_db = []"
  "db_server_logs empty_db = []" "db_run_log_seq empty_db = 0" "db_server_log_seq empty_db = 0"
  "db_agent_log_seq empty_db = 0" "db_run_secrets empty_db = []"
  by (simp_all add: empty_db_def)

end
