(* ===== verification/Store_Cache.thy ===== *)
theory Store_Cache
  imports Store_State
begin

text \<open>
  The snapshot caches of a repository (\<open>store/sqlite.go\<close>, "snapshot caches"): the list of
  snapshots and the directory listings, each stamped with the generation it was read at.  Starting
  a backup or a forget raises the generation and clears the mark that the list is verified, so a
  listing that was read before cannot be saved or served as current afterwards.
\<close>

section \<open>Reading\<close>

definition cache_of :: "db \<Rightarrow> string \<Rightarrow> cache_state option" where
  "cache_of d repo = tbl_get (\<lambda>c. cst_repository_id c = repo) (db_cache_states d)"

definition GetSnapshotListCache :: "db \<Rightarrow> string \<Rightarrow> store_err + list_cache" where
  "GetSnapshotListCache d repo =
     (case (tbl_get (\<lambda>l. lc_repository_id l = repo) (db_list_cache d), cache_of d repo) of
        (Some l, Some c) \<Rightarrow>
          if cst_generation c = lc_generation l \<and> cst_list_verified_at c = Some (lc_verified_at l)
          then Inr l else Inl ErrNotFound
      | _ \<Rightarrow> Inl ErrNotFound)"

definition tree_key :: "string \<Rightarrow> string \<Rightarrow> string \<Rightarrow> tree_cache \<Rightarrow> bool" where
  "tree_key repo snap p t \<longleftrightarrow> tc_repository_id t = repo \<and> tc_snapshot_id t = snap \<and> tc_path t = p"

definition GetSnapshotTreeCache :: "db \<Rightarrow> string \<Rightarrow> string \<Rightarrow> string \<Rightarrow> store_err + tree_cache" where
  "GetSnapshotTreeCache d repo snap p =
     (case (tbl_get (tree_key repo snap (NormalizeSnapshotPath p)) (db_tree_cache d), cache_of d repo) of
        (Some t, Some c) \<Rightarrow>
          if cst_generation c = tc_generation t \<and> cst_list_verified_at c \<noteq> None
          then Inr t else Inl ErrNotFound
      | _ \<Rightarrow> Inl ErrNotFound)"

text \<open>The browse variants return the row whatever its age, and whether it is stale.\<close>

definition GetSnapshotListBrowseCache :: "db \<Rightarrow> string \<Rightarrow> store_err + (list_cache \<times> bool)" where
  "GetSnapshotListBrowseCache d repo =
     (case (tbl_get (\<lambda>l. lc_repository_id l = repo) (db_list_cache d), cache_of d repo) of
        (Some l, Some c) \<Rightarrow>
          Inr (l, lc_generation l \<noteq> cst_generation c \<or> cst_list_verified_at c = None \<or>
                  cst_list_verified_at c \<noteq> Some (lc_verified_at l))
      | _ \<Rightarrow> Inl ErrNotFound)"

definition GetSnapshotTreeBrowseCache ::
    "db \<Rightarrow> string \<Rightarrow> string \<Rightarrow> string \<Rightarrow> store_err + (tree_cache \<times> bool)" where
  "GetSnapshotTreeBrowseCache d repo snap p =
     (case (tbl_get (tree_key repo snap (NormalizeSnapshotPath p)) (db_tree_cache d), cache_of d repo) of
        (Some t, Some c) \<Rightarrow> Inr (t, tc_generation t \<noteq> cst_generation c \<or> cst_list_verified_at c = None)
      | _ \<Rightarrow> Inl ErrNotFound)"

definition SnapshotCacheGeneration :: "db \<Rightarrow> string \<Rightarrow> store_err + int" where
  "SnapshotCacheGeneration d repo =
     (case cache_of d repo of None \<Rightarrow> Inl ErrNotFound | Some c \<Rightarrow> Inr (cst_generation c))"

section \<open>Writing\<close>

definition ensureCacheGeneration :: "db \<Rightarrow> string \<Rightarrow> int \<Rightarrow> store_err + unit" where
  "ensureCacheGeneration d repo expected =
     (case cache_of d repo of
        None \<Rightarrow> Inl ErrNotFound
      | Some c \<Rightarrow> if cst_generation c \<noteq> expected then Inl ErrCacheGenerationChanged else Inr ())"

definition put_list_cache :: "list_cache \<Rightarrow> list_cache list \<Rightarrow> list_cache list" where
  "put_list_cache l ls =
     (let key = (\<lambda>x. lc_repository_id x = lc_repository_id l) in
      if list_ex key ls then tbl_update key (\<lambda>_. l) ls else ls @ [l])"

definition put_tree_cache :: "tree_cache \<Rightarrow> tree_cache list \<Rightarrow> tree_cache list" where
  "put_tree_cache t ts =
     (let key = tree_key (tc_repository_id t) (tc_snapshot_id t) (tc_path t) in
      if list_ex key ts then tbl_update key (\<lambda>_. t) ts else ts @ [t])"

definition saveSnapshotListCacheOnce ::
    "string \<Rightarrow> int \<Rightarrow> json \<Rightarrow> string \<Rightarrow> instant \<Rightarrow> db \<Rightarrow> store_err + db" where
  "saveSnapshotListCacheOnce repo gen snaps fingerprint verifiedAt d =
     and_then (ensureCacheGeneration d repo gen) (\<lambda>_.
       let verified = sec verifiedAt;
           lists = put_list_cache \<lparr>lc_repository_id = repo, lc_generation = gen, lc_snapshots = snaps,
                     lc_fingerprint = fingerprint, lc_verified_at = verified\<rparr> (db_list_cache d);
           states = tbl_update (\<lambda>c. cst_repository_id c = repo \<and> cst_generation c = gen)
                     (\<lambda>c. c\<lparr>cst_list_verified_at := Some verified, cst_list_fingerprint := fingerprint,
                            cst_updated_at := verified\<rparr>) (db_cache_states d)
       in case decode_snapshots snaps of
            None \<Rightarrow> Inl (ErrSql ''parse snapshot list cache'')
          | Some ss \<Rightarrow>
              let ids = map snap_id ss;
                  trees = (if ss = [] then tbl_delete (\<lambda>t. tc_repository_id t = repo) (db_tree_cache d)
                           else tbl_delete (\<lambda>t. tc_repository_id t = repo \<and> tc_snapshot_id t \<notin> set ids)
                                  (tbl_update (\<lambda>t. tc_repository_id t = repo \<and> tc_snapshot_id t \<in> set ids)
                                     (\<lambda>t. t\<lparr>tc_generation := gen\<rparr>) (db_tree_cache d)))
              in Inr (d\<lparr>db_list_cache := lists, db_cache_states := states, db_tree_cache := trees\<rparr>))"

text \<open>
  \<open>list_verified_at\<close> is scanned into a Go string, which fails on \<open>NULL\<close>; the comparison with the
  empty string that follows in the code never holds, since the column is never the empty text.
\<close>

definition SaveSnapshotTreeCache ::
    "string \<Rightarrow> string \<Rightarrow> string \<Rightarrow> int \<Rightarrow> json \<Rightarrow> instant \<Rightarrow> db \<Rightarrow> store_err + db" where
  "SaveSnapshotTreeCache repo snap p gen tree verifiedAt d =
     and_then (ensureCacheGeneration d repo gen) (\<lambda>_.
       case cache_of d repo of
         None \<Rightarrow> Inl (ErrSql ''check snapshot list cache'')
       | Some c \<Rightarrow>
           if cst_list_verified_at c = None then Inl (ErrSql ''check snapshot list cache'')
           else Inr (d\<lparr>db_tree_cache := put_tree_cache
                  \<lparr>tc_repository_id = repo, tc_snapshot_id = snap, tc_path = NormalizeSnapshotPath p,
                   tc_generation = gen, tc_tree = tree, tc_verified_at = sec verifiedAt\<rparr> (db_tree_cache d)\<rparr>))"

definition invalidate_state :: "instant \<Rightarrow> cache_state \<Rightarrow> cache_state" where
  "invalidate_state now c =
     c\<lparr>cst_generation := cst_generation c + 1, cst_list_verified_at := None, cst_updated_at := sec now\<rparr>"

definition invalidateSnapshotCacheTx :: "instant \<Rightarrow> string \<Rightarrow> bool \<Rightarrow> db \<Rightarrow> store_err + db" where
  "invalidateSnapshotCacheTx now repo clearTrees d =
     (let key = (\<lambda>c. cst_repository_id c = repo) in
      if tbl_count key (db_cache_states d) = 0 then Inl ErrNotFound
      else Inr (d\<lparr>db_cache_states := tbl_update key (invalidate_state now) (db_cache_states d),
                  db_tree_cache := (if clearTrees then tbl_delete (\<lambda>t. tc_repository_id t = repo) (db_tree_cache d)
                                    else db_tree_cache d)\<rparr>))"

definition InvalidateSnapshotCache :: "instant \<Rightarrow> string \<Rightarrow> bool \<Rightarrow> db \<Rightarrow> store_err + db" where
  "InvalidateSnapshotCache now repo clearTrees d = invalidateSnapshotCacheTx now repo clearTrees d"

fun invalidate_each :: "instant \<Rightarrow> string list \<Rightarrow> db \<Rightarrow> store_err + db" where
  "invalidate_each now [] d = Inr d"
| "invalidate_each now (r # rs) d =
     and_then (invalidateSnapshotCacheTx now r True d) (invalidate_each now rs)"

definition invalidateTargetCaches :: "instant \<Rightarrow> string \<Rightarrow> db \<Rightarrow> store_err + db" where
  "invalidateTargetCaches now target d =
     invalidate_each now
       (map repo_id (filter (\<lambda>r. repo_storage_target_id r = target) (db_repos d))) d"

definition invalidatesSnapshotCache :: "operation \<Rightarrow> bool" where
  "invalidatesSnapshotCache op \<longleftrightarrow> op = OpBackup \<or> op = OpForget"

section \<open>The invariant of the caches\<close>

text \<open>
  Every cached row belongs to a generation that has been reached, and a repository whose list is
  marked as verified has the list that was verified.
\<close>

definition list_current :: "list_cache list \<Rightarrow> cache_state \<Rightarrow> bool" where
  "list_current ls c \<longleftrightarrow>
     (case cst_list_verified_at c of None \<Rightarrow> True
      | Some v \<Rightarrow> (\<exists>l\<in>set ls. lc_repository_id l = cst_repository_id c \<and>
                     lc_generation l = cst_generation c \<and> lc_verified_at l = v))"

definition caches_ok :: "cache_state list \<Rightarrow> list_cache list \<Rightarrow> tree_cache list \<Rightarrow> bool" where
  "caches_ok cs ls ts \<longleftrightarrow>
     distinct (map cst_repository_id cs) \<and> distinct (map lc_repository_id ls) \<and>
     (\<forall>c\<in>set cs. list_current ls c) \<and>
     (\<forall>c\<in>set cs. \<forall>l\<in>set ls. lc_repository_id l = cst_repository_id c \<longrightarrow> lc_generation l \<le> cst_generation c) \<and>
     (\<forall>c\<in>set cs. \<forall>t\<in>set ts. tc_repository_id t = cst_repository_id c \<longrightarrow> tc_generation t \<le> cst_generation c)"

abbreviation cache_inv :: "db \<Rightarrow> bool" where
  "cache_inv d \<equiv> caches_ok (db_cache_states d) (db_list_cache d) (db_tree_cache d)"

text \<open>The generation of a repository's caches, and its mark.\<close>

definition cache_gen :: "db \<Rightarrow> string \<Rightarrow> int option" where
  "cache_gen d repo = map_option cst_generation (cache_of d repo)"

lemma SnapshotCacheGeneration_gen:
  "SnapshotCacheGeneration d repo = Inr g \<longleftrightarrow> cache_gen d repo = Some g"
  by (auto simp: SnapshotCacheGeneration_def cache_gen_def split: option.splits)

lemma ensure_ok: "ensureCacheGeneration d repo g = Inr u \<longleftrightarrow> cache_gen d repo = Some g"
  by (auto simp: ensureCacheGeneration_def cache_gen_def split: option.splits)

lemma ensure_changed:
  "cache_gen d repo = Some g \<Longrightarrow> g \<noteq> g' \<Longrightarrow> ensureCacheGeneration d repo g' = Inl ErrCacheGenerationChanged"
  by (auto simp: ensureCacheGeneration_def cache_gen_def)

lemma cache_of_update:
  assumes "\<And>c. cst_repository_id (f c) = cst_repository_id c"
  shows "tbl_get (\<lambda>c. cst_repository_id c = r) (tbl_update (\<lambda>c. cst_repository_id c = r' \<and> P c) f cs) =
         map_option (\<lambda>c. if r = r' \<and> P c then f c else c) (tbl_get (\<lambda>c. cst_repository_id c = r) cs)"
  by (induction cs) (auto simp: assms)

lemma invalidate_gen:
  assumes "invalidateSnapshotCacheTx now repo clear d = Inr d'"
  shows "cache_of d' r = map_option (\<lambda>c. if r = repo then invalidate_state now c else c) (cache_of d r)"
  using assms cache_of_update [of "invalidate_state now" r repo "\<lambda>_. True"]
  by (auto simp: invalidateSnapshotCacheTx_def cache_of_def Let_def invalidate_state_def split: if_splits)

lemma invalidate_frame:
  assumes "invalidateSnapshotCacheTx now repo clear d = Inr d'"
  shows "\<exists>cs ts. d' = d\<lparr>db_cache_states := cs, db_tree_cache := ts\<rparr>"
  using assms
  by (intro exI [of _ "db_cache_states d'"] exI [of _ "db_tree_cache d'"] db.equality)
    (auto simp: invalidateSnapshotCacheTx_def Let_def split: if_splits)

lemma caches_ok_sub_trees: "caches_ok cs ls ts \<Longrightarrow> set ts' \<subseteq> set ts \<Longrightarrow> caches_ok cs ls ts'"
  unfolding caches_ok_def by blast

lemma caches_ok_invalidate:
  assumes "caches_ok cs ls ts"
  shows "caches_ok (tbl_update (\<lambda>c. cst_repository_id c = r) (invalidate_state now) cs) ls ts"
proof -
  have "map cst_repository_id (tbl_update (\<lambda>c. cst_repository_id c = r) (invalidate_state now) cs) =
        map cst_repository_id cs"
    by (rule map_tbl_update) (simp add: invalidate_state_def)
  with assms show ?thesis
    unfolding caches_ok_def
    by (auto simp: set_tbl_update list_current_def invalidate_state_def split: option.splits)
       (force simp: add_increasing2)+
qed

lemma invalidate_inv [inv_intros]:
  assumes "cache_inv d" and "invalidateSnapshotCacheTx now repo clear d = Inr d'"
  shows "cache_inv d'"
proof -
  have "set (db_tree_cache d') \<subseteq> set (db_tree_cache d)"
    and "db_list_cache d' = db_list_cache d"
    and "db_cache_states d' = tbl_update (\<lambda>c. cst_repository_id c = repo) (invalidate_state now) (db_cache_states d)"
    using assms(2) by (auto simp: invalidateSnapshotCacheTx_def Let_def split: if_splits)
  then show ?thesis
    using caches_ok_sub_trees [OF caches_ok_invalidate [OF assms(1)]] by simp
qed

section \<open>Saving\<close>

lemma put_list_get:
  "tbl_get (\<lambda>x. lc_repository_id x = r) (put_list_cache l ls) =
     (if r = lc_repository_id l then Some l else tbl_get (\<lambda>x. lc_repository_id x = r) ls)"
proof -
  have upd: "tbl_get (\<lambda>x. lc_repository_id x = r) (tbl_update (\<lambda>x. lc_repository_id x = k) (\<lambda>_. l) xs) =
      (if r = k then (if list_ex (\<lambda>x. lc_repository_id x = k) xs then Some l else None)
       else tbl_get (\<lambda>x. lc_repository_id x = r) xs)" if "k = lc_repository_id l" for k xs
    using that by (induction xs) auto
  have none: "\<not> list_ex (\<lambda>x. lc_repository_id x = lc_repository_id l) ls \<Longrightarrow>
      tbl_get (\<lambda>x. lc_repository_id x = lc_repository_id l) ls = None"
    by (simp add: tbl_get_None list_ex_iff)
  show ?thesis
    using upd [OF refl, of ls] none
    by (cases "r = lc_repository_id l"; cases "list_ex (\<lambda>x. lc_repository_id x = lc_repository_id l) ls")
      (simp_all add: put_list_cache_def Let_def split: option.splits)
qed

lemma put_list_set:
  "set (put_list_cache l ls) = insert l {x \<in> set ls. lc_repository_id x \<noteq> lc_repository_id l}"
  by (auto simp: put_list_cache_def Let_def set_tbl_update list_ex_iff)

lemma put_list_distinct:
  "distinct (map lc_repository_id ls) \<Longrightarrow> distinct (map lc_repository_id (put_list_cache l ls))"
proof -
  assume d: "distinct (map lc_repository_id ls)"
  have "map lc_repository_id (tbl_update (\<lambda>x. lc_repository_id x = lc_repository_id l) (\<lambda>_. l) ls) =
        map lc_repository_id ls"
    by (rule map_tbl_update) simp
  with d show ?thesis by (auto simp: put_list_cache_def Let_def list_ex_iff)
qed

lemma put_tree_set:
  "set (put_tree_cache t ts) \<subseteq> insert t (set ts)"
  by (auto simp: put_tree_cache_def Let_def set_tbl_update)

lemma put_tree_get:
  "tbl_get (tree_key (tc_repository_id t) (tc_snapshot_id t) (tc_path t)) (put_tree_cache t ts) = Some t"
proof -
  let ?P = "tree_key (tc_repository_id t) (tc_snapshot_id t) (tc_path t)"
  have self: "?P t" by (simp add: tree_key_def)
  have "tbl_get ?P (tbl_update ?P (\<lambda>_. t) ts) = (if list_ex ?P ts then Some t else None)"
    by (induction ts) (auto simp: self)
  moreover have "\<not> list_ex ?P ts \<Longrightarrow> tbl_get ?P ts = None"
    by (simp add: tbl_get_None list_ex_iff)
  ultimately show ?thesis by (auto simp: put_tree_cache_def Let_def self split: option.splits)
qed

text \<open>What a successful save does.\<close>

lemma saveList_cases:
  assumes "saveSnapshotListCacheOnce repo gen snaps fp at d = Inr d'"
  obtains ss where "cache_gen d repo = Some gen" "decode_snapshots snaps = Some ss"
    "db_list_cache d' = put_list_cache \<lparr>lc_repository_id = repo, lc_generation = gen, lc_snapshots = snaps,
                     lc_fingerprint = fp, lc_verified_at = sec at\<rparr> (db_list_cache d)"
    "db_cache_states d' = tbl_update (\<lambda>c. cst_repository_id c = repo \<and> cst_generation c = gen)
                     (\<lambda>c. c\<lparr>cst_list_verified_at := Some (sec at), cst_list_fingerprint := fp,
                            cst_updated_at := sec at\<rparr>) (db_cache_states d)"
    "\<And>t. t \<in> set (db_tree_cache d') \<Longrightarrow>
        t \<in> set (db_tree_cache d) \<and> tc_repository_id t \<noteq> repo \<or>
        (\<exists>u\<in>set (db_tree_cache d). t = u\<lparr>tc_generation := gen\<rparr> \<and> tc_repository_id u = repo \<and>
                tc_snapshot_id u \<in> set (map snap_id ss))"
    "\<exists>ls cs ts. d' = d\<lparr>db_list_cache := ls, db_cache_states := cs, db_tree_cache := ts\<rparr>"
proof -
  have gen: "cache_gen d repo = Some gen" and ens: "ensureCacheGeneration d repo gen = Inr ()"
    using assms by (auto simp: saveSnapshotListCacheOnce_def and_then_Inr ensure_ok)
  obtain ss where ss: "decode_snapshots snaps = Some ss"
    using assms by (auto simp: saveSnapshotListCacheOnce_def ens Let_def split: option.splits)
  note d' = assms [unfolded saveSnapshotListCacheOnce_def ens and_then.simps Let_def ss option.case sum.inject, symmetric]
  show thesis
  proof (rule that [OF gen ss])
    fix t assume "t \<in> set (db_tree_cache d')"
    then show "t \<in> set (db_tree_cache d) \<and> tc_repository_id t \<noteq> repo \<or>
        (\<exists>u\<in>set (db_tree_cache d). t = u\<lparr>tc_generation := gen\<rparr> \<and> tc_repository_id u = repo \<and>
                tc_snapshot_id u \<in> set (map snap_id ss))"
      by (auto simp: d' set_tbl_update split: if_splits)
  next
    show "\<exists>ls cs ts. d' = d\<lparr>db_list_cache := ls, db_cache_states := cs, db_tree_cache := ts\<rparr>"
      unfolding d' by blast
  qed (simp_all add: d')
qed

lemma saveList_inv [inv_intros]:
  assumes inv: "cache_inv d" and save: "saveSnapshotListCacheOnce repo gen snaps fp at d = Inr d'"
  shows "cache_inv d'"
  using save
proof (cases rule: saveList_cases)
  case (1 ss)
  let ?upd = "\<lambda>c. c\<lparr>cst_list_verified_at := Some (sec at), cst_list_fingerprint := fp, cst_updated_at := sec at\<rparr>"
  have keep: "map cst_repository_id (db_cache_states d') = map cst_repository_id (db_cache_states d)"
    unfolding 1(4) by (rule map_tbl_update) simp
  have st: "\<exists>c0\<in>set (db_cache_states d). cst_repository_id c0 = cst_repository_id c \<and>
      cst_generation c0 = cst_generation c \<and>
      (c = c0 \<and> \<not> (cst_repository_id c = repo \<and> cst_generation c = gen) \<or>
       cst_repository_id c = repo \<and> cst_generation c = gen \<and> cst_list_verified_at c = Some (sec at))"
    if "c \<in> set (db_cache_states d')" for c
    using that unfolding 1(4) by (auto simp: set_tbl_update)
  obtain c1 where c1: "c1 \<in> set (db_cache_states d)" "cst_repository_id c1 = repo" "cst_generation c1 = gen"
    using 1(1) by (auto simp: cache_gen_def cache_of_def dest!: tbl_get_Some)
  have uniq: "cst_generation c = gen" if "c \<in> set (db_cache_states d)" "cst_repository_id c = repo" for c
    using inv that c1 unfolding caches_ok_def by (auto simp: distinct_map dest: inj_onD)
  have trees: "\<exists>u\<in>set (db_tree_cache d). tc_repository_id u = tc_repository_id t \<and>
      (tc_generation t = tc_generation u \<or> tc_repository_id t = repo \<and> tc_generation t = gen)"
    if "t \<in> set (db_tree_cache d')" for t
    using 1(5) [OF that] by auto
  show ?thesis
    unfolding caches_ok_def
  proof (intro conjI ballI impI)
    show "distinct (map cst_repository_id (db_cache_states d'))"
      using inv keep unfolding caches_ok_def by simp
    show "distinct (map lc_repository_id (db_list_cache d'))"
      unfolding 1(3) using inv by (intro put_list_distinct) (simp add: caches_ok_def)
  next
    fix c assume c: "c \<in> set (db_cache_states d')"
    from st [OF c] obtain c0 where c0: "c0 \<in> set (db_cache_states d)"
      "cst_repository_id c0 = cst_repository_id c" "cst_generation c0 = cst_generation c"
      "c = c0 \<and> \<not> (cst_repository_id c = repo \<and> cst_generation c = gen) \<or>
       cst_repository_id c = repo \<and> cst_generation c = gen \<and> cst_list_verified_at c = Some (sec at)" by blast
    have lists: "lc_generation l \<le> cst_generation c0"
      if "l \<in> set (db_list_cache d)" "lc_repository_id l = cst_repository_id c0" for l
      using inv c0(1) that unfolding caches_ok_def by blast
    show "list_current (db_list_cache d') c"
      using c0(4)
    proof
      assume same: "c = c0 \<and> \<not> (cst_repository_id c = repo \<and> cst_generation c = gen)"
      then have "cst_repository_id c \<noteq> repo" using uniq c0(1) by auto
      moreover have "list_current (db_list_cache d) c"
        using inv c0(1) same unfolding caches_ok_def by blast
      ultimately show ?thesis unfolding 1(3) list_current_def put_list_set by (auto split: option.splits)
    next
      assume "cst_repository_id c = repo \<and> cst_generation c = gen \<and> cst_list_verified_at c = Some (sec at)"
      then show ?thesis unfolding 1(3) list_current_def put_list_set by auto
    qed
    show "lc_generation l \<le> cst_generation c"
      if "l \<in> set (db_list_cache d')" "lc_repository_id l = cst_repository_id c" for l
      using that lists c0 uniq unfolding 1(3) put_list_set by auto
    show "tc_generation t \<le> cst_generation c"
      if "t \<in> set (db_tree_cache d')" "tc_repository_id t = cst_repository_id c" for t
    proof -
      from trees [OF that(1)] obtain u where u: "u \<in> set (db_tree_cache d)" "tc_repository_id u = tc_repository_id t"
        "tc_generation t = tc_generation u \<or> tc_repository_id t = repo \<and> tc_generation t = gen" by blast
      have "tc_generation u \<le> cst_generation c0"
        using inv c0(1,2) u(1,2) that(2) unfolding caches_ok_def by auto
      with u(3) c0 uniq that(2) show ?thesis by auto
    qed
  qed
qed

lemma saveTree_inv [inv_intros]:
  assumes inv: "cache_inv d" and save: "SaveSnapshotTreeCache repo snap p gen tree at d = Inr d'"
  shows "cache_inv d'"
proof -
  let ?t = "\<lparr>tc_repository_id = repo, tc_snapshot_id = snap, tc_path = NormalizeSnapshotPath p,
             tc_generation = gen, tc_tree = tree, tc_verified_at = sec at\<rparr>"
  from save have gen: "cache_gen d repo = Some gen"
    and d': "d' = d\<lparr>db_tree_cache := put_tree_cache ?t (db_tree_cache d)\<rparr>"
    by (auto simp: SaveSnapshotTreeCache_def and_then_Inr ensure_ok split: option.splits if_splits)
  obtain c1 where c1: "c1 \<in> set (db_cache_states d)" "cst_repository_id c1 = repo" "cst_generation c1 = gen"
    using gen by (auto simp: cache_gen_def cache_of_def dest!: tbl_get_Some)
  have "cst_generation c = gen" if "c \<in> set (db_cache_states d)" "cst_repository_id c = repo" for c
    using inv that c1 unfolding caches_ok_def by (auto simp: distinct_map dest: inj_onD)
  with inv put_tree_set [of ?t "db_tree_cache d"] show ?thesis
    unfolding d' caches_ok_def by fastforce
qed

lemma saveList_gen:
  assumes "saveSnapshotListCacheOnce repo gen snaps fp at d = Inr d'"
  shows "cache_of d' r =
    map_option (\<lambda>c. if r = repo \<and> cst_generation c = gen
      then c\<lparr>cst_list_verified_at := Some (sec at), cst_list_fingerprint := fp, cst_updated_at := sec at\<rparr> else c)
      (cache_of d r)"
  using assms
  by (cases rule: saveList_cases) (simp add: cache_of_def cache_of_update)

text \<open>A verified mark and a readable list are the same thing.\<close>

lemma marked_iff_readable:
  assumes inv: "cache_inv d" and c: "cache_of d repo = Some c"
  shows "cst_list_verified_at c \<noteq> None \<longleftrightarrow> (\<exists>l. GetSnapshotListCache d repo = Inr l)"
proof -
  have cs: "c \<in> set (db_cache_states d)" "cst_repository_id c = repo"
    using c by (auto simp: cache_of_def dest!: tbl_get_Some)
  show ?thesis
  proof
    assume "cst_list_verified_at c \<noteq> None"
    then obtain v where v: "cst_list_verified_at c = Some v" by blast
    from inv cs(1) have "list_current (db_list_cache d) c" unfolding caches_ok_def by blast
    with v cs obtain l where l: "l \<in> set (db_list_cache d)" "lc_repository_id l = repo"
      "lc_generation l = cst_generation c" "lc_verified_at l = v" by (auto simp: list_current_def)
    have "tbl_get (\<lambda>x. lc_repository_id x = repo) (db_list_cache d) = Some l"
      using inv l(1,2) by (intro tbl_get_unique) (auto simp: caches_ok_def)
    with l v c show "\<exists>l. GetSnapshotListCache d repo = Inr l" by (auto simp: GetSnapshotListCache_def)
  next
    assume "\<exists>l. GetSnapshotListCache d repo = Inr l"
    then show "cst_list_verified_at c \<noteq> None"
      using c by (auto simp: GetSnapshotListCache_def split: option.splits if_splits)
  qed
qed

lemma save_then_get:
  assumes "saveSnapshotListCacheOnce repo gen snaps fp at d = Inr d'"
  shows "GetSnapshotListCache d' repo =
    Inr \<lparr>lc_repository_id = repo, lc_generation = gen, lc_snapshots = snaps, lc_fingerprint = fp,
         lc_verified_at = sec at\<rparr>"
proof -
  obtain c where c: "cache_of d repo = Some c" "cst_generation c = gen"
    using assms by (cases rule: saveList_cases) (auto simp: cache_gen_def)
  have "tbl_get (\<lambda>l. lc_repository_id l = repo) (db_list_cache d') =
    Some \<lparr>lc_repository_id = repo, lc_generation = gen, lc_snapshots = snaps, lc_fingerprint = fp,
         lc_verified_at = sec at\<rparr>"
    using assms by (cases rule: saveList_cases) (simp add: put_list_get)
  with c saveList_gen [OF assms, of repo] show ?thesis
    by (simp add: GetSnapshotListCache_def)
qed

lemma invalidated_reads:
  assumes "invalidateSnapshotCacheTx now repo clear d = Inr d'"
  shows "GetSnapshotListCache d' repo = Inl ErrNotFound"
    and "GetSnapshotTreeCache d' repo snap p = Inl ErrNotFound"
  using invalidate_gen [OF assms, of repo]
  by (auto simp: GetSnapshotListCache_def GetSnapshotTreeCache_def invalidate_state_def split: option.splits)

lemma save_refused:
  assumes "cache_gen d repo = Some g" and "g \<noteq> gen"
  shows "saveSnapshotListCacheOnce repo gen snaps fp at d = Inl ErrCacheGenerationChanged"
    and "SaveSnapshotTreeCache repo snap p gen tree at d = Inl ErrCacheGenerationChanged"
  using ensure_changed [OF assms] by (simp_all add: saveSnapshotListCacheOnce_def SaveSnapshotTreeCache_def)

section \<open>Properties\<close>

text \<open>A snapshot list that was saved is what the next verified read returns, and the browse read
  reports it as fresh.\<close>

theorem saved_list_is_read_back:
  assumes "saveSnapshotListCacheOnce repo gen snaps fp at d = Inr d'"
  shows "GetSnapshotListCache d' repo =
      Inr \<lparr>lc_repository_id = repo, lc_generation = gen, lc_snapshots = snaps, lc_fingerprint = fp,
           lc_verified_at = sec at\<rparr> \<and>
    GetSnapshotListBrowseCache d' repo =
      Inr (\<lparr>lc_repository_id = repo, lc_generation = gen, lc_snapshots = snaps, lc_fingerprint = fp,
           lc_verified_at = sec at\<rparr>, False)"
  using save_then_get [OF assms]
  by (auto simp: GetSnapshotListCache_def GetSnapshotListBrowseCache_def split: option.splits if_splits)

theorem saved_list_is_read_back_witness:
  "\<exists>d'. saveSnapshotListCacheOnce ''p1'' 4 (JList []) ''f'' 7 (empty_db\<lparr>db_cache_states := [sample_cache]\<rparr>) = Inr d' \<and>
     map_sum id snd (GetSnapshotListBrowseCache d' ''p1'') = Inr False"
proof -
  let ?d = "empty_db\<lparr>db_cache_states := [sample_cache]\<rparr>"
  have "\<exists>d'. saveSnapshotListCacheOnce ''p1'' 4 (JList []) ''f'' 7 ?d = Inr d'"
    by (simp add: saveSnapshotListCacheOnce_def ensureCacheGeneration_def cache_of_def sample_cache_def
        decode_snapshots_def Let_def)
  then obtain d' where d': "saveSnapshotListCacheOnce ''p1'' 4 (JList []) ''f'' 7 ?d = Inr d'" by blast
  from saved_list_is_read_back [OF d'] d' show ?thesis by auto
qed

text \<open>C13: Once the caches of a repository were invalidated, nothing that was cached is served as
  current, whatever still lies in the tables is reported as stale, and a list or a listing that was
  read at the old generation can no longer be saved.\<close>

theorem invalidation_supersedes_old_reads:
  assumes "cache_gen d repo = Some g" and "invalidateSnapshotCacheTx now repo clear d = Inr d'"
  shows "GetSnapshotListCache d' repo = Inl ErrNotFound \<and>
    GetSnapshotTreeCache d' repo snap p = Inl ErrNotFound \<and>
    (case GetSnapshotListBrowseCache d' repo of Inl e \<Rightarrow> e = ErrNotFound | Inr (l, stale) \<Rightarrow> stale) \<and>
    (case GetSnapshotTreeBrowseCache d' repo snap p of Inl e \<Rightarrow> e = ErrNotFound | Inr (t, stale) \<Rightarrow> stale) \<and>
    saveSnapshotListCacheOnce repo g snaps fp at d' = Inl ErrCacheGenerationChanged \<and>
    SaveSnapshotTreeCache repo snap p g tree at d' = Inl ErrCacheGenerationChanged"
proof -
  have g': "cache_gen d' repo = Some (g + 1)"
    using assms(1) invalidate_gen [OF assms(2), of repo] by (auto simp: cache_gen_def invalidate_state_def)
  obtain c where c: "cache_of d' repo = Some c" "cst_list_verified_at c = None"
    using assms(1) invalidate_gen [OF assms(2), of repo] by (auto simp: cache_gen_def invalidate_state_def)
  have "g + 1 \<noteq> g" by simp
  from save_refused [OF g' this] invalidated_reads [OF assms(2)] c show ?thesis
    by (auto simp: GetSnapshotListBrowseCache_def GetSnapshotTreeBrowseCache_def split: option.splits)
qed

theorem invalidation_supersedes_old_reads_witness:
  "\<exists>d'. invalidateSnapshotCacheTx 9 ''p1'' False (empty_db\<lparr>db_cache_states := [sample_cache]\<rparr>) = Inr d' \<and>
     saveSnapshotListCacheOnce ''p1'' 4 (JList []) ''f'' 7 d' = Inl ErrCacheGenerationChanged"
proof -
  let ?d = "empty_db\<lparr>db_cache_states := [sample_cache]\<rparr>"
  have g: "cache_gen ?d ''p1'' = Some 4" by (simp add: cache_gen_def cache_of_def sample_cache_def)
  have "\<exists>d'. invalidateSnapshotCacheTx 9 ''p1'' False ?d = Inr d'"
    by (simp add: invalidateSnapshotCacheTx_def Let_def tbl_count_0 sample_cache_def)
  then obtain d' where d': "invalidateSnapshotCacheTx 9 ''p1'' False ?d = Inr d'" by blast
  from invalidation_supersedes_old_reads [OF g d'] d' show ?thesis by blast
qed

text \<open>Saving a list, saving a listing and invalidating keep the caches consistent: no cached row
  is ahead of the generation of its repository, and a repository is marked as verified exactly when
  the verified list can be read.\<close>

theorem cache_operations_keep_marks_honest:
  assumes "cache_inv d"
    and "saveSnapshotListCacheOnce repo gen snaps fp at d = Inr d' \<or>
         SaveSnapshotTreeCache repo snap p gen tree at d = Inr d' \<or>
         invalidateSnapshotCacheTx at repo clear d = Inr d'"
  shows "cache_inv d' \<and>
    (\<forall>r c. cache_of d' r = Some c \<longrightarrow>
       ((cst_list_verified_at c \<noteq> None) \<longleftrightarrow> (\<exists>l. GetSnapshotListCache d' r = Inr l)))"
proof -
  have inv: "cache_inv d'"
    using assms(2) saveList_inv [OF assms(1)] saveTree_inv [OF assms(1)] invalidate_inv [OF assms(1)] by blast
  show ?thesis by (intro conjI allI impI inv) (rule marked_iff_readable [OF inv])
qed

theorem cache_operations_keep_marks_honest_witness:
  "\<exists>d'. saveSnapshotListCacheOnce ''p1'' 4 (JList []) ''f'' 7 (empty_db\<lparr>db_cache_states := [sample_cache]\<rparr>) = Inr d' \<and>
     cache_inv d'"
proof -
  let ?d = "empty_db\<lparr>db_cache_states := [sample_cache]\<rparr>"
  have inv: "cache_inv ?d" by (simp add: caches_ok_def list_current_def sample_cache_def)
  have "\<exists>d'. saveSnapshotListCacheOnce ''p1'' 4 (JList []) ''f'' 7 ?d = Inr d'"
    by (simp add: saveSnapshotListCacheOnce_def ensureCacheGeneration_def cache_of_def sample_cache_def
        decode_snapshots_def Let_def)
  then obtain d' where d': "saveSnapshotListCacheOnce ''p1'' 4 (JList []) ''f'' 7 ?d = Inr d'" by blast
  from cache_operations_keep_marks_honest [OF inv disjI1 [OF d']] d' show ?thesis by blast
qed

end
