(* ===== verification/Store_Runs.thy ===== *)
theory Store_Runs
  imports Store_Cache
begin

text \<open>
  The run table (\<open>store/sqlite.go\<close>, "Runs"): creating a run, the transitions of its state, the
  correction of a cancelled run, the sweep of stale runs, deletion and the history pruning, and
  the replay of a transaction on a busy database.
\<close>

section \<open>Creating and reading\<close>

text \<open>
  The insertion of a run row.  A violated \<open>UNIQUE\<close> or primary key is reported as
  \<open>ErrDuplicateRun\<close>; \<open>plan_id\<close> must name a plan or be \<open>NULL\<close>.  Starting a backup or a forget
  invalidates the caches of the repository in the same transaction.
\<close>

definition insertRunTx :: "instant \<Rightarrow> run \<Rightarrow> db \<Rightarrow> store_err + db" where
  "insertRunTx now r d =
     (if run_conflict (db_runs d) (run_row r) then Inl ErrDuplicateRun
      else if run_plan_id r \<noteq> [] \<and> \<not> list_ex (\<lambda>p. plan_id p = run_plan_id r) (db_plans d)
      then Inl (ErrSql ''FOREIGN KEY constraint failed'')
      else
        let d' = d\<lparr>db_runs := db_runs d @ [run_row r]\<rparr> in
        if run_repository_id r \<noteq> [] \<and> invalidatesSnapshotCache (run_operation r)
        then invalidateSnapshotCacheTx now (run_repository_id r) (run_operation r = OpForget) d'
        else Inr d')"

definition CreateRun :: "instant \<Rightarrow> run \<Rightarrow> db \<Rightarrow> store_err + db" where
  "CreateRun now r d = insertRunTx now r d"

definition find_run :: "db \<Rightarrow> string \<Rightarrow> run option" where
  "find_run d rid = tbl_get (\<lambda>r. run_id r = rid) (db_runs d)"

definition GetRun :: "db \<Rightarrow> string \<Rightarrow> store_err + run" where
  "GetRun d rid = (case find_run d rid of None \<Rightarrow> Inl ErrNotFound | Some r \<Rightarrow> Inr r)"

definition FindActiveRunByDedupKey :: "db \<Rightarrow> string \<Rightarrow> store_err + run" where
  "FindActiveRunByDedupKey d key =
     (if key = [] then Inl ErrNotFound
      else case order_desc run_queued_at
             (filter (\<lambda>r. null_eq (run_dedup_key r) key \<and> active_status (run_status r)) (db_runs d)) of
             [] \<Rightarrow> Inl ErrNotFound | r # _ \<Rightarrow> Inr r)"

record run_filter =
  rf_agent_id :: string
  rf_plan_id :: string
  rf_repository_id :: string
  rf_statuses :: "run_status list"
  rf_operation :: "operation option"
  rf_limit :: int
  rf_offset :: int
  rf_exclude_keys :: "string list"

text \<open>\<open>INSTR(dedup_key, ?) = 0\<close> is not true for a \<open>NULL\<close> key, so such runs are left out too.\<close>

definition run_matches :: "run_filter \<Rightarrow> run \<Rightarrow> bool" where
  "run_matches f r \<longleftrightarrow>
     (rf_agent_id f \<noteq> [] \<longrightarrow> run_agent_id r = rf_agent_id f) \<and>
     (rf_plan_id f \<noteq> [] \<longrightarrow> null_eq (run_plan_id r) (rf_plan_id f)) \<and>
     (rf_repository_id f \<noteq> [] \<longrightarrow> null_eq (run_repository_id r) (rf_repository_id f)) \<and>
     (rf_operation f \<noteq> None \<longrightarrow> Some (run_operation r) = rf_operation f) \<and>
     (rf_statuses f \<noteq> [] \<longrightarrow> run_status r \<in> set (rf_statuses f)) \<and>
     list_all (\<lambda>s. run_dedup_key r \<noteq> [] \<and> \<not> Contains (run_dedup_key r) s) (rf_exclude_keys f)"

definition ListRuns :: "db \<Rightarrow> run_filter \<Rightarrow> run list" where
  "ListRuns d f =
     take (limit_or 100 (rf_limit f))
       (drop (nat (rf_offset f)) (order_desc run_queued_at (filter (run_matches f) (db_runs d))))"

definition ListRunsByStatus :: "db \<Rightarrow> run_status list \<Rightarrow> run list" where
  "ListRunsByStatus d sts = order_desc run_queued_at (filter (\<lambda>r. run_status r \<in> set sts) (db_runs d))"

section \<open>Transitions\<close>

fun validTransitions :: "run_status \<Rightarrow> run_status list" where
  "validTransitions RunQueued = [RunDispatched, RunFailed, RunCancelled]"
| "validTransitions RunDispatched = [RunQueued, RunRunning, RunSucceeded, RunFailed, RunCancelled]"
| "validTransitions RunRunning = [RunQueued, RunSucceeded, RunFailed, RunCancelled]"
| "validTransitions _ = []"

text \<open>The columns a transition writes back from the mutated run.\<close>

definition write_back :: "run \<Rightarrow> run \<Rightarrow> run" where
  "write_back m x = x\<lparr>run_status := run_status m, run_started_at := map_option sec (run_started_at m),
     run_finished_at := map_option sec (run_finished_at m), run_progress := run_progress m,
     run_snapshot_id := run_snapshot_id m, run_error_code := run_error_code m,
     run_error_message := run_error_message m, run_attempt := run_attempt m,
     run_lease_expires_at := map_option sec (run_lease_expires_at m)\<rparr>"

text \<open>The observer is told of a run that entered a terminal state, after the commit.\<close>

definition TransitionRun ::
    "string \<Rightarrow> run_status \<Rightarrow> run_status \<Rightarrow> (run \<Rightarrow> run) \<Rightarrow> db \<Rightarrow> store_err + db" where
  "TransitionRun rid src dst mutate d =
     (case find_run d rid of
        None \<Rightarrow> Inl ErrNotFound
      | Some r \<Rightarrow>
          if run_status r \<noteq> src then Inl ErrInvalidTransition
          else if isTerminal (run_status r) then Inl ErrInvalidTransition
          else if dst \<notin> set (validTransitions src) then Inl ErrInvalidTransition
          else
            let m = mutate (r\<lparr>run_status := dst\<rparr>) in
            Inr (d\<lparr>db_runs := tbl_update (\<lambda>x. run_id x = run_id m) (write_back m) (db_runs d),
                   db_observed := (if isTerminal (run_status m) then db_observed d @ [m] else db_observed d)\<rparr>))"

definition if_empty :: "string \<Rightarrow> string \<Rightarrow> string" where
  "if_empty new old = (if new = [] then old else new)"

definition if_no_json :: "json \<Rightarrow> json \<Rightarrow> json" where
  "if_no_json new old = (if new = json_none then old else new)"

definition ReconcileCancelledRunSuccess :: "string \<Rightarrow> string \<Rightarrow> json \<Rightarrow> db \<Rightarrow> store_err + db" where
  "ReconcileCancelledRunSuccess rid snap progress d =
     (let hit = (\<lambda>r. run_id r = rid \<and> run_status r = RunCancelled) in
      if tbl_count hit (db_runs d) = 0 then Inl ErrInvalidTransition
      else Inr (d\<lparr>db_runs := tbl_update hit
             (\<lambda>r. r\<lparr>run_status := RunSucceeded, run_error_code := [], run_error_message := [],
                    run_snapshot_id := if_empty snap (run_snapshot_id r),
                    run_progress := if_no_json progress (run_progress r),
                    run_lease_expires_at := None\<rparr>) (db_runs d)\<rparr>))"

definition UpdateRunProgress :: "string \<Rightarrow> json \<Rightarrow> db \<Rightarrow> db" where
  "UpdateRunProgress rid progress d =
     d\<lparr>db_runs := tbl_update (\<lambda>r. run_id r = rid \<and> active_status (run_status r))
         (\<lambda>r. r\<lparr>run_progress := progress\<rparr>) (db_runs d)\<rparr>"

text \<open>The sweep returns the identities of the runs it failed.\<close>

definition FailStaleRuns :: "run_status list \<Rightarrow> string \<Rightarrow> instant \<Rightarrow> db \<Rightarrow> string list \<times> db" where
  "FailStaleRuns sts code at d =
     (if sts = [] then ([], d)
      else let hit = (\<lambda>r. run_status r \<in> set sts) in
        (map run_id (filter hit (db_runs d)),
         d\<lparr>db_runs := tbl_update hit
             (\<lambda>r. r\<lparr>run_status := RunFailed, run_error_code := code, run_finished_at := Some (sec at),
                    run_lease_expires_at := None\<rparr>) (db_runs d)\<rparr>))"

definition ClearRunProgress :: "string \<Rightarrow> db \<Rightarrow> db" where
  "ClearRunProgress rid d =
     d\<lparr>db_runs := tbl_update (\<lambda>r. run_id r = rid) (\<lambda>r. r\<lparr>run_progress := json_braces\<rparr>) (db_runs d)\<rparr>"

section \<open>Deleting\<close>

text \<open>
  \<open>DELETE FROM runs\<close>: logs and secrets go with the run, a deletion intent forgets its run, and a
  restore request that refers to the run makes the statement fail.
\<close>

definition delete_runs :: "(run \<Rightarrow> bool) \<Rightarrow> db \<Rightarrow> store_err + db" where
  "delete_runs P d =
     (let ids = map run_id (filter P (db_runs d)) in
      if list_ex (\<lambda>rr. rr_run_id rr \<in> set ids) (db_restores d)
      then Inl (ErrSql ''FOREIGN KEY constraint failed'')
      else Inr (d\<lparr>db_runs := tbl_delete P (db_runs d),
                  db_run_logs := tbl_delete (\<lambda>l. rlog_run_id l \<in> set ids) (db_run_logs d),
                  db_run_secrets := tbl_delete (\<lambda>s. rsec_run_id s \<in> set ids) (db_run_secrets d),
                  db_deletions := tbl_update (\<lambda>x. del_run_id x \<in> set ids) (\<lambda>x. x\<lparr>del_run_id := []\<rparr>) (db_deletions d)\<rparr>))"

definition DeleteRun :: "string \<Rightarrow> db \<Rightarrow> store_err + db" where
  "DeleteRun rid d = delete_runs (\<lambda>r. run_id r = rid) d"

record prune_result =
  pr_restore_requests :: nat
  pr_runs :: nat
  pr_audit_events :: nat

definition ended_at :: "run \<Rightarrow> instant" where
  "ended_at r = (case run_finished_at r of Some t \<Rightarrow> t | None \<Rightarrow> run_queued_at r)"

text \<open>The rows that are old enough at \<open>at\<close>: settled requests, ended runs, audit events.\<close>

definition old_request :: "instant \<Rightarrow> restore_request \<Rightarrow> bool" where
  "old_request at rr \<longleftrightarrow> rr_created_at rr < at \<and> rr_phase rr \<in> set RestoreSafePhases"

definition old_run :: "instant \<Rightarrow> run \<Rightarrow> bool" where
  "old_run at r \<longleftrightarrow> ended_at r < at \<and> run_status r \<in> {RunSucceeded, RunFailed, RunCancelled}"

definition old_audit :: "instant \<Rightarrow> audit_event \<Rightarrow> bool" where
  "old_audit at a \<longleftrightarrow> aud_occurred_at a < at"

text \<open>
  \<open>PruneHistory\<close> is three statements, each committed by itself: when one fails, what came before
  it stays, and the counts so far are returned with the error.
\<close>

definition PruneHistory :: "instant \<Rightarrow> db \<Rightarrow> (prune_result \<times> store_err option) \<times> db" where
  "PruneHistory cutoff d =
     (let at = sec cutoff;
          d1 = d\<lparr>db_restores := tbl_delete (old_request at) (db_restores d)\<rparr>;
          n1 = tbl_count (old_request at) (db_restores d)
      in case delete_runs (old_run at) d1 of
           Inl e \<Rightarrow> ((\<lparr>pr_restore_requests = n1, pr_runs = 0, pr_audit_events = 0\<rparr>, Some e), d1)
         | Inr d2 \<Rightarrow>
             ((\<lparr>pr_restore_requests = n1, pr_runs = tbl_count (old_run at) (db_runs d1),
                pr_audit_events = tbl_count (old_audit at) (db_audits d2)\<rparr>, None),
              d2\<lparr>db_audits := tbl_delete (old_audit at) (db_audits d2)\<rparr>))"

section \<open>Replay on a busy database\<close>

definition isSQLiteBusy :: "string \<Rightarrow> bool" where
  "isSQLiteBusy msg = (Contains (ToLower msg) ''database is locked'' \<or> Contains (ToLower msg) ''sqlite_busy'')"

definition busyRetryAttempts :: nat where "busyRetryAttempts = 8"
definition busyRetryBackoff :: int where "busyRetryBackoff = 25000000"

text \<open>
  \<open>fn k\<close> is the outcome of the k-th attempt and \<open>cancelled k\<close> says whether the context ends
  during the wait before it; the results are the final error, the number of calls and the time
  spent waiting.
\<close>

fun retry_loop ::
    "nat \<Rightarrow> nat \<Rightarrow> int \<Rightarrow> (nat \<Rightarrow> bool) \<Rightarrow> (nat \<Rightarrow> string option) \<Rightarrow> string option \<Rightarrow> int \<Rightarrow>
     string option \<times> nat \<times> int" where
  "retry_loop 0 k backoff cancelled fn err waited = (err, k, waited)"
| "retry_loop (Suc n) k backoff cancelled fn err waited =
     (if 0 < k \<and> cancelled k then (err, k, waited)
      else let waited' = waited + int k * backoff in
        case fn k of
          None \<Rightarrow> (None, Suc k, waited')
        | Some e \<Rightarrow> if \<not> isSQLiteBusy e then (Some e, Suc k, waited')
                    else retry_loop n (Suc k) backoff cancelled fn (Some e) waited')"

definition retryOnBusy ::
    "nat \<Rightarrow> int \<Rightarrow> (nat \<Rightarrow> bool) \<Rightarrow> (nat \<Rightarrow> string option) \<Rightarrow> string option \<times> nat \<times> int" where
  "retryOnBusy attempts backoff cancelled fn = retry_loop attempts 0 backoff cancelled fn None 0"

section \<open>Lemmas: reading\<close>

lemma find_run_in: "find_run d rid = Some r \<Longrightarrow> r \<in> set (db_runs d) \<and> run_id r = rid"
  by (auto simp: find_run_def dest: tbl_get_Some)

lemma find_run_unique:
  "runs_ok (db_runs d) \<Longrightarrow> r \<in> set (db_runs d) \<Longrightarrow> find_run d (run_id r) = Some r"
  by (simp add: find_run_def runs_ok_get)

lemma active_key_unique:
  assumes ok: "runs_ok rs" and "a \<in> set rs" "b \<in> set rs" "holds_key a" "holds_key b"
    and "run_dedup_key a = run_dedup_key b"
  shows "a = b"
  using assms by (auto simp: runs_ok_def distinct_map dest: inj_onD)

lemma FindActive_spec:
  assumes ok: "runs_ok (db_runs d)"
  shows "FindActiveRunByDedupKey d key = Inr r \<longleftrightarrow>
           r \<in> set (db_runs d) \<and> holds_key r \<and> run_dedup_key r = key"
proof -
  let ?xs = "filter (\<lambda>r. null_eq (run_dedup_key r) key \<and> active_status (run_status r)) (db_runs d)"
  have mem: "x \<in> set ?xs \<longleftrightarrow> x \<in> set (db_runs d) \<and> holds_key x \<and> run_dedup_key x = key" for x
    by (auto simp: null_eq_def holds_key_def)
  have uniq: "x = y" if "x \<in> set ?xs" "y \<in> set ?xs" for x y
    using that active_key_unique [OF ok] unfolding mem by blast
  show ?thesis
  proof (cases "order_desc run_queued_at ?xs")
    case Nil
    then have "set ?xs = {}" by (metis empty_set set_order_desc)
    then show ?thesis using mem Nil by (auto simp: FindActiveRunByDedupKey_def)
  next
    case (Cons x xs)
    then have "x \<in> set ?xs" by (metis list.set_intros(1) set_order_desc)
    then show ?thesis
      using mem uniq Cons by (auto simp: FindActiveRunByDedupKey_def holds_key_def)
  qed
qed

section \<open>Lemmas: the transition\<close>

definition field_mutator :: "(run \<Rightarrow> run) \<Rightarrow> bool" where
  "field_mutator m \<longleftrightarrow> (\<forall>r. run_id (m r) = run_id r \<and> run_status (m r) = run_status r)"

lemma validTransitions_iff:
  "dst \<in> set (validTransitions src) \<longleftrightarrow>
     src = RunQueued \<and> dst \<in> {RunDispatched, RunFailed, RunCancelled} \<or>
     src = RunDispatched \<and> dst \<noteq> RunDispatched \<or>
     src = RunRunning \<and> dst \<in> {RunQueued, RunSucceeded, RunFailed, RunCancelled}"
  by (cases src; cases dst) auto

lemma valid_from_active: "dst \<in> set (validTransitions src) \<Longrightarrow> active_status src"
  by (cases src) (auto simp: active_status_def)

lemma TransitionRun_iff:
  "TransitionRun rid src dst m d = Inr d' \<longleftrightarrow>
     (\<exists>r. find_run d rid = Some r \<and> run_status r = src \<and> dst \<in> set (validTransitions src) \<and>
          d' = (let r' = m (r\<lparr>run_status := dst\<rparr>) in
            d\<lparr>db_runs := tbl_update (\<lambda>x. run_id x = run_id r') (write_back r') (db_runs d),
              db_observed := (if isTerminal (run_status r') then db_observed d @ [r'] else db_observed d)\<rparr>))"
  using valid_from_active [of dst src]
  by (auto simp: TransitionRun_def Let_def active_terminal split: option.splits if_splits)

lemma TransitionRun_error:
  "TransitionRun rid src dst m d = Inl e \<longleftrightarrow>
     (if find_run d rid = None then e = ErrNotFound
      else e = ErrInvalidTransition \<and>
           \<not> (run_status (the (find_run d rid)) = src \<and> dst \<in> set (validTransitions src)))"
  using valid_from_active [of dst src]
  by (auto simp: TransitionRun_def Let_def active_terminal split: option.splits if_splits)

lemma write_back_keeps [simp]:
  "run_id (write_back m x) = run_id x" "run_plan_id (write_back m x) = run_plan_id x"
  "run_scheduled_at (write_back m x) = run_scheduled_at x"
  "run_dedup_key (write_back m x) = run_dedup_key x" "run_status (write_back m x) = run_status m"
  "run_operation (write_back m x) = run_operation x" "run_agent_id (write_back m x) = run_agent_id x"
  "run_repository_id (write_back m x) = run_repository_id x"
  by (simp_all add: write_back_def)

text \<open>After a successful transition the run reads as the code wrote it; no other run changed.\<close>

lemma TransitionRun_reads:
  assumes t: "TransitionRun rid src dst m d = Inr d'" and m: "field_mutator m"
  shows "find_run d' i =
    (if i = rid then map_option (\<lambda>r. write_back (m (r\<lparr>run_status := dst\<rparr>)) r) (find_run d rid)
     else find_run d i)"
proof -
  from t obtain r where r: "find_run d rid = Some r" and
    d': "db_runs d' = tbl_update (\<lambda>x. run_id x = run_id r) (write_back (m (r\<lparr>run_status := dst\<rparr>))) (db_runs d)"
    using m by (auto simp: TransitionRun_iff Let_def field_mutator_def)
  have ri: "run_id r = rid" using find_run_in [OF r] by simp
  show ?thesis
    using r by (auto simp: find_run_def d' ri tbl_get_update_other intro: tbl_get_update_same)
qed

lemma TransitionRun_runs_ok [inv_intros]:
  assumes "runs_ok (db_runs d)" and "TransitionRun rid src dst m d = Inr d'" and "field_mutator m"
  shows "runs_ok (db_runs d')"
proof -
  from assms(2,3) obtain r where r: "find_run d rid = Some r" "run_status r = src"
    "dst \<in> set (validTransitions src)" and
    d': "db_runs d' = tbl_update (\<lambda>x. run_id x = run_id r) (write_back (m (r\<lparr>run_status := dst\<rparr>))) (db_runs d)"
    by (auto simp: TransitionRun_iff Let_def field_mutator_def)
  let ?P = "\<lambda>x. x \<in> set (db_runs d) \<and> run_id x = run_id r"
  have same: "tbl_update (\<lambda>x. run_id x = run_id r) f (db_runs d) = tbl_update ?P f (db_runs d)" for f
    by (simp add: tbl_update_def)
  have "keeps_run ?P (write_back (m (r\<lparr>run_status := dst\<rparr>)))"
    using valid_from_active [OF r(3)] find_run_in [OF r(1)] runs_ok_id_unique [OF assms(1)] r(2)
    by (auto simp: keeps_run_def active_terminal)
  then show ?thesis unfolding d' same by (rule runs_ok_update [OF assms(1)])
qed

lemma TransitionRun_frame:
  assumes "TransitionRun rid src dst m d = Inr d'"
  shows "\<exists>rs obs. d' = d\<lparr>db_runs := rs, db_observed := obs\<rparr>"
  using assms by (auto simp: TransitionRun_iff Let_def)

section \<open>Lemmas: the other operations\<close>

lemma insertRun_iff:
  "insertRunTx now r d = Inr d' \<longleftrightarrow>
     \<not> run_conflict (db_runs d) (run_row r) \<and>
     (run_plan_id r \<noteq> [] \<longrightarrow> (\<exists>p\<in>set (db_plans d). plan_id p = run_plan_id r)) \<and>
     (if run_repository_id r \<noteq> [] \<and> invalidatesSnapshotCache (run_operation r)
      then invalidateSnapshotCacheTx now (run_repository_id r) (run_operation r = OpForget)
             (d\<lparr>db_runs := db_runs d @ [run_row r]\<rparr>) = Inr d'
      else d' = d\<lparr>db_runs := db_runs d @ [run_row r]\<rparr>)"
  by (auto simp: insertRunTx_def Let_def list_ex_iff)

lemma insertRun_frame:
  assumes "insertRunTx now r d = Inr d'"
  shows "\<exists>cs ts. d' = d\<lparr>db_runs := db_runs d @ [run_row r], db_cache_states := cs, db_tree_cache := ts\<rparr>"
proof (cases "run_repository_id r \<noteq> [] \<and> invalidatesSnapshotCache (run_operation r)")
  case True
  with assms have "invalidateSnapshotCacheTx now (run_repository_id r) (run_operation r = OpForget)
             (d\<lparr>db_runs := db_runs d @ [run_row r]\<rparr>) = Inr d'" by (simp add: insertRun_iff)
  from invalidate_frame [OF this] show ?thesis by simp
next
  case False
  with assms have d': "d' = d\<lparr>db_runs := db_runs d @ [run_row r]\<rparr>" by (auto simp: insertRun_iff)
  show ?thesis
    by (intro exI [of _ "db_cache_states d"] exI [of _ "db_tree_cache d"] db.equality) (simp_all add: d')
qed

lemma insertRun_runs: "insertRunTx now r d = Inr d' \<Longrightarrow> db_runs d' = db_runs d @ [run_row r]"
  by (auto dest: insertRun_frame)

lemma insertRun_runs_ok [inv_intros]:
  assumes "runs_ok (db_runs d)" and "insertRunTx now r d = Inr d'"
  shows "runs_ok (db_runs d')"
  unfolding insertRun_runs [OF assms(2)]
  using assms by (intro runs_ok_snoc) (simp_all add: insertRun_iff)

lemma insertRun_cache_inv [inv_intros]:
  assumes "cache_inv d" and "insertRunTx now r d = Inr d'"
  shows "cache_inv d'"
proof (cases "run_repository_id r \<noteq> [] \<and> invalidatesSnapshotCache (run_operation r)")
  case True
  with assms(2) have inv: "invalidateSnapshotCacheTx now (run_repository_id r) (run_operation r = OpForget)
             (d\<lparr>db_runs := db_runs d @ [run_row r]\<rparr>) = Inr d'" by (simp add: insertRun_iff)
  show ?thesis by (rule invalidate_inv [OF _ inv]) (use assms(1) in simp)
qed (use assms in \<open>auto simp: insertRun_iff split: if_splits\<close>)

lemma Reconcile_iff:
  "ReconcileCancelledRunSuccess rid snap pj d = Inr d' \<longleftrightarrow>
     (\<exists>r\<in>set (db_runs d). run_id r = rid \<and> run_status r = RunCancelled) \<and>
     d' = d\<lparr>db_runs := tbl_update (\<lambda>r. run_id r = rid \<and> run_status r = RunCancelled)
             (\<lambda>r. r\<lparr>run_status := RunSucceeded, run_error_code := [], run_error_message := [],
                    run_snapshot_id := if_empty snap (run_snapshot_id r),
                    run_progress := if_no_json pj (run_progress r),
                    run_lease_expires_at := None\<rparr>) (db_runs d)\<rparr>"
  by (auto simp: ReconcileCancelledRunSuccess_def Let_def tbl_count_0)

lemma Reconcile_runs_ok [inv_intros]:
  assumes "runs_ok (db_runs d)" and "ReconcileCancelledRunSuccess rid snap pj d = Inr d'"
  shows "runs_ok (db_runs d')"
  using assms by (auto simp: Reconcile_iff keeps_run_def intro!: runs_ok_update)

lemma UpdateRunProgress_runs_ok [inv_intros]:
  "runs_ok (db_runs d) \<Longrightarrow> runs_ok (db_runs (UpdateRunProgress rid pj d))"
  by (auto simp: UpdateRunProgress_def keeps_run_def intro!: runs_ok_update)

lemma FailStaleRuns_runs_ok [inv_intros]:
  "runs_ok (db_runs d) \<Longrightarrow> runs_ok (db_runs (snd (FailStaleRuns sts code at d)))"
  by (auto simp: FailStaleRuns_def Let_def keeps_run_def intro!: runs_ok_update)

lemma ClearRunProgress_runs_ok [inv_intros]:
  "runs_ok (db_runs d) \<Longrightarrow> runs_ok (db_runs (ClearRunProgress rid d))"
  by (auto simp: ClearRunProgress_def keeps_run_def intro!: runs_ok_update)

lemma delete_runs_iff:
  "delete_runs P d = Inr d' \<longleftrightarrow>
     (\<forall>rr\<in>set (db_restores d). \<forall>r\<in>set (db_runs d). P r \<longrightarrow> rr_run_id rr \<noteq> run_id r) \<and>
     d' = (let ids = map run_id (filter P (db_runs d)) in
           d\<lparr>db_runs := tbl_delete P (db_runs d),
             db_run_logs := tbl_delete (\<lambda>l. rlog_run_id l \<in> set ids) (db_run_logs d),
             db_run_secrets := tbl_delete (\<lambda>s. rsec_run_id s \<in> set ids) (db_run_secrets d),
             db_deletions := tbl_update (\<lambda>x. del_run_id x \<in> set ids) (\<lambda>x. x\<lparr>del_run_id := []\<rparr>) (db_deletions d)\<rparr>)"
  by (auto simp: delete_runs_def Let_def list_ex_iff)

lemma delete_runs_runs_ok [inv_intros]:
  "runs_ok (db_runs d) \<Longrightarrow> delete_runs P d = Inr d' \<Longrightarrow> runs_ok (db_runs d')"
  by (auto simp: delete_runs_iff Let_def intro: runs_ok_delete)

lemma retry_loop_calls:
  assumes "retry_loop n k b c fn err w = (e, calls, w')"
  shows "k \<le> calls \<and> calls \<le> k + n"
  using assms
  by (induction n k b c fn err w rule: retry_loop.induct) (fastforce split: if_splits option.splits simp: Let_def)+

section \<open>Lemmas: replay\<close>

lemma retry_loop_result:
  assumes "retry_loop n k b c fn err w = (e, calls, w')"
  shows "(\<forall>i. k \<le> i \<and> i + 1 < calls \<longrightarrow> (\<exists>m. fn i = Some m \<and> isSQLiteBusy m)) \<and>
    (k < calls \<longrightarrow> e = fn (calls - 1)) \<and> (calls = k \<longrightarrow> e = err) \<and>
    (k < calls \<and> e \<noteq> None \<and> isSQLiteBusy (the e) \<longrightarrow> calls = k + n \<or> c calls)"
  using assms
proof (induction n k b c fn err w rule: retry_loop.induct)
  case (1 k backoff cancelled fn err waited)
  then show ?case by auto
next
  case (2 n k backoff cancelled fn err waited)
  show ?case
  proof (cases "0 < k \<and> cancelled k")
    case True
    with 2(2) show ?thesis by auto
  next
    case False
    show ?thesis
    proof (cases "fn k")
      case None
      with False 2(2) show ?thesis by (auto simp: Let_def)
    next
      case (Some m)
      show ?thesis
      proof (cases "isSQLiteBusy m")
        case busy: True
        have rec: "retry_loop n (Suc k) backoff cancelled fn (Some m) (waited + int k * backoff) = (e, calls, w')"
          using 2(2) unfolding retry_loop.simps Let_def Some option.case if_not_P [OF False] by (simp add: busy)
        note IH = 2(1) [OF False refl Some _ rec] 
        have IH': "(\<forall>i. Suc k \<le> i \<and> i + 1 < calls \<longrightarrow> (\<exists>m. fn i = Some m \<and> isSQLiteBusy m)) \<and>
            (Suc k < calls \<longrightarrow> e = fn (calls - 1)) \<and> (calls = Suc k \<longrightarrow> e = Some m) \<and>
            (Suc k < calls \<and> e \<noteq> None \<and> isSQLiteBusy (the e) \<longrightarrow> calls = Suc k + n \<or> cancelled calls)"
          using IH busy by blast
        have le: "Suc k \<le> calls" using retry_loop_calls [OF rec] by simp
        have step: "\<exists>m. fn i = Some m \<and> isSQLiteBusy m" if "k \<le> i" "i + 1 < calls" for i
          using IH' that Some busy by (cases "i = k") auto
        have stop: "n = 0 \<or> cancelled (Suc k)" if "calls = Suc k" "e = Some m"
          using rec that Some busy le
          by (cases n) (auto simp: Let_def split: if_splits option.splits dest!: retry_loop_calls)
        show ?thesis
          using IH' le step stop Some by (cases "calls = Suc k") auto
      next
        case False
        with \<open>\<not> (0 < k \<and> cancelled k)\<close> Some 2(2) show ?thesis by (auto simp: Let_def)
      qed
    qed
  qed
qed

fun wait_sum :: "nat \<Rightarrow> nat \<Rightarrow> int" where
  "wait_sum 0 k = 0"
| "wait_sum (Suc n) k = int k + wait_sum n (Suc k)"

lemma wait_sum_nonneg: "0 \<le> wait_sum n k"
  by (induction n k rule: wait_sum.induct) auto

lemma wait_sum_8: "wait_sum 8 0 = 28"
  by code_simp

lemma retry_loop_wait:
  assumes "retry_loop n k b c fn err w = (e, calls, w')" and "0 \<le> b"
  shows "w' \<le> w + wait_sum n k * b"
  using assms
proof (induction n k b c fn err w rule: retry_loop.induct)
  case (2 n k backoff cancelled fn err waited)
  have nn: "0 \<le> wait_sum n (Suc k) * backoff" "0 \<le> int k * backoff"
    using 2(3) wait_sum_nonneg by simp_all
  show ?case
    using 2 nn by (auto simp: Let_def distrib_right add.assoc split: if_splits option.splits)
qed auto

section \<open>Properties\<close>

text \<open>C31: A transition succeeds exactly for a run that exists, is in the state the caller expects and
  has the edge in the transition table; then the run reads as the caller left it, in the new state,
  no other run has changed and the table keeps its unique identities, slots and active keys.
  Otherwise the error tells a missing run from a refused transition.\<close>

theorem transition_on_every_branch:
  assumes ok: "runs_ok (db_runs d)" and m: "field_mutator m"
  shows "case TransitionRun rid src dst m d of
      Inl e \<Rightarrow> (if find_run d rid = None then e = ErrNotFound
                else e = ErrInvalidTransition \<and>
                  (run_status (the (find_run d rid)) \<noteq> src \<or> dst \<notin> set (validTransitions src)))
    | Inr d' \<Rightarrow> dst \<in> set (validTransitions src) \<and> runs_ok (db_runs d') \<and>
        (\<exists>r. find_run d rid = Some r \<and> run_status r = src \<and>
             find_run d' rid = Some (write_back (m (r\<lparr>run_status := dst\<rparr>)) r) \<and>
             run_status (the (find_run d' rid)) = dst) \<and>
        (\<forall>i. i \<noteq> rid \<longrightarrow> find_run d' i = find_run d i)"
proof (cases "TransitionRun rid src dst m d")
  case (Inl e)
  then show ?thesis using TransitionRun_error [of rid src dst m d e] by auto
next
  case (Inr d')
  then obtain r where r: "find_run d rid = Some r" "run_status r = src" "dst \<in> set (validTransitions src)"
    by (auto simp: TransitionRun_iff)
  have "run_status (m (r\<lparr>run_status := dst\<rparr>)) = dst" using m by (simp add: field_mutator_def)
  with r Inr TransitionRun_reads [OF Inr m] TransitionRun_runs_ok [OF ok Inr m] show ?thesis by simp
qed

theorem transition_on_every_branch_witness:
  "\<exists>d'. TransitionRun ''r1'' RunQueued RunDispatched (\<lambda>r. r\<lparr>run_attempt := 1\<rparr>)
      (empty_db\<lparr>db_runs := [sample_run ''r1'' OpBackup RunQueued]\<rparr>) = Inr d' \<and> runs_ok (db_runs d')"
proof -
  let ?d = "empty_db\<lparr>db_runs := [sample_run ''r1'' OpBackup RunQueued]\<rparr>"
  let ?m = "\<lambda>r. r\<lparr>run_attempt := 1\<rparr> :: run"
  have ok: "runs_ok (db_runs ?d)" by (simp add: runs_ok_def holds_slot_def holds_key_def)
  have m: "field_mutator ?m" by (simp add: field_mutator_def)
  have "\<exists>d'. TransitionRun ''r1'' RunQueued RunDispatched ?m ?d = Inr d'"
    by (simp add: TransitionRun_def find_run_def Let_def)
  then obtain d' where "TransitionRun ''r1'' RunQueued RunDispatched ?m ?d = Inr d'" by blast
  with transition_on_every_branch [OF ok m, of "''r1''" RunQueued RunDispatched] show ?thesis by auto
qed

text \<open>Creating a run fails with a duplicate error exactly when its identity, its slot of a plan or
  its deduplication key is taken; for a taken key the lookup of the active run finds a run, so the
  caller can join it.  A created backup or forget leaves no snapshot list or listing of its
  repository that a verified read would serve.\<close>

theorem create_run_dedup_and_invalidation:
  assumes ok: "runs_ok (db_runs d)"
  shows "(CreateRun now r d = Inl ErrDuplicateRun \<longleftrightarrow> run_conflict (db_runs d) (run_row r)) \<and>
    (holds_key r \<and> (\<exists>x\<in>set (db_runs d). holds_key x \<and> run_dedup_key x = run_dedup_key r) \<longrightarrow>
       CreateRun now r d = Inl ErrDuplicateRun \<and>
       (\<exists>x\<in>set (db_runs d). FindActiveRunByDedupKey d (run_dedup_key r) = Inr x)) \<and>
    (\<forall>d'. CreateRun now r d = Inr d' \<longrightarrow>
       runs_ok (db_runs d') \<and> find_run d' (run_id r) = Some (run_row r) \<and>
       (run_repository_id r \<noteq> [] \<and> run_operation r \<in> {OpBackup, OpForget} \<longrightarrow>
          GetSnapshotListCache d' (run_repository_id r) = Inl ErrNotFound \<and>
          (\<forall>s p. GetSnapshotTreeCache d' (run_repository_id r) s p = Inl ErrNotFound)))"
proof -
  have inv_err: "invalidateSnapshotCacheTx now q c d1 \<noteq> Inl ErrDuplicateRun" for q c d1
    by (simp add: invalidateSnapshotCacheTx_def Let_def)
  have dup: "CreateRun now r d = Inl ErrDuplicateRun \<longleftrightarrow> run_conflict (db_runs d) (run_row r)"
    by (auto simp: CreateRun_def insertRunTx_def Let_def inv_err)
  have key: "run_conflict (db_runs d) (run_row r) \<and> (\<exists>x\<in>set (db_runs d). FindActiveRunByDedupKey d (run_dedup_key r) = Inr x)"
    if "holds_key r" "x \<in> set (db_runs d)" "holds_key x" "run_dedup_key x = run_dedup_key r" for x
  proof -
    have "holds_key (run_row r)" "run_dedup_key (run_row r) = run_dedup_key r"
      using that(1) by (simp_all add: holds_key_def run_row_def)
    then have "run_conflict (db_runs d) (run_row r)"
      using that by (auto simp: run_conflict_def list_ex_iff)
    then show ?thesis using that FindActive_spec [OF ok] by auto
  qed
  have new: "runs_ok (db_runs d') \<and> find_run d' (run_id r) = Some (run_row r) \<and>
       (run_repository_id r \<noteq> [] \<and> run_operation r \<in> {OpBackup, OpForget} \<longrightarrow>
          GetSnapshotListCache d' (run_repository_id r) = Inl ErrNotFound \<and>
          (\<forall>s p. GetSnapshotTreeCache d' (run_repository_id r) s p = Inl ErrNotFound))"
    if c: "CreateRun now r d = Inr d'" for d'
  proof -
    have i: "insertRunTx now r d = Inr d'" using c by (simp add: CreateRun_def)
    have okr: "runs_ok (db_runs d')" by (rule insertRun_runs_ok [OF ok i])
    moreover have "find_run d' (run_id r) = Some (run_row r)"
      using find_run_unique [OF okr, of "run_row r"] insertRun_runs [OF i] by (simp add: run_row_def)
    moreover have "invalidateSnapshotCacheTx now (run_repository_id r) (run_operation r = OpForget)
             (d\<lparr>db_runs := db_runs d @ [run_row r]\<rparr>) = Inr d'"
      if "run_repository_id r \<noteq> []" "run_operation r \<in> {OpBackup, OpForget}"
      using i that by (auto simp: insertRun_iff invalidatesSnapshotCache_def split: if_splits)
    ultimately show ?thesis using invalidated_reads by blast
  qed
  show ?thesis using dup key new by blast
qed

theorem create_run_dedup_and_invalidation_witness:
  "CreateRun 5 ((sample_run ''r2'' OpCheck RunQueued)\<lparr>run_dedup_key := ''k''\<rparr>)
     (empty_db\<lparr>db_runs := [(sample_run ''r1'' OpCheck RunRunning)\<lparr>run_dedup_key := ''k''\<rparr>]\<rparr>) = Inl ErrDuplicateRun"
proof -
  let ?d = "empty_db\<lparr>db_runs := [(sample_run ''r1'' OpCheck RunRunning)\<lparr>run_dedup_key := ''k''\<rparr>]\<rparr>"
  let ?r = "(sample_run ''r2'' OpCheck RunQueued)\<lparr>run_dedup_key := ''k''\<rparr>"
  have ok: "runs_ok (db_runs ?d)" by (simp add: runs_ok_def holds_slot_def)
  have k: "holds_key ?r \<and> (\<exists>x\<in>set (db_runs ?d). holds_key x \<and> run_dedup_key x = run_dedup_key ?r)"
    by (simp add: holds_key_def active_status_def)
  from conjunct1 [OF conjunct2 [OF create_run_dedup_and_invalidation [OF ok, of 5 ?r]]] k show ?thesis by blast
qed

text \<open>Replaying a transaction makes at most the allowed number of calls.  The result is that of
  the last call, every earlier call found the database busy, a busy result is only given up after
  the last allowed call or because the context ended, and with the store's constants the waits
  add up to at most 700 milliseconds.\<close>

theorem retry_returns_last_outcome:
  assumes "retryOnBusy n b c fn = (e, calls, waited)"
  shows "calls \<le> n \<and> (n = 0 \<longleftrightarrow> calls = 0) \<and>
    (\<forall>i. i + 1 < calls \<longrightarrow> (\<exists>m. fn i = Some m \<and> isSQLiteBusy m)) \<and>
    (0 < calls \<longrightarrow> e = fn (calls - 1)) \<and>
    (0 < calls \<and> e \<noteq> None \<and> isSQLiteBusy (the e) \<longrightarrow> calls = n \<or> c calls) \<and>
    (n = busyRetryAttempts \<and> b = busyRetryBackoff \<longrightarrow> waited \<le> 700000000)"
proof -
  note r = assms [unfolded retryOnBusy_def]
  have "waited \<le> 700000000" if "n = busyRetryAttempts" "b = busyRetryBackoff"
    using retry_loop_wait [OF r] that
    by (simp add: busyRetryAttempts_def busyRetryBackoff_def wait_sum_8)
  moreover have "n = 0 \<longleftrightarrow> calls = 0"
    using r by (cases n) (auto simp: Let_def split: if_splits option.splits dest!: retry_loop_calls)
  ultimately show ?thesis using retry_loop_result [OF r] retry_loop_calls [OF r] by auto
qed

theorem retry_returns_last_outcome_witness:
  "(\<exists>e w. retryOnBusy 8 25000000 (\<lambda>_. False) (\<lambda>i. if i < 2 then Some ''database is locked'' else None) = (e, 3, w) \<and> e = None)"
proof -
  let ?fn = "\<lambda>i::nat. if i < 2 then Some ''database is locked'' else None"
  have busy: "isSQLiteBusy ''database is locked''" by code_simp
  obtain e calls w where r: "retryOnBusy 8 25000000 (\<lambda>_. False) ?fn = (e, calls, w)" by (metis prod_cases3)
  from retry_returns_last_outcome [OF r]
  have "calls = 3 \<and> e = None"
    using busy by (auto split: if_splits)
  with r show ?thesis by auto
qed

end
