(* ===== verification/Store_Repos.thy ===== *)
theory Store_Repos
  imports Store_Runs
begin

text \<open>
  Storage targets, repositories, backup plans, the schedule cursor and the credentials kept beside
  plans and runs (\<open>store/sqlite.go\<close>, \<open>store/schedule_cursor.go\<close>, \<open>store/secret_store.go\<close>).
\<close>

section \<open>Storage targets\<close>

definition target_row :: "storage_target \<Rightarrow> storage_target" where
  "target_row t = t\<lparr>tgt_created_at := sec (tgt_created_at t), tgt_updated_at := sec (tgt_updated_at t)\<rparr>"

definition CreateStorageTarget :: "storage_target \<Rightarrow> db \<Rightarrow> store_err + db" where
  "CreateStorageTarget t d =
     (if tgt_type t \<noteq> ''rclone'' then Inl (ErrSql ''CHECK constraint failed: type'')
      else if list_ex (\<lambda>x. tgt_id x = tgt_id t \<or> tgt_name x = tgt_name t) (db_targets d)
      then Inl ErrDuplicateStorageTarget
      else Inr (d\<lparr>db_targets := db_targets d @ [target_row t]\<rparr>))"

definition UpdateStorageTarget :: "instant \<Rightarrow> storage_target \<Rightarrow> db \<Rightarrow> store_err + db" where
  "UpdateStorageTarget now t d =
     (if list_ex (\<lambda>x. tgt_id x = tgt_id t) (db_targets d) \<and>
         list_ex (\<lambda>x. tgt_id x \<noteq> tgt_id t \<and> tgt_name x = tgt_name t) (db_targets d)
      then Inl ErrDuplicateStorageTarget
      else invalidateTargetCaches now (tgt_id t)
             (d\<lparr>db_targets := tbl_update (\<lambda>x. tgt_id x = tgt_id t)
                 (\<lambda>x. x\<lparr>tgt_name := tgt_name t, tgt_remote_name := tgt_remote_name t,
                        tgt_remote_path := tgt_remote_path t, tgt_encrypted_config := tgt_encrypted_config t,
                        tgt_updated_at := sec (tgt_updated_at t)\<rparr>) (db_targets d)\<rparr>))"

text \<open>
  Deleting repositories takes their caches, deletion intents and scan states along; a plan that
  still refers to one of them makes the statement fail.
\<close>

definition delete_repos :: "(repository \<Rightarrow> bool) \<Rightarrow> db \<Rightarrow> store_err + db" where
  "delete_repos P d =
     (let ids = map repo_id (filter P (db_repos d)) in
      if list_ex (\<lambda>p. plan_repository_id p \<in> set ids) (db_plans d)
      then Inl (ErrSql ''FOREIGN KEY constraint failed'')
      else Inr (d\<lparr>db_repos := tbl_delete P (db_repos d),
                  db_cache_states := tbl_delete (\<lambda>c. cst_repository_id c \<in> set ids) (db_cache_states d),
                  db_list_cache := tbl_delete (\<lambda>l. lc_repository_id l \<in> set ids) (db_list_cache d),
                  db_tree_cache := tbl_delete (\<lambda>t. tc_repository_id t \<in> set ids) (db_tree_cache d),
                  db_deletions := tbl_delete (\<lambda>x. del_repository_id x \<in> set ids) (db_deletions d),
                  db_cleanup := tbl_delete (\<lambda>c. cln_repository_id c \<in> set ids) (db_cleanup d)\<rparr>))"

definition DeleteStorageTarget :: "string \<Rightarrow> db \<Rightarrow> store_err + db" where
  "DeleteStorageTarget i d =
     (if 0 < tbl_count (\<lambda>r. repo_storage_target_id r = i \<and> repo_detached_at r = None) (db_repos d)
      then Inl ErrInUse
      else and_then (delete_repos (\<lambda>r. repo_storage_target_id r = i \<and> repo_detached_at r \<noteq> None) d) (\<lambda>d'.
        if tbl_count (\<lambda>t. tgt_id t = i) (db_targets d') = 0 then Inl ErrNotFound
        else Inr (d'\<lparr>db_targets := tbl_delete (\<lambda>t. tgt_id t = i) (db_targets d')\<rparr>)))"

definition find_target :: "db \<Rightarrow> string \<Rightarrow> storage_target option" where
  "find_target d i = tbl_get (\<lambda>t. tgt_id t = i) (db_targets d)"

definition GetStorageTarget :: "db \<Rightarrow> string \<Rightarrow> store_err + storage_target" where
  "GetStorageTarget d i = (case find_target d i of None \<Rightarrow> Inl ErrNotFound | Some t \<Rightarrow> Inr t)"

definition ListStorageTargets :: "db \<Rightarrow> storage_target list" where
  "ListStorageTargets d = sort_key tgt_name (db_targets d)"

section \<open>Repositories\<close>

definition repo_row :: "repository \<Rightarrow> repository" where
  "repo_row r = r\<lparr>repo_last_check_at := map_option sec (repo_last_check_at r), repo_detached_at := None,
                  repo_created_at := sec (repo_created_at r), repo_updated_at := sec (repo_updated_at r)\<rparr>"

definition CreateRepository :: "instant \<Rightarrow> repository \<Rightarrow> db \<Rightarrow> store_err + db" where
  "CreateRepository now r d =
     (if list_ex (\<lambda>x. repo_id x = repo_id r \<or>
            (repo_agent_id x = repo_agent_id r \<and> repo_storage_target_id x = repo_storage_target_id r)) (db_repos d)
      then Inl (ErrSql ''UNIQUE constraint failed: repositories'')
      else if \<not> list_ex (\<lambda>a. agt_id a = repo_agent_id r) (db_agents d) \<or>
              \<not> list_ex (\<lambda>t. tgt_id t = repo_storage_target_id r) (db_targets d)
      then Inl (ErrSql ''FOREIGN KEY constraint failed'')
      else if list_ex (\<lambda>c. cst_repository_id c = repo_id r) (db_cache_states d)
      then Inl (ErrSql ''UNIQUE constraint failed: repository_cache_state.repository_id'')
      else Inr (d\<lparr>db_repos := db_repos d @ [repo_row r],
                  db_cache_states := db_cache_states d @
                    [\<lparr>cst_repository_id = repo_id r, cst_generation = 0, cst_list_verified_at = None,
                      cst_list_fingerprint = [], cst_updated_at = sec now\<rparr>]\<rparr>))"

definition find_repo :: "db \<Rightarrow> string \<Rightarrow> repository option" where
  "find_repo d i = tbl_get (\<lambda>r. repo_id r = i) (db_repos d)"

definition GetRepository :: "db \<Rightarrow> string \<Rightarrow> store_err + repository" where
  "GetRepository d i = (case find_repo d i of None \<Rightarrow> Inl ErrNotFound | Some r \<Rightarrow> Inr r)"

definition GetRepositoryByAgentAndTarget :: "db \<Rightarrow> string \<Rightarrow> string \<Rightarrow> store_err + repository" where
  "GetRepositoryByAgentAndTarget d a t =
     (case tbl_get (\<lambda>r. repo_agent_id r = a \<and> repo_storage_target_id r = t) (db_repos d) of
        None \<Rightarrow> Inl ErrNotFound | Some r \<Rightarrow> Inr r)"

definition ListRepositories :: "db \<Rightarrow> repository list" where
  "ListRepositories d = sort_key repo_path (filter (\<lambda>r. repo_detached_at r = None) (db_repos d))"

definition ListRepositoriesNeedingCheck :: "db \<Rightarrow> instant \<Rightarrow> repository list" where
  "ListRepositoriesNeedingCheck d olderThan =
     sort_key (\<lambda>r. case repo_last_check_at r of None \<Rightarrow> 0 | Some t \<Rightarrow> t)
       (filter (\<lambda>r. repo_detached_at r = None \<and> repo_status r = RepoReady \<and>
          (case repo_last_check_at r of None \<Rightarrow> True | Some t \<Rightarrow> t < sec olderThan)) (db_repos d))"

definition DetachRepository :: "instant \<Rightarrow> string \<Rightarrow> db \<Rightarrow> store_err + db" where
  "DetachRepository now i d =
     (if tbl_count (\<lambda>r. repo_id r = i) (db_repos d) = 0 then Inl ErrNotFound
      else invalidateSnapshotCacheTx now i True
             (d\<lparr>db_repos := tbl_update (\<lambda>r. repo_id r = i)
                  (\<lambda>r. r\<lparr>repo_detached_at := Some (sec now), repo_updated_at := sec now\<rparr>) (db_repos d)\<rparr>))"

definition UpdateRepositoryStatus :: "instant \<Rightarrow> string \<Rightarrow> repo_status \<Rightarrow> db \<Rightarrow> db" where
  "UpdateRepositoryStatus now i st d =
     (if st = RepoReady
      then d\<lparr>db_repos := tbl_update (\<lambda>r. repo_id r = i)
             (\<lambda>r. r\<lparr>repo_status := st, repo_detached_at := None, repo_updated_at := sec now\<rparr>) (db_repos d)\<rparr>
      else d\<lparr>db_repos := tbl_update (\<lambda>r. repo_id r = i)
             (\<lambda>r. r\<lparr>repo_status := st, repo_updated_at := sec now\<rparr>) (db_repos d)\<rparr>)"

definition MarkRepositoryChecked :: "string \<Rightarrow> instant \<Rightarrow> db \<Rightarrow> db" where
  "MarkRepositoryChecked i at d =
     d\<lparr>db_repos := tbl_update (\<lambda>r. repo_id r = i)
         (\<lambda>r. r\<lparr>repo_last_check_at := Some (sec at), repo_updated_at := sec at\<rparr>) (db_repos d)\<rparr>"

section \<open>Plans\<close>

definition plan_row :: "plan \<Rightarrow> plan" where
  "plan_row p = p\<lparr>plan_created_at := sec (plan_created_at p), plan_updated_at := sec (plan_updated_at p)\<rparr>"

definition plan_refs :: "plan \<Rightarrow> db \<Rightarrow> bool" where
  "plan_refs p d \<longleftrightarrow> list_ex (\<lambda>a. agt_id a = plan_agent_id p) (db_agents d) \<and>
     list_ex (\<lambda>r. repo_id r = plan_repository_id p) (db_repos d)"

definition known_kind :: "kind \<Rightarrow> bool" where
  "known_kind k \<longleftrightarrow> k \<in> {KindFilesystem, KindPostgreSQL, KindMySQL, KindMongoDB, KindSQLite}"

definition CreatePlan :: "plan \<Rightarrow> db \<Rightarrow> store_err + db" where
  "CreatePlan p d =
     (if \<not> known_kind (plan_kind p) then Inl (ErrSql ''CHECK constraint failed: kind'')
      else if list_ex (\<lambda>x. plan_id x = plan_id p) (db_plans d)
      then Inl (ErrSql ''UNIQUE constraint failed: backup_plans.id'')
      else if \<not> plan_refs p d then Inl (ErrSql ''FOREIGN KEY constraint failed'')
      else Inr (d\<lparr>db_plans := db_plans d @ [plan_row p]\<rparr>))"

definition UpdatePlan :: "plan \<Rightarrow> db \<Rightarrow> store_err + db" where
  "UpdatePlan p d =
     (if \<not> list_ex (\<lambda>x. plan_id x = plan_id p) (db_plans d) then Inr d
      else if \<not> known_kind (plan_kind p) then Inl (ErrSql ''CHECK constraint failed: kind'')
      else if \<not> plan_refs p d then Inl (ErrSql ''FOREIGN KEY constraint failed'')
      else Inr (d\<lparr>db_plans := tbl_update (\<lambda>x. plan_id x = plan_id p)
             (\<lambda>x. p\<lparr>plan_id := plan_id x, plan_created_at := plan_created_at x,
                    plan_updated_at := sec (plan_updated_at p)\<rparr>) (db_plans d)\<rparr>))"

definition DeletePlan :: "string \<Rightarrow> db \<Rightarrow> store_err + db" where
  "DeletePlan i d =
     (if 0 < tbl_count (\<lambda>r. null_eq (run_plan_id r) i \<and> active_status (run_status r)) (db_runs d)
      then Inl ErrInUse
      else
        let d' = d\<lparr>db_runs := tbl_update (\<lambda>r. null_eq (run_plan_id r) i) (\<lambda>r. r\<lparr>run_plan_id := []\<rparr>) (db_runs d)\<rparr> in
        if tbl_count (\<lambda>p. plan_id p = i) (db_plans d') = 0 then Inl ErrNotFound
        else Inr (d'\<lparr>db_plans := tbl_delete (\<lambda>p. plan_id p = i) (db_plans d'),
                     db_cursors := tbl_delete (\<lambda>c. fst c = i) (db_cursors d'),
                     db_plan_secrets := tbl_delete (\<lambda>s. fst s = i) (db_plan_secrets d')\<rparr>))"

definition find_plan :: "db \<Rightarrow> string \<Rightarrow> plan option" where
  "find_plan d i = tbl_get (\<lambda>p. plan_id p = i) (db_plans d)"

definition GetPlan :: "db \<Rightarrow> string \<Rightarrow> store_err + plan" where
  "GetPlan d i = (case find_plan d i of None \<Rightarrow> Inl ErrNotFound | Some p \<Rightarrow> Inr p)"

definition ListPlans :: "db \<Rightarrow> string \<Rightarrow> plan list" where
  "ListPlans d agent =
     sort_key plan_name (if agent = [] then db_plans d else filter (\<lambda>p. plan_agent_id p = agent) (db_plans d))"

definition ListEnabledPlans :: "db \<Rightarrow> plan list" where
  "ListEnabledPlans d = sort_key plan_name (filter plan_enabled (db_plans d))"

section \<open>Schedule cursor and credentials\<close>

definition GetScheduleCursor :: "db \<Rightarrow> string \<Rightarrow> store_err + instant" where
  "GetScheduleCursor d i =
     (case tbl_get (\<lambda>c. fst c = i) (db_cursors d) of None \<Rightarrow> Inl ErrNotFound | Some c \<Rightarrow> Inr (snd c))"

definition SaveScheduleCursor :: "string \<Rightarrow> instant \<Rightarrow> db \<Rightarrow> store_err + db" where
  "SaveScheduleCursor i next d =
     (if list_ex (\<lambda>c. fst c = i) (db_cursors d)
      then Inr (d\<lparr>db_cursors := tbl_update (\<lambda>c. fst c = i) (\<lambda>c. (i, sec next)) (db_cursors d)\<rparr>)
      else if \<not> list_ex (\<lambda>p. plan_id p = i) (db_plans d) then Inl (ErrSql ''FOREIGN KEY constraint failed'')
      else Inr (d\<lparr>db_cursors := db_cursors d @ [(i, sec next)]\<rparr>))"

text \<open>
  Credentials are sealed for their table, row and column before they are stored; the sealer is an
  argument.  A run's row keeps two credentials, each written without touching the other.
\<close>

type_synonym sealer = "string \<Rightarrow> string \<Rightarrow> string \<Rightarrow> string \<Rightarrow> string option"

definition DeletePlanDBPassword :: "string \<Rightarrow> db \<Rightarrow> db" where
  "DeletePlanDBPassword i d = d\<lparr>db_plan_secrets := tbl_delete (\<lambda>s. fst s = i) (db_plan_secrets d)\<rparr>"

definition SavePlanDBPassword :: "sealer \<Rightarrow> string \<Rightarrow> string \<Rightarrow> db \<Rightarrow> store_err + db" where
  "SavePlanDBPassword seal i pw d =
     (if pw = [] then Inr (DeletePlanDBPassword i d)
      else case seal ''backup_plan_secrets'' i ''encrypted_password'' pw of
        None \<Rightarrow> Inl (ErrSql ''seal plan database password'')
      | Some c \<Rightarrow>
          if list_ex (\<lambda>s. fst s = i) (db_plan_secrets d)
          then Inr (d\<lparr>db_plan_secrets := tbl_update (\<lambda>s. fst s = i) (\<lambda>_. (i, c)) (db_plan_secrets d)\<rparr>)
          else if \<not> list_ex (\<lambda>p. plan_id p = i) (db_plans d) then Inl (ErrSql ''FOREIGN KEY constraint failed'')
          else Inr (d\<lparr>db_plan_secrets := db_plan_secrets d @ [(i, c)]\<rparr>))"

definition put_run_secret :: "instant \<Rightarrow> string \<Rightarrow> (run_secret \<Rightarrow> run_secret) \<Rightarrow> db \<Rightarrow> store_err + db" where
  "put_run_secret now rid f d =
     (if list_ex (\<lambda>s. rsec_run_id s = rid) (db_run_secrets d)
      then Inr (d\<lparr>db_run_secrets := tbl_update (\<lambda>s. rsec_run_id s = rid) f (db_run_secrets d)\<rparr>)
      else if find_run d rid = None then Inl (ErrSql ''FOREIGN KEY constraint failed'')
      else Inr (d\<lparr>db_run_secrets := db_run_secrets d @
             [f \<lparr>rsec_run_id = rid, rsec_target_password = [], rsec_rclone_config = [], rsec_created_at = sec now\<rparr>]\<rparr>))"

definition SaveRunTargetPassword :: "sealer \<Rightarrow> instant \<Rightarrow> string \<Rightarrow> string \<Rightarrow> db \<Rightarrow> store_err + db" where
  "SaveRunTargetPassword seal now rid pw d =
     (if pw = [] then Inr d
      else case seal ''run_secrets'' rid ''encrypted_target_password'' pw of
        None \<Rightarrow> Inl (ErrSql ''seal run target password'')
      | Some c \<Rightarrow> put_run_secret now rid (\<lambda>s. s\<lparr>rsec_target_password := c\<rparr>) d)"

definition SaveRunRcloneConfig :: "sealer \<Rightarrow> instant \<Rightarrow> string \<Rightarrow> string \<Rightarrow> db \<Rightarrow> store_err + db" where
  "SaveRunRcloneConfig seal now rid cfg d =
     (if cfg = [] then Inr d
      else case seal ''run_secrets'' rid ''encrypted_rclone_config'' cfg of
        None \<Rightarrow> Inl (ErrSql ''seal run rclone config'')
      | Some c \<Rightarrow> put_run_secret now rid (\<lambda>s. s\<lparr>rsec_rclone_config := c\<rparr>) d)"

definition GetRunRcloneConfig :: "sealer \<Rightarrow> db \<Rightarrow> string \<Rightarrow> store_err + string" where
  "GetRunRcloneConfig unseal d rid =
     (case tbl_get (\<lambda>s. rsec_run_id s = rid) (db_run_secrets d) of
        None \<Rightarrow> Inl ErrNotFound
      | Some s \<Rightarrow>
          if rsec_rclone_config s = [] then Inl ErrNotFound
          else (case unseal ''run_secrets'' rid ''encrypted_rclone_config'' (rsec_rclone_config s) of
                  None \<Rightarrow> Inl (ErrSql ''open run rclone config'') | Some p \<Rightarrow> Inr p))"

definition GetRunTargetPassword :: "sealer \<Rightarrow> db \<Rightarrow> string \<Rightarrow> store_err + string" where
  "GetRunTargetPassword unseal d rid =
     (case tbl_get (\<lambda>s. rsec_run_id s = rid) (db_run_secrets d) of
        None \<Rightarrow> Inl ErrNotFound
      | Some s \<Rightarrow>
          (case unseal ''run_secrets'' rid ''encrypted_target_password'' (rsec_target_password s) of
             None \<Rightarrow> Inl (ErrSql ''open run target password'') | Some p \<Rightarrow> Inr p))"

text \<open>
  The password of a plan.  Plan rows hold the decoded source, which has no member for a password, so
  the migration of rows written before the secret table existed does not arise here.
\<close>

definition GetPlanDBPassword :: "sealer \<Rightarrow> db \<Rightarrow> string \<Rightarrow> store_err + string" where
  "GetPlanDBPassword unseal d i =
     (case tbl_get (\<lambda>s. fst s = i) (db_plan_secrets d) of
        None \<Rightarrow> Inl ErrNotFound
      | Some s \<Rightarrow>
          (case unseal ''backup_plan_secrets'' i ''encrypted_password'' (snd s) of
             None \<Rightarrow> Inl (ErrSql ''open plan database password'') | Some p \<Rightarrow> Inr p))"

definition HasPlanDBPassword :: "sealer \<Rightarrow> db \<Rightarrow> string \<Rightarrow> bool" where
  "HasPlanDBPassword unseal d i = (case GetPlanDBPassword unseal d i of Inl _ \<Rightarrow> False | Inr _ \<Rightarrow> True)"

definition DeleteRunSecrets :: "string \<Rightarrow> db \<Rightarrow> db" where
  "DeleteRunSecrets rid d = d\<lparr>db_run_secrets := tbl_delete (\<lambda>s. rsec_run_id s = rid) (db_run_secrets d)\<rparr>"

section \<open>Lemmas\<close>

lemma invalidate_each_frame:
  "invalidate_each now rs d = Inr d' \<Longrightarrow> \<exists>cs ts. d' = d\<lparr>db_cache_states := cs, db_tree_cache := ts\<rparr>"
proof (induction rs arbitrary: d)
  case Nil
  then show ?case
    by (intro exI [of _ "db_cache_states d"] exI [of _ "db_tree_cache d"] db.equality) simp_all
next
  case (Cons r rs)
  from Cons.prems obtain d1 where d1: "invalidateSnapshotCacheTx now r True d = Inr d1" "invalidate_each now rs d1 = Inr d'"
    by (auto simp: and_then_Inr)
  obtain cs ts where e1: "d1 = d\<lparr>db_cache_states := cs, db_tree_cache := ts\<rparr>"
    using invalidate_frame [OF d1(1)] by blast
  obtain cs' ts' where "d' = d1\<lparr>db_cache_states := cs', db_tree_cache := ts'\<rparr>"
    using Cons.IH [OF d1(2)] by blast
  then have "d' = d\<lparr>db_cache_states := cs', db_tree_cache := ts'\<rparr>" by (simp add: e1)
  then show ?case by blast
qed

lemma invalidate_each_inv: "invalidate_each now rs d = Inr d' \<Longrightarrow> cache_inv d \<Longrightarrow> cache_inv d'"
proof (induction rs arbitrary: d)
  case (Cons r rs)
  from Cons.prems(1) obtain d1 where d1: "invalidateSnapshotCacheTx now r True d = Inr d1" "invalidate_each now rs d1 = Inr d'"
    by (auto simp: and_then_Inr)
  from Cons.IH [OF d1(2)] invalidate_inv [OF Cons.prems(2) d1(1)] show ?case by blast
qed simp

lemma caches_ok_delete:
  assumes "caches_ok cs ls ts"
  shows "caches_ok (tbl_delete (\<lambda>c. cst_repository_id c \<in> R) cs) (tbl_delete (\<lambda>l. lc_repository_id l \<in> R) ls)
           (tbl_delete (\<lambda>t. tc_repository_id t \<in> R) ts)"
  unfolding caches_ok_def
proof (intro conjI ballI impI)
  fix c assume c: "c \<in> set (tbl_delete (\<lambda>c. cst_repository_id c \<in> R) cs)"
  then have "list_current ls c" using assms by (simp add: caches_ok_def)
  with c show "list_current (tbl_delete (\<lambda>l. lc_repository_id l \<in> R) ls) c"
    by (auto simp: list_current_def split: option.splits)
qed (use assms in \<open>auto simp: caches_ok_def distinct_map_tbl_delete\<close>)

lemma delete_repos_iff:
  "delete_repos P d = Inr d' \<longleftrightarrow>
     (\<forall>p\<in>set (db_plans d). \<forall>r\<in>set (db_repos d). P r \<longrightarrow> plan_repository_id p \<noteq> repo_id r) \<and>
     d' = (let ids = map repo_id (filter P (db_repos d)) in
       d\<lparr>db_repos := tbl_delete P (db_repos d),
         db_cache_states := tbl_delete (\<lambda>c. cst_repository_id c \<in> set ids) (db_cache_states d),
         db_list_cache := tbl_delete (\<lambda>l. lc_repository_id l \<in> set ids) (db_list_cache d),
         db_tree_cache := tbl_delete (\<lambda>t. tc_repository_id t \<in> set ids) (db_tree_cache d),
         db_deletions := tbl_delete (\<lambda>x. del_repository_id x \<in> set ids) (db_deletions d),
         db_cleanup := tbl_delete (\<lambda>c. cln_repository_id c \<in> set ids) (db_cleanup d)\<rparr>)"
  by (auto simp: delete_repos_def Let_def list_ex_iff)

lemma DeleteStorageTarget_iff:
  "DeleteStorageTarget i d = Inr d' \<longleftrightarrow>
     (\<forall>r\<in>set (db_repos d). repo_storage_target_id r = i \<longrightarrow> repo_detached_at r \<noteq> None) \<and>
     (\<exists>t\<in>set (db_targets d). tgt_id t = i) \<and>
     (\<exists>d1. delete_repos (\<lambda>r. repo_storage_target_id r = i \<and> repo_detached_at r \<noteq> None) d = Inr d1 \<and>
           d' = d1\<lparr>db_targets := tbl_delete (\<lambda>t. tgt_id t = i) (db_targets d)\<rparr>)"
proof (cases "delete_repos (\<lambda>r. repo_storage_target_id r = i \<and> repo_detached_at r \<noteq> None) d")
  case (Inl e)
  then show ?thesis by (simp add: DeleteStorageTarget_def)
next
  case (Inr d1)
  then have "db_targets d1 = db_targets d" by (auto simp: delete_repos_iff Let_def)
  with Inr show ?thesis by (auto simp: DeleteStorageTarget_def tbl_count_0 tbl_count_pos)
qed

lemma DeletePlan_iff:
  "DeletePlan i d = Inr d' \<longleftrightarrow>
     (\<forall>r\<in>set (db_runs d). null_eq (run_plan_id r) i \<longrightarrow> isTerminal (run_status r)) \<and>
     (\<exists>p\<in>set (db_plans d). plan_id p = i) \<and>
     d' = d\<lparr>db_runs := tbl_update (\<lambda>r. null_eq (run_plan_id r) i) (\<lambda>r. r\<lparr>run_plan_id := []\<rparr>) (db_runs d),
            db_plans := tbl_delete (\<lambda>p. plan_id p = i) (db_plans d),
            db_cursors := tbl_delete (\<lambda>c. fst c = i) (db_cursors d),
            db_plan_secrets := tbl_delete (\<lambda>s. fst s = i) (db_plan_secrets d)\<rparr>"
  by (auto simp: DeletePlan_def Let_def tbl_count_0 tbl_count_pos active_terminal)

lemma DeletePlan_runs_ok [inv_intros]:
  assumes "DeletePlan i d = Inr d'" and ok: "runs_ok (db_runs d)"
  shows "runs_ok (db_runs d')"
proof -
  let ?g = "\<lambda>r. if null_eq (run_plan_id r) i then r\<lparr>run_plan_id := []\<rparr> else r"
  have d': "db_runs d' = map ?g (db_runs d)" using assms(1) by (simp add: DeletePlan_iff tbl_update_def)
  have "map run_id (map ?g (db_runs d)) = map run_id (db_runs d)" by auto
  moreover have "distinct (map run_slot (filter holds_slot (map ?g (db_runs d))))"
    using ok by (intro filter_map_sub) (auto simp: runs_ok_def holds_slot_def run_slot_def)
  moreover have "distinct (map run_dedup_key (filter holds_key (map ?g (db_runs d))))"
    using ok by (intro filter_map_sub) (auto simp: runs_ok_def holds_key_def)
  ultimately show ?thesis using ok by (simp only: runs_ok_def d')
qed

section \<open>Properties\<close>

text \<open>A storage target is deleted only when no repository is bound to it any more; with it go the
  detached repositories and everything kept for them, so no cache, deletion intent or scan state of
  a repository that is gone remains, and the other repositories are untouched.\<close>

theorem target_deletion_is_complete:
  assumes "DeleteStorageTarget i d = Inr d'"
  shows "(\<forall>r\<in>set (db_repos d). repo_storage_target_id r = i \<longrightarrow> repo_detached_at r \<noteq> None) \<and>
    find_target d' i = None \<and>
    set (db_repos d') = {r \<in> set (db_repos d). repo_storage_target_id r \<noteq> i} \<and>
    (\<forall>r\<in>set (db_repos d). repo_storage_target_id r = i \<longrightarrow>
       cache_of d' (repo_id r) = None \<and> (\<forall>x\<in>set (db_deletions d'). del_repository_id x \<noteq> repo_id r) \<and>
       (\<forall>c\<in>set (db_cleanup d'). cln_repository_id c \<noteq> repo_id r) \<and>
       (\<forall>t\<in>set (db_tree_cache d'). tc_repository_id t \<noteq> repo_id r))"
proof -
  let ?P = "\<lambda>r. repo_storage_target_id r = i \<and> repo_detached_at r \<noteq> None"
  from assms obtain d1 where det: "\<forall>r\<in>set (db_repos d). repo_storage_target_id r = i \<longrightarrow> repo_detached_at r \<noteq> None"
    and d1: "delete_repos ?P d = Inr d1" and d': "d' = d1\<lparr>db_targets := tbl_delete (\<lambda>t. tgt_id t = i) (db_targets d)\<rparr>"
    by (auto simp: DeleteStorageTarget_iff)
  have e: "db_repos d' = tbl_delete ?P (db_repos d)"
    "db_cache_states d' = tbl_delete (\<lambda>c. cst_repository_id c \<in> repo_id ` {r \<in> set (db_repos d). ?P r}) (db_cache_states d)"
    "db_deletions d' = tbl_delete (\<lambda>x. del_repository_id x \<in> repo_id ` {r \<in> set (db_repos d). ?P r}) (db_deletions d)"
    "db_cleanup d' = tbl_delete (\<lambda>c. cln_repository_id c \<in> repo_id ` {r \<in> set (db_repos d). ?P r}) (db_cleanup d)"
    "db_tree_cache d' = tbl_delete (\<lambda>t. tc_repository_id t \<in> repo_id ` {r \<in> set (db_repos d). ?P r}) (db_tree_cache d)"
    "db_targets d' = tbl_delete (\<lambda>t. tgt_id t = i) (db_targets d)"
    using d1 unfolding d' delete_repos_iff Let_def by simp_all
  show ?thesis
  proof (intro conjI ballI impI det)
    show "find_target d' i = None" by (simp add: find_target_def e tbl_get_None)
    show "set (db_repos d') = {r \<in> set (db_repos d). repo_storage_target_id r \<noteq> i}" using det by (auto simp: e)
  qed (use det in \<open>auto simp: e cache_of_def tbl_get_None\<close>)
qed

theorem target_deletion_is_complete_witness:
  "\<exists>d'. DeleteStorageTarget ''t1'' (empty_db\<lparr>db_targets := [\<lparr>tgt_id = ''t1'', tgt_name = ''n'', tgt_type = ''rclone'',
        tgt_remote_name = [], tgt_remote_path = [], tgt_encrypted_config = [], tgt_created_at = 0, tgt_updated_at = 0\<rparr>]\<rparr>) = Inr d' \<and>
     find_target d' ''t1'' = None"
proof -
  let ?d = "empty_db\<lparr>db_targets := [\<lparr>tgt_id = ''t1'', tgt_name = ''n'', tgt_type = ''rclone'',
        tgt_remote_name = [], tgt_remote_path = [], tgt_encrypted_config = [], tgt_created_at = 0, tgt_updated_at = 0\<rparr>]\<rparr>"
  have "\<exists>d'. DeleteStorageTarget ''t1'' ?d = Inr d'"
    by (simp add: DeleteStorageTarget_def delete_repos_def tbl_count_0)
  then obtain d' where d': "DeleteStorageTarget ''t1'' ?d = Inr d'" by blast
  from target_deletion_is_complete [OF d'] d' show ?thesis by blast
qed

text \<open>A plan is deleted only when no run of it is active.  Its history stays, detached from the
  plan; no run, cursor or stored password refers to the plan afterwards, and the run table keeps its
  unique identities, slots and keys.\<close>

theorem plan_deletion_detaches_history:
  assumes ok: "runs_ok (db_runs d)" and del: "DeletePlan i d = Inr d'"
  shows "runs_ok (db_runs d') \<and> map run_id (db_runs d') = map run_id (db_runs d) \<and>
    map run_status (db_runs d') = map run_status (db_runs d) \<and> find_plan d' i = None \<and>
    (\<forall>r\<in>set (db_runs d). null_eq (run_plan_id r) i \<longrightarrow> isTerminal (run_status r)) \<and>
    (\<forall>r\<in>set (db_runs d'). \<not> null_eq (run_plan_id r) i) \<and>
    GetScheduleCursor d' i = Inl ErrNotFound \<and> (\<forall>s\<in>set (db_plan_secrets d'). fst s \<noteq> i)"
proof -
  have d': "db_runs d' = tbl_update (\<lambda>r. null_eq (run_plan_id r) i) (\<lambda>r. r\<lparr>run_plan_id := []\<rparr>) (db_runs d)"
    "db_plans d' = tbl_delete (\<lambda>p. plan_id p = i) (db_plans d)" "db_cursors d' = tbl_delete (\<lambda>c. fst c = i) (db_cursors d)"
    "db_plan_secrets d' = tbl_delete (\<lambda>s. fst s = i) (db_plan_secrets d)"
    using del by (simp_all add: DeletePlan_iff)
  have cur: "tbl_get (\<lambda>c. fst c = i) (tbl_delete (\<lambda>c. fst c = i) (db_cursors d)) = None"
    by (simp add: tbl_get_None)
  have "\<forall>r\<in>set (db_runs d'). \<not> null_eq (run_plan_id r) i"
    unfolding d'(1) set_tbl_update by auto
  then show ?thesis
    using DeletePlan_runs_ok [OF del ok] del
    by (simp add: DeletePlan_iff find_plan_def tbl_get_None map_tbl_update GetScheduleCursor_def cur)
qed

definition sample_plan :: "string \<Rightarrow> plan" where
  "sample_plan i = \<lparr>plan_id = i, plan_name = i, plan_agent_id = ''a1'', plan_kind = KindFilesystem,
     plan_schedule = [], plan_timezone = ''UTC'', plan_enabled = True,
     plan_source_of = \<lparr>src_paths = [''/data''], src_excludes = [], src_one_file_system = False, src_host = [],
       src_port = 0, src_username = [], src_database = [], src_auth_source = [], src_extra_args = [],
       src_estimated_dump_bytes = 0, src_capture_oplog = False, src_path = []\<rparr>,
     plan_repository_id = ''p1'', plan_retention = \<lparr>keep_last = 0, keep_daily = 7, keep_weekly = 0, keep_monthly = 0\<rparr>,
     plan_timeout_seconds = 3600, plan_created_at = 0, plan_updated_at = 0\<rparr>"

theorem plan_deletion_detaches_history_witness:
  "\<exists>d'. DeletePlan ''l1'' (empty_db\<lparr>db_runs := [(sample_run ''r1'' OpBackup RunFailed)\<lparr>run_plan_id := ''l1''\<rparr>],
       db_plans := [sample_plan ''l1'']\<rparr>) = Inr d' \<and> find_plan d' ''l1'' = None"
proof -
  let ?d = "empty_db\<lparr>db_runs := [(sample_run ''r1'' OpBackup RunFailed)\<lparr>run_plan_id := ''l1''\<rparr>],
       db_plans := [sample_plan ''l1'']\<rparr>"
  have ok: "runs_ok (db_runs ?d)" by (simp add: runs_ok_def holds_key_def holds_slot_def)
  have "\<exists>d'. DeletePlan ''l1'' ?d = Inr d'" by (simp add: DeletePlan_iff sample_plan_def)
  then obtain d' where d': "DeletePlan ''l1'' ?d = Inr d'" by blast
  from plan_deletion_detaches_history [OF ok d'] d' show ?thesis by blast
qed

end
