(* ===== verification/Store_Logs.thy ===== *)
theory Store_Logs
  imports Store_Runs
begin

text \<open>
  Run logs and process logs (\<open>store/sqlite.go\<close>, "Run logs" and "process logs").  The logs of a
  run are appended idempotently, keyed by their source and its sequence number; the process logs of
  the server and of each agent keep their newest 20000 rows.
\<close>

definition log_level_ok :: "string \<Rightarrow> bool" where
  "log_level_ok l \<longleftrightarrow> l \<in> {''debug'', ''info'', ''warn'', ''error''}"

section \<open>Run logs\<close>

definition same_log :: "run_log \<Rightarrow> run_log \<Rightarrow> bool" where
  "same_log a b \<longleftrightarrow> rlog_run_id a = rlog_run_id b \<and> rlog_source a = rlog_source b \<and>
     rlog_source_seq a = rlog_source_seq b"

text \<open>
  One \<open>INSERT OR IGNORE\<close>: a row that is there already, or whose level the table does not accept, is
  skipped and gets identity 0; a row of an unknown run fails.
\<close>

definition append_run_log :: "run_log \<Rightarrow> db \<Rightarrow> store_err + (run_log \<times> db)" where
  "append_run_log l d =
     (if \<not> log_level_ok (rlog_level l) \<or> list_ex (same_log l) (db_run_logs d)
      then Inr (l\<lparr>rlog_id := 0\<rparr>, d)
      else if find_run d (rlog_run_id l) = None then Inl (ErrSql ''FOREIGN KEY constraint failed'')
      else let n = db_run_log_seq d + 1 in
        Inr (l\<lparr>rlog_id := n\<rparr>, d\<lparr>db_run_logs := db_run_logs d @ [l\<lparr>rlog_id := n\<rparr>], db_run_log_seq := n\<rparr>))"

fun AppendRunLogs :: "run_log list \<Rightarrow> db \<Rightarrow> store_err + (run_log list \<times> db)" where
  "AppendRunLogs [] d = Inr ([], d)"
| "AppendRunLogs (l # ls) d =
     and_then (append_run_log l d) (\<lambda>(l', d1).
       and_then (AppendRunLogs ls d1) (\<lambda>(ls', d2). Inr (l' # ls', d2)))"

definition ListRunLogs :: "db \<Rightarrow> string \<Rightarrow> int \<Rightarrow> int \<Rightarrow> run_log list" where
  "ListRunLogs d rid beforeID n =
     take (limit_or 100 n) (order_desc rlog_id
       (filter (\<lambda>l. rlog_run_id l = rid \<and> (0 < beforeID \<longrightarrow> rlog_id l < beforeID)) (db_run_logs d)))"

section \<open>Process logs\<close>

definition processLogRetention :: int where "processLogRetention = 20000"

definition log_type :: "string \<Rightarrow> string" where
  "log_type t = (if t = [] then ''system'' else t)"

fun insert_system_logs :: "string \<Rightarrow> system_log list \<Rightarrow> int \<Rightarrow> system_log list \<Rightarrow> (system_log list \<times> int) option" where
  "insert_system_logs agent [] n rows = Some (rows, n)"
| "insert_system_logs agent (l # ls) n rows =
     (if \<not> log_level_ok (slog_level l) then None
      else insert_system_logs agent ls (n + 1)
        (rows @ [l\<lparr>slog_id := n + 1, slog_agent_id := agent, slog_type := log_type (slog_type l)\<rparr>]))"

definition max_log_id :: "system_log list \<Rightarrow> int" where
  "max_log_id rows = foldl max 0 (map slog_id rows)"

definition AppendServerLogs :: "system_log list \<Rightarrow> db \<Rightarrow> store_err + db" where
  "AppendServerLogs logs d =
     (if logs = [] then Inr d
      else case insert_system_logs [] (map (\<lambda>l. l\<lparr>slog_source_seq := 0\<rparr>) logs) (db_server_log_seq d) (db_server_logs d) of
        None \<Rightarrow> Inl (ErrSql ''CHECK constraint failed: level'')
      | Some (rows, n) \<Rightarrow>
          Inr (d\<lparr>db_server_logs := tbl_delete (\<lambda>l. slog_id l \<le> max_log_id rows - processLogRetention) rows,
                 db_server_log_seq := n\<rparr>))"

definition AppendAgentLogs :: "string \<Rightarrow> system_log list \<Rightarrow> db \<Rightarrow> store_err + db" where
  "AppendAgentLogs agent logs d =
     (if logs = [] then Inr d
      else case insert_system_logs agent logs (db_agent_log_seq d) (db_agent_logs d) of
        None \<Rightarrow> Inl (ErrSql ''CHECK constraint failed: level'')
      | Some (rows, n) \<Rightarrow>
          if \<not> list_ex (\<lambda>a. agt_id a = agent) (db_agents d) then Inl (ErrSql ''FOREIGN KEY constraint failed'')
          else let kept = map slog_id (take (nat processLogRetention)
                       (order_desc slog_id (filter (\<lambda>l. slog_agent_id l = agent) rows)))
            in Inr (d\<lparr>db_agent_logs := tbl_delete (\<lambda>l. slog_agent_id l = agent \<and> slog_id l \<notin> set kept) rows,
                      db_agent_log_seq := n\<rparr>))"

record log_filter =
  lf_before_id :: int
  lf_limit :: int
  lf_levels :: "string list"
  lf_types :: "string list"

definition normalizeProcessLogLimit :: "int \<Rightarrow> int" where
  "normalizeProcessLogLimit n = (if n \<le> 0 \<or> 500 < n then 200 else n)"

definition processLogWhere :: "log_filter \<Rightarrow> string \<Rightarrow> system_log \<Rightarrow> bool" where
  "processLogWhere f agent l \<longleftrightarrow>
     (agent \<noteq> [] \<longrightarrow> slog_agent_id l = agent) \<and>
     (0 < lf_before_id f \<longrightarrow> slog_id l < lf_before_id f) \<and>
     (lf_levels f \<noteq> [] \<longrightarrow> slog_level l \<in> set (lf_levels f)) \<and>
     (lf_types f \<noteq> [] \<longrightarrow> slog_type l \<in> set (lf_types f))"

definition ListServerLogs :: "db \<Rightarrow> log_filter \<Rightarrow> system_log list" where
  "ListServerLogs d f =
     take (nat (normalizeProcessLogLimit (lf_limit f)))
       (order_desc slog_id (filter (processLogWhere f []) (db_server_logs d)))"

definition ListAgentLogs :: "db \<Rightarrow> string \<Rightarrow> log_filter \<Rightarrow> system_log list" where
  "ListAgentLogs d agent f =
     take (nat (normalizeProcessLogLimit (lf_limit f)))
       (order_desc slog_id (filter (processLogWhere f agent) (db_agent_logs d)))"

section \<open>Lemmas: run logs\<close>

definition run_logs_ok :: "db \<Rightarrow> bool" where
  "run_logs_ok d \<longleftrightarrow>
     sorted_wrt (<) (map rlog_id (db_run_logs d)) \<and> (\<forall>l\<in>set (db_run_logs d). 0 < rlog_id l \<and> rlog_id l \<le> db_run_log_seq d) \<and>
     distinct (map (\<lambda>l. (rlog_run_id l, rlog_source l, rlog_source_seq l)) (db_run_logs d)) \<and> 0 \<le> db_run_log_seq d"

lemma same_log_id [simp]: "same_log (l\<lparr>rlog_id := n\<rparr>) = same_log l" "same_log l (k\<lparr>rlog_id := m\<rparr>) = same_log l k"
  by (auto simp: same_log_def fun_eq_iff)

lemma same_log_refl [simp]: "same_log l l" by (simp add: same_log_def)

lemma append_run_log_ok:
  assumes "append_run_log l d = Inr (l', d')" and "run_logs_ok d"
  shows "run_logs_ok d'"
  using assms
  by (fastforce simp: append_run_log_def run_logs_ok_def Let_def sorted_wrt_append same_log_def list_ex_iff
      split: if_splits)

lemma append_run_log_frame:
  "append_run_log l d = Inr (l', d') \<Longrightarrow> db_runs d' = db_runs d \<and> (\<exists>xs. db_run_logs d' = db_run_logs d @ xs)"
  by (auto simp: append_run_log_def Let_def split: if_splits)

lemma append_run_log_done:
  "append_run_log l d = Inr (l', d') \<Longrightarrow> \<not> log_level_ok (rlog_level l) \<or> list_ex (same_log l) (db_run_logs d')"
  by (auto simp: append_run_log_def Let_def split: if_splits)

lemma AppendRunLogs_frame:
  "AppendRunLogs ls d = Inr (out, d') \<Longrightarrow> db_runs d' = db_runs d \<and> (\<exists>xs. db_run_logs d' = db_run_logs d @ xs)"
proof (induction ls arbitrary: d out)
  case (Cons l ls)
  from Cons.prems obtain l' d1 out' where s: "append_run_log l d = Inr (l', d1)" "AppendRunLogs ls d1 = Inr (out', d')"
    by (auto simp: and_then_Inr)
  from append_run_log_frame [OF s(1)] Cons.IH [OF s(2)] show ?case by auto
qed simp

lemma AppendRunLogs_done:
  "AppendRunLogs ls d = Inr (out, d') \<Longrightarrow> l \<in> set ls \<Longrightarrow>
   \<not> log_level_ok (rlog_level l) \<or> list_ex (same_log l) (db_run_logs d')"
proof (induction ls arbitrary: d out)
  case (Cons k ls)
  from Cons.prems(1) obtain l' d1 out' where s: "append_run_log k d = Inr (l', d1)" "AppendRunLogs ls d1 = Inr (out', d')"
    by (auto simp: and_then_Inr)
  show ?case
  proof (cases "l = k")
    case True
    with append_run_log_done [OF s(1)] AppendRunLogs_frame [OF s(2)] show ?thesis by (auto simp: list_ex_iff)
  next
    case False
    with Cons s show ?thesis by auto
  qed
qed simp

lemma AppendRunLogs_ok: "AppendRunLogs ls d = Inr (out, d') \<Longrightarrow> run_logs_ok d \<Longrightarrow> run_logs_ok d'"
proof (induction ls arbitrary: d out)
  case (Cons k ls)
  from Cons.prems(1) obtain l' d1 out' where s: "append_run_log k d = Inr (l', d1)" "AppendRunLogs ls d1 = Inr (out', d')"
    by (auto simp: and_then_Inr)
  from Cons.IH [OF s(2)] append_run_log_ok [OF s(1) Cons.prems(2)] show ?case by blast
qed simp

lemma AppendRunLogs_replay:
  "(\<And>l. l \<in> set ls \<Longrightarrow> \<not> log_level_ok (rlog_level l) \<or> list_ex (same_log l) (db_run_logs d)) \<Longrightarrow>
   AppendRunLogs ls d = Inr (map (\<lambda>l. l\<lparr>rlog_id := 0\<rparr>) ls, d)"
  by (induction ls) (auto simp: append_run_log_def)

section \<open>Lemmas: process logs\<close>

lemma insert_system_logs_ids:
  "insert_system_logs agent ls n rows = Some (rows', n') \<Longrightarrow>
   \<exists>new. rows' = rows @ new \<and> n' = n + int (length ls) \<and> map slog_id new = [n + 1..n'] \<and>
     (\<forall>l\<in>set new. slog_agent_id l = agent)"
proof (induction agent ls n rows rule: insert_system_logs.induct)
  case (2 agent l ls n rows)
  from 2(2) have lv: "log_level_ok (slog_level l)"
    and r: "insert_system_logs agent ls (n + 1)
        (rows @ [l\<lparr>slog_id := n + 1, slog_agent_id := agent, slog_type := log_type (slog_type l)\<rparr>]) = Some (rows', n')"
    by (auto split: if_splits)
  have "\<not> \<not> log_level_ok (slog_level l)" using lv by simp
  from 2(1) [OF this r] obtain new where new:
    "rows' = rows @ l\<lparr>slog_id := n + 1, slog_agent_id := agent, slog_type := log_type (slog_type l)\<rparr> # new"
    "n' = n + 1 + int (length ls)" "map slog_id new = [n + 1 + 1..n']" "\<forall>l\<in>set new. slog_agent_id l = agent" by auto
  have "[n + 1..n'] = (n + 1) # [n + 1 + 1..n']" using new(2) by (simp add: upto_rec1)
  with new show ?case
    by (intro exI [of _ "l\<lparr>slog_id := n + 1, slog_agent_id := agent, slog_type := log_type (slog_type l)\<rparr> # new"]) auto
qed simp

lemma max_log_id_ge: "l \<in> set rows \<Longrightarrow> slog_id l \<le> max_log_id rows"
proof -
  have "slog_id l \<le> foldl max m (map slog_id rows)" if "l \<in> set rows \<or> slog_id l \<le> m" for m
    using that
  proof (induction rows arbitrary: m)
    case (Cons r rows)
    show ?case using Cons.IH [of "max m (slog_id r)"] Cons.prems by (auto simp: le_max_iff_disj)
  qed simp
  then show "l \<in> set rows \<Longrightarrow> ?thesis" by (simp add: max_log_id_def)
qed

definition system_logs_ok :: "system_log list \<Rightarrow> int \<Rightarrow> bool" where
  "system_logs_ok rows n \<longleftrightarrow> distinct (map slog_id rows) \<and> (\<forall>l\<in>set rows. slog_id l \<le> n)"

lemma insert_system_logs_ok:
  assumes "insert_system_logs agent ls n rows = Some (rows', n')" and "system_logs_ok rows n"
  shows "system_logs_ok rows' n'"
proof -
  obtain new where new: "rows' = rows @ new" "n' = n + int (length ls)" "map slog_id new = [n + 1..n']"
    using insert_system_logs_ids [OF assms(1)] by blast
  have ids: "slog_id ` set new = {n + 1..n'}" using arg_cong [OF new(3), of set] by simp
  have "distinct (map slog_id new)" using new(3) by simp
  moreover have "\<forall>l\<in>set new. n < slog_id l \<and> slog_id l \<le> n'"
  proof
    fix l assume "l \<in> set new"
    then have "slog_id l \<in> {n + 1..n'}" using ids by blast
    then show "n < slog_id l \<and> slog_id l \<le> n'" by simp
  qed
  ultimately show ?thesis using assms(2) new by (fastforce simp: system_logs_ok_def)
qed

lemma distinct_window_length:
  assumes "distinct (map slog_id rows)" and "\<forall>l\<in>set rows. m - k < slog_id l \<and> slog_id l \<le> m" and "0 \<le> k"
  shows "int (length rows) \<le> k"
proof -
  have "slog_id ` set rows \<subseteq> {m - k + 1..m}" using assms(2) by auto
  then have "card (slog_id ` set rows) \<le> card {m - k + 1..m}" by (intro card_mono) auto
  moreover have "card (slog_id ` set rows) = length rows"
    using assms(1) distinct_card [of "map slog_id rows"] by simp
  ultimately show ?thesis using assms(3) by simp
qed

section \<open>Properties\<close>

text \<open>Appending run logs is idempotent: appending the same batch again, as an agent does after a
  reconnect, succeeds, stores nothing and reports every row with identity 0.  Identities grow with
  the table and no source sequence of a run is stored twice.\<close>

theorem run_logs_append_is_idempotent:
  assumes ok: "run_logs_ok d" and app: "AppendRunLogs ls d = Inr (out, d')"
  shows "AppendRunLogs ls d' = Inr (map (\<lambda>l. l\<lparr>rlog_id := 0\<rparr>) ls, d') \<and> run_logs_ok d' \<and>
    (\<exists>new. db_run_logs d' = db_run_logs d @ new)"
proof -
  have "AppendRunLogs ls d' = Inr (map (\<lambda>l. l\<lparr>rlog_id := 0\<rparr>) ls, d')"
    by (rule AppendRunLogs_replay) (rule AppendRunLogs_done [OF app])
  with AppendRunLogs_ok [OF app ok] AppendRunLogs_frame [OF app] show ?thesis by blast
qed

theorem run_logs_append_is_idempotent_witness:
  "\<exists>out d'. AppendRunLogs [\<lparr>rlog_id = 0, rlog_source = RunLogSourceAgent, rlog_source_seq = 7, rlog_run_id = ''r1'',
        rlog_timestamp = 0, rlog_level = ''info'', rlog_message = ''m''\<rparr>]
      (empty_db\<lparr>db_runs := [sample_run ''r1'' OpBackup RunRunning]\<rparr>) = Inr (out, d') \<and> length (db_run_logs d') = 1 \<and> run_logs_ok d'"
proof -
  let ?l = "\<lparr>rlog_id = 0, rlog_source = RunLogSourceAgent, rlog_source_seq = 7, rlog_run_id = ''r1'',
        rlog_timestamp = 0, rlog_level = ''info'', rlog_message = ''m''\<rparr>"
  let ?d = "empty_db\<lparr>db_runs := [sample_run ''r1'' OpBackup RunRunning]\<rparr>"
  have ok: "run_logs_ok ?d" by (simp add: run_logs_ok_def)
  have "\<exists>out d'. AppendRunLogs [?l] ?d = Inr (out, d') \<and> length (db_run_logs d') = 1"
    by (simp add: append_run_log_def log_level_ok_def find_run_def Let_def)
  then obtain out d' where d': "AppendRunLogs [?l] ?d = Inr (out, d')" "length (db_run_logs d') = 1" by blast
  from run_logs_append_is_idempotent [OF ok d'(1)] d' show ?thesis by blast
qed

text \<open>The server log never keeps more than 20000 rows after an append, and what an append keeps are
  the rows with the newest identities.\<close>

theorem server_log_is_bounded:
  assumes ok: "system_logs_ok (db_server_logs d) (db_server_log_seq d)" and ne: "logs \<noteq> []"
    and app: "AppendServerLogs logs d = Inr d'"
  shows "length (db_server_logs d') \<le> 20000 \<and> system_logs_ok (db_server_logs d') (db_server_log_seq d') \<and>
    (\<exists>rows. (\<forall>a\<in>set rows. \<forall>b\<in>set (db_server_logs d'). a \<notin> set (db_server_logs d') \<longrightarrow> slog_id a < slog_id b) \<and>
       set (db_server_logs d) \<subseteq> set rows \<and> set (db_server_logs d') \<subseteq> set rows)"
proof -
  from ne app obtain rows n where ins: "insert_system_logs [] (map (\<lambda>l. l\<lparr>slog_source_seq := 0\<rparr>) logs)
      (db_server_log_seq d) (db_server_logs d) = Some (rows, n)"
    and d': "db_server_logs d' = tbl_delete (\<lambda>l. slog_id l \<le> max_log_id rows - processLogRetention) rows"
      "db_server_log_seq d' = n"
    by (auto simp: AppendServerLogs_def split: option.splits prod.splits)
  have rows: "system_logs_ok rows n" by (rule insert_system_logs_ok [OF ins ok])
  have sub: "set (db_server_logs d) \<subseteq> set rows" using insert_system_logs_ids [OF ins] by auto
  have win: "\<forall>l\<in>set (db_server_logs d'). max_log_id rows - 20000 < slog_id l \<and> slog_id l \<le> max_log_id rows"
    using max_log_id_ge by (auto simp: d' processLogRetention_def)
  have dist: "distinct (map slog_id (db_server_logs d'))"
    using rows by (simp add: d' system_logs_ok_def distinct_map_tbl_delete)
  have "int (length (db_server_logs d')) \<le> 20000" by (rule distinct_window_length [OF dist win]) simp
  then have "length (db_server_logs d') \<le> 20000" by simp
  moreover have "system_logs_ok (db_server_logs d') (db_server_log_seq d')"
    using rows dist by (auto simp: d' system_logs_ok_def)
  moreover have "\<forall>a\<in>set rows. \<forall>b\<in>set (db_server_logs d'). a \<notin> set (db_server_logs d') \<longrightarrow> slog_id a < slog_id b"
    using win by (fastforce simp: d' processLogRetention_def)
  ultimately show ?thesis using sub d'(1) by (metis (no_types, lifting) mem_Collect_eq set_tbl_delete subsetI)
qed

theorem server_log_is_bounded_witness:
  "\<exists>d'. AppendServerLogs [\<lparr>slog_id = 0, slog_agent_id = [], slog_source_seq = 0, slog_timestamp = 0, slog_type = [],
        slog_level = ''info'', slog_message = ''m''\<rparr>] empty_db = Inr d' \<and> length (db_server_logs d') \<le> 20000"
proof -
  let ?l = "\<lparr>slog_id = 0, slog_agent_id = [], slog_source_seq = 0, slog_timestamp = 0, slog_type = [],
        slog_level = ''info'', slog_message = ''m''\<rparr>"
  have ok: "system_logs_ok (db_server_logs empty_db) (db_server_log_seq empty_db)" by (simp add: system_logs_ok_def)
  have "\<exists>d'. AppendServerLogs [?l] empty_db = Inr d'"
    by (simp add: AppendServerLogs_def log_level_ok_def)
  then obtain d' where d': "AppendServerLogs [?l] empty_db = Inr d'" by blast
  have "[?l] \<noteq> []" by simp
  from server_log_is_bounded [OF ok this d'] d' show ?thesis by blast
qed

end
