(* ===== verification/Store_Restore.thy ===== *)
theory Store_Restore
  imports Store_Runs
begin

text \<open>
  Restore requests (\<open>store/sqlite.go\<close>, "Restore requests"): their creation under the per-target
  and the global occupancy checks, the phases a request goes through, the atomic end of a restore
  run, and the manual resolution of a blocked restore.
\<close>

section \<open>Creating\<close>

definition restore_row :: "restore_request \<Rightarrow> restore_request" where
  "restore_row rr = rr\<lparr>rr_created_at := sec (rr_created_at rr)\<rparr>"

definition activeRestorePhases :: "restore_phase list" where
  "activeRestorePhases =
     [RestorePhaseQueued, RestorePhasePreBackup, RestorePhaseRestoring, RestorePhaseRollingBack,
      RestorePhaseCancelling]"

definition filesystemTargetBusy :: "db \<Rightarrow> restore_request \<Rightarrow> bool" where
  "filesystemTargetBusy d rr =
     (case decode_target_path (rr_target_json rr) of
        None \<Rightarrow> False
      | Some want \<Rightarrow>
          if want = [] then False
          else case find_run d (rr_run_id rr) of
            None \<Rightarrow> False
          | Some mine \<Rightarrow>
              list_ex (\<lambda>x. rr_kind x = KindFilesystem \<and> rr_phase x \<in> set activeRestorePhases \<and>
                  (case find_run d (rr_run_id x) of
                     None \<Rightarrow> False | Some r \<Rightarrow> run_agent_id r = run_agent_id mine) \<and>
                  (case decode_target_path (rr_target_json x) of
                     None \<Rightarrow> False | Some other \<Rightarrow> filesystemTargetsOverlap want other))
                (db_restores d))"

text \<open>The insertion of a request row: the key is unique, and \<open>run_id\<close> names a run.\<close>

definition insert_restore :: "restore_request \<Rightarrow> db \<Rightarrow> store_err + db" where
  "insert_restore rr d =
     (if list_ex (\<lambda>x. rr_id x = rr_id rr) (db_restores d)
      then Inl (ErrSql ''UNIQUE constraint failed: restore_requests.id'')
      else if find_run d (rr_run_id rr) = None then Inl (ErrSql ''FOREIGN KEY constraint failed'')
      else Inr (d\<lparr>db_restores := db_restores d @ [restore_row rr]\<rparr>))"

definition CreateRestoreRequest :: "restore_request \<Rightarrow> db \<Rightarrow> store_err + db" where
  "CreateRestoreRequest rr d =
     (if rr_kind rr = KindFilesystem \<and> filesystemTargetBusy d rr then Inl ErrRestoreTargetBusy
      else insert_restore rr d)"

definition find_restore :: "db \<Rightarrow> string \<Rightarrow> restore_request option" where
  "find_restore d i = tbl_get (\<lambda>rr. rr_id rr = i) (db_restores d)"

definition GetRestoreRequest :: "db \<Rightarrow> string \<Rightarrow> store_err + restore_request" where
  "GetRestoreRequest d i = (case find_restore d i of None \<Rightarrow> Inl ErrNotFound | Some rr \<Rightarrow> Inr rr)"

definition GetRestoreRequestByRunID :: "db \<Rightarrow> string \<Rightarrow> store_err + restore_request" where
  "GetRestoreRequestByRunID d rid =
     (case order_desc rr_created_at (filter (\<lambda>rr. rr_run_id rr = rid) (db_restores d)) of
        [] \<Rightarrow> Inl ErrNotFound | rr # _ \<Rightarrow> Inr rr)"

definition ListRestoreRequests :: "db \<Rightarrow> int \<Rightarrow> restore_request list" where
  "ListRestoreRequests d n = take (limit_or 50 n) (order_desc rr_created_at (db_restores d))"

section \<open>The global occupancy of database restores\<close>

definition databaseRestoreKinds :: "kind list" where
  "databaseRestoreKinds = [KindPostgreSQL, KindMySQL, KindMongoDB, KindSQLite]"

definition occupying :: "restore_request \<Rightarrow> bool" where
  "occupying rr \<longleftrightarrow> rr_kind rr \<in> set databaseRestoreKinds \<and> rr_phase rr \<notin> set RestoreSafePhases"

text \<open>The oldest occupying request; the join drops a request whose run is gone.\<close>

definition active_database_restore :: "db \<Rightarrow> restore_request option" where
  "active_database_restore d =
     (case sort_key rr_created_at
         (filter (\<lambda>rr. occupying rr \<and> find_run d (rr_run_id rr) \<noteq> None) (db_restores d)) of
        [] \<Rightarrow> None | rr # _ \<Rightarrow> Some rr)"

definition CreateDatabaseRestoreRun :: "instant \<Rightarrow> run \<Rightarrow> restore_request \<Rightarrow> db \<Rightarrow> store_err + db" where
  "CreateDatabaseRestoreRun now r rr d =
     (case active_database_restore d of
        Some act \<Rightarrow>
          let key = (case find_run d (rr_run_id act) of Some ar \<Rightarrow> run_dedup_key ar | None \<Rightarrow> []) in
          if key \<noteq> [] \<and> key = run_dedup_key r \<and> \<not> RestorePhaseNeedsManualResolution (rr_phase act)
          then Inl ErrDuplicateRun else Inl ErrDatabaseRestoreBusy
      | None \<Rightarrow> and_then (insertRunTx now r d) (insert_restore rr))"

definition ActiveDatabaseRestoreRunID :: "db \<Rightarrow> string" where
  "ActiveDatabaseRestoreRunID d =
     (case sort_key rr_created_at (filter occupying (db_restores d)) of [] \<Rightarrow> [] | rr # _ \<Rightarrow> rr_run_id rr)"

definition restore_of_repo :: "db \<Rightarrow> string \<Rightarrow> restore_request \<Rightarrow> bool" where
  "restore_of_repo d repo rr \<longleftrightarrow>
     (case find_run d (rr_run_id rr) of None \<Rightarrow> False | Some r \<Rightarrow> null_eq (run_repository_id r) repo) \<and>
     rr_phase rr \<notin> set RestoreSafePhases"

definition RepositoryRestoreBlocked :: "db \<Rightarrow> string \<Rightarrow> string \<Rightarrow> bool" where
  "RepositoryRestoreBlocked d repo except \<longleftrightarrow>
     list_ex (\<lambda>rr. restore_of_repo d repo rr \<and> (except \<noteq> [] \<longrightarrow> rr_run_id rr \<noteq> except)) (db_restores d)"

definition ProtectedRestoreSnapshotIDs :: "db \<Rightarrow> string \<Rightarrow> string list" where
  "ProtectedRestoreSnapshotIDs d repo =
     filter (\<lambda>s. s \<noteq> [])
       (concat (map (\<lambda>rr. [rr_snapshot_id rr, rr_rollback_snapshot_id rr])
          (filter (restore_of_repo d repo) (db_restores d))))"

section \<open>Phases\<close>

text \<open>The phases that \<open>UpdateRestorePhase\<close> and \<open>RequestRestoreStop\<close> leave alone.\<close>

definition blocked_phases :: "restore_phase list" where
  "blocked_phases = RestoreSafePhases @
     [RestorePhaseRollbackFailed, RestorePhaseManualRecoveryNeeded, RestorePhaseManualRecoveryDone]"

definition UpdateRestorePhase :: "string \<Rightarrow> restore_phase \<Rightarrow> db \<Rightarrow> db" where
  "UpdateRestorePhase rid phase d =
     d\<lparr>db_restores := tbl_update (\<lambda>rr. rr_run_id rr = rid \<and> rr_phase rr \<notin> set blocked_phases)
         (\<lambda>rr. rr\<lparr>rr_phase := phase\<rparr>) (db_restores d)\<rparr>"

definition RequestRestoreStop :: "string \<Rightarrow> instant \<Rightarrow> db \<Rightarrow> db" where
  "RequestRestoreStop rid deadline d =
     (let hit = (\<lambda>rr. rr_run_id rr = rid \<and> rr_phase rr \<notin> set blocked_phases) in
      if tbl_count hit (db_restores d) = 0 then d
      else d\<lparr>db_restores := tbl_update hit (\<lambda>rr. rr\<lparr>rr_phase := RestorePhaseCancelling\<rparr>) (db_restores d),
             db_runs := tbl_update (\<lambda>r. run_id r = rid)
               (\<lambda>r. r\<lparr>run_lease_expires_at := Some (sec deadline)\<rparr>) (db_runs d)\<rparr>)"

definition UpdateRestoreRollbackSnapshot :: "string \<Rightarrow> string \<Rightarrow> db \<Rightarrow> db" where
  "UpdateRestoreRollbackSnapshot rid snap d =
     (if snap = [] then d
      else d\<lparr>db_restores := tbl_update (\<lambda>rr. rr_run_id rr = rid \<and> rr_rollback_snapshot_id rr = [])
               (\<lambda>rr. rr\<lparr>rr_rollback_snapshot_id := snap\<rparr>) (db_restores d)\<rparr>)"

section \<open>The end of a restore\<close>

record finish_input =
  fin_run_id :: string
  fin_from_statuses :: "run_status list"
  fin_to_status :: run_status
  fin_error_code :: string
  fin_error_message :: string
  fin_snapshot_id :: string
  fin_result_json :: json
  fin_phase :: "restore_phase option"
  fin_rollback_snapshot_id :: string
  fin_finished_at :: instant

definition next_phase :: "restore_phase \<Rightarrow> restore_phase option \<Rightarrow> restore_phase" where
  "next_phase cur new =
     (case new of
        None \<Rightarrow> cur
      | Some phase \<Rightarrow>
          if cur = RestorePhaseManualRecoveryDone then cur
          else if RestorePhaseReleasesOccupancy cur \<and> cur \<noteq> phase then cur
          else if RestorePhaseNeedsManualResolution cur then cur
          else phase)"

definition updateRestoreRequestTx :: "finish_input \<Rightarrow> db \<Rightarrow> db" where
  "updateRestoreRequestTx inp d =
     (case tbl_get (\<lambda>rr. rr_run_id rr = fin_run_id inp) (db_restores d) of
        None \<Rightarrow> d
      | Some cur \<Rightarrow>
          let snap = if_empty (fin_rollback_snapshot_id inp) (rr_rollback_snapshot_id cur);
              phase = next_phase (rr_phase cur) (fin_phase inp)
          in d\<lparr>db_restores := tbl_update (\<lambda>rr. rr_run_id rr = fin_run_id inp)
                 (\<lambda>rr. rr\<lparr>rr_phase := phase, rr_rollback_snapshot_id := snap\<rparr>) (db_restores d)\<rparr>)"

definition finish_columns :: "finish_input \<Rightarrow> run \<Rightarrow> run" where
  "finish_columns inp r =
     r\<lparr>run_status := fin_to_status inp, run_finished_at := Some (sec (fin_finished_at inp)),
       run_error_code := fin_error_code inp, run_error_message := fin_error_message inp,
       run_snapshot_id := if_empty (fin_snapshot_id inp) (run_snapshot_id r),
       run_progress := if_no_json (fin_result_json inp) (run_progress r),
       run_lease_expires_at := None\<rparr>"

definition FinishRestoreRun :: "finish_input \<Rightarrow> db \<Rightarrow> store_err + db" where
  "FinishRestoreRun inp d =
     (case find_run d (fin_run_id inp) of
        None \<Rightarrow> Inl ErrNotFound
      | Some r \<Rightarrow>
          if isTerminal (run_status r) \<and> run_status r \<noteq> fin_to_status inp
          then Inr (updateRestoreRequestTx inp d)
          else if isTerminal (run_status r) then Inr (updateRestoreRequestTx inp d)
          else
            let froms = (if fin_from_statuses inp = [] then [RunQueued, RunDispatched, RunRunning]
                         else fin_from_statuses inp);
                hit = (\<lambda>x. run_id x = fin_run_id inp \<and> run_status x \<in> set froms)
            in if tbl_count hit (db_runs d) = 0 then Inl ErrInvalidTransition
               else Inr (updateRestoreRequestTx inp
                      (d\<lparr>db_runs := tbl_update hit (finish_columns inp) (db_runs d)\<rparr>)))"

text \<open>The detail is put together with \<open>%q\<close>, which writes a text as a JSON string does, up to the escapes
  of control characters; it is kept as the object here.\<close>

definition resolve_detail :: "string \<Rightarrow> restore_phase \<Rightarrow> string \<Rightarrow> json" where
  "resolve_detail rid phase note =
     JObj [(''run_id'', JStr rid), (''phase'', JStr (phase_text phase)), (''note'', JStr note)]"

definition ResolveRestoreRequest ::
    "string \<Rightarrow> string \<Rightarrow> string \<Rightarrow> string \<Rightarrow> string \<Rightarrow> instant \<Rightarrow> db \<Rightarrow> store_err + db" where
  "ResolveRestoreRequest newid reqid rid actor note at d =
     (case find_restore d reqid of
        None \<Rightarrow> Inl ErrNotFound
      | Some cur \<Rightarrow>
          if rid \<noteq> [] \<and> rr_run_id cur \<noteq> rid then Inl ErrRestoreConflict
          else if rr_phase cur \<noteq> RestorePhaseManualRecoveryNeeded \<and> rr_phase cur \<noteq> RestorePhaseRollbackFailed
          then Inl ErrRestoreConflict
          else if list_ex (\<lambda>a. aud_id a = newid) (db_audits d)
          then Inl (ErrSql ''UNIQUE constraint failed: audit_events.id'')
          else Inr (d\<lparr>db_restores := tbl_update (\<lambda>rr. rr_id rr = reqid)
                         (\<lambda>rr. rr\<lparr>rr_phase := RestorePhaseManualRecoveryDone\<rparr>) (db_restores d),
                      db_runs := tbl_update (\<lambda>r. run_id r = rr_run_id cur \<and> \<not> isTerminal (run_status r))
                         (\<lambda>r. r\<lparr>run_status := RunFailed, run_finished_at := Some (sec at),
                                run_error_code := phase_text (rr_phase cur),
                                run_error_message := ''operator resolved blocked restore: '' @ note,
                                run_lease_expires_at := None\<rparr>) (db_runs d),
                      db_audits := db_audits d @
                         [\<lparr>aud_id = newid, aud_occurred_at = sec at, aud_actor_type = ''admin'',
                           aud_actor_id = actor, aud_action = ''restore.resolve'',
                           aud_resource_type = ''restore_request'', aud_resource_id = reqid,
                           aud_detail = resolve_detail (rr_run_id cur) (rr_phase cur) note\<rparr>]\<rparr>))"

section \<open>Lemmas: the request table\<close>

text \<open>
  The request table is well formed when identities are unique, a run has at most one request and
  every request names a run.  At most one request occupies the database restores.
\<close>

definition restores_ok :: "run list \<Rightarrow> restore_request list \<Rightarrow> bool" where
  "restores_ok rs rrs \<longleftrightarrow>
     distinct (map rr_id rrs) \<and> distinct (map rr_run_id rrs) \<and>
     (\<forall>rr\<in>set rrs. \<exists>r\<in>set rs. run_id r = rr_run_id rr)"

definition exclusive :: "restore_request list \<Rightarrow> bool" where
  "exclusive rrs \<longleftrightarrow> length (filter occupying rrs) \<le> 1"

lemma not_safe: "p \<notin> set RestoreSafePhases \<longleftrightarrow> \<not> RestorePhaseReleasesOccupancy p"
  by (simp add: safe_phases_agree)

lemma blocked_iff: "p \<in> set blocked_phases \<longleftrightarrow> RestorePhaseIsTerminal p"
  by (cases p) (auto simp: blocked_phases_def RestoreSafePhases_def RestorePhaseIsTerminal_def
      RestorePhaseReleasesOccupancy_def)

lemma occupying_phase: "occupying rr \<Longrightarrow> \<not> RestorePhaseReleasesOccupancy (rr_phase rr)"
  by (simp add: occupying_def safe_phases_agree)

lemma restores_ok_find_run:
  assumes "restores_ok (db_runs d) (db_restores d)" and "rr \<in> set (db_restores d)"
  shows "find_run d (rr_run_id rr) \<noteq> None"
  using assms by (auto simp: restores_ok_def find_run_def tbl_get_None)

lemma restores_ok_run_unique:
  assumes "restores_ok rs rrs" and "a \<in> set rrs" "b \<in> set rrs" and "rr_run_id a = rr_run_id b"
  shows "a = b"
  using assms by (auto simp: restores_ok_def distinct_map dest: inj_onD)

lemma active_database_restore_None:
  assumes "restores_ok (db_runs d) (db_restores d)"
  shows "active_database_restore d = None \<longleftrightarrow> filter occupying (db_restores d) = []"
proof -
  have "filter (\<lambda>rr. occupying rr \<and> find_run d (rr_run_id rr) \<noteq> None) (db_restores d) =
        filter occupying (db_restores d)"
    using restores_ok_find_run [OF assms] by (intro filter_cong) auto
  then have eq: "active_database_restore d =
      (case sort_key rr_created_at (filter occupying (db_restores d)) of [] \<Rightarrow> None | rr # _ \<Rightarrow> Some rr)"
    by (simp add: active_database_restore_def)
  have "length (sort_key rr_created_at (filter occupying (db_restores d))) = length (filter occupying (db_restores d))"
    by simp
  with eq show ?thesis
    by (cases "sort_key rr_created_at (filter occupying (db_restores d))") auto
qed

text \<open>An update of phases that never makes a released request occupying again.\<close>

definition never_reoccupies :: "(restore_request \<Rightarrow> bool) \<Rightarrow> (restore_request \<Rightarrow> restore_request) \<Rightarrow> restore_request list \<Rightarrow> bool" where
  "never_reoccupies P f rrs \<longleftrightarrow>
     (\<forall>rr\<in>set rrs. P rr \<longrightarrow> rr_id (f rr) = rr_id rr \<and> rr_run_id (f rr) = rr_run_id rr \<and>
        rr_kind (f rr) = rr_kind rr \<and>
        (RestorePhaseReleasesOccupancy (rr_phase rr) \<longrightarrow> RestorePhaseReleasesOccupancy (rr_phase (f rr))))"

lemma exclusive_update:
  assumes "exclusive rrs" and "never_reoccupies P f rrs"
  shows "exclusive (tbl_update P f rrs)"
proof -
  have "length (filter occupying (tbl_update P f rrs)) \<le> length (filter occupying rrs)"
    using assms(2) by (induction rrs) (auto simp: never_reoccupies_def occupying_def safe_phases_agree)
  with assms(1) show ?thesis by (simp add: exclusive_def)
qed

lemma restores_ok_update:
  assumes "restores_ok rs rrs" and "never_reoccupies P f rrs"
  shows "restores_ok rs (tbl_update P f rrs)"
proof -
  have "map rr_id (tbl_update P f rrs) = map rr_id rrs" "map rr_run_id (tbl_update P f rrs) = map rr_run_id rrs"
    using assms(2) by (induction rrs) (auto simp: never_reoccupies_def)
  moreover have "\<exists>y\<in>set rrs. rr_run_id x = rr_run_id y" if "x \<in> set (tbl_update P f rrs)" for x
    using that assms(2) by (auto simp: set_tbl_update never_reoccupies_def)
  ultimately show ?thesis
    using assms(1) by (fastforce simp: restores_ok_def)
qed

lemma restores_ok_runs_mono:
  assumes "restores_ok rs rrs" and "run_id ` set rs \<subseteq> run_id ` set rs'"
  shows "restores_ok rs' rrs"
  using assms unfolding restores_ok_def by (metis (no_types, lifting) image_iff subsetD)

lemma run_ids_update:
  "(\<And>r. P r \<Longrightarrow> run_id (f r) = run_id r) \<Longrightarrow> run_id ` set (tbl_update P f rs) = run_id ` set rs"
  by (metis (mono_tags) list.set_map map_tbl_update)

lemma updateRequest_never:
  assumes ok: "restores_ok rs rrs" and cur: "tbl_get (\<lambda>rr. rr_run_id rr = rid) rrs = Some cur"
  shows "never_reoccupies (\<lambda>rr. rr_run_id rr = rid)
           (\<lambda>rr. rr\<lparr>rr_phase := next_phase (rr_phase cur) p, rr_rollback_snapshot_id := s\<rparr>) rrs"
proof -
  have "rr = cur" if "rr \<in> set rrs" "rr_run_id rr = rid" for rr
    using restores_ok_run_unique [OF ok that(1)] tbl_get_Some [OF cur] that(2) by auto
  then show ?thesis
    by (auto simp: never_reoccupies_def next_phase_def split: option.splits)
qed

section \<open>Lemmas: what each operation keeps\<close>

abbreviation restore_inv :: "db \<Rightarrow> bool" where
  "restore_inv d \<equiv> restores_ok (db_runs d) (db_restores d) \<and> exclusive (db_restores d)"

lemma insert_restore_iff:
  "insert_restore rr d = Inr d' \<longleftrightarrow>
     (\<forall>x\<in>set (db_restores d). rr_id x \<noteq> rr_id rr) \<and> find_run d (rr_run_id rr) \<noteq> None \<and>
     d' = d\<lparr>db_restores := db_restores d @ [restore_row rr]\<rparr>"
  by (auto simp: insert_restore_def list_ex_iff)

lemma restore_row_keeps [simp]:
  "rr_id (restore_row rr) = rr_id rr" "rr_run_id (restore_row rr) = rr_run_id rr"
  "rr_kind (restore_row rr) = rr_kind rr" "rr_phase (restore_row rr) = rr_phase rr"
  "rr_target_json (restore_row rr) = rr_target_json rr" "rr_snapshot_id (restore_row rr) = rr_snapshot_id rr"
  by (simp_all add: restore_row_def)

lemma occupying_row [simp]: "occupying (restore_row rr) = occupying rr"
  by (simp add: occupying_def)

lemma insert_restore_inv:
  assumes ins: "insert_restore rr d = Inr d'" and inv: "restore_inv d"
    and fresh: "\<forall>x\<in>set (db_restores d). rr_run_id x \<noteq> rr_run_id rr"
    and excl: "occupying rr \<Longrightarrow> filter occupying (db_restores d) = []"
  shows "restore_inv d'"
proof
  from ins obtain r where "r \<in> set (db_runs d)" "run_id r = rr_run_id rr"
    by (auto simp: insert_restore_iff dest!: find_run_in)
  with ins inv fresh show "restores_ok (db_runs d') (db_restores d')"
    by (auto simp: insert_restore_iff restores_ok_def)
  show "exclusive (db_restores d')"
    using ins inv excl by (auto simp: insert_restore_iff exclusive_def)
qed

lemma CreateRestoreRequest_inv [inv_intros]:
  assumes "CreateRestoreRequest rr d = Inr d'" and "restore_inv d"
    and "\<forall>x\<in>set (db_restores d). rr_run_id x \<noteq> rr_run_id rr" and "\<not> occupying rr"
  shows "restore_inv d'"
  using assms insert_restore_inv [of rr d d']
  by (auto simp: CreateRestoreRequest_def split: if_splits)

lemma insertRun_restore_inv [inv_intros]:
  assumes "insertRunTx now r d = Inr d'" and "restore_inv d"
  shows "restore_inv d'"
proof -
  obtain cs ts where d': "d' = d\<lparr>db_runs := db_runs d @ [run_row r], db_cache_states := cs, db_tree_cache := ts\<rparr>"
    using insertRun_frame [OF assms(1)] by blast
  show ?thesis unfolding d' using assms(2) by (auto simp: restores_ok_def)
qed

lemma CreateDatabaseRestoreRun_iff:
  assumes "restores_ok (db_runs d) (db_restores d)"
  shows "CreateDatabaseRestoreRun now r rr d = Inr d' \<longleftrightarrow>
    filter occupying (db_restores d) = [] \<and>
    (\<exists>d1. insertRunTx now r d = Inr d1 \<and> insert_restore rr d1 = Inr d')"
  using active_database_restore_None [OF assms]
  by (auto simp: CreateDatabaseRestoreRun_def and_then_Inr Let_def split: option.splits if_splits)

lemma run_row_id [simp]: "run_id (run_row r) = run_id r" "run_status (run_row r) = run_status r"
  "run_dedup_key (run_row r) = run_dedup_key r" "run_plan_id (run_row r) = run_plan_id r"
  "run_operation (run_row r) = run_operation r" "run_repository_id (run_row r) = run_repository_id r"
  "run_agent_id (run_row r) = run_agent_id r"
  by (simp_all add: run_row_def)

lemma CreateDatabaseRestoreRun_inv [inv_intros]:
  assumes c: "CreateDatabaseRestoreRun now r rr d = Inr d'" and inv: "restore_inv d"
    and same: "rr_run_id rr = run_id r"
  shows "restore_inv d'"
proof -
  from inv c obtain d1 where occ: "filter occupying (db_restores d) = []"
    and d1: "insertRunTx now r d = Inr d1" and ins: "insert_restore rr d1 = Inr d'"
    by (auto simp: CreateDatabaseRestoreRun_iff)
  obtain cs ts where e: "d1 = d\<lparr>db_runs := db_runs d @ [run_row r], db_cache_states := cs, db_tree_cache := ts\<rparr>"
    using insertRun_frame [OF d1] by blast
  have "\<forall>x\<in>set (db_runs d). run_id x \<noteq> run_id r"
    using d1 by (auto simp: insertRun_iff run_conflict_def list_ex_iff)
  then have "\<forall>x\<in>set (db_restores d). rr_run_id x \<noteq> rr_run_id rr"
    using inv same unfolding restores_ok_def by metis
  then show ?thesis
    using insertRun_restore_inv [OF d1 inv] occ
    by (intro insert_restore_inv [OF ins]) (auto simp: e)
qed

lemma UpdateRestorePhase_inv [inv_intros]:
  "restore_inv d \<Longrightarrow> restore_inv (UpdateRestorePhase rid p d)"
proof -
  have "never_reoccupies (\<lambda>rr. rr_run_id rr = rid \<and> rr_phase rr \<notin> set blocked_phases)
         (\<lambda>rr. rr\<lparr>rr_phase := q\<rparr>) rrs" for q rrs
    by (auto simp: never_reoccupies_def blocked_iff RestorePhaseIsTerminal_def)
  then show "restore_inv d \<Longrightarrow> ?thesis"
    by (auto simp: UpdateRestorePhase_def intro: exclusive_update restores_ok_update)
qed

lemma RequestRestoreStop_inv [inv_intros]:
  assumes "restore_inv d" shows "restore_inv (RequestRestoreStop rid at d)"
proof -
  have n: "never_reoccupies (\<lambda>rr. rr_run_id rr = rid \<and> rr_phase rr \<notin> set blocked_phases)
         (\<lambda>rr. rr\<lparr>rr_phase := q\<rparr>) rrs" for q rrs
    by (auto simp: never_reoccupies_def blocked_iff RestorePhaseIsTerminal_def)
  have "run_id ` set (tbl_update (\<lambda>r. run_id r = rid) (\<lambda>r. r\<lparr>run_lease_expires_at := Some (sec at)\<rparr>) (db_runs d)) =
        run_id ` set (db_runs d)" by (rule run_ids_update) simp
  then show ?thesis
    using assms exclusive_update [OF _ n] restores_ok_runs_mono [OF restores_ok_update [OF _ n]]
    by (auto simp: RequestRestoreStop_def Let_def)
qed

lemma UpdateRollback_inv [inv_intros]:
  "restore_inv d \<Longrightarrow> restore_inv (UpdateRestoreRollbackSnapshot rid s d)"
proof -
  have "never_reoccupies (\<lambda>rr. rr_run_id rr = rid \<and> rr_rollback_snapshot_id rr = [])
         (\<lambda>rr. rr\<lparr>rr_rollback_snapshot_id := s\<rparr>) rrs" for rrs
    by (auto simp: never_reoccupies_def)
  then show "restore_inv d \<Longrightarrow> ?thesis"
    by (auto simp: UpdateRestoreRollbackSnapshot_def intro: exclusive_update restores_ok_update)
qed

lemma updateRestoreRequest_inv:
  assumes "restore_inv d" shows "restore_inv (updateRestoreRequestTx inp d)"
proof (cases "tbl_get (\<lambda>rr. rr_run_id rr = fin_run_id inp) (db_restores d)")
  case None
  with assms show ?thesis by (simp add: updateRestoreRequestTx_def)
next
  case (Some cur)
  with assms updateRequest_never [OF conjunct1 [OF assms] Some]
  show ?thesis
    by (auto simp: updateRestoreRequestTx_def Let_def intro: exclusive_update restores_ok_update)
qed

lemma updateRestoreRequest_runs [simp]: "db_runs (updateRestoreRequestTx inp d) = db_runs d"
  by (simp add: updateRestoreRequestTx_def Let_def split: option.splits)

lemma FinishRestoreRun_cases:
  assumes "FinishRestoreRun inp d = Inr d'"
  obtains r where "find_run d (fin_run_id inp) = Some r" "isTerminal (run_status r)"
      "d' = updateRestoreRequestTx inp d"
    | r P where "find_run d (fin_run_id inp) = Some r" "\<not> isTerminal (run_status r)"
      "d' = updateRestoreRequestTx inp (d\<lparr>db_runs := tbl_update P (finish_columns inp) (db_runs d)\<rparr>)"
      "P = (\<lambda>x. run_id x = fin_run_id inp \<and> run_status x \<in>
              set (if fin_from_statuses inp = [] then [RunQueued, RunDispatched, RunRunning]
                   else fin_from_statuses inp))"
      "\<exists>x\<in>set (db_runs d). P x"
  using assms
  by (auto simp: FinishRestoreRun_def Let_def tbl_count_0 split: option.splits if_splits)

lemma FinishRestoreRun_inv [inv_intros]:
  assumes f: "FinishRestoreRun inp d = Inr d'" and inv: "restore_inv d"
  shows "restore_inv d'"
  using f
proof (cases rule: FinishRestoreRun_cases)
  case (1 r)
  show ?thesis unfolding 1(3) by (rule updateRestoreRequest_inv [OF inv])
next
  case (2 r P)
  have ids: "run_id ` set (tbl_update P (finish_columns inp) (db_runs d)) = run_id ` set (db_runs d)"
    by (rule run_ids_update) (simp add: finish_columns_def)
  have "restore_inv (d\<lparr>db_runs := tbl_update P (finish_columns inp) (db_runs d)\<rparr>)"
    using inv restores_ok_runs_mono [of "db_runs d" "db_restores d"] ids by auto
  then show ?thesis unfolding 2(3) by (rule updateRestoreRequest_inv)
qed

lemma FinishRestoreRun_runs_ok [inv_intros]:
  assumes f: "FinishRestoreRun inp d = Inr d'" and ok: "runs_ok (db_runs d)"
  shows "runs_ok (db_runs d')"
  using f
proof (cases rule: FinishRestoreRun_cases)
  case (1 r)
  with ok show ?thesis by simp
next
  case (2 r P)
  let ?P = "\<lambda>x. x \<in> set (db_runs d) \<and> P x"
  have same: "tbl_update P g (db_runs d) = tbl_update ?P g (db_runs d)" for g
    by (simp add: tbl_update_def)
  have "\<not> isTerminal (run_status x)" if "?P x" for x
  proof -
    have "x = r"
      using that find_run_in [OF 2(1)] by (intro runs_ok_id_unique [OF ok]) (auto simp: 2(4))
    with 2(2) show ?thesis by simp
  qed
  then have "keeps_run ?P (finish_columns inp)"
    by (auto simp: keeps_run_def finish_columns_def)
  then show ?thesis
    unfolding 2(3) same using runs_ok_update [OF ok] by simp
qed

lemma Resolve_iff:
  "ResolveRestoreRequest newid reqid rid actor note at d = Inr d' \<longleftrightarrow>
     (\<exists>cur. find_restore d reqid = Some cur \<and> (rid = [] \<or> rr_run_id cur = rid) \<and>
        RestorePhaseNeedsManualResolution (rr_phase cur) \<and> (\<forall>a\<in>set (db_audits d). aud_id a \<noteq> newid) \<and>
        d' = d\<lparr>db_restores := tbl_update (\<lambda>rr. rr_id rr = reqid)
                         (\<lambda>rr. rr\<lparr>rr_phase := RestorePhaseManualRecoveryDone\<rparr>) (db_restores d),
               db_runs := tbl_update (\<lambda>r. run_id r = rr_run_id cur \<and> \<not> isTerminal (run_status r))
                         (\<lambda>r. r\<lparr>run_status := RunFailed, run_finished_at := Some (sec at),
                                run_error_code := phase_text (rr_phase cur),
                                run_error_message := ''operator resolved blocked restore: '' @ note,
                                run_lease_expires_at := None\<rparr>) (db_runs d),
               db_audits := db_audits d @
                         [\<lparr>aud_id = newid, aud_occurred_at = sec at, aud_actor_type = ''admin'',
                           aud_actor_id = actor, aud_action = ''restore.resolve'',
                           aud_resource_type = ''restore_request'', aud_resource_id = reqid,
                           aud_detail = resolve_detail (rr_run_id cur) (rr_phase cur) note\<rparr>]\<rparr>)"
  unfolding ResolveRestoreRequest_def RestorePhaseNeedsManualResolution_def list_ex_iff
  by (cases "find_restore d reqid") auto

lemma Resolve_inv [inv_intros]:
  assumes "ResolveRestoreRequest newid reqid rid actor note at d = Inr d'" and inv: "restore_inv d"
  shows "restore_inv d'"
proof -
  have n: "never_reoccupies (\<lambda>rr. rr_id rr = reqid) (\<lambda>rr. rr\<lparr>rr_phase := RestorePhaseManualRecoveryDone\<rparr>) rrs" for rrs
    by (auto simp: never_reoccupies_def RestorePhaseReleasesOccupancy_def)
  have ids: "run_id ` set (tbl_update P (\<lambda>r. r\<lparr>run_status := s, run_finished_at := f, run_error_code := c,
      run_error_message := m, run_lease_expires_at := l\<rparr>) (db_runs d)) = run_id ` set (db_runs d)" for P s f c m l
    by (rule run_ids_update) simp
  from assms(1) show ?thesis
    unfolding Resolve_iff
    using inv exclusive_update [OF _ n] restores_ok_runs_mono [OF restores_ok_update [OF _ n]] ids by auto
qed

lemma Resolve_runs_ok [inv_intros]:
  assumes "ResolveRestoreRequest newid reqid rid actor note at d = Inr d'" and "runs_ok (db_runs d)"
  shows "runs_ok (db_runs d')"
  using assms by (auto simp: Resolve_iff keeps_run_def intro!: runs_ok_update)

lemma delete_runs_restore_inv [inv_intros]:
  assumes "delete_runs P d = Inr d'" and "restore_inv d"
  shows "restore_inv d'"
  using assms unfolding delete_runs_iff Let_def
  by (fastforce simp: restores_ok_def)

lemma delete_restores_inv:
  assumes "restore_inv d"
  shows "restore_inv (d\<lparr>db_restores := tbl_delete P (db_restores d)\<rparr>)"
proof -
  have "length (filter occupying (tbl_delete P xs)) \<le> length (filter occupying xs)" for xs
    by (induction xs) auto
  then show ?thesis
    using assms by (auto simp: restores_ok_def exclusive_def distinct_map_tbl_delete intro: le_trans)
qed

lemma prune_cases:
  obtains e where "delete_runs (old_run (sec cutoff))
        (d\<lparr>db_restores := tbl_delete (old_request (sec cutoff)) (db_restores d)\<rparr>) = Inl e"
      "snd (fst (PruneHistory cutoff d)) = Some e"
      "snd (PruneHistory cutoff d) = d\<lparr>db_restores := tbl_delete (old_request (sec cutoff)) (db_restores d)\<rparr>"
  | d2 where "delete_runs (old_run (sec cutoff))
        (d\<lparr>db_restores := tbl_delete (old_request (sec cutoff)) (db_restores d)\<rparr>) = Inr d2"
      "snd (fst (PruneHistory cutoff d)) = None"
      "snd (PruneHistory cutoff d) = d2\<lparr>db_audits := tbl_delete (old_audit (sec cutoff)) (db_audits d2)\<rparr>"
  by (cases "delete_runs (old_run (sec cutoff))
        (d\<lparr>db_restores := tbl_delete (old_request (sec cutoff)) (db_restores d)\<rparr>)")
    (simp_all add: PruneHistory_def Let_def)

lemma PruneHistory_restore_inv [inv_intros]:
  assumes "restore_inv d" shows "restore_inv (snd (PruneHistory cutoff d))"
proof (cases rule: prune_cases [of cutoff d])
  case (1 e)
  show ?thesis unfolding 1(3) by (rule delete_restores_inv [OF assms])
next
  case (2 d2)
  from delete_runs_restore_inv [OF 2(1) delete_restores_inv [OF assms]] 2(3) show ?thesis by simp
qed

lemma PruneHistory_runs_ok [inv_intros]:
  assumes "runs_ok (db_runs d)" shows "runs_ok (db_runs (snd (PruneHistory cutoff d)))"
proof (cases rule: prune_cases [of cutoff d])
  case (1 e)
  then show ?thesis using assms by simp
next
  case (2 d2)
  from delete_runs_runs_ok [OF _ 2(1)] 2(3) assms show ?thesis by simp
qed

section \<open>Lemmas: reading back\<close>

lemma find_restore_in: "find_restore d i = Some rr \<Longrightarrow> rr \<in> set (db_restores d) \<and> rr_id rr = i"
  by (auto simp: find_restore_def dest: tbl_get_Some)

lemma find_restore_unique:
  "restores_ok (db_runs d) (db_restores d) \<Longrightarrow> rr \<in> set (db_restores d) \<Longrightarrow> find_restore d (rr_id rr) = Some rr"
  unfolding find_restore_def restores_ok_def by (intro tbl_get_unique) auto

lemma exclusive_cases:
  assumes "exclusive rrs"
  obtains "filter occupying rrs = []" | act where "filter occupying rrs = [act]" "act \<in> set rrs" "occupying act"
proof (cases "filter occupying rrs")
  case (Cons act rest)
  then have "act \<in> set (filter occupying rrs)" by simp
  then have "act \<in> set rrs" "occupying act" by simp_all
  moreover have "filter occupying rrs = [act]" using Cons assms by (simp add: exclusive_def)
  ultimately show ?thesis using that(2) by blast
qed (use that in auto)

lemma exclusive_unique:
  assumes "exclusive rrs" and "x \<in> set rrs" "occupying x" and "y \<in> set rrs" "occupying y"
  shows "x = y"
proof -
  have "x \<in> set (filter occupying rrs)" "y \<in> set (filter occupying rrs)" using assms by simp_all
  with exclusive_cases [OF assms(1)] show ?thesis by (metis empty_iff empty_set set_ConsD)
qed

lemma active_is_the_occupying:
  assumes inv: "restore_inv d" and one: "filter occupying (db_restores d) = [act]"
  shows "active_database_restore d = Some act"
proof -
  have "filter (\<lambda>rr. occupying rr \<and> find_run d (rr_run_id rr) \<noteq> None) (db_restores d) =
        filter occupying (db_restores d)"
    using restores_ok_find_run [OF conjunct1 [OF inv]] by (intro filter_cong) auto
  with one show ?thesis by (simp add: active_database_restore_def)
qed

lemma update_request_reads:
  assumes ok: "restores_ok (db_runs d) (db_restores d)" and rr: "find_restore d i = Some rr"
  shows "\<exists>rr'. find_restore (updateRestoreRequestTx inp d) i = Some rr' \<and>
    rr_phase rr' = (if rr_run_id rr = fin_run_id inp then next_phase (rr_phase rr) (fin_phase inp) else rr_phase rr) \<and>
    rr_run_id rr' = rr_run_id rr \<and> rr_kind rr' = rr_kind rr"
proof (cases "tbl_get (\<lambda>x. rr_run_id x = fin_run_id inp) (db_restores d)")
  case None
  then have "rr_run_id rr \<noteq> fin_run_id inp" using find_restore_in [OF rr] by (auto simp: tbl_get_None)
  with None rr show ?thesis by (simp add: updateRestoreRequestTx_def)
next
  case (Some cur)
  have cur: "rr_run_id rr = fin_run_id inp \<Longrightarrow> cur = rr"
    using restores_ok_run_unique [OF ok] tbl_get_Some [OF Some] find_restore_in [OF rr] by auto
  let ?f = "\<lambda>x. x\<lparr>rr_phase := next_phase (rr_phase cur) (fin_phase inp),
      rr_rollback_snapshot_id := if_empty (fin_rollback_snapshot_id inp) (rr_rollback_snapshot_id cur)\<rparr>"
  have get: "tbl_get (\<lambda>x. rr_id x = i) (tbl_update (\<lambda>x. rr_run_id x = fin_run_id inp) ?f xs) =
      map_option (\<lambda>x. if rr_run_id x = fin_run_id inp then ?f x else x) (tbl_get (\<lambda>x. rr_id x = i) xs)" for xs
    by (induction xs) auto
  show ?thesis
    using Some rr cur by (auto simp: updateRestoreRequestTx_def Let_def find_restore_def get)
qed

lemma next_phase_terminal: "RestorePhaseIsTerminal p \<Longrightarrow> next_phase p q = p"
  by (cases p) (auto simp: next_phase_def RestorePhaseIsTerminal_def RestorePhaseReleasesOccupancy_def
      RestorePhaseNeedsManualResolution_def split: option.splits)

section \<open>Properties\<close>

text \<open>C4: Creating a database restore succeeds only when no other database restore occupies the server,
  and then the run and its request are both there and the new request is the occupant.  When a
  request occupies it, an equivalent task that still makes progress is reported as a duplicate to
  be joined, and everything else is refused as busy, also an equivalent task that waits for an
  operator.\<close>

theorem database_restore_is_admitted_alone:
  assumes inv: "restore_inv d" and same: "rr_run_id rr = run_id r" and occ: "occupying rr"
  shows "case CreateDatabaseRestoreRun now r rr d of
      Inr d' \<Rightarrow> filter occupying (db_restores d) = [] \<and> restore_inv d' \<and>
        find_restore d' (rr_id rr) = Some (restore_row rr) \<and> find_run d' (run_id r) \<noteq> None \<and>
        ActiveDatabaseRestoreRunID d' = run_id r
    | Inl e \<Rightarrow> (\<forall>act\<in>set (db_restores d). occupying act \<longrightarrow>
        e = (let key = run_dedup_key (the (find_run d (rr_run_id act))) in
             if key \<noteq> [] \<and> key = run_dedup_key r \<and> \<not> RestorePhaseNeedsManualResolution (rr_phase act)
             then ErrDuplicateRun else ErrDatabaseRestoreBusy))"
proof (cases "CreateDatabaseRestoreRun now r rr d")
  case (Inr d')
  with inv obtain d1 where none: "filter occupying (db_restores d) = []"
    and d1: "insertRunTx now r d = Inr d1" and ins: "insert_restore rr d1 = Inr d'"
    by (auto simp: CreateDatabaseRestoreRun_iff)
  have inv': "restore_inv d'" by (rule CreateDatabaseRestoreRun_inv [OF Inr inv same])
  obtain cs ts where e: "d1 = d\<lparr>db_runs := db_runs d @ [run_row r], db_cache_states := cs, db_tree_cache := ts\<rparr>"
    using insertRun_frame [OF d1] by blast
  have d': "db_restores d' = db_restores d @ [restore_row rr]" using ins by (simp add: insert_restore_iff e)
  have "find_restore d' (rr_id rr) = Some (restore_row rr)"
    using find_restore_unique [OF conjunct1 [OF inv'], of "restore_row rr"] d' by simp
  moreover have "find_run d' (run_id r) \<noteq> None"
    using restores_ok_find_run [OF conjunct1 [OF inv'], of "restore_row rr"] d' same by simp
  moreover have "ActiveDatabaseRestoreRunID d' = run_id r"
    using none occ same by (simp add: ActiveDatabaseRestoreRunID_def d')
  ultimately show ?thesis using Inr none inv' by simp
next
  case (Inl e)
  have "e = (let key = run_dedup_key (the (find_run d (rr_run_id act))) in
             if key \<noteq> [] \<and> key = run_dedup_key r \<and> \<not> RestorePhaseNeedsManualResolution (rr_phase act)
             then ErrDuplicateRun else ErrDatabaseRestoreBusy)"
    if act: "act \<in> set (db_restores d)" "occupying act" for act
  proof -
    have "act \<in> set (filter occupying (db_restores d))" using act by simp
    then have one: "filter occupying (db_restores d) = [act]"
      using exclusive_cases [OF conjunct2 [OF inv]] by (metis empty_iff empty_set set_ConsD)
    show ?thesis
      using Inl active_is_the_occupying [OF inv one] restores_ok_find_run [OF conjunct1 [OF inv] act(1)]
      by (auto simp: CreateDatabaseRestoreRun_def Let_def split: if_splits)
  qed
  with Inl show ?thesis by simp
qed

theorem database_restore_is_admitted_alone_witness:
  "CreateDatabaseRestoreRun 5 (sample_run ''r2'' OpRestore RunQueued)
     (sample_request ''q2'' ''r2'' KindMySQL RestorePhaseQueued)
     (empty_db\<lparr>db_runs := [sample_run ''r1'' OpRestore RunFailed],
               db_restores := [sample_request ''q1'' ''r1'' KindMongoDB RestorePhaseRollbackFailed]\<rparr>)
   = Inl ErrDatabaseRestoreBusy"
proof -
  let ?act = "sample_request ''q1'' ''r1'' KindMongoDB RestorePhaseRollbackFailed"
  let ?d = "empty_db\<lparr>db_runs := [sample_run ''r1'' OpRestore RunFailed], db_restores := [?act]\<rparr>"
  let ?r = "sample_run ''r2'' OpRestore RunQueued"
  let ?rr = "sample_request ''q2'' ''r2'' KindMySQL RestorePhaseQueued"
  have occ: "occupying ?act" "occupying ?rr"
    by (simp_all add: occupying_def databaseRestoreKinds_def RestoreSafePhases_def)
  then have inv: "restore_inv ?d" by (simp add: restores_ok_def exclusive_def)
  have "rr_run_id ?rr = run_id ?r" by simp
  note t = database_restore_is_admitted_alone [OF inv this occ(2), of 5]
  show ?thesis
    using t occ(1) by (cases "CreateDatabaseRestoreRun 5 ?r ?rr ?d")
      (auto simp: Let_def find_run_def RestorePhaseNeedsManualResolution_def)
qed

text \<open>C12: The end of a restore, reported late or twice, never changes a phase that is already
  terminal, be it settled, blocked until an operator resolves it, or resolved, and never changes a
  run that has already ended.\<close>

theorem finish_keeps_terminal_phase_and_run:
  assumes inv: "restore_inv d" and fin: "FinishRestoreRun inp d = Inr d'"
    and rr: "find_restore d i = Some rr" and settled: "RestorePhaseIsTerminal (rr_phase rr)"
    and run: "find_run d rid = Some r" and ended: "isTerminal (run_status r)"
  shows "map_option rr_phase (find_restore d' i) = Some (rr_phase rr) \<and> find_run d' rid = Some r"
  using fin
proof (cases rule: FinishRestoreRun_cases)
  case (1 r0)
  obtain rr' where "find_restore d' i = Some rr'" "rr_phase rr' = rr_phase rr"
    using update_request_reads [OF conjunct1 [OF inv] rr, of inp] settled next_phase_terminal 1(3) by auto
  moreover have "find_run d' rid = Some r" using run unfolding 1(3) by (simp add: find_run_def)
  ultimately show ?thesis by simp
next
  case (2 r0 P)
  let ?d1 = "d\<lparr>db_runs := tbl_update P (finish_columns inp) (db_runs d)\<rparr>"
  have ids: "run_id ` set (tbl_update P (finish_columns inp) (db_runs d)) = run_id ` set (db_runs d)"
    by (rule run_ids_update) (simp add: finish_columns_def)
  have ok: "restores_ok (db_runs ?d1) (db_restores ?d1)"
    using restores_ok_runs_mono [OF conjunct1 [OF inv]] ids by simp
  have "find_restore ?d1 i = Some rr" using rr by (simp add: find_restore_def)
  then obtain rr' where "find_restore d' i = Some rr'" "rr_phase rr' = rr_phase rr"
    using update_request_reads [OF ok, of i rr inp] settled next_phase_terminal 2(3) by auto
  moreover have "rid \<noteq> fin_run_id inp" using run ended 2(1,2) by auto
  then have "find_run d' rid = Some r"
    using run 2(4) tbl_get_update_frame [of P run_id "finish_columns inp" rid "db_runs d"]
    by (auto simp: 2(3) find_run_def finish_columns_def)
  ultimately show ?thesis by simp
qed

theorem finish_keeps_terminal_phase_and_run_witness:
  "\<exists>d'. FinishRestoreRun \<lparr>fin_run_id = ''r1'', fin_from_statuses = [], fin_to_status = RunSucceeded,
        fin_error_code = [], fin_error_message = [], fin_snapshot_id = [], fin_result_json = json_none,
        fin_phase = Some RestorePhaseSucceeded, fin_rollback_snapshot_id = [], fin_finished_at = 9\<rparr>
      (empty_db\<lparr>db_runs := [sample_run ''r1'' OpRestore RunFailed],
                db_restores := [sample_request ''q1'' ''r1'' KindMySQL RestorePhaseManualRecoveryNeeded]\<rparr>) = Inr d' \<and>
    map_option rr_phase (find_restore d' ''q1'') = Some RestorePhaseManualRecoveryNeeded"
proof -
  let ?q = "sample_request ''q1'' ''r1'' KindMySQL RestorePhaseManualRecoveryNeeded"
  let ?r = "sample_run ''r1'' OpRestore RunFailed"
  let ?d = "empty_db\<lparr>db_runs := [?r], db_restores := [?q]\<rparr>"
  let ?inp = "\<lparr>fin_run_id = ''r1'', fin_from_statuses = [], fin_to_status = RunSucceeded,
        fin_error_code = [], fin_error_message = [], fin_snapshot_id = [], fin_result_json = json_none,
        fin_phase = Some RestorePhaseSucceeded, fin_rollback_snapshot_id = [], fin_finished_at = 9\<rparr>"
  have inv: "restore_inv ?d" by (simp add: restores_ok_def exclusive_def)
  have q: "find_restore ?d ''q1'' = Some ?q" by (simp add: find_restore_def)
  have r: "find_run ?d ''r1'' = Some ?r" by (simp add: find_run_def)
  have t: "RestorePhaseIsTerminal (rr_phase ?q)" by (simp add: RestorePhaseIsTerminal_def)
  have e: "isTerminal (run_status ?r)" by simp
  have "\<exists>d'. FinishRestoreRun ?inp ?d = Inr d'" by (simp add: FinishRestoreRun_def r)
  then obtain d' where d': "FinishRestoreRun ?inp ?d = Inr d'" by blast
  from finish_keeps_terminal_phase_and_run [OF inv d' q t r e] d' show ?thesis by auto
qed

text \<open>The manual resolution succeeds only for a request that waits for an operator.  Then the
  request is resolved, its run has ended, the resolution is in the audit trail under the given
  actor, and no database restore occupies the server through this request any more.\<close>

theorem resolve_releases_exactly_blocked_requests:
  assumes inv: "restore_inv d"
  shows "case ResolveRestoreRequest newid reqid rid actor remark at d of
      Inl e \<Rightarrow> (if find_restore d reqid = None then e = ErrNotFound
        else let cur = the (find_restore d reqid) in
          (rid \<noteq> [] \<and> rr_run_id cur \<noteq> rid) \<or> \<not> RestorePhaseNeedsManualResolution (rr_phase cur)
            \<longrightarrow> e = ErrRestoreConflict)
    | Inr d' \<Rightarrow> (\<exists>cur. find_restore d reqid = Some cur \<and> RestorePhaseNeedsManualResolution (rr_phase cur) \<and>
        map_option rr_phase (find_restore d' reqid) = Some RestorePhaseManualRecoveryDone \<and>
        (\<forall>r. find_run d' (rr_run_id cur) = Some r \<longrightarrow> isTerminal (run_status r)) \<and>
        (occupying cur \<longrightarrow> filter occupying (db_restores d') = []) \<and>
        (\<exists>a\<in>set (db_audits d'). aud_actor_id a = actor \<and> aud_resource_id a = reqid \<and>
                                 aud_action a = ''restore.resolve''))"
proof (cases "ResolveRestoreRequest newid reqid rid actor remark at d")
  case (Inl e)
  then show ?thesis
    by (auto simp: ResolveRestoreRequest_def RestorePhaseNeedsManualResolution_def Let_def
        split: option.splits if_splits)
next
  case (Inr d')
  let ?upd = "\<lambda>rr. rr\<lparr>rr_phase := RestorePhaseManualRecoveryDone\<rparr>"
  from Inr obtain cur where cur: "find_restore d reqid = Some cur" "RestorePhaseNeedsManualResolution (rr_phase cur)"
    and rest: "db_restores d' = tbl_update (\<lambda>rr. rr_id rr = reqid) ?upd (db_restores d)"
    and runs: "db_runs d' = tbl_update (\<lambda>r. run_id r = rr_run_id cur \<and> \<not> isTerminal (run_status r))
                         (\<lambda>r. r\<lparr>run_status := RunFailed, run_finished_at := Some (sec at),
                                run_error_code := phase_text (rr_phase cur),
                                run_error_message := ''operator resolved blocked restore: '' @ remark,
                                run_lease_expires_at := None\<rparr>) (db_runs d)"
    and aud: "\<exists>a\<in>set (db_audits d'). aud_actor_id a = actor \<and> aud_resource_id a = reqid \<and> aud_action a = ''restore.resolve''"
    by (auto simp: Resolve_iff)
  have "map_option rr_phase (find_restore d' reqid) = Some RestorePhaseManualRecoveryDone"
    using cur find_restore_in [OF cur(1)] unfolding find_restore_def rest by (simp add: tbl_get_update_key)
  moreover have "isTerminal (run_status r)" if "find_run d' (rr_run_id cur) = Some r" for r
  proof -
    from that obtain x where "tbl_get (\<lambda>y. run_id y = rr_run_id cur) (db_runs d) = Some x"
      and "run_status r = (if run_id x = rr_run_id cur \<and> \<not> isTerminal (run_status x) then RunFailed else run_status x)"
      unfolding find_run_def runs by (auto simp: tbl_get_update_key)
    then show ?thesis by (auto dest: tbl_get_Some)
  qed
  moreover have "filter occupying (db_restores d') = []" if occ: "occupying cur"
  proof -
    have one: "x = cur" if "x \<in> set (db_restores d)" "occupying x" for x
      by (rule exclusive_unique [OF conjunct2 [OF inv]])
        (use that occ find_restore_in [OF cur(1)] in auto)
    have "\<not> occupying x" if "x \<in> set (db_restores d')" for x
    proof -
      from that obtain y where y: "y \<in> set (db_restores d)" "x = (if rr_id y = reqid then ?upd y else y)"
        unfolding rest set_tbl_update by blast
      show ?thesis
      proof (cases "rr_id y = reqid")
        case True
        with y show ?thesis by (simp add: occupying_def RestoreSafePhases_def)
      next
        case False
        with y one [of y] find_restore_in [OF cur(1)] show ?thesis by auto
      qed
    qed
    then show ?thesis by (simp add: filter_empty_conv)
  qed
  ultimately show ?thesis unfolding Inr sum.case using cur aud by blast
qed

theorem resolve_releases_exactly_blocked_requests_witness:
  "\<exists>d'. ResolveRestoreRequest ''u'' ''q1'' [] ''op'' ''ok'' 9
      (empty_db\<lparr>db_runs := [sample_run ''r1'' OpRestore RunFailed],
                db_restores := [sample_request ''q1'' ''r1'' KindMySQL RestorePhaseRollbackFailed]\<rparr>) = Inr d' \<and>
    map_option rr_phase (find_restore d' ''q1'') = Some RestorePhaseManualRecoveryDone"
proof -
  let ?d = "empty_db\<lparr>db_runs := [sample_run ''r1'' OpRestore RunFailed],
                db_restores := [sample_request ''q1'' ''r1'' KindMySQL RestorePhaseRollbackFailed]\<rparr>"
  have inv: "restore_inv ?d" by (simp add: restores_ok_def exclusive_def)
  have "\<exists>d'. ResolveRestoreRequest ''u'' ''q1'' [] ''op'' ''ok'' 9 ?d = Inr d'"
    by (simp add: ResolveRestoreRequest_def find_restore_def)
  then obtain d' where d': "ResolveRestoreRequest ''u'' ''q1'' [] ''op'' ''ok'' 9 ?d = Inr d'" by blast
  with resolve_releases_exactly_blocked_requests [OF inv, where newid = "''u''" and reqid = "''q1''"
      and rid = "[]" and actor = "''op''" and remark = "''ok''" and at = 9]
  show ?thesis by auto
qed

text \<open>A restore that was asked to stop already has its grace period moved by the next request to
  stop: as long as the request has not reached a terminal phase, the lease of the run becomes the
  deadline of the latest call.\<close>

theorem repeated_stop_moves_the_deadline:
  assumes rr: "rr \<in> set (db_restores d)" "rr_run_id rr = rid"
    and open_phase: "\<not> RestorePhaseIsTerminal (rr_phase rr)" and run: "find_run d rid = Some r"
  shows "map_option run_lease_expires_at
      (find_run (RequestRestoreStop rid later (RequestRestoreStop rid deadline d)) rid) = Some (Some (sec later))"
proof -
  let ?hit = "\<lambda>x. rr_run_id x = rid \<and> rr_phase x \<notin> set blocked_phases"
  have stop: "RequestRestoreStop rid t e = e\<lparr>
        db_restores := tbl_update ?hit (\<lambda>x. x\<lparr>rr_phase := RestorePhaseCancelling\<rparr>) (db_restores e),
        db_runs := tbl_update (\<lambda>x. run_id x = rid) (\<lambda>x. x\<lparr>run_lease_expires_at := Some (sec t)\<rparr>) (db_runs e)\<rparr>"
    if "\<exists>x\<in>set (db_restores e). ?hit x" for e t
    using that by (auto simp: RequestRestoreStop_def Let_def tbl_count_0)
  have first: "\<exists>x\<in>set (db_restores d). ?hit x" using rr open_phase by (auto simp: blocked_iff)
  have cancelling: "RestorePhaseCancelling \<notin> set blocked_phases"
    by (simp add: blocked_iff RestorePhaseIsTerminal_def RestorePhaseReleasesOccupancy_def)
  have second: "\<exists>x\<in>set (db_restores (RequestRestoreStop rid deadline d)). ?hit x"
  proof -
    from first obtain x where x: "x \<in> set (db_restores d)" "?hit x" by blast
    let ?y = "x\<lparr>rr_phase := RestorePhaseCancelling\<rparr>"
    have "?y \<in> set (db_restores (RequestRestoreStop rid deadline d))"
      unfolding stop [OF first] using x by (simp add: set_tbl_update)
    moreover have "?hit ?y" using x cancelling by simp
    ultimately show ?thesis by blast
  qed
  have runs1: "db_runs (RequestRestoreStop rid deadline d) =
      tbl_update (\<lambda>x. run_id x = rid) (\<lambda>x. x\<lparr>run_lease_expires_at := Some (sec deadline)\<rparr>) (db_runs d)"
    by (simp add: stop [OF first])
  have runs2: "db_runs (RequestRestoreStop rid later (RequestRestoreStop rid deadline d)) =
      tbl_update (\<lambda>x. run_id x = rid) (\<lambda>x. x\<lparr>run_lease_expires_at := Some (sec later)\<rparr>)
        (db_runs (RequestRestoreStop rid deadline d))"
    by (subst stop [OF second]) simp
  show ?thesis
    using run find_run_in [OF run] unfolding find_run_def runs2 runs1
    by (simp add: tbl_get_update_key)
qed

theorem repeated_stop_moves_the_deadline_witness:
  "map_option run_lease_expires_at
     (find_run (RequestRestoreStop ''r1'' (seconds 90) (RequestRestoreStop ''r1'' (seconds 30)
        (empty_db\<lparr>db_runs := [sample_run ''r1'' OpRestore RunRunning],
                  db_restores := [sample_request ''q1'' ''r1'' KindMySQL RestorePhaseRestoring]\<rparr>))) ''r1'')
   = Some (Some (seconds 90))"
proof -
  let ?q = "sample_request ''q1'' ''r1'' KindMySQL RestorePhaseRestoring"
  let ?d = "empty_db\<lparr>db_runs := [sample_run ''r1'' OpRestore RunRunning], db_restores := [?q]\<rparr>"
  have q: "?q \<in> set (db_restores ?d)" "rr_run_id ?q = ''r1''" by simp_all
  have p: "\<not> RestorePhaseIsTerminal (rr_phase ?q)"
    by (simp add: RestorePhaseIsTerminal_def RestorePhaseReleasesOccupancy_def)
  have r: "find_run ?d ''r1'' = Some (sample_run ''r1'' OpRestore RunRunning)" by (simp add: find_run_def)
  have "sec (seconds 90) = seconds 90" by (simp add: sec_def seconds_def nano_def)
  with repeated_stop_moves_the_deadline [OF q p r, of "seconds 90" "seconds 30"] show ?thesis by simp
qed

text \<open>A file system restore is admitted exactly when no request on the same agent that is queued,
  backing up, restoring, rolling back or cancelling has an overlapping target; a restore whose phase
  is "running" is not among them and does not stop a second restore into the same directory.\<close>

theorem running_restore_does_not_block_its_target:
  assumes kind: "rr_kind rr = KindFilesystem"
    and fresh: "\<forall>x\<in>set (db_restores d). rr_id x \<noteq> rr_id rr" and run: "find_run d (rr_run_id rr) = Some mine"
    and running: "\<forall>x\<in>set (db_restores d). rr_kind x = KindFilesystem \<longrightarrow> rr_phase x = RestorePhaseRunning"
  shows "CreateRestoreRequest rr d = Inr (d\<lparr>db_restores := db_restores d @ [restore_row rr]\<rparr>)"
proof -
  have "\<not> filesystemTargetBusy d rr"
    using running run by (auto simp: filesystemTargetBusy_def list_ex_iff activeRestorePhases_def split: option.splits)
  then show ?thesis using fresh run by (auto simp: CreateRestoreRequest_def insert_restore_def list_ex_iff)
qed

theorem running_restore_does_not_block_its_target_witness:
  "let same = JObj [(''target_path'', JStr ''/restore'')];
       d = empty_db\<lparr>db_runs := [sample_run ''r1'' OpRestore RunRunning, sample_run ''r2'' OpRestore RunQueued],
            db_restores := [(sample_request ''q1'' ''r1'' KindFilesystem RestorePhaseRunning)\<lparr>rr_target_json := same\<rparr>]\<rparr>
   in \<exists>d'. CreateRestoreRequest ((sample_request ''q2'' ''r2'' KindFilesystem RestorePhaseQueued)\<lparr>rr_target_json := same\<rparr>) d
        = Inr d' \<and> length (db_restores d') = 2"
proof -
  define same where "same = JObj [(''target_path'', JStr ''/restore'')]"
  let ?d = "empty_db\<lparr>db_runs := [sample_run ''r1'' OpRestore RunRunning, sample_run ''r2'' OpRestore RunQueued],
            db_restores := [(sample_request ''q1'' ''r1'' KindFilesystem RestorePhaseRunning)\<lparr>rr_target_json := same\<rparr>]\<rparr>"
  let ?rr = "(sample_request ''q2'' ''r2'' KindFilesystem RestorePhaseQueued)\<lparr>rr_target_json := same\<rparr>"
  have k: "rr_kind ?rr = KindFilesystem" by simp
  have f: "\<forall>x\<in>set (db_restores ?d). rr_id x \<noteq> rr_id ?rr" by simp
  have r: "find_run ?d (rr_run_id ?rr) = Some (sample_run ''r2'' OpRestore RunQueued)" by (simp add: find_run_def)
  have p: "\<forall>x\<in>set (db_restores ?d). rr_kind x = KindFilesystem \<longrightarrow> rr_phase x = RestorePhaseRunning" by simp
  from running_restore_does_not_block_its_target [OF k f r p] show ?thesis
    unfolding Let_def same_def by simp
qed

text \<open>Ending a restore run never tells the run observer, also when the run enters a terminal state by
  this very call; the transition of any other run into a terminal state tells it once.\<close>

theorem finish_restore_is_not_observed:
  assumes fin: "FinishRestoreRun inp d = Inr d'" and to: "isTerminal (fin_to_status inp)"
    and ok: "runs_ok (db_runs d)"
  shows "db_observed d' = db_observed d \<and>
    (\<exists>r'. find_run d' (fin_run_id inp) = Some r' \<and> isTerminal (run_status r'))"
proof -
  have obs: "db_observed (updateRestoreRequestTx inp e) = db_observed e" for e
    by (simp add: updateRestoreRequestTx_def Let_def split: option.splits)
  show ?thesis
    using fin
  proof (cases rule: FinishRestoreRun_cases)
    case (1 r)
    then show ?thesis using obs by (auto simp: find_run_def)
  next
    case (2 r P)
    obtain x where "x \<in> set (db_runs d)" "P x" using 2(5) by blast
    then have "x = r"
      using find_run_in [OF 2(1)] 2(4) by (intro runs_ok_id_unique [OF ok]) auto
    with \<open>P x\<close> have "P r" by simp
    have "find_run d' (fin_run_id inp) = Some (finish_columns inp r)"
      unfolding find_run_def 2(3) using 2(1) \<open>P r\<close>
      by (simp add: tbl_get_update_key finish_columns_def find_run_def)
    then show ?thesis using obs to 2(3) by (simp add: finish_columns_def)
  qed
qed

theorem finish_restore_is_not_observed_witness:
  "\<exists>inp d'. fin_to_status inp = RunFailed \<and>
     FinishRestoreRun inp (empty_db\<lparr>db_runs := [sample_run ''r1'' OpRestore RunRunning]\<rparr>) = Inr d' \<and>
     db_observed d' = []"
proof -
  let ?d = "empty_db\<lparr>db_runs := [sample_run ''r1'' OpRestore RunRunning]\<rparr>"
  let ?inp = "\<lparr>fin_run_id = ''r1'', fin_from_statuses = [], fin_to_status = RunFailed,
        fin_error_code = [], fin_error_message = [], fin_snapshot_id = [], fin_result_json = json_none,
        fin_phase = None, fin_rollback_snapshot_id = [], fin_finished_at = 9\<rparr>"
  have "\<exists>d'. FinishRestoreRun ?inp ?d = Inr d'"
    by (simp add: FinishRestoreRun_def find_run_def Let_def tbl_count_0)
  then obtain d' where d': "FinishRestoreRun ?inp ?d = Inr d'" by blast
  have "isTerminal (fin_to_status ?inp)" "runs_ok (db_runs ?d)"
    by (simp_all add: runs_ok_def holds_key_def holds_slot_def)
  from finish_restore_is_not_observed [OF d' this] d' show ?thesis
    by (intro exI [of _ ?inp] exI [of _ d']) simp
qed

text \<open>C40: The pruning of the history is stuck while one old run that has ended still has a request that
  is not settled: every call fails, deletes no run and no audit event, and still deletes the old
  settled requests.\<close>

theorem prune_is_stuck_behind_an_unsettled_restore:
  assumes rr: "rr \<in> set (db_restores d)" "\<not> RestorePhaseReleasesOccupancy (rr_phase rr)"
    and run: "r \<in> set (db_runs d)" "run_id r = rr_run_id rr" "isTerminal (run_status r)" "ended_at r < sec cutoff"
  shows "snd (fst (PruneHistory cutoff d)) \<noteq> None \<and>
    snd (PruneHistory cutoff d) = d\<lparr>db_restores := tbl_delete (old_request (sec cutoff)) (db_restores d)\<rparr>"
proof (cases rule: prune_cases [of cutoff d])
  case (1 e)
  then show ?thesis by simp
next
  case (2 d2)
  have "old_run (sec cutoff) r" using run by (auto simp: old_run_def isTerminal_def)
  moreover have "\<not> old_request (sec cutoff) rr" using rr by (simp add: old_request_def safe_phases_agree)
  moreover have "\<forall>x\<in>set (tbl_delete (old_request (sec cutoff)) (db_restores d)).
      \<forall>y\<in>set (db_runs d). old_run (sec cutoff) y \<longrightarrow> rr_run_id x \<noteq> run_id y"
    using 2(1) by (simp add: delete_runs_iff)
  moreover have "rr \<in> set (tbl_delete (old_request (sec cutoff)) (db_restores d))"
    using calculation(2) rr(1) by simp
  ultimately show ?thesis using run(1,2) by metis
qed

theorem prune_is_stuck_behind_an_unsettled_restore_witness:
  "db_runs (snd (PruneHistory (seconds 100)
      (empty_db\<lparr>db_runs := [sample_run ''r1'' OpRestore RunFailed, sample_run ''r2'' OpCheck RunSucceeded],
                db_restores := [sample_request ''q1'' ''r1'' KindMySQL RestorePhaseManualRecoveryNeeded]\<rparr>)))
   = [sample_run ''r1'' OpRestore RunFailed, sample_run ''r2'' OpCheck RunSucceeded]"
proof -
  let ?q = "sample_request ''q1'' ''r1'' KindMySQL RestorePhaseManualRecoveryNeeded"
  let ?r = "sample_run ''r1'' OpRestore RunFailed"
  let ?d = "empty_db\<lparr>db_runs := [?r, sample_run ''r2'' OpCheck RunSucceeded], db_restores := [?q]\<rparr>"
  have q: "?q \<in> set (db_restores ?d)" "\<not> RestorePhaseReleasesOccupancy (rr_phase ?q)"
    by (simp_all add: RestorePhaseReleasesOccupancy_def)
  have r: "?r \<in> set (db_runs ?d)" "run_id ?r = rr_run_id ?q" "isTerminal (run_status ?r)" by simp_all
  have "ended_at ?r < sec (seconds 100)"
    by (simp add: ended_at_def sample_run_def sec_def seconds_def nano_def)
  from prune_is_stuck_behind_an_unsettled_restore [OF q r this] show ?thesis by simp
qed

end
