(* ===== verification/Server_State.thy ===== *)
theory Server_State
  imports Registry Store_Repos Store_Logs Store_Restore
begin

text \<open>
  The state of the server process around the database: the registry of connected agents, the
  queues and marks the dispatcher keeps in memory, and what has been handed to the interfaces the
  server is given: the failure notifier, the event bus (the events in the order of \<open>Publish\<close>) and
  the hook that warms the snapshot cache.  The commands sent to agents come from
  the interface \<open>jobs.CommandSource\<close>; their type is a parameter.

  Log texts are Chinese in the source; they stand here as short English texts, one for each, since
  the code only compares them for equality.
\<close>

section \<open>Error codes of runs\<close>

definition CodeInvalidPlan :: string where "CodeInvalidPlan = ''invalid_plan''"
definition CodeCancelled :: string where "CodeCancelled = ''cancelled''"
definition CodeTimeout :: string where "CodeTimeout = ''run_timeout''"
definition CodeAgentDisconnected :: string where "CodeAgentDisconnected = ''agent_disconnected''"
definition CodeCapabilitiesPending :: string where "CodeCapabilitiesPending = ''agent_capabilities_pending''"
definition CodeUpgradeRequired :: string where "CodeUpgradeRequired = ''agent_upgrade_required''"

section \<open>State\<close>

datatype 'c server_msg = ExecuteCommand 'c | CancelCommand string

record job =
  job_run :: string
  job_agent :: string
  job_repository :: string

text \<open>Where the worker of a repository stands: between jobs, with a job it has taken off the queue but
  not yet marked, checking and claiming it, building and sending its command, waiting for its end,
  or leaving \<open>processJob\<close>.\<close>

datatype worker =
  WIdle | WPopped job | WChecking job | WSending bool job | WAwaiting job | WLeaving job

datatype event = StateEvent run | ProgressEvent json | LogEvent run_log

record 'c world =
  w_db :: db
  w_reg :: "'c server_msg registry"
  w_queues :: "string \<rightharpoonup> job list"
  w_enqueued :: "string set"
  w_processing :: "string set"
  w_worker :: "string \<Rightarrow> worker"
  w_log_state :: "string \<rightharpoonup> string \<times> instant"
  w_notified :: "string list"
  w_events :: "(string \<times> event) list"
  w_last_seen :: "string \<rightharpoonup> instant"
  w_warmed :: "(string \<times> string \<times> string) list"

definition start_world :: "db \<Rightarrow> 'c world" where
  "start_world d = \<lparr>w_db = d, w_reg = NewRegistry, w_queues = Map.empty, w_enqueued = {}, w_processing = {},
     w_worker = (\<lambda>_. WIdle), w_log_state = Map.empty, w_notified = [], w_events = [],
     w_last_seen = Map.empty, w_warmed = []\<rparr>"

definition publish :: "string \<Rightarrow> event \<Rightarrow> 'c world \<Rightarrow> 'c world" where
  "publish rid ev w = w\<lparr>w_events := w_events w @ [(rid, ev)]\<rparr>"

text \<open>A write that the database may refuse to serve at this moment: \<open>fault\<close> is the error then.\<close>

definition serve :: "store_err option \<Rightarrow> (db \<Rightarrow> store_err + db) \<Rightarrow> db \<Rightarrow> store_err + db" where
  "serve fault oper d = (case fault of None \<Rightarrow> oper d | Some e \<Rightarrow> Inl e)"

definition notify :: "string \<Rightarrow> 'c world \<Rightarrow> 'c world" where
  "notify rid w = w\<lparr>w_notified := w_notified w @ [rid]\<rparr>"

definition drop_secrets :: "string \<Rightarrow> 'c world \<Rightarrow> 'c world" where
  "drop_secrets rid w = w\<lparr>w_db := DeleteRunSecrets rid (w_db w)\<rparr>"

end
