(* ===== verification/Run_Contract.thy ===== *)
theory Run_Contract
  imports Store_Restore
begin

text \<open>
  What the rest of the server relies on when it changes the state of a run.  The dispatcher, the
  watchdog, the service of the agents, the cleanup, the start of the server and the operator all race
  for the same rows.  Most of them coordinate through \<open>TransitionRun\<close>, which compares the state
  with the one the caller expects; \<open>FinishRestoreRun\<close>, \<open>ReconcileCancelledRunSuccess\<close>,
  \<open>ResolveRestoreRequest\<close> and \<open>FailStaleRuns\<close> end runs as well.  The contract is a locale over
  reading a run and carrying out an attempt; what follows from it for any interleaving of the
  attempts is proved once, in the locale, and holds of the database through the interpretation at
  the end.
\<close>

section \<open>Races\<close>

text \<open>
  An attempt of some component to change the state of runs: every operation of the store that does
  so, apart from those that remove the row.
\<close>

datatype attempt =
    Moves string run_status run_status "run \<Rightarrow> run"
  | Finishes finish_input
  | Corrects string string json
  | Resolves string string string string string instant
  | Expires "run_status list" string instant

fun perform :: "attempt \<Rightarrow> db \<Rightarrow> store_err + db" where
  "perform (Moves rid src dst m) d = TransitionRun rid src dst m d"
| "perform (Finishes inp) d = FinishRestoreRun inp d"
| "perform (Corrects rid snap pj) d = ReconcileCancelledRunSuccess rid snap pj d"
| "perform (Resolves newid reqid rid actor note at) d = ResolveRestoreRequest newid reqid rid actor note at d"
| "perform (Expires sts code now) d = Inr (snd (FailStaleRuns sts code now d))"

text \<open>The move an attempt names, if it names one.\<close>

fun names_move :: "attempt \<Rightarrow> (string \<times> run_status \<times> run_status) option" where
  "names_move (Moves rid src dst m) = Some (rid, src, dst)"
| "names_move _ = None"

text \<open>
  What the callers' texts fix: the function given to \<open>TransitionRun\<close> only fills in columns, a restore
  is finished with a terminal state, and only active runs are called stale.
\<close>

fun proper :: "attempt \<Rightarrow> bool" where
  "proper (Moves rid src dst m) = field_mutator m"
| "proper (Finishes inp) = isTerminal (fin_to_status inp)"
| "proper (Expires sts code now) = (\<forall>s\<in>set sts. \<not> isTerminal s)"
| "proper _ = True"

text \<open>
  The attempts in the order in which the database serves them.  A refused attempt leaves the database as
  it was; an accepted one is recorded with the database before and after it.
\<close>

fun race :: "('a \<Rightarrow> 'd \<Rightarrow> store_err + 'd) \<Rightarrow> 'a list \<Rightarrow> 'd \<Rightarrow> ('a \<times> 'd \<times> 'd) list \<times> 'd" where
  "race act [] d = ([], d)"
| "race act (a # as) d =
     (case act a d of
        Inl _ \<Rightarrow> race act as d
      | Inr d1 \<Rightarrow> (case race act as d1 of (ws, d2) \<Rightarrow> ((a, d, d1) # ws, d2)))"

definition state_of :: "('d \<Rightarrow> string \<Rightarrow> run option) \<Rightarrow> 'd \<Rightarrow> string \<Rightarrow> run_status option" where
  "state_of get d rid = map_option run_status (get d rid)"

text \<open>An accepted attempt ends a run, claims it for dispatch, puts it back, or turns a cancelled run into a
  successful one.\<close>

definition is_active :: "run_status option \<Rightarrow> bool" where
  "is_active s \<longleftrightarrow> (case s of None \<Rightarrow> False | Some x \<Rightarrow> \<not> isTerminal x)"

definition is_ended :: "run_status option \<Rightarrow> bool" where
  "is_ended s \<longleftrightarrow> (case s of None \<Rightarrow> False | Some x \<Rightarrow> isTerminal x)"

definition ends :: "('d \<Rightarrow> string \<Rightarrow> run option) \<Rightarrow> string \<Rightarrow> 'a \<times> 'd \<times> 'd \<Rightarrow> bool" where
  "ends get rid w = (case w of (_, d, d') \<Rightarrow> is_active (state_of get d rid) \<and> is_ended (state_of get d' rid))"

definition corrects :: "('d \<Rightarrow> string \<Rightarrow> run option) \<Rightarrow> string \<Rightarrow> 'a \<times> 'd \<times> 'd \<Rightarrow> bool" where
  "corrects get rid w =
     (case w of (_, d, d') \<Rightarrow> state_of get d rid = Some RunCancelled \<and> state_of get d' rid = Some RunSucceeded)"

definition claims :: "('a \<Rightarrow> (string \<times> run_status \<times> run_status) option) \<Rightarrow> string \<Rightarrow> 'a \<times> 'd \<times> 'd \<Rightarrow> bool" where
  "claims move rid w \<longleftrightarrow> move (fst w) = Some (rid, RunQueued, RunDispatched)"

definition requeues :: "('a \<Rightarrow> (string \<times> run_status \<times> run_status) option) \<Rightarrow> string \<Rightarrow> 'a \<times> 'd \<times> 'd \<Rightarrow> bool" where
  "requeues move rid w \<longleftrightarrow> (\<exists>src. move (fst w) = Some (rid, src, RunQueued))"

text \<open>How an attempt that names no move may change the state of a run.\<close>

definition settles :: "run_status option \<Rightarrow> run_status option \<Rightarrow> bool" where
  "settles s s' \<longleftrightarrow> s' = s \<or> is_active s \<and> is_ended s' \<or> s = Some RunCancelled \<and> s' = Some RunSucceeded"

section \<open>The contract\<close>

locale run_store =
  fixes get_run :: "'d \<Rightarrow> string \<Rightarrow> run option"
    and act :: "'a \<Rightarrow> 'd \<Rightarrow> store_err + 'd"
    and move :: "'a \<Rightarrow> (string \<times> run_status \<times> run_status) option"
    and fair :: "'a \<Rightarrow> bool"
  assumes accepted: "act a d = Inr d' \<Longrightarrow> move a = Some (rid, src, dst) \<Longrightarrow>
      state_of get_run d rid = Some src \<and> dst \<in> set (validTransitions src)"
    and refused: "act a d = Inl e \<Longrightarrow> move a = Some (rid, src, dst) \<Longrightarrow>
      (case state_of get_run d rid of None \<Rightarrow> e = ErrNotFound
       | Some s \<Rightarrow> e = ErrInvalidTransition \<and> (s \<noteq> src \<or> dst \<notin> set (validTransitions src)))"
    and moved: "act a d = Inr d' \<Longrightarrow> fair a \<Longrightarrow> move a = Some (rid, src, dst) \<Longrightarrow>
      state_of get_run d' i = (if i = rid then Some dst else state_of get_run d i)"
    and settled: "act a d = Inr d' \<Longrightarrow> fair a \<Longrightarrow> move a = None \<Longrightarrow> settles (state_of get_run d i) (state_of get_run d' i)"
begin

abbreviation st :: "'d \<Rightarrow> string \<Rightarrow> run_status option" where
  "st \<equiv> state_of get_run"

text \<open>What one accepted attempt does to the state of a run.\<close>

lemma step_of_state:
  assumes "act a d = Inr d'" and "fair a"
  shows "settles (st d rid) (st d' rid) \<or>
    (\<exists>src dst. move a = Some (rid, src, dst) \<and> st d rid = Some src \<and> st d' rid = Some dst \<and> dst \<in> set (validTransitions src))"
proof (cases "move a")
  case None
  then show ?thesis using settled [OF assms] by simp
next
  case (Some m)
  obtain i src dst where m: "m = (i, src, dst)" by (cases m)
  show ?thesis
  proof (cases "i = rid")
    case True
    with Some m accepted [OF assms(1)] moved [OF assms, of i src dst rid] show ?thesis by auto
  next
    case False
    with Some m moved [OF assms, of i src dst rid] show ?thesis by (simp add: settles_def)
  qed
qed

text \<open>Of two components that both expect the run in the same state, the second is refused.\<close>

lemma second_is_refused:
  assumes "act a d = Inr d'" and "fair a" and "move a = Some (rid, src, dst)" and "move b = Some (rid, src, dst2)"
  shows "act b d' = Inl ErrInvalidTransition"
proof -
  have dst: "dst \<noteq> src" using accepted [OF assms(1,3)] by (cases src; cases dst) auto
  have st: "st d' rid = Some dst" using moved [OF assms(1-3)] by simp
  show ?thesis
  proof (cases "act b d'")
    case (Inl e)
    with refused [OF Inl assms(4)] st show ?thesis by auto
  next
    case (Inr x)
    with accepted [OF Inr assms(4)] st dst show ?thesis by auto
  qed
qed

lemma ended_step:
  assumes "act a d = Inr d'" and "fair a" and "is_ended (st d rid)"
  shows "is_ended (st d' rid)" and "st d rid \<noteq> Some RunCancelled \<Longrightarrow> st d' rid \<noteq> Some RunCancelled"
proof -
  have none: "validTransitions src = []" if "isTerminal src" for src using that by (cases src) (auto simp: isTerminal_def)
  from step_of_state [OF assms(1,2), of rid] have s: "settles (st d rid) (st d' rid)"
    using assms(3) none by (auto simp: is_ended_def)
  with assms(3) show "is_ended (st d' rid)" "st d rid \<noteq> Some RunCancelled \<Longrightarrow> st d' rid \<noteq> Some RunCancelled"
    by (auto simp: settles_def is_ended_def is_active_def isTerminal_def split: option.splits)
qed

lemma ended_wins_nothing:
  assumes "\<forall>a\<in>set as. fair a" and "is_ended (st d rid)" and "race act as d = (ws, d')"
  shows "is_ended (st d' rid) \<and> filter (ends get_run rid) ws = [] \<and>
    (st d rid \<noteq> Some RunCancelled \<longrightarrow> filter (corrects get_run rid) ws = []) \<and> length (filter (corrects get_run rid) ws) \<le> 1"
  using assms
proof (induction as arbitrary: d ws)
  case (Cons a as)
  show ?case
  proof (cases "act a d")
    case (Inl e)
    with Cons show ?thesis by simp
  next
    case (Inr d1)
    from Cons.prems(3) Inr obtain ws1 where s: "race act as d1 = (ws1, d')" "ws = (a, d, d1) # ws1" by (auto split: prod.splits)
    have "fair a" using Cons.prems(1) by simp
    note e = ended_step [OF Inr this Cons.prems(2)]
    from Cons.IH [OF _ e(1) s(1)] Cons.prems(1) have IH: "is_ended (st d' rid)" "filter (ends get_run rid) ws1 = []"
      "st d1 rid \<noteq> Some RunCancelled \<longrightarrow> filter (corrects get_run rid) ws1 = []" "length (filter (corrects get_run rid) ws1) \<le> 1" by auto
    have "\<not> ends get_run rid (a, d, d1)"
      using Cons.prems(2) by (auto simp: ends_def is_active_def is_ended_def split: option.splits)
    moreover have "corrects get_run rid (a, d, d1) \<Longrightarrow> st d rid = Some RunCancelled \<and> st d1 rid \<noteq> Some RunCancelled"
      by (simp add: corrects_def)
    ultimately show ?thesis using IH e(2) s(2) by auto
  qed
qed simp

text \<open>However many components try, at most one ends the run, and its end is corrected at most once.\<close>

lemma one_end:
  assumes "\<forall>a\<in>set as. fair a" and "race act as d = (ws, d')"
  shows "length (filter (ends get_run rid) ws) \<le> 1 \<and> length (filter (corrects get_run rid) ws) \<le> 1"
  using assms
proof (induction as arbitrary: d ws)
  case (Cons a as)
  show ?case
  proof (cases "act a d")
    case (Inl e)
    with Cons show ?thesis by simp
  next
    case (Inr d1)
    from Cons.prems(2) Inr obtain ws1 where s: "race act as d1 = (ws1, d')" "ws = (a, d, d1) # ws1" by (auto split: prod.splits)
    have fair: "\<forall>a\<in>set as. fair a" using Cons.prems(1) by simp
    consider "ends get_run rid (a, d, d1)" | "corrects get_run rid (a, d, d1)"
      | "\<not> ends get_run rid (a, d, d1)" "\<not> corrects get_run rid (a, d, d1)" by blast
    then show ?thesis
    proof cases
      case 1
      then have "is_ended (st d1 rid)" "\<not> corrects get_run rid (a, d, d1)"
        by (auto simp: ends_def corrects_def is_active_def isTerminal_def)
      with ended_wins_nothing [OF fair _ s(1)] 1 s(2) show ?thesis by auto
    next
      case 2
      then have "is_ended (st d1 rid)" "st d1 rid \<noteq> Some RunCancelled" "\<not> ends get_run rid (a, d, d1)"
        by (auto simp: ends_def corrects_def is_active_def is_ended_def isTerminal_def)
      with ended_wins_nothing [OF fair _ s(1)] 2 s(2) show ?thesis by auto
    next
      case 3
      then show ?thesis using Cons.IH [OF fair s(1)] s(2) by auto
    qed
  qed
qed simp

text \<open>An accepted attempt that names a move to a terminal state is the one that ends the run.\<close>

lemma named_end:
  assumes "\<forall>a\<in>set as. fair a" and "race act as d = (ws, d')" and "(a, x, x') \<in> set ws"
    and "move a = Some (rid, src, dst)" and "isTerminal dst"
  shows "ends get_run rid (a, x, x')"
  using assms(1-3)
proof (induction as arbitrary: d ws)
  case (Cons b as)
  show ?case
  proof (cases "act b d")
    case (Inl e)
    with Cons show ?thesis by auto
  next
    case (Inr d1)
    from Cons.prems(2) Inr obtain ws1 where s: "race act as d1 = (ws1, d')" "ws = (b, d, d1) # ws1" by (auto split: prod.splits)
    show ?thesis
    proof (cases "(a, x, x') = (b, d, d1)")
      case True
      then have "act a x = Inr x'" "fair a" using Inr Cons.prems(1) by auto
      with accepted [OF this(1) assms(4)] moved [OF this assms(4), of rid] assms(5) valid_from_active [of dst src] show ?thesis
        by (auto simp: ends_def is_active_def is_ended_def active_terminal)
    next
      case False
      then show ?thesis using Cons s by auto
    qed
  qed
qed simp

text \<open>Between two claims of a run it has been put back into the queue.\<close>

lemma claims_bounded:
  assumes "\<forall>a\<in>set as. fair a" and "race act as d = (ws, d')"
  shows "length (filter (claims move rid) ws) \<le> length (filter (requeues move rid) ws) + (if st d rid = Some RunQueued then 1 else 0)"
  using assms
proof (induction as arbitrary: d ws)
  case (Cons a as)
  show ?case
  proof (cases "act a d")
    case (Inl e)
    with Cons show ?thesis by simp
  next
    case (Inr d1)
    from Cons.prems(2) Inr obtain ws1 where s: "race act as d1 = (ws1, d')" "ws = (a, d, d1) # ws1" by (auto split: prod.splits)
    have fair: "\<forall>a\<in>set as. fair a" "fair a" using Cons.prems(1) by simp_all
    note IH = Cons.IH [OF fair(1) s(1)]
    show ?thesis
    proof (cases "\<exists>src dst. move a = Some (rid, src, dst)")
      case True
      then obtain src dst where m: "move a = Some (rid, src, dst)" by blast
      with accepted [OF Inr m] moved [OF Inr fair(2) m, of rid]
      have "st d rid = Some src" "st d1 rid = Some dst" "dst \<in> set (validTransitions src)" by auto
      moreover have "claims move rid (a, d, d1) \<longleftrightarrow> src = RunQueued \<and> dst = RunDispatched"
        "requeues move rid (a, d, d1) \<longleftrightarrow> dst = RunQueued"
        using m by (auto simp: claims_def requeues_def)
      ultimately show ?thesis using IH s(2) by (cases dst; cases src) auto
    next
      case False
      then have "settles (st d rid) (st d1 rid)" using step_of_state [OF Inr fair(2), of rid] by blast
      then have "st d1 rid = Some RunQueued \<Longrightarrow> st d rid = Some RunQueued"
        by (auto simp: settles_def is_ended_def isTerminal_def)
      moreover have "\<not> claims move rid (a, d, d1)" "\<not> requeues move rid (a, d, d1)"
        using False by (auto simp: claims_def requeues_def)
      ultimately show ?thesis using IH s(2) by (cases "st d1 rid = Some RunQueued") auto
    qed
  qed
qed simp

end

section \<open>The store keeps the contract\<close>

lemma find_run_update:
  "(\<And>r. P r \<Longrightarrow> run_id (f r) = run_id r) \<Longrightarrow>
     tbl_get (\<lambda>r. run_id r = i) (tbl_update P f rs) = map_option (\<lambda>r. if P r then f r else r) (tbl_get (\<lambda>r. run_id r = i) rs)"
  by (induction rs) auto

lemma settles_update:
  assumes "\<And>r. P r \<Longrightarrow> run_id (f r) = run_id r \<and> settles (Some (run_status r)) (Some (run_status (f r)))"
    and "db_runs d' = tbl_update P f (db_runs d)"
  shows "settles (state_of find_run d i) (state_of find_run d' i)"
proof -
  have "find_run d' i = map_option (\<lambda>r. if P r then f r else r) (find_run d i)"
    unfolding find_run_def assms(2) by (rule find_run_update) (use assms(1) in blast)
  then show ?thesis using assms(1) by (cases "find_run d i") (auto simp: state_of_def settles_def)
qed

lemma settles_same: "db_runs d' = db_runs d \<Longrightarrow> settles (state_of find_run d i) (state_of find_run d' i)"
  by (simp add: settles_def state_of_def find_run_def)

lemma FinishRestoreRun_settles:
  assumes f: "FinishRestoreRun inp d = Inr d'" and ended: "isTerminal (fin_to_status inp)"
  shows "settles (state_of find_run d i) (state_of find_run d' i)"
  using f
proof (cases rule: FinishRestoreRun_cases)
  case (1 r)
  then show ?thesis by (intro settles_same) simp
next
  case (2 r P)
  have runs: "db_runs d' = tbl_update P (finish_columns inp) (db_runs d)" unfolding 2(3) by simp
  have got: "find_run d' i = map_option (\<lambda>r. if P r then finish_columns inp r else r) (find_run d i)"
    unfolding find_run_def runs by (rule find_run_update) (simp add: finish_columns_def)
  show ?thesis
  proof (cases "find_run d i")
    case None
    with got show ?thesis by (simp add: settles_def state_of_def)
  next
    case (Some x)
    have "x = r" if "P x"
    proof -
      from that have "run_id x = fin_run_id inp" by (simp add: 2(4))
      moreover have "run_id x = i" using find_run_in [OF Some] by simp
      ultimately show ?thesis using Some 2(1) by simp
    qed
    with Some got 2(2) ended show ?thesis
      by (auto simp: settles_def state_of_def is_active_def is_ended_def finish_columns_def)
  qed
qed

lemma Resolve_writes:
  assumes "ResolveRestoreRequest newid reqid rid actor why now d = Inr d'"
  obtains cur :: restore_request and f where "db_runs d' = tbl_update (\<lambda>r. run_id r = rr_run_id cur \<and> \<not> isTerminal (run_status r)) f (db_runs d)"
    "\<And>r. run_id (f r) = run_id r \<and> run_status (f r) = RunFailed"
proof -
  define f :: "restore_phase \<Rightarrow> run \<Rightarrow> run" where "f = (\<lambda>phase r. r\<lparr>run_status := RunFailed, run_finished_at := Some (sec now), run_error_code := phase_text phase,
               run_error_message := ''operator resolved blocked restore: '' @ why, run_lease_expires_at := None\<rparr>)"
  let ?cur = "the (find_restore d reqid)"
  from assms have "db_runs d' =
      tbl_update (\<lambda>r. run_id r = rr_run_id ?cur \<and> \<not> isTerminal (run_status r)) (f (rr_phase ?cur)) (db_runs d)"
    by (auto simp: Resolve_iff f_def)
  then show thesis by (rule that) (simp add: f_def)
qed

interpretation runs: run_store find_run perform names_move proper
proof
  fix a d d' rid src dst
  assume "perform a d = Inr d'" "names_move a = Some (rid, src, dst)"
  then show "state_of find_run d rid = Some src \<and> dst \<in> set (validTransitions src)"
    by (cases a) (auto simp: TransitionRun_iff state_of_def)
next
  fix a d e rid src dst
  assume "perform a d = Inl e" "names_move a = Some (rid, src, dst)"
  then show "case state_of find_run d rid of None \<Rightarrow> e = ErrNotFound
       | Some s \<Rightarrow> e = ErrInvalidTransition \<and> (s \<noteq> src \<or> dst \<notin> set (validTransitions src))"
    by (cases a) (auto simp: TransitionRun_error state_of_def split: option.splits if_splits)
next
  fix a d d' rid src dst i
  assume p: "perform a d = Inr d'" "proper a" "names_move a = Some (rid, src, dst)"
  then obtain m where a: "a = Moves rid src dst m" by (cases a) auto
  with p have t: "TransitionRun rid src dst m d = Inr d'" "field_mutator m" by simp_all
  from TransitionRun_reads [OF t, of i] t show "state_of find_run d' i = (if i = rid then Some dst else state_of find_run d i)"
    by (auto simp: state_of_def TransitionRun_iff field_mutator_def)
next
  fix a d d' i
  assume p: "perform a d = Inr d'" "proper a" "names_move a = None"
  show "settles (state_of find_run d i) (state_of find_run d' i)"
  proof (cases a)
    case (Finishes inp)
    with p show ?thesis by (auto intro: FinishRestoreRun_settles)
  next
    case (Corrects rid snap pj)
    with p obtain f where "db_runs d' = tbl_update (\<lambda>r. run_id r = rid \<and> run_status r = RunCancelled) f (db_runs d)"
      "\<And>r. run_id (f r) = run_id r \<and> run_status (f r) = RunSucceeded"
      by (auto simp: Reconcile_iff)
    then show ?thesis by (intro settles_update) (auto simp: settles_def)
  next
    case (Resolves newid reqid rid actor why now)
    with p have "ResolveRestoreRequest newid reqid rid actor why now d = Inr d'" by simp
    then show ?thesis
    proof (cases rule: Resolve_writes)
      case (1 cur f)
      show ?thesis
        by (rule settles_update [OF _ 1(1)]) (use 1(2) in \<open>auto simp: settles_def is_active_def is_ended_def isTerminal_def\<close>)
    qed
  next
    case (Expires sts code now)
    with p have e: "d' = snd (FailStaleRuns sts code now d)" "\<And>s. s \<in> set sts \<Longrightarrow> \<not> isTerminal s" by auto
    show ?thesis
    proof (cases "sts = []")
      case True
      then show ?thesis using e(1) by (intro settles_same) (simp add: FailStaleRuns_def Let_def)
    next
      case False
      then obtain f where "db_runs d' = tbl_update (\<lambda>r. run_status r \<in> set sts) f (db_runs d)"
        "\<And>r. run_id (f r) = run_id r \<and> run_status (f r) = RunFailed"
        using e(1) by (auto simp: FailStaleRuns_def Let_def)
      then show ?thesis
        using e(2) by (intro settles_update) (auto simp: settles_def is_active_def is_ended_def isTerminal_def)
    qed
  qed (use p in simp)
qed

section \<open>Properties\<close>

text \<open>C3: Whatever the components do to the states of runs - transitions, the end of a restore, the
  correction of a cancelled run, the resolution by an operator, the end of stale runs - and in whatever
  order the database serves them, as long as the row of a run is there: at most one accepted attempt
  ends the run, every accepted transition to a terminal state is that one, at most one turns its
  cancellation into a success, and the run is claimed for dispatch again only after it has been put
  back into the queue: the claims that succeed are at most one more than the times it was put back.\<close>

theorem run_ends_once_and_is_claimed_once:
  assumes "\<forall>a\<in>set as. proper a" and "race perform as d = (ws, d')"
  shows "length (filter (ends find_run rid) ws) \<le> 1 \<and> length (filter (corrects find_run rid) ws) \<le> 1 \<and>
    (\<forall>(a, x, x')\<in>set ws. \<forall>src dst. names_move a = Some (rid, src, dst) \<and> isTerminal dst \<longrightarrow> ends find_run rid (a, x, x')) \<and>
    length (filter (claims names_move rid) ws) \<le> length (filter (requeues names_move rid) ws) + 1"
  using runs.one_end [OF assms, of rid] runs.claims_bounded [OF assms, of rid] runs.named_end [OF assms]
  by (auto split: if_splits)

definition racing_attempts :: "attempt list" where
  "racing_attempts =
     [Moves ''r1'' RunRunning RunCancelled (\<lambda>r. r\<lparr>run_error_code := ''cancelled''\<rparr>),
      Moves ''r1'' RunRunning RunSucceeded (\<lambda>r. r\<lparr>run_snapshot_id := ''s1''\<rparr>),
      Corrects ''r1'' ''s1'' json_none,
      Expires [RunRunning] ''x'' 9]"

theorem run_ends_once_and_is_claimed_once_witness:
  "\<exists>ws d'. race perform racing_attempts (empty_db\<lparr>db_runs := [sample_run ''r1'' OpBackup RunRunning]\<rparr>) = (ws, d') \<and>
    length (filter (ends find_run ''r1'') ws) \<le> 1 \<and> length ws = 3 \<and> state_of find_run d' ''r1'' = Some RunSucceeded"
proof -
  let ?d = "empty_db\<lparr>db_runs := [sample_run ''r1'' OpBackup RunRunning]\<rparr>"
  have m: "\<forall>a\<in>set racing_attempts. proper a" by (simp add: racing_attempts_def field_mutator_def isTerminal_def)
  obtain ws d' where r: "race perform racing_attempts ?d = (ws, d')" by (metis prod.exhaust)
  have "length ws = 3" "state_of find_run d' ''r1'' = Some RunSucceeded"
    using r by (auto simp: racing_attempts_def TransitionRun_def find_run_def write_back_def Let_def ReconcileCancelledRunSuccess_def
        FailStaleRuns_def tbl_count_def state_of_def)
  with r run_ends_once_and_is_claimed_once [OF m r, of "''r1''"] show ?thesis by blast
qed

end
