(* ===== verification/Store_Deletions.thy ===== *)
theory Store_Deletions
  imports Store_Restore
begin

text \<open>
  Snapshot deletion intents and the orphan scan (\<open>store/sqlite.go\<close>, "snapshot deletions"):
  requesting a deletion, claiming it for a forget run, completing and retrying it, and the scan
  that turns snapshots without a matching backup run into candidates and, after a week and a
  second sighting, into pending deletions.
\<close>

section \<open>Intents\<close>

definition del_key :: "string \<Rightarrow> string \<Rightarrow> snapshot_deletion \<Rightarrow> bool" where
  "del_key repo snap x \<longleftrightarrow> del_repository_id x = repo \<and> del_snapshot_id x = snap"

definition find_deletion :: "db \<Rightarrow> string \<Rightarrow> string \<Rightarrow> snapshot_deletion option" where
  "find_deletion d repo snap = tbl_get (del_key repo snap) (db_deletions d)"

definition new_deletion ::
    "string \<Rightarrow> string \<Rightarrow> string \<Rightarrow> string \<Rightarrow> deletion_source \<Rightarrow> deletion_state \<Rightarrow> string \<Rightarrow> instant \<Rightarrow> snapshot_deletion" where
  "new_deletion newid repo agent snap src st actor now =
     \<lparr>del_id = newid, del_repository_id = repo, del_agent_id = agent, del_snapshot_id = snap,
      del_source = src, del_state = st, del_first_seen_at = now, del_last_seen_at = now,
      del_seen_count = 1, del_next_attempt_at = None, del_attempt = 0, del_run_id = [],
      del_lease_expires_at = None, del_error_code = [], del_error_message = [],
      del_requested_by = actor, del_created_at = now, del_updated_at = now, del_completed_at = None\<rparr>"

text \<open>The constraints on an inserted intent: unique key, unique snapshot, existing repository and agent.\<close>

definition insert_deletion :: "snapshot_deletion \<Rightarrow> db \<Rightarrow> store_err + db" where
  "insert_deletion x d =
     (if list_ex (\<lambda>y. del_id y = del_id x \<or> del_key (del_repository_id x) (del_snapshot_id x) y) (db_deletions d)
      then Inl (ErrSql ''UNIQUE constraint failed: snapshot_deletions'')
      else if \<not> list_ex (\<lambda>r. repo_id r = del_repository_id x) (db_repos d) \<or>
              \<not> list_ex (\<lambda>a. agt_id a = del_agent_id x) (db_agents d)
      then Inl (ErrSql ''FOREIGN KEY constraint failed'')
      else Inr (d\<lparr>db_deletions := db_deletions d @ [x]\<rparr>))"

definition QueueManualSnapshotDeletion ::
    "string \<Rightarrow> string \<Rightarrow> string \<Rightarrow> string \<Rightarrow> string \<Rightarrow> instant \<Rightarrow> db \<Rightarrow>
     store_err + (snapshot_deletion \<times> bool \<times> db)" where
  "QueueManualSnapshotDeletion newid repo agent snap actor now d =
     (case find_deletion d repo snap of
        Some x \<Rightarrow>
          if del_state x \<in> {SnapshotDeletionPending, SnapshotDeletionRunning, SnapshotDeletionSucceeded}
          then Inr (x, False, d)
          else if \<not> list_ex (\<lambda>a. agt_id a = agent) (db_agents d)
          then Inl (ErrSql ''FOREIGN KEY constraint failed'')
          else
            let upd = (\<lambda>t y. y\<lparr>del_source := SnapshotDeletionManual, del_state := SnapshotDeletionPending,
                   del_agent_id := agent, del_requested_by := actor, del_next_attempt_at := None,
                   del_error_code := [], del_error_message := [], del_updated_at := t\<rparr>)
            in Inr (upd now x, True,
                 d\<lparr>db_deletions := tbl_update (\<lambda>y. del_id y = del_id x) (upd (sec now)) (db_deletions d)\<rparr>)
      | None \<Rightarrow>
          and_then (insert_deletion
                (new_deletion newid repo agent snap SnapshotDeletionManual SnapshotDeletionPending actor (sec now)) d)
            (\<lambda>d'. Inr (new_deletion newid repo agent snap SnapshotDeletionManual SnapshotDeletionPending actor now,
                       True, d')))"

definition HiddenSnapshotIDs :: "db \<Rightarrow> string \<Rightarrow> string list" where
  "HiddenSnapshotIDs d repo =
     map del_snapshot_id (filter (\<lambda>x. del_repository_id x = repo \<and>
       (del_source x = SnapshotDeletionManual \<and>
          del_state x \<in> {SnapshotDeletionPending, SnapshotDeletionRunning, SnapshotDeletionSucceeded} \<or>
        del_source x = SnapshotDeletionOrphan \<and>
          del_state x \<in> {SnapshotDeletionPending, SnapshotDeletionRunning, SnapshotDeletionSucceeded}))
       (db_deletions d))"

definition ListRunningSnapshotDeletions :: "db \<Rightarrow> snapshot_deletion list" where
  "ListRunningSnapshotDeletions d =
     sort_key del_updated_at (filter (\<lambda>x. del_state x = SnapshotDeletionRunning) (db_deletions d))"

definition due_deletion :: "instant \<Rightarrow> snapshot_deletion \<Rightarrow> bool" where
  "due_deletion now x \<longleftrightarrow> del_state x = SnapshotDeletionPending \<and>
     (case del_next_attempt_at x of None \<Rightarrow> True | Some t \<Rightarrow> t \<le> sec now)"

text \<open>Three stable sorts give the order by next attempt (\<open>NULL\<close> first), then by last update.\<close>

definition ListDueSnapshotDeletions :: "db \<Rightarrow> instant \<Rightarrow> int \<Rightarrow> snapshot_deletion list" where
  "ListDueSnapshotDeletions d now n =
     take (limit_or 100 n)
       (sort_key (\<lambda>x. if del_next_attempt_at x = None then 0 else (1 :: int))
         (sort_key (\<lambda>x. case del_next_attempt_at x of None \<Rightarrow> 0 | Some t \<Rightarrow> t)
           (sort_key del_updated_at (filter (due_deletion now) (db_deletions d)))))"

text \<open>
  The claim inserts the forget run without a deduplication key and without the invalidation of the
  snapshot caches that \<open>insertRunTx\<close> does; a duplicate run is a plain SQL error here.
\<close>

definition ClaimSnapshotDeletionRun :: "instant \<Rightarrow> string \<Rightarrow> run \<Rightarrow> instant \<Rightarrow> db \<Rightarrow> store_err + db" where
  "ClaimSnapshotDeletionRun now did r lease d =
     (case tbl_get (\<lambda>x. del_id x = did) (db_deletions d) of
        None \<Rightarrow> Inl ErrNotFound
      | Some x \<Rightarrow>
          if del_state x \<noteq> SnapshotDeletionPending then Inl ErrInvalidTransition
          else
            let row = (run_row r)\<lparr>run_dedup_key := []\<rparr> in
            if run_conflict (db_runs d) row then Inl (ErrSql ''UNIQUE constraint failed: runs'')
            else if run_plan_id r \<noteq> [] \<and> \<not> list_ex (\<lambda>p. plan_id p = run_plan_id r) (db_plans d)
            then Inl (ErrSql ''FOREIGN KEY constraint failed'')
            else Inr (d\<lparr>db_runs := db_runs d @ [row],
                        db_deletions := tbl_update (\<lambda>y. del_id y = did)
                          (\<lambda>y. y\<lparr>del_state := SnapshotDeletionRunning, del_run_id := run_id r,
                                 del_lease_expires_at := Some (sec lease), del_attempt := del_attempt y + 1,
                                 del_error_code := [], del_error_message := [], del_updated_at := sec now\<rparr>)
                          (db_deletions d)\<rparr>))"

definition CompleteSnapshotDeletion :: "string \<Rightarrow> instant \<Rightarrow> db \<Rightarrow> store_err + db" where
  "CompleteSnapshotDeletion did now d =
     (if tbl_count (\<lambda>x. del_id x = did) (db_deletions d) = 0 then Inl ErrNotFound
      else Inr (d\<lparr>db_deletions := tbl_update (\<lambda>x. del_id x = did)
             (\<lambda>x. x\<lparr>del_state := SnapshotDeletionSucceeded, del_completed_at := Some (sec now),
                    del_error_code := [], del_error_message := [], del_next_attempt_at := None,
                    del_updated_at := sec now\<rparr>) (db_deletions d)\<rparr>))"

definition RetrySnapshotDeletion ::
    "instant \<Rightarrow> string \<Rightarrow> string \<Rightarrow> string \<Rightarrow> instant \<Rightarrow> db \<Rightarrow> store_err + db" where
  "RetrySnapshotDeletion now did code msg nextAt d =
     (if tbl_count (\<lambda>x. del_id x = did) (db_deletions d) = 0 then Inl ErrNotFound
      else Inr (d\<lparr>db_deletions := tbl_update (\<lambda>x. del_id x = did)
             (\<lambda>x. x\<lparr>del_state := SnapshotDeletionPending, del_run_id := [], del_lease_expires_at := None,
                    del_error_code := code, del_error_message := msg,
                    del_next_attempt_at := Some (sec nextAt), del_updated_at := sec now\<rparr>) (db_deletions d)\<rparr>))"

section \<open>The orphan scan\<close>

definition find_cleanup :: "db \<Rightarrow> string \<Rightarrow> cleanup_state option" where
  "find_cleanup d repo = tbl_get (\<lambda>c. cln_repository_id c = repo) (db_cleanup d)"

definition GetSnapshotCleanupState :: "db \<Rightarrow> string \<Rightarrow> store_err + cleanup_state" where
  "GetSnapshotCleanupState d repo = (case find_cleanup d repo of None \<Rightarrow> Inl ErrNotFound | Some c \<Rightarrow> Inr c)"

definition new_cleanup :: "string \<Rightarrow> instant \<Rightarrow> cleanup_state" where
  "new_cleanup repo at = \<lparr>cln_repository_id = repo, cln_scan_run_id = [], cln_last_scan_started_at = None,
     cln_last_scan_completed_at = None, cln_next_attempt_at = None, cln_updated_at = sec at\<rparr>"

fun tag_scan :: "string list \<Rightarrow> nat \<times> nat \<times> nat \<times> string \<times> string \<times> string \<Rightarrow> nat \<times> nat \<times> nat \<times> string \<times> string \<times> string" where
  "tag_scan [] acc = acc"
| "tag_scan (tag # tags) (np, nk, nr, p, k, r) =
     (if HasPrefix tag ''plan:'' then tag_scan tags (Suc np, nk, nr, TrimPrefix tag ''plan:'', k, r)
      else if HasPrefix tag ''kind:'' then tag_scan tags (np, Suc nk, nr, p, TrimPrefix tag ''kind:'', r)
      else if HasPrefix tag ''run:'' then tag_scan tags (np, nk, Suc nr, p, k, TrimPrefix tag ''run:'')
      else tag_scan tags (np, nk, nr, p, k, r))"

definition parseSnapshotTags :: "string list \<Rightarrow> (string \<times> string \<times> string) option" where
  "parseSnapshotTags tags =
     (case tag_scan tags (0, 0, 0, [], [], []) of
        (np, nk, nr, p, k, r) \<Rightarrow>
          if np \<noteq> 1 \<or> nk \<noteq> 1 \<or> nr \<noteq> 1 then None
          else if p = [] \<or> k = [] \<or> r = [] then None
          else Some (p, k, r))"

text \<open>A run that vouches for the snapshot of its tag.\<close>

definition vouches :: "string \<Rightarrow> string \<Rightarrow> string \<Rightarrow> run \<Rightarrow> bool" where
  "vouches tag repo snap r \<longleftrightarrow> run_id r = tag \<and> run_operation r = OpBackup \<and> run_status r = RunSucceeded \<and>
     null_eq (run_repository_id r) repo \<and> run_snapshot_id r = snap"

definition orphan_candidate :: "string \<Rightarrow> string \<Rightarrow> snapshot_deletion \<Rightarrow> bool" where
  "orphan_candidate repo snap x \<longleftrightarrow>
     del_key repo snap x \<and> del_source x = SnapshotDeletionOrphan \<and> del_state x = SnapshotDeletionCandidate"

definition week :: int where "week = hours (7 * 24)"

definition upsertOrphanCandidateTx :: "string \<Rightarrow> string \<Rightarrow> string \<Rightarrow> instant \<Rightarrow> db \<Rightarrow> store_err + db" where
  "upsertOrphanCandidateTx newid repo snap now d =
     (case find_deletion d repo snap of
        None \<Rightarrow>
          (case tbl_get (\<lambda>r. repo_id r = repo) (db_repos d) of
             None \<Rightarrow> Inl (ErrSql ''find repository agent'')
           | Some r \<Rightarrow> insert_deletion
               (new_deletion newid repo (repo_agent_id r) snap SnapshotDeletionOrphan SnapshotDeletionCandidate [] (sec now)) d)
      | Some x \<Rightarrow>
          if del_source x = SnapshotDeletionManual \<or> del_state x \<noteq> SnapshotDeletionCandidate then Inr d
          else
            let seen = del_seen_count x + 1;
                nextState = (if seen \<ge> 2 \<and> now - del_first_seen_at x \<ge> week
                             then SnapshotDeletionPending else SnapshotDeletionCandidate)
            in Inr (d\<lparr>db_deletions := tbl_update (\<lambda>y. del_id y = del_id x)
                   (\<lambda>y. y\<lparr>del_seen_count := seen, del_state := nextState, del_last_seen_at := sec now,
                          del_updated_at := sec now\<rparr>) (db_deletions d)\<rparr>))"

definition scan_snapshot :: "(string \<Rightarrow> string) \<Rightarrow> string \<Rightarrow> instant \<Rightarrow> snapshot \<Rightarrow> db \<Rightarrow> store_err + db" where
  "scan_snapshot newid repo at snap d =
     (case parseSnapshotTags (snap_tags snap) of
        None \<Rightarrow> Inr d
      | Some (p, k, runTag) \<Rightarrow>
          if 0 < tbl_count (vouches runTag repo (snap_id snap)) (db_runs d)
          then Inr (d\<lparr>db_deletions := tbl_delete (orphan_candidate repo (snap_id snap)) (db_deletions d)\<rparr>)
          else upsertOrphanCandidateTx (newid (snap_id snap)) repo (snap_id snap) at d)"

fun scan_each :: "(string \<Rightarrow> string) \<Rightarrow> string \<Rightarrow> instant \<Rightarrow> snapshot list \<Rightarrow> db \<Rightarrow> store_err + db" where
  "scan_each newid repo at [] d = Inr d"
| "scan_each newid repo at (s # ss) d = and_then (scan_snapshot newid repo at s d) (scan_each newid repo at ss)"

definition deleteAbsentCandidatesTx :: "string \<Rightarrow> snapshot list \<Rightarrow> db \<Rightarrow> db" where
  "deleteAbsentCandidatesTx repo snaps d =
     d\<lparr>db_deletions := tbl_delete (\<lambda>x. del_repository_id x = repo \<and> del_source x = SnapshotDeletionOrphan \<and>
          del_state x = SnapshotDeletionCandidate \<and> del_snapshot_id x \<notin> set (map snap_id snaps)) (db_deletions d)\<rparr>"

text \<open>
  \<open>scan_run_id\<close> is scanned into a Go string, so reading the state of a repository without an
  active scan (\<open>NULL\<close>) is an error of its own.
\<close>

definition FinishSnapshotCleanupScan ::
    "(string \<Rightarrow> string) \<Rightarrow> string \<Rightarrow> string \<Rightarrow> snapshot list \<Rightarrow> instant \<Rightarrow> db \<Rightarrow> store_err + db" where
  "FinishSnapshotCleanupScan newid repo rid snaps at d =
     and_then
       (case find_cleanup d repo of
          None \<Rightarrow>
            if rid \<noteq> [] then Inl ErrNotFound
            else if \<not> list_ex (\<lambda>r. repo_id r = repo) (db_repos d)
            then Inl (ErrSql ''FOREIGN KEY constraint failed'')
            else Inr (d\<lparr>db_cleanup := db_cleanup d @ [new_cleanup repo at]\<rparr>)
        | Some c \<Rightarrow>
            if cln_scan_run_id c = [] then Inl (ErrSql ''finish cleanup scan read run'')
            else if rid \<noteq> [] \<and> cln_scan_run_id c \<noteq> rid then Inl ErrInvalidTransition
            else Inr d)
       (\<lambda>d0. and_then (scan_each newid repo at snaps d0) (\<lambda>d1.
          let d2 = deleteAbsentCandidatesTx repo snaps d1 in
          Inr (d2\<lparr>db_cleanup := tbl_update (\<lambda>c. cln_repository_id c = repo)
                 (\<lambda>c. c\<lparr>cln_scan_run_id := [], cln_last_scan_completed_at := Some (sec at),
                        cln_next_attempt_at := None, cln_updated_at := sec at\<rparr>) (db_cleanup d2)\<rparr>)))"

definition StartSnapshotCleanupScan :: "string \<Rightarrow> string \<Rightarrow> instant \<Rightarrow> db \<Rightarrow> store_err + db" where
  "StartSnapshotCleanupScan repo rid at d =
     (if rid = [] then Inl ErrInvalidTransition
      else case find_cleanup d repo of
        None \<Rightarrow>
          if \<not> list_ex (\<lambda>r. repo_id r = repo) (db_repos d)
          then Inl (ErrSql ''FOREIGN KEY constraint failed'')
          else Inr (d\<lparr>db_cleanup := db_cleanup d @
                 [(new_cleanup repo at)\<lparr>cln_scan_run_id := rid, cln_last_scan_started_at := Some (sec at)\<rparr>]\<rparr>)
      | Some c \<Rightarrow>
          if cln_scan_run_id c = [] \<or> cln_scan_run_id c = rid
          then Inr (d\<lparr>db_cleanup := tbl_update (\<lambda>c. cln_repository_id c = repo)
                 (\<lambda>c. c\<lparr>cln_scan_run_id := rid, cln_last_scan_started_at := Some (sec at),
                        cln_next_attempt_at := None, cln_updated_at := sec at\<rparr>) (db_cleanup d)\<rparr>)
          else Inl ErrInvalidTransition)"

definition ClearSnapshotCleanupScan :: "instant \<Rightarrow> string \<Rightarrow> string \<Rightarrow> instant \<Rightarrow> db \<Rightarrow> store_err + db" where
  "ClearSnapshotCleanupScan now repo rid nextAt d =
     (case find_cleanup d repo of
        None \<Rightarrow> Inl ErrNotFound
      | Some c \<Rightarrow>
          if cln_scan_run_id c = [] then Inl (ErrSql ''clear cleanup scan read run'')
          else if cln_scan_run_id c \<noteq> rid then Inl ErrInvalidTransition
          else Inr (d\<lparr>db_cleanup := tbl_update (\<lambda>c. cln_repository_id c = repo)
                 (\<lambda>c. c\<lparr>cln_scan_run_id := [], cln_next_attempt_at := Some (sec nextAt),
                        cln_updated_at := sec now\<rparr>) (db_cleanup d)\<rparr>))"

section \<open>Lemmas: the table of intents\<close>

definition deletions_ok :: "snapshot_deletion list \<Rightarrow> bool" where
  "deletions_ok xs \<longleftrightarrow> distinct (map del_id xs) \<and> distinct (map (\<lambda>x. (del_repository_id x, del_snapshot_id x)) xs) \<and>
     (\<forall>x\<in>set xs. 1 \<le> del_seen_count x)"

lemma find_deletion_in:
  "find_deletion d repo snap = Some x \<Longrightarrow> x \<in> set (db_deletions d) \<and> del_key repo snap x"
  by (auto simp: find_deletion_def dest: tbl_get_Some)

lemma deletions_ok_id: "deletions_ok xs \<Longrightarrow> x \<in> set xs \<Longrightarrow> y \<in> set xs \<Longrightarrow> del_id x = del_id y \<Longrightarrow> x = y"
  by (auto simp: deletions_ok_def distinct_map dest: inj_onD)

lemma deletions_ok_key:
  "deletions_ok xs \<Longrightarrow> x \<in> set xs \<Longrightarrow> y \<in> set xs \<Longrightarrow> del_key r s x \<Longrightarrow> del_key r s y \<Longrightarrow> x = y"
  by (auto simp: deletions_ok_def distinct_map del_key_def dest: inj_onD)

lemma deletions_ok_delete: "deletions_ok xs \<Longrightarrow> deletions_ok (tbl_delete P xs)"
  by (auto simp: deletions_ok_def distinct_map_tbl_delete)

lemma deletions_ok_update:
  assumes "deletions_ok xs"
    and "\<And>x. x \<in> set xs \<Longrightarrow> P x \<Longrightarrow> del_id (f x) = del_id x \<and> del_repository_id (f x) = del_repository_id x \<and>
           del_snapshot_id (f x) = del_snapshot_id x \<and> 1 \<le> del_seen_count (f x)"
  shows "deletions_ok (tbl_update P f xs)"
proof -
  have "map del_id (tbl_update P f xs) = map del_id xs"
    "map (\<lambda>x. (del_repository_id x, del_snapshot_id x)) (tbl_update P f xs) =
     map (\<lambda>x. (del_repository_id x, del_snapshot_id x)) xs"
    using assms(2) by (auto simp: tbl_update_def)
  moreover have "\<forall>x\<in>set (tbl_update P f xs). 1 \<le> del_seen_count x"
    using assms by (auto simp: set_tbl_update deletions_ok_def)
  ultimately show ?thesis using assms(1) by (simp add: deletions_ok_def)
qed

lemma deletions_ok_seen: "deletions_ok xs \<Longrightarrow> x \<in> set xs \<Longrightarrow> 1 \<le> del_seen_count x"
  by (simp add: deletions_ok_def)

lemma insert_deletion_iff:
  "insert_deletion x d = Inr d' \<longleftrightarrow>
     (\<forall>y\<in>set (db_deletions d). del_id y \<noteq> del_id x \<and> \<not> del_key (del_repository_id x) (del_snapshot_id x) y) \<and>
     (\<exists>r\<in>set (db_repos d). repo_id r = del_repository_id x) \<and> (\<exists>a\<in>set (db_agents d). agt_id a = del_agent_id x) \<and>
     d' = d\<lparr>db_deletions := db_deletions d @ [x]\<rparr>"
  by (auto simp: insert_deletion_def list_ex_iff)

lemma insert_deletion_ok:
  "insert_deletion x d = Inr d' \<Longrightarrow> deletions_ok (db_deletions d) \<Longrightarrow> 1 \<le> del_seen_count x \<Longrightarrow>
   deletions_ok (db_deletions d')"
  by (auto simp: insert_deletion_iff deletions_ok_def del_key_def)

text \<open>
  What a scan may do to the table: it keeps every intent that is manual or has left the candidate
  state, it adds only candidates that are first seen now, and it promotes only candidates that were
  first seen a week ago or earlier.
\<close>

definition aged :: "string \<Rightarrow> instant \<Rightarrow> snapshot_deletion \<Rightarrow> snapshot_deletion \<Rightarrow> bool" where
  "aged repo at x y \<longleftrightarrow> orphan_candidate repo (del_snapshot_id y) x \<and> del_id x = del_id y \<and>
     del_first_seen_at x = del_first_seen_at y \<and> del_seen_count x < del_seen_count y \<and>
     (del_state y = SnapshotDeletionCandidate \<or>
      del_state y = SnapshotDeletionPending \<and> week \<le> at - del_first_seen_at x)"

definition scan_rel :: "string \<Rightarrow> instant \<Rightarrow> snapshot_deletion list \<Rightarrow> snapshot_deletion list \<Rightarrow> bool" where
  "scan_rel repo at xs ys \<longleftrightarrow>
     (\<forall>x\<in>set xs. del_source x = SnapshotDeletionManual \<or> del_state x \<noteq> SnapshotDeletionCandidate \<or>
         del_repository_id x \<noteq> repo \<longrightarrow> x \<in> set ys) \<and>
     (\<forall>y\<in>set ys. y \<in> set xs \<or>
        (del_repository_id y = repo \<and> del_source y = SnapshotDeletionOrphan \<and>
         (del_state y = SnapshotDeletionCandidate \<and> del_first_seen_at y = sec at \<or>
          (\<exists>x\<in>set xs. aged repo at x y))))"

lemma scan_rel_refl: "scan_rel repo at xs xs"
  by (simp add: scan_rel_def)

lemma not_aged_now: "\<not> week \<le> at - sec at"
  using sec_gt [of at] by (simp add: week_def hours_def minutes_def seconds_def nano_def)

lemma aged_trans: "aged repo at x y \<Longrightarrow> aged repo at y z \<Longrightarrow> aged repo at x z"
  by (auto simp: aged_def orphan_candidate_def del_key_def)

lemma scan_rel_trans:
  assumes xy: "scan_rel repo at xs ys" and yz: "scan_rel repo at ys zs"
  shows "scan_rel repo at xs zs"
  unfolding scan_rel_def
proof (intro conjI ballI impI)
  fix x assume "x \<in> set xs" "del_source x = SnapshotDeletionManual \<or> del_state x \<noteq> SnapshotDeletionCandidate \<or> del_repository_id x \<noteq> repo"
  then show "x \<in> set zs" using xy yz unfolding scan_rel_def by blast
next
  fix z assume z: "z \<in> set zs"
  let ?new = "\<lambda>v. del_state v = SnapshotDeletionCandidate \<and> del_first_seen_at v = sec at"
  let ?goal = "del_repository_id z = repo \<and> del_source z = SnapshotDeletionOrphan \<and> (?new z \<or> (\<exists>x\<in>set xs. aged repo at x z))"
  from z yz consider "z \<in> set ys" | "del_repository_id z = repo" "del_source z = SnapshotDeletionOrphan" "?new z"
    | y where "y \<in> set ys" "aged repo at y z" "del_repository_id z = repo" "del_source z = SnapshotDeletionOrphan"
    unfolding scan_rel_def by blast
  then show "z \<in> set xs \<or> ?goal"
  proof cases
    case 1
    with xy show ?thesis unfolding scan_rel_def by blast
  next
    case 2
    then show ?thesis by blast
  next
    case (3 y)
    from xy 3(1) consider "y \<in> set xs" | "?new y" | x where "x \<in> set xs" "aged repo at x y"
      unfolding scan_rel_def by blast
    then show ?thesis
    proof cases
      case 1
      with 3 show ?thesis by blast
    next
      case 2
      with 3(2) not_aged_now [of at] have "?new z" by (auto simp: aged_def)
      with 3 show ?thesis by blast
    next
      case (3 x)
      with \<open>aged repo at y z\<close> have "aged repo at x z" by (blast intro: aged_trans)
      with 3(1) \<open>del_repository_id z = repo\<close> \<open>del_source z = SnapshotDeletionOrphan\<close> show ?thesis by blast
    qed
  qed
qed

lemma set_update_one:
  assumes "x \<in> set xs" and "\<And>y. y \<in> set xs \<Longrightarrow> P y \<longleftrightarrow> y = x"
  shows "set (tbl_update P f xs) = insert (f x) (set xs - {x})"
  using assms by (auto simp: set_tbl_update)

lemma upsert_ok:
  assumes "upsertOrphanCandidateTx newid repo snap at d = Inr d'" and ok: "deletions_ok (db_deletions d)"
  shows "deletions_ok (db_deletions d') \<and> scan_rel repo at (db_deletions d) (db_deletions d')"
proof (cases "find_deletion d repo snap")
  case None
  with assms(1) obtain r :: repository where "insert_deletion
      (new_deletion newid repo (repo_agent_id r) snap SnapshotDeletionOrphan SnapshotDeletionCandidate [] (sec at)) d = Inr d'"
    by (auto simp: upsertOrphanCandidateTx_def split: option.splits)
  from insert_deletion_ok [OF this ok] this show ?thesis
    by (auto simp: new_deletion_def insert_deletion_iff scan_rel_def)
next
  case (Some x)
  have x: "x \<in> set (db_deletions d)" "del_key repo snap x" using find_deletion_in [OF Some] by auto
  show ?thesis
  proof (cases "del_source x = SnapshotDeletionManual \<or> del_state x \<noteq> SnapshotDeletionCandidate")
    case True
    with Some assms show ?thesis by (auto simp: upsertOrphanCandidateTx_def scan_rel_refl)
  next
    case False
    let ?st = "if 2 \<le> del_seen_count x + 1 \<and> week \<le> at - del_first_seen_at x
               then SnapshotDeletionPending else SnapshotDeletionCandidate"
    let ?f = "\<lambda>y. y\<lparr>del_seen_count := del_seen_count x + 1, del_state := ?st, del_last_seen_at := sec at, del_updated_at := sec at\<rparr>"
    have d': "db_deletions d' = tbl_update (\<lambda>y. del_id y = del_id x) ?f (db_deletions d)"
      using Some False assms(1) by (simp add: upsertOrphanCandidateTx_def Let_def) auto
    have one: "y = x" if "y \<in> set (db_deletions d)" "del_id y = del_id x" for y
      using deletions_ok_id [OF ok that(1) x(1) that(2)] .
    have "deletions_ok (db_deletions d')"
      unfolding d' by (rule deletions_ok_update [OF ok]) (use ok x(1) in \<open>auto simp: deletions_ok_def\<close>)
    moreover have src: "del_source x = SnapshotDeletionOrphan" using False by (cases "del_source x") auto
    then have "aged repo at x (?f x)"
      using False x(2) src by (auto simp: aged_def orphan_candidate_def del_key_def)
    have "set (db_deletions d') = insert (?f x) (set (db_deletions d) - {x})"
      unfolding d' using one x(1) by (intro set_update_one) auto
    then have "scan_rel repo at (db_deletions d) (db_deletions d')"
      using \<open>aged repo at x (?f x)\<close> x src False unfolding scan_rel_def
      by (auto simp: del_key_def)
    ultimately show ?thesis by blast
  qed
qed

lemma scan_snapshot_ok:
  assumes "scan_snapshot newid repo at s d = Inr d'" and "deletions_ok (db_deletions d)"
  shows "deletions_ok (db_deletions d') \<and> scan_rel repo at (db_deletions d) (db_deletions d')"
  using assms upsert_ok [of "newid (snap_id s)" repo "snap_id s" at d d']
  by (auto simp: scan_snapshot_def scan_rel_refl deletions_ok_delete split: option.splits if_splits)
    (auto simp: scan_rel_def orphan_candidate_def del_key_def)

lemma scan_each_ok:
  assumes "scan_each newid repo at ss d = Inr d'" and "deletions_ok (db_deletions d)"
  shows "deletions_ok (db_deletions d') \<and> scan_rel repo at (db_deletions d) (db_deletions d')"
  using assms
proof (induction ss arbitrary: d)
  case Nil
  then show ?case by (simp add: scan_rel_refl)
next
  case (Cons s ss)
  from Cons.prems(1) obtain d1 where d1: "scan_snapshot newid repo at s d = Inr d1"
    "scan_each newid repo at ss d1 = Inr d'" by (auto simp: and_then_Inr)
  from scan_snapshot_ok [OF d1(1) Cons.prems(2)] Cons.IH [OF d1(2)] show ?case
    by (blast intro: scan_rel_trans)
qed

lemma FinishScan_cases:
  assumes "FinishSnapshotCleanupScan newid repo rid snaps at d = Inr d'"
  obtains d0 d1 where "db_deletions d0 = db_deletions d" "db_runs d0 = db_runs d"
    "scan_each newid repo at snaps d0 = Inr d1"
    "db_deletions d' = db_deletions (deleteAbsentCandidatesTx repo snaps d1)"
    "rid \<noteq> [] \<longrightarrow> (\<exists>c. find_cleanup d repo = Some c \<and> cln_scan_run_id c = rid)"
    "\<exists>cl. d0 = d\<lparr>db_cleanup := cl\<rparr>" "\<exists>cl. d' = (deleteAbsentCandidatesTx repo snaps d1)\<lparr>db_cleanup := cl\<rparr>"
proof -
  let ?pre = "case find_cleanup d repo of
          None \<Rightarrow>
            if rid \<noteq> [] then Inl ErrNotFound
            else if \<not> list_ex (\<lambda>r. repo_id r = repo) (db_repos d)
            then Inl (ErrSql ''FOREIGN KEY constraint failed'')
            else Inr (d\<lparr>db_cleanup := db_cleanup d @ [new_cleanup repo at]\<rparr>)
        | Some c \<Rightarrow>
            if cln_scan_run_id c = [] then Inl (ErrSql ''finish cleanup scan read run'')
            else if rid \<noteq> [] \<and> cln_scan_run_id c \<noteq> rid then Inl ErrInvalidTransition
            else Inr d"
  obtain d0 d1 where d0: "?pre = Inr d0" and d1: "scan_each newid repo at snaps d0 = Inr d1"
    and d': "\<exists>cl. d' = (deleteAbsentCandidatesTx repo snaps d1)\<lparr>db_cleanup := cl\<rparr>"
    using assms unfolding FinishSnapshotCleanupScan_def and_then_Inr Let_def by auto
  have cl: "\<exists>cl. d0 = d\<lparr>db_cleanup := cl\<rparr>"
    by (intro exI [of _ "db_cleanup d0"] db.equality) (use d0 in \<open>auto split: option.splits if_splits\<close>)
  show thesis
    by (rule that [OF _ _ d1 _ _ cl d']) (use d0 d' in \<open>auto split: option.splits if_splits\<close>)
qed

lemma FinishScan_eval:
  assumes "find_cleanup d repo = Some c" and "cln_scan_run_id c = rid" and "rid \<noteq> []"
    and "scan_each newid repo at snaps d = Inr d1"
  shows "\<exists>d'. FinishSnapshotCleanupScan newid repo rid snaps at d = Inr d' \<and>
    db_deletions d' = db_deletions (deleteAbsentCandidatesTx repo snaps d1)"
  using assms by (simp add: FinishSnapshotCleanupScan_def Let_def)

lemma FinishScan_ok:
  assumes "FinishSnapshotCleanupScan newid repo rid snaps at d = Inr d'" and ok: "deletions_ok (db_deletions d)"
  shows "deletions_ok (db_deletions d') \<and> scan_rel repo at (db_deletions d) (db_deletions d')"
  using assms(1)
proof (cases rule: FinishScan_cases)
  case (1 d0 d1)
  have s: "deletions_ok (db_deletions d1)" "scan_rel repo at (db_deletions d) (db_deletions d1)"
    using scan_each_ok [OF 1(3)] ok 1(1) by simp_all
  have "scan_rel repo at (db_deletions d1) (db_deletions d')"
    unfolding 1(4) by (auto simp: scan_rel_def deleteAbsentCandidatesTx_def)
  with s show ?thesis
    using 1(4) scan_rel_trans by (auto simp: deleteAbsentCandidatesTx_def deletions_ok_delete)
qed

section \<open>Lemmas: the other operations\<close>

lemma Claim_iff:
  "ClaimSnapshotDeletionRun now did r lease d = Inr d' \<longleftrightarrow>
     (\<exists>x. tbl_get (\<lambda>x. del_id x = did) (db_deletions d) = Some x \<and> del_state x = SnapshotDeletionPending) \<and>
     \<not> run_conflict (db_runs d) ((run_row r)\<lparr>run_dedup_key := []\<rparr>) \<and>
     (run_plan_id r \<noteq> [] \<longrightarrow> (\<exists>p\<in>set (db_plans d). plan_id p = run_plan_id r)) \<and>
     d' = d\<lparr>db_runs := db_runs d @ [(run_row r)\<lparr>run_dedup_key := []\<rparr>],
            db_deletions := tbl_update (\<lambda>y. del_id y = did)
                          (\<lambda>y. y\<lparr>del_state := SnapshotDeletionRunning, del_run_id := run_id r,
                                 del_lease_expires_at := Some (sec lease), del_attempt := del_attempt y + 1,
                                 del_error_code := [], del_error_message := [], del_updated_at := sec now\<rparr>)
                          (db_deletions d)\<rparr>"
  by (auto simp: ClaimSnapshotDeletionRun_def Let_def list_ex_iff split: option.splits)

lemma Claim_runs_ok [inv_intros]:
  "ClaimSnapshotDeletionRun now did r lease d = Inr d' \<Longrightarrow> runs_ok (db_runs d) \<Longrightarrow> runs_ok (db_runs d')"
  by (auto simp: Claim_iff intro!: runs_ok_snoc)

lemma Claim_restore_inv [inv_intros]:
  "ClaimSnapshotDeletionRun now did r lease d = Inr d' \<Longrightarrow> restore_inv d \<Longrightarrow> restore_inv d'"
  by (auto simp: Claim_iff restores_ok_def)

lemma QueueManual_deletions_ok:
  assumes "QueueManualSnapshotDeletion newid repo agent snap actor now d = Inr (x, b, d')"
    and "deletions_ok (db_deletions d)"
  shows "deletions_ok (db_deletions d')"
proof (cases "find_deletion d repo snap")
  case None
  with assms show ?thesis
    by (auto simp: QueueManualSnapshotDeletion_def and_then_Inr new_deletion_def intro: insert_deletion_ok)
next
  case (Some y)
  with assms show ?thesis
    by (auto simp: QueueManualSnapshotDeletion_def Let_def deletions_ok_seen
        intro!: deletions_ok_update split: if_splits)
qed

lemma Claim_deletions_ok:
  "ClaimSnapshotDeletionRun now did r lease d = Inr d' \<Longrightarrow> deletions_ok (db_deletions d) \<Longrightarrow> deletions_ok (db_deletions d')"
  by (auto simp: Claim_iff deletions_ok_seen intro!: deletions_ok_update)

lemma Complete_deletions_ok:
  "CompleteSnapshotDeletion did now d = Inr d' \<Longrightarrow> deletions_ok (db_deletions d) \<Longrightarrow> deletions_ok (db_deletions d')"
  by (auto simp: CompleteSnapshotDeletion_def deletions_ok_seen intro!: deletions_ok_update split: if_splits)

lemma Retry_deletions_ok:
  "RetrySnapshotDeletion now did code msg at d = Inr d' \<Longrightarrow> deletions_ok (db_deletions d) \<Longrightarrow> deletions_ok (db_deletions d')"
  by (auto simp: RetrySnapshotDeletion_def deletions_ok_seen intro!: deletions_ok_update split: if_splits)

section \<open>Properties\<close>

text \<open>C33: An orphan scan leaves alone every intent that an operator asked for, that has left the candidate
  state or that belongs to another repository.  It brings a snapshot into deletion only from a
  candidate of this repository that an earlier scan recorded at least a week before, and then it has
  been seen at least twice.\<close>

theorem orphan_scan_promotes_only_old_candidates:
  assumes ok: "deletions_ok (db_deletions d)"
    and scan: "FinishSnapshotCleanupScan newid repo rid snaps at d = Inr d'"
  shows "deletions_ok (db_deletions d') \<and>
    (\<forall>x\<in>set (db_deletions d). del_source x = SnapshotDeletionManual \<or> del_state x \<noteq> SnapshotDeletionCandidate \<or>
        del_repository_id x \<noteq> repo \<longrightarrow> x \<in> set (db_deletions d')) \<and>
    (\<forall>y\<in>set (db_deletions d'). del_state y \<noteq> SnapshotDeletionCandidate \<and> y \<notin> set (db_deletions d) \<longrightarrow>
        del_state y = SnapshotDeletionPending \<and> del_source y = SnapshotDeletionOrphan \<and> 2 \<le> del_seen_count y \<and>
        (\<exists>x\<in>set (db_deletions d). orphan_candidate repo (del_snapshot_id y) x \<and> del_id x = del_id y \<and>
            del_first_seen_at x \<le> at - hours (7 * 24)))"
proof -
  have rel: "deletions_ok (db_deletions d')" "scan_rel repo at (db_deletions d) (db_deletions d')"
    using FinishScan_ok [OF scan ok] by auto
  have "del_state y = SnapshotDeletionPending \<and> del_source y = SnapshotDeletionOrphan \<and> 2 \<le> del_seen_count y \<and>
        (\<exists>x\<in>set (db_deletions d). orphan_candidate repo (del_snapshot_id y) x \<and> del_id x = del_id y \<and>
            del_first_seen_at x \<le> at - hours (7 * 24))"
    if "y \<in> set (db_deletions d')" "del_state y \<noteq> SnapshotDeletionCandidate" "y \<notin> set (db_deletions d)" for y
  proof -
    from that rel(2) obtain x where x: "x \<in> set (db_deletions d)" "aged repo at x y" "del_source y = SnapshotDeletionOrphan"
      unfolding scan_rel_def by blast
    from x(1) ok have "1 \<le> del_seen_count x" unfolding deletions_ok_def by blast
    with x that(2) show ?thesis by (auto simp: aged_def week_def)
  qed
  with rel show ?thesis unfolding scan_rel_def by blast
qed

definition sample_deletion :: "deletion_state \<Rightarrow> snapshot_deletion" where
  "sample_deletion st = new_deletion ''x1'' ''p1'' ''a1'' ''s1'' SnapshotDeletionOrphan st [] 0"

lemma sample_deletion_fields [simp]:
  "del_id (sample_deletion st) = ''x1''" "del_repository_id (sample_deletion st) = ''p1''"
  "del_snapshot_id (sample_deletion st) = ''s1''" "del_source (sample_deletion st) = SnapshotDeletionOrphan"
  "del_state (sample_deletion st) = st" "del_first_seen_at (sample_deletion st) = 0"
  "del_seen_count (sample_deletion st) = 1" "del_agent_id (sample_deletion st) = ''a1''"
  by (simp_all add: sample_deletion_def new_deletion_def)

theorem orphan_scan_promotes_only_old_candidates_witness:
  "\<exists>d'. FinishSnapshotCleanupScan (\<lambda>s. s) ''p1'' ''r9''
        [\<lparr>snap_id = ''s1'', snap_time = [], snap_host = [], snap_tags = [''plan:a'', ''kind:b'', ''run:c''], snap_paths = []\<rparr>]
        (hours (7 * 24))
        (empty_db\<lparr>db_deletions := [sample_deletion SnapshotDeletionCandidate],
                  db_cleanup := [(new_cleanup ''p1'' 0)\<lparr>cln_scan_run_id := ''r9''\<rparr>]\<rparr>) = Inr d' \<and>
     map del_state (db_deletions d') = [SnapshotDeletionPending] \<and> deletions_ok (db_deletions d')"
proof -
  let ?s = "\<lparr>snap_id = ''s1'', snap_time = [], snap_host = [], snap_tags = [''plan:a'', ''kind:b'', ''run:c''], snap_paths = []\<rparr>"
  let ?d = "empty_db\<lparr>db_deletions := [sample_deletion SnapshotDeletionCandidate],
                  db_cleanup := [(new_cleanup ''p1'' 0)\<lparr>cln_scan_run_id := ''r9''\<rparr>]\<rparr>"
  let ?up = "\<lambda>y. y\<lparr>del_seen_count := 2, del_state := SnapshotDeletionPending,
      del_last_seen_at := sec (hours (7 * 24)), del_updated_at := sec (hours (7 * 24))\<rparr>"
  have ok: "deletions_ok (db_deletions ?d)" by (simp add: deletions_ok_def)
  have tags: "parseSnapshotTags (snap_tags ?s) = Some (''a'', ''b'', ''c'')"
    by (simp add: parseSnapshotTags_def TrimPrefix_def)
  have x: "find_deletion ?d ''p1'' ''s1'' = Some (sample_deletion SnapshotDeletionCandidate)"
    by (simp add: find_deletion_def del_key_def)
  have c: "find_cleanup ?d ''p1'' = Some ((new_cleanup ''p1'' 0)\<lparr>cln_scan_run_id := ''r9''\<rparr>)"
    by (simp add: find_cleanup_def new_cleanup_def)
  have up: "upsertOrphanCandidateTx ''s1'' ''p1'' ''s1'' (hours (7 * 24)) ?d =
      Inr (?d\<lparr>db_deletions := [?up (sample_deletion SnapshotDeletionCandidate)]\<rparr>)"
    by (simp add: upsertOrphanCandidateTx_def x week_def)
  have one: "scan_snapshot (\<lambda>s. s) ''p1'' (hours (7 * 24)) ?s ?d =
      Inr (?d\<lparr>db_deletions := [?up (sample_deletion SnapshotDeletionCandidate)]\<rparr>)"
    unfolding scan_snapshot_def tags using up by (simp add: tbl_count_def)
  have each: "scan_each (\<lambda>s. s) ''p1'' (hours (7 * 24)) [?s] ?d =
      Inr (?d\<lparr>db_deletions := [?up (sample_deletion SnapshotDeletionCandidate)]\<rparr>)"
    by (simp only: scan_each.simps one and_then.simps)
  have c': "cln_scan_run_id ((new_cleanup ''p1'' 0)\<lparr>cln_scan_run_id := ''r9''\<rparr>) = ''r9''" "''r9'' \<noteq> ([] :: string)"
    by simp_all
  obtain d' where d1: "FinishSnapshotCleanupScan (\<lambda>s. s) ''p1'' ''r9'' [?s] (hours (7 * 24)) ?d = Inr d'"
    and d2: "db_deletions d' = db_deletions (deleteAbsentCandidatesTx ''p1'' [?s]
          (?d\<lparr>db_deletions := [?up (sample_deletion SnapshotDeletionCandidate)]\<rparr>))"
    using FinishScan_eval [OF c c' each] by blast
  have "map del_state (db_deletions d') = [SnapshotDeletionPending]"
    unfolding d2 by (simp add: deleteAbsentCandidatesTx_def)
  with d1 conjunct1 [OF orphan_scan_promotes_only_old_candidates [OF ok d1]] show ?thesis
    by (intro exI [of _ d'] conjI)
qed

text \<open>A deletion is claimed only while it is pending, by one run: the run is in the table, every
  other intent is as before, and a second claim of the same intent is refused until the first is
  completed or put back.\<close>

theorem deletion_is_claimed_once:
  assumes ok: "deletions_ok (db_deletions d)" and runs: "runs_ok (db_runs d)"
    and claim: "ClaimSnapshotDeletionRun now did r lease d = Inr d'"
  shows "(\<exists>x\<in>set (db_deletions d). del_id x = did \<and> del_state x = SnapshotDeletionPending) \<and>
    runs_ok (db_runs d') \<and> find_run d' (run_id r) \<noteq> None \<and>
    (\<forall>x\<in>set (db_deletions d). del_id x \<noteq> did \<longrightarrow> x \<in> set (db_deletions d')) \<and>
    ClaimSnapshotDeletionRun now2 did r2 lease2 d' = Inl ErrInvalidTransition"
proof -
  from claim obtain x where x: "tbl_get (\<lambda>x. del_id x = did) (db_deletions d) = Some x"
      "del_state x = SnapshotDeletionPending"
    and d': "db_runs d' = db_runs d @ [(run_row r)\<lparr>run_dedup_key := []\<rparr>]"
      "db_deletions d' = tbl_update (\<lambda>y. del_id y = did)
          (\<lambda>y. y\<lparr>del_state := SnapshotDeletionRunning, del_run_id := run_id r,
                 del_lease_expires_at := Some (sec lease), del_attempt := del_attempt y + 1,
                 del_error_code := [], del_error_message := [], del_updated_at := sec now\<rparr>) (db_deletions d)"
    by (auto simp: Claim_iff)
  have "tbl_get (\<lambda>y. del_id y = did) (db_deletions d') =
      Some (x\<lparr>del_state := SnapshotDeletionRunning, del_run_id := run_id r,
                 del_lease_expires_at := Some (sec lease), del_attempt := del_attempt x + 1,
                 del_error_code := [], del_error_message := [], del_updated_at := sec now\<rparr>)"
    unfolding d'(2) by (rule tbl_get_update_same [OF x(1)]) simp
  then have "ClaimSnapshotDeletionRun now2 did r2 lease2 d' = Inl ErrInvalidTransition"
    by (simp add: ClaimSnapshotDeletionRun_def)
  moreover have "find_run d' (run_id r) \<noteq> None"
    by (simp add: find_run_def d'(1) split: option.splits)
  moreover have "\<forall>x\<in>set (db_deletions d). del_id x \<noteq> did \<longrightarrow> x \<in> set (db_deletions d')"
    unfolding d'(2) set_tbl_update by (auto intro: rev_image_eqI)
  ultimately show ?thesis
    using x(2) tbl_get_Some [OF x(1)] Claim_runs_ok [OF claim runs] by blast
qed

theorem deletion_is_claimed_once_witness:
  "\<exists>d'. ClaimSnapshotDeletionRun 1 ''x1'' (sample_run ''r1'' OpForget RunQueued) 2
        (empty_db\<lparr>db_deletions := [sample_deletion SnapshotDeletionPending]\<rparr>) = Inr d' \<and>
     ClaimSnapshotDeletionRun 3 ''x1'' (sample_run ''r2'' OpForget RunQueued) 4 d' = Inl ErrInvalidTransition"
proof -
  let ?d = "empty_db\<lparr>db_deletions := [sample_deletion SnapshotDeletionPending]\<rparr>"
  let ?r = "sample_run ''r1'' OpForget RunQueued"
  have ok: "deletions_ok (db_deletions ?d)" by (simp add: deletions_ok_def)
  have runs: "runs_ok (db_runs ?d)" by simp
  have "\<exists>d'. ClaimSnapshotDeletionRun 1 ''x1'' ?r 2 ?d = Inr d'"
    by (simp add: ClaimSnapshotDeletionRun_def Let_def run_conflict_def)
  then obtain d' where d': "ClaimSnapshotDeletionRun 1 ''x1'' ?r 2 ?d = Inr d'" by blast
  from deletion_is_claimed_once [OF ok runs d', of 3 "sample_run ''r2'' OpForget RunQueued" 4] d' show ?thesis by blast
qed

text \<open>At most one orphan scan of a repository is active: starting one succeeds exactly when none is
  active or the active one is the same run, and then finishing or clearing it is possible for this
  run only.\<close>

theorem one_active_scan_per_repository:
  assumes start: "StartSnapshotCleanupScan repo rid at d = Inr d'"
  shows "rid \<noteq> [] \<and>
    (\<forall>c. find_cleanup d repo = Some c \<longrightarrow> cln_scan_run_id c = [] \<or> cln_scan_run_id c = rid) \<and>
    map_option cln_scan_run_id (find_cleanup d' repo) = Some rid \<and>
    (other \<noteq> rid \<and> other \<noteq> [] \<longrightarrow>
       StartSnapshotCleanupScan repo other t d' = Inl ErrInvalidTransition \<and>
       FinishSnapshotCleanupScan newid repo other snaps t d' = Inl ErrInvalidTransition \<and>
       ClearSnapshotCleanupScan now repo other t d' = Inl ErrInvalidTransition)"
proof -
  have rid: "rid \<noteq> []" using start by (auto simp: StartSnapshotCleanupScan_def)
  have before: "\<forall>c. find_cleanup d repo = Some c \<longrightarrow> cln_scan_run_id c = [] \<or> cln_scan_run_id c = rid"
    using start by (auto simp: StartSnapshotCleanupScan_def split: if_splits)
  have after: "map_option cln_scan_run_id (find_cleanup d' repo) = Some rid"
  proof (cases "find_cleanup d repo")
    case None
    then have none: "tbl_get (\<lambda>c. cln_repository_id c = repo) (db_cleanup d) = None" by (simp add: find_cleanup_def)
    from None start rid show ?thesis
      by (auto simp: StartSnapshotCleanupScan_def find_cleanup_def new_cleanup_def none split: if_splits)
  next
    case (Some c)
    have key: "cln_repository_id c = repo" using Some by (auto simp: find_cleanup_def dest: tbl_get_Some)
    from Some start rid key show ?thesis
      by (auto simp: StartSnapshotCleanupScan_def find_cleanup_def tbl_get_update_key split: if_splits)
  qed
  then obtain c where c: "find_cleanup d' repo = Some c" "cln_scan_run_id c = rid" by auto
  show ?thesis
    using rid before after c
    by (auto simp: StartSnapshotCleanupScan_def FinishSnapshotCleanupScan_def ClearSnapshotCleanupScan_def)
qed

theorem one_active_scan_per_repository_witness:
  "\<exists>d'. StartSnapshotCleanupScan ''p1'' ''r1'' 5 (empty_db\<lparr>db_cleanup := [new_cleanup ''p1'' 0]\<rparr>) = Inr d' \<and>
     StartSnapshotCleanupScan ''p1'' ''r2'' 6 d' = Inl ErrInvalidTransition"
proof -
  let ?d = "empty_db\<lparr>db_cleanup := [new_cleanup ''p1'' 0]\<rparr>"
  have "\<exists>d'. StartSnapshotCleanupScan ''p1'' ''r1'' 5 ?d = Inr d'"
    by (simp add: StartSnapshotCleanupScan_def find_cleanup_def new_cleanup_def)
  then obtain d' where d': "StartSnapshotCleanupScan ''p1'' ''r1'' 5 ?d = Inr d'" by blast
  have "''r2'' \<noteq> ''r1'' \<and> ''r2'' \<noteq> ([] :: string)" by simp
  with one_active_scan_per_repository [OF d', where other = "''r2''" and t = 6] d' show ?thesis by blast
qed

text \<open>Clearing or finishing the scan of a repository that has a state row but no active scan fails
  with an error that is none of the named ones, although the run does not match.\<close>

theorem idle_scan_state_is_an_unnamed_error:
  assumes "find_cleanup d repo = Some c" and "cln_scan_run_id c = []"
  shows "ClearSnapshotCleanupScan now repo rid t d = Inl (ErrSql ''clear cleanup scan read run'') \<and>
    FinishSnapshotCleanupScan newid repo rid snaps t d = Inl (ErrSql ''finish cleanup scan read run'')"
  using assms by (simp add: ClearSnapshotCleanupScan_def FinishSnapshotCleanupScan_def)

theorem idle_scan_state_is_an_unnamed_error_witness:
  "ClearSnapshotCleanupScan 1 ''p1'' ''r1'' 2 (empty_db\<lparr>db_cleanup := [new_cleanup ''p1'' 0]\<rparr>) =
     Inl (ErrSql ''clear cleanup scan read run'')"
proof -
  let ?d = "empty_db\<lparr>db_cleanup := [new_cleanup ''p1'' 0]\<rparr>"
  have "find_cleanup ?d ''p1'' = Some (new_cleanup ''p1'' 0)" "cln_scan_run_id (new_cleanup ''p1'' 0) = []"
    by (simp_all add: find_cleanup_def new_cleanup_def)
  from idle_scan_state_is_an_unnamed_error [OF this] show ?thesis by blast
qed

end
