(* ===== verification/Store_Accounts.thy ===== *)
theory Store_Accounts
  imports Store_State
begin

text \<open>
  Administrators, sessions, enrollment tokens, agents, the audit trail and the Telegram settings
  (\<open>store/sqlite.go\<close>).  Sealing of the bot token is the business of the sealer, an argument here.
\<close>

section \<open>Administrators and sessions\<close>

definition HasAdmin :: "db \<Rightarrow> bool" where
  "HasAdmin d \<longleftrightarrow> 0 < length (db_admins d)"

definition CreateAdmin :: "admin \<Rightarrow> db \<Rightarrow> store_err + db" where
  "CreateAdmin a d =
     (if 0 < length (db_admins d) then Inl ErrAdminExists
      else Inr (d\<lparr>db_admins := db_admins d @
             [a\<lparr>adm_created_at := sec (adm_created_at a), adm_last_login_at := map_option sec (adm_last_login_at a)\<rparr>]\<rparr>))"

definition GetAdminByUsername :: "db \<Rightarrow> string \<Rightarrow> store_err + admin" where
  "GetAdminByUsername d u =
     (case tbl_get (\<lambda>a. adm_username a = u) (db_admins d) of None \<Rightarrow> Inl ErrNotFound | Some a \<Rightarrow> Inr a)"

definition GetAdminByID :: "db \<Rightarrow> string \<Rightarrow> store_err + admin" where
  "GetAdminByID d i =
     (case tbl_get (\<lambda>a. adm_id a = i) (db_admins d) of None \<Rightarrow> Inl ErrNotFound | Some a \<Rightarrow> Inr a)"

definition UpdateAdminLastLogin :: "string \<Rightarrow> instant \<Rightarrow> db \<Rightarrow> db" where
  "UpdateAdminLastLogin i at d =
     d\<lparr>db_admins := tbl_update (\<lambda>a. adm_id a = i) (\<lambda>a. a\<lparr>adm_last_login_at := Some (sec at)\<rparr>) (db_admins d)\<rparr>"

definition ResetAdmin :: "db \<Rightarrow> db" where
  "ResetAdmin d = d\<lparr>db_sessions := [], db_admins := []\<rparr>"

definition CreateSession :: "session \<Rightarrow> db \<Rightarrow> store_err + db" where
  "CreateSession s d =
     (if list_ex (\<lambda>x. ses_id_hash x = ses_id_hash s) (db_sessions d)
      then Inl (ErrSql ''UNIQUE constraint failed: sessions.id_hash'')
      else if \<not> list_ex (\<lambda>a. adm_id a = ses_admin_id s) (db_admins d)
      then Inl (ErrSql ''FOREIGN KEY constraint failed'')
      else Inr (d\<lparr>db_sessions := db_sessions d @
             [s\<lparr>ses_expires_at := sec (ses_expires_at s), ses_created_at := sec (ses_created_at s),
                ses_last_seen_at := sec (ses_last_seen_at s)\<rparr>]\<rparr>))"

definition GetSession :: "db \<Rightarrow> string \<Rightarrow> store_err + session" where
  "GetSession d h =
     (case tbl_get (\<lambda>s. ses_id_hash s = h) (db_sessions d) of None \<Rightarrow> Inl ErrNotFound | Some s \<Rightarrow> Inr s)"

definition TouchSession :: "string \<Rightarrow> instant \<Rightarrow> db \<Rightarrow> db" where
  "TouchSession h at d =
     d\<lparr>db_sessions := tbl_update (\<lambda>s. ses_id_hash s = h) (\<lambda>s. s\<lparr>ses_last_seen_at := sec at\<rparr>) (db_sessions d)\<rparr>"

definition DeleteSession :: "string \<Rightarrow> db \<Rightarrow> db" where
  "DeleteSession h d = d\<lparr>db_sessions := tbl_delete (\<lambda>s. ses_id_hash s = h) (db_sessions d)\<rparr>"

definition DeleteExpiredSessions :: "instant \<Rightarrow> db \<Rightarrow> db" where
  "DeleteExpiredSessions now d = d\<lparr>db_sessions := tbl_delete (\<lambda>s. ses_expires_at s < sec now) (db_sessions d)\<rparr>"

section \<open>Enrollment tokens\<close>

definition CreateEnrollmentToken :: "enrollment_token \<Rightarrow> db \<Rightarrow> store_err + db" where
  "CreateEnrollmentToken t d =
     (if list_ex (\<lambda>x. tok_id x = tok_id t \<or> tok_hash x = tok_hash t) (db_tokens d)
      then Inl (ErrSql ''UNIQUE constraint failed: enrollment_tokens'')
      else if tok_target_agent_id t \<noteq> [] \<and> \<not> list_ex (\<lambda>a. agt_id a = tok_target_agent_id t) (db_agents d)
      then Inl (ErrSql ''FOREIGN KEY constraint failed'')
      else Inr (d\<lparr>db_tokens := db_tokens d @
             [t\<lparr>tok_expires_at := sec (tok_expires_at t), tok_used_at := map_option sec (tok_used_at t)\<rparr>]\<rparr>))"

definition ListEnrollmentTokens :: "db \<Rightarrow> enrollment_token list" where
  "ListEnrollmentTokens d = order_desc tok_expires_at (db_tokens d)"

definition ConsumeEnrollmentToken :: "string \<Rightarrow> instant \<Rightarrow> db \<Rightarrow> store_err + (enrollment_token \<times> db)" where
  "ConsumeEnrollmentToken h now d =
     (let hit = (\<lambda>t. tok_hash t = h \<and> tok_used_at t = None \<and> sec now < tok_expires_at t);
          d' = d\<lparr>db_tokens := tbl_update hit (\<lambda>t. t\<lparr>tok_used_at := Some (sec now)\<rparr>) (db_tokens d)\<rparr>
      in if tbl_count hit (db_tokens d) = 0 then Inl ErrTokenInvalid
         else case tbl_get (\<lambda>t. tok_hash t = h) (db_tokens d') of
                None \<Rightarrow> Inl ErrNotFound | Some t \<Rightarrow> Inr (t, d'))"

section \<open>Agents\<close>

definition agent_hash_clash :: "db \<Rightarrow> string \<Rightarrow> string \<Rightarrow> bool" where
  "agent_hash_clash d i h \<longleftrightarrow> list_ex (\<lambda>x. agt_id x \<noteq> i \<and> agt_token_hash x = h) (db_agents d)"

definition UpsertAgentOnConnect :: "agent \<Rightarrow> db \<Rightarrow> store_err + db" where
  "UpsertAgentOnConnect a d =
     (if agent_hash_clash d (agt_id a) (agt_token_hash a)
      then Inl (ErrSql ''UNIQUE constraint failed: agents.token_hash'')
      else if list_ex (\<lambda>x. agt_id x = agt_id a) (db_agents d)
      then Inr (d\<lparr>db_agents := tbl_update (\<lambda>x. agt_id x = agt_id a)
             (\<lambda>x. x\<lparr>agt_name := agt_name a, agt_hostname := agt_hostname a, agt_os := agt_os a,
                    agt_arch := agt_arch a, agt_version := agt_version a, agt_status := agt_status a,
                    agt_last_seen_at := map_option sec (agt_last_seen_at a),
                    agt_token_hash := agt_token_hash a\<rparr>) (db_agents d)\<rparr>)
      else Inr (d\<lparr>db_agents := db_agents d @
             [a\<lparr>agt_last_seen_at := map_option sec (agt_last_seen_at a), agt_enrolled_at := sec (agt_enrolled_at a),
                agt_revoked := False\<rparr>]\<rparr>))"

definition SetAgentStatus :: "string \<Rightarrow> agent_status \<Rightarrow> instant \<Rightarrow> db \<Rightarrow> db" where
  "SetAgentStatus i st at d =
     d\<lparr>db_agents := tbl_update (\<lambda>a. agt_id a = i)
         (\<lambda>a. a\<lparr>agt_status := st, agt_last_seen_at := Some (sec at)\<rparr>) (db_agents d)\<rparr>"

definition SaveAgentCapabilities ::
    "string \<Rightarrow> tool_info list \<Rightarrow> path_mapping list \<Rightarrow> path_mapping list \<Rightarrow> bool \<Rightarrow> instant \<Rightarrow> db \<Rightarrow> db" where
  "SaveAgentCapabilities i tools src rest safe at d =
     d\<lparr>db_agents := tbl_update (\<lambda>a. agt_id a = i)
         (\<lambda>a. a\<lparr>agt_capabilities := tools, agt_source_mappings := src, agt_restore_mappings := rest,
                agt_safe_database_restore := safe, agt_last_seen_at := Some (sec at)\<rparr>) (db_agents d)\<rparr>"

definition find_agent :: "db \<Rightarrow> string \<Rightarrow> agent option" where
  "find_agent d i = tbl_get (\<lambda>a. agt_id a = i) (db_agents d)"

definition GetAgent :: "db \<Rightarrow> string \<Rightarrow> store_err + agent" where
  "GetAgent d i = (case find_agent d i of None \<Rightarrow> Inl ErrNotFound | Some a \<Rightarrow> Inr a)"

definition GetAgentBySecretHash :: "db \<Rightarrow> string \<Rightarrow> store_err + agent" where
  "GetAgentBySecretHash d h =
     (case tbl_get (\<lambda>a. agt_token_hash a = h) (db_agents d) of None \<Rightarrow> Inl ErrNotFound | Some a \<Rightarrow> Inr a)"

definition ListAgents :: "db \<Rightarrow> agent list" where
  "ListAgents d = sort_key agt_name (db_agents d)"

definition set_revoked :: "bool \<Rightarrow> agent \<Rightarrow> agent" where
  "set_revoked b a = (if b then a\<lparr>agt_revoked := True\<rparr> else a\<lparr>agt_revoked := False, agt_status := AgentOffline\<rparr>)"

definition RevokeAgent :: "string \<Rightarrow> db \<Rightarrow> store_err + db" where
  "RevokeAgent i d =
     (if tbl_count (\<lambda>a. agt_id a = i) (db_agents d) = 0 then Inl ErrNotFound
      else Inr (d\<lparr>db_agents := tbl_update (\<lambda>a. agt_id a = i) (set_revoked True) (db_agents d)\<rparr>))"

definition UnrevokeAgent :: "string \<Rightarrow> db \<Rightarrow> store_err + db" where
  "UnrevokeAgent i d =
     (if tbl_count (\<lambda>a. agt_id a = i) (db_agents d) = 0 then Inl ErrNotFound
      else Inr (d\<lparr>db_agents := tbl_update (\<lambda>a. agt_id a = i) (set_revoked False) (db_agents d)\<rparr>))"

definition ReEnrollAgent :: "string \<Rightarrow> string \<Rightarrow> instant \<Rightarrow> db \<Rightarrow> store_err + db" where
  "ReEnrollAgent i h now d =
     (case find_agent d i of
        None \<Rightarrow> Inl ErrNotFound
      | Some a \<Rightarrow>
          if agt_revoked a then Inl (ErrSql ''agent_revoked'')
          else if agent_hash_clash d i h then Inl (ErrSql ''UNIQUE constraint failed: agents.token_hash'')
          else Inr (d\<lparr>db_agents := tbl_update (\<lambda>x. agt_id x = i \<and> \<not> agt_revoked x)
                 (\<lambda>x. x\<lparr>agt_token_hash := h, agt_status := AgentOffline, agt_last_seen_at := Some (sec now)\<rparr>)
                 (db_agents d)\<rparr>))"

definition RenameAgent :: "string \<Rightarrow> string \<Rightarrow> db \<Rightarrow> store_err + db" where
  "RenameAgent i name d =
     (if tbl_count (\<lambda>a. agt_id a = i) (db_agents d) = 0 then Inl ErrNotFound
      else Inr (d\<lparr>db_agents := tbl_update (\<lambda>a. agt_id a = i) (\<lambda>a. a\<lparr>agt_name := name\<rparr>) (db_agents d)\<rparr>))"

section \<open>Audit trail and Telegram settings\<close>

definition AppendAuditEvent :: "audit_event \<Rightarrow> db \<Rightarrow> store_err + db" where
  "AppendAuditEvent e d =
     (if list_ex (\<lambda>x. aud_id x = aud_id e) (db_audits d)
      then Inl (ErrSql ''UNIQUE constraint failed: audit_events.id'')
      else Inr (d\<lparr>db_audits := db_audits d @ [e\<lparr>aud_occurred_at := sec (aud_occurred_at e)\<rparr>]\<rparr>))"

definition ListAuditEvents :: "db \<Rightarrow> int \<Rightarrow> audit_event list" where
  "ListAuditEvents d n = take (limit_or 100 n) (order_desc aud_occurred_at (db_audits d))"

definition SaveTelegramSettings ::
    "(string \<Rightarrow> string option) \<Rightarrow> string \<Rightarrow> string \<Rightarrow> instant \<Rightarrow> db \<Rightarrow> store_err + db" where
  "SaveTelegramSettings seal token chat now d =
     (case seal token of
        None \<Rightarrow> Inl (ErrSql ''seal telegram token'')
      | Some c \<Rightarrow> Inr (d\<lparr>db_telegram := Some \<lparr>tg_encrypted_token = c, tg_chat_id = chat, tg_updated_at = sec now\<rparr>\<rparr>))"

definition DeleteTelegramSettings :: "db \<Rightarrow> db" where
  "DeleteTelegramSettings d = d\<lparr>db_telegram := None\<rparr>"

text \<open>
  Reading the settings.  A token that the sealer cannot open may be one of the early format, the
  base64 text of a marked plain token (\<open>b64\<close> is the decoder); it is then written back sealed.
\<close>

definition decodeLegacyNoop :: "(string \<Rightarrow> string option) \<Rightarrow> string \<Rightarrow> string option" where
  "decodeLegacyNoop b64 data =
     (if data = [] then None
      else case b64 data of
        None \<Rightarrow> None
      | Some raw \<Rightarrow> if length raw < 5 \<or> take 5 raw \<noteq> ''noop:'' then None else Some (drop 5 raw))"

definition GetTelegramSettings ::
    "(string \<Rightarrow> string option) \<Rightarrow> (string \<Rightarrow> string option) \<Rightarrow> (string \<Rightarrow> string option) \<Rightarrow> instant \<Rightarrow> db \<Rightarrow>
     store_err + ((string \<times> string) \<times> db)" where
  "GetTelegramSettings seal unseal b64 now d =
     (case db_telegram d of
        None \<Rightarrow> Inl ErrNotFound
      | Some t \<Rightarrow>
          (case unseal (tg_encrypted_token t) of
             Some tok \<Rightarrow> Inr ((tok, tg_chat_id t), d)
           | None \<Rightarrow>
               (case decodeLegacyNoop b64 (tg_encrypted_token t) of
                  None \<Rightarrow> Inl (ErrSql ''unseal telegram token'')
                | Some tok \<Rightarrow>
                    and_then (SaveTelegramSettings seal tok (tg_chat_id t) now d)
                      (\<lambda>d'. Inr ((tok, tg_chat_id t), d')))))"

section \<open>Properties\<close>

text \<open>An enrollment token works once: consuming it succeeds only for an unused token that has not
  expired, returns that token marked as used, and every later attempt with the same secret fails,
  whatever the clock says.\<close>

theorem enrollment_token_is_single_use:
  assumes uniq: "distinct (map tok_hash (db_tokens d))"
    and use1: "ConsumeEnrollmentToken h now d = Inr (t, d')"
  shows "(\<exists>t0\<in>set (db_tokens d). tok_hash t0 = h \<and> tok_used_at t0 = None \<and> sec now < tok_expires_at t0 \<and>
      t = t0\<lparr>tok_used_at := Some (sec now)\<rparr>) \<and>
    ConsumeEnrollmentToken h later d' = Inl ErrTokenInvalid"
proof -
  let ?hit = "\<lambda>t. tok_hash t = h \<and> tok_used_at t = None \<and> sec now < tok_expires_at t"
  let ?f = "\<lambda>t. t\<lparr>tok_used_at := Some (sec now)\<rparr>"
  from use1 have d': "d' = d\<lparr>db_tokens := tbl_update ?hit ?f (db_tokens d)\<rparr>"
    and ex: "\<exists>t0\<in>set (db_tokens d). ?hit t0"
    and get: "tbl_get (\<lambda>t. tok_hash t = h) (db_tokens d') = Some t"
    by (auto simp: ConsumeEnrollmentToken_def Let_def tbl_count_0 split: if_splits option.splits)
  from ex obtain t0 where t0: "t0 \<in> set (db_tokens d)" "?hit t0" by blast
  have one: "x = t0" if "x \<in> set (db_tokens d)" "tok_hash x = h" for x
    using uniq t0 that by (auto simp: distinct_map dest: inj_onD)
  have "tbl_get (\<lambda>t. tok_hash t = h) (db_tokens d) = Some t0"
    using t0 by (intro tbl_get_unique [OF uniq]) auto
  with get t0(2) have t: "t = ?f t0" unfolding d' by (simp add: tbl_get_update_key)
  have "\<forall>x\<in>set (db_tokens d'). \<not> (tok_hash x = h \<and> tok_used_at x = None \<and> sec later < tok_expires_at x)"
    unfolding d' using one t0(2) by (auto simp: set_tbl_update)
  then have "ConsumeEnrollmentToken h later d' = Inl ErrTokenInvalid"
    by (simp add: ConsumeEnrollmentToken_def Let_def tbl_count_0)
  with t t0 show ?thesis by blast
qed

theorem enrollment_token_is_single_use_witness:
  "\<exists>t d'. ConsumeEnrollmentToken ''h'' 5 (empty_db\<lparr>db_tokens :=
        [\<lparr>tok_id = ''t'', tok_hash = ''h'', tok_expires_at = seconds 60, tok_used_at = None, tok_target_agent_id = []\<rparr>]\<rparr>)
      = Inr (t, d') \<and> ConsumeEnrollmentToken ''h'' 6 d' = Inl ErrTokenInvalid"
proof -
  let ?d = "empty_db\<lparr>db_tokens :=
        [\<lparr>tok_id = ''t'', tok_hash = ''h'', tok_expires_at = seconds 60, tok_used_at = None, tok_target_agent_id = []\<rparr>]\<rparr>"
  have u: "distinct (map tok_hash (db_tokens ?d))" by simp
  have "\<exists>t d'. ConsumeEnrollmentToken ''h'' 5 ?d = Inr (t, d')"
    by (simp add: ConsumeEnrollmentToken_def Let_def tbl_count_0 sec_def seconds_def nano_def)
  then obtain t d' where d': "ConsumeEnrollmentToken ''h'' 5 ?d = Inr (t, d')" by blast
  from enrollment_token_is_single_use [OF u d', of 6] d' show ?thesis by blast
qed

text \<open>A revoked agent stays revoked: connecting again, status changes, capability reports, renaming
  and a re-enrollment of any agent leave the mark, and the re-enrollment of the revoked agent is
  refused; only the explicit reversal clears it.\<close>

theorem revocation_persists:
  assumes rev: "find_agent d i = Some a" "agt_revoked a"
    and oper: "UpsertAgentOnConnect b d = Inr d' \<or> d' = SetAgentStatus j st at d \<or>
         d' = SaveAgentCapabilities j tools src rest safe at d \<or> RenameAgent j name d = Inr d' \<or>
         ReEnrollAgent j h at d = Inr d' \<or> RevokeAgent j d = Inr d'"
  shows "(\<exists>a'. find_agent d' i = Some a' \<and> agt_revoked a') \<and> (\<nexists>e. ReEnrollAgent i h at d = Inr e) \<and>
    (\<forall>e. UnrevokeAgent i d = Inr e \<longrightarrow> (\<exists>a'. find_agent e i = Some a' \<and> \<not> agt_revoked a' \<and> agt_status a' = AgentOffline))"
proof -
  have upd: "\<exists>a'. tbl_get (\<lambda>x. agt_id x = i) (tbl_update P f (db_agents d)) = Some a' \<and> agt_revoked a'"
    if "\<And>x. agt_id (f x) = agt_id x" "\<And>x. P x \<Longrightarrow> agt_revoked x \<Longrightarrow> agt_revoked (f x)" for P f
    using rev that by (auto simp: find_agent_def tbl_get_update_key)
  have stays: "\<exists>a'. find_agent d' i = Some a' \<and> agt_revoked a'"
    using oper
  proof (elim disjE)
    assume "UpsertAgentOnConnect b d = Inr d'"
    then show ?thesis
      using rev upd by (auto simp: UpsertAgentOnConnect_def find_agent_def split: if_splits)
  next
    assume "d' = SetAgentStatus j st at d"
    then show ?thesis using upd by (simp add: SetAgentStatus_def find_agent_def)
  next
    assume "d' = SaveAgentCapabilities j tools src rest safe at d"
    then show ?thesis using upd by (simp add: SaveAgentCapabilities_def find_agent_def)
  next
    assume "RenameAgent j name d = Inr d'"
    then show ?thesis using upd by (auto simp: RenameAgent_def find_agent_def split: if_splits)
  next
    assume "ReEnrollAgent j h at d = Inr d'"
    then show ?thesis
      using upd by (auto simp: ReEnrollAgent_def find_agent_def split: if_splits option.splits)
  next
    assume "RevokeAgent j d = Inr d'"
    then show ?thesis using upd by (auto simp: RevokeAgent_def set_revoked_def find_agent_def split: if_splits)
  qed
  have key: "agt_id a = i" using rev(1) by (auto simp: find_agent_def dest: tbl_get_Some)
  have "\<exists>a'. find_agent e i = Some a' \<and> \<not> agt_revoked a' \<and> agt_status a' = AgentOffline"
    if "UnrevokeAgent i d = Inr e" for e
  proof -
    have "db_agents e = tbl_update (\<lambda>a. agt_id a = i) (set_revoked False) (db_agents d)"
      using that by (auto simp: UnrevokeAgent_def split: if_splits)
    then show ?thesis using rev(1) key by (simp add: find_agent_def tbl_get_update_key set_revoked_def)
  qed
  with stays rev show ?thesis by (auto simp: ReEnrollAgent_def)
qed

definition sample_agent :: "string \<Rightarrow> bool \<Rightarrow> agent" where
  "sample_agent i gone = \<lparr>agt_id = i, agt_name = i, agt_hostname = [], agt_os = ''linux'', agt_arch = [],
     agt_version = [], agt_status = AgentOnline, agt_last_seen_at = None, agt_enrolled_at = 0,
     agt_token_hash = i, agt_capabilities = [], agt_source_mappings = [], agt_restore_mappings = [],
     agt_safe_database_restore = True, agt_revoked = gone\<rparr>"

theorem revocation_persists_witness:
  "\<exists>a'. find_agent (SetAgentStatus ''a1'' AgentOnline 5 (empty_db\<lparr>db_agents := [sample_agent ''a1'' True]\<rparr>)) ''a1'' = Some a' \<and>
     agt_revoked a'"
proof -
  let ?d = "empty_db\<lparr>db_agents := [sample_agent ''a1'' True]\<rparr>"
  have f: "find_agent ?d ''a1'' = Some (sample_agent ''a1'' True)" "agt_revoked (sample_agent ''a1'' True)"
    by (simp_all add: find_agent_def sample_agent_def)
  from conjunct1 [OF revocation_persists [OF f, where d' = "SetAgentStatus ''a1'' AgentOnline 5 ?d"]]
  show ?thesis by blast
qed

text \<open>The first administrator can be created once and no second one beside it; the reset leaves
  neither an administrator nor a session, so no login survives it.\<close>

theorem single_administrator:
  "(HasAdmin d \<longleftrightarrow> CreateAdmin a d = Inl ErrAdminExists) \<and>
   (\<forall>d'. CreateAdmin a d = Inr d' \<longrightarrow> HasAdmin d' \<and> length (db_admins d') = 1 \<and>
      CreateAdmin b d' = Inl ErrAdminExists \<and> GetAdminByUsername d' (adm_username a) \<noteq> Inl ErrNotFound) \<and>
   \<not> HasAdmin (ResetAdmin d) \<and> (\<forall>h. GetSession (ResetAdmin d) h = Inl ErrNotFound)"
  by (auto simp: HasAdmin_def CreateAdmin_def ResetAdmin_def GetSession_def GetAdminByUsername_def split: if_splits)

theorem single_administrator_witness:
  "CreateAdmin \<lparr>adm_id = ''2'', adm_username = ''v'', adm_password_hash = [], adm_created_at = 0, adm_last_login_at = None\<rparr>
     (empty_db\<lparr>db_admins := [\<lparr>adm_id = ''1'', adm_username = ''u'', adm_password_hash = [], adm_created_at = 0, adm_last_login_at = None\<rparr>]\<rparr>)
   = Inl ErrAdminExists"
  using single_administrator [of "empty_db\<lparr>db_admins := [\<lparr>adm_id = ''1'', adm_username = ''u'', adm_password_hash = [],
        adm_created_at = 0, adm_last_login_at = None\<rparr>]\<rparr>"
      "\<lparr>adm_id = ''2'', adm_username = ''v'', adm_password_hash = [], adm_created_at = 0, adm_last_login_at = None\<rparr>"]
  by (simp add: HasAdmin_def)

end
