(* ===== verification/Store_Steps.thy ===== *)
theory Store_Steps
  imports Store_Restore Store_Deletions Store_Accounts Store_Repos Store_Logs
begin

text \<open>
  The store as a transition system.  A step is one call of an operation that changes the database,
  with any arguments.  Two premises remain, on arguments that are fixed in the callers' texts: the
  function given to \<open>TransitionRun\<close> only fills in columns, and \<open>FailStaleRuns\<close> is called with
  states of active runs.  Nothing is assumed of the restore requests: the store inserts whatever
  request it is given, and what the server itself guarantees about them by the way it starts a
  restore is the subject of \<open>Served\<close>.  What holds in every reachable database is proved by rule
  induction, one group of operations at a time.
\<close>

section \<open>Steps\<close>

inductive account_step :: "db \<Rightarrow> db \<Rightarrow> bool" where
  "CreateAdmin a d = Inr d' \<Longrightarrow> account_step d d'"
| "account_step d (UpdateAdminLastLogin i t d)"
| "account_step d (ResetAdmin d)"
| "CreateSession s d = Inr d' \<Longrightarrow> account_step d d'"
| "account_step d (TouchSession h t d)"
| "account_step d (DeleteSession h d)"
| "account_step d (DeleteExpiredSessions t d)"
| "CreateEnrollmentToken tok d = Inr d' \<Longrightarrow> account_step d d'"
| "ConsumeEnrollmentToken h t d = Inr (tok, d') \<Longrightarrow> account_step d d'"
| "UpsertAgentOnConnect ag d = Inr d' \<Longrightarrow> account_step d d'"
| "account_step d (SetAgentStatus i st t d)"
| "account_step d (SaveAgentCapabilities i tools src rest safe t d)"
| "RevokeAgent i d = Inr d' \<Longrightarrow> account_step d d'"
| "UnrevokeAgent i d = Inr d' \<Longrightarrow> account_step d d'"
| "ReEnrollAgent i h t d = Inr d' \<Longrightarrow> account_step d d'"
| "RenameAgent i n d = Inr d' \<Longrightarrow> account_step d d'"
| "AppendAuditEvent e d = Inr d' \<Longrightarrow> account_step d d'"
| "SaveTelegramSettings seal token chat t d = Inr d' \<Longrightarrow> account_step d d'"
| "GetTelegramSettings seal unseal b64 t d = Inr (out, d') \<Longrightarrow> account_step d d'"
| "account_step d (DeleteTelegramSettings d)"
| "SaveScheduleCursor i t d = Inr d' \<Longrightarrow> account_step d d'"
| "SavePlanDBPassword sl i pw d = Inr d' \<Longrightarrow> account_step d d'"
| "account_step d (DeletePlanDBPassword i d)"
| "SaveRunTargetPassword sl t i pw d = Inr d' \<Longrightarrow> account_step d d'"
| "SaveRunRcloneConfig sl t i cfg d = Inr d' \<Longrightarrow> account_step d d'"
| "account_step d (DeleteRunSecrets i d)"

inductive log_step :: "db \<Rightarrow> db \<Rightarrow> bool" where
  "AppendRunLogs ls d = Inr (out, d') \<Longrightarrow> log_step d d'"
| "AppendServerLogs sls d = Inr d' \<Longrightarrow> log_step d d'"
| "AppendAgentLogs i sls d = Inr d' \<Longrightarrow> log_step d d'"

inductive repo_step :: "db \<Rightarrow> db \<Rightarrow> bool" where
  "CreateStorageTarget t d = Inr d' \<Longrightarrow> repo_step d d'"
| "UpdateStorageTarget now t d = Inr d' \<Longrightarrow> repo_step d d'"
| "DeleteStorageTarget i d = Inr d' \<Longrightarrow> repo_step d d'"
| "CreateRepository now r d = Inr d' \<Longrightarrow> repo_step d d'"
| "DetachRepository now i d = Inr d' \<Longrightarrow> repo_step d d'"
| "repo_step d (UpdateRepositoryStatus now i st d)"
| "repo_step d (MarkRepositoryChecked i now d)"
| "CreatePlan p d = Inr d' \<Longrightarrow> repo_step d d'"
| "UpdatePlan p d = Inr d' \<Longrightarrow> repo_step d d'"

inductive cache_step :: "db \<Rightarrow> db \<Rightarrow> bool" where
  "saveSnapshotListCacheOnce repo gen snaps fp now d = Inr d' \<Longrightarrow> cache_step d d'"
| "SaveSnapshotTreeCache repo snap p gen tree now d = Inr d' \<Longrightarrow> cache_step d d'"
| "InvalidateSnapshotCache now repo clear d = Inr d' \<Longrightarrow> cache_step d d'"

inductive deletion_step :: "db \<Rightarrow> db \<Rightarrow> bool" where
  "QueueManualSnapshotDeletion newid repo ag snap actor now d = Inr (x, fresh, d') \<Longrightarrow> deletion_step d d'"
| "CompleteSnapshotDeletion i now d = Inr d' \<Longrightarrow> deletion_step d d'"
| "RetrySnapshotDeletion now i code msg nextAt d = Inr d' \<Longrightarrow> deletion_step d d'"
| "FinishSnapshotCleanupScan newids repo rid snaps now d = Inr d' \<Longrightarrow> deletion_step d d'"
| "StartSnapshotCleanupScan repo rid now d = Inr d' \<Longrightarrow> deletion_step d d'"
| "ClearSnapshotCleanupScan now repo rid nextAt d = Inr d' \<Longrightarrow> deletion_step d d'"

inductive run_step :: "db \<Rightarrow> db \<Rightarrow> bool" where
  create: "CreateRun now r d = Inr d' \<Longrightarrow> run_step d d'"
| claim: "ClaimSnapshotDeletionRun now did r lease d = Inr d' \<Longrightarrow> run_step d d'"
| transition: "TransitionRun rid src dst m d = Inr d' \<Longrightarrow> field_mutator m \<Longrightarrow> run_step d d'"
| reconcile: "ReconcileCancelledRunSuccess rid snap pj d = Inr d' \<Longrightarrow> run_step d d'"
| progress: "run_step d (UpdateRunProgress rid pj d)"
| stale: "set sts \<subseteq> {RunQueued, RunDispatched, RunRunning} \<Longrightarrow> run_step d (snd (FailStaleRuns sts code now d))"
| clear: "run_step d (ClearRunProgress rid d)"
| remove: "DeleteRun rid d = Inr d' \<Longrightarrow> run_step d d'"
| prune: "run_step d (snd (PruneHistory cutoff d))"
| plan_gone: "DeletePlan i d = Inr d' \<Longrightarrow> run_step d d'"

text \<open>The operations on restore requests that exist, and the two that create one.\<close>

inductive settle_step :: "db \<Rightarrow> db \<Rightarrow> bool" where
  phase: "settle_step d (UpdateRestorePhase rid p d)"
| stop: "settle_step d (RequestRestoreStop rid deadline d)"
| rollback: "settle_step d (UpdateRestoreRollbackSnapshot rid snap d)"
| finish: "FinishRestoreRun inp d = Inr d' \<Longrightarrow> settle_step d d'"
| resolve: "ResolveRestoreRequest newid reqid rid actor why now d = Inr d' \<Longrightarrow> settle_step d d'"

inductive restore_step :: "db \<Rightarrow> db \<Rightarrow> bool" where
  request: "CreateRestoreRequest rr d = Inr d' \<Longrightarrow> restore_step d d'"
| database: "CreateDatabaseRestoreRun now r rr d = Inr d' \<Longrightarrow> restore_step d d'"
| settle: "settle_step d d' \<Longrightarrow> restore_step d d'"

inductive store_step :: "db \<Rightarrow> db \<Rightarrow> bool" where
  "account_step d d' \<Longrightarrow> store_step d d'"
| "log_step d d' \<Longrightarrow> store_step d d'"
| "repo_step d d' \<Longrightarrow> store_step d d'"
| "cache_step d d' \<Longrightarrow> store_step d d'"
| "deletion_step d d' \<Longrightarrow> store_step d d'"
| "run_step d d' \<Longrightarrow> store_step d d'"
| "restore_step d d' \<Longrightarrow> store_step d d'"

inductive reachable :: "db \<Rightarrow> bool" where
  migrated: "reachable empty_db"
| step: "reachable d \<Longrightarrow> store_step d d' \<Longrightarrow> reachable d'"

inductive_cases store_stepE: "store_step d d'"
inductive_cases run_stepE: "run_step d d'"
inductive_cases settle_stepE: "settle_step d d'"
inductive_cases restore_stepE: "restore_step d d'"

section \<open>What the groups leave alone\<close>

text \<open>The tables the invariants read.\<close>

definition same_core :: "db \<Rightarrow> db \<Rightarrow> bool" where
  "same_core d d' \<longleftrightarrow> db_runs d' = db_runs d \<and> db_restores d' = db_restores d"

definition same_caches :: "db \<Rightarrow> db \<Rightarrow> bool" where
  "same_caches d d' \<longleftrightarrow> db_cache_states d' = db_cache_states d \<and> db_list_cache d' = db_list_cache d \<and>
     db_tree_cache d' = db_tree_cache d"

lemma put_run_secret_frame: "put_run_secret t i f d = Inr d' \<Longrightarrow> \<exists>xs. d' = d\<lparr>db_run_secrets := xs\<rparr>"
  by (auto simp: put_run_secret_def split: if_splits)

lemma AppendRunLogs_core:
  "AppendRunLogs ls d = Inr (out, d') \<Longrightarrow> same_core d d' \<and> same_caches d d' \<and> db_deletions d' = db_deletions d"
proof (induction ls arbitrary: d out)
  case (Cons l ls)
  from Cons.prems obtain l' d1 out' where s: "append_run_log l d = Inr (l', d1)" "AppendRunLogs ls d1 = Inr (out', d')"
    by (auto simp: and_then_Inr)
  have "same_core d d1 \<and> same_caches d d1 \<and> db_deletions d1 = db_deletions d"
    using s(1) by (auto simp: append_run_log_def same_core_def same_caches_def Let_def split: if_splits)
  with Cons.IH [OF s(2)] show ?case by (auto simp: same_core_def same_caches_def)
qed (simp add: same_core_def same_caches_def)

lemma account_step_frame:
  "account_step d d' \<Longrightarrow> same_core d d' \<and> same_caches d d' \<and> db_deletions d' = db_deletions d"
  by (induction rule: account_step.induct)
    (auto simp: same_core_def same_caches_def CreateAdmin_def UpdateAdminLastLogin_def ResetAdmin_def
      CreateSession_def TouchSession_def DeleteSession_def DeleteExpiredSessions_def CreateEnrollmentToken_def
      ConsumeEnrollmentToken_def UpsertAgentOnConnect_def SetAgentStatus_def SaveAgentCapabilities_def
      RevokeAgent_def UnrevokeAgent_def ReEnrollAgent_def RenameAgent_def AppendAuditEvent_def
      SaveTelegramSettings_def GetTelegramSettings_def DeleteTelegramSettings_def SaveScheduleCursor_def
      SavePlanDBPassword_def DeletePlanDBPassword_def SaveRunTargetPassword_def SaveRunRcloneConfig_def
      DeleteRunSecrets_def Let_def split: if_splits option.splits dest!: put_run_secret_frame)

lemma log_step_frame:
  "log_step d d' \<Longrightarrow> same_core d d' \<and> same_caches d d' \<and> db_deletions d' = db_deletions d"
  by (induction rule: log_step.induct)
    (auto simp: AppendServerLogs_def AppendAgentLogs_def same_core_def same_caches_def Let_def
      dest!: AppendRunLogs_core split: if_splits option.splits prod.splits)


lemma cache_step_frame: "cache_step d d' \<Longrightarrow> same_core d d' \<and> db_deletions d' = db_deletions d"
  by (induction rule: cache_step.induct)
    (auto simp: same_core_def saveSnapshotListCacheOnce_def SaveSnapshotTreeCache_def InvalidateSnapshotCache_def
      and_then_Inr Let_def split: if_splits option.splits dest!: invalidate_frame)

lemma repo_step_frame: "repo_step d d' \<Longrightarrow> same_core d d'"
  by (induction rule: repo_step.induct)
    (auto simp: same_core_def CreateStorageTarget_def UpdateStorageTarget_def DeleteStorageTarget_iff
      CreateRepository_def DetachRepository_def UpdateRepositoryStatus_def MarkRepositoryChecked_def CreatePlan_def
      UpdatePlan_def delete_repos_iff invalidateTargetCaches_def Let_def
      split: if_splits dest!: invalidate_each_frame invalidate_frame)

lemma insert_deletion_frame: "insert_deletion x d = Inr d' \<Longrightarrow> \<exists>xs. d' = d\<lparr>db_deletions := xs\<rparr>"
  by (auto simp: insert_deletion_def split: if_splits)

lemma scan_each_frame: "scan_each newid repo now ss d = Inr d' \<Longrightarrow> same_core d d' \<and> same_caches d d'"
proof (induction ss arbitrary: d)
  case (Cons s ss)
  from Cons.prems obtain d1 where d1: "scan_snapshot newid repo now s d = Inr d1" "scan_each newid repo now ss d1 = Inr d'"
    by (auto simp: and_then_Inr)
  have "same_core d d1 \<and> same_caches d d1"
    using d1(1) by (auto simp: scan_snapshot_def upsertOrphanCandidateTx_def same_core_def same_caches_def Let_def
        split: option.splits prod.splits if_splits dest!: insert_deletion_frame)
  with Cons.IH [OF d1(2)] show ?case by (auto simp: same_core_def same_caches_def)
qed (simp add: same_core_def same_caches_def)

lemma FinishScan_frame:
  assumes "FinishSnapshotCleanupScan newid repo rid snaps now d = Inr d'"
  shows "same_core d d' \<and> same_caches d d'"
  using assms
proof (cases rule: FinishScan_cases)
  case (1 d0 d1)
  with scan_each_frame [OF 1(3)] show ?thesis
    by (auto simp: same_core_def same_caches_def deleteAbsentCandidatesTx_def)
qed

lemma deletion_step_frame: "deletion_step d d' \<Longrightarrow> same_core d d' \<and> same_caches d d'"
proof (induction rule: deletion_step.induct)
  case (4 newids repo rid snaps now d d')
  then show ?case by (rule FinishScan_frame)
qed (auto simp: same_core_def same_caches_def QueueManualSnapshotDeletion_def CompleteSnapshotDeletion_def
      RetrySnapshotDeletion_def StartSnapshotCleanupScan_def ClearSnapshotCleanupScan_def and_then_Inr Let_def
      split: if_splits option.splits dest!: insert_deletion_frame)

section \<open>The invariant of the database\<close>

text \<open>Cached rows belong to repositories that have a cache state.\<close>

definition cached_known :: "db \<Rightarrow> bool" where
  "cached_known d \<longleftrightarrow>
     lc_repository_id ` set (db_list_cache d) \<union> tc_repository_id ` set (db_tree_cache d)
       \<subseteq> cst_repository_id ` set (db_cache_states d)"

text \<open>Requests have identities of their own, and each names a run that is there.\<close>

definition requests_ok :: "run list \<Rightarrow> restore_request list \<Rightarrow> bool" where
  "requests_ok rs rrs \<longleftrightarrow> distinct (map rr_id rrs) \<and> rr_run_id ` set rrs \<subseteq> run_id ` set rs"

definition store_inv :: "db \<Rightarrow> bool" where
  "store_inv d \<longleftrightarrow> runs_ok (db_runs d) \<and> requests_ok (db_runs d) (db_restores d) \<and> cache_inv d \<and> cached_known d \<and>
     deletions_ok (db_deletions d)"

lemma sub_insert_sets:
  "L \<union> T \<subseteq> C \<Longrightarrow> C' = C \<Longrightarrow> L' \<subseteq> insert r L \<Longrightarrow> T' \<subseteq> insert r T \<Longrightarrow> r \<in> C \<Longrightarrow> L' \<union> T' \<subseteq> C'"
  by blast

lemma cached_known_intro:
  assumes "cached_known d" and "cst_repository_id ` set (db_cache_states d') = cst_repository_id ` set (db_cache_states d)"
    and "lc_repository_id ` set (db_list_cache d') \<subseteq> insert r (lc_repository_id ` set (db_list_cache d))"
    and "tc_repository_id ` set (db_tree_cache d') \<subseteq> insert r (tc_repository_id ` set (db_tree_cache d))"
    and "r \<in> cst_repository_id ` set (db_cache_states d)"
  shows "cached_known d'"
  using sub_insert_sets [OF assms(1) [unfolded cached_known_def] assms(2-5)] by (simp add: cached_known_def)

lemma cached_known_frame [simp]:
  "cached_known (d\<lparr>db_targets := a\<rparr>) = cached_known d" "cached_known (d\<lparr>db_repos := b\<rparr>) = cached_known d"
  "cached_known (d\<lparr>db_plans := c\<rparr>) = cached_known d" "cached_known (d\<lparr>db_runs := e\<rparr>) = cached_known d"
  "cached_known (d\<lparr>db_restores := f\<rparr>) = cached_known d" "cached_known (d\<lparr>db_deletions := g\<rparr>) = cached_known d"
  "cached_known (d\<lparr>db_observed := h\<rparr>) = cached_known d" "cached_known (d\<lparr>db_audits := i\<rparr>) = cached_known d"
  "cached_known (d\<lparr>db_run_logs := j\<rparr>) = cached_known d" "cached_known (d\<lparr>db_run_secrets := k\<rparr>) = cached_known d"
  "cached_known (d\<lparr>db_cursors := l\<rparr>) = cached_known d" "cached_known (d\<lparr>db_plan_secrets := m\<rparr>) = cached_known d"
  by (simp_all add: cached_known_def)

lemma store_invI:
  "runs_ok (db_runs d) \<Longrightarrow> requests_ok (db_runs d) (db_restores d) \<Longrightarrow> cache_inv d \<Longrightarrow> cached_known d \<Longrightarrow> deletions_ok (db_deletions d) \<Longrightarrow> store_inv d"
  by (simp add: store_inv_def)

lemma same_caches_keep: "same_caches d d' \<Longrightarrow> cache_inv d' = cache_inv d \<and> cached_known d' = cached_known d"
  by (simp add: same_caches_def cached_known_def)

lemma same_core_keep:
  "same_core d d' \<Longrightarrow> runs_ok (db_runs d') = runs_ok (db_runs d) \<and> restore_inv d' = restore_inv d \<and>
     requests_ok (db_runs d') (db_restores d') = requests_ok (db_runs d) (db_restores d)"
  by (simp add: same_core_def)

lemma cached_known_invalidate:
  assumes "invalidateSnapshotCacheTx now repo clear d = Inr d'" and "cached_known d"
  shows "cached_known d'"
proof -
  have "db_cache_states d' = tbl_update (\<lambda>c. cst_repository_id c = repo) (invalidate_state now) (db_cache_states d)"
    using assms(1) by (auto simp: invalidateSnapshotCacheTx_def Let_def split: if_splits)
  then have "cst_repository_id ` set (db_cache_states d') = cst_repository_id ` set (db_cache_states d)"
    by (simp add: image_tbl_update invalidate_state_def)
  moreover have "set (db_tree_cache d') \<subseteq> set (db_tree_cache d)" "db_list_cache d' = db_list_cache d"
    using assms(1) by (auto simp: invalidateSnapshotCacheTx_def Let_def split: if_splits)
  ultimately show ?thesis using assms(2) image_mono [of "set (db_tree_cache d')" "set (db_tree_cache d)" tc_repository_id]
    by (simp add: cached_known_def subset_trans)
qed

lemma cached_known_invalidate_each:
  "invalidate_each now rs d = Inr d' \<Longrightarrow> cached_known d \<Longrightarrow> cached_known d'"
proof (induction rs arbitrary: d)
  case (Cons r rs)
  then show ?case by (auto simp: and_then_Inr intro: cached_known_invalidate)
qed simp

lemma insertRun_cached_known:
  assumes "insertRunTx now r d = Inr d'" and "cached_known d"
  shows "cached_known d'"
proof (cases "run_repository_id r \<noteq> [] \<and> invalidatesSnapshotCache (run_operation r)")
  case True
  with assms(1) have "invalidateSnapshotCacheTx now (run_repository_id r) (run_operation r = OpForget)
             (d\<lparr>db_runs := db_runs d @ [run_row r]\<rparr>) = Inr d'" by (simp add: insertRun_iff)
  then show ?thesis by (rule cached_known_invalidate) (use assms(2) in \<open>simp add: cached_known_def\<close>)
qed (use assms in \<open>auto simp: insertRun_iff cached_known_def split: if_splits\<close>)

lemma put_list_ids: "lc_repository_id ` set (put_list_cache l ls) \<subseteq> insert (lc_repository_id l) (lc_repository_id ` set ls)"
  by (auto simp: put_list_cache_def Let_def set_tbl_update)

lemma put_tree_ids: "tc_repository_id ` set (put_tree_cache t ts) \<subseteq> insert (tc_repository_id t) (tc_repository_id ` set ts)"
  by (auto simp: put_tree_cache_def Let_def set_tbl_update)

lemma cache_gen_known: "cache_gen d repo = Some g \<Longrightarrow> repo \<in> cst_repository_id ` set (db_cache_states d)"
  by (auto simp: cache_gen_def cache_of_def dest!: tbl_get_Some)

lemma saveList_cached_known:
  assumes save: "saveSnapshotListCacheOnce repo gen snaps fp now d = Inr d'" and known: "cached_known d"
  shows "cached_known d'"
proof -
  from save have repo: "repo \<in> cst_repository_id ` set (db_cache_states d)"
    by (auto simp: saveSnapshotListCacheOnce_def and_then_Inr ensure_ok dest: cache_gen_known)
  have "\<exists>P f. db_cache_states d' = tbl_update P f (db_cache_states d) \<and> (\<forall>c. cst_repository_id (f c) = cst_repository_id c)"
    using save unfolding saveSnapshotListCacheOnce_def and_then_Inr Let_def
    by (intro exI conjI) (auto split: option.splits)
  then have "cst_repository_id ` set (db_cache_states d') = cst_repository_id ` set (db_cache_states d)"
    by (elim exE conjE) (simp add: image_tbl_update)
  moreover have "tc_repository_id ` set (db_tree_cache d') \<subseteq> tc_repository_id ` set (db_tree_cache d)"
  proof -
    have upd: "tc_repository_id t \<in> tc_repository_id ` set ts" if "t \<in> set (tbl_update P (tc_generation_update (\<lambda>_. gen)) ts)"
      for P t ts
      using imageI [OF that, of tc_repository_id] by (simp add: image_tbl_update)
    show ?thesis
      using save unfolding saveSnapshotListCacheOnce_def and_then_Inr Let_def
      by (auto split: option.splits if_splits dest!: upd)
  qed
  moreover have "db_list_cache d' = put_list_cache \<lparr>lc_repository_id = repo, lc_generation = gen, lc_snapshots = snaps,
                     lc_fingerprint = fp, lc_verified_at = sec now\<rparr> (db_list_cache d)"
    using save unfolding saveSnapshotListCacheOnce_def and_then_Inr Let_def by (auto split: option.splits)
  then have "lc_repository_id ` set (db_list_cache d') \<subseteq> insert repo (lc_repository_id ` set (db_list_cache d))"
    using put_list_ids [of "\<lparr>lc_repository_id = repo, lc_generation = gen, lc_snapshots = snaps,
                     lc_fingerprint = fp, lc_verified_at = sec now\<rparr>" "db_list_cache d"] by simp
  ultimately show ?thesis by (intro cached_known_intro [OF known _ _ _ repo]) auto
qed

lemma saveTree_cached_known:
  assumes save: "SaveSnapshotTreeCache repo snap p gen tree now d = Inr d'" and known: "cached_known d"
  shows "cached_known d'"
proof -
  from save have repo: "repo \<in> cst_repository_id ` set (db_cache_states d)"
    by (auto simp: SaveSnapshotTreeCache_def and_then_Inr ensure_ok dest: cache_gen_known)
  let ?t = "\<lparr>tc_repository_id = repo, tc_snapshot_id = snap, tc_path = NormalizeSnapshotPath p, tc_generation = gen,
    tc_tree = tree, tc_verified_at = sec now\<rparr>"
  have "d' = d\<lparr>db_tree_cache := put_tree_cache ?t (db_tree_cache d)\<rparr>"
    using save by (auto simp: SaveSnapshotTreeCache_def and_then_Inr split: option.splits if_splits)
  moreover have "tc_repository_id ` set (put_tree_cache ?t (db_tree_cache d)) \<subseteq> insert repo (tc_repository_id ` set (db_tree_cache d))"
    using put_tree_ids [of ?t] by simp
  ultimately have "tc_repository_id ` set (db_tree_cache d') \<subseteq> insert repo (tc_repository_id ` set (db_tree_cache d))"
    "db_cache_states d' = db_cache_states d" "db_list_cache d' = db_list_cache d" by simp_all
  then show ?thesis by (intro cached_known_intro [OF known _ _ _ repo]) auto
qed

lemma cache_step_inv:
  assumes "cache_step d d'" and "cache_inv d" and "cached_known d"
  shows "cache_inv d' \<and> cached_known d'"
  using assms
  by (induction rule: cache_step.induct)
    (auto simp: InvalidateSnapshotCache_def intro: saveList_inv saveTree_inv invalidate_inv
      saveList_cached_known saveTree_cached_known cached_known_invalidate)

lemma CreateRepository_inv:
  assumes "CreateRepository now r d = Inr d'" and inv: "cache_inv d" "cached_known d"
  shows "cache_inv d' \<and> cached_known d'"
proof -
  let ?c = "\<lparr>cst_repository_id = repo_id r, cst_generation = 0, cst_list_verified_at = None,
               cst_list_fingerprint = [], cst_updated_at = sec now\<rparr>"
  have fresh: "repo_id r \<notin> cst_repository_id ` set (db_cache_states d)"
    and d': "db_cache_states d' = db_cache_states d @ [?c]" "db_list_cache d' = db_list_cache d" "db_tree_cache d' = db_tree_cache d"
    using assms(1) by (auto simp: CreateRepository_def list_ex_iff split: if_splits)
  have none: "repo_id r \<notin> lc_repository_id ` set (db_list_cache d)" "repo_id r \<notin> tc_repository_id ` set (db_tree_cache d)"
    using fresh inv(2) unfolding cached_known_def by blast+
  have "cached_known d'" using inv(2) unfolding cached_known_def d' by auto
  moreover have "cache_inv d'"
    using inv(1) fresh none unfolding d' caches_ok_def by (auto simp: list_current_def) (metis image_eqI)+
  ultimately show ?thesis by simp
qed

lemma cached_known_delete:
  assumes "cached_known d"
    and "db_cache_states d' = tbl_delete (\<lambda>c. cst_repository_id c \<in> R) (db_cache_states d)"
    "db_list_cache d' = tbl_delete (\<lambda>l. lc_repository_id l \<in> R) (db_list_cache d)"
    "db_tree_cache d' = tbl_delete (\<lambda>t. tc_repository_id t \<in> R) (db_tree_cache d)"
  shows "cached_known d'"
proof -
  have del: "k ` set (tbl_delete (\<lambda>x. k x \<in> R) xs) = k ` set xs - R" for k :: "'a \<Rightarrow> string" and xs by auto
  show ?thesis using assms(1) unfolding cached_known_def assms(2-4) del by blast
qed

lemma DeleteStorageTarget_inv:
  assumes "DeleteStorageTarget i d = Inr d'" and inv: "cache_inv d" "cached_known d" "deletions_ok (db_deletions d)"
  shows "cache_inv d' \<and> cached_known d' \<and> deletions_ok (db_deletions d')"
proof -
  from assms(1) obtain d1 where d1: "delete_repos (\<lambda>r. repo_storage_target_id r = i \<and> repo_detached_at r \<noteq> None) d = Inr d1"
    and d': "d' = d1\<lparr>db_targets := tbl_delete (\<lambda>t. tgt_id t = i) (db_targets d)\<rparr>"
    by (auto simp: DeleteStorageTarget_iff)
  define R where "R = set (map repo_id (filter (\<lambda>r. repo_storage_target_id r = i \<and> repo_detached_at r \<noteq> None) (db_repos d)))"
  have t: "db_cache_states d' = tbl_delete (\<lambda>c. cst_repository_id c \<in> R) (db_cache_states d)"
    "db_list_cache d' = tbl_delete (\<lambda>l. lc_repository_id l \<in> R) (db_list_cache d)"
    "db_tree_cache d' = tbl_delete (\<lambda>t. tc_repository_id t \<in> R) (db_tree_cache d)"
    "db_deletions d' = tbl_delete (\<lambda>x. del_repository_id x \<in> R) (db_deletions d)"
    using d1 unfolding d' delete_repos_iff Let_def R_def by auto
  show ?thesis
    using caches_ok_delete [OF inv(1), of R] cached_known_delete [OF inv(2) t(1-3)] deletions_ok_delete [OF inv(3)]
    unfolding t by simp
qed

lemma UpdateStorageTarget_inv:
  assumes "UpdateStorageTarget now t d = Inr d'" and inv: "cache_inv d" "cached_known d"
  shows "cache_inv d' \<and> cached_known d' \<and> db_deletions d' = db_deletions d"
proof -
  from assms(1) obtain ts rs where e: "invalidate_each now rs (d\<lparr>db_targets := ts\<rparr>) = Inr d'"
    by (auto simp: UpdateStorageTarget_def invalidateTargetCaches_def split: if_splits)
  have "cache_inv d'" by (rule invalidate_each_inv [OF e]) (simp add: inv)
  moreover have "cached_known d'"
    by (rule cached_known_invalidate_each [OF e]) (use inv in \<open>simp add: cached_known_def\<close>)
  ultimately show ?thesis using invalidate_each_frame [OF e] by auto
qed

lemma DetachRepository_inv:
  assumes "DetachRepository now i d = Inr d'" and inv: "cache_inv d" "cached_known d"
  shows "cache_inv d' \<and> cached_known d' \<and> db_deletions d' = db_deletions d"
proof -
  from assms(1) obtain rs where e: "invalidateSnapshotCacheTx now i True (d\<lparr>db_repos := rs\<rparr>) = Inr d'"
    by (auto simp: DetachRepository_def split: if_splits)
  have "cache_inv d'" by (rule invalidate_inv [OF _ e]) (simp add: inv)
  moreover have "cached_known d'"
    by (rule cached_known_invalidate [OF e]) (use inv in \<open>simp add: cached_known_def\<close>)
  ultimately show ?thesis using invalidate_frame [OF e] by auto
qed

lemma repo_step_inv:
  assumes "repo_step d d'" and "cache_inv d" "cached_known d" "deletions_ok (db_deletions d)"
  shows "cache_inv d' \<and> cached_known d' \<and> deletions_ok (db_deletions d')"
  using assms
proof (induction rule: repo_step.induct)
  case (2 now t d d')
  with UpdateStorageTarget_inv [OF 2(1-3)] show ?case by simp
next
  case (3 i d d')
  then show ?case by (rule DeleteStorageTarget_inv)
next
  case (4 now r d d')
  have "db_deletions d' = db_deletions d" using 4(1) by (auto simp: CreateRepository_def split: if_splits)
  with 4 CreateRepository_inv [OF 4(1-3)] show ?case by simp
next
  case (5 now i d d')
  with DetachRepository_inv [OF 5(1-3)] show ?case by simp
qed (auto simp: CreateStorageTarget_def UpdateRepositoryStatus_def MarkRepositoryChecked_def
      CreatePlan_def UpdatePlan_def split: if_splits)

lemma deletion_step_inv:
  "deletion_step d d' \<Longrightarrow> deletions_ok (db_deletions d) \<Longrightarrow> deletions_ok (db_deletions d')"
  by (induction rule: deletion_step.induct)
    (auto simp: StartSnapshotCleanupScan_def ClearSnapshotCleanupScan_def split: if_splits option.splits
      intro: QueueManual_deletions_ok Complete_deletions_ok Retry_deletions_ok dest: FinishScan_ok)

text \<open>Removing runs only clears the run of an intent.\<close>

lemma delete_runs_deletions_ok:
  "delete_runs P d = Inr d' \<Longrightarrow> deletions_ok (db_deletions d) \<Longrightarrow> deletions_ok (db_deletions d')"
  by (auto simp: delete_runs_iff Let_def deletions_ok_seen intro!: deletions_ok_update)

lemma delete_runs_caches: "delete_runs P d = Inr d' \<Longrightarrow> same_caches d d'"
  by (auto simp: delete_runs_iff Let_def same_caches_def)

lemma PruneHistory_rest:
  "same_caches d (snd (PruneHistory cutoff d)) \<and>
   (deletions_ok (db_deletions d) \<longrightarrow> deletions_ok (db_deletions (snd (PruneHistory cutoff d))))"
  using delete_runs_caches delete_runs_deletions_ok
  by (fastforce simp: PruneHistory_def Let_def same_caches_def split: sum.splits)

lemma run_step_runs_ok:
  assumes "run_step d d'" and "runs_ok (db_runs d)"
  shows "runs_ok (db_runs d')"
  using assms(1)
proof cases
  case (create now r)
  then show ?thesis using insertRun_runs_ok [OF assms(2)] by (simp add: CreateRun_def)
next
  case (transition rid src dst m)
  with TransitionRun_runs_ok [OF assms(2)] show ?thesis by blast
next
  case (plan_gone i)
  with DeletePlan_runs_ok [OF _ assms(2)] show ?thesis by blast
next
  case (claim now did r lease)
  then show ?thesis using Claim_runs_ok assms(2) by blast
next
  case (reconcile rid snap pj)
  with Reconcile_runs_ok [OF assms(2)] show ?thesis by blast
next
  case (progress rid pj)
  then show ?thesis using UpdateRunProgress_runs_ok assms(2) by blast
next
  case (stale sts code now)
  then show ?thesis using FailStaleRuns_runs_ok [OF assms(2)] by blast
next
  case (clear rid)
  then show ?thesis using ClearRunProgress_runs_ok assms(2) by blast
next
  case (remove rid)
  then show ?thesis using delete_runs_runs_ok assms(2) unfolding DeleteRun_def by blast
next
  case (prune cutoff)
  then show ?thesis using PruneHistory_runs_ok assms(2) by blast
qed

text \<open>Writing to the runs, or removing some, leaves one request per run and one database restore.\<close>

lemma restore_inv_run_update:
  assumes "restore_inv d" and "\<And>r. P r \<Longrightarrow> run_id (f r) = run_id r"
  shows "restore_inv (d\<lparr>db_runs := tbl_update P f (db_runs d)\<rparr>)"
  using assms(1) restores_ok_runs_mono [of "db_runs d" "db_restores d" "tbl_update P f (db_runs d)"]
    run_ids_update [of P f "db_runs d"] assms(2) by simp

lemma run_step_restore_inv:
  assumes "run_step d d'" and inv: "restore_inv d"
  shows "restore_inv d'"
  using assms(1)
proof cases
  case (create now r)
  then show ?thesis using insertRun_restore_inv [OF _ inv] by (simp add: CreateRun_def)
next
  case (transition rid src dst m)
  have "run_id ` set (db_runs d') = run_id ` set (db_runs d)"
    using transition(1) unfolding TransitionRun_iff Let_def by (elim exE conjE) (simp add: image_tbl_update)
  moreover have "db_restores d' = db_restores d" using TransitionRun_frame [OF transition(1)] by auto
  ultimately show ?thesis using inv restores_ok_runs_mono by (metis order_refl)
next
  case (plan_gone i)
  then show ?thesis
    using restore_inv_run_update [OF inv, of "\<lambda>r. null_eq (run_plan_id r) i" "\<lambda>r. r\<lparr>run_plan_id := []\<rparr>"]
    by (auto simp: DeletePlan_iff)
next
  case (claim now did r lease)
  then show ?thesis using Claim_restore_inv inv by blast
next
  case (reconcile rid snap pj)
  then show ?thesis using restore_inv_run_update [OF inv] by (simp add: Reconcile_iff)
next
  case (progress rid pj)
  show ?thesis unfolding progress UpdateRunProgress_def by (rule restore_inv_run_update [OF inv]) simp
next
  case (stale sts code now)
  show ?thesis
    using restore_inv_run_update [OF inv, of "\<lambda>r. run_status r \<in> set sts"] inv stale by (simp add: FailStaleRuns_def Let_def)
next
  case (clear rid)
  show ?thesis unfolding clear ClearRunProgress_def by (rule restore_inv_run_update [OF inv]) simp
next
  case (remove rid)
  then show ?thesis using delete_runs_restore_inv inv unfolding DeleteRun_def by blast
next
  case (prune cutoff)
  then show ?thesis using PruneHistory_restore_inv inv by blast
qed

lemma run_step_rest:
  assumes "run_step d d'" and inv: "cache_inv d" "cached_known d" "deletions_ok (db_deletions d)"
  shows "cache_inv d' \<and> cached_known d' \<and> deletions_ok (db_deletions d')"
  using assms(1)
proof cases
  case (create now r)
  then have i: "insertRunTx now r d = Inr d'" by (simp add: CreateRun_def)
  have "db_deletions d' = db_deletions d" using insertRun_frame [OF i] by auto
  with insertRun_cache_inv [OF inv(1) i] insertRun_cached_known [OF i inv(2)] inv(3) show ?thesis by simp
next
  case (claim now did r lease)
  then have "same_caches d d'" by (auto simp: Claim_iff same_caches_def)
  with same_caches_keep [of d d'] Claim_deletions_ok [OF claim inv(3)] inv show ?thesis by blast
next
  case (transition rid src dst m)
  then have "same_caches d d' \<and> db_deletions d' = db_deletions d"
    by (auto simp: same_caches_def dest: TransitionRun_frame)
  with same_caches_keep [of d d'] inv show ?thesis by simp
next
  case (remove rid)
  then have i: "delete_runs (\<lambda>r. run_id r = rid) d = Inr d'" by (simp add: DeleteRun_def)
  from delete_runs_caches [OF i] same_caches_keep [of d d'] delete_runs_deletions_ok [OF i inv(3)] inv show ?thesis by blast
next
  case (prune cutoff)
  with PruneHistory_rest [of d cutoff] same_caches_keep [of d d'] inv show ?thesis by blast
qed (use inv in \<open>auto simp: Reconcile_iff UpdateRunProgress_def FailStaleRuns_def ClearRunProgress_def DeletePlan_iff Let_def\<close>)

lemma updateRequest_frame: "\<exists>rrs. updateRestoreRequestTx inp d = d\<lparr>db_restores := rrs\<rparr>"
  by (intro exI [of _ "db_restores (updateRestoreRequestTx inp d)"] db.equality)
    (auto simp: updateRestoreRequestTx_def Let_def split: option.splits)

lemma FinishRestoreRun_frame:
  assumes "FinishRestoreRun inp d = Inr d'"
  shows "\<exists>rs rrs. d' = d\<lparr>db_runs := rs, db_restores := rrs\<rparr>"
proof -
  from assms obtain rs where "d' = updateRestoreRequestTx inp (d\<lparr>db_runs := rs\<rparr>) \<or> d' = updateRestoreRequestTx inp d"
    by (auto simp: FinishRestoreRun_def Let_def split: option.splits if_splits)
  moreover obtain rrs where "updateRestoreRequestTx inp (d\<lparr>db_runs := rs\<rparr>) = d\<lparr>db_runs := rs, db_restores := rrs\<rparr>"
    using updateRequest_frame [of inp "d\<lparr>db_runs := rs\<rparr>"] by auto
  moreover obtain rrs' where "updateRestoreRequestTx inp d = d\<lparr>db_runs := db_runs d, db_restores := rrs'\<rparr>"
    using updateRequest_frame [of inp d] by (metis db.surjective db.update_convs(11))
  ultimately show ?thesis by blast
qed

lemma settle_step_rest:
  assumes "settle_step d d'"
  shows "same_caches d d' \<and> db_deletions d' = db_deletions d"
  using assms
proof cases
  case (finish inp)
  with FinishRestoreRun_frame [OF finish(1)] show ?thesis by (auto simp: same_caches_def)
qed (auto simp: same_caches_def UpdateRestorePhase_def RequestRestoreStop_def
      UpdateRestoreRollbackSnapshot_def ResolveRestoreRequest_def Let_def split: if_splits option.splits)

lemma restore_step_rest:
  assumes "restore_step d d'" and inv: "cache_inv d" "cached_known d"
  shows "cache_inv d' \<and> cached_known d' \<and> db_deletions d' = db_deletions d"
  using assms(1)
proof cases
  case (request rr)
  with inv show ?thesis by (auto simp: CreateRestoreRequest_def insert_restore_iff split: if_splits)
next
  case (database now r rr)
  then obtain d1 where d1: "insertRunTx now r d = Inr d1" "insert_restore rr d1 = Inr d'"
    by (auto simp: CreateDatabaseRestoreRun_def and_then_Inr Let_def split: option.splits if_splits)
  have "db_deletions d1 = db_deletions d" using insertRun_frame [OF d1(1)] by auto
  with insertRun_cache_inv [OF inv(1) d1(1)] insertRun_cached_known [OF d1(1) inv(2)] d1(2)
  show ?thesis by (auto simp: insert_restore_iff)
next
  case settle
  with settle_step_rest [OF settle] same_caches_keep [of d d'] inv show ?thesis by blast
qed

lemma settle_step_runs_ok:
  assumes "settle_step d d'" and "runs_ok (db_runs d)"
  shows "runs_ok (db_runs d')"
  using assms(1)
proof cases
  case (stop rid deadline)
  show ?thesis
    unfolding stop RequestRestoreStop_def Let_def
    using assms(2) by (auto simp: keeps_run_def intro!: runs_ok_update)
next
  case (finish inp)
  then show ?thesis using FinishRestoreRun_runs_ok assms(2) by blast
next
  case (resolve newid reqid rid actor why now)
  then show ?thesis using Resolve_runs_ok assms(2) by blast
qed (use assms(2) in \<open>simp_all add: UpdateRestorePhase_def UpdateRestoreRollbackSnapshot_def\<close>)

lemma settle_step_restore_inv:
  assumes "settle_step d d'" and "restore_inv d"
  shows "restore_inv d'"
  using assms(1)
proof cases
  case (phase rid p)
  with UpdateRestorePhase_inv [OF assms(2)] show ?thesis by simp
next
  case (stop rid deadline)
  with RequestRestoreStop_inv [OF assms(2)] show ?thesis by simp
next
  case (rollback rid snap)
  with UpdateRollback_inv [OF assms(2)] show ?thesis by simp
next
  case (finish inp)
  then show ?thesis using FinishRestoreRun_inv assms(2) by blast
next
  case (resolve newid reqid rid actor why now)
  then show ?thesis using Resolve_inv assms(2) by blast
qed

lemma restore_step_runs_ok:
  assumes "restore_step d d'" and "runs_ok (db_runs d)"
  shows "runs_ok (db_runs d')"
  using assms(1)
proof cases
  case (request rr)
  with assms(2) show ?thesis by (auto simp: CreateRestoreRequest_def insert_restore_iff split: if_splits)
next
  case (database now r rr)
  then obtain d1 where d1: "insertRunTx now r d = Inr d1" "insert_restore rr d1 = Inr d'"
    by (auto simp: CreateDatabaseRestoreRun_def and_then_Inr Let_def split: option.splits if_splits)
  from insertRun_runs_ok [OF assms(2) d1(1)] d1(2) show ?thesis by (auto simp: insert_restore_iff)
next
  case settle
  then show ?thesis using settle_step_runs_ok assms(2) by blast
qed

section \<open>Requests name runs\<close>

text \<open>The requests of the database afterwards keep their identities and runs, and their runs are still there.\<close>

lemma requests_ok_keys:
  assumes "requests_ok rs rrs" and "map rr_id rrs' = map rr_id rrs" and "map rr_run_id rrs' = map rr_run_id rrs"
    and "run_id ` set rs' = run_id ` set rs"
  shows "requests_ok rs' rrs'"
  using assms unfolding requests_ok_def by (metis list.set_map)

lemma requests_ok_run_update:
  assumes "requests_ok rs rrs" and "\<And>r. P r \<Longrightarrow> run_id (f r) = run_id r"
  shows "requests_ok (tbl_update P f rs) rrs"
  using requests_ok_keys [OF assms(1) refl refl run_ids_update [OF assms(2)]] .

lemma requests_ok_update:
  assumes "requests_ok rs rrs" and "\<And>x. P x \<Longrightarrow> rr_id (f x) = rr_id x \<and> rr_run_id (f x) = rr_run_id x"
  shows "requests_ok rs (tbl_update P f rrs)"
proof -
  have "map rr_id (tbl_update P f rrs) = map rr_id rrs" "map rr_run_id (tbl_update P f rrs) = map rr_run_id rrs"
    using assms(2) by (induction rrs) auto
  with assms(1) show ?thesis by (intro requests_ok_keys [OF assms(1)]) auto
qed

lemma requests_ok_more_runs: "requests_ok rs rrs \<Longrightarrow> requests_ok (rs @ rs') rrs"
  by (auto simp: requests_ok_def)

lemma requests_ok_updateRequest:
  "requests_ok rs (db_restores d) \<Longrightarrow> requests_ok rs (db_restores (updateRestoreRequestTx inp d))"
  by (auto simp: updateRestoreRequestTx_def Let_def split: option.splits intro!: requests_ok_update)

lemma delete_runs_requests_ok:
  assumes "delete_runs P d = Inr d'" and "requests_ok (db_runs d) (db_restores d)"
  shows "requests_ok (db_runs d') (db_restores d')"
  using assms unfolding delete_runs_iff Let_def
  by (auto simp: requests_ok_def distinct_map_tbl_delete image_iff) blast+

lemma run_step_requests_ok:
  assumes "run_step d d'" and ok: "requests_ok (db_runs d) (db_restores d)"
  shows "requests_ok (db_runs d') (db_restores d')"
  using assms(1)
proof cases
  case (create now r)
  then have "db_runs d' = db_runs d @ [run_row r]" "db_restores d' = db_restores d"
    using insertRun_frame [of now r d d'] by (auto simp: CreateRun_def)
  with ok show ?thesis by (simp add: requests_ok_more_runs)
next
  case (claim now did r lease)
  then show ?thesis using ok by (auto simp: Claim_iff requests_ok_more_runs)
next
  case (transition rid src dst m)
  have "run_id ` set (db_runs d') = run_id ` set (db_runs d)"
    using transition(1) unfolding TransitionRun_iff Let_def by (elim exE conjE) (simp add: image_tbl_update)
  moreover have "db_restores d' = db_restores d" using TransitionRun_frame [OF transition(1)] by auto
  ultimately show ?thesis using requests_ok_keys [OF ok] by metis
next
  case (remove rid)
  then show ?thesis using delete_runs_requests_ok ok unfolding DeleteRun_def by blast
next
  case (prune cutoff)
  let ?d = "d\<lparr>db_restores := tbl_delete (old_request (sec cutoff)) (db_restores d)\<rparr>"
  have d: "requests_ok (db_runs ?d) (db_restores ?d)"
    using ok by (auto simp: requests_ok_def distinct_map_tbl_delete)
  show ?thesis
  proof (cases rule: prune_cases [of cutoff d])
    case (1 e)
    then show ?thesis using d prune by simp
  next
    case (2 d2)
    from delete_runs_requests_ok [OF 2(1) d] 2(3) prune show ?thesis by simp
  qed
qed (use ok in \<open>auto simp: Reconcile_iff UpdateRunProgress_def FailStaleRuns_def ClearRunProgress_def DeletePlan_iff Let_def
      intro!: requests_ok_run_update\<close>)

lemma settle_step_requests_ok:
  assumes "settle_step d d'" and ok: "requests_ok (db_runs d) (db_restores d)"
  shows "requests_ok (db_runs d') (db_restores d')"
  using assms(1)
proof cases
  case (phase rid p)
  with ok show ?thesis by (auto simp: UpdateRestorePhase_def intro!: requests_ok_update)
next
  case (stop rid deadline)
  with ok show ?thesis
    by (auto simp: RequestRestoreStop_def Let_def intro!: requests_ok_update requests_ok_run_update)
next
  case (rollback rid snap)
  with ok show ?thesis by (auto simp: UpdateRestoreRollbackSnapshot_def intro!: requests_ok_update)
next
  case (finish inp)
  then show ?thesis
  proof (cases rule: FinishRestoreRun_cases)
    case (1 r)
    then show ?thesis using requests_ok_updateRequest [OF ok] by simp
  next
    case (2 r P)
    have "requests_ok (tbl_update P (finish_columns inp) (db_runs d)) (db_restores d)"
      by (rule requests_ok_run_update [OF ok]) (simp add: finish_columns_def)
    then show ?thesis
      unfolding 2(3) updateRestoreRequest_runs by (intro requests_ok_updateRequest) simp
  qed
next
  case (resolve newid reqid rid actor why now)
  with ok show ?thesis by (auto simp: Resolve_iff intro!: requests_ok_update requests_ok_run_update)
qed

lemma insert_restore_requests_ok:
  assumes "insert_restore rr d = Inr d'" and "requests_ok (db_runs d) (db_restores d)"
  shows "requests_ok (db_runs d') (db_restores d')"
proof -
  from assms(1) obtain r where "find_run d (rr_run_id rr) = Some r" by (auto simp: insert_restore_iff)
  then have "rr_run_id rr \<in> run_id ` set (db_runs d)" using find_run_in by (metis image_eqI)
  with assms show ?thesis by (auto simp: insert_restore_iff requests_ok_def)
qed

lemma restore_step_requests_ok:
  assumes "restore_step d d'" and ok: "requests_ok (db_runs d) (db_restores d)"
  shows "requests_ok (db_runs d') (db_restores d')"
  using assms(1)
proof cases
  case (request rr)
  then show ?thesis
    using insert_restore_requests_ok [OF _ ok] by (auto simp: CreateRestoreRequest_def split: if_splits)
next
  case (database now r rr)
  then obtain d1 where d1: "insertRunTx now r d = Inr d1" "insert_restore rr d1 = Inr d'"
    by (auto simp: CreateDatabaseRestoreRun_def and_then_Inr Let_def split: option.splits if_splits)
  have "requests_ok (db_runs d1) (db_restores d1)"
    using insertRun_frame [OF d1(1)] ok by (auto simp: requests_ok_more_runs)
  with insert_restore_requests_ok [OF d1(2)] show ?thesis by blast
next
  case settle
  then show ?thesis using settle_step_requests_ok ok by blast
qed

lemma store_step_inv: "store_step d d' \<Longrightarrow> store_inv d \<Longrightarrow> store_inv d'"
proof (induction rule: store_step.induct)
  case (1 d d')
  with account_step_frame [OF 1(1)] same_core_keep [of d d'] same_caches_keep [of d d'] show ?case by (simp add: store_inv_def)
next
  case (2 d d')
  with log_step_frame [OF 2(1)] same_core_keep [of d d'] same_caches_keep [of d d'] show ?case by (simp add: store_inv_def)
next
  case (3 d d')
  with repo_step_frame [OF 3(1)] same_core_keep [of d d'] repo_step_inv [OF 3(1)] show ?case by (simp add: store_inv_def)
next
  case (4 d d')
  with cache_step_frame [OF 4(1)] same_core_keep [of d d'] cache_step_inv [OF 4(1)] show ?case by (simp add: store_inv_def)
next
  case (5 d d')
  with deletion_step_frame [OF 5(1)] same_core_keep [of d d'] same_caches_keep [of d d'] deletion_step_inv [OF 5(1)]
  show ?case by (simp add: store_inv_def)
next
  case (6 d d')
  then show ?case using run_step_runs_ok [OF 6(1)] run_step_requests_ok [OF 6(1)] run_step_rest [OF 6(1)] by (simp add: store_inv_def)
next
  case (7 d d')
  then show ?case using restore_step_runs_ok [OF 7(1)] restore_step_requests_ok [OF 7(1)] restore_step_rest [OF 7(1)] by (simp add: store_inv_def)
qed

lemma store_inv_empty: "store_inv empty_db"
  by (simp add: store_inv_def requests_ok_def caches_ok_def cached_known_def deletions_ok_def)

lemma reachable_inv: "reachable d \<Longrightarrow> store_inv d"
  by (induction rule: reachable.induct) (auto intro: store_step_inv store_inv_empty)

section \<open>Ended runs\<close>

text \<open>An ended run keeps its state, except that a cancelled run may turn out to have succeeded.\<close>

definition end_kept :: "run_status \<Rightarrow> run_status \<Rightarrow> bool" where
  "end_kept s s' \<longleftrightarrow> s' = s \<or> s = RunCancelled \<and> s' = RunSucceeded"

definition ends_kept :: "run list \<Rightarrow> run list \<Rightarrow> bool" where
  "ends_kept rs rs' \<longleftrightarrow>
     (\<forall>r\<in>set rs. \<forall>r'\<in>set rs'. run_id r' = run_id r \<longrightarrow> isTerminal (run_status r) \<longrightarrow> end_kept (run_status r) (run_status r'))"

lemma ends_kept_refl: "runs_ok rs \<Longrightarrow> ends_kept rs rs"
  by (auto simp: ends_kept_def end_kept_def dest: runs_ok_id_unique)

lemma ends_kept_snoc: "runs_ok rs \<Longrightarrow> \<forall>r\<in>set rs. run_id r \<noteq> run_id x \<Longrightarrow> ends_kept rs (rs @ [x])"
  using ends_kept_refl by (auto simp: ends_kept_def)

lemma ends_kept_sub: "runs_ok rs \<Longrightarrow> set rs' \<subseteq> set rs \<Longrightarrow> ends_kept rs rs'"
  using ends_kept_refl by (auto simp: ends_kept_def)

lemma ends_kept_update:
  assumes ok: "runs_ok rs"
    and f: "\<And>r. r \<in> set rs \<Longrightarrow> P r \<Longrightarrow>
              run_id (f r) = run_id r \<and> (isTerminal (run_status r) \<longrightarrow> end_kept (run_status r) (run_status (f r)))"
  shows "ends_kept rs (tbl_update P f rs)"
  unfolding ends_kept_def
proof (intro ballI impI)
  fix r r' assume r: "r \<in> set rs" "r' \<in> set (tbl_update P f rs)" "run_id r' = run_id r" "isTerminal (run_status r)"
  from r(2) obtain x where x: "x \<in> set rs" "r' = (if P x then f x else x)" by (auto simp: set_tbl_update)
  then have "run_id x = run_id r" using f [OF x(1)] r(3) by (auto split: if_splits)
  then have "x = r" using runs_ok_id_unique [OF ok x(1) r(1)] by blast
  then show "end_kept (run_status r) (run_status r')" using x f [OF r(1)] r(4) by (auto simp: end_kept_def)
qed

lemma insertRun_ends_kept:
  assumes "insertRunTx now r d = Inr d'" and "runs_ok (db_runs d)"
  shows "ends_kept (db_runs d) (db_runs d')"
  unfolding insertRun_runs [OF assms(1)]
  using assms by (intro ends_kept_snoc) (auto simp: insertRun_iff run_conflict_def list_ex_iff)

lemma TransitionRun_ends_kept:
  assumes t: "TransitionRun rid src dst m d = Inr d'" and ok: "runs_ok (db_runs d)" and m: "field_mutator m"
  shows "ends_kept (db_runs d) (db_runs d')"
proof -
  from t m obtain r where r: "find_run d rid = Some r" "run_status r = src" "dst \<in> set (validTransitions src)" and
    d': "db_runs d' = tbl_update (\<lambda>x. run_id x = run_id r) (write_back (m (r\<lparr>run_status := dst\<rparr>))) (db_runs d)"
    by (auto simp: TransitionRun_iff Let_def field_mutator_def)
  have "\<not> isTerminal (run_status x)" if "x \<in> set (db_runs d)" "run_id x = run_id r" for x
  proof -
    have "x = r" using find_run_in [OF r(1)] that by (intro runs_ok_id_unique [OF ok]) auto
    with valid_from_active [OF r(3)] r(2) show ?thesis by (simp add: active_terminal)
  qed
  then show ?thesis unfolding d' by (intro ends_kept_update [OF ok]) auto
qed

lemma FinishRestoreRun_ends_kept:
  assumes f: "FinishRestoreRun inp d = Inr d'" and ok: "runs_ok (db_runs d)"
  shows "ends_kept (db_runs d) (db_runs d')"
  using f
proof (cases rule: FinishRestoreRun_cases)
  case (1 r)
  with ends_kept_refl [OF ok] show ?thesis by simp
next
  case (2 r P)
  have "\<not> isTerminal (run_status x)" if "x \<in> set (db_runs d)" "P x" for x
  proof -
    have "x = r" using find_run_in [OF 2(1)] that 2(4) by (intro runs_ok_id_unique [OF ok]) auto
    with 2(2) show ?thesis by simp
  qed
  then show ?thesis using 2(3) by (auto simp: finish_columns_def intro!: ends_kept_update [OF ok])
qed

lemma run_step_ends_kept:
  assumes "run_step d d'" and ok: "runs_ok (db_runs d)"
  shows "ends_kept (db_runs d) (db_runs d')"
  using assms(1)
proof cases
  case (create now r)
  then show ?thesis using insertRun_ends_kept ok by (simp add: CreateRun_def)
next
  case (claim now did r lease)
  then show ?thesis using ok by (auto simp: Claim_iff run_conflict_def list_ex_iff intro!: ends_kept_snoc)
next
  case (transition rid src dst m)
  then show ?thesis using TransitionRun_ends_kept ok by blast
next
  case (reconcile rid snap pj)
  then show ?thesis by (auto simp: Reconcile_iff end_kept_def intro!: ends_kept_update [OF ok])
next
  case (stale sts code now)
  then show ?thesis
    using ends_kept_refl [OF ok] by (auto simp: FailStaleRuns_def Let_def intro!: ends_kept_update [OF ok])
next
  case (remove rid)
  then show ?thesis by (auto simp: DeleteRun_def delete_runs_iff Let_def intro!: ends_kept_sub [OF ok])
next
  case (prune cutoff)
  have "set (db_runs d') \<subseteq> set (db_runs d)"
    unfolding prune by (auto simp: PruneHistory_def Let_def delete_runs_iff split: sum.splits)
  then show ?thesis by (rule ends_kept_sub [OF ok])
qed (auto simp: UpdateRunProgress_def ClearRunProgress_def DeletePlan_iff end_kept_def intro!: ends_kept_update [OF ok])

lemma settle_step_ends_kept:
  assumes "settle_step d d'" and ok: "runs_ok (db_runs d)"
  shows "ends_kept (db_runs d) (db_runs d')"
  using assms(1)
proof cases
  case (finish inp)
  then show ?thesis using FinishRestoreRun_ends_kept ok by blast
next
  case (resolve newid reqid rid actor why now)
  then show ?thesis
    by (auto simp: ResolveRestoreRequest_def split: option.splits if_splits intro!: ends_kept_update [OF ok])
qed (use ends_kept_refl [OF ok] in \<open>auto simp: UpdateRestorePhase_def
      RequestRestoreStop_def UpdateRestoreRollbackSnapshot_def Let_def end_kept_def
      split: if_splits intro!: ends_kept_update [OF ok]\<close>)

lemma restore_step_ends_kept:
  assumes "restore_step d d'" and ok: "runs_ok (db_runs d)"
  shows "ends_kept (db_runs d) (db_runs d')"
  using assms(1)
proof cases
  case (request rr)
  with ends_kept_refl [OF ok] show ?thesis by (auto simp: CreateRestoreRequest_def insert_restore_iff split: if_splits)
next
  case (database now r rr)
  then obtain d1 where d1: "insertRunTx now r d = Inr d1" "insert_restore rr d1 = Inr d'"
    by (auto simp: CreateDatabaseRestoreRun_def and_then_Inr Let_def split: option.splits if_splits)
  with insertRun_ends_kept [OF d1(1) ok] show ?thesis by (auto simp: insert_restore_iff)
next
  case settle
  then show ?thesis using settle_step_ends_kept ok by blast
qed

lemma store_step_ends_kept:
  assumes "store_step d d'" and ok: "runs_ok (db_runs d)"
  shows "ends_kept (db_runs d) (db_runs d')"
  using assms(1)
proof cases
  case 1
  with account_step_frame ends_kept_refl [OF ok] show ?thesis by (auto simp: same_core_def)
next
  case 2
  with log_step_frame ends_kept_refl [OF ok] show ?thesis by (auto simp: same_core_def)
next
  case 3
  with repo_step_frame ends_kept_refl [OF ok] show ?thesis by (auto simp: same_core_def)
next
  case 4
  with cache_step_frame ends_kept_refl [OF ok] show ?thesis by (auto simp: same_core_def)
next
  case 5
  with deletion_step_frame ends_kept_refl [OF ok] show ?thesis by (auto simp: same_core_def)
qed (use run_step_ends_kept restore_step_ends_kept ok in blast)+

section \<open>Generations\<close>

definition gens_grow :: "db \<Rightarrow> db \<Rightarrow> bool" where
  "gens_grow d d' \<longleftrightarrow> (\<forall>repo g g'. cache_gen d repo = Some g \<longrightarrow> cache_gen d' repo = Some g' \<longrightarrow> g \<le> g')"

lemma gens_grow_same: "db_cache_states d' = db_cache_states d \<Longrightarrow> gens_grow d d'"
  by (auto simp: gens_grow_def cache_gen_def cache_of_def)

lemma gens_grow_invalidate:
  assumes "invalidateSnapshotCacheTx now repo clear d1 = Inr d'" and "db_cache_states d1 = db_cache_states d"
  shows "gens_grow d d'"
  using invalidate_gen [OF assms(1)] assms(2)
  by (auto simp: gens_grow_def cache_gen_def cache_of_def invalidate_state_def split: if_splits)

lemma gens_grow_invalidate_each:
  assumes "invalidate_each now rs d = Inr d'"
  shows "\<forall>repo. (cache_gen d repo = None \<longleftrightarrow> cache_gen d' repo = None) \<and>
    (\<forall>g g'. cache_gen d repo = Some g \<longrightarrow> cache_gen d' repo = Some g' \<longrightarrow> g \<le> g')"
  using assms
proof (induction rs arbitrary: d)
  case (Cons r rs)
  from Cons.prems obtain d1 where d1: "invalidateSnapshotCacheTx now r True d = Inr d1" "invalidate_each now rs d1 = Inr d'"
    by (auto simp: and_then_Inr)
  have first: "cache_gen d1 repo = map_option (\<lambda>g. if repo = r then g + 1 else g) (cache_gen d repo)" for repo
    using invalidate_gen [OF d1(1), of repo] by (cases "cache_of d repo") (auto simp: cache_gen_def invalidate_state_def)
  show ?case
  proof
    fix repo
    from Cons.IH [OF d1(2)] have
      "(cache_gen d1 repo = None \<longleftrightarrow> cache_gen d' repo = None) \<and>
       (\<forall>g g'. cache_gen d1 repo = Some g \<longrightarrow> cache_gen d' repo = Some g' \<longrightarrow> g \<le> g')" by blast
    then show "(cache_gen d repo = None \<longleftrightarrow> cache_gen d' repo = None) \<and>
       (\<forall>g g'. cache_gen d repo = Some g \<longrightarrow> cache_gen d' repo = Some g' \<longrightarrow> g \<le> g')"
      by (cases "cache_gen d repo"; cases "repo = r") (auto simp: first)
  qed
qed simp

lemma gens_grow_insertRun:
  assumes "insertRunTx now r d = Inr d'"
  shows "gens_grow d d'"
proof (cases "run_repository_id r \<noteq> [] \<and> invalidatesSnapshotCache (run_operation r)")
  case True
  with assms have "invalidateSnapshotCacheTx now (run_repository_id r) (run_operation r = OpForget)
             (d\<lparr>db_runs := db_runs d @ [run_row r]\<rparr>) = Inr d'" by (simp add: insertRun_iff)
  then show ?thesis by (rule gens_grow_invalidate) simp
next
  case False
  with assms have "db_cache_states d' = db_cache_states d" by (auto simp: insertRun_iff)
  then show ?thesis by (rule gens_grow_same)
qed

lemma tbl_get_delete_key:
  "tbl_get (\<lambda>x. k x = v) (tbl_delete (\<lambda>x. k x \<in> R) xs) = (if v \<in> R then None else tbl_get (\<lambda>x. k x = v) xs)"
  by (induction xs) auto

lemma repo_step_gens: "repo_step d d' \<Longrightarrow> gens_grow d d'"
proof (induction rule: repo_step.induct)
  case (2 now t d d')
  then obtain ts rs where e: "invalidate_each now rs (d\<lparr>db_targets := ts\<rparr>) = Inr d'"
    by (auto simp: UpdateStorageTarget_def invalidateTargetCaches_def split: if_splits)
  from gens_grow_invalidate_each [OF e] show ?case by (auto simp: gens_grow_def cache_gen_def cache_of_def)
next
  case (3 i d d')
  then obtain R where "db_cache_states d' = tbl_delete (\<lambda>c. cst_repository_id c \<in> R) (db_cache_states d)"
    unfolding DeleteStorageTarget_iff delete_repos_iff Let_def by auto
  then show ?case by (auto simp: gens_grow_def cache_gen_def cache_of_def tbl_get_delete_key)
next
  case (4 now r d d')
  then obtain c where "db_cache_states d' = db_cache_states d @ [c]" by (auto simp: CreateRepository_def split: if_splits)
  then show ?case by (auto simp: gens_grow_def cache_gen_def cache_of_def split: option.splits)
next
  case (5 now i d d')
  then obtain rs where "invalidateSnapshotCacheTx now i True (d\<lparr>db_repos := rs\<rparr>) = Inr d'"
    by (auto simp: DetachRepository_def split: if_splits)
  then show ?case by (rule gens_grow_invalidate) simp
qed (auto simp: CreateStorageTarget_def UpdateRepositoryStatus_def MarkRepositoryChecked_def CreatePlan_def UpdatePlan_def
      split: if_splits intro!: gens_grow_same)

lemma cache_step_gens: "cache_step d d' \<Longrightarrow> gens_grow d d'"
proof (induction rule: cache_step.induct)
  case (1 repo gen snaps fp now d d')
  show ?case
    unfolding gens_grow_def
    using saveList_gen [OF 1] by (auto simp: cache_gen_def split: if_splits)
next
  case (2 repo snap p gen tree now d d')
  then show ?case
    by (auto simp: SaveSnapshotTreeCache_def and_then_Inr split: option.splits if_splits intro!: gens_grow_same)
next
  case (3 now repo clear d d')
  then show ?case by (auto simp: InvalidateSnapshotCache_def intro: gens_grow_invalidate)
qed

lemma run_step_gens:
  assumes "run_step d d'"
  shows "gens_grow d d'"
  using assms
proof cases
  case (create now r)
  then show ?thesis using gens_grow_insertRun by (simp add: CreateRun_def)
next
  case (transition rid src dst m)
  then show ?thesis by (auto dest: TransitionRun_frame intro!: gens_grow_same)
next
  case (remove rid)
  then show ?thesis by (auto simp: DeleteRun_def delete_runs_iff Let_def intro!: gens_grow_same)
next
  case (prune cutoff)
  then show ?thesis using PruneHistory_rest [of d cutoff] by (auto simp: same_caches_def intro!: gens_grow_same)
qed (auto simp: Claim_iff Reconcile_iff UpdateRunProgress_def FailStaleRuns_def ClearRunProgress_def DeletePlan_iff Let_def
      intro!: gens_grow_same)

lemma restore_step_gens:
  assumes "restore_step d d'"
  shows "gens_grow d d'"
  using assms
proof cases
  case (request rr)
  then show ?thesis
    by (auto simp: CreateRestoreRequest_def insert_restore_iff split: if_splits intro!: gens_grow_same)
next
  case (database now r rr)
  then obtain d1 where d1: "insertRunTx now r d = Inr d1" "insert_restore rr d1 = Inr d'"
    by (auto simp: CreateDatabaseRestoreRun_def and_then_Inr Let_def split: option.splits if_splits)
  from gens_grow_insertRun [OF d1(1)] d1(2) show ?thesis
    by (auto simp: insert_restore_iff gens_grow_def cache_gen_def cache_of_def)
next
  case settle
  with settle_step_rest show ?thesis by (auto simp: same_caches_def intro!: gens_grow_same)
qed

lemma store_step_gens:
  assumes "store_step d d'"
  shows "gens_grow d d'"
  using assms
proof cases
  case 1
  with account_step_frame show ?thesis by (auto simp: same_caches_def intro!: gens_grow_same)
next
  case 2
  with log_step_frame show ?thesis by (auto simp: same_caches_def intro!: gens_grow_same)
next
  case 5
  with deletion_step_frame show ?thesis by (auto simp: same_caches_def intro!: gens_grow_same)
qed (auto intro: repo_step_gens cache_step_gens run_step_gens restore_step_gens)

section \<open>Properties\<close>

text \<open>C1: In every database that the operations of the store can produce, run identities are unique,
  no two active runs share a deduplication key and no two runs share a slot of a plan; restore
  requests have identities of their own and every one names an existing run; a repository whose list
  is marked as verified has the list of the current generation; and every snapshot has at most one
  deletion intent.\<close>

theorem reachable_database_is_sound:
  assumes "reachable d"
  shows "(\<forall>a\<in>set (db_runs d). \<forall>b\<in>set (db_runs d).
            run_id a = run_id b \<or> (holds_key a \<and> holds_key b \<and> run_dedup_key a = run_dedup_key b) \<or>
            (holds_slot a \<and> holds_slot b \<and> run_slot a = run_slot b) \<longrightarrow> a = b) \<and>
    (\<forall>x\<in>set (db_restores d). find_run d (rr_run_id x) \<noteq> None \<and>
       (\<forall>y\<in>set (db_restores d). rr_id x = rr_id y \<longrightarrow> x = y)) \<and>
    (\<forall>c\<in>set (db_cache_states d). list_current (db_list_cache d) c) \<and>
    (\<forall>x\<in>set (db_deletions d). \<forall>y\<in>set (db_deletions d).
       del_repository_id x = del_repository_id y \<and> del_snapshot_id x = del_snapshot_id y \<longrightarrow> x = y)"
proof -
  have inv: "runs_ok (db_runs d)" "requests_ok (db_runs d) (db_restores d)" "cache_inv d" "deletions_ok (db_deletions d)"
    using reachable_inv [OF assms] by (simp_all add: store_inv_def)
  have slot: "a = b" if "a \<in> set (db_runs d)" "b \<in> set (db_runs d)" "holds_slot a" "holds_slot b" "run_slot a = run_slot b" for a b
    using that inv(1) by (auto simp: runs_ok_def distinct_map dest: inj_onD)
  have req: "find_run d (rr_run_id x) \<noteq> None" if "x \<in> set (db_restores d)" for x
  proof -
    from inv(2) that have "rr_run_id x \<in> run_id ` set (db_runs d)" by (auto simp: requests_ok_def)
    then show ?thesis by (auto simp: find_run_def tbl_get_None)
  qed
  have rid: "x = y" if "x \<in> set (db_restores d)" "y \<in> set (db_restores d)" "rr_id x = rr_id y" for x y
    using inv(2) that by (auto simp: requests_ok_def distinct_map dest: inj_onD)
  have del: "x = y" if "x \<in> set (db_deletions d)" "y \<in> set (db_deletions d)"
    "del_repository_id x = del_repository_id y" "del_snapshot_id x = del_snapshot_id y" for x y
    using deletions_ok_key [OF inv(4) that(1,2), of "del_repository_id x" "del_snapshot_id x"] that by (simp add: del_key_def)
  show ?thesis
  proof (intro conjI)
    show "\<forall>a\<in>set (db_runs d). \<forall>b\<in>set (db_runs d).
            run_id a = run_id b \<or> (holds_key a \<and> holds_key b \<and> run_dedup_key a = run_dedup_key b) \<or>
            (holds_slot a \<and> holds_slot b \<and> run_slot a = run_slot b) \<longrightarrow> a = b"
      using runs_ok_id_unique [OF inv(1)] active_key_unique [OF inv(1)] slot by blast
    show "\<forall>x\<in>set (db_restores d). find_run d (rr_run_id x) \<noteq> None \<and>
       (\<forall>y\<in>set (db_restores d). rr_id x = rr_id y \<longrightarrow> x = y)"
      using req rid by blast
    show "\<forall>c\<in>set (db_cache_states d). list_current (db_list_cache d) c"
      using inv(3) by (simp add: caches_ok_def)
  qed (use del in blast)
qed

lemma sample_reachable:
  "reachable (empty_db\<lparr>db_runs := [sample_run ''r1'' OpCheck RunCancelled]\<rparr>)"
proof (rule reachable.step [OF reachable.migrated])
  have "CreateRun 0 (sample_run ''r1'' OpCheck RunCancelled) empty_db =
      Inr (empty_db\<lparr>db_runs := [sample_run ''r1'' OpCheck RunCancelled]\<rparr>)"
    by (simp add: CreateRun_def insertRunTx_def run_conflict_def run_row_def holds_slot_def holds_key_def
        invalidatesSnapshotCache_def sample_run_def sec_def nano_def)
  then show "store_step empty_db (empty_db\<lparr>db_runs := [sample_run ''r1'' OpCheck RunCancelled]\<rparr>)"
    by (intro store_step.intros(6) run_step.create)
qed

theorem reachable_database_is_sound_witness:
  "\<not> (\<exists>a b. a \<in> set (db_runs (empty_db\<lparr>db_runs := [sample_run ''r1'' OpCheck RunCancelled]\<rparr>)) \<and>
      b \<in> set (db_runs (empty_db\<lparr>db_runs := [sample_run ''r1'' OpCheck RunCancelled]\<rparr>)) \<and> run_id a = run_id b \<and> a \<noteq> b)"
  using reachable_database_is_sound [OF sample_reachable] by blast

text \<open>C2: No operation of the store brings an ended run back: as long as its row exists its state stays
  what it was, and the only change is the correction of a cancelled run that turns out to have
  succeeded.\<close>

theorem ended_run_stays_ended:
  assumes "reachable d" and "store_step d d'" and "find_run d rid = Some r" and "isTerminal (run_status r)"
    and "find_run d' rid = Some r'"
  shows "run_status r' = run_status r \<or> run_status r = RunCancelled \<and> run_status r' = RunSucceeded"
proof -
  have "ends_kept (db_runs d) (db_runs d')"
    using store_step_ends_kept [OF assms(2)] reachable_inv [OF assms(1)] by (simp add: store_inv_def)
  with assms(3-5) show ?thesis unfolding ends_kept_def end_kept_def by (metis find_run_in)
qed

theorem ended_run_stays_ended_witness:
  "\<exists>d' r'. ReconcileCancelledRunSuccess ''r1'' ''s1'' json_none
      (empty_db\<lparr>db_runs := [sample_run ''r1'' OpCheck RunCancelled]\<rparr>) = Inr d' \<and>
    find_run d' ''r1'' = Some r' \<and> (run_status r' = RunCancelled \<or> run_status r' = RunSucceeded)"
proof -
  let ?d = "empty_db\<lparr>db_runs := [sample_run ''r1'' OpCheck RunCancelled]\<rparr>"
  obtain d' r' where d': "ReconcileCancelledRunSuccess ''r1'' ''s1'' json_none ?d = Inr d'" "find_run d' ''r1'' = Some r'"
    by (simp add: ReconcileCancelledRunSuccess_def Let_def tbl_count_def find_run_def)
  have step: "store_step ?d d'" by (intro store_step.intros(6) run_step.reconcile [OF d'(1)])
  have r: "find_run ?d ''r1'' = Some (sample_run ''r1'' OpCheck RunCancelled)" by (simp add: find_run_def)
  from ended_run_stays_ended [OF sample_reachable step r _ d'(2)] d' show ?thesis by auto
qed

text \<open>The generation of a repository's caches never falls: after any operation of the store it is at
  least what it was, as long as the repository has a cache state.\<close>

theorem cache_generation_never_falls:
  assumes "store_step d d'" and "SnapshotCacheGeneration d repo = Inr g" and "SnapshotCacheGeneration d' repo = Inr g'"
  shows "g \<le> g'"
  using store_step_gens [OF assms(1)] assms(2,3) by (auto simp: SnapshotCacheGeneration_gen gens_grow_def)

theorem cache_generation_never_falls_witness:
  "\<exists>d'. InvalidateSnapshotCache 7 ''p1'' True (empty_db\<lparr>db_cache_states := [sample_cache]\<rparr>) = Inr d' \<and>
    (\<exists>g'. SnapshotCacheGeneration d' ''p1'' = Inr g' \<and> 4 \<le> g')"
proof -
  let ?d = "empty_db\<lparr>db_cache_states := [sample_cache]\<rparr>"
  obtain d' g' where d': "InvalidateSnapshotCache 7 ''p1'' True ?d = Inr d'" "SnapshotCacheGeneration d' ''p1'' = Inr g'"
    by (simp add: InvalidateSnapshotCache_def invalidateSnapshotCacheTx_def Let_def tbl_count_def sample_cache_def
        SnapshotCacheGeneration_def cache_of_def invalidate_state_def)
  have g: "SnapshotCacheGeneration ?d ''p1'' = Inr 4"
    by (simp add: SnapshotCacheGeneration_def cache_of_def sample_cache_def)
  from cache_generation_never_falls [OF store_step.intros(4) [OF cache_step.intros(3) [OF d'(1)]] g d'(2)] d'
  show ?thesis by blast
qed

end
