(* ===== verification/Dispatcher.thy ===== *)
theory Dispatcher
  imports Server_State Run_Contract Store_Steps
begin

text \<open>
  The dispatcher (\<open>dispatchgrpc/dispatcher.go\<close>): one queue and one worker per repository, the
  claim of a run before its command is sent, the cancellation of runs, and the watchdog that
  repairs queues and ends overdue runs.  \<open>processJob\<close> is given as its three stretches between the
  points where it waits: checking and claiming, building and sending, and waiting for the end of
  the run; the worker's step relation interleaves them with everything else.
\<close>

section \<open>Constants\<close>

definition dispatchLease :: int where "dispatchLease = minutes 2"
definition restoreExecutionDeadline :: int where "restoreExecutionDeadline = hours 12"
definition restoreCancelGrace :: int where "restoreCancelGrace = minutes 30"
definition noResponseTimeout :: int where "noResponseTimeout = seconds 30"

definition retryableOperation :: "operation \<Rightarrow> bool" where
  "retryableOperation oper \<longleftrightarrow>
     oper \<in> {OpBackup, OpCheck, OpSnapshots, OpSnapshotLs, OpValidatePaths, OpProbeCaps, OpVerifyRemote}"

definition isDatabaseRestoreKind :: "kind \<Rightarrow> bool" where
  "isDatabaseRestoreKind k \<longleftrightarrow> k \<in> {KindPostgreSQL, KindMySQL, KindMongoDB, KindSQLite}"

section \<open>Queues\<close>

definition push_job :: "job \<Rightarrow> 'c world \<Rightarrow> 'c world" where
  "push_job j w =
     w\<lparr>w_queues := (w_queues w)(job_repository j \<mapsto>
         (case w_queues w (job_repository j) of None \<Rightarrow> [] | Some js \<Rightarrow> js) @ [j])\<rparr>"

definition Enqueue :: "string \<Rightarrow> string \<Rightarrow> string \<Rightarrow> 'c world \<Rightarrow> 'c world" where
  "Enqueue rid agent repo w =
     (if rid \<in> w_enqueued w then w
      else push_job \<lparr>job_run = rid, job_agent = agent, job_repository = repo\<rparr>
             (w\<lparr>w_enqueued := insert rid (w_enqueued w)\<rparr>))"

definition removeEnqueued :: "string \<Rightarrow> 'c world \<Rightarrow> 'c world" where
  "removeEnqueued rid w =
     w\<lparr>w_enqueued := w_enqueued w - {rid}, w_processing := w_processing w - {rid},
       w_log_state := (w_log_state w)(rid := None)\<rparr>"

definition markProcessing :: "string \<Rightarrow> bool \<Rightarrow> 'c world \<Rightarrow> 'c world" where
  "markProcessing rid on w =
     w\<lparr>w_processing := (if on then insert rid (w_processing w) else w_processing w - {rid})\<rparr>"

definition requeueJob :: "job \<Rightarrow> 'c world \<Rightarrow> 'c world" where
  "requeueJob j w =
     (if w_queues w (job_repository j) = None then removeEnqueued (job_run j) w else push_job j w)"

definition QueueDepth :: "string list \<Rightarrow> 'c world \<Rightarrow> nat" where
  "QueueDepth repos w = sum_list (map (\<lambda>k. case w_queues w k of None \<Rightarrow> 0 | Some js \<Rightarrow> length js) repos)"

definition prepareRecovery :: "string \<Rightarrow> string \<Rightarrow> 'c world \<Rightarrow> bool \<times> 'c world" where
  "prepareRecovery rid repo w =
     (if rid \<in> w_processing w then (False, w)
      else if (case w_queues w repo of None \<Rightarrow> False | Some js \<Rightarrow> list_ex (\<lambda>j. job_run j = rid) js) then (False, w)
      else (True, w\<lparr>w_enqueued := w_enqueued w - {rid}\<rparr>))"

definition recover_one :: "run \<Rightarrow> 'c world \<Rightarrow> 'c world" where
  "recover_one r w =
     (case prepareRecovery (run_id r) (run_repository_id r) w of
        (ok, w') \<Rightarrow> if ok then Enqueue (run_id r) (run_agent_id r) (run_repository_id r) w' else w')"

definition recoverQueuedRuns :: "'c world \<Rightarrow> 'c world" where
  "recoverQueuedRuns w = fold recover_one (ListRunsByStatus (w_db w) [RunQueued]) w"

section \<open>Dispatch log and secrets\<close>

definition dispatch_entry :: "instant \<Rightarrow> string \<Rightarrow> string \<Rightarrow> string \<Rightarrow> run_log" where
  "dispatch_entry now rid level msg =
     \<lparr>rlog_id = 0, rlog_source = RunLogSourceServer, rlog_source_seq = word_of_int now, rlog_run_id = rid,
      rlog_timestamp = now, rlog_level = level, rlog_message = msg\<rparr>"

definition appendDispatchLog :: "instant \<Rightarrow> string \<Rightarrow> string \<Rightarrow> string \<Rightarrow> 'c world \<Rightarrow> 'c world" where
  "appendDispatchLog now rid level msg w =
     (if (case w_log_state w rid of None \<Rightarrow> False | Some (m, t) \<Rightarrow> m = msg \<and> now - t < minutes 10) then w
      else
        let w1 = w\<lparr>w_log_state := (w_log_state w)(rid \<mapsto> (msg, now))\<rparr> in
        case AppendRunLogs [dispatch_entry now rid level msg] (w_db w1) of
          Inl _ \<Rightarrow> w1
        | Inr (out, d') \<Rightarrow>
            w1\<lparr>w_db := d', w_events := w_events w1 @ map (\<lambda>l. (rid, LogEvent l)) (filter (\<lambda>l. rlog_id l \<noteq> 0) out)\<rparr>)"

section \<open>Restores that do not get to the agent\<close>

definition finish_of :: "string \<Rightarrow> run_status list \<Rightarrow> run_status \<Rightarrow> string \<Rightarrow> string \<Rightarrow> restore_phase \<Rightarrow> instant \<Rightarrow> finish_input" where
  "finish_of rid froms st code msg phase now =
     \<lparr>fin_run_id = rid, fin_from_statuses = froms, fin_to_status = st, fin_error_code = code, fin_error_message = msg,
      fin_snapshot_id = [], fin_result_json = json_none, fin_phase = Some phase, fin_rollback_snapshot_id = [],
      fin_finished_at = now\<rparr>"

definition failRestoreBeforeSend :: "instant \<Rightarrow> string \<Rightarrow> string \<Rightarrow> string \<Rightarrow> 'c world \<Rightarrow> 'c world" where
  "failRestoreBeforeSend now rid code msg w =
     (case FinishRestoreRun (finish_of rid [RunQueued, RunDispatched] RunFailed code msg RestorePhaseFailed now) (w_db w) of
        Inl e \<Rightarrow> if e = ErrInvalidTransition then notify rid (drop_secrets rid w) else w
      | Inr d' \<Rightarrow> notify rid (drop_secrets rid (w\<lparr>w_db := d'\<rparr>)))"

text \<open>Asking the agent to stop; what happens to the message is not looked at.\<close>

definition sendCancel :: "bool \<Rightarrow> string \<Rightarrow> string \<Rightarrow> 'c world \<Rightarrow> 'c world" where
  "sendCancel pick rid agent w =
     (if \<not> Connected (w_reg w) agent then w
      else case Send pick agent (CancelCommand rid) (w_reg w) of Sent r' \<Rightarrow> w\<lparr>w_reg := r'\<rparr> | _ \<Rightarrow> w)"

definition cancelRestore :: "bool \<Rightarrow> instant \<Rightarrow> run \<Rightarrow> 'c world \<Rightarrow> store_err option \<times> 'c world" where
  "cancelRestore pick now r w =
     (if run_status r = RunQueued
      then case FinishRestoreRun (finish_of (run_id r) [RunQueued] RunCancelled CodeCancelled
                 ''restore cancelled before dispatch'' RestorePhaseFailed now) (w_db w) of
          Inl e \<Rightarrow> if e = ErrInvalidTransition then (None, drop_secrets (run_id r) w) else (Some e, w)
        | Inr d' \<Rightarrow> (None, drop_secrets (run_id r) (w\<lparr>w_db := d'\<rparr>))
      else
        let w1 = sendCancel pick (run_id r) (run_agent_id r) w;
            w2 = w1\<lparr>w_db := RequestRestoreStop (run_id r) (now + restoreCancelGrace) (w_db w1)\<rparr>
        in (None, appendDispatchLog now (run_id r) ''warn'' ''stop of the restore requested, waiting for the rollback'' w2))"

definition markRestoreManualRecovery :: "instant \<Rightarrow> run \<Rightarrow> 'c world \<Rightarrow> 'c world" where
  "markRestoreManualRecovery now r w =
     (case FinishRestoreRun (finish_of (run_id r) [] RunFailed CodeTimeout
         ''restore did not report a trusted result; manual recovery required'' RestorePhaseManualRecoveryNeeded now) (w_db w) of
        Inl _ \<Rightarrow> w
      | Inr d' \<Rightarrow> notify (run_id r) (drop_secrets (run_id r) (w\<lparr>w_db := d'\<rparr>)))"

definition handleRestoreTimeout :: "bool \<Rightarrow> instant \<Rightarrow> run \<Rightarrow> 'c world \<Rightarrow> 'c world" where
  "handleRestoreTimeout pick now r w =
     (if (case run_lease_expires_at r of None \<Rightarrow> True | Some t \<Rightarrow> now < t) then w
      else case GetRestoreRequestByRunID (w_db w) (run_id r) of
        Inl _ \<Rightarrow> w
      | Inr rr \<Rightarrow>
          if RestorePhaseIsTerminal (rr_phase rr) then w
          else if \<not> Connected (w_reg w) (run_agent_id r)
          then (if rr_phase rr \<noteq> RestorePhaseManualRecoveryNeeded then markRestoreManualRecovery now r w else w)
          else if rr_phase rr = RestorePhaseCancelling then markRestoreManualRecovery now r w
          else
            let w1 = sendCancel pick (run_id r) (run_agent_id r) w;
                w2 = w1\<lparr>w_db := RequestRestoreStop (run_id r) (now + restoreCancelGrace) (w_db w1)\<rparr>
            in appendDispatchLog now (run_id r) ''error'' ''restore over its deadline, stop requested'' w2)"

section \<open>Processing a job\<close>

datatype verdict = JobDropped | JobRequeued | JobClaimed bool | JobSent | JobWaits | JobBlocked

definition claim_run :: "instant \<Rightarrow> run \<Rightarrow> run" where
  "claim_run lease r = r\<lparr>run_attempt := run_attempt r + 1, run_lease_expires_at := Some lease\<rparr>"

text \<open>The text of the number of attempts is left out of the log message.\<close>

definition admitJob :: "instant \<Rightarrow> store_err option \<Rightarrow> job \<Rightarrow> 'c world \<Rightarrow> verdict \<times> 'c world" where
  "admitJob now fault j w =
     (let rid = job_run j in
      case GetRun (w_db w) rid of
        Inl _ \<Rightarrow> (JobDropped, removeEnqueued rid w)
      | Inr run \<Rightarrow>
          let isRestore = (run_operation run = OpRestore) in
          case (if isRestore then and_then (GetRestoreRequestByRunID (w_db w) rid) (\<lambda>rr. Inr (isDatabaseRestoreKind (rr_kind rr)))
                else Inr False) of
            Inl _ \<Rightarrow> (JobDropped, removeEnqueued rid
                (failRestoreBeforeSend now rid CodeInvalidPlan ''restore request is unavailable'' w))
          | Inr dbRestore \<Rightarrow>
              if RepositoryRestoreBlocked (w_db w) (job_repository j) rid
              then (JobRequeued, requeueJob j (appendDispatchLog now rid ''warn'' ''repository blocked by a restore'' w))
              else if \<not> Connected (w_reg w) (job_agent j)
              then (JobRequeued, requeueJob j (appendDispatchLog now rid ''warn'' ''waiting for the agent to connect'' w))
              else
                let lease = now + (if isRestore then restoreExecutionDeadline else dispatchLease) in
                case serve fault (TransitionRun rid RunQueued RunDispatched (claim_run lease)) (w_db w) of
                  Inl e \<Rightarrow>
                    if e = ErrInvalidTransition then (JobDropped, removeEnqueued rid w)
                    else (JobRequeued, requeueJob j (appendDispatchLog now rid ''error'' ''claim could not be written'' w))
                | Inr d' \<Rightarrow> (JobClaimed dbRestore, appendDispatchLog now rid ''info'' ''dispatched to the agent'' (w\<lparr>w_db := d'\<rparr>)))"

definition build_failed :: "instant \<Rightarrow> string \<Rightarrow> run \<Rightarrow> run" where
  "build_failed now msg r = r\<lparr>run_error_code := CodeInvalidPlan, run_error_message := msg, run_finished_at := Some now,
     run_lease_expires_at := None\<rparr>"

definition clear_lease :: "run \<Rightarrow> run" where
  "clear_lease r = r\<lparr>run_lease_expires_at := None\<rparr>"

definition deliverJob ::
    "bool \<Rightarrow> instant \<Rightarrow> (db \<Rightarrow> string \<Rightarrow> string + 'c) \<Rightarrow> store_err option \<Rightarrow> bool \<Rightarrow> job \<Rightarrow> 'c world \<Rightarrow> verdict \<times> 'c world" where
  "deliverJob pick now build fault dbRestore j w =
     (let rid = job_run j in
      case build (w_db w) rid of
        Inl msg \<Rightarrow>
          let w1 = (case serve fault (TransitionRun rid RunDispatched RunFailed (build_failed now msg)) (w_db w) of
                      Inl _ \<Rightarrow> w | Inr d' \<Rightarrow> notify rid (w\<lparr>w_db := d'\<rparr>))
          in (JobDropped, removeEnqueued rid (drop_secrets rid w1))
      | Inr cmd \<Rightarrow>
          case (if dbRestore then SendWithCapability pick (job_agent j) (ExecuteCommand cmd) True (w_reg w)
                else Send pick (job_agent j) (ExecuteCommand cmd) (w_reg w)) of
            Sent r' \<Rightarrow> (JobSent, w\<lparr>w_reg := r'\<rparr>)
          | SendBlocks \<Rightarrow> (JobBlocked, w)
          | SendFailed e \<Rightarrow>
              if dbRestore \<and> (e = ErrCapabilitiesPending \<or> e = ErrUnsafeDatabaseRestore)
              then
                let code = (if e = ErrUnsafeDatabaseRestore then CodeUpgradeRequired else CodeCapabilitiesPending);
                    reason = (if e = ErrUnsafeDatabaseRestore then ''the agent does not support protected restores''
                              else ''the connection has not reported its capabilities'')
                in (JobDropped, removeEnqueued rid (failRestoreBeforeSend now rid code reason
                      (appendDispatchLog now rid ''error'' reason w)))
              else
                let w1 = appendDispatchLog now rid ''warn'' ''sending to the agent failed'' w in
                case serve fault (TransitionRun rid RunDispatched RunQueued clear_lease) (w_db w1) of
                  Inl _ \<Rightarrow> (JobDropped, removeEnqueued rid
                      (appendDispatchLog now rid ''error'' ''back to the queue could not be written'' w1))
                | Inr d' \<Rightarrow> (JobRequeued, requeueJob j (w1\<lparr>w_db := d'\<rparr>)))"

definition awaitJob :: "job \<Rightarrow> 'c world \<Rightarrow> verdict \<times> 'c world" where
  "awaitJob j w =
     (case GetRun (w_db w) (job_run j) of
        Inl _ \<Rightarrow> (JobDropped, removeEnqueued (job_run j) w)
      | Inr run \<Rightarrow>
          if run_status run \<in> {RunSucceeded, RunFailed, RunCancelled} then (JobDropped, removeEnqueued (job_run j) w)
          else if run_status run = RunQueued then (JobRequeued, requeueJob j w)
          else (JobWaits, w))"

section \<open>Cancelling\<close>

definition cancelled_run :: "instant \<Rightarrow> run \<Rightarrow> run" where
  "cancelled_run now r = r\<lparr>run_finished_at := Some now, run_error_code := CodeCancelled\<rparr>"

definition cancel_transition :: "instant \<Rightarrow> run \<Rightarrow> 'c world \<Rightarrow> store_err option \<times> 'c world" where
  "cancel_transition now run w =
     (case TransitionRun (run_id run) (run_status run) RunCancelled (cancelled_run now) (w_db w) of
        Inl e \<Rightarrow> (Some e, w) | Inr d' \<Rightarrow> (None, drop_secrets (run_id run) (w\<lparr>w_db := d'\<rparr>)))"

definition Cancel :: "bool \<Rightarrow> instant \<Rightarrow> string \<Rightarrow> 'c world \<Rightarrow> store_err option \<times> 'c world" where
  "Cancel pick now rid w =
     (case GetRun (w_db w) rid of
        Inl e \<Rightarrow> (if e = ErrNotFound then None else Some e, w)
      | Inr run \<Rightarrow>
          if run_status run \<in> {RunSucceeded, RunFailed, RunCancelled} then (None, w)
          else if run_operation run = OpRestore then cancelRestore pick now run w
          else if run_status run = RunQueued then cancel_transition now run w
          else cancel_transition now run (sendCancel pick rid (run_agent_id run) w))"

section \<open>The watchdog\<close>

definition timeout_of :: "db \<Rightarrow> run \<Rightarrow> int" where
  "timeout_of d r =
     (let base = (if run_operation r = OpForget then 15 * 60 else 300) in
      seconds (if run_plan_id r = [] then base
               else case GetPlan d (run_plan_id r) of
                 Inl _ \<Rightarrow> base
               | Inr p \<Rightarrow> if 0 < plan_timeout_seconds p then plan_timeout_seconds p else base))"

definition elapsed :: "instant \<Rightarrow> run \<Rightarrow> int" where
  "elapsed now r =
     (if run_status r = RunDispatched then now - run_queued_at r
      else if run_status r = RunRunning then (case run_started_at r of None \<Rightarrow> 0 | Some t \<Rightarrow> now - t)
      else 0)"

definition requeued_run :: "run \<Rightarrow> run" where
  "requeued_run r = r\<lparr>run_started_at := None, run_lease_expires_at := None, run_error_code := [], run_error_message := [],
     run_progress := json_braces\<rparr>"

definition lease_failed :: "instant \<Rightarrow> run \<Rightarrow> run" where
  "lease_failed now r = r\<lparr>run_finished_at := Some now, run_error_code := CodeAgentDisconnected,
     run_error_message := ''dispatch lease expired'', run_lease_expires_at := None\<rparr>"

definition timed_out :: "instant \<Rightarrow> string \<Rightarrow> run \<Rightarrow> run" where
  "timed_out now msg r = r\<lparr>run_finished_at := Some now, run_error_code := CodeTimeout, run_error_message := msg\<rparr>"

definition fail_overdue :: "bool \<Rightarrow> instant \<Rightarrow> run \<Rightarrow> string \<Rightarrow> 'c world \<Rightarrow> 'c world" where
  "fail_overdue pick now r msg w =
     (let w1 = sendCancel pick (run_id r) (run_agent_id r) w in
      case TransitionRun (run_id r) (run_status r) RunFailed (timed_out now msg) (w_db w1) of
        Inl _ \<Rightarrow> w1
      | Inr d' \<Rightarrow> drop_secrets (run_id r) (notify (run_id r) (w1\<lparr>w_db := d'\<rparr>)))"

text \<open>An expired lease: what may be repeated goes back to the queue, anything else fails.\<close>

definition requeue_expired :: "run \<Rightarrow> 'c world \<Rightarrow> 'c world" where
  "requeue_expired r w =
     (case TransitionRun (run_id r) (run_status r) RunQueued requeued_run (w_db w) of
        Inl _ \<Rightarrow> w
      | Inr d' \<Rightarrow> Enqueue (run_id r) (run_agent_id r) (run_repository_id r) (w\<lparr>w_db := d'\<rparr>))"

definition fail_expired :: "instant \<Rightarrow> run \<Rightarrow> 'c world \<Rightarrow> 'c world" where
  "fail_expired now r w =
     (case TransitionRun (run_id r) (run_status r) RunFailed (lease_failed now) (w_db w) of
        Inl _ \<Rightarrow> w | Inr d' \<Rightarrow> drop_secrets (run_id r) (w\<lparr>w_db := d'\<rparr>))"

definition check_one :: "bool \<Rightarrow> instant \<Rightarrow> run \<Rightarrow> 'c world \<Rightarrow> 'c world" where
  "check_one pick now r w =
     (if run_operation r = OpRestore then handleRestoreTimeout pick now r w
      else if (case run_lease_expires_at r of None \<Rightarrow> False | Some t \<Rightarrow> t < now)
      then (if retryableOperation (run_operation r) then requeue_expired r w else fail_expired now r w)
      else if elapsed now r \<le> timeout_of (w_db w) r then w
      else if run_status r = RunRunning
      then (if noResponseTimeout < elapsed now r
            then fail_overdue pick now r ''agent did not respond within timeout'' w else w)
      else if run_status r = RunDispatched
      then fail_overdue pick now r ''run timed out in dispatched state'' w
      else w)"

definition checkTimeouts :: "bool \<Rightarrow> instant \<Rightarrow> 'c world \<Rightarrow> 'c world" where
  "checkTimeouts pick now w =
     (let w1 = recoverQueuedRuns w in
      fold (check_one pick now) (ListRunsByStatus (w_db w1) [RunDispatched, RunRunning]) w1)"

section \<open>Retrying a write\<close>

fun err_text :: "store_err \<Rightarrow> string" where
  "err_text (ErrSql s) = s"
| "err_text _ = []"

definition isBusyError :: "store_err \<Rightarrow> bool" where
  "isBusyError e =
     (let m = ToLower (err_text e) in
      Contains m ''database is locked'' \<or> Contains m ''sqlite_busy'' \<or> Contains m ''database table is locked'')"

text \<open>\<open>write k\<close> is the outcome of the k-th attempt; the results are the error, the calls and the time waited.\<close>

fun retry_write :: "nat \<Rightarrow> nat \<Rightarrow> int \<Rightarrow> (nat \<Rightarrow> store_err option) \<Rightarrow> int \<Rightarrow> store_err option \<times> nat \<times> int" where
  "retry_write 0 k delay write waited = (None, k, waited)"
| "retry_write (Suc n) k delay write waited =
     (case write k of
        None \<Rightarrow> (None, Suc k, waited)
      | Some e \<Rightarrow>
          if e = ErrInvalidTransition \<or> \<not> isBusyError e then (Some e, Suc k, waited)
          else if n = 0 then (Some e, Suc k, waited)
          else retry_write n (Suc k) (delay * 2) write (waited + delay))"

definition retryStoreWrite :: "int \<Rightarrow> (nat \<Rightarrow> store_err option) \<Rightarrow> store_err option \<times> nat \<times> int" where
  "retryStoreWrite cfgDelay write =
     retry_write 6 0 (if cfgDelay \<le> 0 then 100000000 else cfgDelay) write 0"

section \<open>The dispatcher at work\<close>

text \<open>
  One step of the dispatcher in its surroundings.  A worker whose queue is not empty takes the first
  job: the signal on its channel, which every append gives, only says that there is one.  Other
  parts of the server may change the database by any operation of the store and the registry in
  any way in between.
\<close>

definition set_worker :: "string \<Rightarrow> worker \<Rightarrow> 'c world \<Rightarrow> 'c world" where
  "set_worker k s w = w\<lparr>w_worker := (w_worker w)(k := s)\<rparr>"

inductive disp_step :: "(db \<Rightarrow> string \<Rightarrow> string + 'c) \<Rightarrow> 'c world \<Rightarrow> 'c world \<Rightarrow> bool" for build where
  enqueue: "disp_step build w (Enqueue rid agent repo w)"
| pop: "w_queues w k = Some (j # js) \<Longrightarrow> w_worker w k = WIdle \<Longrightarrow>
    disp_step build w (set_worker k (WPopped j) (w\<lparr>w_queues := (w_queues w)(k \<mapsto> js)\<rparr>))"
| mark: "w_worker w k = WPopped j \<Longrightarrow> disp_step build w (set_worker k (WChecking j) (markProcessing (job_run j) True w))"
| admit: "w_worker w k = WChecking j \<Longrightarrow> admitJob now fault j w = (v, w') \<Longrightarrow>
    disp_step build w (set_worker k (case v of JobClaimed b \<Rightarrow> WSending b j | _ \<Rightarrow> WLeaving j) w')"
| deliver: "w_worker w k = WSending b j \<Longrightarrow> deliverJob pick now build fault b j w = (v, w') \<Longrightarrow> v \<noteq> JobBlocked \<Longrightarrow>
    disp_step build w (set_worker k (case v of JobSent \<Rightarrow> WAwaiting j | _ \<Rightarrow> WLeaving j) w')"
| await: "w_worker w k = WAwaiting j \<Longrightarrow> awaitJob j w = (v, w') \<Longrightarrow>
    disp_step build w (set_worker k (case v of JobWaits \<Rightarrow> WAwaiting j | _ \<Rightarrow> WLeaving j) w')"
| unmark: "w_worker w k = WLeaving j \<Longrightarrow> disp_step build w (set_worker k WIdle (markProcessing (job_run j) False w))"
| watch: "disp_step build w (checkTimeouts pick now w)"
| cancel: "Cancel pick now rid w = (e, w') \<Longrightarrow> disp_step build w w'"
| store: "store_step (w_db w) d' \<Longrightarrow> disp_step build w (w\<lparr>w_db := d'\<rparr>)"
| connections: "disp_step build w (w\<lparr>w_reg := r'\<rparr>)"

inductive disp_reachable :: "(db \<Rightarrow> string \<Rightarrow> string + 'c) \<Rightarrow> 'c world \<Rightarrow> bool" for build where
  start: "disp_reachable build (start_world d)"
| step: "disp_reachable build w \<Longrightarrow> disp_step build w w' \<Longrightarrow> disp_reachable build w'"

section \<open>Lemmas: what leaves the queues alone\<close>

definition same_queues :: "'c world \<Rightarrow> 'c world \<Rightarrow> bool" where
  "same_queues w w' \<longleftrightarrow> w_queues w' = w_queues w \<and> w_enqueued w' = w_enqueued w \<and>
     w_processing w' = w_processing w \<and> w_worker w' = w_worker w"

lemma same_queues_refl [simp]: "same_queues w w"
  by (simp add: same_queues_def)

lemma same_queues_trans: "same_queues u v \<Longrightarrow> same_queues v w \<Longrightarrow> same_queues u w"
  by (simp add: same_queues_def)

lemma notify_keeps [simp]:
  "w_queues (notify rid w) = w_queues w" "w_enqueued (notify rid w) = w_enqueued w"
  "w_processing (notify rid w) = w_processing w" "w_worker (notify rid w) = w_worker w"
  by (simp_all add: notify_def)

lemma drop_secrets_keeps [simp]:
  "w_queues (drop_secrets rid w) = w_queues w" "w_enqueued (drop_secrets rid w) = w_enqueued w"
  "w_processing (drop_secrets rid w) = w_processing w" "w_worker (drop_secrets rid w) = w_worker w"
  by (simp_all add: drop_secrets_def)

lemma appendDispatchLog_keeps [simp]:
  "w_queues (appendDispatchLog now rid level msg w) = w_queues w" "w_enqueued (appendDispatchLog now rid level msg w) = w_enqueued w"
  "w_processing (appendDispatchLog now rid level msg w) = w_processing w" "w_worker (appendDispatchLog now rid level msg w) = w_worker w"
  by (simp_all add: appendDispatchLog_def Let_def split: option.split sum.split prod.split)

lemma sendCancel_keeps [simp]:
  "w_queues (sendCancel pick rid agent w) = w_queues w" "w_enqueued (sendCancel pick rid agent w) = w_enqueued w"
  "w_processing (sendCancel pick rid agent w) = w_processing w" "w_worker (sendCancel pick rid agent w) = w_worker w"
  by (simp_all add: sendCancel_def split: send_result.split)

lemma failRestoreBeforeSend_keeps [simp]:
  "w_queues (failRestoreBeforeSend now rid code msg w) = w_queues w" "w_enqueued (failRestoreBeforeSend now rid code msg w) = w_enqueued w"
  "w_processing (failRestoreBeforeSend now rid code msg w) = w_processing w" "w_worker (failRestoreBeforeSend now rid code msg w) = w_worker w"
  by (simp_all add: failRestoreBeforeSend_def split: sum.split)

lemma markRestoreManualRecovery_keeps [simp]:
  "w_queues (markRestoreManualRecovery now r w) = w_queues w" "w_enqueued (markRestoreManualRecovery now r w) = w_enqueued w"
  "w_processing (markRestoreManualRecovery now r w) = w_processing w" "w_worker (markRestoreManualRecovery now r w) = w_worker w"
  by (simp_all add: markRestoreManualRecovery_def split: sum.split)

lemma handleRestoreTimeout_keeps [simp]:
  "w_queues (handleRestoreTimeout pick now r w) = w_queues w" "w_enqueued (handleRestoreTimeout pick now r w) = w_enqueued w"
  "w_processing (handleRestoreTimeout pick now r w) = w_processing w" "w_worker (handleRestoreTimeout pick now r w) = w_worker w"
  by (simp_all add: handleRestoreTimeout_def Let_def split: option.split sum.split)

lemma fail_overdue_keeps [simp]:
  "w_queues (fail_overdue pick now r msg w) = w_queues w" "w_enqueued (fail_overdue pick now r msg w) = w_enqueued w"
  "w_processing (fail_overdue pick now r msg w) = w_processing w" "w_worker (fail_overdue pick now r msg w) = w_worker w"
  by (simp_all add: fail_overdue_def Let_def split: sum.split)

lemma fail_expired_keeps [simp]:
  "w_queues (fail_expired now r w) = w_queues w" "w_enqueued (fail_expired now r w) = w_enqueued w"
  "w_processing (fail_expired now r w) = w_processing w" "w_worker (fail_expired now r w) = w_worker w"
  by (simp_all add: fail_expired_def split: sum.split)

lemma cancel_queues:
  "same_queues w (snd (cancelRestore pick now r w))" "same_queues w (snd (cancel_transition now r w))"
  by (simp_all add: cancelRestore_def cancel_transition_def same_queues_def Let_def split: sum.split)

lemma Cancel_queues: "Cancel pick now rid w = (e, w') \<Longrightarrow> same_queues w w'"
  using cancel_queues(1) [of w pick now] cancel_queues(2) [of w now] cancel_queues(2) [of "sendCancel pick rid a w" now for a]
  by (auto simp: Cancel_def same_queues_def split: sum.splits if_splits dest!: arg_cong [of _ _ snd])

text \<open>The three stretches of \<open>processJob\<close> end by dropping the job, by putting it back, or by going on.\<close>

definition job_outcome :: "verdict \<Rightarrow> job \<Rightarrow> 'c world \<Rightarrow> 'c world \<Rightarrow> bool" where
  "job_outcome v j w w' \<longleftrightarrow>
     (\<exists>w1. same_queues w w1 \<and>
        (case v of JobDropped \<Rightarrow> w' = removeEnqueued (job_run j) w1 | JobRequeued \<Rightarrow> w' = requeueJob j w1 | _ \<Rightarrow> w' = w1))"

lemma job_outcomeI:
  "same_queues w w1 \<Longrightarrow> job_outcome JobDropped j w (removeEnqueued (job_run j) w1)"
  "same_queues w w1 \<Longrightarrow> job_outcome JobRequeued j w (requeueJob j w1)"
  "same_queues w w1 \<Longrightarrow> job_outcome (JobClaimed b) j w w1"
  "same_queues w w1 \<Longrightarrow> job_outcome JobSent j w w1"
  "same_queues w w1 \<Longrightarrow> job_outcome JobWaits j w w1"
  "same_queues w w1 \<Longrightarrow> job_outcome JobBlocked j w w1"
  by (auto simp: job_outcome_def)

lemma admitJob_outcome: "admitJob now fault j w = (v, w') \<Longrightarrow> job_outcome v j w w'"
  unfolding admitJob_def Let_def
  by (auto split: sum.splits if_splits intro!: job_outcomeI simp: same_queues_def)

lemma deliverJob_outcome: "deliverJob pick now build fault b j w = (v, w') \<Longrightarrow> job_outcome v j w w'"
  unfolding deliverJob_def Let_def
  by (auto split: sum.splits if_splits send_result.splits intro!: job_outcomeI simp: same_queues_def)

lemma awaitJob_outcome: "awaitJob j w = (v, w') \<Longrightarrow> job_outcome v j w w'"
  by (auto simp: awaitJob_def split: sum.splits if_splits intro!: job_outcomeI)

section \<open>Lemmas: no job is lost\<close>

fun holds :: "worker \<Rightarrow> job option" where
  "holds WIdle = None"
| "holds (WPopped j) = Some j"
| "holds (WChecking j) = Some j"
| "holds (WSending b j) = Some j"
| "holds (WAwaiting j) = Some j"
| "holds (WLeaving j) = None"

text \<open>The jobs of a repository: those in its queue and the one its worker still has to process.  A run is
  alive when it has such a job.\<close>

definition queued_jobs :: "'c world \<Rightarrow> string \<Rightarrow> job list" where
  "queued_jobs w k = (case w_queues w k of None \<Rightarrow> [] | Some js \<Rightarrow> js)"

definition jobs_at :: "'c world \<Rightarrow> string \<Rightarrow> job set" where
  "jobs_at w k = set (queued_jobs w k) \<union> set_option (holds (w_worker w k))"

definition live :: "'c world \<Rightarrow> string \<Rightarrow> bool" where
  "live w rid \<longleftrightarrow> (\<exists>k. \<exists>j\<in>jobs_at w k. job_run j = rid)"

definition queue_inv :: "'c world \<Rightarrow> bool" where
  "queue_inv w \<longleftrightarrow>
     (\<forall>k. \<forall>j\<in>jobs_at w k. job_repository j = k) \<and>
     (\<forall>k. holds (w_worker w k) \<noteq> None \<longrightarrow> w_queues w k \<noteq> None) \<and>
     (\<forall>rid\<in>w_enqueued w. live w rid)"

lemma jobs_at_same: "same_queues w w' \<Longrightarrow> jobs_at w' = jobs_at w"
  by (simp add: same_queues_def jobs_at_def queued_jobs_def fun_eq_iff)

lemma queue_inv_same: "same_queues w w' \<Longrightarrow> queue_inv w' = queue_inv w"
  using jobs_at_same [of w w'] by (simp add: queue_inv_def same_queues_def live_def)

lemma push_job_fields [simp]:
  "w_enqueued (push_job j w) = w_enqueued w" "w_worker (push_job j w) = w_worker w" "w_processing (push_job j w) = w_processing w"
  "w_db (push_job j w) = w_db w"
  by (simp_all add: push_job_def)

lemma queued_push: "queued_jobs (push_job j w) k = (if k = job_repository j then queued_jobs w k @ [j] else queued_jobs w k)"
  by (simp add: push_job_def queued_jobs_def split: option.split)

lemma jobs_at_push: "jobs_at (push_job j w) k = (if k = job_repository j then insert j (jobs_at w k) else jobs_at w k)"
  by (auto simp: jobs_at_def queued_push)

lemma queues_push: "w_queues (push_job j w) k \<noteq> None \<longleftrightarrow> k = job_repository j \<or> w_queues w k \<noteq> None"
  by (simp add: push_job_def)

lemma live_push: "live (push_job j w) rid \<longleftrightarrow> live w rid \<or> rid = job_run j"
proof -
  have "live (push_job j w) rid" if "x \<in> jobs_at w k" "job_run x = rid" for x k
    unfolding live_def using that by (intro exI [of _ k]) (auto simp: jobs_at_push)
  moreover have "live (push_job j w) (job_run j)"
    unfolding live_def by (intro exI [of _ "job_repository j"]) (simp add: jobs_at_push)
  moreover have "live w rid \<or> rid = job_run j" if "live (push_job j w) rid"
    using that unfolding live_def jobs_at_push by (metis insert_iff)
  ultimately show ?thesis unfolding live_def by blast
qed

lemma jobs_at_enqueued [simp]: "jobs_at (w\<lparr>w_enqueued := e\<rparr>) = jobs_at w"
  by (simp add: jobs_at_def queued_jobs_def fun_eq_iff)

lemma live_enqueued [simp]: "live (w\<lparr>w_enqueued := e\<rparr>) = live w"
  by (simp add: live_def fun_eq_iff)

lemma push_job_inv: "queue_inv w \<Longrightarrow> queue_inv (push_job j w)"
  by (auto simp: queue_inv_def live_push jobs_at_push queues_push simp del: not_None_eq)

lemma Enqueue_inv: "queue_inv w \<Longrightarrow> queue_inv (Enqueue rid agent repo w)"
  by (auto simp: Enqueue_def queue_inv_def live_push jobs_at_push queues_push simp del: not_None_eq)

lemma unmark_inv: "queue_inv w \<Longrightarrow> queue_inv (w\<lparr>w_enqueued := w_enqueued w - R\<rparr>)"
  by (auto simp: queue_inv_def)

lemma recover_one_inv: "queue_inv w \<Longrightarrow> queue_inv (recover_one r w)"
  by (auto simp: recover_one_def prepareRecovery_def intro!: Enqueue_inv unmark_inv)

lemma fold_inv: "(\<And>x w. P w \<Longrightarrow> P (f x w)) \<Longrightarrow> P w \<Longrightarrow> P (fold f xs w)"
  by (induction xs arbitrary: w) auto

lemma queue_inv_db [simp]: "queue_inv (w\<lparr>w_db := d\<rparr>) = queue_inv w"
  by (rule queue_inv_same) (simp add: same_queues_def)

lemma requeue_expired_inv: "queue_inv w \<Longrightarrow> queue_inv (requeue_expired r w)"
  by (simp add: requeue_expired_def Enqueue_inv split: sum.split)

lemma queue_inv_keeps [simp]:
  "queue_inv (handleRestoreTimeout pick now r w) = queue_inv w" "queue_inv (fail_expired now r w) = queue_inv w"
  "queue_inv (fail_overdue pick now r msg w) = queue_inv w"
  by (rule queue_inv_same, simp add: same_queues_def)+

lemma check_one_inv: "queue_inv w \<Longrightarrow> queue_inv (check_one pick now r w)"
  by (simp add: check_one_def requeue_expired_inv)

lemma checkTimeouts_inv: "queue_inv w \<Longrightarrow> queue_inv (checkTimeouts pick now w)"
  by (simp add: checkTimeouts_def recoverQueuedRuns_def Let_def fold_inv check_one_inv recover_one_inv)

lemma set_worker_fields [simp]:
  "w_queues (set_worker k s w) = w_queues w" "w_enqueued (set_worker k s w) = w_enqueued w"
  "w_processing (set_worker k s w) = w_processing w" "w_worker (set_worker k s w) = (w_worker w)(k := s)"
  "w_db (set_worker k s w) = w_db w" "queued_jobs (set_worker k s w) = queued_jobs w"
  by (simp_all add: set_worker_def queued_jobs_def fun_eq_iff)

lemma jobs_at_set_worker:
  "jobs_at (set_worker k s w) k' = (if k' = k then set (queued_jobs w k) \<union> set_option (holds s) else jobs_at w k')"
  by (simp add: jobs_at_def)

lemma keep_holding_inv:
  assumes "queue_inv w" and "holds (w_worker w k) = holds s"
  shows "queue_inv (set_worker k s w)"
proof -
  have same: "jobs_at (set_worker k s w) = jobs_at w"
    using assms(2) by (auto simp: jobs_at_set_worker jobs_at_def fun_eq_iff)
  then show ?thesis using assms by (auto simp: queue_inv_def live_def)
qed

lemma release_inv:
  assumes inv: "queue_inv w" and s: "holds s = None" and j: "holds (w_worker w k) = Some j"
    and l: "job_run j \<in> w_enqueued w \<Longrightarrow> \<exists>j'\<in>set (queued_jobs w k). job_run j' = job_run j"
  shows "queue_inv (set_worker k s w)"
proof -
  have "live (set_worker k s w) rid" if "rid \<in> w_enqueued w" for rid
  proof -
    have "live w rid" using inv that by (simp add: queue_inv_def)
    then obtain k' j' where h: "j' \<in> jobs_at w k'" "job_run j' = rid" unfolding live_def by blast
    show ?thesis
    proof (cases "k' = k \<and> j' = j")
      case True
      then have "\<exists>x\<in>set (queued_jobs w k). job_run x = rid" using l h that by blast
      then show ?thesis unfolding live_def jobs_at_set_worker by (metis UnI1)
    next
      case False
      then have "j' \<in> jobs_at (set_worker k s w) k'" using h j by (auto simp: jobs_at_set_worker jobs_at_def)
      then show ?thesis using h(2) unfolding live_def by blast
    qed
  qed
  moreover have "x \<in> jobs_at w k'" if "x \<in> jobs_at (set_worker k s w) k'" for x k'
    using s that by (auto simp: jobs_at_set_worker jobs_at_def split: if_splits)
  ultimately show ?thesis using inv s unfolding queue_inv_def by auto
qed

lemma removeEnqueued_fields [simp]:
  "w_worker (removeEnqueued rid w) = w_worker w" "queued_jobs (removeEnqueued rid w) = queued_jobs w"
  "w_enqueued (removeEnqueued rid w) = w_enqueued w - {rid}" "jobs_at (removeEnqueued rid w) = jobs_at w"
  "w_queues (removeEnqueued rid w) = w_queues w"
  by (simp_all add: removeEnqueued_def queued_jobs_def jobs_at_def fun_eq_iff)

lemma job_outcome_inv:
  assumes inv: "queue_inv w" and j: "holds (w_worker w k) = Some j" and out: "job_outcome v j w w'"
    and s: "holds s = (if v = JobDropped \<or> v = JobRequeued then None else Some j)"
  shows "queue_inv (set_worker k s w')"
proof -
  from out obtain w1 where w1: "same_queues w w1"
    and w': "w' = (case v of JobDropped \<Rightarrow> removeEnqueued (job_run j) w1 | JobRequeued \<Rightarrow> requeueJob j w1 | _ \<Rightarrow> w1)"
    unfolding job_outcome_def by (cases v) auto
  have inv1: "queue_inv w1" using queue_inv_same [OF w1] inv by simp
  have j1: "holds (w_worker w1 k) = Some j" using w1 j by (simp add: same_queues_def)
  have home: "job_repository j = k" "w_queues w1 k \<noteq> None"
    using inv1 j1 by (auto simp: queue_inv_def jobs_at_def)
  consider "v = JobDropped" | "v = JobRequeued" | "v \<noteq> JobDropped" "v \<noteq> JobRequeued" by blast
  then show ?thesis
  proof cases
    case 1
    have inv2: "queue_inv (removeEnqueued (job_run j) w1)"
      using inv1 by (auto simp: queue_inv_def live_def)
    show ?thesis unfolding w' 1 verdict.case
      by (rule release_inv [OF inv2, where s = s and k = k and j = j]) (use s 1 j1 in auto)
  next
    case 2
    have w'2: "w' = push_job j w1" using 2 home by (auto simp: w' requeueJob_def)
    show ?thesis unfolding w'2
      by (rule release_inv [OF push_job_inv [OF inv1], where s = s and k = k and j = j]) (use s 2 j1 home in \<open>auto simp: queued_push\<close>)
  next
    case 3
    then have "w' = w1" by (auto simp: w' split: verdict.splits)
    then show ?thesis using keep_holding_inv [OF inv1, of k s] j1 s 3 by simp
  qed
qed

lemma pop_inv:
  assumes inv: "queue_inv w" and q: "w_queues w k = Some (j # js)" and i: "w_worker w k = WIdle"
  shows "queue_inv (set_worker k (WPopped j) (w\<lparr>w_queues := (w_queues w)(k \<mapsto> js)\<rparr>))" (is "queue_inv ?w")
proof -
  have "jobs_at ?w k' = jobs_at w k'" for k'
    using q i by (auto simp: jobs_at_def queued_jobs_def)
  then have "jobs_at ?w = jobs_at w" by blast
  then show ?thesis using inv by (auto simp: queue_inv_def live_def)
qed

lemma queue_inv_marked: "queue_inv w \<Longrightarrow> queue_inv (markProcessing rid b w)"
  by (simp add: queue_inv_def live_def jobs_at_def queued_jobs_def markProcessing_def)

lemma disp_step_inv:
  assumes "disp_step build w w'" and inv: "queue_inv w"
  shows "queue_inv w'"
  using assms(1)
proof cases
  case (enqueue rid agent repo)
  with inv show ?thesis by (simp add: Enqueue_inv)
next
  case (pop k j js)
  with inv show ?thesis by (simp add: pop_inv)
next
  case (mark k j)
  have "queue_inv (markProcessing (job_run j) True w)"
    using inv queue_inv_marked by blast
  then show ?thesis unfolding mark by (rule keep_holding_inv) (use mark in \<open>simp add: markProcessing_def\<close>)
next
  case (admit k j now fault v w1)
  show ?thesis unfolding admit(1)
    by (rule job_outcome_inv [OF inv _ admitJob_outcome [OF admit(3)]])
      (use admit admitJob_outcome [OF admit(3)] in \<open>auto split: verdict.splits simp: admitJob_def Let_def split: sum.splits if_splits\<close>)
next
  case (deliver k b j pick now fault v w1)
  show ?thesis unfolding deliver(1)
    by (rule job_outcome_inv [OF inv _ deliverJob_outcome [OF deliver(3)]])
      (use deliver in \<open>auto split: verdict.splits simp: deliverJob_def Let_def split: sum.splits if_splits send_result.splits\<close>)
next
  case (await k j v w1)
  show ?thesis unfolding await(1)
    by (rule job_outcome_inv [OF inv _ awaitJob_outcome [OF await(3)]])
      (use await in \<open>auto simp: awaitJob_def split: verdict.splits sum.splits if_splits\<close>)
next
  case (unmark k j)
  have "queue_inv (markProcessing (job_run j) False w)"
    using inv queue_inv_marked by blast
  then show ?thesis unfolding unmark by (rule keep_holding_inv) (use unmark in \<open>simp add: markProcessing_def\<close>)
next
  case (watch pick now)
  with inv show ?thesis by (simp add: checkTimeouts_inv)
next
  case (cancel pick now rid e)
  with inv queue_inv_same [OF Cancel_queues] show ?thesis by blast
next
  case (store d')
  with inv show ?thesis by simp
next
  case (connections r')
  have "same_queues w w'" by (simp add: connections same_queues_def)
  with inv queue_inv_same show ?thesis by blast
qed

lemma queue_inv_start: "queue_inv (start_world d)"
  by (simp add: queue_inv_def start_world_def jobs_at_def queued_jobs_def)

lemma disp_reachable_inv: "disp_reachable build w \<Longrightarrow> queue_inv w"
  by (induction rule: disp_reachable.induct) (auto intro: queue_inv_start disp_step_inv)

section \<open>Lemmas: recovery\<close>

text \<open>A run is represented when a worker has it in hand or its repository's queue has a job for it.\<close>

definition represented :: "run \<Rightarrow> 'c world \<Rightarrow> bool" where
  "represented r w \<longleftrightarrow> run_id r \<in> w_processing w \<or>
     (\<exists>j\<in>set (queued_jobs w (run_repository_id r)). job_run j = run_id r)"

lemma queued_enqueued [simp]: "queued_jobs (w\<lparr>w_enqueued := e\<rparr>) = queued_jobs w"
  by (simp add: queued_jobs_def fun_eq_iff)

lemma Enqueue_fields [simp]:
  "w_processing (Enqueue rid agent repo w) = w_processing w" "w_db (Enqueue rid agent repo w) = w_db w"
  "w_worker (Enqueue rid agent repo w) = w_worker w"
  by (simp_all add: Enqueue_def)

lemma queued_Enqueue:
  "queued_jobs (Enqueue rid agent repo w) k =
     (if k = repo \<and> rid \<notin> w_enqueued w then queued_jobs w k @ [\<lparr>job_run = rid, job_agent = agent, job_repository = repo\<rparr>]
      else queued_jobs w k)"
  by (simp add: Enqueue_def queued_push)

lemma recover_one_fields [simp]:
  "w_db (recover_one r w) = w_db w" "w_processing (recover_one r w) = w_processing w" "w_worker (recover_one r w) = w_worker w"
  by (auto simp: recover_one_def prepareRecovery_def)

lemma prepareRecovery_ok:
  "fst (prepareRecovery (run_id r) (run_repository_id r) w) \<longleftrightarrow> \<not> represented r w"
  by (auto simp: prepareRecovery_def represented_def queued_jobs_def list_ex_iff split: option.split)

lemma recover_one_represents: "represented r (recover_one r w)"
proof (cases "represented r w")
  case True
  then have "prepareRecovery (run_id r) (run_repository_id r) w = (False, w)"
    using prepareRecovery_ok [of r w] by (auto simp: prepareRecovery_def split: if_splits)
  with True show ?thesis by (simp add: recover_one_def)
next
  case False
  then have "prepareRecovery (run_id r) (run_repository_id r) w = (True, w\<lparr>w_enqueued := w_enqueued w - {run_id r}\<rparr>)"
    using prepareRecovery_ok [of r w] by (auto simp: prepareRecovery_def split: if_splits)
  then show ?thesis by (simp add: recover_one_def represented_def queued_Enqueue)
qed

lemma recover_one_mono: "represented r w \<Longrightarrow> represented r (recover_one r' w)"
  by (auto simp: represented_def recover_one_def prepareRecovery_def queued_Enqueue)

lemma fold_recover:
  "r \<in> set rs \<or> represented r w \<Longrightarrow> represented r (fold recover_one rs w)"
proof (induction rs arbitrary: w)
  case (Cons x rs)
  then show ?case using recover_one_represents [of x w] recover_one_mono [of r w x] by (cases "r = x") auto
qed simp

lemma recover_db: "w_db (recoverQueuedRuns w) = w_db w"
proof -
  have "w_db (fold recover_one rs w) = w_db w" for rs by (induction rs arbitrary: w) auto
  then show ?thesis by (simp add: recoverQueuedRuns_def)
qed

section \<open>Lemmas: the watchdog changes the run it looks at\<close>

definition touches_only :: "string \<Rightarrow> db \<Rightarrow> db \<Rightarrow> bool" where
  "touches_only rid d d' \<longleftrightarrow> db_plans d' = db_plans d \<and> (\<forall>i. i \<noteq> rid \<longrightarrow> find_run d' i = find_run d i)"

lemma touches_only_refl [simp]: "touches_only rid d d"
  by (simp add: touches_only_def)

lemma touches_only_trans: "touches_only rid d d1 \<Longrightarrow> touches_only rid d1 d2 \<Longrightarrow> touches_only rid d d2"
  by (simp add: touches_only_def)

lemma touches_only_runs: "db_runs d' = db_runs d \<Longrightarrow> db_plans d' = db_plans d \<Longrightarrow> touches_only rid d d'"
  by (simp add: touches_only_def find_run_def)

lemma AppendRunLogs_plans: "AppendRunLogs ls d = Inr (out, d') \<Longrightarrow> db_plans d' = db_plans d"
proof (induction ls arbitrary: d out)
  case (Cons l ls)
  from Cons.prems obtain l' d1 out' where s: "append_run_log l d = Inr (l', d1)" "AppendRunLogs ls d1 = Inr (out', d')"
    by (auto simp: and_then_Inr)
  have "db_plans d1 = db_plans d"
    using s(1) by (auto simp: append_run_log_def Let_def split: if_splits)
  with Cons.IH [OF s(2)] show ?case by simp
qed simp

lemma append_log_db:
  "db_runs (w_db (appendDispatchLog now rid l m w)) = db_runs (w_db w) \<and>
   db_plans (w_db (appendDispatchLog now rid l m w)) = db_plans (w_db w) \<and>
   db_restores (w_db (appendDispatchLog now rid l m w)) = db_restores (w_db w)"
proof (cases "AppendRunLogs [dispatch_entry now rid l m] (w_db w)")
  case (Inl e)
  then show ?thesis by (simp add: appendDispatchLog_def Let_def del: AppendRunLogs.simps)
next
  case (Inr x)
  then obtain out d' where x: "AppendRunLogs [dispatch_entry now rid l m] (w_db w) = Inr (out, d')" by (cases x) auto
  have "db_runs d' = db_runs (w_db w) \<and> db_restores d' = db_restores (w_db w) \<and> db_plans d' = db_plans (w_db w)"
    using AppendRunLogs_core [OF x] AppendRunLogs_plans [OF x] by (simp add: same_core_def)
  then show ?thesis by (simp add: appendDispatchLog_def Let_def x del: AppendRunLogs.simps)
qed

lemma drop_secrets_db [simp]:
  "db_runs (w_db (drop_secrets rid w)) = db_runs (w_db w)" "db_plans (w_db (drop_secrets rid w)) = db_plans (w_db w)"
  "db_restores (w_db (drop_secrets rid w)) = db_restores (w_db w)"
  by (simp_all add: drop_secrets_def DeleteRunSecrets_def)

lemma notify_db [simp]: "w_db (notify rid w) = w_db w"
  by (simp add: notify_def)

lemma sendCancel_db [simp]: "w_db (sendCancel pick rid agent w) = w_db w"
  by (simp add: sendCancel_def split: send_result.split)

lemma TransitionRun_touches:
  "TransitionRun rid src dst m d = Inr d' \<Longrightarrow> field_mutator m \<Longrightarrow> touches_only rid d d'"
  using TransitionRun_reads [of rid src dst m d d'] TransitionRun_frame [of rid src dst m d d']
  by (auto simp: touches_only_def)

lemma FinishRestoreRun_touches:
  assumes "FinishRestoreRun inp d = Inr d'"
  shows "touches_only (fin_run_id inp) d d'"
proof -
  have "find_run d' i = find_run d i" if "i \<noteq> fin_run_id inp" for i
    using assms
  proof (cases rule: FinishRestoreRun_cases)
    case (1 r)
    then show ?thesis by (simp add: find_run_def)
  next
    case (2 r P)
    then show ?thesis using that
      by (auto simp: find_run_def finish_columns_def intro!: tbl_get_update_frame)
  qed
  then show ?thesis using FinishRestoreRun_frame [OF assms] by (auto simp: touches_only_def)
qed

lemma RequestRestoreStop_touches: "touches_only rid d (RequestRestoreStop rid t d)"
  by (auto simp: touches_only_def RequestRestoreStop_def Let_def find_run_def intro!: tbl_get_update_frame)

lemma watchdog_mutators [simp]:
  "field_mutator requeued_run" "field_mutator (lease_failed now)" "field_mutator (timed_out now msg)"
  "field_mutator (claim_run lease)" "field_mutator (build_failed now msg)" "field_mutator clear_lease"
  "field_mutator (cancelled_run now)"
  by (simp_all add: field_mutator_def requeued_run_def lease_failed_def timed_out_def claim_run_def build_failed_def
      clear_lease_def cancelled_run_def)

lemma finish_of_run [simp]: "fin_run_id (finish_of rid fs st c m p now) = rid"
  by (simp add: finish_of_def)

lemma markManual_touches: "touches_only (run_id r) (w_db w) (w_db (markRestoreManualRecovery now r w))"
proof (cases "FinishRestoreRun (finish_of (run_id r) [] RunFailed CodeTimeout
         ''restore did not report a trusted result; manual recovery required'' RestorePhaseManualRecoveryNeeded now) (w_db w)")
  case (Inr d')
  have "touches_only (run_id r) (w_db w) d'" using FinishRestoreRun_touches [OF Inr] by simp
  moreover have "touches_only (run_id r) d' (w_db (drop_secrets (run_id r) (w\<lparr>w_db := d'\<rparr>)))"
    by (rule touches_only_runs) simp_all
  ultimately show ?thesis using Inr by (auto simp: markRestoreManualRecovery_def intro: touches_only_trans)
qed (simp add: markRestoreManualRecovery_def)

lemma restoreTimeout_touches: "touches_only (run_id r) (w_db w) (w_db (handleRestoreTimeout pick now r w))"
proof -
  have stop: "touches_only (run_id r) (w_db w) (w_db (appendDispatchLog now (run_id r) l m
      ((sendCancel pick (run_id r) a w)\<lparr>w_db := RequestRestoreStop (run_id r) t (w_db w)\<rparr>)))" for l m a t
    using append_log_db [of now "run_id r" l m "(sendCancel pick (run_id r) a w)\<lparr>w_db := RequestRestoreStop (run_id r) t (w_db w)\<rparr>"]
    by (intro touches_only_trans [OF RequestRestoreStop_touches touches_only_runs]) auto
  show ?thesis
    by (simp add: handleRestoreTimeout_def markManual_touches stop Let_def split: option.split sum.split)
qed

lemma fail_overdue_touches: "touches_only (run_id r) (w_db w) (w_db (fail_overdue pick now r msg w))"
proof (cases "TransitionRun (run_id r) (run_status r) RunFailed (timed_out now msg) (w_db w)")
  case (Inr d')
  have "touches_only (run_id r) d' (w_db (drop_secrets (run_id r) (notify (run_id r) ((sendCancel pick (run_id r) (run_agent_id r) w)\<lparr>w_db := d'\<rparr>))))"
    by (rule touches_only_runs) simp_all
  then show ?thesis using Inr TransitionRun_touches [OF Inr] by (auto simp: fail_overdue_def Let_def intro: touches_only_trans)
qed (simp add: fail_overdue_def)

lemma check_one_touches: "touches_only (run_id r) (w_db w) (w_db (check_one pick now r w))"
proof -
  have "touches_only (run_id r) (w_db w) (w_db (requeue_expired r w))"
    using TransitionRun_touches by (auto simp: requeue_expired_def split: sum.split)
  moreover have "touches_only (run_id r) (w_db w) (w_db (fail_expired now r w))"
  proof (cases "TransitionRun (run_id r) (run_status r) RunFailed (lease_failed now) (w_db w)")
    case (Inr d')
    have "touches_only (run_id r) d' (w_db (drop_secrets (run_id r) (w\<lparr>w_db := d'\<rparr>)))"
      by (rule touches_only_runs) simp_all
    then show ?thesis using Inr TransitionRun_touches [OF Inr] by (auto simp: fail_expired_def intro: touches_only_trans)
  qed (simp add: fail_expired_def)
  ultimately show ?thesis
    by (simp add: check_one_def restoreTimeout_touches fail_overdue_touches)
qed

section \<open>Lemmas: who is overdue\<close>

definition in_time :: "db \<Rightarrow> instant \<Rightarrow> run \<Rightarrow> bool" where
  "in_time d now r \<longleftrightarrow>
     (if run_operation r = OpRestore then (case run_lease_expires_at r of None \<Rightarrow> True | Some t \<Rightarrow> now < t)
      else (case run_lease_expires_at r of None \<Rightarrow> True | Some t \<Rightarrow> now \<le> t) \<and> elapsed now r \<le> timeout_of d r)"

lemma timeout_of_plans: "db_plans d' = db_plans d \<Longrightarrow> timeout_of d' r = timeout_of d r"
  by (simp add: timeout_of_def GetPlan_def find_plan_def)

lemma check_one_in_time: "in_time (w_db w) now r \<Longrightarrow> check_one pick now r w = w"
  by (auto simp: in_time_def check_one_def handleRestoreTimeout_def split: option.splits if_splits)

lemma fold_check_keeps:
  assumes "find_run (w_db w) (run_id r) = Some r" and "in_time (w_db w) now r"
    and "\<And>x. x \<in> set rs \<Longrightarrow> run_id x = run_id r \<Longrightarrow> x = r"
  shows "find_run (w_db (fold (check_one pick now) rs w)) (run_id r) = Some r"
  using assms
proof (induction rs arbitrary: w)
  case (Cons x rs)
  show ?case
  proof (cases "x = r")
    case True
    with Cons check_one_in_time [OF Cons.prems(2)] show ?thesis by simp
  next
    case False
    then have ne: "run_id r \<noteq> run_id x" using Cons.prems(3) [of x] by auto
    have t: "touches_only (run_id x) (w_db w) (w_db (check_one pick now x w))" by (rule check_one_touches)
    have "find_run (w_db (check_one pick now x w)) (run_id r) = Some r"
      using t ne Cons.prems(1) by (simp add: touches_only_def)
    moreover have "in_time (w_db (check_one pick now x w)) now r"
      using t Cons.prems(2) timeout_of_plans [of "w_db (check_one pick now x w)" "w_db w" r]
      by (simp add: touches_only_def in_time_def)
    ultimately show ?thesis using Cons by simp
  qed
qed simp

section \<open>Properties\<close>

text \<open>C7: The dispatcher never loses a run it has accepted: in every state it can reach, whatever the other
  parts of the server do to the database and to the connections, a run that counts as enqueued is in
  the queue of a repository or with the worker of that repository, which still has it to process.\<close>

theorem enqueued_run_always_has_a_job:
  assumes "disp_reachable build w" and "rid \<in> w_enqueued w"
  shows "\<exists>k j. (j \<in> set (queued_jobs w k) \<or> holds (w_worker w k) = Some j) \<and> job_run j = rid \<and> job_repository j = k"
proof -
  have inv: "queue_inv w" by (rule disp_reachable_inv [OF assms(1)])
  then have "live w rid" using assms(2) by (simp add: queue_inv_def)
  then obtain k j where "j \<in> jobs_at w k" "job_run j = rid" unfolding live_def by blast
  moreover from this have "job_repository j = k" using inv by (simp add: queue_inv_def)
  ultimately show ?thesis by (auto simp: jobs_at_def)
qed

theorem enqueued_run_always_has_a_job_witness:
  "\<exists>k j. (j \<in> set (queued_jobs (Enqueue ''r1'' ''a1'' ''p1'' (start_world empty_db) :: nat world) k) \<or>
       holds (w_worker (Enqueue ''r1'' ''a1'' ''p1'' (start_world empty_db) :: nat world) k) = Some j) \<and> job_run j = ''r1'' \<and> job_repository j = k"
proof (rule enqueued_run_always_has_a_job)
  show "disp_reachable (\<lambda>_ _. Inl []) (Enqueue ''r1'' ''a1'' ''p1'' (start_world empty_db) :: nat world)"
    by (rule disp_reachable.step [OF disp_reachable.start disp_step.enqueue])
  show "''r1'' \<in> w_enqueued (Enqueue ''r1'' ''a1'' ''p1'' (start_world empty_db) :: nat world)"
    by (simp add: Enqueue_def start_world_def)
qed

text \<open>C8: After the watchdog has repaired the queues, every run that the database has as queued is being
  processed or has a job in the queue of its repository, and the database is unchanged: no queued
  run is left behind, whatever was in memory before.\<close>

theorem recovery_leaves_no_queued_run_behind:
  assumes "r \<in> set (db_runs (w_db w))" and "run_status r = RunQueued"
  shows "(run_id r \<in> w_processing (recoverQueuedRuns w) \<or>
     (\<exists>j\<in>set (queued_jobs (recoverQueuedRuns w) (run_repository_id r)). job_run j = run_id r)) \<and>
     w_db (recoverQueuedRuns w) = w_db w"
proof -
  have "r \<in> set (ListRunsByStatus (w_db w) [RunQueued])" using assms by (simp add: ListRunsByStatus_def)
  from fold_recover [OF disjI1 [OF this], of w] show ?thesis
    using recover_db [of w] by (simp add: represented_def recoverQueuedRuns_def)
qed

theorem recovery_leaves_no_queued_run_behind_witness:
  "\<exists>j. j \<in> set (queued_jobs (recoverQueuedRuns (start_world (empty_db\<lparr>db_runs := [sample_run ''r1'' OpBackup RunQueued]\<rparr>)) :: nat world) ''p1'') \<and>
     job_run j = ''r1''"
proof -
  let ?w = "start_world (empty_db\<lparr>db_runs := [sample_run ''r1'' OpBackup RunQueued]\<rparr>) :: nat world"
  have "sample_run ''r1'' OpBackup RunQueued \<in> set (db_runs (w_db ?w))" "run_status (sample_run ''r1'' OpBackup RunQueued) = RunQueued"
    by (simp_all add: start_world_def)
  note r = recovery_leaves_no_queued_run_behind [OF this]
  have "w_processing (fold recover_one rs w) = w_processing w" for rs and w :: "nat world"
    by (induction rs arbitrary: w) auto
  then have "w_processing (recoverQueuedRuns ?w) = {}" by (simp add: recoverQueuedRuns_def start_world_def)
  with r show ?thesis by auto
qed

text \<open>A job that a worker has taken off its queue but not yet marked is invisible to the recovery: a
  tick of the watchdog in between puts a second job for the same run into the queue while the
  worker still has the first.  The claim in the database then keeps the second from being sent: once
  one of them has claimed the run, the claim of the other is refused.\<close>

theorem recovery_duplicates_a_popped_job:
  assumes "w_worker w k = WPopped j" and "r \<in> set (db_runs (w_db w))" and "run_status r = RunQueued"
    and "run_id r = job_run j" and "run_repository_id r = k" and "job_run j \<notin> w_processing w"
  shows "holds (w_worker (recoverQueuedRuns w) k) = Some j \<and>
    (\<exists>j'\<in>set (queued_jobs (recoverQueuedRuns w) k). job_run j' = job_run j) \<and>
    (\<forall>lease lease' d'. TransitionRun (job_run j) RunQueued RunDispatched (claim_run lease) (w_db w) = Inr d' \<longrightarrow>
       TransitionRun (job_run j) RunQueued RunDispatched (claim_run lease') d' = Inl ErrInvalidTransition)"
proof -
  have same: "w_worker (fold recover_one rs w) = w_worker w" "w_processing (fold recover_one rs w) = w_processing w" for rs
    by (induction rs arbitrary: w) auto
  have "r \<in> set (ListRunsByStatus (w_db w) [RunQueued])" using assms by (simp add: ListRunsByStatus_def)
  from fold_recover [OF disjI1 [OF this], of w] have "represented r (recoverQueuedRuns w)" by (simp add: recoverQueuedRuns_def)
  then have "\<exists>j'\<in>set (queued_jobs (recoverQueuedRuns w) k). job_run j' = job_run j"
    using assms same by (simp add: represented_def recoverQueuedRuns_def)
  moreover have "TransitionRun (job_run j) RunQueued RunDispatched (claim_run lease') d' = Inl ErrInvalidTransition"
    if "TransitionRun (job_run j) RunQueued RunDispatched (claim_run lease) (w_db w) = Inr d'" for lease lease' d'
    using runs.second_is_refused [of "Moves (job_run j) RunQueued RunDispatched (claim_run lease)" "w_db w" d' "job_run j" RunQueued RunDispatched
        "Moves (job_run j) RunQueued RunDispatched (claim_run lease')" RunDispatched] that by simp
  ultimately show ?thesis using assms(1) same by (simp add: recoverQueuedRuns_def)
qed

lemma first_enqueue:
  "w_queues (Enqueue rid a k (start_world d)) k = Some [\<lparr>job_run = rid, job_agent = a, job_repository = k\<rparr>]"
  "w_worker (Enqueue rid a k (start_world d)) k = WIdle"
  by (simp_all add: Enqueue_def push_job_def start_world_def)

theorem recovery_duplicates_a_popped_job_witness:
  "\<exists>w :: nat world. w_worker w ''p1'' = WPopped \<lparr>job_run = ''r1'', job_agent = ''a1'', job_repository = ''p1''\<rparr> \<and>
     disp_reachable (\<lambda>_ _. Inl []) w \<and>
     (\<exists>j'. j' \<in> set (queued_jobs (recoverQueuedRuns w) ''p1'') \<and> job_run j' = ''r1'')"
proof -
  let ?d = "empty_db\<lparr>db_runs := [sample_run ''r1'' OpBackup RunQueued]\<rparr>"
  let ?j = "\<lparr>job_run = ''r1'', job_agent = ''a1'', job_repository = ''p1''\<rparr>"
  let ?v = "Enqueue ''r1'' ''a1'' ''p1'' (start_world ?d) :: nat world"
  let ?w = "set_worker ''p1'' (WPopped ?j) (?v\<lparr>w_queues := (w_queues ?v)(''p1'' \<mapsto> [])\<rparr>)"
  have reach: "disp_reachable (\<lambda>_ _. Inl []) ?w"
  proof (rule disp_reachable.step [OF disp_reachable.step [OF disp_reachable.start disp_step.enqueue] disp_step.pop])
    show "w_queues ?v ''p1'' = Some [?j]" "w_worker ?v ''p1'' = WIdle" by (rule first_enqueue)+
  qed
  have w: "w_worker ?w ''p1'' = WPopped ?j" by simp
  have "sample_run ''r1'' OpBackup RunQueued \<in> set (db_runs (w_db ?w))" "job_run ?j \<notin> w_processing ?w"
    by (simp_all add: start_world_def Enqueue_def push_job_def set_worker_def)
  from recovery_duplicates_a_popped_job [OF w this(1) _ _ _ this(2)]
  have "\<exists>j'. j' \<in> set (queued_jobs (recoverQueuedRuns ?w) ''p1'') \<and> job_run j' = ''r1''" by auto
  with reach w show ?thesis by blast
qed

text \<open>A tick of the watchdog leaves alone every dispatched or running run that is in time: a restore
  whose lease is open or absent, and any other run whose lease has not passed and whose time since
  queueing (dispatched) or starting (running) is within its timeout.\<close>

theorem watchdog_spares_runs_in_time:
  assumes ok: "runs_ok (db_runs (w_db w))" and r: "find_run (w_db w) rid = Some r" and t: "in_time (w_db w) now r"
  shows "find_run (w_db (checkTimeouts pick now w)) rid = Some r"
proof -
  have rid: "run_id r = rid" "r \<in> set (db_runs (w_db w))" using find_run_in [OF r] by auto
  let ?w = "recoverQueuedRuns w"
  have "find_run (w_db (fold (check_one pick now) (ListRunsByStatus (w_db ?w) [RunDispatched, RunRunning]) ?w)) (run_id r) = Some r"
  proof (rule fold_check_keeps)
    show "find_run (w_db ?w) (run_id r) = Some r" "in_time (w_db ?w) now r" using r t rid by (simp_all add: recover_db)
    show "x = r" if "x \<in> set (ListRunsByStatus (w_db ?w) [RunDispatched, RunRunning])" "run_id x = run_id r" for x
      using that rid runs_ok_id_unique [OF ok] by (auto simp: recover_db ListRunsByStatus_def)
  qed
  then show ?thesis using rid by (simp add: checkTimeouts_def Let_def)
qed

theorem watchdog_spares_runs_in_time_witness:
  "find_run (w_db (checkTimeouts True (seconds 20) (start_world (empty_db\<lparr>db_runs := [sample_run ''r1'' OpCheck RunDispatched]\<rparr>) :: nat world))) ''r1'' =
     Some (sample_run ''r1'' OpCheck RunDispatched)"
proof (rule watchdog_spares_runs_in_time)
  let ?w = "start_world (empty_db\<lparr>db_runs := [sample_run ''r1'' OpCheck RunDispatched]\<rparr>) :: nat world"
  show "runs_ok (db_runs (w_db ?w))" by (simp add: start_world_def runs_ok_def holds_slot_def holds_key_def)
  show "find_run (w_db ?w) ''r1'' = Some (sample_run ''r1'' OpCheck RunDispatched)" by (simp add: start_world_def find_run_def)
  show "in_time (w_db ?w) (seconds 20) (sample_run ''r1'' OpCheck RunDispatched)"
    by (simp add: in_time_def sample_run_def elapsed_def timeout_of_def seconds_def nano_def)
qed

end
