(* ===== verification/Version.thy ===== *)
theory Version
  imports Go_Strings "HOL-Library.Product_Lexorder"
begin

text \<open>
  Build versions (\<open>internal/version\<close>): the leading major.minor.patch of a version text and the
  comparison the server uses before it trusts an agent with a database restore.
\<close>

definition int64_range :: "int \<Rightarrow> bool" where
  "int64_range n \<longleftrightarrow> - (2 ^ 63) \<le> n \<and> n < 2 ^ 63"

definition atoi_value :: "string \<Rightarrow> int" where
  "atoi_value s = foldl (\<lambda>v c. 10 * v + (of_char c - 48)) 0 s"

text \<open>\<open>strconv.Atoi\<close>: an optional sign and decimal digits, within the range of \<open>int\<close>.\<close>

definition Atoi :: "string \<Rightarrow> int option" where
  "Atoi s =
     (let neg = (s \<noteq> [] \<and> hd s = CHR ''-'');
          ds = (if s \<noteq> [] \<and> (hd s = CHR ''-'' \<or> hd s = CHR ''+'') then tl s else s);
          v = (if neg then - atoi_value ds else atoi_value ds)
      in if ds = [] \<or> \<not> list_all is_digit ds \<or> \<not> int64_range v then None else Some v)"

fun cut :: "string \<Rightarrow> (string \<times> string) option" where
  "cut [] = None"
| "cut (c # s) = (if c = CHR ''.'' then Some ([], s) else map_option (\<lambda>p. (c # fst p, snd p)) (cut s))"

definition leadingInt :: "string \<Rightarrow> int option" where
  "leadingInt s = (let ds = takeWhile is_digit s in if ds = [] then None else Atoi ds)"

definition PartsFromString :: "string \<Rightarrow> (int \<times> int \<times> int) option" where
  "PartsFromString ver =
     (case cut ver of
        None \<Rightarrow> None
      | Some (major, rest) \<Rightarrow>
          (case cut rest of
             None \<Rightarrow> None
           | Some (minor, rest') \<Rightarrow>
               (case (Atoi major, Atoi minor, leadingInt rest') of
                  (Some m, Some n, Some p) \<Rightarrow> Some (m, n, p)
                | _ \<Rightarrow> None)))"

definition AtLeast :: "string \<Rightarrow> string \<Rightarrow> bool" where
  "AtLeast ver want =
     (case PartsFromString ver of
        None \<Rightarrow> False
      | Some (vm, vn, vp) \<Rightarrow>
          (case PartsFromString want of
             None \<Rightarrow> False
           | Some (wm, wn, wp) \<Rightarrow>
               if vm \<noteq> wm then wm < vm
               else if vn \<noteq> wn then wn < vn
               else wp \<le> vp))"

section \<open>Lemmas\<close>

lemma cut_Some_iff: "cut s = Some (a, b) \<longleftrightarrow> s = a @ CHR ''.'' # b \<and> CHR ''.'' \<notin> set a"
proof (induction s arbitrary: a)
  case (Cons c s)
  show ?case
  proof (cases a)
    case Nil
    then show ?thesis by auto
  next
    case (Cons c' a')
    then show ?thesis using Cons.IH [of a'] by (auto simp: map_option_case split: option.splits)
  qed
qed simp

lemma cut_append [simp]: "CHR ''.'' \<notin> set a \<Longrightarrow> cut (a @ CHR ''.'' # b) = Some (a, b)"
  by (simp add: cut_Some_iff)

lemma leadingInt_append:
  assumes "ds \<noteq> []" "list_all is_digit ds" "t = [] \<or> \<not> is_digit (hd t)"
  shows "leadingInt (ds @ t) = Atoi ds"
proof -
  have "takeWhile is_digit t = []" using assms(3) by (cases t) auto
  then have "takeWhile is_digit (ds @ t) = ds" using assms(2) by (simp add: takeWhile_append2 list_all_iff)
  then show ?thesis using assms(1) by (simp add: leadingInt_def)
qed

lemma lexicographic_triple:
  fixes a b c :: int
  shows "(a, b, c) \<le> (a', b', c') \<longleftrightarrow> (if a' \<noteq> a then a < a' else if b' \<noteq> b then b < b' else c \<le> c')"
  by (auto simp: less_eq_prod_def)

section \<open>Properties\<close>

text \<open>Comparing versions is the lexicographic order of the parsed numbers, and fails when either
  text does not parse; on texts that parse it is a total preorder.  What follows the digits of the
  patch number (a build suffix) plays no part.\<close>

theorem version_order_is_lexicographic:
  assumes suffix: "CHR ''.'' \<notin> set ma" "CHR ''.'' \<notin> set mi" "ds \<noteq> []" "list_all is_digit ds" "t = [] \<or> \<not> is_digit (hd t)"
  shows "(AtLeast v w \<longleftrightarrow> (\<exists>p q. PartsFromString v = Some p \<and> PartsFromString w = Some q \<and> q \<le> p)) \<and>
    (AtLeast u v \<and> AtLeast v w \<longrightarrow> AtLeast u w) \<and>
    (PartsFromString v \<noteq> None \<and> PartsFromString w \<noteq> None \<longrightarrow> AtLeast v w \<or> AtLeast w v) \<and>
    PartsFromString (ma @ ''.'' @ mi @ ''.'' @ ds @ t) = PartsFromString (ma @ ''.'' @ mi @ ''.'' @ ds)"
proof -
  have lex: "AtLeast v w \<longleftrightarrow> (\<exists>p q. PartsFromString v = Some p \<and> PartsFromString w = Some q \<and> q \<le> p)" for v w
    by (auto simp: AtLeast_def lexicographic_triple split: option.splits)
  have "AtLeast u v \<Longrightarrow> AtLeast v w \<Longrightarrow> AtLeast u w" unfolding lex by fastforce
  moreover have "PartsFromString v \<noteq> None \<Longrightarrow> PartsFromString w \<noteq> None \<Longrightarrow> AtLeast v w \<or> AtLeast w v"
    unfolding lex by auto
  moreover have "leadingInt (ds @ t) = leadingInt ds"
    using suffix leadingInt_append [of ds t] leadingInt_append [of ds "[]"] by simp
  then have "PartsFromString (ma @ ''.'' @ mi @ ''.'' @ ds @ t) = PartsFromString (ma @ ''.'' @ mi @ ''.'' @ ds)"
    using suffix(1,2) by (simp add: PartsFromString_def cong: option.case_cong)
  ultimately show ?thesis using lex [of v w] by simp
qed

theorem version_order_is_lexicographic_witness:
  "AtLeast ''0.1.1+d4ae775'' ''0.1.1'' \<and> \<not> AtLeast ''0.0.0-dev'' ''0.1.1'' \<and>
   PartsFromString (''0'' @ ''.'' @ ''1'' @ ''.'' @ ''1'' @ ''+d4ae775'') = Some (0, 1, 1)"
proof -
  have parts: "PartsFromString ''0.1.1+d4ae775'' = Some (0, 1, 1)" "PartsFromString ''0.1.1'' = Some (0, 1, 1)"
    "PartsFromString ''0.0.0-dev'' = Some (0, 0, 0)"
    by (simp_all add: PartsFromString_def leadingInt_def Atoi_def is_digit_def atoi_value_def int64_range_def Let_def)
  have nodot: "CHR ''.'' \<notin> set ''0''" "CHR ''.'' \<notin> set ''1''" "''1'' \<noteq> []" "list_all is_digit ''1''"
    "''+d4ae775'' = [] \<or> \<not> is_digit (hd ''+d4ae775'')" by (simp_all add: is_digit_def)
  have lex: "AtLeast v w \<longleftrightarrow> (\<exists>p q. PartsFromString v = Some p \<and> PartsFromString w = Some q \<and> q \<le> p)" for v w
    by (rule version_order_is_lexicographic [OF nodot, THEN conjunct1])
  have "PartsFromString (''0'' @ ''.'' @ ''1'' @ ''.'' @ ''1'' @ ''+d4ae775'') = PartsFromString (''0'' @ ''.'' @ ''1'' @ ''.'' @ ''1'')"
    by (rule version_order_is_lexicographic [OF nodot, THEN conjunct2, THEN conjunct2, THEN conjunct2])
  then show ?thesis using parts by (simp add: lex lexicographic_triple)
qed

end
