(* ===== verification/Tasks.thy ===== *)
theory Tasks
  imports Store_State
begin

text \<open>
  The task payloads of \<open>internal/model/tasks.go\<close> as \<open>json.Marshal\<close> writes them.  The cache
  directory of \<open>RepoAccess\<close> is never set by the server and is omitted when empty.  A slice that is
  empty stands for the empty list; Go would write \<open>null\<close> for one that was never made.
\<close>

definition strings_json :: "string list \<Rightarrow> json" where
  "strings_json xs = JList (map JStr xs)"

definition omit_list :: "string \<Rightarrow> string list \<Rightarrow> (string \<times> json) list" where
  "omit_list k xs = (if xs = [] then [] else [(k, strings_json xs)])"

definition omit_int :: "string \<Rightarrow> int \<Rightarrow> (string \<times> json) list" where
  "omit_int k n = (if n = 0 then [] else [(k, JNum n)])"

definition omit_bool :: "string \<Rightarrow> bool \<Rightarrow> (string \<times> json) list" where
  "omit_bool k b = (if b then [(k, JBool True)] else [])"

definition RepoAccess :: "string \<Rightarrow> json" where
  "RepoAccess p = JObj [(''repository_path'', JStr p)]"

definition source_json :: "plan_source \<Rightarrow> json" where
  "source_json s =
     JObj (omit_list ''paths'' (src_paths s) @ omit_list ''excludes'' (src_excludes s) @
           omit_bool ''one_file_system'' (src_one_file_system s) @ omitempty ''host'' (src_host s) @
           omit_int ''port'' (src_port s) @ omitempty ''username'' (src_username s) @
           omitempty ''database'' (src_database s) @ omitempty ''auth_source'' (src_auth_source s) @
           omit_list ''extra_args'' (src_extra_args s) @
           omit_int ''estimated_dump_bytes'' (src_estimated_dump_bytes s) @
           omit_bool ''capture_oplog'' (src_capture_oplog s) @ omitempty ''path'' (src_path s))"

definition retention_json :: "retention \<Rightarrow> json" where
  "retention_json r =
     JObj (omit_int ''keep_last'' (keep_last r) @ omit_int ''keep_daily'' (keep_daily r) @
           omit_int ''keep_weekly'' (keep_weekly r) @ omit_int ''keep_monthly'' (keep_monthly r))"

definition BackupTask :: "string \<Rightarrow> kind \<Rightarrow> string \<Rightarrow> plan_source \<Rightarrow> string list \<Rightarrow> int \<Rightarrow> json" where
  "BackupTask planID k repoPath src tags timeout =
     JObj ([(''plan_id'', JStr planID), (''kind'', JStr (kind_text k)), (''repository'', RepoAccess repoPath),
            (''source'', source_json src), (''tags'', strings_json tags)] @ omit_int ''timeout_seconds'' timeout)"

definition CheckTask :: "string \<Rightarrow> json" where
  "CheckTask repoPath = JObj [(''repository'', RepoAccess repoPath)]"

definition SnapshotsTask :: "string \<Rightarrow> json" where
  "SnapshotsTask repoPath = JObj [(''repository'', RepoAccess repoPath)]"

definition SnapshotLsTask :: "string \<Rightarrow> string \<Rightarrow> string \<Rightarrow> json" where
  "SnapshotLsTask repoPath snap p =
     JObj ([(''repository'', RepoAccess repoPath), (''snapshot_id'', JStr snap)] @ omitempty ''path'' p)"

definition InitTask :: "string \<Rightarrow> bool \<Rightarrow> json" where
  "InitTask repoPath init = JObj [(''repository'', RepoAccess repoPath), (''restic_init'', JBool init)]"

definition no_retention :: retention where
  "no_retention = \<lparr>keep_last = 0, keep_daily = 0, keep_weekly = 0, keep_monthly = 0\<rparr>"

definition ForgetTask ::
    "string \<Rightarrow> string \<Rightarrow> string \<Rightarrow> retention \<Rightarrow> string list \<Rightarrow> bool \<Rightarrow> bool \<Rightarrow> string list \<Rightarrow> json" where
  "ForgetTask planID k repoPath r tags prune deleteAll snapshotIDs =
     JObj ([(''plan_id'', JStr planID), (''kind'', JStr k), (''repository'', RepoAccess repoPath),
            (''retention'', retention_json r)] @
           omit_list ''tags'' tags @ omit_bool ''prune'' prune @ omit_bool ''delete_all'' deleteAll @
           omit_list ''snapshot_ids'' snapshotIDs)"

definition VerifyRemoteTask :: "bool \<Rightarrow> string \<Rightarrow> json" where
  "VerifyRemoteTask given remote = JObj [(''config_provided'', JBool given), (''remote_name'', JStr remote)]"

definition ValidatePathsTask :: "string list \<Rightarrow> string list \<Rightarrow> json" where
  "ValidatePathsTask paths excludes = JObj ((''paths'', strings_json paths) # omit_list ''excludes'' excludes)"

definition FilesystemRestore :: "string \<Rightarrow> string list \<Rightarrow> string \<Rightarrow> string \<Rightarrow> bool \<Rightarrow> json" where
  "FilesystemRestore snap includes target mode dry =
     JObj ([(''snapshot_id'', JStr snap)] @ omit_list ''include_paths'' includes @
           [(''target_path'', JStr target), (''overwrite_mode'', JStr mode), (''dry_run'', JBool dry)])"

definition DatabaseRestore :: "string \<Rightarrow> kind \<Rightarrow> restore_target \<Rightarrow> bool \<Rightarrow> json" where
  "DatabaseRestore snap k t overwrite =
     JObj ([(''snapshot_id'', JStr snap), (''kind'', JStr (kind_text k)), (''target_host'', JStr (rt_host t))] @
           omit_int ''target_port'' (rt_port t) @ omitempty ''target_username'' (rt_username t) @
           [(''target_database'', JStr (rt_database t))] @
           omitempty ''target_auth_source'' (rt_auth_source t) @
           [(''replace_existing'', JBool overwrite)])"

definition RestoreTask :: "kind \<Rightarrow> string \<Rightarrow> json option \<Rightarrow> json option \<Rightarrow> string \<Rightarrow> json" where
  "RestoreTask k repoPath fs db rid =
     JObj ([(''kind'', JStr (kind_text k)), (''repository'', RepoAccess repoPath)] @
           (case fs of None \<Rightarrow> [] | Some f \<Rightarrow> [(''filesystem'', f)]) @
           (case db of None \<Rightarrow> [] | Some x \<Rightarrow> [(''database'', x)]) @
           omitempty ''run_id'' rid)"

text \<open>Reading the path of the repository back from a task, as the agent does.\<close>

definition task_repository_path :: "json \<Rightarrow> string" where
  "task_repository_path t =
     (case t of
        JObj ms \<Rightarrow> (case obj_get ''repository'' ms of
            Some (JObj rs) \<Rightarrow> or_zero [] (field_string ''repository_path'' rs) | _ \<Rightarrow> [])
      | _ \<Rightarrow> [])"

lemmas task_defs = BackupTask_def CheckTask_def SnapshotsTask_def SnapshotLsTask_def InitTask_def ForgetTask_def
  VerifyRemoteTask_def ValidatePathsTask_def FilesystemRestore_def DatabaseRestore_def RestoreTask_def
  RepoAccess_def source_json_def retention_json_def strings_json_def omit_list_def omit_int_def omit_bool_def
  omitempty_def

lemma marshalled_strings [simp]: "list_all marshalled (map JStr xs)"
  by (induction xs) auto

lemma tasks_marshalled [simp]:
  "marshalled (SnapshotsTask p)" "marshalled (CheckTask p)" "marshalled (SnapshotLsTask p s q)"
  "marshalled (InitTask p b)" "marshalled (ForgetTask i k p r ts b c ss)"
  "marshalled (VerifyRemoteTask b p)" "marshalled (ValidatePathsTask ps es)"
  by (simp_all add: task_defs)

end
