(* ===== verification/Jobs_Runs.thy ===== *)
theory Jobs_Runs
  imports Dispatcher Version Tasks
begin

text \<open>
  The orchestrator (\<open>jobs/orchestrator.go\<close>), first part: creating runs, joining equal runs,
  cancelling, waiting for the end of a run and building the command of a run.

  The sealer is an interface of the program; its three functions are an argument.  New identities
  (\<open>model.NewUUIDv7\<close>) and the clock are arguments too.  The concrete store implements every optional
  interface the orchestrator asks for, so the in-memory stash of rclone configurations stays empty.
\<close>

section \<open>Errors\<close>

datatype jobs_err =
    JStore store_err
  | ErrForbidden
  | JobsNotFound
  | ErrWaitTimeout
  | ContextDone
  | ErrAgentRevoked
  | ErrAgentOffline
  | MissingToolsError "string list"
  | ErrPathInvalid
  | ErrRepoPassword
  | ErrRepoLocked
  | ErrStorageRemote
  | ErrStorageRemoteNotFound
  | ErrStorageTargetName
  | ErrRestoreBusy
  | JobsCapabilitiesPending
  | JobsUnsafeDatabaseRestore
  | ErrSnapshotRefreshRequired
  | ErrSnapshotKindMismatch
  | ErrUnsupportedManifest
  | ErrSnapshotRestoreProtected
  | ErrRepositoryNotReady
  | ErrRepositoryUnavailable
  | JobsRestoreConflict
  | JInvalidPlan
  | JText string

definition lift_store :: "store_err + 'a \<Rightarrow> jobs_err + 'a" where
  "lift_store r = (case r of Inl e \<Rightarrow> Inl (JStore e) | Inr x \<Rightarrow> Inr x)"

definition require :: "bool \<Rightarrow> jobs_err \<Rightarrow> jobs_err + unit" where
  "require b e = (if b then Inr () else Inl e)"

record sealing =
  sl_seal :: sealer
  sl_open :: sealer
  sl_fingerprint :: "string \<Rightarrow> string \<Rightarrow> string"

section \<open>Tools\<close>

definition requiredTools :: "kind \<Rightarrow> string list" where
  "requiredTools k =
     (case k of
        KindFilesystem \<Rightarrow> [''restic'']
      | KindPostgreSQL \<Rightarrow> [''restic'', ''pg_dump'', ''psql'']
      | KindMySQL \<Rightarrow> [''restic'', ''mysqldump'', ''mysql'']
      | KindMongoDB \<Rightarrow> [''restic'', ''mongodump'', ''mongorestore'']
      | KindSQLite \<Rightarrow> [''restic'']
      | KindOther _ \<Rightarrow> [])"

definition restoreRequiredTools :: "kind \<Rightarrow> string list" where
  "restoreRequiredTools k =
     [''restic'', ''rclone''] @
     (case k of
        KindPostgreSQL \<Rightarrow> [''pg_dump'', ''pg_restore'', ''psql'']
      | KindMySQL \<Rightarrow> [''mysqldump'', ''mysql'']
      | KindMongoDB \<Rightarrow> [''mongodump'', ''mongorestore'', ''mongosh'']
      | _ \<Rightarrow> [])"

text \<open>Of two reports on one tool the later counts.\<close>

definition have_tool :: "agent \<Rightarrow> string \<Rightarrow> bool" where
  "have_tool a name =
     (case List.find (\<lambda>t. tool_name t = name) (rev (agt_capabilities a)) of
        None \<Rightarrow> False | Some t \<Rightarrow> tool_path t \<noteq> [])"

definition check_tools :: "string list \<Rightarrow> agent \<Rightarrow> jobs_err + unit" where
  "check_tools required a =
     (let missing = filter (\<lambda>n. \<not> have_tool a n) required in
      if missing = [] then Inr () else Inl (MissingToolsError missing))"

definition checkCapabilities :: "agent \<Rightarrow> kind \<Rightarrow> jobs_err + unit" where
  "checkCapabilities a k = check_tools (requiredTools k) a"

definition checkRestoreTools :: "agent \<Rightarrow> kind \<Rightarrow> jobs_err + unit" where
  "checkRestoreTools a k = check_tools (restoreRequiredTools k) a"

section \<open>Deduplication keys\<close>

definition nul :: string where "nul = [CHR 0x00]"

definition manualRunDedupKey :: "string \<Rightarrow> string" where
  "manualRunDedupKey planID = ''plan'' @ nul @ planID"

definition systemRunDedupKey :: "string \<Rightarrow> string \<Rightarrow> operation \<Rightarrow> json \<Rightarrow> string \<Rightarrow> string" where
  "systemRunDedupKey agentID repositoryID oper params confFingerprint =
     ''sys'' @ nul @ op_text oper @ nul @ agentID @ nul @ repositoryID @ nul @ json_text params @
     (if confFingerprint \<noteq> [] then nul @ confFingerprint else [])"

definition restoreRunDedupKey :: "string \<Rightarrow> string \<Rightarrow> string \<Rightarrow> kind \<Rightarrow> json \<Rightarrow> bool \<Rightarrow> string \<Rightarrow> string" where
  "restoreRunDedupKey repoID targetAgentID snapshotID k target overwrite credentialFingerprint =
     ''restore'' @ nul @ repoID @ nul @ targetAgentID @ nul @ snapshotID @ nul @ kind_text k @ nul @
     json_text target @ nul @ (if overwrite then ''1'' else ''0'') @ nul @ credentialFingerprint"

definition joinDuplicateRun :: "db \<Rightarrow> store_err \<Rightarrow> string \<Rightarrow> run option" where
  "joinDuplicateRun d createErr key =
     (if key = [] \<or> createErr \<noteq> ErrDuplicateRun then None
      else case FindActiveRunByDedupKey d key of Inl _ \<Rightarrow> None | Inr r \<Rightarrow> Some r)"

section \<open>Audit\<close>

definition Audit :: "string \<Rightarrow> instant \<Rightarrow> string \<Rightarrow> string \<Rightarrow> string \<Rightarrow> string \<Rightarrow> string \<Rightarrow> (string \<times> string) list \<Rightarrow>
    'c world \<Rightarrow> 'c world" where
  "Audit aid now actorType actorID action resourceType resourceID detail w =
     (case AppendAuditEvent \<lparr>aud_id = aid, aud_occurred_at = now, aud_actor_type = actorType, aud_actor_id = actorID,
             aud_action = action, aud_resource_type = resourceType, aud_resource_id = resourceID,
             aud_detail = JObj (map (apsnd JStr) detail)\<rparr> (w_db w) of
        Inl _ \<Rightarrow> w | Inr d' \<Rightarrow> w\<lparr>w_db := d'\<rparr>)"

section \<open>Creating runs\<close>

definition new_run :: "string \<Rightarrow> string \<Rightarrow> operation \<Rightarrow> string \<Rightarrow> instant \<Rightarrow> json \<Rightarrow> string \<Rightarrow> run" where
  "new_run rid agentID oper repoID now progress key =
     \<lparr>run_id = rid, run_plan_id = [], run_agent_id = agentID, run_operation = oper, run_status = RunQueued,
      run_queued_at = now, run_started_at = None, run_finished_at = None, run_progress = progress,
      run_snapshot_id = [], run_error_code = [], run_error_message = [], run_repository_id = repoID,
      run_attempt = 0, run_lease_expires_at = None, run_scheduled_at = None, run_dedup_key = key\<rparr>"

text \<open>The preconditions of a plan run, in the order of the code.\<close>

definition plan_run_preconditions :: "db \<Rightarrow> string \<Rightarrow> jobs_err + (plan \<times> repository \<times> storage_target)" where
  "plan_run_preconditions d planID =
     and_then (lift_store (GetPlan d planID)) (\<lambda>plan.
     and_then (lift_store (GetAgent d (plan_agent_id plan))) (\<lambda>agent.
     and_then (require (\<not> agt_revoked agent) ErrAgentRevoked) (\<lambda>_.
     and_then (checkCapabilities agent (plan_kind plan)) (\<lambda>_.
     and_then (lift_store (GetRepository d (plan_repository_id plan))) (\<lambda>repo.
     and_then (require (repo_agent_id repo = plan_agent_id plan) JInvalidPlan) (\<lambda>_.
     and_then (require (repo_status repo = RepoReady) ErrRepositoryUnavailable) (\<lambda>_.
     and_then (lift_store (GetStorageTarget d (repo_storage_target_id repo))) (\<lambda>target.
       Inr (plan, repo, target)))))))))"

definition plan_run :: "string \<Rightarrow> instant \<Rightarrow> plan \<Rightarrow> repository \<Rightarrow> instant option \<Rightarrow> run" where
  "plan_run rid now plan repo scheduledAt =
     (new_run rid (plan_agent_id plan) OpBackup (repo_id repo) now json_braces
        (if scheduledAt = None then manualRunDedupKey (plan_id plan) else []))
     \<lparr>run_plan_id := plan_id plan, run_scheduled_at := scheduledAt\<rparr>"

definition lookup_json :: "plan \<Rightarrow> repository \<Rightarrow> storage_target \<Rightarrow> json" where
  "lookup_json plan repo target =
     JObj [(''PlanID'', JStr (plan_id plan)), (''AgentID'', JStr (plan_agent_id plan)),
           (''Kind'', JStr (kind_text (plan_kind plan))), (''RepoID'', JStr (repo_id repo)),
           (''TargetID'', JStr (tgt_id target))]"

definition StartPlanRun ::
    "string \<Rightarrow> string \<Rightarrow> instant \<Rightarrow> string \<Rightarrow> instant option \<Rightarrow> 'c world \<Rightarrow> (jobs_err + run) \<times> 'c world" where
  "StartPlanRun rid aid now planID scheduledAt w =
     (case plan_run_preconditions (w_db w) planID of
        Inl e \<Rightarrow> (Inl e, w)
      | Inr (plan, repo, target) \<Rightarrow>
          let run = plan_run rid now plan repo scheduledAt in
          case CreateRun now run (w_db w) of
            Inl e \<Rightarrow>
              (case joinDuplicateRun (w_db w) e (run_dedup_key run) of
                 Some r \<Rightarrow> (Inr r, w) | None \<Rightarrow> (Inl (JStore e), w))
          | Inr d' \<Rightarrow>
              let w1 = Enqueue rid (run_agent_id run) (run_repository_id run) (w\<lparr>w_db := d'\<rparr>);
                  w2 = Audit aid now ''system'' ''scheduler'' ''run.start'' ''run'' rid
                         [(''agent_id'', plan_agent_id plan), (''kind'', kind_text (plan_kind plan)), (''plan_id'', plan_id plan)] w1
              in (Inr (run\<lparr>run_progress := lookup_json plan repo target\<rparr>), publish rid (StateEvent run) w2))"

definition ManualRun :: "string \<Rightarrow> string \<Rightarrow> instant \<Rightarrow> string \<Rightarrow> 'c world \<Rightarrow> (jobs_err + run) \<times> 'c world" where
  "ManualRun rid aid now planID w = StartPlanRun rid aid now planID None w"

definition secret_failed :: "instant \<Rightarrow> string \<Rightarrow> run \<Rightarrow> run" where
  "secret_failed now msg r =
     r\<lparr>run_finished_at := Some now, run_error_code := ''secret_storage_failed'', run_error_message := msg\<rparr>"

definition try_transition :: "string \<Rightarrow> run_status \<Rightarrow> run_status \<Rightarrow> (run \<Rightarrow> run) \<Rightarrow> 'c world \<Rightarrow> 'c world" where
  "try_transition rid a b f w = (case TransitionRun rid a b f (w_db w) of Inl _ \<Rightarrow> w | Inr d' \<Rightarrow> w\<lparr>w_db := d'\<rparr>)"

definition conf_fingerprint :: "sealing \<Rightarrow> string \<Rightarrow> string" where
  "conf_fingerprint sl conf = (if conf = [] then [] else sl_fingerprint sl ''system_run.rclone_conf'' conf)"

definition system_run_row :: "sealing \<Rightarrow> string \<Rightarrow> instant \<Rightarrow> string \<Rightarrow> string \<Rightarrow> operation \<Rightarrow> json \<Rightarrow> string \<Rightarrow> run" where
  "system_run_row sl rid now agentID repositoryID oper params conf =
     new_run rid agentID oper repositoryID now params
       (systemRunDedupKey agentID repositoryID oper params (conf_fingerprint sl conf))"

definition systemRun ::
    "sealing \<Rightarrow> string \<Rightarrow> instant \<Rightarrow> string \<Rightarrow> string \<Rightarrow> operation \<Rightarrow> json \<Rightarrow> string \<Rightarrow> 'c world \<Rightarrow> (jobs_err + run) \<times> 'c world" where
  "systemRun sl rid now agentID repositoryID oper params conf w =
     (case GetAgent (w_db w) agentID of
        Inl e \<Rightarrow> (Inl (JStore e), w)
      | Inr agent \<Rightarrow>
          if agt_revoked agent then (Inl ErrAgentRevoked, w)
          else
            let run = system_run_row sl rid now agentID repositoryID oper params conf in
            case CreateRun now run (w_db w) of
                 Inl e \<Rightarrow>
                   (case joinDuplicateRun (w_db w) e (run_dedup_key run) of
                      Some r \<Rightarrow> (Inr r, w) | None \<Rightarrow> (Inl (JStore e), w))
               | Inr d1 \<Rightarrow>
                   (case SaveRunRcloneConfig (sl_seal sl) now rid conf d1 of
                      Inl e \<Rightarrow> (Inl (JStore e), try_transition rid RunQueued RunFailed
                          (secret_failed now ''failed to persist temporary remote configuration'') (w\<lparr>w_db := d1\<rparr>))
                    | Inr d2 \<Rightarrow> (Inr run, publish rid (StateEvent run) (Enqueue rid agentID repositoryID (w\<lparr>w_db := d2\<rparr>)))))"

definition SystemRun ::
    "sealing \<Rightarrow> string \<Rightarrow> instant \<Rightarrow> string \<Rightarrow> string \<Rightarrow> operation \<Rightarrow> json \<Rightarrow> 'c world \<Rightarrow> (jobs_err + run) \<times> 'c world" where
  "SystemRun sl rid now agentID repositoryID oper params w = systemRun sl rid now agentID repositoryID oper params [] w"

section \<open>Cancelling a run\<close>

text \<open>A run that waits in the queue is cancelled here; a restore, and a run the agent may have, by the dispatcher.\<close>

definition CancelRun :: "bool \<Rightarrow> instant \<Rightarrow> string \<Rightarrow> 'c world \<Rightarrow> jobs_err option \<times> 'c world" where
  "CancelRun pick now rid w =
     (case GetRun (w_db w) rid of
        Inl e \<Rightarrow> (Some (JStore e), w)
      | Inr run \<Rightarrow>
          (case run_status run of
             RunQueued \<Rightarrow>
               if run_operation run = OpRestore then apfst (map_option JStore) (Cancel pick now rid w)
               else (case TransitionRun rid (run_status run) RunCancelled (cancelled_run now) (w_db w) of
                       Inl e \<Rightarrow> (Some (JStore e), w) | Inr d' \<Rightarrow> (None, w\<lparr>w_db := d'\<rparr>))
           | RunDispatched \<Rightarrow> (None, snd (Cancel pick now rid w))
           | RunRunning \<Rightarrow> (None, snd (Cancel pick now rid w))
           | _ \<Rightarrow> (None, w)))"

section \<open>Waiting for a run\<close>

text \<open>
  What wakes the waiting loop, with the database at that moment: a tick of the poll, an event of the
  bus (or the zero value of a closed channel), the deadline, the end of the caller's context.
\<close>

datatype wake = PollTick | BusEvent event | ClosedBus | DeadlinePassed | ContextEnded

fun wait_loop :: "string \<Rightarrow> (wake \<times> db) list \<Rightarrow> jobs_err + run" where
  "wait_loop rid [] = Inl ErrWaitTimeout"
| "wait_loop rid ((wk, d) # ws) =
     (case wk of
        ContextEnded \<Rightarrow> Inl ContextDone
      | DeadlinePassed \<Rightarrow> Inl ErrWaitTimeout
      | BusEvent (StateEvent r) \<Rightarrow>
          if isTerminal (run_status r) then lift_store (GetRun d rid) else wait_loop rid ws
      | BusEvent _ \<Rightarrow> wait_loop rid ws
      | ClosedBus \<Rightarrow> wait_loop rid ws
      | PollTick \<Rightarrow>
          (case GetRun d rid of
             Inl _ \<Rightarrow> wait_loop rid ws
           | Inr r \<Rightarrow> if isTerminal (run_status r) then Inr r else wait_loop rid ws))"

definition WaitRun :: "string \<Rightarrow> db \<Rightarrow> (wake \<times> db) list \<Rightarrow> jobs_err + run" where
  "WaitRun rid d ws =
     (case GetRun d rid of
        Inl _ \<Rightarrow> wait_loop rid ws
      | Inr r \<Rightarrow> if isTerminal (run_status r) then Inr r else wait_loop rid ws)"

definition isSystemRun :: "operation \<Rightarrow> bool" where
  "isSystemRun oper \<longleftrightarrow>
     oper \<in> {OpSnapshots, OpSnapshotLs, OpVerifyRemote, OpRestoreDryRun, OpCheck, OpValidatePaths, OpForget, OpProbeCaps}"

definition result_of :: "run \<Rightarrow> json option" where
  "result_of r =
     (if isSystemRun (run_operation r) \<and> run_progress r \<noteq> json_none \<and> run_progress r \<noteq> json_braces
      then Some (run_progress r) else None)"

definition WaitRunResult :: "string \<Rightarrow> db \<Rightarrow> (wake \<times> db) list \<Rightarrow> jobs_err + (run \<times> json option)" where
  "WaitRunResult rid d ws = and_then (WaitRun rid d ws) (\<lambda>r. Inr (r, result_of r))"

text \<open>
  Operations that wait take what the rest of the server does meanwhile as an argument: the worlds
  at the moments the loop wakes up.
\<close>

type_synonym 'c meanwhile = "string \<Rightarrow> 'c world \<Rightarrow> (wake \<times> 'c world) list"

definition await :: "'c meanwhile \<Rightarrow> string \<Rightarrow> 'c world \<Rightarrow> (jobs_err + run) \<times> 'c world" where
  "await env rid w =
     (let ws = env rid w in (WaitRun rid (w_db w) (map (apsnd w_db) ws), if ws = [] then w else snd (last ws)))"

section \<open>Building the command of a run\<close>

datatype proto_operation =
    BACKUP | RESTORE | RESTORE_DRY_RUN | CHECK | FORGET | SNAPSHOTS | SNAPSHOT_LS
  | VERIFY_STORAGE_REMOTE | VALIDATE_PATHS | PROBE_CAPABILITIES

fun opToProto :: "operation \<Rightarrow> proto_operation" where
  "opToProto OpBackup = BACKUP"
| "opToProto OpRestore = RESTORE"
| "opToProto OpRestoreDryRun = RESTORE_DRY_RUN"
| "opToProto OpCheck = CHECK"
| "opToProto OpForget = FORGET"
| "opToProto OpSnapshots = SNAPSHOTS"
| "opToProto OpSnapshotLs = SNAPSHOT_LS"
| "opToProto OpVerifyRemote = VERIFY_STORAGE_REMOTE"
| "opToProto OpValidatePaths = VALIDATE_PATHS"
| "opToProto OpProbeCaps = PROBE_CAPABILITIES"

record secret_set =
  ss_rclone_conf :: string
  ss_restic_password :: string
  ss_db_password :: string

record command =
  cmd_id :: string
  cmd_run_id :: string
  cmd_operation :: proto_operation
  cmd_params :: json
  cmd_secrets :: "secret_set option"

definition unsealed :: "sealer \<Rightarrow> string \<Rightarrow> string \<Rightarrow> string \<Rightarrow> string \<Rightarrow> jobs_err + string" where
  "unsealed unseal table row column data =
     (case unseal table row column data of None \<Rightarrow> Inl (JText ''unseal'') | Some p \<Rightarrow> Inr p)"

definition or_empty :: "store_err + string \<Rightarrow> string" where
  "or_empty r = (case r of Inl _ \<Rightarrow> [] | Inr s \<Rightarrow> s)"

definition run_db_password :: "sealer \<Rightarrow> db \<Rightarrow> run \<Rightarrow> jobs_err + string" where
  "run_db_password unseal d r =
     (if run_operation r = OpRestore
      then (case GetRunTargetPassword unseal d (run_id r) of
              Inl e \<Rightarrow> if e = ErrNotFound then Inr [] else Inl (JText ''read restore credential'')
            | Inr p \<Rightarrow> Inr p)
      else if run_operation r = OpBackup \<and> run_plan_id r \<noteq> []
      then Inr (or_empty (GetPlanDBPassword unseal d (run_plan_id r)))
      else Inr [])"

definition run_secret_set :: "sealer \<Rightarrow> db \<Rightarrow> run \<Rightarrow> jobs_err + secret_set option" where
  "run_secret_set unseal d r =
     (if run_repository_id r = []
      then (let conf = or_empty (GetRunRcloneConfig unseal d (run_id r)) in
            Inr (if conf = [] then None
                 else Some \<lparr>ss_rclone_conf = conf, ss_restic_password = [], ss_db_password = []\<rparr>))
      else
        and_then (lift_store (GetRepository d (run_repository_id r))) (\<lambda>repo.
        and_then (lift_store (GetStorageTarget d (repo_storage_target_id repo))) (\<lambda>target.
        and_then (unsealed unseal ''storage_targets'' (tgt_id target) ''encrypted_config'' (tgt_encrypted_config target)) (\<lambda>conf.
        and_then (unsealed unseal ''repositories'' (repo_id repo) ''encrypted_password'' (repo_encrypted_password repo)) (\<lambda>pw.
        and_then (run_db_password unseal d r) (\<lambda>dbpw.
          Inr (Some \<lparr>ss_rclone_conf = conf, ss_restic_password = pw, ss_db_password = dbpw\<rparr>)))))))"

definition buildBackupParams :: "db \<Rightarrow> run \<Rightarrow> jobs_err + json" where
  "buildBackupParams d r =
     (if run_plan_id r = [] then Inr json_braces
      else
        and_then (lift_store (GetPlan d (run_plan_id r))) (\<lambda>plan.
        and_then (lift_store (GetRepository d (plan_repository_id plan))) (\<lambda>repo.
          Inr (BackupTask (plan_id plan) (plan_kind plan) (repo_path repo) (plan_source_of plan)
                 [''plan:'' @ plan_id plan, ''kind:'' @ kind_text (plan_kind plan), ''run:'' @ run_id r]
                 (plan_timeout_seconds plan)))))"

definition buildRestoreParams :: "db \<Rightarrow> run \<Rightarrow> jobs_err + json" where
  "buildRestoreParams d r =
     and_then (lift_store (GetRestoreRequestByRunID d (run_id r))) (\<lambda>rr.
     and_then (lift_store (GetRepository d (run_repository_id r))) (\<lambda>repo.
       let t = decode_target (rr_target_json rr) in
       Inr (if rr_kind rr = KindFilesystem
            then RestoreTask (rr_kind rr) (repo_path repo)
                   (if rt_target_path t = [] then None
                    else Some (FilesystemRestore (rr_snapshot_id rr) (rt_include_paths t) (rt_target_path t) (rt_overwrite_mode t) False))
                   None (run_id r)
            else RestoreTask (rr_kind rr) (repo_path repo) None
                   (Some (DatabaseRestore (rr_snapshot_id rr) (rr_kind rr) t (rr_overwrite rr))) (run_id r))))"

definition run_params :: "db \<Rightarrow> run \<Rightarrow> jobs_err + json" where
  "run_params d r =
     (if run_operation r = OpBackup then buildBackupParams d r
      else if run_operation r = OpRestore then buildRestoreParams d r
      else Inr (if run_progress r = json_none then json_braces else run_progress r))"

definition BuildCommand :: "sealer \<Rightarrow> string \<Rightarrow> db \<Rightarrow> string \<Rightarrow> jobs_err + command" where
  "BuildCommand unseal cid d rid =
     and_then (lift_store (GetRun d rid)) (\<lambda>r.
     and_then (run_secret_set unseal d r) (\<lambda>secrets.
     and_then (run_params d r) (\<lambda>params.
       Inr \<lparr>cmd_id = cid, cmd_run_id = run_id r, cmd_operation = opToProto (run_operation r), cmd_params = params,
            cmd_secrets = secrets\<rparr>)))"

text \<open>As the dispatcher sees it: the text of the error, or the command.\<close>

definition command_source :: "sealer \<Rightarrow> string \<Rightarrow> db \<Rightarrow> string \<Rightarrow> string + command" where
  "command_source unseal cid d rid =
     (case BuildCommand unseal cid d rid of Inl _ \<Rightarrow> Inl ''command not built'' | Inr c \<Rightarrow> Inr c)"

section \<open>Lemmas\<close>

lemma require_Inr [simp]: "require b e = Inr u \<longleftrightarrow> b"
  by (simp add: require_def)

lemma lift_store_Inr [simp]: "lift_store r = Inr x \<longleftrightarrow> r = Inr x"
  by (cases r) (auto simp: lift_store_def)

lemma lift_store_Inl: "lift_store r = Inl e \<longleftrightarrow> (\<exists>e'. r = Inl e' \<and> e = JStore e')"
  by (cases r) (auto simp: lift_store_def)

lemma nul_split:
  assumes "CHR 0x00 \<notin> set a" "CHR 0x00 \<notin> set b"
  shows "a @ nul @ x = b @ nul @ y \<longleftrightarrow> a = b \<and> x = y"
proof
  assume eq: "a @ nul @ x = b @ nul @ y"
  have "takeWhile (\<lambda>c. c \<noteq> CHR 0x00) (a @ nul @ x) = a" "takeWhile (\<lambda>c. c \<noteq> CHR 0x00) (b @ nul @ y) = b"
    using assms by (subst takeWhile_append2; auto simp: nul_def)+
  with eq show "a = b \<and> x = y" by (auto simp: nul_def)
qed simp

lemma nul_end:
  assumes "CHR 0x00 \<notin> set a" "CHR 0x00 \<notin> set b"
  shows "a @ (if x \<noteq> [] then nul @ x else []) = b @ (if y \<noteq> [] then nul @ y else []) \<longleftrightarrow> a = b \<and> x = y"
proof (cases "x = [] \<or> y = []")
  case True
  have "a \<noteq> b @ nul @ y" "b \<noteq> a @ nul @ x" using assms by (auto simp: nul_def)
  with True show ?thesis by auto
next
  case False
  then show ?thesis using nul_split [OF assms, of x y] by simp
qed

lemma kind_text_nul: "CHR 0x00 \<notin> set (kind_text k) \<longleftrightarrow> (case k of KindOther s \<Rightarrow> CHR 0x00 \<notin> set s | _ \<Rightarrow> True)"
  by (cases k) auto

lemma joinDuplicateRun_Some:
  assumes "runs_ok (db_runs d)" "joinDuplicateRun d e key = Some r"
  shows "r \<in> set (db_runs d)" "run_dedup_key r = key" "active_status (run_status r)" "key \<noteq> []" "e = ErrDuplicateRun"
    "find_run d (run_id r) = Some r"
  using assms FindActive_spec [of d key r]
  by (auto simp: joinDuplicateRun_def holds_key_def find_run_def runs_ok_get split: if_splits sum.splits)

lemma find_snoc: "List.find P xs = None \<Longrightarrow> P x \<Longrightarrow> List.find P (xs @ [x]) = Some x"
  by (induction xs) (auto split: if_splits)

lemma find_run_snoc:
  assumes "find_run d rid = None" "db_runs d' = db_runs d @ [r]" "run_id r = rid"
  shows "find_run d' rid = Some r"
  using assms by (simp add: find_run_def tbl_get_def find_snoc)

lemma CreateRun_find:
  assumes "CreateRun now r d = Inr d'"
  shows "find_run d' (run_id r) = Some (run_row r)" "db_runs d' = db_runs d @ [run_row r]"
proof -
  show runs: "db_runs d' = db_runs d @ [run_row r]" using assms by (simp add: CreateRun_def insertRun_runs)
  have "find_run d (run_id r) = None"
    using assms by (auto simp: CreateRun_def insertRunTx_def run_conflict_def list_ex_iff find_run_def tbl_get_def
        find_None_iff run_row_def split: if_splits)
  from find_run_snoc [OF this runs] show "find_run d' (run_id r) = Some (run_row r)" by (simp add: run_row_def)
qed

lemma CreateRun_fresh: "CreateRun now r d = Inr d' \<Longrightarrow> find_run d (run_id r) = None"
  by (auto simp: CreateRun_def insertRunTx_def run_conflict_def list_ex_iff find_run_def tbl_get_def
        find_None_iff run_row_def split: if_splits)

lemma systemRun_cases [consumes 1, case_names join new]:
  assumes run: "systemRun sl rid now a p oper params conf w = (Inr r, w')"
  obtains e where "joinDuplicateRun (w_db w) e (run_dedup_key (system_run_row sl rid now a p oper params conf)) = Some r"
      "w' = w"
    | d1 d2 where "CreateRun now (system_run_row sl rid now a p oper params conf) (w_db w) = Inr d1"
      "SaveRunRcloneConfig (sl_seal sl) now rid conf d1 = Inr d2" "r = system_run_row sl rid now a p oper params conf"
      "w' = publish rid (StateEvent r) (Enqueue rid a p (w\<lparr>w_db := d2\<rparr>))"
proof -
  let ?r = "system_run_row sl rid now a p oper params conf"
  have body: "(case CreateRun now ?r (w_db w) of
       Inl e \<Rightarrow> (case joinDuplicateRun (w_db w) e (run_dedup_key ?r) of Some r \<Rightarrow> (Inr r, w) | None \<Rightarrow> (Inl (JStore e), w))
     | Inr d1 \<Rightarrow> (case SaveRunRcloneConfig (sl_seal sl) now rid conf d1 of
          Inl e \<Rightarrow> (Inl (JStore e), try_transition rid RunQueued RunFailed
              (secret_failed now ''failed to persist temporary remote configuration'') (w\<lparr>w_db := d1\<rparr>))
        | Inr d2 \<Rightarrow> (Inr ?r, publish rid (StateEvent ?r) (Enqueue rid a p (w\<lparr>w_db := d2\<rparr>))))) = (Inr r, w')"
    using run unfolding systemRun_def Let_def by (cases "GetAgent (w_db w) a") (simp_all split: if_splits)
  show thesis
  proof (cases "CreateRun now ?r (w_db w)")
    case (Inl e)
    with body have "joinDuplicateRun (w_db w) e (run_dedup_key ?r) = Some r" "w' = w"
      by (simp_all split: option.splits)
    then show thesis by (rule that(1))
  next
    case (Inr d1)
    with body obtain d2 where "SaveRunRcloneConfig (sl_seal sl) now rid conf d1 = Inr d2" "r = ?r"
      "w' = publish rid (StateEvent r) (Enqueue rid a p (w\<lparr>w_db := d2\<rparr>))"
      by (cases "SaveRunRcloneConfig (sl_seal sl) now rid conf d1") auto
    then show thesis by (rule that(2) [OF Inr])
  qed
qed

lemma SaveRclone_runs: "SaveRunRcloneConfig sl now rid conf d = Inr d' \<Longrightarrow> db_runs d' = db_runs d"
  by (auto simp: SaveRunRcloneConfig_def put_run_secret_def split: if_splits option.splits)

lemma find_run_cong: "db_runs d' = db_runs d \<Longrightarrow> find_run d' = find_run d"
  by (auto simp: find_run_def)

lemma Audit_runs [simp]: "db_runs (w_db (Audit aid now at ai ac rt ri dt w)) = db_runs (w_db w)"
  by (auto simp: Audit_def AppendAuditEvent_def split: sum.splits if_splits)

lemma Audit_queues [simp]:
  "w_queues (Audit aid now at ai ac rt ri dt w) = w_queues w" "w_enqueued (Audit aid now at ai ac rt ri dt w) = w_enqueued w"
  by (auto simp: Audit_def split: sum.splits)

lemma publish_simps [simp]:
  "w_db (publish rid ev w) = w_db w" "w_queues (publish rid ev w) = w_queues w" "w_enqueued (publish rid ev w) = w_enqueued w"
  by (simp_all add: publish_def)

section \<open>Properties\<close>

text \<open>C35: Two tasks get one deduplication key exactly when they agree in every parameter: operation, agent,
  repository, parameter text and configuration fingerprint for system runs, and repository, agent,
  snapshot, kind, target text, overwrite mode and credential fingerprint for restores.  Keys of plans,
  system runs and restores never meet.  The identities contain no NUL byte.\<close>

theorem dedup_keys_identify_the_task:
  assumes ids: "CHR 0x00 \<notin> set (a @ p @ a' @ p' @ s @ s' @ kind_text k @ kind_text k')"
    and texts: "marshalled j" "marshalled j'"
  shows "(systemRunDedupKey a p oper j f = systemRunDedupKey a' p' oper' j' f' \<longleftrightarrow>
            oper = oper' \<and> a = a' \<and> p = p' \<and> json_text j = json_text j' \<and> f = f') \<and>
         (restoreRunDedupKey p a s k j ov f = restoreRunDedupKey p' a' s' k' j' ov' f' \<longleftrightarrow>
            p = p' \<and> a = a' \<and> s = s' \<and> kind_text k = kind_text k' \<and> json_text j = json_text j' \<and> ov = ov' \<and> f = f') \<and>
         (manualRunDedupKey p = manualRunDedupKey p' \<longleftrightarrow> p = p') \<and>
         systemRunDedupKey a p oper j f \<noteq> restoreRunDedupKey p' a' s' k' j' ov' f' \<and>
         systemRunDedupKey a p oper j f \<noteq> manualRunDedupKey p' \<and>
         restoreRunDedupKey p a s k j ov f \<noteq> manualRunDedupKey p'"
proof -
  have free: "CHR 0x00 \<notin> set a" "CHR 0x00 \<notin> set p" "CHR 0x00 \<notin> set a'" "CHR 0x00 \<notin> set p'" "CHR 0x00 \<notin> set s"
    "CHR 0x00 \<notin> set s'" "CHR 0x00 \<notin> set (kind_text k)" "CHR 0x00 \<notin> set (kind_text k')"
    using ids by auto
  have flag: "CHR 0x00 \<notin> set (if b then ''1'' else ''0'')" "(if b then ''1'' else ''0'') = (if b' then ''1'' else ''0'') \<longleftrightarrow> b = b'"
    for b b' :: bool by auto
  have lits: "CHR 0x00 \<notin> set ''sys''" "CHR 0x00 \<notin> set ''restore''" "CHR 0x00 \<notin> set ''plan''" by simp_all
  note splits = nul_split [OF lits(1) lits(1)] nul_split [OF lits(2) lits(2)] nul_split [OF lits(3) lits(3)]
    nul_split [OF op_text_no_nul op_text_no_nul] nul_split [OF free(1) free(3)] nul_split [OF free(2) free(4)]
    nul_split [OF free(5) free(6)] nul_split [OF free(7) free(8)]
    nul_split [OF nul_json_text [OF texts(1)] nul_json_text [OF texts(2)]]
    nul_split [OF flag(1) flag(1)] nul_end [OF nul_json_text [OF texts(1)] nul_json_text [OF texts(2)]]
  have "systemRunDedupKey a p oper j f = systemRunDedupKey a' p' oper' j' f' \<longleftrightarrow>
      oper = oper' \<and> a = a' \<and> p = p' \<and> json_text j = json_text j' \<and> f = f'"
    unfolding systemRunDedupKey_def splits by (auto dest: op_text_inj)
  moreover have "restoreRunDedupKey p a s k j ov f = restoreRunDedupKey p' a' s' k' j' ov' f' \<longleftrightarrow>
      p = p' \<and> a = a' \<and> s = s' \<and> kind_text k = kind_text k' \<and> json_text j = json_text j' \<and> ov = ov' \<and> f = f'"
    unfolding restoreRunDedupKey_def splits flag(2) by auto
  moreover have "manualRunDedupKey p = manualRunDedupKey p' \<longleftrightarrow> p = p'"
    unfolding manualRunDedupKey_def splits by simp
  ultimately show ?thesis
    by (simp add: systemRunDedupKey_def restoreRunDedupKey_def manualRunDedupKey_def)
qed

theorem dedup_keys_identify_the_task_witness:
  "systemRunDedupKey ''a1'' ''p1'' OpSnapshots (SnapshotsTask ''r:p'') [] \<noteq>
     systemRunDedupKey ''a1'' ''p1'' OpCheck (CheckTask ''r:p'') [] \<and>
   restoreRunDedupKey ''p1'' ''a1'' ''s1'' KindMySQL (SnapshotsTask ''r:p'') True ''f1'' \<noteq>
     restoreRunDedupKey ''p1'' ''a1'' ''s1'' KindMySQL (SnapshotsTask ''r:p'') True ''f2''"
proof -
  have ids: "CHR 0x00 \<notin> set (''a1'' @ ''p1'' @ ''a1'' @ ''p1'' @ ''s1'' @ ''s1'' @ kind_text KindMySQL @ kind_text KindMySQL)"
    by simp
  show ?thesis
    using dedup_keys_identify_the_task [OF ids, of "SnapshotsTask ''r:p''" "CheckTask ''r:p''" OpSnapshots "[]" OpCheck "[]" True True]
      dedup_keys_identify_the_task [OF ids, of "SnapshotsTask ''r:p''" "SnapshotsTask ''r:p''" OpCheck "''f1''" OpCheck "''f2''" True True]
    by simp
qed

text \<open>A system run that is requested while an equal one is active is that run, and nothing is changed;
  otherwise a new queued run is recorded and stands in the queue of its repository.  Either way the
  run that is returned is the only active one with its key.\<close>

theorem system_run_joins_or_enqueues:
  assumes ok: "runs_ok (db_runs (w_db w))" and fresh: "rid \<notin> w_enqueued w"
    and run: "systemRun sl rid now a p oper params conf w = (Inr r, w')"
  shows "find_run (w_db w') (run_id r) \<noteq> None \<and> active_status (run_status r) \<and>
    {x \<in> set (db_runs (w_db w')). holds_key x \<and> run_dedup_key x = run_dedup_key r} =
      {the (find_run (w_db w') (run_id r))} \<and>
    (w' = w \<or>
     run_id r = rid \<and> find_run (w_db w) rid = None \<and> run_status r = RunQueued \<and> run_progress r = params \<and>
     (\<exists>js. w_queues w' p = Some (js @ [\<lparr>job_run = rid, job_agent = a, job_repository = p\<rparr>])))"
proof -
  let ?r = "system_run_row sl rid now a p oper params conf"
  have key: "run_dedup_key ?r \<noteq> []" by (simp add: system_run_row_def new_run_def systemRunDedupKey_def)
  have uniq: "{x \<in> set rs. holds_key x \<and> run_dedup_key x = run_dedup_key y} = {y}"
    if "runs_ok rs" "y \<in> set rs" "holds_key y" for rs y
    using that active_key_unique [OF that(1)] by auto
  from run show ?thesis
  proof (cases rule: systemRun_cases)
    case (join e)
    note j = joinDuplicateRun_Some [OF ok join(1)]
    then show ?thesis using uniq [OF ok j(1)] join(2) by (simp add: holds_key_def)
  next
    case (new d1 d2)
    have runs: "db_runs d2 = db_runs (w_db w) @ [run_row ?r]" and f: "find_run d2 rid = Some (run_row ?r)"
      using CreateRun_find [OF new(1)] SaveRclone_runs [OF new(2)]
      by (simp_all add: find_run_cong [OF SaveRclone_runs [OF new(2)]] system_run_row_def new_run_def)
    have "runs_ok (db_runs d2)"
      using insertRun_runs_ok [OF ok new(1) [unfolded CreateRun_def]] runs CreateRun_find(2) [OF new(1)] by simp
    from uniq [OF this, of "run_row ?r"]
    have "{x \<in> set (db_runs d2). holds_key x \<and> run_dedup_key x = run_dedup_key ?r} = {run_row ?r}"
      using key by (simp add: runs holds_key_def system_run_row_def new_run_def run_row_def active_status_def)
    moreover have "find_run (w_db w) rid = None"
      using CreateRun_fresh [OF new(1)] by (simp add: system_run_row_def new_run_def)
    moreover have "run_id ?r = rid" "run_status ?r = RunQueued" "run_progress ?r = params" "active_status (run_status ?r)"
      by (simp_all add: system_run_row_def new_run_def active_status_def)
    moreover have "w_queues w' p = Some ((case w_queues w p of None \<Rightarrow> [] | Some js \<Rightarrow> js) @
        [\<lparr>job_run = rid, job_agent = a, job_repository = p\<rparr>])"
      unfolding new(4) using fresh by (simp add: Enqueue_def push_job_def)
    then have "\<exists>js. w_queues w' p = Some (js @ [\<lparr>job_run = rid, job_agent = a, job_repository = p\<rparr>])"
      by blast
    moreover have "w_db w' = d2" unfolding new(4) by (simp add: Enqueue_def push_job_def)
    ultimately show ?thesis using f new(3) by simp
  qed
qed

definition sample_sealing :: sealing where
  "sample_sealing = \<lparr>sl_seal = \<lambda>_ _ _ p. Some p, sl_open = \<lambda>_ _ _ c. Some c, sl_fingerprint = (@)\<rparr>"

definition agent_world :: "db \<Rightarrow> nat world" where
  "agent_world d = start_world (d\<lparr>db_agents := [sample_agent ''a1'' False]\<rparr>)"

lemma sample_system_run:
  "systemRun sample_sealing ''r1'' 0 ''a1'' ''p1'' OpCheck (CheckTask ''r:p'') [] (agent_world empty_db) =
     (let r = system_run_row sample_sealing ''r1'' 0 ''a1'' ''p1'' OpCheck (CheckTask ''r:p'') [];
          w = agent_world empty_db
      in (Inr r, publish ''r1'' (StateEvent r) (Enqueue ''r1'' ''a1'' ''p1'' (w\<lparr>w_db := (w_db w)\<lparr>db_runs := [run_row r]\<rparr>\<rparr>))))"
  by (simp add: systemRun_def agent_world_def start_world_def GetAgent_def find_agent_def tbl_get_def sample_agent_def
      CreateRun_def insertRunTx_def run_conflict_def system_run_row_def new_run_def SaveRunRcloneConfig_def
      invalidatesSnapshotCache_def)

theorem system_run_joins_or_enqueues_witness:
  "\<exists>r w'. systemRun sample_sealing ''r1'' 0 ''a1'' ''p1'' OpCheck (CheckTask ''r:p'') [] (agent_world empty_db) = (Inr r, w') \<and>
     find_run (w_db w') (run_id r) \<noteq> None \<and> active_status (run_status r)"
proof -
  have ok: "runs_ok (db_runs (w_db (agent_world empty_db)))" and fresh: "''r1'' \<notin> w_enqueued (agent_world empty_db)"
    by (simp_all add: agent_world_def start_world_def)
  obtain r w' where run: "systemRun sample_sealing ''r1'' 0 ''a1'' ''p1'' OpCheck (CheckTask ''r:p'') [] (agent_world empty_db) = (Inr r, w')"
    unfolding sample_system_run Let_def by blast
  from system_run_joins_or_enqueues [OF ok fresh run] run show ?thesis by blast
qed

end
