(* ===== verification/Scheduler.thy ===== *)
theory Scheduler
  imports Json_Parse Jobs_Runs
begin

text \<open>
  The scheduler (\<open>scheduler/scheduler.go\<close>): every tick fires the due slots of the plans, fails the
  queued runs whose agent is gone, starts repository checks and retention runs, and cleans up.

  The cron library and the time zone database are arguments: which expressions parse, which zones
  exist, and the next slot of an expression in a zone after an instant.  The starter is the
  interface of the orchestrator; it may change the world in any way.  Reads of the database do not
  fail in this model, so the branches that log a driver error and go on are left out.  The
  throttle of the skip messages reads the real clock, an argument of its own.
\<close>

section \<open>Interfaces and state\<close>

record cron =
  cr_parses :: "string \<Rightarrow> bool"
  cr_zone :: "string \<Rightarrow> bool"
  cr_next :: "string \<Rightarrow> string \<Rightarrow> instant \<Rightarrow> instant"

record 'c starter =
  st_plan :: "string \<Rightarrow> instant \<Rightarrow> 'c world \<Rightarrow> jobs_err option \<times> 'c world"
  st_check :: "string \<Rightarrow> 'c world \<Rightarrow> jobs_err option \<times> 'c world"
  st_retention :: "(string \<Rightarrow> 'c world \<Rightarrow> jobs_err option \<times> 'c world) option"
  st_cleanup :: "(instant \<Rightarrow> 'c world \<Rightarrow> jobs_err option \<times> 'c world) option"

definition tickInterval :: int where "tickInterval = seconds 15"
definition repoCheckWindow :: int where "repoCheckWindow = hours (7 * 24)"
definition repoCheckRetryCooldown :: int where "repoCheckRetryCooldown = hours 1"
definition defaultTimeout :: int where "defaultTimeout = seconds 300"

record cursor_state =
  cur_key :: string
  cur_next :: instant

record 'c sched =
  sd_world :: "'c world"
  sd_retention_days :: int
  sd_last_prune :: int
  sd_last_cleanup :: int
  sd_cursors :: "string \<rightharpoonup> cursor_state"
  sd_skips :: "(string \<times> instant) list"

definition New_scheduler :: "int \<Rightarrow> 'c world \<Rightarrow> 'c sched" where
  "New_scheduler days w = \<lparr>sd_world = w, sd_retention_days = days, sd_last_prune = 0, sd_last_cleanup = 0,
     sd_cursors = Map.empty, sd_skips = []\<rparr>"

definition on_world :: "('c world \<Rightarrow> 'c world) \<Rightarrow> 'c sched \<Rightarrow> 'c sched" where
  "on_world f s = s\<lparr>sd_world := f (sd_world s)\<rparr>"

definition on_db :: "(db \<Rightarrow> store_err + db) \<Rightarrow> 'c sched \<Rightarrow> 'c sched" where
  "on_db f s = on_world (\<lambda>w. case f (w_db w) of Inl _ \<Rightarrow> w | Inr d \<Rightarrow> w\<lparr>w_db := d\<rparr>) s"

abbreviation sd_db :: "'c sched \<Rightarrow> db" where "sd_db s \<equiv> w_db (sd_world s)"

text \<open>The zero value of \<open>time.Time\<close>, and Unix seconds.\<close>

definition zero_time :: instant where "zero_time = - 62135596800 * nano"
definition unix :: "instant \<Rightarrow> int" where "unix t = t div nano"

section \<open>Plans\<close>

definition agentOffline :: "db \<Rightarrow> string \<Rightarrow> bool" where
  "agentOffline d agentID =
     (case GetAgent d agentID of Inl _ \<Rightarrow> True | Inr a \<Rightarrow> agt_status a \<noteq> AgentOnline)"

definition cursorKey :: "plan \<Rightarrow> string" where
  "cursorKey p = plan_schedule p @ nul @ plan_timezone p"

definition saveCursor :: "string \<Rightarrow> instant \<Rightarrow> 'c sched \<Rightarrow> 'c sched" where
  "saveCursor planID next s = on_db (SaveScheduleCursor planID next) s"

definition set_cursor :: "plan \<Rightarrow> instant \<Rightarrow> 'c sched \<Rightarrow> 'c sched" where
  "set_cursor p next s =
     saveCursor (plan_id p) next
       (s\<lparr>sd_cursors := (sd_cursors s)(plan_id p \<mapsto> \<lparr>cur_key = cursorKey p, cur_next = next\<rparr>)\<rparr>)"

text \<open>The slot a plan waits for: from memory, else from the database; none after a change of the plan.\<close>

definition awaited_slot :: "plan \<Rightarrow> 'c sched \<Rightarrow> instant option" where
  "awaited_slot p s =
     (case sd_cursors s (plan_id p) of
        Some c \<Rightarrow> if cur_key c \<noteq> cursorKey p then None else Some (cur_next c)
      | None \<Rightarrow> (case GetScheduleCursor (sd_db s) (plan_id p) of Inl _ \<Rightarrow> None | Inr t \<Rightarrow> Some t))"

definition due_slot :: "instant \<Rightarrow> plan \<Rightarrow> 'c sched \<Rightarrow> instant option" where
  "due_slot now p s =
     (case awaited_slot p s of
        None \<Rightarrow> None | Some t \<Rightarrow> if t \<noteq> zero_time \<and> t \<le> now then Some t else None)"

definition fires :: "instant \<Rightarrow> plan \<Rightarrow> 'c sched \<Rightarrow> instant option" where
  "fires now p s =
     (if plan_agent_id p \<noteq> [] \<and> agentOffline (sd_db s) (plan_agent_id p) then None else due_slot now p s)"

definition tickPlan :: "cron \<Rightarrow> 'c starter \<Rightarrow> instant \<Rightarrow> plan \<Rightarrow> 'c sched \<Rightarrow> 'c sched" where
  "tickPlan cr st now p s =
     (if \<not> cr_parses cr (plan_schedule p) \<or> \<not> cr_zone cr (plan_timezone p) then s
      else
        set_cursor p (cr_next cr (plan_schedule p) (plan_timezone p) now)
          (case fires now p s of
             None \<Rightarrow> s | Some t \<Rightarrow> on_world (\<lambda>w. snd (st_plan st (plan_id p) t w)) s))"

definition tickCron :: "cron \<Rightarrow> 'c starter \<Rightarrow> instant \<Rightarrow> 'c sched \<Rightarrow> 'c sched" where
  "tickCron cr st now s = fold (tickPlan cr st now) (ListEnabledPlans (sd_db s)) s"

section \<open>Queued runs of absent agents\<close>

definition queue_timeout :: "db \<Rightarrow> run \<Rightarrow> int" where
  "queue_timeout d r =
     (if run_plan_id r = [] then defaultTimeout
      else case GetPlan d (run_plan_id r) of
             Inl _ \<Rightarrow> defaultTimeout
           | Inr p \<Rightarrow> if plan_timeout_seconds p > 0 then seconds (plan_timeout_seconds p) else defaultTimeout)"

definition offline_failed :: "instant \<Rightarrow> run \<Rightarrow> run" where
  "offline_failed now r = r\<lparr>run_error_code := ''agent_unavailable'',
     run_error_message := ''agent offline past timeout'', run_finished_at := Some now\<rparr>"

definition fail_absent :: "instant \<Rightarrow> run \<Rightarrow> 'c world \<Rightarrow> 'c world" where
  "fail_absent now r w =
     (if now < run_queued_at r + queue_timeout (w_db w) r then w
      else if \<not> agentOffline (w_db w) (run_agent_id r) then w
      else
        case TransitionRun (run_id r) RunQueued RunFailed (offline_failed now) (w_db w) of
          Inl _ \<Rightarrow> w
        | Inr d \<Rightarrow> notify (run_id r) (drop_secrets (run_id r) (w\<lparr>w_db := d\<rparr>)))"

definition tickStaleQueued :: "instant \<Rightarrow> 'c sched \<Rightarrow> 'c sched" where
  "tickStaleQueued now s = on_world (fold (fail_absent now) (ListRunsByStatus (sd_db s) [RunQueued])) s"

section \<open>Weekly checks\<close>

definition check_filter :: "string \<Rightarrow> run_filter" where
  "check_filter repoID =
     \<lparr>rf_agent_id = [], rf_plan_id = [], rf_repository_id = repoID,
      rf_statuses = [RunQueued, RunDispatched, RunRunning, RunSucceeded, RunFailed],
      rf_operation = Some OpCheck, rf_limit = 1, rf_offset = 0, rf_exclude_keys = []\<rparr>"

definition ended_within :: "instant \<Rightarrow> int \<Rightarrow> run \<Rightarrow> bool" where
  "ended_within now window r = (case run_finished_at r of None \<Rightarrow> False | Some t \<Rightarrow> now - t < window)"

definition check_postponed :: "instant \<Rightarrow> run list \<Rightarrow> bool" where
  "check_postponed now rs =
     (case rs of
        [] \<Rightarrow> False
      | latest # _ \<Rightarrow>
          active_status (run_status latest) \<or>
          (run_status latest = RunSucceeded \<and> ended_within now repoCheckWindow latest) \<or>
          (run_status latest = RunFailed \<and> ended_within now repoCheckRetryCooldown latest))"

text \<open>One agent is read once in a tick; a row that was read is kept for the repositories that follow.\<close>

definition read_agent :: "string \<Rightarrow> (string \<rightharpoonup> agent) \<Rightarrow> db \<Rightarrow> agent option \<times> (string \<rightharpoonup> agent)" where
  "read_agent i seen d =
     (case seen i of
        Some a \<Rightarrow> (Some a, seen)
      | None \<Rightarrow> (case GetAgent d i of Inl _ \<Rightarrow> (None, seen) | Inr a \<Rightarrow> (Some a, seen(i \<mapsto> a))))"

fun check_repositories :: "'c starter \<Rightarrow> instant \<Rightarrow> repository list \<Rightarrow> (string \<rightharpoonup> agent) \<Rightarrow> 'c world \<Rightarrow> 'c world" where
  "check_repositories st now [] seen w = w"
| "check_repositories st now (r # rs) seen w =
     (if repo_status r \<noteq> RepoReady then check_repositories st now rs seen w
      else
        case read_agent (repo_agent_id r) seen (w_db w) of
          (None, seen') \<Rightarrow> check_repositories st now rs seen' w
        | (Some a, seen') \<Rightarrow>
            check_repositories st now rs seen'
              (if agt_status a \<noteq> AgentOnline then w
               else if check_postponed now (ListRuns (w_db w) (check_filter (repo_id r))) then w
               else snd (st_check st (repo_id r) w)))"

definition tickWeeklyRepoCheck :: "'c starter \<Rightarrow> instant \<Rightarrow> 'c sched \<Rightarrow> 'c sched" where
  "tickWeeklyRepoCheck st now s =
     on_world (check_repositories st now (ListRepositoriesNeedingCheck (sd_db s) (now - repoCheckWindow)) Map.empty) s"

section \<open>Retention\<close>

text \<open>The parameters at the end of a deduplication key, if they look like an object.\<close>

definition dedupKeyParams :: "string \<Rightarrow> string" where
  "dedupKeyParams key =
     (let last_part = last (SplitChar (CHR 0x00) key) in
      if HasPrefix (TrimSpace last_part) [CHR 0x7B] then last_part else [])"

definition decode_retention :: "json \<Rightarrow> retention option" where
  "decode_retention j =
     (case j of
        JObj ms \<Rightarrow>
          (case (field_int ''keep_last'' ms, field_int ''keep_daily'' ms, field_int ''keep_weekly'' ms, field_int ''keep_monthly'' ms) of
             (Some l, Some dd, Some wk, Some mo) \<Rightarrow>
               Some \<lparr>keep_last = l, keep_daily = dd, keep_weekly = wk, keep_monthly = mo\<rparr>
           | _ \<Rightarrow> None)
      | JNull \<Rightarrow> Some no_retention
      | _ \<Rightarrow> None)"

definition decode_access :: "json \<Rightarrow> (string \<times> string) option" where
  "decode_access j =
     (case j of
        JObj ms \<Rightarrow>
          (case (field_string ''repository_path'' ms, field_string ''cache_dir'' ms) of
             (Some p, Some c) \<Rightarrow> Some (p, c) | _ \<Rightarrow> None)
      | JNull \<Rightarrow> Some ([], [])
      | _ \<Rightarrow> None)"

definition field_of :: "(json \<Rightarrow> 'a option) \<Rightarrow> string \<Rightarrow> (string \<times> json) list \<Rightarrow> 'a option" where
  "field_of dec k ms = dec (case obj_get k ms of None \<Rightarrow> JNull | Some j \<Rightarrow> j)"

text \<open>The retention of a forget task: a member of the wrong type anywhere in the task is an error.\<close>

definition forget_retention :: "json \<Rightarrow> retention option" where
  "forget_retention j =
     (case j of
        JObj ms \<Rightarrow>
          (case (field_string ''plan_id'' ms, field_string ''kind'' ms, field_of decode_access ''repository'' ms,
                 field_strings ''tags'' ms, field_bool ''prune'' ms, field_bool ''delete_all'' ms,
                 field_strings ''snapshot_ids'' ms) of
             (Some _, Some _, Some _, Some _, Some _, Some _, Some _) \<Rightarrow> field_of decode_retention ''retention'' ms
           | _ \<Rightarrow> None)
      | JNull \<Rightarrow> Some no_retention
      | _ \<Rightarrow> None)"

definition keeps_some :: "retention \<Rightarrow> bool" where
  "keeps_some r \<longleftrightarrow> keep_last r + keep_daily r + keep_weekly r + keep_monthly r > 0"

definition shows_retention :: "json \<Rightarrow> bool" where
  "shows_retention payload = (case forget_retention payload of None \<Rightarrow> False | Some r \<Rightarrow> keeps_some r)"

definition forgetRunIsRetention :: "run \<Rightarrow> bool" where
  "forgetRunIsRetention r \<longleftrightarrow>
     shows_retention (run_progress r) \<or> shows_retention (parse_json (dedupKeyParams (run_dedup_key r)))"

text \<open>A skip is logged once an hour for each repository and reason; the answer says whether it is.\<close>

definition skip_key :: "string \<Rightarrow> string \<Rightarrow> string" where
  "skip_key repoID reason = repoID @ ''|'' @ reason"

definition logRetentionSkip :: "instant \<Rightarrow> string \<Rightarrow> string \<Rightarrow> 'c sched \<Rightarrow> bool \<times> 'c sched" where
  "logRetentionSkip clk repoID reason s =
     (let key = skip_key repoID reason; m = sd_skips s in
      if (case map_of m key of None \<Rightarrow> False | Some at \<Rightarrow> clk - at < hours 1) then (False, s)
      else
        let kept = (if length m > 1024 then filter (\<lambda>e. \<not> clk - snd e > hours 24) m else m)
        in (True, s\<lparr>sd_skips := (key, clk) # filter (\<lambda>e. fst e \<noteq> key) kept\<rparr>))"

definition busy_filter :: "string \<Rightarrow> run_filter" where
  "busy_filter repoID =
     \<lparr>rf_agent_id = [], rf_plan_id = [], rf_repository_id = repoID,
      rf_statuses = [RunQueued, RunDispatched, RunRunning, RunSucceeded],
      rf_operation = None, rf_limit = 100, rf_offset = 0, rf_exclude_keys = []\<rparr>"

definition quoted :: "string \<Rightarrow> string" where "quoted k = [CHR 0x22] @ k @ [CHR 0x22]"

definition forget_filter :: "string \<Rightarrow> run_filter" where
  "forget_filter repoID =
     \<lparr>rf_agent_id = [], rf_plan_id = [], rf_repository_id = repoID,
      rf_statuses = [RunQueued, RunDispatched, RunRunning, RunSucceeded],
      rf_operation = Some OpForget, rf_limit = 20, rf_offset = 0,
      rf_exclude_keys = [quoted ''delete_all'' @ '':true'', quoted ''snapshot_ids'' @ '':['']\<rparr>"

definition backup_active :: "db \<Rightarrow> string \<Rightarrow> bool" where
  "backup_active d repoID =
     list_ex (\<lambda>r. run_operation r = OpBackup \<and> active_status (run_status r)) (ListRuns d (busy_filter repoID))"

definition finished_or_queued_at :: "run \<Rightarrow> instant" where
  "finished_or_queued_at r = (case run_finished_at r of None \<Rightarrow> run_queued_at r | Some t \<Rightarrow> t)"

definition retention_recent :: "instant \<Rightarrow> db \<Rightarrow> string \<Rightarrow> bool" where
  "retention_recent now d repoID =
     list_ex (\<lambda>r. forgetRunIsRetention r \<and> now - finished_or_queued_at r < hours 24) (ListRuns d (forget_filter repoID))"

definition maintain_repository ::
    "(string \<Rightarrow> 'c world \<Rightarrow> jobs_err option \<times> 'c world) \<Rightarrow> instant \<Rightarrow> instant \<Rightarrow> repository \<Rightarrow> 'c sched \<Rightarrow> 'c sched" where
  "maintain_repository start clk now repo s =
     (if agentOffline (sd_db s) (repo_agent_id repo) then snd (logRetentionSkip clk (repo_id repo) ''offline'' s)
      else if backup_active (sd_db s) (repo_id repo) then snd (logRetentionSkip clk (repo_id repo) ''active'' s)
      else if retention_recent now (sd_db s) (repo_id repo) then snd (logRetentionSkip clk (repo_id repo) ''recent'' s)
      else on_world (\<lambda>w. snd (start (repo_id repo) w)) s)"

definition tickMaintenance :: "'c starter \<Rightarrow> instant \<Rightarrow> instant \<Rightarrow> 'c sched \<Rightarrow> 'c sched" where
  "tickMaintenance st clk now s =
     (case st_retention st of
        None \<Rightarrow> s
      | Some start \<Rightarrow> fold (maintain_repository start clk now) (ListRepositories (sd_db s)) s)"

section \<open>Daily clean-up and the tick\<close>

definition tickSnapshotCleanup :: "'c starter \<Rightarrow> instant \<Rightarrow> 'c sched \<Rightarrow> 'c sched" where
  "tickSnapshotCleanup st now s =
     (case st_cleanup st of None \<Rightarrow> s | Some clean \<Rightarrow> on_world (\<lambda>w. snd (clean now w)) s)"

definition ran_today :: "instant \<Rightarrow> int \<Rightarrow> bool" where
  "ran_today now at \<longleftrightarrow> at \<noteq> 0 \<and> now - seconds at < hours 24"

definition tickHistoryPrune :: "instant \<Rightarrow> 'c sched \<Rightarrow> 'c sched" where
  "tickHistoryPrune now s =
     (if sd_retention_days s \<le> 0 then s
      else if ran_today now (sd_last_prune s) then s
      else on_world (\<lambda>w. w\<lparr>w_db := snd (PruneHistory (now - hours (24 * sd_retention_days s)) (w_db w))\<rparr>)
             (s\<lparr>sd_last_prune := unix now\<rparr>))"

definition tickSessionCleanup :: "instant \<Rightarrow> 'c sched \<Rightarrow> 'c sched" where
  "tickSessionCleanup now s =
     (if ran_today now (sd_last_cleanup s) then s
      else on_world (\<lambda>w. w\<lparr>w_db := DeleteExpiredSessions now (w_db w)\<rparr>) (s\<lparr>sd_last_cleanup := unix now\<rparr>))"

definition runTick :: "cron \<Rightarrow> 'c starter \<Rightarrow> instant \<Rightarrow> instant \<Rightarrow> 'c sched \<Rightarrow> 'c sched" where
  "runTick cr st clk now s =
     tickSessionCleanup now (tickHistoryPrune now (tickSnapshotCleanup st now (tickMaintenance st clk now
       (tickWeeklyRepoCheck st now (tickStaleQueued now (tickCron cr st now s))))))"

section \<open>Lemmas: the cursors\<close>

lemma set_cursor_cursors [simp]:
  "sd_cursors (set_cursor p next s) = (sd_cursors s)(plan_id p \<mapsto> \<lparr>cur_key = cursorKey p, cur_next = next\<rparr>)"
  by (simp add: set_cursor_def saveCursor_def on_db_def on_world_def)

lemma on_world_cursors [simp]: "sd_cursors (on_world f s) = sd_cursors s"
  by (simp add: on_world_def)

text \<open>The slot a tick starts a run for, if any.\<close>

definition fired_slot :: "cron \<Rightarrow> instant \<Rightarrow> plan \<Rightarrow> 'c sched \<Rightarrow> instant option" where
  "fired_slot cr now p s =
     (if cr_parses cr (plan_schedule p) \<and> cr_zone cr (plan_timezone p) then fires now p s else None)"

text \<open>The ticks a plan sees: the moment, the row of the plan at that moment, and what else happens to the
  scheduler before the next one.\<close>

fun fired_slots :: "cron \<Rightarrow> 'c starter \<Rightarrow> (instant \<times> plan \<times> ('c sched \<Rightarrow> 'c sched)) list \<Rightarrow> 'c sched \<Rightarrow> instant list" where
  "fired_slots cr st [] s = []"
| "fired_slots cr st ((now, p, meanwhile) # ts) s =
     (case fired_slot cr now p s of None \<Rightarrow> [] | Some t \<Rightarrow> [t]) @
     fired_slots cr st ts (meanwhile (tickPlan cr st now p s))"

lemma fired_slot_due: "fired_slot cr now p s = Some t \<Longrightarrow> t \<le> now \<and> t \<noteq> zero_time \<and> awaited_slot p s = Some t"
  by (auto simp: fired_slot_def fires_def due_slot_def split: if_splits option.splits)

definition later_slots :: "cron \<Rightarrow> bool" where
  "later_slots cr \<longleftrightarrow> (\<forall>e z t. cr_next cr e z t = zero_time \<or> t < cr_next cr e z t)"

definition waiting :: "instant \<Rightarrow> string \<Rightarrow> 'c sched \<Rightarrow> bool" where
  "waiting now pid s \<longleftrightarrow>
     (case sd_cursors s pid of None \<Rightarrow> False | Some c \<Rightarrow> cur_next c = zero_time \<or> now < cur_next c)"

definition tick_ok :: "string \<Rightarrow> instant \<times> plan \<times> ('c sched \<Rightarrow> 'c sched) \<Rightarrow> bool" where
  "tick_ok pid tk \<longleftrightarrow> plan_id (fst (snd tk)) = pid \<and> (\<forall>s. sd_cursors (snd (snd tk) s) pid = sd_cursors s pid)"

lemma later_slot: "later_slots cr \<Longrightarrow> cr_next cr e z t = zero_time \<or> t < cr_next cr e z t"
  by (simp add: later_slots_def)

lemma firing_waits:
  "later_slots cr \<Longrightarrow> fired_slot cr now p s = Some t \<Longrightarrow> waiting now (plan_id p) (tickPlan cr st now p s)"
  using later_slot [of cr "plan_schedule p" "plan_timezone p" now]
  by (auto simp: tickPlan_def fired_slot_def waiting_def split: if_splits)

lemma waiting_stays:
  assumes "later_slots cr" and "waiting now0 (plan_id p) s" and "now0 \<le> now"
  shows "waiting now0 (plan_id p) (tickPlan cr st now p s)"
  using assms later_slot [OF assms(1), of "plan_schedule p" "plan_timezone p" now]
  by (auto simp: tickPlan_def waiting_def split: option.splits)

lemma waiting_fires_later: "waiting now0 (plan_id p) s \<Longrightarrow> fired_slot cr now p s = Some t \<Longrightarrow> now0 < t"
  using fired_slot_due [of cr now p s t] by (auto simp: waiting_def awaited_slot_def split: option.splits if_splits)

lemma waiting_meanwhile: "tick_ok pid (now, p, f) \<Longrightarrow> waiting now0 pid (f s) = waiting now0 pid s"
  by (simp add: tick_ok_def waiting_def)

lemma fired_slots_after:
  assumes "later_slots cr" and "list_all (tick_ok pid) ts" and "sorted_wrt (\<le>) (now0 # map fst ts)"
    and "waiting now0 pid s"
  shows "sorted_wrt (<) (now0 # fired_slots cr st ts s)"
  using assms(2-)
proof (induction ts arbitrary: now0 s)
  case Nil
  then show ?case by simp
next
  case (Cons tk ts)
  obtain now p f where tk: "tk = (now, p, f)" by (cases tk)
  from Cons.prems(1) tk have ok: "tick_ok pid (now, p, f)" "plan_id p = pid" "list_all (tick_ok pid) ts"
    by (simp_all, simp add: tick_ok_def)
  from Cons.prems(2) tk have order: "now0 \<le> now" "sorted_wrt (\<le>) (now # map fst ts)" "sorted_wrt (\<le>) (now0 # map fst ts)"
    by simp_all
  let ?s = "f (tickPlan cr st now p s)"
  show ?case
  proof (cases "fired_slot cr now p s")
    case None
    have "waiting now0 pid ?s"
      using waiting_stays [OF assms(1), of now0 p s now st] Cons.prems(3) order(1) ok by (simp add: waiting_meanwhile)
    from Cons.IH [OF ok(3) order(3) this] None tk show ?thesis by simp
  next
    case (Some t)
    have "waiting now pid ?s" using firing_waits [OF assms(1) Some, of st] ok by (simp add: waiting_meanwhile)
    note rest = Cons.IH [OF ok(3) order(2) this]
    have "now0 < t" "t \<le> now"
      using waiting_fires_later [of now0 p s cr now t] Some Cons.prems(3) ok(2) fired_slot_due [OF Some] by auto
    with rest Some tk show ?thesis by auto
  qed
qed

lemma fired_slots_sorted:
  assumes "later_slots cr" and "list_all (tick_ok pid) ts" and "sorted_wrt (\<le>) (map fst ts)"
  shows "sorted_wrt (<) (fired_slots cr st ts s)"
  using assms(2,3)
proof (induction ts arbitrary: s)
  case Nil
  then show ?case by simp
next
  case (Cons tk ts)
  obtain now p f where tk: "tk = (now, p, f)" by (cases tk)
  from Cons.prems(1) tk have ok: "tick_ok pid (now, p, f)" "plan_id p = pid" "list_all (tick_ok pid) ts"
    by (simp_all, simp add: tick_ok_def)
  from Cons.prems(2) tk have order: "sorted_wrt (\<le>) (now # map fst ts)" "sorted_wrt (\<le>) (map fst ts)"
    by simp_all
  let ?s = "f (tickPlan cr st now p s)"
  show ?case
  proof (cases "fired_slot cr now p s")
    case None
    with Cons.IH [OF ok(3) order(2)] tk show ?thesis by simp
  next
    case (Some t)
    have "waiting now pid ?s" using firing_waits [OF assms(1) Some, of st] ok by (simp add: waiting_meanwhile)
    from fired_slots_after [OF assms(1) ok(3) order(1) this, of st] fired_slot_due [OF Some] Some tk
    show ?thesis by auto
  qed
qed

lemma fired_slots_past:
  "t \<in> set (fired_slots cr st ts s) \<Longrightarrow> \<exists>tk\<in>set ts. t \<le> fst tk"
proof (induction cr st ts s rule: fired_slots.induct)
  case (2 cr st now p meanwhile ts s)
  from 2(2) consider "fired_slot cr now p s = Some t" | "t \<in> set (fired_slots cr st ts (meanwhile (tickPlan cr st now p s)))"
    by (auto split: option.splits)
  then show ?case using 2(1) by cases (auto dest: fired_slot_due)
qed simp

section \<open>Lemmas: queued runs of absent agents\<close>

definition absent :: "db \<Rightarrow> instant \<Rightarrow> run \<Rightarrow> bool" where
  "absent d now r \<longleftrightarrow>
     run_status r = RunQueued \<and> run_queued_at r + queue_timeout d r \<le> now \<and> agentOffline d (run_agent_id r)"

definition absent_row :: "instant \<Rightarrow> run \<Rightarrow> run" where
  "absent_row now r = write_back (offline_failed now (r\<lparr>run_status := RunFailed\<rparr>)) r"

lemma absent_row_id [simp]: "run_id (absent_row now r) = run_id r" "run_status (absent_row now r) = RunFailed"
  by (simp_all add: absent_row_def offline_failed_def)

definition same_context :: "db \<Rightarrow> db \<Rightarrow> bool" where
  "same_context d d' \<longleftrightarrow>
     db_plans d' = db_plans d \<and> db_agents d' = db_agents d \<and> db_restores d' = db_restores d"

lemma same_context_absent: "same_context d d' \<Longrightarrow> absent d' now r = absent d now r"
  by (simp add: same_context_def absent_def queue_timeout_def GetPlan_def find_plan_def agentOffline_def GetAgent_def find_agent_def)

lemma same_context_trans: "same_context d d1 \<Longrightarrow> same_context d1 d2 \<Longrightarrow> same_context d d2"
  by (simp add: same_context_def)

lemma fail_absent_rows:
  assumes "distinct (map run_id (db_runs (w_db w)))" and "r \<in> set (db_runs (w_db w))" and "run_status r = RunQueued"
  shows "same_context (w_db w) (w_db (fail_absent now r w)) \<and>
    db_runs (w_db (fail_absent now r w)) =
      map (\<lambda>x. if x = r \<and> absent (w_db w) now x then absent_row now x else x) (db_runs (w_db w))"
proof (cases "absent (w_db w) now r")
  case False
  then have "fail_absent now r w = w" using assms(3) by (auto simp: fail_absent_def absent_def)
  moreover have "map (\<lambda>x. if x = r \<and> absent (w_db w) now x then absent_row now x else x) (db_runs (w_db w)) = db_runs (w_db w)"
    using False by (intro map_idI) auto
  ultimately show ?thesis by (simp add: same_context_def)
next
  case True
  have find: "find_run (w_db w) (run_id r) = Some r"
    unfolding find_run_def by (rule tbl_get_unique [OF assms(1,2)]) simp
  have "RunFailed \<in> set (validTransitions RunQueued)" by simp
  then obtain d' where d': "TransitionRun (run_id r) RunQueued RunFailed (offline_failed now) (w_db w) = Inr d'"
    using find assms(3) by (auto simp: TransitionRun_iff)
  have rows: "db_runs d' = tbl_update (\<lambda>x. run_id x = run_id r) (write_back (offline_failed now (r\<lparr>run_status := RunFailed\<rparr>))) (db_runs (w_db w))"
    using d' find by (auto simp: TransitionRun_iff offline_failed_def Let_def)
  have only: "x \<in> set (db_runs (w_db w)) \<Longrightarrow> run_id x = run_id r \<longleftrightarrow> x = r" for x
    using assms(1,2) by (auto simp: distinct_map dest: inj_onD)
  have "db_runs d' = map (\<lambda>x. if x = r \<and> absent (w_db w) now x then absent_row now x else x) (db_runs (w_db w))"
    unfolding rows tbl_update_def using True only by (intro map_cong) (auto simp: absent_row_def)
  moreover have "fail_absent now r w = notify (run_id r) (drop_secrets (run_id r) (w\<lparr>w_db := d'\<rparr>))"
    using True d' by (auto simp: fail_absent_def absent_def)
  moreover have "db_agents d' = db_agents (w_db w)" "db_plans d' = db_plans (w_db w)" "db_restores d' = db_restores (w_db w)"
    using TransitionRun_frame [OF d'] by auto
  ultimately show ?thesis
    by (simp add: same_context_def) (simp add: drop_secrets_def DeleteRunSecrets_def)
qed

lemma fail_absent_all:
  assumes "distinct (map run_id (db_runs (w_db w)))" and "distinct rs"
    and "\<And>r. r \<in> set rs \<Longrightarrow> r \<in> set (db_runs (w_db w)) \<and> run_status r = RunQueued"
  shows "same_context (w_db w) (w_db (fold (fail_absent now) rs w)) \<and>
    db_runs (w_db (fold (fail_absent now) rs w)) =
      map (\<lambda>x. if x \<in> set rs \<and> absent (w_db w) now x then absent_row now x else x) (db_runs (w_db w))"
  using assms
proof (induction rs arbitrary: w)
  case Nil
  then show ?case by (simp add: same_context_def)
next
  case (Cons r rs)
  let ?w = "fail_absent now r w"
  let ?f = "\<lambda>x. if x = r \<and> absent (w_db w) now x then absent_row now x else x"
  from Cons.prems have step: "same_context (w_db w) (w_db ?w)" "db_runs (w_db ?w) = map ?f (db_runs (w_db w))"
    using fail_absent_rows [of w r now] by auto
  have ids: "distinct (map run_id (db_runs (w_db ?w)))"
  proof -
    have "map run_id (map ?f xs) = map run_id xs" for xs by (induction xs) auto
    with Cons.prems(1) show ?thesis by (simp only: step(2))
  qed
  have "x \<in> set (db_runs (w_db ?w)) \<and> run_status x = RunQueued" if "x \<in> set rs" for x
  proof -
    have "x \<noteq> r" using that Cons.prems(2) by auto
    then have "?f x = x" by simp
    with Cons.prems(3) [of x] that show ?thesis unfolding step(2) by force
  qed
  from Cons.IH [OF ids _ this] Cons.prems(2)
  have IH: "same_context (w_db ?w) (w_db (fold (fail_absent now) rs ?w))"
    "db_runs (w_db (fold (fail_absent now) rs ?w)) =
      map (\<lambda>x. if x \<in> set rs \<and> absent (w_db ?w) now x then absent_row now x else x) (db_runs (w_db ?w))" by auto
  have "absent_row now x \<notin> set rs" if "x \<in> set (db_runs (w_db w))" for x
    using Cons.prems(3) [of "absent_row now x"] by auto
  then have "map (\<lambda>x. if x \<in> set rs \<and> absent (w_db w) now x then absent_row now x else x) (map ?f (db_runs (w_db w))) =
      map (\<lambda>x. if x \<in> set (r # rs) \<and> absent (w_db w) now x then absent_row now x else x) (db_runs (w_db w))"
    by auto
  then show ?case
    using IH same_context_trans [OF step(1) IH(1)] by (simp add: step(2) same_context_absent [OF step(1)])
qed

lemma tickStaleQueued_rows:
  assumes "runs_ok (db_runs (sd_db s))"
  shows "same_context (sd_db s) (sd_db (tickStaleQueued now s)) \<and>
    db_runs (sd_db (tickStaleQueued now s)) =
      map (\<lambda>r. if absent (sd_db s) now r then absent_row now r else r) (db_runs (sd_db s))"
proof -
  let ?q = "ListRunsByStatus (sd_db s) [RunQueued]"
  have ids: "distinct (map run_id (db_runs (sd_db s)))" using assms by (simp add: runs_ok_def)
  then have "distinct ?q" by (simp add: ListRunsByStatus_def order_desc_def distinct_map)
  moreover have q: "r \<in> set ?q \<longleftrightarrow> r \<in> set (db_runs (sd_db s)) \<and> run_status r = RunQueued" for r
    by (auto simp: ListRunsByStatus_def)
  ultimately have "same_context (sd_db s) (w_db (fold (fail_absent now) ?q (sd_world s))) \<and>
    db_runs (w_db (fold (fail_absent now) ?q (sd_world s))) =
      map (\<lambda>x. if x \<in> set ?q \<and> absent (sd_db s) now x then absent_row now x else x) (db_runs (sd_db s))"
    using ids by (intro fail_absent_all) auto
  moreover have "map (\<lambda>x. if x \<in> set ?q \<and> absent (sd_db s) now x then absent_row now x else x) (db_runs (sd_db s)) =
      map (\<lambda>r. if absent (sd_db s) now r then absent_row now r else r) (db_runs (sd_db s))"
    using q by (intro map_cong) (auto simp: absent_def)
  ultimately show ?thesis by (simp add: tickStaleQueued_def on_world_def)
qed

section \<open>Lemmas: recognising retention runs\<close>

lemma trim_left_keeps: "list_all (\<lambda>r. r \<noteq> [] \<and> hd r \<noteq> c) rs \<Longrightarrow> trim_left rs (c # t) = c # t"
proof -
  assume rs: "list_all (\<lambda>r. r \<noteq> [] \<and> hd r \<noteq> c) rs"
  have "List.find (HasPrefix (c # t)) rs = None"
    using rs by (auto simp: find_None_iff HasPrefix_def list_all_iff neq_Nil_conv dest!: bspec)
  then show ?thesis by (subst trim_left.simps) (simp add: leading_space_def)
qed

lemma TrimSpace_object: "TrimSpace (CHR 0x7B # t @ [CHR 0x7D]) = CHR 0x7B # t @ [CHR 0x7D]"
  unfolding TrimSpace_def by (subst trim_left_keeps, simp add: space_runes_def)
    (simp, subst trim_left_keeps, simp_all add: space_runes_def)

lemma keyed_params:
  assumes "CHR 0x00 \<notin> set a" and "CHR 0x00 \<notin> set p" and "marshalled (JObj ms)"
  shows "dedupKeyParams (systemRunDedupKey a p oper (JObj ms) []) = json_text (JObj ms)"
proof -
  have "SplitChar (CHR 0x00) (systemRunDedupKey a p oper (JObj ms) []) = [''sys'', op_text oper, a, p, json_text (JObj ms)]"
    using assms(1,2) nul_json_text [OF assms(3)] op_text_no_nul [of oper]
    by (simp add: systemRunDedupKey_def nul_def SplitChar_append SplitChar_no del: json_text.simps)
  then show ?thesis by (simp add: dedupKeyParams_def TrimSpace_object HasPrefix_def)
qed

lemma keyed_document:
  assumes "CHR 0x00 \<notin> set a" and "CHR 0x00 \<notin> set p" and "marshalled (JObj ms)" and "whole (JObj ms)"
  shows "parse_json (dedupKeyParams (systemRunDedupKey a p oper (JObj ms) [])) = JObj ms"
  by (simp only: keyed_params [OF assms(1-3)] parse_json_text [OF assms(4)])

lemma decode_retention_json: "decode_retention (retention_json r) = Some r"
  by (cases r) (simp add: decode_retention_def retention_json_def omit_int_def field_int_def obj_get_def)

lemma forget_task_retention: "forget_retention (ForgetTask i k p r ts b c ss) = Some r"
  using decode_strings_map
  by (simp add: forget_retention_def ForgetTask_def field_of_def field_string_def field_strings_def field_bool_def obj_get_def
      omit_list_def omit_bool_def strings_json_def RepoAccess_def decode_access_def decode_retention_json)

lemma forget_task_whole: "whole (ForgetTask i k p r ts b c ss)"
  by (auto simp: task_defs list_all_iff)

lemma keyed_retention:
  assumes "CHR 0x00 \<notin> set a" and "CHR 0x00 \<notin> set p"
    and "run_dedup_key x = systemRunDedupKey a p OpForget (ForgetTask i k path r ts b c ss) []"
  shows "forgetRunIsRetention x \<longleftrightarrow> shows_retention (run_progress x) \<or> keeps_some r"
proof -
  obtain ms where ms: "ForgetTask i k path r ts b c ss = JObj ms" by (simp add: ForgetTask_def)
  have "marshalled (JObj ms)" "whole (JObj ms)" using tasks_marshalled(5) forget_task_whole by (metis ms)+
  then have "parse_json (dedupKeyParams (run_dedup_key x)) = ForgetTask i k path r ts b c ss"
    using keyed_document [OF assms(1,2)] assms(3) by (simp add: ms)
  then show ?thesis by (simp add: forgetRunIsRetention_def shows_retention_def forget_task_retention)
qed

section \<open>Properties\<close>

text \<open>C18: A plan's slots are fired one after the other and none of them twice, as long as the process lives:
  whatever happens to the database, to the agent or to the plan's expression and zone between two
  ticks, the slots for which runs are started strictly increase, and each was due when its tick
  came.  (The clock does not go back, and the next slot of an expression lies after the given
  moment or does not exist.)\<close>

theorem no_slot_fires_twice:
  assumes "later_slots cr" and "list_all (tick_ok pid) ts" and "sorted_wrt (\<le>) (map fst ts)"
  shows "sorted_wrt (<) (fired_slots cr st ts s) \<and> distinct (fired_slots cr st ts s) \<and>
    (\<forall>t\<in>set (fired_slots cr st ts s). \<exists>tk\<in>set ts. t \<le> fst tk)"
  using fired_slots_sorted [OF assms, of st s] fired_slots_past [of _ cr st ts s]
  by (auto dest: strict_sorted_imp_sorted simp: strict_sorted_iff)

text \<open>An hourly expression: the server was away over three slots, and only the oldest of them is fired.\<close>

definition hourly :: cron where
  "hourly = \<lparr>cr_parses = (\<lambda>_. True), cr_zone = (\<lambda>_. True), cr_next = (\<lambda>_ _ t. (t div hours 1 + 1) * hours 1)\<rparr>"

definition idle_starter :: "'c starter" where
  "idle_starter = \<lparr>st_plan = (\<lambda>_ _ w. (None, w)), st_check = (\<lambda>_ w. (None, w)), st_retention = None, st_cleanup = None\<rparr>"

lemma hourly_later: "later_slots hourly"
proof -
  have "t < (t div hours 1 + 1) * hours 1" for t
    by (simp add: hours_def minutes_def seconds_def nano_def)
  then show ?thesis by (simp add: later_slots_def hourly_def)
qed

definition agentless_plan :: plan where "agentless_plan = (sample_plan ''x1'')\<lparr>plan_agent_id := []\<rparr>"

theorem no_slot_fires_twice_witness:
  "fired_slots hourly idle_starter
     [(hours 5, agentless_plan, \<lambda>s. s), (hours 5 + 1, agentless_plan, \<lambda>s. s), (hours 9, agentless_plan, \<lambda>s. s), (hours 9 + 1, agentless_plan, \<lambda>s. s)]
     (New_scheduler 0 (start_world (empty_db\<lparr>db_cursors := [(''x1'', hours 2)]\<rparr>)) :: nat sched) = [hours 2, hours 6] \<and>
   distinct (fired_slots hourly idle_starter
     [(hours 5, agentless_plan, \<lambda>s. s), (hours 5 + 1, agentless_plan, \<lambda>s. s), (hours 9, agentless_plan, \<lambda>s. s), (hours 9 + 1, agentless_plan, \<lambda>s. s)]
     (New_scheduler 0 (start_world (empty_db\<lparr>db_cursors := [(''x1'', hours 2)]\<rparr>)) :: nat sched))"
proof -
  let ?ts = "[(hours 5, agentless_plan, \<lambda>s. s), (hours 5 + 1, agentless_plan, \<lambda>s. s), (hours 9, agentless_plan, \<lambda>s. s),
    (hours 9 + 1, agentless_plan, \<lambda>s. s)] :: (instant \<times> plan \<times> (nat sched \<Rightarrow> nat sched)) list"
  let ?s = "New_scheduler 0 (start_world (empty_db\<lparr>db_cursors := [(''x1'', hours 2)]\<rparr>)) :: nat sched"
  have ok: "list_all (tick_ok ''x1'') ?ts" by (simp add: tick_ok_def agentless_plan_def sample_plan_def)
  have order: "sorted_wrt (\<le>) (map fst ?ts)" by (simp add: hours_def minutes_def seconds_def nano_def)
  have "fired_slots hourly idle_starter ?ts ?s = [hours 2, hours 6]"
    by (simp add: fired_slot_def fires_def due_slot_def awaited_slot_def tickPlan_def hourly_def idle_starter_def agentless_plan_def
        sample_plan_def New_scheduler_def start_world_def GetScheduleCursor_def zero_time_def cursorKey_def
        hours_def minutes_def seconds_def nano_def)
  with no_slot_fires_twice [OF hourly_later ok order, of idle_starter ?s] show ?thesis by simp
qed

text \<open>A tick fails exactly the queued runs that have waited for their timeout (that of the plan, or five
  minutes) and whose agent is not online or does not exist; they end with the code
  \<open>agent_unavailable\<close>.  Every other run keeps its row.\<close>

theorem absent_agents_runs_fail_and_no_other:
  assumes "runs_ok (db_runs (sd_db s))"
  shows "db_runs (sd_db (tickStaleQueued now s)) =
      map (\<lambda>r. if run_status r = RunQueued \<and> run_queued_at r + queue_timeout (sd_db s) r \<le> now \<and> agentOffline (sd_db s) (run_agent_id r)
               then r\<lparr>run_status := RunFailed, run_error_code := ''agent_unavailable'',
                      run_error_message := ''agent offline past timeout'', run_finished_at := Some (sec now),
                      run_started_at := map_option sec (run_started_at r),
                      run_lease_expires_at := map_option sec (run_lease_expires_at r)\<rparr>
               else r) (db_runs (sd_db s))"
proof -
  have "absent_row now r = r\<lparr>run_status := RunFailed, run_error_code := ''agent_unavailable'',
      run_error_message := ''agent offline past timeout'', run_finished_at := Some (sec now),
      run_started_at := map_option sec (run_started_at r), run_lease_expires_at := map_option sec (run_lease_expires_at r)\<rparr>" for r
    by (simp add: absent_row_def write_back_def offline_failed_def)
  with tickStaleQueued_rows [OF assms, of now] show ?thesis by (simp add: absent_def)
qed

definition absent_sched :: "nat sched" where
  "absent_sched = New_scheduler 0 (start_world (empty_db\<lparr>db_runs := [sample_run ''r1'' OpRestore RunQueued, sample_run ''r2'' OpCheck RunRunning],
     db_restores := [sample_request ''q1'' ''r1'' KindFilesystem RestorePhaseQueued]\<rparr>))"

lemma absent_sched_db [simp]:
  "sd_db absent_sched = empty_db\<lparr>db_runs := [sample_run ''r1'' OpRestore RunQueued, sample_run ''r2'' OpCheck RunRunning],
     db_restores := [sample_request ''q1'' ''r1'' KindFilesystem RestorePhaseQueued]\<rparr>"
  by (simp add: absent_sched_def New_scheduler_def start_world_def)

lemma absent_sched_ok: "runs_ok (db_runs (sd_db absent_sched))"
  by (simp add: runs_ok_def holds_slot_def holds_key_def)

theorem absent_agents_runs_fail_and_no_other_witness:
  "map run_status (db_runs (sd_db (tickStaleQueued (seconds 300) absent_sched))) = [RunFailed, RunRunning]"
  using absent_agents_runs_fail_and_no_other [OF absent_sched_ok, of "seconds 300"]
  by (simp add: queue_timeout_def defaultTimeout_def sample_run_def agentOffline_def GetAgent_def find_agent_def)

text \<open>A run that applies a retention policy is recognised by its deduplication key alone, whatever has been
  written over its parameters since; the run that initialises a repository, or deletes snapshots, is
  not taken for one unless its progress shows a policy.\<close>

theorem retention_runs_are_recognised_by_their_key:
  assumes "CHR 0x00 \<notin> set agentID" and "CHR 0x00 \<notin> set repositoryID"
    and "run_dedup_key r = systemRunDedupKey agentID repositoryID OpForget
           (ForgetTask planID k path policy tags prune deleteAll ids) []"
  shows "forgetRunIsRetention r \<longleftrightarrow>
     keep_last policy + keep_daily policy + keep_weekly policy + keep_monthly policy > 0 \<or> shows_retention (run_progress r)"
  using keyed_retention [OF assms] by (auto simp: keeps_some_def)

theorem retention_runs_are_recognised_by_their_key_witness:
  "forgetRunIsRetention ((sample_run ''r1'' OpForget RunRunning)\<lparr>run_dedup_key :=
       systemRunDedupKey ''a1'' ''p1'' OpForget (ForgetTask ''x1'' ''filesystem'' ''r:p'' (no_retention\<lparr>keep_last := 3\<rparr>) [''plan:x1''] False False []) []\<rparr>) \<and>
   \<not> forgetRunIsRetention ((sample_run ''r1'' OpForget RunRunning)\<lparr>run_dedup_key :=
       systemRunDedupKey ''a1'' ''p1'' OpForget (ForgetTask ''x1'' ''filesystem'' ''r:p'' no_retention [] True False [''s1'']) []\<rparr>)"
proof -
  let ?kept = "ForgetTask ''x1'' ''filesystem'' ''r:p'' (no_retention\<lparr>keep_last := 3\<rparr>) [''plan:x1''] False False []"
  let ?deleted = "ForgetTask ''x1'' ''filesystem'' ''r:p'' no_retention [] True False [''s1'']"
  let ?run = "\<lambda>task. (sample_run ''r1'' OpForget RunRunning)\<lparr>run_dedup_key := systemRunDedupKey ''a1'' ''p1'' OpForget task []\<rparr>"
  have none: "\<not> shows_retention (run_progress (?run task))" for task
    by (simp add: sample_run_def shows_retention_def forget_retention_def json_braces_def field_of_def decode_access_def
        decode_retention_def no_retention_def keeps_some_def field_string_def field_strings_def field_bool_def)
  have "run_dedup_key (?run task) = systemRunDedupKey ''a1'' ''p1'' OpForget task []" for task by simp
  note key = this
  have ids: "CHR 0x00 \<notin> set ''a1''" "CHR 0x00 \<notin> set ''p1''" by simp_all
  have "forgetRunIsRetention (?run ?kept)"
    using retention_runs_are_recognised_by_their_key [OF ids key] by (simp add: no_retention_def)
  moreover have "\<not> forgetRunIsRetention (?run ?deleted)"
    using retention_runs_are_recognised_by_their_key [OF ids key] none by (simp add: no_retention_def)
  ultimately show ?thesis by blast
qed

text \<open>C37: A restore that waits in the queue while its agent stays away is failed by the scheduler like any other
  run, but its restore request stays queued.  The request then blocks every other run of the
  repository and cannot be resolved by the operator.\<close>

theorem offline_timeout_strands_restore:
  assumes ok: "runs_ok (db_runs (sd_db s))" "restores_ok (db_runs (sd_db s)) (db_restores (sd_db s))"
    and run: "find_run (sd_db s) rid = Some r" "absent (sd_db s) now r" "run_repository_id r \<noteq> []"
    and rr: "rr \<in> set (db_restores (sd_db s))" "rr_run_id rr = rid" "rr_phase rr = RestorePhaseQueued"
  shows "map_option run_status (find_run (sd_db (tickStaleQueued now s)) rid) = Some RunFailed \<and>
    (\<forall>other. other \<noteq> rid \<longrightarrow> RepositoryRestoreBlocked (sd_db (tickStaleQueued now s)) (run_repository_id r) other) \<and>
    ResolveRestoreRequest newid (rr_id rr) [] actor text at (sd_db (tickStaleQueued now s)) = Inl ErrRestoreConflict"
proof -
  let ?d = "sd_db (tickStaleQueued now s)"
  note rows = tickStaleQueued_rows [OF ok(1), of now]
  then have same: "db_restores ?d = db_restores (sd_db s)" by (simp add: same_context_def)
  have r: "r \<in> set (db_runs (sd_db s))" "run_id r = rid" using find_run_in [OF run(1)] by simp_all
  have "absent_row now r \<in> set (db_runs ?d)" using rows r(1) run(2) by force
  moreover have "map run_id (db_runs ?d) = map run_id (db_runs (sd_db s))" using rows by (auto simp: comp_def)
  then have "distinct (map run_id (db_runs ?d))" using ok(1) by (simp only: runs_ok_def)
  ultimately have find: "find_run ?d rid = Some (absent_row now r)"
    unfolding find_run_def using r(2) by (intro tbl_get_unique) auto
  have "restore_of_repo ?d (run_repository_id r) rr"
    using find rr run(3) by (simp add: restore_of_repo_def absent_row_def offline_failed_def null_eq_def not_safe RestorePhaseReleasesOccupancy_def)
  then have "RepositoryRestoreBlocked ?d (run_repository_id r) other" if "other \<noteq> rid" for other
    using rr(1,2) that by (auto simp: RepositoryRestoreBlocked_def list_ex_iff same)
  moreover have "find_restore ?d (rr_id rr) = Some rr"
    using find_restore_unique [OF ok(2) rr(1)] by (simp add: find_restore_def same)
  with rr(3) have "ResolveRestoreRequest newid (rr_id rr) [] actor text at ?d = Inl ErrRestoreConflict"
    by (simp add: ResolveRestoreRequest_def)
  ultimately show ?thesis using find by simp
qed

theorem offline_timeout_strands_restore_witness:
  "RepositoryRestoreBlocked (sd_db (tickStaleQueued (seconds 300) absent_sched)) ''p1'' ''r2'' \<and>
   ResolveRestoreRequest ''e1'' ''q1'' [] ''admin'' ''why'' (seconds 301) (sd_db (tickStaleQueued (seconds 300) absent_sched)) = Inl ErrRestoreConflict"
proof -
  let ?r = "sample_run ''r1'' OpRestore RunQueued" and ?q = "sample_request ''q1'' ''r1'' KindFilesystem RestorePhaseQueued"
  have rest: "restores_ok (db_runs (sd_db absent_sched)) (db_restores (sd_db absent_sched))" by (simp add: restores_ok_def)
  have run: "find_run (sd_db absent_sched) ''r1'' = Some ?r" by (simp add: find_run_def)
  have gone: "absent (sd_db absent_sched) (seconds 300) ?r"
    by (simp add: absent_def queue_timeout_def defaultTimeout_def agentOffline_def GetAgent_def find_agent_def)
      (simp add: sample_run_def)
  have q: "?q \<in> set (db_restores (sd_db absent_sched))" "rr_run_id ?q = ''r1''" "rr_phase ?q = RestorePhaseQueued" by simp_all
  show ?thesis
    using offline_timeout_strands_restore [OF absent_sched_ok rest run gone _ q, of "''e1''" "''admin''" "''why''" "seconds 301"]
    by simp
qed

text \<open>A retention run that failed does not count towards the daily limit: while every forget run of the
  repository has failed, each tick starts the next attempt, unless a backup is active or the agent
  is gone.\<close>

theorem failed_retention_is_started_again:
  assumes "\<forall>r\<in>set (db_runs (sd_db s)). run_operation r = OpForget \<longrightarrow> run_status r = RunFailed"
    and "\<not> agentOffline (sd_db s) (repo_agent_id repo)" and "\<not> backup_active (sd_db s) (repo_id repo)"
  shows "maintain_repository start clk now repo s = on_world (\<lambda>w. snd (start (repo_id repo) w)) s"
proof -
  have "ListRuns (sd_db s) (forget_filter (repo_id repo)) = []"
    using assms(1) by (auto simp: ListRuns_def forget_filter_def run_matches_def order_desc_def filter_empty_conv)
  with assms(2,3) show ?thesis by (simp add: maintain_repository_def retention_recent_def)
qed

end
