(* ===== verification/Agent_Service.thy ===== *)
theory Agent_Service
  imports Jobs_Runs
begin

text \<open>
  The control service for agents (\<open>agentreg/service.go\<close>): enrolment, the opening of a stream, the
  messages an agent sends, the loss of a stream and the detection of silent agents.

  Hashes (\<open>secrets.HashToken\<close>) and the server's own version are arguments.  Metrics are left out.
\<close>

section \<open>Messages\<close>

datatype rpc_err =
    InvalidArgument | PermissionDenied | Internal | FailedPrecondition | RpcNotFound
  | Unauthenticated | RpcStore store_err | UnknownResult

record enroll_request =
  enr_secret :: string
  enr_token :: string
  enr_target_agent_id :: string
  enr_hostname :: string
  enr_os :: string
  enr_arch :: string
  enr_version :: string

record hello =
  hel_hostname :: string
  hel_os :: string
  hel_arch :: string
  hel_version :: string

record capabilities_report =
  cap_tools :: "tool_info list"
  cap_source_mappings :: "path_mapping list"
  cap_restore_mappings :: "path_mapping list"
  cap_safe_database_restore :: bool

record run_progress_msg =
  rp_run_id :: string
  rp_phase :: string
  rp_percent :: json
  rp_bytes_done :: int
  rp_bytes_total :: int
  rp_files_done :: int
  rp_files_total :: int
  rp_detail_json :: json

datatype log_level = LvlDebug | LvlInfo | LvlWarn | LvlError

record log_entry =
  le_seq :: "64 word"
  le_timestamp_nanos :: int
  le_level :: log_level
  le_message :: string
  le_source :: string

datatype result_status = STATUS_UNSPECIFIED | SUCCEEDED | FAILED | CANCELLED

record run_result =
  res_run_id :: string
  res_status :: result_status
  res_error_code :: string
  res_error_message :: string
  res_snapshot_ids :: "string list"
  res_result_json :: json

datatype agent_message =
    Heartbeat
  | CapabilitiesReport capabilities_report
  | CommandAccepted string
  | RunProgress run_progress_msg
  | RunLogBatch string "log_entry list"
  | RunResult run_result
  | UnknownMessage

section \<open>Enrolment\<close>

definition hex_encode :: "string \<Rightarrow> string" where
  "hex_encode s = concat (map (\<lambda>c. [hex_digit (of_char c div 16), hex_digit (of_char c mod 16)]) s)"

definition new_agent :: "string \<Rightarrow> instant \<Rightarrow> string \<Rightarrow> enroll_request \<Rightarrow> agent" where
  "new_agent agentID now secretHash req =
     \<lparr>agt_id = agentID, agt_name = (if enr_hostname req = [] then take 8 agentID else enr_hostname req),
      agt_hostname = enr_hostname req, agt_os = enr_os req, agt_arch = enr_arch req, agt_version = enr_version req,
      agt_status = AgentOffline, agt_last_seen_at = None, agt_enrolled_at = now, agt_token_hash = secretHash,
      agt_capabilities = [], agt_source_mappings = [], agt_restore_mappings = [],
      agt_safe_database_restore = False, agt_revoked = False\<rparr>"

definition Enroll ::
    "(string \<Rightarrow> string) \<Rightarrow> string \<Rightarrow> instant \<Rightarrow> enroll_request \<Rightarrow> 'c world \<Rightarrow> (rpc_err + string) \<times> 'c world" where
  "Enroll hash agentID now req w =
     (if length (enr_secret req) \<noteq> 32 then (Inl InvalidArgument, w)
      else case ConsumeEnrollmentToken (hash (enr_token req)) now (w_db w) of
        Inl e \<Rightarrow> (Inl (if e = ErrTokenInvalid then PermissionDenied else Internal), w)
      | Inr (et, d1) \<Rightarrow>
          let w1 = w\<lparr>w_db := d1\<rparr>;
              targetID = enr_target_agent_id req;
              secretHash = hash (hex_encode (enr_secret req))
          in if tok_target_agent_id et \<noteq> targetID then (Inl PermissionDenied, w1)
             else if targetID \<noteq> [] then
               (if Connected (w_reg w1) targetID then (Inl FailedPrecondition, w1)
                else if list_ex (\<lambda>r. run_agent_id r = targetID) (ListRunsByStatus d1 [RunDispatched, RunRunning])
                then (Inl FailedPrecondition, w1)
                else case ReEnrollAgent targetID secretHash now d1 of
                  Inl e \<Rightarrow>
                    (Inl (if err_text e = ''agent_revoked'' then PermissionDenied
                          else if e = ErrNotFound then RpcNotFound else Internal), w1)
                | Inr d2 \<Rightarrow> (Inr targetID, w1\<lparr>w_db := d2, w_reg := Unregister targetID (w_reg w1)\<rparr>))
             else case UpsertAgentOnConnect (new_agent agentID now secretHash req) d1 of
               Inl _ \<Rightarrow> (Inl Internal, w1)
             | Inr d2 \<Rightarrow> (Inr agentID, w1\<lparr>w_db := d2\<rparr>))"

section \<open>Opening a stream\<close>

definition authenticate :: "(string \<Rightarrow> string) \<Rightarrow> db \<Rightarrow> string \<Rightarrow> string \<Rightarrow> rpc_err + agent" where
  "authenticate hash d agentID secret =
     (case GetAgent d agentID of
        Inl e \<Rightarrow> Inl (if e = ErrNotFound then PermissionDenied else Internal)
      | Inr a \<Rightarrow>
          if agt_token_hash a \<noteq> hash secret then Inl PermissionDenied
          else if agt_revoked a then Inl PermissionDenied
          else Inr a)"

text \<open>\<open>Inr mismatch\<close>: the stream is welcome, with or without the warning on the minor version.\<close>

definition negotiate :: "string \<Rightarrow> string \<Rightarrow> rpc_err + bool" where
  "negotiate serverVersion clientVersion =
     (case (PartsFromString serverVersion, PartsFromString clientVersion) of
        (Some (sm, sn, _), Some (cm, cn, _)) \<Rightarrow>
          if sm \<noteq> cm then Inl PermissionDenied else Inr (sn \<noteq> cn)
      | _ \<Rightarrow> Inr True)"

text \<open>The part of \<open>Connect\<close> up to the registration of the stream, and from the Hello to the receive loop.\<close>

definition openStream :: "(string \<Rightarrow> string) \<Rightarrow> string \<Rightarrow> string \<Rightarrow> 'c world \<Rightarrow> (rpc_err + (nat \<times> agent)) \<times> 'c world" where
  "openStream hash agentID secret w =
     (case authenticate hash (w_db w) agentID secret of
        Inl e \<Rightarrow> (Inl e, w)
      | Inr a \<Rightarrow> (case Register agentID (w_reg w) of (c, r') \<Rightarrow> (Inr (c, a), w\<lparr>w_reg := r'\<rparr>)))"

definition greet :: "string \<Rightarrow> instant \<Rightarrow> agent \<Rightarrow> hello \<Rightarrow> 'c world \<Rightarrow> (rpc_err + bool) \<times> 'c world" where
  "greet serverVersion now a h w =
     (case negotiate serverVersion (hel_version h) of
        Inl e \<Rightarrow> (Inl e, w)
      | Inr mismatch \<Rightarrow>
          (Inr mismatch,
           case UpsertAgentOnConnect (a\<lparr>agt_status := AgentOnline, agt_hostname := hel_hostname h, agt_os := hel_os h,
                  agt_arch := hel_arch h, agt_version := hel_version h, agt_last_seen_at := Some now\<rparr>) (w_db w) of
             Inl _ \<Rightarrow> w | Inr d' \<Rightarrow> w\<lparr>w_db := d'\<rparr>))"

section \<open>Message handlers\<close>

definition heartbeatThrottle :: int where "heartbeatThrottle = seconds 10"
definition offlineThreshold :: int where "offlineThreshold = seconds 90"

definition appendServerRunLog :: "instant \<Rightarrow> string \<Rightarrow> string \<Rightarrow> string \<Rightarrow> 'c world \<Rightarrow> 'c world" where
  "appendServerRunLog now rid level msg w =
     (case AppendRunLogs [dispatch_entry now rid level msg] (w_db w) of
        Inl _ \<Rightarrow> w
      | Inr (out, d') \<Rightarrow>
          w\<lparr>w_db := d', w_events := w_events w @ map (\<lambda>l. (rid, LogEvent l)) (filter (\<lambda>l. rlog_id l \<noteq> 0) out)\<rparr>)"

definition terminalRunLog :: "run \<Rightarrow> string \<times> string" where
  "terminalRunLog r =
     (case run_status r of
        RunSucceeded \<Rightarrow> (''info'', if run_snapshot_id r \<noteq> [] then ''run succeeded, snapshot '' @ run_snapshot_id r else ''run succeeded'')
      | RunFailed \<Rightarrow> (''error'', ''run failed: ['' @ run_error_code r @ '']'' @
            (if run_error_message r \<noteq> [] then '' '' @ run_error_message r else []))
      | _ \<Rightarrow> (''warn'', ''run cancelled''))"

definition handleHeartbeat :: "instant \<Rightarrow> string \<Rightarrow> 'c world \<Rightarrow> 'c world" where
  "handleHeartbeat now agentID w =
     (if (case w_last_seen w agentID of None \<Rightarrow> False | Some t \<Rightarrow> now - t < heartbeatThrottle) then w
      else w\<lparr>w_last_seen := (w_last_seen w)(agentID \<mapsto> now), w_db := SetAgentStatus agentID AgentOnline now (w_db w)\<rparr>)"

definition handleCapabilities :: "instant \<Rightarrow> nat \<Rightarrow> string \<Rightarrow> capabilities_report \<Rightarrow> 'c world \<Rightarrow> 'c world" where
  "handleCapabilities now c agentID rep w =
     w\<lparr>w_reg := snd (ReportCapabilities agentID c (cap_safe_database_restore rep) (w_reg w)),
       w_db := SaveAgentCapabilities agentID (cap_tools rep) (cap_source_mappings rep) (cap_restore_mappings rep)
                 (cap_safe_database_restore rep) now (w_db w)\<rparr>"

text \<open>What every handler of a run does first: an unknown run is ignored, a run of another agent refused.\<close>

definition own_run :: "string \<Rightarrow> string \<Rightarrow> (run \<Rightarrow> 'c world \<Rightarrow> rpc_err option \<times> 'c world) \<Rightarrow> 'c world \<Rightarrow> rpc_err option \<times> 'c world" where
  "own_run agentID rid handle w =
     (case GetRun (w_db w) rid of
        Inl e \<Rightarrow> (if e = ErrNotFound then None else Some (RpcStore e), w)
      | Inr run \<Rightarrow> if run_agent_id run \<noteq> agentID then (Some PermissionDenied, w) else handle run w)"

definition accepted_run :: "instant \<Rightarrow> run \<Rightarrow> run" where
  "accepted_run now r = r\<lparr>run_started_at := Some now, run_lease_expires_at := None\<rparr>"

definition handleCommandAccepted :: "instant \<Rightarrow> string \<Rightarrow> string \<Rightarrow> 'c world \<Rightarrow> rpc_err option \<times> 'c world" where
  "handleCommandAccepted now agentID rid =
     own_run agentID rid (\<lambda>run w.
       if run_status run = RunDispatched then
         (case TransitionRun rid RunDispatched RunRunning (accepted_run now) (w_db w) of
            Inl e \<Rightarrow> (Some (RpcStore e), w)
          | Inr d1 \<Rightarrow>
              let d2 = (if run_operation run = OpRestore then UpdateRestorePhase rid RestorePhaseRunning d1 else d1)
              in (None, appendServerRunLog now rid ''info'' ''the agent accepted the task'' (w\<lparr>w_db := d2\<rparr>)))
       else (None, w))"

definition progress_json :: "run_progress_msg \<Rightarrow> json" where
  "progress_json p =
     JObj (omitempty ''phase'' (rp_phase p) @ (if rp_percent p = JNum 0 then [] else [(''percent'', rp_percent p)]) @
           omit_int ''bytes_done'' (rp_bytes_done p) @ omit_int ''bytes_total'' (rp_bytes_total p) @
           omit_int ''files_done'' (rp_files_done p) @ omit_int ''files_total'' (rp_files_total p))"

definition decode_rollback :: "json \<Rightarrow> string" where
  "decode_rollback j =
     (case j of JObj ms \<Rightarrow> or_zero [] (field_string ''rollback_snapshot_id'' ms) | _ \<Rightarrow> [])"

definition handleRunProgress :: "string \<Rightarrow> run_progress_msg \<Rightarrow> 'c world \<Rightarrow> rpc_err option \<times> 'c world" where
  "handleRunProgress agentID p =
     own_run agentID (rp_run_id p) (\<lambda>run w.
       let rid = rp_run_id p;
           d1 = UpdateRunProgress rid (progress_json p) (w_db w);
           d2 = (if run_operation run = OpRestore \<and> rp_detail_json p \<noteq> json_none \<and> decode_rollback (rp_detail_json p) \<noteq> []
                 then UpdateRestoreRollbackSnapshot rid (decode_rollback (rp_detail_json p)) d1 else d1);
           d3 = (if run_operation run = OpRestore \<and> rp_phase p \<noteq> []
                 then UpdateRestorePhase rid (phase_of_text (rp_phase p)) d2 else d2)
       in (None, publish rid (ProgressEvent (progress_json p)) (w\<lparr>w_db := d3\<rparr>)))"

definition level_text :: "log_level \<Rightarrow> string" where
  "level_text l = (case l of LvlDebug \<Rightarrow> ''debug'' | LvlWarn \<Rightarrow> ''warn'' | LvlError \<Rightarrow> ''error'' | LvlInfo \<Rightarrow> ''info'')"

definition runLogSource :: "string \<Rightarrow> log_source" where
  "runLogSource s = (if s = ''server'' then RunLogSourceServer else RunLogSourceAgent)"

definition ClassifyType :: "string \<Rightarrow> string" where
  "ClassifyType message =
     (let l = ToLower (TrimSpace message) in
      if Contains l ''http request'' then ''http''
      else if Contains l ''scheduler:'' then ''scheduler''
      else if Contains l ''dispatcher:'' then ''dispatcher''
      else if Contains l ''notification'' then ''notification''
      else if HasPrefix l ''[run '' \<or> HasPrefix l ''run '' \<or> Contains l '' run '' then ''run''
      else if Contains l ''execute command'' \<or> Contains l ''cancel command'' then ''command''
      else if Contains l ''connected'' \<or> Contains l ''disconnected'' \<or> Contains l ''reconnecting'' \<or>
              Contains l ''welcome'' \<or> Contains l ''heartbeat'' \<or> Contains l ''capabilities'' then ''connection''
      else if HasPrefix l ''agent '' \<or> Contains l '' agent '' then ''agent''
      else ''system'')"

definition handleAgentLogBatch :: "instant \<Rightarrow> string \<Rightarrow> log_entry list \<Rightarrow> 'c world \<Rightarrow> rpc_err option \<times> 'c world" where
  "handleAgentLogBatch now agentID entries w =
     (case AppendAgentLogs agentID
             (map (\<lambda>e. \<lparr>slog_id = 0, slog_agent_id = [], slog_source_seq = le_seq e,
                    slog_timestamp = (if le_timestamp_nanos e = 0 then now else le_timestamp_nanos e),
                    slog_type = ClassifyType (le_message e), slog_level = level_text (le_level e),
                    slog_message = le_message e\<rparr>) entries) (w_db w) of
        Inl e \<Rightarrow> (Some (RpcStore e), w) | Inr d' \<Rightarrow> (None, w\<lparr>w_db := d'\<rparr>))"

definition handleRunLogBatch :: "instant \<Rightarrow> string \<Rightarrow> string \<Rightarrow> log_entry list \<Rightarrow> 'c world \<Rightarrow> rpc_err option \<times> 'c world" where
  "handleRunLogBatch now agentID rid entries w =
     (if entries = [] then (None, w)
      else if rid = [] then handleAgentLogBatch now agentID entries w
      else own_run agentID rid (\<lambda>run w.
        case AppendRunLogs (map (\<lambda>e. \<lparr>rlog_id = 0, rlog_source = runLogSource (le_source e), rlog_source_seq = le_seq e,
                 rlog_run_id = rid, rlog_timestamp = le_timestamp_nanos e, rlog_level = level_text (le_level e),
                 rlog_message = le_message e\<rparr>) entries) (w_db w) of
          Inl e \<Rightarrow> (Some (RpcStore e), w)
        | Inr (out, d') \<Rightarrow>
            (None, w\<lparr>w_db := d', w_events := w_events w @ map (\<lambda>l. (rid, LogEvent l)) (filter (\<lambda>l. rlog_id l \<noteq> 0) out)\<rparr>)) w)"

section \<open>The result of a run\<close>

definition CodeRollbackFailed :: string where "CodeRollbackFailed = ''rollback_failed''"

definition decode_outcome :: "json \<Rightarrow> string \<times> string" where
  "decode_outcome j =
     (case j of
        JObj ms \<Rightarrow>
          (case (field_string ''phase'' ms, field_string ''rollback_snapshot_id'' ms) of
             (Some ph, Some snap) \<Rightarrow> (ph, snap) | _ \<Rightarrow> ([], []))
      | _ \<Rightarrow> ([], []))"

definition trusted_phases :: "restore_phase list" where
  "trusted_phases = [RestorePhaseSucceeded, RestorePhaseFailed, RestorePhasePreBackupFailed, RestorePhaseRolledBack,
     RestorePhaseNewTargetCleaned, RestorePhaseRollbackFailed, RestorePhaseManualRecoveryNeeded]"

text \<open>The phase, the protecting snapshot and the error code of a restore result.\<close>

definition restoreResultOutcome :: "run_result \<Rightarrow> run_status \<Rightarrow> restore_phase \<times> string \<times> string" where
  "restoreResultOutcome res toStatus =
     (let (reported, rollback) = decode_outcome (res_result_json res);
          code = res_error_code res
      in if phase_of_text reported \<in> set trusted_phases then (phase_of_text reported, rollback, code)
         else if toStatus = RunFailed \<or> toStatus = RunCancelled
         then (RestorePhaseManualRecoveryNeeded, rollback, if code = [] then CodeRollbackFailed else code)
         else (RestorePhaseSucceeded, rollback, code))"

definition isRepositoryInitRun :: "run \<Rightarrow> bool" where
  "isRepositoryInitRun r \<longleftrightarrow>
     run_operation r = OpForget \<and> run_repository_id r \<noteq> [] \<and>
     (case run_progress r of
        JObj ms \<Rightarrow>
          field_bool ''restic_init'' ms = Some True \<and>
          (case obj_get ''repository'' ms of
             None \<Rightarrow> True | Some JNull \<Rightarrow> True
           | Some (JObj rs) \<Rightarrow> field_string ''repository_path'' rs \<noteq> None \<and> field_string ''cache_dir'' rs \<noteq> None
           | Some _ \<Rightarrow> False)
      | _ \<Rightarrow> False)"

definition first_snapshot :: "run_result \<Rightarrow> string" where
  "first_snapshot res = (case res_snapshot_ids res of [] \<Rightarrow> [] | s # _ \<Rightarrow> s)"

definition result_columns :: "instant \<Rightarrow> run_result \<Rightarrow> run \<Rightarrow> run" where
  "result_columns now res r =
     r\<lparr>run_finished_at := Some now, run_error_code := res_error_code res, run_error_message := res_error_message res,
       run_snapshot_id := first_snapshot res, run_lease_expires_at := None,
       run_progress := if_no_json (res_result_json res) (run_progress r)\<rparr>"

definition fast_result :: "instant \<Rightarrow> run_result \<Rightarrow> run \<Rightarrow> run" where
  "fast_result now res r = result_columns now res (r\<lparr>run_started_at := Some now\<rparr>)"

text \<open>A success that arrives after the run was marked as cancelled.\<close>

definition reconcileCancelledSuccess :: "instant \<Rightarrow> string \<Rightarrow> string \<Rightarrow> json \<Rightarrow> 'c world \<Rightarrow> 'c world option" where
  "reconcileCancelledSuccess now rid snap res w =
     (case ReconcileCancelledRunSuccess rid snap res (w_db w) of
        Inl _ \<Rightarrow> None
      | Inr d' \<Rightarrow> Some (appendServerRunLog now rid ''warn'' (''cancellation came too late, recorded as success, snapshot '' @ snap) (w\<lparr>w_db := d'\<rparr>)))"

fun result_run_status :: "result_status \<Rightarrow> run_status option" where
  "result_run_status SUCCEEDED = Some RunSucceeded"
| "result_run_status FAILED = Some RunFailed"
| "result_run_status CANCELLED = Some RunCancelled"
| "result_run_status STATUS_UNSPECIFIED = None"

datatype outcome = ResultStored run_status | ResultIgnored | ResultRefused store_err

definition store_restore_result :: "instant \<Rightarrow> run_result \<Rightarrow> run_status \<Rightarrow> 'c world \<Rightarrow> outcome \<times> 'c world" where
  "store_restore_result now res toStatus w =
     (let (phase, rollback, code) = restoreResultOutcome res toStatus;
          status = (if phase = RestorePhaseRollbackFailed then RunFailed else toStatus);
          code' = (if phase = RestorePhaseRollbackFailed then CodeRollbackFailed else code)
      in case FinishRestoreRun \<lparr>fin_run_id = res_run_id res, fin_from_statuses = [], fin_to_status = status,
                fin_error_code = code', fin_error_message = res_error_message res, fin_snapshot_id = first_snapshot res,
                fin_result_json = res_result_json res, fin_phase = Some phase, fin_rollback_snapshot_id = rollback,
                fin_finished_at = now\<rparr> (w_db w) of
           Inl e \<Rightarrow> (if e = ErrInvalidTransition then ResultIgnored else ResultRefused e, w)
         | Inr d' \<Rightarrow> (ResultStored status, w\<lparr>w_db := d'\<rparr>))"

definition store_run_result :: "instant \<Rightarrow> run_result \<Rightarrow> run_status \<Rightarrow> 'c world \<Rightarrow> outcome \<times> 'c world" where
  "store_run_result now res toStatus w =
     (let rid = res_run_id res in
      case TransitionRun rid RunRunning toStatus (result_columns now res) (w_db w) of
        Inr d' \<Rightarrow> (ResultStored toStatus, w\<lparr>w_db := d'\<rparr>)
      | Inl e \<Rightarrow>
          if e \<noteq> ErrInvalidTransition then (ResultRefused e, w)
          else case TransitionRun rid RunDispatched toStatus (fast_result now res) (w_db w) of
            Inr d' \<Rightarrow> (ResultStored toStatus, w\<lparr>w_db := d'\<rparr>)
          | Inl e' \<Rightarrow>
              if e' \<noteq> ErrInvalidTransition then (ResultRefused e', w)
              else if toStatus = RunSucceeded
              then (case reconcileCancelledSuccess now rid (first_snapshot res) (res_result_json res) w of
                      None \<Rightarrow> (ResultIgnored, w) | Some w' \<Rightarrow> (ResultStored toStatus, w'))
              else (ResultIgnored, w))"

definition heal_repository :: "instant \<Rightarrow> run \<Rightarrow> run_status \<Rightarrow> db \<Rightarrow> db" where
  "heal_repository now run st d =
     (if isRepositoryInitRun run
      then UpdateRepositoryStatus now (run_repository_id run) (if st = RunSucceeded then RepoReady else RepoError) d else d)"

definition result_repository :: "db \<Rightarrow> run \<Rightarrow> run_status \<Rightarrow> string" where
  "result_repository d run st =
     (if st = RunSucceeded \<and> (run_operation run = OpBackup \<or> run_operation run = OpCheck)
      then (if run_repository_id run \<noteq> [] then run_repository_id run
            else if run_plan_id run \<noteq> []
            then (case GetPlan d (run_plan_id run) of Inl _ \<Rightarrow> [] | Inr p \<Rightarrow> plan_repository_id p)
            else [])
      else [])"

text \<open>What follows a stored result: the repository's state, the credentials, the time of the check, the
  closing log line and event, the warming of the cache and the notification of a failure.\<close>

definition after_result :: "instant \<Rightarrow> string \<Rightarrow> run \<Rightarrow> run_result \<Rightarrow> run_status \<Rightarrow> 'c world \<Rightarrow> 'c world" where
  "after_result now agentID run res st w =
     (let rid = res_run_id res;
          w1 = (if isTerminal st then drop_secrets rid (w\<lparr>w_db := heal_repository now run st (w_db w)\<rparr>) else w);
          repo = result_repository (w_db w1) run st;
          w2 = (if run_operation run = OpCheck \<and> repo \<noteq> [] then w1\<lparr>w_db := MarkRepositoryChecked repo now (w_db w1)\<rparr> else w1);
          w3 = (case GetRun (w_db w2) rid of
                  Inl _ \<Rightarrow> w2
                | Inr r \<Rightarrow> publish rid (StateEvent r) (appendServerRunLog now rid (fst (terminalRunLog r)) (snd (terminalRunLog r)) w2));
          w4 = (if st = RunSucceeded \<and> run_operation run = OpBackup \<and> repo \<noteq> [] \<and> agentID \<noteq> []
                then w3\<lparr>w_warmed := w_warmed w3 @ [(repo, agentID, first_snapshot res)]\<rparr> else w3)
      in if st = RunFailed then notify rid w4 else w4)"

definition handleRunResult :: "instant \<Rightarrow> string \<Rightarrow> run_result \<Rightarrow> 'c world \<Rightarrow> rpc_err option \<times> 'c world" where
  "handleRunResult now agentID res w =
     (case result_run_status (res_status res) of
        None \<Rightarrow> (Some UnknownResult, w)
      | Some toStatus \<Rightarrow>
          own_run agentID (res_run_id res) (\<lambda>run w.
            case (if run_operation run = OpRestore then store_restore_result now res toStatus w
                  else store_run_result now res toStatus w) of
              (ResultStored st, w') \<Rightarrow> (None, after_result now agentID run res st w')
            | (ResultIgnored, w') \<Rightarrow> (None, w')
            | (ResultRefused e, w') \<Rightarrow> (Some (RpcStore e), w')) w)"

section \<open>Losing a stream\<close>

definition disconnected_run :: "instant \<Rightarrow> run \<Rightarrow> run" where
  "disconnected_run now r =
     r\<lparr>run_finished_at := Some now, run_error_code := CodeAgentDisconnected,
       run_error_message := ''agent stream disconnected during a non-retryable operation'', run_lease_expires_at := None\<rparr>"

definition drop_run :: "instant \<Rightarrow> run \<Rightarrow> 'c world \<Rightarrow> 'c world" where
  "drop_run now r w =
     (if run_operation r = OpRestore
      then w\<lparr>w_db := UpdateRestorePhase (run_id r) RestorePhaseManualRecoveryNeeded (w_db w)\<rparr>
      else if retryableOperation (run_operation r)
      then try_transition (run_id r) (run_status r) RunQueued requeued_run w
      else case TransitionRun (run_id r) (run_status r) RunFailed (disconnected_run now) (w_db w) of
        Inl _ \<Rightarrow> w
      | Inr d' \<Rightarrow> notify (run_id r) (drop_secrets (run_id r) (w\<lparr>w_db := d'\<rparr>)))"

text \<open>No part of the program registers a callback for disconnects, so calling them last has no effect.\<close>

definition handleDisconnect :: "instant \<Rightarrow> string \<Rightarrow> 'c world \<Rightarrow> 'c world" where
  "handleDisconnect now agentID w =
     (let w1 = w\<lparr>w_db := SetAgentStatus agentID AgentOffline now (w_db w)\<rparr> in
      fold (drop_run now) (filter (\<lambda>r. run_agent_id r = agentID) (ListRunsByStatus (w_db w1) [RunDispatched, RunRunning])) w1)"

text \<open>The end of \<open>Connect\<close>: only the stream that is still the current one is a disconnect.\<close>

definition closeStream :: "instant \<Rightarrow> string \<Rightarrow> nat \<Rightarrow> 'c world \<Rightarrow> 'c world" where
  "closeStream now agentID c w =
     (case UnregisterIf agentID c (w_reg w) of
        (True, r') \<Rightarrow> handleDisconnect now agentID (w\<lparr>w_reg := r'\<rparr>)
      | (False, r') \<Rightarrow> w\<lparr>w_reg := r'\<rparr>)"

definition checkOfflineAgents :: "instant \<Rightarrow> 'c world \<Rightarrow> 'c world" where
  "checkOfflineAgents now w =
     fold (\<lambda>a w.
       if agt_status a = AgentOnline \<and> (case agt_last_seen_at a of None \<Rightarrow> False | Some t \<Rightarrow> offlineThreshold < now - t)
       then w\<lparr>w_db := SetAgentStatus (agt_id a) AgentOffline now (w_db w)\<rparr> else w) (ListAgents (w_db w)) w"

definition handleAgentMessage :: "instant \<Rightarrow> nat \<Rightarrow> string \<Rightarrow> agent_message \<Rightarrow> 'c world \<Rightarrow> rpc_err option \<times> 'c world" where
  "handleAgentMessage now c agentID msg w =
     (case msg of
        Heartbeat \<Rightarrow> (None, handleHeartbeat now agentID w)
      | CapabilitiesReport rep \<Rightarrow> (None, handleCapabilities now c agentID rep w)
      | CommandAccepted rid \<Rightarrow> handleCommandAccepted now agentID rid w
      | RunProgress p \<Rightarrow> handleRunProgress agentID p w
      | RunLogBatch rid entries \<Rightarrow> handleRunLogBatch now agentID rid entries w
      | RunResult res \<Rightarrow> handleRunResult now agentID res w
      | UnknownMessage \<Rightarrow> (None, w))"

section \<open>Lemmas\<close>

lemma result_status_terminal: "result_run_status s = Some st \<Longrightarrow> isTerminal st"
  by (cases s) auto

lemma appendServerRunLog_db:
  "db_runs (w_db (appendServerRunLog now rid l m w)) = db_runs (w_db w)"
  "db_plans (w_db (appendServerRunLog now rid l m w)) = db_plans (w_db w)"
  "db_restores (w_db (appendServerRunLog now rid l m w)) = db_restores (w_db w)"
proof -
  have "db_runs d' = db_runs (w_db w) \<and> db_plans d' = db_plans (w_db w) \<and> db_restores d' = db_restores (w_db w)"
    if "AppendRunLogs [dispatch_entry now rid l m] (w_db w) = Inr (out, d')" for out d'
    using AppendRunLogs_core [OF that] AppendRunLogs_plans [OF that] by (simp add: same_core_def)
  then show "db_runs (w_db (appendServerRunLog now rid l m w)) = db_runs (w_db w)"
    "db_plans (w_db (appendServerRunLog now rid l m w)) = db_plans (w_db w)"
    "db_restores (w_db (appendServerRunLog now rid l m w)) = db_restores (w_db w)"
    unfolding appendServerRunLog_def by (auto split: sum.splits simp del: AppendRunLogs.simps)
qed

lemma appendServerRunLog_notified [simp]: "w_notified (appendServerRunLog now rid l m w) = w_notified w"
  by (auto simp: appendServerRunLog_def split: sum.splits simp del: AppendRunLogs.simps)

lemma repository_updates_runs [simp]:
  "db_runs (UpdateRepositoryStatus now i st d) = db_runs d" "db_runs (MarkRepositoryChecked i at d) = db_runs d"
  "db_restores (UpdateRepositoryStatus now i st d) = db_restores d" "db_restores (MarkRepositoryChecked i at d) = db_restores d"
  by (simp_all add: UpdateRepositoryStatus_def MarkRepositoryChecked_def)

lemma heal_runs [simp]: "db_runs (heal_repository now run st d) = db_runs d"
  "db_restores (heal_repository now run st d) = db_restores d"
  by (simp_all add: heal_repository_def)

lemma after_result_db:
  "db_runs (w_db (after_result now a run res st w)) = db_runs (w_db w)"
  "db_restores (w_db (after_result now a run res st w)) = db_restores (w_db w)"
  by (simp_all add: after_result_def Let_def appendServerRunLog_db split: sum.split)

lemma result_mutators [simp]: "field_mutator (result_columns now res)" "field_mutator (fast_result now res)"
  "field_mutator (disconnected_run now)" "field_mutator (accepted_run now)"
  by (simp_all add: field_mutator_def result_columns_def fast_result_def disconnected_run_def accepted_run_def)

lemma TransitionRun_done:
  assumes "find_run d rid = Some r" "isTerminal (run_status r)"
  shows "TransitionRun rid src dst m d = Inl ErrInvalidTransition"
  using assms by (auto simp: TransitionRun_def)

lemma Reconcile_not_cancelled:
  assumes "runs_ok (db_runs d)" "find_run d rid = Some r" "run_status r \<noteq> RunCancelled"
  shows "ReconcileCancelledRunSuccess rid snap j d = Inl ErrInvalidTransition"
proof -
  have "x = r" if "x \<in> set (db_runs d)" "run_id x = rid" for x
    using runs_ok_id_unique [OF assms(1) that(1)] find_run_in [OF assms(2)] that(2) by auto
  then have "tbl_count (\<lambda>x. run_id x = rid \<and> run_status x = RunCancelled) (db_runs d) = 0"
    using assms(3) by (auto simp: tbl_count_0)
  then show ?thesis by (simp add: ReconcileCancelledRunSuccess_def)
qed

text \<open>A result for a run that has ended is ignored, unless it is the success of a cancelled run.\<close>

lemma ended_result_ignored:
  assumes ok: "runs_ok (db_runs (w_db w))" and r: "find_run (w_db w) (res_run_id res) = Some r"
    and ended: "isTerminal (run_status r)" and late: "st = RunSucceeded \<longrightarrow> run_status r \<noteq> RunCancelled"
  shows "store_run_result now res st w = (ResultIgnored, w)"
  using late Reconcile_not_cancelled [OF ok r]
  by (auto simp: store_run_result_def Let_def TransitionRun_done [OF r ended] reconcileCancelledSuccess_def)

lemma Reconcile_reads:
  assumes ok: "runs_ok (db_runs d)" and rec: "ReconcileCancelledRunSuccess rid snap j d = Inr d'"
  shows "\<exists>r r'. find_run d rid = Some r \<and> find_run d' rid = Some r' \<and> run_status r' = RunSucceeded \<and>
    run_operation r' = run_operation r \<and> run_agent_id r' = run_agent_id r"
proof -
  from rec obtain x where x: "x \<in> set (db_runs d)" "run_id x = rid" "run_status x = RunCancelled" by (auto simp: Reconcile_iff)
  have fx: "find_run d rid = Some x" using find_run_unique [OF ok x(1)] x(2) by simp
  show ?thesis
    using rec fx x unfolding find_run_def Reconcile_iff by (auto simp: tbl_get_update_key)
qed

lemma stored_result_ends:
  assumes ok: "runs_ok (db_runs (w_db w))" and st: "isTerminal st"
    and s: "store_run_result now res st w = (ResultStored st', w')"
  shows "st' = st \<and> runs_ok (db_runs (w_db w')) \<and>
    (\<exists>r r'. find_run (w_db w) (res_run_id res) = Some r \<and> find_run (w_db w') (res_run_id res) = Some r' \<and>
      run_status r' = st \<and> run_operation r' = run_operation r \<and> run_agent_id r' = run_agent_id r)"
proof -
  have trans: ?thesis if t: "TransitionRun (res_run_id res) src st m (w_db w) = Inr d'" "field_mutator m" "st' = st"
    "w' = w\<lparr>w_db := d'\<rparr>" for src m d'
  proof -
    from t(1) obtain r where r: "find_run (w_db w) (res_run_id res) = Some r" by (auto simp: TransitionRun_iff)
    have "run_status (m (r\<lparr>run_status := st\<rparr>)) = st" using t(2) by (simp add: field_mutator_def)
    then show ?thesis using TransitionRun_reads [OF t(1,2), of "res_run_id res"] r t(3,4) TransitionRun_runs_ok [OF ok t(1,2)] by simp
  qed
  have rec: ?thesis if "ReconcileCancelledRunSuccess (res_run_id res) snap j (w_db w) = Inr d'" "st = RunSucceeded" "st' = st"
    "db_runs (w_db w') = db_runs d'" for snap j d'
    using Reconcile_reads [OF ok that(1)] Reconcile_runs_ok [OF ok that(1)] that(2-4) by (auto simp: find_run_def)
  show ?thesis
  proof (cases "TransitionRun (res_run_id res) RunRunning st (result_columns now res) (w_db w)")
    case (Inr d')
    then show ?thesis using s by (intro trans [OF Inr]) (auto simp: store_run_result_def Let_def)
  next
    case (Inl e)
    note one = this
    show ?thesis
    proof (cases "TransitionRun (res_run_id res) RunDispatched st (fast_result now res) (w_db w)")
      case (Inr d')
      then show ?thesis using s one by (intro trans [OF Inr]) (auto simp: store_run_result_def Let_def split: if_splits)
    next
      case (Inl e')
      then obtain d' where "ReconcileCancelledRunSuccess (res_run_id res) (first_snapshot res) (res_result_json res) (w_db w) = Inr d'"
        "st = RunSucceeded" "st' = st" "db_runs (w_db w') = db_runs d'"
        using s one by (auto simp: store_run_result_def Let_def reconcileCancelledSuccess_def appendServerRunLog_db
            split: sum.splits if_splits option.splits)
      then show ?thesis by (rule rec)
    qed
  qed
qed

lemma own_run_eq:
  assumes "find_run (w_db w) rid = Some r"
  shows "own_run agentID rid h w = (if run_agent_id r = agentID then h r w else (Some PermissionDenied, w))"
  using assms by (simp add: own_run_def GetRun_def)

lemma ignored_result_again:
  assumes "store_run_result now res st w = (ResultIgnored, w')"
  shows "store_run_result later res st w = (ResultIgnored, w)" "w' = w"
proof -
  have inl: "TransitionRun rid src st m d = Inl e \<longleftrightarrow> TransitionRun rid src st m' d = Inl e" for rid src m m' d e
    by (simp add: TransitionRun_error)
  show "w' = w"
    using assms by (auto simp: store_run_result_def Let_def split: sum.splits if_splits option.splits)
  have "TransitionRun (res_run_id res) RunRunning st (result_columns now res) (w_db w) = Inl ErrInvalidTransition"
    "TransitionRun (res_run_id res) RunDispatched st (fast_result now res) (w_db w) = Inl ErrInvalidTransition"
    using assms by (auto simp: store_run_result_def Let_def split: sum.splits if_splits)
  then have "TransitionRun (res_run_id res) RunRunning st (result_columns later res) (w_db w) = Inl ErrInvalidTransition"
    "TransitionRun (res_run_id res) RunDispatched st (fast_result later res) (w_db w) = Inl ErrInvalidTransition"
    using inl by blast+
  then show "store_run_result later res st w = (ResultIgnored, w)"
    using assms by (auto simp: store_run_result_def Let_def reconcileCancelledSuccess_def split: sum.splits if_splits option.splits)
qed

lemma distinct_order_desc: "distinct (order_desc k xs) = distinct xs"
  by (simp add: order_desc_def)

lemma fold_touches:
  assumes "\<And>x w. touches_only (run_id x) (w_db w) (w_db (f x w))" and "i \<notin> run_id ` set rs"
  shows "find_run (w_db (fold f rs w)) i = find_run (w_db w) i"
  using assms(2)
proof (induction rs arbitrary: w)
  case (Cons x rs)
  then show ?case using assms(1) [of x w] by (auto simp: touches_only_def)
qed simp

lemma fold_row:
  assumes touch: "\<And>x w. touches_only (run_id x) (w_db w) (w_db (f x w))"
    and row: "\<And>w. find_run (w_db w) (run_id r) = Some r \<Longrightarrow> find_run (w_db (f r w)) (run_id r) = Some r'"
    and "r \<in> set rs" "distinct (map run_id rs)" "find_run (w_db w) (run_id r) = Some r"
  shows "find_run (w_db (fold f rs w)) (run_id r) = Some r'"
  using assms(3-5)
proof (induction rs arbitrary: w)
  case (Cons x rs)
  show ?case
  proof (cases "x = r")
    case True
    then have "run_id r \<notin> run_id ` set rs" using Cons.prems(2) by auto
    from fold_touches [OF touch this] show ?thesis using True row [OF Cons.prems(3)] by simp
  next
    case False
    then have "r \<in> set rs" using Cons.prems(1) by simp
    moreover from this have "run_id r \<noteq> run_id x" using Cons.prems(2) by (metis distinct.simps(2) image_eqI list.simps(9) set_map)
    ultimately have "r \<in> set rs" "run_id r \<noteq> run_id x" by simp_all
    then show ?thesis using Cons touch [of x w] by (simp add: touches_only_def)
  qed
qed simp

lemma UpdateRestorePhase_runs [simp]:
  "db_runs (UpdateRestorePhase rid ph d) = db_runs d" "db_plans (UpdateRestorePhase rid ph d) = db_plans d"
  by (simp_all add: UpdateRestorePhase_def)

lemma try_transition_touches: "field_mutator m \<Longrightarrow> touches_only rid (w_db w) (w_db (try_transition rid a b m w))"
  using TransitionRun_touches by (auto simp: try_transition_def split: sum.split)

lemma drop_run_touches: "touches_only (run_id r) (w_db w) (w_db (drop_run now r w))"
proof (cases "TransitionRun (run_id r) (run_status r) RunFailed (disconnected_run now) (w_db w)")
  case (Inl e)
  then show ?thesis by (simp add: drop_run_def try_transition_touches touches_only_runs)
next
  case (Inr d')
  have "touches_only (run_id r) d' (w_db (notify (run_id r) (drop_secrets (run_id r) (w\<lparr>w_db := d'\<rparr>))))"
    by (rule touches_only_runs) simp_all
  then have "touches_only (run_id r) (w_db w) (w_db (notify (run_id r) (drop_secrets (run_id r) (w\<lparr>w_db := d'\<rparr>))))"
    using TransitionRun_touches [OF Inr] by (auto intro: touches_only_trans)
  then show ?thesis using Inr by (simp add: drop_run_def try_transition_touches touches_only_runs)
qed

text \<open>The row of a run that lost its agent.\<close>

definition dropped :: "instant \<Rightarrow> run \<Rightarrow> run" where
  "dropped now r =
     (if run_operation r = OpRestore then r
      else if retryableOperation (run_operation r) then write_back (requeued_run (r\<lparr>run_status := RunQueued\<rparr>)) r
      else write_back (disconnected_run now (r\<lparr>run_status := RunFailed\<rparr>)) r)"

lemma drop_run_row:
  assumes r: "find_run (w_db w) (run_id r) = Some r" and st: "run_status r \<in> {RunDispatched, RunRunning}"
  shows "find_run (w_db (drop_run now r w)) (run_id r) = Some (dropped now r)"
proof -
  have trans: "\<exists>d'. TransitionRun (run_id r) (run_status r) b m (w_db w) = Inr d' \<and>
      find_run d' (run_id r) = Some (write_back (m (r\<lparr>run_status := b\<rparr>)) r)"
    if "b \<in> {RunQueued, RunFailed}" "field_mutator m" for b m
  proof -
    have "b \<in> set (validTransitions (run_status r))" using st that(1) by (auto simp: validTransitions_iff)
    then obtain d' where "TransitionRun (run_id r) (run_status r) b m (w_db w) = Inr d'"
      using r by (auto simp: TransitionRun_iff)
    then show ?thesis using TransitionRun_reads [of "run_id r" "run_status r" b m "w_db w" d' "run_id r"] that r by auto
  qed
  show ?thesis
    using r trans [of RunQueued requeued_run] trans [of RunFailed "disconnected_run now"]
    by (auto simp: drop_run_def dropped_def try_transition_def find_run_def)
qed

lemma drop_run_restores:
  "db_restores (w_db (drop_run now r w)) =
     (if run_operation r = OpRestore
      then db_restores (UpdateRestorePhase (run_id r) RestorePhaseManualRecoveryNeeded (w_db w)) else db_restores (w_db w))"
  using TransitionRun_frame by (fastforce simp: drop_run_def try_transition_def split: sum.split)

text \<open>What losing a run does to the requests: that of a restore waits for an operator, unless it had ended.\<close>

definition awaits_operator :: "(string \<Rightarrow> bool) \<Rightarrow> restore_request \<Rightarrow> restore_request" where
  "awaits_operator lost rr =
     (if lost (rr_run_id rr) \<and> \<not> RestorePhaseIsTerminal (rr_phase rr)
      then rr\<lparr>rr_phase := RestorePhaseManualRecoveryNeeded\<rparr> else rr)"

lemma awaits_operator_twice:
  "awaits_operator P (awaits_operator Q rr) = awaits_operator (\<lambda>i. Q i \<or> P i) rr"
  by (auto simp: awaits_operator_def RestorePhaseIsTerminal_def)

lemma awaits_operator_none [simp]: "awaits_operator (\<lambda>i. False) = (\<lambda>rr. rr)"
  by (simp add: awaits_operator_def fun_eq_iff)

lemma fold_drop_run_restores:
  "db_restores (w_db (fold (drop_run now) rs w)) =
     map (awaits_operator (\<lambda>i. \<exists>r\<in>set rs. run_id r = i \<and> run_operation r = OpRestore)) (db_restores (w_db w))"
proof (induction rs arbitrary: w)
  case Nil
  show ?case by (simp add: awaits_operator_def)
next
  case (Cons x rs)
  have one: "db_restores (w_db (drop_run now x w)) =
      map (awaits_operator (\<lambda>i. run_id x = i \<and> run_operation x = OpRestore)) (db_restores (w_db w))"
    by (auto simp: drop_run_restores UpdateRestorePhase_def tbl_update_def awaits_operator_def blocked_iff)
  have "(\<lambda>i. (run_id x = i \<and> run_operation x = OpRestore) \<or> (\<exists>r\<in>set rs. run_id r = i \<and> run_operation r = OpRestore)) =
      (\<lambda>i. \<exists>r\<in>set (x # rs). run_id r = i \<and> run_operation r = OpRestore)" by auto
  then show ?case by (simp add: Cons.IH one o_def awaits_operator_twice del: bex_simps)
qed

lemma SetAgentStatus_runs [simp]:
  "db_runs (SetAgentStatus i st at d) = db_runs d" "find_run (SetAgentStatus i st at d) = find_run d"
  by (simp_all add: SetAgentStatus_def find_run_def fun_eq_iff)

lemma disconnect_rows:
  assumes ok: "runs_ok (db_runs (w_db w))" and r: "r \<in> set (db_runs (w_db w))"
  shows "find_run (w_db (handleDisconnect now agentID w)) (run_id r) =
      Some (if run_agent_id r = agentID \<and> run_status r \<in> {RunDispatched, RunRunning} then dropped now r else r)"
    and "db_restores (w_db (handleDisconnect now agentID w)) =
      map (awaits_operator (\<lambda>i. \<exists>r\<in>set (db_runs (w_db w)). run_id r = i \<and> run_agent_id r = agentID \<and>
        run_status r \<in> {RunDispatched, RunRunning} \<and> run_operation r = OpRestore)) (db_restores (w_db w))"
proof -
  define w1 where "w1 = w\<lparr>w_db := SetAgentStatus agentID AgentOffline now (w_db w)\<rparr>"
  define rs where "rs = filter (\<lambda>r. run_agent_id r = agentID) (ListRunsByStatus (w_db w1) [RunDispatched, RunRunning])"
  have h: "handleDisconnect now agentID w = fold (drop_run now) rs w1"
    by (simp add: handleDisconnect_def w1_def rs_def Let_def)
  have set_rs: "set rs = {x \<in> set (db_runs (w_db w)). run_agent_id x = agentID \<and> run_status x \<in> {RunDispatched, RunRunning}}"
    by (auto simp: rs_def w1_def ListRunsByStatus_def)
  have dist: "distinct (map run_id rs)"
  proof -
    have "distinct (map run_id (db_runs (w_db w)))" using ok by (simp add: runs_ok_def)
    then show ?thesis
      by (auto simp: rs_def w1_def ListRunsByStatus_def distinct_map distinct_order_desc inj_on_def)
  qed
  have f1: "find_run (w_db w1) (run_id r) = Some r" using find_run_unique [OF ok r] by (simp add: w1_def)
  show "find_run (w_db (handleDisconnect now agentID w)) (run_id r) =
      Some (if run_agent_id r = agentID \<and> run_status r \<in> {RunDispatched, RunRunning} then dropped now r else r)"
  proof (cases "r \<in> set rs")
    case True
    then have st: "run_status r \<in> {RunDispatched, RunRunning}" by (simp add: set_rs)
    have "find_run (w_db (fold (drop_run now) rs w1)) (run_id r) = Some (dropped now r)"
      by (rule fold_row [OF drop_run_touches _ True dist f1]) (rule drop_run_row [OF _ st])
    then show ?thesis using True by (simp add: h set_rs)
  next
    case False
    then have "run_id r \<notin> run_id ` set rs" using set_rs runs_ok_id_unique [OF ok r] by auto
    from fold_touches [OF drop_run_touches this]
    have "find_run (w_db (fold (drop_run now) rs w1)) (run_id r) = find_run (w_db w1) (run_id r)" .
    then show ?thesis using False r f1 by (auto simp: h set_rs)
  qed
  have "db_restores (w_db w1) = db_restores (w_db w)" by (simp add: w1_def SetAgentStatus_def)
  moreover have "(\<lambda>i. \<exists>r\<in>set rs. run_id r = i \<and> run_operation r = OpRestore) =
      (\<lambda>i. \<exists>r\<in>set (db_runs (w_db w)). run_id r = i \<and> run_agent_id r = agentID \<and>
        run_status r \<in> {RunDispatched, RunRunning} \<and> run_operation r = OpRestore)"
    by (auto simp: set_rs fun_eq_iff)
  ultimately show "db_restores (w_db (handleDisconnect now agentID w)) =
      map (awaits_operator (\<lambda>i. \<exists>r\<in>set (db_runs (w_db w)). run_id r = i \<and> run_agent_id r = agentID \<and>
        run_status r \<in> {RunDispatched, RunRunning} \<and> run_operation r = OpRestore)) (db_restores (w_db w))"
    unfolding h fold_drop_run_restores by simp
qed

section \<open>Properties\<close>

text \<open>C29: An agent may send the result of a run again, for instance after it reconnected.  For every
  operation but a restore the second delivery changes nothing at all: no second event, no second
  notification, no second warming of the cache.\<close>

theorem repeated_result_changes_nothing:
  assumes ok: "runs_ok (db_runs (w_db w))" and r: "find_run (w_db w) (res_run_id res) = Some r"
    and kind: "run_operation r \<noteq> OpRestore"
    and result: "handleRunResult now agentID res w = (None, w')"
  shows "handleRunResult later agentID res w' = (None, w')"
proof -
  from result obtain st where st: "result_run_status (res_status res) = Some st" and own: "run_agent_id r = agentID"
    by (auto simp: handleRunResult_def own_run_eq [OF r] split: option.splits if_splits)
  obtain oc w1 where s: "store_run_result now res st w = (oc, w1)" by (cases "store_run_result now res st w") auto
  show ?thesis
  proof (cases oc)
    case (ResultStored st')
    have w': "w' = after_result now agentID r res st' w1"
      using result s ResultStored kind own by (simp add: handleRunResult_def st own_run_eq [OF r])
    from stored_result_ends [OF ok result_status_terminal [OF st] s [unfolded ResultStored]] r
    obtain r' where r': "find_run (w_db w1) (res_run_id res) = Some r'" "run_status r' = st" "run_operation r' = run_operation r"
      "run_agent_id r' = run_agent_id r" "runs_ok (db_runs (w_db w1))" by auto
    have f: "find_run (w_db w') (res_run_id res) = Some r'" "runs_ok (db_runs (w_db w'))"
      using r' by (simp_all add: w' after_result_db find_run_def)
    have "store_run_result later res st w' = (ResultIgnored, w')"
      using result_status_terminal [OF st] r'(2) by (intro ended_result_ignored [OF f(2,1)]) auto
    then show ?thesis using own r' kind by (simp add: handleRunResult_def st own_run_eq [OF f(1)])
  next
    case ResultIgnored
    then have "w' = w" using result s kind own ignored_result_again(2) [OF s [unfolded ResultIgnored]]
      by (simp add: handleRunResult_def st own_run_eq [OF r])
    then show ?thesis using ignored_result_again(1) [OF s [unfolded ResultIgnored], of later] own kind
      by (simp add: handleRunResult_def st own_run_eq [OF r])
  next
    case (ResultRefused e)
    then show ?thesis using result s kind own by (simp add: handleRunResult_def st own_run_eq [OF r])
  qed
qed

definition sample_result :: "string \<Rightarrow> result_status \<Rightarrow> run_result" where
  "sample_result rid st = \<lparr>res_run_id = rid, res_status = st, res_error_code = [], res_error_message = [],
     res_snapshot_ids = [''s1''], res_result_json = json_none\<rparr>"

lemma sample_result_fields [simp]:
  "res_run_id (sample_result rid st) = rid" "res_status (sample_result rid st) = st"
  by (simp_all add: sample_result_def)

definition one_run_world :: "run \<Rightarrow> nat world" where
  "one_run_world r = start_world (empty_db\<lparr>db_runs := [r]\<rparr>)"

lemma one_run [simp]:
  "w_db (one_run_world r) = empty_db\<lparr>db_runs := [r]\<rparr>" "find_run (empty_db\<lparr>db_runs := [r]\<rparr>) (run_id r) = Some r"
  "runs_ok [r]"
  by (simp_all add: one_run_world_def start_world_def find_run_def runs_ok_def)

lemma sample_own: "find_run (empty_db\<lparr>db_runs := [sample_run i oper st]\<rparr>) i = Some (sample_run i oper st)"
  by (simp add: find_run_def)

theorem repeated_result_changes_nothing_witness:
  "\<exists>w'. handleRunResult 5 ''a1'' (sample_result ''r1'' SUCCEEDED) (one_run_world (sample_run ''r1'' OpBackup RunRunning)) = (None, w') \<and>
     handleRunResult 9 ''a1'' (sample_result ''r1'' SUCCEEDED) w' = (None, w') \<and>
     map (\<lambda>x. fst x) (w_warmed w') = [''p1'']"
proof -
  let ?w = "one_run_world (sample_run ''r1'' OpBackup RunRunning)"
  let ?res = "sample_result ''r1'' SUCCEEDED"
  have f: "find_run (w_db ?w) ''r1'' = Some (sample_run ''r1'' OpBackup RunRunning)"
    and f': "find_run (w_db ?w) (res_run_id ?res) = Some (sample_run ''r1'' OpBackup RunRunning)"
    by (simp_all add: sample_own)
  obtain d' where t: "TransitionRun ''r1'' RunRunning RunSucceeded (result_columns 5 ?res) (w_db ?w) = Inr d'"
    by (auto simp: TransitionRun_def sample_own Let_def)
  have res: "handleRunResult 5 ''a1'' ?res ?w = (None, after_result 5 ''a1'' (sample_run ''r1'' OpBackup RunRunning) ?res RunSucceeded (?w\<lparr>w_db := d'\<rparr>))"
    using t by (simp add: handleRunResult_def own_run_eq [OF f] store_run_result_def)
  have "map (\<lambda>x. fst x) (w_warmed (after_result 5 ''a1'' (sample_run ''r1'' OpBackup RunRunning) ?res RunSucceeded (?w\<lparr>w_db := d'\<rparr>))) = [''p1'']"
    by (auto simp: after_result_def Let_def result_repository_def drop_secrets_def appendServerRunLog_def publish_def
        one_run_world_def start_world_def split: sum.splits simp del: AppendRunLogs.simps)
  with res repeated_result_changes_nothing [OF _ f' _ res, of 9] show ?thesis by simp
qed

fun message_run :: "agent_message \<Rightarrow> string option" where
  "message_run (CommandAccepted rid) = Some rid"
| "message_run (RunProgress p) = Some (rp_run_id p)"
| "message_run (RunLogBatch rid es) = (if rid = [] then None else Some rid)"
| "message_run (RunResult res) = Some (res_run_id res)"
| "message_run _ = None"

text \<open>C11: No message of an agent has any effect through a run that belongs to another agent.\<close>

theorem foreign_run_messages_have_no_effect:
  assumes m: "message_run msg = Some rid" and r: "find_run (w_db w) rid = Some r" and foreign: "run_agent_id r \<noteq> agentID"
  shows "snd (handleAgentMessage now c agentID msg w) = w"
  using m foreign own_run_eq [OF r, of agentID]
  by (cases msg) (auto simp: handleAgentMessage_def handleCommandAccepted_def handleRunProgress_def handleRunLogBatch_def
      handleRunResult_def split: if_splits option.splits)

theorem foreign_run_messages_have_no_effect_witness:
  "snd (handleAgentMessage 5 0 ''a2'' (RunResult (sample_result ''r1'' SUCCEEDED)) (one_run_world (sample_run ''r1'' OpBackup RunRunning))) =
     one_run_world (sample_run ''r1'' OpBackup RunRunning)"
  by (rule foreign_run_messages_have_no_effect [of _ "''r1''" _ "sample_run ''r1'' OpBackup RunRunning"])
    (simp_all add: sample_own)

text \<open>C30: When the stream of an agent is lost, every run it was dispatched is settled in the way its operation
  allows.  What may be repeated goes back to the queue: its start, lease, error and progress are cleared, the
  rest of its row is kept.  A restore keeps its row, and its request then waits for an operator
  (\<open>manual_recovery_needed\<close>) unless it had ended.  Anything else has failed now, as disconnected and
  without a lease.  No other run and no other request is changed, and nothing else in a request is.\<close>

theorem disconnect_settles_every_run:
  assumes ok: "runs_ok (db_runs (w_db w))" and r: "r \<in> set (db_runs (w_db w))"
    and lost: "run_agent_id r = agentID" "run_status r \<in> {RunDispatched, RunRunning}"
  shows "find_run (w_db (handleDisconnect now agentID w)) (run_id r) = Some
      (if run_operation r = OpRestore then r
       else if retryableOperation (run_operation r)
       then r\<lparr>run_status := RunQueued, run_started_at := None, run_finished_at := map_option sec (run_finished_at r),
              run_progress := json_braces, run_error_code := [], run_error_message := [], run_lease_expires_at := None\<rparr>
       else r\<lparr>run_status := RunFailed, run_started_at := map_option sec (run_started_at r),
              run_finished_at := Some (sec now), run_error_code := CodeAgentDisconnected,
              run_error_message := ''agent stream disconnected during a non-retryable operation'',
              run_lease_expires_at := None\<rparr>) \<and>
    (\<forall>x\<in>set (db_runs (w_db w)). run_agent_id x \<noteq> agentID \<or> run_status x \<notin> {RunDispatched, RunRunning} \<longrightarrow>
       find_run (w_db (handleDisconnect now agentID w)) (run_id x) = Some x) \<and>
    db_restores (w_db (handleDisconnect now agentID w)) =
      map (\<lambda>rr. if (\<exists>x\<in>set (db_runs (w_db w)). run_id x = rr_run_id rr \<and> run_agent_id x = agentID \<and>
                        run_status x \<in> {RunDispatched, RunRunning} \<and> run_operation x = OpRestore) \<and>
                     \<not> RestorePhaseIsTerminal (rr_phase rr)
                  then rr\<lparr>rr_phase := RestorePhaseManualRecoveryNeeded\<rparr> else rr) (db_restores (w_db w))"
proof -
  have rows: "find_run (w_db (handleDisconnect now agentID w)) (run_id x) =
      Some (if run_agent_id x = agentID \<and> run_status x \<in> {RunDispatched, RunRunning} then dropped now x else x)"
    if "x \<in> set (db_runs (w_db w))" for x
    by (rule disconnect_rows(1) [OF ok that])
  have row: "find_run (w_db (handleDisconnect now agentID w)) (run_id r) = Some (dropped now r)"
    using rows [OF r] lost by simp
  have others: "\<forall>x\<in>set (db_runs (w_db w)). run_agent_id x \<noteq> agentID \<or> run_status x \<notin> {RunDispatched, RunRunning} \<longrightarrow>
       find_run (w_db (handleDisconnect now agentID w)) (run_id x) = Some x"
    using rows by auto
  have "dropped now r = (if run_operation r = OpRestore then r
       else if retryableOperation (run_operation r)
       then r\<lparr>run_status := RunQueued, run_started_at := None, run_finished_at := map_option sec (run_finished_at r),
              run_progress := json_braces, run_error_code := [], run_error_message := [], run_lease_expires_at := None\<rparr>
       else r\<lparr>run_status := RunFailed, run_started_at := map_option sec (run_started_at r),
              run_finished_at := Some (sec now), run_error_code := CodeAgentDisconnected,
              run_error_message := ''agent stream disconnected during a non-retryable operation'',
              run_lease_expires_at := None\<rparr>)"
    by (simp add: dropped_def write_back_def requeued_run_def disconnected_run_def)
  with row others show ?thesis
    by (simp add: disconnect_rows(2) [OF ok r] awaits_operator_def)
qed

theorem disconnect_settles_every_run_witness:
  "let w = one_run_world (sample_run ''r1'' OpRestore RunRunning);
       w' = handleDisconnect 7 ''a1'' (w\<lparr>w_db := (w_db w)\<lparr>db_restores := [sample_request ''q1'' ''r1'' KindMySQL RestorePhaseRestoring]\<rparr>\<rparr>) in
   find_run (w_db w') ''r1'' = Some (sample_run ''r1'' OpRestore RunRunning) \<and>
   db_restores (w_db w') = [sample_request ''q1'' ''r1'' KindMySQL RestorePhaseManualRecoveryNeeded]"
proof -
  define w where "w = one_run_world (sample_run ''r1'' OpRestore RunRunning)"
  define w1 where "w1 = w\<lparr>w_db := (w_db w)\<lparr>db_restores := [sample_request ''q1'' ''r1'' KindMySQL RestorePhaseRestoring]\<rparr>\<rparr>"
  have t: "db_runs (w_db w1) = [sample_run ''r1'' OpRestore RunRunning]"
    "db_restores (w_db w1) = [sample_request ''q1'' ''r1'' KindMySQL RestorePhaseRestoring]"
    by (simp_all add: w1_def w_def one_run_world_def start_world_def)
  have "\<not> RestorePhaseIsTerminal RestorePhaseRestoring"
    by (simp add: RestorePhaseIsTerminal_def RestorePhaseReleasesOccupancy_def)
  then show ?thesis
    using disconnect_settles_every_run [of w1 "sample_run ''r1'' OpRestore RunRunning" "''a1''" 7] t
    by (simp add: Let_def w1_def w_def sample_request_def)
qed

text \<open>A system run carries its parameters in the column that also holds its progress.  Putting it back into
  the queue after the agent was lost clears that column, so the command that is built for the next
  attempt has no parameters: the agent is not told the repository.\<close>

theorem requeued_system_run_loses_its_parameters:
  assumes ok: "runs_ok (db_runs (w_db w))" and r: "r \<in> set (db_runs (w_db w))"
    and lost: "run_agent_id r = agentID" "run_status r \<in> {RunDispatched, RunRunning}"
    and system: "run_operation r \<in> {OpCheck, OpSnapshots, OpSnapshotLs, OpValidatePaths, OpVerifyRemote}"
    and params: "run_progress r \<noteq> json_none"
    and again: "BuildCommand unseal cid (w_db (handleDisconnect now agentID w)) (run_id r) = Inr c"
  shows "run_params (w_db w) r = Inr (run_progress r) \<and> cmd_run_id c = run_id r \<and> cmd_params c = json_braces \<and>
    task_repository_path (cmd_params c) = []"
proof -
  have "find_run (w_db (handleDisconnect now agentID w)) (run_id r) = Some (dropped now r)"
    using disconnect_rows(1) [OF ok r, of now agentID] lost by simp
  moreover have "run_progress (dropped now r) = json_braces" "run_operation (dropped now r) = run_operation r" "run_id (dropped now r) = run_id r"
    using system by (auto simp: dropped_def retryableOperation_def write_back_def requeued_run_def)
  ultimately have "cmd_run_id c = run_id r" "cmd_params c = json_braces"
    using again system by (auto simp: BuildCommand_def GetRun_def and_then_Inr run_params_def json_none_def)
  moreover have "run_params (w_db w) r = Inr (run_progress r)" using system params by (auto simp: run_params_def)
  ultimately show ?thesis by (simp add: task_repository_path_def json_braces_def)
qed

theorem requeued_system_run_loses_its_parameters_witness:
  "\<exists>c. BuildCommand (\<lambda>_ _ _ x. Some x) ''c1'' (w_db (handleDisconnect 7 ''a1''
        (one_run_world ((sample_run ''r1'' OpCheck RunRunning)\<lparr>run_repository_id := [], run_progress := CheckTask ''r:p''\<rparr>)))) ''r1'' = Inr c \<and>
     cmd_params c = json_braces \<and> task_repository_path (CheckTask ''r:p'') = ''r:p''"
proof -
  let ?r = "(sample_run ''r1'' OpCheck RunRunning)\<lparr>run_repository_id := [], run_progress := CheckTask ''r:p''\<rparr>"
  let ?w = "one_run_world ?r"
  have "find_run (w_db (handleDisconnect 7 ''a1'' ?w)) ''r1'' = Some (dropped 7 ?r)"
    using disconnect_rows(1) [of ?w ?r 7 "''a1''"] by simp
  then obtain c where c: "BuildCommand (\<lambda>_ _ _ x. Some x) ''c1'' (w_db (handleDisconnect 7 ''a1'' ?w)) ''r1'' = Inr c"
    by (simp add: BuildCommand_def GetRun_def lift_store_def run_secret_set_def run_params_def dropped_def
        retryableOperation_def Let_def)
  have "cmd_params c = json_braces"
    using requeued_system_run_loses_its_parameters [of ?w ?r "''a1''" "\<lambda>_ _ _ x. Some x" "''c1''" 7 c] c
    by (simp add: CheckTask_def json_none_def)
  with c show ?thesis by (simp add: task_repository_path_def CheckTask_def RepoAccess_def obj_get_def field_string_def or_zero_def)
qed

text \<open>A failed restore whose result is delivered again is announced again: the request is left as it is,
  but a closing event is published and the failure is notified once more.\<close>

theorem repeated_restore_failure_is_notified_again:
  assumes r: "find_run (w_db w) (res_run_id res) = Some r" and restore: "run_operation r = OpRestore" "run_agent_id r = agentID"
    and ended: "run_status r = RunFailed" and failed: "res_status res = FAILED"
  shows "\<exists>w'. handleRunResult now agentID res w = (None, w') \<and> w_notified w' = w_notified w @ [res_run_id res] \<and>
    length (w_events w) < length (w_events w') \<and> find_run (w_db w') (res_run_id res) = Some r"
proof -
  obtain phase rollback code where o: "restoreResultOutcome res RunFailed = (phase, rollback, code)"
    by (cases "restoreResultOutcome res RunFailed") auto
  obtain d' where s: "store_restore_result now res RunFailed w = (ResultStored RunFailed, w\<lparr>w_db := d'\<rparr>)" and d': "db_runs d' = db_runs (w_db w)"
    using r ended that [OF _ updateRestoreRequest_runs]
    by (simp add: store_restore_result_def o Let_def FinishRestoreRun_def)
  let ?w = "after_result now agentID r res RunFailed (w\<lparr>w_db := d'\<rparr>)"
  have h: "handleRunResult now agentID res w = (None, ?w)"
    using s restore failed by (simp add: handleRunResult_def own_run_eq [OF r])
  have f: "find_run (w_db ?w) (res_run_id res) = Some r" using r d' by (simp add: find_run_def after_result_db)
  define v where "v = drop_secrets (res_run_id res) (w\<lparr>w_db := heal_repository now r RunFailed d'\<rparr>)"
  have v: "w_notified v = w_notified w" "w_events v = w_events w" "GetRun (w_db v) (res_run_id res) = Inr r"
    using r d' by (simp_all add: v_def drop_secrets_def GetRun_def find_run_def DeleteRunSecrets_def)
  have aw: "?w = notify (res_run_id res) (publish (res_run_id res) (StateEvent r)
      (appendServerRunLog now (res_run_id res) (fst (terminalRunLog r)) (snd (terminalRunLog r)) v))"
    using v(3) restore by (simp add: after_result_def Let_def v_def result_repository_def)
  have "length (w_events v) \<le> length (w_events (appendServerRunLog now i l m v))" for i l m
    by (auto simp: appendServerRunLog_def split: sum.splits simp del: AppendRunLogs.simps)
  then have "w_notified ?w = w_notified w @ [res_run_id res]" "length (w_events w) < length (w_events ?w)"
    unfolding aw using v by (simp_all add: notify_def publish_def less_Suc_eq_le)
  with h f show ?thesis by blast
qed

theorem repeated_restore_failure_is_notified_again_witness:
  "\<exists>w'. handleRunResult 5 ''a1'' (sample_result ''r1'' FAILED) (one_run_world (sample_run ''r1'' OpRestore RunFailed)) = (None, w') \<and>
     w_notified w' = [''r1'']"
  using repeated_restore_failure_is_notified_again [of "one_run_world (sample_run ''r1'' OpRestore RunFailed)" "sample_result ''r1'' FAILED"
      "sample_run ''r1'' OpRestore RunFailed" "''a1''" 5]
  by (auto simp: sample_own one_run_world_def start_world_def)

end
