(* ===== verification/Jobs_Restore.thy ===== *)
theory Jobs_Restore
  imports Jobs_Runs Store_Deletions
begin

text \<open>
  The orchestrator (\<open>jobs/orchestrator.go\<close>), second part: starting, authorising and resolving
  restores, and the protection of snapshots that a restore may still need.  The hash of
  \<open>secrets.HashToken\<close> and the digest behind \<open>store.SnapshotFingerprint\<close> are arguments.
\<close>

section \<open>Text\<close>

definition cont :: "char \<Rightarrow> bool" where
  "cont c \<longleftrightarrow> 128 \<le> (of_char c :: nat) \<and> (of_char c :: nat) \<le> 191"

definition between :: "nat \<Rightarrow> nat \<Rightarrow> char \<Rightarrow> bool" where
  "between a b c \<longleftrightarrow> a \<le> of_char c \<and> of_char c \<le> b"

text \<open>The number of bytes of the first rune; a byte that starts no valid sequence is a rune of its own.\<close>

fun rune_width :: "string \<Rightarrow> nat" where
  "rune_width (a # b # c # d # _) =
     (if between 194 223 a \<and> cont b then 2
      else if (of_char a = (224::nat) \<and> between 160 191 b \<or> between 225 236 a \<and> cont b \<or>
               of_char a = (237::nat) \<and> between 128 159 b \<or> between 238 239 a \<and> cont b) \<and> cont c then 3
      else if (of_char a = (240::nat) \<and> between 144 191 b \<or> between 241 243 a \<and> cont b \<or>
               of_char a = (244::nat) \<and> between 128 143 b) \<and> cont c \<and> cont d then 4
      else 1)"
| "rune_width [a, b, c] =
     (if between 194 223 a \<and> cont b then 2
      else if (of_char a = (224::nat) \<and> between 160 191 b \<or> between 225 236 a \<and> cont b \<or>
               of_char a = (237::nat) \<and> between 128 159 b \<or> between 238 239 a \<and> cont b) \<and> cont c then 3
      else 1)"
| "rune_width [a, b] = (if between 194 223 a \<and> cont b then 2 else 1)"
| "rune_width _ = 1"

lemma rune_width_pos [simp]: "0 < rune_width s"
  by (cases s rule: rune_width.cases) auto

function RuneCount :: "string \<Rightarrow> nat" where
  "RuneCount [] = 0"
| "RuneCount (c # s) = Suc (RuneCount (drop (rune_width (c # s)) (c # s)))"
  by pat_completeness auto
termination
proof (relation "measure length")
  show "(drop (rune_width (c # s)) (c # s), c # s) \<in> measure length" for c s
    using rune_width_pos [of "c # s"] by (simp del: rune_width_pos)
qed simp

section \<open>The verified snapshot list\<close>

definition nil_json :: "string list \<Rightarrow> json" where
  "nil_json xs = (if xs = [] then JNull else strings_json xs)"

definition normal_snapshot :: "snapshot \<Rightarrow> snapshot" where
  "normal_snapshot s = s\<lparr>snap_tags := sort (snap_tags s), snap_paths := sort (snap_paths s)\<rparr>"

definition fingerprint_entry :: "snapshot \<Rightarrow> json" where
  "fingerprint_entry s =
     JObj [(''id'', JStr (snap_id s)), (''time'', JStr (snap_time s)), (''host'', JStr (snap_host s)),
           (''tags'', nil_json (snap_tags s)), (''paths'', nil_json (snap_paths s))]"

definition SnapshotFingerprint :: "(string \<Rightarrow> string) \<Rightarrow> snapshot list \<Rightarrow> string" where
  "SnapshotFingerprint digest snaps =
     digest (json_text (JList (map fingerprint_entry
       (sort_key (\<lambda>s. (snap_id s, snap_time s, snap_host s)) (map normal_snapshot snaps)))))"

definition verifiedSnapshotList :: "(string \<Rightarrow> string) \<Rightarrow> db \<Rightarrow> string \<Rightarrow> jobs_err + snapshot list" where
  "verifiedSnapshotList digest d repoID =
     (case GetSnapshotListCache d repoID of
        Inl _ \<Rightarrow> Inl ErrSnapshotRefreshRequired
      | Inr cache \<Rightarrow>
          (case decode_snapshots (lc_snapshots cache) of
             None \<Rightarrow> Inl ErrSnapshotRefreshRequired
           | Some snaps \<Rightarrow>
               if SnapshotFingerprint digest snaps \<noteq> lc_fingerprint cache then Inl ErrSnapshotRefreshRequired
               else Inr snaps))"

definition verifiedSnapshot :: "(string \<Rightarrow> string) \<Rightarrow> db \<Rightarrow> string \<Rightarrow> string \<Rightarrow> jobs_err + snapshot" where
  "verifiedSnapshot digest d repoID snapshotID =
     and_then (verifiedSnapshotList digest d repoID) (\<lambda>snaps.
       case List.find (\<lambda>s. snap_id s = snapshotID) snaps of
         None \<Rightarrow> Inl ErrSnapshotRefreshRequired | Some s \<Rightarrow> Inr s)"

definition snapshotKindMatches :: "snapshot \<Rightarrow> kind \<Rightarrow> bool" where
  "snapshotKindMatches s k \<longleftrightarrow> ''kind:'' @ kind_text k \<in> set (snap_tags s)"

definition authorizeRestoreSnapshot :: "(string \<Rightarrow> string) \<Rightarrow> db \<Rightarrow> string \<Rightarrow> string \<Rightarrow> kind \<Rightarrow> jobs_err + snapshot" where
  "authorizeRestoreSnapshot digest d repoID snapshotID k =
     and_then (verifiedSnapshot digest d repoID snapshotID) (\<lambda>s.
     and_then (require (snapshotKindMatches s k) ErrSnapshotKindMismatch) (\<lambda>_.
     and_then (require (snapshotID \<notin> set (HiddenSnapshotIDs d repoID)) ErrSnapshotRefreshRequired) (\<lambda>_.
       Inr s)))"

section \<open>Directory trees\<close>

record tree_entry =
  te_name :: string
  te_type :: string
  te_path :: string
  te_size :: int
  te_mtime :: string

record tree =
  tree_entries :: "tree_entry list"
  tree_path :: string

definition decode_entry :: "json \<Rightarrow> tree_entry option" where
  "decode_entry j =
     (case j of
        JObj ms \<Rightarrow>
          (case (field_string ''name'' ms, field_string ''type'' ms, field_string ''path'' ms, field_int ''size'' ms, field_string ''mtime'' ms) of
             (Some n, Some t, Some p, Some z, Some m) \<Rightarrow>
               Some \<lparr>te_name = n, te_type = t, te_path = p, te_size = z, te_mtime = m\<rparr>
           | _ \<Rightarrow> None)
      | JNull \<Rightarrow> Some \<lparr>te_name = [], te_type = [], te_path = [], te_size = 0, te_mtime = []\<rparr>
      | _ \<Rightarrow> None)"

definition decode_tree :: "json \<Rightarrow> tree option" where
  "decode_tree j =
     (case j of
        JObj ms \<Rightarrow>
          (case ((case obj_get ''entries'' ms of None \<Rightarrow> Some [] | Some JNull \<Rightarrow> Some []
                  | Some (JList js) \<Rightarrow> decode_all decode_entry js | Some _ \<Rightarrow> None), field_string ''path'' ms) of
             (Some es, Some p) \<Rightarrow> Some \<lparr>tree_entries = es, tree_path = p\<rparr> | _ \<Rightarrow> None)
      | JNull \<Rightarrow> Some \<lparr>tree_entries = [], tree_path = []\<rparr>
      | _ \<Rightarrow> None)"

definition entry_json :: "tree_entry \<Rightarrow> json" where
  "entry_json e = JObj ([(''name'', JStr (te_name e)), (''type'', JStr (te_type e))] @ omitempty ''path'' (te_path e) @
     [(''size'', JNum (te_size e)), (''mtime'', JStr (te_mtime e))])"

definition tree_json :: "tree \<Rightarrow> json" where
  "tree_json t = JObj [(''entries'', JList (map entry_json (tree_entries t))), (''path'', JStr (tree_path t))]"

definition include_path_ok :: "db \<Rightarrow> string \<Rightarrow> string \<Rightarrow> string \<Rightarrow> bool" where
  "include_path_ok d repoID snapshotID raw =
     (let cleaned = NormalizeSnapshotPath raw in
      cleaned = ''/'' \<or>
      (case GetSnapshotTreeCache d repoID snapshotID (Dir cleaned) of
         Inl _ \<Rightarrow> False
       | Inr cache \<Rightarrow>
           (case decode_tree (tc_tree cache) of
              None \<Rightarrow> False | Some t \<Rightarrow> list_ex (\<lambda>e. te_name e = Base cleaned) (tree_entries t))))"

definition authorizeRestoreIncludePaths :: "db \<Rightarrow> string \<Rightarrow> string \<Rightarrow> string list \<Rightarrow> jobs_err + unit" where
  "authorizeRestoreIncludePaths d repoID snapshotID paths =
     require (list_all (include_path_ok d repoID snapshotID) paths) ErrSnapshotRefreshRequired"

section \<open>Preconditions of a restore\<close>

definition isDatabaseKind :: "kind \<Rightarrow> bool" where
  "isDatabaseKind k \<longleftrightarrow> k \<in> {KindPostgreSQL, KindMySQL, KindMongoDB, KindSQLite}"

definition minSafeDatabaseRestoreVersion :: string where "minSafeDatabaseRestoreVersion = ''0.1.1''"

definition maxDatabaseNameRunes :: "kind \<Rightarrow> nat" where
  "maxDatabaseNameRunes k = (case k of KindMySQL \<Rightarrow> 64 | KindPostgreSQL \<Rightarrow> 63 | _ \<Rightarrow> 0)"

definition requireSafeDatabaseRestore :: "'m registry \<Rightarrow> agent \<Rightarrow> jobs_err + unit" where
  "requireSafeDatabaseRestore reg a =
     (let (ready, safe, connected) = ConnectionCapabilities reg (agt_id a) in
      if \<not> connected \<or> \<not> ready then Inl JobsCapabilitiesPending
      else if \<not> safe then Inl JobsUnsafeDatabaseRestore
      else if \<not> AtLeast (agt_version a) minSafeDatabaseRestoreVersion then Inl JobsUnsafeDatabaseRestore
      else Inr ())"

record restore_input =
  ri_repository_id :: string
  ri_snapshot_id :: string
  ri_kind :: kind
  ri_target :: restore_target
  ri_overwrite :: bool
  ri_confirmation :: string
  ri_target_password :: string
  ri_target_agent_id :: string

text \<open>The check of the target, by kind.\<close>

definition check_filesystem_target :: "db \<Rightarrow> string \<Rightarrow> restore_input \<Rightarrow> jobs_err + unit" where
  "check_filesystem_target d repoID inp =
     (let t = ri_target inp in
      and_then (require (rt_target_path t \<noteq> [] \<and> IsAbs (rt_target_path t)) ErrPathInvalid) (\<lambda>_.
      and_then (require (rt_overwrite_mode t \<in> {''never'', ''if-changed'', ''always''}) ErrPathInvalid) (\<lambda>_.
        authorizeRestoreIncludePaths d repoID (ri_snapshot_id inp) (rt_include_paths t))))"

definition check_database_target :: "(string \<Rightarrow> string) \<Rightarrow> restore_input \<Rightarrow> jobs_err + unit" where
  "check_database_target hash inp =
     (let t = ri_target inp; k = ri_kind inp; maxn = maxDatabaseNameRunes k in
      and_then (require (isDatabaseKind k) ErrPathInvalid) (\<lambda>_.
      and_then (require (ToLower (TrimSpace (rt_database t)) \<noteq> ''all'') ErrUnsupportedManifest) (\<lambda>_.
      and_then (require (\<not> IsSystemDatabase k (rt_database t)) ErrPathInvalid) (\<lambda>_.
      and_then (require (maxn = 0 \<or> RuneCount (rt_database t) \<le> maxn) ErrPathInvalid) (\<lambda>_.
      and_then (require (\<not> ri_overwrite inp \<or> ri_confirmation inp = hash (rt_database t)) ErrForbidden) (\<lambda>_.
      and_then (require (k = KindSQLite \<or> (rt_host t \<noteq> [] \<and> 0 < rt_port t \<and> rt_port t \<le> 65535 \<and> rt_username t \<noteq> [])) ErrPathInvalid) (\<lambda>_.
      and_then (require (rt_database t \<noteq> []) ErrPathInvalid) (\<lambda>_.
        require (k = KindSQLite \<longrightarrow> IsAbs (rt_database t)) ErrPathInvalid))))))))"

definition target_agent_of :: "restore_input \<Rightarrow> repository \<Rightarrow> string" where
  "target_agent_of inp repo =
     (if TrimSpace (ri_target_agent_id inp) = [] then repo_agent_id repo else TrimSpace (ri_target_agent_id inp))"

definition get_target_agent :: "db \<Rightarrow> string \<Rightarrow> jobs_err + agent" where
  "get_target_agent d i =
     (case GetAgent d i of Inl e \<Rightarrow> Inl (if e = ErrNotFound then JobsNotFound else JStore e) | Inr a \<Rightarrow> Inr a)"

definition restore_preconditions ::
    "(string \<Rightarrow> string) \<Rightarrow> (string \<Rightarrow> string) \<Rightarrow> db \<Rightarrow> 'm registry \<Rightarrow> restore_input \<Rightarrow> jobs_err + (repository \<times> agent)" where
  "restore_preconditions hash digest d reg inp =
     and_then (lift_store (GetRepository d (ri_repository_id inp))) (\<lambda>repo.
     let target = target_agent_of inp repo in
     and_then (get_target_agent d target) (\<lambda>agent.
     and_then (require (\<not> agt_revoked agent) ErrAgentRevoked) (\<lambda>_.
     and_then (require (Connected reg target) ErrAgentOffline) (\<lambda>_.
     and_then (require (snd (snd (ConnectionCapabilities reg target))) ErrAgentOffline) (\<lambda>_.
     and_then (require (target = repo_agent_id repo \<or> repo_status repo = RepoReady) ErrRepositoryNotReady) (\<lambda>_.
     and_then (if ri_kind inp = KindFilesystem then check_filesystem_target d (repo_id repo) inp
               else check_database_target hash inp) (\<lambda>_.
     and_then (authorizeRestoreSnapshot digest d (repo_id repo) (ri_snapshot_id inp) (ri_kind inp)) (\<lambda>_.
     and_then (checkRestoreTools agent (ri_kind inp)) (\<lambda>_.
     and_then (if isDatabaseKind (ri_kind inp) then requireSafeDatabaseRestore reg agent else Inr ()) (\<lambda>_.
       Inr (repo, agent)))))))))))"

section \<open>Starting a restore\<close>

definition restore_request_of :: "(string \<Rightarrow> string) \<Rightarrow> string \<Rightarrow> string \<Rightarrow> instant \<Rightarrow> restore_input \<Rightarrow> restore_request" where
  "restore_request_of hash reqid rid now inp =
     \<lparr>rr_id = reqid, rr_run_id = rid, rr_snapshot_id = ri_snapshot_id inp, rr_kind = ri_kind inp,
      rr_target_json = target_json (ri_target inp), rr_overwrite = ri_overwrite inp,
      rr_confirmation_hash = (if ri_overwrite inp \<and> ri_kind inp \<noteq> KindFilesystem then hash (rt_database (ri_target inp)) else []),
      rr_pre_restore_run_id = [], rr_rollback_snapshot_id = [], rr_phase = RestorePhaseQueued, rr_created_at = now\<rparr>"

definition restore_run_of :: "sealing \<Rightarrow> string \<Rightarrow> instant \<Rightarrow> repository \<Rightarrow> string \<Rightarrow> restore_input \<Rightarrow> run" where
  "restore_run_of sl rid now repo target inp =
     (new_run rid target OpRestore (repo_id repo) now json_braces
        (restoreRunDedupKey (repo_id repo) target (ri_snapshot_id inp) (ri_kind inp) (target_json (ri_target inp)) (ri_overwrite inp)
           (if ri_target_password inp = [] then [] else sl_fingerprint sl ''restore.target_password'' (ri_target_password inp))))
     \<lparr>run_snapshot_id := ri_snapshot_id inp\<rparr>"

definition request_failed :: "instant \<Rightarrow> run \<Rightarrow> run" where
  "request_failed now r = r\<lparr>run_finished_at := Some now, run_error_code := CodeInvalidPlan,
     run_error_message := ''failed to persist restore request''\<rparr>"

text \<open>The rows of the restore: both in one transaction for a database, one after the other for files.  The
  flag tells whether the run's row was written.\<close>

definition insert_restore_rows :: "instant \<Rightarrow> run \<Rightarrow> restore_request \<Rightarrow> db \<Rightarrow> (store_err option \<times> bool) \<times> db" where
  "insert_restore_rows now run rr d =
     (if isDatabaseKind (rr_kind rr)
      then (case CreateDatabaseRestoreRun now run rr d of Inl e \<Rightarrow> ((Some e, False), d) | Inr d' \<Rightarrow> ((None, True), d'))
      else (case CreateRun now run d of
              Inl e \<Rightarrow> ((Some e, False), d)
            | Inr d1 \<Rightarrow>
                (case CreateRestoreRequest rr d1 of Inl e \<Rightarrow> ((Some e, True), d1) | Inr d2 \<Rightarrow> ((None, True), d2))))"

definition join_restore :: "db \<Rightarrow> string \<Rightarrow> jobs_err + (restore_request \<times> run)" where
  "join_restore d key =
     (case joinDuplicateRun d ErrDuplicateRun key of
        None \<Rightarrow> Inl (JStore ErrDuplicateRun)
      | Some r \<Rightarrow> and_then (lift_store (GetRestoreRequestByRunID d (run_id r))) (\<lambda>rr. Inr (rr, r)))"

definition restore_detail :: "restore_input \<Rightarrow> restore_request \<Rightarrow> repository \<Rightarrow> string \<Rightarrow> (string \<times> string) list" where
  "restore_detail inp rr repo rid =
     [(''confirmation'', rr_confirmation_hash rr), (''overwrite'', if ri_overwrite inp then ''true'' else ''false''),
      (''restore_kind'', kind_text (ri_kind inp)), (''run_id'', rid), (''snapshot_id'', ri_snapshot_id inp),
      (''source_agent_id'', repo_agent_id repo), (''target_agent_id'', target_agent_of inp repo)]"

definition StartRestore ::
    "sealing \<Rightarrow> (string \<Rightarrow> string) \<Rightarrow> (string \<Rightarrow> string) \<Rightarrow> string \<Rightarrow> string \<Rightarrow> string \<Rightarrow> instant \<Rightarrow> string \<Rightarrow> restore_input \<Rightarrow>
     'c world \<Rightarrow> (jobs_err + (restore_request \<times> run)) \<times> 'c world" where
  "StartRestore sl hash digest reqid rid aid now actorID inp w =
     (case restore_preconditions hash digest (w_db w) (w_reg w) inp of
        Inl e \<Rightarrow> (Inl e, w)
      | Inr (repo, agent) \<Rightarrow>
          let target = target_agent_of inp repo;
              rr = restore_request_of hash reqid rid now inp;
              run = restore_run_of sl rid now repo target inp
          in case insert_restore_rows now run rr (w_db w) of
               ((Some e, persisted), d1) \<Rightarrow>
                 let w1 = w\<lparr>w_db := d1\<rparr> in
                 if e = ErrDuplicateRun then (join_restore d1 (run_dedup_key run), w1)
                 else if e = ErrDatabaseRestoreBusy then (Inl ErrRestoreBusy, w1)
                 else (Inl (JStore e), if persisted then try_transition rid RunQueued RunFailed (request_failed now) w1 else w1)
             | ((None, _), d1) \<Rightarrow>
                 (case SaveRunTargetPassword (sl_seal sl) now rid (ri_target_password inp) d1 of
                    Inl e \<Rightarrow> (Inl (JStore e), try_transition rid RunQueued RunFailed
                        (secret_failed now ''failed to persist restore credential'') (w\<lparr>w_db := d1\<rparr>))
                  | Inr d2 \<Rightarrow>
                      (Inr (rr, run),
                       Audit aid now ''admin'' actorID ''restore.start'' ''restore_request'' reqid (restore_detail inp rr repo rid)
                         (Enqueue rid target (repo_id repo) (w\<lparr>w_db := d2\<rparr>)))))"

section \<open>Resolving a blocked restore\<close>

definition ResolveRestore :: "string \<Rightarrow> instant \<Rightarrow> string \<Rightarrow> string \<Rightarrow> string \<Rightarrow> string \<Rightarrow> 'c world \<Rightarrow> jobs_err option \<times> 'c world" where
  "ResolveRestore aid now actorID requestID rid msg w =
     (case GetRestoreRequest (w_db w) requestID of
        Inl e \<Rightarrow> (Some (JStore e), w)
      | Inr rr \<Rightarrow>
          if rr_run_id rr = [] \<or> rid \<noteq> rr_run_id rr \<or> \<not> RestorePhaseNeedsManualResolution (rr_phase rr)
          then (Some JobsRestoreConflict, w)
          else case ResolveRestoreRequest aid requestID rid actorID msg now (w_db w) of
            Inl e \<Rightarrow> (Some (JStore e), w)
          | Inr d' \<Rightarrow>
              let w1 = drop_secrets rid (w\<lparr>w_db := d'\<rparr>) in
              (None, case GetRun (w_db w1) rid of Inl _ \<Rightarrow> w1 | Inr r \<Rightarrow> publish rid (StateEvent r) w1))"

section \<open>Trial runs\<close>

definition dry_run_preconditions ::
    "(string \<Rightarrow> string) \<Rightarrow> db \<Rightarrow> 'm registry \<Rightarrow> string \<Rightarrow> string \<Rightarrow> string list \<Rightarrow> string \<Rightarrow> jobs_err + (repository \<times> string)" where
  "dry_run_preconditions digest d reg repoID snapshotID includes targetAgentID =
     and_then (lift_store (GetRepository d repoID)) (\<lambda>repo.
     let target = (if targetAgentID = [] then repo_agent_id repo else targetAgentID) in
     and_then (get_target_agent d target) (\<lambda>agent.
     and_then (require (\<not> agt_revoked agent) ErrAgentRevoked) (\<lambda>_.
     and_then (require (Connected reg target) ErrAgentOffline) (\<lambda>_.
     and_then (require (target = repo_agent_id repo \<or> repo_status repo = RepoReady) ErrRepositoryNotReady) (\<lambda>_.
     and_then (authorizeRestoreSnapshot digest d repoID snapshotID KindFilesystem) (\<lambda>_.
     and_then (authorizeRestoreIncludePaths d repoID snapshotID includes) (\<lambda>_.
     and_then (checkRestoreTools agent KindFilesystem) (\<lambda>_.
       Inr (repo, target)))))))))"

record dry_run_stats =
  dry_add :: int
  dry_changed :: int
  dry_skipped :: int
  dry_delete :: int
  dry_sample :: "string list"

definition decode_stats :: "json \<Rightarrow> dry_run_stats option" where
  "decode_stats j =
     (case j of
        JObj ms \<Rightarrow>
          (case (field_int ''add'' ms, field_int ''changed'' ms, field_int ''skipped'' ms, field_int ''delete'' ms, field_strings ''sample'' ms) of
             (Some a, Some c, Some k, Some x, Some s) \<Rightarrow>
               Some \<lparr>dry_add = a, dry_changed = c, dry_skipped = k, dry_delete = x, dry_sample = s\<rparr>
           | _ \<Rightarrow> None)
      | JNull \<Rightarrow> Some \<lparr>dry_add = 0, dry_changed = 0, dry_skipped = 0, dry_delete = 0, dry_sample = []\<rparr>
      | _ \<Rightarrow> None)"

text \<open>The statistics are \<open>None\<close> when the run left no result.\<close>

definition DryRunRestore ::
    "sealing \<Rightarrow> (string \<Rightarrow> string) \<Rightarrow> 'c meanwhile \<Rightarrow> string \<Rightarrow> instant \<Rightarrow> string \<Rightarrow> string \<Rightarrow> string list \<Rightarrow> string \<Rightarrow> string \<Rightarrow> string \<Rightarrow>
     'c world \<Rightarrow> (jobs_err + (dry_run_stats option \<times> run)) \<times> 'c world" where
  "DryRunRestore sl digest env rid now repoID snapshotID includes targetPath mode targetAgentID w =
     (case dry_run_preconditions digest (w_db w) (w_reg w) repoID snapshotID includes targetAgentID of
        Inl e \<Rightarrow> (Inl e, w)
      | Inr (repo, target) \<Rightarrow>
          (case SystemRun sl rid now target repoID OpRestoreDryRun
                  (RestoreTask KindFilesystem (repo_path repo)
                     (Some (FilesystemRestore snapshotID includes targetPath mode True)) None []) w of
             (Inl e, w1) \<Rightarrow> (Inl e, w1)
           | (Inr run, w1) \<Rightarrow>
               (case await env (run_id run) w1 of
                  (Inl e, w2) \<Rightarrow> (Inl e, w2)
                | (Inr term, w2) \<Rightarrow>
                    if run_status term \<noteq> RunSucceeded then (Inl (JText (if run_error_code term = [] then ''dry run failed'' else run_error_code term @ '': '' @ run_error_message term)), w2)
                    else (case result_of term of
                            None \<Rightarrow> (Inr (None, term), w2)
                          | Some res \<Rightarrow>
                              (case decode_stats res of
                                 None \<Rightarrow> (Inl (JText ''unmarshal''), w2) | Some s \<Rightarrow> (Inr (Some s, term), w2))))))"

section \<open>Protected snapshots\<close>

definition restoreProtectionTag :: string where "restoreProtectionTag = ''restore-protection:''"

definition snapshotHasRestoreProtection :: "snapshot \<Rightarrow> bool" where
  "snapshotHasRestoreProtection s \<longleftrightarrow> list_ex (\<lambda>t. HasPrefix t restoreProtectionTag) (snap_tags s)"

definition protectionTagRunID :: "snapshot \<Rightarrow> string" where
  "protectionTagRunID s =
     (case List.find (\<lambda>t. HasPrefix t restoreProtectionTag) (snap_tags s) of
        None \<Rightarrow> [] | Some t \<Rightarrow> TrimPrefix t restoreProtectionTag)"

definition assertSnapshotNotRestoreProtected :: "(string \<Rightarrow> string) \<Rightarrow> db \<Rightarrow> string \<Rightarrow> string \<Rightarrow> jobs_err + unit" where
  "assertSnapshotNotRestoreProtected digest d repoID snapshotID =
     (if snapshotID \<in> set (ProtectedRestoreSnapshotIDs d repoID) then Inl ErrSnapshotRestoreProtected
      else and_then (verifiedSnapshot digest d repoID snapshotID) (\<lambda>s.
        if \<not> snapshotHasRestoreProtection s then Inr ()
        else case GetRestoreRequestByRunID d (protectionTagRunID s) of
          Inl _ \<Rightarrow> Inl ErrSnapshotRestoreProtected
        | Inr rr \<Rightarrow> require (RestorePhaseReleasesOccupancy (rr_phase rr)) ErrSnapshotRestoreProtected))"

definition QueueSnapshotDeletion ::
    "(string \<Rightarrow> string) \<Rightarrow> string \<Rightarrow> string \<Rightarrow> instant \<Rightarrow> string \<Rightarrow> string \<Rightarrow> string \<Rightarrow> 'c world \<Rightarrow>
     (jobs_err + (snapshot_deletion \<times> bool)) \<times> 'c world" where
  "QueueSnapshotDeletion digest newid aid now actorID repoID snapshotID w =
     (case and_then (assertSnapshotNotRestoreProtected digest (w_db w) repoID snapshotID) (\<lambda>_.
           and_then (lift_store (GetRepository (w_db w) repoID)) (\<lambda>repo.
             lift_store (QueueManualSnapshotDeletion newid repoID (repo_agent_id repo) snapshotID actorID now (w_db w)))) of
        Inl e \<Rightarrow> (Inl e, w)
      | Inr (del, created, d') \<Rightarrow>
          (Inr (del, created),
           Audit aid now ''admin'' actorID ''snapshot.delete.requested'' ''snapshot'' snapshotID
             [(''deletion_id'', del_id del), (''repository_id'', repoID),
              (''source'', case del_source del of SnapshotDeletionManual \<Rightarrow> ''manual'' | SnapshotDeletionOrphan \<Rightarrow> ''orphan'')]
             (w\<lparr>w_db := d'\<rparr>)))"

section \<open>Lemmas: JSON\<close>

lemma obj_get_append: "obj_get k (xs @ ys) = (case obj_get k ys of None \<Rightarrow> obj_get k xs | Some v \<Rightarrow> Some v)"
proof (induction ys rule: rev_induct)
  case (snoc y ys)
  then show ?case using obj_get_snoc [of k "xs @ ys" y] by simp
qed simp

lemma obj_get_omit:
  "obj_get k (omitempty k' v) = (if k = k' \<and> v \<noteq> [] then Some (JStr v) else None)"
  "obj_get k (if xs = [] then [] else [(k', j)]) = (if k = k' \<and> xs \<noteq> [] then Some j else None)"
  "obj_get k (if n = (0::int) then [] else [(k', j)]) = (if k = k' \<and> n \<noteq> 0 then Some j else None)"
  by (auto simp: omitempty_def obj_get_def)

lemma lax_strings_map: "map (\<lambda>j. or_zero [] (decode_string j)) (map JStr xs) = xs"
  by (induction xs) (auto simp: decode_string_def or_zero_def)

lemma decode_target_json: "decode_target (target_json t) = t"
proof -
  obtain ms where ms: "target_json t = JObj ms" "ms = omitempty ''target_path'' (rt_target_path t) @
           (if rt_include_paths t = [] then [] else [(''include_paths'', JList (map JStr (rt_include_paths t)))]) @
           omitempty ''overwrite_mode'' (rt_overwrite_mode t) @
           omitempty ''host'' (rt_host t) @
           (if rt_port t = 0 then [] else [(''port'', JNum (rt_port t))]) @
           omitempty ''username'' (rt_username t) @
           omitempty ''database'' (rt_database t) @
           omitempty ''auth_source'' (rt_auth_source t)"
    by (simp add: target_json_def)
  have str: "or_zero [] (field_string k ms) = v" if "obj_get k ms = (if v \<noteq> [] then Some (JStr v) else None)" for k v
    using that by (simp add: field_string_def or_zero_def)
  have "obj_get ''include_paths'' ms = (if rt_include_paths t \<noteq> [] then Some (JList (map JStr (rt_include_paths t))) else None)"
    unfolding ms obj_get_append obj_get_omit by simp
  then have incl: "lax_strings ''include_paths'' ms = rt_include_paths t"
    using lax_strings_map [of "rt_include_paths t"] by (simp add: lax_strings_def)
  have "obj_get ''port'' ms = (if rt_port t \<noteq> 0 then Some (JNum (rt_port t)) else None)"
    unfolding ms obj_get_append obj_get_omit by simp
  then have port: "or_zero 0 (field_int ''port'' ms) = rt_port t" by (simp add: field_int_def or_zero_def)
  have gets: "obj_get ''target_path'' ms = (if rt_target_path t \<noteq> [] then Some (JStr (rt_target_path t)) else None)"
    "obj_get ''overwrite_mode'' ms = (if rt_overwrite_mode t \<noteq> [] then Some (JStr (rt_overwrite_mode t)) else None)"
    "obj_get ''host'' ms = (if rt_host t \<noteq> [] then Some (JStr (rt_host t)) else None)"
    "obj_get ''username'' ms = (if rt_username t \<noteq> [] then Some (JStr (rt_username t)) else None)"
    "obj_get ''database'' ms = (if rt_database t \<noteq> [] then Some (JStr (rt_database t)) else None)"
    "obj_get ''auth_source'' ms = (if rt_auth_source t \<noteq> [] then Some (JStr (rt_auth_source t)) else None)"
    unfolding ms obj_get_append obj_get_omit by simp_all
  note strs = str [OF gets(1)] str [OF gets(2)] str [OF gets(3)] str [OF gets(4)] str [OF gets(5)] str [OF gets(6)]
  show ?thesis unfolding ms(1) decode_target_def by (simp add: strs incl port)
qed

section \<open>Lemmas: preconditions\<close>

lemma find_Some_in: "List.find P xs = Some x \<Longrightarrow> x \<in> set xs \<and> P x"
  by (auto simp: find_Some_iff)

lemma verifiedSnapshot_Inr:
  "verifiedSnapshot digest d repoID sid = Inr s \<Longrightarrow>
     \<exists>snaps. verifiedSnapshotList digest d repoID = Inr snaps \<and> s \<in> set snaps \<and> snap_id s = sid"
  using find_Some_in by (fastforce simp: verifiedSnapshot_def and_then_Inr split: option.splits)

lemma get_target_agent_Inr: "get_target_agent d i = Inr a \<longleftrightarrow> find_agent d i = Some a"
  by (auto simp: get_target_agent_def GetAgent_def split: option.splits)

lemma find_agent_id: "find_agent d i = Some a \<Longrightarrow> agt_id a = i"
  by (auto simp: find_agent_def dest: tbl_get_Some)

lemma requireSafe_Inr:
  "requireSafeDatabaseRestore reg a = Inr u \<Longrightarrow>
     ConnectionCapabilities reg (agt_id a) = (True, True, True) \<and> AtLeast (agt_version a) minSafeDatabaseRestoreVersion"
  by (auto simp: requireSafeDatabaseRestore_def Let_def split: prod.splits if_splits)

lemma StartRestore_preconditions:
  assumes "StartRestore sl hash digest reqid rid aid now actorID inp w = (Inr (rr, run), w')"
  obtains repo agent where "restore_preconditions hash digest (w_db w) (w_reg w) inp = Inr (repo, agent)"
  using assms by (cases "restore_preconditions hash digest (w_db w) (w_reg w) inp") (auto simp: StartRestore_def)

lemma restore_preconditions_Inr:
  assumes "restore_preconditions hash digest d reg inp = Inr (repo, agent)"
  shows "GetRepository d (ri_repository_id inp) = Inr repo" "find_agent d (target_agent_of inp repo) = Some agent"
    "\<not> agt_revoked agent" "Connected reg (target_agent_of inp repo)"
    "\<exists>s. authorizeRestoreSnapshot digest d (repo_id repo) (ri_snapshot_id inp) (ri_kind inp) = Inr s"
    "ri_kind inp \<noteq> KindFilesystem \<Longrightarrow> check_database_target hash inp = Inr ()"
    "ri_kind inp = KindFilesystem \<Longrightarrow> check_filesystem_target d (repo_id repo) inp = Inr ()"
    "isDatabaseKind (ri_kind inp) \<Longrightarrow> requireSafeDatabaseRestore reg agent = Inr ()"
  using assms by (auto simp: restore_preconditions_def and_then_Inr get_target_agent_Inr Let_def)

section \<open>Lemmas: the rows of a restore\<close>

lemma insert_rows_new:
  assumes ins: "insert_restore_rows now run rr d = ((None, b), d1)" and ok: "restores_ok (db_runs d) (db_restores d)"
  shows "find_run d (run_id run) = None \<and>
    (\<exists>cs ts. d1 = d\<lparr>db_runs := db_runs d @ [run_row run], db_cache_states := cs, db_tree_cache := ts,
       db_restores := db_restores d @ [restore_row rr]\<rparr>)"
proof -
  from ins ok obtain d0 where d0: "insertRunTx now run d = Inr d0" and d1: "insert_restore rr d0 = Inr d1"
    by (auto simp: insert_restore_rows_def CreateDatabaseRestoreRun_iff CreateRun_def CreateRestoreRequest_def
        split: if_splits sum.splits)
  obtain cs ts where "d0 = d\<lparr>db_runs := db_runs d @ [run_row run], db_cache_states := cs, db_tree_cache := ts\<rparr>"
    using insertRun_frame [OF d0] by blast
  with d1 have "d1 = d\<lparr>db_runs := db_runs d @ [run_row run], db_cache_states := cs, db_tree_cache := ts,
      db_restores := db_restores d @ [restore_row rr]\<rparr>" by (auto simp: insert_restore_iff)
  then show ?thesis using CreateRun_fresh [of now run d d0] d0 by (auto simp: CreateRun_def)
qed

lemma request_of_new_run:
  assumes ok: "restores_ok (db_runs d) (db_restores d)" and fresh: "find_run d (rr_run_id rr) = None"
    and rows: "db_restores d' = db_restores d @ [restore_row rr]"
  shows "GetRestoreRequestByRunID d' (rr_run_id rr) = Inr (restore_row rr)"
proof -
  have "rr_run_id x \<noteq> rr_run_id rr" if "x \<in> set (db_restores d)" for x
    using restores_ok_find_run [OF ok that] fresh by auto
  then have "filter (\<lambda>x. rr_run_id x = rr_run_id rr) (db_restores d) = []" by (simp add: filter_empty_conv)
  then show ?thesis by (simp add: GetRestoreRequestByRunID_def rows order_desc_def)
qed

lemma Audit_db: "\<exists>au. w_db (Audit aid now a b c e f g v) = (w_db v)\<lparr>db_audits := au\<rparr>"
proof (cases "AppendAuditEvent \<lparr>aud_id = aid, aud_occurred_at = now, aud_actor_type = a, aud_actor_id = b,
             aud_action = c, aud_resource_type = e, aud_resource_id = f, aud_detail = JObj (map (apsnd JStr) g)\<rparr> (w_db v)")
  case (Inl e)
  then show ?thesis by (intro exI [of _ "db_audits (w_db v)"]) (simp add: Audit_def)
next
  case (Inr d')
  then show ?thesis by (auto simp: Audit_def AppendAuditEvent_def split: if_splits)
qed

lemma StartRestore_cases [consumes 1, case_names join new]:
  assumes start: "StartRestore sl hash digest reqid rid aid now actorID inp w = (Inr (rr, run), w')"
  obtains (join) repo agent e b d1 where "restore_preconditions hash digest (w_db w) (w_reg w) inp = Inr (repo, agent)"
      "insert_restore_rows now (restore_run_of sl rid now repo (target_agent_of inp repo) inp)
         (restore_request_of hash reqid rid now inp) (w_db w) = ((Some e, b), d1)" "e = ErrDuplicateRun"
      "join_restore d1 (run_dedup_key (restore_run_of sl rid now repo (target_agent_of inp repo) inp)) = Inr (rr, run)"
  | (new) repo agent b d1 d2 where "restore_preconditions hash digest (w_db w) (w_reg w) inp = Inr (repo, agent)"
      "rr = restore_request_of hash reqid rid now inp" "run = restore_run_of sl rid now repo (target_agent_of inp repo) inp"
      "insert_restore_rows now run rr (w_db w) = ((None, b), d1)"
      "SaveRunTargetPassword (sl_seal sl) now rid (ri_target_password inp) d1 = Inr d2"
      "\<exists>au. w_db w' = d2\<lparr>db_audits := au\<rparr>"
proof -
  from StartRestore_preconditions [OF start] obtain repo agent where
    pre: "restore_preconditions hash digest (w_db w) (w_reg w) inp = Inr (repo, agent)" .
  let ?run = "restore_run_of sl rid now repo (target_agent_of inp repo) inp"
  let ?rr = "restore_request_of hash reqid rid now inp"
  obtain res b d1 where ins: "insert_restore_rows now ?run ?rr (w_db w) = ((res, b), d1)"
    by (cases "insert_restore_rows now ?run ?rr (w_db w)") auto
  show thesis
  proof (cases res)
    case (Some e)
    then have "e = ErrDuplicateRun" "join_restore d1 (run_dedup_key ?run) = Inr (rr, run)"
      using start ins by (auto simp: StartRestore_def pre Let_def split: if_splits)
    then show thesis using join [OF pre] ins Some by blast
  next
    case None
    obtain d2 where d2: "SaveRunTargetPassword (sl_seal sl) now rid (ri_target_password inp) d1 = Inr d2"
      using start ins None by (cases "SaveRunTargetPassword (sl_seal sl) now rid (ri_target_password inp) d1")
        (simp_all add: StartRestore_def pre Let_def)
    have new_rows: "rr = ?rr" "run = ?run" and w': "w' = Audit aid now ''admin'' actorID ''restore.start'' ''restore_request'' reqid
        (restore_detail inp ?rr repo rid) (Enqueue rid (target_agent_of inp repo) (repo_id repo) (w\<lparr>w_db := d2\<rparr>))"
      using start ins None d2 by (auto simp: StartRestore_def pre Let_def)
    have "w_db (Enqueue rid (target_agent_of inp repo) (repo_id repo) (w\<lparr>w_db := d2\<rparr>)) = d2"
      by (simp add: Enqueue_def push_job_def)
    with Audit_db [of aid now "''admin''" actorID "''restore.start''" "''restore_request''" reqid "restore_detail inp ?rr repo rid"
        "Enqueue rid (target_agent_of inp repo) (repo_id repo) (w\<lparr>w_db := d2\<rparr>)"]
    have "\<exists>au. w_db w' = d2\<lparr>db_audits := au\<rparr>" unfolding w' by simp
    then show thesis using new [OF pre new_rows _ d2] ins None new_rows by blast
  qed
qed

lemma password_read_back:
  assumes seal: "\<And>t r c p x. sl_seal sl t r c p = Some x \<Longrightarrow> sl_open sl t r c x = Some p"
    and fresh: "\<forall>s\<in>set (db_run_secrets d). rsec_run_id s \<noteq> rid"
    and save: "SaveRunTargetPassword (sl_seal sl) now rid pw d = Inr d'"
    and same: "db_run_secrets d'' = db_run_secrets d'"
  shows "run_db_password (sl_open sl) d'' (r\<lparr>run_id := rid, run_operation := OpRestore\<rparr>) = Inr pw"
proof (cases "pw = []")
  case True
  then have "tbl_get (\<lambda>s. rsec_run_id s = rid) (db_run_secrets d'') = None"
    using save same fresh by (auto simp: SaveRunTargetPassword_def tbl_get_None)
  then show ?thesis using True by (simp add: run_db_password_def GetRunTargetPassword_def)
next
  case False
  then obtain c where c: "sl_seal sl ''run_secrets'' rid ''encrypted_target_password'' pw = Some c"
    and put: "put_run_secret now rid (\<lambda>s. s\<lparr>rsec_target_password := c\<rparr>) d = Inr d'"
    using save by (auto simp: SaveRunTargetPassword_def split: option.splits)
  from put fresh have "db_run_secrets d' = db_run_secrets d @ [\<lparr>rsec_run_id = rid, rsec_target_password = c, rsec_rclone_config = [], rsec_created_at = sec now\<rparr>]"
    by (auto simp: put_run_secret_def list_ex_iff split: if_splits)
  moreover have "tbl_get (\<lambda>s. rsec_run_id s = rid) (db_run_secrets d) = None" using fresh by (simp add: tbl_get_None)
  ultimately have "tbl_get (\<lambda>s. rsec_run_id s = rid) (db_run_secrets d'') =
      Some \<lparr>rsec_run_id = rid, rsec_target_password = c, rsec_rclone_config = [], rsec_created_at = sec now\<rparr>"
    by (simp add: same)
  then show ?thesis using seal [OF c] by (simp add: run_db_password_def GetRunTargetPassword_def)
qed

section \<open>Properties\<close>

text \<open>C14: Every restore that is admitted is authorised: its snapshot is in the repository's verified list,
  carries the tag of the requested kind and is not hidden by a pending deletion; the agent is known,
  not revoked and connected.  For a database the agent's current connection has reported safe restores,
  its build is recent enough, the target is no system database, and overwriting was confirmed with the
  hash of the very database that is overwritten.\<close>

theorem started_restore_is_authorised:
  assumes "StartRestore sl hash digest reqid rid aid now actorID inp w = (Inr (rr, run), w')"
  shows "\<exists>repo agent snaps s. GetRepository (w_db w) (ri_repository_id inp) = Inr repo \<and>
    verifiedSnapshotList digest (w_db w) (repo_id repo) = Inr snaps \<and> s \<in> set snaps \<and> snap_id s = ri_snapshot_id inp \<and>
    ''kind:'' @ kind_text (ri_kind inp) \<in> set (snap_tags s) \<and>
    ri_snapshot_id inp \<notin> set (HiddenSnapshotIDs (w_db w) (repo_id repo)) \<and>
    find_agent (w_db w) (target_agent_of inp repo) = Some agent \<and> \<not> agt_revoked agent \<and> Connected (w_reg w) (agt_id agent) \<and>
    (ri_kind inp \<noteq> KindFilesystem \<longrightarrow>
       ConnectionCapabilities (w_reg w) (agt_id agent) = (True, True, True) \<and> AtLeast (agt_version agent) ''0.1.1'' \<and>
       \<not> IsSystemDatabase (ri_kind inp) (rt_database (ri_target inp)) \<and> rt_database (ri_target inp) \<noteq> [] \<and>
       (ri_overwrite inp \<longrightarrow> ri_confirmation inp = hash (rt_database (ri_target inp))))"
proof -
  from StartRestore_preconditions [OF assms] obtain repo agent where
    pre: "restore_preconditions hash digest (w_db w) (w_reg w) inp = Inr (repo, agent)" .
  note facts = restore_preconditions_Inr [OF pre]
  from facts(5) obtain s where s: "verifiedSnapshot digest (w_db w) (repo_id repo) (ri_snapshot_id inp) = Inr s"
    "snapshotKindMatches s (ri_kind inp)" "ri_snapshot_id inp \<notin> set (HiddenSnapshotIDs (w_db w) (repo_id repo))"
    by (auto simp: authorizeRestoreSnapshot_def and_then_Inr)
  from verifiedSnapshot_Inr [OF s(1)] obtain snaps where snaps:
    "verifiedSnapshotList digest (w_db w) (repo_id repo) = Inr snaps" "s \<in> set snaps" "snap_id s = ri_snapshot_id inp" by blast
  have db: "ConnectionCapabilities (w_reg w) (agt_id agent) = (True, True, True) \<and> AtLeast (agt_version agent) ''0.1.1'' \<and>
      \<not> IsSystemDatabase (ri_kind inp) (rt_database (ri_target inp)) \<and> rt_database (ri_target inp) \<noteq> [] \<and>
      (ri_overwrite inp \<longrightarrow> ri_confirmation inp = hash (rt_database (ri_target inp)))" if "ri_kind inp \<noteq> KindFilesystem"
  proof -
    have t: "isDatabaseKind (ri_kind inp)" "\<not> IsSystemDatabase (ri_kind inp) (rt_database (ri_target inp))"
      "rt_database (ri_target inp) \<noteq> []" "ri_overwrite inp \<longrightarrow> ri_confirmation inp = hash (rt_database (ri_target inp))"
      using facts(6) [OF that] by (auto simp: check_database_target_def and_then_Inr Let_def)
    then show ?thesis using requireSafe_Inr [OF facts(8) [OF t(1)]] by (simp add: minSafeDatabaseRestoreVersion_def)
  qed
  show ?thesis
    using facts(1-4) s snaps db find_agent_id [OF facts(2)] by (auto simp: snapshotKindMatches_def)
qed

section \<open>A sample restore\<close>

definition sample_snapshot :: snapshot where
  "sample_snapshot = \<lparr>snap_id = ''s1'', snap_time = [], snap_host = [], snap_tags = [''kind:mysql''], snap_paths = []\<rparr>"

definition sample_repo :: repository where
  "sample_repo = \<lparr>repo_id = ''p1'', repo_agent_id = ''a1'', repo_storage_target_id = ''t1'', repo_path = ''r:p'',
     repo_encrypted_password = ''pw'', repo_status = RepoReady, repo_last_check_at = None, repo_detached_at = None,
     repo_created_at = 0, repo_updated_at = 0\<rparr>"

definition sample_target :: storage_target where
  "sample_target = \<lparr>tgt_id = ''t1'', tgt_name = ''t'', tgt_type = ''rclone'', tgt_remote_name = ''r'', tgt_remote_path = ''p'',
     tgt_encrypted_config = ''cfg'', tgt_created_at = 0, tgt_updated_at = 0\<rparr>"

definition restore_world :: "nat world" where
  "restore_world = (start_world (empty_db\<lparr>
     db_agents := [(sample_agent ''a1'' False)\<lparr>agt_version := ''0.1.1'',
       agt_capabilities := map (\<lambda>n. \<lparr>tool_name = n, tool_path = n, tool_version = []\<rparr>) [''restic'', ''rclone'', ''mysqldump'', ''mysql'']\<rparr>],
     db_repos := [sample_repo], db_targets := [sample_target],
     db_cache_states := [\<lparr>cst_repository_id = ''p1'', cst_generation = 1, cst_list_verified_at = Some 0, cst_list_fingerprint = ''f'', cst_updated_at = 0\<rparr>],
     db_list_cache := [\<lparr>lc_repository_id = ''p1'', lc_generation = 1, lc_snapshots = JList (map snapshot_json [sample_snapshot]),
       lc_fingerprint = ''f'', lc_verified_at = 0\<rparr>]\<rparr>))
     \<lparr>w_reg := \<lparr>reg_streams = [''a1'' \<mapsto> \<lparr>st_ctx = 0, st_chan = [], st_caps_ready = True, st_safe = True\<rparr>], reg_done = [], reg_next = 1\<rparr>\<rparr>"

definition sample_input :: restore_input where
  "sample_input = \<lparr>ri_repository_id = ''p1'', ri_snapshot_id = ''s1'', ri_kind = KindMySQL,
     ri_target = \<lparr>rt_target_path = [], rt_include_paths = [], rt_overwrite_mode = [], rt_host = ''h'', rt_port = 3306,
       rt_username = ''u'', rt_database = ''shop'', rt_auth_source = []\<rparr>,
     ri_overwrite = True, ri_confirmation = ''shop!'', ri_target_password = ''secret'', ri_target_agent_id = []\<rparr>"

abbreviation sample_hash :: "string \<Rightarrow> string" where "sample_hash s \<equiv> s @ ''!''"

lemma sample_texts:
  "TrimSpace [] = []" "ToLower (TrimSpace ''shop'') = ''shop''" "RuneCount ''shop'' = 4" "AtLeast ''0.1.1'' ''0.1.1''"
proof -
  show "TrimSpace [] = []" "ToLower (TrimSpace ''shop'') = ''shop''" "RuneCount ''shop'' = 4" by code_simp+
  show "AtLeast ''0.1.1'' ''0.1.1''"
    by (simp add: AtLeast_def PartsFromString_def leadingInt_def Atoi_def is_digit_def atoi_value_def int64_range_def Let_def)
qed

lemma sample_preconditions:
  "\<exists>agent. restore_preconditions sample_hash (\<lambda>_. ''f'') (w_db restore_world) (w_reg restore_world) sample_input = Inr (sample_repo, agent)"
proof -
  have "verifiedSnapshotList (\<lambda>_. ''f'') (w_db restore_world) ''p1'' = Inr [sample_snapshot]"
    using decode_snapshots_json [of "[sample_snapshot]"]
    by (simp add: verifiedSnapshotList_def restore_world_def start_world_def GetSnapshotListCache_def cache_of_def SnapshotFingerprint_def)
  then have "authorizeRestoreSnapshot (\<lambda>_. ''f'') (w_db restore_world) ''p1'' ''s1'' KindMySQL = Inr sample_snapshot"
    by (simp add: authorizeRestoreSnapshot_def verifiedSnapshot_def sample_snapshot_def snapshotKindMatches_def require_def
        HiddenSnapshotIDs_def restore_world_def start_world_def)
  moreover have "check_database_target sample_hash sample_input = Inr ()"
    by (simp add: check_database_target_def sample_input_def isDatabaseKind_def require_def sample_texts IsSystemDatabase_def
        SystemDatabases_def maxDatabaseNameRunes_def Let_def ToLower.simps)
  ultimately show ?thesis
    by (simp add: restore_preconditions_def sample_input_def restore_world_def start_world_def GetRepository_def find_repo_def
        sample_repo_def lift_store_def target_agent_of_def sample_texts get_target_agent_def GetAgent_def find_agent_def
        sample_agent_def require_def Connected_def ConnectionCapabilities_def checkRestoreTools_def check_tools_def
        restoreRequiredTools_def have_tool_def isDatabaseKind_def requireSafeDatabaseRestore_def minSafeDatabaseRestoreVersion_def Let_def)
qed

lemma sample_start:
  "\<exists>w'. StartRestore sample_sealing sample_hash (\<lambda>_. ''f'') ''q1'' ''r1'' ''e1'' 5 ''admin'' sample_input restore_world =
     (Inr (restore_request_of sample_hash ''q1'' ''r1'' 5 sample_input, restore_run_of sample_sealing ''r1'' 5 sample_repo ''a1'' sample_input), w') \<and>
     (\<exists>au. w_db w' = (w_db restore_world)
        \<lparr>db_runs := [run_row (restore_run_of sample_sealing ''r1'' 5 sample_repo ''a1'' sample_input)],
         db_restores := [restore_row (restore_request_of sample_hash ''q1'' ''r1'' 5 sample_input)],
         db_run_secrets := [\<lparr>rsec_run_id = ''r1'', rsec_target_password = ''secret'', rsec_rclone_config = [], rsec_created_at = sec 5\<rparr>],
         db_audits := au\<rparr>)"
proof -
  obtain agent where pre: "restore_preconditions sample_hash (\<lambda>_. ''f'') (w_db restore_world) (w_reg restore_world) sample_input = Inr (sample_repo, agent)"
    using sample_preconditions by blast
  let ?run = "restore_run_of sample_sealing ''r1'' 5 sample_repo ''a1'' sample_input"
  let ?rr = "restore_request_of sample_hash ''q1'' ''r1'' 5 sample_input"
  have t: "target_agent_of sample_input sample_repo = ''a1''"
    by (simp add: target_agent_of_def sample_input_def sample_repo_def sample_texts)
  have tables: "db_runs (w_db restore_world) = []" "db_restores (w_db restore_world) = []" "db_run_secrets (w_db restore_world) = []"
    by (simp_all add: restore_world_def start_world_def)
  have rk: "rr_kind ?rr = KindMySQL" "run_id ?run = ''r1''" "rr_run_id ?rr = ''r1''" "run_plan_id ?run = []" "run_operation ?run = OpRestore"
    by (simp_all add: restore_request_of_def restore_run_of_def new_run_def sample_input_def)
  let ?d = "(w_db restore_world)\<lparr>db_runs := [run_row ?run]\<rparr>"
  have "insertRunTx 5 ?run (w_db restore_world) = Inr ?d"
    using rk by (simp add: insertRunTx_def run_conflict_def tables invalidatesSnapshotCache_def)
  then have ins: "insert_restore_rows 5 ?run ?rr (w_db restore_world) = ((None, True), ?d\<lparr>db_restores := [restore_row ?rr]\<rparr>)"
    using rk by (simp add: insert_restore_rows_def isDatabaseKind_def CreateDatabaseRestoreRun_def active_database_restore_def tables
        insert_restore_def find_run_def)
  let ?d2 = "?d\<lparr>db_restores := [restore_row ?rr],
      db_run_secrets := [\<lparr>rsec_run_id = ''r1'', rsec_target_password = ''secret'', rsec_rclone_config = [], rsec_created_at = sec 5\<rparr>]\<rparr>"
  have save: "SaveRunTargetPassword (sl_seal sample_sealing) 5 ''r1'' (ri_target_password sample_input) (?d\<lparr>db_restores := [restore_row ?rr]\<rparr>) = Inr ?d2"
    using rk by (simp add: SaveRunTargetPassword_def put_run_secret_def sample_sealing_def sample_input_def tables find_run_def)
  have queued: "w_db (Enqueue ''r1'' ''a1'' (repo_id sample_repo) (restore_world\<lparr>w_db := ?d2\<rparr>)) = ?d2"
    by (simp add: Enqueue_def push_job_def)
  show ?thesis
    using Audit_db [of "''e1''" 5 "''admin''" "''admin''" "''restore.start''" "''restore_request''" "''q1''"
        "restore_detail sample_input ?rr sample_repo ''r1''" "Enqueue ''r1'' ''a1'' (repo_id sample_repo) (restore_world\<lparr>w_db := ?d2\<rparr>)", unfolded queued]
    by (auto simp: StartRestore_def pre t Let_def ins save)
qed

theorem started_restore_is_authorised_witness:
  "\<exists>rr run w'. StartRestore sample_sealing sample_hash (\<lambda>_. ''f'') ''q1'' ''r1'' ''e1'' 5 ''admin'' sample_input restore_world = (Inr (rr, run), w') \<and>
     (\<exists>repo :: repository. \<exists>snaps s. verifiedSnapshotList (\<lambda>_. ''f'') (w_db restore_world) (repo_id repo) = Inr snaps \<and> s \<in> set snaps \<and>
        ''kind:mysql'' \<in> set (snap_tags s))"
proof -
  from sample_start obtain rr run w' where
    st: "StartRestore sample_sealing sample_hash (\<lambda>_. ''f'') ''q1'' ''r1'' ''e1'' 5 ''admin'' sample_input restore_world = (Inr (rr, run), w')"
    by blast
  have k: "''kind:'' @ kind_text (ri_kind sample_input) = ''kind:mysql''" by (simp add: sample_input_def)
  from started_restore_is_authorised [OF st, unfolded k] obtain repo :: repository and snaps s where
    "verifiedSnapshotList (\<lambda>_. ''f'') (w_db restore_world) (repo_id repo) = Inr snaps" "s \<in> set snaps"
    "''kind:mysql'' \<in> set (snap_tags s)" by auto
  with st show ?thesis by blast
qed

lemma duplicate_writes_nothing:
  assumes "insert_restore_rows now run rr d = ((Some ErrDuplicateRun, b), d1)"
  shows "d1 = d"
  using assms by (auto simp: insert_restore_rows_def CreateRestoreRequest_def insert_restore_def split: if_splits sum.splits)

lemma StartRestore_fresh:
  assumes start: "StartRestore sl hash digest reqid rid aid now actorID inp w = (Inr (rr, run), w')"
    and ok: "runs_ok (db_runs (w_db w))" and same: "run_id run = rid" and fresh: "\<forall>r\<in>set (db_runs (w_db w)). run_id r \<noteq> rid"
  obtains repo agent b d1 d2 where "restore_preconditions hash digest (w_db w) (w_reg w) inp = Inr (repo, agent)"
      "rr = restore_request_of hash reqid rid now inp" "run = restore_run_of sl rid now repo (target_agent_of inp repo) inp"
      "insert_restore_rows now run rr (w_db w) = ((None, b), d1)"
      "SaveRunTargetPassword (sl_seal sl) now rid (ri_target_password inp) d1 = Inr d2"
      "\<exists>au. w_db w' = d2\<lparr>db_audits := au\<rparr>"
  using start
proof (cases rule: StartRestore_cases)
  case (join repo agent e b d1)
  then have "d1 = w_db w" using duplicate_writes_nothing by blast
  with join(4) have "joinDuplicateRun (w_db w) ErrDuplicateRun
      (run_dedup_key (restore_run_of sl rid now repo (target_agent_of inp repo) inp)) = Some run"
    by (auto simp: join_restore_def and_then_Inr split: option.splits)
  from joinDuplicateRun_Some(1) [OF ok this] fresh same show thesis by blast
qed (use that in blast)

text \<open>C15: The command the dispatcher builds for a new restore carries what was entered: operation, snapshot,
  repository, every field of the target and the overwrite flag, and the password, which travels sealed
  through the database.  The sealer is only required to open what it sealed.\<close>

theorem restore_command_carries_the_input:
  assumes start: "StartRestore sl hash digest reqid rid aid now actorID inp w = (Inr (rr, run), w')"
    and ok: "runs_ok (db_runs (w_db w))" "restores_ok (db_runs (w_db w)) (db_restores (w_db w))"
    and new: "run_id run = rid" "\<forall>r\<in>set (db_runs (w_db w)). run_id r \<noteq> rid" "\<forall>s\<in>set (db_run_secrets (w_db w)). rsec_run_id s \<noteq> rid"
    and repo_id: "ri_repository_id inp \<noteq> []"
    and seal: "\<And>t r c p x. sl_seal sl t r c p = Some x \<Longrightarrow> sl_open sl t r c x = Some p"
    and cmd: "BuildCommand (sl_open sl) cid (w_db w') rid = Inr c"
  shows "\<exists>repo s. GetRepository (w_db w) (ri_repository_id inp) = Inr repo \<and> cmd_operation c = RESTORE \<and> cmd_run_id c = rid \<and>
    cmd_params c = (if ri_kind inp = KindFilesystem
      then RestoreTask KindFilesystem (repo_path repo) (Some (FilesystemRestore (ri_snapshot_id inp) (rt_include_paths (ri_target inp))
             (rt_target_path (ri_target inp)) (rt_overwrite_mode (ri_target inp)) False)) None rid
      else RestoreTask (ri_kind inp) (repo_path repo) None
             (Some (DatabaseRestore (ri_snapshot_id inp) (ri_kind inp) (ri_target inp) (ri_overwrite inp))) rid) \<and>
    cmd_secrets c = Some s \<and> ss_db_password s = ri_target_password inp"
proof -
  from StartRestore_fresh [OF start ok(1) new(1,2)] obtain repo agent b d1 d2 au where
    pre: "restore_preconditions hash digest (w_db w) (w_reg w) inp = Inr (repo, agent)"
    and rr: "rr = restore_request_of hash reqid rid now inp" and run: "run = restore_run_of sl rid now repo (target_agent_of inp repo) inp"
    and ins: "insert_restore_rows now run rr (w_db w) = ((None, b), d1)"
    and save: "SaveRunTargetPassword (sl_seal sl) now rid (ri_target_password inp) d1 = Inr d2" and w': "w_db w' = d2\<lparr>db_audits := au\<rparr>"
    by metis
  have rid: "rr_run_id rr = rid" "run_id run = rid" "run_operation run = OpRestore" "run_repository_id run = repo_id repo"
    by (simp_all add: rr run restore_request_of_def restore_run_of_def new_run_def)
  note facts = restore_preconditions_Inr [OF pre]
  from facts(1) have repo: "repo_id repo = ri_repository_id inp" "find_repo (w_db w) (ri_repository_id inp) = Some repo"
    by (auto simp: GetRepository_def find_repo_def split: option.splits dest: tbl_get_Some)
  from insert_rows_new [OF ins ok(2)] obtain cs ts where none: "find_run (w_db w) rid = None"
    and d1: "d1 = (w_db w)\<lparr>db_runs := db_runs (w_db w) @ [run_row run], db_cache_states := cs, db_tree_cache := ts,
       db_restores := db_restores (w_db w) @ [restore_row rr]\<rparr>" using rid by auto
  obtain ss where d2: "d2 = d1\<lparr>db_run_secrets := ss\<rparr>"
    using save by (auto simp: SaveRunTargetPassword_def put_run_secret_def split: if_splits option.splits intro: that [of "db_run_secrets d1"])
  have run': "GetRun (w_db w') rid = Inr (run_row run)"
    using none rid by (simp add: w' d2 d1 GetRun_def find_run_def)
  have rr': "GetRestoreRequestByRunID (w_db w') rid = Inr (restore_row rr)"
    using request_of_new_run [OF ok(2), of rr "w_db w'"] none rid by (simp add: w' d2 d1)
  have repo': "GetRepository (w_db w') (repo_id repo) = Inr repo"
    using repo by (simp add: w' d2 d1 GetRepository_def find_repo_def)
  have upd: "run_row run = (run_row run)\<lparr>run_id := rid, run_operation := OpRestore\<rparr>" using rid by (simp add: run_row_def)
  have pw: "run_db_password (sl_open sl) (w_db w') (run_row run) = Inr (ri_target_password inp)"
    by (subst upd, rule password_read_back [OF seal _ save]) (use new(3) in \<open>auto simp: w' d1\<close>)
  have path: "rt_target_path (ri_target inp) \<noteq> []" if "ri_kind inp = KindFilesystem"
    using facts(7) [OF that] by (auto simp: check_filesystem_target_def and_then_Inr Let_def)
  from cmd obtain secrets where secrets: "run_secret_set (sl_open sl) (w_db w') (run_row run) = Inr secrets"
    and c: "cmd_secrets c = secrets" "cmd_operation c = RESTORE" "cmd_run_id c = rid" "buildRestoreParams (w_db w') (run_row run) = Inr (cmd_params c)"
    using rid by (auto simp: BuildCommand_def run' and_then_Inr run_params_def)
  from secrets obtain s where "secrets = Some s" "ss_db_password s = ri_target_password inp"
    using rid repo(1) repo_id by (auto simp: run_secret_set_def and_then_Inr pw)
  moreover have "cmd_params c = (if ri_kind inp = KindFilesystem
      then RestoreTask KindFilesystem (repo_path repo) (Some (FilesystemRestore (ri_snapshot_id inp) (rt_include_paths (ri_target inp))
             (rt_target_path (ri_target inp)) (rt_overwrite_mode (ri_target inp)) False)) None rid
      else RestoreTask (ri_kind inp) (repo_path repo) None
             (Some (DatabaseRestore (ri_snapshot_id inp) (ri_kind inp) (ri_target inp) (ri_overwrite inp))) rid)"
    using c(4) rid path by (simp add: buildRestoreParams_def rr' repo' and_then_Inr)
      (auto simp: rr restore_request_of_def restore_row_def decode_target_json Let_def split: if_splits)
  ultimately show ?thesis using facts(1) c by auto
qed

theorem restore_command_carries_the_input_witness:
  "\<exists>rr run w' c s. StartRestore sample_sealing sample_hash (\<lambda>_. ''f'') ''q1'' ''r1'' ''e1'' 5 ''admin'' sample_input restore_world = (Inr (rr, run), w') \<and>
     BuildCommand (sl_open sample_sealing) ''c1'' (w_db w') ''r1'' = Inr c \<and> cmd_secrets c = Some s \<and> ss_db_password s = ''secret''"
proof -
  let ?run = "restore_run_of sample_sealing ''r1'' 5 sample_repo ''a1'' sample_input"
  let ?rr = "restore_request_of sample_hash ''q1'' ''r1'' 5 sample_input"
  from sample_start obtain w' au where
    st: "StartRestore sample_sealing sample_hash (\<lambda>_. ''f'') ''q1'' ''r1'' ''e1'' 5 ''admin'' sample_input restore_world = (Inr (?rr, ?run), w')"
    and w': "w_db w' = (w_db restore_world)\<lparr>db_runs := [run_row ?run], db_restores := [restore_row ?rr],
         db_run_secrets := [\<lparr>rsec_run_id = ''r1'', rsec_target_password = ''secret'', rsec_rclone_config = [], rsec_created_at = sec 5\<rparr>],
         db_audits := au\<rparr>"
    by blast
  have tables: "db_runs (w_db restore_world) = []" "db_restores (w_db restore_world) = []" "db_run_secrets (w_db restore_world) = []"
    "db_repos (w_db restore_world) = [sample_repo]" "db_targets (w_db restore_world) = [sample_target]"
    by (simp_all add: restore_world_def start_world_def)
  have rk: "run_id ?run = ''r1''" "rr_run_id ?rr = ''r1''" "run_operation ?run = OpRestore" "run_repository_id ?run = ''p1''"
    by (simp_all add: restore_request_of_def restore_run_of_def new_run_def sample_input_def sample_repo_def)
  have "\<exists>c. BuildCommand (sl_open sample_sealing) ''c1'' (w_db w') ''r1'' = Inr c"
    using rk by (simp add: w' BuildCommand_def GetRun_def find_run_def run_secret_set_def lift_store_def GetRepository_def find_repo_def
        tables sample_repo_def GetStorageTarget_def find_target_def sample_target_def unsealed_def sample_sealing_def run_db_password_def
        GetRunTargetPassword_def run_params_def buildRestoreParams_def GetRestoreRequestByRunID_def order_desc_def Let_def)
  then obtain c where c: "BuildCommand (sl_open sample_sealing) ''c1'' (w_db w') ''r1'' = Inr c" ..
  have "\<exists>s. cmd_secrets c = Some s \<and> ss_db_password s = ri_target_password sample_input"
    using restore_command_carries_the_input [OF st _ _ _ _ _ _ _ c]
    by (auto simp: tables restore_run_of_def new_run_def sample_sealing_def sample_input_def restores_ok_def)
  with st c show ?thesis by (auto simp: sample_input_def)
qed

lemma first_sorted: "xs \<noteq> [] \<Longrightarrow> (case sort_key f xs of [] \<Rightarrow> None | x # _ \<Rightarrow> Some x) \<noteq> None"
  by (cases "sort_key f xs") (auto dest: arg_cong [of "sort_key f xs" "[]" length])

text \<open>When the command of a claimed database restore cannot be built, the dispatcher fails the run but
  leaves its restore request as it was.  The request goes on occupying the restore slot: no database
  restore is admitted any more, and the operator's resolution is refused because the request is
  not marked for it.\<close>

theorem build_failure_strands_database_restore:
  assumes inv: "restore_inv (w_db w)" and run: "find_run (w_db w) (job_run j) = Some r" "run_status r = RunDispatched"
    and rr: "rr \<in> set (db_restores (w_db w))" "occupying rr" "rr_phase rr = RestorePhaseQueued" "rr_run_id rr = job_run j"
    and build: "build (w_db w) (job_run j) = Inl msg"
    and deliver: "deliverJob pick now build None dbRestore j w = (v, w')"
  shows "(\<exists>r'. find_run (w_db w') (job_run j) = Some r' \<and> run_status r' = RunFailed) \<and>
    (\<exists>e. CreateDatabaseRestoreRun now2 r2 rr2 (w_db w') = Inl e) \<and>
    ResolveRestoreRequest newid (rr_id rr) [] actor text at (w_db w') = Inl ErrRestoreConflict"
proof -
  have valid: "RunFailed \<in> set (validTransitions RunDispatched)" by simp
  then obtain d' where d': "TransitionRun (job_run j) RunDispatched RunFailed (build_failed now msg) (w_db w) = Inr d'"
    using run by (auto simp: TransitionRun_iff)
  have m: "field_mutator (build_failed now msg)" by (simp add: field_mutator_def build_failed_def)
  have w': "w' = removeEnqueued (job_run j) (drop_secrets (job_run j) (notify (job_run j) (w\<lparr>w_db := d'\<rparr>)))"
    using deliver by (simp add: deliverJob_def Let_def build d' serve_def)
  have tables: "db_runs (w_db w') = db_runs d'" "db_restores (w_db w') = db_restores (w_db w)"
    using TransitionRun_frame [OF d'] by (auto simp: w' removeEnqueued_def)
  have failed: "\<exists>r'. find_run (w_db w') (job_run j) = Some r' \<and> run_status r' = RunFailed"
    using TransitionRun_reads [OF d' m, of "job_run j"] run by (simp add: find_run_def tables build_failed_def)
  have "filter (\<lambda>x. occupying x \<and> find_run (w_db w') (rr_run_id x) \<noteq> None) (db_restores (w_db w')) \<noteq> []"
    using rr(1,2,4) failed by (auto simp: tables filter_empty_conv)
  then have act: "active_database_restore (w_db w') \<noteq> None"
    unfolding active_database_restore_def by (rule first_sorted)
  have "find_restore (w_db w') (rr_id rr) = Some rr"
    using find_restore_unique [OF conjunct1 [OF inv] rr(1)] by (simp add: find_restore_def tables)
  with rr(3) have "ResolveRestoreRequest newid (rr_id rr) [] actor text at (w_db w') = Inl ErrRestoreConflict"
    by (simp add: ResolveRestoreRequest_def)
  with failed act show ?thesis by (auto simp: CreateDatabaseRestoreRun_def Let_def)
qed

theorem build_failure_strands_database_restore_witness:
  "\<exists>v w'. deliverJob True 9 (command_source (sl_open sample_sealing) ''c1'') None True
       \<lparr>job_run = ''r1'', job_agent = ''a1'', job_repository = ''p1''\<rparr>
       (start_world (empty_db\<lparr>db_runs := [(sample_run ''r1'' OpRestore RunDispatched)\<lparr>run_repository_id := ''p1''\<rparr>],
          db_restores := [sample_request ''q1'' ''r1'' KindMySQL RestorePhaseQueued]\<rparr>) :: command world) = (v, w') \<and>
     ResolveRestoreRequest ''e2'' ''q1'' [] ''admin'' ''why'' 10 (w_db w') = Inl ErrRestoreConflict"
proof -
  let ?w = "start_world (empty_db\<lparr>db_runs := [(sample_run ''r1'' OpRestore RunDispatched)\<lparr>run_repository_id := ''p1''\<rparr>],
          db_restores := [sample_request ''q1'' ''r1'' KindMySQL RestorePhaseQueued]\<rparr>) :: command world"
  let ?j = "\<lparr>job_run = ''r1'', job_agent = ''a1'', job_repository = ''p1''\<rparr>"
  obtain v w' where out: "deliverJob True 9 (command_source (sl_open sample_sealing) ''c1'') None True ?j ?w = (v, w')"
    by (cases "deliverJob True 9 (command_source (sl_open sample_sealing) ''c1'') None True ?j ?w")
  have build: "command_source (sl_open sample_sealing) ''c1'' (w_db ?w) ''r1'' = Inl ''command not built''"
    by (simp add: command_source_def BuildCommand_def start_world_def GetRun_def find_run_def sample_run_def run_secret_set_def
        GetRepository_def find_repo_def lift_store_def)
  have inv: "restore_inv (w_db ?w)"
    by (simp add: start_world_def restores_ok_def exclusive_def sample_request_def sample_run_def)
  have run: "find_run (w_db ?w) (job_run ?j) = Some ((sample_run ''r1'' OpRestore RunDispatched)\<lparr>run_repository_id := ''p1''\<rparr>)"
    "run_status ((sample_run ''r1'' OpRestore RunDispatched)\<lparr>run_repository_id := ''p1''\<rparr>) = RunDispatched"
    by (simp_all add: start_world_def find_run_def sample_run_def)
  have rr: "sample_request ''q1'' ''r1'' KindMySQL RestorePhaseQueued \<in> set (db_restores (w_db ?w))"
    "occupying (sample_request ''q1'' ''r1'' KindMySQL RestorePhaseQueued)"
    "rr_phase (sample_request ''q1'' ''r1'' KindMySQL RestorePhaseQueued) = RestorePhaseQueued"
    "rr_run_id (sample_request ''q1'' ''r1'' KindMySQL RestorePhaseQueued) = job_run ?j"
    by (simp_all add: start_world_def sample_request_def occupying_def databaseRestoreKinds_def RestoreSafePhases_def)
  have "ResolveRestoreRequest ''e2'' (rr_id (sample_request ''q1'' ''r1'' KindMySQL RestorePhaseQueued)) [] ''admin'' ''why'' 10 (w_db w') = Inl ErrRestoreConflict"
    using build_failure_strands_database_restore [OF inv run rr _ out] build by simp
  with out show ?thesis by (simp add: sample_request_def)
qed

end
