(* ===== verification/Jobs_Cleanup.thy ===== *)
theory Jobs_Cleanup
  imports Jobs_Restore "HOL-Library.Word"
begin

text \<open>
  The part of \<open>internal/server/jobs/orchestrator.go\<close> the scheduler calls on every tick to remove
  snapshots: settling the intents whose forget run has ended, claiming one due intent per
  repository, consuming the result of an orphan scan and starting the next one.

  The generator of identifiers is an argument: it is given what the identifier is for and the
  intent or repository it belongs to.  \<open>now\<close> is the instant of the tick, \<open>clk\<close> the clock the store
  reads while the tick runs.  The formatting of an instant in an audit entry is an argument too.
\<close>

type_synonym 'c answer = "jobs_err option \<times> 'c world"

record tick =
  tk_newid :: "string \<Rightarrow> string \<Rightarrow> string"
  tk_clk :: instant
  tk_now :: instant
  tk_rfc3339 :: "instant \<Rightarrow> string"

section \<open>Settling claimed intents\<close>

definition completed :: "tick \<Rightarrow> repository \<Rightarrow> snapshot_deletion \<Rightarrow> string \<Rightarrow> 'c world \<Rightarrow> 'c world" where
  "completed t repo del mode w =
     (let w1 = (case CompleteSnapshotDeletion (del_id del) (tk_now t) (w_db w) of Inl _ \<Rightarrow> w | Inr d' \<Rightarrow> w\<lparr>w_db := d'\<rparr>)
      in Audit (tk_newid t ''completed'' (del_id del)) (tk_clk t) ''system'' ''scheduler'' ''snapshot.delete.completed'' ''snapshot''
           (del_snapshot_id del) [(''deletion_id'', del_id del), (''mode'', mode), (''repository_id'', repo_id repo)] w1)"

text \<open>The shift is one of 64 bit integers, and so is the product with a minute.\<close>

definition backoff_minutes :: "int \<Rightarrow> int" where
  "backoff_minutes attempt = min (sint (push_bit (unat (word_of_int attempt :: 64 word)) (1 :: 64 word))) (24 * 60)"

definition retry_at :: "instant \<Rightarrow> int \<Rightarrow> instant" where
  "retry_at now attempt = now + sint (word_of_int (backoff_minutes attempt) * word_of_int (minutes 1) :: 64 word)"

definition reconcileFailedDeletion ::
    "sealing \<Rightarrow> 'c meanwhile \<Rightarrow> tick \<Rightarrow> repository \<Rightarrow> snapshot_deletion \<Rightarrow> 'c world \<Rightarrow> 'c answer" where
  "reconcileFailedDeletion sl env t repo del w =
     (if del_run_id del = [] then (None, w)
      else
        case SystemRun sl (tk_newid t ''confirm'' (del_id del)) (tk_clk t) (repo_agent_id repo) (repo_id repo) OpSnapshots
               (SnapshotsTask (repo_path repo)) w of
          (Inl e, w1) \<Rightarrow> (Some e, w1)
        | (Inr run, w1) \<Rightarrow>
            (case await env (run_id run) w1 of
               (Inl e, w2) \<Rightarrow> (Some e, w2)
             | (Inr term, w2) \<Rightarrow>
                 (case (if run_status term = RunSucceeded then Option.bind (result_of term) decode_snapshots else None) of
                    None \<Rightarrow> (None, w2)
                  | Some snaps \<Rightarrow>
                      if \<not> list_ex (\<lambda>s. snap_id s = del_snapshot_id del) snaps then (None, completed t repo del ''scan_absent'' w2)
                      else
                        let nextAt = retry_at (tk_now t) (del_attempt del) in
                        case RetrySnapshotDeletion (tk_clk t) (del_id del) ''forget_failed''
                               ''previous delete run failed; retry scheduled'' nextAt (w_db w2) of
                          Inl e \<Rightarrow> (Some (JStore e), w2)
                        | Inr d' \<Rightarrow>
                            (None, Audit (tk_newid t ''retry'' (del_id del)) (tk_clk t) ''system'' ''scheduler''
                               ''snapshot.delete.retry_scheduled'' ''snapshot'' (del_snapshot_id del)
                               [(''deletion_id'', del_id del), (''next_attempt_at'', tk_rfc3339 t nextAt),
                                (''repository_id'', repo_id repo)] (w2\<lparr>w_db := d'\<rparr>)))))"

definition settle_deletion ::
    "sealing \<Rightarrow> 'c meanwhile \<Rightarrow> tick \<Rightarrow> repository \<Rightarrow> run list \<Rightarrow> snapshot_deletion \<Rightarrow> 'c world \<Rightarrow> 'c answer" where
  "settle_deletion sl env t repo runs del w =
     (if del_repository_id del \<noteq> repo_id repo then (None, w)
      else
        case List.find (\<lambda>r. run_id r = del_run_id del) runs of
          None \<Rightarrow> (None, w)
        | Some run \<Rightarrow>
            if run_status run = RunSucceeded then (None, completed t repo del ''run_success'' w)
            else if run_status run = RunFailed \<or> run_status run = RunCancelled
            then reconcileFailedDeletion sl env t repo del w
            else (None, w))"

fun settle_all ::
    "sealing \<Rightarrow> 'c meanwhile \<Rightarrow> tick \<Rightarrow> repository \<Rightarrow> run list \<Rightarrow> snapshot_deletion list \<Rightarrow> 'c world \<Rightarrow> 'c answer" where
  "settle_all sl env t repo runs [] w = (None, w)"
| "settle_all sl env t repo runs (del # dels) w =
     (case settle_deletion sl env t repo runs del w of
        (Some e, w1) \<Rightarrow> (Some e, w1)
      | (None, w1) \<Rightarrow> settle_all sl env t repo runs dels w1)"

definition forget_runs :: "db \<Rightarrow> repository \<Rightarrow> run list" where
  "forget_runs d repo = ListRuns d
     \<lparr>rf_agent_id = [], rf_plan_id = [], rf_repository_id = repo_id repo,
      rf_statuses = [RunQueued, RunDispatched, RunRunning, RunSucceeded, RunFailed, RunCancelled],
      rf_operation = Some OpForget, rf_limit = 100, rf_offset = 0, rf_exclude_keys = []\<rparr>"

definition cleanupRunningDeletions :: "sealing \<Rightarrow> 'c meanwhile \<Rightarrow> tick \<Rightarrow> repository \<Rightarrow> 'c world \<Rightarrow> 'c answer" where
  "cleanupRunningDeletions sl env t repo w =
     settle_all sl env t repo (forget_runs (w_db w) repo) (ListRunningSnapshotDeletions (w_db w)) w"

section \<open>Claiming a due intent\<close>

definition forget_run :: "tick \<Rightarrow> repository \<Rightarrow> snapshot_deletion \<Rightarrow> run" where
  "forget_run t repo del =
     new_run (tk_newid t ''forget'' (del_id del)) (repo_agent_id repo) OpForget (repo_id repo) (tk_now t)
       (ForgetTask [] [] (repo_path repo) no_retention [] True False [del_snapshot_id del]) []"

definition claimable :: "(string \<Rightarrow> string) \<Rightarrow> tick \<Rightarrow> repository \<Rightarrow> db \<Rightarrow> snapshot_deletion \<Rightarrow> bool" where
  "claimable digest t repo d del \<longleftrightarrow>
     del_repository_id del = repo_id repo \<and> del_state del = SnapshotDeletionPending \<and>
     (case del_next_attempt_at del of None \<Rightarrow> True | Some at \<Rightarrow> at \<le> tk_now t) \<and>
     assertSnapshotNotRestoreProtected digest d (repo_id repo) (del_snapshot_id del) = Inr ()"

definition started :: "tick \<Rightarrow> repository \<Rightarrow> snapshot_deletion \<Rightarrow> 'c world \<Rightarrow> 'c world" where
  "started t repo del w =
     (let run = forget_run t repo del in
      Audit (tk_newid t ''started'' (del_id del)) (tk_clk t) ''system'' ''scheduler'' ''snapshot.delete.started'' ''snapshot''
        (del_snapshot_id del) [(''deletion_id'', del_id del), (''repository_id'', repo_id repo), (''run_id'', run_id run)]
        (publish (run_id run) (StateEvent run) (Enqueue (run_id run) (run_agent_id run) (repo_id repo) w)))"

text \<open>The empty rclone configuration that is saved for the run writes nothing and is left out.  The loop goes on over the rest of the list once it has claimed, and skips all of it.\<close>

fun claim_loop ::
    "(string \<Rightarrow> string) \<Rightarrow> tick \<Rightarrow> repository \<Rightarrow> bool \<Rightarrow> snapshot_deletion list \<Rightarrow> 'c world \<Rightarrow> 'c answer" where
  "claim_loop digest t repo claimed [] w = (None, w)"
| "claim_loop digest t repo claimed (del # dels) w =
     (if claimed \<or> \<not> claimable digest t repo (w_db w) del then claim_loop digest t repo claimed dels w
      else
        case ClaimSnapshotDeletionRun (tk_clk t) (del_id del) (forget_run t repo del) (tk_now t + minutes 20) (w_db w) of
          Inl e \<Rightarrow> (Some (JStore e), w)
        | Inr d' \<Rightarrow> claim_loop digest t repo True dels (started t repo del (w\<lparr>w_db := d'\<rparr>)))"

definition claimPendingDeletion :: "(string \<Rightarrow> string) \<Rightarrow> tick \<Rightarrow> repository \<Rightarrow> 'c world \<Rightarrow> 'c answer" where
  "claimPendingDeletion digest t repo w =
     claim_loop digest t repo False (ListDueSnapshotDeletions (w_db w) (tk_now t) 1000) w"

section \<open>Orphan scans\<close>

definition clear_scan :: "tick \<Rightarrow> repository \<Rightarrow> string \<Rightarrow> 'c world \<Rightarrow> 'c world" where
  "clear_scan t repo rid w =
     (case ClearSnapshotCleanupScan (tk_clk t) (repo_id repo) rid (tk_now t + hours 1) (w_db w) of
        Inl _ \<Rightarrow> w | Inr d' \<Rightarrow> w\<lparr>w_db := d'\<rparr>)"

definition consumeCleanupScan :: "tick \<Rightarrow> repository \<Rightarrow> 'c world \<Rightarrow> 'c answer" where
  "consumeCleanupScan t repo w =
     (case GetSnapshotCleanupState (w_db w) (repo_id repo) of
        Inl e \<Rightarrow> (if e = ErrNotFound then None else Some (JStore e), w)
      | Inr st \<Rightarrow>
          let rid = cln_scan_run_id st in
          if rid = [] then (None, w)
          else
            case GetRun (w_db w) rid of
              Inl e \<Rightarrow> if e = ErrNotFound then (None, clear_scan t repo rid w) else (Some (JStore e), w)
            | Inr run \<Rightarrow>
                if active_status (run_status run) then (None, w)
                else if run_status run \<noteq> RunSucceeded then (None, clear_scan t repo rid w)
                else
                  case decode_snapshots (run_progress run) of
                    None \<Rightarrow> (None, clear_scan t repo rid w)
                  | Some snaps \<Rightarrow>
                      (case FinishSnapshotCleanupScan (tk_newid t ''orphan'') (repo_id repo) rid snaps (tk_now t) (w_db w) of
                         Inl e \<Rightarrow> (Some (JStore e), w)
                       | Inr d' \<Rightarrow> (None, w\<lparr>w_db := d'\<rparr>)))"

definition scan_pending :: "db \<Rightarrow> cleanup_state \<Rightarrow> bool" where
  "scan_pending d st \<longleftrightarrow> cln_scan_run_id st \<noteq> [] \<and> find_run d (cln_scan_run_id st) \<noteq> None"

definition scan_postponed :: "instant \<Rightarrow> cleanup_state \<Rightarrow> bool" where
  "scan_postponed now st \<longleftrightarrow>
     (case cln_next_attempt_at st of None \<Rightarrow> False | Some at \<Rightarrow> now < at) \<or>
     (case cln_last_scan_completed_at st of None \<Rightarrow> False | Some at \<Rightarrow> now < at + hours 24)"

definition start_scan :: "sealing \<Rightarrow> tick \<Rightarrow> repository \<Rightarrow> 'c world \<Rightarrow> 'c answer" where
  "start_scan sl t repo w =
     (case GetAgent (w_db w) (repo_agent_id repo) of
        Inl e \<Rightarrow> (Some (JStore e), w)
      | Inr agent \<Rightarrow>
          if agt_status agent \<noteq> AgentOnline then (None, w)
          else
            case SystemRun sl (tk_newid t ''scan'' (repo_id repo)) (tk_clk t) (repo_agent_id repo) (repo_id repo) OpSnapshots
                   (SnapshotsTask (repo_path repo)) w of
              (Inl e, w1) \<Rightarrow> (Some e, w1)
            | (Inr run, w1) \<Rightarrow>
                (case StartSnapshotCleanupScan (repo_id repo) (run_id run) (tk_now t) (w_db w1) of
                   Inl e \<Rightarrow> (Some (JStore e), w1)
                 | Inr d' \<Rightarrow> (None, w1\<lparr>w_db := d'\<rparr>)))"

definition maybeStartCleanupScan :: "sealing \<Rightarrow> tick \<Rightarrow> repository \<Rightarrow> 'c world \<Rightarrow> 'c answer" where
  "maybeStartCleanupScan sl t repo w =
     (if repo_status repo \<noteq> RepoReady \<or> repo_path repo = [] then (None, w)
      else
        case GetSnapshotCleanupState (w_db w) (repo_id repo) of
          Inl e \<Rightarrow> if e \<noteq> ErrNotFound then (Some (JStore e), w) else start_scan sl t repo w
        | Inr st \<Rightarrow>
            if scan_pending (w_db w) st \<or> scan_postponed (tk_now t) st then (None, w) else start_scan sl t repo w)"

section \<open>The tick\<close>

text \<open>An error ends the work on one repository; the next one is still visited.\<close>

definition cleanup_repository :: "sealing \<Rightarrow> (string \<Rightarrow> string) \<Rightarrow> 'c meanwhile \<Rightarrow> tick \<Rightarrow> repository \<Rightarrow> 'c world \<Rightarrow> 'c world" where
  "cleanup_repository sl digest env t repo w =
     (case cleanupRunningDeletions sl env t repo w of
        (Some _, w1) \<Rightarrow> w1
      | (None, w1) \<Rightarrow>
          (case claimPendingDeletion digest t repo w1 of
             (Some _, w2) \<Rightarrow> w2
           | (None, w2) \<Rightarrow>
               (case consumeCleanupScan t repo w2 of
                  (Some _, w3) \<Rightarrow> w3
                | (None, w3) \<Rightarrow> snd (maybeStartCleanupScan sl t repo w3))))"

definition TickSnapshotCleanup :: "sealing \<Rightarrow> (string \<Rightarrow> string) \<Rightarrow> 'c meanwhile \<Rightarrow> tick \<Rightarrow> 'c world \<Rightarrow> 'c world" where
  "TickSnapshotCleanup sl digest env t w =
     fold (cleanup_repository sl digest env t) (ListRepositories (w_db w)) w"

section \<open>Lemmas\<close>

lemma claim_loop_idle: "claim_loop digest t repo True dels w = (None, w)"
  by (induction dels) auto

text \<open>The loop changes nothing, or it claims the first intent that can be claimed.\<close>

lemma claim_loop_cases:
  "claim_loop digest t repo False dels w = (e, w') \<Longrightarrow>
     w' = w \<or>
     (\<exists>del d'. del \<in> set dels \<and> claimable digest t repo (w_db w) del \<and>
        ClaimSnapshotDeletionRun (tk_clk t) (del_id del) (forget_run t repo del) (tk_now t + minutes 20) (w_db w) = Inr d' \<and>
        w' = started t repo del (w\<lparr>w_db := d'\<rparr>))"
proof (induction dels)
  case (Cons del dels)
  show ?case
  proof (cases "claimable digest t repo (w_db w) del")
    case True
    then show ?thesis using Cons.prems
      by (cases "ClaimSnapshotDeletionRun (tk_clk t) (del_id del) (forget_run t repo del) (tk_now t + minutes 20) (w_db w)")
        (simp_all add: claim_loop_idle, blast)
  qed (use Cons in auto)
qed simp

lemma update_by_id:
  assumes "deletions_ok xs" "del \<in> set xs"
  shows "tbl_update (\<lambda>y. del_id y = del_id del) f xs = map (\<lambda>x. if x = del then f del else x) xs"
  unfolding tbl_update_def using deletions_ok_id [OF assms(1) _ assms(2)] by (auto intro: map_cong)

lemma started_db: "\<exists>au. w_db (started t repo del w) = (w_db w)\<lparr>db_audits := au\<rparr>"
proof -
  let ?r = "forget_run t repo del"
  let ?v = "publish (run_id ?r) (StateEvent ?r) (Enqueue (run_id ?r) (run_agent_id ?r) (repo_id repo) w)"
  have "w_db ?v = w_db w" by (simp add: publish_def Enqueue_def push_job_def)
  then show ?thesis
    using Audit_db [of "tk_newid t ''started'' (del_id del)" "tk_clk t" "''system''" "''scheduler''" "''snapshot.delete.started''"
        "''snapshot''" "del_snapshot_id del"
        "[(''deletion_id'', del_id del), (''repository_id'', repo_id repo), (''run_id'', run_id ?r)]" ?v]
    by (simp add: started_def Let_def)
qed

lemma sint64: "- (2 ^ 63) \<le> x \<Longrightarrow> x < 2 ^ 63 \<Longrightarrow> sint (word_of_int x :: 64 word) = x"
  by (simp add: int_word_sint)

lemma shift_value:
  "sint (push_bit k (1 :: 64 word)) = (if k < 63 then 2 ^ k else if k = 63 then - (2 ^ 63) else 0)"
proof -
  have shift: "push_bit k (1 :: 64 word) = word_of_int (2 ^ k)" by (simp add: push_bit_eq_mult)
  consider "k < 63" | "k = 63" | "64 \<le> k" by linarith
  then show ?thesis
  proof cases
    case 1
    then have "(2 :: int) ^ k < 2 ^ 63" by (intro power_strict_increasing) auto
    moreover have "- (2 ^ 63) \<le> (2 :: int) ^ k" by (rule order_trans [of _ 0]) simp_all
    ultimately show ?thesis using 1 unfolding shift by (subst sint64) auto
  next
    case 2
    show ?thesis unfolding shift 2 int_word_sint by simp
  next
    case 3
    then have "(2 :: int) ^ 64 dvd 2 ^ k" by (rule le_imp_power_dvd)
    then have z: "(word_of_int (2 ^ k) :: 64 word) = 0" unfolding word_of_int_eq_0_iff by simp
    show ?thesis using 3 unfolding shift z by simp
  qed
qed

text \<open>A snapshot that passes the check is in the verified list, and the restore of its tag is settled.\<close>

lemma unprotected_tag:
  assumes "assertSnapshotNotRestoreProtected digest d repoID sid = Inr ()"
  shows "\<exists>s. verifiedSnapshot digest d repoID sid = Inr s \<and>
    (snapshotHasRestoreProtection s \<longrightarrow>
       (\<exists>rr. GetRestoreRequestByRunID d (protectionTagRunID s) = Inr rr \<and> RestorePhaseReleasesOccupancy (rr_phase rr)))"
  using assms
  by (auto simp: assertSnapshotNotRestoreProtected_def and_then_Inr require_def split: if_splits sum.splits)

section \<open>Properties\<close>

text \<open>C16: On one tick the server starts at most one forget run for a repository, and only for an intent that is
  pending and whose next attempt, if one is set, is due by now, and whose snapshot no unfinished restore protects:
  no request names it, it is in the verified list of the repository, and if it carries the tag of a protection
  backup, the request of the run in the tag is there and has released its target.  The claimed intent is running
  under that run, every other intent is unchanged, and the run removes exactly the snapshot of the intent.\<close>

theorem one_unprotected_snapshot_is_claimed:
  assumes claim: "claimPendingDeletion digest t repo w = (e, w')" and ok: "deletions_ok (db_deletions (w_db w))"
  shows "db_deletions (w_db w') = db_deletions (w_db w) \<and> db_runs (w_db w') = db_runs (w_db w) \<or>
    (\<exists>del\<in>set (db_deletions (w_db w)). del_repository_id del = repo_id repo \<and> del_state del = SnapshotDeletionPending \<and>
       (\<forall>at. del_next_attempt_at del = Some at \<longrightarrow> at \<le> tk_now t) \<and>
       del_snapshot_id del \<notin> set (ProtectedRestoreSnapshotIDs (w_db w) (repo_id repo)) \<and>
       (\<exists>s. verifiedSnapshot digest (w_db w) (repo_id repo) (del_snapshot_id del) = Inr s \<and>
          (snapshotHasRestoreProtection s \<longrightarrow>
             (\<exists>rr. GetRestoreRequestByRunID (w_db w) (protectionTagRunID s) = Inr rr \<and>
                RestorePhaseReleasesOccupancy (rr_phase rr)))) \<and>
       db_runs (w_db w') = db_runs (w_db w) @ [(run_row (forget_run t repo del))\<lparr>run_dedup_key := []\<rparr>] \<and>
       run_progress (forget_run t repo del) = ForgetTask [] [] (repo_path repo) no_retention [] True False [del_snapshot_id del] \<and>
       (\<exists>del'. del_state del' = SnapshotDeletionRunning \<and> del_run_id del' = run_id (forget_run t repo del) \<and>
          db_deletions (w_db w') = map (\<lambda>x. if x = del then del' else x) (db_deletions (w_db w))))"
proof -
  from claim_loop_cases [OF claim [unfolded claimPendingDeletion_def]]
  consider "w' = w" | del d' where "del \<in> set (ListDueSnapshotDeletions (w_db w) (tk_now t) 1000)"
      "claimable digest t repo (w_db w) del"
      "ClaimSnapshotDeletionRun (tk_clk t) (del_id del) (forget_run t repo del) (tk_now t + minutes 20) (w_db w) = Inr d'"
      "w' = started t repo del (w\<lparr>w_db := d'\<rparr>)"
    by blast
  then show ?thesis
  proof cases
    case 2
    have del: "del \<in> set (db_deletions (w_db w))"
      using set_take_subset 2(1) unfolding ListDueSnapshotDeletions_def by fastforce
    have due: "\<forall>at. del_next_attempt_at del = Some at \<longrightarrow> at \<le> tk_now t" using 2(2) by (auto simp: claimable_def)
    have asserted: "assertSnapshotNotRestoreProtected digest (w_db w) (repo_id repo) (del_snapshot_id del) = Inr ()"
      using 2(2) by (simp add: claimable_def)
    then have free: "del_snapshot_id del \<notin> set (ProtectedRestoreSnapshotIDs (w_db w) (repo_id repo))"
      by (auto simp: assertSnapshotNotRestoreProtected_def split: if_splits)
    note tagged = unprotected_tag [OF asserted]
    from 2(4) started_db [of t repo del "w\<lparr>w_db := d'\<rparr>"] have w': "db_runs (w_db w') = db_runs d'" "db_deletions (w_db w') = db_deletions d'"
      by auto
    from 2(3) obtain f where d': "db_runs d' = db_runs (w_db w) @ [(run_row (forget_run t repo del))\<lparr>run_dedup_key := []\<rparr>]"
      "db_deletions d' = tbl_update (\<lambda>y. del_id y = del_id del) f (db_deletions (w_db w))"
      "\<And>y. del_state (f y) = SnapshotDeletionRunning" "\<And>y. del_run_id (f y) = run_id (forget_run t repo del)"
      by (auto simp: ClaimSnapshotDeletionRun_def Let_def split: option.splits if_splits)
    have "db_deletions (w_db w') = map (\<lambda>x. if x = del then f del else x) (db_deletions (w_db w))"
      unfolding w' d'(2) by (rule update_by_id [OF ok del])
    moreover have "run_progress (forget_run t repo del) = ForgetTask [] [] (repo_path repo) no_retention [] True False [del_snapshot_id del]"
      by (simp add: forget_run_def new_run_def)
    moreover have "del_repository_id del = repo_id repo" "del_state del = SnapshotDeletionPending" using 2(2) by (simp_all add: claimable_def)
    ultimately show ?thesis using del due free tagged d'(1,3,4) unfolding w'(1) by blast
  qed simp
qed

definition sample_tick :: tick where
  "sample_tick = \<lparr>tk_newid = (@), tk_clk = 0, tk_now = 0, tk_rfc3339 = \<lambda>_. []\<rparr>"

definition cleanup_world :: "nat world" where
  "cleanup_world = restore_world\<lparr>w_db := (w_db restore_world)\<lparr>db_deletions := [sample_deletion SnapshotDeletionPending]\<rparr>\<rparr>"

lemma sample_claimable: "claimable (\<lambda>_. ''f'') sample_tick sample_repo (w_db cleanup_world) (sample_deletion SnapshotDeletionPending)"
proof -
  have "verifiedSnapshotList (\<lambda>_. ''f'') (w_db cleanup_world) ''p1'' = Inr [sample_snapshot]"
    using decode_snapshots_json [of "[sample_snapshot]"]
    by (simp add: verifiedSnapshotList_def cleanup_world_def restore_world_def start_world_def GetSnapshotListCache_def cache_of_def SnapshotFingerprint_def)
  then have "verifiedSnapshot (\<lambda>_. ''f'') (w_db cleanup_world) ''p1'' ''s1'' = Inr sample_snapshot"
    by (simp add: verifiedSnapshot_def sample_snapshot_def)
  then show ?thesis
    by (simp add: claimable_def sample_repo_def assertSnapshotNotRestoreProtected_def ProtectedRestoreSnapshotIDs_def
        snapshotHasRestoreProtection_def sample_snapshot_def restoreProtectionTag_def HasPrefix_def
        sample_deletion_def new_deletion_def cleanup_world_def restore_world_def start_world_def)
qed

lemma sample_claim:
  "\<exists>w'. claimPendingDeletion (\<lambda>_. ''f'') sample_tick sample_repo cleanup_world = (None, w') \<and>
     db_runs (w_db w') \<noteq> []"
proof -
  let ?x = "sample_deletion SnapshotDeletionPending"
  have due: "ListDueSnapshotDeletions (w_db cleanup_world) (tk_now sample_tick) 1000 = [?x]"
    by (simp add: ListDueSnapshotDeletions_def cleanup_world_def due_deletion_def sample_deletion_def new_deletion_def limit_or_def)
  have tables: "db_runs (w_db cleanup_world) = []" "db_deletions (w_db cleanup_world) = [?x]"
    by (simp_all add: cleanup_world_def restore_world_def start_world_def)
  obtain d' where d': "ClaimSnapshotDeletionRun (tk_clk sample_tick) (del_id ?x) (forget_run sample_tick sample_repo ?x)
      (tk_now sample_tick + minutes 20) (w_db cleanup_world) = Inr d'" "db_runs d' \<noteq> []"
    by (simp add: ClaimSnapshotDeletionRun_def tables Let_def run_conflict_def forget_run_def new_run_def)
  then show ?thesis
    using started_db [of sample_tick sample_repo ?x "cleanup_world\<lparr>w_db := d'\<rparr>"] sample_claimable
    by (auto simp: claimPendingDeletion_def due)
qed

theorem one_unprotected_snapshot_is_claimed_witness:
  "\<exists>e w' del. claimPendingDeletion (\<lambda>_. ''f'') sample_tick sample_repo cleanup_world = (e, w') \<and>
     del_snapshot_id del \<notin> set (ProtectedRestoreSnapshotIDs (w_db cleanup_world) (repo_id sample_repo)) \<and>
     db_runs (w_db w') = db_runs (w_db cleanup_world) @ [(run_row (forget_run sample_tick sample_repo del))\<lparr>run_dedup_key := []\<rparr>]"
proof -
  from sample_claim obtain w' where
    out: "claimPendingDeletion (\<lambda>_. ''f'') sample_tick sample_repo cleanup_world = (None, w')" and runs: "db_runs (w_db w') \<noteq> []" by blast
  have "deletions_ok (db_deletions (w_db cleanup_world))" "db_runs (w_db cleanup_world) = []"
    by (simp_all add: deletions_ok_def cleanup_world_def restore_world_def start_world_def)
  with one_unprotected_snapshot_is_claimed [OF out] runs out show ?thesis by metis
qed

text \<open>C36: The delay before a failed deletion is tried again doubles with every attempt up to a day, as long as
  fewer than 63 attempts were made.  From then on there is none: the shift leaves the 64 bits.\<close>

theorem retry_delay_on_every_attempt:
  assumes "0 \<le> attempt" "attempt < 2 ^ 63"
  shows "retry_at now attempt = now + (if attempt < 63 then minutes (min (2 ^ nat attempt) 1440) else 0)"
proof -
  have u: "unat (word_of_int attempt :: 64 word) = nat attempt"
    using assms by (simp add: unat_eq_nat_uint uint_word_of_int)
  have b: "backoff_minutes attempt =
      (if attempt < 63 then min (2 ^ nat attempt) 1440 else if attempt = 63 then - (2 ^ 63) else 0)"
    unfolding backoff_minutes_def u shift_value using assms(1) by (auto simp: nat_less_iff nat_eq_iff)
  have prod: "(word_of_int (backoff_minutes attempt) * word_of_int (minutes 1) :: 64 word) = word_of_int (backoff_minutes attempt * minutes 1)"
    by simp
  consider "attempt < 63" | "attempt = 63" | "63 < attempt" by linarith
  then show ?thesis
  proof cases
    case 1
    have "0 \<le> backoff_minutes attempt" "backoff_minutes attempt \<le> 1440" using 1 by (simp_all add: b)
    then have "sint (word_of_int (backoff_minutes attempt * minutes 1) :: 64 word) = backoff_minutes attempt * minutes 1"
      by (intro sint64) (auto simp: minutes_def seconds_def nano_def)
    then show ?thesis using 1 by (simp add: retry_at_def prod b minutes_def seconds_def)
  next
    case 2
    then have "backoff_minutes attempt = - (2 ^ 63)" using b by simp
    then have "(word_of_int (backoff_minutes attempt * minutes 1) :: 64 word) = 0"
      unfolding word_of_int_eq_0_iff by (simp add: minutes_def seconds_def nano_def)
    then show ?thesis using 2 unfolding retry_at_def prod by simp
  next
    case 3
    then show ?thesis by (simp add: retry_at_def b)
  qed
qed

theorem retry_delay_on_every_attempt_witness:
  "retry_at 0 3 = minutes 8 \<and> retry_at 0 64 = 0"
  using retry_delay_on_every_attempt [of 3 0] retry_delay_on_every_attempt [of 64 0] by simp

text \<open>A scan that failed or was cancelled is released on the next tick, and no new one starts for this
  repository on any tick of the following hour (to the second).\<close>

theorem failed_scan_is_not_restarted_for_an_hour:
  assumes st: "find_cleanup (w_db w) (repo_id repo) = Some st" "cln_scan_run_id st = rid" "rid \<noteq> []"
    and run: "find_run (w_db w) rid = Some run" "isTerminal (run_status run)" "run_status run \<noteq> RunSucceeded"
    and tick: "consumeCleanupScan t repo w = (e, w1)" and within: "tk_now t' < sec (tk_now t + hours 1)"
  shows "e = None \<and> (\<exists>st'. find_cleanup (w_db w1) (repo_id repo) = Some st' \<and> cln_scan_run_id st' = []) \<and>
    maybeStartCleanupScan sl t' repo w1 = (None, w1)"
proof -
  let ?f = "\<lambda>c. c\<lparr>cln_scan_run_id := [], cln_next_attempt_at := Some (sec (tk_now t + hours 1)), cln_updated_at := sec (tk_clk t)\<rparr>"
  have "w1 = clear_scan t repo rid w" "e = None"
    using tick st run by (auto simp: consumeCleanupScan_def GetSnapshotCleanupState_def GetRun_def Let_def active_terminal)
  moreover from this(1) have "find_cleanup (w_db w1) (repo_id repo) = Some (?f st)"
    using st by (simp add: clear_scan_def ClearSnapshotCleanupScan_def find_cleanup_def tbl_get_update_same)
  ultimately show ?thesis using within
    by (auto simp: maybeStartCleanupScan_def GetSnapshotCleanupState_def scan_postponed_def)
qed

theorem failed_scan_is_not_restarted_for_an_hour_witness:
  "\<exists>e w1. consumeCleanupScan sample_tick sample_repo
       (start_world (empty_db\<lparr>db_runs := [sample_run ''r9'' OpSnapshots RunFailed],
          db_cleanup := [(new_cleanup ''p1'' 0)\<lparr>cln_scan_run_id := ''r9''\<rparr>]\<rparr>) :: nat world) = (e, w1) \<and>
     maybeStartCleanupScan sample_sealing (sample_tick\<lparr>tk_now := minutes 59\<rparr>) sample_repo w1 = (None, w1)"
proof -
  let ?w = "start_world (empty_db\<lparr>db_runs := [sample_run ''r9'' OpSnapshots RunFailed],
          db_cleanup := [(new_cleanup ''p1'' 0)\<lparr>cln_scan_run_id := ''r9''\<rparr>]\<rparr>) :: nat world"
  obtain e w1 where out: "consumeCleanupScan sample_tick sample_repo ?w = (e, w1)"
    by (cases "consumeCleanupScan sample_tick sample_repo ?w")
  have st: "find_cleanup (w_db ?w) (repo_id sample_repo) = Some ((new_cleanup ''p1'' 0)\<lparr>cln_scan_run_id := ''r9''\<rparr>)"
    "cln_scan_run_id ((new_cleanup ''p1'' 0)\<lparr>cln_scan_run_id := ''r9''\<rparr>) = ''r9''"
    by (simp_all add: start_world_def find_cleanup_def new_cleanup_def sample_repo_def)
  have run: "find_run (w_db ?w) ''r9'' = Some (sample_run ''r9'' OpSnapshots RunFailed)"
    "isTerminal (run_status (sample_run ''r9'' OpSnapshots RunFailed))" "run_status (sample_run ''r9'' OpSnapshots RunFailed) \<noteq> RunSucceeded"
    by (simp_all add: start_world_def find_run_def sample_run_def)
  have within: "tk_now (sample_tick\<lparr>tk_now := minutes 59\<rparr>) < sec (tk_now sample_tick + hours 1)"
    by (simp add: sample_tick_def sec_def hours_def minutes_def seconds_def nano_def)
  from failed_scan_is_not_restarted_for_an_hour [OF st _ run out within, of sample_sealing] out show ?thesis by auto
qed

end
