(* ===== verification/Secrets.thy ===== *)
theory Secrets
  imports Jobs_Runs
begin

text \<open>
  Sealing of columns (\<open>internal/secrets\<close>): the text both sealers store, the data that binds a
  ciphertext to its table, row and column, and what the rest of the server relies on, which is the
  locale \<open>opening_sealer\<close>.  AES-GCM itself is an argument: the function that seals a text under a
  nonce and associated data, and the one that opens it.  The nonce is an argument too.
\<close>

section \<open>Base64\<close>

definition b64_digit :: "nat \<Rightarrow> char" where
  "b64_digit k = char_of (if k < 26 then 65 + k else if k < 52 then 71 + k else if k < 62 then k - 4
     else if k = 62 then 43 else 47)"

definition b64_value :: "char \<Rightarrow> nat option" where
  "b64_value c =
     (let n = of_char c in
      if 65 \<le> n \<and> n \<le> 90 then Some (n - 65) else if 97 \<le> n \<and> n \<le> 122 then Some (n - 71)
      else if 48 \<le> n \<and> n \<le> 57 then Some (n + 4) else if n = 43 then Some 62 else if n = 47 then Some 63 else None)"

fun b64_encode :: "string \<Rightarrow> string" where
  "b64_encode [] = []"
| "b64_encode [a] = [b64_digit (of_char a div 4), b64_digit (of_char a mod 4 * 16), CHR ''='', CHR ''='']"
| "b64_encode [a, b] =
     [b64_digit (of_char a div 4), b64_digit (of_char a mod 4 * 16 + of_char b div 16),
      b64_digit (of_char b mod 16 * 4), CHR ''='']"
| "b64_encode (a # b # c # s) =
     b64_digit (of_char a div 4) # b64_digit (of_char a mod 4 * 16 + of_char b div 16) #
     b64_digit (of_char b mod 16 * 4 + of_char c div 64) # b64_digit (of_char c mod 64) # b64_encode s"

text \<open>Line breaks are skipped; padding may only end the text; the bits behind the last byte are ignored.\<close>

fun b64_quads :: "string \<Rightarrow> string option" where
  "b64_quads [] = Some []"
| "b64_quads (w # x # y # z # s) =
     (case (b64_value w, b64_value x) of
        (Some p, Some q) \<Rightarrow>
          (if y = CHR ''=''
           then (if z = CHR ''='' \<and> s = [] then Some [char_of (p * 4 + q div 16)] else None)
           else
             (case b64_value y of
                None \<Rightarrow> None
              | Some r \<Rightarrow>
                  if z = CHR ''=''
                  then (if s = [] then Some [char_of (p * 4 + q div 16), char_of (q mod 16 * 16 + r div 4)] else None)
                  else
                    (case b64_value z of
                       None \<Rightarrow> None
                     | Some t \<Rightarrow>
                         map_option ((@) [char_of (p * 4 + q div 16), char_of (q mod 16 * 16 + r div 4), char_of (r mod 4 * 64 + t)])
                           (b64_quads s))))
      | _ \<Rightarrow> None)"
| "b64_quads _ = None"

definition b64_decode :: "string \<Rightarrow> string option" where
  "b64_decode s = b64_quads (filter (\<lambda>c. c \<noteq> CHR 0x0A \<and> c \<noteq> CHR 0x0D) s)"

section \<open>The sealers\<close>

definition aad :: "string \<Rightarrow> string \<Rightarrow> string \<Rightarrow> string" where
  "aad table row column = table @ '':'' @ row @ '':'' @ column"

record aead =
  ae_seal :: "string \<Rightarrow> string \<Rightarrow> string \<Rightarrow> string"
  ae_open :: "string \<Rightarrow> string \<Rightarrow> string \<Rightarrow> string option"

definition nonce_size :: nat where "nonce_size = 12"

definition AESGCMSealer_Seal :: "aead \<Rightarrow> string \<Rightarrow> string \<Rightarrow> string \<Rightarrow> string \<Rightarrow> string \<Rightarrow> string option" where
  "AESGCMSealer_Seal ae nonce table row column plaintext =
     (if plaintext = [] then Some []
      else Some (b64_encode (nonce @ ae_seal ae nonce plaintext (aad table row column))))"

definition AESGCMSealer_Open :: "aead \<Rightarrow> string \<Rightarrow> string \<Rightarrow> string \<Rightarrow> string \<Rightarrow> string option" where
  "AESGCMSealer_Open ae table row column data =
     (if data = [] then Some []
      else
        (case b64_decode data of
           None \<Rightarrow> None
         | Some raw \<Rightarrow>
             if length raw < nonce_size + 1 then None
             else ae_open ae (take nonce_size raw) (drop nonce_size raw) (aad table row column)))"

definition NoopSealer_Seal :: "string \<Rightarrow> string \<Rightarrow> string \<Rightarrow> string \<Rightarrow> string option" where
  "NoopSealer_Seal table row column plaintext =
     (if plaintext = [] then Some [] else Some (b64_encode (''noop:'' @ plaintext)))"

definition NoopSealer_Open :: "string \<Rightarrow> string \<Rightarrow> string \<Rightarrow> string \<Rightarrow> string option" where
  "NoopSealer_Open table row column data =
     (if data = [] then Some []
      else
        (case b64_decode data of
           None \<Rightarrow> None | Some raw \<Rightarrow> if HasPrefix raw ''noop:'' then Some (TrimPrefix raw ''noop:'') else None))"

text \<open>The hash (SHA-256, keyed with the master key in the real sealer) is an argument.\<close>

definition Fingerprint :: "(string \<Rightarrow> string) \<Rightarrow> string \<Rightarrow> string \<Rightarrow> string" where
  "Fingerprint hash scope v = hash (scope @ nul @ v)"

definition aes_sealing :: "aead \<Rightarrow> string \<Rightarrow> (string \<Rightarrow> string) \<Rightarrow> sealing" where
  "aes_sealing ae nonce mac = \<lparr>sl_seal = AESGCMSealer_Seal ae nonce, sl_open = AESGCMSealer_Open ae, sl_fingerprint = Fingerprint mac\<rparr>"

definition noop_sealing :: "(string \<Rightarrow> string) \<Rightarrow> sealing" where
  "noop_sealing hash = \<lparr>sl_seal = NoopSealer_Seal, sl_open = NoopSealer_Open, sl_fingerprint = Fingerprint hash\<rparr>"

section \<open>Lemmas\<close>

lemma b64_value_digit [simp]: "k < 64 \<Longrightarrow> b64_value (b64_digit k) = Some k"
  by (auto simp: b64_value_def b64_digit_def Let_def)

lemma b64_digit_plain: "k < 64 \<Longrightarrow> b64_digit k \<notin> {CHR ''='', CHR 0x0A, CHR 0x0D}"
proof -
  assume k: "k < 64"
  have "b64_value (CHR ''='') = None" "b64_value (CHR 0x0A) = None" "b64_value (CHR 0x0D) = None"
    by (simp_all add: b64_value_def)
  with b64_value_digit [OF k] show ?thesis by auto
qed

lemma char_lt [simp]: "(of_char c :: nat) < 256"
  using nat_of_char_less_256 by simp

lemma split_digit: "(q :: nat) < n \<Longrightarrow> (r * n + q) div n = r \<and> (r * n + q) mod n = q"
  by simp

lemma b64_parts:
  fixes a b c :: nat
  assumes "a < 256" "b < 256" "c < 256"
  shows "a div 4 < 64" "a mod 4 * 16 < 64" "a mod 4 * 16 + b div 16 < 64" "b mod 16 * 4 < 64"
    "b mod 16 * 4 + c div 64 < 64" "c mod 64 < 64"
    "a div 4 * 4 + (a mod 4 * 16 + b div 16) div 16 = a" "a div 4 * 4 + (a mod 4 * 16) div 16 = a"
    "(a mod 4 * 16 + b div 16) mod 16 * 16 + (b mod 16 * 4 + c div 64) div 4 = b"
    "(a mod 4 * 16 + b div 16) mod 16 * 16 + (b mod 16 * 4) div 4 = b"
    "(b mod 16 * 4 + c div 64) mod 4 * 64 + c mod 64 = c"
proof -
  have q: "b div 16 < 16" "c div 64 < 4" "a mod 4 < 4" "b mod 16 < 16" using assms by simp_all
  show "a div 4 < 64" "a mod 4 * 16 < 64" "a mod 4 * 16 + b div 16 < 64" "b mod 16 * 4 < 64"
    "b mod 16 * 4 + c div 64 < 64" "c mod 64 < 64"
    using assms(1) q by simp_all
  show "a div 4 * 4 + (a mod 4 * 16 + b div 16) div 16 = a" "a div 4 * 4 + (a mod 4 * 16) div 16 = a"
    using split_digit [OF q(1), of "a mod 4"] by simp_all
  show "(a mod 4 * 16 + b div 16) mod 16 * 16 + (b mod 16 * 4 + c div 64) div 4 = b"
    "(a mod 4 * 16 + b div 16) mod 16 * 16 + (b mod 16 * 4) div 4 = b"
    "(b mod 16 * 4 + c div 64) mod 4 * 64 + c mod 64 = c"
    using split_digit [OF q(1), of "a mod 4"] split_digit [OF q(2), of "b mod 16"] by simp_all
qed

lemma b64_round_quads: "b64_quads (b64_encode s) = Some s"
proof (induction s rule: b64_encode.induct)
  case (2 a)
  then show ?case using b64_parts [of "of_char a" 0 0] by simp
next
  case (3 a b)
  have d: "b64_digit (of_char b mod 16 * 4) \<noteq> CHR ''=''" using b64_digit_plain [of "of_char b mod 16 * 4"] b64_parts(4) [of 0 "of_char b" 0] by simp
  then show ?case using b64_parts [of "of_char a" "of_char b" 0] by simp
next
  case (4 a b c s)
  note p = b64_parts [of "of_char a" "of_char b" "of_char c"]
  have d: "b64_digit (of_char b mod 16 * 4 + of_char c div 64) \<noteq> CHR ''=''" "b64_digit (of_char c mod 64) \<noteq> CHR ''=''"
    using b64_digit_plain p(5,6) by simp_all
  show ?case using 4 p d by simp
qed simp

lemma b64_plain: "c \<in> set (b64_encode s) \<Longrightarrow> c \<noteq> CHR 0x0A \<and> c \<noteq> CHR 0x0D"
proof (induction s rule: b64_encode.induct)
  case (2 a)
  then show ?case using b64_digit_plain b64_parts [of "of_char a" 0 0] by auto
next
  case (3 a b)
  then show ?case using b64_digit_plain b64_parts [of "of_char a" "of_char b" 0] by auto
next
  case (4 a b e s)
  then show ?case using b64_digit_plain b64_parts [of "of_char a" "of_char b" "of_char e"] by auto
qed simp

lemma b64_round [simp]: "b64_decode (b64_encode s) = Some s"
proof -
  have "filter (\<lambda>c. c \<noteq> CHR 0x0A \<and> c \<noteq> CHR 0x0D) (b64_encode s) = b64_encode s"
    using b64_plain by (simp add: filter_id_conv)
  then show ?thesis by (simp add: b64_decode_def b64_round_quads)
qed

lemma b64_encode_Nil [simp]: "b64_encode s = [] \<longleftrightarrow> s = []"
  by (cases s rule: b64_encode.cases) auto

text \<open>The data that is authenticated tells the cells apart: table and column names have no colon, so
  whatever the row is called, it ends where it should.\<close>

lemma aad_inj:
  assumes "CHR '':'' \<notin> set t" "CHR '':'' \<notin> set t'" "CHR '':'' \<notin> set c" "CHR '':'' \<notin> set c'"
  shows "aad t r c = aad t' r' c' \<longleftrightarrow> t = t' \<and> r = r' \<and> c = c'"
proof
  assume eq: "aad t r c = aad t' r' c'"
  have "takeWhile (\<lambda>x. x \<noteq> CHR '':'') (aad t r c) = t" "takeWhile (\<lambda>x. x \<noteq> CHR '':'') (aad t' r' c') = t'"
    using assms(1,2) by (auto simp: aad_def takeWhile_append)
  with eq have t: "t = t'" by simp
  have ends: "takeWhile (\<lambda>x. x \<noteq> CHR '':'') (rev (r @ '':'' @ c)) = rev c" "takeWhile (\<lambda>x. x \<noteq> CHR '':'') (rev (r' @ '':'' @ c')) = rev c'"
    using assms(3,4) by (auto simp: takeWhile_append)
  from eq t have "r @ '':'' @ c = r' @ '':'' @ c'" by (simp add: aad_def)
  moreover from this ends have "rev c = rev c'" by metis
  ultimately show "t = t' \<and> r = r' \<and> c = c'" using t by simp
qed simp

section \<open>The interface\<close>

lemma upsert_get:
  assumes "P v"
  shows "tbl_get P (tbl_update P (\<lambda>_. v) xs) = (if list_ex P xs then Some v else None)"
    "\<not> list_ex P xs \<Longrightarrow> tbl_get P (xs @ [v]) = Some v"
  using assms by (induction xs) (auto split: if_splits)

text \<open>What the server relies on: what was sealed for a cell is opened in that cell, and a column that holds
  something is not empty once it is sealed.\<close>

locale opening_sealer =
  fixes sl :: sealing
  assumes opens: "sl_seal sl table row column p = Some x \<Longrightarrow> sl_open sl table row column x = Some p"
    and filled: "sl_seal sl table row column p = Some x \<Longrightarrow> p \<noteq> [] \<Longrightarrow> x \<noteq> []"
begin

lemma plan_password_read_back:
  assumes "SavePlanDBPassword (sl_seal sl) pid pw d = Inr d'" and "pw \<noteq> []"
  shows "GetPlanDBPassword (sl_open sl) d' pid = Inr pw"
proof -
  from assms obtain c where c: "sl_seal sl ''backup_plan_secrets'' pid ''encrypted_password'' pw = Some c"
    by (cases "sl_seal sl ''backup_plan_secrets'' pid ''encrypted_password'' pw") (simp_all add: SavePlanDBPassword_def)
  have "tbl_get (\<lambda>s. fst s = pid) (db_plan_secrets d') = Some (pid, c)"
    using assms c upsert_get [of "\<lambda>s. fst s = pid" "(pid, c)" "db_plan_secrets d"]
    by (auto simp: SavePlanDBPassword_def split: if_splits)
  then show ?thesis by (simp add: GetPlanDBPassword_def opens [OF c])
qed

lemma run_config_read_back:
  assumes save: "SaveRunRcloneConfig (sl_seal sl) now rid cfg d = Inr d'" and "cfg \<noteq> []"
    and fresh: "\<forall>s\<in>set (db_run_secrets d). rsec_run_id s \<noteq> rid"
  shows "GetRunRcloneConfig (sl_open sl) d' rid = Inr cfg"
proof -
  from assms obtain c where c: "sl_seal sl ''run_secrets'' rid ''encrypted_rclone_config'' cfg = Some c"
    and put: "put_run_secret now rid (\<lambda>s. s\<lparr>rsec_rclone_config := c\<rparr>) d = Inr d'"
    by (auto simp: SaveRunRcloneConfig_def split: option.splits)
  have none: "tbl_get (\<lambda>s. rsec_run_id s = rid) (db_run_secrets d) = None" using fresh by (simp add: tbl_get_None)
  from put fresh have "tbl_get (\<lambda>s. rsec_run_id s = rid) (db_run_secrets d') =
      Some \<lparr>rsec_run_id = rid, rsec_target_password = [], rsec_rclone_config = c, rsec_created_at = sec now\<rparr>"
    by (auto simp: put_run_secret_def list_ex_iff none split: if_splits)
  then show ?thesis using filled [OF c \<open>cfg \<noteq> []\<close>] by (simp add: GetRunRcloneConfig_def opens [OF c])
qed

end

interpretation noop: opening_sealer "noop_sealing hash" for hash
proof
  show "sl_open (noop_sealing hash) table row column x = Some p" if "sl_seal (noop_sealing hash) table row column p = Some x"
    for table row column p x
  proof -
    from that consider "p = []" "x = []" | "p \<noteq> []" "x = b64_encode (''noop:'' @ p)"
      by (auto simp: noop_sealing_def NoopSealer_Seal_def simp del: b64_encode.simps split: if_splits)
    then show ?thesis
    proof cases
      case 2
      have "HasPrefix (''noop:'' @ p) ''noop:''" "TrimPrefix (''noop:'' @ p) ''noop:'' = p"
        by (simp_all add: HasPrefix_def TrimPrefix_def)
      with 2 show ?thesis by (simp add: noop_sealing_def NoopSealer_Open_def del: b64_encode.simps append_Cons)
    qed (simp add: noop_sealing_def NoopSealer_Open_def)
  qed
  show "x \<noteq> []" if "sl_seal (noop_sealing hash) table row column p = Some x" "p \<noteq> []" for table row column p x
    using that by (auto simp: noop_sealing_def NoopSealer_Seal_def simp del: b64_encode.simps)
qed

text \<open>The real sealer is one too when AES-GCM opens what it sealed.\<close>

lemma aes_opens:
  assumes "\<And>p a. ae_open ae nonce (ae_seal ae nonce p a) a = Some p" and "length nonce = nonce_size" and "\<And>p a. ae_seal ae nonce p a \<noteq> []"
  shows "opening_sealer (aes_sealing ae nonce mac)"
proof
  fix table row column p x
  assume "sl_seal (aes_sealing ae nonce mac) table row column p = Some x"
  then consider "p = []" "x = []" | "p \<noteq> []" "x = b64_encode (nonce @ ae_seal ae nonce p (aad table row column))"
    by (auto simp: aes_sealing_def AESGCMSealer_Seal_def split: if_splits)
  then show "sl_open (aes_sealing ae nonce mac) table row column x = Some p"
  proof cases
    case 2
    have "length (ae_seal ae nonce p (aad table row column)) \<ge> 1"
      using assms(3) [of p "aad table row column"] by (cases "ae_seal ae nonce p (aad table row column)") auto
    moreover have "nonce @ ae_seal ae nonce p (aad table row column) \<noteq> []" using assms(3) by simp
    ultimately show ?thesis using assms(1,2) assms(3) [of p "aad table row column"] 2
      by (simp add: aes_sealing_def AESGCMSealer_Open_def)
  qed (simp add: aes_sealing_def AESGCMSealer_Open_def)
next
  show "x \<noteq> []" if "sl_seal (aes_sealing ae nonce mac) table row column p = Some x" "p \<noteq> []" for table row column p x
    using that assms(3) by (auto simp: aes_sealing_def AESGCMSealer_Seal_def)
qed

section \<open>Properties\<close>

text \<open>C34: With AES-GCM a column opens in the cell it was sealed for and in no other: a ciphertext that is moved
  to another row, column or table is refused.  Of AES-GCM it is only assumed that a ciphertext opens
  under its own nonce and associated data and fails under other associated data; the names of tables
  and columns have no colon, while a row may be called anything.\<close>

theorem sealed_column_opens_in_its_cell_only:
  assumes opens: "\<And>p a. ae_open ae nonce (ae_seal ae nonce p a) a = Some p"
    and bound: "\<And>p a b. a \<noteq> b \<Longrightarrow> ae_open ae nonce (ae_seal ae nonce p a) b = None"
    and sizes: "length nonce = nonce_size" "\<And>p a. ae_seal ae nonce p a \<noteq> []"
    and names: "CHR '':'' \<notin> set table" "CHR '':'' \<notin> set table'" "CHR '':'' \<notin> set column" "CHR '':'' \<notin> set column'"
    and sealed: "AESGCMSealer_Seal ae nonce table row column p = Some x" "p \<noteq> []"
  shows "AESGCMSealer_Open ae table' row' column' x =
    (if table' = table \<and> row' = row \<and> column' = column then Some p else None)"
proof -
  have x: "x = b64_encode (nonce @ ae_seal ae nonce p (aad table row column))"
    using sealed by (simp add: AESGCMSealer_Seal_def)
  have "1 \<le> length (ae_seal ae nonce p (aad table row column))" using sizes(2) [of p "aad table row column"]
    by (cases "ae_seal ae nonce p (aad table row column)") auto
  then have "AESGCMSealer_Open ae table' row' column' x = ae_open ae nonce (ae_seal ae nonce p (aad table row column)) (aad table' row' column')"
    using sizes by (simp add: x AESGCMSealer_Open_def)
  then show ?thesis using opens bound aad_inj [OF names(1,2,3,4), of row row'] by (cases "aad table row column = aad table' row' column'") auto
qed

definition sample_aead :: aead where
  "sample_aead = \<lparr>ae_seal = \<lambda>n p a. replicate (length a) CHR ''1'' @ CHR ''0'' # a @ p,
     ae_open = \<lambda>n x a. let k = length (takeWhile (\<lambda>c. c = CHR ''1'') x); rest = drop (Suc k) x
       in if k = length a \<and> take k rest = a then Some (drop k rest) else None\<rparr>"

theorem sealed_column_opens_in_its_cell_only_witness:
  "\<exists>x. AESGCMSealer_Seal sample_aead ''123456789012'' ''repositories'' ''r:1'' ''encrypted_password'' ''pw'' = Some x \<and>
     AESGCMSealer_Open sample_aead ''repositories'' ''r:1'' ''encrypted_password'' x = Some ''pw'' \<and>
     AESGCMSealer_Open sample_aead ''repositories'' ''r:2'' ''encrypted_password'' x = None"
proof -
  let ?n = "''123456789012''"
  have run: "length (takeWhile (\<lambda>c. c = CHR ''1'') (replicate (length a) CHR ''1'' @ CHR ''0'' # z)) = length a" for a z :: string
    by (simp add: takeWhile_append)
  have opens: "ae_open sample_aead ?n (ae_seal sample_aead ?n p a) a = Some p" for p a
    by (simp add: sample_aead_def run Let_def)
  have bound: "ae_open sample_aead ?n (ae_seal sample_aead ?n p a) b = None" if "a \<noteq> b" for p a b
    using that by (simp add: sample_aead_def run Let_def)
  have sizes: "length ?n = nonce_size" "ae_seal sample_aead ?n p a \<noteq> []" for p a
    by (simp_all add: nonce_size_def sample_aead_def)
  have names: "CHR '':'' \<notin> set ''repositories''" "CHR '':'' \<notin> set ''encrypted_password''" by simp_all
  obtain x where x: "AESGCMSealer_Seal sample_aead ?n ''repositories'' ''r:1'' ''encrypted_password'' ''pw'' = Some x"
    by (simp add: AESGCMSealer_Seal_def)
  note fact = sealed_column_opens_in_its_cell_only [OF opens bound sizes names(1,1,2,2) x]
  show ?thesis using x fact [of "''r:1''"] fact [of "''r:2''"] by simp
qed

text \<open>What the plan's password is sealed as can be read back, with the sealer of a development server.\<close>

theorem plan_password_survives_storage:
  assumes "SavePlanDBPassword (sl_seal (noop_sealing hash)) pid pw d = Inr d'" and "pw \<noteq> []"
  shows "GetPlanDBPassword (sl_open (noop_sealing hash)) d' pid = Inr pw"
  by (rule noop.plan_password_read_back [OF assms])

end
