(* ===== verification/Jobs_Repos.thy ===== *)
theory Jobs_Repos
  imports Agent_Service Jobs_Cleanup Secrets
begin

text \<open>
  The administration of plans, storage targets and repositories in
  \<open>internal/server/jobs/orchestrator.go\<close>: validating sources and remotes through an agent, binding a
  repository (adopting or initialising it), unbinding it, checking it, applying the retention of its
  plans and deleting a plan's backups.

  \<open>now\<close> is the clock when an operation begins, \<open>at\<close> the clock after it has waited for a run; the
  generator of identifiers, the random bytes of a password and the order in which the map of
  connected agents is walked are arguments.  The mutex of \<open>BindRepository\<close> is the reason why it is one
  operation here.
\<close>

section \<open>Validation\<close>

definition ValidatePlanSource ::
    "sealing \<Rightarrow> 'c meanwhile \<Rightarrow> string \<Rightarrow> instant \<Rightarrow> kind \<Rightarrow> plan_source \<Rightarrow> string \<Rightarrow> 'c world \<Rightarrow> 'c answer" where
  "ValidatePlanSource sl env rid now k src agentID w =
     (case and_then (lift_store (GetAgent (w_db w) agentID)) (\<lambda>agent. checkCapabilities agent k) of
        Inl e \<Rightarrow> (Some e, w)
      | Inr _ \<Rightarrow>
          if k \<noteq> KindFilesystem then (None, w)
          else
            case SystemRun sl rid now agentID [] OpValidatePaths (ValidatePathsTask (src_paths src) (src_excludes src)) w of
              (Inl e, w1) \<Rightarrow> (Some e, w1)
            | (Inr run, w1) \<Rightarrow>
                (case await env (run_id run) w1 of
                   (Inl e, w2) \<Rightarrow> (Some e, w2)
                 | (Inr t, w2) \<Rightarrow> (if run_status t = RunFailed then Some ErrPathInvalid else None, w2)))"

definition StartRepositoryCheck ::
    "sealing \<Rightarrow> string \<Rightarrow> string \<Rightarrow> instant \<Rightarrow> string \<Rightarrow> string \<Rightarrow> 'c world \<Rightarrow> (jobs_err + run) \<times> 'c world" where
  "StartRepositoryCheck sl rid aid now actorID repositoryID w =
     (case GetRepository (w_db w) repositoryID of
        Inl e \<Rightarrow> (Inl (JStore e), w)
      | Inr repo \<Rightarrow>
          if repo_path repo = [] then (Inl ErrPathInvalid, w)
          else if \<not> Connected (w_reg w) (repo_agent_id repo) then (Inl ErrAgentOffline, w)
          else
            case SystemRun sl rid now (repo_agent_id repo) repositoryID OpCheck (CheckTask (repo_path repo)) w of
              (Inl e, w1) \<Rightarrow> (Inl e, w1)
            | (Inr run, w1) \<Rightarrow>
                (Inr run, Audit aid now ''admin'' actorID ''repository.check.requested'' ''repository'' repositoryID
                   [(''run_id'', run_id run)] w1))"

record verify_result =
  vr_remote_type :: string
  vr_entries :: int

definition decode_verify :: "json \<Rightarrow> verify_result" where
  "decode_verify j =
     (case j of
        JObj ms \<Rightarrow>
          (case (field_string ''remote_type'' ms, field_int ''entries'' ms) of
             (Some t, Some n) \<Rightarrow> \<lparr>vr_remote_type = t, vr_entries = n\<rparr>
           | _ \<Rightarrow> \<lparr>vr_remote_type = [], vr_entries = 0\<rparr>)
      | _ \<Rightarrow> \<lparr>vr_remote_type = [], vr_entries = 0\<rparr>)"

text \<open>The detail that is added to the text of the two named errors is left out.\<close>

definition remote_error :: "run \<Rightarrow> jobs_err" where
  "remote_error t =
     (if run_error_code t = ''storage_remote_not_found'' then ErrStorageRemoteNotFound
      else if run_error_code t = ''storage_remote_unreachable'' then ErrStorageRemote
      else JText (''verify remote failed: '' @ run_error_message t))"

definition ValidateStorageRemote ::
    "sealing \<Rightarrow> 'c meanwhile \<Rightarrow> string \<Rightarrow> instant \<Rightarrow> string \<Rightarrow> string \<Rightarrow> string \<Rightarrow> 'c world \<Rightarrow> (jobs_err + verify_result) \<times> 'c world" where
  "ValidateStorageRemote sl env rid now conf remoteName agentID w =
     (case systemRun sl rid now agentID [] OpVerifyRemote (VerifyRemoteTask True remoteName) conf w of
        (Inl e, w1) \<Rightarrow> (Inl e, w1)
      | (Inr run, w1) \<Rightarrow>
          (case await env (run_id run) w1 of
             (Inl e, w2) \<Rightarrow> (Inl e, w2)
           | (Inr t, w2) \<Rightarrow>
               (if run_status t = RunFailed then Inl (remote_error t) else Inr (decode_verify (run_progress t)), w2)))"

section \<open>Storage targets\<close>

definition new_target :: "string \<Rightarrow> instant \<Rightarrow> string \<Rightarrow> string \<Rightarrow> string \<Rightarrow> string \<Rightarrow> storage_target" where
  "new_target tid at name remoteName remotePath sealed =
     \<lparr>tgt_id = tid, tgt_name = name, tgt_type = ''rclone'', tgt_remote_name = remoteName, tgt_remote_path = remotePath,
      tgt_encrypted_config = sealed, tgt_created_at = at, tgt_updated_at = at\<rparr>"

text \<open>Both ways to create a target end like this; \<open>row\<close> is the row the configuration is sealed for.\<close>

definition persist_target ::
    "sealing \<Rightarrow> string \<Rightarrow> string \<Rightarrow> string \<Rightarrow> instant \<Rightarrow> string \<Rightarrow> string \<Rightarrow> string \<Rightarrow> string \<Rightarrow> string \<Rightarrow> 'c world \<Rightarrow>
     (jobs_err + storage_target) \<times> 'c world" where
  "persist_target sl row tid aid at actorID name conf remoteName remotePath w =
     (case sl_seal sl ''storage_targets'' row ''encrypted_config'' conf of
        None \<Rightarrow> (Inl (JText ''seal''), w)
      | Some sealed \<Rightarrow>
          let t = new_target tid at name remoteName remotePath sealed in
          case CreateStorageTarget t (w_db w) of
            Inl e \<Rightarrow> (Inl (JStore e), w)
          | Inr d' \<Rightarrow>
              (Inr t, Audit aid at ''admin'' actorID ''storage_target.create'' ''storage_target'' tid
                 [(''name'', name), (''remote'', remoteName)] (w\<lparr>w_db := d'\<rparr>)))"

definition CreateStorageTargetAny ::
    "sealing \<Rightarrow> 'c meanwhile \<Rightarrow> string list \<Rightarrow> string \<Rightarrow> string \<Rightarrow> string \<Rightarrow> instant \<Rightarrow> instant \<Rightarrow> string \<Rightarrow> string \<Rightarrow> string \<Rightarrow> string \<Rightarrow> string \<Rightarrow> bool \<Rightarrow>
     'c world \<Rightarrow> (jobs_err + storage_target) \<times> 'c world" where
  "CreateStorageTargetAny sl env agents rid tid aid now at actorID name conf remoteName remotePath validate w =
     (if \<not> validate then persist_target sl name tid aid at actorID name conf remoteName remotePath w
      else if agents = [] then (Inl ErrStorageRemote, w)
      else case ValidateStorageRemote sl env rid now conf remoteName (hd agents) w of
        (Inl e, w1) \<Rightarrow> (Inl e, w1)
      | (Inr _, w1) \<Rightarrow> persist_target sl name tid aid at actorID name conf remoteName remotePath w1)"

definition CreateStorageTargetWithAgent ::
    "sealing \<Rightarrow> 'c meanwhile \<Rightarrow> string \<Rightarrow> string \<Rightarrow> string \<Rightarrow> instant \<Rightarrow> instant \<Rightarrow> string \<Rightarrow> string \<Rightarrow> string \<Rightarrow> string \<Rightarrow> string \<Rightarrow> string \<Rightarrow> bool \<Rightarrow>
     'c world \<Rightarrow> (jobs_err + storage_target) \<times> 'c world" where
  "CreateStorageTargetWithAgent sl env rid tid aid now at actorID name conf remoteName remotePath agentID validate w =
     (if \<not> validate then persist_target sl tid tid aid at actorID name conf remoteName remotePath w
      else if agentID = [] then (Inl ErrStorageRemote, w)
      else case ValidateStorageRemote sl env rid now conf remoteName agentID w of
        (Inl e, w1) \<Rightarrow> (Inl e, w1)
      | (Inr _, w1) \<Rightarrow> persist_target sl tid tid aid at actorID name conf remoteName remotePath w1)"

definition RenameStorageTarget ::
    "string \<Rightarrow> instant \<Rightarrow> string \<Rightarrow> string \<Rightarrow> string \<Rightarrow> 'c world \<Rightarrow> (jobs_err + storage_target) \<times> 'c world" where
  "RenameStorageTarget aid now actorID targetID raw w =
     (let name = TrimSpace raw in
      if name = [] then (Inl ErrStorageTargetName, w)
      else
        case GetStorageTarget (w_db w) targetID of
          Inl e \<Rightarrow> (Inl (JStore e), w)
        | Inr t0 \<Rightarrow>
            let t = t0\<lparr>tgt_name := name, tgt_updated_at := now\<rparr> in
            case UpdateStorageTarget now t (w_db w) of
              Inl e \<Rightarrow> (Inl (JStore e), w)
            | Inr d' \<Rightarrow>
                (Inr t, Audit aid now ''admin'' actorID ''storage_target.rename'' ''storage_target'' targetID [(''name'', name)] (w\<lparr>w_db := d'\<rparr>)))"

section \<open>Binding a repository\<close>

definition trim_slashes :: "string \<Rightarrow> string" where
  "trim_slashes s = rev (dropWhile (\<lambda>c. c = CHR ''/'') (rev (dropWhile (\<lambda>c. c = CHR ''/'') s)))"

definition buildRepoPath :: "storage_target \<Rightarrow> string \<Rightarrow> string \<Rightarrow> string" where
  "buildRepoPath target instanceID agentID =
     (let rp = trim_slashes (tgt_remote_path target);
          prefix = (if HasPrefix (tgt_remote_path target) ''/'' then ''/'' else [])
      in tgt_remote_name target @ '':'' @ prefix @ (if rp = [] then [] else rp @ ''/'') @ instanceID @ ''/'' @ agentID)"

definition set_repo_status :: "instant \<Rightarrow> string \<Rightarrow> repo_status \<Rightarrow> 'c world \<Rightarrow> 'c world" where
  "set_repo_status at i st w = w\<lparr>w_db := UpdateRepositoryStatus at i st (w_db w)\<rparr>"

definition dropProbeRun :: "string \<Rightarrow> 'c world \<Rightarrow> 'c world" where
  "dropProbeRun rid w = (case DeleteRun rid (w_db w) of Inl _ \<Rightarrow> w | Inr d' \<Rightarrow> w\<lparr>w_db := d'\<rparr>)"

definition markRepositoryError :: "instant \<Rightarrow> string \<Rightarrow> 'c world \<Rightarrow> 'c world" where
  "markRepositoryError at i w =
     (case GetRepository (w_db w) i of
        Inr r \<Rightarrow> if repo_status r = RepoReady then w else set_repo_status at i RepoError w
      | Inl _ \<Rightarrow> set_repo_status at i RepoError w)"

definition init_repository ::
    "sealing \<Rightarrow> 'c meanwhile \<Rightarrow> string \<Rightarrow> instant \<Rightarrow> repository \<Rightarrow> string \<Rightarrow> 'c world \<Rightarrow> 'c answer" where
  "init_repository sl env initID at repo agentID w =
     (case SystemRun sl initID at agentID (repo_id repo) OpForget (InitTask (repo_path repo) True) w of
        (Inl e, w1) \<Rightarrow> (Some e, w1)
      | (Inr run, w1) \<Rightarrow>
          (case await env (run_id run) w1 of
             (Inl e, w2) \<Rightarrow> (Some e, w2)
           | (Inr t, w2) \<Rightarrow>
               if run_status t = RunSucceeded then (None, set_repo_status at (repo_id repo) RepoReady w2)
               else (Some ErrRepositoryUnavailable, w2)))"

definition EnsureRepository ::
    "sealing \<Rightarrow> 'c meanwhile \<Rightarrow> string \<Rightarrow> string \<Rightarrow> instant \<Rightarrow> instant \<Rightarrow> repository \<Rightarrow> string \<Rightarrow> 'c world \<Rightarrow> 'c answer" where
  "EnsureRepository sl env probeID initID now at repo agentID w =
     (case SystemRun sl probeID now agentID (repo_id repo) OpSnapshots (SnapshotsTask (repo_path repo)) w of
        (Inl e, w1) \<Rightarrow> (Some e, w1)
      | (Inr probe, w1) \<Rightarrow>
          (case await env (run_id probe) w1 of
             (Inl e, w2) \<Rightarrow> (Some e, w2)
           | (Inr t, w2) \<Rightarrow>
               if run_status t = RunSucceeded then (None, set_repo_status at (repo_id repo) RepoReady w2)
               else if run_status t = RunFailed then
                 (if run_error_code t = ''repository_missing''
                  then init_repository sl env initID at repo agentID (dropProbeRun (run_id probe) w2)
                  else if run_error_code t = ''wrong_repository_password'' then (Some ErrRepoPassword, w2)
                  else if run_error_code t = ''repository_locked'' then (Some ErrRepoLocked, w2)
                  else (Some ErrRepositoryUnavailable, w2))
               else init_repository sl env initID at repo agentID w2))"

record bind_ids =
  bid_repo :: string
  bid_probe :: string
  bid_init :: string
  bid_audit :: string

definition ensure_or_mark ::
    "sealing \<Rightarrow> 'c meanwhile \<Rightarrow> bind_ids \<Rightarrow> instant \<Rightarrow> instant \<Rightarrow> repository \<Rightarrow> string \<Rightarrow> 'c world \<Rightarrow> 'c answer" where
  "ensure_or_mark sl env ids now at repo agentID w =
     (case EnsureRepository sl env (bid_probe ids) (bid_init ids) now at repo agentID w of
        (Some e, w1) \<Rightarrow> (Some e, markRepositoryError at (repo_id repo) w1)
      | (None, w1) \<Rightarrow> (None, w1))"

definition new_repository :: "string \<Rightarrow> instant \<Rightarrow> string \<Rightarrow> string \<Rightarrow> string \<Rightarrow> string \<Rightarrow> repository" where
  "new_repository i now agentID targetID p sealed =
     \<lparr>repo_id = i, repo_agent_id = agentID, repo_storage_target_id = targetID, repo_path = p, repo_encrypted_password = sealed,
      repo_status = RepoPending, repo_last_check_at = None, repo_detached_at = None, repo_created_at = now, repo_updated_at = now\<rparr>"

text \<open>The audit entry of a binding is written for a repository that existed, and not for a new one.\<close>

definition BindRepository ::
    "sealing \<Rightarrow> 'c meanwhile \<Rightarrow> string \<Rightarrow> bind_ids \<Rightarrow> string option \<Rightarrow> instant \<Rightarrow> instant \<Rightarrow> string \<Rightarrow> string \<Rightarrow> string \<Rightarrow>
     'c world \<Rightarrow> (jobs_err + repository) \<times> 'c world" where
  "BindRepository sl env instanceID ids random now at actorID agentID targetID w =
     (case GetStorageTarget (w_db w) targetID of
        Inl e \<Rightarrow> (Inl (JStore e), w)
      | Inr target \<Rightarrow>
          (case GetAgent (w_db w) agentID of
             Inl e \<Rightarrow> (Inl (JStore e), w)
           | Inr _ \<Rightarrow>
               (case GetRepositoryByAgentAndTarget (w_db w) agentID targetID of
                  Inr existing \<Rightarrow>
                    let audit = Audit (bid_audit ids) at ''admin'' actorID ''repository.bind'' ''repository'' (repo_id existing)
                          [(''agent_id'', agentID), (''target_id'', targetID)]
                    in if repo_status existing \<noteq> RepoReady \<or> repo_detached_at existing \<noteq> None
                       then (case ensure_or_mark sl env ids now at existing agentID w of
                               (Some e, w1) \<Rightarrow> (Inl e, w1)
                             | (None, w1) \<Rightarrow> (Inr (existing\<lparr>repo_status := RepoReady\<rparr>), audit w1))
                       else (Inr existing, audit w)
                | Inl _ \<Rightarrow>
                    (case random of
                       None \<Rightarrow> (Inl (JText ''random''), w)
                     | Some bytes \<Rightarrow>
                         (case sl_seal sl ''repositories'' (bid_repo ids) ''encrypted_password'' (hex_encode bytes) of
                            None \<Rightarrow> (Inl (JText ''seal''), w)
                          | Some sealed \<Rightarrow>
                              let repo = new_repository (bid_repo ids) now agentID targetID (buildRepoPath target instanceID agentID) sealed in
                              case CreateRepository now repo (w_db w) of
                                Inl e \<Rightarrow> (Inl (JStore e), w)
                              | Inr d' \<Rightarrow>
                                  (case ensure_or_mark sl env ids now at repo agentID (w\<lparr>w_db := d'\<rparr>) of
                                     (Some e, w1) \<Rightarrow> (Inl e, w1)
                                   | (None, w1) \<Rightarrow> (Inr (repo\<lparr>repo_status := RepoReady\<rparr>), w1)))))))"

definition active_runs_of :: "db \<Rightarrow> string \<Rightarrow> run list" where
  "active_runs_of d repositoryID = ListRuns d
     \<lparr>rf_agent_id = [], rf_plan_id = [], rf_repository_id = repositoryID, rf_statuses = [RunQueued, RunDispatched, RunRunning],
      rf_operation = None, rf_limit = 1, rf_offset = 0, rf_exclude_keys = []\<rparr>"

definition UnbindRepository :: "string \<Rightarrow> instant \<Rightarrow> string \<Rightarrow> string \<Rightarrow> 'c world \<Rightarrow> 'c answer" where
  "UnbindRepository aid now actorID repositoryID w =
     (case GetRepository (w_db w) repositoryID of
        Inl e \<Rightarrow> (Some (JStore e), w)
      | Inr repo \<Rightarrow>
          if list_ex (\<lambda>p. plan_repository_id p = repositoryID) (ListPlans (w_db w) []) then (Some (JStore ErrInUse), w)
          else if active_runs_of (w_db w) repositoryID \<noteq> [] then (Some (JStore ErrInUse), w)
          else case DetachRepository now repositoryID (w_db w) of
            Inl e \<Rightarrow> (Some (JStore e), w)
          | Inr d' \<Rightarrow>
              (None, Audit aid now ''admin'' actorID ''repository.unbind'' ''repository'' repositoryID
                 [(''agent_id'', repo_agent_id repo), (''remote_data'', ''preserved''),
                  (''storage_target_id'', repo_storage_target_id repo)] (w\<lparr>w_db := d'\<rparr>)))"

section \<open>Retention\<close>

definition retained_backups :: "db \<Rightarrow> string \<Rightarrow> run list" where
  "retained_backups d planID = ListRuns d
     \<lparr>rf_agent_id = [], rf_plan_id = planID, rf_repository_id = [], rf_statuses = [RunSucceeded],
      rf_operation = Some OpBackup, rf_limit = 1, rf_offset = 0, rf_exclude_keys = []\<rparr>"

definition retains :: "db \<Rightarrow> string \<Rightarrow> plan \<Rightarrow> bool" where
  "retains d repositoryID p \<longleftrightarrow> plan_repository_id p = repositoryID \<and> plan_enabled p \<and>
     keep_last (plan_retention p) + keep_daily (plan_retention p) + keep_weekly (plan_retention p) + keep_monthly (plan_retention p) \<noteq> 0 \<and>
     retained_backups d (plan_id p) \<noteq> []"

definition retention_task :: "repository \<Rightarrow> plan \<Rightarrow> json" where
  "retention_task repo p =
     ForgetTask (plan_id p) (kind_text (plan_kind p)) (repo_path repo) (plan_retention p) [''plan:'' @ plan_id p] False False []"

fun retention_loop ::
    "sealing \<Rightarrow> (string \<Rightarrow> string) \<Rightarrow> instant \<Rightarrow> repository \<Rightarrow> string \<Rightarrow> plan list \<Rightarrow> jobs_err option \<Rightarrow> 'c world \<Rightarrow> 'c answer" where
  "retention_loop sl newid now repo repositoryID [] err w = (err, w)"
| "retention_loop sl newid now repo repositoryID (p # ps) err w =
     (if \<not> retains (w_db w) repositoryID p then retention_loop sl newid now repo repositoryID ps err w
      else
        case SystemRun sl (newid (plan_id p)) now (repo_agent_id repo) repositoryID OpForget (retention_task repo p) w of
          (Inl e, w1) \<Rightarrow> retention_loop sl newid now repo repositoryID ps (if err = None then Some e else err) w1
        | (Inr _, w1) \<Rightarrow> retention_loop sl newid now repo repositoryID ps err w1)"

definition StartRetentionRun :: "sealing \<Rightarrow> (string \<Rightarrow> string) \<Rightarrow> instant \<Rightarrow> string \<Rightarrow> 'c world \<Rightarrow> 'c answer" where
  "StartRetentionRun sl newid now repositoryID w =
     (case GetRepository (w_db w) repositoryID of
        Inl e \<Rightarrow> (Some (JStore e), w)
      | Inr repo \<Rightarrow> retention_loop sl newid now repo repositoryID (ListPlans (w_db w) (repo_agent_id repo)) None w)"

definition DeletePlanBackups :: "sealing \<Rightarrow> 'c meanwhile \<Rightarrow> string \<Rightarrow> instant \<Rightarrow> instant \<Rightarrow> string \<Rightarrow> 'c world \<Rightarrow> 'c answer" where
  "DeletePlanBackups sl env rid now at planID w =
     (case and_then (lift_store (GetPlan (w_db w) planID)) (\<lambda>p.
           and_then (lift_store (GetRepository (w_db w) (plan_repository_id p))) (\<lambda>repo. Inr (p, repo))) of
        Inl e \<Rightarrow> (Some e, w)
      | Inr (p, repo) \<Rightarrow>
          if \<not> Connected (w_reg w) (repo_agent_id repo) then (Some ErrAgentOffline, w)
          else
            case SystemRun sl rid now (repo_agent_id repo) (repo_id repo) OpForget
                   (ForgetTask (plan_id p) (kind_text (plan_kind p)) (repo_path repo) no_retention [''plan:'' @ plan_id p] False True []) w of
              (Inl e, w1) \<Rightarrow> (Some e, w1)
            | (Inr run, w1) \<Rightarrow>
                (case await env (run_id run) w1 of
                   (Inl e, w2) \<Rightarrow> (Some e, w2)
                 | (Inr t, w2) \<Rightarrow>
                     if run_status t \<noteq> RunSucceeded then (Some (JText (''delete plan backups failed: '' @ run_error_code t @ '' '' @ run_error_message t)), w2)
                     else (None, case InvalidateSnapshotCache at (repo_id repo) True (w_db w2) of
                                   Inl _ \<Rightarrow> w2 | Inr d' \<Rightarrow> w2\<lparr>w_db := d'\<rparr>)))"

section \<open>Lemmas\<close>

text \<open>A system run without a configuration of its own changes the database by its row, or not at all.\<close>

lemma SystemRun_failed: "SystemRun sl rid now a p oper params w = (Inl e, w') \<Longrightarrow> w' = w"
  by (auto simp: SystemRun_def systemRun_def Let_def SaveRunRcloneConfig_def split: sum.splits option.splits if_splits)

lemma SystemRun_rows:
  assumes "SystemRun sl rid now a p oper params w = (res, w')"
  shows "w_db w' = w_db w \<or>
    (\<exists>cs ts. w_db w' = (w_db w)\<lparr>db_runs := db_runs (w_db w) @ [run_row (system_run_row sl rid now a p oper params [])],
       db_cache_states := cs, db_tree_cache := ts\<rparr>)"
proof (cases res)
  case (Inl e)
  with SystemRun_failed assms show ?thesis by blast
next
  case (Inr r)
  with assms have "systemRun sl rid now a p oper params [] w = (Inr r, w')" by (simp add: SystemRun_def)
  then show ?thesis
  proof (cases rule: systemRun_cases)
    case (new d1 d2)
    then have "w_db w' = d1" by (simp add: SaveRunRcloneConfig_def publish_def Enqueue_def push_job_def)
    with insertRun_frame [of now _ "w_db w" d1] new(1) show ?thesis unfolding CreateRun_def by blast
  qed simp
qed

lemma retention_loop_runs:
  assumes "retention_loop sl newid now repo repositoryID ps err w = (e, w')"
  shows "db_plans (w_db w') = db_plans (w_db w) \<and>
    (\<forall>r\<in>set (db_runs (w_db w')). r \<in> set (db_runs (w_db w)) \<or>
       (\<exists>p\<in>set ps. plan_repository_id p = repositoryID \<and> plan_enabled p \<and>
          run_operation r = OpForget \<and> run_progress r = retention_task repo p))"
  using assms
proof (induction ps arbitrary: err w)
  case (Cons p ps)
  show ?case
  proof (cases "retains (w_db w) repositoryID p")
    case False
    with Cons.prems have "retention_loop sl newid now repo repositoryID ps err w = (e, w')" by simp
    from Cons.IH [OF this] show ?thesis by auto
  next
    case True
    obtain res w1 where sys: "SystemRun sl (newid (plan_id p)) now (repo_agent_id repo) repositoryID OpForget (retention_task repo p) w = (res, w1)"
      by (cases "SystemRun sl (newid (plan_id p)) now (repo_agent_id repo) repositoryID OpForget (retention_task repo p) w")
    from Cons.prems True sys obtain err' where "retention_loop sl newid now repo repositoryID ps err' w1 = (e, w')"
      by (cases res) auto
    note rest = Cons.IH [OF this]
    have "db_plans (w_db w1) = db_plans (w_db w) \<and>
      (\<forall>r\<in>set (db_runs (w_db w1)). r \<in> set (db_runs (w_db w)) \<or> run_operation r = OpForget \<and> run_progress r = retention_task repo p)"
      using SystemRun_rows [OF sys] by (auto simp: run_row_def system_run_row_def new_run_def)
    with rest True show ?thesis by (fastforce simp: retains_def)
  qed
qed simp

section \<open>Properties\<close>

text \<open>Applying the retention of a repository starts forget runs for its enabled plans only, each restricted to
  the tag of its plan; none of them deletes everything or prunes.\<close>

theorem retention_is_restricted_to_a_plan:
  assumes "StartRetentionRun sl newid now repositoryID w = (e, w')"
    and "r \<in> set (db_runs (w_db w'))" and "r \<notin> set (db_runs (w_db w))"
  shows "\<exists>repo p. GetRepository (w_db w) repositoryID = Inr repo \<and> p \<in> set (db_plans (w_db w)) \<and>
    plan_repository_id p = repositoryID \<and> plan_enabled p \<and> run_operation r = OpForget \<and>
    run_progress r = ForgetTask (plan_id p) (kind_text (plan_kind p)) (repo_path repo) (plan_retention p) [''plan:'' @ plan_id p] False False []"
proof -
  from assms obtain repo where repo: "GetRepository (w_db w) repositoryID = Inr repo"
    and loop: "retention_loop sl newid now repo repositoryID (ListPlans (w_db w) (repo_agent_id repo)) None w = (e, w')"
    by (cases "GetRepository (w_db w) repositoryID") (auto simp: StartRetentionRun_def)
  have "set (ListPlans (w_db w) a) \<subseteq> set (db_plans (w_db w))" for a by (auto simp: ListPlans_def)
  with retention_loop_runs [OF loop] assms(2,3) repo show ?thesis by (fastforce simp: retention_task_def)
qed

definition retention_world :: "nat world" where
  "retention_world = start_world (empty_db\<lparr>db_agents := [sample_agent ''a1'' False], db_repos := [sample_repo], db_plans := [sample_plan ''l1''],
     db_runs := [(sample_run ''b1'' OpBackup RunSucceeded)\<lparr>run_plan_id := ''l1''\<rparr>],
     db_cache_states := [\<lparr>cst_repository_id = ''p1'', cst_generation = 1, cst_list_verified_at = None, cst_list_fingerprint = [], cst_updated_at = 0\<rparr>]\<rparr>)"

theorem retention_is_restricted_to_a_plan_witness:
  "\<exists>e w' r. StartRetentionRun sample_sealing (\<lambda>p. ''f'' @ p) 5 ''p1'' retention_world = (e, w') \<and> r \<in> set (db_runs (w_db w')) \<and>
     r \<notin> set (db_runs (w_db retention_world)) \<and> run_operation r = OpForget"
proof -
  let ?task = "retention_task sample_repo (sample_plan ''l1'')"
  let ?row = "system_run_row sample_sealing ''fl1'' 5 ''a1'' ''p1'' OpForget ?task []"
  have repo: "GetRepository (w_db retention_world) ''p1'' = Inr sample_repo"
    by (simp add: GetRepository_def find_repo_def retention_world_def start_world_def sample_repo_def)
  have plans: "ListPlans (w_db retention_world) ''a1'' = [sample_plan ''l1'']"
    by (simp add: ListPlans_def retention_world_def start_world_def sample_plan_def)
  have ret: "retains (w_db retention_world) ''p1'' (sample_plan ''l1'')"
    by (simp add: retains_def retained_backups_def ListRuns_def run_matches_def retention_world_def start_world_def sample_plan_def
        sample_run_def order_desc_def limit_or_def null_eq_def)
  have ids: "plan_id (sample_plan ''l1'') = ''l1''" "repo_agent_id sample_repo = ''a1''" by (simp_all add: sample_plan_def sample_repo_def)
  obtain w1 where sys: "SystemRun sample_sealing ''fl1'' 5 ''a1'' ''p1'' OpForget ?task retention_world = (Inr ?row, w1)"
      "run_row ?row \<in> set (db_runs (w_db w1))"
    by (simp add: SystemRun_def systemRun_def retention_world_def start_world_def GetAgent_def find_agent_def sample_agent_def CreateRun_def
        insertRunTx_def run_conflict_def system_run_row_def new_run_def SaveRunRcloneConfig_def invalidatesSnapshotCache_def
        invalidateSnapshotCacheTx_def tbl_count_def publish_def Enqueue_def push_job_def sample_run_def holds_slot_def holds_key_def run_row_def Let_def)
  from sys have out: "StartRetentionRun sample_sealing (\<lambda>p. ''f'' @ p) 5 ''p1'' retention_world = (None, w1)"
    using repo plans ret ids by (simp add: StartRetentionRun_def)
  have new: "run_row ?row \<notin> set (db_runs (w_db retention_world))"
    by (simp add: retention_world_def start_world_def run_row_def system_run_row_def new_run_def sample_run_def)
  from retention_is_restricted_to_a_plan [OF out sys(2) new] out sys(2) new show ?thesis by blast
qed

text \<open>Unbinding keeps what is needed to come back: if the same agent and target are bound again, the binding,
  when it succeeds, is the same repository with the same path and sealed password, and no row was added.\<close>

theorem rebinding_adopts_the_same_repository:
  assumes repo: "GetRepositoryByAgentAndTarget (w_db w) a t = Inr repo" "repo_id repo = i"
    and unbind: "UnbindRepository aid now actorID i w = (None, w1)"
    and bind: "BindRepository sl env inst ids random now' at actorID a t w1 = (Inr repo', w2)"
  shows "repo_id repo' = i \<and> repo_path repo' = repo_path repo \<and>
    repo_encrypted_password repo' = repo_encrypted_password repo \<and> repo_status repo' = RepoReady \<and>
    map repo_id (db_repos (w_db w1)) = map repo_id (db_repos (w_db w))"
proof -
  from unbind obtain d' au where det: "DetachRepository now i (w_db w) = Inr d'" and w1: "w_db w1 = d'\<lparr>db_audits := au\<rparr>"
  proof -
    from unbind obtain r :: repository and d' where d': "DetachRepository now i (w_db w) = Inr d'" and
      w1: "w1 = Audit aid now ''admin'' actorID ''repository.unbind'' ''repository'' i
                 [(''agent_id'', repo_agent_id r), (''remote_data'', ''preserved''),
                  (''storage_target_id'', repo_storage_target_id r)] (w\<lparr>w_db := d'\<rparr>)"
      by (auto simp: UnbindRepository_def split: sum.splits if_splits)
    from Audit_db [of aid now "''admin''" actorID "''repository.unbind''" "''repository''" i
        "[(''agent_id'', repo_agent_id r), (''remote_data'', ''preserved''), (''storage_target_id'', repo_storage_target_id r)]" "w\<lparr>w_db := d'\<rparr>"]
    show thesis using that d' w1 by auto
  qed
  let ?f = "\<lambda>r. r\<lparr>repo_detached_at := Some (sec now), repo_updated_at := sec now\<rparr>"
  have repos: "db_repos (w_db w1) = tbl_update (\<lambda>r. repo_id r = i) ?f (db_repos (w_db w))"
    using det by (auto simp: w1 DetachRepository_def invalidateSnapshotCacheTx_def Let_def split: if_splits)
  have "tbl_get (\<lambda>r. repo_agent_id r = a \<and> repo_storage_target_id r = t) (tbl_update (\<lambda>r. repo_id r = i) ?f xs) =
      map_option (\<lambda>r. if repo_id r = i then ?f r else r) (tbl_get (\<lambda>r. repo_agent_id r = a \<and> repo_storage_target_id r = t) xs)" for xs :: "repository list"
    by (induction xs) auto
  then have found: "GetRepositoryByAgentAndTarget (w_db w1) a t = Inr (?f repo)"
    using repo by (simp add: GetRepositoryByAgentAndTarget_def repos split: option.splits)
  from bind found have "repo' = (?f repo)\<lparr>repo_status := RepoReady\<rparr>"
    by (auto simp: BindRepository_def Let_def split: sum.splits prod.splits option.splits if_splits)
  moreover have "map repo_id (db_repos (w_db w1)) = map repo_id (db_repos (w_db w))"
    unfolding repos by (rule map_tbl_update) simp
  ultimately show ?thesis using repo(2) by simp
qed

text \<open>An agent that ends every run it is given in one state.\<close>

definition agent_ends :: "run_status \<Rightarrow> nat meanwhile" where
  "agent_ends st rid w = [(PollTick, w\<lparr>w_db := (w_db w)\<lparr>db_runs := map (\<lambda>r. r\<lparr>run_status := st\<rparr>) (db_runs (w_db w))\<rparr>\<rparr>)]"

lemma sample_probe:
  assumes "db_agents (w_db w) = db_agents (w_db restore_world)" "db_runs (w_db w) = []"
  shows "\<exists>probe w1. SystemRun sample_sealing ''r1'' now ''a1'' ''p1'' OpSnapshots params w = (Inr probe, w1) \<and> run_id probe = ''r1'' \<and>
    await (agent_ends st) ''r1'' w1 =
      (if isTerminal st then Inr ((run_row (system_run_row sample_sealing ''r1'' now ''a1'' ''p1'' OpSnapshots params []))\<lparr>run_status := st\<rparr>)
       else Inl ErrWaitTimeout, snd (hd (agent_ends st ''r1'' w1)))"
  using assms
  by (simp add: SystemRun_def systemRun_def restore_world_def start_world_def GetAgent_def find_agent_def sample_agent_def CreateRun_def
        insertRunTx_def run_conflict_def system_run_row_def new_run_def SaveRunRcloneConfig_def invalidatesSnapshotCache_def
        publish_def Enqueue_def push_job_def await_def agent_ends_def WaitRun_def GetRun_def find_run_def run_row_def Let_def)

theorem rebinding_adopts_the_same_repository_witness:
  "\<exists>w1 r' w2. UnbindRepository ''e1'' 5 ''admin'' ''p1'' restore_world = (None, w1) \<and>
     BindRepository sample_sealing (agent_ends RunSucceeded) ''i1'' \<lparr>bid_repo = ''p2'', bid_probe = ''r1'', bid_init = ''r2'', bid_audit = ''e2''\<rparr> None 6 7
       ''admin'' ''a1'' ''t1'' w1 = (Inr r', w2) \<and> repo_id r' = ''p1'' \<and> repo_encrypted_password r' = ''pw''"
proof -
  let ?ids = "\<lparr>bid_repo = ''p2'', bid_probe = ''r1'', bid_init = ''r2'', bid_audit = ''e2''\<rparr>"
  have repo: "GetRepositoryByAgentAndTarget (w_db restore_world) ''a1'' ''t1'' = Inr sample_repo" "repo_id sample_repo = ''p1''"
    by (simp_all add: GetRepositoryByAgentAndTarget_def restore_world_def start_world_def sample_repo_def)
  obtain w1 where unbind: "UnbindRepository ''e1'' 5 ''admin'' ''p1'' restore_world = (None, w1)"
    and db: "db_agents (w_db w1) = db_agents (w_db restore_world)" "db_runs (w_db w1) = []" "db_targets (w_db w1) = [sample_target]"
      "db_repos (w_db w1) = [sample_repo\<lparr>repo_detached_at := Some (sec 5), repo_updated_at := sec 5\<rparr>]"
    by (simp add: UnbindRepository_def GetRepository_def find_repo_def ListPlans_def active_runs_of_def ListRuns_def order_desc_def
        DetachRepository_def invalidateSnapshotCacheTx_def tbl_count_def restore_world_def start_world_def sample_repo_def Audit_def
        AppendAuditEvent_def Let_def)
  have found: "GetRepositoryByAgentAndTarget (w_db w1) ''a1'' ''t1'' = Inr (sample_repo\<lparr>repo_detached_at := Some (sec 5), repo_updated_at := sec 5\<rparr>)"
    "GetStorageTarget (w_db w1) ''t1'' = Inr sample_target" "\<exists>a. GetAgent (w_db w1) ''a1'' = Inr a"
    by (simp_all add: GetRepositoryByAgentAndTarget_def db GetStorageTarget_def find_target_def sample_target_def sample_repo_def
        GetAgent_def find_agent_def restore_world_def start_world_def sample_agent_def)
  obtain probe v where probe: "SystemRun sample_sealing ''r1'' 6 ''a1'' ''p1'' OpSnapshots (SnapshotsTask (repo_path sample_repo)) w1 = (Inr probe, v)"
    "run_id probe = ''r1''" "fst (await (agent_ends RunSucceeded) ''r1'' v) =
      Inr ((run_row (system_run_row sample_sealing ''r1'' 6 ''a1'' ''p1'' OpSnapshots (SnapshotsTask (repo_path sample_repo)) []))\<lparr>run_status := RunSucceeded\<rparr>)"
    using sample_probe [OF db(1,2), of 6 "SnapshotsTask (repo_path sample_repo)" RunSucceeded] by auto
  then obtain v' where "EnsureRepository sample_sealing (agent_ends RunSucceeded) ''r1'' ''r2'' 6 7
      (sample_repo\<lparr>repo_detached_at := Some (sec 5), repo_updated_at := sec 5\<rparr>) ''a1'' w1 = (None, v')"
    using repo(2) by (cases "await (agent_ends RunSucceeded) ''r1'' v") (simp add: EnsureRepository_def)
  then obtain r' w2 where bind: "BindRepository sample_sealing (agent_ends RunSucceeded) ''i1'' ?ids None 6 7 ''admin'' ''a1'' ''t1'' w1 = (Inr r', w2)"
    using found by (auto simp: BindRepository_def ensure_or_mark_def)
  from rebinding_adopts_the_same_repository [OF repo unbind bind] unbind bind show ?thesis by (auto simp: sample_repo_def)
qed

text \<open>A probe that was cancelled is not the answer that the repository is missing, but it is treated like one:
  the repository is initialised.\<close>

theorem cancelled_probe_goes_on_to_init:
  assumes "SystemRun sl probeID now agentID (repo_id repo) OpSnapshots (SnapshotsTask (repo_path repo)) w = (Inr probe, w1)"
    and "await env (run_id probe) w1 = (Inr t, w2)" and "run_status t = RunCancelled"
  shows "EnsureRepository sl env probeID initID now at repo agentID w = init_repository sl env initID at repo agentID w2"
  using assms by (simp add: EnsureRepository_def)

theorem cancelled_probe_goes_on_to_init_witness:
  "\<exists>w2. EnsureRepository sample_sealing (agent_ends RunCancelled) ''r1'' ''r2'' 5 6 sample_repo ''a1'' restore_world =
     init_repository sample_sealing (agent_ends RunCancelled) ''r2'' 6 sample_repo ''a1'' w2"
proof -
  have same: "db_agents (w_db restore_world) = db_agents (w_db restore_world)" "db_runs (w_db restore_world) = []"
    by (simp_all add: restore_world_def start_world_def)
  have i: "repo_id sample_repo = ''p1''" by (simp add: sample_repo_def)
  from sample_probe [OF same, of 5 "SnapshotsTask (repo_path sample_repo)" RunCancelled] obtain probe w1 where
    probe: "SystemRun sample_sealing ''r1'' 5 ''a1'' (repo_id sample_repo) OpSnapshots (SnapshotsTask (repo_path sample_repo)) restore_world = (Inr probe, w1)"
    "run_id probe = ''r1''" and wait: "await (agent_ends RunCancelled) ''r1'' w1 =
      (Inr ((run_row (system_run_row sample_sealing ''r1'' 5 ''a1'' ''p1'' OpSnapshots (SnapshotsTask (repo_path sample_repo)) []))\<lparr>run_status := RunCancelled\<rparr>),
       snd (hd (agent_ends RunCancelled ''r1'' w1)))" by (auto simp: i)
  show ?thesis by (rule exI, rule cancelled_probe_goes_on_to_init [OF probe(1) wait [folded probe(2)]]) simp
qed

text \<open>A storage target created without naming an agent cannot be used: its configuration is sealed for a row
  called like the target, and is opened for the row with the target's identity.  Every run of a
  repository on it fails to build its command, with a sealer that tells rows apart.\<close>

theorem target_sealed_for_its_name_cannot_be_opened:
  assumes create: "CreateStorageTargetAny sl env agents rid tid aid now at actorID name conf remoteName remotePath False w = (Inr t, w')"
    and bound: "\<And>x. sl_seal sl ''storage_targets'' name ''encrypted_config'' conf = Some x \<Longrightarrow>
       sl_open sl ''storage_targets'' tid ''encrypted_config'' x = None"
    and repo: "GetRepository d (run_repository_id r) = Inr repo" "run_repository_id r \<noteq> []" "repo_storage_target_id repo = tid"
    and later: "GetStorageTarget d tid = Inr t"
  shows "\<exists>e. run_secret_set (sl_open sl) d r = Inl e"
proof -
  from create obtain x where "sl_seal sl ''storage_targets'' name ''encrypted_config'' conf = Some x" "tgt_id t = tid" "tgt_encrypted_config t = x"
    by (auto simp: CreateStorageTargetAny_def persist_target_def new_target_def Let_def split: option.splits sum.splits)
  with bound repo later show ?thesis by (simp add: run_secret_set_def lift_store_def unsealed_def)
qed

definition row_sealing :: sealing where
  "row_sealing = \<lparr>sl_seal = \<lambda>_ r _ p. Some (r @ '':'' @ p), sl_open = \<lambda>_ r _ x. if HasPrefix x (r @ '':'') then Some (drop (length r + 1) x) else None,
     sl_fingerprint = (@)\<rparr>"

theorem target_sealed_for_its_name_cannot_be_opened_witness:
  "\<exists>t w' e. CreateStorageTargetAny row_sealing (agent_ends RunFailed) [] ''r1'' ''t9'' ''e1'' 5 6 ''admin'' ''nas'' ''conf'' ''r'' ''p'' False
       (start_world empty_db) = (Inr t, w') \<and>
     run_secret_set (sl_open row_sealing) (empty_db\<lparr>db_targets := [t], db_repos := [sample_repo\<lparr>repo_storage_target_id := ''t9''\<rparr>]\<rparr>)
       (sample_run ''r1'' OpCheck RunQueued) = Inl e"
proof -
  obtain t w' where create: "CreateStorageTargetAny row_sealing (agent_ends RunFailed) [] ''r1'' ''t9'' ''e1'' 5 6 ''admin'' ''nas'' ''conf'' ''r'' ''p'' False
       (start_world empty_db) = (Inr t, w')" and tid: "tgt_id t = ''t9''"
    by (simp add: CreateStorageTargetAny_def persist_target_def row_sealing_def CreateStorageTarget_def start_world_def new_target_def Let_def)
  let ?d = "empty_db\<lparr>db_targets := [t], db_repos := [sample_repo\<lparr>repo_storage_target_id := ''t9''\<rparr>]\<rparr>"
  have repo: "GetRepository ?d (run_repository_id (sample_run ''r1'' OpCheck RunQueued)) = Inr (sample_repo\<lparr>repo_storage_target_id := ''t9''\<rparr>)"
    "run_repository_id (sample_run ''r1'' OpCheck RunQueued) \<noteq> []" "repo_storage_target_id (sample_repo\<lparr>repo_storage_target_id := ''t9''\<rparr>) = ''t9''"
    by (simp_all add: GetRepository_def find_repo_def sample_repo_def sample_run_def)
  have later: "GetStorageTarget ?d ''t9'' = Inr t" using tid by (simp add: GetStorageTarget_def find_target_def)
  from target_sealed_for_its_name_cannot_be_opened [OF create _ repo later] create show ?thesis
    by (auto simp: row_sealing_def HasPrefix_def)
qed

end
