(* ===== verification/Startup.thy ===== *)
theory Startup
  imports Scheduler Jobs_Repos
begin

text \<open>
  The start of the server (\<open>cmd/server/main.go\<close>): reconciling what the previous process left in
  flight, marking the agents offline, rebuilding the queues, and the adapter through which the
  scheduler reaches the orchestrator.  Opening the database, the listeners and the other parts that
  are wired together there are left out.  The goroutines of the dispatcher and of the agent service
  are started a moment earlier in the source; their steps are those of the other theories.
\<close>

section \<open>The adapter of the scheduler\<close>

definition drop_result :: "(jobs_err + 'a) \<times> 'c world \<Rightarrow> jobs_err option \<times> 'c world" where
  "drop_result x = (case x of (Inl e, w) \<Rightarrow> (Some e, w) | (Inr _, w) \<Rightarrow> (None, w))"

definition SystemRunCheck :: "sealing \<Rightarrow> string \<Rightarrow> instant \<Rightarrow> string \<Rightarrow> 'c world \<Rightarrow> jobs_err option \<times> 'c world" where
  "SystemRunCheck sl rid now repositoryID w =
     (case GetRepository (w_db w) repositoryID of
        Inl e \<Rightarrow> (Some (JStore e), w)
      | Inr repo \<Rightarrow>
          if repo_path repo = [] then (Some (JText ''empty repository path''), w)
          else drop_result (SystemRun sl rid now (repo_agent_id repo) repositoryID OpCheck (CheckTask (repo_path repo)) w))"

definition schedAdapter :: "sealing \<Rightarrow> (string \<Rightarrow> string) \<Rightarrow> 'c meanwhile \<Rightarrow> tick \<Rightarrow> 'c starter" where
  "schedAdapter sl digest env t =
     \<lparr>st_plan = (\<lambda>p at w. drop_result (StartPlanRun (tk_newid t ''plan'' p) (tk_newid t ''audit'' p) (tk_clk t) p (Some at) w)),
      st_check = (\<lambda>r w. SystemRunCheck sl (tk_newid t ''check'' r) (tk_clk t) r w),
      st_retention = Some (\<lambda>r w. StartRetentionRun sl (tk_newid t ''retention'') (tk_clk t) r w),
      st_cleanup = Some (\<lambda>now w. (None, TickSnapshotCleanup sl digest env (t\<lparr>tk_now := now\<rparr>) w))\<rparr>"

section \<open>Runs the previous process left in flight\<close>

definition startupRetryable :: "operation \<Rightarrow> bool" where
  "startupRetryable oper \<longleftrightarrow>
     oper \<in> {OpBackup, OpCheck, OpSnapshots, OpSnapshotLs, OpValidatePaths, OpProbeCaps, OpVerifyRemote}"

definition restarted :: "run \<Rightarrow> run" where
  "restarted r = r\<lparr>run_started_at := None, run_lease_expires_at := None, run_error_code := [],
     run_error_message := [], run_progress := json_braces\<rparr>"

definition restart_message :: string where
  "restart_message = ''server restarted during non-retryable operation''"

definition interrupted :: "instant \<Rightarrow> run \<Rightarrow> run" where
  "interrupted now r = r\<lparr>run_finished_at := Some now, run_error_code := CodeAgentDisconnected,
     run_error_message := restart_message, run_lease_expires_at := None\<rparr>"

definition recoverStaleRun :: "instant \<Rightarrow> run \<Rightarrow> 'c world \<Rightarrow> 'c world" where
  "recoverStaleRun now r w =
     (if startupRetryable (run_operation r)
      then try_transition (run_id r) (run_status r) RunQueued restarted w
      else
        case TransitionRun (run_id r) (run_status r) RunFailed (interrupted now) (w_db w) of
          Inl _ \<Rightarrow> w
        | Inr d1 \<Rightarrow>
            let d2 = (if run_operation r = OpRestore
                      then case FinishRestoreRun (finish_of (run_id r) [] RunFailed CodeAgentDisconnected restart_message
                                   RestorePhaseManualRecoveryNeeded now) d1 of Inl _ \<Rightarrow> d1 | Inr d \<Rightarrow> d
                      else d1)
            in notify (run_id r) (drop_secrets (run_id r) (w\<lparr>w_db := d2\<rparr>)))"

definition recoverStaleRuns :: "instant \<Rightarrow> 'c world \<Rightarrow> 'c world" where
  "recoverStaleRuns now w = fold (recoverStaleRun now) (ListRunsByStatus (w_db w) [RunDispatched, RunRunning]) w"

definition markAgentsOfflineOnStartup :: "instant \<Rightarrow> 'c world \<Rightarrow> 'c world" where
  "markAgentsOfflineOnStartup now w =
     w\<lparr>w_db := fold (\<lambda>a d. if agt_status a = AgentOffline then d else SetAgentStatus (agt_id a) AgentOffline now d)
                 (ListAgents (w_db w)) (w_db w)\<rparr>"

definition rebuild_queue :: "'c world \<Rightarrow> 'c world" where
  "rebuild_queue w =
     fold (\<lambda>r. Enqueue (run_id r) (run_agent_id r) (run_repository_id r)) (ListRunsByStatus (w_db w) [RunQueued]) w"

definition startup :: "instant \<Rightarrow> db \<Rightarrow> 'c world" where
  "startup now d = rebuild_queue (markAgentsOfflineOnStartup now (recoverStaleRuns now (start_world d)))"

text \<open>The kinds whose restore is switched on, and the duration that is counted for a run that ended.\<close>

definition kindSet :: "kind list \<Rightarrow> kind \<Rightarrow> bool" where
  "kindSet kinds = (\<lambda>k. k \<in> set kinds)"

definition ObserveRunTerminal :: "run \<Rightarrow> operation \<times> run_status \<times> int" where
  "ObserveRunTerminal r = (run_operation r, run_status r,
     case run_finished_at r of None \<Rightarrow> 0 | Some t \<Rightarrow> max 0 (t - run_queued_at r))"

text \<open>
  The command that resets the administrator, the identity of the installation (the file's content, if it
  is there, and a new identity), and the choice between TLS and plain text: an error, or whether TLS
  is used.
\<close>

definition runResetAdmin :: "db \<Rightarrow> bool \<times> db" where
  "runResetAdmin d = (if HasAdmin d then (True, ResetAdmin d) else (False, d))"

definition loadOrCreateInstanceID :: "string option \<Rightarrow> string \<Rightarrow> string \<times> string option" where
  "loadOrCreateInstanceID file newid =
     (case file of
        Some b \<Rightarrow> if 16 \<le> length b then (b, Some b) else (newid, Some newid)
      | None \<Rightarrow> (newid, Some newid))"

definition serverTLS :: "string \<Rightarrow> string \<Rightarrow> string \<Rightarrow> bool \<Rightarrow> (string \<Rightarrow> string \<Rightarrow> bool) \<Rightarrow> string + bool" where
  "serverTLS mode cert key dev loads =
     (if mode = ''none'' then Inr False
      else if cert = [] \<or> key = [] then
        (if dev then Inr False else Inl ''tls cert/key required outside dev mode'')
      else if \<not> loads cert key then Inl ''load key pair'' else Inr True)"

section \<open>Lemmas\<close>

definition in_flight :: "run \<Rightarrow> bool" where
  "in_flight r \<longleftrightarrow> run_status r \<in> {RunDispatched, RunRunning}"

definition recovered_status :: "run \<Rightarrow> run_status" where
  "recovered_status r = (if startupRetryable (run_operation r) then RunQueued else RunFailed)"

lemma startup_mutators [simp]: "field_mutator restarted" "field_mutator (interrupted now)"
  by (simp_all add: field_mutator_def restarted_def interrupted_def)

definition request_ended :: "string \<Rightarrow> db \<Rightarrow> bool" where
  "request_ended rid d \<longleftrightarrow> (\<forall>rr\<in>set (db_restores d). rr_run_id rr = rid \<longrightarrow> RestorePhaseIsTerminal (rr_phase rr))"

lemma next_phase_manual: "RestorePhaseIsTerminal (next_phase p (Some RestorePhaseManualRecoveryNeeded))"
  by (cases p) (simp_all add: next_phase_def RestorePhaseIsTerminal_def RestorePhaseReleasesOccupancy_def
      RestorePhaseNeedsManualResolution_def)

lemma update_request_rows:
  assumes "rr \<in> set (db_restores (updateRestoreRequestTx inp d))"
  shows "if rr_run_id rr = fin_run_id inp then \<exists>p. rr_phase rr = next_phase p (fin_phase inp)
     else rr \<in> set (db_restores d)"
proof (cases "tbl_get (\<lambda>rr. rr_run_id rr = fin_run_id inp) (db_restores d)")
  case None
  with assms show ?thesis by (auto simp: updateRestoreRequestTx_def tbl_get_None)
next
  case (Some cur)
  with assms show ?thesis by (auto simp: updateRestoreRequestTx_def Let_def set_tbl_update)
qed

lemma update_request_ended:
  assumes "fin_phase inp = Some RestorePhaseManualRecoveryNeeded" and "request_ended i d \<or> i = fin_run_id inp"
  shows "request_ended i (updateRestoreRequestTx inp d)"
  unfolding request_ended_def
proof (intro ballI impI)
  fix rr assume "rr \<in> set (db_restores (updateRestoreRequestTx inp d))" "rr_run_id rr = i"
  with update_request_rows [OF this(1)] assms next_phase_manual show "RestorePhaseIsTerminal (rr_phase rr)"
    by (auto simp: request_ended_def split: if_splits)
qed

lemma stale_queued:
  assumes "find_run (w_db w) (run_id r) = Some r" and "in_flight r" and "startupRetryable (run_operation r)"
  obtains d' where "TransitionRun (run_id r) (run_status r) RunQueued restarted (w_db w) = Inr d'"
    "w_db (recoverStaleRun now r w) = d'"
proof -
  have "RunQueued \<in> set (validTransitions (run_status r))" using assms(2) by (cases "run_status r") (auto simp: in_flight_def)
  then obtain d' where "TransitionRun (run_id r) (run_status r) RunQueued restarted (w_db w) = Inr d'"
    using assms(1) by (auto simp: TransitionRun_iff)
  with that assms(3) show ?thesis by (simp add: recoverStaleRun_def try_transition_def)
qed

definition stale_end :: "instant \<Rightarrow> run \<Rightarrow> finish_input" where
  "stale_end now r = finish_of (run_id r) [] RunFailed CodeAgentDisconnected restart_message RestorePhaseManualRecoveryNeeded now"

lemma stale_failed:
  assumes "find_run (w_db w) (run_id r) = Some r" and "in_flight r" and "\<not> startupRetryable (run_operation r)"
  obtains d' where "TransitionRun (run_id r) (run_status r) RunFailed (interrupted now) (w_db w) = Inr d'"
    "w_db (recoverStaleRun now r w) = DeleteRunSecrets (run_id r)
       (if run_operation r = OpRestore then updateRestoreRequestTx (stale_end now r) d' else d')"
    "find_run d' (run_id r) = Some (write_back (interrupted now (r\<lparr>run_status := RunFailed\<rparr>)) r)"
proof -
  have "RunFailed \<in> set (validTransitions (run_status r))" using assms(2) by (cases "run_status r") (auto simp: in_flight_def)
  then obtain d' where d': "TransitionRun (run_id r) (run_status r) RunFailed (interrupted now) (w_db w) = Inr d'"
    using assms(1) by (auto simp: TransitionRun_iff)
  have f: "find_run d' (run_id r) = Some (write_back (interrupted now (r\<lparr>run_status := RunFailed\<rparr>)) r)"
    using TransitionRun_reads [OF d', of "run_id r"] assms(1) by simp
  then have "FinishRestoreRun (stale_end now r) d' = Inr (updateRestoreRequestTx (stale_end now r) d')"
    by (simp add: FinishRestoreRun_def stale_end_def finish_of_def interrupted_def)
  then show ?thesis using d' f assms(3) by (intro that [OF d'])
    (auto simp: recoverStaleRun_def stale_end_def drop_secrets_def)
qed

lemma DeleteRunSecrets_frame [simp]:
  "db_runs (DeleteRunSecrets i d) = db_runs d" "db_agents (DeleteRunSecrets i d) = db_agents d"
  "db_restores (DeleteRunSecrets i d) = db_restores d" "db_plans (DeleteRunSecrets i d) = db_plans d"
  by (simp_all add: DeleteRunSecrets_def)

lemma stale_step:
  assumes "find_run (w_db w) (run_id r) = Some r" and "in_flight r"
  shows "touches_only (run_id r) (w_db w) (w_db (recoverStaleRun now r w)) \<and>
    map_option run_status (find_run (w_db (recoverStaleRun now r w)) (run_id r)) = Some (recovered_status r) \<and>
    (\<forall>i. request_ended i (w_db w) \<longrightarrow> request_ended i (w_db (recoverStaleRun now r w))) \<and>
    (run_operation r = OpRestore \<longrightarrow> request_ended (run_id r) (w_db (recoverStaleRun now r w)))"
proof (cases "startupRetryable (run_operation r)")
  case True
  from stale_queued [OF assms True] obtain d' where
    d': "TransitionRun (run_id r) (run_status r) RunQueued restarted (w_db w) = Inr d'" "w_db (recoverStaleRun now r w) = d'" .
  have "db_restores d' = db_restores (w_db w)" using TransitionRun_frame [OF d'(1)] by auto
  then show ?thesis
    using TransitionRun_touches [OF d'(1)] TransitionRun_reads [OF d'(1), of "run_id r"] assms(1) True
    by (auto simp: d'(2) recovered_status_def request_ended_def restarted_def startupRetryable_def)
next
  case False
  let ?fin = "\<lambda>d. if run_operation r = OpRestore then updateRestoreRequestTx (stale_end now r) d else d"
  from stale_failed [OF assms False, of now] obtain d' where
    d': "TransitionRun (run_id r) (run_status r) RunFailed (interrupted now) (w_db w) = Inr d'"
      "w_db (recoverStaleRun now r w) = DeleteRunSecrets (run_id r) (?fin d')"
      "find_run d' (run_id r) = Some (write_back (interrupted now (r\<lparr>run_status := RunFailed\<rparr>)) r)" .
  have rows: "db_restores d' = db_restores (w_db w)" using TransitionRun_frame [OF d'(1)] by auto
  have plans: "db_plans (?fin d') = db_plans d'" "db_runs (?fin d') = db_runs d'"
    using updateRequest_frame [of "stale_end now r" d'] by auto
  have "touches_only (run_id r) (w_db w) (DeleteRunSecrets (run_id r) (?fin d'))"
    by (rule touches_only_trans [OF TransitionRun_touches [OF d'(1)] touches_only_runs]) (simp_all add: plans)
  moreover have "map_option run_status (find_run (DeleteRunSecrets (run_id r) (?fin d')) (run_id r)) = Some (recovered_status r)"
    using d'(3) False by (simp add: find_run_def plans recovered_status_def interrupted_def)
  moreover have "request_ended i (DeleteRunSecrets (run_id r) (?fin d'))"
    if "request_ended i (w_db w) \<or> (run_operation r = OpRestore \<and> i = run_id r)" for i
  proof -
    have kept: "request_ended i d' = request_ended i (w_db w)" by (simp add: request_ended_def rows)
    have "request_ended i (?fin d')"
    proof (cases "run_operation r = OpRestore")
      case True
      with that kept show ?thesis
        using update_request_ended [of "stale_end now r" i d'] by (auto simp: stale_end_def finish_of_def)
    next
      case False
      with that kept show ?thesis by auto
    qed
    then show ?thesis by (simp add: request_ended_def)
  qed
  ultimately show ?thesis unfolding d'(2) by blast
qed

lemma recoverStaleRun_fields [simp]:
  "w_enqueued (recoverStaleRun now r w) = w_enqueued w" "w_queues (recoverStaleRun now r w) = w_queues w"
  "w_processing (recoverStaleRun now r w) = w_processing w"
  by (simp_all add: recoverStaleRun_def try_transition_def notify_def drop_secrets_def Let_def split: sum.split)

lemma stale_fold:
  assumes "distinct (map run_id rs)" and "\<And>r. r \<in> set rs \<Longrightarrow> find_run (w_db w) (run_id r) = Some r \<and> in_flight r"
  shows "(\<forall>i. i \<notin> run_id ` set rs \<longrightarrow> find_run (w_db (fold (recoverStaleRun now) rs w)) i = find_run (w_db w) i) \<and>
    (\<forall>r\<in>set rs. map_option run_status (find_run (w_db (fold (recoverStaleRun now) rs w)) (run_id r)) = Some (recovered_status r)) \<and>
    (\<forall>i. request_ended i (w_db w) \<longrightarrow> request_ended i (w_db (fold (recoverStaleRun now) rs w))) \<and>
    (\<forall>r\<in>set rs. run_operation r = OpRestore \<longrightarrow> request_ended (run_id r) (w_db (fold (recoverStaleRun now) rs w)))"
  using assms
proof (induction rs arbitrary: w)
  case (Cons r rs)
  let ?w = "recoverStaleRun now r w"
  have "find_run (w_db w) (run_id r) = Some r" "in_flight r" using Cons.prems(2) by simp_all
  note step = stale_step [OF this, of now]
  have "find_run (w_db ?w) (run_id x) = Some x \<and> in_flight x" if "x \<in> set rs" for x
  proof -
    have "run_id r \<notin> run_id ` set rs" using Cons.prems(1) by simp
    with that have "run_id x \<noteq> run_id r" by (metis imageI)
    with step Cons.prems(2) [of x] that show ?thesis by (simp add: touches_only_def)
  qed
  with Cons.IH [of ?w] Cons.prems(1) have IH:
    "\<forall>i. i \<notin> run_id ` set rs \<longrightarrow> find_run (w_db (fold (recoverStaleRun now) rs ?w)) i = find_run (w_db ?w) i"
    "\<forall>r\<in>set rs. map_option run_status (find_run (w_db (fold (recoverStaleRun now) rs ?w)) (run_id r)) = Some (recovered_status r)"
    "\<forall>i. request_ended i (w_db ?w) \<longrightarrow> request_ended i (w_db (fold (recoverStaleRun now) rs ?w))"
    "\<forall>r\<in>set rs. run_operation r = OpRestore \<longrightarrow> request_ended (run_id r) (w_db (fold (recoverStaleRun now) rs ?w))"
    by auto
  have "run_id r \<notin> run_id ` set rs" using Cons.prems(1) by simp
  with IH(1) step have "map_option run_status (find_run (w_db (fold (recoverStaleRun now) rs ?w)) (run_id r)) = Some (recovered_status r)"
    by simp
  moreover have "find_run (w_db (fold (recoverStaleRun now) rs ?w)) i = find_run (w_db w) i" if "i \<notin> run_id ` set (r # rs)" for i
    using IH(1) step that by (simp add: touches_only_def)
  ultimately show ?case using IH step by simp
qed simp

lemma recoverStaleRuns_all:
  assumes "runs_ok (db_runs (w_db w))"
  shows "find_run (w_db w) i = Some r \<Longrightarrow> \<not> in_flight r \<Longrightarrow> find_run (w_db (recoverStaleRuns now w)) i = Some r"
    and "find_run (w_db w) i = Some r \<Longrightarrow> in_flight r \<Longrightarrow>
      map_option run_status (find_run (w_db (recoverStaleRuns now w)) i) = Some (recovered_status r) \<and>
      (run_operation r = OpRestore \<longrightarrow> request_ended i (w_db (recoverStaleRuns now w)))"
    and "find_run (w_db w) i = None \<Longrightarrow> find_run (w_db (recoverStaleRuns now w)) i = None"
proof -
  let ?rs = "ListRunsByStatus (w_db w) [RunDispatched, RunRunning]"
  have mem: "r \<in> set ?rs \<longleftrightarrow> r \<in> set (db_runs (w_db w)) \<and> in_flight r" for r
    by (auto simp: ListRunsByStatus_def in_flight_def)
  have find: "r \<in> set (db_runs (w_db w)) \<Longrightarrow> find_run (w_db w) (run_id r) = Some r" for r
    using runs_ok_get [OF assms] by (simp add: find_run_def)
  have "distinct (map run_id (db_runs (w_db w)))" using assms by (simp add: runs_ok_def)
  then have ids: "distinct (map run_id ?rs)"
    by (simp add: ListRunsByStatus_def order_desc_def distinct_map)
      (auto intro: inj_on_subset)
  have all: "r \<in> set ?rs \<Longrightarrow> find_run (w_db w) (run_id r) = Some r \<and> in_flight r" for r using mem find by simp
  note fold = stale_fold [OF ids all, of now, simplified, folded recoverStaleRuns_def]
  have own: "find_run (w_db w) i = Some r \<Longrightarrow> i = run_id r \<and> r \<in> set (db_runs (w_db w))" for r
    using find_run_in [of "w_db w" i r] by simp
  have in_list: "i \<in> run_id ` set ?rs \<Longrightarrow> \<exists>r. find_run (w_db w) i = Some r \<and> in_flight r" using all by auto
  { assume "find_run (w_db w) i = Some r" "\<not> in_flight r"
    with fold in_list show "find_run (w_db (recoverStaleRuns now w)) i = Some r" by fastforce }
  { assume "find_run (w_db w) i = Some r" "in_flight r"
    with own [of r] mem fold show "map_option run_status (find_run (w_db (recoverStaleRuns now w)) i) = Some (recovered_status r) \<and>
      (run_operation r = OpRestore \<longrightarrow> request_ended i (w_db (recoverStaleRuns now w)))" by auto }
  { assume "find_run (w_db w) i = None"
    with fold in_list show "find_run (w_db (recoverStaleRuns now w)) i = None" by fastforce }
qed

lemma recoverStaleRuns_runs_ok:
  assumes "runs_ok (db_runs (w_db w))"
  shows "runs_ok (db_runs (w_db (recoverStaleRuns now w)))"
proof -
  have step: "runs_ok (db_runs (w_db (recoverStaleRun now r w)))" if "runs_ok (db_runs (w_db w))" for r and w :: "'a world"
  proof -
    have d: "TransitionRun i a b m d = Inr d' \<Longrightarrow> field_mutator m \<Longrightarrow> runs_ok (db_runs d) \<Longrightarrow> runs_ok (db_runs d')" for i a b m d d'
      by (rule TransitionRun_runs_ok)
    show ?thesis
      using that by (auto simp: recoverStaleRun_def try_transition_def Let_def dest: d FinishRestoreRun_runs_ok split: sum.splits)
  qed
  have "runs_ok (db_runs (w_db (fold (recoverStaleRun now) rs w)))" if "runs_ok (db_runs (w_db w))" for rs and w :: "'a world"
    using that by (induction rs arbitrary: w) (simp_all add: step)
  with assms show ?thesis by (simp add: recoverStaleRuns_def)
qed

lemma mark_offline_fold:
  assumes "\<forall>a\<in>set (db_agents d). agt_status a = AgentOffline \<or> (\<exists>b\<in>set as. agt_id b = agt_id a \<and> agt_status b \<noteq> AgentOffline)"
  shows "\<forall>a\<in>set (db_agents (fold (\<lambda>a d. if agt_status a = AgentOffline then d else SetAgentStatus (agt_id a) AgentOffline now d) as d)).
    agt_status a = AgentOffline"
  using assms
proof (induction as arbitrary: d)
  case (Cons b as)
  show ?case
  proof (cases "agt_status b = AgentOffline")
    case True
    with Cons.prems have "\<forall>a\<in>set (db_agents d). agt_status a = AgentOffline \<or> (\<exists>b\<in>set as. agt_id b = agt_id a \<and> agt_status b \<noteq> AgentOffline)"
      by auto
    from Cons.IH [OF this] True show ?thesis by simp
  next
    case False
    have "\<forall>a\<in>set (db_agents (SetAgentStatus (agt_id b) AgentOffline now d)).
        agt_status a = AgentOffline \<or> (\<exists>c\<in>set as. agt_id c = agt_id a \<and> agt_status c \<noteq> AgentOffline)"
    proof
      fix a assume "a \<in> set (db_agents (SetAgentStatus (agt_id b) AgentOffline now d))"
      then obtain x where x: "x \<in> set (db_agents d)"
        "a = (if agt_id x = agt_id b then x\<lparr>agt_status := AgentOffline, agt_last_seen_at := Some (sec now)\<rparr> else x)"
        by (auto simp: SetAgentStatus_def set_tbl_update)
      show "agt_status a = AgentOffline \<or> (\<exists>c\<in>set as. agt_id c = agt_id a \<and> agt_status c \<noteq> AgentOffline)"
      proof (cases "agt_id x = agt_id b")
        case True
        with x(2) show ?thesis by simp
      next
        case False
        with x Cons.prems show ?thesis by fastforce
      qed
    qed
    from Cons.IH [OF this] False show ?thesis by simp
  qed
qed simp

lemma mark_offline_frame:
  "\<exists>as. markAgentsOfflineOnStartup now w = w\<lparr>w_db := (w_db w)\<lparr>db_agents := as\<rparr>\<rparr>"
proof -
  let ?f = "\<lambda>a d. if agt_status a = AgentOffline then d else SetAgentStatus (agt_id a) AgentOffline now d"
  have "\<exists>xs. fold ?f as d = d\<lparr>db_agents := xs\<rparr>" for as d
  proof (induction as arbitrary: d)
    case Nil
    show ?case by (intro exI [of _ "db_agents d"]) simp
  next
    case (Cons a as)
    from Cons [of "?f a d"] obtain xs where "fold ?f as (?f a d) = (?f a d)\<lparr>db_agents := xs\<rparr>" by blast
    then have "fold ?f (a # as) d = d\<lparr>db_agents := xs\<rparr>" by (simp add: SetAgentStatus_def)
    then show ?case by blast
  qed
  then obtain xs where "fold ?f (ListAgents (w_db w)) (w_db w) = (w_db w)\<lparr>db_agents := xs\<rparr>" by blast
  then show ?thesis unfolding markAgentsOfflineOnStartup_def by (intro exI [of _ xs]) simp
qed

lemma mark_offline_all: "a \<in> set (db_agents (w_db (markAgentsOfflineOnStartup now w))) \<Longrightarrow> agt_status a = AgentOffline"
proof -
  assume a: "a \<in> set (db_agents (w_db (markAgentsOfflineOnStartup now w)))"
  have "\<forall>a\<in>set (db_agents (w_db w)). agt_status a = AgentOffline \<or>
      (\<exists>b\<in>set (ListAgents (w_db w)). agt_id b = agt_id a \<and> agt_status b \<noteq> AgentOffline)"
    by (auto simp: ListAgents_def)
  from mark_offline_fold [OF this] a show ?thesis by (simp add: markAgentsOfflineOnStartup_def)
qed

definition job_of :: "run \<Rightarrow> job" where
  "job_of r = \<lparr>job_run = run_id r, job_agent = run_agent_id r, job_repository = run_repository_id r\<rparr>"

lemma rebuild_fold:
  assumes "distinct (map run_id rs)" and "\<forall>r\<in>set rs. run_id r \<notin> w_enqueued w"
  shows "queued_jobs (fold (\<lambda>r. Enqueue (run_id r) (run_agent_id r) (run_repository_id r)) rs w) k =
    queued_jobs w k @ map job_of (filter (\<lambda>r. run_repository_id r = k) rs)"
  using assms
proof (induction rs arbitrary: w)
  case (Cons r rs)
  let ?w = "Enqueue (run_id r) (run_agent_id r) (run_repository_id r) w"
  have "w_enqueued ?w = insert (run_id r) (w_enqueued w)" using Cons.prems(2) by (simp add: Enqueue_def push_job_def)
  with Cons.prems have "\<forall>x\<in>set rs. run_id x \<notin> w_enqueued ?w" by (auto simp: image_iff)
  from Cons.IH [OF _ this] Cons.prems show ?case by (auto simp: queued_Enqueue job_of_def)
qed simp

lemma rebuild_db [simp]: "w_db (rebuild_queue w) = w_db w"
proof -
  have "w_db (fold (\<lambda>r. Enqueue (run_id r) (run_agent_id r) (run_repository_id r)) rs w) = w_db w" for rs
    by (induction rs arbitrary: w) auto
  then show ?thesis by (simp add: rebuild_queue_def)
qed

lemma stale_enqueued: "w_enqueued (recoverStaleRuns now w) = w_enqueued w" "w_queues (recoverStaleRuns now w) = w_queues w"
proof -
  have "w_enqueued (fold (recoverStaleRun now) rs w) = w_enqueued w" "w_queues (fold (recoverStaleRun now) rs w) = w_queues w" for rs
    by (induction rs arbitrary: w) auto
  then show "w_enqueued (recoverStaleRuns now w) = w_enqueued w" "w_queues (recoverStaleRuns now w) = w_queues w"
    by (simp_all add: recoverStaleRuns_def)
qed

lemma mark_offline_db [simp]:
  "db_runs (w_db (markAgentsOfflineOnStartup now w)) = db_runs (w_db w)"
  "db_restores (w_db (markAgentsOfflineOnStartup now w)) = db_restores (w_db w)"
  "w_enqueued (markAgentsOfflineOnStartup now w) = w_enqueued w" "w_queues (markAgentsOfflineOnStartup now w) = w_queues w"
  using mark_offline_frame [of now w] by auto

lemma startup_db:
  "db_runs (w_db (startup now d :: 'c world)) = db_runs (w_db (recoverStaleRuns now (start_world d :: 'c world)))"
  "db_restores (w_db (startup now d :: 'c world)) = db_restores (w_db (recoverStaleRuns now (start_world d :: 'c world)))"
  by (simp_all add: startup_def)

section \<open>Properties\<close>

text \<open>C17: When the server starts, nothing is left in flight: a run that the previous process had dispatched is
  queued again if its operation may be repeated (backups are among those) and failed otherwise; the
  request of an interrupted restore is released or waits for the operator's resolution; every other
  run keeps its row, and no agent counts as online before it connects.\<close>

theorem startup_settles_what_was_in_flight:
  assumes "runs_ok (db_runs d)" and "startup now d = (w :: 'c world)"
  shows "(\<forall>i r. find_run d i = Some r \<longrightarrow>
      (if run_status r \<in> {RunDispatched, RunRunning}
       then map_option run_status (find_run (w_db w) i) = Some (if startupRetryable (run_operation r) then RunQueued else RunFailed) \<and>
         (run_operation r = OpRestore \<longrightarrow> (\<forall>rr\<in>set (db_restores (w_db w)). rr_run_id rr = i \<longrightarrow>
            RestorePhaseReleasesOccupancy (rr_phase rr) \<or> RestorePhaseNeedsManualResolution (rr_phase rr)))
       else find_run (w_db w) i = Some r)) \<and>
    (\<forall>r\<in>set (db_runs (w_db w)). run_status r \<notin> {RunDispatched, RunRunning}) \<and>
    (\<forall>a\<in>set (db_agents (w_db w)). agt_status a = AgentOffline)"
proof -
  let ?w0 = "recoverStaleRuns now (start_world d :: 'c world)"
  have d: "w_db (start_world d :: 'c world) = d" by (simp add: start_world_def)
  have ok: "runs_ok (db_runs (w_db (start_world d :: 'c world)))" using assms(1) by (simp add: d)
  have runs: "find_run (w_db w) i = find_run (w_db ?w0) i" for i
    using startup_db(1) [of now d, where ?'c = 'c] assms(2) by (simp add: find_run_def)
  have rests: "request_ended i (w_db ?w0) = request_ended i (w_db w)" for i
    using startup_db(2) [of now d, where ?'c = 'c] assms(2) by (simp add: request_ended_def)
  note all = recoverStaleRuns_all(1,2) [OF ok, unfolded d, where now = now]
  have kept: "find_run d i = Some r \<Longrightarrow> \<not> in_flight r \<Longrightarrow> find_run (w_db w) i = Some r" for i r
    using all(1) runs by simp
  have moved: "find_run d i = Some r \<Longrightarrow> in_flight r \<Longrightarrow>
      map_option run_status (find_run (w_db w) i) = Some (recovered_status r) \<and> (run_operation r = OpRestore \<longrightarrow> request_ended i (w_db w))" for i r
    using all(2) [of i r] by (simp add: runs rests)
  have "\<not> in_flight r" if r: "r \<in> set (db_runs (w_db w))" for r
  proof -
    have "runs_ok (db_runs (w_db w))"
      using recoverStaleRuns_runs_ok [OF ok, of now] startup_db(1) [of now d, where ?'c = 'c] assms(2) by simp
    then have f: "find_run (w_db w) (run_id r) = Some r" using runs_ok_get [OF _ r] by (simp add: find_run_def)
    then obtain r0 where "find_run d (run_id r) = Some r0"
      using recoverStaleRuns_all(3) [OF ok, of "run_id r" now] runs [of "run_id r"] by (cases "find_run d (run_id r)") (auto simp: d)
    with kept [of "run_id r" r0] moved [of "run_id r" r0] f show ?thesis
      by (cases "in_flight r0") (auto simp: in_flight_def recovered_status_def split: if_splits)
  qed
  moreover have "agt_status a = AgentOffline" if "a \<in> set (db_agents (w_db w))" for a
    using that assms(2) by (auto simp: startup_def dest: mark_offline_all)
  moreover have "if run_status r \<in> {RunDispatched, RunRunning}
       then map_option run_status (find_run (w_db w) i) = Some (if startupRetryable (run_operation r) then RunQueued else RunFailed) \<and>
         (run_operation r = OpRestore \<longrightarrow> (\<forall>rr\<in>set (db_restores (w_db w)). rr_run_id rr = i \<longrightarrow>
            RestorePhaseReleasesOccupancy (rr_phase rr) \<or> RestorePhaseNeedsManualResolution (rr_phase rr)))
       else find_run (w_db w) i = Some r" if f: "find_run d i = Some r" for i r
    using kept [OF f] moved [OF f]
    unfolding in_flight_def recovered_status_def request_ended_def RestorePhaseIsTerminal_def
      RestorePhaseNeedsManualResolution_def by auto
  ultimately show ?thesis by (simp only: in_flight_def) blast
qed

definition crashed_db :: db where
  "crashed_db = empty_db\<lparr>db_runs := [sample_run ''r1'' OpRestore RunRunning, sample_run ''r2'' OpBackup RunDispatched],
     db_restores := [sample_request ''q1'' ''r1'' KindMySQL RestorePhaseRestoring]\<rparr>"

theorem startup_settles_what_was_in_flight_witness:
  "map_option run_status (find_run (w_db (startup 9 crashed_db :: nat world)) ''r1'') = Some RunFailed \<and>
   map_option run_status (find_run (w_db (startup 9 crashed_db :: nat world)) ''r2'') = Some RunQueued"
proof -
  have ok: "runs_ok (db_runs crashed_db)" by (simp add: crashed_db_def runs_ok_def holds_slot_def holds_key_def)
  have "find_run crashed_db ''r1'' = Some (sample_run ''r1'' OpRestore RunRunning)"
    "find_run crashed_db ''r2'' = Some (sample_run ''r2'' OpBackup RunDispatched)"
    by (simp_all add: crashed_db_def find_run_def)
  with conjunct1 [OF startup_settles_what_was_in_flight [OF ok refl, of 9, where ?'c = nat], rule_format, of "''r1''"]
    conjunct1 [OF startup_settles_what_was_in_flight [OF ok refl, of 9, where ?'c = nat], rule_format, of "''r2''"]
  show ?thesis by (simp add: startupRetryable_def)
qed

text \<open>C38: After a restart the queue of a repository holds exactly the repository's queued runs, but the newest
  first: the rows are read in descending order of the time they were queued, so the order in which
  the previous process would have sent them is reversed.\<close>

theorem restart_reverses_the_queue:
  assumes "runs_ok (db_runs d)" and "startup now d = (w :: 'c world)"
  shows "map job_run (queued_jobs w k) = map run_id (filter (\<lambda>r. run_repository_id r = k) (ListRunsByStatus (w_db w) [RunQueued])) \<and>
    sorted_wrt (\<lambda>r r'. run_queued_at r' \<le> run_queued_at r) (ListRunsByStatus (w_db w) [RunQueued])"
proof -
  let ?w0 = "markAgentsOfflineOnStartup now (recoverStaleRuns now (start_world d :: 'c world))"
  let ?q = "ListRunsByStatus (w_db ?w0) [RunQueued]"
  have ok: "runs_ok (db_runs (w_db (start_world d :: 'c world)))" using assms(1) by (simp add: start_world_def)
  have "runs_ok (db_runs (w_db ?w0))"
    using recoverStaleRuns_runs_ok [OF ok, of now] by simp
  then have "distinct (map run_id (db_runs (w_db ?w0)))" by (simp add: runs_ok_def)
  then have ids: "distinct (map run_id ?q)"
    by (simp add: ListRunsByStatus_def order_desc_def distinct_map) (auto intro: inj_on_subset)
  have fresh: "w_enqueued ?w0 = {}" "queued_jobs ?w0 k = []"
    using stale_enqueued [of now "start_world d :: 'c world"]
    by (simp_all add: start_world_def queued_jobs_def)
  have w: "w = rebuild_queue ?w0" using assms(2) by (simp add: startup_def)
  have "queued_jobs w k = map job_of (filter (\<lambda>r. run_repository_id r = k) ?q)"
    using rebuild_fold [OF ids, of ?w0 k] fresh by (simp add: w rebuild_queue_def)
  moreover have "w_db w = w_db ?w0" by (simp add: w)
  moreover have "sorted_wrt (\<lambda>r r'. run_queued_at r' \<le> run_queued_at r) ?q"
    unfolding ListRunsByStatus_def by (rule order_desc_sorted)
  ultimately show ?thesis by (simp add: job_of_def comp_def)
qed

theorem restart_reverses_the_queue_witness:
  "map job_run (queued_jobs (startup 9 (empty_db\<lparr>db_runs :=
      [(sample_run ''old'' OpBackup RunQueued)\<lparr>run_queued_at := 1\<rparr>, (sample_run ''new'' OpForget RunQueued)\<lparr>run_queued_at := 2\<rparr>]\<rparr>) :: nat world) ''p1'')
     = [''new'', ''old'']"
proof -
  let ?d = "empty_db\<lparr>db_runs := [(sample_run ''old'' OpBackup RunQueued)\<lparr>run_queued_at := 1\<rparr>, (sample_run ''new'' OpForget RunQueued)\<lparr>run_queued_at := 2\<rparr>]\<rparr>"
  have ok: "runs_ok (db_runs ?d)" by (simp add: runs_ok_def holds_slot_def holds_key_def)
  have d: "w_db (startup 9 ?d :: nat world) = ?d"
    by (simp add: startup_def recoverStaleRuns_def markAgentsOfflineOnStartup_def ListRunsByStatus_def order_desc_def start_world_def ListAgents_def)
  show ?thesis
    using restart_reverses_the_queue [OF ok refl, of 9 "''p1''", where ?'c = nat]
    by (simp add: d ListRunsByStatus_def order_desc_def)
qed

end
