(* ===== verification/Flights.thy ===== *)
theory Flights
  imports Prelude
begin

text \<open>
  Joining equal requests (\<open>acquireListFlight\<close>, \<open>finishListFlight\<close>, \<open>releaseListFlight\<close> of
  \<open>internal/server/jobs/orchestrator.go\<close>, and their twins for directory trees).  A flight is a cell
  on the heap; the map holds the flight of each key that is in the air, a caller that finds one
  keeps its pointer and waits until it is done.  The two copies of the code are one model, over the
  type of the result.
\<close>

section \<open>State and operations\<close>

record 'r cell =
  cell_done :: bool
  cell_result :: "'r option"

record 'r flights =
  fl_open :: "string \<rightharpoonup> nat"
  fl_cells :: "'r cell list"

definition no_flights :: "'r flights" where
  "no_flights = \<lparr>fl_open = Map.empty, fl_cells = []\<rparr>"

text \<open>The pointer, and whether the caller owns the flight.\<close>

definition acquireFlight :: "string \<Rightarrow> 'r flights \<Rightarrow> (nat \<times> bool) \<times> 'r flights" where
  "acquireFlight key s =
     (case fl_open s key of
        Some f \<Rightarrow> ((f, False), s)
      | None \<Rightarrow>
          let f = length (fl_cells s) in
          ((f, True), s\<lparr>fl_open := (fl_open s)(key \<mapsto> f), fl_cells := fl_cells s @ [\<lparr>cell_done = False, cell_result = None\<rparr>]\<rparr>))"

definition finishFlight :: "nat \<Rightarrow> 'r \<Rightarrow> 'r flights \<Rightarrow> 'r flights" where
  "finishFlight f r s = s\<lparr>fl_cells := (fl_cells s)[f := (fl_cells s ! f)\<lparr>cell_result := Some r\<rparr>]\<rparr>"

definition releaseFlight :: "string \<Rightarrow> nat \<Rightarrow> 'r flights \<Rightarrow> 'r flights" where
  "releaseFlight key f s =
     s\<lparr>fl_open := (fl_open s)(key := None), fl_cells := (fl_cells s)[f := (fl_cells s ! f)\<lparr>cell_done := True\<rparr>]\<rparr>"

text \<open>What a caller that waited gets: the result the owner left, and the zero values if it left none.\<close>

definition joined :: "nat \<Rightarrow> 'r flights \<Rightarrow> 'r option" where
  "joined f s = (if cell_done (fl_cells s ! f) then cell_result (fl_cells s ! f) else None)"

section \<open>Callers\<close>

text \<open>Where a caller stands: before its call, working as the owner of a flight, about to release it,
  waiting for another, returned with a result, or returned with the error of its own context that
  ended while it waited.\<close>

datatype 'r caller =
    Calling string
  | Working string nat
  | Finished string nat 'r
  | Waiting string nat
  | Returned string 'r bool
  | GaveUp string

inductive flight_step :: "'r flights \<times> (nat \<Rightarrow> 'r caller) \<Rightarrow> 'r flights \<times> (nat \<Rightarrow> 'r caller) \<Rightarrow> bool" where
  own: "c i = Calling key \<Longrightarrow> acquireFlight key s = ((f, True), s') \<Longrightarrow> flight_step (s, c) (s', c(i := Working key f))"
| wait: "c i = Calling key \<Longrightarrow> acquireFlight key s = ((f, False), s') \<Longrightarrow> flight_step (s, c) (s', c(i := Waiting key f))"
| finish: "c i = Working key f \<Longrightarrow> flight_step (s, c) (finishFlight f r s, c(i := Finished key f r))"
| release: "c i = Finished key f r \<Longrightarrow> flight_step (s, c) (releaseFlight key f s, c(i := Returned key r True))"
| wake: "c i = Waiting key f \<Longrightarrow> cell_done (fl_cells s ! f) \<Longrightarrow> cell_result (fl_cells s ! f) = Some r \<Longrightarrow>
    flight_step (s, c) (s, c(i := Returned key r False))"
| interrupt: "c i = Waiting key f \<Longrightarrow> flight_step (s, c) (s, c(i := GaveUp key))"

lemma flight_step_cases [consumes 1, case_names own wait finish release wake interrupt]:
  assumes "flight_step (s, c) (s', c')"
  obtains (own) i key f where "c i = Calling key" "acquireFlight key s = ((f, True), s')" "c' = c(i := Working key f)"
  | (wait) i key f where "c i = Calling key" "acquireFlight key s = ((f, False), s')" "c' = c(i := Waiting key f)"
  | (finish) i key f r where "c i = Working key f" "s' = finishFlight f r s" "c' = c(i := Finished key f r)"
  | (release) i key f r where "c i = Finished key f r" "s' = releaseFlight key f s" "c' = c(i := Returned key r True)"
  | (wake) i key f r where "c i = Waiting key f" "cell_done (fl_cells s ! f)" "cell_result (fl_cells s ! f) = Some r"
      "s' = s" "c' = c(i := Returned key r False)"
  | (interrupt) i key f where "c i = Waiting key f" "s' = s" "c' = c(i := GaveUp key)"
  using assms by (cases rule: flight_step.cases) auto

inductive flights_reachable :: "'r flights \<times> (nat \<Rightarrow> 'r caller) \<Rightarrow> bool" where
  start: "(\<And>i. \<exists>key. c i = Calling key) \<Longrightarrow> flights_reachable (no_flights, c)"
| step: "flights_reachable x \<Longrightarrow> flight_step x y \<Longrightarrow> flights_reachable y"

section \<open>The invariant\<close>

text \<open>The caller that owns a flight, with its key.\<close>

fun owns :: "'r caller \<Rightarrow> (string \<times> nat) option" where
  "owns (Working key f) = Some (key, f)"
| "owns (Finished key f r) = Some (key, f)"
| "owns _ = None"

text \<open>Open flights are owners_ok, and an owner has its flight open and still to be done.\<close>

definition owners_ok :: "'r flights \<Rightarrow> (nat \<Rightarrow> 'r caller) \<Rightarrow> bool" where
  "owners_ok s c \<longleftrightarrow>
     (\<forall>key f. fl_open s key = Some f \<longrightarrow> f < length (fl_cells s) \<and> \<not> cell_done (fl_cells s ! f)) \<and>
     (\<forall>key key' f. fl_open s key = Some f \<longrightarrow> fl_open s key' = Some f \<longrightarrow> key = key') \<and>
     (\<forall>i key f. owns (c i) = Some (key, f) \<longrightarrow> fl_open s key = Some f) \<and>
     (\<forall>i j. owns (c i) \<noteq> None \<longrightarrow> map_option fst (owns (c i)) = map_option fst (owns (c j)) \<longrightarrow> i = j)"

text \<open>A flight is settled when it is done and not in the air any more and an owner has returned its result; what a
  waiting caller will get is what an owner of the same key returned.\<close>

definition settled :: "'r flights \<Rightarrow> (nat \<Rightarrow> 'r caller) \<Rightarrow> string \<Rightarrow> nat \<Rightarrow> bool" where
  "settled s c key f \<longleftrightarrow> f < length (fl_cells s) \<and> cell_done (fl_cells s ! f) \<and> (\<forall>key'. fl_open s key' \<noteq> Some f) \<and>
     (\<exists>j r. cell_result (fl_cells s ! f) = Some r \<and> c j = Returned key r True)"

definition served :: "'r flights \<Rightarrow> (nat \<Rightarrow> 'r caller) \<Rightarrow> bool" where
  "served s c \<longleftrightarrow>
     (\<forall>i key f r. c i = Finished key f r \<longrightarrow> cell_result (fl_cells s ! f) = Some r) \<and>
     (\<forall>i key f. c i = Waiting key f \<longrightarrow> fl_open s key = Some f \<or> settled s c key f) \<and>
     (\<forall>i key r. c i = Returned key r False \<longrightarrow> (\<exists>j. c j = Returned key r True))"

lemma acquire_cases:
  assumes "acquireFlight key s = ((f, own), s')"
  obtains (joins) "\<not> own" "fl_open s key = Some f" "s' = s"
  | (opens) "own" "fl_open s key = None" "f = length (fl_cells s)" "fl_open s' = (fl_open s)(key \<mapsto> f)"
      "fl_cells s' = fl_cells s @ [\<lparr>cell_done = False, cell_result = None\<rparr>]"
  using assms by (auto simp: acquireFlight_def Let_def split: option.splits)

lemma finish_fields [simp]:
  "fl_open (finishFlight f r s) = fl_open s" "length (fl_cells (finishFlight f r s)) = length (fl_cells s)"
  by (simp_all add: finishFlight_def)

lemma finish_cell:
  "f < length (fl_cells s) \<Longrightarrow> fl_cells (finishFlight f r s) ! g = (if g = f then (fl_cells s ! f)\<lparr>cell_result := Some r\<rparr> else fl_cells s ! g)"
  by (simp add: finishFlight_def nth_list_update)

lemma release_fields [simp]:
  "fl_open (releaseFlight key f s) = (fl_open s)(key := None)" "length (fl_cells (releaseFlight key f s)) = length (fl_cells s)"
  by (simp_all add: releaseFlight_def)

lemma release_cell:
  "f < length (fl_cells s) \<Longrightarrow> fl_cells (releaseFlight key f s) ! g = (if g = f then (fl_cells s ! f)\<lparr>cell_done := True\<rparr> else fl_cells s ! g)"
  by (simp add: releaseFlight_def nth_list_update)

lemma owns_open: "owners_ok s c \<Longrightarrow> owns (c i) = Some (key, f) \<Longrightarrow> fl_open s key = Some f"
  unfolding owners_ok_def by blast

lemma open_cell: "owners_ok s c \<Longrightarrow> fl_open s key = Some f \<Longrightarrow> f < length (fl_cells s) \<and> \<not> cell_done (fl_cells s ! f)"
  unfolding owners_ok_def by blast

lemma open_key: "owners_ok s c \<Longrightarrow> fl_open s key = Some f \<Longrightarrow> fl_open s key' = Some f \<Longrightarrow> key = key'"
  unfolding owners_ok_def by blast

lemma one_owner: "owners_ok s c \<Longrightarrow> owns (c i) = Some (key, f) \<Longrightarrow> owns (c j) = Some (key, g) \<Longrightarrow> i = j"
  unfolding owners_ok_def by (metis fst_conv option.distinct(1) option.simps(9))

lemma owners_okI:
  assumes "\<And>key f. fl_open s key = Some f \<Longrightarrow> f < length (fl_cells s) \<and> \<not> cell_done (fl_cells s ! f)"
    and "\<And>key key' f. fl_open s key = Some f \<Longrightarrow> fl_open s key' = Some f \<Longrightarrow> key = key'"
    and "\<And>i key f. owns (c i) = Some (key, f) \<Longrightarrow> fl_open s key = Some f"
    and "\<And>i j key f g. owns (c i) = Some (key, f) \<Longrightarrow> owns (c j) = Some (key, g) \<Longrightarrow> i = j"
  shows "owners_ok s c"
proof -
  have "i = j" if "owns (c i) \<noteq> None" "map_option fst (owns (c i)) = map_option fst (owns (c j))" for i j
  proof -
    from that(1) obtain key f where i: "owns (c i) = Some (key, f)" by fastforce
    with that(2) obtain g where "owns (c j) = Some (key, g)" by (cases "owns (c j)") auto
    with i show ?thesis by (rule assms(4))
  qed
  with assms(1-3) show ?thesis unfolding owners_ok_def by blast
qed

lemma owners_ok_step:
  assumes step: "flight_step (s, c) (s', c')" and inv: "owners_ok s c"
  shows "owners_ok s' c'"
  using step
proof (cases rule: flight_step_cases)
  case (own i key f)
  from own(2) show ?thesis
  proof (cases rule: acquire_cases)
    case opens
    have new: "owns (c j) \<noteq> Some (key, g)" for j g using owns_open [OF inv, of j key g] opens(2) by auto
    have lt: "g < length (fl_cells s) \<and> \<not> cell_done (fl_cells s ! g)" if "fl_open s k = Some g" for k g
      using open_cell [OF inv that] .
    show ?thesis
    proof (rule owners_okI)
      show "g < length (fl_cells s') \<and> \<not> cell_done (fl_cells s' ! g)" if "fl_open s' k = Some g" for k g
        using that lt [of k g] opens by (auto simp: nth_append split: if_splits)
      show "k = k'" if "fl_open s' k = Some g" "fl_open s' k' = Some g" for k k' g
        using that lt [of k g] lt [of k' g] open_key [OF inv, of k g k'] opens by (auto split: if_splits)
      show "fl_open s' k = Some g" if "owns (c' j) = Some (k, g)" for j k g
        using that owns_open [OF inv, of j k g] new [of j g] opens own(3) by (auto split: if_splits)
      show "j = l" if "owns (c' j) = Some (k, g)" "owns (c' l) = Some (k, h)" for j l k g h
        using that one_owner [OF inv, of j k g l h] new own(3) by (auto split: if_splits)
    qed
  qed simp
next
  case (wait i key f)
  from wait(2) have same: "s' = s" by (cases rule: acquire_cases) auto
  have rest: "owns (c' j) = (if j = i then None else owns (c j))" for j using wait(3) by simp
  show ?thesis unfolding same
    by (rule owners_okI)
      (auto simp: rest dest: open_cell [OF inv] open_key [OF inv] owns_open [OF inv] one_owner [OF inv] split: if_splits)
next
  case (finish i key f r)
  from finish(1) owns_open [OF inv, of i key f] have f: "fl_open s key = Some f" by simp
  note lt = open_cell [OF inv f]
  have same: "owns (c' j) = owns (c j)" for j using finish(1,3) by simp
  show ?thesis
    by (rule owners_okI)
      (use lt in \<open>auto simp: same finish(2) finish_cell dest: open_cell [OF inv] open_key [OF inv] owns_open [OF inv] one_owner [OF inv]\<close>)
next
  case (release i key f r)
  from release(1) owns_open [OF inv, of i key f] have f: "fl_open s key = Some f" by simp
  have rest: "owns (c' j) = (if j = i then None else owns (c j))" for j using release(3) by simp
  have other: "k \<noteq> key" if "owns (c j) = Some (k, g)" "j \<noteq> i" for j k g
    using one_owner [OF inv that(1), of i] release(1) that by auto
  show ?thesis
  proof (rule owners_okI)
    show "g < length (fl_cells s') \<and> \<not> cell_done (fl_cells s' ! g)" if "fl_open s' k = Some g" for k g
      using that open_cell [OF inv, of k g] open_cell [OF inv f] open_key [OF inv f, of k]
      by (auto simp: release(2) release_cell split: if_splits)
  qed (use other in \<open>auto simp: rest release(2) dest: open_key [OF inv] owns_open [OF inv] one_owner [OF inv] split: if_splits\<close>)
next
  case (wake i key f r)
  have rest: "owns (c' j) = (if j = i then None else owns (c j))" for j using wake(5) by simp
  show ?thesis unfolding wake(4)
    by (rule owners_okI)
      (auto simp: rest dest: open_cell [OF inv] open_key [OF inv] owns_open [OF inv] one_owner [OF inv] split: if_splits)
next
  case (interrupt i key f)
  have rest: "owns (c' j) = (if j = i then None else owns (c j))" for j using interrupt(3) by simp
  show ?thesis unfolding interrupt(2)
    by (rule owners_okI)
      (auto simp: rest dest: open_cell [OF inv] open_key [OF inv] owns_open [OF inv] one_owner [OF inv] split: if_splits)
qed

text \<open>A settled flight stays settled: its cell is not touched, and what was returned stays returned.\<close>

lemma settled_step:
  assumes step: "flight_step (s, c) (s', c')" and inv: "owners_ok s c" and quiet: "settled s c key f"
  shows "settled s' c' key f"
proof -
  from quiet obtain j r where f: "f < length (fl_cells s)" "\<And>key'. fl_open s key' \<noteq> Some f"
    "cell_result (fl_cells s ! f) = Some r" "c j = Returned key r True" "cell_done (fl_cells s ! f)" by (auto simp: settled_def)
  from step show ?thesis
  proof (cases rule: flight_step_cases)
    case (own i k g)
    from own(2) f show ?thesis
      by (cases rule: acquire_cases) (use own(1,3) f(4,5) in \<open>auto simp: settled_def nth_append intro!: exI [of _ j]\<close>)
  next
    case (wait i k g)
    from wait(2) have "s' = s" by (cases rule: acquire_cases) auto
    then show ?thesis using wait(1,3) f by (auto simp: settled_def intro!: exI [of _ j])
  next
    case (finish i k g q)
    from finish(1) owns_open [OF inv, of i k g] open_cell [OF inv] f(2) have "g < length (fl_cells s)" "g \<noteq> f" by auto
    then show ?thesis using finish f by (auto simp: settled_def finish_cell intro!: exI [of _ j])
  next
    case (release i k g q)
    from release(1) owns_open [OF inv, of i k g] open_cell [OF inv] f(2) have "g < length (fl_cells s)" "g \<noteq> f" by auto
    then show ?thesis using release f by (auto simp: settled_def release_cell intro!: exI [of _ j])
  next
    case (wake i k g q)
    then show ?thesis using f by (auto simp: settled_def intro!: exI [of _ j])
  next
    case (interrupt i k g)
    then show ?thesis using f by (auto simp: settled_def intro!: exI [of _ j])
  qed
qed

lemma returned_step:
  assumes "flight_step (s, c) (s', c')" and "c j = Returned key r own"
  shows "c' j = Returned key r own"
  using assms(1) by (cases rule: flight_step_cases) (use assms(2) in auto)

lemma served_step:
  assumes step: "flight_step (s, c) (s', c')" and inv: "owners_ok s c" and served: "served s c"
  shows "served s' c'"
proof -
  have fin: "\<And>i key f r. c i = Finished key f r \<Longrightarrow> cell_result (fl_cells s ! f) = Some r"
    and wt: "\<And>i key f. c i = Waiting key f \<Longrightarrow> fl_open s key = Some f \<or> settled s c key f"
    and ret: "\<And>i key r. c i = Returned key r False \<Longrightarrow> \<exists>j. c j = Returned key r True"
    using served unfolding served_def by blast+
  have still: "\<exists>j. c' j = Returned key r True" if "c i = Returned key r False" for i key r
    using ret [OF that] returned_step [OF step] by blast
  from step show ?thesis
  proof (cases rule: flight_step_cases)
    case (own i k g)
    from own(2) have s': "fl_open s k = None" "fl_open s' = (fl_open s)(k \<mapsto> g)" "g = length (fl_cells s)"
      "fl_cells s' = fl_cells s @ [\<lparr>cell_done = False, cell_result = None\<rparr>]"
      by (cases rule: acquire_cases; simp)+
    show ?thesis
      unfolding served_def
    proof (intro conjI allI impI)
      fix j key f r assume "c' j = Finished key f r"
      then have "c j = Finished key f r" using own by (auto split: if_splits)
      then show "cell_result (fl_cells s' ! f) = Some r"
        using fin owns_open [OF inv, of j key f] open_cell [OF inv] by (auto simp: s' nth_append)
    next
      fix j key f assume "c' j = Waiting key f"
      then have "c j = Waiting key f" using own by (auto split: if_splits)
      from wt [OF this] show "fl_open s' key = Some f \<or> settled s' c' key f"
        using settled_step [OF step inv] s' by auto
    next
      fix j key r assume "c' j = Returned key r False"
      then have "c j = Returned key r False" using own by (auto split: if_splits)
      then show "\<exists>j. c' j = Returned key r True" by (rule still)
    qed
  next
    case (wait i k g)
    from wait(2) have s': "s' = s" "fl_open s k = Some g" by (cases rule: acquire_cases; simp)+
    show ?thesis
      unfolding served_def
    proof (intro conjI allI impI)
      fix j key f assume "c' j = Waiting key f"
      then show "fl_open s' key = Some f \<or> settled s' c' key f"
        using wt [of j key f] settled_step [OF step inv] s' wait by (auto split: if_splits)
    next
      fix j key r assume "c' j = Returned key r False"
      then have "c j = Returned key r False" using wait by (auto split: if_splits)
      then show "\<exists>j. c' j = Returned key r True" by (rule still)
    qed (use fin wait s' in \<open>auto split: if_splits\<close>)
  next
    case (finish i k g q)
    from finish(1) owns_open [OF inv, of i k g] have g: "fl_open s k = Some g" by simp
    have lt: "g < length (fl_cells s)" using open_cell [OF inv g] by simp
    have other: "f \<noteq> g" if "c j = Finished key f r" for j key f r
      using owns_open [OF inv, of j key f] open_key [OF inv g, of key] one_owner [OF inv, of j k f i g] that finish(1) by auto
    show ?thesis
      unfolding served_def
    proof (intro conjI allI impI)
      fix j key f r assume j: "c' j = Finished key f r"
      show "cell_result (fl_cells s' ! f) = Some r"
        using j fin [of j key f r] other [of j key f r] lt finish by (auto simp: finish_cell split: if_splits)
    next
      fix j key f assume "c' j = Waiting key f"
      then have "c j = Waiting key f" using finish by (auto split: if_splits)
      from wt [OF this] show "fl_open s' key = Some f \<or> settled s' c' key f"
        using settled_step [OF step inv] finish by auto
    next
      fix j key r assume "c' j = Returned key r False"
      then have "c j = Returned key r False" using finish by (auto split: if_splits)
      then show "\<exists>j. c' j = Returned key r True" by (rule still)
    qed
  next
    case (release i k g q)
    from release(1) owns_open [OF inv, of i k g] have g: "fl_open s k = Some g" by simp
    have lt: "g < length (fl_cells s)" using open_cell [OF inv g] by simp
    show ?thesis
      unfolding served_def
    proof (intro conjI allI impI)
      fix j key f r assume "c' j = Finished key f r"
      then have "c j = Finished key f r" using release by (auto split: if_splits)
      then show "cell_result (fl_cells s' ! f) = Some r" using fin [of j key f r] lt release by (auto simp: release_cell)
    next
      fix j key f assume "c' j = Waiting key f"
      then have "c j = Waiting key f" using release by (auto split: if_splits)
      then consider "fl_open s key = Some f" "key \<noteq> k" | "key = k" "f = g" | "settled s c key f" using wt g by fastforce
      then show "fl_open s' key = Some f \<or> settled s' c' key f"
      proof cases
        case 2
        have "settled s' c' k g"
          using fin [OF release(1)] lt open_key [OF inv g] release
          by (auto simp: settled_def release_cell intro!: exI [of _ i])
        with 2 show ?thesis by simp
      qed (use settled_step [OF step inv] release in auto)
    next
      fix j key r assume "c' j = Returned key r False"
      then have "c j = Returned key r False" using release by (auto split: if_splits)
      then show "\<exists>j. c' j = Returned key r True" by (rule still)
    qed
  next
    case (wake i k g q)
    have "settled s c k g" using wt [OF wake(1)] open_cell [OF inv, of k g] wake(2) by auto
    then obtain j where "c j = Returned k q True" using wake(3) by (auto simp: settled_def)
    then have got: "\<exists>j. c' j = Returned k q True" using returned_step [OF step] by blast
    show ?thesis
      unfolding served_def
    proof (intro conjI allI impI)
      fix j key f assume "c' j = Waiting key f"
      then have "c j = Waiting key f" using wake by (auto split: if_splits)
      from wt [OF this] show "fl_open s' key = Some f \<or> settled s' c' key f"
        using settled_step [OF step inv] wake by auto
    next
      fix j key r assume "c' j = Returned key r False"
      then show "\<exists>j. c' j = Returned key r True" using got still [of j key r] wake by (auto split: if_splits)
    qed (use fin wake in \<open>auto split: if_splits\<close>)
  next
    case (interrupt i k g)
    show ?thesis
      unfolding served_def
    proof (intro conjI allI impI)
      fix j key f assume "c' j = Waiting key f"
      then have "c j = Waiting key f" using interrupt by (auto split: if_splits)
      from wt [OF this] show "fl_open s' key = Some f \<or> settled s' c' key f"
        using settled_step [OF step inv] interrupt by auto
    next
      fix j key r assume "c' j = Returned key r False"
      then have "c j = Returned key r False" using interrupt by (auto split: if_splits)
      then show "\<exists>j. c' j = Returned key r True" by (rule still)
    qed (use fin interrupt in \<open>auto split: if_splits\<close>)
  qed
qed

lemma flights_reachable_inv: "flights_reachable x \<Longrightarrow> owners_ok (fst x) (snd x) \<and> served (fst x) (snd x)"
proof (induction rule: flights_reachable.induct)
  case (start c)
  have "owns (c i) = None" for i using start [of i] by auto
  moreover have "c i \<noteq> Finished key f r \<and> c i \<noteq> Waiting key f \<and> c i \<noteq> Returned key r b" for i key f r b
    using start [of i] by auto
  ultimately show ?case by (simp add: owners_ok_def served_def no_flights_def)
next
  case (step x y)
  then show ?case using owners_ok_step [of "fst x" "snd x" "fst y" "snd y"] served_step [of "fst x" "snd x" "fst y" "snd y"] by simp
qed

section \<open>Properties\<close>

text \<open>C32: However the calls interleave, of the callers with one key at most one works.  A caller that joined
  either gives up because its own context ended, or returns what the owner of a flight for the very
  same key returned; and as long as it waits, that flight is in the air, or it is done and holds a
  result that its owner returned, so the caller can return it at once.\<close>

theorem equal_requests_share_one_flight:
  assumes "flights_reachable (s, c)"
  shows "(\<forall>i j key f g. owns (c i) = Some (key, f) \<and> owns (c j) = Some (key, g) \<longrightarrow> i = j) \<and>
    (\<forall>i key r. c i = Returned key r False \<longrightarrow> (\<exists>j. c j = Returned key r True)) \<and>
    (\<forall>i key f. c i = Waiting key f \<longrightarrow>
       fl_open s key = Some f \<or> (\<exists>j r. joined f s = Some r \<and> c j = Returned key r True))"
proof -
  have inv: "owners_ok s c" "served s c" using flights_reachable_inv [OF assms] by simp_all
  have "fl_open s key = Some f \<or> (\<exists>j r. joined f s = Some r \<and> c j = Returned key r True)" if "c i = Waiting key f" for i key f
  proof -
    have "fl_open s key = Some f \<or> settled s c key f" using inv(2) that unfolding served_def by blast
    then show ?thesis
    proof
      assume "settled s c key f"
      then obtain j r where "cell_done (fl_cells s ! f)" "cell_result (fl_cells s ! f) = Some r" "c j = Returned key r True"
        unfolding settled_def by blast
      then have "joined f s = Some r \<and> c j = Returned key r True" by (simp add: joined_def)
      then show ?thesis by blast
    qed simp
  qed
  then have waits: "\<forall>i key f. c i = Waiting key f \<longrightarrow>
      fl_open s key = Some f \<or> (\<exists>j r. joined f s = Some r \<and> c j = Returned key r True)" by blast
  have one: "\<forall>i j key f g. owns (c i) = Some (key, f) \<and> owns (c j) = Some (key, g) \<longrightarrow> i = j"
  proof (intro allI impI, elim conjE)
    fix i j key f g assume "owns (c i) = Some (key, f)" "owns (c j) = Some (key, g)"
    then show "i = j" by (rule one_owner [OF inv(1)])
  qed
  from inv(2) have "\<forall>i key r. c i = Returned key r False \<longrightarrow> (\<exists>j. c j = Returned key r True)"
    unfolding served_def by (elim conjE)
  with one waits show ?thesis by (intro conjI)
qed

theorem equal_requests_share_one_flight_witness:
  "\<exists>s c. flights_reachable (s, c) \<and> c 0 = Returned ''p1'' (7 :: nat) True \<and> c 1 = Returned ''p1'' 7 False \<and>
     c 2 = GaveUp ''p1'' \<and> (\<exists>j. c j = Returned ''p1'' 7 True)"
proof -
  let ?c0 = "\<lambda>_ :: nat. Calling ''p1'' :: nat caller"
  let ?s1 = "\<lparr>fl_open = [''p1'' \<mapsto> 0], fl_cells = [\<lparr>cell_done = False, cell_result = None\<rparr>]\<rparr>"
  let ?c1 = "?c0(0 := Working ''p1'' 0)"
  let ?c2 = "?c1(1 := Waiting ''p1'' 0)"
  let ?c2a = "?c2(2 := Waiting ''p1'' 0)"
  let ?c2b = "?c2a(2 := GaveUp ''p1'')"
  let ?s3 = "finishFlight 0 7 ?s1"
  let ?c3 = "?c2b(0 := Finished ''p1'' 0 7)"
  let ?s4 = "releaseFlight ''p1'' 0 ?s3"
  let ?c4 = "?c3(0 := Returned ''p1'' 7 True)"
  let ?c5 = "?c4(1 := Returned ''p1'' 7 False)"
  have r0: "flights_reachable (no_flights, ?c0)" by (rule flights_reachable.start) simp
  have r1: "flights_reachable (?s1, ?c1)"
    by (rule flights_reachable.step [OF r0], rule flight_step.own) (simp_all add: acquireFlight_def no_flights_def)
  have r2: "flights_reachable (?s1, ?c2)"
    by (rule flights_reachable.step [OF r1], rule flight_step.wait) (simp_all add: acquireFlight_def)
  have r2a: "flights_reachable (?s1, ?c2a)"
    by (rule flights_reachable.step [OF r2], rule flight_step.wait) (simp_all add: acquireFlight_def)
  have r2b: "flights_reachable (?s1, ?c2b)"
    by (rule flights_reachable.step [OF r2a], rule flight_step.interrupt) simp
  have r3: "flights_reachable (?s3, ?c3)"
    by (rule flights_reachable.step [OF r2b], rule flight_step.finish) simp
  have r4: "flights_reachable (?s4, ?c4)"
    by (rule flights_reachable.step [OF r3], rule flight_step.release) simp
  have r5: "flights_reachable (?s4, ?c5)"
    by (rule flights_reachable.step [OF r4], rule flight_step.wake [where key = "''p1''" and f = 0])
      (simp_all add: finishFlight_def releaseFlight_def)
  have five: "?c5 0 = Returned ''p1'' 7 True" "?c5 1 = Returned ''p1'' 7 False" "?c5 2 = GaveUp ''p1''" by simp_all
  from equal_requests_share_one_flight [OF r5] five(2) have "\<exists>j. ?c5 j = Returned ''p1'' 7 True" by blast
  with r5 five show ?thesis by blast
qed

end
