(* ===== verification/Jobs_Browse.thy ===== *)
theory Jobs_Browse
  imports Jobs_Cleanup Flights "HOL-Library.Multiset"
begin

text \<open>
  Browsing a repository (\<open>internal/server/jobs/orchestrator.go\<close>): the list of its snapshots and the
  directories of a snapshot, served from the persistent caches when they are verified and fetched
  by a system run otherwise.  Joining a call that is in the air is the subject of \<open>Flights\<close>; here
  it is an argument, which says whether the caller owns the flight, has joined one and with what
  result, or was interrupted while it waited.
\<close>

section \<open>Results\<close>

record cache_info =
  ci_hit :: bool
  ci_verified_at :: "instant option"

record 'a browse =
  br_value :: "'a option"
  br_run :: "run option"
  br_info :: cache_info
  br_err :: "jobs_err option"

definition no_info :: cache_info where "no_info = \<lparr>ci_hit = False, ci_verified_at = None\<rparr>"

definition browse_failed :: "run option \<Rightarrow> jobs_err \<Rightarrow> 'a browse" where
  "browse_failed r e = \<lparr>br_value = None, br_run = r, br_info = no_info, br_err = Some e\<rparr>"

definition browse_hit :: "'a \<Rightarrow> instant \<Rightarrow> 'a browse" where
  "browse_hit x at = \<lparr>br_value = Some x, br_run = None, br_info = \<lparr>ci_hit = True, ci_verified_at = Some at\<rparr>, br_err = None\<rparr>"

definition browse_fetched :: "'a \<Rightarrow> run \<Rightarrow> instant option \<Rightarrow> 'a browse" where
  "browse_fetched x r at = \<lparr>br_value = Some x, br_run = Some r, br_info = \<lparr>ci_hit = False, ci_verified_at = at\<rparr>, br_err = None\<rparr>"

datatype 'a flight = OwnFlight | JoinedFlight "'a browse" | Interrupted

section \<open>The snapshot list\<close>

definition filterHiddenSnapshots :: "db \<Rightarrow> string \<Rightarrow> snapshot list \<Rightarrow> snapshot list" where
  "filterHiddenSnapshots d repoID snaps = filter (\<lambda>s. snap_id s \<notin> set (HiddenSnapshotIDs d repoID)) snaps"

definition cached_list :: "(string \<Rightarrow> string) \<Rightarrow> db \<Rightarrow> string \<Rightarrow> snapshot list browse option" where
  "cached_list digest d repoID =
     (case GetSnapshotListCache d repoID of
        Inl _ \<Rightarrow> None
      | Inr cache \<Rightarrow>
          (case decode_snapshots (lc_snapshots cache) of
             None \<Rightarrow> None
           | Some snaps \<Rightarrow>
               if SnapshotFingerprint digest snaps = lc_fingerprint cache
               then Some (browse_hit (filterHiddenSnapshots d repoID snaps) (lc_verified_at cache)) else None))"

definition generation_of :: "db \<Rightarrow> string \<Rightarrow> int option" where
  "generation_of d repoID = (case SnapshotCacheGeneration d repoID of Inl _ \<Rightarrow> None | Inr g \<Rightarrow> Some g)"

text \<open>What a run that has ended is worth: its error, or its result.\<close>

definition run_outcome :: "string \<Rightarrow> run \<Rightarrow> jobs_err + json" where
  "run_outcome what r =
     (if run_status r \<noteq> RunSucceeded
      then Inl (if run_error_message r \<noteq> [] then ErrRepositoryUnavailable else JText (what @ '' run failed''))
      else case result_of r of None \<Rightarrow> Inl (JText (what @ '' returned no result'')) | Some j \<Rightarrow> Inr j)"

text \<open>Saving the list that was fetched; \<open>at\<close> is the clock after the run.\<close>

definition store_list :: "(string \<Rightarrow> string) \<Rightarrow> instant \<Rightarrow> string \<Rightarrow> int option \<Rightarrow> run \<Rightarrow> json \<Rightarrow> snapshot list \<Rightarrow> 'c world \<Rightarrow>
    snapshot list browse \<times> 'c world" where
  "store_list digest at repoID gen term j snaps w =
     (case gen of
        None \<Rightarrow> (browse_fetched (filterHiddenSnapshots (w_db w) repoID snaps) term None, w)
      | Some g \<Rightarrow>
          (case saveSnapshotListCacheOnce repoID g j (SnapshotFingerprint digest snaps) at (w_db w) of
             Inr d' \<Rightarrow> (browse_fetched (filterHiddenSnapshots d' repoID snaps) term (Some at), w\<lparr>w_db := d'\<rparr>)
           | Inl e \<Rightarrow>
               (case (if e = ErrCacheGenerationChanged then cached_list digest (w_db w) repoID else None) of
                  Some hit \<Rightarrow> (hit, w)
                | None \<Rightarrow> (browse_failed (Some term) (JStore e), w))))"

definition fetch_list ::
    "sealing \<Rightarrow> (string \<Rightarrow> string) \<Rightarrow> 'c meanwhile \<Rightarrow> string \<Rightarrow> instant \<Rightarrow> instant \<Rightarrow> string \<Rightarrow> string \<Rightarrow> 'c world \<Rightarrow>
     snapshot list browse \<times> 'c world" where
  "fetch_list sl digest env rid clk at repoID agentID w =
     (case GetRepository (w_db w) repoID of
        Inl e \<Rightarrow> (browse_failed None (JStore e), w)
      | Inr repo \<Rightarrow>
          let gen = generation_of (w_db w) repoID in
          case SystemRun sl rid clk agentID repoID OpSnapshots (SnapshotsTask (repo_path repo)) w of
            (Inl e, w1) \<Rightarrow> (browse_failed None e, w1)
          | (Inr run, w1) \<Rightarrow>
              (case await env (run_id run) w1 of
                 (Inl e, w2) \<Rightarrow> (browse_failed None e, w2)
               | (Inr term, w2) \<Rightarrow>
                   (case run_outcome ''snapshot list'' term of
                      Inl e \<Rightarrow> (browse_failed (Some term) e, w2)
                    | Inr j \<Rightarrow>
                        (case decode_snapshots j of
                           None \<Rightarrow> (browse_failed (Some term) (JText ''unmarshal''), w2)
                         | Some snaps \<Rightarrow>
                             store_list digest at repoID gen term j snaps
                               (w2\<lparr>w_db := ClearRunProgress (run_id run) (w_db w2)\<rparr>)))))"

text \<open>The cache is asked again once the flight is owned.  Nothing happens in between here, but a caller
  that waited for the mutex may find what the last owner saved.\<close>

definition SnapshotsWithOptions ::
    "sealing \<Rightarrow> (string \<Rightarrow> string) \<Rightarrow> 'c meanwhile \<Rightarrow> snapshot list flight \<Rightarrow> string \<Rightarrow> instant \<Rightarrow> instant \<Rightarrow> string \<Rightarrow> string \<Rightarrow> bool \<Rightarrow>
     'c world \<Rightarrow> snapshot list browse \<times> 'c world" where
  "SnapshotsWithOptions sl digest env flight rid clk at repoID agentID refresh w =
     (case (if refresh then None else cached_list digest (w_db w) repoID) of
        Some hit \<Rightarrow> (hit, w)
      | None \<Rightarrow>
          (case flight of
             JoinedFlight r \<Rightarrow> (r, w)
           | Interrupted \<Rightarrow> (browse_failed None ContextDone, w)
           | OwnFlight \<Rightarrow>
               (case (if refresh then None else cached_list digest (w_db w) repoID) of
                  Some hit \<Rightarrow> (hit, w)
                | None \<Rightarrow> fetch_list sl digest env rid clk at repoID agentID w)))"

section \<open>Directories\<close>

text \<open>As for the list, the cache is asked again once the flight is owned; the second look is left out here.\<close>

definition cached_tree :: "db \<Rightarrow> string \<Rightarrow> string \<Rightarrow> string \<Rightarrow> tree browse option" where
  "cached_tree d repoID snapshotID p =
     (case GetSnapshotTreeCache d repoID snapshotID p of
        Inl _ \<Rightarrow> None
      | Inr cache \<Rightarrow> map_option (\<lambda>t. browse_hit t (tc_verified_at cache)) (decode_tree (tc_tree cache)))"

definition store_tree :: "instant \<Rightarrow> string \<Rightarrow> string \<Rightarrow> string \<Rightarrow> int option \<Rightarrow> run \<Rightarrow> tree \<Rightarrow> 'c world \<Rightarrow> tree browse \<times> 'c world" where
  "store_tree at repoID snapshotID p gen term t w =
     (case gen of
        None \<Rightarrow> (browse_fetched t term None, w)
      | Some g \<Rightarrow>
          (case SaveSnapshotTreeCache repoID snapshotID p g (tree_json t) at (w_db w) of
             Inl e \<Rightarrow> (browse_failed (Some term) (JStore e), w)
           | Inr d' \<Rightarrow> (browse_fetched t term (Some at), w\<lparr>w_db := d'\<rparr>)))"

definition fetch_tree ::
    "sealing \<Rightarrow> 'c meanwhile \<Rightarrow> string \<Rightarrow> instant \<Rightarrow> instant \<Rightarrow> string \<Rightarrow> string \<Rightarrow> string \<Rightarrow> string \<Rightarrow> 'c world \<Rightarrow> tree browse \<times> 'c world" where
  "fetch_tree sl env rid clk at repoID agentID snapshotID p w =
     (case GetRepository (w_db w) repoID of
        Inl e \<Rightarrow> (browse_failed None (JStore e), w)
      | Inr repo \<Rightarrow>
          let gen = generation_of (w_db w) repoID in
          case SystemRun sl rid clk agentID repoID OpSnapshotLs (SnapshotLsTask (repo_path repo) snapshotID p) w of
            (Inl e, w1) \<Rightarrow> (browse_failed None e, w1)
          | (Inr run, w1) \<Rightarrow>
              (case await env (run_id run) w1 of
                 (Inl e, w2) \<Rightarrow> (browse_failed None e, w2)
               | (Inr term, w2) \<Rightarrow>
                   (case run_outcome ''snapshot tree'' term of
                      Inl e \<Rightarrow> (browse_failed (Some term) e, w2)
                    | Inr j \<Rightarrow>
                        (case decode_tree j of
                           None \<Rightarrow> (browse_failed (Some term) (JText ''unmarshal''), w2)
                         | Some t \<Rightarrow>
                             store_tree at repoID snapshotID p gen term (t\<lparr>tree_path := NormalizeSnapshotPath (tree_path t)\<rparr>) w2))))"

text \<open>Two runs may start: one for the list (\<open>rid\<close>), one for the directory (\<open>rid'\<close>).\<close>

definition SnapshotTreeWithOptions ::
    "sealing \<Rightarrow> (string \<Rightarrow> string) \<Rightarrow> 'c meanwhile \<Rightarrow> snapshot list flight \<Rightarrow> tree flight \<Rightarrow> string \<Rightarrow> string \<Rightarrow> instant \<Rightarrow> instant \<Rightarrow>
     string \<Rightarrow> string \<Rightarrow> string \<Rightarrow> string \<Rightarrow> bool \<Rightarrow> 'c world \<Rightarrow> tree browse \<times> 'c world" where
  "SnapshotTreeWithOptions sl digest env flight tflight rid rid' clk at repoID agentID snapshotID cachePath refresh w =
     (let p = NormalizeSnapshotPath cachePath in
      case SnapshotsWithOptions sl digest env flight rid clk at repoID agentID refresh w of
        (listing, w1) \<Rightarrow>
          (case br_err listing of
             Some e \<Rightarrow> (browse_failed None e, w1)
           | None \<Rightarrow>
               if \<not> list_ex (\<lambda>s. snap_id s = snapshotID) (case br_value listing of None \<Rightarrow> [] | Some ss \<Rightarrow> ss)
               then (browse_failed None JobsNotFound, w1)
               else
                 (case (if refresh then None else cached_tree (w_db w1) repoID snapshotID p) of
                    Some hit \<Rightarrow> (hit, w1)
                  | None \<Rightarrow>
                      (case tflight of
                         JoinedFlight r \<Rightarrow> (r, w1)
                       | Interrupted \<Rightarrow> (browse_failed None ContextDone, w1)
                       | OwnFlight \<Rightarrow> fetch_tree sl env rid' clk at repoID agentID snapshotID p w1))))"

text \<open>Warming asks for a fresh list, and for the root directory of the new snapshot.\<close>

definition WarmSnapshotCache ::
    "sealing \<Rightarrow> (string \<Rightarrow> string) \<Rightarrow> 'c meanwhile \<Rightarrow> snapshot list flight \<Rightarrow> snapshot list flight \<Rightarrow> tree flight \<Rightarrow>
     string \<Rightarrow> string \<Rightarrow> string \<Rightarrow> instant \<Rightarrow> instant \<Rightarrow> string \<Rightarrow> string \<Rightarrow> string \<Rightarrow> 'c world \<Rightarrow> jobs_err option \<times> 'c world" where
  "WarmSnapshotCache sl digest env flight flight' tflight rid rid' rid'' clk at repoID agentID snapshotID w =
     (case SnapshotsWithOptions sl digest env flight rid clk at repoID agentID True w of
        (listing, w1) \<Rightarrow>
          (case br_err listing of
             Some e \<Rightarrow> (Some e, w1)
           | None \<Rightarrow>
               if snapshotID = [] then (None, w1)
               else if \<not> list_ex (\<lambda>s. snap_id s = snapshotID) (case br_value listing of None \<Rightarrow> [] | Some ss \<Rightarrow> ss)
               then (Some JobsNotFound, w1)
               else (case SnapshotTreeWithOptions sl digest env flight' tflight rid' rid'' clk at repoID agentID snapshotID ''/'' False w1 of
                       (r, w2) \<Rightarrow> (br_err r, w2))))"

section \<open>Lemmas\<close>

lemma save_keeps_deletions:
  "saveSnapshotListCacheOnce repo gen snaps fp at d = Inr d' \<Longrightarrow> db_deletions d' = db_deletions d"
  by (erule saveList_cases) auto

lemma hidden_filtered: "x \<in> set (filterHiddenSnapshots d repoID ss) \<Longrightarrow> snap_id x \<notin> set (HiddenSnapshotIDs d repoID)"
  by (simp add: filterHiddenSnapshots_def)

lemma filterHidden_cong: "db_deletions d' = db_deletions d \<Longrightarrow> filterHiddenSnapshots d' repoID ss = filterHiddenSnapshots d repoID ss"
  by (simp add: filterHiddenSnapshots_def HiddenSnapshotIDs_def)

lemma cached_list_value:
  "cached_list digest d repoID = Some b \<Longrightarrow> br_err b = None \<and> ci_hit (br_info b) \<and> (\<exists>ss. br_value b = Some (filterHiddenSnapshots d repoID ss))"
  by (auto simp: cached_list_def browse_hit_def split: sum.splits option.splits if_splits)

lemma store_list_value:
  assumes "store_list digest at repoID gen term j snaps w = (b, w')" "br_value b = Some ss"
  shows "\<exists>all. ss = filterHiddenSnapshots (w_db w') repoID all"
proof -
  have hit: "\<exists>all. ss = filterHiddenSnapshots d repoID all" if "cached_list digest d repoID = Some b" for d
    using cached_list_value [OF that] assms(2) by auto
  show ?thesis
    using assms hit
    by (auto simp: store_list_def browse_fetched_def browse_failed_def split: option.splits sum.splits if_splits)
qed

lemma fetch_list_value:
  assumes "fetch_list sl digest env rid clk at repoID agentID w = (b, w')" "br_value b = Some ss"
  shows "\<exists>all. ss = filterHiddenSnapshots (w_db w') repoID all"
  using assms
  by (auto simp: fetch_list_def Let_def browse_failed_def dest: store_list_value split: option.splits sum.splits prod.splits)

lemma listing_value:
  assumes "SnapshotsWithOptions sl digest env flight rid clk at repoID agentID refresh w = (b, w')"
    and "br_value b = Some ss" and "flight = OwnFlight \<or> flight = Interrupted"
  shows "\<exists>all. ss = filterHiddenSnapshots (w_db w') repoID all"
proof (cases "if refresh then None else cached_list digest (w_db w) repoID")
  case (Some hit)
  then show ?thesis using assms cached_list_value [of digest "w_db w" repoID hit]
    by (auto simp: SnapshotsWithOptions_def split: if_splits)
next
  case None
  then show ?thesis using assms fetch_list_value
    by (auto simp: SnapshotsWithOptions_def browse_failed_def split: if_splits)
qed

lemma store_list_saved:
  assumes "store_list digest at repoID gen term j snaps w = (b, w')" and "ci_verified_at (br_info b) = Some v" "\<not> ci_hit (br_info b)"
  obtains g where "saveSnapshotListCacheOnce repoID g j (SnapshotFingerprint digest snaps) at (w_db w) = Inr (w_db w')"
    "b = browse_fetched (filterHiddenSnapshots (w_db w') repoID snaps) term (Some at)"
  using assms
  by (auto simp: store_list_def browse_fetched_def browse_failed_def no_info_def dest: cached_list_value split: option.splits sum.splits if_splits)

section \<open>Properties\<close>

text \<open>A list that was fetched and saved is served from the cache afterwards: the next call that does not ask
  for a refresh returns the same snapshots, starts no run and changes nothing.\<close>

theorem fetched_list_is_served_from_the_cache:
  assumes fetch: "fetch_list sl digest env rid clk at repoID agentID w = (b, w')"
    and saved: "ci_verified_at (br_info b) = Some v" "\<not> ci_hit (br_info b)"
  shows "\<exists>ss. br_value b = Some ss \<and> br_err b = None \<and>
    SnapshotsWithOptions sl digest env' flight rid' clk' at' repoID agentID' False w' = (browse_hit ss (sec at), w')"
proof -
  obtain gen r j snaps v where st: "store_list digest at repoID gen r j snaps v = (b, w')" and dec: "decode_snapshots j = Some snaps"
    using fetch saved
    by (auto simp: fetch_list_def Let_def browse_failed_def no_info_def split: sum.splits prod.splits option.splits)
  from store_list_saved [OF st saved] obtain g where
    save: "saveSnapshotListCacheOnce repoID g j (SnapshotFingerprint digest snaps) at (w_db v) = Inr (w_db w')"
    and b: "b = browse_fetched (filterHiddenSnapshots (w_db w') repoID snaps) r (Some at)" by blast
  from save_then_get [OF save] dec have "cached_list digest (w_db w') repoID =
      Some (browse_hit (filterHiddenSnapshots (w_db w') repoID snaps) (sec at))"
    by (simp add: cached_list_def)
  then show ?thesis by (simp add: SnapshotsWithOptions_def b browse_fetched_def)
qed

definition listed_run :: run where
  "listed_run = (sample_run ''r1'' OpSnapshots RunSucceeded)\<lparr>run_progress := JList (map snapshot_json [sample_snapshot])\<rparr>"

definition agent_lists :: "nat meanwhile" where
  "agent_lists rid w = [(PollTick, w\<lparr>w_db := (w_db w)\<lparr>db_runs := [listed_run]\<rparr>\<rparr>)]"

theorem fetched_list_is_served_from_the_cache_witness:
  "\<exists>b w'. fetch_list sample_sealing (\<lambda>_. ''f'') agent_lists ''r1'' 5 9 ''p1'' ''a1'' restore_world = (b, w') \<and>
     fst (SnapshotsWithOptions sample_sealing (\<lambda>_. ''f'') agent_lists Interrupted ''r2'' 10 11 ''p1'' ''a1'' False w') =
       browse_hit [sample_snapshot] (sec 9)"
proof -
  obtain b w' where out: "fetch_list sample_sealing (\<lambda>_. ''f'') agent_lists ''r1'' 5 9 ''p1'' ''a1'' restore_world = (b, w')"
    by (cases "fetch_list sample_sealing (\<lambda>_. ''f'') agent_lists ''r1'' 5 9 ''p1'' ''a1'' restore_world")
  have snaps: "decode_snapshots (JList (map snapshot_json [sample_snapshot])) = Some [sample_snapshot]" by (rule decode_snapshots_json)
  have res: "run_outcome ''snapshot list'' listed_run = Inr (JList (map snapshot_json [sample_snapshot]))"
    by (simp add: run_outcome_def listed_run_def result_of_def isSystemRun_def sample_run_def json_none_def json_braces_def)
  have repo: "GetRepository (w_db restore_world) ''p1'' = Inr sample_repo" and gen: "generation_of (w_db restore_world) ''p1'' = Some 1"
    by (simp_all add: GetRepository_def find_repo_def generation_of_def SnapshotCacheGeneration_def cache_of_def restore_world_def
        start_world_def sample_repo_def)
  let ?run = "system_run_row sample_sealing ''r1'' 5 ''a1'' ''p1'' OpSnapshots (SnapshotsTask (repo_path sample_repo)) []"
  let ?d1 = "(w_db restore_world)\<lparr>db_runs := [run_row ?run]\<rparr>"
  obtain w1 where sys: "SystemRun sample_sealing ''r1'' 5 ''a1'' ''p1'' OpSnapshots (SnapshotsTask (repo_path sample_repo)) restore_world = (Inr ?run, w1)"
    and w1: "w_db w1 = ?d1"
    by (simp add: SystemRun_def systemRun_def restore_world_def start_world_def GetAgent_def find_agent_def sample_agent_def CreateRun_def
        insertRunTx_def run_conflict_def system_run_row_def new_run_def SaveRunRcloneConfig_def invalidatesSnapshotCache_def
        publish_def Enqueue_def push_job_def Let_def)
  have rid: "run_id ?run = ''r1''" by (simp add: system_run_row_def new_run_def)
  let ?w2 = "w1\<lparr>w_db := (w_db w1)\<lparr>db_runs := [listed_run]\<rparr>\<rparr>"
  have wait: "await agent_lists ''r1'' w1 = (Inr listed_run, ?w2)"
    using rid by (simp add: await_def agent_lists_def WaitRun_def GetRun_def find_run_def w1 listed_run_def sample_run_def
        system_run_row_def new_run_def run_row_def)
  let ?d2 = "ClearRunProgress ''r1'' (w_db ?w2)"
  have cache: "cache_of ?d2 ''p1'' = Some \<lparr>cst_repository_id = ''p1'', cst_generation = 1, cst_list_verified_at = Some 0, cst_list_fingerprint = ''f'', cst_updated_at = 0\<rparr>"
    by (simp add: ClearRunProgress_def w1 cache_of_def restore_world_def start_world_def)
  obtain d' where save: "saveSnapshotListCacheOnce ''p1'' 1 (JList (map snapshot_json [sample_snapshot])) (SnapshotFingerprint (\<lambda>_. ''f'') [sample_snapshot]) 9 ?d2 = Inr d'"
    using cache snaps by (simp add: saveSnapshotListCacheOnce_def ensureCacheGeneration_def Let_def)
  have hidden: "filterHiddenSnapshots d' ''p1'' [sample_snapshot] = [sample_snapshot]"
    using save_keeps_deletions [OF save]
    by (simp add: filterHiddenSnapshots_def HiddenSnapshotIDs_def ClearRunProgress_def w1 restore_world_def start_world_def)
  have "b = browse_fetched [sample_snapshot] listed_run (Some 9)"
    using out res snaps save hidden by (simp add: fetch_list_def repo gen sys rid wait store_list_def)
  then have b: "ci_verified_at (br_info b) = Some 9" "\<not> ci_hit (br_info b)" "br_value b = Some [sample_snapshot]"
    by (simp_all add: browse_fetched_def)
  from fetched_list_is_served_from_the_cache [OF out b(1,2)] b(3) out show ?thesis by auto
qed

text \<open>No directory of a snapshot is shown unless the snapshot is in the list, and none of a snapshot whose
  deletion was requested: whatever the caches hold, the caller sees a directory only after the list
  without the hidden snapshots has been consulted.\<close>

theorem no_directory_of_a_hidden_snapshot:
  assumes "SnapshotTreeWithOptions sl digest env flight tflight rid rid' clk at repoID agentID snapshotID p refresh w = (b, w')"
    and "br_value b = Some t" and "flight = OwnFlight \<or> flight = Interrupted"
  shows "\<exists>listing w1 ss. SnapshotsWithOptions sl digest env flight rid clk at repoID agentID refresh w = (listing, w1) \<and>
    br_value listing = Some ss \<and> snapshotID \<in> snap_id ` set ss \<and> snapshotID \<notin> set (HiddenSnapshotIDs (w_db w1) repoID)"
proof -
  obtain listing w1 where l: "SnapshotsWithOptions sl digest env flight rid clk at repoID agentID refresh w = (listing, w1)"
    by (cases "SnapshotsWithOptions sl digest env flight rid clk at repoID agentID refresh w")
  have "list_ex (\<lambda>s. snap_id s = snapshotID) (case br_value listing of None \<Rightarrow> [] | Some ss \<Rightarrow> ss)"
  proof (rule ccontr)
    assume "\<not> ?thesis"
    then have "br_value b = None"
      using assms(1) by (cases "br_err listing") (auto simp: SnapshotTreeWithOptions_def Let_def l browse_failed_def)
    with assms(2) show False by simp
  qed
  then have "\<exists>ss. br_value listing = Some ss \<and> snapshotID \<in> snap_id ` set ss"
    by (cases "br_value listing") (auto simp: list_ex_iff)
  then obtain ss where ss: "br_value listing = Some ss" "snapshotID \<in> snap_id ` set ss" by blast
  from listing_value [OF l ss(1) assms(3)] obtain all where "ss = filterHiddenSnapshots (w_db w1) repoID all" by blast
  with ss(2) have "snapshotID \<notin> set (HiddenSnapshotIDs (w_db w1) repoID)" using hidden_filtered by auto
  with l ss show ?thesis by blast
qed

definition browse_world :: "nat world" where
  "browse_world = restore_world\<lparr>w_db := (w_db restore_world)\<lparr>db_tree_cache := [\<lparr>tc_repository_id = ''p1'', tc_snapshot_id = ''s1'', tc_path = ''/'',
     tc_generation = 1, tc_tree = tree_json \<lparr>tree_entries = [], tree_path = ''/''\<rparr>, tc_verified_at = 0\<rparr>]\<rparr>\<rparr>"

theorem no_directory_of_a_hidden_snapshot_witness:
  "\<exists>b w'. SnapshotTreeWithOptions sample_sealing (\<lambda>_. ''f'') agent_lists OwnFlight OwnFlight ''r1'' ''r2'' 5 9 ''p1'' ''a1'' ''s1'' ''/'' False
       browse_world = (b, w') \<and> br_value b = Some \<lparr>tree_entries = [], tree_path = ''/''\<rparr> \<and>
     ''s1'' \<notin> set (HiddenSnapshotIDs (w_db browse_world) ''p1'')"
proof -
  have snaps: "decode_snapshots (JList (map snapshot_json [sample_snapshot])) = Some [sample_snapshot]" by (rule decode_snapshots_json)
  have "GetSnapshotListCache (w_db browse_world) ''p1'' = Inr \<lparr>lc_repository_id = ''p1'', lc_generation = 1,
      lc_snapshots = JList (map snapshot_json [sample_snapshot]), lc_fingerprint = ''f'', lc_verified_at = 0\<rparr>"
    by (simp add: GetSnapshotListCache_def browse_world_def restore_world_def start_world_def cache_of_def)
  with snaps have "cached_list (\<lambda>_. ''f'') (w_db browse_world) ''p1'' = Some (browse_hit (filterHiddenSnapshots (w_db browse_world) ''p1'' [sample_snapshot]) 0)"
    by (simp add: cached_list_def SnapshotFingerprint_def)
  moreover have "filterHiddenSnapshots (w_db browse_world) ''p1'' [sample_snapshot] = [sample_snapshot]"
    by (simp add: filterHiddenSnapshots_def HiddenSnapshotIDs_def browse_world_def restore_world_def start_world_def)
  ultimately have listing: "SnapshotsWithOptions sample_sealing (\<lambda>_. ''f'') agent_lists OwnFlight ''r1'' 5 9 ''p1'' ''a1'' False browse_world =
      (browse_hit [sample_snapshot] 0, browse_world)" by (simp add: SnapshotsWithOptions_def)
  have root: "NormalizeSnapshotPath ''/'' = ''/''" by code_simp
  have "cached_tree (w_db browse_world) ''p1'' ''s1'' ''/'' = Some (browse_hit \<lparr>tree_entries = [], tree_path = ''/''\<rparr> 0)"
    by (simp add: cached_tree_def GetSnapshotTreeCache_def root tree_key_def cache_of_def browse_world_def restore_world_def start_world_def
        decode_tree_def tree_json_def obj_get_def field_string_def decode_string_def)
  with listing have out: "SnapshotTreeWithOptions sample_sealing (\<lambda>_. ''f'') agent_lists OwnFlight OwnFlight ''r1'' ''r2'' 5 9 ''p1'' ''a1'' ''s1'' ''/'' False
      browse_world = (browse_hit \<lparr>tree_entries = [], tree_path = ''/''\<rparr> 0, browse_world)"
    by (simp add: SnapshotTreeWithOptions_def root browse_hit_def sample_snapshot_def)
  have v: "br_value (browse_hit \<lparr>tree_entries = [] :: tree_entry list, tree_path = ''/''\<rparr> 0) = Some \<lparr>tree_entries = [], tree_path = ''/''\<rparr>"
    by (simp add: browse_hit_def)
  from no_directory_of_a_hidden_snapshot [OF out v] listing have "''s1'' \<notin> set (HiddenSnapshotIDs (w_db browse_world) ''p1'')" by auto
  with out v show ?thesis by blast
qed

text \<open>The fingerprint of a list does not depend on the order in which the remote returns the snapshots,
  nor on the order of the tags and paths of each, as long as no two snapshots have the same identity.\<close>

theorem fingerprint_ignores_the_order:
  assumes "mset (map normal_snapshot a) = mset (map normal_snapshot b)" and "distinct (map snap_id a)"
  shows "SnapshotFingerprint digest a = SnapshotFingerprint digest b"
proof -
  let ?key = "\<lambda>s. (snap_id s, snap_time s, snap_host s)"
  have "inj_on snap_id (set (map normal_snapshot a))"
    using assms(2) by (auto simp: distinct_map inj_on_def normal_snapshot_def)
  then have inj: "inj_on ?key (set (map normal_snapshot a))" by (auto simp: inj_on_def)
  have "sort_key ?key (map normal_snapshot a) = sort_key ?key (map normal_snapshot b)"
    using assms(1) inj by (intro sort_key_eq_sort_key) auto
  then show ?thesis by (simp add: SnapshotFingerprint_def)
qed

theorem fingerprint_ignores_the_order_witness:
  "SnapshotFingerprint (\<lambda>x. x) [sample_snapshot, sample_snapshot\<lparr>snap_id := ''s2''\<rparr>] =
     SnapshotFingerprint (\<lambda>x. x) [sample_snapshot\<lparr>snap_id := ''s2''\<rparr>, sample_snapshot]"
  by (rule fingerprint_ignores_the_order) (simp_all add: sample_snapshot_def)

text \<open>Browsing may take the result of an orphan scan away.  A browse asks for the list with the same task as
  a scan, so it shares the run of a scan that is under way, and clears the result of the run once it has
  read it (\<open>fetch_list\<close>).  The next tick then finds nothing to reconcile, gives the scan up and puts the
  next one off, although the scan has succeeded.\<close>

theorem browsing_discards_the_orphan_scan:
  assumes st: "find_cleanup (w_db w) (repo_id repo) = Some st" "cln_scan_run_id st = rid" "rid \<noteq> []"
    and run: "find_run (w_db w) rid = Some run" "run_status run = RunSucceeded"
  shows "consumeCleanupScan t repo (w\<lparr>w_db := ClearRunProgress rid (w_db w)\<rparr>) =
    (None, clear_scan t repo rid (w\<lparr>w_db := ClearRunProgress rid (w_db w)\<rparr>))"
proof -
  have "find_run (ClearRunProgress rid (w_db w)) rid = Some (run\<lparr>run_progress := json_braces\<rparr>)"
    using run(1) by (simp add: ClearRunProgress_def find_run_def tbl_get_update_same)
  moreover have "decode_snapshots json_braces = None" by (simp add: decode_snapshots_def json_braces_def)
  ultimately show ?thesis using st run(2)
    by (simp add: consumeCleanupScan_def GetSnapshotCleanupState_def find_cleanup_def ClearRunProgress_def GetRun_def find_run_def Let_def active_terminal)
qed

theorem browsing_discards_the_orphan_scan_witness:
  "\<exists>w'. consumeCleanupScan sample_tick sample_repo
       (start_world (ClearRunProgress ''r1'' (empty_db\<lparr>db_runs := [listed_run], db_cleanup := [(new_cleanup ''p1'' 0)\<lparr>cln_scan_run_id := ''r1''\<rparr>]\<rparr>)) :: nat world) =
     (None, w') \<and> map cln_scan_run_id (db_cleanup (w_db w')) = [[]] \<and> map cln_last_scan_completed_at (db_cleanup (w_db w')) = [None]"
proof -
  let ?d = "empty_db\<lparr>db_runs := [listed_run], db_cleanup := [(new_cleanup ''p1'' 0)\<lparr>cln_scan_run_id := ''r1''\<rparr>]\<rparr>"
  let ?w = "start_world ?d :: nat world"
  have st: "find_cleanup (w_db ?w) (repo_id sample_repo) = Some ((new_cleanup ''p1'' 0)\<lparr>cln_scan_run_id := ''r1''\<rparr>)"
    "cln_scan_run_id ((new_cleanup ''p1'' 0)\<lparr>cln_scan_run_id := ''r1''\<rparr>) = ''r1''"
    by (simp_all add: start_world_def find_cleanup_def new_cleanup_def sample_repo_def)
  have run: "find_run (w_db ?w) ''r1'' = Some listed_run" "run_status listed_run = RunSucceeded"
    by (simp_all add: start_world_def find_run_def listed_run_def sample_run_def)
  have same: "?w\<lparr>w_db := ClearRunProgress ''r1'' (w_db ?w)\<rparr> = start_world (ClearRunProgress ''r1'' ?d)"
    by (simp add: start_world_def)
  from browsing_discards_the_orphan_scan [OF st _ run, of sample_tick] have
    "consumeCleanupScan sample_tick sample_repo (start_world (ClearRunProgress ''r1'' ?d) :: nat world) =
      (None, clear_scan sample_tick sample_repo ''r1'' (start_world (ClearRunProgress ''r1'' ?d)))" unfolding same by simp
  then show ?thesis
    by (simp add: clear_scan_def ClearSnapshotCleanupScan_def find_cleanup_def ClearRunProgress_def start_world_def new_cleanup_def sample_repo_def)
qed

end
