(* ===== verification/Agent_Paths.thy ===== *)
theory Agent_Paths
  imports Paths Model
begin

text \<open>
  The path half of \<open>internal/agent/pipeline/pipeline.go\<close>: the mapping between host paths and the paths
  of the agent's container, the rewriting of a plan's sources, the allow lists of source and restore
  roots, and the check of the symbolic links a restore created.  Go's \<open>path/filepath\<close> is modelled for
  Linux: one separator, no volume names, \<open>ToSlash\<close> and \<open>FromSlash\<close> the identity.  What the file system
  answers is the record \<open>files\<close>.
\<close>

section \<open>The path functions of the standard library\<close>

definition render :: "bool \<Rightarrow> string list \<Rightarrow> string" where
  "render rooted cs =
     (if rooted then CHR ''/'' # JoinWith ''/'' cs
      else if cs = [] then ''.'' else JoinWith ''/'' cs)"

fun strip_common :: "string list \<Rightarrow> string list \<Rightarrow> string list \<times> string list" where
  "strip_common (b # bs) (t # ts) = (if b = t then strip_common bs ts else (b # bs, t # ts))"
| "strip_common bs ts = (bs, ts)"

text \<open>The way from the first path to the second; none when it depends on the working directory.\<close>

definition Rel :: "string \<Rightarrow> string \<Rightarrow> string option" where
  "Rel basepath targpath =
     (let b = Clean basepath; t = Clean targpath in
      if t = b then Some ''.''
      else if IsAbs b \<noteq> IsAbs t then None
      else let (bs, ts) = strip_common (parts_of basepath) (if t = ''.'' then [''.''] else parts_of targpath) in
           if bs \<noteq> [] \<and> hd bs = ''..'' then None
           else Some (JoinWith ''/'' (replicate (length bs) ''..'' @ ts)))"

text \<open>Joining two elements: an empty first one is skipped.\<close>

definition Join2 :: "string \<Rightarrow> string \<Rightarrow> string" where
  "Join2 a b = (if a \<noteq> [] then Clean (a @ ''/'' @ b) else if b \<noteq> [] then Clean b else [])"

text \<open>The test the code repeats: the relative way leaves the root.\<close>

definition escapes :: "string \<Rightarrow> bool" where
  "escapes rel \<longleftrightarrow> rel = ''..'' \<or> HasPrefix rel ''../'' \<or> IsAbs rel"

definition inside :: "string \<Rightarrow> string \<Rightarrow> bool" where
  "inside root p = (case Rel root p of None \<Rightarrow> False | Some rel \<Rightarrow> \<not> escapes rel)"

lemma Clean_render: "Clean p = render (IsAbs p) (parts_of p)"
  by (simp add: Clean_parts render_def)

lemma Clean_of_render: "clean_shape r cs \<Longrightarrow> Clean (render r cs) = render r cs"
  using Clean_of_shape [of r cs] by (simp add: render_def)

lemma IsAbs_render: "clean_shape r cs \<Longrightarrow> IsAbs (render r cs) = r"
proof (cases r)
  case False
  assume shape: "clean_shape r cs"
  show ?thesis
  proof (cases cs)
    case Nil
    with False show ?thesis by (simp add: render_def)
  next
    case (Cons c ds)
    have c: "c \<noteq> []" "CHR ''/'' \<notin> set c"
      using clean_shape_plain [OF shape] Cons by (auto simp: plain_part_def)
    have "hd (JoinWith ''/'' cs) = hd c" "JoinWith ''/'' cs \<noteq> []"
      using Join_head [of cs "''/''"] Cons c by auto
    with c have "\<not> IsAbs (JoinWith ''/'' cs)"
      by (cases "JoinWith ''/'' cs") (auto simp: neq_Nil_conv)
    with False Cons show ?thesis by (simp add: render_def)
  qed
qed (simp add: render_def)

lemma Join_Nil_iff: "list_all plain_part cs \<Longrightarrow> JoinWith ''/'' cs = [] \<longleftrightarrow> cs = []"
  using Join_head [of cs "''/''"] by (cases cs) (auto simp: plain_part_def)

lemma Split_Join_plain:
  "list_all plain_part cs \<Longrightarrow> cs \<noteq> [] \<Longrightarrow> SplitChar CHR ''/'' (JoinWith ''/'' cs) = cs"
  using Split_Join [of cs "CHR ''/''"] by (auto simp: list_all_iff plain_part_def)

lemma parts_of_render:
  assumes "clean_shape r cs"
  shows "parts_of (render r cs) = cs"
proof -
  have plain: "list_all plain_part cs" using assms by (rule clean_shape_plain)
  have abs: "IsAbs (render r cs) = r" using assms by (rule IsAbs_render)
  show ?thesis
  proof (cases "cs = []")
    case True
    then show ?thesis by (simp add: parts_of_def render_def)
  next
    case False
    have "clean_parts r [] cs = cs" using clean_parts_fixed [of r "[]" cs] assms by simp
    with False abs plain show ?thesis
      by (cases r) (simp_all add: parts_of_def render_def Split_Join_plain)
  qed
qed

lemma parts_of_Clean [simp]: "parts_of (Clean p) = parts_of p"
  using parts_of_render [OF parts_of_shape [of p]] by (simp add: Clean_render)

lemma IsAbs_Clean [simp]: "IsAbs (Clean p) = IsAbs p"
  using IsAbs_render [OF parts_of_shape [of p]] by (simp add: Clean_render)

lemma abs_not_dot: "IsAbs t \<Longrightarrow> Clean t \<noteq> ''.''"
  by (auto simp: Clean_render render_def)

lemma Clean_eq_iff: "Clean p = Clean q \<longleftrightarrow> IsAbs p = IsAbs q \<and> parts_of p = parts_of q"
proof
  assume e: "Clean p = Clean q"
  have "IsAbs (Clean p) = IsAbs (Clean q)" "parts_of (Clean p) = parts_of (Clean q)"
    by (simp_all only: e)
  then show "IsAbs p = IsAbs q \<and> parts_of p = parts_of q" by simp
qed (simp add: Clean_render)

lemma strip_common_prefix: "prefix bs ts \<Longrightarrow> strip_common bs ts = ([], drop (length bs) ts)"
  by (induction bs ts rule: strip_common.induct) auto

lemma strip_common_other: "\<not> prefix bs ts \<Longrightarrow> fst (strip_common bs ts) \<noteq> []"
  by (induction bs ts rule: strip_common.induct) auto

lemma strip_common_sub:
  "set (fst (strip_common bs ts)) \<subseteq> set bs \<and> set (snd (strip_common bs ts)) \<subseteq> set ts"
  by (induction bs ts rule: strip_common.induct) auto

text \<open>On absolute paths: inside a root means below it, component by component.\<close>

lemma Rel_abs_inside:
  assumes "IsAbs b" and "IsAbs t" and "prefix (parts_of b) (parts_of t)"
  shows "Rel b t = Some (if parts_of t = parts_of b then ''.''
                         else JoinWith ''/'' (drop (length (parts_of b)) (parts_of t)))"
proof -
  have "Clean t \<noteq> ''.''" using assms(2) by (rule abs_not_dot)
  with assms show ?thesis by (simp add: Rel_def Let_def Clean_eq_iff strip_common_prefix)
qed

lemma JoinWith_dotdot: "HasPrefix (JoinWith ''/'' (''..'' # cs)) ''../'' \<or> JoinWith ''/'' (''..'' # cs) = ''..''"
  by (cases cs) auto

lemma inside_abs:
  assumes b: "IsAbs b" and t: "IsAbs t"
  shows "inside b t \<longleftrightarrow> prefix (parts_of b) (parts_of t)"
proof (cases "prefix (parts_of b) (parts_of t)")
  case True
  have plain: "list_all plain_part (drop n (parts_of t))" for n
    using clean_shape_plain [OF parts_of_shape [of t]] by (auto simp: list_all_iff dest: in_set_dropD)
  have nodots: "''..'' \<notin> set (drop n (parts_of t))" for n
    using rooted_no_dotdot [OF t] by (auto dest: in_set_dropD)
  have "\<not> escapes (JoinWith ''/'' ds)" if "list_all plain_part ds" "''..'' \<notin> set ds" for ds
  proof (cases ds)
    case (Cons d es)
    from that Cons have d: "d \<noteq> []" "CHR ''/'' \<notin> set d" "d \<noteq> ''..''" by (auto simp: plain_part_def)
    have one: "JoinWith ''/'' ds = d @ (if es = [] then [] else ''/'' @ JoinWith ''/'' es)"
      using Cons by (cases es) auto
    have parts: "SplitChar CHR ''/'' (JoinWith ''/'' ds) = ds"
      using that Cons by (simp add: Split_Join_plain)
    have "\<not> IsAbs (JoinWith ''/'' ds)" using d one by (cases d) auto
    moreover have "JoinWith ''/'' ds \<noteq> ''..''"
    proof
      assume "JoinWith ''/'' ds = ''..''"
      with parts have "ds = [''..'']" by simp
      with Cons d show False by simp
    qed
    moreover have "\<not> HasPrefix (JoinWith ''/'' ds) ''../''"
    proof
      assume "HasPrefix (JoinWith ''/'' ds) ''../''"
      then obtain w where "JoinWith ''/'' ds = ''..'' @ CHR ''/'' # w" by (auto simp: HasPrefix_iff)
      with parts have "ds = ''..'' # SplitChar CHR ''/'' w"
        using SplitChar_append_gen [of "CHR ''/''" "''..''" w] by simp
      with Cons d show False by simp
    qed
    ultimately show ?thesis by (simp add: escapes_def)
  qed (simp add: escapes_def)
  with plain nodots have "\<not> escapes (JoinWith ''/'' (drop n (parts_of t)))" for n by blast
  with True show ?thesis
    using Rel_abs_inside [OF b t True] by (simp add: inside_def escapes_def)
next
  case False
  then have ne: "Clean t \<noteq> Clean b" by (auto simp: Clean_eq_iff)
  have dot: "Clean t \<noteq> ''.''" using t by (rule abs_not_dot)
  obtain bs ts where st: "strip_common (parts_of b) (parts_of t) = (bs, ts)" by force
  have "bs \<noteq> []" using strip_common_other [OF False] st by simp
  then obtain c bs' where bs: "bs = c # bs'" by (cases bs) auto
  have "set bs \<subseteq> set (parts_of b)" using strip_common_sub [of "parts_of b" "parts_of t"] st by simp
  with rooted_no_dotdot [OF b] bs have "hd bs \<noteq> ''..''" by auto
  with ne dot st b t have "Rel b t = Some (JoinWith ''/'' (''..'' # (replicate (length bs') ''..'' @ ts)))"
    by (simp add: Rel_def Let_def bs)
  with False JoinWith_dotdot show ?thesis by (auto simp: inside_def escapes_def)
qed

lemma clean_parts_append:
  "clean_parts r acc (xs @ ys) = clean_parts r (rev (clean_parts r acc xs)) ys"
  by (induction r acc xs rule: clean_parts.induct) (auto split: list.splits)

text \<open>Joining clean components below a root appends them to the root's.\<close>

lemma Join2_parts:
  assumes "a \<noteq> []" and "clean_shape (IsAbs a) (parts_of a @ ds)" and "ds \<noteq> []"
  shows "Join2 a (JoinWith ''/'' ds) = render (IsAbs a) (parts_of a @ ds)"
proof -
  have plain: "list_all plain_part ds" using clean_shape_plain [OF assms(2)] by simp
  have "SplitChar CHR ''/'' (a @ CHR ''/'' # JoinWith ''/'' ds) = SplitChar CHR ''/'' a @ ds"
    by (simp add: SplitChar_append_gen Split_Join_plain plain assms(3))
  moreover have abs: "IsAbs (a @ CHR ''/'' # JoinWith ''/'' ds) = IsAbs a"
    using assms(1) by (cases a) auto
  ultimately have "parts_of (a @ CHR ''/'' # JoinWith ''/'' ds) = clean_parts (IsAbs a) (rev (parts_of a)) ds"
    by (simp add: parts_of_def clean_parts_append)
  also have "\<dots> = parts_of a @ ds" using clean_parts_fixed [of "IsAbs a" "rev (parts_of a)" ds] assms(2) by simp
  finally show ?thesis using assms(1) abs by (simp add: Join2_def Clean_render)
qed

lemma Join2_empty: "a \<noteq> [] \<Longrightarrow> Join2 a [] = Clean a"
proof -
  assume a: "a \<noteq> []"
  have "SplitChar CHR ''/'' (a @ ''/'') = SplitChar CHR ''/'' a @ [[]]"
    using SplitChar_append_gen [of "CHR ''/''" a "[]"] by simp
  then have "parts_of (a @ ''/'') = clean_parts (IsAbs (a @ ''/'')) [] (SplitChar CHR ''/'' a @ [[]])"
    by (simp add: parts_of_def)
  moreover have "IsAbs (a @ ''/'') = IsAbs a" using a by (cases a) auto
  ultimately have "parts_of (a @ ''/'') = parts_of a"
    by (simp add: clean_parts_append parts_of_def)
  with a \<open>IsAbs (a @ ''/'') = IsAbs a\<close> show ?thesis by (simp add: Join2_def Clean_render)
qed

section \<open>Mapping between host and container\<close>

datatype path_error =
  NotCovered string | EscapesTarget string | NoWorkingDir | EmptyPath | ForbiddenPath string
| ForbiddenRoot string | NotAccessible string | RootNotAllowed string | OutsideRoots string
| UnreadableLink string | UnresolvedLink string | LinkOutside string | WalkFailed

definition from_root :: "bool \<Rightarrow> path_mapping \<Rightarrow> string" where
  "from_root reverse m = Clean (if reverse then map_runtime_path m else map_host_path m)"

definition target_root :: "bool \<Rightarrow> path_mapping \<Rightarrow> string" where
  "target_root reverse m = (if reverse then map_host_path m else map_runtime_path m)"

text \<open>The loop over the mappings: the longest root that holds the path wins, the first of equal ones.\<close>

fun best_mapping :: "bool \<Rightarrow> string \<Rightarrow> path_mapping list \<Rightarrow> path_mapping option \<Rightarrow> path_mapping option" where
  "best_mapping reverse clean [] best = best"
| "best_mapping reverse clean (m # ms) best =
     (if \<not> inside (from_root reverse m) clean then best_mapping reverse clean ms best
      else if (case best of None \<Rightarrow> True
               | Some b \<Rightarrow> length (from_root reverse b) < length (from_root reverse m))
      then best_mapping reverse clean ms (Some m)
      else best_mapping reverse clean ms best)"

definition mapPath :: "string \<Rightarrow> path_mapping list \<Rightarrow> bool \<Rightarrow> path_error + string" where
  "mapPath p mappings reverse =
     (if mappings = [] then Inr p
      else let clean = Clean p in
      case best_mapping reverse clean mappings None of
        None \<Rightarrow> if reverse then Inr p else Inl (NotCovered p)
      | Some m \<Rightarrow>
          (case Rel (from_root reverse m) clean of
             None \<Rightarrow> Inl (NotCovered p)
           | Some rel0 \<Rightarrow>
               let rel = (if rel0 = ''.'' then [] else rel0);
                   target = Clean (Join2 (target_root reverse m) rel) in
               if inside (Clean (target_root reverse m)) target then Inr target
               else Inl (EscapesTarget p)))"

lemma best_mapping_in:
  "best_mapping reverse clean ms best = Some m \<Longrightarrow>
     best = Some m \<or> m \<in> set ms \<and> inside (from_root reverse m) clean"
  by (induction reverse clean ms best rule: best_mapping.induct) (auto split: if_splits)

lemma best_mapping_keeps:
  "best_mapping reverse clean ms (Some b) = Some m \<Longrightarrow>
     length (from_root reverse b) \<le> length (from_root reverse m)"
proof (induction ms arbitrary: b)
  case (Cons x ms)
  show ?case
  proof (cases "inside (from_root reverse x) clean \<and> length (from_root reverse b) < length (from_root reverse x)")
    case True
    with Cons.prems have "best_mapping reverse clean ms (Some x) = Some m" by simp
    from Cons.IH [OF this] True show ?thesis by linarith
  next
    case False
    with Cons.prems have "best_mapping reverse clean ms (Some b) = Some m" by (auto split: if_splits)
    then show ?thesis by (rule Cons.IH)
  qed
qed simp

lemma best_mapping_longest:
  "best_mapping reverse clean ms best = Some m \<Longrightarrow> x \<in> set ms \<Longrightarrow>
     inside (from_root reverse x) clean \<Longrightarrow> length (from_root reverse x) \<le> length (from_root reverse m)"
proof (induction ms arbitrary: best)
  case (Cons y ms)
  obtain best' where rest: "best_mapping reverse clean ms best' = Some m"
    and here: "inside (from_root reverse y) clean \<Longrightarrow>
      \<exists>b. best' = Some b \<and> length (from_root reverse y) \<le> length (from_root reverse b)"
  proof (cases "inside (from_root reverse y) clean \<and>
      (case best of None \<Rightarrow> True | Some b \<Rightarrow> length (from_root reverse b) < length (from_root reverse y))")
    case True
    with Cons.prems(1) that [of "Some y"] show ?thesis by (simp split: option.splits)
  next
    case False
    with Cons.prems(1) that [of best] show ?thesis by (auto split: option.splits if_splits)
  qed
  show ?case
  proof (cases "x = y")
    case True
    with here Cons.prems(3) obtain b where b: "best' = Some b"
      "length (from_root reverse x) \<le> length (from_root reverse b)" by blast
    with rest best_mapping_keeps [of reverse clean ms b m] show ?thesis by simp
  next
    case False
    with Cons.prems Cons.IH [OF rest] show ?thesis by simp
  qed
qed simp

lemma best_mapping_None:
  "best_mapping reverse clean ms best = None \<longleftrightarrow>
     best = None \<and> (\<forall>x\<in>set ms. \<not> inside (from_root reverse x) clean)"
  by (induction reverse clean ms best rule: best_mapping.induct) (auto split: option.splits)

text \<open>What a mapped path is, for absolute paths and roots.\<close>

lemma below_shape:
  assumes "IsAbs t" and "IsAbs p"
  shows "clean_shape True (parts_of t @ drop n (parts_of p))"
proof -
  have "list_all plain_part (parts_of t @ drop n (parts_of p))"
    using clean_shape_plain [OF parts_of_shape [of p]] clean_shape_plain [OF parts_of_shape [of t]]
    by (auto simp: list_all_iff dest: in_set_dropD)
  moreover have "''..'' \<notin> set (parts_of t @ drop n (parts_of p))"
    using rooted_no_dotdot [OF assms(1)] rooted_no_dotdot [OF assms(2)] by (auto dest: in_set_dropD)
  ultimately show ?thesis by (cases "parts_of t @ drop n (parts_of p)") auto
qed

lemma mapped_parts:
  assumes m: "m \<in> set mappings"
    and abs: "IsAbs p" "IsAbs (from_root reverse m)" "IsAbs (target_root reverse m)"
    and best: "best_mapping reverse (Clean p) mappings None = Some m"
  shows "mapPath p mappings reverse =
           Inr (render True (parts_of (target_root reverse m) @
                             drop (length (parts_of (from_root reverse m))) (parts_of p)))"
proof -
  define b where "b = from_root reverse m"
  define t where "t = target_root reverse m"
  define ds where "ds = drop (length (parts_of b)) (parts_of p)"
  have ab: "IsAbs b" and at: "IsAbs t" using abs by (simp_all add: b_def t_def)
  have "inside b (Clean p)" using best_mapping_in [OF best] by (simp add: b_def)
  then have pre: "prefix (parts_of b) (parts_of p)" using inside_abs [OF ab, of "Clean p"] abs by simp
  have rel: "Rel b (Clean p) = Some (if ds = [] then ''.'' else JoinWith ''/'' ds)"
    using Rel_abs_inside [of b "Clean p"] ab abs pre by (auto simp: ds_def elim!: prefixE)
  have shape: "clean_shape True (parts_of t @ ds)" "clean_shape True ds"
    using below_shape [OF at abs(1), of "length (parts_of b)"] below_shape [of "''/''" p "length (parts_of b)"] abs(1)
    by (simp_all add: ds_def parts_of_def)
  have t0: "t \<noteq> []" using at by auto
  have notdot: "JoinWith ''/'' ds \<noteq> ''.''" using clean_shape_not_dot [OF shape(2)] by blast
  have joined: "Clean (Join2 t (if ds = [] then [] else JoinWith ''/'' ds)) = render True (parts_of t @ ds)"
  proof (cases "ds = []")
    case True
    with t0 at show ?thesis by (simp add: Join2_empty) (simp add: Clean_render)
  next
    case False
    then show ?thesis using Join2_parts [OF t0, of ds] shape at by (simp add: Clean_of_render)
  qed
  have "inside (Clean t) (render True (parts_of t @ ds))"
    using inside_abs [of "Clean t" "render True (parts_of t @ ds)"] at shape
    by (simp add: IsAbs_render parts_of_render)
  with m best rel joined notdot show ?thesis
    by (auto simp: mapPath_def Let_def b_def [symmetric] t_def [symmetric] ds_def [symmetric])
qed

text \<open>
  A path that is mapped stays below the root it is mapped to.  For an absolute path and mappings
  between absolute roots, a mapping of the list with the longest root above the path is taken, and
  the result is that mapping's target root followed by what is left of the path: no \<open>..\<close> of the path
  can leave it.  A path no mapping covers is refused towards the container.
\<close>

theorem mapped_path_stays_inside:
  assumes "mappings \<noteq> []" and "IsAbs p"
    and "list_all (\<lambda>m. IsAbs (map_host_path m) \<and> IsAbs (map_runtime_path m)) mappings"
  shows "(case mapPath p mappings False of
            Inl e \<Rightarrow> e = NotCovered p \<and>
                     (\<forall>m\<in>set mappings. \<not> prefix (parts_of (map_host_path m)) (parts_of p))
          | Inr q \<Rightarrow> \<exists>m\<in>set mappings. \<exists>rest.
                     parts_of p = parts_of (map_host_path m) @ rest \<and>
                     q = render True (parts_of (map_runtime_path m) @ rest) \<and>
                     parts_of q = parts_of (map_runtime_path m) @ rest \<and> ''..'' \<notin> set (parts_of q) \<and>
                     (\<forall>x\<in>set mappings. prefix (parts_of (map_host_path x)) (parts_of p) \<longrightarrow>
                        length (Clean (map_host_path x)) \<le> length (Clean (map_host_path m))))"
proof -
  have in_iff: "inside (from_root False m) (Clean p) \<longleftrightarrow> prefix (parts_of (map_host_path m)) (parts_of p)"
    if "m \<in> set mappings" for m
    using that assms inside_abs [of "from_root False m" "Clean p"]
    by (auto simp: from_root_def list_all_iff)
  show ?thesis
  proof (cases "best_mapping False (Clean p) mappings None")
    case None
    then have "\<forall>m\<in>set mappings. \<not> prefix (parts_of (map_host_path m)) (parts_of p)"
      using in_iff by (auto simp: best_mapping_None)
    with None assms(1) show ?thesis by (simp add: mapPath_def Let_def)
  next
    case (Some m)
    from best_mapping_in [OF Some] have m: "m \<in> set mappings" "inside (from_root False m) (Clean p)"
      by auto
    have abs: "IsAbs (map_host_path m)" "IsAbs (map_runtime_path m)"
      using assms(3) m by (auto simp: list_all_iff)
    obtain rest where rest: "parts_of p = parts_of (map_host_path m) @ rest"
      using in_iff m by (auto elim: prefixE)
    define q where "q = render True (parts_of (map_runtime_path m) @ rest)"
    have q: "mapPath p mappings False = Inr q"
      using mapped_parts [OF m(1) assms(2) _ _ Some] abs rest
      by (simp add: q_def from_root_def target_root_def)
    have shape: "clean_shape True (parts_of (map_runtime_path m) @ rest)"
      using below_shape [OF abs(2) assms(2), of "length (parts_of (map_host_path m))"] rest by simp
    then have parts: "parts_of q = parts_of (map_runtime_path m) @ rest" by (simp add: q_def parts_of_render)
    have nodots: "''..'' \<notin> set (parts_of q)"
      using rooted_no_dotdot [of q] by (simp add: q_def IsAbs_render shape)
    have "\<forall>x\<in>set mappings. prefix (parts_of (map_host_path x)) (parts_of p) \<longrightarrow>
            length (Clean (map_host_path x)) \<le> length (Clean (map_host_path m))"
      using best_mapping_longest [OF Some] in_iff by (auto simp: from_root_def)
    with q m rest parts nodots show ?thesis by (auto simp: q_def)
  qed
qed

definition demo_mapping :: path_mapping where
  "demo_mapping = \<lparr>map_host_path = ''/srv'', map_runtime_path = ''/h'', map_read_only = True\<rparr>"

theorem mapped_path_stays_inside_witness:
  "mapPath ''/srv/data/../../etc'' [demo_mapping] False = Inl (NotCovered ''/srv/data/../../etc'') \<and>
   (case mapPath ''/srv/a/../x'' [demo_mapping] False of Inl _ \<Rightarrow> False | Inr q \<Rightarrow> ''..'' \<notin> set (parts_of q))"
proof -
  have "list_all (\<lambda>m. IsAbs (map_host_path m) \<and> IsAbs (map_runtime_path m)) [demo_mapping]"
    by (simp add: demo_mapping_def)
  note use = mapped_path_stays_inside [OF _ _ this]
  have "mapPath ''/srv/data/../../etc'' [demo_mapping] False = Inl (NotCovered ''/srv/data/../../etc'')"
    using use [of "''/srv/data/../../etc''"]
    by (cases "mapPath ''/srv/data/../../etc'' [demo_mapping] False") (auto simp: demo_mapping_def parts_of_def)
  moreover have "(case mapPath ''/srv/a/../x'' [demo_mapping] False of Inl _ \<Rightarrow> False | Inr q \<Rightarrow> ''..'' \<notin> set (parts_of q))"
    using use [of "''/srv/a/../x''"]
    by (cases "mapPath ''/srv/a/../x'' [demo_mapping] False") (auto simp: demo_mapping_def parts_of_def)
  ultimately show ?thesis ..
qed

text \<open>C23: 
  Mapping a host path into the container and the result back gives the cleaned host path, for one
  mapping between absolute roots.
\<close>

theorem mapping_round_trip:
  assumes "IsAbs p" and "IsAbs (map_host_path m)" and "IsAbs (map_runtime_path m)"
    and "mapPath p [m] False = Inr q"
  shows "mapPath q [m] True = Inr (Clean p)"
proof -
  have host: "IsAbs (from_root r m)" and tgt: "IsAbs (target_root r m)" for r
    using assms by (simp_all add: from_root_def target_root_def)
  have best: "best_mapping False (Clean p) [m] None = Some m"
    using assms(4) by (auto simp: mapPath_def Let_def split: if_splits)
  define ds where "ds = drop (length (parts_of (map_host_path m))) (parts_of p)"
  have q: "q = render True (parts_of (map_runtime_path m) @ ds)"
    using mapped_parts [of m "[m]" p False] assms host tgt best
    by (simp add: from_root_def target_root_def ds_def)
  have shape: "clean_shape True (parts_of (map_runtime_path m) @ ds)"
    unfolding ds_def using assms by (intro below_shape)
  then have parts: "parts_of q = parts_of (map_runtime_path m) @ ds" and "IsAbs q"
    by (simp_all add: q parts_of_render IsAbs_render)
  have again: "best_mapping True (Clean q) [m] None = Some m"
    using inside_abs [of "from_root True m" "Clean q"] host [of True] parts \<open>IsAbs q\<close> assms(3) by (simp add: from_root_def)
  have "inside (from_root False m) (Clean p)" using best by (simp split: if_splits)
  then have "prefix (parts_of (map_host_path m)) (parts_of p)"
    using inside_abs [of "from_root False m" "Clean p"] host [of False] assms(1) by (simp add: from_root_def)
  then have "parts_of (map_host_path m) @ ds = parts_of p" by (auto simp: ds_def elim: prefixE)
  moreover have "mapPath q [m] True =
      Inr (render True (parts_of (map_host_path m) @ drop (length (parts_of (map_runtime_path m))) (parts_of q)))"
    using mapped_parts [OF _ \<open>IsAbs q\<close> host tgt again] by (simp add: from_root_def target_root_def)
  ultimately show ?thesis using assms(1) by (simp add: parts) (simp add: Clean_render)
qed

theorem mapping_round_trip_witness:
  "mapPath ''/h/a'' [demo_mapping] True = Inr (Clean ''/srv/./a'')"
proof (rule mapping_round_trip)
  show "mapPath ''/srv/./a'' [demo_mapping] False = Inr ''/h/a''" by code_simp
qed (simp_all add: demo_mapping_def)

section \<open>Paths in messages for people\<close>

fun Index :: "string \<Rightarrow> string \<Rightarrow> nat option" where
  "Index [] p = (if p = [] then Some 0 else None)"
| "Index (c # s) p = (if HasPrefix (c # s) p then Some 0 else map_option Suc (Index s p))"

definition isPathBoundary :: "char \<Rightarrow> char \<Rightarrow> bool" where
  "isPathBoundary ch sep \<longleftrightarrow>
     ch \<in> {sep, CHR ''/'', CHR 0x5C, CHR '' '', CHR 0x09, CHR 0x0A, CHR '':'', CHR ''('', CHR '')'',
           CHR ''['', CHR '']'', CHR '','', CHR '';''}"

lemma Index_split: "Index s p = Some i \<Longrightarrow> \<exists>u v. s = u @ p @ v \<and> length u = i"
proof (induction s arbitrary: i)
  case (Cons c s)
  show ?case
  proof (cases "HasPrefix (c # s) p")
    case True
    with Cons.prems show ?thesis by (auto simp: HasPrefix_iff)
  next
    case False
    with Cons obtain j u v where "i = Suc j" "s = u @ p @ v" "length u = j" by auto
    then have "c # s = (c # u) @ p @ v \<and> length (c # u) = i" by simp
    then show ?thesis by blast
  qed
qed (auto split: if_splits)

lemma Index_shrinks: "Index s p = Some i \<Longrightarrow> p \<noteq> [] \<Longrightarrow> length s - (i + length p) < length s"
  by (cases p) (auto dest: Index_split)

text \<open>
  The loop of \<open>replacePathBoundary\<close>: what lies before the index \<open>start\<close> is the first argument, what
  lies behind it the second.
\<close>

function replace_from :: "string \<Rightarrow> string \<Rightarrow> char \<Rightarrow> string \<Rightarrow> string \<Rightarrow> string" where
  "replace_from old new sep before rest =
     (if old = [] then before @ rest
      else case Index rest old of
        None \<Rightarrow> before @ rest
      | Some i \<Rightarrow>
          let pre = before @ take i rest; post = drop (i + length old) rest;
              beforeOK = (pre = [] \<or> isPathBoundary (last pre) sep);
              afterOK = (post = [] \<or> isPathBoundary (hd post) sep) in
          replace_from old new sep (pre @ (if beforeOK \<and> afterOK then new else old)) post)"
  by pat_completeness auto

termination
  by (relation "measure (\<lambda>(old, new, sep, before, rest). length rest)") (auto dest: Index_shrinks)

declare replace_from.simps [simp del]

definition replacePathBoundary :: "string \<Rightarrow> string \<Rightarrow> string \<Rightarrow> char \<Rightarrow> string" where
  "replacePathBoundary txt old new sep =
     (if old = [] \<or> old = ''.'' \<or> \<not> Contains txt old then txt else replace_from old new sep [] txt)"

fun HostDisplayText :: "string \<Rightarrow> path_mapping list \<Rightarrow> string" where
  "HostDisplayText txt [] = txt"
| "HostDisplayText txt (m # ms) =
     (let runtime = Clean (map_runtime_path m); host = Clean (map_host_path m);
          t1 = replacePathBoundary txt runtime host CHR ''/'';
          t2 = replacePathBoundary t1 runtime host CHR 0x5C in
      HostDisplayText t2 ms)"

section \<open>Rewriting the sources of a backup\<close>

definition usable_root :: "string \<Rightarrow> bool" where
  "usable_root root \<longleftrightarrow> Clean root \<noteq> ''/'' \<and> IsAbs (Clean root)"

fun implicitSourceMapping :: "string list \<Rightarrow> path_mapping list" where
  "implicitSourceMapping [] = []"
| "implicitSourceMapping (root # roots) =
     (if usable_root root
      then [\<lparr>map_host_path = ''/'', map_runtime_path = Clean root, map_read_only = False\<rparr>]
      else implicitSourceMapping roots)"

definition pathWithinAnyRoot :: "string \<Rightarrow> string list \<Rightarrow> bool" where
  "pathWithinAnyRoot p roots \<longleftrightarrow>
     IsAbs (Clean p) \<and>
     list_ex (\<lambda>root. usable_root root \<and> (Clean p = Clean root \<or> HasPrefix (Clean p) (Clean root @ ''/''))) roots"

definition map_source_path :: "path_mapping list \<Rightarrow> string list \<Rightarrow> string \<Rightarrow> path_error + string" where
  "map_source_path mappings roots p =
     (if mappings = [] \<and> pathWithinAnyRoot p roots then Inr p
      else mapPath p (if mappings = [] then implicitSourceMapping roots else mappings) False)"

fun map_all :: "('a \<Rightarrow> 'e + 'b) \<Rightarrow> 'a list \<Rightarrow> 'e + 'b list" where
  "map_all f [] = Inr []"
| "map_all f (x # xs) =
     (case f x of Inl e \<Rightarrow> Inl e
      | Inr y \<Rightarrow> (case map_all f xs of Inl e \<Rightarrow> Inl e | Inr ys \<Rightarrow> Inr (y # ys)))"

definition mapBackupSource ::
  "kind \<Rightarrow> plan_source \<Rightarrow> path_mapping list \<Rightarrow> string list \<Rightarrow> path_error + plan_source" where
  "mapBackupSource k src mappings roots =
     (let one = map_source_path mappings roots in
      case map_all one (src_paths src) of
        Inl e \<Rightarrow> Inl e
      | Inr ps \<Rightarrow>
          (case map_all (\<lambda>p. if IsAbs p then one p else Inr p) (src_excludes src) of
             Inl e \<Rightarrow> Inl e
           | Inr es \<Rightarrow>
               let src' = src\<lparr>src_paths := ps, src_excludes := es\<rparr> in
               if k = KindSQLite
               then (case one (src_path src) of Inl e \<Rightarrow> Inl e | Inr p \<Rightarrow> Inr (src'\<lparr>src_path := p\<rparr>))
               else Inr src'))"

lemma slash_prefix:
  assumes "IsAbs p" and "IsAbs r" and "Clean r \<noteq> ''/''"
  shows "HasPrefix (Clean p) (Clean r @ ''/'') \<longleftrightarrow> strict_prefix (parts_of r) (parts_of p)"
proof -
  have "parts_of r \<noteq> []" using assms by (auto simp: Clean_render render_def)
  with assms show ?thesis
    using Join_prefix [OF clean_shape_plain [OF parts_of_shape [of p]] clean_shape_plain [OF parts_of_shape [of r]]]
    by (simp add: Clean_render render_def)
qed

lemma implicit_root:
  "list_ex usable_root roots \<Longrightarrow>
     \<exists>root\<in>set roots. usable_root root \<and>
       implicitSourceMapping roots = [\<lparr>map_host_path = ''/'', map_runtime_path = Clean root, map_read_only = False\<rparr>]"
  by (induction roots) auto

text \<open>
  Without configured mappings every absolute source path ends up below a source root: a path
  already inside one is kept, any other is mirrored below the first usable root, so that \<open>/etc\<close>
  of the host is read as \<open>/backup-sources/etc\<close>.  It is never refused.
\<close>

theorem mirrored_sources_stay_below_a_root:
  assumes "IsAbs p" and "list_ex usable_root roots"
  shows "\<exists>q. map_source_path [] roots p = Inr q \<and> IsAbs q \<and>
           list_ex (\<lambda>root. usable_root root \<and> prefix (parts_of root) (parts_of q)) roots \<and>
           (parts_of q = parts_of p \<or> list_ex (\<lambda>root. parts_of q = parts_of root @ parts_of p) roots)"
proof (cases "pathWithinAnyRoot p roots")
  case True
  then obtain root where root: "root \<in> set roots" "usable_root root"
    "Clean p = Clean root \<or> HasPrefix (Clean p) (Clean root @ ''/'')"
    by (auto simp: pathWithinAnyRoot_def list_ex_iff)
  then have "prefix (parts_of root) (parts_of p)"
    using slash_prefix [OF assms(1), of root] by (auto simp: usable_root_def Clean_eq_iff strict_prefix_def)
  with True root assms(1) show ?thesis by (auto simp: map_source_path_def list_ex_iff)
next
  case False
  obtain root where root: "root \<in> set roots" "usable_root root"
    and impl: "implicitSourceMapping roots = [\<lparr>map_host_path = ''/'', map_runtime_path = Clean root, map_read_only = False\<rparr>]"
    using implicit_root [OF assms(2)] by blast
  define m where "m = \<lparr>map_host_path = ''/'', map_runtime_path = Clean root, map_read_only = False\<rparr>"
  have abs: "IsAbs (from_root False m)" "IsAbs (target_root False m)" "IsAbs root"
    using root(2) by (auto simp: m_def from_root_def target_root_def usable_root_def)
  have none: "parts_of (from_root False m) = []" by (simp add: m_def from_root_def parts_of_def)
  then have "inside (from_root False m) (Clean p)"
    using inside_abs [OF abs(1), of "Clean p"] assms(1) by simp
  then have "best_mapping False (Clean p) [m] None = Some m" by simp
  from mapped_parts [OF _ assms(1) abs(1,2) this] none
  have q: "map_source_path [] roots p = Inr (render True (parts_of root @ parts_of p))"
    using False impl by (simp add: map_source_path_def m_def target_root_def)
  have shape: "clean_shape True (parts_of root @ parts_of p)"
    using below_shape [OF abs(3) assms(1), of 0] by simp
  have parts: "parts_of (render True (parts_of root @ parts_of p)) = parts_of root @ parts_of p"
    and rooted: "IsAbs (render True (parts_of root @ parts_of p))"
    using shape by (simp_all add: parts_of_render IsAbs_render)
  have "list_ex (\<lambda>root'. usable_root root' \<and> prefix (parts_of root') (parts_of root @ parts_of p)) roots"
    using root by (auto simp: list_ex_iff)
  moreover have "list_ex (\<lambda>root'. parts_of root @ parts_of p = parts_of root' @ parts_of p) roots"
    using root(1) by (auto simp: list_ex_iff)
  ultimately show ?thesis using q parts rooted by auto
qed

theorem mirrored_sources_stay_below_a_root_witness:
  "\<exists>q. map_source_path [] [''/'', ''/backup-sources''] ''/etc'' = Inr q \<and> IsAbs q"
proof -
  have "usable_root ''/backup-sources''" by code_simp
  then have "list_ex usable_root [''/'', ''/backup-sources'']" by simp
  from mirrored_sources_stay_below_a_root [OF _ this, of "''/etc''"] show ?thesis by auto
qed

section \<open>Allow lists\<close>

text \<open>
  The answers of the file system: the working directory, the path a path resolves to when every link
  is followed, whether something has this name, what a link says, and the listing below a directory.
\<close>

datatype entry_kind = Directory | Regular | Symlink | Special

record files =
  working_dir :: "string option"
  EvalSymlinks :: "string \<Rightarrow> string option"
  Lstat :: "string \<Rightarrow> bool"
  Readlink :: "string \<Rightarrow> string option"
  WalkDir :: "string \<Rightarrow> (string \<times> entry_kind) option list"

definition Abs :: "files \<Rightarrow> string \<Rightarrow> string option" where
  "Abs fs p = (if IsAbs p then Some (Clean p) else map_option (\<lambda>wd. Join2 wd p) (working_dir fs))"

definition forbidden :: "string \<Rightarrow> bool" where
  "forbidden absolute \<longleftrightarrow>
     (let c = Clean absolute in c = ''/'' \<or> HasSuffix c ''/var/run/docker.sock'' \<or> c = ''/docker.sock'')"

fun check_forbidden :: "files \<Rightarrow> string list \<Rightarrow> path_error option" where
  "check_forbidden fs [] = None"
| "check_forbidden fs (p # ps) =
     (if p = [] then Some EmptyPath
      else case Abs fs (Clean p) of
        None \<Rightarrow> Some NoWorkingDir
      | Some a \<Rightarrow> if forbidden a then Some (ForbiddenPath p) else check_forbidden fs ps)"

definition clean_root :: "files \<Rightarrow> string \<Rightarrow> path_error + string" where
  "clean_root fs root =
     (case Abs fs (Clean root) of
        None \<Rightarrow> Inl NoWorkingDir
      | Some a \<Rightarrow>
          if forbidden a then Inl (ForbiddenRoot root)
          else Inr (Clean (case EvalSymlinks fs a of Some r \<Rightarrow> r | None \<Rightarrow> a)))"

text \<open>The loop that climbs to the nearest existing parent; it returns nothing if it never ends.\<close>

partial_function (option) climb ::
  "files \<Rightarrow> string \<Rightarrow> string list \<Rightarrow> string \<Rightarrow> (path_error + string) option" where
  "climb fs start missing cur =
     (if Lstat fs cur
      then Some (case EvalSymlinks fs cur of
                   None \<Rightarrow> Inl (NotAccessible start)
                 | Some r \<Rightarrow> Inr (Clean (fold (\<lambda>m acc. Join2 acc m) (rev missing) r)))
      else if Dir cur = cur then Some (Inr start)
      else climb fs start (missing @ [Base cur]) (Dir cur))"

declare climb.simps [code]

definition resolvePathForCheck :: "files \<Rightarrow> string \<Rightarrow> bool \<Rightarrow> (path_error + string) option" where
  "resolvePathForCheck fs a allowMissing =
     (case EvalSymlinks fs a of
        Some r \<Rightarrow> Some (Inr (Clean r))
      | None \<Rightarrow> if \<not> allowMissing then Some (Inl (NotAccessible a)) else climb fs a [] a)"

fun check_inside :: "files \<Rightarrow> string list \<Rightarrow> bool \<Rightarrow> string list \<Rightarrow> path_error option option" where
  "check_inside fs roots allowMissing [] = Some None"
| "check_inside fs roots allowMissing (p # ps) =
     (if p = [] then Some (Some EmptyPath)
      else case Abs fs (Clean p) of
        None \<Rightarrow> Some (Some NoWorkingDir)
      | Some a \<Rightarrow>
          (case resolvePathForCheck fs a allowMissing of
             None \<Rightarrow> None
           | Some (Inl e) \<Rightarrow> Some (Some (NotAccessible p))
           | Some (Inr r) \<Rightarrow>
               if r = ''/'' then Some (Some (RootNotAllowed p))
               else if list_ex (\<lambda>root. inside root r) roots then check_inside fs roots allowMissing ps
               else Some (Some (OutsideRoots p))))"

definition validateAllowedPaths ::
  "files \<Rightarrow> string list \<Rightarrow> string list \<Rightarrow> bool \<Rightarrow> path_error option option" where
  "validateAllowedPaths fs paths roots allowMissing =
     (case check_forbidden fs paths of
        Some e \<Rightarrow> Some (Some e)
      | None \<Rightarrow>
          if roots = [] then Some None
          else case map_all (clean_root fs) roots of
            Inl e \<Rightarrow> Some (Some e)
          | Inr rs \<Rightarrow> check_inside fs rs allowMissing paths)"

text \<open>Climbing ends: after one step the path is clean, and each further step drops its last component.\<close>

lemma Clean_slash: "q \<noteq> [] \<Longrightarrow> Clean (q @ ''/'') = Clean q"
  using Join2_empty [of q] by (simp add: Join2_def)

lemma Dir_render:
  assumes "clean_shape r (cs @ [c])"
  shows "Dir (render r (cs @ [c])) = render r cs"
proof -
  have plain: "list_all plain_part (cs @ [c])" using assms by (rule clean_shape_plain)
  have shape: "clean_shape r cs" using assms by (simp add: clean_shape_snoc)
  have split: "SplitChar CHR ''/'' (render r (cs @ [c])) = (if r then [] # cs @ [c] else cs @ [c])"
    using Split_Join_plain [OF plain] by (auto simp: render_def)
  show ?thesis
  proof (cases "cs = []")
    case True
    with split show ?thesis by (cases r) (simp_all add: Dir_def render_def Clean_def)
  next
    case False
    have "Dir (render r (cs @ [c])) = Clean (render r cs @ ''/'')"
    proof (cases r)
      case True
      have "butlast ([] # cs @ [c]) @ [[]] = [] # cs @ [[]]" by simp
      moreover have "JoinWith ''/'' ([] # cs @ [[]]) = CHR ''/'' # JoinWith ''/'' cs @ ''/''"
        using False Join_append [of cs "[[]]" "''/''"] by (cases cs) auto
      ultimately show ?thesis using True split by (simp add: Dir_def render_def)
    next
      case nr: False
      with False split show ?thesis by (simp add: Dir_def render_def Join_append)
    qed
    also have "\<dots> = Clean (render r cs)"
      using False plain by (intro Clean_slash) (auto simp: render_def Join_Nil_iff)
    finally show ?thesis using Clean_of_render [OF shape] by simp
  qed
qed

lemma climb_clean_ends: "clean_shape r cs \<Longrightarrow> \<exists>y. climb fs start missing (render r cs) = Some y"
proof (induction cs arbitrary: missing rule: rev_induct)
  case Nil
  have "Dir (render r []) = render r []" by (cases r) (simp_all add: Dir_def render_def Clean_def)
  then show ?case by (simp add: climb.simps [of fs start missing])
next
  case (snoc c cs)
  then have "clean_shape r cs" by (simp add: clean_shape_snoc)
  from snoc.IH [OF this] Dir_render [OF snoc.prems] show ?case
    by (simp add: climb.simps [of fs start missing "render r (cs @ [c])"])
qed

lemma climb_ends: "\<exists>y. climb fs start missing cur = Some y"
proof -
  have "\<exists>y. climb fs start (missing @ [Base cur]) (Dir cur) = Some y"
    unfolding Dir_def Clean_render by (rule climb_clean_ends) (rule parts_of_shape)
  then show ?thesis by (simp add: climb.simps [of fs start missing cur])
qed

lemma resolve_ends: "\<exists>y. resolvePathForCheck fs a am = Some y"
  using climb_ends by (auto simp: resolvePathForCheck_def split: option.splits)

lemma check_inside_ends: "\<exists>y. check_inside fs roots am ps = Some y"
proof (induction ps)
  case (Cons p ps)
  show ?case
  proof (cases "Abs fs (Clean p)")
    case (Some a)
    obtain y where "resolvePathForCheck fs a am = Some y" using resolve_ends by blast
    with Some Cons.IH show ?thesis by (cases y) auto
  qed auto
qed simp

text \<open>C20: 
  The check of the allow lists always returns, for every list of paths and whatever the file
  system answers: the search for the nearest existing parent ends because each step drops the last
  component of a clean path.
\<close>

theorem path_check_returns: "\<exists>y. validateAllowedPaths fs paths roots allowMissing = Some y"
  using check_inside_ends by (auto simp: validateAllowedPaths_def split: option.splits sum.splits)

text \<open>What an accepted path satisfies.\<close>

lemma check_inside_ok:
  "check_inside fs roots am ps = Some None \<Longrightarrow> p \<in> set ps \<Longrightarrow>
     \<exists>a r root. Abs fs (Clean p) = Some a \<and> resolvePathForCheck fs a am = Some (Inr r) \<and> r \<noteq> ''/'' \<and>
                root \<in> set roots \<and> inside root r"
proof (induction ps)
  case (Cons q ps)
  from Cons.prems(1) obtain a r where here: "Abs fs (Clean q) = Some a"
    "resolvePathForCheck fs a am = Some (Inr r)" "r \<noteq> ''/''" "list_ex (\<lambda>root. inside root r) roots"
    "check_inside fs roots am ps = Some None"
    by (auto split: option.splits sum.splits if_splits)
  show ?case
  proof (cases "p = q")
    case True
    with here show ?thesis by (auto simp: list_ex_iff)
  next
    case False
    with Cons here show ?thesis by auto
  qed
qed simp

lemma check_forbidden_ok:
  "check_forbidden fs ps = None \<Longrightarrow> p \<in> set ps \<Longrightarrow>
     p \<noteq> [] \<and> (\<exists>a. Abs fs (Clean p) = Some a \<and> \<not> forbidden a)"
  by (induction ps) (auto split: option.splits if_splits)

lemma map_all_Inr: "map_all f xs = Inr ys \<Longrightarrow> list_all2 (\<lambda>x y. f x = Inr y) xs ys"
  by (induction xs arbitrary: ys) (auto split: sum.splits)

lemma list_all2_in_right: "list_all2 P xs ys \<Longrightarrow> y \<in> set ys \<Longrightarrow> \<exists>x\<in>set xs. P x y"
  by (induction rule: list_all2_induct) auto

lemma Abs_rooted:
  "Abs fs p = Some a \<Longrightarrow> (\<And>wd. working_dir fs = Some wd \<Longrightarrow> IsAbs wd) \<Longrightarrow> IsAbs a"
proof -
  assume a: "Abs fs p = Some a" and wd: "\<And>wd. working_dir fs = Some wd \<Longrightarrow> IsAbs wd"
  show ?thesis
  proof (cases "IsAbs p")
    case False
    with a obtain w where w: "working_dir fs = Some w" "a = Join2 w p" by (auto simp: Abs_def)
    have abs: "IsAbs w" using wd w by simp
    then have "IsAbs (w @ CHR ''/'' # p)" "w \<noteq> []" by (cases w; simp)+
    with w show ?thesis by (simp add: Join2_def)
  qed (use a in \<open>auto simp: Abs_def\<close>)
qed

lemma Join2_rooted: "IsAbs a \<Longrightarrow> IsAbs (Join2 a b)"
  by (cases a) (auto simp: Join2_def)

lemma Join2_all_rooted: "IsAbs r \<Longrightarrow> IsAbs (fold (\<lambda>m acc. Join2 acc m) ms r)"
  by (induction ms arbitrary: r) (simp_all add: Join2_rooted)

lemma climb_rooted:
  assumes "\<And>p q. EvalSymlinks fs p = Some q \<Longrightarrow> IsAbs p \<Longrightarrow> IsAbs q" and "IsAbs start" "clean_shape True cs"
    and "climb fs start missing (render True cs) = Some (Inr y)"
  shows "IsAbs y"
  using assms(3,4)
proof (induction cs arbitrary: missing rule: rev_induct)
  case Nil
  have "Dir (render True []) = render True []" by (simp add: Dir_def render_def Clean_def)
  moreover have "IsAbs (render True [])" by (simp add: render_def)
  ultimately show ?case using Nil.prems(2) assms(1,2) Join2_all_rooted
    by (auto simp: climb.simps [of fs start missing] split: if_splits option.splits)
next
  case (snoc c cs)
  have shape: "clean_shape True cs" using snoc.prems by (simp add: clean_shape_snoc)
  have abs: "IsAbs (render True (cs @ [c]))" by (simp add: render_def)
  show ?case
  proof (cases "Lstat fs (render True (cs @ [c])) \<or> Dir (render True (cs @ [c])) = render True (cs @ [c])")
    case True
    with snoc.prems(2) assms(1) [OF _ abs] assms(2) Join2_all_rooted show ?thesis
      by (auto simp: climb.simps [of fs start missing] split: if_splits option.splits)
  next
    case False
    with snoc.prems Dir_render [OF snoc.prems(1)]
    have "climb fs start (missing @ [Base (render True (cs @ [c]))]) (render True cs) = Some (Inr y)"
      by (simp add: climb.simps [of fs start missing])
    then show ?thesis by (rule snoc.IH [OF shape])
  qed
qed

lemma resolve_rooted:
  assumes "\<And>p q. EvalSymlinks fs p = Some q \<Longrightarrow> IsAbs p \<Longrightarrow> IsAbs q" and "IsAbs a" "Clean a = a"
    and "resolvePathForCheck fs a am = Some (Inr r)"
  shows "IsAbs r"
proof -
  have "a = render True (parts_of a)" "clean_shape True (parts_of a)"
    using assms(2,3) Clean_render [of a] parts_of_shape [of a] by simp_all
  then show ?thesis
    using assms climb_rooted [of fs a "parts_of a" "[]" r]
    by (auto simp: resolvePathForCheck_def split: option.splits if_splits)
qed

text \<open>C19: 
  A path the allow lists let through lies below one of the configured roots.  When the working
  directory is absolute and resolving an absolute path gives an absolute one, every accepted path
  resolves, with all links followed, to a path other than the root directory whose components extend
  those of a resolved configured root, and neither the path nor the root is the root directory or
  the socket of the Docker daemon.
\<close>

theorem allowed_paths_are_below_a_root:
  assumes "validateAllowedPaths fs paths roots allowMissing = Some None" and "roots \<noteq> []" and "p \<in> set paths"
    and resolving: "\<And>x y. EvalSymlinks fs x = Some y \<Longrightarrow> IsAbs x \<Longrightarrow> IsAbs y"
    and wd: "\<And>w. working_dir fs = Some w \<Longrightarrow> IsAbs w"
  shows "\<exists>a r root below. Abs fs (Clean p) = Some a \<and> \<not> forbidden a \<and>
           resolvePathForCheck fs a allowMissing = Some (Inr r) \<and> r \<noteq> ''/'' \<and>
           root \<in> set roots \<and> clean_root fs root = Inr below \<and>
           prefix (parts_of below) (parts_of r)"
proof -
  obtain rs where rs: "map_all (clean_root fs) roots = Inr rs" "check_inside fs rs allowMissing paths = Some None"
    and free: "check_forbidden fs paths = None"
    using assms(1,2) by (auto simp: validateAllowedPaths_def split: option.splits sum.splits if_splits)
  obtain a r below where here: "Abs fs (Clean p) = Some a" "resolvePathForCheck fs a allowMissing = Some (Inr r)"
    "r \<noteq> ''/''" "below \<in> set rs" "inside below r"
    using check_inside_ok [OF rs(2) assms(3)] by blast
  obtain root where root: "root \<in> set roots" "clean_root fs root = Inr below"
    using list_all2_in_right [OF map_all_Inr [OF rs(1)] here(4)] by blast
  have "IsAbs below"
    using root(2) resolving Abs_rooted [of fs _ _, OF _ wd]
    by (auto simp: clean_root_def split: option.splits if_splits)
  moreover have "Clean a = a" using here(1) Abs_rooted [OF here(1) wd] by (auto simp: Abs_def Join2_def split: if_splits)
  then have "IsAbs r" using resolve_rooted [OF resolving Abs_rooted [OF here(1) wd] _ here(2)] by simp
  ultimately have "prefix (parts_of below) (parts_of r)" using here(5) inside_abs by simp
  moreover have "\<not> forbidden a" using check_forbidden_ok [OF free assms(3)] here(1) by simp
  ultimately show ?thesis using here root by blast
qed

definition demo_files :: files where
  "demo_files =
     \<lparr>working_dir = Some ''/'', EvalSymlinks = (\<lambda>p. if p = ''/restore/up'' then Some ''/etc'' else if p = ''/restore'' then Some p else None),
      Lstat = (\<lambda>p. p \<in> {''/'', ''/restore'', ''/restore/up''}), Readlink = (\<lambda>_. None), WalkDir = (\<lambda>_. [])\<rparr>"

lemma demo_climb:
  "climb demo_files ''/restore/a/b'' [] ''/restore/a/b'' = Some (Inr ''/restore/a/b'')"
proof -
  have d: "Dir ''/restore/a/b'' = ''/restore/a''" "Dir ''/restore/a'' = ''/restore''"
    "Base ''/restore/a/b'' = ''b''" "Base ''/restore/a'' = ''a''" by code_simp+
  have j: "Clean (Join2 (Join2 ''/restore'' ''a'') ''b'') = ''/restore/a/b''" by code_simp
  show ?thesis
    by (simp add: climb.simps [of _ _ _ "''/restore/a/b''"] climb.simps [of _ _ _ "''/restore/a''"]
        climb.simps [of _ _ _ "''/restore''"] demo_files_def d j)
qed

theorem allowed_paths_are_below_a_root_witness:
  "\<exists>a r root below. Abs demo_files (Clean ''/restore/a/b'') = Some a \<and> \<not> forbidden a \<and>
     resolvePathForCheck demo_files a True = Some (Inr r) \<and> r \<noteq> ''/'' \<and>
     root \<in> {''/restore''} \<and> clean_root demo_files root = Inr below \<and> prefix (parts_of below) (parts_of r)"
proof -
  have "Clean ''/restore'' = ''/restore''" "\<not> forbidden ''/restore''" by code_simp+
  then have roots: "map_all (clean_root demo_files) [''/restore''] = Inr [''/restore'']"
    by (simp add: clean_root_def Abs_def demo_files_def)
  have p: "Clean ''/restore/a/b'' = ''/restore/a/b''" "\<not> forbidden ''/restore/a/b''" by code_simp+
  have i: "inside ''/restore'' ''/restore/a/b''" by code_simp
  have "check_forbidden demo_files [''/restore/a/b''] = None" using p by (simp add: Abs_def)
  moreover have "check_inside demo_files [''/restore''] True [''/restore/a/b''] = Some None"
    using p i demo_climb by (simp add: Abs_def resolvePathForCheck_def demo_files_def)
  ultimately have ok: "validateAllowedPaths demo_files [''/restore/a/b''] [''/restore''] True = Some None"
    using roots by (simp add: validateAllowedPaths_def)
  have e: "IsAbs y" if "EvalSymlinks demo_files x = Some y" for x y
    using that by (auto simp: demo_files_def split: if_splits)
  have w: "IsAbs x" if "working_dir demo_files = Some x" for x using that by (auto simp: demo_files_def)
  show ?thesis
    using allowed_paths_are_below_a_root [OF ok _ _ e w, of "''/restore/a/b''"] by simp
qed

section \<open>Links a restore created\<close>

text \<open>
  The walk below the restored root: the first error, and the link that was removed because of it.
\<close>

fun check_links :: "files \<Rightarrow> string \<Rightarrow> (string \<times> entry_kind) option list \<Rightarrow> path_error option \<times> string option" where
  "check_links fs root [] = (None, None)"
| "check_links fs root (None # es) = (Some WalkFailed, None)"
| "check_links fs root (Some (p, k) # es) =
     (if k \<noteq> Symlink then check_links fs root es
      else case Readlink fs p of
        None \<Rightarrow> (Some (UnreadableLink p), None)
      | Some target \<Rightarrow>
          let resolved = (if IsAbs target then target else Join2 (Dir p) target) in
          (case Abs fs (Clean resolved) of
             None \<Rightarrow> (Some NoWorkingDir, None)
           | Some _ \<Rightarrow>
               (case EvalSymlinks fs p of
                  None \<Rightarrow> (Some (UnresolvedLink p), Some p)
                | Some r \<Rightarrow>
                    if inside root r then check_links fs root es
                    else (Some (LinkOutside p), Some p))))"

definition restored_root :: "files \<Rightarrow> string \<Rightarrow> string option" where
  "restored_root fs root =
     map_option (\<lambda>a. case EvalSymlinks fs a of Some r \<Rightarrow> r | None \<Rightarrow> a) (Abs fs (Clean root))"

definition validateRestoredSymlinks :: "files \<Rightarrow> string \<Rightarrow> path_error option \<times> string option" where
  "validateRestoredSymlinks fs root =
     (case restored_root fs root of
        None \<Rightarrow> (Some NoWorkingDir, None)
      | Some real \<Rightarrow> check_links fs real (WalkDir fs real))"

definition link_stays :: "files \<Rightarrow> string \<Rightarrow> string \<Rightarrow> bool" where
  "link_stays fs root p = (case EvalSymlinks fs p of None \<Rightarrow> False | Some r \<Rightarrow> inside root r)"

lemma check_links_step:
  "check_links fs root (Some (q, k) # es) = (err, gone) \<Longrightarrow>
     check_links fs root es = (err, gone) \<and> (k = Symlink \<longrightarrow> link_stays fs root q) \<or>
     k = Symlink \<and> err \<noteq> None \<and> (gone = None \<or> gone = Some q \<and> \<not> link_stays fs root q)"
  by (auto simp: Let_def link_stays_def split: if_splits option.splits)

lemma check_links_clear:
  "check_links fs root es = (None, gone) \<Longrightarrow>
     gone = None \<and> None \<notin> set es \<and> (\<forall>p. Some (p, Symlink) \<in> set es \<longrightarrow> link_stays fs root p)"
proof (induction es)
  case (Cons e es)
  show ?case
  proof (cases e)
    case (Some x)
    obtain q k where "x = (q, k)" by force
    with Some Cons check_links_step [of fs root q k es None gone] show ?thesis by auto
  qed (use Cons.prems in simp)
qed simp

lemma check_links_gone:
  "check_links fs root es = (err, Some p) \<Longrightarrow> Some (p, Symlink) \<in> set es \<and> \<not> link_stays fs root p"
proof (induction es)
  case (Cons e es)
  show ?case
  proof (cases e)
    case (Some x)
    obtain q k where "x = (q, k)" by force
    with Some Cons check_links_step [of fs root q k es err "Some p"] show ?thesis by auto
  qed (use Cons.prems in simp)
qed simp

text \<open>C21: 
  A restore that passes the check of its symbolic links left none that leads out of the restored
  root: every link the walk lists resolves, and to a path inside the root.  When the check fails it
  removes at most one name, and that is a link of the listing that does not resolve or leads outside;
  nothing else under the root and nothing behind a link is removed.
\<close>

theorem restored_links_stay_inside:
  "(case validateRestoredSymlinks fs root of
      (None, gone) \<Rightarrow> gone = None \<and>
        (\<exists>real. restored_root fs root = Some real \<and> None \<notin> set (WalkDir fs real) \<and>
           list_all (\<lambda>p. link_stays fs real p) [p. Some (p, Symlink) \<leftarrow> WalkDir fs real])
    | (Some err, None) \<Rightarrow> True
    | (Some err, Some p) \<Rightarrow>
        (\<exists>real. restored_root fs root = Some real \<and> Some (p, Symlink) \<in> set (WalkDir fs real) \<and>
           \<not> link_stays fs real p))"
proof (cases "restored_root fs root")
  case None
  then show ?thesis by (simp add: validateRestoredSymlinks_def)
next
  case (Some real)
  obtain err gone where c: "check_links fs real (WalkDir fs real) = (err, gone)" by force
  then have v: "validateRestoredSymlinks fs root = (err, gone)"
    by (simp add: validateRestoredSymlinks_def Some)
  show ?thesis
  proof (cases err)
    case None
    with c check_links_clear [of fs real "WalkDir fs real" gone]
    have "gone = None" "None \<notin> set (WalkDir fs real)"
      and "\<And>p. Some (p, Symlink) \<in> set (WalkDir fs real) \<Longrightarrow> link_stays fs real p" by auto
    moreover from this(3) have "list_all (\<lambda>p. link_stays fs real p) [p. Some (p, Symlink) \<leftarrow> WalkDir fs real]"
      by (auto simp: list_all_iff split: option.splits entry_kind.splits)
    ultimately show ?thesis using v None Some by simp
  next
    case (Some x)
    with v c check_links_gone [of fs real "WalkDir fs real" err] \<open>restored_root fs root = Some real\<close>
    show ?thesis by (cases gone) auto
  qed
qed

end
