(* ===== verification/Agent_Tools.thy ===== *)
theory Agent_Tools
  imports Json_Parse Agent_Paths
begin

text \<open>
  What the agent's operations share: the errors they wrap, the processes they run, the state they
  change, and the small helpers of \<open>internal/agent/backup\<close> (\<open>tools.go\<close>, \<open>registry.go\<close>,
  \<open>filesystem.go\<close>, \<open>secrets_file.go\<close>) and \<open>internal/agent/rclone/rclone.go\<close>.

  The operating system is the record \<open>host\<close>: running a process, reading and writing files.  Its
  state is the type \<open>'h\<close>, of which nothing is assumed.  A \<open>shell\<close> is that state together with what
  the program says: the commands it ran, its log lines, the progress it reported, and the calls it
  made to a database adapter.
\<close>

section \<open>Errors\<close>

text \<open>
  An error and what it wraps.  \<open>Around a e b\<close> is \<open>fmt.Errorf\<close> with \<open>%w\<close> between two texts;
  \<open>Restic\<close> and \<open>Pipeline\<close> are the two error structs with a code.
\<close>

datatype err =
  Plain string
| Canceled
| DeadlineExceeded
| TargetOccupied
| Around string err string
| Restic int string "err option"
| Pipeline string string "err option" json

fun error_text :: "err \<Rightarrow> string" where
  "error_text (Plain s) = s"
| "error_text Canceled = ''context canceled''"
| "error_text DeadlineExceeded = ''context deadline exceeded''"
| "error_text TargetOccupied = ''restore target is occupied by another session''"
| "error_text (Around a e b) = a @ error_text e @ b"
| "error_text (Restic code name cause) =
     ''restic exit '' @ dec_int code @ '' ('' @ name @ '')'' @
     (case cause of None \<Rightarrow> [] | Some e \<Rightarrow> '': '' @ error_text e)"
| "error_text (Pipeline code message cause payload) =
     (case cause of None \<Rightarrow> message | Some e \<Rightarrow> message @ '': '' @ error_text e)"

text \<open>The chain \<open>errors.Is\<close> and \<open>errors.As\<close> walk.\<close>

fun chain :: "err \<Rightarrow> err list" where
  "chain (Around a e b) = Around a e b # chain e"
| "chain (Restic code name (Some e)) = Restic code name (Some e) # chain e"
| "chain (Pipeline code message (Some e) payload) = Pipeline code message (Some e) payload # chain e"
| "chain e = [e]"

definition is_canceled :: "err \<Rightarrow> bool" where
  "is_canceled e \<longleftrightarrow> Canceled \<in> set (chain e)"

definition is_occupied :: "err \<Rightarrow> bool" where
  "is_occupied e \<longleftrightarrow> TargetOccupied \<in> set (chain e)"

fun first_restic :: "err list \<Rightarrow> (int \<times> string) option" where
  "first_restic [] = None"
| "first_restic (Restic code name e # es) = Some (code, name)"
| "first_restic (e # es) = first_restic es"

fun first_pipeline :: "err list \<Rightarrow> (string \<times> string \<times> err option \<times> json) option" where
  "first_pipeline [] = None"
| "first_pipeline (Pipeline code message cause payload # es) = Some (code, message, cause, payload)"
| "first_pipeline (e # es) = first_pipeline es"

definition as_restic :: "err \<Rightarrow> (int \<times> string) option" where
  "as_restic e = first_restic (chain e)"

definition as_pipeline :: "err \<Rightarrow> (string \<times> string \<times> err option \<times> json) option" where
  "as_pipeline e = first_pipeline (chain e)"

lemma as_restic_simps [simp]:
  "as_restic (Around a e b) = as_restic e" "as_restic (Restic c n x) = Some (c, n)"
  "as_restic (Plain s) = None" "as_restic (Pipeline cd m (Some e) p) = as_restic e"
  "as_restic (Pipeline cd m None p) = None" "as_restic Canceled = None" "as_restic DeadlineExceeded = None"
  "as_restic TargetOccupied = None"
  by (simp_all add: as_restic_def) (cases x; simp)

lemma as_pipeline_simps [simp]:
  "as_pipeline (Around a e b) = as_pipeline e" "as_pipeline (Restic c n (Some e)) = as_pipeline e" "as_pipeline (Restic c n None) = None"
  "as_pipeline (Plain s) = None" "as_pipeline (Pipeline cd m x p) = Some (cd, m, x, p)"
  "as_pipeline Canceled = None" "as_pipeline DeadlineExceeded = None" "as_pipeline TargetOccupied = None"
  by (simp_all add: as_pipeline_def) (cases x; simp)

section \<open>Processes and the host\<close>

record cmd =
  cmd_exe :: string
  cmd_args :: "string list"
  cmd_env :: "string list"
  cmd_dir :: string
  cmd_stdin :: string

datatype out_line = Out string | Err string

record cmd_outcome =
  out_lines :: "out_line list"
  exit_code :: int
  run_err :: "err option"

record progress =
  prg_phase :: string
  prg_percent :: json
  prg_bytes_done :: int
  prg_bytes_total :: int
  prg_files_done :: int
  prg_files_total :: int
  prg_files_added :: int
  prg_files_changed :: int
  prg_files_skipped :: int
  prg_files_deleted :: int
  prg_sample :: "string list"
  prg_detail :: json

definition no_progress :: progress where
  "no_progress =
     \<lparr>prg_phase = [], prg_percent = JNum 0, prg_bytes_done = 0, prg_bytes_total = 0, prg_files_done = 0,
      prg_files_total = 0, prg_files_added = 0, prg_files_changed = 0, prg_files_skipped = 0,
      prg_files_deleted = 0, prg_sample = [], prg_detail = json_none\<rparr>"

record 'h host =
  run_cmd :: "cmd \<Rightarrow> 'h \<Rightarrow> cmd_outcome \<times> 'h"
  files_of :: "'h \<Rightarrow> files"
  write_file :: "string \<Rightarrow> string \<Rightarrow> 'h \<Rightarrow> err option \<times> 'h"
  read_file :: "string \<Rightarrow> 'h \<Rightarrow> err + string"
  mkdir_all :: "string \<Rightarrow> 'h \<Rightarrow> err option \<times> 'h"
  remove_all :: "string \<Rightarrow> 'h \<Rightarrow> err option \<times> 'h"
  remove_one :: "string \<Rightarrow> 'h \<Rightarrow> err option \<times> 'h"
  stat_size :: "string \<Rightarrow> 'h \<Rightarrow> (bool \<times> int) option"
  read_dir :: "string \<Rightarrow> 'h \<Rightarrow> (string \<times> bool) list option"
  free_bytes :: "string \<Rightarrow> 'h \<Rightarrow> int option"
  ctx_done :: "'h \<Rightarrow> err option"
  round_percent :: "json \<Rightarrow> json"

text \<open>What a database adapter is told to restore, and the calls made to it.\<close>

record secret_bundle =
  sb_restic_password :: string
  sb_db_password :: string
  sb_rclone_conf :: string

record db_target =
  dbt_snapshot_id :: string
  dbt_kind :: string
  dbt_host :: string
  dbt_port :: int
  dbt_username :: string
  dbt_database :: string
  dbt_auth_source :: string
  dbt_replace_existing :: bool

record restore_spec =
  rs_snapshot_id :: string
  rs_kind :: kind
  rs_staging_dir :: string
  rs_database :: db_target
  rs_secrets :: secret_bundle
  rs_run_id :: string
  rs_artifact_file :: string
  rs_artifact_database :: string
  rs_artifact_format :: string
  rs_artifact_charset :: string
  rs_artifact_collation :: string
  rs_target_is_new :: bool

datatype call =
  Fetched string string
| Preflighted restore_spec
| AskedExists restore_spec "err + bool"
| Protected string
| Imported restore_spec "err option"
| Verified restore_spec "err option"
| Removed restore_spec "err option"

record 'h shell =
  sh_host :: 'h
  sh_ran :: "cmd list"
  sh_logs :: "(string \<times> string \<times> string list) list"
  sh_progress :: "progress list"
  sh_calls :: "call list"

text \<open>Log lines keep their level, their format (in English) and its arguments.\<close>

definition log_line :: "string \<Rightarrow> string \<Rightarrow> string list \<Rightarrow> 'h shell \<Rightarrow> 'h shell" where
  "log_line level format args s = s\<lparr>sh_logs := sh_logs s @ [(level, format, args)]\<rparr>"

definition report :: "progress \<Rightarrow> 'h shell \<Rightarrow> 'h shell" where
  "report p s = s\<lparr>sh_progress := sh_progress s @ [p]\<rparr>"

definition Run :: "'h host \<Rightarrow> cmd \<Rightarrow> 'h shell \<Rightarrow> cmd_outcome \<times> 'h shell" where
  "Run hs c s = (let (o', h') = run_cmd hs c (sh_host s) in (o', s\<lparr>sh_host := h', sh_ran := sh_ran s @ [c]\<rparr>))"

definition on_host :: "('h \<Rightarrow> 'a \<times> 'h) \<Rightarrow> 'h shell \<Rightarrow> 'a \<times> 'h shell" where
  "on_host f s = (let (a, h') = f (sh_host s) in (a, s\<lparr>sh_host := h'\<rparr>))"

fun errs_of :: "out_line list \<Rightarrow> string list" where
  "errs_of [] = []"
| "errs_of (Err l # ls) = l # errs_of ls"
| "errs_of (Out l # ls) = errs_of ls"

fun outs_of :: "out_line list \<Rightarrow> string list" where
  "outs_of [] = []"
| "outs_of (Out l # ls) = l # outs_of ls"
| "outs_of (Err l # ls) = outs_of ls"

definition lines_text :: "string list \<Rightarrow> string" where
  "lines_text ls = concat (map (\<lambda>l. l @ [CHR 0x0A]) ls)"

definition failed :: "cmd_outcome \<Rightarrow> bool" where
  "failed o' \<longleftrightarrow> run_err o' \<noteq> None \<or> exit_code o' \<noteq> 0"

lemma Run_ran: "Run hs c s = (o', s') \<Longrightarrow> sh_ran s' = sh_ran s @ [c]"
  by (auto simp: Run_def split: prod.splits)

lemma Run_rest: "Run hs c s = (o', s') \<Longrightarrow> sh_logs s' = sh_logs s \<and> sh_progress s' = sh_progress s \<and> sh_calls s' = sh_calls s"
  by (auto simp: Run_def split: prod.splits)

lemma log_line_rest [simp]:
  "sh_ran (log_line l f a s) = sh_ran s" "sh_progress (log_line l f a s) = sh_progress s"
  "sh_host (log_line l f a s) = sh_host s" "sh_calls (log_line l f a s) = sh_calls s"
  by (simp_all add: log_line_def)

lemma report_rest [simp]:
  "sh_ran (report p s) = sh_ran s" "sh_logs (report p s) = sh_logs s" "sh_host (report p s) = sh_host s"
  "sh_progress (report p s) = sh_progress s @ [p]" "sh_calls (report p s) = sh_calls s"
  by (simp_all add: report_def)

lemma on_host_rest:
  "on_host f s = (a, s') \<Longrightarrow> sh_ran s' = sh_ran s \<and> sh_logs s' = sh_logs s \<and> sh_progress s' = sh_progress s \<and> sh_calls s' = sh_calls s"
  by (auto simp: on_host_def split: prod.splits)

text \<open>A host for examples: it answers each command as told, and every file operation succeeds.\<close>

definition demo_host :: "(cmd \<Rightarrow> cmd_outcome) \<Rightarrow> unit host" where
  "demo_host answer =
     \<lparr>run_cmd = (\<lambda>c h. (answer c, h)), files_of = (\<lambda>_. demo_files), write_file = (\<lambda>_ _ h. (None, h)),
      read_file = (\<lambda>_ _. Inl (Plain ''missing'')), mkdir_all = (\<lambda>_ h. (None, h)), remove_all = (\<lambda>_ h. (None, h)),
      remove_one = (\<lambda>_ h. (None, h)), stat_size = (\<lambda>_ _. Some (True, 0)), read_dir = (\<lambda>_ _. None),
      free_bytes = (\<lambda>_ _. None), ctx_done = (\<lambda>_. None), round_percent = (\<lambda>j. j)\<rparr>"

definition demo_shell :: "unit shell" where
  "demo_shell = \<lparr>sh_host = (), sh_ran = [], sh_logs = [], sh_progress = [], sh_calls = []\<rparr>"

section \<open>Secrets and tools\<close>

definition WriteSecretFile :: "'h host \<Rightarrow> string \<Rightarrow> string \<Rightarrow> string \<Rightarrow> 'h shell \<Rightarrow> (err + string) \<times> 'h shell" where
  "WriteSecretFile hs tempDir name content s =
     (let p = Join2 tempDir name; (e, s') = on_host (write_file hs p content) s in
      (case e of None \<Rightarrow> Inr p | Some x \<Rightarrow> Inl x, s'))"

definition toolPath :: "(string \<rightharpoonup> string) \<Rightarrow> string \<Rightarrow> string" where
  "toolPath tools name = (case tools name of None \<Rightarrow> name | Some p \<Rightarrow> if p = [] then name else p)"

definition exitError :: "string \<Rightarrow> int \<Rightarrow> err option \<Rightarrow> err" where
  "exitError tool code e =
     (case e of
        Some x \<Rightarrow> Around (tool @ '' failed (exit '' @ dec_int code @ ''): '') x []
      | None \<Rightarrow> Plain (tool @ '' failed (exit '' @ dec_int code @ '')''))"

definition keep_last_lines :: "nat \<Rightarrow> string list \<Rightarrow> string list" where
  "keep_last_lines n ls = drop (length ls - n) ls"

text \<open>The tail of at most twenty lines that the error stream leaves behind.\<close>

definition capture_line :: "nat \<Rightarrow> string list \<Rightarrow> string \<Rightarrow> string list" where
  "capture_line n tail l =
     (let t = TrimSpace l in if t = [] then tail else keep_last_lines n (tail @ [t]))"

definition stderr_tail :: "nat \<Rightarrow> string list \<Rightarrow> string list" where
  "stderr_tail n ls = foldl (capture_line n) [] ls"

definition truncateReason :: "string \<Rightarrow> nat \<Rightarrow> string" where
  "truncateReason s n = (if length s \<le> n then s else take n s @ [CHR 0xE2, CHR 0x80, CHR 0xA6])"

definition names_reason :: "string \<Rightarrow> bool" where
  "names_reason l \<longleftrightarrow>
     Contains l ''error'' \<or> Contains l ''denied'' \<or> Contains l ''unauthorized'' \<or> Contains l ''fatal''"

definition last_matching :: "(string \<Rightarrow> bool) \<Rightarrow> string list \<Rightarrow> string option" where
  "last_matching P ls = List.find (\<lambda>l. P (ToLower l)) (rev ls)"

definition stderrReason :: "string list \<Rightarrow> string" where
  "stderrReason ls =
     (case last_matching names_reason ls of
        Some l \<Rightarrow> truncateReason l 400
      | None \<Rightarrow>
          (case last_matching (\<lambda>l. Contains l ''failed'') ls of
             Some l \<Rightarrow> truncateReason l 400
           | None \<Rightarrow> if ls = [] then [] else truncateReason (last ls) 400))"

definition exitErrorWithStderr :: "string \<Rightarrow> int \<Rightarrow> err option \<Rightarrow> string list \<Rightarrow> err" where
  "exitErrorWithStderr tool code e tail =
     (let base = exitError tool code e; r = stderrReason tail in
      if r = [] then base else Around [] base ('': '' @ r))"

definition first_text :: "string list \<Rightarrow> string" where
  "first_text ls = (case filter (\<lambda>t. t \<noteq> []) (map TrimSpace ls) of [] \<Rightarrow> [] | t # _ \<Rightarrow> t)"

definition getToolVersion :: "'h host \<Rightarrow> string \<Rightarrow> string list \<Rightarrow> 'h shell \<Rightarrow> string \<times> 'h shell" where
  "getToolVersion hs exe env s =
     (let (o', s') = Run hs \<lparr>cmd_exe = exe, cmd_args = [''--version''], cmd_env = env, cmd_dir = [], cmd_stdin = []\<rparr> s in
      (first_text (outs_of (out_lines o')), s'))"

lemma stderr_tail_short: "length (stderr_tail n ls) \<le> n"
proof -
  have "length (foldl (capture_line n) t ls) \<le> n" if "length t \<le> n" for t
    using that by (induction ls arbitrary: t) (auto simp: capture_line_def keep_last_lines_def Let_def)
  then show ?thesis by (simp add: stderr_tail_def)
qed

section \<open>The adapter of filesystem plans\<close>

definition drive_letter :: "char \<Rightarrow> bool" where
  "drive_letter c \<longleftrightarrow> (let n = of_char c :: nat in 65 \<le> n \<and> n \<le> 90 \<or> 97 \<le> n \<and> n \<le> 122)"

definition isAbs :: "string \<Rightarrow> bool" where
  "isAbs p \<longleftrightarrow>
     HasPrefix p ''/'' \<or>
     (case p of c # d # _ \<Rightarrow> d = CHR '':'' \<and> drive_letter c | _ \<Rightarrow> False)"

fun check_readable :: "('h \<Rightarrow> (string \<Rightarrow> bool)) \<Rightarrow> 'h \<Rightarrow> string list \<Rightarrow> err option" where
  "check_readable exists h [] = None"
| "check_readable exists h (p # ps) =
     (if \<not> isAbs p then Some (Plain (''path must be absolute: '' @ p))
      else if \<not> exists h p then Some (Plain (''path not accessible: '' @ p))
      else check_readable exists h ps)"

definition fs_Validate :: "'h host \<Rightarrow> kind \<Rightarrow> plan_source \<Rightarrow> 'h \<Rightarrow> err option" where
  "fs_Validate hs k src h =
     (if k \<noteq> KindFilesystem then Some (Plain (''invalid kind: '' @ kind_text k))
      else if src_paths src = [] then Some (Plain ''paths must not be empty'')
      else check_readable (\<lambda>h p. stat_size hs p h \<noteq> None) h (src_paths src))"

record artifact =
  art_live_paths :: "string list"
  art_exclude_file :: string
  art_one_file_system :: bool
  art_staging_dir :: string
  art_staging_files :: "string list"

definition fs_Backup :: "'h host \<Rightarrow> string \<Rightarrow> plan_source \<Rightarrow> 'h shell \<Rightarrow> (err + artifact) \<times> 'h shell" where
  "fs_Backup hs tempDir src s =
     (let art = (\<lambda>f. \<lparr>art_live_paths = src_paths src, art_exclude_file = f,
                      art_one_file_system = src_one_file_system src, art_staging_dir = [], art_staging_files = []\<rparr>) in
      if src_excludes src = [] then (Inr (art []), s)
      else let (r, s') = WriteSecretFile hs tempDir ''excludes.txt''
                           (JoinWith [CHR 0x0A] (src_excludes src) @ [CHR 0x0A]) s in
           (case r of Inl e \<Rightarrow> Inl (Around ''write exclude file: '' e []) | Inr f \<Rightarrow> Inr (art f), s'))"

section \<open>rclone\<close>

definition WriteConf :: "'h host \<Rightarrow> string \<Rightarrow> string \<Rightarrow> 'h shell \<Rightarrow> (err + string) \<times> 'h shell" where
  "WriteConf hs tempDir conf s =
     (let p = Join2 tempDir ''rclone.conf''; (e, s') = on_host (write_file hs p conf) s in
      (case e of None \<Rightarrow> Inr p | Some x \<Rightarrow> Inl x, s'))"

definition rclone_tail :: "string list \<Rightarrow> string" where
  "rclone_tail ls =
     (let t = JoinWith ''; '' (stderr_tail 40 ls) in drop (length t - 4096) t)"

definition runFailed :: "string \<Rightarrow> int \<Rightarrow> err option \<Rightarrow> string \<Rightarrow> err" where
  "runFailed op code e tail =
     (let why = (case e of None \<Rightarrow> ''non-zero exit'' | Some x \<Rightarrow> error_text x); t = TrimSpace tail in
      Plain (''rclone '' @ op @ '' failed (exit '' @ dec_int code @ ''): '' @ why @
             (if t = [] then [] else '': '' @ t)))"

definition rclone_cmd :: "string list \<Rightarrow> string \<Rightarrow> cmd" where
  "rclone_cmd args conf =
     \<lparr>cmd_exe = ''rclone'', cmd_args = args @ [''--config'', conf], cmd_env = [''RCLONE_CONFIG='' @ conf],
      cmd_dir = [], cmd_stdin = []\<rparr>"

definition remote_names :: "string list \<Rightarrow> string list" where
  "remote_names ls =
     map (\<lambda>n. TrimSuffix n '':'') (filter (\<lambda>n. n \<noteq> [] \<and> HasSuffix n '':'') (map TrimSpace ls))"

definition ListRemotes :: "'h host \<Rightarrow> string \<Rightarrow> 'h shell \<Rightarrow> (err + string list) \<times> 'h shell" where
  "ListRemotes hs conf s =
     (let (o', s') = Run hs (rclone_cmd [''listremotes''] conf) s in
      (if failed o' then Inl (runFailed ''listremotes'' (exit_code o') (run_err o') (rclone_tail (errs_of (out_lines o'))))
       else Inr (remote_names (outs_of (out_lines o'))), s'))"

text \<open>\<open>strings.Fields\<close> on the ASCII spaces.\<close>

definition blank :: "char \<Rightarrow> bool" where
  "blank c \<longleftrightarrow> c \<in> {CHR '' '', CHR 0x09, CHR 0x0A, CHR 0x0B, CHR 0x0C, CHR 0x0D}"

fun Fields :: "string \<Rightarrow> string list" where
  "Fields [] = []"
| "Fields (c # s) =
     (if blank c then Fields s
      else case s of
        [] \<Rightarrow> [[c]]
      | d # _ \<Rightarrow> if blank d then [c] # Fields s
                 else (case Fields s of [] \<Rightarrow> [[c]] | w # ws \<Rightarrow> (c # w) # ws))"

definition Lsd :: "'h host \<Rightarrow> string \<Rightarrow> string \<Rightarrow> 'h shell \<Rightarrow> (err + string list) \<times> 'h shell" where
  "Lsd hs conf remote s =
     (let (o', s') = Run hs (rclone_cmd [''lsd'', remote @ '':''] conf) s in
      (if failed o' then Inl (runFailed ''lsd'' (exit_code o') (run_err o') (rclone_tail (errs_of (out_lines o'))))
       else Inr (map (\<lambda>fs. fs ! 4) (filter (\<lambda>fs. 5 \<le> length fs) (map Fields (outs_of (out_lines o'))))), s'))"

text \<open>
  The reason an error message quotes is one of the captured lines, cut after 400 bytes: the last
  line that names a cause, else the last that says \<open>failed\<close>, else the last line.  So a summary
  line that only counts failures never hides the line above it that says why.
\<close>

theorem quoted_reason_prefers_causes:
  "(if ls = [] then stderrReason ls = []
    else \<exists>l\<in>set ls. stderrReason ls = truncateReason l 400 \<and>
           (names_reason (ToLower l) \<or> \<not> list_ex (\<lambda>x. names_reason (ToLower x)) ls) \<and>
           length (stderrReason ls) \<le> 403)"
proof -
  have short: "length (truncateReason l 400) \<le> 403" for l by (auto simp: truncateReason_def)
  have found: "l \<in> set ls \<and> P (ToLower l)" if f: "last_matching P ls = Some l" for P l
  proof -
    obtain i where "i < length (rev ls)" "P (ToLower (rev ls ! i))" "l = rev ls ! i"
      using f by (auto simp: last_matching_def find_Some_iff)
    then show ?thesis using nth_mem [of i "rev ls"] by simp
  qed
  have missing: "\<not> list_ex (\<lambda>x. P (ToLower x)) ls" if "last_matching P ls = None" for P
    using that by (auto simp: last_matching_def find_None_iff list_ex_iff)
  show ?thesis
  proof (cases "ls = []")
    case True
    then show ?thesis by (simp add: stderrReason_def last_matching_def)
  next
    case False
    show ?thesis
    proof (cases "last_matching names_reason ls")
      case (Some l)
      with found [OF Some] False short show ?thesis by (auto simp: stderrReason_def)
    next
      case none: None
      show ?thesis
      proof (cases "last_matching (\<lambda>l. Contains l ''failed'') ls")
        case (Some l)
        with found [OF Some] missing [OF none] none False short show ?thesis
          by (auto simp: stderrReason_def intro!: bexI [of _ l])
      next
        case None
        with missing [OF none] none False short last_in_set [OF False] show ?thesis
          by (auto simp: stderrReason_def intro!: bexI [of _ "last ls"])
      qed
    qed
  qed
qed

end
