(* ===== verification/Restic.thy ===== *)
theory Restic
  imports Agent_Tools
begin

text \<open>
  \<open>internal/agent/restic/restic.go\<close>: the command lines handed to restic, the reading of its output,
  and the classification of its failures.  The process itself is \<open>run_cmd\<close> of the host; its output
  is the list of lines in the order they arrive.  The rounding of the percentage (floating point) is
  \<open>round_percent\<close> of the host.
\<close>

section \<open>Options and command lines\<close>

record options =
  opt_exe :: string
  opt_repo :: string
  opt_password_file :: string
  opt_cache_dir :: string
  opt_rclone_conf :: string
  opt_working_dir :: string
  opt_logf :: bool
  opt_info_logf :: bool
  opt_read_subset :: string

definition resticRepositoryArgs :: "options \<Rightarrow> string list" where
  "resticRepositoryArgs opts =
     (if opt_repo opts = [] then [] else [''--repo'', opt_repo opts]) @
     (if opt_password_file opts = [] then [] else [''--password-file'', opt_password_file opts]) @
     (if opt_cache_dir opts = [] then [] else [''--cache-dir'', opt_cache_dir opts])"

definition buildEnv :: "options \<Rightarrow> string list" where
  "buildEnv opts =
     (''RESTIC_PASSWORD_FILE='' @ opt_password_file opts) #
     (if opt_cache_dir opts = [] then [] else [''RESTIC_CACHE_DIR='' @ opt_cache_dir opts]) @
     (if opt_rclone_conf opts = [] then [] else [''RCLONE_CONFIG='' @ opt_rclone_conf opts])"

definition cache_env :: "options \<Rightarrow> string list" where
  "cache_env opts =
     buildEnv opts @ (if opt_cache_dir opts = [] then [] else [''RESTIC_CACHE_DIR='' @ opt_cache_dir opts])"

definition restic_cmd :: "options \<Rightarrow> string list \<Rightarrow> string list \<Rightarrow> cmd" where
  "restic_cmd opts args env =
     \<lparr>cmd_exe = opt_exe opts, cmd_args = args, cmd_env = env, cmd_dir = [], cmd_stdin = []\<rparr>"

definition knownBackends :: "string list" where
  "knownBackends =
     [''local:'', ''rclone:'', ''rest:'', ''s3:'', ''sftp:'', ''b2:'', ''azure:'', ''gs:'', ''swift:'']"

definition NormalizeRepoPath :: "string \<Rightarrow> string" where
  "NormalizeRepoPath p =
     (if p = [] then []
      else if list_ex (HasPrefix p) knownBackends then p
      else case Index p '':'' of
        None \<Rightarrow> p
      | Some i \<Rightarrow> if 0 < i then ''rclone:'' @ p else p)"

definition normalizeOverwrite :: "string \<Rightarrow> string" where
  "normalizeOverwrite v = (if v \<in> {''never'', ''if-changed'', ''if-newer'', ''always''} then v else ''always'')"

section \<open>Classifying failures\<close>

definition mapResticError :: "int \<Rightarrow> err option \<Rightarrow> err" where
  "mapResticError code e =
     (let name = MapResticExitCode code in
      if name \<noteq> []
      then Restic code name e
      else case e of
        Some x \<Rightarrow> Restic code ''restic_failed'' (Some x)
      | None \<Rightarrow> Restic code ''restic_failed'' (Some (Plain (''exit '' @ dec_int code))))"

definition field_object :: "string \<Rightarrow> (string \<times> json) list \<Rightarrow> (string \<times> json) list option" where
  "field_object k ms =
     (case obj_get k ms of None \<Rightarrow> Some [] | Some JNull \<Rightarrow> Some [] | Some (JObj ns) \<Rightarrow> Some ns | Some _ \<Rightarrow> None)"

definition field_number :: "string \<Rightarrow> (string \<times> json) list \<Rightarrow> json option" where
  "field_number k ms =
     (case obj_get k ms of None \<Rightarrow> Some (JNum 0) | Some JNull \<Rightarrow> Some (JNum 0)
      | Some (JNum n) \<Rightarrow> Some (JNum n) | Some (JDec t) \<Rightarrow> Some (JDec t) | Some _ \<Rightarrow> None)"

definition error_line_text :: "string \<Rightarrow> string \<Rightarrow> string \<Rightarrow> string \<Rightarrow> string \<Rightarrow> string" where
  "error_line_text line mtype message item inner =
     (if mtype = ''error''
      then (if item \<noteq> [] then item @ '': '' @ inner
            else if inner \<noteq> [] then inner
            else if message \<noteq> [] then message else line)
      else if mtype = ''exit_error'' then (if message \<noteq> [] then message else line)
      else line)"

definition resticErrorText :: "string \<Rightarrow> string" where
  "resticErrorText line =
     (case parse_json line of
        JObj ms \<Rightarrow>
          (case (field_string ''message_type'' ms, field_string ''message'' ms, field_string ''item'' ms,
                 field_object ''error'' ms) of
             (Some t, Some m, Some i, Some es) \<Rightarrow>
               (case field_string ''message'' es of
                  Some inner \<Rightarrow> error_line_text line t m i inner
                | None \<Rightarrow> line)
           | _ \<Rightarrow> line)
      | _ \<Rightarrow> line)"

definition last_bytes :: "nat \<Rightarrow> string \<Rightarrow> string" where
  "last_bytes n s = drop (length s - n) s"

definition enriched :: "err \<Rightarrow> string \<Rightarrow> err" where
  "enriched e output =
     (let t = last_bytes 300 (JoinWith '' | '' (map resticErrorText (SplitChar CHR 0x0A (TrimSpace output)))) in
      if t = [] then e else Around [] e (''; output: '' @ t))"

definition missingRepositoryMarkers :: "string list" where
  "missingRepositoryMarkers =
     [''unable to open config file'', ''does not exist'' @ [CHR 0x0A] @ ''Is there a repository'',
      ''Is there a repository at the following location'']"

definition resticRunError :: "int \<Rightarrow> err option \<Rightarrow> string \<Rightarrow> err" where
  "resticRunError code cause output =
     (let classified = mapResticError code cause;
          fixed = (case classified of
                     Restic c name e \<Rightarrow>
                       if code \<noteq> 0 \<and> name = ''restic_failed'' \<and> list_ex (Contains output) missingRepositoryMarkers
                       then Restic c ''repository_missing'' e else classified
                   | _ \<Rightarrow> classified) in
      enriched fixed output)"

section \<open>Running restic\<close>

definition log_stderr :: "options \<Rightarrow> string list \<Rightarrow> 'h shell \<Rightarrow> 'h shell" where
  "log_stderr opts ls s =
     (if opt_logf opts then fold (\<lambda>l. log_line ''error'' ''restic stderr: %s'' [l]) ls s else s)"

definition exe_missing :: err where
  "exe_missing = Plain ''restic exe not set''"

text \<open>One command whose error stream is logged and quoted when it fails.\<close>

definition run_logged :: "'h host \<Rightarrow> options \<Rightarrow> string list \<Rightarrow> 'h shell \<Rightarrow> (err + out_line list) \<times> 'h shell" where
  "run_logged hs opts args s =
     (let (o', s1) = Run hs (restic_cmd opts args (cache_env opts)) s;
          s2 = log_stderr opts (errs_of (out_lines o')) s1 in
      (if failed o' then Inl (enriched (mapResticError (exit_code o') (run_err o')) (lines_text (errs_of (out_lines o'))))
       else Inr (out_lines o'), s2))"

definition CatConfig :: "'h host \<Rightarrow> options \<Rightarrow> 'h shell \<Rightarrow> (err + unit) \<times> 'h shell" where
  "CatConfig hs opts s =
     (if opt_exe opts = [] then (Inl exe_missing, s)
      else let (r, s') = run_logged hs opts ([''cat'', ''config''] @ resticRepositoryArgs opts @ [''--json'']) s in
           (map_sum id (\<lambda>_. ()) r, s'))"

definition restic_Init :: "'h host \<Rightarrow> options \<Rightarrow> 'h shell \<Rightarrow> (err + unit) \<times> 'h shell" where
  "restic_Init hs opts s =
     (if opt_exe opts = [] then (Inl exe_missing, s)
      else let (r, s') = run_logged hs opts (''init'' # resticRepositoryArgs opts) s in
           (map_sum id (\<lambda>_. ()) r, s'))"

definition include_args :: "string list \<Rightarrow> string list" where
  "include_args ps = concat (map (\<lambda>p. [''--include'', p]) ps)"

definition RestoreWithOverwrite ::
  "'h host \<Rightarrow> options \<Rightarrow> string \<Rightarrow> string \<Rightarrow> string list \<Rightarrow> string \<Rightarrow> 'h shell \<Rightarrow> (err + unit) \<times> 'h shell" where
  "RestoreWithOverwrite hs opts snapshotID target includePaths overwrite s =
     (if opt_exe opts = [] then (Inl exe_missing, s)
      else let (r, s') = run_logged hs opts
             ([''restore'', snapshotID, ''--target'', target, ''--overwrite'', normalizeOverwrite overwrite] @
              resticRepositoryArgs opts @ include_args includePaths) s in
           (map_sum id (\<lambda>_. ()) r, s'))"

definition restic_Restore ::
  "'h host \<Rightarrow> options \<Rightarrow> string \<Rightarrow> string \<Rightarrow> string list \<Rightarrow> 'h shell \<Rightarrow> (err + unit) \<times> 'h shell" where
  "restic_Restore hs opts snapshotID target includePaths s =
     RestoreWithOverwrite hs opts snapshotID target includePaths ''always'' s"

definition restic_Check :: "'h host \<Rightarrow> options \<Rightarrow> 'h shell \<Rightarrow> (err + unit) \<times> 'h shell" where
  "restic_Check hs opts s =
     (if opt_exe opts = [] then (Inl exe_missing, s)
      else
        let subset = opt_read_subset opts;
            args = [''check'', ''--json''] @
                   (if subset \<noteq> [] \<and> subset \<noteq> ''0'' then [''--read-data-subset='' @ subset] else []) @
                   resticRepositoryArgs opts;
            (o', s') = Run hs (restic_cmd opts args (cache_env opts)) s in
        (if failed o'
         then Inl (enriched (mapResticError (exit_code o') (run_err o'))
                (lines_text (outs_of (out_lines o')) @ lines_text (errs_of (out_lines o'))))
         else Inr (), s'))"

section \<open>Reading documents\<close>

definition listed_snapshot :: "json \<Rightarrow> snapshot option" where
  "listed_snapshot j =
     (case j of
        JObj ms \<Rightarrow>
          (case (field_string ''id'' ms, field_string ''time'' ms, field_string ''host'' ms,
                 field_strings ''tags'' ms, field_strings ''paths'' ms) of
             (Some i, Some t, Some h, Some ts, Some ps) \<Rightarrow>
               Some \<lparr>snap_id = i, snap_time = t, snap_host = h, snap_tags = ts, snap_paths = ps\<rparr>
           | _ \<Rightarrow> None)
      | JNull \<Rightarrow> Some \<lparr>snap_id = [], snap_time = [], snap_host = [], snap_tags = [], snap_paths = []\<rparr>
      | _ \<Rightarrow> None)"

definition listed_snapshots :: "json \<Rightarrow> snapshot list option" where
  "listed_snapshots j =
     (case j of JList js \<Rightarrow> decode_all listed_snapshot js | JNull \<Rightarrow> Some [] | _ \<Rightarrow> None)"

definition Snapshots :: "'h host \<Rightarrow> options \<Rightarrow> 'h shell \<Rightarrow> (err + snapshot list) \<times> 'h shell" where
  "Snapshots hs opts s =
     (if opt_exe opts = [] then (Inl exe_missing, s)
      else
        let (o', s') = Run hs (restic_cmd opts (''snapshots'' # resticRepositoryArgs opts @ [''--json'']) (buildEnv opts)) s;
            stderr = lines_text (errs_of (out_lines o'));
            raw = TrimSpace (lines_text (outs_of (out_lines o'))) in
        (if exit_code o' \<noteq> 0 then Inl (resticRunError (exit_code o') (run_err o') stderr)
         else if raw = [] then Inl (enriched (Plain ''restic snapshots returned no output'') stderr)
         else case listed_snapshots (parse_json raw) of
           None \<Rightarrow> Inl (enriched (Around ''parse restic snapshots output: '' (Plain ''invalid document'') []) stderr)
         | Some snaps \<Rightarrow> Inr snaps, s'))"

record ls_entry =
  ls_name :: string
  ls_type :: string
  ls_path :: string
  ls_size :: int
  ls_mtime :: string

definition decode_node :: "string \<Rightarrow> ls_entry option" where
  "decode_node line =
     (case parse_json line of
        JObj ms \<Rightarrow>
          (case (field_string ''name'' ms, field_string ''type'' ms, field_string ''path'' ms, field_int ''size'' ms,
                 field_string ''mtime'' ms) of
             (Some n, Some t, Some p, Some z, Some m) \<Rightarrow>
               if n = [] \<or> t = [] then None
               else Some \<lparr>ls_name = n, ls_type = t, ls_path = p, ls_size = z, ls_mtime = m\<rparr>
           | _ \<Rightarrow> None)
      | _ \<Rightarrow> None)"

definition Ls :: "'h host \<Rightarrow> options \<Rightarrow> string \<Rightarrow> string \<Rightarrow> 'h shell \<Rightarrow> (err + ls_entry list) \<times> 'h shell" where
  "Ls hs opts snapshotID snapshotPath s =
     (if opt_exe opts = [] then (Inl exe_missing, s)
      else
        let p = (if snapshotPath = [] then ''/'' else snapshotPath);
            args = ''ls'' # resticRepositoryArgs opts @ [''--json'', ''--'', snapshotID, p];
            (o', s1) = Run hs (restic_cmd opts args (buildEnv opts)) s;
            s2 = log_stderr opts (errs_of (out_lines o')) s1 in
        (if exit_code o' \<noteq> 0
         then Inl (enriched (mapResticError (exit_code o') (run_err o')) (lines_text (errs_of (out_lines o'))))
         else Inr (List.map_filter decode_node (outs_of (out_lines o'))), s2))"

section \<open>Trial restores\<close>

definition re_space :: "char \<Rightarrow> bool" where
  "re_space c \<longleftrightarrow> c \<in> {CHR 0x09, CHR 0x0A, CHR 0x0C, CHR 0x0D, CHR '' ''}"

definition verb_line :: "string \<Rightarrow> string \<Rightarrow> bool" where
  "verb_line line verb \<longleftrightarrow>
     HasPrefix line verb \<and>
     (let rest = drop (length verb) line in
      rest \<noteq> [] \<and> re_space (hd rest) \<and> dropWhile re_space rest \<noteq> [])"

record dry_counts =
  dc_added :: nat
  dc_changed :: nat
  dc_skipped :: nat
  dc_sample :: "string list"

definition dry_line :: "string \<Rightarrow> dry_counts \<Rightarrow> dry_counts" where
  "dry_line line c =
     (let keep = (\<lambda>c. if length (dc_sample c) < 50 then c\<lparr>dc_sample := dc_sample c @ [TrimSpace line]\<rparr> else c) in
      if verb_line line ''restored'' then keep (c\<lparr>dc_added := dc_added c + 1\<rparr>)
      else if verb_line line ''updated'' then keep (c\<lparr>dc_changed := dc_changed c + 1\<rparr>)
      else if verb_line line ''unchanged'' then c\<lparr>dc_skipped := dc_skipped c + 1\<rparr>
      else c)"

definition dry_progress :: "dry_counts \<Rightarrow> progress" where
  "dry_progress c =
     no_progress\<lparr>prg_phase := ''dry_run'', prg_files_done := int (dc_added c + dc_changed c),
       prg_files_total := int (dc_added c + dc_changed c + dc_skipped c), prg_files_added := int (dc_added c),
       prg_files_changed := int (dc_changed c), prg_files_skipped := int (dc_skipped c),
       prg_sample := dc_sample c\<rparr>"

definition RestoreDryRunWithOverwrite ::
  "'h host \<Rightarrow> options \<Rightarrow> string \<Rightarrow> string \<Rightarrow> string list \<Rightarrow> string \<Rightarrow> 'h shell \<Rightarrow> (err + progress) \<times> 'h shell" where
  "RestoreDryRunWithOverwrite hs opts snapshotID target includePaths overwrite s =
     (if opt_exe opts = [] then (Inl exe_missing, s)
      else
        let (r, s') = run_logged hs opts
              ([''restore'', snapshotID, ''--target'', target, ''--dry-run'', ''--verbose=2'', ''--overwrite'',
                normalizeOverwrite overwrite] @ resticRepositoryArgs opts @ include_args includePaths) s in
        (case r of
           Inl e \<Rightarrow> Inl e
         | Inr ls \<Rightarrow> Inr (dry_progress (fold dry_line (outs_of ls) \<lparr>dc_added = 0, dc_changed = 0, dc_skipped = 0, dc_sample = []\<rparr>)),
         s'))"

section \<open>Backups\<close>

record summary =
  sum_snapshot_id :: string
  sum_files_new :: int
  sum_files_changed :: int
  sum_files_unmodified :: int
  sum_data_added :: int
  sum_data_added_packed :: int
  sum_files_processed :: int
  sum_bytes_processed :: int
  sum_duration :: json

definition no_summary :: summary where
  "no_summary =
     \<lparr>sum_snapshot_id = [], sum_files_new = 0, sum_files_changed = 0, sum_files_unmodified = 0, sum_data_added = 0,
      sum_data_added_packed = 0, sum_files_processed = 0, sum_bytes_processed = 0, sum_duration = JNum 0\<rparr>"

definition decode_summary :: "(string \<times> json) list \<Rightarrow> summary option" where
  "decode_summary ms =
     (case (field_string ''snapshot_id'' ms, field_int ''files_new'' ms, field_int ''files_changed'' ms,
            field_int ''files_unmodified'' ms, field_int ''data_added'' ms, field_int ''data_added_packed'' ms,
            field_int ''total_files_processed'' ms, field_int ''total_bytes_processed'' ms,
            field_number ''total_duration'' ms) of
        (Some i, Some fn, Some fc, Some fu, Some da, Some dp, Some tf, Some tb, Some td) \<Rightarrow>
          Some \<lparr>sum_snapshot_id = i, sum_files_new = fn, sum_files_changed = fc, sum_files_unmodified = fu,
                sum_data_added = da, sum_data_added_packed = dp, sum_files_processed = tf,
                sum_bytes_processed = tb, sum_duration = td\<rparr>
      | _ \<Rightarrow> None)"

definition summary_progress :: "summary \<Rightarrow> progress" where
  "summary_progress m =
     no_progress\<lparr>prg_phase := ''done'', prg_percent := JNum 100, prg_bytes_done := sum_bytes_processed m,
       prg_bytes_total := sum_bytes_processed m, prg_files_done := sum_files_processed m,
       prg_files_total := sum_files_processed m\<rparr>"

definition status_progress :: "'h host \<Rightarrow> (string \<times> json) list \<Rightarrow> progress option" where
  "status_progress hs ms =
     (case (field_number ''percent_done'' ms, field_int ''total_bytes'' ms, field_int ''bytes_done'' ms,
            field_int ''total_files'' ms, field_int ''files_done'' ms) of
        (Some pct, Some tb, Some bd, Some tf, Some fd) \<Rightarrow>
          Some (no_progress\<lparr>prg_phase := ''backup'', prg_percent := round_percent hs pct, prg_bytes_done := bd,
                  prg_bytes_total := tb, prg_files_done := fd, prg_files_total := tf\<rparr>)
      | _ \<Rightarrow> None)"

definition append_output :: "string \<Rightarrow> string \<Rightarrow> string" where
  "append_output tail line =
     (if 4096 \<le> length tail then tail
      else let remaining = 4096 - length tail in
           tail @ (if remaining < length line + 1 then take (remaining - 1) line else line) @ [CHR 0x0A])"

record 'h backing =
  bk_summary :: summary
  bk_tail :: string
  bk_stderr_lines :: nat
  bk_shell :: "'h shell"

definition backup_stdout ::
  "'h host \<Rightarrow> (progress \<Rightarrow> 'h shell \<Rightarrow> 'h shell) \<Rightarrow> string \<Rightarrow> 'h backing \<Rightarrow> 'h backing" where
  "backup_stdout hs onProgress line b =
     (case parse_json line of
        JObj ms \<Rightarrow>
          (case field_string ''message_type'' ms of
             None \<Rightarrow> b
           | Some t \<Rightarrow>
               if t = ''status'' then
                 (case status_progress hs ms of None \<Rightarrow> b | Some p \<Rightarrow> b\<lparr>bk_shell := onProgress p (bk_shell b)\<rparr>)
               else if t = ''summary'' then
                 (case decode_summary ms of None \<Rightarrow> b
                  | Some m \<Rightarrow> b\<lparr>bk_summary := m, bk_shell := onProgress (summary_progress m) (bk_shell b)\<rparr>)
               else if t = ''error'' \<or> t = ''exit_error'' then b\<lparr>bk_tail := append_output (bk_tail b) line\<rparr>
               else b)
      | _ \<Rightarrow> b)"

definition maxLoggedStderrLines :: nat where "maxLoggedStderrLines = 50"

definition backup_stderr :: "options \<Rightarrow> string \<Rightarrow> 'h backing \<Rightarrow> 'h backing" where
  "backup_stderr opts line b =
     (let b1 = b\<lparr>bk_tail := append_output (bk_tail b) line\<rparr> in
      if \<not> opt_logf opts then b1
      else
        let n = bk_stderr_lines b + 1; b2 = b1\<lparr>bk_stderr_lines := n\<rparr> in
        if n \<le> maxLoggedStderrLines
        then b2\<lparr>bk_shell := log_line ''error'' ''restic stderr: %s'' [resticErrorText line] (bk_shell b2)\<rparr>
        else if n = maxLoggedStderrLines + 1
        then b2\<lparr>bk_shell := log_line ''error'' ''restic stderr: %s'' [''more restic errors omitted''] (bk_shell b2)\<rparr>
        else b2)"

fun backup_line ::
  "'h host \<Rightarrow> options \<Rightarrow> (progress \<Rightarrow> 'h shell \<Rightarrow> 'h shell) \<Rightarrow> out_line \<Rightarrow> 'h backing \<Rightarrow> 'h backing" where
  "backup_line hs opts onProgress (Out l) b = backup_stdout hs onProgress l b"
| "backup_line hs opts onProgress (Err l) b = backup_stderr opts l b"

definition backup_args :: "options \<Rightarrow> string list \<Rightarrow> string \<Rightarrow> string list \<Rightarrow> bool \<Rightarrow> string list" where
  "backup_args opts paths excludeFile tags oneFS =
     ''backup'' # resticRepositoryArgs opts @
     (if excludeFile = [] then [] else [''--exclude-file'', excludeFile]) @
     concat (map (\<lambda>t. [''--tag'', t]) tags) @
     (if oneFS then [''--one-file-system''] else []) @
     ''--json'' # paths"

definition restic_Backup ::
  "'h host \<Rightarrow> options \<Rightarrow> string list \<Rightarrow> string \<Rightarrow> string list \<Rightarrow> bool \<Rightarrow>
   (progress \<Rightarrow> 'h shell \<Rightarrow> 'h shell) \<Rightarrow> 'h shell \<Rightarrow> (err + summary) \<times> 'h shell" where
  "restic_Backup hs opts paths excludeFile tags oneFS onProgress s =
     (if opt_exe opts = [] then (Inl exe_missing, s)
      else
        let c = (restic_cmd opts (backup_args opts paths excludeFile tags oneFS)
                   (cache_env opts @ [''RESTIC_PROGRESS_FPS=1'']))\<lparr>cmd_dir := opt_working_dir opts\<rparr>;
            (o', s1) = Run hs c s;
            b = fold (backup_line hs opts onProgress) (out_lines o')
                  \<lparr>bk_summary = no_summary, bk_tail = [], bk_stderr_lines = 0, bk_shell = s1\<rparr> in
        (if failed o' then Inl (enriched (mapResticError (exit_code o') (run_err o')) (bk_tail b))
         else Inr (bk_summary b), bk_shell b))"

section \<open>Forgetting snapshots\<close>

definition snapshotHasAllTags :: "snapshot \<Rightarrow> string list \<Rightarrow> bool" where
  "snapshotHasAllTags s tags = list_all (\<lambda>t. t \<in> set (snap_tags s)) tags"

definition runResticDeleteCommand :: "'h host \<Rightarrow> options \<Rightarrow> string list \<Rightarrow> 'h shell \<Rightarrow> (err + string) \<times> 'h shell" where
  "runResticDeleteCommand hs opts args s =
     (let (r, s') = run_logged hs opts args s in (map_sum id (\<lambda>ls. lines_text (outs_of ls)) r, s'))"

fun before_repo :: "nat \<Rightarrow> string list \<Rightarrow> string list" where
  "before_repo i [] = []"
| "before_repo i (a # as) =
     (if a = ''--repo'' \<and> 0 < i then [''--retry-lock'', ''5m''] else []) @ a # before_repo (i + 1) as"

definition addRetryLock :: "string list \<Rightarrow> string list" where
  "addRetryLock args =
     (let r = before_repo 0 args in if length r = length args then r @ [''--retry-lock'', ''5m''] else r)"

definition log_if :: "bool \<Rightarrow> string \<Rightarrow> string list \<Rightarrow> 'h shell \<Rightarrow> 'h shell" where
  "log_if on format args s = (if on then log_line ''error'' (''restic stderr: '' @ format) args s else s)"

definition runDeleteCapturing :: "'h host \<Rightarrow> options \<Rightarrow> string list \<Rightarrow> 'h shell \<Rightarrow> (err + string) \<times> 'h shell" where
  "runDeleteCapturing hs opts args s =
     (case runResticDeleteCommand hs opts args s of
        (Inr txt, s1) \<Rightarrow> (Inr txt, s1)
      | (Inl e, s1) \<Rightarrow>
          if (case as_restic e of None \<Rightarrow> True | Some (_, name) \<Rightarrow> name \<noteq> ''repository_locked'') then (Inl e, s1)
          else
            let s2 = log_if (opt_logf opts) ''repository lock found, starting stale unlock'' [] s1 in
            (case runResticDeleteCommand hs opts (''unlock'' # resticRepositoryArgs opts @ [''--json'']) s2 of
               (Inl u, s3) \<Rightarrow> (Inl u, log_if (opt_logf opts) ''stale unlock failed: %v'' [error_text u] s3)
             | (Inr _, s3) \<Rightarrow>
                 let s4 = log_if (opt_logf opts) ''stale lock removed, deleting again'' [] s3 in
                 (case runResticDeleteCommand hs opts (addRetryLock args) s4 of
                    (Inl t, s5) \<Rightarrow> (Inl t, log_if (opt_logf opts) ''second deletion failed: %v'' [error_text t] s5)
                  | (Inr _, s5) \<Rightarrow> (Inr [], s5))))"

definition DeleteSnapshots :: "'h host \<Rightarrow> options \<Rightarrow> string list \<Rightarrow> bool \<Rightarrow> 'h shell \<Rightarrow> err option \<times> 'h shell" where
  "DeleteSnapshots hs opts ids prune s =
     (if opt_exe opts = [] then (Some exe_missing, s)
      else if ids = [] then (Some (Plain ''no snapshot IDs provided''), s)
      else
        let args = ''forget'' # ids @ (if prune then [''--prune''] else []) @ resticRepositoryArgs opts @ [''--json''];
            (r, s') = runDeleteCapturing hs opts args s in
        (case r of Inl e \<Rightarrow> Some e | Inr _ \<Rightarrow> None, s'))"

definition DeleteByTags :: "'h host \<Rightarrow> options \<Rightarrow> string list \<Rightarrow> 'h shell \<Rightarrow> err option \<times> 'h shell" where
  "DeleteByTags hs opts tags s =
     (if opt_exe opts = [] then (Some exe_missing, s)
      else if tags = [] then (Some (Plain ''no tags provided''), s)
      else case Snapshots hs opts s of
        (Inl e, s') \<Rightarrow> (Some e, s')
      | (Inr snaps, s') \<Rightarrow>
          let ids = map snap_id (filter (\<lambda>x. snapshotHasAllTags x tags) snaps) in
          if ids = [] then (None, s') else DeleteSnapshots hs opts ids True s')"

definition keep_flag :: "string \<Rightarrow> int \<Rightarrow> string list" where
  "keep_flag flag n = (if 0 < n then [flag, dec_int n] else [])"

definition keep_flags :: "retention \<Rightarrow> string list" where
  "keep_flags r =
     keep_flag ''--keep-last'' (keep_last r) @ keep_flag ''--keep-daily'' (keep_daily r) @
     keep_flag ''--keep-weekly'' (keep_weekly r) @ keep_flag ''--keep-monthly'' (keep_monthly r)"

definition decode_group :: "json \<Rightarrow> (nat \<times> nat) option" where
  "decode_group j =
     (let count = (\<lambda>k ms. case obj_get k ms of None \<Rightarrow> Some 0 | Some JNull \<Rightarrow> Some 0
                          | Some (JList xs) \<Rightarrow> Some (length xs) | Some _ \<Rightarrow> None) in
      case j of
        JNull \<Rightarrow> Some (0, 0)
      | JObj ms \<Rightarrow> (case (count ''remove'' ms, count ''keep'' ms) of (Some r, Some k) \<Rightarrow> Some (r, k) | _ \<Rightarrow> None)
      | _ \<Rightarrow> None)"

definition logRetentionResult :: "options \<Rightarrow> string list \<Rightarrow> string \<Rightarrow> 'h shell \<Rightarrow> 'h shell" where
  "logRetentionResult opts tags stdout s =
     (if \<not> opt_logf opts \<and> \<not> opt_info_logf opts then s
      else case (case parse_json (TrimSpace stdout) of JList js \<Rightarrow> decode_all decode_group js | _ \<Rightarrow> None) of
        None \<Rightarrow> s
      | Some gs \<Rightarrow>
          if gs = [] then s
          else
            let args = [dec_nat (sum_list (map fst gs)), dec_nat (sum_list (map snd gs)), dec_nat (length gs), JoinWith '','' tags];
                format = ''retention: removed %d snapshots, kept %d (%d groups, tags %s)'' in
            if opt_info_logf opts then log_line ''info'' format args s
            else log_if True format args s)"

definition forget_args :: "options \<Rightarrow> retention \<Rightarrow> string list \<Rightarrow> bool \<Rightarrow> string list" where
  "forget_args opts r tags prune =
     [''forget'', ''--group-by'', []] @ (if prune then [''--prune''] else []) @ resticRepositoryArgs opts @
     concat (map (\<lambda>t. [''--tag'', t]) tags) @ keep_flags r @ [''--json'']"

definition restic_forget ::
  "'h host \<Rightarrow> options \<Rightarrow> retention \<Rightarrow> string list \<Rightarrow> bool \<Rightarrow> 'h shell \<Rightarrow> err option \<times> 'h shell" where
  "restic_forget hs opts r tags prune s =
     (if opt_exe opts = [] then (Some exe_missing, s)
      else case runDeleteCapturing hs opts (forget_args opts r tags prune) s of
        (Inl e, s') \<Rightarrow> (Some e, s')
      | (Inr stdout, s') \<Rightarrow> (None, logRetentionResult opts tags stdout s'))"

definition restic_Forget :: "'h host \<Rightarrow> options \<Rightarrow> retention \<Rightarrow> string list \<Rightarrow> 'h shell \<Rightarrow> err option \<times> 'h shell" where
  "restic_Forget hs opts r tags s = restic_forget hs opts r tags True s"

definition ForgetOnly :: "'h host \<Rightarrow> options \<Rightarrow> retention \<Rightarrow> string list \<Rightarrow> 'h shell \<Rightarrow> err option \<times> 'h shell" where
  "ForgetOnly hs opts r tags s = restic_forget hs opts r tags False s"

section \<open>What a deletion runs\<close>

lemma as_restic_enriched [simp]: "as_restic (enriched e out) = as_restic e"
  by (simp add: enriched_def Let_def)

lemma as_restic_map: "as_restic (mapResticError code e) =
  Some (code, if MapResticExitCode code = [] then ''restic_failed'' else MapResticExitCode code)"
  by (simp add: mapResticError_def Let_def split: option.splits)

lemma locked_code:
  "(if MapResticExitCode code = [] then ''restic_failed'' else MapResticExitCode code) = ''repository_locked''
     \<longleftrightarrow> code = 11"
  by (simp add: MapResticExitCode_def)

lemma log_fold_ran [simp]: "sh_ran (fold (\<lambda>l. log_line a b (f l)) ls s) = sh_ran s"
  by (induction ls arbitrary: s) simp_all

lemma log_stderr_ran [simp]: "sh_ran (log_stderr opts ls s) = sh_ran s"
  by (simp add: log_stderr_def)

lemma log_if_ran [simp]: "sh_ran (log_if on f a s) = sh_ran s"
  by (simp add: log_if_def)

lemma run_logged_ran:
  "run_logged hs opts args s = (r, s') \<Longrightarrow> sh_ran s' = sh_ran s @ [restic_cmd opts args (cache_env opts)]"
  by (auto simp: run_logged_def Let_def split: prod.splits dest: Run_ran)

lemma run_logged_code:
  "run_logged hs opts args s = (Inl e, s') \<Longrightarrow>
     \<exists>code. as_restic e = Some (code, if MapResticExitCode code = [] then ''restic_failed'' else MapResticExitCode code) \<and>
       code = exit_code (fst (run_cmd hs (restic_cmd opts args (cache_env opts)) (sh_host s)))"
  by (auto simp: run_logged_def Run_def Let_def as_restic_map split: prod.splits if_splits)

definition unlock_cmd :: "options \<Rightarrow> cmd" where
  "unlock_cmd opts = restic_cmd opts (''unlock'' # resticRepositoryArgs opts @ [''--json'']) (cache_env opts)"

definition delete_cmd :: "options \<Rightarrow> string list \<Rightarrow> cmd" where
  "delete_cmd opts args = restic_cmd opts args (cache_env opts)"

lemma delete_command_ran:
  "runResticDeleteCommand hs opts args s = (r, s') \<Longrightarrow> sh_ran s' = sh_ran s @ [delete_cmd opts args]"
  by (auto simp: runResticDeleteCommand_def delete_cmd_def Let_def split: prod.splits dest: run_logged_ran)

lemma host_log_fold [simp]: "sh_host (fold (\<lambda>l. log_line a b (f l)) ls s) = sh_host s"
  by (induction ls arbitrary: s) simp_all

lemma delete_command_result:
  assumes "runResticDeleteCommand hs opts args s = (r, s')" and "run_cmd hs (delete_cmd opts args) (sh_host s) = (o', h')"
  shows "sh_ran s' = sh_ran s @ [delete_cmd opts args]" "sh_host s' = h'" "(\<exists>e. r = Inl e) \<longleftrightarrow> failed o'"
    "r = Inl e \<Longrightarrow> as_restic e =
       Some (exit_code o', if MapResticExitCode (exit_code o') = [] then ''restic_failed'' else MapResticExitCode (exit_code o'))"
proof -
  show "sh_ran s' = sh_ran s @ [delete_cmd opts args]" by (rule delete_command_ran [OF assms(1)])
  show "sh_host s' = h'" "(\<exists>e. r = Inl e) \<longleftrightarrow> failed o'"
    using assms by (auto simp: runResticDeleteCommand_def run_logged_def Run_def delete_cmd_def log_stderr_def Let_def
        split: if_splits)
  show "as_restic e = Some (exit_code o', if MapResticExitCode (exit_code o') = [] then ''restic_failed''
      else MapResticExitCode (exit_code o'))" if "r = Inl e"
  proof -
    have "\<exists>x. run_logged hs opts args s = (Inl e, x)"
      using assms(1) that by (auto simp: runResticDeleteCommand_def Let_def map_sum_def split: prod.splits sum.splits)
    then show ?thesis using run_logged_code [of hs opts args s e] assms(2) by (auto simp: delete_cmd_def)
  qed
qed

text \<open>C26: 
  A deletion runs at most three commands, as restic answers.  The deletion itself comes first, and
  unless restic answers that the repository is locked (exit code 11) it is all that runs, and the
  deletion fails exactly if it failed.  If, and only if, the answer is that, one \<open>unlock\<close> follows.  If
  that fails, nothing more runs and the deletion fails; otherwise the same deletion runs once more
  with a lock timeout, and its answer is the final one.
\<close>

theorem deletion_unlocks_and_retries_once:
  "let (o1, h1) = run_cmd hs (delete_cmd opts args) (sh_host s);
       (o2, h2) = run_cmd hs (unlock_cmd opts) h1;
       o3 = fst (run_cmd hs (delete_cmd opts (addRetryLock args)) h2);
       (r, s') = runDeleteCapturing hs opts args s
   in if exit_code o1 \<noteq> 11 then sh_ran s' = sh_ran s @ [delete_cmd opts args] \<and> ((\<exists>e. r = Inl e) \<longleftrightarrow> failed o1)
      else if failed o2 then sh_ran s' = sh_ran s @ [delete_cmd opts args, unlock_cmd opts] \<and> (\<exists>e. r = Inl e)
      else sh_ran s' = sh_ran s @ [delete_cmd opts args, unlock_cmd opts, delete_cmd opts (addRetryLock args)] \<and>
        ((\<exists>e. r = Inl e) \<longleftrightarrow> failed o3)"
proof -
  let ?unlock = "''unlock'' # resticRepositoryArgs opts @ [''--json'']"
  have u: "unlock_cmd opts = delete_cmd opts ?unlock" by (simp add: unlock_cmd_def delete_cmd_def)
  obtain o1 h1 where o1: "run_cmd hs (delete_cmd opts args) (sh_host s) = (o1, h1)" by force
  obtain o2 h2 where o2: "run_cmd hs (unlock_cmd opts) h1 = (o2, h2)" by force
  obtain o3 h3 where o3: "run_cmd hs (delete_cmd opts (addRetryLock args)) h2 = (o3, h3)" by force
  obtain r1 s1 where first: "runResticDeleteCommand hs opts args s = (r1, s1)" by force
  note one = delete_command_result [OF first o1]
  define s2 where "s2 = log_if (opt_logf opts) ''repository lock found, starting stale unlock'' [] s1"
  have s2: "sh_host s2 = h1" "sh_ran s2 = sh_ran s1" using one by (simp_all add: s2_def log_if_def)
  obtain r3 s3 where unlock: "runResticDeleteCommand hs opts ?unlock s2 = (r3, s3)" by force
  note two = delete_command_result [OF unlock, of o2 h2, unfolded s2 u [symmetric], OF o2]
  define s4 where "s4 = log_if (opt_logf opts) ''stale lock removed, deleting again'' [] s3"
  have s4: "sh_host s4 = h2" "sh_ran s4 = sh_ran s3" using two by (simp_all add: s4_def log_if_def)
  obtain r5 s5 where again: "runResticDeleteCommand hs opts (addRetryLock args) s4 = (r5, s5)" by force
  note three = delete_command_result [OF again, of o3 h3, unfolded s4, OF o3]
  have locked: "(case as_restic e of None \<Rightarrow> True | Some (_, name) \<Rightarrow> name \<noteq> ''repository_locked'') \<longleftrightarrow> exit_code o1 \<noteq> 11"
    if "r1 = Inl e" for e using one(4) [OF that] locked_code [of "exit_code o1"] by simp
  show ?thesis
  proof (cases r1)
    case (Inr out)
    then have "\<not> failed o1" using one(3) by simp
    then have "exit_code o1 \<noteq> 11" by (simp add: failed_def)
    with Inr first one show ?thesis by (simp add: runDeleteCapturing_def o1 o2)
  next
    case e: (Inl e)
    then have bad: "failed o1" using one(3) by auto
    show ?thesis
    proof (cases "exit_code o1 = 11")
      case False
      with e first one bad locked [OF e] show ?thesis by (simp add: runDeleteCapturing_def o1 o2)
    next
      case True
      have "runDeleteCapturing hs opts args s =
          (case r3 of Inl x \<Rightarrow> (Inl x, log_if (opt_logf opts) ''stale unlock failed: %v'' [error_text x] s3)
           | Inr _ \<Rightarrow> (case r5 of Inl t \<Rightarrow> (Inl t, log_if (opt_logf opts) ''second deletion failed: %v'' [error_text t] s5)
                      | Inr _ \<Rightarrow> (Inr [], s5)))"
        using e True locked [OF e] first unlock again
        by (simp add: runDeleteCapturing_def s2_def [symmetric] s4_def [symmetric] Let_def split: sum.splits)
      with True one(1) two three show ?thesis
        by (cases r3; cases r5) (simp_all add: o1 o2 o3 s2 s4)
    qed
  qed
qed

lemma snapshots_ran:
  "Snapshots hs opts s = (r, s') \<Longrightarrow> opt_exe opts \<noteq> [] \<Longrightarrow>
     sh_ran s' = sh_ran s @ [restic_cmd opts (''snapshots'' # resticRepositoryArgs opts @ [''--json'']) (buildEnv opts)]"
  by (auto simp: Snapshots_def Let_def split: prod.splits dest: Run_ran)

lemma deletion_ran:
  "runDeleteCapturing hs opts args s = (r, s') \<Longrightarrow>
     \<exists>rest. sh_ran s' = sh_ran s @ delete_cmd opts args # rest \<and>
       set rest \<subseteq> {unlock_cmd opts, delete_cmd opts (addRetryLock args)}"
  unfolding runDeleteCapturing_def
  by (auto simp: unlock_cmd_def delete_cmd_def split: prod.splits sum.splits if_splits
      dest!: delete_command_ran)

definition forget_ids :: "options \<Rightarrow> string list \<Rightarrow> string list" where
  "forget_ids opts ids = ''forget'' # ids @ [''--prune''] @ resticRepositoryArgs opts @ [''--json'']"

text \<open>C25: 
  Deleting the backups of a plan by its tags never runs a \<open>forget\<close> that could match more.
  Without tags nothing runs at all.  With tags the repository is listed once; if the listing fails,
  or no snapshot carries every tag, that is all that runs; otherwise the \<open>forget\<close> names exactly the
  snapshots of the listing that carry every tag, and only the unlock and the repetition of that same
  command can follow.
\<close>

theorem tag_deletion_names_its_snapshots:
  assumes "opt_exe opts \<noteq> []" and "DeleteByTags hs opts tags s = (e, s')"
  shows "if tags = [] then e \<noteq> None \<and> s' = s
         else case Snapshots hs opts s of
           (Inl x, s1) \<Rightarrow> e = Some x \<and> length (sh_ran s') = length (sh_ran s) + 1
         | (Inr snaps, s1) \<Rightarrow>
             let ids = [snap_id x. x \<leftarrow> snaps, set tags \<subseteq> set (snap_tags x)] in
             if ids = [] then e = None \<and> length (sh_ran s') = length (sh_ran s) + 1
             else \<exists>listing rest. sh_ran s' = sh_ran s @ listing # delete_cmd opts (forget_ids opts ids) # rest \<and>
                    set rest \<subseteq> {unlock_cmd opts, delete_cmd opts (addRetryLock (forget_ids opts ids))}"
proof (cases "tags = []")
  case True
  with assms show ?thesis by (auto simp: DeleteByTags_def)
next
  case False
  obtain r s1 where l: "Snapshots hs opts s = (r, s1)" by force
  note ran = snapshots_ran [OF l assms(1)]
  show ?thesis
  proof (cases r)
    case (Inl x)
    with False l ran assms show ?thesis by (simp add: DeleteByTags_def)
  next
    case (Inr snaps)
    define ids where "ids = [snap_id x. x \<leftarrow> snaps, set tags \<subseteq> set (snap_tags x)]"
    have same: "map snap_id (filter (\<lambda>x. snapshotHasAllTags x tags) snaps) = ids"
      unfolding ids_def snapshotHasAllTags_def list_all_iff subset_eq by (induction snaps) auto
    show ?thesis
    proof (cases "ids = []")
      case True
      with False l ran assms same Inr show ?thesis by (simp add: DeleteByTags_def ids_def [symmetric])
    next
      case nonempty: False
      obtain r2 s2 where d: "runDeleteCapturing hs opts (forget_ids opts ids) s1 = (r2, s2)" by force
      from False l assms same Inr nonempty d have "s' = s2"
        by (simp add: DeleteByTags_def DeleteSnapshots_def forget_ids_def Let_def)
      with deletion_ran [OF d] ran False nonempty Inr l show ?thesis
        by (auto simp: ids_def [symmetric])
    qed
  qed
qed

definition demo_options :: options where
  "demo_options =
     \<lparr>opt_exe = ''restic'', opt_repo = ''r'', opt_password_file = [], opt_cache_dir = [], opt_rclone_conf = [],
      opt_working_dir = [], opt_logf = True, opt_info_logf = True, opt_read_subset = []\<rparr>"

definition demo_listing :: string where
  "demo_listing =
     json_text (JList [JObj [(''id'', JStr ''a''), (''tags'', JList [JStr ''plan:1'', JStr ''run:7''])],
                       JObj [(''id'', JStr ''b''), (''tags'', JList [JStr ''k''])]])"

theorem tag_deletion_names_its_snapshots_witness:
  "\<exists>listing rest.
     sh_ran (snd (DeleteByTags (demo_host (\<lambda>_. \<lparr>out_lines = [Out demo_listing], exit_code = 0, run_err = None\<rparr>))
                    demo_options [''plan:1''] demo_shell)) =
       listing # delete_cmd demo_options (forget_ids demo_options [''a'']) # rest"
proof -
  define hs where "hs = demo_host (\<lambda>_. \<lparr>out_lines = [Out demo_listing], exit_code = 0, run_err = None\<rparr>)"
  have exe: "opt_exe demo_options \<noteq> []" by (simp add: demo_options_def)
  have raw: "TrimSpace (lines_text [demo_listing]) \<noteq> []" by code_simp
  have dec: "listed_snapshots (parse_json (TrimSpace (lines_text [demo_listing]))) =
      Some [\<lparr>snap_id = ''a'', snap_time = [], snap_host = [], snap_tags = [''plan:1'', ''run:7''], snap_paths = []\<rparr>,
            \<lparr>snap_id = ''b'', snap_time = [], snap_host = [], snap_tags = [''k''], snap_paths = []\<rparr>]"
    by code_simp
  obtain s1 where l: "Snapshots hs demo_options demo_shell =
      (Inr [\<lparr>snap_id = ''a'', snap_time = [], snap_host = [], snap_tags = [''plan:1'', ''run:7''], snap_paths = []\<rparr>,
            \<lparr>snap_id = ''b'', snap_time = [], snap_host = [], snap_tags = [''k''], snap_paths = []\<rparr>], s1)"
    using raw dec exe by (simp add: Snapshots_def hs_def demo_host_def Run_def)
  obtain e s' where d: "DeleteByTags hs demo_options [''plan:1''] demo_shell = (e, s')" by force
  have "sh_ran demo_shell = []" by (simp add: demo_shell_def)
  with tag_deletion_names_its_snapshots [OF exe d] l show ?thesis
    by (auto simp: d hs_def [symmetric] Let_def)
qed

text \<open>
  A missing repository is recognised on every backend.  The code of a failed listing is restic's
  own for the mapped exit codes; for any other failing exit code it is \<open>repository_missing\<close> exactly
  when the error output carries one of the known messages, and \<open>restic_failed\<close> otherwise.  Quoting
  the output in the message never changes the code.
\<close>

theorem missing_repository_is_recognised:
  "as_restic (resticRunError code cause output) =
     Some (code,
       if MapResticExitCode code \<noteq> [] then MapResticExitCode code
       else if code \<noteq> 0 \<and> list_ex (Contains output) missingRepositoryMarkers then ''repository_missing''
       else ''restic_failed'')"
proof -
  have "MapResticExitCode code \<noteq> ''restic_failed''" by (simp add: MapResticExitCode_def)
  then show ?thesis
    by (auto simp: resticRunError_def mapResticError_def Let_def split: option.splits)
qed

section \<open>Bounds\<close>

lemma append_output_short: "length t \<le> 4096 \<Longrightarrow> length (append_output t l) \<le> 4096"
  by (auto simp: append_output_def Let_def)

lemma verbs_differ:
  "verb_line l ''restored'' \<Longrightarrow> \<not> verb_line l ''updated''" "verb_line l ''restored'' \<Longrightarrow> \<not> verb_line l ''unchanged''"
  "verb_line l ''updated'' \<Longrightarrow> \<not> verb_line l ''unchanged''"
  by (cases l; auto simp: verb_line_def; cases "tl l"; auto)+

lemma dry_line_counts:
  "dc_added (dry_line l c) = dc_added c + of_bool (verb_line l ''restored'')"
  "dc_changed (dry_line l c) = dc_changed c + of_bool (verb_line l ''updated'')"
  "dc_skipped (dry_line l c) = dc_skipped c + of_bool (verb_line l ''unchanged'')"
  using verbs_differ [of l] by (auto simp: dry_line_def Let_def)

lemma dry_line_sample:
  "length (dc_sample c) \<le> 50 \<Longrightarrow> length (dc_sample (dry_line l c)) \<le> 50"
  by (auto simp: dry_line_def Let_def)

lemma dry_fold_counts:
  "dc_added (fold dry_line ls c) = dc_added c + length (filter (\<lambda>l. verb_line l ''restored'') ls)"
  "dc_changed (fold dry_line ls c) = dc_changed c + length (filter (\<lambda>l. verb_line l ''updated'') ls)"
  "dc_skipped (fold dry_line ls c) = dc_skipped c + length (filter (\<lambda>l. verb_line l ''unchanged'') ls)"
  by (induction ls arbitrary: c) (simp_all add: dry_line_counts)

lemma dry_fold_sample:
  "length (dc_sample c) \<le> 50 \<Longrightarrow> length (dc_sample (fold dry_line ls c)) \<le> 50"
  by (induction ls arbitrary: c) (simp_all add: dry_line_sample)

text \<open>
  A trial restore reports what restic printed: the numbers of files added, changed and skipped are
  the numbers of output lines with the verbs \<open>restored\<close>, \<open>updated\<close> and \<open>unchanged\<close>, the total is
  their sum, no file is reported as deleted, and the sample holds at most fifty lines.
\<close>

theorem trial_restore_counts_lines:
  assumes "RestoreDryRunWithOverwrite hs opts snap target paths overwrite s = (Inr p, s')"
  shows "\<exists>ls. prg_files_added p = int (length (filter (\<lambda>l. verb_line l ''restored'') (outs_of ls))) \<and>
           prg_files_changed p = int (length (filter (\<lambda>l. verb_line l ''updated'') (outs_of ls))) \<and>
           prg_files_skipped p = int (length (filter (\<lambda>l. verb_line l ''unchanged'') (outs_of ls))) \<and>
           prg_files_total p = prg_files_added p + prg_files_changed p + prg_files_skipped p \<and>
           prg_files_deleted p = 0 \<and> length (prg_sample p) \<le> 50 \<and>
           out_lines (fst (run_cmd hs (last (sh_ran s')) (sh_host s))) = ls \<and>
           exit_code (fst (run_cmd hs (last (sh_ran s')) (sh_host s))) = 0"
proof -
  obtain ls where r: "run_logged hs opts
      ([''restore'', snap, ''--target'', target, ''--dry-run'', ''--verbose=2'', ''--overwrite'', normalizeOverwrite overwrite] @
       resticRepositoryArgs opts @ include_args paths) s = (Inr ls, s')"
    and p: "p = dry_progress (fold dry_line (outs_of ls) \<lparr>dc_added = 0, dc_changed = 0, dc_skipped = 0, dc_sample = []\<rparr>)"
    using assms by (auto simp: RestoreDryRunWithOverwrite_def split: prod.splits sum.splits if_splits)
  have "last (sh_ran s') = restic_cmd opts
      ([''restore'', snap, ''--target'', target, ''--dry-run'', ''--verbose=2'', ''--overwrite'', normalizeOverwrite overwrite] @
       resticRepositoryArgs opts @ include_args paths) (cache_env opts)"
    using run_logged_ran [OF r] by simp
  with r have "out_lines (fst (run_cmd hs (last (sh_ran s')) (sh_host s))) = ls"
    and "exit_code (fst (run_cmd hs (last (sh_ran s')) (sh_host s))) = 0"
    by (auto simp: run_logged_def Run_def Let_def failed_def split: prod.splits if_splits)
  with p show ?thesis
    by (auto simp: dry_progress_def no_progress_def dry_fold_counts intro!: dry_fold_sample)
qed

theorem trial_restore_counts_lines_witness:
  "\<exists>p s'. RestoreDryRunWithOverwrite
       (demo_host (\<lambda>_. \<lparr>out_lines = [Out ''restored  /a'', Err ''x'', Out ''unchanged /b'', Out ''Summary''], exit_code = 0, run_err = None\<rparr>))
       demo_options ''s'' ''/t'' [] ''always'' demo_shell = (Inr p, s') \<and>
     prg_files_added p = 1 \<and> prg_files_skipped p = 1 \<and> prg_files_total p = 2"
proof -
  define hs where "hs = demo_host (\<lambda>_. \<lparr>out_lines = [Out ''restored  /a'', Err ''x'', Out ''unchanged /b'', Out ''Summary''], exit_code = 0, run_err = None\<rparr>)"
  obtain p s' where r: "RestoreDryRunWithOverwrite hs demo_options ''s'' ''/t'' [] ''always'' demo_shell = (Inr p, s')"
    by (simp add: RestoreDryRunWithOverwrite_def hs_def demo_host_def run_logged_def Run_def failed_def demo_options_def)
  have out: "out_lines (fst (run_cmd hs c h)) = [Out ''restored  /a'', Err ''x'', Out ''unchanged /b'', Out ''Summary'']" for c h
    by (simp add: hs_def demo_host_def)
  have v: "length (filter (\<lambda>l. verb_line l ''restored'') [''restored  /a'', ''unchanged /b'', ''Summary'']) = 1"
    "length (filter (\<lambda>l. verb_line l ''updated'') [''restored  /a'', ''unchanged /b'', ''Summary'']) = 0"
    "length (filter (\<lambda>l. verb_line l ''unchanged'') [''restored  /a'', ''unchanged /b'', ''Summary'']) = 1"
    by code_simp+
  from trial_restore_counts_lines [OF r] out v have "prg_files_added p = 1 \<and> prg_files_skipped p = 1 \<and> prg_files_total p = 2"
    by auto
  with r show ?thesis unfolding hs_def by blast
qed

end
