(* ===== verification/Pipeline.thy ===== *)
theory Pipeline
  imports Restic Tasks
begin

text \<open>
  \<open>internal/agent/pipeline/pipeline.go\<close> without its path functions (see \<open>Agent_Paths\<close>): one operation of
  the agent from its JSON parameters to its result.  The adapters of the database kinds are the record
  \<open>adapter\<close>, the Go interfaces \<open>Adapter\<close>, \<open>DatabaseRestorer\<close> and \<open>PreflightRestorer\<close> of
  \<open>internal/agent/backup/adapter.go\<close>; the filesystem adapter is the one of \<open>Agent_Tools\<close>.
\<close>

section \<open>Dependencies and results\<close>

record 'h engine =
  eng_Preflight :: "(restore_spec \<Rightarrow> 'h shell \<Rightarrow> err option \<times> 'h shell) option"
  eng_TargetExists :: "restore_spec \<Rightarrow> 'h shell \<Rightarrow> (err + bool) \<times> 'h shell"
  eng_Import :: "restore_spec \<Rightarrow> 'h shell \<Rightarrow> err option \<times> 'h shell"
  eng_VerifyRestored :: "restore_spec \<Rightarrow> 'h shell \<Rightarrow> err option \<times> 'h shell"
  eng_RemoveTarget :: "restore_spec \<Rightarrow> 'h shell \<Rightarrow> err option \<times> 'h shell"

record 'h adapter =
  ad_Validate :: "plan_source \<Rightarrow> 'h \<Rightarrow> err option"
  ad_Backup :: "string \<Rightarrow> secret_bundle \<Rightarrow> string \<Rightarrow> plan_source \<Rightarrow> 'h shell \<Rightarrow> (err + artifact) \<times> 'h shell"
  ad_engine :: "(bool \<Rightarrow> 'h engine) option"

text \<open>
  The engine of an adapter is told whether it runs under the run's context or under one of its own.
  \<open>d_detached\<close> is the host as a context of its own sees it: the rollback is not cancelled with the run.
  \<open>d_db_busy\<close> says whether another restore of this process holds the lock.
\<close>

record 'h deps =
  d_host :: "'h host"
  d_detached :: "'h host"
  d_adapters :: "kind \<Rightarrow> 'h adapter"
  d_tools :: "string \<rightharpoonup> string"
  d_tools_json :: json
  d_source_roots :: "string list"
  d_restore_roots :: "string list"
  d_source_mappings :: "path_mapping list"
  d_restore_mappings :: "path_mapping list"
  d_scratch_min_free :: int
  d_cache_dir :: string
  d_read_subset :: string
  d_db_busy :: "'h \<Rightarrow> bool"

record op_result =
  op_snapshot_ids :: "string list"
  op_json :: json

definition no_result :: op_result where
  "no_result = \<lparr>op_snapshot_ids = [], op_json = json_none\<rparr>"

definition json_result :: "json \<Rightarrow> op_result" where
  "json_result j = \<lparr>op_snapshot_ids = [], op_json = j\<rparr>"

definition filesystem_adapter :: "'h host \<Rightarrow> 'h adapter" where
  "filesystem_adapter hs =
     \<lparr>ad_Validate = fs_Validate hs KindFilesystem, ad_Backup = (\<lambda>_ _ tempDir src. fs_Backup hs tempDir src),
      ad_engine = None\<rparr>"

definition For :: "'h deps \<Rightarrow> kind \<Rightarrow> 'h adapter option" where
  "For d k =
     (case k of KindFilesystem \<Rightarrow> Some (filesystem_adapter (d_host d)) | KindOther _ \<Rightarrow> None
      | _ \<Rightarrow> Some (d_adapters d k))"

definition path_error_text :: "path_error \<Rightarrow> string" where
  "path_error_text e =
     (case e of
        NotCovered p \<Rightarrow> ''path not covered by a path mapping: '' @ p
      | EscapesTarget p \<Rightarrow> ''mapped path escapes target root: '' @ p
      | NoWorkingDir \<Rightarrow> ''getwd'' | EmptyPath \<Rightarrow> ''empty path''
      | ForbiddenPath p \<Rightarrow> ''forbidden path: '' @ p
      | ForbiddenRoot p \<Rightarrow> ''forbidden allowlist root: '' @ p
      | NotAccessible p \<Rightarrow> ''path not accessible: '' @ p
      | RootNotAllowed p \<Rightarrow> ''root path is not allowed: '' @ p
      | OutsideRoots p \<Rightarrow> ''path is outside configured roots: '' @ p
      | UnreadableLink p \<Rightarrow> ''readlink '' @ p
      | UnresolvedLink p \<Rightarrow> ''symlink target cannot be resolved: '' @ p
      | LinkOutside p \<Rightarrow> ''symlink points outside restore root: '' @ p
      | WalkFailed \<Rightarrow> ''walk'')"

definition path_err :: "path_error \<Rightarrow> err" where
  "path_err e = Plain (path_error_text e)"

definition toolExe :: "'h deps \<Rightarrow> string \<Rightarrow> string" where
  "toolExe d name = toolPath (d_tools d) name"

definition internal_err :: "string \<Rightarrow> err \<Rightarrow> err" where
  "internal_err message e = Pipeline ''internal'' message (Some e) json_none"

definition newResticOpts :: "'h deps \<Rightarrow> string \<Rightarrow> string \<Rightarrow> secret_bundle \<Rightarrow> 'h shell \<Rightarrow> (err + options) \<times> 'h shell" where
  "newResticOpts d repoPath tempDir secrets s =
     (case WriteSecretFile (d_host d) tempDir ''restic_pw'' (sb_restic_password secrets) s of
        (Inl e, s1) \<Rightarrow> (Inl (internal_err ''write restic password'' e), s1)
      | (Inr pw, s1) \<Rightarrow>
          let exe = toolExe d ''restic'';
              opts = \<lparr>opt_exe = (if exe = [] then ''restic'' else exe), opt_repo = NormalizeRepoPath repoPath,
                      opt_password_file = pw, opt_cache_dir = d_cache_dir d, opt_rclone_conf = [],
                      opt_working_dir = [], opt_logf = True, opt_info_logf = True,
                      opt_read_subset = d_read_subset d\<rparr> in
          if sb_rclone_conf secrets = [] then (Inr opts, s1)
          else case WriteConf (d_host d) tempDir (sb_rclone_conf secrets) s1 of
            (Inl e, s2) \<Rightarrow> (Inl (internal_err ''write rclone conf'' e), s2)
          | (Inr conf, s2) \<Rightarrow> (Inr (opts\<lparr>opt_rclone_conf := conf\<rparr>), s2))"

section \<open>Parameters\<close>

definition decode_kind :: "string \<Rightarrow> kind" where
  "decode_kind s =
     (if s = ''filesystem'' then KindFilesystem else if s = ''postgresql'' then KindPostgreSQL
      else if s = ''mysql'' then KindMySQL else if s = ''mongodb'' then KindMongoDB
      else if s = ''sqlite'' then KindSQLite else KindOther s)"

definition params_object :: "json \<Rightarrow> (string \<times> json) list option" where
  "params_object j = (case j of JObj ms \<Rightarrow> Some ms | JNull \<Rightarrow> Some [] | _ \<Rightarrow> None)"

definition field_repository :: "(string \<times> json) list \<Rightarrow> string option" where
  "field_repository ms =
     (case field_object ''repository'' ms of
        None \<Rightarrow> None
      | Some rs \<Rightarrow>
          (case (field_string ''repository_path'' rs, field_string ''cache_dir'' rs) of
             (Some p, Some _) \<Rightarrow> Some p | _ \<Rightarrow> None))"

definition decode_plan_source :: "(string \<times> json) list \<Rightarrow> plan_source option" where
  "decode_plan_source ms =
     (case (field_strings ''paths'' ms, field_strings ''excludes'' ms, field_bool ''one_file_system'' ms,
            field_string ''host'' ms, field_int ''port'' ms, field_string ''username'' ms) of
        (Some ps, Some es, Some one, Some h, Some port, Some u) \<Rightarrow>
          (case (field_string ''database'' ms, field_string ''auth_source'' ms, field_strings ''extra_args'' ms,
                 field_int ''estimated_dump_bytes'' ms, field_bool ''capture_oplog'' ms, field_string ''path'' ms) of
             (Some db, Some auth, Some extra, Some est, Some oplog, Some p) \<Rightarrow>
               Some \<lparr>src_paths = ps, src_excludes = es, src_one_file_system = one, src_host = h, src_port = port,
                     src_username = u, src_database = db, src_auth_source = auth, src_extra_args = extra,
                     src_estimated_dump_bytes = est, src_capture_oplog = oplog, src_path = p\<rparr>
           | _ \<Rightarrow> None)
      | _ \<Rightarrow> None)"

record backup_task =
  bt_plan_id :: string
  bt_kind :: kind
  bt_repo :: string
  bt_source :: plan_source
  bt_tags :: "string list"

definition decode_backup_task :: "json \<Rightarrow> backup_task option" where
  "decode_backup_task j =
     (case params_object j of
        None \<Rightarrow> None
      | Some ms \<Rightarrow>
          (case (field_string ''plan_id'' ms, field_string ''kind'' ms, field_repository ms,
                 Option.bind (field_object ''source'' ms) decode_plan_source, field_strings ''tags'' ms,
                 field_int ''timeout_seconds'' ms) of
             (Some i, Some k, Some r, Some src, Some ts, Some _) \<Rightarrow>
               Some \<lparr>bt_plan_id = i, bt_kind = decode_kind k, bt_repo = r, bt_source = src, bt_tags = ts\<rparr>
           | _ \<Rightarrow> None))"

record fs_target =
  fst_snapshot_id :: string
  fst_include_paths :: "string list"
  fst_target_path :: string
  fst_overwrite_mode :: string

definition decode_fs_target :: "(string \<times> json) list \<Rightarrow> fs_target option" where
  "decode_fs_target ms =
     (case (field_string ''snapshot_id'' ms, field_strings ''include_paths'' ms, field_string ''target_path'' ms,
            field_string ''overwrite_mode'' ms, field_bool ''dry_run'' ms) of
        (Some i, Some ps, Some t, Some o', Some _) \<Rightarrow>
          Some \<lparr>fst_snapshot_id = i, fst_include_paths = ps, fst_target_path = t, fst_overwrite_mode = o'\<rparr>
      | _ \<Rightarrow> None)"

definition decode_db_target :: "(string \<times> json) list \<Rightarrow> db_target option" where
  "decode_db_target ms =
     (case (field_string ''snapshot_id'' ms, field_string ''kind'' ms, field_string ''target_host'' ms,
            field_int ''target_port'' ms, field_string ''target_username'' ms, field_string ''target_database'' ms,
            field_string ''target_auth_source'' ms, field_bool ''replace_existing'' ms) of
        (Some i, Some k, Some h, Some p, Some u, Some db, Some auth, Some r) \<Rightarrow>
          Some \<lparr>dbt_snapshot_id = i, dbt_kind = k, dbt_host = h, dbt_port = p, dbt_username = u, dbt_database = db,
                dbt_auth_source = auth, dbt_replace_existing = r\<rparr>
      | _ \<Rightarrow> None)"

definition field_pointer :: "((string \<times> json) list \<Rightarrow> 'a option) \<Rightarrow> string \<Rightarrow> (string \<times> json) list \<Rightarrow> 'a option option" where
  "field_pointer decode k ms =
     (case obj_get k ms of None \<Rightarrow> Some None | Some JNull \<Rightarrow> Some None
      | Some (JObj ns) \<Rightarrow> map_option Some (decode ns) | Some _ \<Rightarrow> None)"

record restore_task =
  rtk_kind :: kind
  rtk_repo :: string
  rtk_filesystem :: "fs_target option"
  rtk_database :: "db_target option"
  rtk_run_id :: string

definition decode_restore_task :: "json \<Rightarrow> restore_task option" where
  "decode_restore_task j =
     (case params_object j of
        None \<Rightarrow> None
      | Some ms \<Rightarrow>
          (case (field_string ''kind'' ms, field_repository ms, field_pointer decode_fs_target ''filesystem'' ms,
                 field_pointer decode_db_target ''database'' ms, field_string ''run_id'' ms) of
             (Some k, Some r, Some f, Some db, Some i) \<Rightarrow>
               Some \<lparr>rtk_kind = decode_kind k, rtk_repo = r, rtk_filesystem = f, rtk_database = db, rtk_run_id = i\<rparr>
           | _ \<Rightarrow> None))"

section \<open>Sequencing\<close>

definition then_do :: "('e + 'a) \<times> 's \<Rightarrow> ('a \<Rightarrow> 's \<Rightarrow> ('e + 'b) \<times> 's) \<Rightarrow> ('e + 'b) \<times> 's" where
  "then_do r f = (case r of (Inl e, s) \<Rightarrow> (Inl e, s) | (Inr a, s) \<Rightarrow> f a s)"

definition check :: "bool \<Rightarrow> 'e \<Rightarrow> 's \<Rightarrow> ('e + unit) \<times> 's" where
  "check c e s = (if c then Inr () else Inl e, s)"

definition map_err :: "('e \<Rightarrow> 'f) \<Rightarrow> ('e + 'a) \<times> 's \<Rightarrow> ('f + 'a) \<times> 's" where
  "map_err g r = (map_sum g id (fst r), snd r)"

definition of_option :: "'e \<Rightarrow> 'a option \<Rightarrow> 's \<Rightarrow> ('e + 'a) \<times> 's" where
  "of_option e x s = (case x of None \<Rightarrow> Inl e | Some a \<Rightarrow> Inr a, s)"

definition unless_error :: "'e option \<times> 's \<Rightarrow> ('e + unit) \<times> 's" where
  "unless_error r = (case fst r of None \<Rightarrow> Inr () | Some e \<Rightarrow> Inl e, snd r)"

section \<open>Results of a restore\<close>

definition restoreResultJSON :: "restore_phase \<Rightarrow> string \<Rightarrow> json" where
  "restoreResultJSON phase rollback =
     JObj ([(''phase'', JStr (phase_text phase))] @
           (if rollback = [] then [] else [(''rollback_snapshot_id'', JStr rollback)]))"

definition restoreSafeFail :: "string \<Rightarrow> string \<Rightarrow> err option \<Rightarrow> err" where
  "restoreSafeFail code message cause = Pipeline code message cause (restoreResultJSON RestorePhaseFailed [])"

definition restoreSafeWrap :: "string \<Rightarrow> err \<Rightarrow> err" where
  "restoreSafeWrap message e =
     (case as_pipeline e of
        Some (code, m, cause, payload) \<Rightarrow>
          Pipeline code m cause (if payload = json_none then restoreResultJSON RestorePhaseFailed [] else payload)
      | None \<Rightarrow> restoreSafeFail ''internal'' message (Some e))"

definition restoreFailureCode :: "restore_phase \<Rightarrow> string \<Rightarrow> string" where
  "restoreFailureCode phase category =
     (if phase = RestorePhaseRolledBack \<or> phase = RestorePhaseNewTargetCleaned then category else ''rollback_failed'')"

section \<open>Restoring files\<close>

definition stats_json :: "progress \<Rightarrow> json" where
  "stats_json p =
     JObj [(''add'', JNum (prg_files_added p)), (''changed'', JNum (prg_files_changed p)),
           (''delete'', JNum (prg_files_deleted p)),
           (''sample'', if prg_sample p = [] then JNull else strings_json (prg_sample p)),
           (''skipped'', JNum (prg_files_skipped p))]"

text \<open>The check of the allow lists always returns, so \<open>the\<close> takes its answer.\<close>

definition allowed_error :: "'h deps \<Rightarrow> 'h \<Rightarrow> string list \<Rightarrow> string list \<Rightarrow> bool \<Rightarrow> path_error option" where
  "allowed_error d h paths roots allowMissing =
     the (validateAllowedPaths (files_of (d_host d) h) paths roots allowMissing)"

definition restore_target_path :: "'h deps \<Rightarrow> string \<Rightarrow> string \<Rightarrow> string \<Rightarrow> 'h shell \<Rightarrow> (err + string) \<times> 'h shell" where
  "restore_target_path d target unmapped outside s =
     (case mapPath target (d_restore_mappings d) False of
        Inl e \<Rightarrow> (Inl (restoreSafeFail ''path_not_allowed'' unmapped (Some (path_err e))), s)
      | Inr mapped \<Rightarrow>
          (case allowed_error d (sh_host s) [mapped] (d_restore_roots d) True of
             Some e \<Rightarrow> (Inl (restoreSafeFail ''path_not_allowed'' outside (Some (path_err e))), s)
           | None \<Rightarrow> (Inr mapped, s)))"

definition runFilesystemRestore ::
  "'h deps \<Rightarrow> options \<Rightarrow> restore_task \<Rightarrow> bool \<Rightarrow> 'h shell \<Rightarrow> (err + op_result) \<times> 'h shell" where
  "runFilesystemRestore d opts task dryRun s =
     then_do (of_option (restoreSafeFail ''invalid_params'' ''missing filesystem restore spec'' None) (rtk_filesystem task) s) (\<lambda>fs s.
     then_do (restore_target_path d (fst_target_path fs) ''restore target path mapping failed''
                ''restore target is outside configured allowlist'' s) (\<lambda>target s.
     then_do (check (\<not> (fst_overwrite_mode fs = ''never'' \<and>
                       (case read_dir (d_host d) target (sh_host s) of Some (e # es) \<Rightarrow> True | _ \<Rightarrow> False)))
                (restoreSafeFail ''restore_target_not_empty'' ''target path not empty and overwrite_mode=never'' None) s) (\<lambda>_ s.
     if dryRun
     then then_do (map_err (\<lambda>e. Pipeline ''restore_failed'' ''dry run failed'' (Some e) json_none)
            (RestoreDryRunWithOverwrite (d_host d) opts (fst_snapshot_id fs) target (fst_include_paths fs)
               (fst_overwrite_mode fs) s)) (\<lambda>prog s.
          (Inr (json_result (stats_json prog)), s))
     else then_do (map_err (\<lambda>e. Pipeline ''restore_failed'' ''restore failed'' (Some e) json_none)
            (RestoreWithOverwrite (d_host d) opts (fst_snapshot_id fs) target (fst_include_paths fs)
               (fst_overwrite_mode fs) s)) (\<lambda>_ s.
          case validateRestoredSymlinks (files_of (d_host d) (sh_host s)) target of
            (None, _) \<Rightarrow>
              (Inr (json_result (restoreResultJSON RestorePhaseSucceeded [])),
               log_line ''info'' ''file restore done: %s (overwrite_mode=%s)'' [target, fst_overwrite_mode fs] s)
          | (Some e, gone) \<Rightarrow>
              (Inl (Pipeline ''path_not_allowed'' ''restored symlink escapes target root'' (Some (path_err e)) json_none),
               case gone of None \<Rightarrow> s | Some p \<Rightarrow> snd (on_host (remove_one (d_host d) p) s))))))"

section \<open>Manifests\<close>

record db_export =
  exp_database :: string
  exp_file :: string
  exp_format :: string

record manifest =
  mf_adapter :: string
  mf_databases :: "db_export list"
  mf_hints :: "(string \<times> json) list"

definition decode_export :: "json \<Rightarrow> db_export option" where
  "decode_export j =
     (case params_object j of
        None \<Rightarrow> None
      | Some ms \<Rightarrow>
          (case (field_string ''database'' ms, field_string ''file'' ms, field_string ''format'' ms) of
             (Some db, Some f, Some fmt) \<Rightarrow> Some \<lparr>exp_database = db, exp_file = f, exp_format = fmt\<rparr>
           | _ \<Rightarrow> None))"

definition field_string_map :: "string \<Rightarrow> (string \<times> json) list \<Rightarrow> (string \<times> json) list option" where
  "field_string_map k ms =
     (case field_object k ms of
        None \<Rightarrow> None
      | Some ns \<Rightarrow> if list_all (\<lambda>(_, v). decode_string v \<noteq> None) ns then Some ns else None)"

text \<open>The two time stamps of a manifest are not used here; a document whose stamps do not parse is left out.\<close>

definition decode_manifest :: "json \<Rightarrow> manifest option" where
  "decode_manifest j =
     (case params_object j of
        None \<Rightarrow> None
      | Some ms \<Rightarrow>
          (case (field_string ''adapter'' ms, field_string_map ''tool_versions'' ms,
                 (case obj_get ''databases'' ms of None \<Rightarrow> Some [] | Some JNull \<Rightarrow> Some []
                  | Some (JList js) \<Rightarrow> decode_all decode_export js | Some _ \<Rightarrow> None),
                 field_string_map ''restore_hints'' ms) of
             (Some a, Some _, Some dbs, Some hints) \<Rightarrow>
               Some \<lparr>mf_adapter = a, mf_databases = dbs, mf_hints = hints\<rparr>
           | _ \<Rightarrow> None))"

definition hint :: "manifest \<Rightarrow> string \<Rightarrow> string" where
  "hint m k = (case obj_get k (mf_hints m) of Some (JStr v) \<Rightarrow> v | _ \<Rightarrow> [])"

fun walk_manifest :: "(string \<times> entry_kind) option list \<Rightarrow> string \<Rightarrow> err + string" where
  "walk_manifest [] found = Inr found"
| "walk_manifest (None # es) found = Inl (Plain ''walk'')"
| "walk_manifest (Some (p, k) # es) found =
     (if Base p \<noteq> ''manifest.json'' \<or> k \<noteq> Regular then walk_manifest es found
      else if found \<noteq> [] then Inl (Plain ''multiple manifest.json files in restored snapshot'')
      else walk_manifest es p)"

definition findRestoredManifest :: "files \<Rightarrow> string \<Rightarrow> err + (string \<times> string)" where
  "findRestoredManifest fs root =
     (case walk_manifest (WalkDir fs root) [] of
        Inl e \<Rightarrow> Inl e
      | Inr found \<Rightarrow>
          if found = [] then Inl (Plain (''manifest.json not found under '' @ root)) else Inr (found, Dir found))"

record manifest_artifact =
  ma_file :: string
  ma_database :: string
  ma_format :: string
  ma_charset :: string
  ma_collation :: string

definition unsafe_artifact :: "string \<Rightarrow> bool" where
  "unsafe_artifact f \<longleftrightarrow> f = [] \<or> f = ''..'' \<or> IsAbs f \<or> Clean f \<noteq> f \<or> HasPrefix f ''../''"

definition singleDatabaseArtifact :: "'h host \<Rightarrow> 'h \<Rightarrow> manifest \<Rightarrow> string \<Rightarrow> err + manifest_artifact" where
  "singleDatabaseArtifact hs h m root =
     (case mf_databases m of
        [] \<Rightarrow> Inl (Plain ''snapshot contains no database export'')
      | e # others \<Rightarrow>
          if others \<noteq> [] then Inl (Plain (''snapshot contains several database exports: '' @ dec_nat (length (mf_databases m))))
          else if exp_database e = ''globals'' \<or> exp_database e = ''all''
          then Inl (Plain (''snapshot scope is not supported: '' @ exp_database e))
          else if unsafe_artifact (exp_file e) then Inl (Plain ''manifest contains an unsafe artifact path'')
          else
            let path = Join2 root (exp_file e) in
            (case stat_size hs path h of
               Some (True, _) \<Rightarrow>
                 Inr \<lparr>ma_file = path, ma_database = exp_database e, ma_format = exp_format e,
                      ma_charset = hint m ''charset'', ma_collation = hint m ''collation''\<rparr>
             | _ \<Rightarrow> Inl (Plain ''manifest artifact is missing or not a regular file'')))"

definition load_manifest :: "'h host \<Rightarrow> string \<Rightarrow> 'h \<Rightarrow> (string \<times> err) + (manifest \<times> string)" where
  "load_manifest hs dir h =
     (case findRestoredManifest (files_of hs h) dir of
        Inl e \<Rightarrow> Inl (''locate'', e)
      | Inr (path, root) \<Rightarrow>
          (case read_file hs path h of
             Inl e \<Rightarrow> Inl (''read'', e)
           | Inr content \<Rightarrow>
               (case decode_manifest (parse_json content) of
                  None \<Rightarrow> Inl (''unmarshal'', Plain ''invalid document'')
                | Some m \<Rightarrow> Inr (m, root))))"

section \<open>Restoring databases\<close>

text \<open>
  Calls to an adapter, and the restores of snapshots by restic, leave their trace in \<open>sh_calls\<close> with
  their answers; the adapter itself cannot change it.
\<close>

definition traced :: "call list \<Rightarrow> 'a \<times> 'h shell \<Rightarrow> 'h shell \<Rightarrow> 'a \<times> 'h shell" where
  "traced cs r s = (fst r, (snd r)\<lparr>sh_calls := sh_calls s @ cs\<rparr>)"

definition do_preflight :: "'h engine \<Rightarrow> restore_spec \<Rightarrow> 'h shell \<Rightarrow> err option \<times> 'h shell" where
  "do_preflight eng spec s =
     (case eng_Preflight eng of None \<Rightarrow> (None, s) | Some f \<Rightarrow> traced [Preflighted spec] (f spec s) s)"

definition do_fetch :: "'h host \<Rightarrow> options \<Rightarrow> string \<Rightarrow> string \<Rightarrow> 'h shell \<Rightarrow> (err + unit) \<times> 'h shell" where
  "do_fetch hs opts snapshotID dir s = traced [Fetched snapshotID dir] (restic_Restore hs opts snapshotID dir [] s) s"

definition do_exists :: "'h engine \<Rightarrow> restore_spec \<Rightarrow> 'h shell \<Rightarrow> (err + bool) \<times> 'h shell" where
  "do_exists eng spec s = (let r = eng_TargetExists eng spec s in traced [AskedExists spec (fst r)] r s)"

definition do_import :: "'h engine \<Rightarrow> restore_spec \<Rightarrow> 'h shell \<Rightarrow> err option \<times> 'h shell" where
  "do_import eng spec s = (let r = eng_Import eng spec s in traced [Imported spec (fst r)] r s)"

definition do_verify :: "'h engine \<Rightarrow> restore_spec \<Rightarrow> 'h shell \<Rightarrow> err option \<times> 'h shell" where
  "do_verify eng spec s = (let r = eng_VerifyRestored eng spec s in traced [Verified spec (fst r)] r s)"

definition do_remove :: "'h engine \<Rightarrow> restore_spec \<Rightarrow> 'h shell \<Rightarrow> err option \<times> 'h shell" where
  "do_remove eng spec s = (let r = eng_RemoveTarget eng spec s in traced [Removed spec (fst r)] r s)"

definition do_backup :: "'h adapter \<Rightarrow> string \<Rightarrow> secret_bundle \<Rightarrow> string \<Rightarrow> plan_source \<Rightarrow> 'h shell \<Rightarrow> (err + artifact) \<times> 'h shell" where
  "do_backup ad plan secrets dir src s = traced [] (ad_Backup ad plan secrets dir src s) s"

definition databaseRestoreLock :: "'h deps \<Rightarrow> 'h shell \<Rightarrow> err option" where
  "databaseRestoreLock d s = (if d_db_busy d (sh_host s) then ctx_done (d_host d) (sh_host s) else None)"

definition no_source :: plan_source where
  "no_source =
     \<lparr>src_paths = [], src_excludes = [], src_one_file_system = False, src_host = [], src_port = 0, src_username = [],
      src_database = [], src_auth_source = [], src_extra_args = [], src_estimated_dump_bytes = 0,
      src_capture_oplog = False, src_path = []\<rparr>"

definition protectionSource :: "kind \<Rightarrow> db_target \<Rightarrow> err + plan_source" where
  "protectionSource k t =
     (case k of
        KindSQLite \<Rightarrow>
          if dbt_database t = [] then Inl (Plain ''sqlite protection backup needs the target path'')
          else Inr (no_source\<lparr>src_path := dbt_database t\<rparr>)
      | KindFilesystem \<Rightarrow> Inl (Plain ''kind filesystem has no protection backup source'')
      | KindOther n \<Rightarrow> Inl (Plain (''kind '' @ n @ '' has no protection backup source''))
      | _ \<Rightarrow>
          if dbt_database t = [] \<or> dbt_database t = ''all''
          then Inl (Plain ''protection backup requires a single target database'')
          else Inr (no_source\<lparr>src_host := dbt_host t, src_port := dbt_port t, src_username := dbt_username t,
                      src_database := dbt_database t, src_auth_source := dbt_auth_source t\<rparr>))"

definition restoreProtectionTagPrefix :: string where
  "restoreProtectionTagPrefix = ''restore-protection:''"

definition around :: "string \<Rightarrow> err \<Rightarrow> err" where
  "around what e = Around (what @ '': '') e []"

definition uploadProtectionBackup ::
  "'h deps \<Rightarrow> options \<Rightarrow> string \<Rightarrow> restore_task \<Rightarrow> db_target \<Rightarrow> secret_bundle \<Rightarrow> 'h shell \<Rightarrow> (err + string) \<times> 'h shell" where
  "uploadProtectionBackup d opts tempDir task target secrets s =
     then_do (of_option (Plain (''unknown kind: '' @ kind_text (rtk_kind task))) (For d (rtk_kind task)) s) (\<lambda>ad s.
     let dir = Join2 tempDir ''protection_backup'' in
     then_do (map_err (around ''mkdir protection backup'') (unless_error (on_host (mkdir_all (d_host d) dir) s))) (\<lambda>_ s.
     then_do (protectionSource (rtk_kind task) target, s) (\<lambda>src s.
     then_do (map_err (around ''export target for protection backup'') (do_backup ad (rtk_run_id task) secrets dir src s)) (\<lambda>art s.
     let paths = (if art_staging_dir art = [] then art_live_paths art else [art_staging_dir art]) in
     then_do (check (paths \<noteq> []) (Plain ''protection backup produced no paths'') s) (\<lambda>_ s.
     then_do (map_err (around ''upload protection backup'')
                (restic_Backup (d_host d) opts paths (art_exclude_file art)
                   [restoreProtectionTagPrefix @ rtk_run_id task, ''kind:'' @ kind_text (rtk_kind task)]
                   (art_one_file_system art) (\<lambda>_ s. s)
                   (report (no_progress\<lparr>prg_phase := phase_text RestorePhasePreBackup\<rparr>) s))) (\<lambda>sum s.
     if sum_snapshot_id sum = [] then (Inl (Plain ''protection backup returned no snapshot id''), s)
     else (Inr (sum_snapshot_id sum), s)))))))"

definition report_phase :: "restore_phase \<Rightarrow> 'h shell \<Rightarrow> 'h shell" where
  "report_phase ph = report (no_progress\<lparr>prg_phase := phase_text ph\<rparr>)"

text \<open>The steps of a rollback after the target that existed before was changed.\<close>

definition roll_back_to ::
  "'h deps \<Rightarrow> options \<Rightarrow> string \<Rightarrow> 'h engine \<Rightarrow> restore_spec \<Rightarrow> string \<Rightarrow> 'h shell \<Rightarrow> (err + unit) \<times> 'h shell" where
  "roll_back_to d opts tempDir eng spec protection s =
     (let hs = d_detached d; dir = Join2 tempDir ''rollback_staging'' in
      then_do (unless_error (on_host (remove_all hs dir) s)) (\<lambda>_ s.
      then_do (unless_error (on_host (mkdir_all hs dir) s)) (\<lambda>_ s.
      then_do (map_err (around ''restore protection snapshot'') (do_fetch hs opts protection dir s)) (\<lambda>_ s.
      then_do (map_err (\<lambda>(what, e). around (what @ '' protection manifest'') e) (load_manifest hs dir (sh_host s), s)) (\<lambda>(m, root) s.
      then_do (map_err (around ''resolve protection artifact'') (singleDatabaseArtifact hs (sh_host s) m root, s)) (\<lambda>art s.
      let spec' = spec\<lparr>rs_staging_dir := root, rs_artifact_file := ma_file art, rs_artifact_database := ma_database art,
                       rs_artifact_format := ma_format art, rs_target_is_new := False\<rparr> in
      then_do (map_err (around ''re-import protection data'') (unless_error (do_import eng spec' s))) (\<lambda>_ s.
      map_err (around ''verify rollback'') (unless_error (do_verify eng spec' s)))))))))"

definition rollbackDatabaseRestore ::
  "'h deps \<Rightarrow> options \<Rightarrow> string \<Rightarrow> 'h engine \<Rightarrow> restore_spec \<Rightarrow> string \<Rightarrow> 'h shell \<Rightarrow>
   (restore_phase \<times> err option) \<times> 'h shell" where
  "rollbackDatabaseRestore d opts tempDir eng spec protection s =
     (let s0 = report_phase RestorePhaseRollingBack s in
      if rs_target_is_new spec then
        (case do_remove eng spec s0 of
           (Some e, s1) \<Rightarrow> ((RestorePhaseRollbackFailed, Some e),
                           log_line ''error'' ''removing the newly created target failed: %v'' [error_text e] s1)
         | (None, s1) \<Rightarrow> ((RestorePhaseNewTargetCleaned, None), s1))
      else if protection = [] then
        ((RestorePhaseRollbackFailed, Some (Plain ''no protection snapshot available for rollback'')), s0)
      else
        (case roll_back_to d opts tempDir eng spec protection s0 of
           (Inl e, s1) \<Rightarrow> ((RestorePhaseRollbackFailed, Some e), s1)
         | (Inr _, s1) \<Rightarrow> ((RestorePhaseRolledBack, None), s1)))"

definition cancelled_by :: "'h deps \<Rightarrow> err \<Rightarrow> 'h shell \<Rightarrow> bool" where
  "cancelled_by d e s \<longleftrightarrow> ctx_done (d_host d) (sh_host s) \<noteq> None \<or> is_canceled e"

definition also_failed :: "err option \<Rightarrow> string" where
  "also_failed e = (case e of None \<Rightarrow> [] | Some x \<Rightarrow> ''; rollback also failed: '' @ error_text x)"

text \<open>The import and its verification, each followed by the rollback when it fails.\<close>

definition import_failed ::
  "'h deps \<Rightarrow> err \<Rightarrow> (restore_phase \<times> err option) \<times> 'h shell \<Rightarrow> string \<Rightarrow> err" where
  "import_failed d e r protection =
     (let ((phase, rolled), s) = r; payload = restoreResultJSON phase protection in
      if cancelled_by d e s
      then Pipeline ''cancelled'' (''database restore cancelled by request: '' @ error_text e @ also_failed rolled) (Some e) payload
      else Pipeline (restoreFailureCode phase ''restore_import_failed'')
             (''database import failed: '' @ error_text e @ also_failed rolled) (Some e) payload)"

definition verify_failed ::
  "'h deps \<Rightarrow> err \<Rightarrow> (restore_phase \<times> err option) \<times> 'h shell \<Rightarrow> string \<Rightarrow> err" where
  "verify_failed d e r protection =
     (let ((phase, rolled), s) = r; payload = restoreResultJSON phase protection in
      if cancelled_by d e s
      then Pipeline ''cancelled'' ''database restore cancelled by request'' (Some e) payload
      else Pipeline (restoreFailureCode phase ''restore_verification_failed'')
             (''database restore verification failed: '' @ error_text e @ also_failed rolled) (Some e) payload)"

definition replace_target ::
  "'h deps \<Rightarrow> options \<Rightarrow> string \<Rightarrow> (bool \<Rightarrow> 'h engine) \<Rightarrow> restore_spec \<Rightarrow> string \<Rightarrow> string \<Rightarrow> 'h shell \<Rightarrow>
   (err + op_result) \<times> 'h shell" where
  "replace_target d opts tempDir eng spec protection staging s =
     (let s0 = log_line ''info'' (if rs_target_is_new spec then ''importing into the new target %s'' else ''importing over the target %s'')
                 [dbt_database (rs_database spec)] (report_phase RestorePhaseRestoring s) in
      case do_import (eng False) spec s0 of
        (Some e, s1) \<Rightarrow>
          let r = rollbackDatabaseRestore d opts tempDir (eng True) spec protection s1 in
          (Inl (import_failed d e r protection), snd r)
      | (None, s1) \<Rightarrow>
          (case do_verify (eng False) spec (log_line ''info'' ''import done, verifying'' [] s1) of
             (Some e, s2) \<Rightarrow>
               let r = rollbackDatabaseRestore d opts tempDir (eng True) spec protection s2 in
               (Inl (verify_failed d e r protection), snd r)
           | (None, s2) \<Rightarrow>
               (Inr (json_result (restoreResultJSON RestorePhaseSucceeded protection)),
                snd (on_host (remove_all (d_host d) staging)
                       (log_line ''info'' ''restore verified: %s'' [dbt_database (rs_database spec)] s2)))))"

definition protection_failed :: "'h deps \<Rightarrow> err \<Rightarrow> 'h shell \<Rightarrow> err" where
  "protection_failed d e s =
     (let payload = restoreResultJSON RestorePhasePreBackupFailed [] in
      if cancelled_by d e s then Pipeline ''cancelled'' ''database restore cancelled by request'' (Some e) payload
      else Pipeline ''pre_restore_backup_failed'' ''pre-restore protection backup failed; target was not modified'' (Some e) payload)"

definition preflight_failed :: "err \<Rightarrow> err" where
  "preflight_failed e =
     (if as_pipeline e \<noteq> None then restoreSafeWrap ''database restore preflight failed'' e
      else if is_occupied e
      then restoreSafeFail ''restore_target_busy'' ''database restore target is not ready for restore'' (Some e)
      else restoreSafeFail ''restore_preflight_failed'' ''database restore preflight failed'' (Some e))"

text \<open>Everything from the lock on: pre-flight, the question whether the target exists, the protection backup.\<close>

definition locked_restore ::
  "'h deps \<Rightarrow> options \<Rightarrow> string \<Rightarrow> restore_task \<Rightarrow> secret_bundle \<Rightarrow> (bool \<Rightarrow> 'h engine) \<Rightarrow> restore_spec \<Rightarrow> string \<Rightarrow> 'h shell \<Rightarrow>
   (err + op_result) \<times> 'h shell" where
  "locked_restore d opts tempDir task secrets eng spec staging s =
     then_do (map_err preflight_failed (unless_error (do_preflight (eng False) spec s))) (\<lambda>_ s.
     then_do (map_err (\<lambda>e. restoreSafeFail ''restore_verification_failed'' ''cannot determine whether the target exists'' (Some e))
                (do_exists (eng False) spec s)) (\<lambda>exists s.
     then_do (check (\<not> (exists \<and> \<not> dbt_replace_existing (rs_database spec)))
                (restoreSafeFail ''restore_target_exists'' ''target already exists and overwrite is not enabled'' None) s) (\<lambda>_ s.
     let spec' = spec\<lparr>rs_target_is_new := \<not> exists\<rparr> in
     if \<not> exists then replace_target d opts tempDir eng spec' [] staging s
     else
       (case uploadProtectionBackup d opts tempDir task (rs_database spec) secrets (report_phase RestorePhasePreBackup s) of
          (Inl e, s1) \<Rightarrow> (Inl (protection_failed d e s1), s1)
        | (Inr snapID, s1) \<Rightarrow>
            let s2 = log_line ''info'' ''saved protection snapshot %s'' [snapID]
                       (report (no_progress\<lparr>prg_phase := phase_text RestorePhasePreBackup,
                                  prg_detail := restoreResultJSON RestorePhasePreBackup snapID\<rparr>) s1) in
            replace_target d opts tempDir eng spec' snapID staging (s2\<lparr>sh_calls := sh_calls s2 @ [Protected snapID]\<rparr>)))))"

definition manifest_json :: "manifest \<Rightarrow> json" where
  "manifest_json m =
     JObj [(''adapter'', JStr (mf_adapter m)),
           (''databases'', if mf_databases m = [] then JNull
              else JList (map (\<lambda>e. JObj [(''database'', JStr (exp_database e)), (''file'', JStr (exp_file e)),
                                        (''format'', JStr (exp_format e))]) (mf_databases m)))]"

definition restore_database_target :: "'h deps \<Rightarrow> restore_task \<Rightarrow> db_target \<Rightarrow> 'h shell \<Rightarrow> (err + db_target) \<times> 'h shell" where
  "restore_database_target d task db s =
     (if rtk_kind task \<noteq> KindSQLite then (Inr db, s)
      else then_do (restore_target_path d (dbt_database db) ''sqlite restore target path mapping failed''
                      ''sqlite restore target is outside configured allowlist'' s) (\<lambda>p s.
        (Inr (db\<lparr>dbt_database := p\<rparr>), s)))"

definition restore_engine :: "'h deps \<Rightarrow> kind \<Rightarrow> err + (bool \<Rightarrow> 'h engine)" where
  "restore_engine d k =
     (case For d k of
        None \<Rightarrow> Inl (restoreSafeFail ''invalid_plan'' (''unknown kind: '' @ kind_text k) None)
      | Some ad \<Rightarrow>
          (case ad_engine ad of
             None \<Rightarrow> Inl (restoreSafeFail ''invalid_plan'' (''adapter does not support database restore: '' @ kind_text k) None)
           | Some eng \<Rightarrow> Inr eng))"

definition verification_err :: "string \<times> err \<Rightarrow> err" where
  "verification_err we = restoreSafeFail ''restore_verification_failed'' (fst we @ '' manifest failed'') (Some (snd we))"

definition runDatabaseRestore ::
  "'h deps \<Rightarrow> options \<Rightarrow> restore_task \<Rightarrow> string \<Rightarrow> secret_bundle \<Rightarrow> bool \<Rightarrow> 'h shell \<Rightarrow> (err + op_result) \<times> 'h shell" where
  "runDatabaseRestore d opts task tempDir secrets dryRun s =
     then_do (of_option (restoreSafeFail ''invalid_params'' ''missing database restore spec'' None) (rtk_database task) s) (\<lambda>db0 s.
     then_do (restore_database_target d task db0 s) (\<lambda>db s.
     then_do (restore_engine d (rtk_kind task), s) (\<lambda>eng s.
     let staging = Join2 tempDir ''restore_staging'' in
     then_do (map_err (\<lambda>e. restoreSafeFail ''internal'' ''mkdir staging'' (Some e))
                (unless_error (on_host (mkdir_all (d_host d) staging)
                   (log_line ''info'' ''restore: kind %s, snapshot %s, target %s''
                      [kind_text (rtk_kind task), dbt_snapshot_id db, dbt_database db] s)))) (\<lambda>_ s.
     then_do (map_err (\<lambda>e. restoreSafeFail ''restore_failed'' ''restic restore snapshot failed'' (Some e))
                (do_fetch (d_host d) opts (dbt_snapshot_id db) staging s)) (\<lambda>_ s.
     then_do (map_err verification_err (load_manifest (d_host d) staging (sh_host s), s)) (\<lambda>(m, root) s.
     then_do (check (mf_adapter m = kind_text (rtk_kind task))
                (restoreSafeFail ''restore_verification_failed'' (''manifest adapter mismatch: '' @ mf_adapter m) None) s) (\<lambda>_ s.
     then_do (map_err (\<lambda>e. restoreSafeFail ''unsupported_restore_manifest'' (error_text e) (Some e))
                (singleDatabaseArtifact (d_host d) (sh_host s) m root, s)) (\<lambda>art s.
     let s = log_line ''info'' ''manifest ready: importing %s (format %s)'' [ma_database art, ma_format art] s in
     if dryRun then (Inr (json_result (manifest_json m)), s)
     else
     then_do (check (rtk_run_id task \<noteq> []) (restoreSafeFail ''invalid_params'' ''restore task is missing its run id'' None) s) (\<lambda>_ s.
     then_do (unless_error (map_option (\<lambda>e. restoreSafeFail ''cancelled'' ''database restore cancelled while waiting for the local mutex'' (Some e))
                (databaseRestoreLock d s), s)) (\<lambda>_ s.
     locked_restore d opts tempDir task secrets eng
       \<lparr>rs_snapshot_id = dbt_snapshot_id db, rs_kind = rtk_kind task, rs_staging_dir = root, rs_database = db,
        rs_secrets = secrets, rs_run_id = rtk_run_id task, rs_artifact_file = ma_file art,
        rs_artifact_database = ma_database art, rs_artifact_format = ma_format art,
        rs_artifact_charset = ma_charset art, rs_artifact_collation = ma_collation art, rs_target_is_new = False\<rparr>
       staging s))))))))))"

definition runRestore ::
  "'h deps \<Rightarrow> string \<Rightarrow> json \<Rightarrow> secret_bundle \<Rightarrow> bool \<Rightarrow> 'h shell \<Rightarrow> (err + op_result) \<times> 'h shell" where
  "runRestore d tempDir params secrets dryRun s =
     then_do (of_option (restoreSafeFail ''invalid_params'' ''unmarshal restore task'' (Some (Plain ''invalid document'')))
                (decode_restore_task params) s) (\<lambda>task s.
     then_do (map_err (restoreSafeWrap ''prepare restic options'') (newResticOpts d (rtk_repo task) tempDir secrets s)) (\<lambda>opts s.
     if rtk_kind task = KindFilesystem then runFilesystemRestore d opts task dryRun s
     else runDatabaseRestore d opts task tempDir secrets dryRun s))"

section \<open>What a database restore may touch\<close>

lemma then_doE:
  assumes "then_do r f = (x, s')"
  obtains (stop) e where "r = (Inl e, s')" "x = Inl e"
  | (go) a s1 where "r = (Inr a, s1)" "f a s1 = (x, s')"
  using assms by (auto simp: then_do_def split: prod.splits sum.splits)

lemma map_errE:
  assumes "map_err g r = (x, s')"
  obtains (err) e where "r = (Inl e, s')" "x = Inl (g e)"
  | (ok) a where "r = (Inr a, s')" "x = Inr a"
  using assms by (cases r; cases "fst r") (auto simp: map_err_def)

lemma unless_errorE:
  assumes "unless_error r = (x, s')"
  obtains (err) e where "r = (Some e, s')" "x = Inl e"
  | (ok) "r = (None, s')" "x = Inr ()"
  using assms by (cases r; cases "fst r") (auto simp: unless_error_def)

named_theorems calls_simps

lemma calls_log_fold [simp]: "sh_calls (fold (\<lambda>l. log_line a b (f l)) ls s) = sh_calls s"
  by (induction ls arbitrary: s) simp_all

lemma calls_log_stderr [simp]: "sh_calls (log_stderr opts ls s) = sh_calls s"
  by (simp add: log_stderr_def)

lemma calls_run_logged [calls_simps]: "sh_calls (snd (run_logged hs opts args s)) = sh_calls s"
  by (auto simp: run_logged_def Run_def Let_def split: prod.splits)

lemma calls_on_host [calls_simps]: "sh_calls (snd (on_host f s)) = sh_calls s"
  by (auto simp: on_host_def split: prod.splits)

lemma calls_restore [calls_simps]: "sh_calls (snd (RestoreWithOverwrite hs opts a b c e s)) = sh_calls s"
  by (auto simp: RestoreWithOverwrite_def Let_def calls_run_logged split: prod.splits)
    (metis calls_run_logged snd_conv)

lemma calls_restic_Restore [calls_simps]: "sh_calls (snd (restic_Restore hs opts a b c s)) = sh_calls s"
  by (simp add: restic_Restore_def calls_restore)

lemma calls_backup_line:
  assumes "\<And>p s. sh_calls (f p s) = sh_calls s"
  shows "sh_calls (bk_shell (backup_line hs opts f l b)) = sh_calls (bk_shell b)"
  using assms by (cases l) (simp_all add: backup_stdout_def backup_stderr_def Let_def split: json.splits option.splits)

lemma calls_restic_Backup [calls_simps]:
  assumes "\<And>p s. sh_calls (f p s) = sh_calls s"
  shows "sh_calls (snd (restic_Backup hs opts a b c e f s)) = sh_calls s"
proof -
  have "sh_calls (bk_shell (fold (backup_line hs opts f) ls b)) = sh_calls (bk_shell b)" for ls b
    by (induction ls arbitrary: b) (simp_all add: calls_backup_line assms)
  then show ?thesis by (auto simp: restic_Backup_def Run_def Let_def split: prod.splits)
qed

lemma calls_newResticOpts [calls_simps]: "sh_calls (snd (newResticOpts d p t sb s)) = sh_calls s"
proof -
  have secret: "sh_calls (snd (WriteSecretFile hs t n c s)) = sh_calls s" for hs n c and s :: "'a shell"
    by (auto simp: WriteSecretFile_def on_host_def Let_def split: prod.splits)
  have conf: "sh_calls (snd (WriteConf hs t c s)) = sh_calls s" for hs c and s :: "'a shell"
    by (auto simp: WriteConf_def on_host_def Let_def split: prod.splits)
  obtain r1 s1 where 1: "WriteSecretFile (d_host d) t ''restic_pw'' (sb_restic_password sb) s = (r1, s1)" by force
  obtain r2 s2 where 2: "WriteConf (d_host d) t (sb_rclone_conf sb) s1 = (r2, s2)" by force
  from 1 2 secret [of "d_host d" "''restic_pw''" "sb_restic_password sb" s] conf [of "d_host d" "sb_rclone_conf sb" s1]
  show ?thesis by (simp add: newResticOpts_def Let_def split: sum.splits)
qed

lemma calls_do_backup [calls_simps]: "sh_calls (snd (do_backup ad plan sb dir src s)) = sh_calls s"
  by (simp add: do_backup_def traced_def)

text \<open>The upload of the protection backup makes no call to the engine, and its snapshot has an id.\<close>

lemma calls_then_do:
  assumes "sh_calls (snd r) = c" and "\<And>a s. sh_calls s = c \<Longrightarrow> sh_calls (snd (f a s)) = c"
  shows "sh_calls (snd (then_do r f)) = c"
  using assms by (auto simp: then_do_def split: prod.splits sum.splits)

lemma calls_map_err [simp]: "snd (map_err g r) = snd r" "snd (unless_error q) = snd q" "snd (check c e s) = s"
  "snd (of_option e x s) = s"
  by (simp_all add: map_err_def unless_error_def check_def of_option_def)

lemma calls_upload [calls_simps]: "sh_calls (snd (uploadProtectionBackup d opts t task db sb s)) = sh_calls s"
  unfolding uploadProtectionBackup_def Let_def
  by (intro calls_then_do; auto simp: calls_simps)

text \<open>
  Where a restore finds what it imports: the artifact of the manifest that was found below a directory,
  on the file system as it was then.
\<close>

definition artifact_below :: "'h host \<Rightarrow> string \<Rightarrow> restore_spec \<Rightarrow> bool" where
  "artifact_below hs dir spec \<longleftrightarrow>
     (\<exists>h m art. load_manifest hs dir h = Inr (m, rs_staging_dir spec) \<and>
        singleDatabaseArtifact hs h m (rs_staging_dir spec) = Inr art \<and>
        rs_artifact_file spec = ma_file art \<and> rs_artifact_database spec = ma_database art \<and>
        rs_artifact_format spec = ma_format art)"

text \<open>
  The calls of a rollback, by its outcome: a target that is new is removed; into one that is not, the
  artifact is imported that lies in the directory to which the protection snapshot has just been
  restored, and it is verified.  The outcome is good only if every answer was.
\<close>

definition rollback_calls :: "'h host \<Rightarrow> string \<Rightarrow> string \<Rightarrow> restore_spec \<Rightarrow> restore_phase \<Rightarrow> call list \<Rightarrow> bool" where
  "rollback_calls hs dir protection spec phase cs \<longleftrightarrow>
     (if rs_target_is_new spec
      then cs = [Removed spec None] \<and> phase = RestorePhaseNewTargetCleaned \<or>
           (\<exists>e. cs = [Removed spec (Some e)]) \<and> phase = RestorePhaseRollbackFailed
      else if protection = [] then cs = [] \<and> phase = RestorePhaseRollbackFailed
      else (\<exists>again. rs_database again = rs_database spec \<and> \<not> rs_target_is_new again \<and> artifact_below hs dir again \<and>
              (cs = [Fetched protection dir, Imported again None, Verified again None] \<and> phase = RestorePhaseRolledBack \<or>
               (\<exists>e. cs = [Fetched protection dir, Imported again (Some e)] \<or>
                    cs = [Fetched protection dir, Imported again None, Verified again (Some e)]) \<and>
               phase = RestorePhaseRollbackFailed)) \<or>
           (cs = [] \<or> cs = [Fetched protection dir]) \<and> phase = RestorePhaseRollbackFailed)"

definition ends_with :: "(err + 'a \<Rightarrow> call list \<Rightarrow> bool) \<Rightarrow> (err + 'a) \<times> 'h shell \<Rightarrow> bool" where
  "ends_with Q r = Q (fst r) (sh_calls (snd r))"

lemma quiet_then:
  assumes "sh_calls (snd r) = c" and "\<And>e. Q (Inl e) c" and "\<And>a s. sh_calls s = c \<Longrightarrow> ends_with Q (f a s)"
  shows "ends_with Q (then_do r f)"
  using assms by (auto simp: then_do_def ends_with_def split: prod.splits sum.splits)

lemma loud_then:
  assumes "sh_calls (snd r) = c" and "\<And>e. fst r = Inl e \<Longrightarrow> Q (Inl e) c"
    and "\<And>a s. r = (Inr a, s) \<Longrightarrow> fst r = Inr a \<Longrightarrow> sh_calls s = c \<Longrightarrow> ends_with Q (f a s)"
  shows "ends_with Q (then_do r f)"
  using assms by (auto simp: then_do_def ends_with_def split: prod.splits sum.splits)

lemma traced_calls [simp]:
  "sh_calls (snd (do_import eng spec s)) = sh_calls s @ [Imported spec (fst (do_import eng spec s))]"
  "sh_calls (snd (do_verify eng spec s)) = sh_calls s @ [Verified spec (fst (do_verify eng spec s))]"
  "sh_calls (snd (do_remove eng spec s)) = sh_calls s @ [Removed spec (fst (do_remove eng spec s))]"
  "sh_calls (snd (do_exists eng spec s)) = sh_calls s @ [AskedExists spec (fst (eng_TargetExists eng spec s))]"
  "fst (do_exists eng spec s) = fst (eng_TargetExists eng spec s)"
  "sh_calls (snd (do_fetch hs opts snap dir s)) = sh_calls s @ [Fetched snap dir]"
  by (simp_all add: do_import_def do_verify_def do_remove_def do_exists_def do_fetch_def traced_def Let_def)

lemma roll_back_to_calls:
  assumes "roll_back_to d opts t eng spec protection s = (r, s')"
  shows "\<exists>cs. sh_calls s' = sh_calls s @ cs \<and>
    ((\<exists>again. rs_database again = rs_database spec \<and> \<not> rs_target_is_new again \<and>
        artifact_below (d_detached d) (Join2 t ''rollback_staging'') again \<and>
        (cs = [Fetched protection (Join2 t ''rollback_staging''), Imported again None, Verified again None] \<and> r = Inr () \<or>
         (\<exists>e. cs = [Fetched protection (Join2 t ''rollback_staging''), Imported again (Some e)] \<or>
              cs = [Fetched protection (Join2 t ''rollback_staging''), Imported again None, Verified again (Some e)]) \<and>
         (\<exists>e. r = Inl e))) \<or>
     (cs = [] \<or> cs = [Fetched protection (Join2 t ''rollback_staging'')]) \<and> (\<exists>e. r = Inl e))"
proof -
  let ?dir = "Join2 t ''rollback_staging''"
  let ?hs = "d_detached d"
  note c = calls_on_host
  from assms [unfolded roll_back_to_def Let_def] show ?thesis
  proof (cases rule: then_doE)
    case (stop e)
    then show ?thesis using c [of "remove_all ?hs ?dir" s] by (auto elim!: unless_errorE)
  next
    case (go a1 s1)
    then have c1: "sh_calls s1 = sh_calls s" using c [of "remove_all ?hs ?dir" s] by (auto elim!: unless_errorE)
    from go(2) show ?thesis
    proof (cases rule: then_doE)
      case (stop e)
      then show ?thesis using c [of "mkdir_all ?hs ?dir" s1] c1 by (auto elim!: unless_errorE)
    next
      case (go a2 s2)
      then have c2: "sh_calls s2 = sh_calls s" using c [of "mkdir_all ?hs ?dir" s1] c1 by (auto elim!: unless_errorE)
      have c3: "sh_calls z = sh_calls s @ [Fetched protection ?dir]" if "do_fetch ?hs opts protection ?dir s2 = (x, z)" for x z
        using traced_calls(6) [of ?hs opts protection ?dir s2] c2 that by simp
      from go(2) show ?thesis
      proof (cases rule: then_doE)
        case (stop e)
        then have "sh_calls s' = sh_calls s @ [Fetched protection ?dir]" using c3 by (auto elim!: map_errE)
        with stop show ?thesis by blast
      next
        case (go a3 s3)
        then have c3: "sh_calls s3 = sh_calls s @ [Fetched protection ?dir]" using c3 by (auto elim!: map_errE)
        from go(2) show ?thesis
        proof (cases rule: then_doE)
          case (stop e)
          then have "sh_calls s' = sh_calls s @ [Fetched protection ?dir]" using c3 by (auto elim!: map_errE)
          with stop show ?thesis by blast
        next
          case (go a4 s4)
          then have a4: "load_manifest ?hs ?dir (sh_host s3) = Inr a4" "s4 = s3" by (auto elim!: map_errE)
          obtain m root where p: "a4 = (m, root)" by force
          from go(2) [unfolded p prod.case] show ?thesis
          proof (cases rule: then_doE)
            case (stop e)
            then have "sh_calls s' = sh_calls s @ [Fetched protection ?dir]" using c3 a4(2) by (auto elim!: map_errE)
            with stop show ?thesis by blast
          next
            case (go art s5)
            then have art: "singleDatabaseArtifact ?hs (sh_host s3) m root = Inr art" "s5 = s3" using a4(2) by (auto elim!: map_errE)
            define again where "again = spec\<lparr>rs_staging_dir := root, rs_artifact_file := ma_file art,
              rs_artifact_database := ma_database art, rs_artifact_format := ma_format art, rs_target_is_new := False\<rparr>"
            have again: "rs_database again = rs_database spec" "\<not> rs_target_is_new again" "artifact_below ?hs ?dir again"
              using a4(1) art(1) by (auto simp: again_def artifact_below_def p)
            have imp: "sh_calls (snd (do_import eng again s3)) =
                sh_calls s @ [Fetched protection ?dir, Imported again (fst (do_import eng again s3))]" using c3 by simp
            from go(2) [unfolded art(2), folded again_def] show ?thesis
            proof (cases rule: then_doE)
              case (stop e)
              then obtain x where "do_import eng again s3 = (Some x, s')" by (auto elim!: map_errE unless_errorE)
              with imp have "sh_calls s' = sh_calls s @ [Fetched protection ?dir, Imported again (Some x)]" by simp
              with stop again show ?thesis by blast
            next
              case (go a6 s6)
              then have "do_import eng again s3 = (None, s6)" by (auto elim!: map_errE unless_errorE)
              with imp have c6: "sh_calls s6 = sh_calls s @ [Fetched protection ?dir, Imported again None]" by simp
              have ver: "sh_calls (snd (do_verify eng again s6)) =
                  sh_calls s @ [Fetched protection ?dir, Imported again None, Verified again (fst (do_verify eng again s6))]"
                using c6 by simp
              show ?thesis
              proof (cases "fst (do_verify eng again s6)")
                case None
                then have "do_verify eng again s6 = (None, s')" "r = Inr ()"
                  using go(2) by (cases "do_verify eng again s6"; auto simp: map_err_def unless_error_def)+
                with ver have "sh_calls s' = sh_calls s @ [Fetched protection ?dir, Imported again None, Verified again None]" by simp
                with again \<open>r = Inr ()\<close> show ?thesis by blast
              next
                case (Some x)
                then have "do_verify eng again s6 = (Some x, s')" "\<exists>e. r = Inl e"
                  using go(2) by (cases "do_verify eng again s6"; auto simp: map_err_def unless_error_def)+
                with ver have "sh_calls s' = sh_calls s @ [Fetched protection ?dir, Imported again None, Verified again (Some x)]" by simp
                with again \<open>\<exists>e. r = Inl e\<close> show ?thesis by blast
              qed
            qed
          qed
        qed
      qed
    qed
  qed
qed

definition rollback_of :: "'h deps \<Rightarrow> string \<Rightarrow> string \<Rightarrow> restore_spec \<Rightarrow> restore_phase \<Rightarrow> call list \<Rightarrow> bool" where
  "rollback_of d tempDir = rollback_calls (d_detached d) (Join2 tempDir ''rollback_staging'')"

lemma rollback_trace:
  assumes "rollbackDatabaseRestore d opts t eng spec protection s = ((phase, e), s')"
  shows "\<exists>cs. sh_calls s' = sh_calls s @ cs \<and> rollback_of d t protection spec phase cs"
proof -
  define s0 where "s0 = report_phase RestorePhaseRollingBack s"
  have c0: "sh_calls s0 = sh_calls s" by (simp add: s0_def report_phase_def)
  show ?thesis
  proof (cases "rs_target_is_new spec")
    case True
    obtain x s1 where rem: "do_remove eng spec s0 = (x, s1)" by force
    then have "sh_calls s1 = sh_calls s @ [Removed spec x]"
      using traced_calls(3) [of eng spec s0] c0 by simp
    with True assms rem show ?thesis
      by (cases x) (auto simp: rollbackDatabaseRestore_def Let_def s0_def [symmetric] rollback_of_def rollback_calls_def)
  next
    case old: False
    show ?thesis
    proof (cases "protection = []")
      case True
      with old assms c0 show ?thesis
        by (auto simp: rollbackDatabaseRestore_def Let_def s0_def [symmetric] rollback_of_def rollback_calls_def)
    next
      case False
      obtain r s1 where r: "roll_back_to d opts t eng spec protection s0 = (r, s1)" by force
      have "s' = s1" "phase = (case r of Inl _ \<Rightarrow> RestorePhaseRollbackFailed | Inr _ \<Rightarrow> RestorePhaseRolledBack)"
        using assms old False r by (auto simp: rollbackDatabaseRestore_def Let_def s0_def [symmetric] split: sum.splits)
      from roll_back_to_calls [OF r] c0 obtain cs where cs: "sh_calls s1 = sh_calls s @ cs"
        and k: "(\<exists>again. rs_database again = rs_database spec \<and> \<not> rs_target_is_new again \<and>
          artifact_below (d_detached d) (Join2 t ''rollback_staging'') again \<and>
          (cs = [Fetched protection (Join2 t ''rollback_staging''), Imported again None, Verified again None] \<and> r = Inr () \<or>
           (\<exists>e. cs = [Fetched protection (Join2 t ''rollback_staging''), Imported again (Some e)] \<or>
                cs = [Fetched protection (Join2 t ''rollback_staging''), Imported again None, Verified again (Some e)]) \<and>
           (\<exists>e. r = Inl e))) \<or>
         (cs = [] \<or> cs = [Fetched protection (Join2 t ''rollback_staging'')]) \<and> (\<exists>e. r = Inl e)" by auto
      have ok: "r = Inr () \<Longrightarrow> phase = RestorePhaseRolledBack" "\<exists>e. r = Inl e \<Longrightarrow> phase = RestorePhaseRollbackFailed"
        using \<open>phase = _\<close> by auto
      have "rollback_of d t protection spec phase cs"
        unfolding rollback_of_def rollback_calls_def if_not_P [OF old] if_not_P [OF False]
        using k ok by blast
      with cs \<open>s' = s1\<close> show ?thesis by blast
    qed
  qed
qed

text \<open>
  What the part that changes the target calls, by its result: an import, on success verified; on
  failure whatever the rollback calls.
\<close>

definition payload_of :: "err + op_result \<Rightarrow> json" where
  "payload_of r =
     (case r of Inr x \<Rightarrow> op_json x
      | Inl e \<Rightarrow> (case as_pipeline e of None \<Rightarrow> json_none | Some (_, _, _, payload) \<Rightarrow> payload))"

definition changing_calls :: "'h deps \<Rightarrow> string \<Rightarrow> restore_spec \<Rightarrow> string \<Rightarrow> err + op_result \<Rightarrow> call list \<Rightarrow> bool" where
  "changing_calls d tempDir spec protection r cs \<longleftrightarrow>
     (case r of
        Inr x \<Rightarrow> x = json_result (restoreResultJSON RestorePhaseSucceeded protection) \<and>
                 cs = [Imported spec None, Verified spec None]
      | Inl e \<Rightarrow>
          (\<exists>phase x first rb. payload_of r = restoreResultJSON phase protection \<and> cs = first @ rb \<and>
             (first = [Imported spec (Some x)] \<or> first = [Imported spec None, Verified spec (Some x)]) \<and>
             rollback_of d tempDir protection spec phase rb))"

lemma changing_callsI:
  assumes "payload_of (Inl e) = restoreResultJSON phase protection" and "rollback_of d t protection spec phase rb"
    and "first = [Imported spec (Some x)] \<or> first = [Imported spec None, Verified spec (Some x)]"
  shows "changing_calls d t spec protection (Inl e) (first @ rb)"
  using assms unfolding changing_calls_def by auto

lemma replace_target_trace:
  assumes "replace_target d opts t eng spec protection staging s = (r, s')"
  shows "\<exists>cs. sh_calls s' = sh_calls s @ cs \<and> changing_calls d t spec protection r cs"
proof -
  define s0 where "s0 = log_line ''info'' (if rs_target_is_new spec then ''importing into the new target %s'' else ''importing over the target %s'')
                 [dbt_database (rs_database spec)] (report_phase RestorePhaseRestoring s)"
  obtain x s1 where imp: "do_import (eng False) spec s0 = (x, s1)" by force
  have "sh_calls s0 = sh_calls s" by (simp add: s0_def report_phase_def)
  then have c1: "sh_calls s1 = sh_calls s @ [Imported spec x]"
    using traced_calls(1) [of "eng False" spec s0] imp by simp
  show ?thesis
  proof (cases x)
    case (Some e)
    obtain phase e2 s2 where rb: "rollbackDatabaseRestore d opts t (eng True) spec protection s1 = ((phase, e2), s2)"
      by (metis prod.exhaust)
    from rollback_trace [OF rb] obtain rb' where rb': "sh_calls s2 = sh_calls s1 @ rb'" "rollback_of d t protection spec phase rb'"
      by blast
    have r: "r = Inl (import_failed d e ((phase, e2), s2) protection)" "s' = s2"
      using assms imp Some rb by (auto simp: replace_target_def Let_def s0_def [symmetric])
    have "payload_of (Inl (import_failed d e ((phase, e2), s2) protection)) = restoreResultJSON phase protection"
      by (simp add: payload_of_def import_failed_def Let_def)
    from changing_callsI [OF this rb'(2), of "[Imported spec (Some e)]" e] show ?thesis
      using c1 rb'(1) r Some by auto
  next
    case None
    obtain y s2 where ver: "do_verify (eng False) spec (log_line ''info'' ''import done, verifying'' [] s1) = (y, s2)" by force
    have c2: "sh_calls s2 = sh_calls s @ [Imported spec None, Verified spec y]"
      using traced_calls(2) [of "eng False" spec "log_line ''info'' ''import done, verifying'' [] s1"] ver c1 None by simp
    show ?thesis
    proof (cases y)
      case (Some e)
      obtain phase e2 s3 where rb: "rollbackDatabaseRestore d opts t (eng True) spec protection s2 = ((phase, e2), s3)"
        by (metis prod.exhaust)
      from rollback_trace [OF rb] obtain rb' where rb': "sh_calls s3 = sh_calls s2 @ rb'" "rollback_of d t protection spec phase rb'"
        by blast
      have r: "r = Inl (verify_failed d e ((phase, e2), s3) protection)" "s' = s3"
        using assms imp None ver Some rb by (auto simp: replace_target_def Let_def s0_def [symmetric])
      have "payload_of (Inl (verify_failed d e ((phase, e2), s3) protection)) = restoreResultJSON phase protection"
        by (simp add: payload_of_def verify_failed_def Let_def)
      from changing_callsI [OF this rb'(2), of "[Imported spec None, Verified spec (Some e)]" e] show ?thesis
        using c2 rb'(1) r Some by auto
    next
      case none: None
      define s3 where "s3 = log_line ''info'' ''restore verified: %s'' [dbt_database (rs_database spec)] s2"
      have "r = Inr (json_result (restoreResultJSON RestorePhaseSucceeded protection))"
        "s' = snd (on_host (remove_all (d_host d) staging) s3)"
        using assms imp None ver none by (auto simp: replace_target_def Let_def s0_def [symmetric] s3_def)
      then show ?thesis using c2 none by (simp add: changing_calls_def calls_on_host s3_def)
    qed
  qed
qed

text \<open>The calls before the target is changed.\<close>

definition reading :: "call \<Rightarrow> bool" where
  "reading c = (case c of Fetched _ _ \<Rightarrow> True | Preflighted _ \<Rightarrow> True | AskedExists _ _ \<Rightarrow> True | Protected _ \<Rightarrow> True | _ \<Rightarrow> False)"

definition cleared :: "call list \<Rightarrow> restore_spec \<Rightarrow> string \<Rightarrow> bool" where
  "cleared pre spec protection \<longleftrightarrow>
     pre \<noteq> [] \<and>
     (if rs_target_is_new spec then protection = [] \<and> (\<exists>q. last pre = AskedExists q (Inr False))
      else protection \<noteq> [] \<and> last pre = Protected protection \<and>
           (\<exists>q. AskedExists q (Inr True) \<in> set pre) \<and> dbt_replace_existing (rs_database spec))"

definition untouched :: "err + op_result \<Rightarrow> bool" where
  "untouched r \<longleftrightarrow>
     payload_of r = restoreResultJSON RestorePhaseFailed [] \<or>
     payload_of r = restoreResultJSON RestorePhasePreBackupFailed []"

text \<open>
  The error of a pre-flight is plain when it is no pipeline error with a payload of its own; the Go
  packages cannot import each other, so adapters return only such errors.
\<close>

definition plain_engine :: "(bool \<Rightarrow> 'h engine) \<Rightarrow> bool" where
  "plain_engine eng \<longleftrightarrow>
     (case eng_Preflight (eng False) of None \<Rightarrow> True
      | Some f \<Rightarrow> \<forall>spec s. (case fst (f spec s) of None \<Rightarrow> True | Some e \<Rightarrow> as_pipeline e = None))"

text \<open>What is imported comes from the snapshot of the task.\<close>

definition sourced :: "'h deps \<Rightarrow> string \<Rightarrow> restore_task \<Rightarrow> restore_spec \<Rightarrow> bool" where
  "sourced d tempDir task spec \<longleftrightarrow>
     (\<exists>db. rtk_database task = Some db \<and> rs_snapshot_id spec = dbt_snapshot_id db) \<and> rs_kind spec = rtk_kind task \<and>
     artifact_below (d_host d) (Join2 tempDir ''restore_staging'') spec"

text \<open>
  All calls of a restore: the target is changed only when it is cleared for it, with the artifact of the
  snapshot that was fetched first, and an error before that is reported with one of the two phases
  for an untouched target (for a plain adapter).
\<close>

definition restore_calls :: "'h deps \<Rightarrow> string \<Rightarrow> restore_task \<Rightarrow> bool \<Rightarrow> err + op_result \<Rightarrow> call list \<Rightarrow> bool" where
  "restore_calls d tempDir task plain r cs \<longleftrightarrow>
     (\<exists>pre post. cs = pre @ post \<and> list_all reading pre \<and>
        (post = [] \<and> (\<exists>e. r = Inl e) \<and> (untouched r \<or> \<not> plain) \<or>
         (\<exists>spec protection. cleared pre spec protection \<and> sourced d tempDir task spec \<and>
            hd pre = Fetched (rs_snapshot_id spec) (Join2 tempDir ''restore_staging'') \<and>
            changing_calls d tempDir spec protection r post)))"

lemma upload_id:
  assumes "uploadProtectionBackup d opts t task db sb s = (Inr i, s')"
  shows "i \<noteq> []"
  using assms unfolding uploadProtectionBackup_def Let_def
  by (elim then_doE) (auto split: if_splits)

lemma fst_errors [simp]:
  "fst (map_err g x) = Inl e \<longleftrightarrow> (\<exists>y. fst x = Inl y \<and> e = g y)"
  "fst (check c e0 s) = Inl e \<longleftrightarrow> \<not> c \<and> e = e0"
  "fst (of_option e0 y s) = Inl e \<longleftrightarrow> y = None \<and> e = e0"
  "fst (unless_error q) = Inl e \<longleftrightarrow> fst q = Some e"
  by (cases "fst x"; auto simp: map_err_def check_def of_option_def unless_error_def split: option.splits)+

lemma untouched_simps [simp]:
  "untouched (Inl (restoreSafeFail code message cause))"
  "untouched (Inl (verification_err we))"
  "untouched (Inl (protection_failed d e s))"
  by (simp_all add: untouched_def payload_of_def restoreSafeFail_def verification_err_def protection_failed_def Let_def)

lemma untouched_target:
  "fst (restore_target_path d t a b s) = Inl e \<Longrightarrow> untouched (Inl e)"
  "fst (restore_database_target d task db s) = Inl e \<Longrightarrow> untouched (Inl e)"
proof -
  show 1: "fst (restore_target_path d t a b s) = Inl e \<Longrightarrow> untouched (Inl e)" for t a b
    by (auto simp: restore_target_path_def split: sum.splits option.splits)
  obtain x s2 where r: "restore_target_path d (dbt_database db) ''sqlite restore target path mapping failed''
      ''sqlite restore target is outside configured allowlist'' s = (x, s2)" by force
  assume "fst (restore_database_target d task db s) = Inl e"
  with r have "x = Inl e" by (cases x) (auto simp: restore_database_target_def then_do_def split: if_splits)
  with r 1 show "untouched (Inl e)" by (metis fst_conv)
qed

lemma untouched_engine: "restore_engine d k = Inl e \<Longrightarrow> untouched (Inl e)"
  by (auto simp: restore_engine_def split: option.splits)

lemma untouched_preflight:
  assumes "plain_engine eng" and "fst (do_preflight (eng False) spec s) = Some e"
  shows "untouched (Inl (preflight_failed e))"
proof -
  have "as_pipeline e = None"
    using assms by (cases "as_pipeline e") (fastforce simp: plain_engine_def do_preflight_def traced_def split: option.splits)+
  then show ?thesis by (simp add: preflight_failed_def)
qed

definition plain_deps :: "'h deps \<Rightarrow> bool" where
  "plain_deps d \<longleftrightarrow>
     (\<forall>k. case ad_engine (d_adapters d k) of None \<Rightarrow> True | Some eng \<Rightarrow> plain_engine eng)"

lemma plain_restore_engine: "restore_engine d k = Inr eng \<Longrightarrow> plain_deps d \<Longrightarrow> plain_engine eng"
proof -
  assume r: "restore_engine d k = Inr eng" and p: "plain_deps d"
  from r have "ad_engine (d_adapters d k) = Some eng"
    by (auto simp: restore_engine_def For_def filesystem_adapter_def split: option.splits kind.splits)
  moreover from p have "case ad_engine (d_adapters d k) of None \<Rightarrow> True | Some eng \<Rightarrow> plain_engine eng"
    unfolding plain_deps_def by blast
  ultimately show ?thesis by simp
qed

text \<open>The same from the lock on, when the artifact is already there.\<close>

definition locked_calls :: "'h deps \<Rightarrow> string \<Rightarrow> restore_spec \<Rightarrow> bool \<Rightarrow> err + op_result \<Rightarrow> call list \<Rightarrow> bool" where
  "locked_calls d tempDir spec plain r cs \<longleftrightarrow>
     (\<exists>pre post. cs = pre @ post \<and> list_all reading pre \<and>
        (post = [] \<and> (\<exists>e. r = Inl e) \<and> (untouched r \<or> \<not> plain) \<or>
         (\<exists>new protection. cleared pre (spec\<lparr>rs_target_is_new := new\<rparr>) protection \<and>
            changing_calls d tempDir (spec\<lparr>rs_target_is_new := new\<rparr>) protection r post)))"

lemma restore_calls_early:
  "list_all reading cs \<Longrightarrow> untouched (Inl e) \<or> \<not> plain \<Longrightarrow> restore_calls d t task plain (Inl e) cs"
  unfolding restore_calls_def by (metis append_Nil2)

lemma locked_calls_early:
  "list_all reading cs \<Longrightarrow> untouched (Inl e) \<or> \<not> plain \<Longrightarrow> locked_calls d t spec plain (Inl e) cs"
  unfolding locked_calls_def by (metis append_Nil2)

lemma locked_calls_restore:
  assumes "locked_calls d t spec plain r cs" and src: "sourced d t task spec"
  shows "restore_calls d t task plain r (Fetched (rs_snapshot_id spec) (Join2 t ''restore_staging'') # cs)"
proof -
  let ?f = "Fetched (rs_snapshot_id spec) (Join2 t ''restore_staging'')"
  from assms(1) obtain pre post where cs: "cs = pre @ post" "list_all reading pre"
    and k: "post = [] \<and> (\<exists>e. r = Inl e) \<and> (untouched r \<or> \<not> plain) \<or>
         (\<exists>new protection. cleared pre (spec\<lparr>rs_target_is_new := new\<rparr>) protection \<and>
            changing_calls d t (spec\<lparr>rs_target_is_new := new\<rparr>) protection r post)"
    unfolding locked_calls_def by blast
  have pre: "?f # cs = (?f # pre) @ post" "list_all reading (?f # pre)" using cs by (simp_all add: reading_def)
  have src': "sourced d t task (spec\<lparr>rs_target_is_new := new\<rparr>)" for new
    using src by (simp add: sourced_def artifact_below_def)
  have clr: "cleared (?f # pre) sp i" if "cleared pre sp i" for sp i
    using that by (auto simp: cleared_def)
  from k show ?thesis
  proof
    assume "post = [] \<and> (\<exists>e. r = Inl e) \<and> (untouched r \<or> \<not> plain)"
    with pre show ?thesis unfolding restore_calls_def by blast
  next
    assume "\<exists>new protection. cleared pre (spec\<lparr>rs_target_is_new := new\<rparr>) protection \<and>
            changing_calls d t (spec\<lparr>rs_target_is_new := new\<rparr>) protection r post"
    then obtain new protection where c: "cleared pre (spec\<lparr>rs_target_is_new := new\<rparr>) protection"
      "changing_calls d t (spec\<lparr>rs_target_is_new := new\<rparr>) protection r post" by blast
    have "hd (?f # pre) = Fetched (rs_snapshot_id (spec\<lparr>rs_target_is_new := new\<rparr>)) (Join2 t ''restore_staging'')" by simp
    with pre clr [OF c(1)] c(2) src' [of new] show ?thesis unfolding restore_calls_def by blast
  qed
qed

lemma locked_restore_trace:
  assumes plain: "plain \<longrightarrow> plain_engine eng"
  shows "ends_with (\<lambda>r c'. \<exists>cs. c' = sh_calls s @ cs \<and> locked_calls d t spec plain r cs)
     (locked_restore d opts t task sb eng spec staging s)"
proof -
  have pre: "\<exists>cs. sh_calls (snd (do_preflight (eng False) spec s)) = sh_calls s @ cs \<and> list_all reading cs"
    by (auto simp: do_preflight_def traced_def reading_def split: option.splits)
  then obtain cs where cs: "sh_calls (snd (do_preflight (eng False) spec s)) = sh_calls s @ cs" "list_all reading cs" by blast
  have early: "\<exists>cs'. sh_calls s @ cs @ more = sh_calls s @ cs' \<and> locked_calls d t spec plain (Inl e) cs'"
    if "list_all reading more" and "untouched (Inl e) \<or> \<not> plain" for more and e :: err
    using cs(2) that locked_calls_early [of "cs @ more" e plain d t spec] by auto
  show ?thesis
    unfolding locked_restore_def
  proof (rule loud_then [where c = "sh_calls s @ cs"], goal_cases)
    case (3 a1 s1)
    define q where "q = AskedExists spec (fst (eng_TargetExists (eng False) spec s1))"
    have rq: "reading q" by (simp add: q_def reading_def)
    from 3 show ?case
    proof (rule_tac loud_then [where c = "sh_calls s @ cs @ [q]"], goal_cases)
      case (3 exists s2)
      then have ex: "q = AskedExists spec (Inr exists)"
        by (cases "fst (eng_TargetExists (eng False) spec s1)") (auto simp: q_def map_err_def)
      from 3 show ?case
      proof (rule_tac loud_then [where c = "sh_calls s @ cs @ [q]"], goal_cases)
        case (3 a3 s3)
        then have allowed: "\<not> exists \<or> dbt_replace_existing (rs_database spec)" by (auto simp: check_def split: if_splits)
        define spec' where "spec' = spec\<lparr>rs_target_is_new := \<not> exists\<rparr>"
        show ?case
        proof (cases exists)
          case False
          obtain r s4 where r: "replace_target d opts t eng spec' [] staging s3 = (r, s4)" by force
          from replace_target_trace [OF r] obtain post where post: "sh_calls s4 = sh_calls s3 @ post" "changing_calls d t spec' [] r post"
            by blast
          have "cleared (cs @ [q]) spec' []" using False ex by (auto simp: cleared_def spec'_def)
          moreover have "list_all reading (cs @ [q])" using cs(2) rq by simp
          ultimately have "locked_calls d t spec plain r ((cs @ [q]) @ post)"
            using post(2) unfolding locked_calls_def spec'_def by blast
          moreover have "spec\<lparr>rs_target_is_new := True\<rparr> = spec'" using False by (simp add: spec'_def)
          ultimately show ?thesis using 3 False r post(1) by (auto simp: ends_with_def Let_def)
        next
          case True
          define s5 where "s5 = report_phase RestorePhasePreBackup s3"
          obtain u s6 where u: "uploadProtectionBackup d opts t task (rs_database spec) sb s5 = (u, s6)" by force
          have c6: "sh_calls s6 = sh_calls s @ cs @ [q]"
            using calls_upload [of d opts t task "rs_database spec" sb s5] u 3 by (simp add: s5_def report_phase_def)
          show ?thesis
          proof (cases u)
            case (Inl e)
            with True u c6 early [of "[q]"] rq show ?thesis
              by (auto simp: ends_with_def Let_def s5_def [symmetric])
          next
            case (Inr i)
            have i: "i \<noteq> []" using upload_id u Inr by blast
            define s7 where "s7 = log_line ''info'' ''saved protection snapshot %s'' [i]
                       (report (no_progress\<lparr>prg_phase := phase_text RestorePhasePreBackup,
                                  prg_detail := restoreResultJSON RestorePhasePreBackup i\<rparr>) s6)"
            define s8 where "s8 = s7\<lparr>sh_calls := sh_calls s7 @ [Protected i]\<rparr>"
            obtain r s9 where r: "replace_target d opts t eng spec' i staging s8 = (r, s9)" by force
            from replace_target_trace [OF r] obtain post where post: "sh_calls s9 = sh_calls s8 @ post" "changing_calls d t spec' i r post"
              by blast
            have "cleared (cs @ [q, Protected i]) spec' i" using True ex i allowed by (auto simp: cleared_def spec'_def)
            moreover have "list_all reading (cs @ [q, Protected i])" using cs(2) rq by (simp add: reading_def)
            ultimately have "locked_calls d t spec plain r ((cs @ [q, Protected i]) @ post)" using post(2)
              unfolding locked_calls_def spec'_def by blast
            moreover have "sh_calls s9 = sh_calls s @ (cs @ [q, Protected i]) @ post"
              using post(1) c6 by (simp add: s8_def s7_def)
            moreover have "spec\<lparr>rs_target_is_new := False\<rparr> = spec'" using True by (simp add: spec'_def)
            ultimately show ?thesis using True u Inr r
              by (auto simp: ends_with_def Let_def s5_def s7_def s8_def)
          qed
        qed
      qed (use early [of "[q]"] rq in auto)
    qed (use early [of "[q]"] rq cs in \<open>auto simp: q_def\<close>)
  qed (use cs early [of "[]"] plain untouched_preflight [of eng spec s] in auto)
qed

lemma calls_target_path [calls_simps]: "sh_calls (snd (restore_target_path d t a b s)) = sh_calls s"
  by (simp add: restore_target_path_def split: sum.splits option.splits)

lemma calls_database_target [calls_simps]: "sh_calls (snd (restore_database_target d task db s)) = sh_calls s"
  unfolding restore_database_target_def by (auto simp: calls_simps intro!: calls_then_do)

lemma restore_database_target_id:
  "restore_database_target d task db s = (Inr db', s') \<Longrightarrow> dbt_snapshot_id db' = dbt_snapshot_id db"
  by (auto simp: restore_database_target_def elim!: then_doE split: if_splits)

lemma map_err_state: "map_err g (x, s) = (Inr a, s') \<Longrightarrow> x = Inr a \<and> s' = s"
  by (auto elim!: map_errE)

lemma check_state: "check c e s = (Inr a, s') \<Longrightarrow> s' = s"
  by (simp add: check_def split: if_splits)

definition only_fetches :: "call list \<Rightarrow> bool" where
  "only_fetches cs \<longleftrightarrow> (\<forall>c\<in>set cs. \<exists>i dir. c = Fetched i dir)"

lemma database_restore_trace:
  assumes plain: "plain \<longrightarrow> plain_deps d"
  shows "ends_with (\<lambda>r c'. \<exists>cs. c' = sh_calls s @ cs \<and> (if dryRun then only_fetches cs else restore_calls d t task plain r cs))
     (runDatabaseRestore d opts task t sb dryRun s)"
proof -
  define Q where "Q = (\<lambda>r c'. \<exists>cs. c' = sh_calls s @ cs \<and> (if dryRun then only_fetches cs else restore_calls d t task plain r cs))"
  have stop: "Q (Inl e) (sh_calls s)" if "untouched (Inl e)" for e
    using that by (auto simp: Q_def restore_calls_early only_fetches_def)
  define staging where "staging = Join2 t ''restore_staging''"
  have "ends_with Q (runDatabaseRestore d opts task t sb dryRun s)"
    unfolding runDatabaseRestore_def Let_def staging_def [symmetric]
  proof (rule loud_then [where c = "sh_calls s"], goal_cases)
    case (3 db0 s1)
    then have db0: "rtk_database task = Some db0" by (auto simp: of_option_def split: option.splits)
    from 3 show ?case
    proof (rule_tac loud_then [where c = "sh_calls s"], goal_cases)
      case (3 db s2)
      then have db: "dbt_snapshot_id db = dbt_snapshot_id db0" by (auto dest: restore_database_target_id)
      define c where "c = sh_calls s @ [Fetched (dbt_snapshot_id db) staging]"
      have stop': "Q (Inl e) c'" if "untouched (Inl e)" "c' = c" for e c'
        using that by (auto simp: Q_def c_def restore_calls_early only_fetches_def reading_def)
      from 3 show ?case
      proof (rule_tac loud_then [where c = "sh_calls s"], goal_cases)
        case (3 eng s3)
        then have eng: "restore_engine d (rtk_kind task) = Inr eng" by simp
        from 3 show ?case
        proof (rule_tac loud_then [where c = "sh_calls s"], goal_cases)
          case (3 a4 s4) then show ?case
          proof (rule_tac loud_then [where c = c], goal_cases)
            case (3 a5 s5) then show ?case
            proof (rule_tac loud_then [where c = c], goal_cases)
              case (3 a6 s6)
              obtain m root where a6: "a6 = (m, root)" by force
              have load: "load_manifest (d_host d) staging (sh_host s5) = Inr (m, root)" "s6 = s5"
                using 3 by (auto simp: a6 dest: map_err_state)
              from 3 show ?case unfolding a6 prod.case
              proof (rule_tac loud_then [where c = c], goal_cases)
                case (3 a7 s7)
                then have s7: "s7 = s5" using load(2) by (auto dest: check_state)
                from 3 show ?case
                proof (rule_tac loud_then [where c = c], goal_cases)
                  case (3 art s8)
                  have art: "singleDatabaseArtifact (d_host d) (sh_host s5) m root = Inr art"
                    using 3 s7 by (auto dest: map_err_state)
                  show ?case
                  proof (cases dryRun)
                    case True
                    with 3 show ?thesis by (simp add: ends_with_def Q_def c_def only_fetches_def)
                  next
                    case False
                    show ?thesis unfolding if_not_P [OF False]
                    proof (rule loud_then [where c = c], goal_cases)
                      case (3 a9 s9) then show ?case
                      proof (rule_tac loud_then [where c = c], goal_cases)
                        case (3 a10 s10)
                        define spec where "spec = \<lparr>rs_snapshot_id = dbt_snapshot_id db, rs_kind = rtk_kind task,
                          rs_staging_dir = root, rs_database = db, rs_secrets = sb, rs_run_id = rtk_run_id task,
                          rs_artifact_file = ma_file art, rs_artifact_database = ma_database art,
                          rs_artifact_format = ma_format art, rs_artifact_charset = ma_charset art,
                          rs_artifact_collation = ma_collation art, rs_target_is_new = False\<rparr>"
                        have src: "sourced d t task spec"
                          using load(1) art db0 db by (auto simp: sourced_def artifact_below_def spec_def staging_def)
                        have "plain \<longrightarrow> plain_engine eng" using plain plain_restore_engine eng by auto
                        from locked_restore_trace [OF this, where s = s10 and d = d and opts = opts and t = t and task = task and sb = sb and
                          spec = spec and staging = staging]
                        have l: "ends_with (\<lambda>r c'. \<exists>cs. c' = c @ cs \<and> locked_calls d t spec plain r cs)
                            (locked_restore d opts t task sb eng spec staging s10)" using 3 by simp
                        show ?case unfolding spec_def [symmetric]
                          using l locked_calls_restore [OF _ src]
                          by (fastforce simp: ends_with_def Q_def c_def False spec_def staging_def)
                      qed (auto intro: stop' untouched_engine)
                    qed (use 3 in \<open>auto intro: stop'\<close>)
                  qed
                qed (auto intro: stop' untouched_engine)
              qed (use 3 in \<open>auto intro: stop' untouched_engine\<close>)
            qed (auto intro: stop' untouched_engine)
          qed (auto simp: c_def calls_simps intro: stop' [unfolded c_def] untouched_target)
        qed (auto simp: calls_simps intro: stop untouched_target)
      qed (auto intro: stop untouched_engine)
    qed (auto simp: calls_simps intro: stop untouched_target)
  qed (auto intro: stop untouched_engine)
  then show ?thesis by (simp add: Q_def)
qed


lemma phase_json_eq:
  "restoreResultJSON p a = restoreResultJSON q b \<longleftrightarrow> phase_text p = phase_text q \<and> a = b"
  by (auto simp: restoreResultJSON_def)

lemma json_phases [simp]:
  "restoreResultJSON RestorePhaseSucceeded a \<noteq> restoreResultJSON RestorePhaseFailed b"
  "restoreResultJSON RestorePhaseSucceeded a \<noteq> restoreResultJSON RestorePhasePreBackupFailed b"
  by (simp_all add: phase_json_eq)

text \<open>
  What the calls must show for the phase a result reports: of success, that the artifact of the fetched
  snapshot was imported and verified last, both without error; of a rollback, the same for the
  artifact of the protection snapshot.
\<close>

definition imported_snapshot :: "'h host \<Rightarrow> string \<Rightarrow> string \<Rightarrow> call list \<Rightarrow> bool" where
  "imported_snapshot hs snapshotID dir cs \<longleftrightarrow>
     (\<exists>pre spec. cs = pre @ [Imported spec None, Verified spec None] \<and> Fetched snapshotID dir \<in> set pre \<and>
        artifact_below hs dir spec)"

definition rolled_back_to :: "'h deps \<Rightarrow> string \<Rightarrow> string \<Rightarrow> call list \<Rightarrow> bool" where
  "rolled_back_to d tempDir i cs \<longleftrightarrow>
     i \<noteq> [] \<and> (\<exists>pre again. cs = pre @ [Fetched i (Join2 tempDir ''rollback_staging''), Imported again None, Verified again None] \<and>
        Protected i \<in> set pre \<and> artifact_below (d_detached d) (Join2 tempDir ''rollback_staging'') again)"

definition restored_from :: "'h deps \<Rightarrow> string \<Rightarrow> restore_task \<Rightarrow> call list \<Rightarrow> bool" where
  "restored_from d tempDir task cs \<longleftrightarrow>
     (\<exists>db. rtk_database task = Some db \<and>
        imported_snapshot (d_host d) (dbt_snapshot_id db) (Join2 tempDir ''restore_staging'') cs)"

definition phase_true :: "'h deps \<Rightarrow> string \<Rightarrow> restore_task \<Rightarrow> err + op_result \<Rightarrow> call list \<Rightarrow> bool" where
  "phase_true d tempDir task r cs \<longleftrightarrow>
     (if untouched r then list_all reading cs \<and> (\<exists>e. r = Inl e)
      else if \<exists>i. payload_of r = restoreResultJSON RestorePhaseSucceeded i
      then restored_from d tempDir task cs
      else if \<exists>i. payload_of r = restoreResultJSON RestorePhaseNewTargetCleaned i
      then (\<exists>q spec. AskedExists q (Inr False) \<in> set cs \<and> last cs = Removed spec None)
      else if \<exists>i. payload_of r = restoreResultJSON RestorePhaseRolledBack i
      then (\<exists>i. payload_of r = restoreResultJSON RestorePhaseRolledBack i \<and> rolled_back_to d tempDir i cs)
      else (\<exists>i. payload_of r = restoreResultJSON RestorePhaseRollbackFailed i) \<and> (\<exists>spec e. Imported spec e \<in> set cs))"

lemma changing_phase_true:
  assumes "cleared pre spec protection" and "changing_calls d t spec protection r post" and "list_all reading pre"
    and src: "sourced d t task spec" and first: "hd pre = Fetched (rs_snapshot_id spec) (Join2 t ''restore_staging'')"
  shows "phase_true d t task r (pre @ post)"
proof (cases r)
  case (Inr x)
  with assms(2) have x: "payload_of r = restoreResultJSON RestorePhaseSucceeded protection"
    "post = [Imported spec None, Verified spec None]"
    by (simp_all add: changing_calls_def payload_of_def json_result_def)
  have "pre \<noteq> []" using assms(1) by (simp add: cleared_def)
  then have "Fetched (rs_snapshot_id spec) (Join2 t ''restore_staging'') \<in> set pre" using first by (metis hd_in_set)
  then have "restored_from d t task (pre @ post)"
    using src x(2) unfolding restored_from_def imported_snapshot_def sourced_def by auto
  then show ?thesis using x(1) by (auto simp: phase_true_def untouched_def phase_json_eq)
next
  case (Inl e)
  with assms(2) obtain phase y first rb where p: "payload_of r = restoreResultJSON phase protection" "post = first @ rb"
    "first = [Imported spec (Some y)] \<or> first = [Imported spec None, Verified spec (Some y)]" "rollback_of d t protection spec phase rb"
    unfolding changing_calls_def by auto
  have "Imported spec (Some y) \<in> set first \<or> Imported spec None \<in> set first" using p(3) by auto
  then have imported: "\<exists>sp e. Imported sp e \<in> set (pre @ post)" unfolding p(2) set_append by blast
  consider (failed) "phase = RestorePhaseRollbackFailed"
    | (cleaned) "phase = RestorePhaseNewTargetCleaned" "rs_target_is_new spec" "rb = [Removed spec None]"
    | (rolled) again where "phase = RestorePhaseRolledBack" "\<not> rs_target_is_new spec" "protection \<noteq> []"
        "artifact_below (d_detached d) (Join2 t ''rollback_staging'') again"
        "rb = [Fetched protection (Join2 t ''rollback_staging''), Imported again None, Verified again None]"
    using p(4) unfolding rollback_of_def rollback_calls_def by (auto split: if_splits)
  then show ?thesis
  proof cases
    case failed
    with p(1) imported show ?thesis by (simp add: phase_true_def untouched_def phase_json_eq)
  next
    case cleaned
    with assms(1) obtain q where "AskedExists q (Inr False) \<in> set pre"
      unfolding cleared_def by (metis last_in_set)
    with p(1,2) cleaned show ?thesis by (auto simp: phase_true_def untouched_def phase_json_eq)
  next
    case rolled
    with assms(1) have "Protected protection \<in> set pre" unfolding cleared_def by (metis last_in_set)
    then have "pre @ post = (pre @ first) @ [Fetched protection (Join2 t ''rollback_staging''), Imported again None, Verified again None]"
      "Protected protection \<in> set (pre @ first)"
      using p(2) rolled by auto
    with rolled have "rolled_back_to d t protection (pre @ post)" unfolding rolled_back_to_def by blast
    with p(1) rolled show ?thesis by (auto simp: phase_true_def untouched_def phase_json_eq)
  qed
qed

text \<open>
  The phase a real restore reports is true, for adapters whose pre-flight errors are plain.
  \<open>failed\<close> and \<open>pre_backup_failed\<close> are reported only for an error before which neither import,
  verification nor removal was called, so the server may release the target; \<open>succeeded\<close> only when
  the last calls are the import of the artifact of the requested snapshot and its verification, both
  without error; \<open>new_target_cleaned\<close> only when the target was reported absent and its removal was the
  last call, without error; \<open>rolled_back\<close> only with the id of a protection snapshot taken before, when
  the last calls are its restore, the import of its artifact and the verification, without error;
  and the only other phase is \<open>rollback_failed\<close>, after an import.
\<close>

theorem reported_phase_is_true:
  assumes "plain_deps d"
  shows "case runDatabaseRestore d opts task t sb False s of
     (r, s') \<Rightarrow> \<exists>cs. sh_calls s' = sh_calls s @ cs \<and> phase_true d t task r cs"
proof -
  obtain r s' where run: "runDatabaseRestore d opts task t sb False s = (r, s')" by force
  obtain cs where cs: "sh_calls s' = sh_calls s @ cs" "restore_calls d t task True r cs"
    using database_restore_trace [of True d s False t task opts sb] run assms by (auto simp: ends_with_def)
  from cs(2) obtain pre post where parts: "cs = pre @ post" "list_all reading pre"
    and kinds: "post = [] \<and> (\<exists>e. r = Inl e) \<and> (untouched r \<or> \<not> True) \<or>
      (\<exists>spec protection. cleared pre spec protection \<and> sourced d t task spec \<and>
         hd pre = Fetched (rs_snapshot_id spec) (Join2 t ''restore_staging'') \<and> changing_calls d t spec protection r post)"
    unfolding restore_calls_def by blast
  have "phase_true d t task r cs"
    using kinds
  proof
    assume "post = [] \<and> (\<exists>e. r = Inl e) \<and> (untouched r \<or> \<not> True)"
    with parts show ?thesis by (simp add: phase_true_def)
  next
    assume "\<exists>spec protection. cleared pre spec protection \<and> sourced d t task spec \<and>
         hd pre = Fetched (rs_snapshot_id spec) (Join2 t ''restore_staging'') \<and> changing_calls d t spec protection r post"
    with parts show ?thesis using changing_phase_true by blast
  qed
  with run cs(1) show ?thesis by auto
qed

definition demo_engine :: "unit engine" where
  "demo_engine =
     \<lparr>eng_Preflight = None, eng_TargetExists = (\<lambda>_ s. (Inr False, s)), eng_Import = (\<lambda>_ s. (Some Canceled, s)),
      eng_VerifyRestored = (\<lambda>_ s. (None, s)), eng_RemoveTarget = (\<lambda>_ s. (None, s))\<rparr>"

definition demo_deps :: "unit deps" where
  "demo_deps =
     (let hs = demo_host (\<lambda>_. \<lparr>out_lines = [], exit_code = 0, run_err = None\<rparr>) in
      \<lparr>d_host = hs, d_detached = hs,
       d_adapters = (\<lambda>_. \<lparr>ad_Validate = (\<lambda>_ _. None), ad_Backup = (\<lambda>_ _ _ _ s. (Inl Canceled, s)),
                          ad_engine = Some (\<lambda>_. demo_engine)\<rparr>),
       d_tools = (\<lambda>_. None), d_tools_json = JNull, d_source_roots = [], d_restore_roots = [], d_source_mappings = [],
       d_restore_mappings = [], d_scratch_min_free = 0, d_cache_dir = [], d_read_subset = [], d_db_busy = (\<lambda>_. False)\<rparr>)"

lemma demo_plain: "plain_deps demo_deps"
  by (simp add: plain_deps_def demo_deps_def plain_engine_def demo_engine_def Let_def)

theorem reported_phase_is_true_witness:
  "case runDatabaseRestore demo_deps demo_options
      \<lparr>rtk_kind = KindMySQL, rtk_repo = ''r'', rtk_filesystem = None, rtk_database = None, rtk_run_id = ''x''\<rparr>
      ''/t'' \<lparr>sb_restic_password = [], sb_db_password = [], sb_rclone_conf = []\<rparr> False demo_shell of
     (r, s') \<Rightarrow> \<exists>cs. sh_calls s' = sh_calls demo_shell @ cs \<and> phase_true demo_deps ''/t''
       \<lparr>rtk_kind = KindMySQL, rtk_repo = ''r'', rtk_filesystem = None, rtk_database = None, rtk_run_id = ''x''\<rparr> r cs"
  by (rule reported_phase_is_true [OF demo_plain])

section \<open>Where a file restore writes\<close>

lemma ran_target_path: "sh_ran (snd (restore_target_path d t a b s)) = sh_ran s"
  by (simp add: restore_target_path_def split: sum.splits option.splits)

lemma ran_then:
  assumes "\<And>a s. sh_ran (snd (f a s)) = sh_ran s"
  shows "sh_ran (snd (then_do r f)) = sh_ran (snd r)"
  using assms by (auto simp: then_do_def split: prod.splits sum.splits)

lemma ran_restore:
  "\<exists>args. sh_ran (snd (RestoreWithOverwrite hs opts a t ps ow s)) =
     sh_ran s @ (if opt_exe opts = [] then [] else [restic_cmd opts (''restore'' # a # ''--target'' # t # args) (cache_env opts)])"
  by (auto simp: RestoreWithOverwrite_def Let_def split: prod.splits dest!: run_logged_ran)

lemma ran_dry:
  "\<exists>args. ''--dry-run'' \<in> set args \<and> sh_ran (snd (RestoreDryRunWithOverwrite hs opts a t ps ow s)) =
     sh_ran s @ (if opt_exe opts = [] then [] else [restic_cmd opts (''restore'' # a # ''--target'' # t # args) (cache_env opts)])"
  by (rule exI [of _ "[''--dry-run'', ''--verbose=2'', ''--overwrite'', normalizeOverwrite ow] @ resticRepositoryArgs opts @ include_args ps"])
    (auto simp: RestoreDryRunWithOverwrite_def Let_def split: prod.splits dest!: run_logged_ran)

lemma ran_on_host: "sh_ran (snd (on_host f s)) = sh_ran s"
  by (auto simp: on_host_def split: prod.splits)

text \<open>C22: 
  A file restore writes only below an allowed root.  Every command it runs is one
  \<open>restic restore\<close> whose target is the mapped path of the request, and the check of the restore roots accepted that
  path; a trial run says so to restic; and with the overwrite mode \<open>never\<close> nothing runs against a
  directory that is not empty.
\<close>

theorem file_restore_writes_below_allowed_roots:
  "case runFilesystemRestore d opts task dryRun s of
     (r, s') \<Rightarrow>
       \<exists>cs. sh_ran s' = sh_ran s @ cs \<and>
         (cs = [] \<or>
          (\<exists>fs target args. rtk_filesystem task = Some fs \<and>
             mapPath (fst_target_path fs) (d_restore_mappings d) False = Inr target \<and>
             allowed_error d (sh_host s) [target] (d_restore_roots d) True = None \<and>
             cs = [restic_cmd opts (''restore'' # fst_snapshot_id fs # ''--target'' # target # args) (cache_env opts)] \<and>
             (if dryRun then ''--dry-run'' \<in> set args else True) \<and>
             (if fst_overwrite_mode fs = ''never''
              then (case read_dir (d_host d) target (sh_host s) of Some (e # es) \<Rightarrow> False | _ \<Rightarrow> True) else True)))"
proof -
  obtain r s' where run: "runFilesystemRestore d opts task dryRun s = (r, s')" by force
  show ?thesis
  proof (cases "rtk_filesystem task")
    case None
    with run show ?thesis by (auto simp: runFilesystemRestore_def then_do_def of_option_def)
  next
    case (Some fs)
    show ?thesis
    proof (cases "mapPath (fst_target_path fs) (d_restore_mappings d) False")
      case (Inl e)
      with run Some show ?thesis
        by (auto simp: runFilesystemRestore_def then_do_def of_option_def restore_target_path_def)
    next
      case target: (Inr target)
      show ?thesis
      proof (cases "allowed_error d (sh_host s) [target] (d_restore_roots d) True")
        case err: (Some e)
        with run Some target show ?thesis
          by (auto simp: runFilesystemRestore_def then_do_def of_option_def restore_target_path_def)
      next
        case allowed: None
        define busy where "busy = (fst_overwrite_mode fs = ''never'' \<and>
          (case read_dir (d_host d) target (sh_host s) of Some (e # es) \<Rightarrow> True | _ \<Rightarrow> False))"
        show ?thesis
        proof (cases busy)
          case True
          with run Some target allowed show ?thesis
            by (auto simp: runFilesystemRestore_def then_do_def of_option_def restore_target_path_def check_def busy_def)
        next
          case False
          then have free: "if fst_overwrite_mode fs = ''never''
              then (case read_dir (d_host d) target (sh_host s) of Some (e # es) \<Rightarrow> False | _ \<Rightarrow> True) else True"
            by (auto simp: busy_def split: option.splits list.splits)
          have go: "(r, s') =
            (if dryRun
             then then_do (map_err (\<lambda>e. Pipeline ''restore_failed'' ''dry run failed'' (Some e) json_none)
                    (RestoreDryRunWithOverwrite (d_host d) opts (fst_snapshot_id fs) target (fst_include_paths fs)
                       (fst_overwrite_mode fs) s)) (\<lambda>prog s. (Inr (json_result (stats_json prog)), s))
             else then_do (map_err (\<lambda>e. Pipeline ''restore_failed'' ''restore failed'' (Some e) json_none)
                    (RestoreWithOverwrite (d_host d) opts (fst_snapshot_id fs) target (fst_include_paths fs)
                       (fst_overwrite_mode fs) s)) (\<lambda>_ s.
                  case validateRestoredSymlinks (files_of (d_host d) (sh_host s)) target of
                    (None, _) \<Rightarrow>
                      (Inr (json_result (restoreResultJSON RestorePhaseSucceeded [])),
                       log_line ''info'' ''file restore done: %s (overwrite_mode=%s)'' [target, fst_overwrite_mode fs] s)
                  | (Some e, gone) \<Rightarrow>
                      (Inl (Pipeline ''path_not_allowed'' ''restored symlink escapes target root'' (Some (path_err e)) json_none),
                       case gone of None \<Rightarrow> s | Some p \<Rightarrow> snd (on_host (remove_one (d_host d) p) s))))"
            using run Some target allowed False
            by (simp add: runFilesystemRestore_def then_do_def of_option_def restore_target_path_def check_def busy_def)
          have s': "sh_ran s' = sh_ran (snd (r, s'))" by simp
          have "\<exists>args. (if dryRun then ''--dry-run'' \<in> set args else True) \<and> sh_ran s' = sh_ran s @
              (if opt_exe opts = [] then [] else [restic_cmd opts (''restore'' # fst_snapshot_id fs # ''--target'' # target # args) (cache_env opts)])"
          proof (cases dryRun)
            case True
            have "sh_ran s' = sh_ran (snd (RestoreDryRunWithOverwrite (d_host d) opts (fst_snapshot_id fs) target
                (fst_include_paths fs) (fst_overwrite_mode fs) s))"
              unfolding s' by (simp only: go if_P [OF True]) (subst ran_then; simp)
            with True ran_dry [of "d_host d" opts "fst_snapshot_id fs" target "fst_include_paths fs" "fst_overwrite_mode fs" s]
            show ?thesis by simp
          next
            case False
            have "sh_ran s' = sh_ran (snd (RestoreWithOverwrite (d_host d) opts (fst_snapshot_id fs) target
                (fst_include_paths fs) (fst_overwrite_mode fs) s))"
              unfolding s'
              by (simp only: go if_not_P [OF False]) (subst ran_then; auto simp: ran_on_host split: prod.splits option.splits)
            with False ran_restore [of "d_host d" opts "fst_snapshot_id fs" target "fst_include_paths fs" "fst_overwrite_mode fs" s]
            show ?thesis by simp
          qed
          then obtain args where args: "if dryRun then ''--dry-run'' \<in> set args else True"
            "sh_ran s' = sh_ran s @ (if opt_exe opts = [] then []
               else [restic_cmd opts (''restore'' # fst_snapshot_id fs # ''--target'' # target # args) (cache_env opts)])"
            by blast
          show ?thesis
          proof (cases "opt_exe opts = []")
            case True
            with run args show ?thesis by auto
          next
            case False
            show ?thesis unfolding run prod.case
              by (rule exI [of _ "[restic_cmd opts (''restore'' # fst_snapshot_id fs # ''--target'' # target # args) (cache_env opts)]"])
                (use Some target allowed free args False in
                  \<open>intro conjI disjI2 exI [of _ fs] exI [of _ target] exI [of _ args]; simp\<close>)
          qed
        qed
      qed
    qed
  qed
qed

end
