(* ===== verification/Pipeline_Ops.thy ===== *)
theory Pipeline_Ops
  imports Pipeline
begin

text \<open>
  The other operations of \<open>internal/agent/pipeline/pipeline.go\<close>: backup, check, forget and init,
  listings, the check of a storage remote, of paths and of the tools, and the dispatch of \<open>Execute\<close>.
  The log lines at every tenth percent of an upload, and the durations in log lines, are left out.
\<close>

section \<open>Backup\<close>

definition invalid_params :: "string \<Rightarrow> err" where
  "invalid_params what = Pipeline ''invalid_params'' (''unmarshal '' @ what) (Some (Plain ''invalid document'')) json_none"

definition failed_with :: "string \<Rightarrow> string \<Rightarrow> err \<Rightarrow> err" where
  "failed_with code message e = Pipeline code message (Some e) json_none"

definition requested_err :: "string \<Rightarrow> err \<Rightarrow> err" where
  "requested_err requested e = Around (''requested '' @ requested @ '': '') e []"

definition describeBackupSource :: "kind \<Rightarrow> plan_source \<Rightarrow> string" where
  "describeBackupSource k src =
     (case k of
        KindFilesystem \<Rightarrow> JoinWith '', '' (src_paths src)
      | KindSQLite \<Rightarrow> src_path src
      | _ \<Rightarrow> src_host src @ '':'' @ dec_int (src_port src) @ ''/'' @ src_database src)"

definition checkTempSpace :: "'h host \<Rightarrow> string \<Rightarrow> int \<Rightarrow> 'h \<Rightarrow> err option" where
  "checkTempSpace hs dir required h =
     (case free_bytes hs dir h of
        None \<Rightarrow> None
      | Some avail \<Rightarrow>
          if avail < required
          then Some (Pipeline ''insufficient_temp_space'' ''insufficient temp space for dump'' None json_none)
          else None)"

definition maxLogicalBackupBytes :: int where
  "maxLogicalBackupBytes = 100 * 2 ^ 30"

definition space_error :: "'h deps \<Rightarrow> kind \<Rightarrow> plan_source \<Rightarrow> string \<Rightarrow> 'h \<Rightarrow> err option" where
  "space_error d k src tempDir h =
     (if k = KindFilesystem then None
      else
        let given = src_estimated_dump_bytes src;
            estimated = (if k = KindSQLite \<and> given \<le> 0
                         then (case stat_size (d_host d) (src_path src) h of Some (_, n) \<Rightarrow> n | None \<Rightarrow> given)
                         else given) in
        if maxLogicalBackupBytes < estimated
        then Some (Pipeline ''physical_backup_required'' ''logical backup exceeds 100 GiB; physical/incremental backup required''
                     None json_none)
        else if 0 < estimated
        then checkTempSpace (d_host d) tempDir (max (estimated * 13 div 10) (d_scratch_min_free d)) h
        else None)"

definition run_tag :: "string list \<Rightarrow> string option" where
  "run_tag tags = List.find (\<lambda>t. HasPrefix t ''run:'') tags"

text \<open>The snapshot an earlier attempt of this run already uploaded; a failed listing counts as none.\<close>

definition existing_snapshot :: "'h deps \<Rightarrow> options \<Rightarrow> string list \<Rightarrow> 'h shell \<Rightarrow> string \<times> 'h shell" where
  "existing_snapshot d opts tags s =
     (case run_tag tags of
        None \<Rightarrow> ([], s)
      | Some tag \<Rightarrow>
          (case Snapshots (d_host d) opts (log_line ''info'' ''checking whether this run already has a snapshot'' [] s) of
             (Inl e, s') \<Rightarrow> ([], s')
           | (Inr snaps, s') \<Rightarrow>
               (case List.find (\<lambda>x. tag \<in> set (snap_tags x) \<and> snap_id x \<noteq> []) snaps of
                  None \<Rightarrow> ([], s') | Some x \<Rightarrow> (snap_id x, s'))))"

definition drop_staging :: "'h deps \<Rightarrow> kind \<Rightarrow> artifact \<Rightarrow> 'h shell \<Rightarrow> 'h shell" where
  "drop_staging d k art s =
     (if k \<noteq> KindFilesystem \<and> art_staging_dir art \<noteq> []
      then snd (on_host (remove_all (d_host d) (art_staging_dir art)) s) else s)"

definition upload ::
  "'h deps \<Rightarrow> options \<Rightarrow> backup_task \<Rightarrow> artifact \<Rightarrow> 'h shell \<Rightarrow> (err + op_result) \<times> 'h shell" where
  "upload d opts task art s =
     then_do (map_err (failed_with ''backup_failed'' ''restic backup failed'')
       (if bt_kind task = KindFilesystem
        then restic_Backup (d_host d) opts (art_live_paths art) (art_exclude_file art) (bt_tags task)
               (art_one_file_system art) report (log_line ''info'' ''uploading to the repository'' [] s)
        else restic_Backup (d_host d) (opts\<lparr>opt_working_dir := art_staging_dir art\<rparr>) [''.''] [] (bt_tags task) False report
               (log_line ''info'' ''uploading to the repository'' [] s))) (\<lambda>sum s.
     let s = log_line ''info'' ''upload done'' [] s in
     if sum_snapshot_id sum = []
     then (Inl (failed_with ''backup_failed'' ''restic returned no snapshot id'' (Plain ''restic backup produced no snapshot id'')), s)
     else (Inr \<lparr>op_snapshot_ids = [sum_snapshot_id sum], op_json = json_none\<rparr>,
           drop_staging d (bt_kind task) art (log_line ''info'' ''snapshot created: %s'' [sum_snapshot_id sum] s)))"

definition after_dump ::
  "'h deps \<Rightarrow> string \<Rightarrow> backup_task \<Rightarrow> secret_bundle \<Rightarrow> artifact \<Rightarrow> 'h shell \<Rightarrow> (err + op_result) \<times> 'h shell" where
  "after_dump d tempDir task secrets art s =
     then_do (newResticOpts d (bt_repo task) tempDir secrets s) (\<lambda>opts s.
       case existing_snapshot d opts (bt_tags task) s of
         (found, s') \<Rightarrow>
           if found \<noteq> []
           then (Inr \<lparr>op_snapshot_ids = [found], op_json = json_none\<rparr>,
                 log_line ''info'' ''snapshot %s of this run was already uploaded'' [found]
                   (report (no_progress\<lparr>prg_phase := ''done'', prg_percent := JNum 100\<rparr>)
                      (drop_staging d (bt_kind task) art s')))
           else upload d opts task art s')"

definition requested_paths :: "kind \<Rightarrow> plan_source \<Rightarrow> string" where
  "requested_paths k src = (if k = KindSQLite then src_path src else JoinWith '', '' (src_paths src))"

definition checked_paths :: "'h deps \<Rightarrow> kind \<Rightarrow> plan_source \<Rightarrow> 'h \<Rightarrow> path_error option" where
  "checked_paths d k src h =
     (if k = KindFilesystem then allowed_error d h (src_paths src) (d_source_roots d) False
      else if k = KindSQLite then allowed_error d h [src_path src] (d_source_roots d) False
      else None)"

definition runBackup ::
  "'h deps \<Rightarrow> string \<Rightarrow> json \<Rightarrow> secret_bundle \<Rightarrow> 'h shell \<Rightarrow> (err + op_result) \<times> 'h shell" where
  "runBackup d tempDir params secrets s =
     then_do (of_option (invalid_params ''backup task'') (decode_backup_task params) s) (\<lambda>task0 s.
     let k = bt_kind task0; requested = requested_paths k (bt_source task0) in
     then_do (map_err (\<lambda>e. failed_with ''path_not_allowed'' ''source path mapping failed'' (path_err e))
                (mapBackupSource k (bt_source task0) (d_source_mappings d) (d_source_roots d), s)) (\<lambda>src s.
     let task = task0\<lparr>bt_source := src\<rparr> in
     then_do (of_option (Pipeline ''invalid_plan'' (''unknown kind: '' @ kind_text k) None json_none) (For d k) s) (\<lambda>ad s.
     let s = log_line ''info'' ''backup: kind %s, source %s'' [kind_text k, describeBackupSource k src]
               (report (no_progress\<lparr>prg_phase := ''preparing''\<rparr>) s);
         s = (if k = KindFilesystem \<and> src_excludes src \<noteq> []
              then log_line ''info'' ''%d exclude rules'' [dec_nat (length (src_excludes src))] s else s) in
     then_do (unless_error (map_option (\<lambda>e. failed_with ''path_not_allowed'' ''source path validation failed''
                                           (requested_err requested (path_err e))) (checked_paths d k src (sh_host s)), s)) (\<lambda>_ s.
     then_do (unless_error (map_option (\<lambda>e. failed_with ''invalid_plan'' ''validation failed'' (requested_err requested e))
                (ad_Validate ad src (sh_host s)), s)) (\<lambda>_ s.
     let s = log_line ''info'' ''plan parameters checked'' [] s in
     then_do (unless_error (space_error d k src tempDir (sh_host s), s)) (\<lambda>_ s.
     let s = (if k = KindFilesystem then s
              else log_line ''info'' ''dumping'' [] (report (no_progress\<lparr>prg_phase := ''dumping''\<rparr>) s)) in
     then_do (map_err (failed_with ''backup_failed'' ''adapter backup failed'') (do_backup ad (bt_plan_id task0) secrets tempDir src s)) (\<lambda>art s.
     after_dump d tempDir task secrets art
       (if k = KindFilesystem then s else log_line ''info'' ''dump done'' [] s))))))))"

section \<open>Check, forget, init\<close>

definition with_repository ::
  "string \<Rightarrow> ((string \<times> json) list \<Rightarrow> 'a option) \<Rightarrow> 'h deps \<Rightarrow> string \<Rightarrow> json \<Rightarrow> secret_bundle \<Rightarrow> 'h shell \<Rightarrow>
   ('a \<Rightarrow> options \<Rightarrow> 'h shell \<Rightarrow> (err + op_result) \<times> 'h shell) \<Rightarrow> (err + op_result) \<times> 'h shell" where
  "with_repository what decode d tempDir params secrets s f =
     then_do (of_option (invalid_params what)
       (case params_object params of None \<Rightarrow> None
        | Some ms \<Rightarrow> (case (field_repository ms, decode ms) of (Some r, Some a) \<Rightarrow> Some (a, r) | _ \<Rightarrow> None)) s) (\<lambda>(a, repo) s.
     then_do (newResticOpts d repo tempDir secrets s) (\<lambda>opts s. f a opts s))"

definition runCheck ::
  "'h deps \<Rightarrow> string \<Rightarrow> json \<Rightarrow> secret_bundle \<Rightarrow> 'h shell \<Rightarrow> (err + op_result) \<times> 'h shell" where
  "runCheck d tempDir params secrets s =
     with_repository ''check task'' (\<lambda>_. Some ()) d tempDir params secrets s (\<lambda>_ opts s.
     then_do (map_err (failed_with ''check_failed'' ''restic check failed'') (restic_Check (d_host d) opts s)) (\<lambda>_ s.
       (Inr (json_result (JObj [(''checked'', JBool True)])),
        log_line ''info'' ''repository checked: %s''
          [if opt_read_subset opts \<noteq> [] \<and> opt_read_subset opts \<noteq> ''0''
           then ''structure and data subset '' @ opt_read_subset opts else ''structure only''] s)))"

record forget_task =
  fgt_repo :: string
  fgt_retention :: retention
  fgt_tags :: "string list"
  fgt_prune :: bool
  fgt_delete_all :: bool
  fgt_snapshot_ids :: "string list"

definition decode_keep :: "(string \<times> json) list \<Rightarrow> retention option" where
  "decode_keep ms =
     (case (field_int ''keep_last'' ms, field_int ''keep_daily'' ms, field_int ''keep_weekly'' ms, field_int ''keep_monthly'' ms) of
        (Some l, Some d, Some w, Some m) \<Rightarrow>
          Some \<lparr>keep_last = l, keep_daily = d, keep_weekly = w, keep_monthly = m\<rparr>
      | _ \<Rightarrow> None)"

definition decode_forget_task :: "json \<Rightarrow> forget_task option" where
  "decode_forget_task j =
     (case params_object j of
        None \<Rightarrow> None
      | Some ms \<Rightarrow>
          (case (field_string ''plan_id'' ms, field_string ''kind'' ms, field_repository ms,
                 Option.bind (field_object ''retention'' ms) decode_keep, field_strings ''tags'' ms) of
             (Some _, Some _, Some r, Some keep, Some ts) \<Rightarrow>
               (case (field_bool ''prune'' ms, field_bool ''delete_all'' ms, field_strings ''snapshot_ids'' ms) of
                  (Some p, Some a, Some ids) \<Rightarrow>
                    Some \<lparr>fgt_repo = r, fgt_retention = keep, fgt_tags = ts, fgt_prune = p, fgt_delete_all = a,
                          fgt_snapshot_ids = ids\<rparr>
                | _ \<Rightarrow> None)
           | _ \<Rightarrow> None))"

definition init_task_repo :: "json \<Rightarrow> string option" where
  "init_task_repo j =
     (case params_object j of
        None \<Rightarrow> None
      | Some ms \<Rightarrow>
          (case (field_repository ms, field_bool ''restic_init'' ms) of (Some r, Some True) \<Rightarrow> Some r | _ \<Rightarrow> None))"

definition keeps_any :: "retention \<Rightarrow> bool" where
  "keeps_any r \<longleftrightarrow> 0 < keep_last r \<or> 0 < keep_daily r \<or> 0 < keep_weekly r \<or> 0 < keep_monthly r"

definition run_forget_task :: "'h deps \<Rightarrow> forget_task \<Rightarrow> options \<Rightarrow> 'h shell \<Rightarrow> (err + op_result) \<times> 'h shell" where
  "run_forget_task d task opts s =
     (let ids = fgt_snapshot_ids task in
      if ids \<noteq> [] then
        (if fgt_tags task \<noteq> [] \<or> fgt_delete_all task \<or> keeps_any (fgt_retention task)
         then (Inl (Pipeline ''invalid_params'' ''snapshot_ids cannot be combined with tags/delete_all/retention'' None json_none), s)
         else
           case DeleteSnapshots (d_host d) opts ids (fgt_prune task)
                  (log_line ''info'' ''deleting snapshots %s'' [JoinWith '','' ids] s) of
             (Some e, s') \<Rightarrow>
               (Inl (failed_with ''forget_failed'' ''restic forget failed'' e),
                log_line ''error'' ''deleting snapshots failed: %v'' [error_text e] s')
           | (None, s') \<Rightarrow> (Inr no_result, log_line ''info'' ''snapshots deleted'' [] s'))
      else if fgt_delete_all task then
        then_do (map_err (failed_with ''forget_failed'' ''delete plan backups failed'')
          (unless_error (DeleteByTags (d_host d) opts (fgt_tags task) s))) (\<lambda>_ s. (Inr no_result, s))
      else
        then_do (map_err (failed_with ''forget_failed'' ''restic forget failed'')
          (unless_error (if fgt_prune task then restic_Forget (d_host d) opts (fgt_retention task) (fgt_tags task) s
                         else ForgetOnly (d_host d) opts (fgt_retention task) (fgt_tags task) s))) (\<lambda>_ s.
          (Inr no_result, s)))"

definition runForget ::
  "'h deps \<Rightarrow> string \<Rightarrow> json \<Rightarrow> secret_bundle \<Rightarrow> 'h shell \<Rightarrow> (err + op_result) \<times> 'h shell" where
  "runForget d tempDir params secrets s =
     (case init_task_repo params of
        Some repo \<Rightarrow>
          then_do (newResticOpts d repo tempDir secrets s) (\<lambda>opts s.
          then_do (map_err (failed_with ''init_failed'' ''restic init failed'') (restic_Init (d_host d) opts s)) (\<lambda>_ s.
            (Inr (json_result (JObj [(''initialized'', JBool True)])), s)))
      | None \<Rightarrow>
          then_do (of_option (invalid_params ''forget task'') (decode_forget_task params) s) (\<lambda>task s.
          then_do (newResticOpts d (fgt_repo task) tempDir secrets s) (\<lambda>opts s. run_forget_task d task opts s)))"

section \<open>Listings\<close>

text \<open>An empty list of a decoded document is taken for a missing one, which Go writes as \<open>null\<close>.\<close>

definition slice_json :: "string list \<Rightarrow> json" where
  "slice_json xs = (if xs = [] then JNull else strings_json xs)"

definition listed_snapshot_json :: "snapshot \<Rightarrow> json" where
  "listed_snapshot_json x =
     JObj [(''id'', JStr (snap_id x)), (''time'', JStr (snap_time x)), (''host'', JStr (snap_host x)),
           (''tags'', slice_json (snap_tags x)), (''paths'', slice_json (snap_paths x))]"

definition host_path :: "path_mapping list \<Rightarrow> string \<Rightarrow> string" where
  "host_path mappings p = (case mapPath p mappings True of Inl _ \<Rightarrow> p | Inr q \<Rightarrow> q)"

definition runSnapshots ::
  "'h deps \<Rightarrow> string \<Rightarrow> json \<Rightarrow> secret_bundle \<Rightarrow> 'h shell \<Rightarrow> (err + op_result) \<times> 'h shell" where
  "runSnapshots d tempDir params secrets s =
     with_repository ''snapshots task'' (\<lambda>_. Some ()) d tempDir params secrets s (\<lambda>_ opts s.
     then_do (map_err (failed_with ''snapshots_failed'' ''restic snapshots failed'') (Snapshots (d_host d) opts s)) (\<lambda>snaps s.
       (Inr (json_result (JList (map (\<lambda>x. listed_snapshot_json
               (x\<lparr>snap_paths := map (host_path (d_source_mappings d)) (snap_paths x)\<rparr>)) snaps))), s)))"

definition browse_norm :: "string \<Rightarrow> string" where
  "browse_norm p0 =
     (let p1 = replace_backslash p0;
          p2 = (if HasPrefix p1 ''/'' then p1 else CHR ''/'' # p1);
          p3 = (if 3 \<le> length p2 \<and> p2 ! 0 = CHR ''/'' \<and> p2 ! 2 = CHR '':'' then take 2 p2 @ drop 3 p2 else p2) in
      TrimSuffix p3 ''/'')"

definition ls_entry_json :: "ls_entry \<Rightarrow> json" where
  "ls_entry_json e =
     JObj ([(''name'', JStr (ls_name e)), (''type'', JStr (ls_type e))] @ omitempty ''path'' (ls_path e) @
           omit_int ''size'' (ls_size e) @ omitempty ''mtime'' (ls_mtime e))"

definition children_of :: "string \<Rightarrow> ls_entry list \<Rightarrow> ls_entry list" where
  "children_of dir entries =
     filter (\<lambda>e. ls_path e \<noteq> dir) (map (\<lambda>e. e\<lparr>ls_path := browse_norm (ls_path e)\<rparr>) entries)"

definition runSnapshotLs ::
  "'h deps \<Rightarrow> string \<Rightarrow> json \<Rightarrow> secret_bundle \<Rightarrow> 'h shell \<Rightarrow> (err + op_result) \<times> 'h shell" where
  "runSnapshotLs d tempDir params secrets s =
     with_repository ''snapshot_ls task''
       (\<lambda>ms. case (field_string ''snapshot_id'' ms, field_string ''path'' ms) of
               (Some snap, Some p) \<Rightarrow> Some (snap, p) | _ \<Rightarrow> None)
       d tempDir params secrets s (\<lambda>(snap, p) opts s.
     then_do (map_err (failed_with ''snapshot_ls_failed'' ''restic ls failed'') (Ls (d_host d) opts snap p s)) (\<lambda>entries s.
       let dir = browse_norm p in
       (Inr (json_result (JObj [(''entries'', if entries = [] then JNull
                                    else JList (map ls_entry_json (children_of dir entries))),
                                (''path'', JStr dir)])), s)))"

section \<open>Remotes, paths, tools\<close>

definition runVerifyRemote ::
  "'h deps \<Rightarrow> string \<Rightarrow> json \<Rightarrow> secret_bundle \<Rightarrow> 'h shell \<Rightarrow> (err + op_result) \<times> 'h shell" where
  "runVerifyRemote d tempDir params secrets s =
     then_do (of_option (invalid_params ''verify remote task'')
       (case params_object params of None \<Rightarrow> None
        | Some ms \<Rightarrow> (case (field_bool ''config_provided'' ms, field_string ''remote_name'' ms) of
             (Some c, Some n) \<Rightarrow> Some (c, n) | _ \<Rightarrow> None)) s) (\<lambda>(provided, remote) s.
     then_do (check provided (Pipeline ''invalid_params'' ''config_provided must be true'' None json_none) s) (\<lambda>_ s.
     then_do (map_err (internal_err ''write rclone conf'') (WriteConf (d_host d) tempDir (sb_rclone_conf secrets) s)) (\<lambda>conf s.
     then_do (map_err (failed_with ''storage_remote_unreachable'' ''listremotes failed'') (ListRemotes (d_host d) conf s)) (\<lambda>remotes s.
     then_do (check (remote \<in> set remotes)
                (Pipeline ''storage_remote_not_found'' (''remote '' @ remote @ '' is not defined in the provided rclone config'') None json_none) s) (\<lambda>_ s.
     case Lsd (d_host d) conf remote s of
       (Inl e, s') \<Rightarrow>
         (Inl (if ctx_done (d_host d) (sh_host s') = Some DeadlineExceeded
               then failed_with ''storage_remote_unreachable''
                      ''rclone lsd timed out after 1m40s; the endpoint may be unreachable or black-holing'' e
               else failed_with ''storage_remote_unreachable'' ''lsd failed'' e), s')
     | (Inr entries, s') \<Rightarrow>
         (Inr (json_result (JObj [(''entries'', JNum (int (length entries))), (''remote_type'', JStr remote)])), s'))))))"

definition runValidatePaths :: "'h deps \<Rightarrow> json \<Rightarrow> 'h shell \<Rightarrow> (err + op_result) \<times> 'h shell" where
  "runValidatePaths d params s =
     then_do (of_option (invalid_params ''validate paths task'')
       (case params_object params of None \<Rightarrow> None
        | Some ms \<Rightarrow> (case (field_strings ''paths'' ms, field_strings ''excludes'' ms) of
             (Some ps, Some es) \<Rightarrow> Some (ps, es) | _ \<Rightarrow> None)) s) (\<lambda>(paths, excludes) s.
     let requested = JoinWith '', '' paths in
     then_do (map_err (\<lambda>e. failed_with ''path_not_allowed'' ''source path mapping failed'' (path_err e))
       (mapBackupSource KindFilesystem (no_source\<lparr>src_paths := paths, src_excludes := excludes\<rparr>)
          (d_source_mappings d) (d_source_roots d), s)) (\<lambda>src s.
     then_do (unless_error (map_option (\<lambda>e. failed_with ''path_not_allowed'' ''source path validation failed''
                (requested_err requested (path_err e)))
                (allowed_error d (sh_host s) (src_paths src) (d_source_roots d) False), s)) (\<lambda>_ s.
     then_do (unless_error (map_option (\<lambda>e. failed_with ''path_validation_failed'' ''path validation failed''
                (requested_err requested e))
                (fs_Validate (d_host d) KindFilesystem src (sh_host s)), s)) (\<lambda>_ s.
       (Inr no_result, s)))))"

definition runProbeCapabilities :: "'h deps \<Rightarrow> 'h shell \<Rightarrow> (err + op_result) \<times> 'h shell" where
  "runProbeCapabilities d s = (Inr (json_result (d_tools_json d)), s)"

definition ErrUnsupportedOperation :: err where
  "ErrUnsupportedOperation = Plain ''unsupported operation''"

text \<open>\<open>None\<close> is an operation number the agent does not know.\<close>

definition Execute ::
  "'h deps \<Rightarrow> string \<Rightarrow> operation option \<Rightarrow> json \<Rightarrow> secret_bundle \<Rightarrow> 'h shell \<Rightarrow> (err + op_result) \<times> 'h shell" where
  "Execute d tempDir oper params secrets s =
     (case oper of
        None \<Rightarrow> (Inl ErrUnsupportedOperation, s)
      | Some OpBackup \<Rightarrow>
          (case runBackup d tempDir params secrets s of
             (Inl e, s') \<Rightarrow>
               (Inl e, if ctx_done (d_host d) (sh_host s') \<noteq> None then log_line ''warn'' ''backup cancelled'' [] s'
                       else log_line ''error'' ''backup failed: %v'' [error_text e] s')
           | (Inr r, s') \<Rightarrow> (Inr r, s'))
      | Some OpRestore \<Rightarrow> runRestore d tempDir params secrets False s
      | Some OpRestoreDryRun \<Rightarrow> runRestore d tempDir params secrets True s
      | Some OpCheck \<Rightarrow> runCheck d tempDir params secrets s
      | Some OpForget \<Rightarrow> runForget d tempDir params secrets s
      | Some OpSnapshots \<Rightarrow> runSnapshots d tempDir params secrets s
      | Some OpSnapshotLs \<Rightarrow> runSnapshotLs d tempDir params secrets s
      | Some OpVerifyRemote \<Rightarrow> runVerifyRemote d tempDir params secrets s
      | Some OpValidatePaths \<Rightarrow> runValidatePaths d params s
      | Some OpProbeCaps \<Rightarrow> runProbeCapabilities d s)"

section \<open>What a backup reports\<close>

lemma upload_reports_id:
  "upload d opts task art s = (Inr r, s') \<Longrightarrow> \<exists>i. i \<noteq> [] \<and> op_snapshot_ids r = [i]"
  unfolding upload_def by (elim then_doE) (auto simp: Let_def split: if_splits)

lemma after_dump_reports_id:
  "after_dump d t task sb art s = (Inr r, s') \<Longrightarrow> \<exists>i. i \<noteq> [] \<and> op_snapshot_ids r = [i]"
  unfolding after_dump_def
  by (elim then_doE) (auto split: prod.splits if_splits dest: upload_reports_id)

text \<open>C28: 
  A backup that succeeds reports exactly one snapshot, and its id is not empty: a run without an
  addressable snapshot is never reported as a success, whatever restic printed.
\<close>

theorem backup_success_has_a_snapshot:
  "case runBackup d t params sb s of
     (Inl e, s') \<Rightarrow> True | (Inr r, s') \<Rightarrow> \<exists>i. i \<noteq> [] \<and> op_snapshot_ids r = [i]"
proof (cases "runBackup d t params sb s")
  case (Pair x s')
  show ?thesis
  proof (cases x)
    case (Inr r)
    have "\<exists>i. i \<noteq> [] \<and> op_snapshot_ids r = [i]"
      using Pair unfolding Inr runBackup_def Let_def
      by (elim then_doE; (use after_dump_reports_id in blast)?; simp)
    with Pair Inr show ?thesis by simp
  qed (use Pair in simp)
qed

lemma calls_drop [simp]: "sh_ran (drop_staging d k art s) = sh_ran s"
  by (auto simp: drop_staging_def on_host_def split: prod.splits)

text \<open>C27: 
  A backup that is repeated after its answer was lost is not uploaded twice.  When the listing of
  the repository shows a snapshot with this run's tag, the result is the id of such a snapshot, and
  no command runs after the listing.
\<close>

theorem repeated_backup_is_not_uploaded_twice:
  assumes "newResticOpts d (bt_repo task) t sb s = (Inr opts, s1)"
    and "run_tag (bt_tags task) = Some tag"
    and "Snapshots (d_host d) opts (log_line ''info'' ''checking whether this run already has a snapshot'' [] s1) = (Inr snaps, s2)"
    and "x \<in> set snaps" and "tag \<in> set (snap_tags x)" and "snap_id x \<noteq> []"
  shows "\<exists>y s'. after_dump d t task sb art s = (Inr \<lparr>op_snapshot_ids = [snap_id y], op_json = json_none\<rparr>, s') \<and>
           y \<in> set snaps \<and> tag \<in> set (snap_tags y) \<and> sh_ran s' = sh_ran s2"
proof -
  have "List.find (\<lambda>x. tag \<in> set (snap_tags x) \<and> snap_id x \<noteq> []) snaps \<noteq> None"
    using assms(4-6) by (auto simp: find_None_iff)
  then obtain y where y: "List.find (\<lambda>x. tag \<in> set (snap_tags x) \<and> snap_id x \<noteq> []) snaps = Some y" by blast
  then have found: "y \<in> set snaps" "tag \<in> set (snap_tags y)" "snap_id y \<noteq> []"
    by (auto simp: find_Some_iff in_set_conv_nth)
  have "existing_snapshot d opts (bt_tags task) s1 = (snap_id y, s2)"
    using assms(2,3) y by (simp add: existing_snapshot_def)
  with assms(1) found show ?thesis by (auto simp: after_dump_def then_do_def)
qed

theorem repeated_backup_is_not_uploaded_twice_witness:
  "\<exists>(y::snapshot) s'. after_dump
      (demo_deps\<lparr>d_host := demo_host (\<lambda>_. \<lparr>out_lines = [Out demo_listing], exit_code = 0, run_err = None\<rparr>)\<rparr>) ''/t''
      \<lparr>bt_plan_id = ''p'', bt_kind = KindFilesystem, bt_repo = ''r'', bt_source = no_source, bt_tags = [''plan:1'', ''run:7'']\<rparr>
      \<lparr>sb_restic_password = [], sb_db_password = [], sb_rclone_conf = []\<rparr>
      \<lparr>art_live_paths = [], art_exclude_file = [], art_one_file_system = False, art_staging_dir = [], art_staging_files = []\<rparr>
      demo_shell = (Inr \<lparr>op_snapshot_ids = [snap_id y], op_json = json_none\<rparr>, s') \<and> snap_id y = ''a''"
proof -
  define d where "d = demo_deps\<lparr>d_host := demo_host (\<lambda>_. \<lparr>out_lines = [Out demo_listing], exit_code = 0, run_err = None\<rparr>)\<rparr>"
  define task where "task = \<lparr>bt_plan_id = ''p'', bt_kind = KindFilesystem, bt_repo = ''r'', bt_source = no_source, bt_tags = [''plan:1'', ''run:7'']\<rparr>"
  define sb where "sb = \<lparr>sb_restic_password = [], sb_db_password = [], sb_rclone_conf = []\<rparr>"
  define snaps where "snaps = [\<lparr>snap_id = ''a'', snap_time = [], snap_host = [], snap_tags = [''plan:1'', ''run:7''], snap_paths = []\<rparr>,
            \<lparr>snap_id = ''b'', snap_time = [], snap_host = [], snap_tags = [''k''], snap_paths = []\<rparr>]"
  obtain opts s1 where o': "newResticOpts d (bt_repo task) ''/t'' sb demo_shell = (Inr opts, s1)" and exe: "opt_exe opts \<noteq> []"
    by (simp add: newResticOpts_def WriteSecretFile_def on_host_def d_def demo_deps_def demo_host_def sb_def toolExe_def toolPath_def Let_def)
  have tag: "run_tag (bt_tags task) = Some ''run:7''" by (simp add: run_tag_def task_def)
  have raw: "TrimSpace (lines_text [demo_listing]) \<noteq> []" by code_simp
  have dec: "listed_snapshots (parse_json (TrimSpace (lines_text [demo_listing]))) = Some snaps"
    unfolding snaps_def by code_simp
  obtain s2 where l: "Snapshots (d_host d) opts (log_line ''info'' ''checking whether this run already has a snapshot'' [] s1) = (Inr snaps, s2)"
    using raw dec exe by (simp add: Snapshots_def d_def demo_host_def Run_def)
  have "hd snaps \<in> set snaps" "''run:7'' \<in> set (snap_tags (hd snaps))" "snap_id (hd snaps) \<noteq> []"
    by (simp_all add: snaps_def)
  from repeated_backup_is_not_uploaded_twice [OF o' tag l this] obtain y s' where
    "after_dump d ''/t'' task sb \<lparr>art_live_paths = [], art_exclude_file = [], art_one_file_system = False, art_staging_dir = [], art_staging_files = []\<rparr>
       demo_shell = (Inr \<lparr>op_snapshot_ids = [snap_id y], op_json = json_none\<rparr>, s')"
    and y: "y \<in> set snaps" "''run:7'' \<in> set (snap_tags y)" by blast
  moreover from y have "snap_id y = ''a''" by (auto simp: snaps_def)
  ultimately show ?thesis unfolding d_def task_def sb_def by blast
qed

end
