(* ===== verification/Runner.thy ===== *)
theory Runner
  imports Agent_Service Pipeline_Ops
begin

text \<open>
  \<open>internal/agent/runner.go\<close>: the agent's cache of finished runs, the acceptance of commands, the
  result message of a run, and the delivery of results over streams that come and go.  A stream is a
  number; what a \<open>Send\<close> on it answers is the argument \<open>send\<close> over a state of the network of which
  nothing is assumed.
\<close>

section \<open>The cache of finished runs\<close>

record 'v lru =
  lru_cap :: nat
  lru_items :: "string \<rightharpoonup> 'v"
  lru_order :: "string list"

definition newLRUCache :: "nat \<Rightarrow> 'v lru" where
  "newLRUCache n = \<lparr>lru_cap = n, lru_items = Map.empty, lru_order = []\<rparr>"

definition moveToFront :: "string \<Rightarrow> 'v lru \<Rightarrow> 'v lru" where
  "moveToFront k c = (if k \<in> set (lru_order c) then c\<lparr>lru_order := k # remove1 k (lru_order c)\<rparr> else c)"

definition lru_get :: "string \<Rightarrow> 'v lru \<Rightarrow> 'v option \<times> 'v lru" where
  "lru_get k c = (case lru_items c k of None \<Rightarrow> (None, c) | Some v \<Rightarrow> (Some v, moveToFront k c))"

text \<open>The number of items is the length of the order, see \<open>lru_ok\<close>.\<close>

definition lru_put :: "string \<Rightarrow> 'v \<Rightarrow> 'v lru \<Rightarrow> 'v lru" where
  "lru_put k v c =
     (if lru_items c k \<noteq> None then moveToFront k (c\<lparr>lru_items := (lru_items c)(k \<mapsto> v)\<rparr>)
      else
        let full = lru_cap c \<le> length (lru_order c);
            items = (if full then (lru_items c)(last (lru_order c) := None) else lru_items c);
            order = (if full then butlast (lru_order c) else lru_order c) in
        c\<lparr>lru_items := items(k \<mapsto> v), lru_order := k # order\<rparr>)"

definition lru_ok :: "'v lru \<Rightarrow> bool" where
  "lru_ok c \<longleftrightarrow>
     0 < lru_cap c \<and> distinct (lru_order c) \<and> set (lru_order c) = dom (lru_items c) \<and>
     length (lru_order c) \<le> lru_cap c"

text \<open>What the cache stands for: the pairs, most recently used first.\<close>

definition recent :: "'v lru \<Rightarrow> (string \<times> 'v) list" where
  "recent c = map (\<lambda>k. (k, the (lru_items c k))) (lru_order c)"

definition touch :: "string \<Rightarrow> 'v \<Rightarrow> (string \<times> 'v) list \<Rightarrow> (string \<times> 'v) list" where
  "touch k v ps = (k, v) # filter (\<lambda>p. fst p \<noteq> k) ps"

lemma remove1_filter: "distinct xs \<Longrightarrow> remove1 k xs = filter (\<lambda>x. x \<noteq> k) xs"
  by (auto simp: distinct_remove1_removeAll removeAll_filter_not_eq intro: filter_cong)

lemma lru_ok_new: "0 < n \<Longrightarrow> lru_ok (newLRUCache n)"
  by (simp add: lru_ok_def newLRUCache_def)

lemma lru_ok_get: "lru_ok c \<Longrightarrow> lru_ok (snd (lru_get k c))"
  by (auto simp: lru_ok_def lru_get_def moveToFront_def length_remove1 split: option.splits)

lemma lru_last:
  assumes "lru_ok c" and "lru_cap c \<le> length (lru_order c)"
  shows "lru_order c \<noteq> []" "set (butlast (lru_order c)) = set (lru_order c) - {last (lru_order c)}"
    "distinct (butlast (lru_order c))"
proof -
  show ne: "lru_order c \<noteq> []" using assms by (auto simp: lru_ok_def)
  have d: "distinct (butlast (lru_order c) @ [last (lru_order c)])" using assms ne by (simp add: lru_ok_def)
  have e: "set (lru_order c) = insert (last (lru_order c)) (set (butlast (lru_order c)))"
    using ne by (metis append_butlast_last_id list.set(2) rotate1.simps(2) set_rotate1)
  from d e show "set (butlast (lru_order c)) = set (lru_order c) - {last (lru_order c)}" by auto
  from d show "distinct (butlast (lru_order c))" by simp
qed

lemma lru_ok_put: "lru_ok c \<Longrightarrow> lru_ok (lru_put k v c)"
proof -
  assume ok: "lru_ok c"
  show ?thesis
  proof (cases "lru_items c k")
    case (Some w)
    with ok show ?thesis by (auto simp: lru_ok_def lru_put_def moveToFront_def length_remove1)
  next
    case None
    with ok have new: "k \<notin> set (lru_order c)" by (auto simp: lru_ok_def)
    show ?thesis
    proof (cases "lru_cap c \<le> length (lru_order c)")
      case False
      with None new ok show ?thesis by (auto simp: lru_ok_def lru_put_def)
    next
      case True
      with None new ok lru_last [OF ok True] show ?thesis
        by (auto simp: lru_ok_def lru_put_def dest: in_set_butlastD)
    qed
  qed
qed

lemma recent_get: "lru_ok c \<Longrightarrow> fst (lru_get k c) = map_of (recent c) k"
proof -
  assume ok: "lru_ok c"
  have "map_of (map (\<lambda>k. (k, the (m k))) ks) k = (if k \<in> set ks then Some (the (m k)) else None)" for m :: "string \<Rightarrow> 'a option" and ks
    by (induction ks) auto
  with ok show ?thesis by (auto simp: recent_def lru_get_def lru_ok_def split: option.splits)
qed

lemma recent_get_order:
  "lru_ok c \<Longrightarrow> recent (snd (lru_get k c)) =
     (case map_of (recent c) k of None \<Rightarrow> recent c | Some v \<Rightarrow> touch k v (recent c))"
proof -
  assume ok: "lru_ok c"
  from recent_get [OF ok, of k] show ?thesis
  proof (cases "lru_items c k")
    case None
    with recent_get [OF ok, of k] show ?thesis by (simp add: lru_get_def)
  next
    case (Some v)
    with ok have "k \<in> set (lru_order c)" "distinct (lru_order c)" by (auto simp: lru_ok_def)
    with Some recent_get [OF ok, of k] show ?thesis
      by (auto simp: lru_get_def moveToFront_def recent_def touch_def remove1_filter filter_map comp_def)
  qed
qed

text \<open>C24: 
  The cache of finished runs implements a plain list of the most recently used pairs.  Looking a
  run up gives what the list holds and moves it to the front; storing a run puts it at the front, once,
  and drops from the end what exceeds the capacity; and the map, its order and the capacity stay
  consistent, so the eviction always removes the entry used longest ago.
\<close>

theorem cache_refines_recency_list:
  assumes "lru_ok c"
  shows "lru_ok (lru_put k v c) \<and> lru_ok (snd (lru_get k c)) \<and>
         fst (lru_get k c) = map_of (recent c) k \<and>
         recent (snd (lru_get k c)) = (case map_of (recent c) k of None \<Rightarrow> recent c | Some v \<Rightarrow> touch k v (recent c)) \<and>
         recent (lru_put k v c) = take (lru_cap c) (touch k v (recent c)) \<and>
         length (recent (lru_put k v c)) \<le> lru_cap c"
proof -
  have put: "recent (lru_put k v c) = take (lru_cap c) (touch k v (recent c))"
  proof (cases "lru_items c k")
    case (Some w)
    with assms have k: "k \<in> set (lru_order c)" "distinct (lru_order c)" "length (lru_order c) \<le> lru_cap c"
      by (auto simp: lru_ok_def)
    have "length (filter (\<lambda>x. x \<noteq> k) (lru_order c)) < length (lru_order c)"
      using k(1) by (induction "lru_order c") (auto simp: length_filter_less)
    then have short: "length (touch k v (recent c)) \<le> lru_cap c"
      using k(3) by (simp add: touch_def recent_def filter_map comp_def)
    with Some k show ?thesis
      by (auto simp: lru_put_def moveToFront_def recent_def touch_def remove1_filter filter_map comp_def)
  next
    case None
    with assms have new: "k \<notin> set (lru_order c)" by (auto simp: lru_ok_def)
    then have all: "filter (\<lambda>x. x \<noteq> k) (lru_order c) = lru_order c" by (auto simp: filter_id_conv)
    show ?thesis
    proof (cases "lru_cap c \<le> length (lru_order c)")
      case False
      with None new all show ?thesis
        by (auto simp: lru_put_def recent_def touch_def filter_map comp_def)
    next
      case True
      with assms have len: "length (lru_order c) = lru_cap c" "0 < lru_cap c" by (auto simp: lru_ok_def)
      have notlast: "x \<noteq> last (lru_order c)" if "x \<in> set (butlast (lru_order c))" for x
        using that lru_last [OF assms True] by auto
      have "recent (lru_put k v c) = (k, v) # map (\<lambda>x. (x, the (lru_items c x))) (butlast (lru_order c))"
        using None True new notlast by (auto simp: lru_put_def recent_def dest: in_set_butlastD)
      also have "\<dots> = take (lru_cap c) (touch k v (recent c))"
        using len all by (cases "lru_cap c")
          (simp_all add: touch_def recent_def filter_map comp_def butlast_conv_take take_map)
      finally show ?thesis .
    qed
  qed
  show ?thesis
    using assms lru_ok_put lru_ok_get recent_get recent_get_order put by (auto simp: put)
qed

theorem cache_refines_recency_list_witness:
  "recent (lru_put ''b'' (2 :: nat) (lru_put ''a'' 1 (newLRUCache 1))) = [(''b'', 2)]"
proof -
  have "lru_ok (lru_put ''a'' (1 :: nat) (newLRUCache 1))" by (intro lru_ok_put lru_ok_new) simp
  from cache_refines_recency_list [OF this, of "''b''" 2] show ?thesis
    by (auto simp: touch_def recent_def lru_put_def newLRUCache_def)
qed

text \<open>The contract the runner relies on: a stored result is found until something else is stored.\<close>

locale result_cache =
  fixes lookup :: "string \<Rightarrow> 'c \<Rightarrow> 'v option \<times> 'c"
    and store :: "string \<Rightarrow> 'v \<Rightarrow> 'c \<Rightarrow> 'c"
    and ok :: "'c \<Rightarrow> bool"
  assumes ok_store: "ok c \<Longrightarrow> ok (store k v c)"
    and ok_lookup: "ok c \<Longrightarrow> ok (snd (lookup k c))"
    and lookup_store: "ok c \<Longrightarrow> fst (lookup k (store k v c)) = Some v"
    and lookup_keeps: "ok c \<Longrightarrow> fst (lookup k (snd (lookup j c))) = fst (lookup k c)"
begin

lemma lookups_ok: "ok c \<Longrightarrow> ok (fold (\<lambda>j c. snd (lookup j c)) js c)"
  by (induction js arbitrary: c) (simp_all add: ok_lookup)

lemma lookups_keep: "ok c \<Longrightarrow> fst (lookup k (fold (\<lambda>j c. snd (lookup j c)) js c)) = fst (lookup k c)"
  by (induction js arbitrary: c) (simp_all add: ok_lookup lookup_keeps)

lemma found_after_lookups:
  "ok c \<Longrightarrow> fst (lookup k (fold (\<lambda>j c. snd (lookup j c)) js (store k v c))) = Some v"
  by (simp add: lookups_keep ok_store lookup_store)

end

interpretation lru: result_cache lru_get lru_put lru_ok
proof
  fix c :: "'v lru" and k v j
  assume ok: "lru_ok c"
  show "lru_ok (lru_put k v c)" using ok by (rule lru_ok_put)
  show "lru_ok (snd (lru_get k c))" using ok by (rule lru_ok_get)
  show "fst (lru_get k (lru_put k v c)) = Some v"
    by (simp add: lru_get_def lru_put_def moveToFront_def Let_def)
  show "fst (lru_get k (snd (lru_get j c))) = fst (lru_get k c)"
    by (auto simp: lru_get_def moveToFront_def split: option.splits)
qed

section \<open>The result message of a run\<close>

definition failureResultJSON :: "err \<Rightarrow> json" where
  "failureResultJSON e = (case as_pipeline e of None \<Rightarrow> json_none | Some (_, _, _, payload) \<Rightarrow> payload)"

definition resticFailedCode :: string where "resticFailedCode = ''restic_failed''"

definition isGenericFailureCode :: "string \<Rightarrow> bool" where
  "isGenericFailureCode code \<longleftrightarrow> code \<in> {[], ''pipeline_error'', ''backup_failed'', resticFailedCode}"

definition failureCodeAndMessage :: "err \<Rightarrow> string \<Rightarrow> string \<Rightarrow> string \<times> string" where
  "failureCodeAndMessage e code msg =
     (case as_pipeline e of
        None \<Rightarrow> (code, msg)
      | Some (pcode, pmsg, cause, _) \<Rightarrow>
          let code1 = (if pcode \<noteq> [] then pcode else code);
              code2 = (case as_restic e of
                         Some (_, name) \<Rightarrow>
                           if name \<noteq> [] \<and> (name \<noteq> resticFailedCode \<or> isGenericFailureCode code1) then name else code1
                       | None \<Rightarrow> code1);
              msg' = (if pmsg \<noteq> []
                      then (case cause of
                              Some c \<Rightarrow> if Contains pmsg (error_text c) then pmsg else pmsg @ '': '' @ error_text c
                            | None \<Rightarrow> pmsg)
                      else (case cause of Some c \<Rightarrow> error_text c | None \<Rightarrow> msg)) in
          (code2, msg'))"

text \<open>The message of a run that ended; \<open>cancelled\<close> says that its context is done.\<close>

definition runner_result :: "path_mapping list \<Rightarrow> string \<Rightarrow> bool \<Rightarrow> err + op_result \<Rightarrow> run_result" where
  "runner_result mappings rid cancelled r =
     (case r of
        Inr x \<Rightarrow>
          \<lparr>res_run_id = rid, res_status = SUCCEEDED, res_error_code = [], res_error_message = [],
           res_snapshot_ids = op_snapshot_ids x, res_result_json = op_json x\<rparr>
      | Inl e \<Rightarrow>
          let payload = failureResultJSON e in
          if cancelled then
            (let (code, msg) = (if payload \<noteq> json_none then failureCodeAndMessage e ''cancelled'' ''run cancelled by server''
                                else (''cancelled'', ''run cancelled by server'')) in
             \<lparr>res_run_id = rid, res_status = CANCELLED, res_error_code = code, res_error_message = msg,
              res_snapshot_ids = [], res_result_json = payload\<rparr>)
          else
            (let (code, msg) = failureCodeAndMessage e ''pipeline_error'' (error_text e) in
             \<lparr>res_run_id = rid, res_status = FAILED, res_error_code = code,
              res_error_message = HostDisplayText msg mappings, res_snapshot_ids = [], res_result_json = payload\<rparr>))"

definition extractSecrets :: "secret_set option \<Rightarrow> secret_bundle" where
  "extractSecrets ss =
     (case ss of
        None \<Rightarrow> \<lparr>sb_restic_password = [], sb_db_password = [], sb_rclone_conf = []\<rparr>
      | Some x \<Rightarrow> \<lparr>sb_restic_password = ss_restic_password x, sb_db_password = ss_db_password x,
                  sb_rclone_conf = ss_rclone_conf x\<rparr>)"

definition commandRepositoryKey :: "json \<Rightarrow> string" where
  "commandRepositoryKey params =
     (case params_object params of
        None \<Rightarrow> []
      | Some ms \<Rightarrow>
          (case field_object ''repository'' ms of
             None \<Rightarrow> []
           | Some rs \<Rightarrow> (case field_string ''repository_path'' rs of Some p \<Rightarrow> p | None \<Rightarrow> [])))"

fun protoLevel :: "string \<Rightarrow> log_level" where
  "protoLevel l =
     (if l = ''debug'' then LvlDebug else if l = ''warn'' then LvlWarn else if l = ''error'' then LvlError else LvlInfo)"

fun proto_to_op :: "proto_operation \<Rightarrow> operation" where
  "proto_to_op BACKUP = OpBackup"
| "proto_to_op RESTORE = OpRestore"
| "proto_to_op RESTORE_DRY_RUN = OpRestoreDryRun"
| "proto_to_op CHECK = OpCheck"
| "proto_to_op FORGET = OpForget"
| "proto_to_op SNAPSHOTS = OpSnapshots"
| "proto_to_op SNAPSHOT_LS = OpSnapshotLs"
| "proto_to_op VERIFY_STORAGE_REMOTE = OpVerifyRemote"
| "proto_to_op VALIDATE_PATHS = OpValidatePaths"
| "proto_to_op PROBE_CAPABILITIES = OpProbeCaps"

text \<open>
  The body of the goroutine between its two locks and the result: \<open>slot\<close> is the error of a context
  that ended while the run waited for one of the slots.
\<close>

definition run_body ::
  "'h deps \<Rightarrow> string \<Rightarrow> command \<Rightarrow> err option \<Rightarrow> 'h shell \<Rightarrow> run_result \<times> 'h shell" where
  "run_body d tempDir c slot s =
     (let mappings = d_source_mappings d @ d_restore_mappings d;
          (r, s') = (case slot of
                       Some e \<Rightarrow> (Inl e, s)
                     | None \<Rightarrow> Execute d tempDir (Some (proto_to_op (cmd_operation c))) (cmd_params c)
                                (extractSecrets (cmd_secrets c)) s) in
      (runner_result mappings (cmd_run_id c) (ctx_done (d_host d) (sh_host s') \<noteq> None) r, s'))"

section \<open>Directories left by a process that died\<close>

fun sweep_entries ::
  "'h host \<Rightarrow> string \<Rightarrow> ((string \<times> bool) \<Rightarrow> bool) \<Rightarrow> (string \<Rightarrow> 'h \<Rightarrow> err option \<times> 'h) \<Rightarrow>
   (string \<times> bool) list \<Rightarrow> nat \<times> 'h shell \<Rightarrow> nat \<times> 'h shell" where
  "sweep_entries hs dir stale rm [] r = r"
| "sweep_entries hs dir stale rm (e # es) (n, s) =
     (if \<not> stale e then sweep_entries hs dir stale rm es (n, s)
      else let (x, s') = on_host (rm (Join2 dir (fst e))) s in
           sweep_entries hs dir stale rm es (if x = None then n + 1 else n, s'))"

fun sweep_roots :: "'h host \<Rightarrow> string list \<Rightarrow> nat \<times> 'h shell \<Rightarrow> nat \<times> 'h shell" where
  "sweep_roots hs [] r = r"
| "sweep_roots hs (root # roots) (n, s) =
     (case read_dir hs root (sh_host s) of
        None \<Rightarrow> sweep_roots hs roots (n, s)
      | Some es \<Rightarrow>
          sweep_roots hs roots
            (sweep_entries hs root (\<lambda>(name, dir). \<not> dir \<and> HasPrefix name ''.bmc-restore-'') (remove_one hs) es (n, s)))"

definition SweepStaleRunDirs :: "'h host \<Rightarrow> string \<Rightarrow> string list \<Rightarrow> 'h shell \<Rightarrow> nat \<times> 'h shell" where
  "SweepStaleRunDirs hs dataDir roots s =
     sweep_roots hs roots
       (case read_dir hs dataDir (sh_host s) of
          None \<Rightarrow> (0, s)
        | Some es \<Rightarrow>
            sweep_entries hs dataDir (\<lambda>(name, dir). dir \<and> HasPrefix name ''bmc-run-'') (remove_all hs) es (0, s))"

section \<open>Commands and the delivery of results\<close>

text \<open>
  \<open>rn_running\<close> are the runs with a registered cancel function; \<open>rn_cancelled\<close> those whose cancel
  function was called.
\<close>

record 'w runner =
  rn_running :: "string list"
  rn_cancelled :: "string list"
  rn_finished :: "run_result lru"
  rn_stream :: "nat option"
  rn_pending :: "run_result list"
  rn_unacked :: "run_result list"
  rn_net :: 'w

type_synonym 'w sender = "nat \<Rightarrow> agent_message \<Rightarrow> 'w \<Rightarrow> bool \<times> 'w"

definition NewRunner :: "'w \<Rightarrow> 'w runner" where
  "NewRunner net =
     \<lparr>rn_running = [], rn_cancelled = [], rn_finished = newLRUCache 512, rn_stream = None, rn_pending = [],
      rn_unacked = [], rn_net = net\<rparr>"

definition stashPendingResult :: "run_result \<Rightarrow> 'w runner \<Rightarrow> 'w runner" where
  "stashPendingResult m r = r\<lparr>rn_pending := rn_pending r @ [m]\<rparr>"

definition markResultSent :: "run_result \<Rightarrow> 'w runner \<Rightarrow> 'w runner" where
  "markResultSent m r = r\<lparr>rn_unacked := rn_unacked r @ [m]\<rparr>"

definition confirmSentResults :: "'w runner \<Rightarrow> 'w runner" where
  "confirmSentResults r = r\<lparr>rn_unacked := []\<rparr>"

definition sendRunResult :: "'w sender \<Rightarrow> run_result \<Rightarrow> 'w runner \<Rightarrow> 'w runner" where
  "sendRunResult send m r =
     (case rn_stream r of
        None \<Rightarrow> stashPendingResult m r
      | Some n \<Rightarrow>
          (case send n (RunResult m) (rn_net r) of
             (False, net) \<Rightarrow> stashPendingResult m (r\<lparr>rn_net := net\<rparr>)
           | (True, net) \<Rightarrow> markResultSent m (r\<lparr>rn_net := net\<rparr>)))"

definition requeueUnackedResults :: "'w runner \<Rightarrow> 'w runner" where
  "requeueUnackedResults r = r\<lparr>rn_pending := rn_unacked r @ rn_pending r, rn_unacked := []\<rparr>"

fun flush_each :: "'w sender \<Rightarrow> nat \<Rightarrow> run_result list \<Rightarrow> run_result list \<Rightarrow> 'w runner \<Rightarrow> run_result list \<times> 'w runner" where
  "flush_each send n [] kept r = (kept, r)"
| "flush_each send n (m # ms) kept r =
     (case send n (RunResult m) (rn_net r) of
        (False, net) \<Rightarrow> flush_each send n ms (kept @ [m]) (r\<lparr>rn_net := net\<rparr>)
      | (True, net) \<Rightarrow> flush_each send n ms kept (markResultSent m (r\<lparr>rn_net := net\<rparr>)))"

definition flushPendingResults :: "'w sender \<Rightarrow> nat \<Rightarrow> 'w runner \<Rightarrow> 'w runner" where
  "flushPendingResults send n r =
     (let (kept, r') = flush_each send n (rn_pending r) [] (r\<lparr>rn_pending := []\<rparr>) in
      r'\<lparr>rn_pending := kept @ rn_pending r'\<rparr>)"

definition SetStream :: "'w sender \<Rightarrow> nat \<Rightarrow> 'w runner \<Rightarrow> 'w runner" where
  "SetStream send n r = flushPendingResults send n (requeueUnackedResults (r\<lparr>rn_stream := Some n\<rparr>))"

definition error_result :: "string \<Rightarrow> string \<Rightarrow> string \<Rightarrow> run_result" where
  "error_result rid code msg =
     \<lparr>res_run_id = rid, res_status = FAILED, res_error_code = code, res_error_message = msg, res_snapshot_ids = [],
      res_result_json = json_none\<rparr>"

datatype acceptance = Replayed run_result | AlreadyRunning | NotAccepted | NoTempDir string | Started

text \<open>
  A command that arrives on stream \<open>n\<close>; \<open>tempdir\<close> is the error of creating its directory.  A run that
  starts is registered; its goroutine ends with \<open>finish_run\<close>.
\<close>

definition accept_command ::
  "'w sender \<Rightarrow> nat \<Rightarrow> string \<Rightarrow> string option \<Rightarrow> 'w runner \<Rightarrow> acceptance \<times> 'w runner" where
  "accept_command send n rid tempdir r0 =
     (let r1 = (if rn_stream r0 = None then SetStream send n r0 else r0);
          (cached, cache) = lru_get rid (rn_finished r1);
          r2 = r1\<lparr>rn_finished := cache\<rparr> in
      case cached of
        Some m \<Rightarrow> (Replayed m, sendRunResult send m r2)
      | None \<Rightarrow>
          if rid \<in> set (rn_running r2) then (AlreadyRunning, r2)
          else case send n (CommandAccepted rid) (rn_net r2) of
            (False, net) \<Rightarrow> (NotAccepted, r2\<lparr>rn_net := net\<rparr>)
          | (True, net) \<Rightarrow>
              let r3 = r2\<lparr>rn_net := net\<rparr> in
              (case tempdir of
                 Some e \<Rightarrow> (NoTempDir e, sendRunResult send (error_result rid ''temp_dir_failed'' e) r3)
               | None \<Rightarrow> (Started, r3\<lparr>rn_running := rid # rn_running r3\<rparr>)))"

definition finish_run :: "'w sender \<Rightarrow> run_result \<Rightarrow> 'w runner \<Rightarrow> 'w runner" where
  "finish_run send m r =
     (let r1 = sendRunResult send m (r\<lparr>rn_finished := lru_put (res_run_id m) m (rn_finished r)\<rparr>) in
      r1\<lparr>rn_running := removeAll (res_run_id m) (rn_running r1)\<rparr>)"

definition runner_Cancel :: "string \<Rightarrow> 'w runner \<Rightarrow> 'w runner" where
  "runner_Cancel rid r =
     (if rid \<in> set (rn_running r) then r\<lparr>rn_cancelled := rid # rn_cancelled r\<rparr>
      else r\<lparr>rn_finished := snd (lru_get rid (rn_finished r))\<rparr>)"

definition CancelAll :: "'w runner \<Rightarrow> nat \<times> 'w runner" where
  "CancelAll r = (length (rn_running r), r\<lparr>rn_cancelled := rn_running r @ rn_cancelled r\<rparr>)"

definition InFlight :: "'w runner \<Rightarrow> nat" where
  "InFlight r = length (rn_running r)"

subsection \<open>The agent as a transition system\<close>

text \<open>
  The state of the agent together with what it produced so far and what it dropped after a message
  of the server.
\<close>

record 'w system =
  sys_runner :: "'w runner"
  sys_produced :: "run_result list"
  sys_dropped :: "run_result list"

definition produced_by :: "acceptance \<Rightarrow> string \<Rightarrow> run_result list" where
  "produced_by a rid = (case a of NoTempDir e \<Rightarrow> [error_result rid ''temp_dir_failed'' e] | _ \<Rightarrow> [])"

text \<open>
  \<open>drift w w'\<close> says what the network may do on its own, between the calls of the agent: carry
  messages, lose them, end a stream.
\<close>

inductive agent_step :: "'w sender \<Rightarrow> ('w \<Rightarrow> 'w \<Rightarrow> bool) \<Rightarrow> 'w system \<Rightarrow> 'w system \<Rightarrow> bool" for send drift where
  connects: "agent_step send drift y (y\<lparr>sys_runner := SetStream send n (sys_runner y)\<rparr>)"
| receives: "agent_step send drift y
     (y\<lparr>sys_runner := confirmSentResults (sys_runner y), sys_dropped := rn_unacked (sys_runner y) @ sys_dropped y\<rparr>)"
| accepts: "accept_command send n rid tempdir (sys_runner y) = (a, r) \<Longrightarrow>
     agent_step send drift y (y\<lparr>sys_runner := r, sys_produced := produced_by a rid @ sys_produced y\<rparr>)"
| finishes: "res_run_id m \<in> set (rn_running (sys_runner y)) \<Longrightarrow>
     agent_step send drift y (y\<lparr>sys_runner := finish_run send m (sys_runner y), sys_produced := m # sys_produced y\<rparr>)"
| cancels: "agent_step send drift y (y\<lparr>sys_runner := runner_Cancel rid (sys_runner y)\<rparr>)"
| network: "drift (rn_net (sys_runner y)) net \<Longrightarrow> agent_step send drift y (y\<lparr>sys_runner := (sys_runner y)\<lparr>rn_net := net\<rparr>\<rparr>)"

inductive_cases agent_stepE: "agent_step send drift y z"

definition agent_start :: "'w \<Rightarrow> 'w system" where
  "agent_start net = \<lparr>sys_runner = NewRunner net, sys_produced = [], sys_dropped = []\<rparr>"

definition held :: "'w runner \<Rightarrow> run_result set" where
  "held r = set (rn_pending r) \<union> set (rn_unacked r)"

lemma held_send: "held (sendRunResult send m r) = insert m (held r)"
  by (auto simp: sendRunResult_def held_def stashPendingResult_def markResultSent_def split: option.splits prod.splits bool.splits)

lemma flush_each_held:
  "flush_each send n ms kept r = (k, r') \<Longrightarrow>
     set k \<union> set (rn_unacked r') = set ms \<union> set kept \<union> set (rn_unacked r) \<and> rn_pending r' = rn_pending r \<and>
     rn_running r' = rn_running r \<and> rn_finished r' = rn_finished r"
proof (induction ms arbitrary: kept r)
  case (Cons m ms)
  obtain ok net where s: "send n (RunResult m) (rn_net r) = (ok, net)" by force
  show ?case
  proof (cases ok)
    case True
    with Cons.prems s have "flush_each send n ms kept (markResultSent m (r\<lparr>rn_net := net\<rparr>)) = (k, r')" by simp
    from Cons.IH [OF this] show ?thesis by (auto simp: markResultSent_def)
  next
    case False
    with Cons.prems s have "flush_each send n ms (kept @ [m]) (r\<lparr>rn_net := net\<rparr>) = (k, r')" by simp
    from Cons.IH [OF this] show ?thesis by auto
  qed
qed auto

lemma SetStream_rest:
  "held (SetStream send n r) = held r" "rn_running (SetStream send n r) = rn_running r"
  "rn_finished (SetStream send n r) = rn_finished r"
proof -
  define q where "q = requeueUnackedResults (r\<lparr>rn_stream := Some n\<rparr>)"
  obtain k r' where f: "flush_each send n (rn_pending q) [] (q\<lparr>rn_pending := []\<rparr>) = (k, r')" by force
  note g = flush_each_held [OF f]
  have e: "SetStream send n r = r'\<lparr>rn_pending := k @ rn_pending r'\<rparr>"
    using f by (simp add: SetStream_def flushPendingResults_def q_def)
  have q: "set (rn_pending q) = held r" "rn_unacked q = []" "rn_running q = rn_running r" "rn_finished q = rn_finished r"
    by (auto simp: q_def requeueUnackedResults_def held_def)
  show "held (SetStream send n r) = held r" "rn_running (SetStream send n r) = rn_running r"
    "rn_finished (SetStream send n r) = rn_finished r"
    using g q by (auto simp: e held_def)
qed

lemma sendRunResult_rest [simp]:
  "rn_running (sendRunResult send m r) = rn_running r" "rn_finished (sendRunResult send m r) = rn_finished r"
  by (simp_all add: sendRunResult_def stashPendingResult_def markResultSent_def split: option.splits prod.splits bool.splits)

lemma accept_held:
  assumes "accept_command send n rid tempdir r = (a, r')"
  shows "held r \<union> set (produced_by a rid) \<subseteq> held r'"
proof -
  define r1 where "r1 = (if rn_stream r = None then SetStream send n r else r)"
  have h1: "held r1 = held r" by (simp add: r1_def SetStream_rest)
  obtain cached cache where c: "lru_get rid (rn_finished r1) = (cached, cache)" by force
  have upd: "held (x\<lparr>rn_finished := f\<rparr>) = held x" "held (x\<lparr>rn_net := w\<rparr>) = held x" "held (x\<lparr>rn_running := l\<rparr>) = held x"
    for x :: "'a runner" and f w l by (simp_all add: held_def)
  obtain sent net where s: "send n (CommandAccepted rid) (rn_net r1) = (sent, net)" by force
  show ?thesis
  proof (cases cached)
    case (Some m)
    with assms c h1 show ?thesis
      by (auto simp: accept_command_def r1_def [symmetric] held_send upd produced_by_def Let_def)
  next
    case None
    with assms c h1 s show ?thesis
      by (auto simp: accept_command_def r1_def [symmetric] held_send upd produced_by_def Let_def
          split: if_splits bool.splits option.splits)
  qed
qed

text \<open>C9: 
  No result is forgotten.  In every state the agent can reach, whatever the network answers and
  does on its own and however often the stream changes, each result a run produced is waiting to be sent, or was handed to
  a stream and is kept for the next one, or was dropped after a message of the server had arrived.
\<close>

theorem no_result_is_forgotten:
  assumes "(agent_step send drift)\<^sup>*\<^sup>* (agent_start net) y"
  shows "set (sys_produced y) \<subseteq> held (sys_runner y) \<union> set (sys_dropped y)"
  using assms
proof (induction rule: rtranclp_induct)
  case base
  then show ?case by (simp add: agent_start_def)
next
  case (step y z)
  from step.hyps(2) step.IH show ?case
  proof cases
    case (connects n)
    with step.IH show ?thesis by (simp add: SetStream_rest)
  next
    case receives
    with step.IH show ?thesis by (auto simp: confirmSentResults_def held_def)
  next
    case (accepts n rid tempdir a r)
    with step.IH accept_held [OF accepts(2)] show ?thesis by auto
  next
    case (finishes m)
    have "held (finish_run send m (sys_runner y)) = insert m (held (sys_runner y))"
      by (simp add: finish_run_def Let_def held_def [of "_\<lparr>rn_running := _\<rparr>"] held_def [symmetric] held_send)
        (simp add: held_def)
    with finishes step.IH show ?thesis by auto
  next
    case (cancels rid)
    with step.IH show ?thesis by (auto simp: runner_Cancel_def held_def)
  next
    case (network net)
    with step.IH show ?thesis by (auto simp: held_def)
  qed
qed


theorem no_result_is_forgotten_witness:
  "case accept_command (\<lambda>n m (w :: nat). (w = 0, w)) 1 ''r'' (Some ''full'') (NewRunner 0) of
     (a, r) \<Rightarrow> a = NoTempDir ''full'' \<and> set (produced_by a ''r'') \<subseteq> held r"
proof -
  define send :: "nat \<Rightarrow> agent_message \<Rightarrow> nat \<Rightarrow> bool \<times> nat" where "send = (\<lambda>n m w. (w = 0, w))"
  obtain a r where ar: "accept_command send 1 ''r'' (Some ''full'') (NewRunner 0) = (a, r)" by force
  define y z where "y = agent_start (0 :: nat)"
    and "z = y\<lparr>sys_runner := r, sys_produced := produced_by a ''r'' @ sys_produced y\<rparr>"
  from ar have "accept_command send 1 ''r'' (Some ''full'') (sys_runner y) = (a, r)" by (simp add: y_def agent_start_def)
  then have "agent_step send (\<lambda>_ _. True) y z" unfolding z_def by (rule agent_step.accepts)
  then have "(agent_step send (\<lambda>_ _. True))\<^sup>*\<^sup>* (agent_start 0) z" unfolding y_def ..
  from no_result_is_forgotten [OF this]
  have "set (produced_by a ''r'') \<subseteq> held r" by (simp add: z_def y_def agent_start_def)
  moreover have "a = NoTempDir ''full''"
    using ar by (simp add: accept_command_def NewRunner_def SetStream_def flushPendingResults_def
        requeueUnackedResults_def lru_get_def newLRUCache_def send_def Let_def)
  ultimately show ?thesis using ar by (simp add: send_def)
qed

section \<open>Commands that arrive again\<close>

lemma cancel_cache:
  "rn_finished (fold runner_Cancel js r) =
     fold (\<lambda>j c. snd (lru_get j c)) (filter (\<lambda>j. j \<notin> set (rn_running r)) js) (rn_finished r) \<and>
   rn_running (fold runner_Cancel js r) = rn_running r"
  by (induction js arbitrary: r) (simp_all add: runner_Cancel_def)

text \<open>What sending a result on stream \<open>k\<close> does: the stream gets the message, and its answer decides where the
  result is kept.\<close>

definition sent_once :: "'w sender \<Rightarrow> nat \<Rightarrow> run_result \<Rightarrow> 'w runner \<Rightarrow> 'w runner \<Rightarrow> bool" where
  "sent_once send k m r r' \<longleftrightarrow>
     (case send k (RunResult m) (rn_net r) of
        (True, net) \<Rightarrow> rn_net r' = net \<and> rn_unacked r' = rn_unacked r @ [m] \<and> rn_pending r' = rn_pending r
      | (False, net) \<Rightarrow> rn_net r' = net \<and> rn_unacked r' = rn_unacked r \<and> rn_pending r' = rn_pending r @ [m])"

lemma SetStream_stream: "rn_stream (SetStream send n r) = Some n"
proof -
  have f: "flush_each send n ms kept q = (k, q') \<Longrightarrow> rn_stream q' = rn_stream q" for ms kept k q' and q :: "'a runner"
  proof (induction ms arbitrary: kept q)
    case (Cons m ms)
    then show ?case by (auto simp: markResultSent_def split: prod.splits bool.splits dest!: Cons.IH)
  qed simp
  show ?thesis
    by (auto simp: SetStream_def flushPendingResults_def requeueUnackedResults_def Let_def split: prod.splits dest!: f)
qed

text \<open>C10: 
  A command for a run that has finished is answered from the cache, whatever cancellations came
  in between and on whatever stream it arrives: the run is neither accepted nor started a second
  time, and the stored result is sent again, once more than it was, on the current stream (the one of
  the command if there was none): the stream gets the message, and the result is kept until the
  server confirms it, or for the next stream if this one refuses it.
\<close>

theorem finished_run_is_replayed:
  assumes "lru_ok (rn_finished r)"
  shows "let q = fold runner_Cancel js (finish_run send m r);
             q1 = (if rn_stream q = None then SetStream send n q else q) in
         case accept_command send n (res_run_id m) tempdir q of
           (a, r') \<Rightarrow> a = Replayed m \<and> rn_running r' = removeAll (res_run_id m) (rn_running r) \<and>
             (\<exists>k. rn_stream q1 = Some k \<and> sent_once send k m q1 r')"
proof -
  define q where "q = fold runner_Cancel js (finish_run send m r)"
  define q1 where "q1 = (if rn_stream q = None then SetStream send n q else q)"
  have run: "rn_running q = removeAll (res_run_id m) (rn_running r)"
    and fin: "rn_finished q = fold (\<lambda>j c. snd (lru_get j c))
      (filter (\<lambda>j. j \<notin> set (rn_running (finish_run send m r))) js) (lru_put (res_run_id m) m (rn_finished r))"
    by (simp_all add: q_def cancel_cache finish_run_def)
  have "fst (lru_get (res_run_id m) (rn_finished q)) = Some m"
    unfolding fin by (rule lru.found_after_lookups [OF assms])
  then obtain c where c: "lru_get (res_run_id m) (rn_finished q) = (Some m, c)"
    by (cases "lru_get (res_run_id m) (rn_finished q)") auto
  obtain k where k: "rn_stream q1 = Some k" by (cases "rn_stream q") (auto simp: q1_def SetStream_stream)
  have "rn_finished q1 = rn_finished q" "rn_running q1 = rn_running q" by (simp_all add: q1_def SetStream_rest)
  with c have acc: "accept_command send n (res_run_id m) tempdir q = (Replayed m, sendRunResult send m (q1\<lparr>rn_finished := c\<rparr>))"
    "rn_running (sendRunResult send m (q1\<lparr>rn_finished := c\<rparr>)) = rn_running q"
    by (simp_all add: accept_command_def q1_def [symmetric])
  have "sent_once send k m q1 (sendRunResult send m (q1\<lparr>rn_finished := c\<rparr>))"
    using k by (auto simp: sent_once_def sendRunResult_def stashPendingResult_def markResultSent_def split: prod.splits bool.splits)
  with acc run k show ?thesis unfolding q_def [symmetric] Let_def q1_def [symmetric] by simp
qed

theorem finished_run_is_replayed_witness:
  "case accept_command (\<lambda>n m w. (True, w @ [m])) 2 ''r'' None
       (fold runner_Cancel [''r'', ''q'']
         (finish_run (\<lambda>n m w. (True, w @ [m])) (error_result ''r'' ''x'' ''y'') ((NewRunner [])\<lparr>rn_stream := Some 1\<rparr>))) of
     (a, r') \<Rightarrow> a = Replayed (error_result ''r'' ''x'' ''y'') \<and>
       rn_net r' = [RunResult (error_result ''r'' ''x'' ''y''), RunResult (error_result ''r'' ''x'' ''y'')]"
proof -
  let ?send = "\<lambda>(n :: nat) m w. (True, w @ [m :: agent_message])"
  let ?m = "error_result ''r'' ''x'' ''y''"
  let ?r = "(NewRunner [])\<lparr>rn_stream := Some 1\<rparr> :: agent_message list runner"
  define q where "q = fold runner_Cancel [''r'', ''q''] (finish_run ?send ?m ?r)"
  have ok: "lru_ok (rn_finished ?r)" by (simp add: NewRunner_def lru_ok_new)
  have q: "rn_stream q = Some 1" "rn_net q = [RunResult ?m]"
    by (simp_all add: q_def finish_run_def sendRunResult_def markResultSent_def runner_Cancel_def NewRunner_def error_result_def Let_def)
  show ?thesis
    using finished_run_is_replayed [OF ok, where send = ?send and n = 2 and m = ?m and tempdir = None and js = "[''r'', ''q'']"] q
    unfolding q_def [symmetric] Let_def by (auto simp: error_result_def sent_once_def split: prod.splits)
qed

section \<open>A message of the server proves nothing about what was sent\<close>

text \<open>
  A network of streams.  A message that is handed to an open stream is under way on it; it arrives, in
  the order of sending, or it is lost when the stream breaks.  What has arrived stays.
\<close>

record wire =
  wire_flying :: "(nat \<times> agent_message) list"
  wire_broken :: "nat list"
  wire_delivered :: "agent_message list"

definition wire_send :: "wire sender" where
  "wire_send n m w =
     (if n \<in> set (wire_broken w) then (False, w) else (True, w\<lparr>wire_flying := wire_flying w @ [(n, m)]\<rparr>))"

inductive wire_drift :: "wire \<Rightarrow> wire \<Rightarrow> bool" where
  arrives: "wire_flying w = (n, m) # rest \<Longrightarrow>
     wire_drift w (w\<lparr>wire_flying := rest, wire_delivered := wire_delivered w @ [m]\<rparr>)"
| breaks: "wire_drift w (w\<lparr>wire_flying := filter (\<lambda>(k, _). k \<noteq> n) (wire_flying w), wire_broken := n # wire_broken w\<rparr>)"

definition no_wire :: wire where
  "no_wire = \<lparr>wire_flying = [], wire_broken = [], wire_delivered = []\<rparr>"

text \<open>
  A result can be lost although a stream took it and the agent reconnects.  The agent accepts a
  command, the run ends and its result is handed to the stream; a message that the server had sent
  before is read now and counts as the confirmation; then the stream breaks and the result, still
  under way, is lost with it.  The agent connects again, and sends nothing: the result has not
  arrived, is not under way, and no further connection sends it.  It is left in the cache of
  finished runs, from where only a repeated command of the server would bring it.
\<close>

theorem confirmation_can_drop_an_undelivered_result:
  "\<exists>y m. (agent_step wire_send wire_drift)\<^sup>*\<^sup>* (agent_start no_wire) y \<and>
     m \<in> set (sys_produced y) \<and> rn_stream (sys_runner y) = Some 2 \<and>
     wire_delivered (rn_net (sys_runner y)) = [CommandAccepted (res_run_id m)] \<and> wire_flying (rn_net (sys_runner y)) = [] \<and>
     (\<forall>n. rn_net (SetStream wire_send n (sys_runner y)) = rn_net (sys_runner y)) \<and>
     fst (lru_get (res_run_id m) (rn_finished (sys_runner y))) = Some m"
proof -
  define m where "m = error_result ''r'' ''x'' ''y''"
  define w1 where "w1 = no_wire\<lparr>wire_flying := [(1, CommandAccepted ''r'')]\<rparr>"
  define w2 where "w2 = no_wire\<lparr>wire_delivered := [CommandAccepted ''r'']\<rparr>"
  define w3 where "w3 = w2\<lparr>wire_flying := [(1, RunResult m)]\<rparr>"
  define w4 where "w4 = w2\<lparr>wire_broken := [1]\<rparr>"
  define y0 where "y0 = agent_start no_wire"
  define y1 where "y1 = y0\<lparr>sys_runner := SetStream wire_send 1 (sys_runner y0)\<rparr>"
  obtain a r where acc: "accept_command wire_send 1 ''r'' None (sys_runner y1) = (a, r)" by force
  define y2 where "y2 = y1\<lparr>sys_runner := r, sys_produced := produced_by a ''r'' @ sys_produced y1\<rparr>"
  define y3 where "y3 = y2\<lparr>sys_runner := (sys_runner y2)\<lparr>rn_net := w2\<rparr>\<rparr>"
  define y4 where "y4 = y3\<lparr>sys_runner := finish_run wire_send m (sys_runner y3), sys_produced := m # sys_produced y3\<rparr>"
  define y5 where "y5 = y4\<lparr>sys_runner := confirmSentResults (sys_runner y4),
    sys_dropped := rn_unacked (sys_runner y4) @ sys_dropped y4\<rparr>"
  define y6 where "y6 = y5\<lparr>sys_runner := (sys_runner y5)\<lparr>rn_net := w4\<rparr>\<rparr>"
  define y7 where "y7 = y6\<lparr>sys_runner := SetStream wire_send 2 (sys_runner y6)\<rparr>"
  have one: "sys_runner y1 = (NewRunner no_wire)\<lparr>rn_stream := Some 1\<rparr>" "sys_produced y1 = []"
    by (simp_all add: y1_def y0_def agent_start_def SetStream_def flushPendingResults_def requeueUnackedResults_def NewRunner_def)
  then have two: "a = Started" "r = (sys_runner y1)\<lparr>rn_net := w1, rn_running := [''r'']\<rparr>"
    using acc by (simp_all add: accept_command_def NewRunner_def lru_get_def newLRUCache_def wire_send_def no_wire_def w1_def)
  have three: "res_run_id m \<in> set (rn_running (sys_runner y3))" "res_run_id m = ''r''"
    by (simp_all add: y3_def y2_def two m_def error_result_def)
  have d3: "wire_drift (rn_net (sys_runner y2)) w2"
    using wire_drift.arrives [of w1 1 "CommandAccepted ''r''" "[]"] by (simp add: y2_def two w1_def w2_def no_wire_def)
  have four: "sys_runner y4 = (NewRunner w3)\<lparr>rn_stream := Some 1, rn_unacked := [m],
      rn_finished := lru_put ''r'' m (newLRUCache 512)\<rparr>"
    using three(2) by (simp add: y4_def y3_def y2_def two one finish_run_def sendRunResult_def markResultSent_def wire_send_def
        NewRunner_def w2_def w3_def no_wire_def Let_def)
  then have five: "sys_runner y5 = (NewRunner w3)\<lparr>rn_stream := Some 1, rn_finished := lru_put ''r'' m (newLRUCache 512)\<rparr>"
    by (simp add: y5_def confirmSentResults_def NewRunner_def)
  have d6: "wire_drift (rn_net (sys_runner y5)) w4"
    using wire_drift.breaks [of w3 1] by (simp add: five w3_def w4_def w2_def no_wire_def NewRunner_def)
  have "agent_step wire_send wire_drift y0 y1" unfolding y1_def by (rule agent_step.connects)
  moreover have "agent_step wire_send wire_drift y1 y2" unfolding y2_def using acc by (rule agent_step.accepts)
  moreover have "agent_step wire_send wire_drift y2 y3" unfolding y3_def using d3 by (rule agent_step.network)
  moreover have "agent_step wire_send wire_drift y3 y4" unfolding y4_def using three(1) by (rule agent_step.finishes)
  moreover have "agent_step wire_send wire_drift y4 y5" unfolding y5_def by (rule agent_step.receives)
  moreover have "agent_step wire_send wire_drift y5 y6" unfolding y6_def using d6 by (rule agent_step.network)
  moreover have "agent_step wire_send wire_drift y6 y7" unfolding y7_def by (rule agent_step.connects)
  ultimately have reach: "(agent_step wire_send wire_drift)\<^sup>*\<^sup>* y0 y7" by (meson r_into_rtranclp rtranclp_trans)
  have seven: "sys_runner y7 = (NewRunner w4)\<lparr>rn_stream := Some 2, rn_finished := lru_put ''r'' m (newLRUCache 512)\<rparr>"
    by (simp add: y7_def y6_def five SetStream_def flushPendingResults_def requeueUnackedResults_def NewRunner_def)
  then have again: "rn_net (SetStream wire_send n (sys_runner y7)) = rn_net (sys_runner y7)" for n
    by (simp add: SetStream_def flushPendingResults_def requeueUnackedResults_def NewRunner_def)
  have cached: "fst (lru_get ''r'' (rn_finished (sys_runner y7))) = Some m"
  proof -
    have "fst (lru_get ''r'' (fold (\<lambda>j c. snd (lru_get j c)) [] (lru_put ''r'' m (newLRUCache 512)))) = Some m"
      by (rule lru.found_after_lookups [OF lru_ok_new]) simp
    then show ?thesis by (simp add: seven)
  qed
  have made: "m \<in> set (sys_produced y7)" by (simp add: y7_def y6_def y5_def y4_def)
  show ?thesis
    by (rule exI [of _ y7], rule exI [of _ m])
      (use reach again cached made three(2) in \<open>simp add: y0_def seven NewRunner_def w4_def w2_def no_wire_def\<close>)
qed

section \<open>What the server makes of a database restore\<close>

lemma decode_phase [simp]: "decode_outcome (restoreResultJSON p i) = (phase_text p, i)"
  by (simp add: decode_outcome_def restoreResultJSON_def field_string_def obj_get_def)







end
