(* ===== verification/Adapter_Base.thy ===== *)
theory Adapter_Base
  imports Pipeline_Ops Version
begin

text \<open>
  What the database adapters of \<open>internal/agent/backup\<close> share: texts and quoting, running a tool
  with its lines logged, the lines of a file, and writing the manifest of a dump.  Messages are given
  in English, and \<open>%q\<close> puts a text in double quotes without escaping it.
\<close>

section \<open>Texts\<close>

text \<open>\<open>strings.ReplaceAll\<close> of one character, and of a pair of equal characters by one of them.\<close>

definition ReplaceChar :: "char \<Rightarrow> string \<Rightarrow> string \<Rightarrow> string" where
  "ReplaceChar c r s = concat (map (\<lambda>x. if x = c then r else [x]) s)"

fun undouble :: "char \<Rightarrow> string \<Rightarrow> string" where
  "undouble q (c # d # s) = (if c = q \<and> d = q then q # undouble q s else c # undouble q (d # s))"
| "undouble q s = s"

text \<open>
  \<open>strings.ToUpper\<close> to the same extent as \<open>ToLower\<close>: ASCII letters, and the two other code points
  whose upper case is an ASCII letter (U+0131 and U+017F); other bytes keep their value.
\<close>

definition upper_char :: "char \<Rightarrow> char" where
  "upper_char c = (let n = of_char c :: nat in if 97 \<le> n \<and> n \<le> 122 then char_of (n - 32) else c)"

lemma upper_char_code [code]:
  "upper_char (Char b0 b1 b2 b3 b4 b5 b6 b7) =
     (if \<not> b7 \<and> b6 \<and> b5 \<and> (b0 \<or> b1 \<or> b2 \<or> b3 \<or> b4) \<and> \<not> (b4 \<and> b3 \<and> (b2 \<or> (b1 \<and> b0)))
      then Char b0 b1 b2 b3 b4 False b6 b7 else Char b0 b1 b2 b3 b4 b5 b6 b7)"
  by (cases b0; cases b1; cases b2; cases b3; cases b4; cases b5; cases b6; cases b7)
    (simp_all add: upper_char_def char_of_def bit_iff_odd)

fun ToUpper :: "string \<Rightarrow> string" where
  "ToUpper [] = []"
| "ToUpper (c # s) =
     (if HasPrefix (c # s) [CHR 0xC4, CHR 0xB1] then CHR ''I'' # ToUpper (drop 1 s)
      else if HasPrefix (c # s) [CHR 0xC5, CHR 0xBF] then CHR ''S'' # ToUpper (drop 1 s)
      else upper_char c # ToUpper s)"

definition LastIndex :: "string \<Rightarrow> string \<Rightarrow> nat option" where
  "LastIndex s p = map_option (\<lambda>i. length s - length p - i) (Index (rev s) (rev p))"

definition in_quotes :: "string \<Rightarrow> string" where
  "in_quotes s = [CHR 0x22] @ s @ [CHR 0x22]"

abbreviation backtick :: char where "backtick \<equiv> CHR 0x60"
abbreviation apostrophe :: char where "apostrophe \<equiv> CHR 0x27"

definition literal_body :: "string \<Rightarrow> string" where
  "literal_body v = ReplaceChar apostrophe [apostrophe, apostrophe] v"

text \<open>A literal of a statement, as it stands and with a name put in.\<close>

definition lit :: "string \<Rightarrow> string" where
  "lit t = [apostrophe] @ t @ [apostrophe]"

definition schema_literal :: "string \<Rightarrow> string" where
  "schema_literal db = lit (literal_body db)"

text \<open>How a server reads a quoted text whose opening mark \<open>q\<close> is gone: the text, and what follows it.\<close>

fun read_quoted :: "char \<Rightarrow> string \<Rightarrow> (string \<times> string) option" where
  "read_quoted q [] = None"
| "read_quoted q [c] = (if c = q then Some ([], []) else None)"
| "read_quoted q (c # d # s) =
     (if c \<noteq> q then map_option (\<lambda>(t, r). (c # t, r)) (read_quoted q (d # s))
      else if d = q then map_option (\<lambda>(t, r). (q # t, r)) (read_quoted q s)
      else Some ([], d # s))"

lemma ReplaceChar_simps [simp]:
  "ReplaceChar c r [] = []" "ReplaceChar c r (x # s) = (if x = c then r else [x]) @ ReplaceChar c r s"
  by (simp_all add: ReplaceChar_def)

lemma read_doubled:
  "\<not> HasPrefix after [q] \<Longrightarrow> read_quoted q (ReplaceChar q [q, q] v @ q # after) = Some (v, after)"
proof (induction v)
  case Nil
  then show ?case by (cases after) auto
next
  case (Cons x v)
  have "\<exists>d s. ReplaceChar q [q, q] v @ q # after = d # s" by (cases "ReplaceChar q [q, q] v") auto
  with Cons show ?case by auto
qed

lemma split_lines:
  "list_all (\<lambda>l. CHR 0x0A \<notin> set l) ls \<Longrightarrow> SplitChar (CHR 0x0A) (lines_text ls) = ls @ [[]]"
  by (induction ls) (simp_all add: lines_text_def SplitChar_append)

lemma dec_int_one_line: "CHR 0x0A \<notin> set (dec_int n)"
proof -
  have "CHR 0x0A \<notin> set (dec_nat m)" for m
  proof (induction m rule: dec_nat.induct)
    case (1 m)
    have digit: "(char_of (48 + k) :: char) \<noteq> CHR 0x0A" if "k < 10" for k :: nat
    proof
      assume "(char_of (48 + k) :: char) = CHR 0x0A"
      then have "(of_char (char_of (48 + k) :: char) :: nat) = of_char (CHR 0x0A)" by simp
      with that show False by simp
    qed
    from digit [of m] digit [of "m mod 10"] 1 show ?case
      by (subst dec_nat.simps) (auto simp: eq_commute [of "CHR 0x0A"])
  qed
  then show ?thesis by (simp add: dec_int_def)
qed

text \<open>\<open>json.MarshalIndent\<close> with two spaces.\<close>

fun json_indent :: "nat \<Rightarrow> json \<Rightarrow> string" where
  "json_indent n (JList js) =
     (if js = [] then ''[]''
      else ''['' @ JoinWith '','' (map (\<lambda>j. CHR 0x0A # replicate (2 * n + 2) CHR 0x20 @ json_indent (n + 1) j) js) @
           [CHR 0x0A] @ replicate (2 * n) CHR 0x20 @ '']'')"
| "json_indent n (JObj ms) =
     (if ms = [] then [CHR 0x7B, CHR 0x7D]
      else [CHR 0x7B] @
           JoinWith '','' (map (\<lambda>m. CHR 0x0A # replicate (2 * n + 2) CHR 0x20 @ json_quote (fst m) @ '': '' @
                                 json_indent (n + 1) (snd m)) ms) @
           [CHR 0x0A] @ replicate (2 * n) CHR 0x20 @ [CHR 0x7D])"
| "json_indent n j = json_text j"

section \<open>Tools and files\<close>

text \<open>
  The paths of the last probe, what \<open>exec.LookPath\<close> finds, and the clock as JSON shows it.
\<close>

type_synonym log_lines = "(string \<times> string \<times> string list) list"

record 'h toolbox =
  tb_paths :: "string \<rightharpoonup> string"
  tb_look :: "string \<Rightarrow> string option"
  tb_now :: "'h \<Rightarrow> string"

definition tool :: "'h toolbox \<Rightarrow> string \<Rightarrow> string" where
  "tool tb name = toolPath (tb_paths tb) name"

definition tool_cmd :: "string \<Rightarrow> string list \<Rightarrow> string list \<Rightarrow> cmd" where
  "tool_cmd exe args env = \<lparr>cmd_exe = exe, cmd_args = args, cmd_env = env, cmd_dir = [], cmd_stdin = []\<rparr>"

definition note_line :: "string \<Rightarrow> 'h shell \<Rightarrow> 'h shell" where
  "note_line l = log_line ''info'' ''%s'' [l]"

definition note_lines :: "log_lines \<Rightarrow> 'h shell \<Rightarrow> 'h shell" where
  "note_lines ls s = fold (\<lambda>(level, format, args). log_line level format args) ls s"

text \<open>Runs a tool; the flags say whether its output and its errors are logged line by line.\<close>

definition run_noted :: "bool \<Rightarrow> bool \<Rightarrow> 'h host \<Rightarrow> cmd \<Rightarrow> 'h shell \<Rightarrow> cmd_outcome \<times> 'h shell" where
  "run_noted outs errs hs c s =
     (let (o', s') = Run hs c s in
      (o', fold (\<lambda>l. case l of Out t \<Rightarrow> if outs then note_line t else (\<lambda>x. x)
                             | Err t \<Rightarrow> if errs then note_line t else (\<lambda>x. x)) (out_lines o') s'))"

definition tail_after :: "string list \<Rightarrow> cmd_outcome \<Rightarrow> string list" where
  "tail_after tail o' = foldl (capture_line 20) tail (errs_of (out_lines o'))"

definition tool_error :: "string \<Rightarrow> cmd_outcome \<Rightarrow> string list \<Rightarrow> err" where
  "tool_error what o' tail = exitErrorWithStderr what (exit_code o') (run_err o') tail"

definition nonblank :: "string list \<Rightarrow> string list" where
  "nonblank ls = filter (\<lambda>t. t \<noteq> []) (map TrimSpace ls)"

definition last_text :: "string list \<Rightarrow> string" where
  "last_text ls = (if ls = [] then [] else TrimSpace (last ls))"

text \<open>
  The lines a \<open>bufio.Scanner\<close> with a buffer of 8 MiB returns: an unterminated last line counts
  unless it is empty, a carriage return before the end of a line is dropped, and a longer line is an
  error.
\<close>

definition scan_lines :: "string \<Rightarrow> err + string list" where
  "scan_lines content =
     (let ls = SplitChar (CHR 0x0A) content;
          ls' = (if last ls = [] then butlast ls else ls) in
      if list_ex (\<lambda>l. 8 * 1024 * 1024 \<le> length l) ls' then Inl (Plain ''bufio.Scanner: token too long'')
      else Inr (map (\<lambda>l. TrimSuffix l [CHR 0x0D]) ls'))"

section \<open>What a run of a tool leaves behind\<close>

lemma noted_rest [simp]:
  "sh_ran (note_line l s) = sh_ran s" "sh_host (note_line l s) = sh_host s" "sh_calls (note_line l s) = sh_calls s"
  by (simp_all add: note_line_def)

lemma noted_fold [simp]:
  "sh_ran (fold (\<lambda>l. case l of Out t \<Rightarrow> if outs then note_line t else (\<lambda>x. x)
                         | Err t \<Rightarrow> if errs then note_line t else (\<lambda>x. x)) ls s) = sh_ran s"
  "sh_host (fold (\<lambda>l. case l of Out t \<Rightarrow> if outs then note_line t else (\<lambda>x. x)
                         | Err t \<Rightarrow> if errs then note_line t else (\<lambda>x. x)) ls s) = sh_host s"
  by (induction ls arbitrary: s) (auto split: out_line.splits)

lemma run_noted_ran:
  assumes "run_noted outs errs hs c s = (o', s')"
  shows "sh_ran s' = sh_ran s @ [c]" and "o' = fst (run_cmd hs c (sh_host s))" and "sh_host s' = snd (run_cmd hs c (sh_host s))"
  using assms by (auto simp: run_noted_def Run_def split: prod.splits)

lemma secret_ran: "WriteSecretFile hs t n c s = (r, s') \<Longrightarrow> sh_ran s' = sh_ran s"
  by (auto simp: WriteSecretFile_def Let_def dest: on_host_rest split: prod.splits)

section \<open>The end of a dump\<close>

definition export_json :: "db_export \<Rightarrow> json" where
  "export_json e =
     JObj [(''database'', JStr (exp_database e)), (''file'', JStr (exp_file e)), (''format'', JStr (exp_format e))]"

definition text_map_json :: "(string \<times> string) list \<Rightarrow> json" where
  "text_map_json ps = JObj (map (\<lambda>(k, v). (k, JStr v)) (sort_key fst ps))"

definition dump_manifest ::
  "kind \<Rightarrow> (string \<times> string) list \<Rightarrow> db_export list \<Rightarrow> string \<Rightarrow> string \<Rightarrow> (string \<times> string) list \<Rightarrow> json" where
  "dump_manifest k versions exports started finished hints =
     JObj [(''adapter'', JStr (kind_text k)), (''tool_versions'', text_map_json versions),
           (''databases'', JList (map export_json exports)), (''started_at'', JStr started),
           (''finished_at'', JStr finished), (''restore_hints'', text_map_json hints)]"

definition finish_dump :: "'h host \<Rightarrow> string \<Rightarrow> json \<Rightarrow> 'h shell \<Rightarrow> (err + artifact) \<times> 'h shell" where
  "finish_dump hs staging m s =
     then_do (map_err (around ''write manifest'')
                (unless_error (on_host (write_file hs (Join2 staging ''manifest.json'') (json_indent 0 m)) s))) (\<lambda>_ s.
     (Inr \<lparr>art_live_paths = [], art_exclude_file = [], art_one_file_system = False, art_staging_dir = staging,
           art_staging_files = (case read_dir hs staging (sh_host s) of None \<Rightarrow> [] | Some es \<Rightarrow> map fst es)\<rparr>, s))"

section \<open>Data for examples\<close>

text \<open>A tool that succeeds and prints nothing.\<close>

definition quiet :: cmd_outcome where "quiet = \<lparr>out_lines = [], exit_code = 0, run_err = None\<rparr>"

definition demo_tools :: "unit toolbox" where
  "demo_tools = \<lparr>tb_paths = (\<lambda>_. None), tb_look = (\<lambda>_. None), tb_now = (\<lambda>_. ''now'')\<rparr>"

definition demo_target :: db_target where
  "demo_target =
     \<lparr>dbt_snapshot_id = ''s1'', dbt_kind = ''mysql'', dbt_host = ''h'', dbt_port = 3306, dbt_username = ''u'',
      dbt_database = ''shop'', dbt_auth_source = [], dbt_replace_existing = False\<rparr>"

definition demo_spec :: restore_spec where
  "demo_spec =
     \<lparr>rs_snapshot_id = ''s1'', rs_kind = KindMySQL, rs_staging_dir = ''/t'', rs_database = demo_target,
      rs_secrets = \<lparr>sb_restic_password = [], sb_db_password = [], sb_rclone_conf = []\<rparr>, rs_run_id = ''r'',
      rs_artifact_file = ''/t/shop.sql'', rs_artifact_database = ''shop'', rs_artifact_format = ''sql'',
      rs_artifact_charset = [], rs_artifact_collation = [], rs_target_is_new = True\<rparr>"

end
