(* ===== verification/MySQL_Text.thy ===== *)
theory MySQL_Text
  imports Adapter_Base
begin

text \<open>
  The part of \<open>internal/agent/backup/mysql.go\<close> that works on texts alone: quoting for option files
  and statements, the arguments that select tables, the grants of an account and what they allow to
  dump, the hints after a failed dump, and the tables a dump names.
\<close>

definition isASCII :: "string \<Rightarrow> bool" where
  "isASCII s = list_all (\<lambda>c. (of_char c :: nat) < 128) s"

section \<open>Quoting\<close>

definition mysqlOptionValue :: "string \<Rightarrow> string" where
  "mysqlOptionValue v =
     ReplaceChar (CHR 0x0A) [CHR 0x5C, CHR ''n'']
       (ReplaceChar (CHR 0x22) [CHR 0x5C, CHR 0x22] (ReplaceChar (CHR 0x5C) [CHR 0x5C, CHR 0x5C] v))"

text \<open>The option file, for a source and for a target.\<close>

definition option_file :: "string \<Rightarrow> string \<Rightarrow> string \<Rightarrow> int \<Rightarrow> string" where
  "option_file user password host port =
     lines_text [''[client]'', ''user='' @ mysqlOptionValue user,
       ''password='' @ in_quotes (mysqlOptionValue password), ''host='' @ in_quotes (mysqlOptionValue host),
       ''port='' @ dec_int port, ''default-character-set=utf8mb4'']"

definition grant_name :: "string \<Rightarrow> string" where
  "grant_name v = ReplaceChar backtick [backtick, backtick] v"

definition quoted_name :: "string \<Rightarrow> string" where
  "quoted_name v = [backtick] @ grant_name v @ [backtick]"

text \<open>Reads a quoted name whose opening mark is already gone.\<close>

fun unquote_from :: "string \<Rightarrow> string \<Rightarrow> (string \<times> string) option" where
  "unquote_from acc [] = None"
| "unquote_from acc (c # s) =
     (if c \<noteq> backtick then unquote_from (acc @ [c]) s
      else case s of
        d # s' \<Rightarrow> if d = backtick then unquote_from (acc @ [backtick]) s'
                  else if acc = [] then None else Some (acc, s)
      | [] \<Rightarrow> if acc = [] then None else Some (acc, []))"

definition mysqlUnquoteIdentifier :: "string \<Rightarrow> (string \<times> string) option" where
  "mysqlUnquoteIdentifier s = unquote_from [] s"

definition mysqlUnquotePart :: "string \<Rightarrow> string" where
  "mysqlUnquotePart s0 =
     (let s = TrimSpace s0 in
      if 2 \<le> length s \<and> hd s = backtick \<and> last s = backtick
      then undouble backtick (take (length s - 2) (drop 1 s)) else s)"

text \<open>
  The loop over a table reference.  It ranges over the indices, so the increment that is meant to
  skip the second of two marks has no effect on the next round.
\<close>

fun split_ref :: "bool \<Rightarrow> string \<Rightarrow> string \<Rightarrow> (string \<times> string) option" where
  "split_ref inQuote before [] = None"
| "split_ref inQuote before (c # s) =
     (if c = backtick
      then split_ref (if s \<noteq> [] \<and> hd s = backtick then inQuote else \<not> inQuote) (before @ [c]) s
      else if c = CHR ''.'' \<and> \<not> inQuote then Some (before, s)
      else split_ref inQuote (before @ [c]) s)"

definition mysqlSplitTableRef :: "string \<Rightarrow> (string \<times> string) option" where
  "mysqlSplitTableRef s =
     (case split_ref False [] s of
        None \<Rightarrow> None
      | Some (a, b) \<Rightarrow>
          let db = mysqlUnquotePart a; table = mysqlUnquotePart b in
          if db = [] \<or> table = [] then None else Some (db, table))"

definition validCharsetName :: "string \<Rightarrow> bool" where
  "validCharsetName v \<longleftrightarrow>
     v \<noteq> [] \<and> length v \<le> 64 \<and>
     list_all (\<lambda>c. let n = of_char c :: nat in
       97 \<le> n \<and> n \<le> 122 \<or> 65 \<le> n \<and> n \<le> 90 \<or> 48 \<le> n \<and> n \<le> 57 \<or> c = CHR ''_'') v"

section \<open>Extra arguments of a dump\<close>

definition mysqlDumpObjectTypes :: "string list \<Rightarrow> bool \<times> bool \<times> bool" where
  "mysqlDumpObjectTypes args =
     foldl (\<lambda>(t, r, e) a.
        if a = ''--triggers'' then (True, r, e) else if a = ''--skip-triggers'' then (False, r, e)
        else if a = ''--routines'' then (t, True, e) else if a = ''--skip-routines'' then (t, False, e)
        else if a = ''--events'' then (t, r, True) else if a = ''--skip-events'' then (t, r, False)
        else (t, r, e)) (True, True, True) args"

definition mysqlExplicitTableSelection :: "string list \<Rightarrow> bool" where
  "mysqlExplicitTableSelection args =
     list_ex (\<lambda>a. a = ''--tables'' \<or> a = ''--ignore-table'' \<or> HasPrefix a ''--tables='' \<or>
                  HasPrefix a ''--ignore-table='') args"

text \<open>The table names of one \<open>--tables=\<close> argument.\<close>

fun selected_names :: "string \<Rightarrow> string list \<Rightarrow> err + string list" where
  "selected_names database [] = Inr []"
| "selected_names database (x # xs) =
     (let t = TrimSpace x in
      if t = [] then selected_names database xs
      else case mysqlSplitTableRef t of
        Some (db, tbl) \<Rightarrow>
          if database = ''all'' \<or> db \<noteq> database
          then Inl (Plain (''--tables='' @ t @ '' names a table of database '' @ in_quotes db @
                           '', the plan backs up '' @ in_quotes database))
          else map_sum id ((#) tbl) (selected_names database xs)
      | None \<Rightarrow> map_sum id ((#) t) (selected_names database xs))"

fun table_args :: "string \<Rightarrow> string list \<Rightarrow> err + (string list \<times> string list \<times> (string \<times> string) list)" where
  "table_args database [] = Inr ([], [], [])"
| "table_args database (a # as) =
     (if HasPrefix a ''--tables='' then
        (case selected_names database (SplitChar (CHR '','') (TrimPrefix a ''--tables='')) of
           Inl e \<Rightarrow> Inl e
         | Inr ts \<Rightarrow> map_sum id (\<lambda>(rest, tables, ignored). (rest, ts @ tables, ignored)) (table_args database as))
      else if HasPrefix a ''--ignore-table='' then
        map_sum id (\<lambda>(rest, tables, ignored).
          (a # rest, tables, (case mysqlSplitTableRef (TrimPrefix a ''--ignore-table='') of
                                None \<Rightarrow> ignored | Some ref \<Rightarrow> ref # ignored))) (table_args database as)
      else map_sum id (\<lambda>(rest, tables, ignored). (a # rest, tables, ignored)) (table_args database as))"

definition mysqlCheckTableArgs :: "string \<Rightarrow> string list \<Rightarrow> err + (string list \<times> string list)" where
  "mysqlCheckTableArgs database args =
     (case table_args database args of
        Inl e \<Rightarrow> Inl e
      | Inr (rest, tables, ignored) \<Rightarrow>
          (case List.find (\<lambda>(db, tbl). (database = ''all'' \<or> db = database) \<and> tbl \<in> set tables) ignored of
             Some (db, tbl) \<Rightarrow>
               Inl (Plain (''--tables= selects '' @ in_quotes tbl @ '', --ignore-table='' @ db @ ''.'' @ tbl @ '' excludes it''))
           | None \<Rightarrow> Inr (rest, tables)))"

section \<open>Grants\<close>

record read_scope =
  sc_global :: bool
  sc_schemas :: "string list"
  sc_tables :: "(string \<times> string) list"
  sc_trigger_global :: bool
  sc_trigger_schemas :: "string list"
  sc_event_global :: bool
  sc_event_schemas :: "string list"
  sc_view_global :: bool
  sc_view_schemas :: "string list"
  sc_show_routine :: bool

definition no_scope :: read_scope where
  "no_scope =
     \<lparr>sc_global = False, sc_schemas = [], sc_tables = [], sc_trigger_global = False, sc_trigger_schemas = [],
      sc_event_global = False, sc_event_schemas = [], sc_view_global = False, sc_view_schemas = [],
      sc_show_routine = False\<rparr>"

definition routineVisible :: "read_scope \<Rightarrow> bool" where
  "routineVisible sc \<longleftrightarrow> sc_global sc \<or> sc_show_routine sc"

definition granted_tables :: "read_scope \<Rightarrow> string \<Rightarrow> string list" where
  "granted_tables sc db = map snd (filter (\<lambda>p. fst p = db) (sc_tables sc))"

text \<open>
  One line of \<open>SHOW GRANTS\<close>: the object, the privileges, and whether they are all.  A line with
  nothing at all between ON and TO would make the slice expression panic; MySQL prints none.
\<close>

definition mysqlGrantObject :: "string \<Rightarrow> (string \<times> string list \<times> bool) option" where
  "mysqlGrantObject line =
     (let s = TrimSpace line in
      if length s \<le> 6 \<or> \<not> EqualFold (take 6 s) ''GRANT '' then None
      else
        let after = drop 6 s in
        (case (Index (ToUpper after) '' ON '', LastIndex (ToUpper after) '' TO '') of
           (Some on, Some to') \<Rightarrow>
             if to' < on then None
             else
               let names = map (\<lambda>p. ToUpper (TrimSpace p)) (SplitChar (CHR '','') (take on after)) in
               Some (TrimSpace (take (to' - (on + 4)) (drop (on + 4) after)),
                     filter (\<lambda>n. n \<noteq> ''ALL'' \<and> n \<noteq> ''ALL PRIVILEGES'' \<and> n \<noteq> []) names,
                     ''ALL'' \<in> set names \<or> ''ALL PRIVILEGES'' \<in> set names)
         | _ \<Rightarrow> None))"

definition add_if :: "bool \<Rightarrow> 'a \<Rightarrow> 'a list \<Rightarrow> 'a list" where
  "add_if b x xs = (if b then xs @ [x] else xs)"

definition add_grant :: "read_scope \<Rightarrow> string \<Rightarrow> read_scope" where
  "add_grant sc line =
     (case mysqlGrantObject line of
        None \<Rightarrow> sc
      | Some (object, privs, all') \<Rightarrow>
          let has = (\<lambda>p. all' \<or> p \<in> set privs) in
          if object = ''*.*'' then
            sc\<lparr>sc_global := sc_global sc \<or> has ''SELECT'', sc_trigger_global := sc_trigger_global sc \<or> has ''TRIGGER'',
               sc_event_global := sc_event_global sc \<or> has ''EVENT'', sc_view_global := sc_view_global sc \<or> has ''SHOW VIEW'',
               sc_show_routine := sc_show_routine sc \<or> has ''SHOW_ROUTINE''\<rparr>
          else
            (case mysqlUnquoteIdentifier (TrimPrefix object [backtick]) of
               None \<Rightarrow> sc
             | Some (db, after) \<Rightarrow>
                 if after = ''.*'' then
                   sc\<lparr>sc_schemas := add_if (has ''SELECT'') db (sc_schemas sc),
                      sc_trigger_schemas := add_if (has ''TRIGGER'') db (sc_trigger_schemas sc),
                      sc_event_schemas := add_if (has ''EVENT'') db (sc_event_schemas sc),
                      sc_view_schemas := add_if (has ''SHOW VIEW'') db (sc_view_schemas sc)\<rparr>
                 else if HasPrefix after (CHR ''.'' # [backtick]) \<and> has ''SELECT'' then
                   (case mysqlUnquoteIdentifier (drop 2 after) of
                      None \<Rightarrow> sc | Some (tbl, _) \<Rightarrow> sc\<lparr>sc_tables := sc_tables sc @ [(db, tbl)]\<rparr>)
                 else sc))"

definition mysqlSelectScope :: "string list \<Rightarrow> read_scope" where
  "mysqlSelectScope grants = foldl add_grant no_scope grants"

definition mysqlCheckInstanceScope :: "read_scope \<Rightarrow> string \<Rightarrow> err option" where
  "mysqlCheckInstanceScope sc username =
     (if sc_global sc then None
      else
        let dbs = filter (\<lambda>db. db \<notin> set (sc_schemas sc)) (remdups (map fst (sc_tables sc)));
            detail = (if dbs \<noteq> []
              then ''only SELECT on some tables ('' @
                     JoinWith ''; '' (sort (map (\<lambda>db. db @ ''('' @ JoinWith '', '' (sort (granted_tables sc db)) @ '')'') dbs)) @ '')''
              else if sc_schemas sc \<noteq> []
              then ''only SELECT on databases ('' @ JoinWith '', '' (sort (remdups (sc_schemas sc))) @ '')''
              else ''no grant that tells'') in
        Some (Plain (''mysql dump refused: the whole instance needs a global SELECT, account '' @ in_quotes username @
                     '' has '' @ detail @ ''; GRANT SELECT ON *.* TO '' @ in_quotes username)))"

definition mysqlCheckTableScope :: "read_scope \<Rightarrow> string \<Rightarrow> string \<Rightarrow> err option" where
  "mysqlCheckTableScope sc username database =
     (if sc_global sc \<or> database = ''all'' then None
      else if database \<in> set (sc_schemas sc) then None
      else
        let granted = sort (granted_tables sc database);
            shown = (if 10 < length granted then take 10 granted @ [''...''] else granted);
            detail = (if granted = [] then ''no SELECT on that database''
                      else ''granted tables: '' @ JoinWith '', '' shown) in
        Some (Plain (''mysql dump refused: account '' @ in_quotes username @ '' may read only some tables of '' @ in_quotes database @
                     '' ('' @ detail @ ''); GRANT SELECT ON '' @ quoted_name database @ ''.* TO '' @ in_quotes username)))"

definition skipped_notes :: "string list \<Rightarrow> log_lines" where
  "skipped_notes args =
     (let (triggers, routines, events) = mysqlDumpObjectTypes args;
          selected = filter (\<lambda>a. HasPrefix a ''--tables='') args;
          excluded = filter (\<lambda>a. \<not> HasPrefix a ''--tables='' \<and> HasPrefix a ''--ignore-table='') args in
      (if triggers then [] else [(''info'', ''this dump skips triggers (--skip-triggers)'', [])]) @
      (if routines then [] else [(''info'', ''this dump skips routines (--skip-routines)'', [])]) @
      (if events then [] else [(''info'', ''this dump skips events (--skip-events)'', [])]) @
      (if selected = [] then [] else [(''info'', ''only the tables of --tables= are dumped (%s)'', [JoinWith '', '' selected])]) @
      (if excluded = [] then [] else [(''info'', ''the objects of --ignore-table= are left out (%s)'', [JoinWith '', '' excluded])]))"

text \<open>The refusal, if any, and the lines that are logged.\<close>

definition mysqlCheckObjectPrivileges ::
  "read_scope \<Rightarrow> string \<Rightarrow> string \<Rightarrow> string list \<Rightarrow> err option \<times> log_lines" where
  "mysqlCheckObjectPrivileges sc username database args =
     (let (triggers, routines, events) = mysqlDumpObjectTypes args;
          whole = (database = ''all'');
          notes = skipped_notes args;
          refused = (\<lambda>p. Some (Plain (''mysql dump refused: account '' @ in_quotes username @ '' has no '' @ p @ '' on '' @
            in_quotes database @ ''; GRANT '' @ p @ '' ON '' @ quoted_name database @ ''.* TO '' @ in_quotes username))) in
      if triggers \<and> \<not> sc_trigger_global sc \<and> \<not> (whole \<or> database \<in> set (sc_trigger_schemas sc))
      then (refused ''TRIGGER'', notes)
      else if events \<and> \<not> sc_event_global sc \<and> \<not> (whole \<or> database \<in> set (sc_event_schemas sc))
      then (refused ''EVENT'', notes)
      else
        (None,
         notes @
         (if whole then
            (if sc_view_global sc then [] else [(''warn'', ''account %q has no global SHOW VIEW'', [username])]) @
            (if triggers \<and> \<not> sc_trigger_global sc then [(''warn'', ''account %q has no global TRIGGER'', [username])] else []) @
            (if events \<and> \<not> sc_event_global sc then [(''warn'', ''account %q has no global EVENT'', [username])] else [])
          else []) @
         (if routines \<and> \<not> routineVisible sc
          then [(''warn'', ''account %q lacks SHOW_ROUTINE or a global SELECT'', [username])] else [])))"

section \<open>Hints after a failed dump\<close>

definition says_unknown_database :: "string list \<Rightarrow> bool" where
  "says_unknown_database tail = list_ex (\<lambda>l. Contains l ''Unknown database'') tail"

definition mysqlDumpQuoteNameHint :: "string \<Rightarrow> string list \<Rightarrow> string" where
  "mysqlDumpQuoteNameHint database tail =
     (if database = [] \<or> database = ''all'' \<or> \<not> Contains database [apostrophe] then []
      else if \<not> says_unknown_database tail then []
      else ''database name '' @ in_quotes database @ '' contains an apostrophe, which mysqldump --routines escapes wrongly'')"

definition mysqlDumpNameCharsetHint :: "string \<Rightarrow> string list \<Rightarrow> string" where
  "mysqlDumpNameCharsetHint database tail =
     (if database = [] \<or> database = ''all'' \<or> isASCII database then []
      else if \<not> says_unknown_database tail then []
      else ''database name '' @ in_quotes database @ '' is not ASCII and the server falls back to latin1'')"

definition missing_privilege :: "string \<Rightarrow> string" where
  "missing_privilege l =
     (if Contains l ''show events'' \<or> Contains l ''SHOW EVENTS'' then ''EVENT''
      else if Contains l ''show triggers'' \<or> Contains l ''SHOW TRIGGERS'' then ''TRIGGER''
      else if Contains l ''SHOW CREATE PROCEDURE'' \<or> Contains l ''SHOW CREATE FUNCTION'' then ''SHOW_ROUTINE''
      else [])"

definition mysqlDumpPrivilegeHint :: "string \<Rightarrow> string \<Rightarrow> string list \<Rightarrow> string" where
  "mysqlDumpPrivilegeHint database username tail =
     (if database = [] then []
      else
        let scope = (if database = ''all'' then ''*.*'' else quoted_name database @ ''.*'');
            to' = '' TO '' @ in_quotes username;
            hint = (\<lambda>missing grant. ''mysqldump failed for want of '' @ missing @ ''; '' @ grant) in
        (case filter (\<lambda>m. m \<noteq> []) (map missing_privilege tail) of
           m # _ \<Rightarrow>
             if m = ''SHOW_ROUTINE'' then hint m (''GRANT SHOW_ROUTINE ON *.*'' @ to')
             else hint m (''GRANT '' @ m @ '' ON '' @ scope @ to')
         | [] \<Rightarrow>
             if list_ex (\<lambda>l. Contains l ''Access denied'' \<and> Contains l ''to database'') tail
             then hint ''an unknown privilege'' (''GRANT EVENT or TRIGGER ON '' @ scope @ to')
             else []))"

definition mysqlDumpFailureHint :: "string \<Rightarrow> string \<Rightarrow> string list \<Rightarrow> bool \<Rightarrow> string" where
  "mysqlDumpFailureHint database username tail legacy =
     (let q = mysqlDumpQuoteNameHint database tail; p = mysqlDumpPrivilegeHint database username tail in
      if q \<noteq> [] then q else if p \<noteq> [] then p
      else if legacy then [] else mysqlDumpNameCharsetHint database tail)"

section \<open>Versions and dumps\<close>

definition isMariaDBVersion :: "string \<Rightarrow> bool" where
  "isMariaDBVersion v = Contains (ToLower v) ''mariadb''"

definition mysqlMajorVersion :: "string \<Rightarrow> int" where
  "mysqlMajorVersion v =
     (let ds = takeWhile is_digit v in
      if ds = [] then 0 else (case Atoi ds of None \<Rightarrow> 0 | Some n \<Rightarrow> n))"

definition mysqlNeedsLegacyClient :: "string \<Rightarrow> bool" where
  "mysqlNeedsLegacyClient v \<longleftrightarrow> isMariaDBVersion v \<or> mysqlMajorVersion v < 8"

definition mysqlErrLockWaitTimeout :: "err \<Rightarrow> bool" where
  "mysqlErrLockWaitTimeout e \<longleftrightarrow>
     Contains (error_text e) ''1205'' \<or> Contains (ToLower (error_text e)) ''lock wait timeout''"

definition created_table :: "string \<Rightarrow> string option" where
  "created_table line0 =
     (let line = TrimSpace line0 in
      if \<not> HasPrefix (ToUpper line) ''CREATE TABLE '' then None
      else
        let after = TrimSpace (drop 13 line);
            after' = (if HasPrefix after ''IF NOT EXISTS '' then TrimSpace (drop 14 after) else after) in
        map_option fst (mysqlUnquoteIdentifier (TrimPrefix after' [backtick])))"

definition dump_tables :: "string list \<Rightarrow> string list" where
  "dump_tables ls = List.map_filter created_table ls"

definition dump_databases :: "string list \<Rightarrow> nat" where
  "dump_databases ls = length (filter (\<lambda>l. HasPrefix (ToUpper l) ''CREATE DATABASE'') ls)"

definition verifyTableSets :: "string list \<Rightarrow> string list \<Rightarrow> bool \<Rightarrow> string list" where
  "verifyTableSets want present fold' =
     (let norm = (\<lambda>s. if fold' then ToLower s else s) in
      sort (filter (\<lambda>w. norm w \<notin> norm ` set present) want))"

section \<open>Quoting cannot be left\<close>

lemma unquote_from_read:
  "unquote_from acc s =
     (case read_quoted backtick s of None \<Rightarrow> None
      | Some (t, r) \<Rightarrow> if acc @ t = [] then None else Some (acc @ t, r))"
  by (induction backtick s arbitrary: acc rule: read_quoted.induct) (auto split: option.splits)

text \<open>
  A quoted name is read back as the name.  Whatever bytes the name of a database or table holds,
  the server that reads the quoted form, and the program that reads it in a grant or in a dump, both
  get exactly that name and what followed the closing mark, so no name can end its own quotes; and a
  text inside a literal is read back in the same way.
\<close>

theorem quoted_names_are_read_back:
  assumes "\<not> HasPrefix after [backtick]" and "\<not> HasPrefix after' [apostrophe]"
  shows "read_quoted backtick (drop 1 (quoted_name v) @ after) = Some (v, after) \<and>
         mysqlUnquoteIdentifier (drop 1 (quoted_name v) @ after) = (if v = [] then None else Some (v, after)) \<and>
         read_quoted apostrophe (literal_body v @ apostrophe # after') = Some (v, after')"
  using assms by (simp add: quoted_name_def grant_name_def literal_body_def mysqlUnquoteIdentifier_def unquote_from_read
      read_doubled)

theorem quoted_names_are_read_back_witness:
  "mysqlUnquoteIdentifier (drop 1 (quoted_name [CHR ''a'', backtick, CHR '';'']) @ ''.*'') =
     Some ([CHR ''a'', backtick, CHR '';''], ''.*'')"
  using quoted_names_are_read_back [of "''.*''" "[]" "[CHR ''a'', backtick, CHR '';'']"] by simp

lemma option_value_one_line: "CHR 0x0A \<notin> set (mysqlOptionValue v)"
proof -
  have "CHR 0x0A \<notin> set (ReplaceChar (CHR 0x0A) [CHR 0x5C, CHR ''n''] s)" for s
    by (induction s) auto
  then show ?thesis by (simp add: mysqlOptionValue_def)
qed

text \<open>
  The option file always has the same six settings.  No user name, password or host name,
  whatever it contains, adds a line to the file or ends the quotes of its own value's line.
\<close>

theorem option_file_keeps_its_lines:
  "SplitChar (CHR 0x0A) (option_file user password host port) =
     [''[client]'', ''user='' @ mysqlOptionValue user, ''password='' @ in_quotes (mysqlOptionValue password),
      ''host='' @ in_quotes (mysqlOptionValue host), ''port='' @ dec_int port, ''default-character-set=utf8mb4'', []]"
  using option_value_one_line [of user] option_value_one_line [of password] option_value_one_line [of host]
    dec_int_one_line [of port]
  unfolding option_file_def by (subst split_lines) (auto simp: in_quotes_def)

section \<open>Table references\<close>

text \<open>
  A mark inside a quoted database name hides the database of a selected table.  The loop that
  splits \<open>--tables=\<close> entries does not skip the second of two marks, so the entry below, a table of
  database \<open>a`b\<close>, is taken for an unqualified name and handed to mysqldump, whereas the same entry
  with a plain database name is refused as a table of another database.
\<close>

theorem doubled_mark_hides_the_database:
  "mysqlSplitTableRef (quoted_name [CHR ''a'', backtick, CHR ''b''] @ CHR ''.'' # ''t'') = None \<and>
   (\<exists>rest tables. mysqlCheckTableArgs ''shop'' [''--tables='' @ quoted_name [CHR ''a'', backtick, CHR ''b''] @ ''.t''] =
      Inr (rest, tables) \<and> tables = [quoted_name [CHR ''a'', backtick, CHR ''b''] @ ''.t'']) \<and>
   (\<exists>e. mysqlCheckTableArgs ''shop'' [''--tables='' @ quoted_name ''ab'' @ ''.t''] = Inl e)"
proof -
  have a: "mysqlSplitTableRef (quoted_name [CHR ''a'', backtick, CHR ''b''] @ ''.t'') = None"
    "mysqlCheckTableArgs ''shop'' [''--tables='' @ quoted_name [CHR ''a'', backtick, CHR ''b''] @ ''.t''] =
       Inr ([], [quoted_name [CHR ''a'', backtick, CHR ''b''] @ ''.t''])"
    "isl (mysqlCheckTableArgs ''shop'' [''--tables='' @ quoted_name ''ab'' @ ''.t''])"
    by code_simp+
  then show ?thesis by (auto simp: isl_def)
qed

lemma verifyTableSets_Nil:
  "verifyTableSets want present f = [] \<longleftrightarrow>
     (if f then ToLower ` set want \<subseteq> ToLower ` set present else set want \<subseteq> set present)"
proof -
  have "sort xs = [] \<longleftrightarrow> xs = []" for xs :: "string list" by (metis length_0_conv length_sort)
  then show ?thesis by (auto simp: verifyTableSets_def Let_def filter_empty_conv)
qed

text \<open>
  The case mapping of Go changes the length of a text.  A database whose name holds the letter
  U+0131 (two bytes, whose upper case is one byte) shifts the positions found in the upper-case copy
  of a grant, so the grant of SELECT on that database is not recognised and its backup is refused.
\<close>

theorem grant_on_dotless_i_is_lost:
  "mysqlSelectScope [''GRANT SELECT ON '' @ quoted_name [CHR 0xC4, CHR 0xB1] @ ''.* TO root''] = no_scope \<and>
   sc_schemas (mysqlSelectScope [''GRANT SELECT ON '' @ quoted_name ''i'' @ ''.* TO root'']) = [''i'']"
  by code_simp

end
