(* ===== verification/MySQL.thy ===== *)
theory MySQL
  imports MySQL_Text
begin

text \<open>
  The MySQL adapter (\<open>internal/agent/backup/mysql.go\<close>): the dump with the checks before and after it,
  and the control plane of a restore.  \<open>hs\<close> is the host under the context of the run, \<open>bg\<close> the host
  under a context of its own.
\<close>

section \<open>Choosing the client\<close>

record mysql_tools =
  mt_dump :: string
  mt_client :: string
  mt_modern :: bool
  mt_legacy :: bool

definition defaults_arg :: "string \<Rightarrow> string" where
  "defaults_arg cnf = ''--defaults-extra-file='' @ cnf"

definition quick_query :: "string \<Rightarrow> string \<Rightarrow> string \<Rightarrow> cmd" where
  "quick_query client cnf q = tool_cmd client [defaults_arg cnf, ''-N'', ''-s'', ''-e'', q] []"

definition selectMySQLTools :: "'h toolbox \<Rightarrow> 'h host \<Rightarrow> string \<Rightarrow> 'h shell \<Rightarrow> mysql_tools \<times> 'h shell" where
  "selectMySQLTools tb hs cnf s =
     (let modern = \<lparr>mt_dump = tool tb ''mysqldump'', mt_client = tool tb ''mysql'', mt_modern = True, mt_legacy = False\<rparr> in
      case (tb_look tb ''mysqldump57'', tb_look tb ''mysql57'') of
        (Some dump57, Some client57) \<Rightarrow>
          (let (o', s') = Run hs (quick_query (mt_client modern) cnf ''SELECT VERSION()'') s;
               version = first_text (outs_of (out_lines o')) in
           (if run_err o' \<noteq> None \<or> version = [] then modern
            else if mysqlNeedsLegacyClient version
            then \<lparr>mt_dump = dump57, mt_client = client57, mt_modern = False, mt_legacy = True\<rparr>
            else modern, s'))
      | _ \<Rightarrow> (modern, s))"

section \<open>Checks before a dump\<close>

definition mysql_Validate :: "kind \<Rightarrow> plan_source \<Rightarrow> err option" where
  "mysql_Validate k src =
     (if k \<noteq> KindMySQL then Some (Plain (''invalid kind: '' @ kind_text k))
      else if src_host src = [] then Some (Plain ''host is required'')
      else if src_port src \<le> 0 then Some (Plain ''port must be > 0'')
      else if src_username src = [] then Some (Plain ''username is required'')
      else if src_database src = [] then Some (Plain ''database is required (single name or all)'')
      else if src_estimated_dump_bytes src \<le> 0 then Some (Plain ''estimated_dump_bytes must be > 0'')
      else case ValidateExtraArgs KindMySQL (src_extra_args src) of
        Inl e \<Rightarrow> Some (Plain e)
      | Inr _ \<Rightarrow>
          if src_database src = ''all'' \<and> list_ex (\<lambda>a. HasPrefix a ''--tables='') (src_extra_args src)
          then Some (Plain ''--tables is for single databases only'') else None)"

definition mysqlViewCount :: "'h host \<Rightarrow> string \<Rightarrow> string \<Rightarrow> string \<Rightarrow> 'h shell \<Rightarrow> int option \<times> 'h shell" where
  "mysqlViewCount hs client cnf database s =
     (let (o', s') = Run hs (quick_query client cnf
            (''SELECT COUNT(*) FROM information_schema.VIEWS WHERE TABLE_SCHEMA = '' @
             schema_literal database)) s in
      (if failed o' then None else Atoi (last_text (outs_of (out_lines o'))), s'))"

definition mysqlCheckViewScope ::
  "'h host \<Rightarrow> string \<Rightarrow> string \<Rightarrow> read_scope \<Rightarrow> string \<Rightarrow> string \<Rightarrow> 'h shell \<Rightarrow> (err + unit) \<times> 'h shell" where
  "mysqlCheckViewScope hs client cnf sc username database s =
     (if sc_view_global sc \<or> database \<in> set (sc_view_schemas sc) then (Inr (), s)
      else case mysqlViewCount hs client cnf database s of
        (None, s') \<Rightarrow> (Inr (), log_line ''warn'' ''cannot tell whether %q has views, account %q lacks SHOW VIEW'' [database, username] s')
      | (Some n, s') \<Rightarrow>
          (if n = 0 then Inr ()
           else Inl (Plain (''mysql dump refused: account '' @ in_quotes username @ '' has no SHOW VIEW on '' @ in_quotes database @
                            '', which has '' @ dec_int n @ '' views; GRANT SHOW VIEW ON '' @ quoted_name database @ ''.* TO '' @
                            in_quotes username)), s'))"

definition checkMySQLReadScope ::
  "'h host \<Rightarrow> string \<Rightarrow> string \<Rightarrow> string \<Rightarrow> string \<Rightarrow> string list \<Rightarrow> 'h shell \<Rightarrow> (err + unit) \<times> 'h shell" where
  "checkMySQLReadScope hs client cnf username database args s0 =
     (let (o', s) = run_noted False True hs (quick_query client cnf ''SHOW GRANTS FOR CURRENT_USER()'') s0;
          sc = mysqlSelectScope (nonblank (outs_of (out_lines o')));
          explicit = mysqlExplicitTableSelection args in
      if failed o'
      then (Inl (around (''cannot confirm the grants of account '' @ in_quotes username @ '', refusing the dump'')
                   (tool_error ''mysql client SHOW GRANTS'' o' (nonblank (errs_of (out_lines o'))))), s)
      else
        then_do (unless_error (if database = ''all'' then mysqlCheckInstanceScope sc username else None, s)) (\<lambda>_ s.
        then_do (unless_error (if explicit then None else mysqlCheckTableScope sc username database, s)) (\<lambda>_ s.
        then_do (if explicit \<or> database = ''all'' then (Inr (), s)
                 else mysqlCheckViewScope hs client cnf sc username database s) (\<lambda>_ s.
        let (e, notes) = mysqlCheckObjectPrivileges sc username database args in
        unless_error (e, note_lines notes s)))))"

section \<open>The dump\<close>

definition non_transactional_query :: "string \<Rightarrow> string" where
  "non_transactional_query database =
     ''SELECT COUNT(*) FROM information_schema.tables WHERE table_schema NOT IN ('' @ lit ''information_schema'' @
     '','' @ lit ''mysql'' @ '','' @ lit ''performance_schema'' @ '','' @ lit ''sys'' @
     '') AND engine IS NOT NULL AND UPPER(engine) NOT IN ('' @ lit ''INNODB'' @ '','' @ lit ''NDBCLUSTER'' @ '')'' @
     (if database \<noteq> [] \<and> database \<noteq> ''all''
      then '' AND table_schema = '' @ schema_literal database else [])"

definition warn_non_transactional :: "'h host \<Rightarrow> string \<Rightarrow> string \<Rightarrow> string \<Rightarrow> 'h shell \<Rightarrow> 'h shell" where
  "warn_non_transactional hs client cnf database s0 =
     (let (o', s) = run_noted False True hs (quick_query client cnf (non_transactional_query database)) s0 in
      case run_err o' of
        Some e \<Rightarrow> log_line ''warn'' ''could not check non-transactional MySQL tables: %v'' [error_text e] s
      | None \<Rightarrow>
          if exit_code o' \<noteq> 0
          then log_line ''warn'' ''could not check non-transactional MySQL tables: mysql client exit %d'' [dec_int (exit_code o')] s
          else (case Atoi (last_text (outs_of (out_lines o'))) of
                  Some n \<Rightarrow> if 0 < n then log_line ''warn'' ''detected %d non-transactional MySQL tables'' [dec_int n] s else s
                | None \<Rightarrow> s))"

definition dump_args :: "string \<Rightarrow> bool \<Rightarrow> string \<Rightarrow> string list \<Rightarrow> string \<Rightarrow> string list \<Rightarrow> string list" where
  "dump_args cnf modern file extra database tables =
     [defaults_arg cnf, ''--single-transaction'', ''--quick'', ''--routines'', ''--events'', ''--triggers'',
      ''--hex-blob'', ''--no-tablespaces''] @
     (if modern then [''--column-statistics=0''] else []) @ [''--result-file='' @ file] @ extra @
     (if database = ''all'' then [''--all-databases''] else [''--'', database] @ tables)"

definition mysqlDumpDatabaseCount :: "'h host \<Rightarrow> string \<Rightarrow> 'h \<Rightarrow> err + nat" where
  "mysqlDumpDatabaseCount hs path h =
     (case read_file hs path h of
        Inl e \<Rightarrow> Inl (around ''open mysql dump'' e)
      | Inr c \<Rightarrow> (case scan_lines c of Inl e \<Rightarrow> Inl (around ''scan mysql dump'' e) | Inr ls \<Rightarrow> Inr (dump_databases ls)))"

definition check_instance_dump :: "'h host \<Rightarrow> string \<Rightarrow> string \<Rightarrow> 'h shell \<Rightarrow> (err + unit) \<times> 'h shell" where
  "check_instance_dump hs database file s =
     (if database \<noteq> ''all'' then (Inr (), s)
      else case mysqlDumpDatabaseCount hs file (sh_host s) of
        Inl e \<Rightarrow> (Inl e, s)
      | Inr n \<Rightarrow>
          if n = 0 then (Inl (Plain ''mysqldump --all-databases wrote no CREATE DATABASE''), s)
          else (Inr (), log_line ''info'' ''the dump of the instance has %d CREATE DATABASE'' [dec_nat n] s))"

text \<open>Character set and collation of the source, as far as they are valid names.\<close>

definition charset_hints :: "'h host \<Rightarrow> string \<Rightarrow> string \<Rightarrow> string \<Rightarrow> 'h shell \<Rightarrow> (string \<times> string) list \<times> 'h shell" where
  "charset_hints hs client cnf database s0 =
     (if database = [] \<or> database = ''all'' then ([], s0)
      else
        let (o', s) = run_noted False True hs (quick_query client cnf
              (''SELECT DEFAULT_CHARACTER_SET_NAME, DEFAULT_COLLATION_NAME FROM information_schema.SCHEMATA WHERE SCHEMA_NAME = '' @
               schema_literal database)) s0;
            rows = filter (\<lambda>fs. 2 \<le> length fs) (map Fields (outs_of (out_lines o'))) in
        (if failed o' \<or> rows = [] then []
         else filter (\<lambda>(k, v). validCharsetName v)
                [(''charset'', last rows ! 0), (''collation'', last rows ! 1)], s))"

definition mysql_Backup ::
  "'h toolbox \<Rightarrow> 'h host \<Rightarrow> string \<Rightarrow> secret_bundle \<Rightarrow> string \<Rightarrow> plan_source \<Rightarrow> 'h shell \<Rightarrow> (err + artifact) \<times> 'h shell" where
  "mysql_Backup tb hs plan secrets tempDir src s =
     then_do (mysqlCheckTableArgs (src_database src) (src_extra_args src), s) (\<lambda>(extra, tables) s.
     let staging = Join2 tempDir ''staging''; database = src_database src in
     then_do (map_err (around ''mkdir staging'') (unless_error (on_host (mkdir_all hs staging) s))) (\<lambda>_ s.
     then_do (map_err (around ''write my.cnf'') (WriteSecretFile hs tempDir ''my.cnf''
                (option_file (src_username src) (sb_db_password secrets) (src_host src) (src_port src)) s)) (\<lambda>cnf s.
     let (tools, s) = selectMySQLTools tb hs cnf s;
         s = (if mt_legacy tools then log_line ''info'' ''using the MySQL 5.7 client'' [] s else s) in
     then_do (checkMySQLReadScope hs (mt_client tools) cnf (src_username src) database (src_extra_args src) s) (\<lambda>_ s.
     let s = warn_non_transactional hs (mt_client tools) cnf database s;
         file = Join2 staging (plan @ ''.sql'');
         (o', s) = run_noted True True hs
            (tool_cmd (mt_dump tools) (dump_args cnf (mt_modern tools) file extra database tables) []) s;
         tail = tail_after [] o'; hint = mysqlDumpFailureHint database (src_username src) tail (mt_legacy tools) in
     if failed o'
     then (Inl (tool_error ''mysqldump'' o' tail), if hint = [] then s else log_line ''warn'' ''%s'' [hint] s)
     else then_do (check_instance_dump hs database file s) (\<lambda>_ s.
       let (version, s) = getToolVersion hs (mt_dump tools) [] s;
           (charset, s) = charset_hints hs (mt_client tools) cnf database s in
       finish_dump hs staging
         (dump_manifest KindMySQL [(''mysqldump'', version)]
            [\<lparr>exp_database = database, exp_file = Base file, exp_format = ''sql''\<rparr>]
            (tb_now tb (sh_host s)) (tb_now tb (sh_host s))
            ([(''host'', src_host src), (''port'', dec_int (src_port src)), (''username'', src_username src)] @ charset)) s)))))"

section \<open>The control plane of a restore\<close>

record mysql_ctx =
  mc_cnf :: string
  mc_client :: string
  mc_target :: db_target

definition mysqlPrepare ::
  "'h toolbox \<Rightarrow> 'h host \<Rightarrow> 'h host \<Rightarrow> restore_spec \<Rightarrow> 'h shell \<Rightarrow> (err + mysql_ctx) \<times> 'h shell" where
  "mysqlPrepare tb hs bg spec s =
     (let t = rs_database spec in
      if dbt_database t = [] \<or> dbt_database t = ''all''
      then (Inl (Plain ''mysql restore requires a single target database''), s)
      else if IsSystemDatabase KindMySQL (dbt_database t)
      then (Inl (Plain (''refusing to restore into system schema '' @ in_quotes (dbt_database t))), s)
      else
        then_do (map_err (around ''write my.cnf'') (WriteSecretFile hs (rs_staging_dir spec) ''my.cnf''
                   (option_file (dbt_username t) (sb_db_password (rs_secrets spec)) (dbt_host t) (dbt_port t)) s)) (\<lambda>cnf s.
        let (tools, s) = selectMySQLTools tb bg cnf s in
        (Inr \<lparr>mc_cnf = cnf, mc_client = mt_client tools, mc_target = t\<rparr>, s)))"

definition target_args :: "mysql_ctx \<Rightarrow> string list" where
  "target_args c =
     [defaults_arg (mc_cnf c), ''--binary-mode'', ''-h'', dbt_host (mc_target c), ''-P'', dec_int (dbt_port (mc_target c)),
      ''-u'', dbt_username (mc_target c)]"

definition statement :: "mysql_ctx \<Rightarrow> string \<Rightarrow> cmd" where
  "statement c q = tool_cmd (mc_client c) (target_args c @ [''-N'', ''-e'', q]) []"

text \<open>The error, if any, and the lines that were read, which the caller has then seen already.\<close>

definition runQuery :: "'h host \<Rightarrow> mysql_ctx \<Rightarrow> string \<Rightarrow> 'h shell \<Rightarrow> (err option \<times> string list) \<times> 'h shell" where
  "runQuery hs c q s0 =
     (let (o', s) = run_noted False True hs (statement c q) s0;
          tail = TrimSpace (lines_text (nonblank (errs_of (out_lines o'))));
          base = exitError ''mysql query'' (exit_code o') (run_err o') in
      ((if \<not> failed o' then None else if tail = [] then Some base else Some (Around [] base ('': '' @ tail)),
        nonblank (outs_of (out_lines o'))), s))"

definition query_lines :: "'h host \<Rightarrow> mysql_ctx \<Rightarrow> string \<Rightarrow> 'h shell \<Rightarrow> (err + string list) \<times> 'h shell" where
  "query_lines hs c q s =
     (let ((e, ls), s') = runQuery hs c q s in (case e of None \<Rightarrow> Inr ls | Some x \<Rightarrow> Inl x, s'))"

definition mysql_TargetExists ::
  "'h toolbox \<Rightarrow> 'h host \<Rightarrow> 'h host \<Rightarrow> restore_spec \<Rightarrow> 'h shell \<Rightarrow> (err + bool) \<times> 'h shell" where
  "mysql_TargetExists tb hs bg spec s =
     then_do (mysqlPrepare tb hs bg spec s) (\<lambda>c s.
     then_do (map_err (around ''cannot determine whether the target exists'')
                (query_lines hs c (''SELECT 1 FROM information_schema.schemata WHERE schema_name = '' @
                                   schema_literal (dbt_database (mc_target c))) s)) (\<lambda>ls s.
     (Inr (ls \<noteq> []), s)))"

definition sessions_query :: "string \<Rightarrow> string" where
  "sessions_query db =
     ''SELECT CONCAT('' @ lit ''session '' @ '', id, '' @ lit '' user='' @ '', user, '' @ lit '' host='' @
     '', host, '' @ lit '' cmd='' @ '', command, '' @ lit '' time='' @ '', time, '' @ lit '' state='' @
     '', state) FROM information_schema.processlist WHERE db = '' @
     schema_literal db @ '' AND id <> CONNECTION_ID()''"

definition locks_query :: "string \<Rightarrow> string" where
  "locks_query db =
     ''SELECT CONCAT('' @ lit ''metadata lock '' @ '', LOCK_TYPE, '' @ lit '' on '' @ '', OBJECT_SCHEMA, '' @
     lit ''.'' @ '', IFNULL(OBJECT_NAME, '' @ lit ''-'' @
     '')) FROM performance_schema.metadata_locks WHERE OBJECT_SCHEMA = '' @
     schema_literal db @ '' AND LOCK_STATUS = '' @ lit ''GRANTED''"

definition mysql_Preflight ::
  "'h toolbox \<Rightarrow> 'h host \<Rightarrow> 'h host \<Rightarrow> restore_spec \<Rightarrow> 'h shell \<Rightarrow> err option \<times> 'h shell" where
  "mysql_Preflight tb hs bg spec s =
     (case mysqlPrepare tb hs bg spec s of
        (Inl e, s) \<Rightarrow> (Some e, s)
      | (Inr c, s) \<Rightarrow>
          let target = dbt_database (mc_target c) in
          if EqualFold target ''all'' then (None, s)
          else (case query_lines hs c (sessions_query target) s of
            (Inl e, s) \<Rightarrow> (Some (around ''check target database sessions'' e), s)
          | (Inr busy, s) \<Rightarrow>
              let ((e, mdl), s) = runQuery hs c (locks_query target) s;
                  s = (case e of None \<Rightarrow> s
                       | Some x \<Rightarrow> log_line ''warn'' ''cannot query metadata_locks: %v'' [error_text x] s);
                  held = busy @ mdl in
              (if held = [] then None
               else Some (Around [] TargetOccupied ('': target database '' @ in_quotes target @ '' still has '' @
                      dec_nat (length held) @ '' active lock(s)/session(s) ('' @ JoinWith ''; '' held @
                      ''): close all target connections and retry'')), s)))"

definition charset_suffix :: "restore_spec \<Rightarrow> string" where
  "charset_suffix spec =
     (if validCharsetName (rs_artifact_charset spec)
      then '' CHARACTER SET '' @ rs_artifact_charset spec @
           (if validCharsetName (rs_artifact_collation spec) then '' COLLATE '' @ rs_artifact_collation spec else [])
      else [])"

definition mysqlDropLockWaitSeconds :: int where "mysqlDropLockWaitSeconds = 30"

definition setup_statement :: "restore_spec \<Rightarrow> string" where
  "setup_statement spec =
     (let q = quoted_name (dbt_database (rs_database spec)); create = ''CREATE DATABASE '' @ q @ charset_suffix spec in
      if rs_target_is_new spec then create
      else ''SET SESSION lock_wait_timeout = '' @ dec_int mysqlDropLockWaitSeconds @ ''; DROP DATABASE IF EXISTS '' @ q @
           ''; '' @ create)"

definition import_cmd :: "mysql_ctx \<Rightarrow> string \<Rightarrow> cmd" where
  "import_cmd c file =
     \<lparr>cmd_exe = mc_client c, cmd_args = target_args c @ [''--'', dbt_database (mc_target c)], cmd_env = [], cmd_dir = [],
      cmd_stdin = file\<rparr>"

definition mysql_Import ::
  "'h toolbox \<Rightarrow> 'h host \<Rightarrow> 'h host \<Rightarrow> restore_spec \<Rightarrow> 'h shell \<Rightarrow> err option \<times> 'h shell" where
  "mysql_Import tb hs bg spec s =
     (case mysqlPrepare tb hs bg spec s of
        (Inl e, s) \<Rightarrow> (Some e, s)
      | (Inr c, s) \<Rightarrow>
          if rs_artifact_file spec = [] then (Some (Plain ''mysql restore artifact is missing''), s)
          else (case query_lines hs c (setup_statement spec) s of
            (Inl e, s) \<Rightarrow>
              (Some (if mysqlErrLockWaitTimeout e
                     then around (''target database '' @ in_quotes (dbt_database (mc_target c)) @
                            '' is locked by another session (lock wait timeout '' @ dec_int mysqlDropLockWaitSeconds @
                            ''s); close all target connections and retry'') e
                     else around ''prepare mysql target database'' e), s)
          | (Inr _, s) \<Rightarrow>
              let (o', s) = run_noted True True hs (import_cmd c (rs_artifact_file spec)) s in
              (if failed o' then Some (tool_error ''mysql restore'' o' (tail_after [] o')) else None, s)))"

definition mysqlDumpTableNames :: "'h host \<Rightarrow> string \<Rightarrow> 'h \<Rightarrow> err + string list" where
  "mysqlDumpTableNames hs path h =
     (case read_file hs path h of
        Inl e \<Rightarrow> Inl (around ''open mysql dump'' e)
      | Inr c \<Rightarrow> (case scan_lines c of Inl e \<Rightarrow> Inl (around ''scan mysql dump'' e) | Inr ls \<Rightarrow> Inr (dump_tables ls)))"

definition folds_names :: "string list \<Rightarrow> bool" where
  "folds_names ls = foldl (\<lambda>f l. case Atoi l of None \<Rightarrow> f | Some n \<Rightarrow> n \<noteq> 0) True ls"

definition tables_query :: "string \<Rightarrow> string" where
  "tables_query db =
     ''SELECT table_name FROM information_schema.tables WHERE table_type = '' @ lit ''BASE TABLE'' @
     '' AND table_schema = '' @ schema_literal db"

definition mysql_VerifyRestored ::
  "'h toolbox \<Rightarrow> 'h host \<Rightarrow> 'h host \<Rightarrow> restore_spec \<Rightarrow> 'h shell \<Rightarrow> err option \<times> 'h shell" where
  "mysql_VerifyRestored tb hs bg spec s =
     (case mysqlPrepare tb hs bg spec s of
        (Inl e, s) \<Rightarrow> (Some e, s)
      | (Inr c, s) \<Rightarrow>
          (case mysqlDumpTableNames hs (rs_artifact_file spec) (sh_host s) of
             Inl e \<Rightarrow> (Some e, s)
           | Inr want \<Rightarrow>
               let ((e, ls), s) = runQuery hs c ''SELECT @@lower_case_table_names'' s;
                   s = (if e = None then s
                        else log_line ''warn'' ''mysql verification: cannot read lower_case_table_names'' [] s) in
               (case query_lines hs c (tables_query (dbt_database (mc_target c))) s of
                  (Inl e, s) \<Rightarrow> (Some e, s)
                | (Inr present, s) \<Rightarrow>
                    let missing = verifyTableSets want present (folds_names ls) in
                    if missing \<noteq> []
                    then (Some (Plain (''mysql restore verification failed: missing tables '' @ JoinWith '' '' missing)), s)
                    else (None, log_line ''info'' ''mysql verification: %d tables present, %d expected''
                            [dec_nat (length present), dec_nat (length want)] s))))"

definition drop_statement :: "string \<Rightarrow> string" where
  "drop_statement db = ''DROP DATABASE IF EXISTS '' @ quoted_name db"

definition mysql_RemoveTarget ::
  "'h toolbox \<Rightarrow> 'h host \<Rightarrow> 'h host \<Rightarrow> restore_spec \<Rightarrow> 'h shell \<Rightarrow> err option \<times> 'h shell" where
  "mysql_RemoveTarget tb hs bg spec s =
     (if \<not> rs_target_is_new spec then (Some (Plain ''refusing to remove a target this run did not create''), s)
      else case mysqlPrepare tb hs bg spec s of
        (Inl e, s) \<Rightarrow> (Some e, s)
      | (Inr c, s) \<Rightarrow>
          (case query_lines hs c (drop_statement (dbt_database (mc_target c))) s of
             (Inl e, s) \<Rightarrow> (Some (around ''drop mysql target database'' e), s)
           | (Inr _, s) \<Rightarrow> (None, s)))"

definition mysql_engine :: "'h toolbox \<Rightarrow> 'h host \<Rightarrow> 'h host \<Rightarrow> 'h engine" where
  "mysql_engine tb hs bg =
     \<lparr>eng_Preflight = Some (mysql_Preflight tb hs bg), eng_TargetExists = mysql_TargetExists tb hs bg,
      eng_Import = mysql_Import tb hs bg, eng_VerifyRestored = mysql_VerifyRestored tb hs bg,
      eng_RemoveTarget = mysql_RemoveTarget tb hs bg\<rparr>"

definition mysql_adapter :: "'h toolbox \<Rightarrow> 'h host \<Rightarrow> 'h host \<Rightarrow> 'h adapter" where
  "mysql_adapter tb hs bg =
     \<lparr>ad_Validate = (\<lambda>src h. mysql_Validate KindMySQL src), ad_Backup = mysql_Backup tb hs,
      ad_engine = Some (\<lambda>detached. mysql_engine tb (if detached then bg else hs) bg)\<rparr>"

section \<open>What an import runs\<close>


lemma tools_ran:
  assumes "selectMySQLTools tb hs cnf s = (tools, s')"
  shows "\<exists>probe. sh_ran s' = sh_ran s @ probe \<and> set probe \<subseteq> {quick_query (tool tb ''mysql'') cnf ''SELECT VERSION()''}"
proof (cases "tb_look tb ''mysqldump57'' = None \<or> tb_look tb ''mysql57'' = None")
  case True
  with assms have "s' = s" by (auto simp: selectMySQLTools_def Let_def split: option.splits)
  then show ?thesis by (intro exI [of _ "[]"]) simp
next
  case False
  obtain o' s1 where r: "Run hs (quick_query (tool tb ''mysql'') cnf ''SELECT VERSION()'') s = (o', s1)" by force
  with False assms have "s' = s1" by (auto simp: selectMySQLTools_def Let_def)
  with Run_ran [OF r] show ?thesis by (intro exI [of _ "[quick_query (tool tb ''mysql'') cnf ''SELECT VERSION()'']"]) simp
qed

lemma mysqlPrepare_target: "mysqlPrepare tb hs bg spec s = (Inr c, s') \<Longrightarrow> mc_target c = rs_database spec"
  unfolding mysqlPrepare_def Let_def by (auto split: if_splits prod.splits elim!: then_doE map_errE)

definition version_probe :: "'h toolbox \<Rightarrow> cmd \<Rightarrow> bool" where
  "version_probe tb p \<longleftrightarrow> (\<exists>cnf. p = quick_query (tool tb ''mysql'') cnf ''SELECT VERSION()'')"

lemma mysqlPrepare_ran:
  assumes "mysqlPrepare tb hs bg spec s = (x, s')"
  shows "\<exists>probe. sh_ran s' = sh_ran s @ probe \<and> list_all (version_probe tb) probe"
proof (cases x)
  case (Inl e)
  with assms have "sh_ran s' = sh_ran s"
    unfolding mysqlPrepare_def Let_def by (auto split: if_splits prod.splits elim!: then_doE map_errE dest: secret_ran)
  then show ?thesis by simp
next
  case (Inr c)
  with assms obtain cnf s1 tools where w: "WriteSecretFile hs (rs_staging_dir spec) ''my.cnf''
       (option_file (dbt_username (rs_database spec)) (sb_db_password (rs_secrets spec)) (dbt_host (rs_database spec))
         (dbt_port (rs_database spec))) s = (Inr cnf, s1)"
    and t: "selectMySQLTools tb bg cnf s1 = (tools, s')"
    unfolding mysqlPrepare_def Let_def by (auto split: if_splits prod.splits elim!: then_doE map_errE)
  from secret_ran [OF w] tools_ran [OF t] show ?thesis
    by (auto simp: list_all_iff version_probe_def subset_iff)
qed

lemma query_lines_ok:
  assumes "query_lines hs c q s = (Inr ls, s')"
  shows "\<not> failed (fst (run_cmd hs (statement c q) (sh_host s)))"
    and "ls = nonblank (outs_of (out_lines (fst (run_cmd hs (statement c q) (sh_host s)))))"
proof -
  obtain o' s1 where r: "run_noted False True hs (statement c q) s = (o', s1)" by force
  from assms r run_noted_ran(2) [OF r]
  show "\<not> failed (fst (run_cmd hs (statement c q) (sh_host s)))"
    and "ls = nonblank (outs_of (out_lines (fst (run_cmd hs (statement c q) (sh_host s)))))"
    by (auto simp: query_lines_def runQuery_def Let_def split: if_splits option.splits)
qed

lemma query_lines_ran: "query_lines hs c q s = (x, s') \<Longrightarrow> sh_ran s' = sh_ran s @ [statement c q]"
  by (auto simp: query_lines_def runQuery_def Let_def split: prod.splits dest: run_noted_ran(1))

text \<open>
  An import into MySQL runs at most two statements on the target, and never loads before the first has
  succeeded: one command prepares the database, one loads the dump.  For a target that does not exist yet the
  first is a bare CREATE DATABASE, which the server refuses when the database has appeared meanwhile, so
  that no existing database is ever loaded over; and an import that succeeded has run both.
\<close>

theorem mysql_import_commands:
  assumes "mysql_Import tb hs bg spec s = (e, s')"
  shows "\<exists>c probe ran. sh_ran s' = sh_ran s @ probe @ ran \<and> list_all (version_probe tb) probe \<and>
    (ran = [] \<and> e \<noteq> None \<or> ran = [statement c (setup_statement spec)] \<and> e \<noteq> None \<or>
     ran = [statement c (setup_statement spec), import_cmd c (rs_artifact_file spec)] \<and>
       (\<exists>h. \<not> failed (fst (run_cmd hs (statement c (setup_statement spec)) h)))) \<and>
    mc_target c = rs_database spec \<and>
    (rs_target_is_new spec \<longrightarrow>
       setup_statement spec = ''CREATE DATABASE '' @ quoted_name (dbt_database (rs_database spec)) @ charset_suffix spec)"
proof -
  let ?new = "rs_target_is_new spec \<longrightarrow>
       setup_statement spec = ''CREATE DATABASE '' @ quoted_name (dbt_database (rs_database spec)) @ charset_suffix spec"
  have new: ?new by (simp add: setup_statement_def Let_def)
  obtain x s1 where p: "mysqlPrepare tb hs bg spec s = (x, s1)" by force
  from mysqlPrepare_ran [OF p] obtain probe where pr: "sh_ran s1 = sh_ran s @ probe" "list_all (version_probe tb) probe"
    by blast
  show ?thesis
  proof (cases "(\<exists>e1. x = Inl e1) \<or> rs_artifact_file spec = []")
    case True
    with assms p have "s' = s1" "e \<noteq> None" by (cases x; auto simp: mysql_Import_def)+
    with pr new show ?thesis
      by (intro exI [of _ "\<lparr>mc_cnf = [], mc_client = [], mc_target = rs_database spec\<rparr>"] exI [of _ probe] exI [of _ "[]"]) auto
  next
    case False
    then obtain c where x: "x = Inr c" by (cases x) auto
    from mysqlPrepare_target p x have c: "mc_target c = rs_database spec" by blast
    obtain y s2 where q: "query_lines hs c (setup_statement spec) s1 = (y, s2)" by force
    from query_lines_ran [OF q] pr have ran2: "sh_ran s2 = sh_ran s @ probe @ [statement c (setup_statement spec)]" by simp
    show ?thesis
    proof (cases y)
      case (Inl e1)
      with assms p x q False have "s' = s2" "e \<noteq> None" by (auto simp: mysql_Import_def)
      with ran2 pr new c show ?thesis
        by (intro exI [of _ c] exI [of _ probe] exI [of _ "[statement c (setup_statement spec)]"]) auto
    next
      case (Inr ls)
      obtain o' s3 where r: "run_noted True True hs (import_cmd c (rs_artifact_file spec)) s2 = (o', s3)" by force
      with assms p x q Inr False have "s' = s3" by (auto simp: mysql_Import_def)
      with run_noted_ran(1) [OF r] ran2 pr new c query_lines_ok(1) [of hs c "setup_statement spec" s1 ls s2] q Inr show ?thesis
        by (intro exI [of _ c] exI [of _ probe]
              exI [of _ "[statement c (setup_statement spec), import_cmd c (rs_artifact_file spec)]"]) auto
    qed
  qed
qed

theorem mysql_import_commands_witness:
  "\<exists>c probe ran. sh_ran (snd (mysql_Import demo_tools (demo_host (\<lambda>_. quiet)) (demo_host (\<lambda>_. quiet)) demo_spec demo_shell)) =
      sh_ran demo_shell @ probe @ ran \<and> list_all (version_probe demo_tools) probe \<and>
    (ran = [] \<and> fst (mysql_Import demo_tools (demo_host (\<lambda>_. quiet)) (demo_host (\<lambda>_. quiet)) demo_spec demo_shell) \<noteq> None \<or>
     ran = [statement c (setup_statement demo_spec)] \<and>
       fst (mysql_Import demo_tools (demo_host (\<lambda>_. quiet)) (demo_host (\<lambda>_. quiet)) demo_spec demo_shell) \<noteq> None \<or>
     ran = [statement c (setup_statement demo_spec), import_cmd c (rs_artifact_file demo_spec)] \<and>
       (\<exists>h. \<not> failed (fst (run_cmd (demo_host (\<lambda>_. quiet)) (statement c (setup_statement demo_spec)) h))))"
  using mysql_import_commands [of demo_tools "demo_host (\<lambda>_. quiet)" "demo_host (\<lambda>_. quiet)" demo_spec demo_shell,
      OF prod.collapse [symmetric]] by blast

text \<open>
  A verified MySQL restore holds the tables of the dump.  When the verification succeeds, the dump file was
  read to its end, the server answered the question for the base tables of the target, and every table the
  dump creates is in that answer, up to case where the server folds the names.
\<close>

theorem verified_mysql_restore_has_all_tables:
  assumes "mysql_VerifyRestored tb hs bg spec s = (None, s')"
  shows "\<exists>content ls c h fold_names. (\<exists>h0. read_file hs (rs_artifact_file spec) h0 = Inr content) \<and> scan_lines content = Inr ls \<and>
    mc_target c = rs_database spec \<and>
    (let answer = fst (run_cmd hs (statement c (tables_query (dbt_database (rs_database spec)))) h);
         present = nonblank (outs_of (out_lines answer)) in
     \<not> failed answer \<and>
     list_all (\<lambda>t. if fold_names then list_ex (\<lambda>p. ToLower p = ToLower t) present else t \<in> set present) (dump_tables ls))"
proof -
  obtain x s1 where p: "mysqlPrepare tb hs bg spec s = (x, s1)" by force
  with assms obtain c where x: "x = Inr c" by (cases x) (auto simp: mysql_VerifyRestored_def)
  from mysqlPrepare_target p x have c: "mc_target c = rs_database spec" by blast
  from assms p x obtain want where w: "mysqlDumpTableNames hs (rs_artifact_file spec) (sh_host s1) = Inr want"
    by (cases "mysqlDumpTableNames hs (rs_artifact_file spec) (sh_host s1)") (auto simp: mysql_VerifyRestored_def)
  then obtain content ls where content: "read_file hs (rs_artifact_file spec) (sh_host s1) = Inr content" "scan_lines content = Inr ls"
    and want: "want = dump_tables ls"
    by (auto simp: mysqlDumpTableNames_def split: sum.splits)
  obtain e names s2 where v: "runQuery hs c ''SELECT @@lower_case_table_names'' s1 = ((e, names), s2)" by (metis prod.collapse)
  define s3 where "s3 = (if e = None then s2 else log_line ''warn'' ''mysql verification: cannot read lower_case_table_names'' [] s2)"
  obtain y s4 where q: "query_lines hs c (tables_query (dbt_database (mc_target c))) s3 = (y, s4)" by force
  have unfolded: "mysql_VerifyRestored tb hs bg spec s =
      (case (y, s4) of (Inl e, s) \<Rightarrow> (Some e, s)
       | (Inr present, s) \<Rightarrow>
           let missing = verifyTableSets want present (folds_names names) in
           if missing \<noteq> []
           then (Some (Plain (''mysql restore verification failed: missing tables '' @ JoinWith '' '' missing)), s)
           else (None, log_line ''info'' ''mysql verification: %d tables present, %d expected''
                   [dec_nat (length present), dec_nat (length want)] s))"
    unfolding mysql_VerifyRestored_def p x w v prod.case sum.case Let_def s3_def [symmetric] q ..
  from assms unfolded obtain present where y: "y = Inr present"
    by (cases y) simp_all
  have missing: "verifyTableSets want present (folds_names names) = []"
  proof (rule ccontr)
    assume gone: "verifyTableSets want present (folds_names names) \<noteq> []"
    have "fst (mysql_VerifyRestored tb hs bg spec s) \<noteq> None"
      unfolding unfolded y prod.case sum.case Let_def if_P [OF gone] fst_conv by (rule option.distinct(2))
    then show False unfolding assms fst_conv by (rule notE) (rule refl)
  qed
  have all: "list_all (\<lambda>t. if folds_names names then list_ex (\<lambda>p. ToLower p = ToLower t) present else t \<in> set present) (dump_tables ls)"
  proof (cases "folds_names names")
    case True
    with missing have sub: "ToLower ` set want \<subseteq> ToLower ` set present" by (simp only: verifyTableSets_Nil if_True)
    have "\<exists>p\<in>set present. ToLower p = ToLower t" if "t \<in> set want" for t
      using subsetD [OF sub imageI [OF that]] by (metis imageE)
    with True show ?thesis by (simp only: want [symmetric] list_all_iff list_ex_iff if_True) blast
  next
    case False
    with missing have "set want \<subseteq> set present" by (simp only: verifyTableSets_Nil if_False)
    with False show ?thesis by (simp only: want [symmetric] list_all_iff if_False) blast
  qed
  define answer where "answer = fst (run_cmd hs (statement c (tables_query (dbt_database (rs_database spec)))) (sh_host s3))"
  from query_lines_ok [of hs c "tables_query (dbt_database (rs_database spec))" s3 present s4] q y c
  have "\<not> failed answer" "present = nonblank (outs_of (out_lines answer))" unfolding answer_def by simp_all
  with content c all answer_def show ?thesis unfolding Let_def by blast
qed

definition dump_host :: "unit host" where
  "dump_host =
     (demo_host (\<lambda>c. if last (cmd_args c) = tables_query ''shop''
                     then \<lparr>out_lines = [Out ''a''], exit_code = 0, run_err = None\<rparr> else quiet))
     \<lparr>read_file := (\<lambda>_ _. Inr (lines_text [''CREATE TABLE '' @ quoted_name ''a'' @ '' (id int);'']))\<rparr>"

definition demo_ctx :: mysql_ctx where
  "demo_ctx = \<lparr>mc_cnf = ''/t/my.cnf'', mc_client = ''mysql'', mc_target = demo_target\<rparr>"

lemma demo_prepare:
  assumes "write_file hs = (\<lambda>_ _ h. (None, h))"
  shows "mysqlPrepare demo_tools hs bg demo_spec s = (Inr demo_ctx, s)"
proof -
  have sys: "\<not> IsSystemDatabase KindMySQL ''shop''" by code_simp
  have path: "Join2 ''/t'' ''my.cnf'' = ''/t/my.cnf''" by code_simp
  show ?thesis
    using sys path
    by (simp add: mysqlPrepare_def demo_spec_def demo_target_def demo_ctx_def WriteSecretFile_def assms on_host_def
        map_err_def then_do_def selectMySQLTools_def demo_tools_def tool_def toolPath_def Let_def)
qed

lemma dump_host_verifies: "fst (mysql_VerifyRestored demo_tools dump_host dump_host demo_spec demo_shell) = None"
proof -
  have w: "write_file dump_host = (\<lambda>_ _ h. (None, h))" by (simp add: dump_host_def demo_host_def)
  have names: "mysqlDumpTableNames dump_host p h = Inr [''a'']" for p h
  proof -
    let ?l = "''CREATE TABLE '' @ quoted_name ''a'' @ '' (id int);''"
    have parts: "SplitChar (CHR 0x0A) (lines_text [?l]) = [?l] @ [[]]" by (rule split_lines) code_simp
    have "TrimSuffix ?l [CHR 0x0D] = ?l" by code_simp
    moreover have "length ?l < 8 * 1024 * 1024" by (simp add: quoted_name_def grant_name_def)
    ultimately have "scan_lines (lines_text [?l]) = Inr [?l]"
      by (simp only: scan_lines_def parts Let_def) simp
    moreover have "dump_tables [''CREATE TABLE '' @ quoted_name ''a'' @ '' (id int);''] = [''a'']" by code_simp
    ultimately show ?thesis by (simp add: mysqlDumpTableNames_def dump_host_def)
  qed
  have query: "\<exists>s'. runQuery dump_host c q s =
      ((None, if q = tables_query ''shop'' then [''a''] else []), s')" for c q and s :: "unit shell"
  proof -
    have "nonblank [''a''] = [''a'']" "nonblank [] = []" by (code_simp, simp add: nonblank_def)
    then show ?thesis
      by (simp add: runQuery_def run_noted_def Run_def dump_host_def demo_host_def statement_def tool_cmd_def quiet_def failed_def Let_def)
  qed
  obtain s1 where q1: "runQuery dump_host demo_ctx ''SELECT @@lower_case_table_names'' demo_shell = ((None, []), s1)"
    using query [of demo_ctx "''SELECT @@lower_case_table_names''" demo_shell] by (auto simp: tables_query_def)
  obtain s2 where "runQuery dump_host demo_ctx (tables_query ''shop'') s1 = ((None, [''a'']), s2)"
    using query [of demo_ctx "tables_query ''shop''" s1] by auto
  then have q2: "query_lines dump_host demo_ctx (tables_query (dbt_database (mc_target demo_ctx))) s1 = (Inr [''a''], s2)"
    by (simp add: query_lines_def demo_ctx_def demo_target_def)
  have "verifyTableSets [''a''] [''a''] (folds_names []) = []" by (simp add: verifyTableSets_Nil)
  then show ?thesis
    unfolding mysql_VerifyRestored_def demo_prepare [OF w] prod.case sum.case names q1 Let_def
    by (simp add: q2)
qed

theorem verified_mysql_restore_has_all_tables_witness:
  "\<exists>content ls c h fold_names. (\<exists>h0. read_file dump_host (rs_artifact_file demo_spec) h0 = Inr content) \<and>
    scan_lines content = Inr ls \<and> mc_target c = rs_database demo_spec \<and>
    (let answer = fst (run_cmd dump_host (statement c (tables_query (dbt_database (rs_database demo_spec)))) h);
         present = nonblank (outs_of (out_lines answer)) in
     \<not> failed answer \<and>
     list_all (\<lambda>t. if fold_names then list_ex (\<lambda>p. ToLower p = ToLower t) present else t \<in> set present) (dump_tables ls))"
proof (rule verified_mysql_restore_has_all_tables)
  show "mysql_VerifyRestored demo_tools dump_host dump_host demo_spec demo_shell =
      (None, snd (mysql_VerifyRestored demo_tools dump_host dump_host demo_spec demo_shell))"
    using dump_host_verifies by (metis prod.collapse)
qed

text \<open>
  A selection that names no table lifts the check of the table grants.  The argument passes the
  validation, it leaves no table to select, so that the whole database is dumped, and yet it counts as an
  explicit selection, for which the partial grants of the account are not checked.
\<close>

theorem blank_selection_lifts_the_grant_check:
  "ValidateExtraArgs KindMySQL [''--tables=,''] = Inr () \<and> mysqlCheckTableArgs ''shop'' [''--tables=,''] = Inr ([], []) \<and>
   mysqlExplicitTableSelection [''--tables=,''] \<and>
   mysqlCheckTableScope (mysqlSelectScope [''GRANT SELECT ON '' @ quoted_name ''shop'' @ ''.'' @ quoted_name ''a'' @ '' TO u'']) ''u'' ''shop''
     \<noteq> None"
  by code_simp

text \<open>
  A dump with a line of 8 MiB or more is never verified.  The reader of the dump gives up on such a line,
  which one row with a large value is enough to make; the import has succeeded, and the restore is rolled
  back nevertheless.
\<close>

theorem long_line_fails_verification:
  assumes "\<And>h. read_file hs (rs_artifact_file spec) h = Inr (lines_text ls)"
    and "list_all (\<lambda>l. CHR 0x0A \<notin> set l) ls" and "list_ex (\<lambda>l. 8 * 1024 * 1024 \<le> length l) ls"
  shows "fst (mysql_VerifyRestored tb hs bg spec s) \<noteq> None"
proof -
  have parts: "SplitChar (CHR 0x0A) (lines_text ls) = ls @ [[]]" by (rule split_lines [OF assms(2)])
  have long: "scan_lines (lines_text ls) = Inl (Plain ''bufio.Scanner: token too long'')"
    unfolding scan_lines_def parts Let_def last_snoc butlast_snoc if_P [OF refl] if_P [OF assms(3)] ..
  obtain x s1 where p: "mysqlPrepare tb hs bg spec s = (x, s1)" by force
  show ?thesis
  proof (cases x)
    case (Inr c)
    have "mysqlDumpTableNames hs (rs_artifact_file spec) (sh_host s1) =
        Inl (around ''scan mysql dump'' (Plain ''bufio.Scanner: token too long''))"
      by (simp only: mysqlDumpTableNames_def assms(1) sum.case long)
    then show ?thesis
      unfolding mysql_VerifyRestored_def p Inr prod.case sum.case by (simp only: sum.case fst_conv) simp
  qed (simp add: mysql_VerifyRestored_def p)
qed

theorem long_line_fails_verification_witness:
  "fst (mysql_VerifyRestored demo_tools
     (dump_host\<lparr>read_file := (\<lambda>_ _. Inr (lines_text [replicate (8 * 1024 * 1024) (CHR ''x'')]))\<rparr>) dump_host demo_spec demo_shell) \<noteq> None"
proof (rule long_line_fails_verification [where ls = "[replicate (8 * 1024 * 1024) (CHR ''x'')]"])
  have "CHR 0x0A \<notin> set (replicate n (CHR ''x''))" for n by (simp add: set_replicate_conv_if)
  then show "list_all (\<lambda>l. CHR 0x0A \<notin> set l) [replicate (8 * 1024 * 1024) (CHR ''x'')]" 
    by (simp only: list.pred_inject not_False_eq_True simp_thms)
  show "list_ex (\<lambda>l. 8 * 1024 * 1024 \<le> length l) [replicate (8 * 1024 * 1024) (CHR ''x'')]"
    by (simp only: list_ex_iff set_simps bex_simps length_replicate order_refl simp_thms)
qed (simp only: host.select_convs host.update_convs dump_host_def demo_host_def)

end
