(* ===== verification/PostgreSQL.thy ===== *)
theory PostgreSQL
  imports Adapter_Base
begin

text \<open>
  The PostgreSQL adapter (\<open>internal/agent/backup/postgresql.go\<close>): dumps of one database and of an
  instance, the control plane of a restore, and the reading of \<open>pg_restore -l\<close>.  \<open>sha\<close> is SHA-256, of
  which nothing is assumed.
\<close>

section \<open>Texts\<close>

definition pgpassField :: "string \<Rightarrow> string" where
  "pgpassField v =
     ReplaceChar (CHR 0x0D) [CHR 0x5C, CHR ''r'']
       (ReplaceChar (CHR 0x0A) [CHR 0x5C, CHR ''n'']
         (ReplaceChar (CHR '':'') [CHR 0x5C, CHR '':''] (ReplaceChar (CHR 0x5C) [CHR 0x5C, CHR 0x5C] v)))"

definition pgpass_file :: "string \<Rightarrow> int \<Rightarrow> string \<Rightarrow> string \<Rightarrow> string" where
  "pgpass_file host port user password =
     pgpassField host @ '':'' @ dec_int port @ '':*:'' @ pgpassField user @ '':'' @ pgpassField password @ [CHR 0x0A]"

definition pg_name :: "string \<Rightarrow> string" where
  "pg_name v = [CHR 0x22] @ ReplaceChar (CHR 0x22) [CHR 0x22, CHR 0x22] v @ [CHR 0x22]"

definition postgresDumpFilename :: "(string \<Rightarrow> string) \<Rightarrow> string \<Rightarrow> string" where
  "postgresDumpFilename sha database =
     ''db-'' @ concat (map (\<lambda>c. [hex_digit (of_char c div 16), hex_digit (of_char c mod 16)]) (take 8 (sha database))) @ ''.pgdump''"

definition pgDumpallGlobalsHint :: "string list \<Rightarrow> string" where
  "pgDumpallGlobalsHint tail =
     (if list_ex (\<lambda>l. let t = ToLower l in Contains t ''permission denied'' \<or> Contains t ''pg_authid'' \<or> Contains t ''superuser'') tail
      then ''the globals of an instance need a superuser or pg_read_all_data'' else [])"

section \<open>Errors of a newer client\<close>

definition pgVersionSkewStatements :: "string list" where
  "pgVersionSkewStatements = [''SET transaction_timeout = 0;'']"

definition isPgVersionSkewCommand :: "string \<Rightarrow> bool" where
  "isPgVersionSkewCommand line =
     (let t = TrimSpace (TrimPrefix (TrimSpace line) ''Command was:'') in
      list_ex (EqualFold t) pgVersionSkewStatements)"

definition pgIgnorableRestoreErrors :: "string list \<Rightarrow> nat" where
  "pgIgnorableRestoreErrors ls = length (filter isPgVersionSkewCommand ls)"

definition restore_error_line :: "string \<Rightarrow> bool" where
  "restore_error_line l =
     (let t = TrimSpace l in HasPrefix t ''pg_restore: error:'' \<or> HasPrefix t ''pg_restore: fatal:'')"

fun only_skew :: "bool \<Rightarrow> string list \<Rightarrow> bool" where
  "only_skew saw [] = saw"
| "only_skew saw (l # ls) =
     (if \<not> restore_error_line l then only_skew saw ls
      else if \<not> Contains (TrimSpace l) ''unrecognized configuration parameter'' then False
      else if ls = [] \<or> \<not> isPgVersionSkewCommand (hd ls) then False
      else only_skew True ls)"

definition pgOnlyIgnorableRestoreErrors :: "string list \<Rightarrow> bool" where
  "pgOnlyIgnorableRestoreErrors ls = only_skew False ls"

section \<open>The relations of an archive\<close>

definition pgRelationEntryTypes :: "string list" where
  "pgRelationEntryTypes =
     [''MATERIALIZED VIEW DATA'', ''MATERIALIZED VIEW'', ''TABLE DATA ATTACH'', ''TABLE DATA'', ''TABLE ATTACH'',
      ''FOREIGN TABLE'', ''SEQUENCE OWNED BY'', ''SEQUENCE SET'', ''INDEX ATTACH'', ''TABLE'', ''SEQUENCE'', ''VIEW'', ''INDEX'']"

definition pgRelationKind :: "string \<Rightarrow> bool" where
  "pgRelationKind typ \<longleftrightarrow>
     typ \<in> {''TABLE'', ''SEQUENCE'', ''VIEW'', ''INDEX'', ''MATERIALIZED VIEW'', ''FOREIGN TABLE''}"

definition entry_fields :: "string \<Rightarrow> string list option" where
  "entry_fields line =
     (let fs = Fields line in if length fs < 6 \<or> \<not> HasSuffix (hd fs) '';'' then None else Some fs)"

definition schema_entry :: "string \<Rightarrow> string option" where
  "schema_entry line =
     (case entry_fields line of
        None \<Rightarrow> None
      | Some fs \<Rightarrow>
          if fs ! 3 = ''SCHEMA'' \<and> fs ! 4 = ''-'' then Some (JoinWith '' '' (butlast (drop 5 fs))) else None)"

text \<open>The schemas by falling number of words, then by name.\<close>

definition ordered_schemas :: "string list \<Rightarrow> string list" where
  "ordered_schemas ls =
     sort_key (\<lambda>sc. - int (length (Fields sc))) (sort (remdups (''public'' # List.map_filter schema_entry ls)))"

definition starts_with :: "string list \<Rightarrow> string list \<Rightarrow> bool" where
  "starts_with ws ps \<longleftrightarrow> take (length ps) ws = ps"

definition relation_entry :: "string list \<Rightarrow> string \<Rightarrow> string option" where
  "relation_entry schemas line =
     (case entry_fields line of
        None \<Rightarrow> None
      | Some fs \<Rightarrow>
          (case List.find (\<lambda>t. starts_with (drop 3 fs) (Fields t)) pgRelationEntryTypes of
             None \<Rightarrow> None
           | Some typ \<Rightarrow>
               let mid = drop (3 + length (Fields typ)) fs; body = butlast mid in
               if \<not> pgRelationKind typ \<or> length mid < 3 then None
               else
                 let (schema, name) =
                   (case List.find (\<lambda>sc. sc \<noteq> [] \<and> length (Fields sc) < length body \<and> starts_with body (Fields sc)) schemas of
                      Some sc \<Rightarrow> (sc, JoinWith '' '' (drop (length (Fields sc)) body))
                    | None \<Rightarrow> (hd body, JoinWith '' '' (tl body))) in
                 if name = [] then None else Some (schema @ ''.'' @ name)))"

definition pgDumpRelationNames :: "string \<Rightarrow> string list" where
  "pgDumpRelationNames listing =
     (let ls = SplitChar (CHR 0x0A) listing; schemas = ordered_schemas ls in
      remdups (List.map_filter (relation_entry schemas) ls))"

definition setDiff :: "string list \<Rightarrow> string list \<Rightarrow> string list" where
  "setDiff a b = sort (filter (\<lambda>x. x \<notin> set b) (remdups a))"

section \<open>The dump\<close>

definition pg_Validate :: "kind \<Rightarrow> plan_source \<Rightarrow> err option" where
  "pg_Validate k src =
     (if k \<noteq> KindPostgreSQL then Some (Plain (''invalid kind: '' @ kind_text k))
      else if src_host src = [] then Some (Plain ''host is required'')
      else if src_port src \<le> 0 then Some (Plain ''port must be > 0'')
      else if src_username src = [] then Some (Plain ''username is required'')
      else if src_database src = [] then Some (Plain ''database is required (single name or all)'')
      else if src_estimated_dump_bytes src \<le> 0 then Some (Plain ''estimated_dump_bytes must be > 0'')
      else case ValidateExtraArgs KindPostgreSQL (src_extra_args src) of Inl e \<Rightarrow> Some (Plain e) | Inr _ \<Rightarrow> None)"

definition pg_dump_args :: "plan_source \<Rightarrow> string \<Rightarrow> string \<Rightarrow> string list" where
  "pg_dump_args src file db =
     [''--format=custom'', ''--file='' @ file, ''--host'', src_host src, ''--port'', dec_int (src_port src),
      ''--username'', src_username src] @ src_extra_args src @ [''--'', db]"

definition pg_dump_one ::
  "'h toolbox \<Rightarrow> 'h host \<Rightarrow> string list \<Rightarrow> plan_source \<Rightarrow> string \<Rightarrow> string \<Rightarrow> string \<Rightarrow> 'h shell \<Rightarrow> (err + db_export) \<times> 'h shell" where
  "pg_dump_one tb hs env src what file db s0 =
     (let (o', s) = run_noted True True hs (tool_cmd (tool tb ''pg_dump'') (pg_dump_args src file db) env) s0 in
      (if failed o' then Inl (tool_error what o' (tail_after [] o'))
       else Inr \<lparr>exp_database = db, exp_file = Base file, exp_format = ''pgdump''\<rparr>, s))"

fun pg_dump_each ::
  "(string \<Rightarrow> string) \<Rightarrow> 'h toolbox \<Rightarrow> 'h host \<Rightarrow> string list \<Rightarrow> plan_source \<Rightarrow> string \<Rightarrow> string list \<Rightarrow> 'h shell \<Rightarrow>
   (err + db_export list) \<times> 'h shell" where
  "pg_dump_each sha tb hs env src staging [] s = (Inr [], s)"
| "pg_dump_each sha tb hs env src staging (db # dbs) s =
     then_do (pg_dump_one tb hs env src (''pg_dump '' @ db) (Join2 staging (postgresDumpFilename sha db)) db s) (\<lambda>e s.
     then_do (pg_dump_each sha tb hs env src staging dbs s) (\<lambda>es s. (Inr (e # es), s)))"

definition globals_args :: "plan_source \<Rightarrow> string \<Rightarrow> string list" where
  "globals_args src file =
     [''--globals-only'', ''--file='' @ file, ''--host'', src_host src, ''--port'', dec_int (src_port src),
      ''--username'', src_username src]"

definition pg_dump_globals ::
  "'h toolbox \<Rightarrow> 'h host \<Rightarrow> string list \<Rightarrow> plan_source \<Rightarrow> string \<Rightarrow> 'h shell \<Rightarrow> (err + db_export) \<times> 'h shell" where
  "pg_dump_globals tb hs env src staging s0 =
     (let s1 = (if src_extra_args src = [] then s0
                else log_line ''warn'' ''extra_args %v do not apply to the globals'' (src_extra_args src) s0);
          (o', s) = run_noted True True hs
             (tool_cmd (tool tb ''pg_dumpall'') (globals_args src (Join2 staging ''globals.sql'')) env) s1;
          tail = tail_after [] o'; e = tool_error ''pg_dumpall globals'' o' tail; hint = pgDumpallGlobalsHint tail in
      if failed o'
      then (if hint = [] then (Inl e, s) else (Inl (Around [] e (''; '' @ hint)), log_line ''warn'' ''%s'' [hint] s))
      else (Inr \<lparr>exp_database = ''globals'', exp_file = ''globals.sql'', exp_format = ''sql''\<rparr>, s))"

definition pg_databases ::
  "'h toolbox \<Rightarrow> 'h host \<Rightarrow> string list \<Rightarrow> plan_source \<Rightarrow> 'h shell \<Rightarrow> (err + string list) \<times> 'h shell" where
  "pg_databases tb hs env src s0 =
     (let (o', s) = run_noted False True hs
        (tool_cmd (tool tb ''psql'') [''-h'', src_host src, ''-p'', dec_int (src_port src), ''-U'', src_username src,
           ''-d'', ''postgres'', ''-t'', ''-c'', ''SELECT datname FROM pg_database WHERE NOT datistemplate AND datallowconn''] env) s0;
          names = nonblank (outs_of (out_lines o')) in
      (case run_err o' of
         Some e \<Rightarrow> Inl (around ''list databases'' e)
       | None \<Rightarrow>
           if exit_code o' \<noteq> 0 then Inl (exitError ''psql list databases'' (exit_code o') None)
           else if names = [] then Inl (Plain ''no connectable databases were listed'')
           else Inr names, s))"

definition pg_Backup ::
  "(string \<Rightarrow> string) \<Rightarrow> 'h toolbox \<Rightarrow> 'h host \<Rightarrow> string \<Rightarrow> secret_bundle \<Rightarrow> string \<Rightarrow> plan_source \<Rightarrow> 'h shell \<Rightarrow>
   (err + artifact) \<times> 'h shell" where
  "pg_Backup sha tb hs plan secrets tempDir src s =
     (let staging = Join2 tempDir ''staging'' in
      then_do (map_err (around ''mkdir staging'') (unless_error (on_host (mkdir_all hs staging) s))) (\<lambda>_ s.
      then_do (map_err (around ''write pgpass'') (WriteSecretFile hs tempDir ''pgpass''
                 (pgpass_file (src_host src) (src_port src) (src_username src) (sb_db_password secrets)) s)) (\<lambda>pass s.
      let env = [''PGPASSFILE='' @ pass]; started = tb_now tb (sh_host s);
          hints = [(''host'', src_host src), (''port'', dec_int (src_port src)), (''username'', src_username src)];
          finish = (\<lambda>versions exports s.
            finish_dump hs staging (dump_manifest KindPostgreSQL versions exports started (tb_now tb (sh_host s)) hints) s) in
      if src_database src = ''all'' then
        then_do (pg_dump_globals tb hs env src staging s) (\<lambda>globals s.
        let (va, s) = getToolVersion hs (tool tb ''pg_dumpall'') env s in
        then_do (pg_databases tb hs env src s) (\<lambda>dbs s.
        then_do (pg_dump_each sha tb hs env src staging dbs s) (\<lambda>exports s.
        let (vd, s) = getToolVersion hs (tool tb ''pg_dump'') env s; (vp, s) = getToolVersion hs (tool tb ''psql'') env s in
        finish [(''pg_dumpall'', va), (''pg_dump'', vd), (''psql'', vp)] (globals # exports) s)))
      else
        then_do (pg_dump_one tb hs env src ''pg_dump'' (Join2 staging (plan @ ''.pgdump'')) (src_database src) s) (\<lambda>e s.
        let (vd, s) = getToolVersion hs (tool tb ''pg_dump'') env s in finish [(''pg_dump'', vd)] [e] s))))"

section \<open>The control plane of a restore\<close>

record pg_ctx =
  pc_env :: "string list"
  pc_target :: db_target

definition pgPrepare :: "'h host \<Rightarrow> restore_spec \<Rightarrow> 'h shell \<Rightarrow> (err + pg_ctx) \<times> 'h shell" where
  "pgPrepare hs spec s =
     (let t = rs_database spec in
      if dbt_database t = [] \<or> dbt_database t = ''all''
      then (Inl (Plain ''postgresql restore requires a single target database''), s)
      else
        then_do (map_err (around ''write pgpass'') (WriteSecretFile hs (rs_staging_dir spec) ''pgpass_restore''
                   (pgpass_file (dbt_host t) (dbt_port t) (dbt_username t) (sb_db_password (rs_secrets spec))) s)) (\<lambda>pass s.
        (Inr \<lparr>pc_env = [''PGPASSFILE='' @ pass], pc_target = t\<rparr>, s)))"

definition psql_args :: "pg_ctx \<Rightarrow> string \<Rightarrow> string \<Rightarrow> string list" where
  "psql_args c db q =
     [''-h'', dbt_host (pc_target c), ''-p'', dec_int (dbt_port (pc_target c)), ''-U'', dbt_username (pc_target c),
      ''-d'', db, ''-v'', ''ON_ERROR_STOP=1'', ''-tAc'', q]"

definition maintenance_query :: "'h toolbox \<Rightarrow> pg_ctx \<Rightarrow> string \<Rightarrow> cmd" where
  "maintenance_query tb c q = tool_cmd (tool tb ''psql'') (psql_args c ''postgres'' q) (pc_env c)"

definition target_query :: "'h toolbox \<Rightarrow> pg_ctx \<Rightarrow> string \<Rightarrow> cmd" where
  "target_query tb c q = tool_cmd (tool tb ''psql'') (psql_args c (dbt_database (pc_target c)) q) (pc_env c)"

definition pg_TargetExists ::
  "'h toolbox \<Rightarrow> 'h host \<Rightarrow> restore_spec \<Rightarrow> 'h shell \<Rightarrow> (err + bool) \<times> 'h shell" where
  "pg_TargetExists tb hs spec s =
     then_do (pgPrepare hs spec s) (\<lambda>c s.
     let (o', s) = run_noted False True hs (maintenance_query tb c
           (''SELECT 1 FROM pg_database WHERE datname = '' @ schema_literal (dbt_database (pc_target c)))) s in
     (if failed o' then Inl (tool_error ''check postgres target database'' o' (tail_after [] o'))
      else Inr (last_text (outs_of (out_lines o')) \<noteq> []), s))"

definition ability_query :: "string \<Rightarrow> string" where
  "ability_query db =
     ''SELECT CASE WHEN (SELECT rolsuper FROM pg_roles WHERE rolname = current_user) OR EXISTS '' @
     ''(SELECT 1 FROM pg_database d WHERE d.datname = '' @ schema_literal db @
     '' AND d.datdba = (SELECT oid FROM pg_roles WHERE rolname = current_user)) THEN '' @ lit ''ok'' @ '' ELSE '' @
     lit ''denied'' @ '' END''"

definition terminate_query :: "string \<Rightarrow> string" where
  "terminate_query db =
     ''SELECT pg_terminate_backend(pid) FROM pg_stat_activity WHERE datname = '' @ schema_literal db @
     '' AND pid <> pg_backend_pid()''"

text \<open>One statement of the preparation; the last lines of all errors so far are carried along.\<close>

definition pg_step ::
  "'h toolbox \<Rightarrow> 'h host \<Rightarrow> pg_ctx \<Rightarrow> string \<Rightarrow> string \<Rightarrow> string list \<Rightarrow> 'h shell \<Rightarrow> (err + string list) \<times> 'h shell" where
  "pg_step tb hs c what q tail s0 =
     (let (o', s) = run_noted True True hs (maintenance_query tb c q) s0; tail' = tail_after tail o' in
      (if failed o' then Inl (tool_error what o' tail') else Inr tail', s))"

definition pg_clear_target ::
  "'h toolbox \<Rightarrow> 'h host \<Rightarrow> pg_ctx \<Rightarrow> 'h shell \<Rightarrow> (err + string list) \<times> 'h shell" where
  "pg_clear_target tb hs c s0 =
     (let db = dbt_database (pc_target c);
          (o', s) = run_noted False True hs (maintenance_query tb c (ability_query db)) s0; tail = tail_after [] o' in
      if failed o' then (Inl (tool_error ''check postgres rebuild permission'' o' tail), s)
      else if last_text (outs_of (out_lines o')) \<noteq> ''ok''
      then (Inl (Plain (''current role cannot drop and recreate database '' @ in_quotes db @ ''; refusing a partial overwrite'')), s)
      else
        then_do (pg_step tb hs c ''terminate postgres target connections'' (terminate_query db) tail s) (\<lambda>tail s.
        pg_step tb hs c ''drop postgres target database'' (''DROP DATABASE IF EXISTS '' @ pg_name db) tail s))"

definition pg_restore_cmd :: "'h toolbox \<Rightarrow> pg_ctx \<Rightarrow> string \<Rightarrow> cmd" where
  "pg_restore_cmd tb c file =
     tool_cmd (tool tb ''pg_restore'')
       [''--no-owner'', ''--dbname='' @ dbt_database (pc_target c), ''-h'', dbt_host (pc_target c), ''-p'',
        dec_int (dbt_port (pc_target c)), ''-U'', dbt_username (pc_target c), file] (pc_env c)"

text \<open>An exit code of 1 is forgiven when only known statements of a newer client failed.\<close>

definition pg_load :: "'h toolbox \<Rightarrow> 'h host \<Rightarrow> pg_ctx \<Rightarrow> string \<Rightarrow> 'h shell \<Rightarrow> (err + unit) \<times> 'h shell" where
  "pg_load tb hs c file s0 =
     (let (o', s) = run_noted True True hs (pg_restore_cmd tb c file) s0; ls = nonblank (errs_of (out_lines o')) in
      if run_err o' \<noteq> None then (Inl (tool_error ''pg_restore'' o' ls), s)
      else if exit_code o' = 0 then (Inr (), s)
      else if exit_code o' = 1 \<and> 0 < pgIgnorableRestoreErrors ls \<and> pgOnlyIgnorableRestoreErrors ls
      then (Inr (), log_line ''warn'' ''pg_restore reported %d errors of version skew, ignored''
              [dec_nat (pgIgnorableRestoreErrors ls)] s)
      else (Inl (exitErrorWithStderr ''pg_restore'' (exit_code o') None ls), s))"

definition pg_Import :: "'h toolbox \<Rightarrow> 'h host \<Rightarrow> restore_spec \<Rightarrow> 'h shell \<Rightarrow> err option \<times> 'h shell" where
  "pg_Import tb hs spec s =
     (let (r, s') =
        then_do (pgPrepare hs spec s) (\<lambda>c s.
        let db = dbt_database (pc_target c) in
        then_do (check (\<not> IsSystemDatabase KindPostgreSQL db)
                   (Plain (''refusing to restore into system database '' @ in_quotes db)) s) (\<lambda>_ s.
        then_do (if rs_target_is_new spec then (Inr [], s) else pg_clear_target tb hs c s) (\<lambda>tail s.
        then_do (pg_step tb hs c ''create postgres target database'' (''CREATE DATABASE '' @ pg_name db) tail s) (\<lambda>_ s.
        then_do (check (rs_artifact_file spec \<noteq> []) (Plain ''postgresql restore artifact is missing'') s) (\<lambda>_ s.
        pg_load tb hs c (rs_artifact_file spec) s))))) in
      (case r of Inl e \<Rightarrow> Some e | Inr _ \<Rightarrow> None, s'))"

definition relations_query :: string where
  "relations_query =
     ''SELECT n.nspname || '' @ lit ''.'' @ '' || c.relname FROM pg_class c JOIN pg_namespace n ON n.oid = c.relnamespace '' @
     ''WHERE c.relkind IN ('' @ lit ''r'' @ '','' @ lit ''p'' @ '','' @ lit ''v'' @ '','' @ lit ''m'' @ '','' @ lit ''S'' @ '','' @
     lit ''i'' @ '','' @ lit ''I'' @ '') AND NOT EXISTS (SELECT 1 FROM pg_constraint con WHERE con.conindid = c.oid) '' @
     ''AND n.nspname NOT IN ('' @ lit ''pg_catalog'' @ '','' @ lit ''information_schema'' @ '') AND n.nspname NOT LIKE '' @
     lit ''pg_toast%'' @ '' ORDER BY 1''"

definition pg_VerifyRestored :: "'h toolbox \<Rightarrow> 'h host \<Rightarrow> restore_spec \<Rightarrow> 'h shell \<Rightarrow> err option \<times> 'h shell" where
  "pg_VerifyRestored tb hs spec s =
     (case pgPrepare hs spec s of
        (Inl e, s) \<Rightarrow> (Some e, s)
      | (Inr c, s) \<Rightarrow>
          let (ol, s) = run_noted False True hs (tool_cmd (tool tb ''pg_restore'') [''-l'', rs_artifact_file spec] []) s in
          if failed ol then (Some (tool_error ''pg_restore -l'' ol (tail_after [] ol)), s)
          else
            let want = pgDumpRelationNames (lines_text (outs_of (out_lines ol)));
                (oq, s) = run_noted False True hs (target_query tb c relations_query) s in
            if failed oq
            then (Some (tool_error ''postgresql verification query'' oq (tail_after (tail_after [] ol) oq)), s)
            else
              let got = nonblank (outs_of (out_lines oq)); missing = setDiff want got; extra = setDiff got want in
              if missing \<noteq> [] \<or> extra \<noteq> []
              then (Some (Plain (''postgresql restore verification failed: missing='' @ JoinWith '' '' missing @ '' unexpected='' @
                                 JoinWith '' '' extra)), s)
              else (None, log_line ''info'' ''postgresql verification: %d relations match the snapshot'' [dec_nat (length want)] s))"

definition pg_RemoveTarget :: "'h toolbox \<Rightarrow> 'h host \<Rightarrow> restore_spec \<Rightarrow> 'h shell \<Rightarrow> err option \<times> 'h shell" where
  "pg_RemoveTarget tb hs spec s =
     (if \<not> rs_target_is_new spec then (Some (Plain ''refusing to remove a target this run did not create''), s)
      else
        let (r, s') =
          then_do (pgPrepare hs spec s) (\<lambda>c s.
          let db = dbt_database (pc_target c) in
          then_do (pg_step tb hs c ''terminate postgres target connections'' (terminate_query db) [] s) (\<lambda>tail s.
          pg_step tb hs c ''drop postgres target database'' (''DROP DATABASE IF EXISTS '' @ pg_name db) tail s)) in
        (case r of Inl e \<Rightarrow> Some e | Inr _ \<Rightarrow> None, s'))"

definition pg_engine :: "'h toolbox \<Rightarrow> 'h host \<Rightarrow> 'h engine" where
  "pg_engine tb hs =
     \<lparr>eng_Preflight = None, eng_TargetExists = pg_TargetExists tb hs, eng_Import = pg_Import tb hs,
      eng_VerifyRestored = pg_VerifyRestored tb hs, eng_RemoveTarget = pg_RemoveTarget tb hs\<rparr>"

definition pg_adapter :: "(string \<Rightarrow> string) \<Rightarrow> 'h toolbox \<Rightarrow> 'h host \<Rightarrow> 'h host \<Rightarrow> 'h adapter" where
  "pg_adapter sha tb hs bg =
     \<lparr>ad_Validate = (\<lambda>src h. pg_Validate KindPostgreSQL src), ad_Backup = pg_Backup sha tb hs,
      ad_engine = Some (\<lambda>detached. pg_engine tb (if detached then bg else hs))\<rparr>"

section \<open>What a verified restore has\<close>

text \<open>
  A verified PostgreSQL restore has the relations of the archive and no others.  When the verification
  succeeds, both the listing of the archive and the query of the target have succeeded, and the two name
  the same relations.
\<close>

theorem verified_postgres_restore_matches_the_archive:
  assumes "pg_VerifyRestored tb hs spec s = (None, s')"
  shows "\<exists>c h1 h2. pc_target c = rs_database spec \<and>
    (let listing = fst (run_cmd hs (tool_cmd (tool tb ''pg_restore'') [''-l'', rs_artifact_file spec] []) h1);
         answer = fst (run_cmd hs (target_query tb c relations_query) h2) in
     \<not> failed listing \<and> \<not> failed answer \<and>
     set (pgDumpRelationNames (lines_text (outs_of (out_lines listing)))) = set (nonblank (outs_of (out_lines answer))))"
proof -
  let ?l = "tool_cmd (tool tb ''pg_restore'') [''-l'', rs_artifact_file spec] []"
  obtain x s1 where p: "pgPrepare hs spec s = (x, s1)" by force
  with assms obtain c where x: "x = Inr c" by (cases x) (auto simp: pg_VerifyRestored_def)
  with p have c: "pc_target c = rs_database spec"
    unfolding pgPrepare_def Let_def by (auto split: if_splits elim!: then_doE map_errE)
  obtain ol s2 where l: "run_noted False True hs ?l s1 = (ol, s2)" by force
  have ok1: "\<not> failed ol"
    using assms by (cases "failed ol") (auto simp: pg_VerifyRestored_def p x l)
  obtain oq s3 where q: "run_noted False True hs (target_query tb c relations_query) s2 = (oq, s3)" by force
  have ok2: "\<not> failed oq"
    using assms ok1 by (cases "failed oq") (auto simp: pg_VerifyRestored_def p x l q Let_def)
  let ?want = "pgDumpRelationNames (lines_text (outs_of (out_lines ol)))"
  let ?got = "nonblank (outs_of (out_lines oq))"
  have "setDiff ?want ?got = [] \<and> setDiff ?got ?want = []"
  proof (rule ccontr)
    assume "\<not> ?thesis"
    then have "fst (pg_VerifyRestored tb hs spec s) \<noteq> None"
      using ok1 ok2 by (simp add: pg_VerifyRestored_def p x l q Let_def)
    with assms show False by simp
  qed
  moreover have "sort xs = [] \<longleftrightarrow> xs = []" for xs :: "string list" by (metis length_0_conv length_sort)
  ultimately have "set ?want = set ?got" by (auto simp: setDiff_def filter_empty_conv)
  with c ok1 ok2 run_noted_ran(2) [OF l] run_noted_ran(2) [OF q] show ?thesis
    unfolding Let_def by metis
qed

definition archive_host :: "unit host" where
  "archive_host =
     demo_host (\<lambda>c. \<lparr>out_lines = [Out (if hd (cmd_args c) = ''-l'' then ''216; 1259 16391 TABLE public a admin'' else ''public.a'')],
                     exit_code = 0, run_err = None\<rparr>)"

lemma archive_host_verifies: "fst (pg_VerifyRestored demo_tools archive_host demo_spec demo_shell) = None"
proof -
  have names: "pgDumpRelationNames (lines_text [''216; 1259 16391 TABLE public a admin'']) = [''public.a'']" by code_simp
  have lines: "nonblank [''public.a''] = [''public.a'']" by code_simp
  show ?thesis
    using names lines
    by (simp add: pg_VerifyRestored_def pgPrepare_def demo_spec_def demo_target_def WriteSecretFile_def archive_host_def demo_host_def
        on_host_def map_err_def then_do_def run_noted_def Run_def tool_cmd_def target_query_def psql_args_def failed_def setDiff_def Let_def)
qed

theorem verified_postgres_restore_matches_the_archive_witness:
  "\<exists>c h1 h2. pc_target c = rs_database demo_spec \<and>
    (let listing = fst (run_cmd archive_host (tool_cmd (tool demo_tools ''pg_restore'') [''-l'', rs_artifact_file demo_spec] []) h1);
         answer = fst (run_cmd archive_host (target_query demo_tools c relations_query) h2) in
     \<not> failed listing \<and> \<not> failed answer \<and>
     set (pgDumpRelationNames (lines_text (outs_of (out_lines listing)))) = set (nonblank (outs_of (out_lines answer))))"
proof (rule verified_postgres_restore_matches_the_archive)
  show "pg_VerifyRestored demo_tools archive_host demo_spec demo_shell =
      (None, snd (pg_VerifyRestored demo_tools archive_host demo_spec demo_shell))"
    using archive_host_verifies by (metis prod.collapse)
qed

text \<open>
  The relations of the archive are not what the target is asked for.  A foreign table of the dump is
  wanted, but the query lists no relation of that kind; a name with two spaces in a row loses one; and
  when the owner's name has a space its first word is taken for a part of the table's name.  In all
  three cases a complete restore fails its verification and is rolled back.
\<close>

theorem complete_restores_fail_verification:
  "pgDumpRelationNames (''215; 1259 16390 FOREIGN TABLE public ft admin'') = [''public.ft''] \<and>
     \<not> Contains relations_query (lit ''f'') \<and>
   pgDumpRelationNames (''216; 1259 16391 TABLE public a  b admin'') = [''public.a b''] \<and>
   pgDumpRelationNames (''217; 1259 16392 TABLE public users backup admin'') = [''public.users backup'']"
  by code_simp

end
