(* ===== verification/MongoDB.thy ===== *)
theory MongoDB
  imports Adapter_Base
begin

text \<open>
  The MongoDB adapter (\<open>internal/agent/backup/mongodb.go\<close>): the connection string, the dump and its
  check of the account's roles, the scripts a restore runs, and the reading of a dry run.
\<close>

section \<open>Texts\<close>

text \<open>
  \<open>strconv.Quote\<close>; bytes above ASCII are kept, which is what it does with printable characters.
\<close>

definition quote_char :: "char \<Rightarrow> string" where
  "quote_char c =
     (let n = of_char c :: nat; esc = (\<lambda>x. [CHR 0x5C, x]) in
      if c = CHR 0x22 \<or> c = CHR 0x5C then esc c
      else if n = 7 then esc (CHR ''a'') else if n = 8 then esc (CHR ''b'') else if n = 9 then esc (CHR ''t'')
      else if n = 10 then esc (CHR ''n'') else if n = 11 then esc (CHR ''v'') else if n = 12 then esc (CHR ''f'')
      else if n = 13 then esc (CHR ''r'')
      else if n < 32 \<or> n = 127 then esc (CHR ''x'') @ [hex_digit (n div 16), hex_digit (n mod 16)]
      else [c])"

definition Quote :: "string \<Rightarrow> string" where
  "Quote s = in_quotes (concat (map quote_char s))"

text \<open>\<open>url.QueryEscape\<close>.\<close>

definition unreserved :: "char \<Rightarrow> bool" where
  "unreserved c =
     (let n = of_char c :: nat in
      48 \<le> n \<and> n \<le> 57 \<or> 65 \<le> n \<and> n \<le> 90 \<or> 97 \<le> n \<and> n \<le> 122 \<or> c \<in> {CHR ''-'', CHR ''_'', CHR ''.'', CHR ''~''})"

definition HexDigit :: "nat \<Rightarrow> char" where
  "HexDigit n = (if n < 10 then char_of (48 + n) else char_of (55 + n))"

definition percent :: "char \<Rightarrow> string" where
  "percent c = [CHR ''%'', HexDigit (of_char c div 16), HexDigit (of_char c mod 16)]"

definition QueryEscape :: "string \<Rightarrow> string" where
  "QueryEscape s =
     concat (map (\<lambda>c. if unreserved c then [c] else if c = CHR 0x20 then [CHR ''+''] else percent c) s)"

definition mongoURIEscape :: "string \<Rightarrow> string" where
  "mongoURIEscape s = ReplaceChar (CHR ''+'') ''%20'' (QueryEscape s)"

definition auth_source :: "string \<Rightarrow> string" where
  "auth_source a = (if a = [] then ''admin'' else a)"

definition mongoURI :: "string \<Rightarrow> int \<Rightarrow> string \<Rightarrow> string \<Rightarrow> string \<Rightarrow> string" where
  "mongoURI host port user password authSource =
     ''mongodb://'' @ (if user = [] then [] else mongoURIEscape user @ '':'' @ mongoURIEscape password @ ''@'') @ host @ '':'' @
     dec_int port @ ''/?authSource='' @ mongoURIEscape (auth_source authSource)"

definition buildMongoConfig :: "string \<Rightarrow> int \<Rightarrow> string \<Rightarrow> string \<Rightarrow> string \<Rightarrow> string" where
  "buildMongoConfig host port user password authSource =
     ''uri: '' @ Quote (mongoURI host port user password authSource) @ [CHR 0x0A] @
     (if password = [] then [] else ''password: '' @ Quote password @ [CHR 0x0A])"

section \<open>The namespaces of an archive\<close>

definition firstToken :: "string \<Rightarrow> string" where
  "firstToken s = (case Fields s of [] \<Rightarrow> [] | f # _ \<Rightarrow> f)"

definition trim_mark :: "char \<Rightarrow> string \<Rightarrow> string" where
  "trim_mark c s = rev (dropWhile (\<lambda>x. x = c) (rev (dropWhile (\<lambda>x. x = c) s)))"

definition after_mark :: "string \<Rightarrow> string \<Rightarrow> string option" where
  "after_mark mark s = map_option (\<lambda>i. drop (i + length mark) s) (Index s mark)"

text \<open>What a line offers as a name, and the name that is taken from it.\<close>

definition offered_namespace :: "string \<Rightarrow> string option" where
  "offered_namespace line =
     (let t = TrimSpace line in
      case after_mark ''reading metadata for '' t of
        Some r \<Rightarrow> (case Fields (TrimSpace r) of [] \<Rightarrow> None | f # _ \<Rightarrow> Some (TrimSuffix f ''...''))
      | None \<Rightarrow>
          case after_mark ''found collection metadata from '' t of
            Some r \<Rightarrow> Some (firstToken r)
          | None \<Rightarrow> map_option firstToken (after_mark ''archive prelude '' t))"

definition clean_namespace :: "string \<Rightarrow> string option" where
  "clean_namespace n =
     (let t = TrimSpace (trim_mark backtick n) in
      if t = [] \<or> CHR 0x20 \<in> set t \<or> CHR 0x09 \<in> set t then None else Some t)"

definition mongoDumpNamespaces :: "string \<Rightarrow> string list" where
  "mongoDumpNamespaces out =
     fold (\<lambda>line ns. case Option.bind (offered_namespace line) clean_namespace of
                       None \<Rightarrow> ns
                     | Some n \<Rightarrow> if n \<in> set ns then ns else ns @ [n])
       (SplitChar (CHR 0x0A) out) []"

definition split_namespace :: "string \<Rightarrow> (string \<times> string) option" where
  "split_namespace ns = map_option (\<lambda>i. (take i ns, drop (i + 1) ns)) (Index ns ''.'')"

section \<open>The dump\<close>

definition mongo_Validate :: "kind \<Rightarrow> plan_source \<Rightarrow> err option" where
  "mongo_Validate k src =
     (if k \<noteq> KindMongoDB then Some (Plain (''invalid kind: '' @ kind_text k))
      else if src_host src = [] then Some (Plain ''host is required'')
      else if src_port src \<le> 0 then Some (Plain ''port must be > 0'')
      else if src_username src = [] then Some (Plain ''username is required'')
      else if src_database src = [] then Some (Plain ''database is required (single name or all)'')
      else if src_capture_oplog src
      then Some (Plain ''capture_oplog is not supported: its snapshot could never be restored by this platform'')
      else if src_estimated_dump_bytes src \<le> 0 then Some (Plain ''estimated_dump_bytes must be > 0'')
      else case ValidateExtraArgs KindMongoDB (src_extra_args src) of Inl e \<Rightarrow> Some (Plain e) | Inr _ \<Rightarrow> None)"

definition mongoClusterWideRoles :: "string list" where
  "mongoClusterWideRoles =
     [''root'', ''__system'', ''readAnyDatabase'', ''readWriteAnyDatabase'', ''dbAdminAnyDatabase'', ''userAdminAnyDatabase'',
      ''clusterAdmin'', ''clusterMonitor'', ''hostManager'', ''backup'', ''restore'']"

definition shell_cmd :: "'h toolbox \<Rightarrow> string \<Rightarrow> cmd" where
  "shell_cmd tb file = tool_cmd (tool tb ''mongosh'') [''--quiet'', ''--nodb'', ''--file'', file] []"

definition roles_script :: "string \<Rightarrow> string \<Rightarrow> string" where
  "roles_script uri authSource =
     ''const uri = '' @ Quote uri @ ''; const conn = Mongo(uri);'' @ [CHR 0x0A] @
     ''const st = conn.getDB('' @ Quote authSource @ '').runCommand({connectionStatus:1});'' @ [CHR 0x0A] @
     ''st.authInfo.authenticatedUserRoles.forEach(function(r){ print(r.role + '' @ Quote [CHR 0x09] @ '' + r.db); });''"

definition mongoAuthenticatedRoles ::
  "'h toolbox \<Rightarrow> 'h host \<Rightarrow> secret_bundle \<Rightarrow> string \<Rightarrow> plan_source \<Rightarrow> 'h shell \<Rightarrow> (err + string list) \<times> 'h shell" where
  "mongoAuthenticatedRoles tb hs secrets tempDir src s =
     then_do (map_err (around ''write mongo role check script'') (WriteSecretFile hs tempDir ''mongo-roles.js''
                (roles_script (mongoURI (src_host src) (src_port src) (src_username src) (sb_db_password secrets) (src_auth_source src))
                   (auth_source (src_auth_source src))) s)) (\<lambda>file s.
     let (o', s) = run_noted False True hs (shell_cmd tb file) s;
         e = tool_error ''mongosh connectionStatus'' o' (nonblank (errs_of (out_lines o'))) in
     (if failed o'
      then Inl (around (''cannot establish the roles of account '' @ in_quotes (src_username src) @ '', refusing to dump the instance'') e)
      else Inr (map (ReplaceChar (CHR 0x09) ''@'') (nonblank (outs_of (out_lines o')))), s))"

definition cluster_wide :: "string \<Rightarrow> bool" where
  "cluster_wide role \<longleftrightarrow> takeWhile (\<lambda>c. c \<noteq> CHR ''@'') role \<in> set mongoClusterWideRoles"

definition checkMongoFullInstanceScope :: "string list \<Rightarrow> string \<Rightarrow> err option" where
  "checkMongoFullInstanceScope roles user =
     (if list_ex cluster_wide roles then None
      else Some (Plain (''mongodb dump of the instance refused: account '' @ in_quotes user @ '' has only roles on databases ('' @
                 (if roles = [] then ''no roles'' else JoinWith '', '' roles) @ ''); grant it the role backup'')))"

definition ensureMongoFullInstance ::
  "'h toolbox \<Rightarrow> 'h host \<Rightarrow> secret_bundle \<Rightarrow> string \<Rightarrow> plan_source \<Rightarrow> 'h shell \<Rightarrow> (err + unit) \<times> 'h shell" where
  "ensureMongoFullInstance tb hs secrets tempDir src s =
     (if tool tb ''mongosh'' = [] then (Inl (Plain ''mongodb dump of the instance refused: mongosh is missing''), s)
      else
        then_do (mongoAuthenticatedRoles tb hs secrets tempDir src s) (\<lambda>roles s.
        case checkMongoFullInstanceScope roles (src_username src) of
          Some e \<Rightarrow> (Inl e, s)
        | None \<Rightarrow> (Inr (), log_line ''info'' ''account %q has a cluster role (%s)'' [src_username src, JoinWith '', '' roles] s)))"

definition mongodump_args :: "plan_source \<Rightarrow> string \<Rightarrow> string \<Rightarrow> string list" where
  "mongodump_args src archive config =
     [''--archive='' @ archive, ''--gzip'', ''--config='' @ config] @
     (if src_database src = ''all'' then [] else [''--db='' @ src_database src]) @ src_extra_args src"

definition mongo_Backup ::
  "'h toolbox \<Rightarrow> 'h host \<Rightarrow> string \<Rightarrow> secret_bundle \<Rightarrow> string \<Rightarrow> plan_source \<Rightarrow> 'h shell \<Rightarrow> (err + artifact) \<times> 'h shell" where
  "mongo_Backup tb hs plan secrets tempDir src s =
     (let staging = Join2 tempDir ''staging'' in
      then_do (map_err (around ''mkdir staging'') (unless_error (on_host (mkdir_all hs staging) s))) (\<lambda>_ s.
      then_do (map_err (around ''write mongo config'') (WriteSecretFile hs tempDir ''mongo.yml''
                 (buildMongoConfig (src_host src) (src_port src) (src_username src) (sb_db_password secrets) (src_auth_source src)) s)) (\<lambda>config s.
      then_do (if src_database src = ''all'' then ensureMongoFullInstance tb hs secrets tempDir src s else (Inr (), s)) (\<lambda>_ s.
      let archive = Join2 staging (plan @ ''.archive'');
          (o', s) = run_noted True True hs (tool_cmd (tool tb ''mongodump'') (mongodump_args src archive config) []) s in
      if failed o' then (Inl (tool_error ''mongodump'' o' (tail_after [] o')), s)
      else
        let (version, s) = getToolVersion hs (tool tb ''mongodump'') [] s in
        finish_dump hs staging
          (dump_manifest KindMongoDB [(''mongodump'', version)]
             [\<lparr>exp_database = src_database src, exp_file = Base archive, exp_format = ''archive''\<rparr>]
             (tb_now tb (sh_host s)) (tb_now tb (sh_host s))
             [(''host'', src_host src), (''port'', dec_int (src_port src)), (''username'', src_username src)]) s))))"

section \<open>The control plane of a restore\<close>

record mongo_ctx =
  gc_target :: db_target
  gc_config :: string
  gc_password :: string

definition mongoPrepare ::
  "'h toolbox \<Rightarrow> 'h host \<Rightarrow> restore_spec \<Rightarrow> 'h shell \<Rightarrow> (err + mongo_ctx) \<times> 'h shell" where
  "mongoPrepare tb hs spec s =
     (let t = rs_database spec; password = sb_db_password (rs_secrets spec) in
      if dbt_database t = [] \<or> dbt_database t = ''all''
      then (Inl (Plain ''mongodb restore requires a single target database''), s)
      else if IsSystemDatabase KindMongoDB (dbt_database t)
      then (Inl (Plain (''refusing to restore into system database '' @ in_quotes (dbt_database t))), s)
      else
        then_do (map_err (around ''write mongo restore config'') (WriteSecretFile hs (rs_staging_dir spec) ''mongo-restore.yml''
                   (buildMongoConfig (dbt_host t) (dbt_port t) (dbt_username t) password (auth_source (dbt_auth_source t))) s)) (\<lambda>config s.
        then_do (check (tool tb ''mongosh'' \<noteq> []) (Plain ''mongosh is required to verify the mongodb target'') s) (\<lambda>_ s.
        (Inr \<lparr>gc_target = t, gc_config = config, gc_password = password\<rparr>, s))))"

definition target_uri :: "mongo_ctx \<Rightarrow> string" where
  "target_uri c =
     mongoURI (dbt_host (gc_target c)) (dbt_port (gc_target c)) (dbt_username (gc_target c)) (gc_password c)
       (auth_source (dbt_auth_source (gc_target c)))"

definition target_script :: "mongo_ctx \<Rightarrow> string \<Rightarrow> string" where
  "target_script c js =
     ''const uri = '' @ Quote (target_uri c) @ ''; const conn = Mongo(uri); const db = conn.getDB('' @
     Quote (dbt_database (gc_target c)) @ '');'' @ [CHR 0x0A] @ js"

definition runJS ::
  "'h toolbox \<Rightarrow> 'h host \<Rightarrow> mongo_ctx \<Rightarrow> restore_spec \<Rightarrow> string \<Rightarrow> 'h shell \<Rightarrow> (err + string list) \<times> 'h shell" where
  "runJS tb hs c spec js s =
     then_do (map_err (around ''write mongo check script'') (WriteSecretFile hs (rs_staging_dir spec) ''mongo-check.js''
                (target_script c js) s)) (\<lambda>file s.
     let (o', s) = run_noted False True hs (shell_cmd tb file) s;
         tail = TrimSpace (lines_text (nonblank (errs_of (out_lines o'))));
         base = exitError ''mongosh query'' (exit_code o') (run_err o') in
     (if failed o' then Inl (if tail = [] then base else Around [] base ('': '' @ tail))
      else Inr (nonblank (outs_of (out_lines o'))), s))"

definition mongoTargetExistsScript :: "string \<Rightarrow> string" where
  "mongoTargetExistsScript database =
     ''const r = db.adminCommand({listDatabases:1, filter:{name:'' @ Quote database @ ''}});'' @ [CHR 0x0A] @
     ''r.databases.forEach(function(d){print(d.name);});''"

definition mongoCollectionNamesScript :: string where
  "mongoCollectionNamesScript = ''db.getCollectionNames().forEach(function(n){print(n);});''"

definition drop_script :: string where "drop_script = ''db.dropDatabase();''"

definition mongo_TargetExists ::
  "'h toolbox \<Rightarrow> 'h host \<Rightarrow> restore_spec \<Rightarrow> 'h shell \<Rightarrow> (err + bool) \<times> 'h shell" where
  "mongo_TargetExists tb hs spec s =
     then_do (mongoPrepare tb hs spec s) (\<lambda>c s.
     then_do (runJS tb hs c spec (mongoTargetExistsScript (dbt_database (gc_target c))) s) (\<lambda>ls s.
     (Inr ((if ls = [] then [] else last ls) = dbt_database (gc_target c)), s)))"

definition mongorestore_args :: "mongo_ctx \<Rightarrow> restore_spec \<Rightarrow> string list" where
  "mongorestore_args c spec =
     [''--archive='' @ rs_artifact_file spec, ''--gzip'', ''--config='' @ gc_config c] @
     (if rs_target_is_new spec then [] else [''--drop'']) @
     (if rs_artifact_database spec = [] \<or> rs_artifact_database spec = dbt_database (gc_target c) then []
      else [''--nsFrom='' @ rs_artifact_database spec @ ''.*'', ''--nsTo='' @ dbt_database (gc_target c) @ ''.*''])"

definition mongo_Import :: "'h toolbox \<Rightarrow> 'h host \<Rightarrow> restore_spec \<Rightarrow> 'h shell \<Rightarrow> err option \<times> 'h shell" where
  "mongo_Import tb hs spec s =
     (let (r, s') =
        then_do (mongoPrepare tb hs spec s) (\<lambda>c s.
        then_do (check (rs_artifact_file spec \<noteq> []) (Plain ''mongodb restore artifact is missing'') s) (\<lambda>_ s.
        then_do (if rs_target_is_new spec then (Inr [], s)
                 else map_err (around ''drop mongodb target database before overwrite'') (runJS tb hs c spec drop_script s)) (\<lambda>_ s.
        let (o', s) = run_noted True True hs (tool_cmd (tool tb ''mongorestore'') (mongorestore_args c spec) []) s in
        (if failed o' then Inl (tool_error ''mongorestore'' o' (tail_after [] o')) else Inr (), s)))) in
      (case r of Inl e \<Rightarrow> Some e | Inr _ \<Rightarrow> None, s'))"

text \<open>
  One listing of the target for each database the archive names; Go goes through them in any order,
  here it is the order of the dry run.
\<close>

fun missing_collections ::
  "'h toolbox \<Rightarrow> 'h host \<Rightarrow> mongo_ctx \<Rightarrow> restore_spec \<Rightarrow> (string \<times> string) list \<Rightarrow> string list \<Rightarrow> 'h shell \<Rightarrow>
   (err + string list) \<times> 'h shell" where
  "missing_collections tb hs c spec pairs [] s = (Inr [], s)"
| "missing_collections tb hs c spec pairs (db # dbs) s =
     then_do (runJS tb hs c spec mongoCollectionNamesScript s) (\<lambda>present s.
     let gone = filter (\<lambda>col. col \<notin> set present) (map snd (filter (\<lambda>p. fst p = db) pairs)) in
     then_do (missing_collections tb hs c spec pairs dbs s) (\<lambda>later s.
     (Inr (map (\<lambda>col. db @ ''.'' @ col) gone @ later), s)))"

definition dry_run_cmd :: "'h toolbox \<Rightarrow> mongo_ctx \<Rightarrow> restore_spec \<Rightarrow> cmd" where
  "dry_run_cmd tb c spec =
     tool_cmd (tool tb ''mongorestore'')
       [''--archive='' @ rs_artifact_file spec, ''--gzip'', ''--config='' @ gc_config c, ''--dryRun'', ''--verbose''] []"

definition all_lines :: "cmd_outcome \<Rightarrow> string" where
  "all_lines o' = lines_text (map (\<lambda>l. case l of Out t \<Rightarrow> t | Err t \<Rightarrow> t) (out_lines o'))"

definition mongo_VerifyRestored :: "'h toolbox \<Rightarrow> 'h host \<Rightarrow> restore_spec \<Rightarrow> 'h shell \<Rightarrow> err option \<times> 'h shell" where
  "mongo_VerifyRestored tb hs spec s =
     (let (r, s') =
        then_do (mongoPrepare tb hs spec s) (\<lambda>c s.
        let (o', s) = run_noted False True hs (dry_run_cmd tb c spec) s; parsed = mongoDumpNamespaces (all_lines o') in
        if failed o' then (Inl (tool_error ''mongorestore dry run'' o' (tail_after [] o')), s)
        else
          then_do (check (parsed \<noteq> []) (Plain ''mongodb restore verification failed: no namespace in the dry run'') s) (\<lambda>_ s.
          let pairs = List.map_filter split_namespace parsed; dbs = remdups (map fst pairs) in
          then_do (missing_collections tb hs c spec pairs dbs s) (\<lambda>missing s.
          if missing \<noteq> []
          then (Inl (Plain (''mongodb restore verification failed: missing collections '' @ JoinWith '' '' (sort missing))), s)
          else (Inr (), log_line ''info'' ''mongodb verification: %d namespaces present'' [dec_nat (length dbs)] s)))) in
      (case r of Inl e \<Rightarrow> Some e | Inr _ \<Rightarrow> None, s'))"

definition mongo_RemoveTarget :: "'h toolbox \<Rightarrow> 'h host \<Rightarrow> restore_spec \<Rightarrow> 'h shell \<Rightarrow> err option \<times> 'h shell" where
  "mongo_RemoveTarget tb hs spec s =
     (if \<not> rs_target_is_new spec then (Some (Plain ''refusing to remove a target this run did not create''), s)
      else
        let (r, s') =
          then_do (mongoPrepare tb hs spec s) (\<lambda>c s.
          map_err (around ''drop mongodb target database'') (runJS tb hs c spec drop_script s)) in
        (case r of Inl e \<Rightarrow> Some e | Inr _ \<Rightarrow> None, s'))"

definition mongo_engine :: "'h toolbox \<Rightarrow> 'h host \<Rightarrow> 'h engine" where
  "mongo_engine tb hs =
     \<lparr>eng_Preflight = None, eng_TargetExists = mongo_TargetExists tb hs, eng_Import = mongo_Import tb hs,
      eng_VerifyRestored = mongo_VerifyRestored tb hs, eng_RemoveTarget = mongo_RemoveTarget tb hs\<rparr>"

definition mongo_adapter :: "'h toolbox \<Rightarrow> 'h host \<Rightarrow> 'h host \<Rightarrow> 'h adapter" where
  "mongo_adapter tb hs bg =
     \<lparr>ad_Validate = (\<lambda>src h. mongo_Validate KindMongoDB src), ad_Backup = mongo_Backup tb hs,
      ad_engine = Some (\<lambda>detached. mongo_engine tb (if detached then bg else hs))\<rparr>"

section \<open>Credentials in the connection string\<close>

text \<open>How a server reads a component of a URI, and the credentials of a connection string.\<close>

definition hex_value :: "char \<Rightarrow> nat option" where
  "hex_value c =
     (let n = of_char c :: nat in
      if 48 \<le> n \<and> n \<le> 57 then Some (n - 48) else if 65 \<le> n \<and> n \<le> 70 then Some (n - 55)
      else if 97 \<le> n \<and> n \<le> 102 then Some (n - 87) else None)"

fun unescape_uri :: "string \<Rightarrow> string option" where
  "unescape_uri (c # h # l # s) =
     (if c = CHR ''%''
      then (case (hex_value h, hex_value l) of
              (Some a, Some b) \<Rightarrow> map_option (\<lambda>t. char_of (16 * a + b) # t) (unescape_uri s)
            | _ \<Rightarrow> None)
      else map_option (\<lambda>t. c # t) (unescape_uri (h # l # s)))"
| "unescape_uri s = (if CHR ''%'' \<in> set s then None else Some s)"

definition read_credentials :: "string \<Rightarrow> (string \<times> string) option" where
  "read_credentials uri =
     (let info = takeWhile (\<lambda>c. c \<noteq> CHR ''@'') (drop (length ''mongodb://'') uri);
          user = takeWhile (\<lambda>c. c \<noteq> CHR '':'') info; password = drop (length user + 1) info in
      case (unescape_uri user, unescape_uri password) of (Some u, Some p) \<Rightarrow> Some (u, p) | _ \<Rightarrow> None)"

definition escape_char :: "char \<Rightarrow> string" where
  "escape_char c = (if unreserved c then [c] else percent c)"

lemma HexDigit_value: "n < 16 \<Longrightarrow> hex_value (HexDigit n) = Some n"
  by (auto simp: hex_value_def HexDigit_def Let_def)

lemma HexDigit_unreserved: "n < 16 \<Longrightarrow> unreserved (HexDigit n)"
  by (auto simp: unreserved_def HexDigit_def Let_def)

lemma char_code: "(of_char c :: nat) < 256"
  by (metis of_char_mod_256 mod_less_divisor zero_less_numeral)

lemma percent_digits: "of_char c div 16 < (16 :: nat)" "of_char c mod 16 < (16 :: nat)"
  using char_code [of c] by (simp_all add: less_mult_imp_div_less)

lemma unreserved_marks:
  "\<not> unreserved (CHR ''+'')" "\<not> unreserved (CHR ''%'')" "\<not> unreserved (CHR '':'')" "\<not> unreserved (CHR ''@'')" "\<not> unreserved (CHR 0x20)"
  by code_simp+

lemma mongoURIEscape_eq: "mongoURIEscape s = concat (map escape_char s)"
proof (induction s)
  case Nil
  then show ?case by (simp add: mongoURIEscape_def QueryEscape_def)
next
  case (Cons c s)
  have plus: "HexDigit n \<noteq> CHR ''+''" if "n < 16" for n
    using HexDigit_unreserved [OF that] unreserved_marks by metis
  have space: "percent (CHR 0x20) = ''%20''" by code_simp
  have app: "ReplaceChar x r (a @ b) = ReplaceChar x r a @ ReplaceChar x r b" for x r a b
    by (simp add: ReplaceChar_def)
  show ?case
    using Cons unreserved_marks plus percent_digits space
    by (auto simp: mongoURIEscape_def QueryEscape_def escape_char_def app percent_def)
qed

lemma escape_marks:
  assumes "x \<in> set (escape_char c)"
  shows "unreserved x \<or> x = CHR ''%''"
  using assms percent_digits [of c] by (auto simp: escape_char_def percent_def HexDigit_unreserved split: if_splits)

lemma escaped_marks: "x \<in> set (mongoURIEscape s) \<Longrightarrow> unreserved x \<or> x = CHR ''%''"
  by (auto simp: mongoURIEscape_eq dest: escape_marks)

lemma percent_value: "char_of (16 * (of_char c div 16) + of_char c mod 16 :: nat) = c"
  by (simp add: mult.commute)

lemma unescape_plain:
  assumes "c \<noteq> CHR ''%''"
  shows "unescape_uri (c # s) = map_option ((#) c) (unescape_uri s)"
proof (cases s)
  case (Cons h t)
  with assms show ?thesis by (cases t) (auto simp: map_option_case)
qed (use assms in simp)

lemma unescape_escaped: "unescape_uri (mongoURIEscape s) = Some s"
proof (induction s)
  case (Cons c s)
  have "unreserved c \<Longrightarrow> c \<noteq> CHR ''%''" using unreserved_marks(2) by metis
  with Cons show ?case
    using percent_digits [of c] percent_value [of c]
    by (cases "unreserved c") (auto simp: mongoURIEscape_eq escape_char_def percent_def HexDigit_value unescape_plain)
qed (simp add: mongoURIEscape_eq)

lemma takeWhile_mark: "m \<notin> set s \<Longrightarrow> takeWhile (\<lambda>c. c \<noteq> m) (s @ m # r) = s"
  by (induction s) auto

text \<open>
  The server reads from the connection string the credentials of the plan.  Whatever bytes the user name
  and the password hold (colons, at signs, percent signs, spaces, plus signs), the part before the first at
  sign, split at its first colon and decoded, is the user name and the password.
\<close>

theorem mongo_credentials_are_read_back:
  assumes "user \<noteq> []"
  shows "read_credentials (mongoURI host port user password authSource) = Some (user, password)"
proof -
  let ?u = "mongoURIEscape user" and ?p = "mongoURIEscape password"
  have marks: "CHR '':'' \<notin> set (mongoURIEscape s)" "CHR ''@'' \<notin> set (mongoURIEscape s)" for s
    using escaped_marks [of "CHR '':''" s] escaped_marks [of "CHR ''@''" s] unreserved_marks by auto
  obtain rest where uri: "drop (length ''mongodb://'') (mongoURI host port user password authSource) =
      (?u @ CHR '':'' # ?p) @ CHR ''@'' # rest"
    using assms by (simp add: mongoURI_def)
  have info: "takeWhile (\<lambda>c. c \<noteq> CHR ''@'') ((?u @ CHR '':'' # ?p) @ CHR ''@'' # rest) = ?u @ CHR '':'' # ?p"
    by (rule takeWhile_mark) (use marks in auto)
  have user: "takeWhile (\<lambda>c. c \<noteq> CHR '':'') (?u @ CHR '':'' # ?p) = ?u"
    by (rule takeWhile_mark [OF marks(1)])
  show ?thesis
    unfolding read_credentials_def uri info user Let_def by (simp add: unescape_escaped)
qed

theorem mongo_credentials_are_read_back_witness:
  "read_credentials (mongoURI ''h'' 27017 ''backup'' ''p@s:s w+%d'' []) = Some (''backup'', ''p@s:s w+%d'')"
  by (rule mongo_credentials_are_read_back) simp

lemma roles_ran:
  assumes "mongoAuthenticatedRoles tb hs secrets t src s = (x, s')"
  shows "\<exists>ran. sh_ran s' = sh_ran s @ ran \<and> list_all (\<lambda>c. cmd_exe c = tool tb ''mongosh'') ran"
    and "x = Inr roles \<Longrightarrow> \<exists>file h. let listing = fst (run_cmd hs (shell_cmd tb file) h) in
        \<not> failed listing \<and> roles = map (ReplaceChar (CHR 0x09) ''@'') (nonblank (outs_of (out_lines listing)))"
proof -
  have "(\<exists>ran. sh_ran s' = sh_ran s @ ran \<and> list_all (\<lambda>c. cmd_exe c = tool tb ''mongosh'') ran) \<and>
    (x = Inr roles \<longrightarrow> (\<exists>file h. let listing = fst (run_cmd hs (shell_cmd tb file) h) in
        \<not> failed listing \<and> roles = map (ReplaceChar (CHR 0x09) ''@'') (nonblank (outs_of (out_lines listing)))))"
    using assms unfolding mongoAuthenticatedRoles_def
  proof (cases rule: then_doE)
    case (stop e)
    then show ?thesis by (auto elim!: map_errE dest!: secret_ran)
  next
    case (go path s1)
    obtain o' s2 where r: "run_noted False True hs (shell_cmd tb path) s1 = (o', s2)" by force
    from go(1) have "sh_ran s1 = sh_ran s" by (auto elim!: map_errE dest: secret_ran)
    with run_noted_ran(1) [OF r] have "sh_ran s2 = sh_ran s @ [shell_cmd tb path]" by simp
    moreover have "cmd_exe (shell_cmd tb path) = tool tb ''mongosh''" by (simp add: shell_cmd_def tool_cmd_def)
    moreover from go(2) r have "s' = s2" "x = Inr roles \<Longrightarrow> \<not> failed o' \<and>
        roles = map (ReplaceChar (CHR 0x09) ''@'') (nonblank (outs_of (out_lines o')))"
      by (auto simp: Let_def split: if_splits)
    ultimately show ?thesis
      using run_noted_ran(2) [OF r] by (auto simp: Let_def intro!: exI [of _ path] exI [of _ "sh_host s1"])
  qed
  then show "\<exists>ran. sh_ran s' = sh_ran s @ ran \<and> list_all (\<lambda>c. cmd_exe c = tool tb ''mongosh'') ran"
    and "x = Inr roles \<Longrightarrow> \<exists>file h. let listing = fst (run_cmd hs (shell_cmd tb file) h) in
        \<not> failed listing \<and> roles = map (ReplaceChar (CHR 0x09) ''@'') (nonblank (outs_of (out_lines listing)))"
    by blast+
qed

text \<open>
  A partial view of the instance is not dumped.  Before an instance is dumped the roles of the account are
  listed; unless that listing succeeds and names a role that holds for the whole cluster, the shell is all
  that is run, and never mongodump.
\<close>

theorem partial_instance_is_not_dumped:
  assumes "src_database src = ''all''" and "mongo_Backup tb hs plan secrets t src s = (r, s')"
  shows "(\<exists>ran. sh_ran s' = sh_ran s @ ran \<and> list_all (\<lambda>c. cmd_exe c = tool tb ''mongosh'') ran) \<or>
     (\<exists>file h. let listing = fst (run_cmd hs (shell_cmd tb file) h) in
        \<not> failed listing \<and> list_ex cluster_wide (map (ReplaceChar (CHR 0x09) ''@'') (nonblank (outs_of (out_lines listing)))))"
proof -
  note steps = assms(2) [unfolded mongo_Backup_def Let_def]
  from steps show ?thesis
  proof (cases rule: then_doE)
    case (stop e)
    then show ?thesis by (intro disjI1 exI [of _ "[]"]) (auto simp: unless_error_def on_host_def elim!: map_errE split: prod.splits)
  next
    case (go u s1)
    then have ran1: "sh_ran s1 = sh_ran s"
      by (auto simp: unless_error_def on_host_def elim!: map_errE split: prod.splits)
    from go(2) show ?thesis
    proof (cases rule: then_doE)
      case (stop e)
      with ran1 show ?thesis by (intro disjI1 exI [of _ "[]"]) (auto elim!: map_errE dest!: secret_ran)
    next
      case (go config s2)
      with ran1 have ran2: "sh_ran s2 = sh_ran s" by (auto elim!: map_errE dest!: secret_ran)
      obtain x s3 where e: "ensureMongoFullInstance tb hs secrets t src s2 = (x, s3)" by force
      obtain y s4 where roles: "mongoAuthenticatedRoles tb hs secrets t src s2 = (y, s4)" by force
      from roles_ran(1) [OF roles] ran2 obtain ran where ran4: "sh_ran s4 = sh_ran s @ ran"
        "list_all (\<lambda>c. cmd_exe c = tool tb ''mongosh'') ran" by auto
      show ?thesis
      proof (cases x)
        case (Inl e1)
        with e roles have "s3 = s2 \<or> s3 = s4"
          by (auto simp: ensureMongoFullInstance_def then_do_def split: if_splits sum.splits option.splits)
        moreover from go(2) assms(1) e Inl have "s' = s3" by (simp add: then_do_def)
        ultimately show ?thesis using ran2 ran4 by (intro disjI1) (auto intro: exI [of _ "[]"])
      next
        case (Inr v)
        with e roles obtain rs where "y = Inr rs" "list_ex cluster_wide rs"
          by (auto simp: ensureMongoFullInstance_def then_do_def checkMongoFullInstanceScope_def
              split: if_splits sum.splits option.splits)
        with roles_ran(2) [OF roles] show ?thesis by (intro disjI2) (fastforce simp: Let_def)
      qed
    qed
  qed
qed

theorem partial_instance_is_not_dumped_witness:
  "(\<exists>ran. sh_ran (snd (mongo_Backup demo_tools (demo_host (\<lambda>_. quiet)) ''p'' (rs_secrets demo_spec) ''/t''
        (no_source\<lparr>src_database := ''all''\<rparr>) demo_shell)) = sh_ran demo_shell @ ran \<and>
      list_all (\<lambda>c. cmd_exe c = tool demo_tools ''mongosh'') ran) \<or>
     (\<exists>file h. let listing = fst (run_cmd (demo_host (\<lambda>_. quiet)) (shell_cmd demo_tools file) h) in
        \<not> failed listing \<and> list_ex cluster_wide (map (ReplaceChar (CHR 0x09) ''@'') (nonblank (outs_of (out_lines listing)))))"
  by (rule partial_instance_is_not_dumped [OF _ prod.collapse [symmetric]]) simp

text \<open>
  A collection whose name has a space is never verified.  The dry run prints the full name, of which the
  first word is taken; that collection does not exist in the target, and a complete restore is rolled back.
\<close>

theorem spaced_collection_loses_its_name:
  "mongoDumpNamespaces (''found collection metadata from '' @ [backtick] @ ''shop.my users'' @ [backtick] @ '' to restore to '' @
      [backtick] @ ''shop.my users'' @ [backtick]) = [''shop.my'']"
  by code_simp

end
