(* ===== verification/SQLite_Adapter.thy ===== *)
theory SQLite_Adapter
  imports Adapter_Base
begin

text \<open>
  The SQLite adapter (\<open>internal/agent/backup/sqlite.go\<close>).  The driver and the file operations are the
  record \<open>sqlite_api\<close>: rows of a query as texts, a statement that returns nothing, and the calls of
  the package \<open>os\<close> the adapter makes, each with what it answers about a path.
\<close>

datatype file_answer = Done | Absent | Refused err

record 'h sqlite_api =
  sq_open :: "string \<Rightarrow> 'h \<Rightarrow> err option"
  sq_rows :: "string \<Rightarrow> string \<Rightarrow> 'h \<Rightarrow> (err + string list list) \<times> 'h"
  sq_exec :: "string \<Rightarrow> string \<Rightarrow> string list \<Rightarrow> 'h \<Rightarrow> err option \<times> 'h"
  fo_stat :: "string \<Rightarrow> 'h \<Rightarrow> file_answer"
  fo_mkdir_all :: "string \<Rightarrow> 'h \<Rightarrow> err option \<times> 'h"
  fo_create_temp :: "string \<Rightarrow> string \<Rightarrow> 'h \<Rightarrow> (err + string) \<times> 'h"
  fo_create :: "string \<Rightarrow> 'h \<Rightarrow> err option \<times> 'h"
  fo_chmod :: "string \<Rightarrow> 'h \<Rightarrow> err option \<times> 'h"
  fo_open :: "string \<Rightarrow> 'h \<Rightarrow> err option"
  fo_copy :: "string \<Rightarrow> string \<Rightarrow> 'h \<Rightarrow> err option \<times> 'h"
  fo_sync :: "string \<Rightarrow> 'h \<Rightarrow> err option \<times> 'h"
  fo_close :: "string \<Rightarrow> 'h \<Rightarrow> err option \<times> 'h"
  fo_rename :: "string \<Rightarrow> string \<Rightarrow> 'h \<Rightarrow> err option \<times> 'h"
  fo_remove :: "string \<Rightarrow> 'h \<Rightarrow> file_answer \<times> 'h"

section \<open>Calls of the driver\<close>

definition opened :: "'h sqlite_api \<Rightarrow> string \<Rightarrow> 'h \<Rightarrow> (err + unit) \<times> 'h" where
  "opened q path h = (case sq_open q path h of None \<Rightarrow> Inr () | Some e \<Rightarrow> Inl e, h)"

definition sqliteVacuumInto :: "'h sqlite_api \<Rightarrow> string \<Rightarrow> string \<Rightarrow> 'h \<Rightarrow> (err + unit) \<times> 'h" where
  "sqliteVacuumInto q source file h =
     then_do (opened q source h) (\<lambda>_ h. unless_error (sq_exec q source ''VACUUM INTO ?'' [file] h))"

definition sqliteIntegrityCheck :: "'h sqlite_api \<Rightarrow> string \<Rightarrow> 'h \<Rightarrow> (err + unit) \<times> 'h" where
  "sqliteIntegrityCheck q path h =
     then_do (opened q path h) (\<lambda>_ h.
     then_do (sq_rows q path ''PRAGMA integrity_check'' h) (\<lambda>rows h.
     (if rows = [] then Inl (Plain ''sql: no rows in result set'')
      else let r = TrimSpace (concat (hd rows)) in if EqualFold r ''ok'' then Inr () else Inl (Plain r), h)))"

definition schema_query :: string where
  "schema_query =
     ''SELECT name, type FROM sqlite_master WHERE type IN ('' @ lit ''table'' @ '','' @ lit ''view'' @ '','' @ lit ''index'' @
     '','' @ lit ''trigger'' @ '') AND name NOT LIKE '' @ lit ''sqlite_%''"

definition sqliteSchemaObjects :: "'h sqlite_api \<Rightarrow> string \<Rightarrow> 'h \<Rightarrow> (err + (string \<times> string) list) \<times> 'h" where
  "sqliteSchemaObjects q path h =
     then_do (opened q path h) (\<lambda>_ h.
     then_do (sq_rows q path schema_query h) (\<lambda>rows h.
     (if list_all (\<lambda>r. length r = 2) rows then Inr (map (\<lambda>r. (r ! 0, r ! 1)) rows)
      else Inl (Plain ''sql: wrong number of columns''), h)))"

section \<open>The dump\<close>

definition sqlite_Validate :: "'h sqlite_api \<Rightarrow> kind \<Rightarrow> plan_source \<Rightarrow> 'h \<Rightarrow> err option" where
  "sqlite_Validate q k src h =
     (let path = src_path src in
      if k \<noteq> KindSQLite then Some (Plain (''invalid kind: '' @ kind_text k))
      else if path = [] then Some (Plain ''path is required'')
      else if \<not> isAbs path then Some (Plain (''path '' @ in_quotes path @ '' must be absolute''))
      else case fo_stat q path h of
        Absent \<Rightarrow> Some (around (''path '' @ in_quotes path @ '' not accessible'') (Plain ''file does not exist''))
      | Refused e \<Rightarrow> Some (around (''path '' @ in_quotes path @ '' not accessible'') e)
      | Done \<Rightarrow> (case ValidateExtraArgs KindSQLite (src_extra_args src) of Inl e \<Rightarrow> Some (Plain e) | Inr _ \<Rightarrow> None))"

definition copySQLiteFile :: "'h sqlite_api \<Rightarrow> string \<Rightarrow> string \<Rightarrow> 'h \<Rightarrow> (err + unit) \<times> 'h" where
  "copySQLiteFile q src dst h =
     (case fo_open q src h of
        Some e \<Rightarrow> (Inl (around (''open '' @ src) e), h)
      | None \<Rightarrow>
          then_do (map_err (around (''create '' @ dst)) (unless_error (fo_create q dst h))) (\<lambda>_ h.
          case fo_copy q src dst h of
            (Some e, h) \<Rightarrow> (Inl (around (''copy '' @ src) e), snd (fo_close q dst h))
          | (None, h) \<Rightarrow>
              (case fo_sync q dst h of
                 (Some e, h) \<Rightarrow> (Inl (around (''sync '' @ dst) e), snd (fo_close q dst h))
               | (None, h) \<Rightarrow> unless_error (fo_close q dst h))))"

definition sidecars :: "string list" where "sidecars = [''-wal'', ''-shm'', ''-journal'']"

fun copy_sidecars :: "'h sqlite_api \<Rightarrow> string \<Rightarrow> string \<Rightarrow> string list \<Rightarrow> 'h \<Rightarrow> (err + unit) \<times> 'h" where
  "copy_sidecars q src dst [] h = (Inr (), h)"
| "copy_sidecars q src dst (x # xs) h =
     (if fo_stat q (src @ x) h \<noteq> Done then copy_sidecars q src dst xs h
      else then_do (copySQLiteFile q (src @ x) (dst @ x) h) (\<lambda>_ h. copy_sidecars q src dst xs h))"

definition copySQLiteForBackup :: "'h sqlite_api \<Rightarrow> string \<Rightarrow> string \<Rightarrow> 'h \<Rightarrow> (err + string) \<times> 'h" where
  "copySQLiteForBackup q source dir h =
     (let dst = Join2 dir ''source-copy.sqlite'' in
      then_do (copySQLiteFile q source dst h) (\<lambda>_ h.
      then_do (copy_sidecars q source dst sidecars h) (\<lambda>_ h. (Inr dst, h))))"

text \<open>The dump itself: from the file, and when that fails from a copy of it. The flag tells of the copy.\<close>

definition vacuum_or_copy :: "'h sqlite_api \<Rightarrow> string \<Rightarrow> string \<Rightarrow> string \<Rightarrow> 'h \<Rightarrow> (err + bool) \<times> 'h" where
  "vacuum_or_copy q source file copyDir h =
     (case sqliteVacuumInto q source file h of
        (Inr _, h) \<Rightarrow> (Inr False, h)
      | (Inl e, h) \<Rightarrow>
          then_do (map_err (\<lambda>_. around ''sqlite online backup failed'' e) (unless_error (fo_mkdir_all q copyDir h))) (\<lambda>_ h.
          then_do (map_err (\<lambda>_. around ''sqlite online backup failed'' e) (copySQLiteForBackup q source copyDir h)) (\<lambda>copied h.
          then_do (map_err (\<lambda>r. around (''sqlite online backup failed (retry against a writable copy also failed: '' @
                                       error_text r @ '')'') e) (sqliteVacuumInto q copied file h)) (\<lambda>_ h.
          (Inr True, h)))))"

definition sqlite_Backup ::
  "'h sqlite_api \<Rightarrow> 'h toolbox \<Rightarrow> 'h host \<Rightarrow> string \<Rightarrow> string \<Rightarrow> plan_source \<Rightarrow> 'h shell \<Rightarrow> (err + artifact) \<times> 'h shell" where
  "sqlite_Backup q tb hs plan tempDir src s =
     (let staging = Join2 tempDir ''staging''; source = src_path src; file = Join2 staging (plan @ ''.sqlite'') in
      then_do (map_err (around ''mkdir staging'') (unless_error (on_host (mkdir_all hs staging) s))) (\<lambda>_ s.
      then_do (on_host (vacuum_or_copy q source file (Join2 tempDir ''source-copy'')) s) (\<lambda>copied s.
      let s = (if copied then log_line ''warn'' ''%s cannot be opened in place, dumped from a copy'' [source] s else s) in
      then_do (map_err (around ''sqlite integrity_check failed'') (on_host (sqliteIntegrityCheck q file) s)) (\<lambda>_ s.
      let (versions, s) =
            (if tool tb ''sqlite3'' = [] then ([], s)
             else let (v, s) = getToolVersion hs (tool tb ''sqlite3'') [] s in ([(''sqlite3'', v)], s)) in
      finish_dump hs staging
        (dump_manifest KindSQLite versions
           [\<lparr>exp_database = Base source, exp_file = Base file, exp_format = ''sqlite''\<rparr>]
           (tb_now tb (sh_host s)) (tb_now tb (sh_host s)) [(''source_path'', source)]) s))))"

section \<open>The control plane of a restore\<close>

definition sqliteTargetPath :: "restore_spec \<Rightarrow> err + string" where
  "sqliteTargetPath spec =
     (let p = dbt_database (rs_database spec) in
      if p = [] then Inl (Plain ''target_database (path) is required for sqlite restore'') else Inr p)"

definition sqlite_TargetExists :: "'h sqlite_api \<Rightarrow> restore_spec \<Rightarrow> 'h \<Rightarrow> (err + bool) \<times> 'h" where
  "sqlite_TargetExists q spec h =
     (case sqliteTargetPath spec of
        Inl e \<Rightarrow> (Inl e, h)
      | Inr p \<Rightarrow>
          (case fo_stat q p h of
             Done \<Rightarrow> Inr True | Absent \<Rightarrow> Inr False | Refused e \<Rightarrow> Inl (around ''stat sqlite target'' e), h))"

definition sqliteErrBusy :: "err \<Rightarrow> bool" where
  "sqliteErrBusy e =
     (let t = ToLower (error_text e) in
      Contains t ''is locked'' \<or> Contains t ''sqlite_busy'' \<or> Contains t ''sqlite_locked'')"

definition target_busy :: "err \<Rightarrow> err" where
  "target_busy e =
     Around [] TargetOccupied ('': target database is busy; close all target connections and retry: '' @ error_text e)"

definition sqliteCheckMaintenanceWindow :: "'h sqlite_api \<Rightarrow> string \<Rightarrow> 'h \<Rightarrow> (err + unit) \<times> 'h" where
  "sqliteCheckMaintenanceWindow q path h =
     (case fo_stat q path h of
        Absent \<Rightarrow> (Inr (), h)
      | Refused e \<Rightarrow> (Inl (around ''stat sqlite target'' e), h)
      | Done \<Rightarrow>
          then_do (map_err (\<lambda>e. if sqliteErrBusy e then target_busy e
                                else around (''target database is not in a clean maintenance state (integrity check failed); '' @
                                             ''close all connections, checkpoint and retry'') e)
                     (sqliteIntegrityCheck q path h)) (\<lambda>_ h.
          then_do (map_err (around ''open target for exclusive check'') (opened q path h)) (\<lambda>_ h.
          then_do (map_err target_busy (unless_error (sq_exec q path ''PRAGMA locking_mode=EXCLUSIVE'' [] h))) (\<lambda>_ h.
          then_do (map_err target_busy (unless_error (sq_exec q path ''BEGIN IMMEDIATE; COMMIT;'' [] h))) (\<lambda>_ h.
          map_err (around ''checkpoint target WAL'') (unless_error (sq_exec q path ''PRAGMA wal_checkpoint(TRUNCATE)'' [] h)))))))"

definition sqlite_Preflight :: "'h sqlite_api \<Rightarrow> restore_spec \<Rightarrow> 'h \<Rightarrow> (err + unit) \<times> 'h" where
  "sqlite_Preflight q spec h =
     (case sqliteTargetPath spec of Inl e \<Rightarrow> (Inl e, h) | Inr p \<Rightarrow> sqliteCheckMaintenanceWindow q p h)"

fun remove_sidecars :: "'h sqlite_api \<Rightarrow> string \<Rightarrow> string list \<Rightarrow> 'h \<Rightarrow> (err + unit) \<times> 'h" where
  "remove_sidecars q path [] h = (Inr (), h)"
| "remove_sidecars q path (x # xs) h =
     (case fo_remove q (path @ x) h of
        (Refused e, h) \<Rightarrow> (Inl (around (''remove sqlite sidecar '' @ x) e), h)
      | (_, h) \<Rightarrow> remove_sidecars q path xs h)"

definition sqliteRemoveSidecars :: "'h sqlite_api \<Rightarrow> string \<Rightarrow> 'h \<Rightarrow> (err + unit) \<times> 'h" where
  "sqliteRemoveSidecars q path h = remove_sidecars q path sidecars h"

text \<open>Copies the artifact to the temporary file, and puts that in the place of the target.\<close>

definition closing :: "'h sqlite_api \<Rightarrow> string \<Rightarrow> (err + unit) \<times> 'h \<Rightarrow> (err + unit) \<times> 'h" where
  "closing q tmp r = (case r of (Inl e, h) \<Rightarrow> (Inl e, snd (fo_close q tmp h)) | (Inr u, h) \<Rightarrow> (Inr u, h))"

definition fill_temp :: "'h sqlite_api \<Rightarrow> string \<Rightarrow> string \<Rightarrow> 'h \<Rightarrow> (err + unit) \<times> 'h" where
  "fill_temp q file tmp h =
     then_do (closing q tmp
       (then_do (map_err (around ''chmod sqlite restore temp'') (unless_error (fo_chmod q tmp h))) (\<lambda>_ h.
        then_do (map_err (around ''open sqlite backup'') (case fo_open q file h of None \<Rightarrow> Inr () | Some e \<Rightarrow> Inl e, h)) (\<lambda>_ h.
        then_do (map_err (around ''copy sqlite file'') (unless_error (fo_copy q file tmp h))) (\<lambda>_ h.
        map_err (around ''sync sqlite restore temp'') (unless_error (fo_sync q tmp h))))))) (\<lambda>_ h.
     map_err (around ''close sqlite restore temp'') (unless_error (fo_close q tmp h)))"

definition replace_file :: "'h sqlite_api \<Rightarrow> string \<Rightarrow> string \<Rightarrow> 'h \<Rightarrow> (err + unit) \<times> 'h" where
  "replace_file q file path h =
     then_do (map_err (around ''create sqlite target directory'') (unless_error (fo_mkdir_all q (Dir path) h))) (\<lambda>_ h.
     then_do (map_err (around ''create sqlite restore temp'') (fo_create_temp q (Dir path) ''.bmc-restore-*.sqlite'' h)) (\<lambda>tmp h.
     let (r, h) =
       then_do (fill_temp q file tmp h) (\<lambda>_ h.
       then_do (sqliteRemoveSidecars q path h) (\<lambda>_ h.
       map_err (around ''replace sqlite target'') (unless_error (fo_rename q tmp path h)))) in
     (r, snd (fo_remove q tmp h))))"

definition still_absent :: "'h sqlite_api \<Rightarrow> restore_spec \<Rightarrow> string \<Rightarrow> 'h \<Rightarrow> (err + unit) \<times> 'h" where
  "still_absent q spec path h =
     (if \<not> rs_target_is_new spec then (Inr (), h)
      else (case fo_stat q path h of
              Done \<Rightarrow> Inl (Plain (''sqlite restore target already exists; refusing to overwrite the database of another actor''))
            | Absent \<Rightarrow> Inr ()
            | Refused e \<Rightarrow> Inl (around ''stat sqlite restore target'' e), h))"

definition sqlite_Import :: "'h sqlite_api \<Rightarrow> restore_spec \<Rightarrow> 'h \<Rightarrow> (err + unit) \<times> 'h" where
  "sqlite_Import q spec h =
     (if rs_artifact_file spec = [] then (Inl (Plain ''sqlite restore artifact is missing''), h)
      else case sqliteTargetPath spec of
        Inl e \<Rightarrow> (Inl e, h)
      | Inr path \<Rightarrow>
          then_do (sqliteCheckMaintenanceWindow q path h) (\<lambda>_ h.
          then_do (check (rs_target_is_new spec \<or> dbt_replace_existing (rs_database spec))
                     (Plain ''sqlite restore target exists and replace_existing=false'') h) (\<lambda>_ h.
          then_do (still_absent q spec path h) (\<lambda>_ h.
          replace_file q (rs_artifact_file spec) path h))))"

definition sqlite_VerifyRestored :: "'h sqlite_api \<Rightarrow> restore_spec \<Rightarrow> 'h \<Rightarrow> (err + unit) \<times> 'h" where
  "sqlite_VerifyRestored q spec h =
     (case sqliteTargetPath spec of
        Inl e \<Rightarrow> (Inl e, h)
      | Inr path \<Rightarrow>
          then_do (map_err (around ''sqlite integrity_check failed'') (sqliteIntegrityCheck q path h)) (\<lambda>_ h.
          then_do (check (rs_artifact_file spec \<noteq> []) (Plain ''sqlite restore artifact is missing'') h) (\<lambda>_ h.
          then_do (map_err (around ''read snapshot sqlite schema'') (sqliteSchemaObjects q (rs_artifact_file spec) h)) (\<lambda>want h.
          then_do (map_err (around ''read restored sqlite schema'') (sqliteSchemaObjects q path h)) (\<lambda>got h.
          let missing = filter (\<lambda>n. n \<notin> fst ` set got) (remdups (map fst want)) in
          (if missing = [] then Inr ()
           else Inl (Plain (''restored sqlite database is missing snapshot objects '' @ JoinWith '' '' (sort missing))), h))))))"

definition sqlite_RemoveTarget :: "'h sqlite_api \<Rightarrow> restore_spec \<Rightarrow> 'h \<Rightarrow> (err + unit) \<times> 'h" where
  "sqlite_RemoveTarget q spec h =
     (if \<not> rs_target_is_new spec then (Inl (Plain ''refusing to remove a target this run did not create''), h)
      else case sqliteTargetPath spec of
        Inl e \<Rightarrow> (Inl e, h)
      | Inr path \<Rightarrow>
          then_do (sqliteRemoveSidecars q path h) (\<lambda>_ h.
          (case fo_remove q path h of
             (Refused e, h) \<Rightarrow> (Inl (around ''remove sqlite target'' e), h)
           | (_, h) \<Rightarrow> (Inr (), h))))"

text \<open>The adapter as the pipeline sees it.\<close>

definition err_of :: "(err + unit) \<times> 's \<Rightarrow> err option \<times> 's" where
  "err_of r = (case fst r of Inl e \<Rightarrow> Some e | Inr _ \<Rightarrow> None, snd r)"

definition sqlite_engine :: "'h sqlite_api \<Rightarrow> 'h engine" where
  "sqlite_engine q =
     \<lparr>eng_Preflight = Some (\<lambda>spec s. err_of (on_host (sqlite_Preflight q spec) s)),
      eng_TargetExists = (\<lambda>spec. on_host (sqlite_TargetExists q spec)),
      eng_Import = (\<lambda>spec s. err_of (on_host (sqlite_Import q spec) s)),
      eng_VerifyRestored = (\<lambda>spec s. err_of (on_host (sqlite_VerifyRestored q spec) s)),
      eng_RemoveTarget = (\<lambda>spec s. err_of (on_host (sqlite_RemoveTarget q spec) s))\<rparr>"

definition sqlite_adapter :: "'h sqlite_api \<Rightarrow> 'h sqlite_api \<Rightarrow> 'h toolbox \<Rightarrow> 'h host \<Rightarrow> 'h adapter" where
  "sqlite_adapter q bg tb hs =
     \<lparr>ad_Validate = (\<lambda>src h. sqlite_Validate q KindSQLite src h), ad_Backup = (\<lambda>plan _. sqlite_Backup q tb hs plan),
      ad_engine = Some (\<lambda>detached. sqlite_engine (if detached then bg else q))\<rparr>"

end
