(* ===== verification/Adapters.thy ===== *)
theory Adapters
  imports MySQL PostgreSQL MongoDB SQLite_Adapter
begin

text \<open>
  The adapters put together as the pipeline gets them (\<open>For\<close> in \<open>adapter.go\<close>), what the pipeline may
  assume of them, and what they promise about the target of a restore.
\<close>

text \<open>The file adapter is the pipeline's own and is not taken from here.\<close>

definition with_adapters ::
  "(string \<Rightarrow> string) \<Rightarrow> 'h toolbox \<Rightarrow> 'h sqlite_api \<Rightarrow> 'h sqlite_api \<Rightarrow> 'h deps \<Rightarrow> 'h deps" where
  "with_adapters sha tb q bg d =
     d\<lparr>d_adapters := (\<lambda>k. case k of
         KindMySQL \<Rightarrow> mysql_adapter tb (d_host d) (d_detached d)
       | KindPostgreSQL \<Rightarrow> pg_adapter sha tb (d_host d) (d_detached d)
       | KindMongoDB \<Rightarrow> mongo_adapter tb (d_host d) (d_detached d)
       | KindSQLite \<Rightarrow> sqlite_adapter q bg tb (d_host d)
       | _ \<Rightarrow> filesystem_adapter (d_host d))\<rparr>"

section \<open>Plain errors\<close>

text \<open>Nothing the operating system or the driver reports is an error of the pipeline.\<close>

definition plain_host :: "'h host \<Rightarrow> bool" where
  "plain_host hs \<longleftrightarrow>
     (\<forall>c h e. run_err (fst (run_cmd hs c h)) = Some e \<longrightarrow> as_pipeline e = None) \<and>
     (\<forall>p c h e. fst (write_file hs p c h) = Some e \<longrightarrow> as_pipeline e = None)"

definition plain_api :: "'h sqlite_api \<Rightarrow> bool" where
  "plain_api q \<longleftrightarrow>
     (\<forall>p h e. sq_open q p h = Some e \<longrightarrow> as_pipeline e = None) \<and>
     (\<forall>p t h e. fst (sq_rows q p t h) = Inl e \<longrightarrow> as_pipeline e = None) \<and>
     (\<forall>p t xs h e. fst (sq_exec q p t xs h) = Some e \<longrightarrow> as_pipeline e = None) \<and>
     (\<forall>p h e. fo_stat q p h = Refused e \<longrightarrow> as_pipeline e = None)"

lemma as_pipeline_around [simp]: "as_pipeline (around w e) = as_pipeline e"
  by (simp add: around_def)

lemma as_pipeline_exitError: "as_pipeline (exitError t c e) = Option.bind e as_pipeline"
  by (auto simp: exitError_def split: option.splits)

definition plain_result :: "(err + 'a) \<times> 's \<Rightarrow> bool" where
  "plain_result r \<longleftrightarrow> (\<forall>e. fst r = Inl e \<longrightarrow> as_pipeline e = None)"

lemma plain_then: "plain_result r \<Longrightarrow> (\<And>a s. plain_result (f a s)) \<Longrightarrow> plain_result (then_do r f)"
  by (auto simp: plain_result_def then_do_def split: prod.splits sum.splits)

lemma plain_map: "plain_result r \<Longrightarrow> (\<And>e. as_pipeline e = None \<Longrightarrow> as_pipeline (g e) = None) \<Longrightarrow> plain_result (map_err g r)"
  by (auto simp: plain_result_def)

lemma plain_results [simp]:
  "plain_result (Inr a, s)" "plain_result (Inl (Plain t), s)" "plain_result (Inl (around w e), s) = (as_pipeline e = None)"
  by (simp_all add: plain_result_def)

lemma plain_secret: "plain_host hs \<Longrightarrow> plain_result (WriteSecretFile hs t n c s)"
  by (auto simp: plain_result_def WriteSecretFile_def plain_host_def on_host_def Let_def split: prod.splits option.splits)
    (metis fst_conv)

lemma plain_mysqlPrepare: "plain_host hs \<Longrightarrow> plain_result (mysqlPrepare tb hs bg spec s)"
  unfolding mysqlPrepare_def Let_def
  by (auto intro!: plain_then plain_map plain_secret split: prod.splits)

lemma plain_runQuery:
  assumes "plain_host hs" and "runQuery hs c q s = ((Some e, ls), s')"
  shows "as_pipeline e = None"
proof -
  obtain o' s1 where r: "run_noted False True hs (statement c q) s = (o', s1)" by force
  have "Option.bind (run_err o') as_pipeline = None"
    using assms(1) run_noted_ran(2) [OF r] by (cases "run_err o'") (auto simp: plain_host_def)
  with assms(2) r show ?thesis
    by (auto simp: runQuery_def Let_def as_pipeline_exitError split: if_splits)
qed

lemma plain_query_lines: "plain_host hs \<Longrightarrow> plain_result (query_lines hs c q s)"
  by (auto simp: query_lines_def plain_result_def split: prod.splits option.splits dest: plain_runQuery)

lemma plain_mysql_engine:
  assumes "plain_host hs"
  shows "plain_engine (\<lambda>detached. mysql_engine tb (if detached then bg else hs) bg)"
proof -
  have "as_pipeline e = None" if err: "fst (mysql_Preflight tb hs bg spec s) = Some e" for spec s e
  proof -
    obtain x s1 where p: "mysqlPrepare tb hs bg spec s = (x, s1)" by force
    show ?thesis
    proof (cases x)
      case (Inl e1)
      with p err plain_mysqlPrepare [OF assms, of tb bg spec s] show ?thesis
        by (simp add: mysql_Preflight_def plain_result_def)
    next
      case (Inr c)
      obtain y s2 where q: "query_lines hs c (sessions_query (dbt_database (mc_target c))) s1 = (y, s2)" by force
      from plain_query_lines [OF assms, of c "sessions_query (dbt_database (mc_target c))" s1] q p Inr err
      show ?thesis
        by (cases y) (auto simp: mysql_Preflight_def plain_result_def Let_def split: if_splits prod.splits)
    qed
  qed
  then show ?thesis by (auto simp: plain_engine_def mysql_engine_def split: option.splits)
qed

lemma plain_api_results:
  assumes "plain_api q"
  shows "plain_result (opened q p h)" and "plain_result (sq_rows q p t h)" and "plain_result (unless_error (sq_exec q p t xs h))"
  using assms by (auto simp: plain_api_def plain_result_def opened_def split: option.splits)

lemma plain_integrity: "plain_api q \<Longrightarrow> plain_result (sqliteIntegrityCheck q p h)"
  unfolding sqliteIntegrityCheck_def Let_def
  by (intro plain_then plain_api_results) (simp_all add: plain_result_def)

lemma as_pipeline_busy [simp]: "as_pipeline (target_busy e) = None"
  by (simp add: target_busy_def)

lemma plain_window: "plain_api q \<Longrightarrow> plain_result (sqliteCheckMaintenanceWindow q p h)"
  unfolding sqliteCheckMaintenanceWindow_def
  by (auto simp: plain_api_def split: file_answer.splits
      intro!: plain_then plain_map plain_integrity plain_api_results)

lemma plain_sqlite_engine:
  assumes "plain_api q"
  shows "plain_engine (\<lambda>detached. sqlite_engine (if detached then bg else q))"
proof -
  have "plain_result (sqlite_Preflight q spec h)" for spec h
    using plain_window [OF assms]
    by (auto simp: sqlite_Preflight_def sqliteTargetPath_def Let_def split: sum.splits if_splits)
  then show ?thesis
    by (auto simp: plain_engine_def sqlite_engine_def err_of_def plain_result_def on_host_def split: option.splits prod.splits sum.splits)
      (metis fst_conv)
qed

lemma with_adapters_plain:
  assumes "plain_host (d_host d)" and "plain_api q"
  shows "plain_deps (with_adapters sha tb q bg d)"
  using plain_mysql_engine [OF assms(1)] plain_sqlite_engine [OF assms(2)]
  by (auto simp: plain_deps_def with_adapters_def mysql_adapter_def pg_adapter_def mongo_adapter_def sqlite_adapter_def
      filesystem_adapter_def plain_engine_def pg_engine_def mongo_engine_def split: kind.splits)

text \<open>
  With the adapters of the four database kinds in place, every database restore reports the phase that its
  calls really reached: whatever the servers, the driver and the tools answer, the phase in the result is
  the one of the calls made (an untouched target, a restored one, a removed or a failed one).
\<close>

theorem real_adapters_report_true_phases:
  assumes "plain_host (d_host d)" and "plain_api q"
  shows "case runDatabaseRestore (with_adapters sha tb q bg d) opts task t sb False s of
     (r, s') \<Rightarrow> \<exists>cs. sh_calls s' = sh_calls s @ cs \<and> phase_true (with_adapters sha tb q bg d) t task r cs"
  by (rule reported_phase_is_true [OF with_adapters_plain [OF assms]])

definition demo_api :: "unit sqlite_api" where
  "demo_api =
     \<lparr>sq_open = (\<lambda>_ _. None), sq_rows = (\<lambda>_ _ h. (Inr [[''ok'']], h)), sq_exec = (\<lambda>_ _ _ h. (None, h)),
      fo_stat = (\<lambda>_ _. Absent), fo_mkdir_all = (\<lambda>_ h. (None, h)), fo_create_temp = (\<lambda>_ _ h. (Inr ''/x'', h)),
      fo_create = (\<lambda>_ h. (None, h)), fo_chmod = (\<lambda>_ h. (None, h)), fo_open = (\<lambda>_ _. None),
      fo_copy = (\<lambda>_ _ h. (None, h)), fo_sync = (\<lambda>_ h. (None, h)), fo_close = (\<lambda>_ h. (None, h)),
      fo_rename = (\<lambda>_ _ h. (None, h)), fo_remove = (\<lambda>_ h. (Done, h))\<rparr>"

theorem real_adapters_report_true_phases_witness:
  "case runDatabaseRestore (with_adapters (\<lambda>_. []) demo_tools demo_api demo_api demo_deps) demo_options
      \<lparr>rtk_kind = KindMySQL, rtk_repo = ''r'', rtk_filesystem = None, rtk_database = None, rtk_run_id = ''x''\<rparr>
      ''/t'' \<lparr>sb_restic_password = [], sb_db_password = [], sb_rclone_conf = []\<rparr> False demo_shell of
     (r, s') \<Rightarrow> \<exists>cs. sh_calls s' = sh_calls demo_shell @ cs \<and> phase_true (with_adapters (\<lambda>_. []) demo_tools demo_api demo_api demo_deps) ''/t''
       \<lparr>rtk_kind = KindMySQL, rtk_repo = ''r'', rtk_filesystem = None, rtk_database = None, rtk_run_id = ''x''\<rparr> r cs"
  by (rule real_adapters_report_true_phases)
    (simp_all add: plain_host_def demo_deps_def demo_host_def plain_api_def demo_api_def Let_def)

text \<open>A server on which the database has appeared since it was looked for: creating it fails.\<close>

definition race_host :: "unit host" where
  "race_host =
     demo_host (\<lambda>c. if HasPrefix (last (cmd_args c)) ''CREATE DATABASE''
                    then \<lparr>out_lines = [Err ''ERROR 1007 (HY000): database exists''], exit_code = 1, run_err = None\<rparr>
                    else \<lparr>out_lines = [], exit_code = 0, run_err = None\<rparr>)"

lemma race_query:
  assumes "query_lines race_host c q s = (x, s')"
  shows "(x = Inr [] \<or> (\<exists>e. x = Inl e \<and> as_pipeline e = None)) \<and> (isl x \<longleftrightarrow> HasPrefix q ''CREATE DATABASE'')"
    and "sh_ran s' = sh_ran s @ [statement c q]"
  using assms query_lines_ran [OF assms]
  by (auto simp: query_lines_def runQuery_def run_noted_def Run_def race_host_def demo_host_def statement_def tool_cmd_def
      failed_def nonblank_def exitError_def Let_def split: if_splits)

lemma race_import:
  obtains e s' where "mysql_Import demo_tools race_host race_host demo_spec s = (Some e, s')" and "as_pipeline e = None"
    and "map (\<lambda>c. last (cmd_args c)) (sh_ran s') = map (\<lambda>c. last (cmd_args c)) (sh_ran s) @ [''CREATE DATABASE '' @ quoted_name ''shop'']"
proof -
  have prep: "setup_statement demo_spec = ''CREATE DATABASE '' @ quoted_name ''shop''"
    by (simp add: setup_statement_def demo_spec_def demo_target_def charset_suffix_def validCharsetName_def Let_def)
  have p: "mysqlPrepare demo_tools race_host race_host demo_spec s = (Inr demo_ctx, s)"
    by (rule demo_prepare) (simp add: race_host_def demo_host_def)
  obtain x s2 where q: "query_lines race_host demo_ctx (setup_statement demo_spec) s = (x, s2)" by force
  have "HasPrefix (setup_statement demo_spec) ''CREATE DATABASE''" by (simp add: prep HasPrefix_def)
  with race_query(1) [OF q] obtain e0 where x: "x = Inl e0" "as_pipeline e0 = None" by (cases x) auto
  obtain e where "mysql_Import demo_tools race_host race_host demo_spec s = (Some e, s2)" and "as_pipeline e = None"
    using p q x by (auto simp: mysql_Import_def demo_spec_def)
  then show thesis
    by (rule that) (simp add: race_query(2) [OF q] statement_def tool_cmd_def prep)
qed

lemma race_remove:
  obtains s' where "mysql_RemoveTarget demo_tools race_host race_host demo_spec s = (None, s')"
    and "map (\<lambda>c. last (cmd_args c)) (sh_ran s') =
      map (\<lambda>c. last (cmd_args c)) (sh_ran s) @ [''DROP DATABASE IF EXISTS '' @ quoted_name ''shop'']"
proof -
  have p: "mysqlPrepare demo_tools race_host race_host demo_spec s = (Inr demo_ctx, s)"
    by (rule demo_prepare) (simp add: race_host_def demo_host_def)
  obtain x s2 where q: "query_lines race_host demo_ctx (drop_statement ''shop'') s = (x, s2)" by force
  have "\<not> HasPrefix (drop_statement ''shop'') ''CREATE DATABASE''" by (simp add: drop_statement_def HasPrefix_def)
  with race_query(1) [OF q] have x: "x = Inr []" by auto
  have "mysql_RemoveTarget demo_tools race_host race_host demo_spec s = (None, s2)"
  proof -
    have "rs_target_is_new demo_spec" "dbt_database (mc_target demo_ctx) = ''shop''"
      by (simp_all add: demo_spec_def demo_ctx_def demo_target_def)
    with p q x show ?thesis by (simp add: mysql_RemoveTarget_def)
  qed
  then show thesis
    by (rule that) (simp add: race_query(2) [OF q] statement_def tool_cmd_def drop_statement_def)
qed

text \<open>
  A failed creation drops the database of another actor.  When the database appears between the question
  whether the target exists and the import, the server refuses CREATE DATABASE as it should; but the
  pipeline answers every failed import of a new target by removing the target, and the adapter then drops
  the database that this run did not create.  The result even says that the target was cleaned up.
\<close>

theorem failed_creation_drops_foreign_database:
  "case replace_target demo_deps demo_options ''/t'' (\<lambda>_. mysql_engine demo_tools race_host race_host) demo_spec [] ''/s''
      demo_shell of
     (r, s') \<Rightarrow>
       map (\<lambda>c. last (cmd_args c)) (sh_ran s') =
         [''CREATE DATABASE '' @ quoted_name ''shop'', ''DROP DATABASE IF EXISTS '' @ quoted_name ''shop''] \<and>
       payload_of r = restoreResultJSON RestorePhaseNewTargetCleaned []"
proof -
  let ?eng = "mysql_engine demo_tools race_host race_host"
  define s0 where "s0 = log_line ''info'' ''importing into the new target %s'' [''shop''] (report_phase RestorePhaseRestoring demo_shell)"
  obtain e s1 where i: "mysql_Import demo_tools race_host race_host demo_spec s0 = (Some e, s1)" "as_pipeline e = None"
    "map (\<lambda>c. last (cmd_args c)) (sh_ran s1) = map (\<lambda>c. last (cmd_args c)) (sh_ran s0) @ [''CREATE DATABASE '' @ quoted_name ''shop'']"
    by (rule race_import)
  define s1' where "s1' = s1\<lparr>sh_calls := sh_calls s0 @ [Imported demo_spec (Some e)]\<rparr>"
  define s2 where "s2 = report_phase RestorePhaseRollingBack s1'"
  obtain s3 where r: "mysql_RemoveTarget demo_tools race_host race_host demo_spec s2 = (None, s3)"
    "map (\<lambda>c. last (cmd_args c)) (sh_ran s3) = map (\<lambda>c. last (cmd_args c)) (sh_ran s2) @ [''DROP DATABASE IF EXISTS '' @ quoted_name ''shop'']"
    by (rule race_remove)
  have ran: "sh_ran s0 = []" "sh_ran s2 = sh_ran s1"
    by (simp_all add: s0_def s1'_def s2_def report_phase_def demo_shell_def)
  have new: "rs_target_is_new demo_spec" "dbt_database (rs_database demo_spec) = ''shop''"
    by (simp_all add: demo_spec_def demo_target_def)
  have imp: "do_import ?eng demo_spec s0 = (Some e, s1')"
    using i by (simp add: do_import_def traced_def mysql_engine_def s1'_def)
  define s4 where "s4 = s3\<lparr>sh_calls := sh_calls s2 @ [Removed demo_spec None]\<rparr>"
  have "do_remove ?eng demo_spec s2 = (None, s4)"
    using r by (simp add: do_remove_def traced_def mysql_engine_def s4_def)
  with new have rolled: "rollbackDatabaseRestore demo_deps demo_options ''/t'' ?eng demo_spec [] s1' =
      ((RestorePhaseNewTargetCleaned, None), s4)"
    unfolding rollbackDatabaseRestore_def Let_def s2_def by (simp only: if_True prod.case option.case)
  have whole: "replace_target demo_deps demo_options ''/t'' (\<lambda>_. ?eng) demo_spec [] ''/s'' demo_shell =
      (Inl (import_failed demo_deps e ((RestorePhaseNewTargetCleaned, None), s4) []), s4)"
    unfolding replace_target_def Let_def new(2) s0_def [symmetric] by (simp only: new(1) if_True s0_def [symmetric] imp rolled prod.case option.case snd_conv)
  have "payload_of (Inl (import_failed demo_deps e ((RestorePhaseNewTargetCleaned, None), s4) [])) =
      restoreResultJSON RestorePhaseNewTargetCleaned []"
    by (simp add: payload_of_def import_failed_def Let_def)
  with whole r(2) i(3) ran show ?thesis by (simp add: s4_def)
qed

end
