(* ===== verification/Go_Time.thy ===== *)
theory Go_Time
  imports Prelude
begin

text \<open>
  The text of an instant as \<open>time.Format(time.RFC3339)\<close> writes it in UTC, for the years 0 to 9999: this is
  how the database keeps times and how the web API shows them.  The order of such texts is the order of the
  instants, which is why SQL can compare the columns, and the store's model their truncated instants.
\<close>

section \<open>The calendar\<close>

text \<open>Days are counted from the first of January of the year 0, which is a leap year.\<close>

definition leap :: "int \<Rightarrow> bool" where
  "leap y \<longleftrightarrow> y mod 4 = 0 \<and> (y mod 100 \<noteq> 0 \<or> y mod 400 = 0)"

definition days_before_year :: "int \<Rightarrow> int" where
  "days_before_year y = 365 * y + (y + 3) div 4 - (y + 99) div 100 + (y + 399) div 400"

definition year_of :: "int \<Rightarrow> int" where
  "year_of z =
     (let y = z * 400 div 146097 in
      if z < days_before_year y then y - 1 else if days_before_year (y + 1) \<le> z then y + 1 else y)"

definition month_starts :: "bool \<Rightarrow> nat list" where
  "month_starts l =
     (if l then [0, 31, 60, 91, 121, 152, 182, 213, 244, 274, 305, 335]
      else [0, 31, 59, 90, 120, 151, 181, 212, 243, 273, 304, 334])"

definition month_of :: "bool \<Rightarrow> nat \<Rightarrow> nat" where
  "month_of l doy = length (filter (\<lambda>s. s \<le> doy) (month_starts l))"

definition day_of :: "bool \<Rightarrow> nat \<Rightarrow> nat" where
  "day_of l doy = doy - month_starts l ! (month_of l doy - 1) + 1"

section \<open>The text\<close>

definition pad2 :: "nat \<Rightarrow> string" where
  "pad2 n = [char_of (48 + n div 10), char_of (48 + n mod 10)]"

definition pad4 :: "nat \<Rightarrow> string" where
  "pad4 n = pad2 (n div 100) @ pad2 (n mod 100)"

definition unix_day :: int where "unix_day = 719528"

definition rfc3339 :: "instant \<Rightarrow> string" where
  "rfc3339 t =
     (let s = t div nano; z = s div 86400 + unix_day; r = nat (s mod 86400);
          y = year_of z; doy = nat (z - days_before_year y)
      in pad4 (nat y) @ ''-'' @ pad2 (month_of (leap y) doy) @ ''-'' @ pad2 (day_of (leap y) doy) @ ''T'' @
         pad2 (r div 3600) @ '':'' @ pad2 (r div 60 mod 60) @ '':'' @ pad2 (r mod 60) @ ''Z'')"

definition zero_to_9999 :: "instant \<Rightarrow> bool" where
  "zero_to_9999 t \<longleftrightarrow> - unix_day * 86400 * nano \<le> t \<and> t < (days_before_year 10000 - unix_day) * 86400 * nano"

section \<open>The order of the texts\<close>

lemma list_less_append:
  "length a = length a' \<Longrightarrow> a @ b < a' @ (b' :: 'a::linorder list) \<longleftrightarrow> a < a' \<or> a = a' \<and> b < b'"
  by (induction a a' rule: list_induct2) auto

lemma pad2_length [simp]: "length (pad2 n) = 2" by (simp add: pad2_def)
lemma pad4_length [simp]: "length (pad4 n) = 4" by (simp add: pad4_def)

lemma digit_less: "i < 10 \<Longrightarrow> j < 10 \<Longrightarrow> (char_of (48 + i) :: char) < char_of (48 + j) \<longleftrightarrow> i < (j :: nat)"
  by (simp add: less_char_def)

lemma digit_eq: "i < 10 \<Longrightarrow> j < 10 \<Longrightarrow> (char_of (48 + i) :: char) = char_of (48 + j) \<longleftrightarrow> i = (j :: nat)"
  using digit_less [of i j] digit_less [of j i] by (metis less_irrefl nat_neq_iff)

lemma quotient_order:
  assumes "0 < (k :: nat)"
  shows "m div k < n div k \<or> m div k = n div k \<and> m mod k < n mod k \<longleftrightarrow> m < n"
proof -
  have m: "m = m div k * k + m mod k" and n: "n = n div k * k + n mod k" by simp_all
  show ?thesis
  proof (cases "m div k = n div k")
    case True
    obtain q where q: "m = q * k + m mod k" "n = q * k + n mod k" using m n True by metis
    have "q * k + m mod k < q * k + n mod k \<longleftrightarrow> m mod k < n mod k" by (rule add_less_cancel_left)
    then have "m < n \<longleftrightarrow> m mod k < n mod k" unfolding q [symmetric] .
    then show ?thesis using True by simp
  next
    case False
    then show ?thesis using div_le_mono [of m n k] div_le_mono [of n m k] by force
  qed
qed

lemma quotient_eq: "m div k = n div k \<and> m mod k = n mod k \<longleftrightarrow> m = (n :: nat)"
  by (metis div_mult_mod_eq)

lemma pad2_order:
  assumes "m < 100" and "n < 100"
  shows "pad2 m < pad2 n \<longleftrightarrow> m < n" and "pad2 m = pad2 n \<longleftrightarrow> m = n"
proof -
  have d: "m div 10 < 10" "n div 10 < 10" "m mod 10 < 10" "n mod 10 < 10" using assms by (auto simp: less_mult_imp_div_less)
  show "pad2 m < pad2 n \<longleftrightarrow> m < n"
    using d quotient_order [of 10 m n] by (simp add: pad2_def digit_less digit_eq)
  show "pad2 m = pad2 n \<longleftrightarrow> m = n"
    using d quotient_eq [of m 10 n] by (simp add: pad2_def digit_eq)
qed

lemma pad4_order:
  assumes "m < 10000" and "n < 10000"
  shows "pad4 m < pad4 n \<longleftrightarrow> m < n" and "pad4 m = pad4 n \<longleftrightarrow> m = n"
proof -
  have d: "m div 100 < 100" "n div 100 < 100" "m mod 100 < 100" "n mod 100 < 100" using assms by (auto simp: less_mult_imp_div_less)
  show "pad4 m < pad4 n \<longleftrightarrow> m < n"
    using d quotient_order [of 100 m n] by (simp add: pad4_def list_less_append pad2_order)
  show "pad4 m = pad4 n \<longleftrightarrow> m = n"
    using d quotient_eq [of m 100 n] by (simp add: pad4_def pad2_order)
qed

section \<open>Years\<close>

lemma ceiling_step:
  assumes "0 < (k :: int)" and j: "j = k - 1"
  shows "(y + 1 + j) div k = (y + j) div k + (if y mod k = 0 then 1 else 0)"
proof -
  have y: "y + j = (y mod k + j) + k * (y div k)" using mult_div_mod_eq [of k y] by linarith
  have "(y mod k + j) div k = (if y mod k = 0 then 0 else 1)"
  proof (cases "y mod k = 0")
    case False
    then have "0 \<le> y mod k - 1" "y mod k - 1 < k" using assms pos_mod_sign [of k y] pos_mod_bound [of k y] by linarith+
    then have "(y mod k - 1) div k = 0" by (rule div_pos_pos_trivial)
    then have "(y mod k - 1 + k) div k = 1" using assms div_add_self2 [of k "y mod k - 1"] by (simp del: div_add_self2)
    then show ?thesis using False by (simp add: j algebra_simps)
  qed (use assms in simp)
  moreover have "(y + j) div k = y div k + (y mod k + j) div k"
    using assms(1) div_mult_self2 [of k "y mod k + j" "y div k"] unfolding y [symmetric] by simp
  moreover have "(y + 1 + j) div k = y div k + 1" using assms div_add_self2 [of k y] by (simp add: j del: div_add_self2)
  ultimately show ?thesis by simp
qed

lemma days_before_next: "days_before_year (y + 1) = days_before_year y + (if leap y then 366 else 365)"
proof -
  obtain a b c where q: "a = (y + 3) div 4" "b = (y + 99) div 100" "c = (y + 399) div 400" by simp
  have succ: "(y + 1 + 3) div 4 = a + (if y mod 4 = 0 then 1 else 0)" "(y + 1 + 99) div 100 = b + (if y mod 100 = 0 then 1 else 0)"
    "(y + 1 + 399) div 400 = c + (if y mod 400 = 0 then 1 else 0)"
    unfolding q by (rule ceiling_step; simp)+
  have "y mod 100 mod 4 = y mod 4" "y mod 400 mod 100 = y mod 100" by (simp_all add: mod_mod_cancel)
  then have m: "y mod 100 = 0 \<Longrightarrow> y mod 4 = 0" "y mod 400 = 0 \<Longrightarrow> y mod 100 = 0" by auto
  show ?thesis
    unfolding days_before_year_def leap_def succ q [symmetric] using m by (cases "y mod 4 = 0"; cases "y mod 100 = 0"; cases "y mod 400 = 0") simp_all
qed

lemma ceiling_bounds:
  assumes "0 < (k :: int)"
  shows "y \<le> k * ((y + (k - 1)) div k) \<and> k * ((y + (k - 1)) div k) \<le> y + (k - 1)"
  using mult_div_mod_eq [of k "y + (k - 1)"] pos_mod_sign [of k "y + (k - 1)"] pos_mod_bound [of k "y + (k - 1)"] assms by linarith

lemma days_before_near: "146097 * y - 400 \<le> 400 * days_before_year y" "400 * days_before_year y \<le> 146097 * y + 700"
proof -
  obtain a b c where q: "a = (y + 3) div 4" "b = (y + 99) div 100" "c = (y + 399) div 400" by simp
  then have "y \<le> 4 * a" "4 * a \<le> y + 3" "y \<le> 100 * b" "100 * b \<le> y + 99" "y \<le> 400 * c" "400 * c \<le> y + 399"
    using ceiling_bounds [of 4 y] ceiling_bounds [of 100 y] ceiling_bounds [of 400 y] by simp_all
  then show "146097 * y - 400 \<le> 400 * days_before_year y" "400 * days_before_year y \<le> 146097 * y + 700"
    unfolding days_before_year_def q [symmetric] distrib_left right_diff_distrib by linarith+
qed

lemma year_of_bounds: "days_before_year (year_of z) \<le> z \<and> z < days_before_year (year_of z + 1)"
proof -
  define y where "y = z * 400 div 146097"
  have y: "146097 * y \<le> z * 400" "z * 400 < 146097 * y + 146097"
    unfolding y_def using mult_div_mod_eq [of 146097 "z * 400"] pos_mod_sign [of 146097 "z * 400"] pos_mod_bound [of 146097 "z * 400"]
    by linarith+
  have "days_before_year (y - 1) \<le> z" using y(1) days_before_near(2) [of "y - 1"] unfolding right_diff_distrib by linarith
  moreover have "z < days_before_year (y + 2)" using y(2) days_before_near(1) [of "y + 2"] unfolding distrib_left by linarith
  ultimately show ?thesis by (auto simp: year_of_def Let_def y_def [symmetric] algebra_simps)
qed

lemma days_before_mono: "x \<le> y \<Longrightarrow> days_before_year x \<le> days_before_year y"
proof (induction y rule: int_ge_induct)
  case (step y)
  then show ?case using days_before_next [of y] by (auto split: if_splits)
qed simp

lemma year_of_mono: "w \<le> z \<Longrightarrow> year_of w \<le> year_of z"
  using year_of_bounds [of w] year_of_bounds [of z] days_before_mono [of "year_of z + 1" "year_of w"] by linarith

lemma doy_bounds: "0 \<le> z - days_before_year (year_of z) \<and> z - days_before_year (year_of z) < (if leap (year_of z) then 366 else 365)"
  using year_of_bounds [of z] days_before_next [of "year_of z"] by auto

section \<open>Days of a year\<close>

lemma length_filter_mono: "(\<And>x. P x \<Longrightarrow> Q x) \<Longrightarrow> length (filter P xs) \<le> length (filter Q xs)"
  by (induction xs) auto

lemma filter_sorted: "sorted s \<Longrightarrow> filter (\<lambda>x. x \<le> d) s = takeWhile (\<lambda>x. x \<le> (d :: nat)) s"
proof (induction s)
  case (Cons a s)
  have none: "filter (\<lambda>x. x \<le> d) s = []" if "\<not> a \<le> d" using Cons.prems that by (auto simp: filter_empty_conv)
  show ?case
  proof (cases "a \<le> d")
    case True
    then show ?thesis using Cons by simp
  next
    case False
    then show ?thesis using none by simp
  qed
qed simp

lemma month_starts_sorted: "sorted (month_starts l)" "length (month_starts l) = 12"
  by (simp_all add: month_starts_def)

lemma month_of_takeWhile: "month_of l i = length (takeWhile (\<lambda>s. s \<le> i) (month_starts l))"
  by (simp add: month_of_def filter_sorted month_starts_sorted)

lemma month_bounds: "1 \<le> month_of l i" "month_of l i \<le> 12"
  using length_takeWhile_le [of "\<lambda>s. s \<le> i" "month_starts l"]
  by (auto simp: month_of_takeWhile month_starts_sorted) (simp add: month_starts_def)

lemma month_start_le: "month_starts l ! (month_of l i - 1) \<le> i"
proof -
  let ?w = "takeWhile (\<lambda>s. s \<le> i) (month_starts l)"
  have n: "month_of l i - 1 < length ?w" using month_bounds(1) [of l i] unfolding month_of_takeWhile [of l i] by linarith
  then have "month_starts l ! (month_of l i - 1) = ?w ! (month_of l i - 1)" by (simp add: takeWhile_nth)
  moreover have "?w ! (month_of l i - 1) \<in> set ?w" using n by (rule nth_mem)
  ultimately show ?thesis by (metis (mono_tags, lifting) set_takeWhileD)
qed

lemma month_start_gt: "month_of l i < 12 \<Longrightarrow> i < month_starts l ! month_of l i"
  using nth_length_takeWhile [of "\<lambda>s. s \<le> i" "month_starts l"] by (simp add: month_of_takeWhile month_starts_sorted not_le)

lemma month_length: "n < 11 \<Longrightarrow> month_starts l ! Suc n \<le> month_starts l ! n + 31"
proof -
  have "list_all (\<lambda>n. month_starts l ! Suc n \<le> month_starts l ! n + 31) [0..<11]"
    by (cases l) (simp_all add: month_starts_def upt_rec)
  then show "n < 11 \<Longrightarrow> month_starts l ! Suc n \<le> month_starts l ! n + 31" by (simp add: list_all_iff)
qed

lemma month_of_mono: "i \<le> j \<Longrightarrow> month_of l i \<le> month_of l j"
  unfolding month_of_def by (rule length_filter_mono) simp

lemma date_order:
  "month_of l i < month_of l j \<or> month_of l i = month_of l j \<and> day_of l i < day_of l j \<longleftrightarrow> i < j"
proof (cases "month_of l i = month_of l j")
  case True
  then show ?thesis using month_start_le [of l i] month_start_le [of l j] by (auto simp: day_of_def)
next
  case False
  then show ?thesis using month_of_mono [of i j l] month_of_mono [of j i l] by linarith
qed

lemma day_bound: "i < 366 \<Longrightarrow> day_of l i \<le> 32"
proof (cases "month_of l i < 12")
  case True
  then have "month_of l i - 1 < 11" using month_bounds(1) [of l i] by linarith
  from month_length [OF this, of l] show ?thesis
    using month_start_gt [OF True] month_bounds(1) [of l i] by (simp add: day_of_def)
next
  case False
  then have "month_of l i = 12" using month_bounds(2) [of l i] by linarith
  moreover assume "i < 366"
  ultimately show ?thesis by (cases l) (simp_all add: day_of_def month_starts_def)
qed

section \<open>Texts and instants\<close>

definition date_text :: "int \<Rightarrow> string" where
  "date_text z = (let y = year_of z; doy = nat (z - days_before_year y) in
     pad4 (nat y) @ ''-'' @ pad2 (month_of (leap y) doy) @ ''-'' @ pad2 (day_of (leap y) doy))"

lemma date_text_length [simp]: "length (date_text z) = 10"
  by (simp add: date_text_def Let_def)

lemma date_text_order:
  assumes "0 \<le> w" "w < days_before_year 10000" "0 \<le> z" "z < days_before_year 10000"
  shows "date_text w < date_text z \<longleftrightarrow> w < z"
proof -
  let ?d = "\<lambda>z. nat (z - days_before_year (year_of z))"
  have small: "0 \<le> year_of v \<and> year_of v < 10000" if "0 \<le> v" "v < days_before_year 10000" for v
  proof -
    have "days_before_year 0 = 0" by (simp add: days_before_year_def)
    then show ?thesis
      using year_of_bounds [of v] days_before_mono [of "year_of v + 1" 0] days_before_mono [of 10000 "year_of v"] that by linarith
  qed
  note bounds = small [OF assms(1,2)] small [OF assms(3,4)]
  have fit: "month_of l i < 100" "i < 366 \<Longrightarrow> day_of l i < 100" for l i
    using month_bounds(2) [of l i] day_bound [of i l] by linarith+
  have doy: "?d v < 366" for v using doy_bounds [of v] by (auto split: if_splits)
  show ?thesis
  proof (cases "year_of w = year_of z")
    case True
    have "date_text w < date_text z \<longleftrightarrow> ?d w < ?d z"
      using date_order [of "leap (year_of z)" "?d w" "?d z"] fit doy [of w] doy [of z] True
      by (simp add: date_text_def Let_def list_less_append pad2_order)
    also have "\<dots> \<longleftrightarrow> w < z" using doy_bounds [of w] doy_bounds [of z] True by auto
    finally show ?thesis .
  next
    case False
    then have "nat (year_of w) \<noteq> nat (year_of z)" using bounds by auto
    then have "date_text w < date_text z \<longleftrightarrow> year_of w < year_of z"
      using bounds by (auto simp: date_text_def Let_def list_less_append pad4_order)
    also have "\<dots> \<longleftrightarrow> w < z" using False year_of_mono [of w z] year_of_mono [of z w] by linarith
    finally show ?thesis .
  qed
qed

definition clock_text :: "nat \<Rightarrow> string" where
  "clock_text r = pad2 (r div 3600) @ '':'' @ pad2 (r div 60 mod 60) @ '':'' @ pad2 (r mod 60)"

lemma clock_text_length [simp]: "length (clock_text r) = 8"
  by (simp add: clock_text_def)

lemma clock_text_order:
  assumes "r < 86400" and "q < 86400"
  shows "clock_text r < clock_text q \<longleftrightarrow> r < q"
proof -
  have "r div 3600 < 100" "q div 3600 < 100" "r div 60 mod 60 < 100" "q div 60 mod 60 < 100" "r mod 60 < 100" "q mod 60 < 100"
    using assms by (auto simp: less_mult_imp_div_less intro: less_trans [OF mod_less_divisor])
  moreover have "r div 3600 = r div 60 div 60" "q div 3600 = q div 60 div 60" by (simp_all add: div_mult2_eq [symmetric])
  ultimately show ?thesis
    using quotient_order [of 60 "r div 60" "q div 60"] quotient_order [of 60 r q] quotient_eq [of "r div 60" 60 "q div 60"]
    by (simp add: clock_text_def list_less_append pad2_order) blast
qed

lemma quotient_range:
  assumes "0 < (k :: int)" and "a * k \<le> x" and "x < b * k"
  shows "a \<le> x div k \<and> x div k < b"
proof
  show "a \<le> x div k" using zdiv_mono1 [OF assms(2,1)] assms(1) by simp
  show "x div k < b"
  proof (rule ccontr)
    assume "\<not> x div k < b"
    then have "b * k \<le> x div k * k" using assms(1) by (simp add: mult_right_mono)
    then show False using assms(3) pos_mod_sign [OF assms(1), of x] div_mult_mod_eq [of x k] by linarith
  qed
qed

lemma int_quotient_order:
  assumes "0 < (k :: int)"
  shows "u div k < v div k \<or> u div k = v div k \<and> u mod k < v mod k \<longleftrightarrow> u < v"
proof (cases "u div k = v div k")
  case True
  have u: "u = u div k * k + u mod k" and v: "v = v div k * k + v mod k" by simp_all
  then obtain q where q: "u = q * k + u mod k" "v = q * k + v mod k" using True by metis
  have "q * k + u mod k < q * k + v mod k \<longleftrightarrow> u mod k < v mod k" by (rule add_less_cancel_left)
  then have "u < v \<longleftrightarrow> u mod k < v mod k" unfolding q [symmetric] .
  then show ?thesis using True by simp
next
  case False
  then show ?thesis using zdiv_mono1 [of u v k] zdiv_mono1 [of v u k] assms by force
qed

lemma rfc3339_parts:
  "rfc3339 t = date_text (t div nano div 86400 + unix_day) @ ''T'' @ clock_text (nat (t div nano mod 86400)) @ ''Z''"
  by (simp add: rfc3339_def date_text_def clock_text_def Let_def)

text \<open>
  The texts of two times are ordered as the times.  For all instants of the years 0 to 9999, the text in
  the database or in a reply is smaller exactly when the instant, with the fraction of its second dropped,
  is earlier.
\<close>

theorem time_texts_are_ordered_as_instants:
  assumes "zero_to_9999 s" and "zero_to_9999 t"
  shows "rfc3339 s < rfc3339 t \<longleftrightarrow> sec s < sec t"
proof -
  let ?u = "s div nano" and ?v = "t div nano"
  have range: "0 \<le> x div nano div 86400 + unix_day \<and> x div nano div 86400 + unix_day < days_before_year 10000"
    if "zero_to_9999 x" for x
  proof -
    have "- unix_day * 86400 \<le> x div nano \<and> x div nano < (days_before_year 10000 - unix_day) * 86400"
      using that by (intro quotient_range) (simp_all add: zero_to_9999_def nano_def)
    then have "- unix_day \<le> x div nano div 86400 \<and> x div nano div 86400 < days_before_year 10000 - unix_day"
      by (intro quotient_range) simp_all
    then show ?thesis by linarith
  qed
  have clock: "nat (x mod 86400) < 86400" for x :: int by (simp add: nat_less_iff)
  have "rfc3339 s < rfc3339 t \<longleftrightarrow> ?u div 86400 < ?v div 86400 \<or> ?u div 86400 = ?v div 86400 \<and> ?u mod 86400 < ?v mod 86400"
  proof (cases "?u div 86400 = ?v div 86400")
    case True
    moreover have "0 \<le> ?u mod 86400" by simp
    ultimately show ?thesis
      by (auto simp: rfc3339_parts list_less_append clock_text_order clock nat_less_eq_zless)
  next
    case False
    then have "date_text (?u div 86400 + unix_day) \<noteq> date_text (?v div 86400 + unix_day)"
      using date_text_order range [OF assms(1)] range [OF assms(2)] by (metis add_right_cancel linorder_neq_iff)
    then show ?thesis using False range [OF assms(1)] range [OF assms(2)]
      by (simp add: rfc3339_parts list_less_append date_text_order)
  qed
  also have "\<dots> \<longleftrightarrow> ?u < ?v" by (rule int_quotient_order) simp
  also have "\<dots> \<longleftrightarrow> sec s < sec t" by (simp add: sec_def nano_def)
  finally show ?thesis .
qed

theorem time_texts_are_ordered_as_instants_witness:
  "rfc3339 (seconds 951782399) < rfc3339 (seconds 951782400)"
proof -
  have year: "days_before_year 10000 = 3652425" by (simp add: days_before_year_def)
  have "zero_to_9999 (seconds 951782399)" "zero_to_9999 (seconds 951782400)"
    unfolding zero_to_9999_def year by (simp_all add: seconds_def nano_def unix_day_def)
  then show ?thesis
    by (rule time_texts_are_ordered_as_instants [THEN iffD2]) (simp add: sec_def seconds_def nano_def)
qed

end
