(* ===== verification/Auth.thy ===== *)
theory Auth
  imports Store_Accounts Secrets Go_Time
begin

text \<open>
  Logging in (\<open>internal/server/auth\<close>): password hashes, sessions with a sliding and an absolute end, and
  the check of unsafe requests, with the limiter of attempts (\<open>allowAuthAttempt\<close> in \<open>api/server.go\<close>).  The
  key derivation, the hash of tokens, random bytes and the clock are arguments.
\<close>

section \<open>Requests\<close>

text \<open>
  What the server looks at in a request: \<open>rq_remote\<close> is the peer address, cookies are in the order of
  the header, parameters are those of the path, and \<open>rq_body\<close> is the document of the body, which is
  \<open>JBad\<close> when it is not one (or longer than 8 MiB).
\<close>

record request =
  rq_method :: string
  rq_host :: string
  rq_remote :: string
  rq_tls :: bool
  rq_origin :: string
  rq_csrf :: string
  rq_cookies :: "(string \<times> string) list"
  rq_params :: "(string \<times> string) list"
  rq_query :: "(string \<times> string) list"
  rq_body :: json

definition SessionCookie :: string where "SessionCookie = ''bmc_session''"
definition CSRFCookie :: string where "CSRFCookie = ''bmc_csrf''"
definition idleTTL :: int where "idleTTL = hours 12"
definition absoluteTL :: int where "absoluteTL = hours (7 * 24)"

definition cookie :: "request \<Rightarrow> string \<Rightarrow> string" where
  "cookie rq name = (case List.find (\<lambda>c. fst c = name) (rq_cookies rq) of None \<Rightarrow> [] | Some c \<Rightarrow> snd c)"

section \<open>Base 64 without padding\<close>

fun raw64_encode :: "string \<Rightarrow> string" where
  "raw64_encode (a # b # c # s) =
     b64_digit (of_char a div 4) # b64_digit (of_char a mod 4 * 16 + of_char b div 16) #
     b64_digit (of_char b mod 16 * 4 + of_char c div 64) # b64_digit (of_char c mod 64) # raw64_encode s"
| "raw64_encode [a, b] =
     [b64_digit (of_char a div 4), b64_digit (of_char a mod 4 * 16 + of_char b div 16), b64_digit (of_char b mod 16 * 4)]"
| "raw64_encode [a] = [b64_digit (of_char a div 4), b64_digit (of_char a mod 4 * 16)]"
| "raw64_encode [] = []"

text \<open>The bytes of the digits; what a last incomplete group has left over is ignored.\<close>

fun raw64_join :: "nat list \<Rightarrow> string option" where
  "raw64_join (p # q # r # t # s) =
     map_option (\<lambda>z. char_of (p * 4 + q div 16) # char_of (q mod 16 * 16 + r div 4) # char_of (r mod 4 * 64 + t) # z) (raw64_join s)"
| "raw64_join [p, q, r] = Some [char_of (p * 4 + q div 16), char_of (q mod 16 * 16 + r div 4)]"
| "raw64_join [p, q] = Some [char_of (p * 4 + q div 16)]"
| "raw64_join [p] = None"
| "raw64_join [] = Some []"

definition raw64_decode :: "string \<Rightarrow> string option" where
  "raw64_decode s =
     Option.bind (decode_all b64_value (filter (\<lambda>c. c \<noteq> CHR 0x0D \<and> c \<noteq> CHR 0x0A) s)) raw64_join"

section \<open>Passwords\<close>

text \<open>
  \<open>idkey password salt time memory threads length\<close> is Argon2id.
\<close>

type_synonym idkey = "string \<Rightarrow> string \<Rightarrow> int \<Rightarrow> int \<Rightarrow> int \<Rightarrow> nat \<Rightarrow> string"

definition HashPassword :: "idkey \<Rightarrow> string \<Rightarrow> string \<Rightarrow> string" where
  "HashPassword idkey salt password =
     ''$argon2id$v=19$m=65536,t=2,p=1$'' @ raw64_encode salt @ ''$'' @ raw64_encode (idkey password salt 2 65536 1 32)"

fun parse_uint32 :: "int \<Rightarrow> string \<Rightarrow> int option" where
  "parse_uint32 n [] = Some n"
| "parse_uint32 n (c # s) =
     (let m = n * 10 + (of_char c - 48) in
      if \<not> is_digit c \<or> 0xFFFFFFFF < m then None else parse_uint32 m s)"

definition parseUint32 :: "string \<Rightarrow> int option" where
  "parseUint32 s = (if s = [] then None else parse_uint32 0 s)"

text \<open>Memory, time and threads.\<close>

fun parseArgonParams :: "string list \<Rightarrow> int \<times> int \<times> int \<Rightarrow> (int \<times> int \<times> int) option" where
  "parseArgonParams [] p = Some p"
| "parseArgonParams (kv # kvs) (m, t, p) =
     (if HasPrefix kv ''m='' then Option.bind (parseUint32 (drop 2 kv)) (\<lambda>n. parseArgonParams kvs (n, t, p))
      else if HasPrefix kv ''t='' then Option.bind (parseUint32 (drop 2 kv)) (\<lambda>n. parseArgonParams kvs (m, n, p))
      else if HasPrefix kv ''p=''
      then Option.bind (parseUint32 (drop 2 kv)) (\<lambda>n. if 255 < n then None else parseArgonParams kvs (m, t, n))
      else parseArgonParams kvs (m, t, p))"

definition VerifyPassword :: "idkey \<Rightarrow> string \<Rightarrow> string \<Rightarrow> bool" where
  "VerifyPassword idkey password phc =
     (let parts = SplitChar (CHR ''$'') phc in
      if length parts \<noteq> 6 \<or> parts ! 1 \<noteq> ''argon2id'' then False
      else case (raw64_decode (parts ! 4), raw64_decode (parts ! 5), parseArgonParams (SplitChar (CHR '','') (parts ! 3)) (0, 0, 0)) of
        (Some salt, Some want, Some (m, t, p)) \<Rightarrow> idkey password salt t m p (length want) = want
      | _ \<Rightarrow> False)"

section \<open>Sessions\<close>

datatype auth_err = ErrInvalidCredentials | AuthStore store_err

definition new_session :: "string \<Rightarrow> string \<Rightarrow> instant \<Rightarrow> session" where
  "new_session h adminID now =
     \<lparr>ses_id_hash = h, ses_admin_id = adminID, ses_expires_at = now + absoluteTL, ses_created_at = now, ses_last_seen_at = now\<rparr>"

text \<open>\<open>fault\<close> is what the database reports instead of looking up the administrator.\<close>

definition Login ::
  "idkey \<Rightarrow> (string \<Rightarrow> string) \<Rightarrow> store_err option \<Rightarrow> string \<Rightarrow> instant \<Rightarrow> string \<Rightarrow> string \<Rightarrow> db \<Rightarrow> (auth_err + string \<times> admin) \<times> db" where
  "Login idkey hash fault token now username password d =
     (case (case fault of None \<Rightarrow> GetAdminByUsername d username | Some e \<Rightarrow> Inl e) of
        Inl e \<Rightarrow> (Inl (if e = ErrNotFound then ErrInvalidCredentials else AuthStore e), d)
      | Inr a \<Rightarrow>
          if \<not> VerifyPassword idkey password (adm_password_hash a) then (Inl ErrInvalidCredentials, d)
          else case CreateSession (new_session (hash token) (adm_id a) now) d of
            Inl e \<Rightarrow> (Inl (AuthStore e), d)
          | Inr d1 \<Rightarrow> (Inr (token, a), UpdateAdminLastLogin (adm_id a) now d1))"

definition Validate :: "(string \<Rightarrow> string) \<Rightarrow> instant \<Rightarrow> request \<Rightarrow> db \<Rightarrow> session option \<times> db" where
  "Validate hash now rq d =
     (let c = cookie rq SessionCookie in
      if c = [] then (None, d)
      else case GetSession d (hash c) of
        Inl _ \<Rightarrow> (None, d)
      | Inr s \<Rightarrow>
          if ses_expires_at s < now \<or> idleTTL < now - ses_last_seen_at s then (None, DeleteSession (ses_id_hash s) d)
          else (Some s, if minutes 1 < now - ses_last_seen_at s then TouchSession (ses_id_hash s) now d else d))"

definition Logout :: "(string \<Rightarrow> string) \<Rightarrow> request \<Rightarrow> db \<Rightarrow> db" where
  "Logout hash rq d =
     (let c = cookie rq SessionCookie in if c = [] then d else DeleteSession (hash c) d)"

section \<open>Unsafe requests\<close>

definition trim_end_slashes :: "string \<Rightarrow> string" where
  "trim_end_slashes s = rev (dropWhile (\<lambda>c. c = CHR ''/'') (rev s))"

text \<open>
  The policy of a server behind a proxy: the public origin, empty when none is configured, and whether
  cookies must be secure.  \<open>url\<close> is \<open>url.Parse\<close> as far as it is used: scheme and host.
\<close>

definition WithRequestPolicy :: "(string \<Rightarrow> (string \<times> string) option) \<Rightarrow> string \<Rightarrow> bool \<times> string" where
  "WithRequestPolicy url publicURL =
     (case url publicURL of
        None \<Rightarrow> (False, [])
      | Some (scheme, host) \<Rightarrow>
          if scheme = [] \<or> host = [] then (False, [])
          else (scheme = ''https'', trim_end_slashes (scheme @ ''://'' @ host)))"

definition secureRequest :: "bool \<times> string \<Rightarrow> request \<Rightarrow> bool" where
  "secureRequest policy rq \<longleftrightarrow> rq_tls rq \<or> fst policy"

definition sameOrigin :: "string \<Rightarrow> string \<Rightarrow> bool" where
  "sameOrigin origin host \<longleftrightarrow>
     takeWhile (\<lambda>c. c \<noteq> CHR ''/'')
       (TrimSuffix (TrimPrefix (TrimPrefix origin ''https://'') ''http://'') ''/'') = host"

definition origin_ok :: "bool \<times> string \<Rightarrow> request \<Rightarrow> bool" where
  "origin_ok policy rq \<longleftrightarrow>
     (if snd policy \<noteq> [] then rq_origin rq \<noteq> [] \<and> EqualFold (trim_end_slashes (rq_origin rq)) (snd policy)
      else rq_origin rq = [] \<or> sameOrigin (rq_origin rq) (rq_host rq))"

definition CheckCSRF :: "bool \<times> string \<Rightarrow> request \<Rightarrow> bool" where
  "CheckCSRF policy rq \<longleftrightarrow>
     rq_method rq \<in> {''GET'', ''HEAD'', ''OPTIONS''} \<or>
     origin_ok policy rq \<and> cookie rq CSRFCookie \<noteq> [] \<and> rq_csrf rq \<noteq> [] \<and> cookie rq CSRFCookie = rq_csrf rq"

text \<open>Cookies that a reply sets; \<open>sc_expires\<close> is \<open>None\<close> for one that is taken back (\<open>MaxAge: -1\<close>).\<close>

record set_cookie =
  sc_name :: string
  sc_value :: string
  sc_http_only :: bool
  sc_secure :: bool
  sc_expires :: "instant option"

definition SetSessionCookie :: "bool \<times> string \<Rightarrow> request \<Rightarrow> string \<Rightarrow> instant \<Rightarrow> set_cookie" where
  "SetSessionCookie policy rq token expires =
     \<lparr>sc_name = SessionCookie, sc_value = token, sc_http_only = True, sc_secure = secureRequest policy rq, sc_expires = Some expires\<rparr>"

definition ClearSessionCookie :: "bool \<times> string \<Rightarrow> request \<Rightarrow> set_cookie" where
  "ClearSessionCookie policy rq =
     \<lparr>sc_name = SessionCookie, sc_value = [], sc_http_only = True, sc_secure = secureRequest policy rq, sc_expires = None\<rparr>"

definition ClearCSRFCookie :: "bool \<times> string \<Rightarrow> request \<Rightarrow> set_cookie" where
  "ClearCSRFCookie policy rq =
     \<lparr>sc_name = CSRFCookie, sc_value = [], sc_http_only = False, sc_secure = secureRequest policy rq, sc_expires = None\<rparr>"

definition SetCSRFCookie :: "bool \<times> string \<Rightarrow> request \<Rightarrow> string \<Rightarrow> instant \<Rightarrow> set_cookie" where
  "SetCSRFCookie policy rq csrf now =
     \<lparr>sc_name = CSRFCookie, sc_value = csrf, sc_http_only = False, sc_secure = secureRequest policy rq,
      sc_expires = Some (now + absoluteTL)\<rparr>"

section \<open>The limiter\<close>

type_synonym rate = "string \<rightharpoonup> instant \<times> nat"

definition peer_key :: "string \<Rightarrow> string" where
  "peer_key addr =
     (let t = dropWhile (\<lambda>c. c \<noteq> CHR '':'') (rev addr); host = rev (tl t) in
      if t = [] \<or> host = [] then addr else host)"

definition rate_window :: int where "rate_window = minutes 15"
definition rate_limit :: nat where "rate_limit = 10"

text \<open>One attempt of a peer: whether it is allowed, how long to wait otherwise, and its window.\<close>

definition rate_step :: "instant \<Rightarrow> (instant \<times> nat) option \<Rightarrow> bool \<times> int \<times> instant \<times> nat" where
  "rate_step now w =
     (let (started, n) = (case w of None \<Rightarrow> (now, 0)
                          | Some (st, k) \<Rightarrow> if rate_window \<le> now - st then (now, 0) else (st, k)) in
      if rate_limit \<le> n then (False, rate_window - (now - started), started, n) else (True, 0, started, n + 1))"

definition allowAuthAttempt :: "instant \<Rightarrow> string \<Rightarrow> rate \<Rightarrow> (bool \<times> int) \<times> rate" where
  "allowAuthAttempt now addr r =
     (let k = peer_key addr; (ok, wait, w) = rate_step now (r k) in ((ok, wait), r(k \<mapsto> w)))"

text \<open>Seconds for \<open>Retry-After\<close>: rounded up, at least one.\<close>

definition retry_after :: "int \<Rightarrow> int" where
  "retry_after wait = max 1 (wait div nano + (if wait mod nano \<noteq> 0 then 1 else 0))"

section \<open>A password is found again\<close>

lemma dollar_plain: "n < 64 \<Longrightarrow> b64_digit n \<notin> {CHR ''$'', CHR 0x0D, CHR 0x0A}"
proof -
  have "list_all (\<lambda>n. b64_digit n \<notin> {CHR ''$'', CHR 0x0D, CHR 0x0A}) [0..<64]" by code_simp
  then show "n < 64 \<Longrightarrow> b64_digit n \<notin> {CHR ''$'', CHR 0x0D, CHR 0x0A}" by (simp add: list_all_iff)
qed

lemma raw64_encode_plain: "set (raw64_encode s) \<inter> {CHR ''$'', CHR 0x0D, CHR 0x0A} = {}"
proof (induction s rule: raw64_encode.induct)
  case (1 a b c s)
  then show ?case using dollar_plain b64_parts [of "of_char a" "of_char b" "of_char c"] by auto
next
  case (2 a b)
  then show ?case using dollar_plain b64_parts [of "of_char a" "of_char b" 0] by auto
next
  case (3 a)
  then show ?case using dollar_plain b64_parts [of "of_char a" 0 0] by auto
qed simp

lemma raw64_round_trip: "raw64_decode (raw64_encode s) = Some s"
proof -
  have "filter (\<lambda>c. c \<noteq> CHR 0x0D \<and> c \<noteq> CHR 0x0A) (raw64_encode s) = raw64_encode s"
    using raw64_encode_plain [of s] by (auto simp: filter_id_conv)
  moreover have "Option.bind (decode_all b64_value (raw64_encode s)) raw64_join = Some s"
  proof (induction s rule: raw64_encode.induct)
    case (1 a b c s)
    then obtain vs where vs: "decode_all b64_value (raw64_encode s) = Some vs" "raw64_join vs = Some s"
      by (cases "decode_all b64_value (raw64_encode s)") auto
    then show ?case using b64_parts [of "of_char a" "of_char b" "of_char c"] by simp
  next
    case (2 a b)
    then show ?case using b64_parts [of "of_char a" "of_char b" 0] by simp
  next
    case (3 a)
    then show ?case using b64_parts [of "of_char a" 0 0] by simp
  qed simp
  ultimately show ?thesis by (simp add: raw64_decode_def)
qed

text \<open>
  A stored password is accepted again, and nothing else is.  The hash that is stored for a password
  accepts exactly the passwords from which the key derivation makes the same key with the salt in it.
\<close>

theorem password_is_verified_against_its_hash:
  assumes "\<And>pw salt t m p n. length (idkey pw salt t m p n) = n"
  shows "VerifyPassword idkey password' (HashPassword idkey salt password) \<longleftrightarrow>
    idkey password' salt 2 65536 1 32 = idkey password salt 2 65536 1 32"
proof -
  let ?h = "idkey password salt 2 65536 1 32"
  have plain: "CHR ''$'' \<notin> set (raw64_encode x)" for x using raw64_encode_plain [of x] by auto
  have one: "SplitChar c x = [x]" if "c \<notin> set x" for c x using that by (induction x) auto
  have parts: "SplitChar (CHR ''$'') (HashPassword idkey salt password) =
      [[], ''argon2id'', ''v=19'', ''m=65536,t=2,p=1'', raw64_encode salt, raw64_encode ?h]"
    using plain [of salt] plain [of ?h] one by (simp add: HashPassword_def SplitChar_append)
  have params: "parseArgonParams (SplitChar (CHR '','') ''m=65536,t=2,p=1'') (0, 0, 0) = Some (65536, 2, 1)" by code_simp
  show ?thesis
    unfolding VerifyPassword_def parts Let_def using params assms [of password salt 2 65536 1 32]
    by (simp add: raw64_round_trip)
qed

theorem password_is_verified_against_its_hash_witness:
  "VerifyPassword (\<lambda>pw salt t m p n. take n (pw @ replicate n CHR 0x00)) ''secret''
     (HashPassword (\<lambda>pw salt t m p n. take n (pw @ replicate n CHR 0x00)) ''salt'' ''secret'')"
  by (rule password_is_verified_against_its_hash [THEN iffD2]) simp_all

section \<open>A session is found while it lasts, and not afterwards\<close>

text \<open>
  Logging in opens a session that lasts.  The token a login returns opens a session of that administrator
  for any request within twelve hours, and until then the database holds it only as a hash.  Once a
  session was refused because it had run out, it is gone, and the same cookie is refused for ever.
\<close>

theorem session_lasts_as_long_as_it_may:
  assumes "Login idkey hash fault token now username password d = (Inr (tok, a), d1)" and "tok \<noteq> []"
    and "cookie rq SessionCookie = tok" and "now \<le> later" and "later \<le> sec now + idleTTL"
  shows "\<exists>s. fst (Validate hash later rq d1) = Some s \<and> ses_admin_id s = adm_id a \<and> ses_id_hash s = hash tok"
proof -
  let ?s = "new_session (hash token) (adm_id a) now"
  let ?row = "?s\<lparr>ses_expires_at := sec (ses_expires_at ?s), ses_created_at := sec (ses_created_at ?s),
      ses_last_seen_at := sec (ses_last_seen_at ?s)\<rparr>"
  from assms(1) obtain d0 where tok: "tok = token" and c: "CreateSession ?s d = Inr d0"
    and d1: "d1 = UpdateAdminLastLogin (adm_id a) now d0"
    by (auto simp: Login_def split: sum.splits if_splits option.splits)
  from c have new: "\<not> list_ex (\<lambda>x. ses_id_hash x = hash token) (db_sessions d)" and d0: "db_sessions d0 = db_sessions d @ [?row]"
    by (auto simp: CreateSession_def new_session_def split: if_splits)
  have get: "GetSession d1 (hash tok) = Inr ?row"
    using new by (simp add: GetSession_def d1 UpdateAdminLastLogin_def d0 tok tbl_get_None [THEN iffD2] list_ex_iff new_session_def)
  have late: "sec now \<le> sec (now + absoluteTL)" and abs: "sec now + idleTTL \<le> sec (now + absoluteTL)"
    by (simp_all add: sec_def absoluteTL_def idleTTL_def hours_def minutes_def seconds_def nano_def)
  show ?thesis
    using assms(2,3,5) abs get by (simp add: Validate_def Let_def new_session_def tok)
qed

definition demo_admin :: admin where
  "demo_admin = \<lparr>adm_id = ''1'', adm_username = ''u'', adm_password_hash = ''$argon2id$v=19$m=65536,t=2,p=1$c2FsdA$cHc'',
     adm_created_at = 0, adm_last_login_at = None\<rparr>"

definition demo_request :: request where
  "demo_request = \<lparr>rq_method = ''GET'', rq_host = ''h'', rq_remote = ''1.2.3.4:5'', rq_tls = True, rq_origin = [], rq_csrf = [],
     rq_cookies = [(''bmc_session'', ''tok'')], rq_params = [], rq_query = [], rq_body = JBad []\<rparr>"

theorem session_lasts_as_long_as_it_may_witness:
  "\<exists>s. fst (Validate (\<lambda>x. x) (hours 11) demo_request
      (snd (Login (\<lambda>pw _ _ _ _ _. pw) (\<lambda>x. x) None ''tok'' 0 ''u'' ''pw'' (empty_db\<lparr>db_admins := [demo_admin]\<rparr>)))) = Some s \<and>
    ses_admin_id s = adm_id demo_admin \<and> ses_id_hash s = ''tok''"
proof (rule session_lasts_as_long_as_it_may)
  have "VerifyPassword (\<lambda>pw _ _ _ _ _. pw) ''pw'' (adm_password_hash demo_admin)" by code_simp
  then show "Login (\<lambda>pw _ _ _ _ _. pw) (\<lambda>x. x) None ''tok'' 0 ''u'' ''pw'' (empty_db\<lparr>db_admins := [demo_admin]\<rparr>) =
      (Inr (''tok'', demo_admin),
       snd (Login (\<lambda>pw _ _ _ _ _. pw) (\<lambda>x. x) None ''tok'' 0 ''u'' ''pw'' (empty_db\<lparr>db_admins := [demo_admin]\<rparr>)))"
    by (simp add: Login_def GetAdminByUsername_def CreateSession_def new_session_def empty_db_def demo_admin_def)
qed (simp_all add: cookie_def demo_request_def SessionCookie_def idleTTL_def sec_def hours_def minutes_def seconds_def nano_def)

text \<open>A session that has run out is removed: the cookie is refused for ever.\<close>

lemma expired_session_stays_refused:
  assumes "Validate hash now rq d = (None, d')"
  shows "fst (Validate hash later rq d') = None"
  using assms unfolding Validate_def Let_def
  by (auto simp: GetSession_def DeleteSession_def tbl_get_None split: if_splits sum.splits option.splits dest!: tbl_get_Some)

section \<open>The limiter\<close>

text \<open>The attempts of one peer that are allowed, given their times.\<close>

fun admitted :: "(instant \<times> nat) option \<Rightarrow> instant list \<Rightarrow> instant list" where
  "admitted w [] = []"
| "admitted w (t # ts) =
     (let (ok, _, w') = rate_step t w in (if ok then [t] else []) @ admitted (Some w') ts)"

fun attempts_of :: "string \<Rightarrow> rate \<Rightarrow> (string \<times> instant) list \<Rightarrow> instant list" where
  "attempts_of k r [] = []"
| "attempts_of k r ((addr, t) # xs) =
     (let ((ok, _), r') = allowAuthAttempt t addr r in (if ok \<and> peer_key addr = k then [t] else []) @ attempts_of k r' xs)"

lemma attempts_of_one_peer: "attempts_of k r xs = admitted (r k) (map snd (filter (\<lambda>x. peer_key (fst x) = k) xs))"
  by (induction k r xs rule: attempts_of.induct) (auto simp: allowAuthAttempt_def Let_def split: prod.splits)

definition within :: "instant \<Rightarrow> instant list \<Rightarrow> nat" where
  "within x ts = length (filter (\<lambda>t. x \<le> t \<and> t < x + rate_window) ts)"

lemma within_simps [simp]:
  "within x [] = 0" "within x (t # ts) = (if x \<le> t \<and> t < x + rate_window then 1 else 0) + within x ts"
  "within x (ts @ us) = within x ts + within x us"
  by (simp_all add: within_def)

lemma window_positive: "0 < rate_window"
  by (simp add: rate_window_def minutes_def seconds_def nano_def)

lemma admitted_subset: "set (admitted w us) \<subseteq> set us"
proof (induction us arbitrary: w)
  case (Cons t us)
  obtain ok wait w' where a: "rate_step t w = (ok, wait, w')" by (cases "rate_step t w")
  show ?case using Cons.IH [of "Some w'"] by (auto simp: a)
qed simp

lemma rest_of_window:
  "sorted ts \<Longrightarrow> n \<le> rate_limit \<Longrightarrow>
   length (filter (\<lambda>t. t < s + rate_window) (admitted (Some (s, n)) ts)) \<le> rate_limit - n"
proof (induction ts arbitrary: n)
  case (Cons t ts)
  show ?case
  proof (cases "rate_window \<le> t - s")
    case True
    have "\<forall>u \<in> set (admitted (Some (s, n)) (t # ts)). \<not> u < s + rate_window"
      using admitted_subset [of "Some (s, n)" "t # ts"] Cons.prems(1) True by fastforce
    then show ?thesis by (simp add: filter_empty_conv)
  next
    case False
    show ?thesis
    proof (cases "n < rate_limit")
      case True
      then show ?thesis using Cons.IH [of "n + 1"] Cons.prems False by (simp add: rate_step_def)
    next
      case full: False
      then show ?thesis using Cons.IH [of n] Cons.prems False by (simp add: rate_step_def)
    qed
  qed
qed simp

lemma admitted_within:
  "sorted ts \<Longrightarrow> list_all (\<lambda>t. s \<le> t) ts \<Longrightarrow> 1 \<le> n \<Longrightarrow> n \<le> 10 \<Longrightarrow>
   within x (admitted (Some (s, n)) ts) \<le> (if x < s + rate_window then 20 - n else 19)"
proof (induction ts arbitrary: s n)
  case (Cons t ts)
  have later: "list_all (\<lambda>u. t \<le> u) ts" using Cons.prems(1) by (simp add: list_all_iff)
  have same: "list_all (\<lambda>u. s \<le> u) ts" and st: "s \<le> t" using Cons.prems(2) by simp_all
  show ?case
  proof (cases "rate_window \<le> t - s")
    case True
    have step: "admitted (Some (s, n)) (t # ts) = t # admitted (Some (t, 1)) ts"
      using True by (simp add: rate_step_def rate_limit_def)
    have rec: "within x (admitted (Some (t, 1)) ts) \<le> 19"
      using Cons.IH [of t 1] Cons.prems(1) later by (auto split: if_splits)
    show ?thesis
    proof (cases "x \<le> t \<and> t < x + rate_window")
      case c: True
      have "within x (admitted (Some (t, 1)) ts) \<le> length (filter (\<lambda>u. u < t + rate_window) (admitted (Some (t, 1)) ts))"
        unfolding within_def using c by (intro length_filter_mono) auto
      also have "\<dots> \<le> rate_limit - 1"
        using rest_of_window [of ts 1 t] Cons.prems(1) by (simp add: rate_limit_def)
      finally show ?thesis unfolding step within_simps using Cons.prems(3,4) c by (auto simp: rate_limit_def)
    next
      case False
      have "within x (admitted (Some (t, 1)) ts) = 0" if "t \<ge> x + rate_window"
      proof -
        have "\<forall>u \<in> set (admitted (Some (t, 1)) ts). t \<le> u"
          using admitted_subset [of "Some (t, 1)" ts] later by (auto simp: list_all_iff)
        then show ?thesis using that by (auto simp: within_def filter_empty_conv)
      qed
      then show ?thesis unfolding step within_simps using False rec Cons.prems(3,4) True by auto
    qed
  next
    case False
    show ?thesis
    proof (cases "n < 10")
      case True
      then show ?thesis using Cons.IH [of s "n + 1"] Cons.prems(1) same False st by (auto simp: rate_step_def rate_limit_def split: if_splits)
    next
      case full: False
      then show ?thesis using Cons.IH [of s n] Cons.prems same False by (simp add: rate_step_def rate_limit_def)
    qed
  qed
qed simp

text \<open>
  At most 19 attempts in a quarter of an hour.  However often a peer tries to log in or to set the server
  up, whatever other peers do in between, no interval of fifteen minutes holds more than 19 allowed
  attempts.
\<close>

theorem at_most_19_attempts:
  assumes "sorted (map snd xs)"
  shows "within x (attempts_of k Map.empty xs) \<le> 19"
proof -
  have sorted: "sorted (map snd (filter (\<lambda>x. peer_key (fst x) = k) xs))" using assms by (rule sorted_filter)
  show ?thesis
  proof (cases "map snd (filter (\<lambda>x. peer_key (fst x) = k) xs)")
    case Nil
    then show ?thesis by (simp add: attempts_of_one_peer)
  next
    case (Cons t ts)
    have start: "list_all (\<lambda>u. t - rate_window \<le> u) (t # ts)"
      using sorted window_positive unfolding Cons by (auto simp: list_all_iff)
    have "admitted None (t # ts) = admitted (Some (t - rate_window, 1)) (t # ts)"
      by (simp add: rate_step_def)
    then have "within x (admitted None (t # ts)) \<le> 19"
      using admitted_within [of "t # ts" "t - rate_window" 1 x] sorted start unfolding Cons by (auto split: if_splits)
    then show ?thesis by (simp add: attempts_of_one_peer Cons)
  qed
qed

theorem at_most_19_attempts_witness:
  "within 5 (attempts_of ''1.2.3.4'' Map.empty [(''1.2.3.4:5'', 0), (''1.2.3.4:6'', 7), (''5.6.7.8:9'', 8)]) \<le> 19"
  by (rule at_most_19_attempts) simp

text \<open>
  Nineteen attempts do pass.  One attempt, and a quarter of an hour less a second later nine more, and
  ten more another second later: nineteen are let through within two seconds.
\<close>

theorem nineteen_attempts_pass:
  "within (minutes 15 - seconds 1) (attempts_of ''h'' Map.empty
     ((''h:1'', 0) # replicate 9 (''h:1'', minutes 15 - seconds 1) @ replicate 11 (''h:1'', minutes 15))) = 19"
proof -
  have "peer_key ''h:1'' = ''h''" by code_simp
  then show ?thesis
    by (simp add: attempts_of_one_peer eval_nat_numeral within_def rate_step_def rate_limit_def rate_window_def
        minutes_def seconds_def nano_def)
qed

end
