(* ===== verification/Redact.thy ===== *)
theory Redact
  imports Go_Strings
begin

text \<open>
  Removing secrets from messages (\<open>jobs/utils.go\<close>).  The three regular expressions are replaced by the
  scans they describe; \<open>(?i)\<close> is ignoring the case of ASCII letters, and \<open>\s\<close> the five characters of Go.
\<close>

section \<open>The three rules\<close>

definition uri_schemes :: "string list" where
  "uri_schemes = [''https'', ''http'', ''postgresql'', ''postgres'', ''mysql'', ''mongodb'', ''sqlite'', ''restic'', ''rclone'']"

definition up_to :: "string \<Rightarrow> string \<Rightarrow> string" where "up_to stops s = takeWhile (\<lambda>c. c \<notin> set stops) s"
definition rest_at :: "string \<Rightarrow> string \<Rightarrow> string" where "rest_at stops s = dropWhile (\<lambda>c. c \<notin> set stops) s"

text \<open>What follows \<open>user:password@\<close>, when the text begins with one.\<close>

definition after_userinfo :: "string \<Rightarrow> string option" where
  "after_userinfo s =
     (let r = rest_at ''/@:'' s in
      if up_to ''/@:'' s = [] \<or> r = [] \<or> hd r \<noteq> CHR '':'' then None
      else
        let q = rest_at ''/@'' (tl r) in
        if up_to ''/@'' (tl r) = [] \<or> q = [] \<or> hd q \<noteq> CHR ''@'' then None else Some (tl q))"

definition uri_scheme_at :: "string \<Rightarrow> string option" where
  "uri_scheme_at s = List.find (\<lambda>h. HasPrefix (ToLower s) (h @ ''://'')) uri_schemes"

definition uri_match :: "string \<Rightarrow> (string \<times> string) option" where
  "uri_match s =
     (case uri_scheme_at s of
        None \<Rightarrow> None
      | Some h \<Rightarrow> map_option (\<lambda>r. (take (length h) s, r)) (after_userinfo (drop (length h + 3) s)))"

lemma after_userinfo_length: "after_userinfo s = Some r \<Longrightarrow> length r < length s"
proof -
  assume a: "after_userinfo s = Some r"
  define d where "d = rest_at ''/@:'' s"
  define q where "q = rest_at ''/@'' (tl d)"
  have r: "r = tl q" "q \<noteq> []" "d \<noteq> []"
    using a unfolding after_userinfo_def Let_def d_def [symmetric] q_def [symmetric] by (auto split: if_splits)
  have "length d \<le> length s" "length q \<le> length (tl d)" unfolding d_def q_def rest_at_def by (rule length_dropWhile_le)+
  then show ?thesis using r by (cases d; cases q) auto
qed

function redact_uris :: "string \<Rightarrow> string" where
  "redact_uris [] = []"
| "redact_uris (c # s) =
     (case uri_match (c # s) of
        None \<Rightarrow> c # redact_uris s
      | Some (scheme, r) \<Rightarrow> scheme @ ''://***@'' @ redact_uris r)"
  by pat_completeness auto
termination
proof (relation "measure length")
  fix c s x scheme r
  assume "uri_match (c # s) = Some x" and "(scheme, r) = x"
  then obtain n where "after_userinfo (drop n (c # s)) = Some r"
    by (auto simp: uri_match_def simp del: drop_Cons split: option.splits)
  from after_userinfo_length [OF this] show "(r, c # s) \<in> measure length" by auto
qed auto

definition go_space :: "char \<Rightarrow> bool" where
  "go_space c \<longleftrightarrow> c \<in> {CHR 0x09, CHR 0x0A, CHR 0x0C, CHR 0x0D, CHR '' ''}"

definition in_secret :: "char \<Rightarrow> bool" where
  "in_secret c \<longleftrightarrow> \<not> go_space c \<and> c \<noteq> CHR 0x22 \<and> c \<noteq> CHR 0x27"

definition secret_parameter :: "string \<Rightarrow> string option" where
  "secret_parameter s =
     (if HasPrefix (ToLower s) ''password='' \<and> drop 9 s \<noteq> [] \<and> in_secret (hd (drop 9 s)) \<and> hd (drop 9 s) \<noteq> CHR ''&''
      then Some (dropWhile (\<lambda>c. in_secret c \<and> c \<noteq> CHR ''&'') (drop 9 s)) else None)"

lemma secret_parameter_length: "secret_parameter s = Some r \<Longrightarrow> length r \<le> length s"
  using length_dropWhile_le [of "\<lambda>c. in_secret c \<and> c \<noteq> CHR ''&''" "drop 9 s"] by (auto simp: secret_parameter_def split: if_splits)

function redact_parameters :: "string \<Rightarrow> string" where
  "redact_parameters [] = []"
| "redact_parameters (c # s) =
     (case (if c = CHR ''?'' \<or> c = CHR ''&'' then secret_parameter s else None) of
        None \<Rightarrow> c # redact_parameters s
      | Some r \<Rightarrow> c # ''password=***'' @ redact_parameters r)"
  by pat_completeness auto
termination
  by (relation "measure length") (auto dest!: secret_parameter_length split: if_splits)

text \<open>A word between blanks and quotes that contains the mark is replaced as a whole.\<close>

definition secret_word :: "string \<Rightarrow> string" where
  "secret_word w = (if Contains w ''.bmc-secret'' then ''***'' else w)"

fun redact_words :: "string \<Rightarrow> string \<Rightarrow> string" where
  "redact_words w [] = secret_word w"
| "redact_words w (c # s) = (if in_secret c then redact_words (w @ [c]) s else secret_word w @ [c] @ redact_words [] s)"

definition Redact :: "string \<Rightarrow> string" where
  "Redact s = redact_words [] (redact_parameters (redact_uris s))"

section \<open>No secret file is named\<close>

fun words_from :: "string \<Rightarrow> string \<Rightarrow> string list" where
  "words_from w [] = [w]"
| "words_from w (c # s) = (if in_secret c then words_from (w @ [c]) s else w # words_from [] s)"

lemma words_from_plain: "list_all in_secret v \<Longrightarrow> words_from w (v @ s) = words_from (w @ v) s"
  by (induction v arbitrary: w) auto

lemma words_of_redacted: "list_all in_secret w \<Longrightarrow> words_from [] (redact_words w s) = map secret_word (words_from w s)"
proof (induction w s rule: redact_words.induct)
  case (1 w)
  have "list_all in_secret (secret_word w)" using 1 by (auto simp: secret_word_def) (simp_all add: in_secret_def go_space_def)
  then show ?case using words_from_plain [of "secret_word w" "[]" "[]"] by simp
next
  case (2 w c s)
  have "list_all in_secret (secret_word w)" using 2(3) by (auto simp: secret_word_def) (simp_all add: in_secret_def go_space_def)
  then show ?case using 2 words_from_plain [of "secret_word w" "[]"] by simp
qed

lemma word_is_harmless: "\<not> Contains (secret_word w) ''.bmc-secret''"
proof -
  have "\<not> Contains ''***'' ''.bmc-secret''" by code_simp
  then show ?thesis by (simp add: secret_word_def)
qed

text \<open>
  No secret file is named in a redacted message.  No word of the result, between blanks and quotes, contains
  the mark of the temporary files that hold secrets.
\<close>

theorem redacted_message_names_no_secret_file:
  "\<not> list_ex (\<lambda>w. Contains w ''.bmc-secret'') (words_from [] (Redact s))"
  by (simp add: Redact_def words_of_redacted list_ex_iff word_is_harmless)

text \<open>
  A password with an at sign or a slash is not removed.  The password of a connection string ends for the rule
  at the first at sign, and a slash in it keeps the rule from matching at all: the rest, or the whole of
  it, stays in the message.
\<close>

theorem some_passwords_stay_in_the_message:
  "Redact ''mysql://bmc:pa@ss@db/x'' = ''mysql://***@ss@db/x'' \<and>
   Redact ''mysql://bmc:pa/ss@db/x'' = ''mysql://bmc:pa/ss@db/x'' \<and>
   Redact ''mysql://bmc:secret@db/x'' = ''mysql://***@db/x'' \<and>
   Redact ''http://h/p?password=geheim&x=1'' = ''http://h/p?password=***&x=1''"
  by code_simp

end
