(* ===== verification/Api_Base.thy ===== *)
theory Api_Base
  imports Auth Redact Scheduler Jobs_Browse Jobs_Repos
begin

text \<open>
  The web API (\<open>internal/server/api\<close>), what all handlers share: replies, the reading of request bodies, the
  mapping of errors to replies and the views of rows.  A reply has a status, the headers and cookies the
  handlers set, and the document of its body; \<open>JBad s\<close> is a body that is the plain text \<open>s\<close>.
\<close>

section \<open>Replies\<close>

record reply =
  rp_status :: int
  rp_headers :: "(string \<times> string) list"
  rp_cookies :: "set_cookie list"
  rp_body :: json

definition answer_json :: "int \<Rightarrow> json \<Rightarrow> reply" where
  "answer_json st j = \<lparr>rp_status = st, rp_headers = [], rp_cookies = [], rp_body = j\<rparr>"

definition no_content :: "int \<Rightarrow> reply" where "no_content st = answer_json st json_none"

definition error_json :: "string \<Rightarrow> string \<Rightarrow> (string \<times> json) list \<Rightarrow> json" where
  "error_json code msg extra = JObj [(''error'', JObj ([(''code'', JStr code), (''message'', JStr msg)] @ extra))]"

definition writeErr :: "int \<Rightarrow> string \<Rightarrow> string \<Rightarrow> reply" where
  "writeErr st code msg = answer_json st (error_json code msg [])"

text \<open>The reply of a handler that returns without writing one.\<close>

definition nothing_written :: reply where "nothing_written = no_content 200"

definition writeRateLimited :: "int \<Rightarrow> reply" where
  "writeRateLimited wait =
     (writeErr 429 ''rate_limited'' ''too many authentication attempts'')
       \<lparr>rp_headers := [(''Retry-After'', dec_int (retry_after wait))]\<rparr>"

section \<open>What handlers are given\<close>

text \<open>
  The server's configuration and the interfaces it uses: \<open>ap_sha\<close> is the hexadecimal SHA-256, \<open>ap_url\<close> the
  parser of URLs and \<open>ap_meanwhile\<close> what the rest of the server does while a handler waits for a run.
\<close>

record 'c api =
  ap_sealing :: sealing
  ap_meanwhile :: "'c meanwhile"
  ap_cron :: cron
  ap_idkey :: idkey
  ap_sha :: "string \<Rightarrow> string"
  ap_url :: "string \<Rightarrow> (string \<times> string) option"
  ap_public_url :: string
  ap_instance :: string
  ap_version :: string
  ap_restore_kinds :: "kind \<Rightarrow> bool"

text \<open>
  What one call draws from outside: the clock at its beginning and after it has waited, new identities,
  random texts, whom it finds in flight when it browses, and what the database reports instead of
  serving the handler's n-th own read or write (\<open>None\<close> where it serves it).
\<close>

record visit =
  cl_now :: instant
  cl_at :: instant
  cl_id :: "nat \<Rightarrow> string"
  cl_token :: string
  cl_csrf :: string
  cl_salt :: string
  cl_random :: "string option"
  cl_pick :: bool
  cl_flight :: "snapshot list flight"
  cl_tflight :: "tree flight"
  cl_fault :: "nat \<Rightarrow> store_err option"

definition ask :: "visit \<Rightarrow> nat \<Rightarrow> store_err + 'a \<Rightarrow> store_err + 'a" where
  "ask c n x = (case cl_fault c n of None \<Rightarrow> x | Some e \<Rightarrow> Inl e)"

definition policyFor :: "'c api \<Rightarrow> bool \<times> string" where
  "policyFor ap = (if ap_public_url ap = [] then (False, []) else WithRequestPolicy (ap_url ap) (ap_public_url ap))"

definition first_value :: "string \<Rightarrow> (string \<times> string) list \<Rightarrow> string" where
  "first_value k kvs = (case List.find (\<lambda>kv. fst kv = k) kvs of None \<Rightarrow> [] | Some kv \<Rightarrow> snd kv)"

definition pathParam :: "request \<Rightarrow> string \<Rightarrow> string" where "pathParam rq k = first_value k (rq_params rq)"
definition queryParam :: "request \<Rightarrow> string \<Rightarrow> string" where "queryParam rq k = first_value k (rq_query rq)"

definition queryInt :: "request \<Rightarrow> string \<Rightarrow> int \<Rightarrow> int" where
  "queryInt rq k dflt = (if queryParam rq k = [] then dflt else case Atoi (queryParam rq k) of None \<Rightarrow> dflt | Some n \<Rightarrow> n)"

text \<open>
  Reading the body: a text that is not a document, one that is not an object and a field of another type
  are answered alike.  (Field names are compared exactly here, and by Go without regard to case.)
\<close>

definition bad_body :: reply where "bad_body = writeErr 400 ''validation_failed'' ''invalid JSON body''"

definition readJSON :: "request \<Rightarrow> ((string \<times> json) list \<Rightarrow> 'b option) \<Rightarrow> ('b \<Rightarrow> reply \<times> 'w) \<Rightarrow> 'w \<Rightarrow> reply \<times> 'w" where
  "readJSON rq dec k w =
     (case (case rq_body rq of JObj ms \<Rightarrow> dec ms | JNull \<Rightarrow> dec [] | _ \<Rightarrow> None) of None \<Rightarrow> (bad_body, w) | Some b \<Rightarrow> k b)"

definition strings2 :: "string \<Rightarrow> string \<Rightarrow> (string \<times> json) list \<Rightarrow> (string \<times> string) option" where
  "strings2 k l ms = (case (field_string k ms, field_string l ms) of (Some a, Some b) \<Rightarrow> Some (a, b) | _ \<Rightarrow> None)"

section \<open>Errors\<close>

fun store_text :: "store_err \<Rightarrow> string" where
  "store_text ErrNotFound = ''store: not found''"
| "store_text ErrDuplicateRun = ''store: duplicate scheduled run''"
| "store_text ErrInvalidTransition = ''store: invalid run transition''"
| "store_text ErrTokenInvalid = ''store: enrollment token invalid''"
| "store_text ErrAdminExists = ''store: admin already exists''"
| "store_text ErrInUse = ''store: resource still referenced''"
| "store_text ErrDuplicateStorageTarget = ''store: storage target name already exists''"
| "store_text ErrPlanHasSnapshots = ''store: plan still has snapshots''"
| "store_text ErrCacheGenerationChanged = ''store: snapshot cache generation changed''"
| "store_text ErrDatabaseRestoreBusy = ''store: database restore busy''"
| "store_text ErrRestoreConflict = ''store: restore result conflict''"
| "store_text ErrRestoreTargetBusy = ''store: restore target busy''"
| "store_text (ErrSql s) = s"

definition internal :: "store_err \<Rightarrow> reply" where "internal e = writeErr 500 ''internal'' (store_text e)"

definition mapStoreErr :: "store_err \<Rightarrow> reply option" where
  "mapStoreErr e =
     (case e of
        ErrNotFound \<Rightarrow> Some (writeErr 404 ''not_found'' ''resource not found'')
      | ErrPlanHasSnapshots \<Rightarrow> Some (writeErr 409 ''plan_has_snapshots'' ''plan still has snapshots'')
      | ErrInUse \<Rightarrow> Some (writeErr 409 ''conflict'' ''resource still referenced'')
      | ErrDuplicateStorageTarget \<Rightarrow> Some (writeErr 409 ''duplicate_storage_target'' ''a storage target with this name already exists'')
      | ErrDuplicateRun \<Rightarrow> Some (writeErr 409 ''duplicate_slot'' ''run already queued for this slot'')
      | ErrInvalidTransition \<Rightarrow> Some (writeErr 409 ''invalid_transition'' ''run state transition not allowed'')
      | ErrTokenInvalid \<Rightarrow> Some (writeErr 400 ''invalid_token'' ''enrollment token invalid or expired'')
      | ErrAdminExists \<Rightarrow> Some (writeErr 409 ''conflict'' ''admin already exists'')
      | _ \<Rightarrow> None)"

text \<open>The two ways a handler uses it: with an internal error as the rest, and without a rest.\<close>

definition store_reply :: "store_err \<Rightarrow> reply" where
  "store_reply e = (case mapStoreErr e of Some r \<Rightarrow> r | None \<Rightarrow> internal e)"

definition mapped_or_nothing :: "store_err \<Rightarrow> reply" where
  "mapped_or_nothing e = (case mapStoreErr e of Some r \<Rightarrow> r | None \<Rightarrow> nothing_written)"

text \<open>The texts of the orchestrator's errors, without the details that are added to some of them.\<close>

fun jobs_text :: "jobs_err \<Rightarrow> string" where
  "jobs_text (JStore e) = store_text e"
| "jobs_text ErrForbidden = ''forbidden''"
| "jobs_text JobsNotFound = ''not found''"
| "jobs_text ErrWaitTimeout = ''wait timeout''"
| "jobs_text ContextDone = ''context canceled''"
| "jobs_text ErrAgentRevoked = ''agent revoked''"
| "jobs_text ErrAgentOffline = ''agent offline''"
| "jobs_text (MissingToolsError ts) = ''missing_tools: '' @ JoinWith '','' ts"
| "jobs_text ErrPathInvalid = ''path_validation_failed''"
| "jobs_text ErrRepoPassword = ''wrong_repository_password''"
| "jobs_text ErrRepoLocked = ''repository_locked''"
| "jobs_text ErrStorageRemote = ''storage_remote_unreachable''"
| "jobs_text ErrStorageRemoteNotFound = ''storage_remote_not_found''"
| "jobs_text ErrStorageTargetName = ''storage target name required''"
| "jobs_text ErrRestoreBusy = ''database_restore_busy''"
| "jobs_text JobsCapabilitiesPending = ''agent_capabilities_pending''"
| "jobs_text JobsUnsafeDatabaseRestore = ''agent_upgrade_required''"
| "jobs_text ErrSnapshotRefreshRequired = ''snapshot_list_refresh_required''"
| "jobs_text ErrSnapshotKindMismatch = ''restore_snapshot_kind_mismatch''"
| "jobs_text ErrUnsupportedManifest = ''unsupported_restore_manifest''"
| "jobs_text ErrSnapshotRestoreProtected = ''snapshot_restore_protected''"
| "jobs_text ErrRepositoryNotReady = ''source repository is not ready''"
| "jobs_text ErrRepositoryUnavailable = ''repository_unavailable''"
| "jobs_text JobsRestoreConflict = ''restore_conflict''"
| "jobs_text JInvalidPlan = ''invalid_plan''"
| "jobs_text (JText s) = s"

definition stableCodes :: "string list" where
  "stableCodes =
     [''server_restarted'', ''agent_unavailable'', ''partial_source_read'', ''repository_locked'', ''wrong_repository_password'',
      ''cancelled'', ''insufficient_temp_space'', ''missing_tools'', ''invalid_plan'', ''path_validation_failed'',
      ''restore_target_not_empty'', ''restore_verification_failed'', ''storage_remote_unreachable'', ''storage_remote_not_found'',
      ''run_timeout'', ''agent_disconnected'', ''pre_restore_backup_failed'', ''rollback_failed'', ''physical_backup_required'',
      ''database_restore_busy'', ''agent_capabilities_pending'', ''snapshot_list_refresh_required'', ''unsupported_restore_manifest'',
      ''snapshot_restore_protected'', ''agent_upgrade_required'', ''database_restore_disabled'']"

definition errorCode :: "jobs_err \<Rightarrow> string option" where
  "errorCode e = List.find (\<lambda>c. Contains (jobs_text e) c) stableCodes"

definition redactMsg :: "string \<Rightarrow> string" where "redactMsg s = Redact s"

definition coded_or_internal :: "jobs_err \<Rightarrow> reply" where
  "coded_or_internal e =
     (case errorCode e of
        Some code \<Rightarrow> writeErr 422 code (redactMsg (jobs_text e))
      | None \<Rightarrow> writeErr 500 ''internal'' (redactMsg (jobs_text e)))"

fun jobsErr :: "jobs_err \<Rightarrow> reply" where
  "jobsErr ErrForbidden = writeErr 403 ''forbidden'' ''forbidden''"
| "jobsErr JobsNotFound = writeErr 404 ''not_found'' ''resource not found''"
| "jobsErr (JStore ErrCacheGenerationChanged) = writeErr 409 ''cache_generation_changed'' ''repository changed while browsing; retry''"
| "jobsErr ErrRestoreBusy = writeErr 409 ''database_restore_busy'' ''another database restore is in progress; wait for it to finish''"
| "jobsErr (JStore ErrRestoreTargetBusy) =
     writeErr 409 ''restore_target_busy'' ''another restore is already writing to this target path; wait for it to finish''"
| "jobsErr JobsRestoreConflict = writeErr 409 ''restore_conflict'' ''restore request is not in a state that can be resolved''"
| "jobsErr (JStore ErrRestoreConflict) = writeErr 409 ''restore_conflict'' ''restore request is not in a state that can be resolved''"
| "jobsErr JobsCapabilitiesPending =
     writeErr 409 ''agent_capabilities_pending'' ''target agent connection has not reported its capabilities yet; retry shortly''"
| "jobsErr JobsUnsafeDatabaseRestore =
     writeErr 422 ''agent_upgrade_required''
       (''target agent does not support pre-restore backup and rollback; upgrade it first: '' @ jobs_text JobsUnsafeDatabaseRestore)"
| "jobsErr ErrSnapshotRefreshRequired =
     writeErr 409 ''snapshot_list_refresh_required''
       ''a verified snapshot list or directory cache is required; refresh the snapshot list first''"
| "jobsErr ErrSnapshotKindMismatch =
     writeErr 422 ''restore_snapshot_kind_mismatch'' ''the snapshot kind does not match the requested restore kind''"
| "jobsErr ErrSnapshotRestoreProtected =
     writeErr 409 ''snapshot_restore_protected'' ''the snapshot backs an unresolved restore and cannot be deleted''"
| "jobsErr ErrUnsupportedManifest = writeErr 422 ''unsupported_restore_manifest'' ''the snapshot is not a single-database artifact''"
| "jobsErr ErrAgentOffline = writeErr 409 ''agent_unavailable'' ''target agent is offline''"
| "jobsErr ErrAgentRevoked = writeErr 409 ''agent_revoked'' ''target agent is revoked''"
| "jobsErr ErrRepositoryUnavailable = writeErr 409 ''repository_unavailable'' (redactMsg (jobs_text ErrRepositoryUnavailable))"
| "jobsErr ErrRepositoryNotReady =
     writeErr 409 ''repository_missing'' ''cross-agent restore requires a ready source repository''"
| "jobsErr (MissingToolsError ts) =
     answer_json 422 (error_json ''missing_tools'' ''agent lacks required tools'' [(''tools'', strings_json ts)])"
| "jobsErr ErrWaitTimeout =
     writeErr 504 ''wait_timeout'' ''agent did not finish the operation in time; it may still complete - retry or check run logs''"
| "jobsErr (JStore e) = (case mapStoreErr e of Some r \<Rightarrow> r | None \<Rightarrow> coded_or_internal (JStore e))"
| "jobsErr e = coded_or_internal e"

section \<open>Views\<close>

definition time_json :: "instant \<Rightarrow> json" where "time_json t = JStr (rfc3339 t)"

definition omit_time :: "string \<Rightarrow> instant option \<Rightarrow> (string \<times> json) list" where
  "omit_time k t = (case t of None \<Rightarrow> [] | Some u \<Rightarrow> [(k, time_json u)])"

text \<open>Marshalled times keep their fraction, without trailing zeros.\<close>

definition nano_time_json :: "instant \<Rightarrow> json" where
  "nano_time_json t =
     (let f = nat (t mod nano); digits = map (\<lambda>i. char_of (48 + f div 10 ^ (8 - i) mod 10)) [0..<9];
          kept = rev (dropWhile (\<lambda>c. c = CHR ''0'') (rev digits)); s = rfc3339 t
      in JStr (if kept = [] then s else take (length s - 1) s @ ''.'' @ kept @ ''Z''))"

definition status_text :: "run_status \<Rightarrow> string" where
  "status_text s =
     (case s of RunQueued \<Rightarrow> ''queued'' | RunDispatched \<Rightarrow> ''dispatched'' | RunRunning \<Rightarrow> ''running''
      | RunSucceeded \<Rightarrow> ''succeeded'' | RunFailed \<Rightarrow> ''failed'' | RunCancelled \<Rightarrow> ''cancelled'')"

text \<open>The progress of a run, decoded from its document as far as that goes.\<close>

definition progress_view :: "json \<Rightarrow> json" where
  "progress_view j =
     (let ms = (case j of JObj ms \<Rightarrow> ms | _ \<Rightarrow> []);
          str = (\<lambda>k. omitempty k (or_zero [] (field_string k ms)));
          num = (\<lambda>k. omit_int k (or_zero 0 (field_int k ms)));
          percent = (case obj_get ''percent'' ms of
                       Some (JNum n) \<Rightarrow> omit_int ''percent'' n | Some (JDec s) \<Rightarrow> [(''percent'', JDec s)] | _ \<Rightarrow> [])
      in JObj (str ''phase'' @ percent @ num ''bytes_done'' @ num ''bytes_total'' @ num ''files_done'' @ num ''files_total'' @
               num ''files_added'' @ num ''files_changed'' @ num ''files_skipped'' @ num ''files_deleted'' @
               omit_list ''sample'' (lax_strings ''sample'' ms) @ str ''detail_json''))"

definition runView :: "run \<Rightarrow> json" where
  "runView r =
     JObj ([(''id'', JStr (run_id r))] @ omitempty ''plan_id'' (run_plan_id r) @
           [(''agent_id'', JStr (run_agent_id r)), (''operation'', JStr (op_text (run_operation r))),
            (''status'', JStr (status_text (run_status r))), (''queued_at'', nano_time_json (run_queued_at r))] @
           (case run_started_at r of None \<Rightarrow> [] | Some t \<Rightarrow> [(''started_at'', nano_time_json t)]) @
           (case run_finished_at r of None \<Rightarrow> [] | Some t \<Rightarrow> [(''finished_at'', nano_time_json t)]) @
           [(''progress'', progress_view (run_progress r))] @
           omitempty ''snapshot_id'' (run_snapshot_id r) @ omitempty ''error_code'' (run_error_code r) @
           omitempty ''error_message'' (run_error_message r) @ omitempty ''repository_id'' (run_repository_id r) @
           [(''attempt'', JNum (run_attempt r))] @
           (case run_lease_expires_at r of None \<Rightarrow> [] | Some t \<Rightarrow> [(''lease_expires_at'', nano_time_json t)]) @
           (case run_scheduled_at r of None \<Rightarrow> [] | Some t \<Rightarrow> [(''scheduled_at'', nano_time_json t)]))"

section \<open>Refusals and failures\<close>

text \<open>The errors that stand for a failure of the server itself; all others refuse what was asked.\<close>

definition server_failure :: "jobs_err \<Rightarrow> bool" where
  "server_failure e =
     (case e of
        JStore (ErrSql _) \<Rightarrow> True | JStore ErrDatabaseRestoreBusy \<Rightarrow> True
      | ContextDone \<Rightarrow> True | ErrWaitTimeout \<Rightarrow> True | ErrStorageTargetName \<Rightarrow> True | JText _ \<Rightarrow> True | _ \<Rightarrow> False)"

lemma coded_texts:
  "errorCode ErrPathInvalid = Some ''path_validation_failed''" "errorCode ErrRepoPassword = Some ''wrong_repository_password''"
  "errorCode ErrRepoLocked = Some ''repository_locked''" "errorCode ErrStorageRemote = Some ''storage_remote_unreachable''"
  "errorCode ErrStorageRemoteNotFound = Some ''storage_remote_not_found''" "errorCode JInvalidPlan = Some ''invalid_plan''"
  by (code_simp)+

text \<open>
  A refusal is never answered as an internal error.  Every error of the orchestrator that refuses a request
  is answered with a status between 400 and 499 and a body that names its code.
\<close>

theorem refusals_are_client_errors:
  assumes "\<not> server_failure e"
  shows "400 \<le> rp_status (jobsErr e) \<and> rp_status (jobsErr e) < 500 \<and>
    (\<exists>code msg extra. rp_body (jobsErr e) = error_json code msg extra \<and> code \<noteq> [])"
proof -
  have w: "rp_status (writeErr st code msg) = st" "rp_body (writeErr st code msg) = error_json code msg []" for st code msg
    by (simp_all add: writeErr_def answer_json_def)
  show ?thesis
  proof (cases e)
    case (JStore s)
    then show ?thesis using assms by (cases s) (auto simp: w mapStoreErr_def server_failure_def)
  qed (use assms in \<open>auto simp: w coded_or_internal_def coded_texts server_failure_def answer_json_def\<close>)
qed

theorem refusals_are_client_errors_witness: "rp_status (jobsErr ErrAgentOffline) < 500"
  using refusals_are_client_errors [of ErrAgentOffline] by (simp add: server_failure_def)

end
