(* ===== verification/Api_Accounts.thy ===== *)
theory Api_Accounts
  imports Api_Base
begin

text \<open>
  The handlers for setting the server up, logging in and out, agents, enrollment tokens and the settings of
  Telegram (\<open>handlers_auth.go\<close>, \<open>handlers_agents.go\<close>, \<open>handlers_settings.go\<close>).  \<open>who\<close> is the
  administrator of the session.
\<close>

section \<open>Setup and sessions\<close>

definition handleSetupStatus :: "visit \<Rightarrow> 'c world \<Rightarrow> reply \<times> 'c world" where
  "handleSetupStatus c w =
     ((case ask c 0 (Inr (HasAdmin (w_db w))) of
         Inl e \<Rightarrow> internal e | Inr has \<Rightarrow> answer_json 200 (JObj [(''initialized'', JBool has)])), w)"

text \<open>A handler behind the limiter: the attempt is counted first, and refused when there were too many.\<close>

definition limited :: "visit \<Rightarrow> request \<Rightarrow> ('c world \<Rightarrow> reply \<times> 'c world) \<Rightarrow> rate \<times> 'c world \<Rightarrow> reply \<times> rate \<times> 'c world" where
  "limited c rq h s =
     (case allowAuthAttempt (cl_now c) (rq_remote rq) (fst s) of
        ((ok, wait), r) \<Rightarrow>
          if \<not> ok then (writeRateLimited wait, r, snd s)
          else case h (snd s) of (rep, w) \<Rightarrow> (rep, r, w))"

definition setup_admin :: "'c api \<Rightarrow> visit \<Rightarrow> string \<Rightarrow> string \<Rightarrow> admin" where
  "setup_admin ap c username password =
     \<lparr>adm_id = cl_id c 0, adm_username = username, adm_password_hash = HashPassword (ap_idkey ap) (cl_salt c) password,
      adm_created_at = cl_now c, adm_last_login_at = None\<rparr>"

definition setup_body :: "'c api \<Rightarrow> visit \<Rightarrow> request \<Rightarrow> 'c world \<Rightarrow> reply \<times> 'c world" where
  "setup_body ap c rq w =
     (case ask c 0 (Inr (HasAdmin (w_db w))) of
        Inl e \<Rightarrow> (internal e, w)
      | Inr True \<Rightarrow> (writeErr 404 ''not_found'' ''setup already completed'', w)
      | Inr False \<Rightarrow>
          readJSON rq (strings2 ''username'' ''password'') (\<lambda>(username, password).
            if length username < 3 \<or> length password < 10
            then (writeErr 400 ''validation_failed'' ''username >= 3 chars, password >= 10 chars'', w)
            else
              let admin = setup_admin ap c username password in
              case ask c 1 (CreateAdmin admin (w_db w)) of
                Inl e \<Rightarrow> (writeErr 409 ''conflict'' (store_text e), w)
              | Inr d \<Rightarrow>
                  (no_content 204,
                   Audit (cl_id c 1) (cl_now c) ''admin'' (adm_id admin) ''setup.create_admin'' ''admin'' (adm_id admin) [] (w\<lparr>w_db := d\<rparr>))) w)"

definition handleSetup :: "'c api \<Rightarrow> visit \<Rightarrow> request \<Rightarrow> rate \<times> 'c world \<Rightarrow> reply \<times> rate \<times> 'c world" where
  "handleSetup ap c rq = limited c rq (setup_body ap c rq)"

definition login_body :: "'c api \<Rightarrow> visit \<Rightarrow> request \<Rightarrow> 'c world \<Rightarrow> reply \<times> 'c world" where
  "login_body ap c rq w =
     readJSON rq (strings2 ''username'' ''password'') (\<lambda>(username, password).
       if username = [] \<or> password = [] then (writeErr 400 ''validation_failed'' ''username and password are required'', w)
       else
         case Login (ap_idkey ap) (ap_sha ap) (cl_fault c 0) (cl_token c) (cl_now c) username password (w_db w) of
           (Inl ErrInvalidCredentials, d) \<Rightarrow> (writeErr 401 ''invalid_credentials'' ''wrong username or password'', w\<lparr>w_db := d\<rparr>)
         | (Inl (AuthStore e), d) \<Rightarrow> (internal e, w\<lparr>w_db := d\<rparr>)
         | (Inr (token, admin), d) \<Rightarrow>
             ((answer_json 200 (JObj [(''csrf'', JStr (cl_csrf c)), (''username'', JStr (adm_username admin)),
                 (''version'', JStr (ap_version ap))]))
                \<lparr>rp_cookies := [SetCSRFCookie (policyFor ap) rq (cl_csrf c) (cl_now c),
                               SetSessionCookie (policyFor ap) rq token (cl_now c + hours (7 * 24))]\<rparr>,
              Audit (cl_id c 0) (cl_now c) ''admin'' (adm_id admin) ''auth.login'' ''admin'' (adm_id admin) [] (w\<lparr>w_db := d\<rparr>))) w"

definition handleLogin :: "'c api \<Rightarrow> visit \<Rightarrow> request \<Rightarrow> rate \<times> 'c world \<Rightarrow> reply \<times> rate \<times> 'c world" where
  "handleLogin ap c rq = limited c rq (login_body ap c rq)"

definition handleLogout :: "'c api \<Rightarrow> request \<Rightarrow> 'c world \<Rightarrow> reply \<times> 'c world" where
  "handleLogout ap rq w =
     ((answer_json 200 (JObj [(''ok'', JBool True)]))
        \<lparr>rp_cookies := [ClearSessionCookie (policyFor ap) rq, ClearCSRFCookie (policyFor ap) rq]\<rparr>,
      w\<lparr>w_db := Logout (ap_sha ap) rq (w_db w)\<rparr>)"

definition handleMe :: "'c api \<Rightarrow> visit \<Rightarrow> string \<Rightarrow> 'c world \<Rightarrow> reply \<times> 'c world" where
  "handleMe ap c who w =
     ((case ask c 0 (GetAdminByID (w_db w) who) of
         Inr a \<Rightarrow> answer_json 200 (JObj [(''id'', JStr (adm_id a)), (''username'', JStr (adm_username a)), (''version'', JStr (ap_version ap))])
       | Inl e \<Rightarrow> if e = ErrNotFound then writeErr 401 ''unauthorized'' ''admin gone'' else internal e), w)"

section \<open>Agents\<close>

definition tool_json :: "tool_info \<Rightarrow> json" where
  "tool_json t = JObj ([(''name'', JStr (tool_name t))] @ omitempty ''path'' (tool_path t) @ omitempty ''version'' (tool_version t))"

definition mapping_json :: "path_mapping \<Rightarrow> json" where
  "mapping_json m =
     JObj [(''host_path'', JStr (map_host_path m)), (''runtime_path'', JStr (map_runtime_path m)), (''read_only'', JBool (map_read_only m))]"

definition agentView :: "agent \<Rightarrow> json" where
  "agentView a =
     JObj ([(''id'', JStr (agt_id a)), (''name'', JStr (agt_name a)), (''hostname'', JStr (agt_hostname a)), (''os'', JStr (agt_os a)),
            (''arch'', JStr (agt_arch a)), (''version'', JStr (agt_version a)),
            (''status'', JStr (case agt_status a of AgentOnline \<Rightarrow> ''online'' | AgentOffline \<Rightarrow> ''offline'')),
            (''revoked'', JBool (agt_revoked a))] @ omit_time ''last_seen_at'' (agt_last_seen_at a) @
           [(''enrolled_at'', time_json (agt_enrolled_at a)), (''capabilities'', JList (map tool_json (agt_capabilities a))),
            (''source_path_mappings'', JList (map mapping_json (agt_source_mappings a))),
            (''restore_path_mappings'', JList (map mapping_json (agt_restore_mappings a)))])"

definition handleListAgents :: "visit \<Rightarrow> 'c world \<Rightarrow> reply \<times> 'c world" where
  "handleListAgents c w =
     ((case ask c 0 (Inr (ListAgents (w_db w))) of
         Inl e \<Rightarrow> store_reply e | Inr as \<Rightarrow> answer_json 200 (JList (map agentView as))), w)"

text \<open>The stream is ended first; what the agent was running is then settled as for an agent that has gone.\<close>

definition handleRevokeAgent :: "visit \<Rightarrow> string \<Rightarrow> request \<Rightarrow> 'c world \<Rightarrow> reply \<times> 'c world" where
  "handleRevokeAgent c who rq w =
     (let i = pathParam rq ''id'' in
      case ask c 0 (RevokeAgent i (w_db w)) of
        Inl e \<Rightarrow> (store_reply e, w)
      | Inr d \<Rightarrow>
          (no_content 204,
           Audit (cl_id c 0) (cl_now c) ''admin'' who ''agent.revoke'' ''agent'' i []
             (handleDisconnect (cl_now c) i (w\<lparr>w_db := d, w_reg := Unregister i (w_reg w)\<rparr>))))"

definition handleRestoreAgent :: "visit \<Rightarrow> string \<Rightarrow> request \<Rightarrow> 'c world \<Rightarrow> reply \<times> 'c world" where
  "handleRestoreAgent c who rq w =
     (let i = pathParam rq ''id'' in
      case ask c 0 (UnrevokeAgent i (w_db w)) of
        Inl e \<Rightarrow> (store_reply e, w)
      | Inr d \<Rightarrow> (no_content 204, Audit (cl_id c 0) (cl_now c) ''admin'' who ''agent.restore'' ''agent'' i [] (w\<lparr>w_db := d\<rparr>)))"

definition handleRenameAgent :: "visit \<Rightarrow> string \<Rightarrow> request \<Rightarrow> 'c world \<Rightarrow> reply \<times> 'c world" where
  "handleRenameAgent c who rq w =
     readJSON rq (field_string ''name'') (\<lambda>raw.
       let i = pathParam rq ''id''; name = TrimSpace raw in
       if name = [] \<or> 128 < length name then (writeErr 400 ''invalid_name'' ''name must be 1-128 characters'', w)
       else case ask c 0 (RenameAgent i name (w_db w)) of
         Inl e \<Rightarrow> (store_reply e, w)
       | Inr d \<Rightarrow>
           (no_content 204, Audit (cl_id c 0) (cl_now c) ''admin'' who ''agent.rename'' ''agent'' i [(''name'', name)] (w\<lparr>w_db := d\<rparr>))) w"

section \<open>Enrollment tokens\<close>

definition token_ttl :: int where "token_ttl = minutes 15"

definition new_token :: "'c api \<Rightarrow> visit \<Rightarrow> string \<Rightarrow> enrollment_token" where
  "new_token ap c target =
     \<lparr>tok_id = cl_id c 0, tok_hash = ap_sha ap (cl_token c), tok_expires_at = cl_now c + token_ttl, tok_used_at = None,
      tok_target_agent_id = target\<rparr>"

text \<open>A body that is missing counts as an empty object here.  A token that takes an agent over is for one that is offline.\<close>

definition takeover_refused :: "visit \<Rightarrow> db \<Rightarrow> string \<Rightarrow> reply option" where
  "takeover_refused c d target =
     (if target = [] then None
      else case ask c 0 (GetAgent d target) of
        Inl _ \<Rightarrow> Some (writeErr 400 ''agent_not_found'' ''agent not found'')
      | Inr a \<Rightarrow>
          if agt_revoked a then Some (writeErr 400 ''agent_revoked'' ''agent is revoked'')
          else if agt_status a = AgentOnline then Some (writeErr 400 ''agent_online'' ''agent must be offline'')
          else None)"

definition token_target :: "json \<Rightarrow> string option" where
  "token_target j =
     (case j of JObj ms \<Rightarrow> field_string ''target_agent_id'' ms | JNull \<Rightarrow> Some [] | JBad s \<Rightarrow> if s = [] then Some [] else None | _ \<Rightarrow> None)"

definition handleCreateEnrollmentToken :: "'c api \<Rightarrow> visit \<Rightarrow> string \<Rightarrow> request \<Rightarrow> 'c world \<Rightarrow> reply \<times> 'c world" where
  "handleCreateEnrollmentToken ap c who rq w =
     (case token_target (rq_body rq) of
        None \<Rightarrow> (writeErr 400 ''invalid_request'' ''invalid JSON body'', w)
      | Some target \<Rightarrow>
          (case takeover_refused c (w_db w) target of
             Some r \<Rightarrow> (r, w)
           | None \<Rightarrow>
               let t = new_token ap c target in
               (case ask c 1 (CreateEnrollmentToken t (w_db w)) of
                  Inl e \<Rightarrow> (internal e, w)
                | Inr d \<Rightarrow>
                    (answer_json 200 (JObj [(''expires_at'', nano_time_json (tok_expires_at t)), (''target_agent_id'', JStr target),
                        (''token'', JStr (cl_token c))]),
                     Audit (cl_id c 1) (cl_now c) ''admin'' who
                       (if target = [] then ''enrollment.create_token'' else ''enrollment.create_takeover_token'')
                       ''enrollment_token'' (tok_id t) [(''target_agent_id'', target)] (w\<lparr>w_db := d\<rparr>)))))"

definition token_view :: "enrollment_token \<Rightarrow> json" where
  "token_view t = JObj ([(''id'', JStr (tok_id t)), (''expires_at'', time_json (tok_expires_at t))] @ omit_time ''used_at'' (tok_used_at t))"

definition handleListEnrollmentTokens :: "visit \<Rightarrow> 'c world \<Rightarrow> reply \<times> 'c world" where
  "handleListEnrollmentTokens c w =
     ((case ask c 0 (Inr (ListEnrollmentTokens (w_db w))) of
         Inl e \<Rightarrow> internal e | Inr ts \<Rightarrow> answer_json 200 (JList (map token_view ts))), w)"

section \<open>Telegram\<close>

text \<open>The sealer as the store of these settings uses it.\<close>

definition telegram_seal :: "'c api \<Rightarrow> string \<Rightarrow> string option" where
  "telegram_seal ap = sl_seal (ap_sealing ap) ''telegram_settings'' ''1'' ''encrypted_token''"
definition telegram_unseal :: "'c api \<Rightarrow> string \<Rightarrow> string option" where
  "telegram_unseal ap = sl_open (ap_sealing ap) ''telegram_settings'' ''1'' ''encrypted_token''"

definition telegram_view :: "string \<Rightarrow> instant option \<Rightarrow> json" where
  "telegram_view chat at = JObj ([(''configured'', JBool True), (''chat_id'', JStr chat)] @ omit_time ''updated_at'' at)"

definition telegram_off :: json where
  "telegram_off = JObj [(''configured'', JBool False), (''chat_id'', JStr [])]"

definition handleGetTelegramSettings :: "'c api \<Rightarrow> visit \<Rightarrow> 'c world \<Rightarrow> reply \<times> 'c world" where
  "handleGetTelegramSettings ap c w =
     (case ask c 0 (GetTelegramSettings (telegram_seal ap) (telegram_unseal ap) b64_decode (cl_now c) (w_db w)) of
        Inl e \<Rightarrow> (if e = ErrNotFound then answer_json 200 telegram_off else internal e, w)
      | Inr ((_, chat), d) \<Rightarrow>
          (answer_json 200 (telegram_view chat (map_option tg_updated_at (db_telegram (w_db w)))), w\<lparr>w_db := d\<rparr>))"

definition handlePutTelegramSettings :: "'c api \<Rightarrow> visit \<Rightarrow> request \<Rightarrow> 'c world \<Rightarrow> reply \<times> 'c world" where
  "handlePutTelegramSettings ap c rq w =
     readJSON rq (strings2 ''bot_token'' ''chat_id'') (\<lambda>(token, chat).
       if token = [] \<and> chat = [] then
         (case ask c 0 (Inr (DeleteTelegramSettings (w_db w))) of
            Inl e \<Rightarrow> (internal e, w) | Inr d \<Rightarrow> (answer_json 200 telegram_off, w\<lparr>w_db := d\<rparr>))
       else if token = [] \<or> chat = []
       then (writeErr 400 ''validation_failed'' ''bot_token and chat_id must be set together'', w)
       else
         case ask c 0 (SaveTelegramSettings (telegram_seal ap) token chat (cl_now c) (w_db w)) of
           Inl e \<Rightarrow> (internal e, w)
         | Inr d \<Rightarrow> (answer_json 200 (telegram_view chat (Some (cl_now c))), w\<lparr>w_db := d\<rparr>)) w"

end
