(* ===== verification/Api_Storage.thy ===== *)
theory Api_Storage
  imports Api_Base
begin

text \<open>
  The handlers for storage targets, repositories and snapshots (\<open>handlers_storage.go\<close>).
\<close>

section \<open>Storage targets\<close>

definition targetView :: "storage_target \<Rightarrow> json" where
  "targetView t =
     JObj [(''id'', JStr (tgt_id t)), (''name'', JStr (tgt_name t)), (''type'', JStr (tgt_type t)),
           (''remote_name'', JStr (tgt_remote_name t)), (''remote_path'', JStr (tgt_remote_path t)),
           (''created_at'', time_json (tgt_created_at t)), (''updated_at'', time_json (tgt_updated_at t))]"

definition verify_json :: "verify_result \<Rightarrow> json" where
  "verify_json v = JObj [(''remote_type'', JStr (vr_remote_type v)), (''entries'', JNum (vr_entries v))]"

text \<open>The reply to an operation of the orchestrator that gives a value or an error.\<close>

definition jobs_reply :: "('v \<Rightarrow> reply) \<Rightarrow> (jobs_err + 'v) \<times> 'w \<Rightarrow> reply \<times> 'w" where
  "jobs_reply f r = (case r of (Inl e, w) \<Rightarrow> (jobsErr e, w) | (Inr v, w) \<Rightarrow> (f v, w))"

definition validate_target_body :: "(string \<times> json) list \<Rightarrow> (string \<times> string \<times> string) option" where
  "validate_target_body ms =
     (case (field_string ''rclone_conf'' ms, field_string ''remote_name'' ms, field_string ''validate_agent_id'' ms) of
        (Some a, Some b, Some d) \<Rightarrow> Some (a, b, d) | _ \<Rightarrow> None)"

definition handleValidateStorageTarget :: "'c api \<Rightarrow> visit \<Rightarrow> request \<Rightarrow> 'c world \<Rightarrow> reply \<times> 'c world" where
  "handleValidateStorageTarget ap c rq w =
     readJSON rq validate_target_body (\<lambda>(conf, remote, agent).
       jobs_reply (\<lambda>v. answer_json 200 (verify_json v))
         (ValidateStorageRemote (ap_sealing ap) (ap_meanwhile ap) (cl_id c 0) (cl_now c) conf remote agent w)) w"

record target_body =
  tb_name :: string
  tb_conf :: string
  tb_remote_name :: string
  tb_remote_path :: string
  tb_agent :: string
  tb_validate :: bool

definition decode_target_body :: "(string \<times> json) list \<Rightarrow> target_body option" where
  "decode_target_body ms =
     (case (field_string ''name'' ms, field_string ''rclone_conf'' ms, field_string ''remote_name'' ms,
            field_string ''remote_path'' ms, field_string ''validate_agent_id'' ms, field_bool ''validate'' ms) of
        (Some n, Some cf, Some rn, Some rp, Some ag, Some v) \<Rightarrow>
          Some \<lparr>tb_name = n, tb_conf = cf, tb_remote_name = rn, tb_remote_path = rp, tb_agent = ag, tb_validate = v\<rparr>
      | _ \<Rightarrow> None)"

definition handleCreateStorageTarget :: "'c api \<Rightarrow> visit \<Rightarrow> string \<Rightarrow> request \<Rightarrow> 'c world \<Rightarrow> reply \<times> 'c world" where
  "handleCreateStorageTarget ap c who rq w =
     readJSON rq decode_target_body (\<lambda>b.
       if tb_name b = [] \<or> tb_remote_name b = []
       then (writeErr 400 ''validation_failed'' ''name and remote_name are required'', w)
       else if TrimSpace (tb_conf b) = [] then (writeErr 400 ''validation_failed'' ''rclone_conf is required'', w)
       else jobs_reply (\<lambda>t. answer_json 201 (targetView t))
         (CreateStorageTargetWithAgent (ap_sealing ap) (ap_meanwhile ap) (cl_id c 0) (cl_id c 1) (cl_id c 2) (cl_now c) (cl_at c)
            who (tb_name b) (tb_conf b) (tb_remote_name b) (tb_remote_path b) (tb_agent b) (tb_validate b) w)) w"

definition handleListStorageTargets :: "visit \<Rightarrow> 'c world \<Rightarrow> reply \<times> 'c world" where
  "handleListStorageTargets c w =
     ((case ask c 0 (Inr (ListStorageTargets (w_db w))) of
         Inl e \<Rightarrow> internal e | Inr ts \<Rightarrow> answer_json 200 (JList (map targetView ts))), w)"

text \<open>The path of a target is never changed; a request that would is refused, if the target can be read.\<close>

definition rename_target_body :: "(string \<times> json) list \<Rightarrow> (string \<times> string option) option" where
  "rename_target_body ms =
     (case (field_string ''name'' ms, field_string ''remote_path'' ms) of
        (Some n, Some p) \<Rightarrow> Some (n, case obj_get ''remote_path'' ms of Some (JStr _) \<Rightarrow> Some p | _ \<Rightarrow> None)
      | _ \<Rightarrow> None)"

definition moves_target :: "visit \<Rightarrow> db \<Rightarrow> string \<Rightarrow> string option \<Rightarrow> bool" where
  "moves_target c d i path =
     (case path of
        None \<Rightarrow> False
      | Some p \<Rightarrow> (case ask c 0 (GetStorageTarget d i) of Inl _ \<Rightarrow> False | Inr t \<Rightarrow> p \<noteq> tgt_remote_path t))"

definition handleRenameStorageTarget :: "visit \<Rightarrow> string \<Rightarrow> request \<Rightarrow> 'c world \<Rightarrow> reply \<times> 'c world" where
  "handleRenameStorageTarget c who rq w =
     readJSON rq rename_target_body (\<lambda>(name, path).
       let i = pathParam rq ''id'' in
       if TrimSpace name = [] then (writeErr 400 ''validation_failed'' ''name is required'', w)
       else if moves_target c (w_db w) i path
       then (writeErr 400 ''validation_failed'' ''remote_path is immutable; create a new storage target to change it'', w)
       else
         case RenameStorageTarget (cl_id c 0) (cl_now c) who i name w of
           (Inl e, w1) \<Rightarrow>
             (if e = ErrStorageTargetName then writeErr 400 ''validation_failed'' ''name is required''
              else jobsErr e, w1)
         | (Inr t, w1) \<Rightarrow> (answer_json 200 (targetView t), w1)) w"

definition handleDeleteStorageTarget :: "visit \<Rightarrow> string \<Rightarrow> request \<Rightarrow> 'c world \<Rightarrow> reply \<times> 'c world" where
  "handleDeleteStorageTarget c who rq w =
     (let i = pathParam rq ''id'' in
      case ask c 0 (DeleteStorageTarget i (w_db w)) of
        Inl e \<Rightarrow> (store_reply e, w)
      | Inr d \<Rightarrow>
          (no_content 204, Audit (cl_id c 0) (cl_now c) ''admin'' who ''storage_target.delete'' ''storage_target'' i [] (w\<lparr>w_db := d\<rparr>)))"

section \<open>Repositories\<close>

definition repo_status_text :: "repo_status \<Rightarrow> string" where
  "repo_status_text s = (case s of RepoPending \<Rightarrow> ''pending'' | RepoReady \<Rightarrow> ''ready'' | RepoError \<Rightarrow> ''error'')"

definition failed_runs_of :: "string \<Rightarrow> run_filter" where
  "failed_runs_of repo =
     \<lparr>rf_agent_id = [], rf_plan_id = [], rf_repository_id = repo, rf_statuses = [RunFailed], rf_operation = None,
      rf_limit = 1, rf_offset = 0, rf_exclude_keys = []\<rparr>"

text \<open>Why a repository in error failed last; nothing is said of one that is ready again.\<close>

definition repo_error_message :: "db \<Rightarrow> repository \<Rightarrow> string" where
  "repo_error_message d repo =
     (if repo_status repo \<noteq> RepoError then []
      else case ListRuns d (failed_runs_of (repo_id repo)) of [] \<Rightarrow> [] | r # _ \<Rightarrow> TrimSpace (run_error_message r))"

definition repoView :: "db \<Rightarrow> repository \<Rightarrow> json" where
  "repoView d repo =
     JObj ([(''id'', JStr (repo_id repo)), (''agent_id'', JStr (repo_agent_id repo))] @
           omitempty ''agent_name'' (case GetAgent d (repo_agent_id repo) of Inl _ \<Rightarrow> [] | Inr a \<Rightarrow> agt_name a) @
           [(''storage_target_id'', JStr (repo_storage_target_id repo))] @
           omitempty ''storage_target_name'' (case GetStorageTarget d (repo_storage_target_id repo) of Inl _ \<Rightarrow> [] | Inr t \<Rightarrow> tgt_name t) @
           [(''repository_path'', JStr (repo_path repo)), (''status'', JStr (repo_status_text (repo_status repo)))] @
           omitempty ''error_message'' (repo_error_message d repo) @ omit_time ''last_check_at'' (repo_last_check_at repo) @
           [(''created_at'', time_json (repo_created_at repo)), (''updated_at'', time_json (repo_updated_at repo))])"

definition bind_ids_of :: "visit \<Rightarrow> bind_ids" where
  "bind_ids_of c = \<lparr>bid_repo = cl_id c 0, bid_probe = cl_id c 1, bid_init = cl_id c 2, bid_audit = cl_id c 3\<rparr>"

definition handleBindRepository :: "'c api \<Rightarrow> visit \<Rightarrow> string \<Rightarrow> request \<Rightarrow> 'c world \<Rightarrow> reply \<times> 'c world" where
  "handleBindRepository ap c who rq w =
     readJSON rq (strings2 ''agent_id'' ''storage_target_id'') (\<lambda>(agent, target).
       case BindRepository (ap_sealing ap) (ap_meanwhile ap) (ap_instance ap) (bind_ids_of c) (cl_random c) (cl_now c) (cl_at c)
              who agent target w of
         (Inl e, w1) \<Rightarrow> (jobsErr e, w1)
       | (Inr repo, w1) \<Rightarrow> (answer_json 201 (repoView (w_db w1) repo), w1)) w"

definition handleRepositoryCheck :: "'c api \<Rightarrow> visit \<Rightarrow> string \<Rightarrow> request \<Rightarrow> 'c world \<Rightarrow> reply \<times> 'c world" where
  "handleRepositoryCheck ap c who rq w =
     jobs_reply (\<lambda>r. answer_json 202 (JObj [(''run'', runView r)]))
       (StartRepositoryCheck (ap_sealing ap) (cl_id c 0) (cl_id c 1) (cl_now c) who (pathParam rq ''id'') w)"

definition handleListRepositories :: "visit \<Rightarrow> 'c world \<Rightarrow> reply \<times> 'c world" where
  "handleListRepositories c w =
     ((case ask c 0 (Inr (ListRepositories (w_db w))) of
         Inl e \<Rightarrow> internal e | Inr rs \<Rightarrow> answer_json 200 (JList (map (repoView (w_db w)) rs))), w)"

definition handleUnbindRepository :: "visit \<Rightarrow> string \<Rightarrow> request \<Rightarrow> 'c world \<Rightarrow> reply \<times> 'c world" where
  "handleUnbindRepository c who rq w =
     (case UnbindRepository (cl_id c 0) (cl_now c) who (pathParam rq ''id'') w of
        (Some e, w1) \<Rightarrow> (jobsErr e, w1) | (None, w1) \<Rightarrow> (no_content 204, w1))"

section \<open>Snapshots\<close>

definition cache_header :: "string \<Rightarrow> instant option \<Rightarrow> (string \<times> string) list" where
  "cache_header state at =
     (''X-BMC-Cache'', state) # (case at of None \<Rightarrow> [] | Some t \<Rightarrow> [(''X-BMC-Verified-At'', rfc3339 t)])"

definition writeSnapshotCacheHeaders :: "cache_info \<Rightarrow> (string \<times> string) list" where
  "writeSnapshotCacheHeaders ci = cache_header (if ci_hit ci then ''HIT'' else ''MISS'') (ci_verified_at ci)"

definition with_headers :: "(string \<times> string) list \<Rightarrow> reply \<Rightarrow> reply" where
  "with_headers hs r = r\<lparr>rp_headers := hs\<rparr>"

text \<open>The list as it is kept for browsing, which may be out of date: none when there is nothing usable.\<close>

definition browse_list :: "'c api \<Rightarrow> visit \<Rightarrow> nat \<Rightarrow> db \<Rightarrow> string \<Rightarrow> reply + (snapshot list \<times> instant \<times> bool)" where
  "browse_list ap c n d repo =
     (case ask c n (GetSnapshotListBrowseCache d repo) of
        Inl e \<Rightarrow> Inl (if e = ErrNotFound then no_content 204 else writeErr 500 ''internal'' (redactMsg (store_text e)))
      | Inr (cache, stale) \<Rightarrow>
          (case decode_snapshots (lc_snapshots cache) of
             None \<Rightarrow> Inl (no_content 204)
           | Some snaps \<Rightarrow>
               if SnapshotFingerprint (ap_sha ap) snaps \<noteq> lc_fingerprint cache then Inl (no_content 204)
               else Inr (filterHiddenSnapshots d repo snaps, lc_verified_at cache, stale)))"

definition browse_reply :: "bool \<Rightarrow> instant \<Rightarrow> json \<Rightarrow> reply" where
  "browse_reply stale at j =
     with_headers (cache_header (if stale then ''STALE'' else ''HIT'') (if at = zero_time then None else Some at)) (answer_json 200 j)"

definition list_reply :: "snapshot list browse \<Rightarrow> reply" where
  "list_reply b =
     (case br_err b of
        Some e \<Rightarrow> jobsErr e
      | None \<Rightarrow>
          with_headers (writeSnapshotCacheHeaders (br_info b))
            (answer_json 200 (case br_value b of None \<Rightarrow> JNull | Some ss \<Rightarrow> JList (map snapshot_json ss))))"

definition handleRepoSnapshots :: "'c api \<Rightarrow> visit \<Rightarrow> request \<Rightarrow> 'c world \<Rightarrow> reply \<times> 'c world" where
  "handleRepoSnapshots ap c rq w =
     (case ask c 0 (GetRepository (w_db w) (pathParam rq ''id'')) of
        Inl e \<Rightarrow> (mapped_or_nothing e, w)
      | Inr repo \<Rightarrow>
          let refresh = (queryParam rq ''refresh'' = ''1'') in
          if \<not> refresh \<and> queryParam rq ''cached'' = ''1''
          then ((case browse_list ap c 1 (w_db w) (repo_id repo) of
                   Inl r \<Rightarrow> r
                 | Inr (snaps, at, stale) \<Rightarrow> browse_reply stale at (JList (map snapshot_json snaps))), w)
          else
            case SnapshotsWithOptions (ap_sealing ap) (ap_sha ap) (ap_meanwhile ap) (cl_flight c) (cl_id c 0) (cl_now c) (cl_at c)
                   (repo_id repo) (repo_agent_id repo) refresh w of
              (b, w1) \<Rightarrow> (list_reply b, w1))"

text \<open>A snapshot is deleted only if the verified list names it, and no restore needs it.\<close>

definition refresh_first :: "string \<Rightarrow> reply" where
  "refresh_first why = writeErr 409 ''snapshot_list_refresh_required'' (''snapshot list cache '' @ why @ ''; refresh the list first'')"

definition deletion_refused :: "'c api \<Rightarrow> visit \<Rightarrow> db \<Rightarrow> string \<Rightarrow> string \<Rightarrow> reply option" where
  "deletion_refused ap c d repo snap =
     (if (case ask c 1 (Inr (ProtectedRestoreSnapshotIDs d repo)) of Inl _ \<Rightarrow> False | Inr ids \<Rightarrow> snap \<in> set ids)
      then Some (writeErr 409 ''snapshot_restore_protected''
             ''snapshot is referenced by an unresolved restore; resolve it before deleting'')
      else
        case ask c 2 (GetSnapshotListCache d repo) of
          Inl _ \<Rightarrow> Some (refresh_first ''is missing or stale'')
        | Inr cache \<Rightarrow>
            (case decode_snapshots (lc_snapshots cache) of
               None \<Rightarrow> Some (refresh_first ''is corrupt'')
             | Some snaps \<Rightarrow>
                 if SnapshotFingerprint (ap_sha ap) snaps \<noteq> lc_fingerprint cache then Some (refresh_first ''fingerprint mismatch'')
                 else if \<not> list_ex (\<lambda>s. snap_id s = snap) snaps
                 then Some (writeErr 404 ''not_found'' ''snapshot not found in repository'')
                 else None))"

definition deletion_state_text :: "deletion_state \<Rightarrow> string" where
  "deletion_state_text s =
     (case s of SnapshotDeletionCandidate \<Rightarrow> ''candidate'' | SnapshotDeletionPending \<Rightarrow> ''pending''
      | SnapshotDeletionRunning \<Rightarrow> ''running'' | SnapshotDeletionSucceeded \<Rightarrow> ''succeeded'')"

definition handleDeleteSnapshot :: "'c api \<Rightarrow> visit \<Rightarrow> string \<Rightarrow> request \<Rightarrow> 'c world \<Rightarrow> reply \<times> 'c world" where
  "handleDeleteSnapshot ap c who rq w =
     (let snap = pathParam rq ''snapshotID'' in
      case ask c 0 (GetRepository (w_db w) (pathParam rq ''id'')) of
        Inl e \<Rightarrow> (mapped_or_nothing e, w)
      | Inr repo \<Rightarrow>
          (case deletion_refused ap c (w_db w) (pathParam rq ''id'') snap of
             Some r \<Rightarrow> (r, w)
           | None \<Rightarrow>
               jobs_reply (\<lambda>(del, _). answer_json 202 (JObj [(''deletion_id'', JStr (del_id del)),
                   (''status'', JStr (deletion_state_text (del_state del)))]))
                 (QueueSnapshotDeletion (ap_sha ap) (cl_id c 0) (cl_id c 1) (cl_now c) who (repo_id repo) snap w)))"

definition browse_tree :: "'c api \<Rightarrow> visit \<Rightarrow> db \<Rightarrow> string \<Rightarrow> string \<Rightarrow> string \<Rightarrow> reply" where
  "browse_tree ap c d repo snap path =
     (case browse_list ap c 1 d repo of
        Inl r \<Rightarrow> r
      | Inr (snaps, _, listStale) \<Rightarrow>
          if \<not> list_ex (\<lambda>s. snap_id s = snap) snaps then writeErr 404 ''not_found'' ''snapshot not found in repository''
          else
            case ask c 2 (GetSnapshotTreeBrowseCache d repo snap path) of
              Inl e \<Rightarrow> if e = ErrNotFound then no_content 204 else writeErr 500 ''internal'' (redactMsg (store_text e))
            | Inr (cache, stale) \<Rightarrow>
                (case decode_tree (tc_tree cache) of
                   None \<Rightarrow> no_content 204
                 | Some t \<Rightarrow> browse_reply (listStale \<or> stale) (tc_verified_at cache) (tree_json t)))"

definition tree_reply :: "tree browse \<Rightarrow> reply" where
  "tree_reply b =
     (case br_err b of
        Some e \<Rightarrow> jobsErr e
      | None \<Rightarrow>
          with_headers (writeSnapshotCacheHeaders (br_info b))
            (answer_json 200 (case br_value b of None \<Rightarrow> JNull | Some t \<Rightarrow> tree_json t)))"

definition handleSnapshotTree :: "'c api \<Rightarrow> visit \<Rightarrow> request \<Rightarrow> 'c world \<Rightarrow> reply \<times> 'c world" where
  "handleSnapshotTree ap c rq w =
     (let snap = pathParam rq ''snapshotID''; path = queryParam rq ''path''; refresh = (queryParam rq ''refresh'' = ''1'') in
      if queryParam rq ''repo'' = [] then (writeErr 400 ''validation_failed'' ''repo query parameter is required'', w)
      else
        case ask c 0 (GetRepository (w_db w) (queryParam rq ''repo'')) of
          Inl e \<Rightarrow> (mapped_or_nothing e, w)
        | Inr repo \<Rightarrow>
            if \<not> refresh \<and> queryParam rq ''cached'' = ''1'' then (browse_tree ap c (w_db w) (repo_id repo) snap path, w)
            else
              case SnapshotTreeWithOptions (ap_sealing ap) (ap_sha ap) (ap_meanwhile ap) (cl_flight c) (cl_tflight c) (cl_id c 0) (cl_id c 1)
                     (cl_now c) (cl_at c) (repo_id repo) (repo_agent_id repo) snap path refresh w of
                (b, w1) \<Rightarrow> (tree_reply b, w1))"

end
