(* ===== verification/Api_Plans.thy ===== *)
theory Api_Plans
  imports Api_Storage Pipeline
begin

text \<open>
  The handlers for plans (\<open>handlers_plans.go\<close>), with what they check of a plan before it is stored.  The cron
  library and the time zones are those of the scheduler; a next time of \<open>zero_time\<close> is none within five
  years.
\<close>

section \<open>Views\<close>

definition nextFireFromPlan :: "cron \<Rightarrow> plan \<Rightarrow> instant \<Rightarrow> instant option" where
  "nextFireFromPlan cr p now =
     (if \<not> cr_zone cr (plan_timezone p) \<or> \<not> cr_parses cr (plan_schedule p) then None
      else Some (cr_next cr (plan_schedule p) (plan_timezone p) now))"

definition last_backups_of :: "string \<Rightarrow> run_filter" where
  "last_backups_of plan =
     \<lparr>rf_agent_id = [], rf_plan_id = plan, rf_repository_id = [], rf_statuses = [], rf_operation = Some OpBackup,
      rf_limit = 1, rf_offset = 0, rf_exclude_keys = []\<rparr>"

definition last_run_at :: "db \<Rightarrow> string \<Rightarrow> instant option" where
  "last_run_at d plan =
     (case ListRuns d (last_backups_of plan) of
        [] \<Rightarrow> None
      | r # _ \<Rightarrow> (case run_finished_at r of None \<Rightarrow> run_started_at r | Some t \<Rightarrow> Some t))"

definition next_fire_at :: "cron \<Rightarrow> instant \<Rightarrow> plan \<Rightarrow> instant option" where
  "next_fire_at cr now p =
     (if \<not> plan_enabled p then None
      else case nextFireFromPlan cr p now of None \<Rightarrow> None | Some t \<Rightarrow> if t = zero_time then None else Some t)"

definition null_time :: "instant option \<Rightarrow> json" where
  "null_time t = (case t of None \<Rightarrow> JNull | Some u \<Rightarrow> time_json u)"

definition planView :: "'c api \<Rightarrow> instant \<Rightarrow> db \<Rightarrow> plan \<Rightarrow> json" where
  "planView ap now d p =
     JObj [(''id'', JStr (plan_id p)), (''name'', JStr (plan_name p)), (''agent_id'', JStr (plan_agent_id p)),
           (''kind'', JStr (kind_text (plan_kind p))), (''schedule'', JStr (plan_schedule p)), (''timezone'', JStr (plan_timezone p)),
           (''enabled'', JBool (plan_enabled p)), (''source'', source_json (plan_source_of p)),
           (''credentials'', JObj [(''password_set'', JBool (HasPlanDBPassword (sl_open (ap_sealing ap)) d (plan_id p)))]),
           (''repository_id'', JStr (plan_repository_id p)), (''retention'', retention_json (plan_retention p)),
           (''timeout_seconds'', JNum (plan_timeout_seconds p)), (''last_run_at'', null_time (last_run_at d (plan_id p))),
           (''next_fire_at'', null_time (next_fire_at (ap_cron ap) now p)),
           (''created_at'', time_json (plan_created_at p)), (''updated_at'', time_json (plan_updated_at p))]"

section \<open>The body of a request\<close>

record plan_body =
  pb_name :: string
  pb_agent_id :: string
  pb_kind :: kind
  pb_schedule :: string
  pb_timezone :: string
  pb_enabled :: "bool option"
  pb_source :: json
  pb_credentials :: string
  pb_top_password :: bool
  pb_top_extra_args :: bool
  pb_repository_id :: string
  pb_retention :: retention
  pb_timeout_seconds :: int

definition body_retention :: "json option \<Rightarrow> retention option" where
  "body_retention j =
     (case (case j of None \<Rightarrow> Some [] | Some JNull \<Rightarrow> Some [] | Some (JObj ms) \<Rightarrow> Some ms | Some _ \<Rightarrow> None) of
        None \<Rightarrow> None
      | Some ms \<Rightarrow>
          (case (field_int ''keep_last'' ms, field_int ''keep_daily'' ms, field_int ''keep_weekly'' ms, field_int ''keep_monthly'' ms) of
             (Some a, Some b, Some c, Some e) \<Rightarrow> Some \<lparr>keep_last = a, keep_daily = b, keep_weekly = c, keep_monthly = e\<rparr>
           | _ \<Rightarrow> None))"

definition nested_password :: "(string \<times> json) list \<Rightarrow> string option" where
  "nested_password ms =
     (case obj_get ''credentials'' ms of
        None \<Rightarrow> Some [] | Some JNull \<Rightarrow> Some [] | Some (JObj cs) \<Rightarrow> field_string ''password'' cs | Some _ \<Rightarrow> None)"

definition given :: "string \<Rightarrow> (string \<times> json) list \<Rightarrow> bool" where
  "given k ms = (case obj_get k ms of None \<Rightarrow> False | Some JNull \<Rightarrow> False | Some _ \<Rightarrow> True)"

definition decode_plan_body :: "(string \<times> json) list \<Rightarrow> plan_body option" where
  "decode_plan_body ms =
     (case (field_string ''name'' ms, field_string ''agent_id'' ms, field_string ''kind'' ms, field_string ''schedule'' ms,
            field_string ''timezone'' ms, field_bool ''enabled'' ms, field_string ''repository_id'' ms) of
        (Some n, Some ag, Some k, Some sch, Some tz, Some en, Some rp) \<Rightarrow>
          (case (nested_password ms, field_string ''password'' ms, field_strings ''extra_args'' ms,
                 body_retention (obj_get ''retention'' ms), field_int ''timeout_seconds'' ms) of
             (Some pw, Some _, Some _, Some ret, Some t) \<Rightarrow>
               Some \<lparr>pb_name = n, pb_agent_id = ag, pb_kind = decode_kind k, pb_schedule = sch, pb_timezone = tz,
                     pb_enabled = (if given ''enabled'' ms then Some en else None),
                     pb_source = (case obj_get ''source'' ms of None \<Rightarrow> json_none | Some j \<Rightarrow> j), pb_credentials = pw,
                     pb_top_password = given ''password'' ms, pb_top_extra_args = given ''extra_args'' ms, pb_repository_id = rp,
                     pb_retention = ret, pb_timeout_seconds = t\<rparr>
           | _ \<Rightarrow> None)
      | _ \<Rightarrow> None)"

text \<open>The source may carry the password, itself or under its credentials; it is taken out here.\<close>

definition decodePlanSource :: "json \<Rightarrow> (plan_source \<times> string) option" where
  "decodePlanSource j =
     (case (case j of JObj ms \<Rightarrow> Some ms | JNull \<Rightarrow> Some [] | _ \<Rightarrow> None) of
        None \<Rightarrow> None
      | Some ms \<Rightarrow>
          (case (decode_plan_source ms, field_string ''password'' ms, nested_password ms) of
             (Some src, Some pw, Some nested) \<Rightarrow> Some (src, if pw = [] then nested else pw)
           | _ \<Rightarrow> None))"

section \<open>Checks\<close>

definition validKind :: "kind \<Rightarrow> bool" where
  "validKind k \<longleftrightarrow> k \<in> {KindFilesystem, KindPostgreSQL, KindMySQL, KindMongoDB, KindSQLite}"

text \<open>Up to four intervals between the next times the schedule fires, from now on.\<close>

fun windows_ok :: "(instant \<Rightarrow> instant) \<Rightarrow> int \<Rightarrow> nat \<Rightarrow> instant \<Rightarrow> string option" where
  "windows_ok next timeout 0 prev = None"
| "windows_ok next timeout (Suc n) prev =
     (let t = next prev in
      if t = zero_time then None
      else if t - prev < timeout then Some ''schedule interval is shorter than timeout_seconds; backup windows would overlap''
      else windows_ok next timeout n t)"

definition validateScheduleWindow :: "cron \<Rightarrow> instant \<Rightarrow> string \<Rightarrow> string \<Rightarrow> int \<Rightarrow> string option" where
  "validateScheduleWindow cr now expr tz timeout =
     (if \<not> cr_parses cr expr then Some ''expected exactly 5 fields''
      else if \<not> cr_zone cr tz then Some ''unknown time zone''
      else
        let next = cr_next cr expr tz; prev = next now in
        if prev = zero_time
        then (if cr_next cr expr ''UTC'' zero_time = zero_time then Some ''schedule never fires: no matching date exists'' else None)
        else windows_ok next timeout 4 prev)"

definition with_defaults :: "plan_body \<Rightarrow> plan_body" where
  "with_defaults b =
     b\<lparr>pb_timezone := (if pb_timezone b = [] then ''UTC'' else pb_timezone b),
       pb_timeout_seconds := (if pb_timeout_seconds b = 0 then 3600 else pb_timeout_seconds b)\<rparr>"

definition body_refused :: "plan_body \<Rightarrow> string option" where
  "body_refused b =
     (if pb_name b = [] \<or> 200 < RuneCount (pb_name b) then Some ''name must be 1..200 chars''
      else if \<not> validKind (pb_kind b) then Some ''kind must be one of filesystem|postgresql|mysql|mongodb|sqlite''
      else if pb_agent_id b = [] \<or> pb_repository_id b = [] then Some ''agent_id and repository_id are required''
      else if pb_schedule b = [] then Some ''schedule (5-field cron) is required''
      else if pb_timeout_seconds b < 60 \<or> 21600 < pb_timeout_seconds b then Some ''timeout_seconds must be 60..21600 (six-hour window)''
      else None)"

definition retention_refused :: "retention \<Rightarrow> string option" where
  "retention_refused r =
     (if keep_last r < 0 \<or> keep_daily r < 0 \<or> keep_weekly r < 0 \<or> keep_monthly r < 0 then Some ''retention values must not be negative''
      else if keep_last r + keep_daily r + keep_weekly r + keep_monthly r = 0 then Some ''retention must keep at least one rule''
      else None)"

text \<open>The body with its defaults, or why it is refused.\<close>

definition validate_plan :: "cron \<Rightarrow> instant \<Rightarrow> plan_body \<Rightarrow> string + plan_body" where
  "validate_plan cr now b0 =
     (let b = with_defaults b0 in
      if pb_top_password b then Inl ''password must be nested: use credentials.password (or source.password)''
      else if pb_top_extra_args b then Inl ''extra_args must be nested inside source (source.extra_args)''
      else case body_refused b of
        Some m \<Rightarrow> Inl m
      | None \<Rightarrow>
          if \<not> cr_parses cr (pb_schedule b) then Inl ''schedule is not a valid 5-field cron expression''
          else if \<not> cr_zone cr (pb_timezone b) then Inl ''timezone must be a valid IANA timezone''
          else case validateScheduleWindow cr now (pb_schedule b) (pb_timezone b) (seconds (pb_timeout_seconds b)) of
            Some m \<Rightarrow> Inl m
          | None \<Rightarrow> (case retention_refused (pb_retention b) of Some m \<Rightarrow> Inl m | None \<Rightarrow> Inr b))"

definition gib100 :: int where "gib100 = 100 * 2 ^ 30"

definition validateDatabaseEstimate :: "kind \<Rightarrow> plan_source \<Rightarrow> string" where
  "validateDatabaseEstimate k src =
     (if k \<in> {KindPostgreSQL, KindMySQL, KindMongoDB} \<and> src_estimated_dump_bytes src \<le> 0
      then ''estimated_dump_bytes must be greater than zero for logical database backups''
      else if k \<in> {KindPostgreSQL, KindMySQL, KindMongoDB} \<and> (src_port src < 1 \<or> 65535 < src_port src)
      then ''source.port must be 1..65535''
      else if k = KindSQLite \<and> (src_path src = [] \<or> \<not> IsAbs (src_path src)) then ''sqlite source path must be absolute''
      else if k = KindMongoDB \<and> src_capture_oplog src then ''capture_oplog is not supported''
      else if gib100 < src_estimated_dump_bytes src then ''logical backup exceeds 100 GiB; physical_backup_required''
      else case ValidateExtraArgs k (src_extra_args src) of
        Inl a \<Rightarrow> ''extra_args contains disallowed option '' @ a | Inr _ \<Rightarrow> [])"

definition estimate_refused :: "kind \<Rightarrow> plan_source \<Rightarrow> reply option" where
  "estimate_refused k src =
     (let m = validateDatabaseEstimate k src in
      if m = [] then None
      else Some (writeErr 422 (if gib100 < src_estimated_dump_bytes src then ''physical_backup_required'' else ''invalid_plan'') m))"

section \<open>Reading\<close>

definition handleListPlans :: "'c api \<Rightarrow> visit \<Rightarrow> request \<Rightarrow> 'c world \<Rightarrow> reply \<times> 'c world" where
  "handleListPlans ap c rq w =
     ((case ask c 0 (Inr (ListPlans (w_db w) (queryParam rq ''agent_id''))) of
         Inl e \<Rightarrow> internal e | Inr ps \<Rightarrow> answer_json 200 (JList (map (planView ap (cl_now c) (w_db w)) ps))), w)"

definition handleGetPlan :: "'c api \<Rightarrow> visit \<Rightarrow> request \<Rightarrow> 'c world \<Rightarrow> reply \<times> 'c world" where
  "handleGetPlan ap c rq w =
     ((case ask c 0 (GetPlan (w_db w) (pathParam rq ''id'')) of
         Inl e \<Rightarrow> mapped_or_nothing e | Inr p \<Rightarrow> answer_json 200 (planView ap (cl_now c) (w_db w) p)), w)"

section \<open>Writing\<close>

text \<open>The password of the plan: the one of the source, else the one beside it.\<close>

definition plan_password :: "plan_body \<Rightarrow> string \<Rightarrow> string" where
  "plan_password b pw = (if pw = [] then pb_credentials b else pw)"

definition wrong_repository :: "visit \<Rightarrow> nat \<Rightarrow> plan_body \<Rightarrow> db \<Rightarrow> reply option" where
  "wrong_repository c n b d =
     (case ask c n (GetRepository d (pb_repository_id b)) of
        Inl e \<Rightarrow> Some (mapped_or_nothing e)
      | Inr repo \<Rightarrow>
          if repo_agent_id repo \<noteq> pb_agent_id b
          then Some (writeErr 400 ''validation_failed'' ''repository does not belong to this agent'') else None)"

definition plan_of_body :: "visit \<Rightarrow> plan_body \<Rightarrow> plan_source \<Rightarrow> plan" where
  "plan_of_body c b src =
     \<lparr>plan_id = cl_id c 0, plan_name = pb_name b, plan_agent_id = pb_agent_id b, plan_kind = pb_kind b,
      plan_schedule = pb_schedule b, plan_timezone = pb_timezone b, plan_enabled = (pb_enabled b \<noteq> Some False),
      plan_source_of = src, plan_repository_id = pb_repository_id b, plan_retention = pb_retention b,
      plan_timeout_seconds = pb_timeout_seconds b, plan_created_at = cl_at c, plan_updated_at = cl_at c\<rparr>"

text \<open>Saving the password of a plan whose row is written; there is nothing to save when it is empty.\<close>

definition save_password :: "'c api \<Rightarrow> visit \<Rightarrow> nat \<Rightarrow> string \<Rightarrow> string \<Rightarrow> db \<Rightarrow> store_err + db" where
  "save_password ap c n i pw d = (if pw = [] then Inr d else ask c n (SavePlanDBPassword (sl_seal (ap_sealing ap)) i pw d))"

definition credential_lost :: reply where "credential_lost = writeErr 500 ''internal'' ''failed to save database credential''"

definition store_new_plan :: "'c api \<Rightarrow> visit \<Rightarrow> string \<Rightarrow> plan \<Rightarrow> string \<Rightarrow> 'c world \<Rightarrow> reply \<times> 'c world" where
  "store_new_plan ap c who p pw w =
     (case ask c 1 (CreatePlan p (w_db w)) of
        Inl e \<Rightarrow> (store_reply e, w)
      | Inr d \<Rightarrow>
          (case save_password ap c 2 (plan_id p) pw d of
             Inl _ \<Rightarrow> (credential_lost, w\<lparr>w_db := (case ask c 3 (DeletePlan (plan_id p) d) of Inl _ \<Rightarrow> d | Inr d' \<Rightarrow> d')\<rparr>)
           | Inr d1 \<Rightarrow>
               let w1 = Audit (cl_id c 1) (cl_at c) ''admin'' who ''plan.create'' ''plan'' (plan_id p)
                     [(''kind'', kind_text (plan_kind p)), (''name'', plan_name p)] (w\<lparr>w_db := d1\<rparr>)
               in (answer_json 201 (planView ap (cl_at c) (w_db w1) p), w1)))"

definition create_plan :: "'c api \<Rightarrow> visit \<Rightarrow> string \<Rightarrow> plan_body \<Rightarrow> 'c world \<Rightarrow> reply \<times> 'c world" where
  "create_plan ap c who b w =
     (case decodePlanSource (pb_source b) of
        None \<Rightarrow> (writeErr 400 ''validation_failed'' ''invalid source'', w)
      | Some (src, pw) \<Rightarrow>
          (case estimate_refused (pb_kind b) src of
             Some r \<Rightarrow> (r, w)
           | None \<Rightarrow>
               (case ValidatePlanSource (ap_sealing ap) (ap_meanwhile ap) (cl_id c 2) (cl_now c) (pb_kind b) src (pb_agent_id b) w of
                  (Some e, w1) \<Rightarrow> (jobsErr e, w1)
                | (None, w1) \<Rightarrow>
                    (case wrong_repository c 0 b (w_db w1) of
                       Some r \<Rightarrow> (r, w1)
                     | None \<Rightarrow> store_new_plan ap c who (plan_of_body c b src) (plan_password b pw) w1))))"

definition handleCreatePlan :: "'c api \<Rightarrow> visit \<Rightarrow> string \<Rightarrow> request \<Rightarrow> 'c world \<Rightarrow> reply \<times> 'c world" where
  "handleCreatePlan ap c who rq w =
     readJSON rq decode_plan_body (\<lambda>b.
       case validate_plan (ap_cron ap) (cl_now c) b of
         Inl m \<Rightarrow> (writeErr 400 ''validation_failed'' m, w) | Inr b' \<Rightarrow> create_plan ap c who b' w) w"

text \<open>An update checks the source with the agent before it checks the estimate, a creation afterwards.\<close>

definition updated_plan :: "visit \<Rightarrow> plan_body \<Rightarrow> plan_source \<Rightarrow> plan \<Rightarrow> plan" where
  "updated_plan c b src p =
     p\<lparr>plan_name := pb_name b, plan_agent_id := pb_agent_id b, plan_kind := pb_kind b, plan_schedule := pb_schedule b,
       plan_timezone := pb_timezone b, plan_enabled := (case pb_enabled b of None \<Rightarrow> plan_enabled p | Some e \<Rightarrow> e),
       plan_source_of := src, plan_repository_id := pb_repository_id b, plan_retention := pb_retention b,
       plan_timeout_seconds := pb_timeout_seconds b, plan_updated_at := cl_at c\<rparr>"

definition store_changed_plan :: "'c api \<Rightarrow> visit \<Rightarrow> string \<Rightarrow> plan \<Rightarrow> string \<Rightarrow> 'c world \<Rightarrow> reply \<times> 'c world" where
  "store_changed_plan ap c who p pw w =
     (case ask c 2 (UpdatePlan p (w_db w)) of
        Inl e \<Rightarrow> (store_reply e, w)
      | Inr d \<Rightarrow>
          (case save_password ap c 3 (plan_id p) pw d of
             Inl _ \<Rightarrow> (credential_lost, w\<lparr>w_db := d\<rparr>)
           | Inr d1 \<Rightarrow>
               let w1 = Audit (cl_id c 1) (cl_at c) ''admin'' who ''plan.update'' ''plan'' (plan_id p) [] (w\<lparr>w_db := d1\<rparr>)
               in (answer_json 200 (planView ap (cl_at c) (w_db w1) p), w1)))"

definition update_plan :: "'c api \<Rightarrow> visit \<Rightarrow> string \<Rightarrow> plan \<Rightarrow> plan_body \<Rightarrow> 'c world \<Rightarrow> reply \<times> 'c world" where
  "update_plan ap c who p b w =
     (case decodePlanSource (pb_source b) of
        None \<Rightarrow> (writeErr 400 ''validation_failed'' ''invalid source'', w)
      | Some (src, pw) \<Rightarrow>
          (case ValidatePlanSource (ap_sealing ap) (ap_meanwhile ap) (cl_id c 2) (cl_now c) (pb_kind b) src (pb_agent_id b) w of
             (Some e, w1) \<Rightarrow> (jobsErr e, w1)
           | (None, w1) \<Rightarrow>
               (case estimate_refused (pb_kind b) src of
                  Some r \<Rightarrow> (r, w1)
                | None \<Rightarrow>
                    (case wrong_repository c 1 b (w_db w1) of
                       Some r \<Rightarrow> (r, w1)
                     | None \<Rightarrow> store_changed_plan ap c who (updated_plan c b src p) (plan_password b pw) w1))))"

definition handleUpdatePlan :: "'c api \<Rightarrow> visit \<Rightarrow> string \<Rightarrow> request \<Rightarrow> 'c world \<Rightarrow> reply \<times> 'c world" where
  "handleUpdatePlan ap c who rq w =
     (case ask c 0 (GetPlan (w_db w) (pathParam rq ''id'')) of
        Inl e \<Rightarrow> (mapped_or_nothing e, w)
      | Inr p \<Rightarrow>
          readJSON rq decode_plan_body (\<lambda>b.
            case validate_plan (ap_cron ap) (cl_now c) b of
              Inl m \<Rightarrow> (writeErr 400 ''validation_failed'' m, w) | Inr b' \<Rightarrow> update_plan ap c who p b' w) w)"

text \<open>A plan is not deleted while the repository lists a snapshot of it; a list that cannot be had does not stop it.\<close>

definition handleDeletePlan :: "'c api \<Rightarrow> visit \<Rightarrow> string \<Rightarrow> request \<Rightarrow> 'c world \<Rightarrow> reply \<times> 'c world" where
  "handleDeletePlan ap c who rq w =
     (let i = pathParam rq ''id'' in
      case ask c 0 (GetPlan (w_db w) i) of
        Inl e \<Rightarrow> (store_reply e, w)
      | Inr p \<Rightarrow>
          (case SnapshotsWithOptions (ap_sealing ap) (ap_sha ap) (ap_meanwhile ap) (cl_flight c) (cl_id c 1) (cl_now c) (cl_at c)
                  (plan_repository_id p) (plan_agent_id p) True w of
             (b, w1) \<Rightarrow>
               if br_err b = None \<and>
                  list_ex (\<lambda>s. ''plan:'' @ i \<in> set (snap_tags s)) (case br_value b of None \<Rightarrow> [] | Some ss \<Rightarrow> ss)
               then (writeErr 409 ''plan_has_snapshots'' ''plan still has snapshots'', w1)
               else case ask c 1 (DeletePlan i (w_db w1)) of
                 Inl e \<Rightarrow> (store_reply e, w1)
               | Inr d \<Rightarrow>
                   (no_content 204, Audit (cl_id c 0) (cl_at c) ''admin'' who ''plan.delete'' ''plan'' i [] (w1\<lparr>w_db := d\<rparr>))))"

definition handleDeletePlanBackups :: "'c api \<Rightarrow> visit \<Rightarrow> string \<Rightarrow> request \<Rightarrow> 'c world \<Rightarrow> reply \<times> 'c world" where
  "handleDeletePlanBackups ap c who rq w =
     (let i = pathParam rq ''id'' in
      case DeletePlanBackups (ap_sealing ap) (ap_meanwhile ap) (cl_id c 0) (cl_now c) (cl_at c) i w of
        (Some e, w1) \<Rightarrow> (jobsErr e, w1)
      | (None, w1) \<Rightarrow> (no_content 204, Audit (cl_id c 1) (cl_at c) ''admin'' who ''plan.backups.delete'' ''plan'' i [] w1))"

definition validate_plan_body :: "(string \<times> json) list \<Rightarrow> (kind \<times> json \<times> string) option" where
  "validate_plan_body ms =
     (case (field_string ''kind'' ms, field_string ''agent_id'' ms) of
        (Some k, Some ag) \<Rightarrow> Some (decode_kind k, case obj_get ''source'' ms of None \<Rightarrow> json_none | Some j \<Rightarrow> j, ag)
      | _ \<Rightarrow> None)"

definition plain_source :: "json \<Rightarrow> plan_source option" where
  "plain_source j = (case j of JObj ms \<Rightarrow> decode_plan_source ms | JNull \<Rightarrow> decode_plan_source [] | _ \<Rightarrow> None)"

definition handleValidatePlan :: "'c api \<Rightarrow> visit \<Rightarrow> request \<Rightarrow> 'c world \<Rightarrow> reply \<times> 'c world" where
  "handleValidatePlan ap c rq w =
     readJSON rq validate_plan_body (\<lambda>(k, j, agent).
       case plain_source j of
         None \<Rightarrow> (writeErr 400 ''validation_failed'' ''invalid source'', w)
       | Some src \<Rightarrow>
           if \<not> validKind k
           then (writeErr 400 ''validation_failed'' ''kind must be one of filesystem|postgresql|mysql|mongodb|sqlite'', w)
           else case estimate_refused k src of
             Some r \<Rightarrow> (r, w)
           | None \<Rightarrow>
               (case ValidatePlanSource (ap_sealing ap) (ap_meanwhile ap) (cl_id c 0) (cl_now c) k src agent w of
                  (Some e, w1) \<Rightarrow> (jobsErr e, w1)
                | (None, w1) \<Rightarrow> (answer_json 200 (JObj [(''ok'', JBool True)]), w1))) w"

definition handleRunPlan :: "visit \<Rightarrow> request \<Rightarrow> 'c world \<Rightarrow> reply \<times> 'c world" where
  "handleRunPlan c rq w =
     jobs_reply (\<lambda>r. answer_json 202 (runView r)) (ManualRun (cl_id c 0) (cl_id c 1) (cl_now c) (pathParam rq ''id'') w)"

end
