(* ===== verification/Api_Runs.thy ===== *)
theory Api_Runs
  imports Api_Plans
begin

text \<open>
  The handlers for runs, restores, logs and the dashboard (\<open>handlers_runs.go\<close>, \<open>handlers_restores.go\<close>,
  \<open>handlers_logs.go\<close>, \<open>handlers_dashboard.go\<close>), and the stream of a run's events (\<open>handlers_ws.go\<close>).
\<close>

section \<open>Runs\<close>

text \<open>A number of digits only, in 64 bits without a check for overflow.\<close>

definition digits_int :: "string \<Rightarrow> int option" where
  "digits_int s =
     (if \<not> list_all is_digit s then None
      else Some (sint (foldl (\<lambda>n c. n * 10 + of_nat (of_char c - 48)) (0 :: 64 word) s)))"

definition atoiSafe :: "string \<Rightarrow> int \<Rightarrow> int" where
  "atoiSafe s dflt = (if s = [] then dflt else case digits_int s of None \<Rightarrow> dflt | Some n \<Rightarrow> n)"

definition all_statuses :: "run_status list" where
  "all_statuses = [RunQueued, RunDispatched, RunRunning, RunSucceeded, RunFailed, RunCancelled]"

definition all_operations :: "operation list" where
  "all_operations =
     [OpBackup, OpRestore, OpRestoreDryRun, OpCheck, OpForget, OpSnapshots, OpSnapshotLs, OpVerifyRemote, OpValidatePaths, OpProbeCaps]"

text \<open>
  The filter of a list of runs.  \<open>None\<close> is a filter that no run can pass: a status or an operation that
  does not exist.
\<close>

definition model2Filter :: "request \<Rightarrow> run_filter option" where
  "model2Filter rq =
     (let q = queryParam rq; n = atoiSafe (q ''limit'') 100;
          statuses = (if q ''status'' = [] then Some [] else map_option (\<lambda>s. [s]) (List.find (\<lambda>s. status_text s = q ''status'') all_statuses));
          oper = (if q ''operation'' = [] then Some None else map_option Some (List.find (\<lambda>s. op_text s = q ''operation'') all_operations))
      in case (statuses, oper) of
           (Some sts, Some oper) \<Rightarrow>
             Some \<lparr>rf_agent_id = q ''agent_id'', rf_plan_id = q ''plan_id'', rf_repository_id = q ''repository_id'', rf_statuses = sts,
                   rf_operation = oper, rf_limit = (if 0 < n \<and> n \<le> 500 then n else 100), rf_offset = atoiSafe (q ''offset'') 0,
                   rf_exclude_keys = []\<rparr>
         | _ \<Rightarrow> None)"

definition handleListRuns :: "visit \<Rightarrow> request \<Rightarrow> 'c world \<Rightarrow> reply \<times> 'c world" where
  "handleListRuns c rq w =
     ((case ask c 0 (Inr (case model2Filter rq of None \<Rightarrow> [] | Some f \<Rightarrow> ListRuns (w_db w) f)) of
         Inl e \<Rightarrow> internal e | Inr rs \<Rightarrow> answer_json 200 (JList (map runView rs))), w)"

definition handleGetRun :: "visit \<Rightarrow> request \<Rightarrow> 'c world \<Rightarrow> reply \<times> 'c world" where
  "handleGetRun c rq w =
     ((case ask c 0 (GetRun (w_db w) (pathParam rq ''id'')) of
         Inl e \<Rightarrow> mapped_or_nothing e | Inr r \<Rightarrow> answer_json 200 (runView r)), w)"

definition run_log_json :: "run_log \<Rightarrow> json" where
  "run_log_json l =
     JObj [(''source'', JStr (case rlog_source l of RunLogSourceAgent \<Rightarrow> ''agent'' | RunLogSourceServer \<Rightarrow> ''server'')),
           (''source_seq'', JNum (uint (rlog_source_seq l))), (''id'', JNum (rlog_id l)), (''run_id'', JStr (rlog_run_id l)),
           (''timestamp'', nano_time_json (rlog_timestamp l)), (''level'', JStr (rlog_level l)), (''message'', JStr (rlog_message l))]"

definition page_limit :: "request \<Rightarrow> int \<Rightarrow> int" where
  "page_limit rq dflt = (let n = queryInt rq ''limit'' dflt in if n \<le> 0 \<or> 500 < n then dflt else n)"

definition handleRunLogs :: "visit \<Rightarrow> request \<Rightarrow> 'c world \<Rightarrow> reply \<times> 'c world" where
  "handleRunLogs c rq w =
     ((case digits_int (queryParam rq ''before_id'') of
         None \<Rightarrow> writeErr 400 ''validation_failed'' ''before_id must be uint''
       | Some before \<Rightarrow>
           (case ask c 0 (Inr (ListRunLogs (w_db w) (pathParam rq ''id'') before (page_limit rq 200))) of
              Inl e \<Rightarrow> internal e | Inr ls \<Rightarrow> answer_json 200 (JList (map run_log_json ls)))), w)"

definition handleCancelRun :: "visit \<Rightarrow> request \<Rightarrow> 'c world \<Rightarrow> reply \<times> 'c world" where
  "handleCancelRun c rq w =
     (case CancelRun (cl_pick c) (cl_now c) (pathParam rq ''id'') w of
        (Some e, w1) \<Rightarrow> (jobsErr e, w1) | (None, w1) \<Rightarrow> (no_content 202, w1))"

section \<open>Restores\<close>

definition isAbsPath :: "string \<Rightarrow> bool" where
  "isAbsPath p \<longleftrightarrow>
     HasPrefix p ''/'' \<or>
     (case p of
        c # d # _ \<Rightarrow> d = CHR '':'' \<and> (CHR ''A'' \<le> c \<and> c \<le> CHR ''Z'' \<or> CHR ''a'' \<le> c \<and> c \<le> CHR ''z'')
      | _ \<Rightarrow> False)"

definition overwrite_modes :: "string list" where "overwrite_modes = [''never'', ''if-changed'', ''always'']"

record dry_run_body =
  drb_repository :: string
  drb_snapshot :: string
  drb_includes :: "string list"
  drb_target :: string
  drb_mode :: string
  drb_agent :: string

definition decode_dry_run :: "(string \<times> json) list \<Rightarrow> dry_run_body option" where
  "decode_dry_run ms =
     (case (field_string ''repository_id'' ms, field_string ''snapshot_id'' ms, field_strings ''include_paths'' ms,
            field_string ''target_path'' ms, field_string ''overwrite_mode'' ms, field_string ''target_agent_id'' ms) of
        (Some r, Some s, Some i, Some t, Some m, Some a) \<Rightarrow>
          Some \<lparr>drb_repository = r, drb_snapshot = s, drb_includes = i, drb_target = t,
                drb_mode = (if m = [] then ''always'' else m), drb_agent = a\<rparr>
      | _ \<Rightarrow> None)"

definition dry_run_stats_json :: "dry_run_stats option \<Rightarrow> json" where
  "dry_run_stats_json st =
     (case st of
        None \<Rightarrow> JNull
      | Some s \<Rightarrow>
          JObj [(''add'', JNum (dry_add s)), (''changed'', JNum (dry_changed s)), (''skipped'', JNum (dry_skipped s)),
                (''delete'', JNum (dry_delete s)), (''sample'', nil_json (dry_sample s))])"

definition handleDryRunRestore :: "'c api \<Rightarrow> visit \<Rightarrow> request \<Rightarrow> 'c world \<Rightarrow> reply \<times> 'c world" where
  "handleDryRunRestore ap c rq w =
     readJSON rq decode_dry_run (\<lambda>b.
       if drb_repository b = [] \<or> drb_snapshot b = [] \<or> drb_target b = []
       then (writeErr 400 ''validation_failed'' ''repository_id, snapshot_id and target_path are required'', w)
       else if \<not> isAbsPath (drb_target b) then (writeErr 400 ''validation_failed'' ''target_path must be absolute'', w)
       else if drb_mode b \<notin> set overwrite_modes
       then (writeErr 400 ''validation_failed'' ''overwrite_mode must be never|if-changed|always'', w)
       else jobs_reply (\<lambda>(st, _). answer_json 200 (dry_run_stats_json st))
         (DryRunRestore (ap_sealing ap) (ap_sha ap) (ap_meanwhile ap) (cl_id c 0) (cl_now c) (drb_repository b) (drb_snapshot b)
            (drb_includes b) (drb_target b) (drb_mode b) (drb_agent b) w)) w"

definition strict_target :: "json option \<Rightarrow> restore_target option" where
  "strict_target j =
     (case (case j of None \<Rightarrow> Some [] | Some JNull \<Rightarrow> Some [] | Some (JObj ms) \<Rightarrow> Some ms | Some _ \<Rightarrow> None) of
        None \<Rightarrow> None
      | Some ms \<Rightarrow>
          (case (field_string ''target_path'' ms, field_strings ''include_paths'' ms, field_string ''overwrite_mode'' ms,
                 field_string ''host'' ms, field_int ''port'' ms, field_string ''username'' ms, field_string ''database'' ms,
                 field_string ''auth_source'' ms) of
             (Some p, Some i, Some m, Some h, Some po, Some u, Some d, Some a) \<Rightarrow>
               Some \<lparr>rt_target_path = p, rt_include_paths = i, rt_overwrite_mode = m, rt_host = h, rt_port = po,
                     rt_username = u, rt_database = d, rt_auth_source = a\<rparr>
           | _ \<Rightarrow> None))"

definition decode_restore_input :: "(string \<times> json) list \<Rightarrow> restore_input option" where
  "decode_restore_input ms =
     (case (field_string ''repository_id'' ms, field_string ''snapshot_id'' ms, field_string ''restore_kind'' ms,
            strict_target (obj_get ''target'' ms), field_bool ''overwrite'' ms, field_string ''confirmation'' ms,
            field_string ''target_password'' ms, field_string ''target_agent_id'' ms) of
        (Some r, Some s, Some k, Some t, Some o', Some cf, Some pw, Some a) \<Rightarrow>
          Some \<lparr>ri_repository_id = r, ri_snapshot_id = s, ri_kind = decode_kind k, ri_target = t, ri_overwrite = o',
                ri_confirmation = cf, ri_target_password = pw, ri_target_agent_id = a\<rparr>
      | _ \<Rightarrow> None)"

text \<open>What the handler refuses itself, before the orchestrator looks at the request.\<close>

definition restore_refused :: "'c api \<Rightarrow> restore_input \<Rightarrow> reply option" where
  "restore_refused ap inp =
     (let t = ri_target inp; k = ri_kind inp in
      if k = KindFilesystem then
        (if \<not> isAbsPath (rt_target_path t) then Some (writeErr 400 ''validation_failed'' ''filesystem restore needs absolute target_path'')
         else if rt_overwrite_mode t \<notin> set overwrite_modes
         then Some (writeErr 400 ''validation_failed'' ''overwrite_mode must be never|if-changed|always'') else None)
      else if k \<in> {KindPostgreSQL, KindMySQL, KindMongoDB, KindSQLite} then
        (if EqualFold (TrimSpace (rt_database t)) ''all''
         then Some (writeErr 422 ''unsupported_restore_manifest'' ''restoring every database is not supported'')
         else if \<not> ap_restore_kinds ap k
         then Some (writeErr 503 ''database_restore_disabled'' (''database restore for '' @ kind_text k @ '' is disabled''))
         else if rt_database t = [] then Some (writeErr 400 ''validation_failed'' ''database targets need target.database'')
         else None)
      else Some (writeErr 400 ''validation_failed'' ''unknown restore_kind''))"

definition started_json :: "restore_request \<times> run \<Rightarrow> json" where
  "started_json p =
     (case p of (rr, r) \<Rightarrow>
        JObj [(''phase'', JStr (phase_text (rr_phase rr))), (''pre_restore_run_id'', JStr (rr_pre_restore_run_id rr)),
              (''restore_request_id'', JStr (rr_id rr)), (''rollback_snapshot_id'', JStr (rr_rollback_snapshot_id rr)),
              (''run'', runView r)])"

definition handleStartRestore :: "'c api \<Rightarrow> visit \<Rightarrow> string \<Rightarrow> request \<Rightarrow> 'c world \<Rightarrow> reply \<times> 'c world" where
  "handleStartRestore ap c who rq w =
     readJSON rq decode_restore_input (\<lambda>inp.
       case restore_refused ap inp of
         Some r \<Rightarrow> (r, w)
       | None \<Rightarrow>
           jobs_reply (\<lambda>p. answer_json 202 (started_json p))
             (StartRestore (ap_sealing ap) (ap_sha ap) (ap_sha ap) (cl_id c 0) (cl_id c 1) (cl_id c 2) (cl_now c) who inp w)) w"

record resolve_body =
  rsb_run_id :: string
  rsb_remark :: string
  rsb_stopped :: bool
  rsb_verified :: bool

definition decode_resolve :: "(string \<times> json) list \<Rightarrow> resolve_body option" where
  "decode_resolve ms =
     (case (field_string ''run_id'' ms, field_string ''note'' ms, field_bool ''execution_stopped'' ms, field_bool ''target_verified'' ms) of
        (Some r, Some n, Some s, Some v) \<Rightarrow> Some \<lparr>rsb_run_id = r, rsb_remark = n, rsb_stopped = s, rsb_verified = v\<rparr> | _ \<Rightarrow> None)"

definition resolved_reply :: "store_err + restore_request \<Rightarrow> reply" where
  "resolved_reply r =
     (case r of
        Inl e \<Rightarrow> internal e
      | Inr rr \<Rightarrow>
          answer_json 200 (JObj [(''phase'', JStr (phase_text (rr_phase rr))), (''restore_request_id'', JStr (rr_id rr)),
              (''rollback_snapshot_id'', JStr (rr_rollback_snapshot_id rr)), (''run_id'', JStr (rr_run_id rr))]))"

definition handleResolveRestore :: "visit \<Rightarrow> string \<Rightarrow> request \<Rightarrow> 'c world \<Rightarrow> reply \<times> 'c world" where
  "handleResolveRestore c who rq w =
     (let i = pathParam rq ''id'' in
      if i = [] then (writeErr 400 ''validation_failed'' ''restore request id is required'', w)
      else readJSON rq decode_resolve (\<lambda>b.
        if TrimSpace (rsb_run_id b) = [] \<or> TrimSpace (rsb_remark b) = []
        then (writeErr 400 ''validation_failed'' ''run_id and note are required'', w)
        else if \<not> rsb_stopped b \<or> \<not> rsb_verified b
        then (writeErr 400 ''validation_failed'' ''both execution_stopped and target_verified must be confirmed'', w)
        else
          case ResolveRestore (cl_id c 0) (cl_now c) who i (TrimSpace (rsb_run_id b)) (TrimSpace (rsb_remark b)) w of
            (Some e, w1) \<Rightarrow> (jobsErr e, w1)
          | (None, w1) \<Rightarrow> (resolved_reply (ask c 0 (GetRestoreRequest (w_db w1) i)), w1)) w)"

definition restore_view :: "restore_request \<Rightarrow> json" where
  "restore_view rr =
     JObj ([(''id'', JStr (rr_id rr)), (''run_id'', JStr (rr_run_id rr)), (''snapshot_id'', JStr (rr_snapshot_id rr)),
            (''restore_kind'', JStr (kind_text (rr_kind rr))), (''target'', target_json (decode_target (rr_target_json rr))),
            (''overwrite'', JBool (rr_overwrite rr))] @ omitempty ''pre_restore_run_id'' (rr_pre_restore_run_id rr) @
           omitempty ''rollback_snapshot_id'' (rr_rollback_snapshot_id rr) @ omitempty ''phase'' (phase_text (rr_phase rr)) @
           [(''created_at'', nano_time_json (rr_created_at rr))])"

definition handleListRestores :: "visit \<Rightarrow> request \<Rightarrow> 'c world \<Rightarrow> reply \<times> 'c world" where
  "handleListRestores c rq w =
     ((case ask c 0 (Inr (ListRestoreRequests (w_db w) (page_limit rq 50))) of
         Inl e \<Rightarrow> internal e | Inr rs \<Rightarrow> answer_json 200 (JList (map restore_view rs))), w)"

section \<open>Logs of the processes\<close>

definition processLogLevels :: "string list" where "processLogLevels = [''debug'', ''info'', ''warn'', ''error'']"

definition processLogTypes :: "string list" where
  "processLogTypes =
     [''system'', ''http'', ''agent'', ''run'', ''scheduler'', ''dispatcher'', ''connection'', ''command'', ''notification'']"

fun collect_values :: "string list \<Rightarrow> string list \<Rightarrow> string list \<Rightarrow> string list option" where
  "collect_values allowed acc [] = Some acc"
| "collect_values allowed acc (raw # vs) =
     (let v = TrimSpace (ToLower raw) in
      if v = [] then collect_values allowed acc vs
      else if v \<notin> set allowed then None
      else collect_values allowed (if v \<in> set acc then acc else acc @ [v]) vs)"

definition processLogValues :: "request \<Rightarrow> string \<Rightarrow> string list \<Rightarrow> string list option" where
  "processLogValues rq name allowed =
     collect_values allowed [] (concat (map (\<lambda>kv. SplitChar (CHR '','') (snd kv)) (filter (\<lambda>kv. fst kv = name) (rq_query rq))))"

definition logCursor :: "request \<Rightarrow> int option" where
  "logCursor rq =
     (let v = TrimSpace (queryParam rq ''before_id'') in
      if v = [] then Some 0 else if HasPrefix v ''-'' then None else Atoi v)"

definition processLogFilter :: "request \<Rightarrow> log_filter option" where
  "processLogFilter rq =
     (case (logCursor rq, processLogValues rq ''level'' processLogLevels, processLogValues rq ''type'' processLogTypes) of
        (Some b, Some ls, Some ts) \<Rightarrow> Some \<lparr>lf_before_id = b, lf_limit = page_limit rq 200, lf_levels = ls, lf_types = ts\<rparr>
      | _ \<Rightarrow> None)"

definition system_log_json :: "system_log \<Rightarrow> json" where
  "system_log_json l =
     JObj ([(''id'', JNum (slog_id l))] @ omitempty ''agent_id'' (slog_agent_id l) @
           omit_int ''source_seq'' (uint (slog_source_seq l)) @
           [(''timestamp'', nano_time_json (slog_timestamp l)), (''type'', JStr (slog_type l)), (''level'', JStr (slog_level l)),
            (''message'', JStr (slog_message l))])"

definition logs_reply :: "visit \<Rightarrow> nat \<Rightarrow> request \<Rightarrow> (log_filter \<Rightarrow> system_log list) \<Rightarrow> reply" where
  "logs_reply c n rq list =
     (case processLogFilter rq of
        None \<Rightarrow> writeErr 400 ''validation_failed'' ''invalid log cursor, level, or type''
      | Some f \<Rightarrow>
          (case ask c n (Inr (list f)) of Inl e \<Rightarrow> internal e | Inr ls \<Rightarrow> answer_json 200 (JList (map system_log_json ls))))"

definition handleListServerLogs :: "visit \<Rightarrow> request \<Rightarrow> 'c world \<Rightarrow> reply \<times> 'c world" where
  "handleListServerLogs c rq w = (logs_reply c 0 rq (ListServerLogs (w_db w)), w)"

definition logs_agent :: "request \<Rightarrow> string" where
  "logs_agent rq =
     (let a = TrimSpace (pathParam rq ''id''); b = TrimSpace (queryParam rq ''agent_id'') in
      if a \<noteq> [] then a else if b \<noteq> [] then b else TrimSpace (queryParam rq ''id''))"

definition handleListAgentLogs :: "visit \<Rightarrow> request \<Rightarrow> 'c world \<Rightarrow> reply \<times> 'c world" where
  "handleListAgentLogs c rq w =
     ((if logs_agent rq = [] then writeErr 400 ''validation_failed'' ''agent id is required''
       else case ask c 0 (GetAgent (w_db w) (logs_agent rq)) of
         Inl e \<Rightarrow> store_reply e
       | Inr _ \<Rightarrow> logs_reply c 1 rq (ListAgentLogs (w_db w) (logs_agent rq))), w)"

section \<open>The dashboard\<close>

definition latest_runs :: run_filter where
  "latest_runs = \<lparr>rf_agent_id = [], rf_plan_id = [], rf_repository_id = [], rf_statuses = [], rf_operation = None,
     rf_limit = 200, rf_offset = 0, rf_exclude_keys = []\<rparr>"

definition counted :: "instant \<Rightarrow> run_status \<Rightarrow> run list \<Rightarrow> nat" where
  "counted now st rs = length (filter (\<lambda>r. \<not> run_queued_at r < now - hours 24 \<and> run_status r = st) rs)"

text \<open>The plans that fire soonest, at most eight; the exchanges of the code sort their texts.\<close>

definition fire_json :: "plan \<times> instant \<Rightarrow> json" where
  "fire_json p = JObj [(''plan_id'', JStr (plan_id (fst p))), (''plan_name'', JStr (plan_name (fst p))), (''next_fire_at'', time_json (snd p))]"

fun exchange_min :: "('a \<Rightarrow> string) \<Rightarrow> 'a \<Rightarrow> 'a list \<Rightarrow> 'a \<times> 'a list" where
  "exchange_min k x [] = (x, [])"
| "exchange_min k x (y # ys) =
     (if k y < k x then (case exchange_min k y ys of (m, zs) \<Rightarrow> (m, x # zs))
      else (case exchange_min k x ys of (m, zs) \<Rightarrow> (m, y # zs)))"

lemma exchange_min_length: "exchange_min k x ys = (m, zs) \<Longrightarrow> length zs = length ys"
  by (induction k x ys arbitrary: m zs rule: exchange_min.induct) (auto split: if_splits prod.splits)

function exchange_sort :: "('a \<Rightarrow> string) \<Rightarrow> 'a list \<Rightarrow> 'a list" where
  "exchange_sort k [] = []"
| "exchange_sort k (x # xs) = (case exchange_min k x xs of (m, ys) \<Rightarrow> m # exchange_sort k ys)"
  by pat_completeness auto
termination
  by (relation "measure (length \<circ> snd)") (auto dest: exchange_min_length [OF sym])

definition next_fires :: "cron \<Rightarrow> instant \<Rightarrow> plan list \<Rightarrow> (plan \<times> instant) list" where
  "next_fires cr now plans =
     take 8 (exchange_sort (\<lambda>p. rfc3339 (snd p))
       (List.map_filter (\<lambda>p. map_option (\<lambda>t. (p, t)) (next_fire_at cr now p)) plans))"

definition needs_check_json :: "repository \<Rightarrow> json" where
  "needs_check_json r =
     JObj ([(''id'', JStr (repo_id r)), (''repository_path'', JStr (repo_path r))] @ omit_time ''last_check_at'' (repo_last_check_at r))"

definition dashboard :: "cron \<Rightarrow> instant \<Rightarrow> db \<Rightarrow> json" where
  "dashboard cr now d =
     (let agents = ListAgents d; runs = ListRuns d latest_runs in
      JObj [(''agents_online'', JNum (int (length (filter (\<lambda>a. agt_status a = AgentOnline) agents)))),
            (''agents_total'', JNum (int (length agents))),
            (''next_scheduled'', JList (map fire_json (next_fires cr now (ListPlans d [])))),
            (''repos_error'', JNum (int (length (filter (\<lambda>r. repo_status r = RepoError) (ListRepositories d))))),
            (''repos_needing_check'', JList (map needs_check_json (ListRepositoriesNeedingCheck d (now - hours (7 * 24))))),
            (''runs_24h_failed'', JNum (int (counted now RunFailed runs))),
            (''runs_24h_succeeded'', JNum (int (counted now RunSucceeded runs)))])"

text \<open>Reads that fail leave a zero or a field out; here none fails.\<close>

definition handleDashboard :: "'c api \<Rightarrow> visit \<Rightarrow> 'c world \<Rightarrow> reply \<times> 'c world" where
  "handleDashboard ap c w = (answer_json 200 (dashboard (ap_cron ap) (cl_now c) (w_db w)), w)"

section \<open>The stream of a run\<close>

definition wsPayload :: "event \<Rightarrow> json" where
  "wsPayload ev =
     (case ev of
        StateEvent r \<Rightarrow> JObj [(''run'', runView r), (''type'', JStr ''state'')]
      | ProgressEvent p \<Rightarrow> JObj [(''progress'', p), (''type'', JStr ''progress'')]
      | LogEvent l \<Rightarrow> JObj [(''entry'', run_log_json (l\<lparr>rlog_message := redactMsg (rlog_message l)\<rparr>)), (''type'', JStr ''log'')])"

text \<open>
  What a viewer is sent: the run as it is now, its log in the order of time, and, unless the run has ended,
  the events published after the subscription up to the first that ends the run.
  \<open>later\<close> are the events published since the state was read, \<open>missed\<close> how many of them came before the
  subscription.
\<close>

fun until_end :: "event list \<Rightarrow> event list" where
  "until_end [] = []"
| "until_end (StateEvent r # evs) = (if isTerminal (run_status r) then [StateEvent r] else StateEvent r # until_end evs)"
| "until_end (ev # evs) = ev # until_end evs"

definition serveRunWS :: "db \<Rightarrow> string \<Rightarrow> nat \<Rightarrow> event list \<Rightarrow> store_err + json list" where
  "serveRunWS d rid missed later =
     (case GetRun d rid of
        Inl e \<Rightarrow> Inl e
      | Inr r \<Rightarrow>
          Inr (map wsPayload
            ([StateEvent r] @ map LogEvent (rev (ListRunLogs d rid 0 100000)) @
             (if isTerminal (run_status r) then [] else until_end (drop missed later)))))"

definition wsHandler :: "'c api \<Rightarrow> visit \<Rightarrow> request \<Rightarrow> nat \<Rightarrow> event list \<Rightarrow> 'c world \<Rightarrow> (reply + (store_err + json list)) \<times> 'c world" where
  "wsHandler ap c rq missed later w =
     (let rid = TrimSpace (pathParam rq ''runID'') in
      if rid = [] \<or> rid = ''undefined'' \<or> rid = ''null'' then (Inl (writeErr 400 ''validation_failed'' ''run id is required''), w)
      else
        case Validate (ap_sha ap) (cl_now c) rq (w_db w) of
          (None, d) \<Rightarrow> (Inl (writeErr 401 ''unauthorized'' ''login required''), w\<lparr>w_db := d\<rparr>)
        | (Some _, d) \<Rightarrow> (Inr (serveRunWS d rid missed later), w\<lparr>w_db := d\<rparr>))"

end
