(* ===== verification/Api.thy ===== *)
theory Api
  imports Api_Accounts Api_Runs
begin

text \<open>
  The web API as a whole (\<open>api/server.go\<close>, \<open>auth/middleware.go\<close>): its routes, and one request from the
  session that comes with it to the reply.  The router is a library: a request arrives here with the endpoint
  it chose, whose method the request has.
\<close>

section \<open>Routes\<close>

datatype endpoint =
    EpSetupStatus | EpSetup | EpLogin | EpLogout | EpMe | EpDashboard | EpServerLogs | EpAgentLogs | EpRenameAgent | EpListAgents
  | EpRevokeAgent | EpRestoreAgent | EpCreateToken | EpListTokens | EpValidateTarget | EpCreateTarget | EpListTargets | EpRenameTarget
  | EpDeleteTarget | EpBindRepository | EpListRepositories | EpUnbindRepository | EpCheckRepository | EpRepoSnapshots
  | EpDeleteSnapshot | EpSnapshotTree | EpValidatePlan | EpListPlans | EpCreatePlan | EpGetPlan | EpUpdatePlan | EpDeletePlan
  | EpDeletePlanBackups | EpRunPlan | EpListRuns | EpGetRun | EpRunLogs | EpCancelRun | EpDryRun | EpStartRestore | EpListRestores
  | EpResolveRestore | EpGetTelegram | EpPutTelegram

definition routes :: "(string \<times> string \<times> endpoint) list" where
  "routes =
     [(''GET'', ''/setup/status'', EpSetupStatus), (''POST'', ''/setup'', EpSetup), (''POST'', ''/auth/login'', EpLogin),
      (''POST'', ''/auth/logout'', EpLogout), (''GET'', ''/auth/me'', EpMe), (''GET'', ''/dashboard'', EpDashboard),
      (''GET'', ''/logs/server'', EpServerLogs), (''GET'', ''/logs/agent'', EpAgentLogs), (''GET'', ''/agents/{id}/logs'', EpAgentLogs),
      (''PATCH'', ''/agents/{id}'', EpRenameAgent), (''GET'', ''/agents'', EpListAgents), (''DELETE'', ''/agents/{id}'', EpRevokeAgent),
      (''POST'', ''/agents/{id}/restore'', EpRestoreAgent), (''POST'', ''/enrollment-tokens'', EpCreateToken),
      (''GET'', ''/enrollment-tokens'', EpListTokens), (''POST'', ''/storage-targets/validate'', EpValidateTarget),
      (''POST'', ''/storage-targets'', EpCreateTarget), (''GET'', ''/storage-targets'', EpListTargets),
      (''PATCH'', ''/storage-targets/{id}'', EpRenameTarget), (''DELETE'', ''/storage-targets/{id}'', EpDeleteTarget),
      (''POST'', ''/repositories'', EpBindRepository), (''GET'', ''/repositories'', EpListRepositories),
      (''DELETE'', ''/repositories/{id}'', EpUnbindRepository), (''POST'', ''/repositories/{id}/check'', EpCheckRepository),
      (''GET'', ''/repositories/{id}/snapshots'', EpRepoSnapshots),
      (''DELETE'', ''/repositories/{id}/snapshots/{snapshotID}'', EpDeleteSnapshot),
      (''GET'', ''/snapshots/{snapshotID}/tree'', EpSnapshotTree), (''POST'', ''/plans/validate'', EpValidatePlan),
      (''GET'', ''/plans'', EpListPlans), (''POST'', ''/plans'', EpCreatePlan), (''GET'', ''/plans/{id}'', EpGetPlan),
      (''PUT'', ''/plans/{id}'', EpUpdatePlan), (''DELETE'', ''/plans/{id}'', EpDeletePlan),
      (''POST'', ''/plans/{id}/backups/delete'', EpDeletePlanBackups), (''POST'', ''/plans/{id}/run'', EpRunPlan),
      (''GET'', ''/runs'', EpListRuns), (''GET'', ''/runs/{id}'', EpGetRun), (''GET'', ''/runs/{id}/logs'', EpRunLogs),
      (''POST'', ''/runs/{id}/cancel'', EpCancelRun), (''POST'', ''/restores/dry-run'', EpDryRun), (''POST'', ''/restores'', EpStartRestore),
      (''GET'', ''/restores'', EpListRestores), (''POST'', ''/restores/{id}/resolve'', EpResolveRestore),
      (''GET'', ''/settings/telegram'', EpGetTelegram), (''PUT'', ''/settings/telegram'', EpPutTelegram)]"

definition endpoint_method :: "endpoint \<Rightarrow> string" where
  "endpoint_method ep = (case List.find (\<lambda>r. snd (snd r) = ep) routes of None \<Rightarrow> [] | Some r \<Rightarrow> fst r)"

section \<open>One request\<close>

text \<open>The handlers in the group behind \<open>requireAuth\<close>, and \<open>handleMe\<close>, which has it for itself.\<close>

definition guarded_call :: "'c api \<Rightarrow> visit \<Rightarrow> endpoint \<Rightarrow> request \<Rightarrow> string \<Rightarrow> 'c world \<Rightarrow> reply \<times> 'c world" where
  "guarded_call ap c ep rq who w =
     (case ep of
        EpMe \<Rightarrow> handleMe ap c who w
      | EpDashboard \<Rightarrow> handleDashboard ap c w
      | EpServerLogs \<Rightarrow> handleListServerLogs c rq w
      | EpAgentLogs \<Rightarrow> handleListAgentLogs c rq w
      | EpRenameAgent \<Rightarrow> handleRenameAgent c who rq w
      | EpListAgents \<Rightarrow> handleListAgents c w
      | EpRevokeAgent \<Rightarrow> handleRevokeAgent c who rq w
      | EpRestoreAgent \<Rightarrow> handleRestoreAgent c who rq w
      | EpCreateToken \<Rightarrow> handleCreateEnrollmentToken ap c who rq w
      | EpListTokens \<Rightarrow> handleListEnrollmentTokens c w
      | EpValidateTarget \<Rightarrow> handleValidateStorageTarget ap c rq w
      | EpCreateTarget \<Rightarrow> handleCreateStorageTarget ap c who rq w
      | EpListTargets \<Rightarrow> handleListStorageTargets c w
      | EpRenameTarget \<Rightarrow> handleRenameStorageTarget c who rq w
      | EpDeleteTarget \<Rightarrow> handleDeleteStorageTarget c who rq w
      | EpBindRepository \<Rightarrow> handleBindRepository ap c who rq w
      | EpListRepositories \<Rightarrow> handleListRepositories c w
      | EpUnbindRepository \<Rightarrow> handleUnbindRepository c who rq w
      | EpCheckRepository \<Rightarrow> handleRepositoryCheck ap c who rq w
      | EpRepoSnapshots \<Rightarrow> handleRepoSnapshots ap c rq w
      | EpDeleteSnapshot \<Rightarrow> handleDeleteSnapshot ap c who rq w
      | EpSnapshotTree \<Rightarrow> handleSnapshotTree ap c rq w
      | EpValidatePlan \<Rightarrow> handleValidatePlan ap c rq w
      | EpListPlans \<Rightarrow> handleListPlans ap c rq w
      | EpCreatePlan \<Rightarrow> handleCreatePlan ap c who rq w
      | EpGetPlan \<Rightarrow> handleGetPlan ap c rq w
      | EpUpdatePlan \<Rightarrow> handleUpdatePlan ap c who rq w
      | EpDeletePlan \<Rightarrow> handleDeletePlan ap c who rq w
      | EpDeletePlanBackups \<Rightarrow> handleDeletePlanBackups ap c who rq w
      | EpRunPlan \<Rightarrow> handleRunPlan c rq w
      | EpListRuns \<Rightarrow> handleListRuns c rq w
      | EpGetRun \<Rightarrow> handleGetRun c rq w
      | EpRunLogs \<Rightarrow> handleRunLogs c rq w
      | EpCancelRun \<Rightarrow> handleCancelRun c rq w
      | EpDryRun \<Rightarrow> handleDryRunRestore ap c rq w
      | EpStartRestore \<Rightarrow> handleStartRestore ap c who rq w
      | EpListRestores \<Rightarrow> handleListRestores c rq w
      | EpResolveRestore \<Rightarrow> handleResolveRestore c who rq w
      | EpGetTelegram \<Rightarrow> handleGetTelegramSettings ap c w
      | EpPutTelegram \<Rightarrow> handlePutTelegramSettings ap c rq w
      | _ \<Rightarrow> (nothing_written, w))"

definition login_required :: reply where "login_required = writeErr 401 ''unauthorized'' ''login required''"
definition csrf_failed :: reply where "csrf_failed = writeErr 403 ''forbidden'' ''csrf/origin check failed''"

definition RequireCSRF :: "'c api \<Rightarrow> request \<Rightarrow> ('w \<Rightarrow> reply \<times> 'w) \<Rightarrow> 'w \<Rightarrow> reply \<times> 'w" where
  "RequireCSRF ap rq h w = (if \<not> CheckCSRF (policyFor ap) rq then (csrf_failed, w) else h w)"

definition requireAuth :: "'c api \<Rightarrow> string option \<Rightarrow> request \<Rightarrow> (string \<Rightarrow> 'w \<Rightarrow> reply \<times> 'w) \<Rightarrow> 'w \<Rightarrow> reply \<times> 'w" where
  "requireAuth ap admin rq h w =
     (case admin of
        None \<Rightarrow> (login_required, w)
      | Some who \<Rightarrow>
          if rq_method rq \<noteq> ''GET'' \<and> rq_method rq \<noteq> ''HEAD'' then RequireCSRF ap rq (h who) w else h who w)"

definition keep_rate :: "rate \<Rightarrow> reply \<times> 'c world \<Rightarrow> reply \<times> rate \<times> 'c world" where
  "keep_rate r p = (fst p, r, snd p)"

text \<open>The middleware looks up the session first, for every request; the state is the limiter and the world.\<close>

definition serve_api :: "'c api \<Rightarrow> visit \<Rightarrow> endpoint \<Rightarrow> request \<Rightarrow> rate \<times> 'c world \<Rightarrow> reply \<times> rate \<times> 'c world" where
  "serve_api ap c ep rq s =
     (case Validate (ap_sha ap) (cl_now c) rq (w_db (snd s)) of
        (ses, d) \<Rightarrow>
          let w = (snd s)\<lparr>w_db := d\<rparr>; admin = map_option ses_admin_id ses in
          case ep of
            EpSetupStatus \<Rightarrow> keep_rate (fst s) (handleSetupStatus c w)
          | EpSetup \<Rightarrow> handleSetup ap c rq (fst s, w)
          | EpLogin \<Rightarrow> handleLogin ap c rq (fst s, w)
          | EpLogout \<Rightarrow> keep_rate (fst s) (RequireCSRF ap rq (handleLogout ap rq) w)
          | _ \<Rightarrow> keep_rate (fst s) (requireAuth ap admin rq (guarded_call ap c ep rq) w))"

definition open_endpoint :: "endpoint \<Rightarrow> bool" where
  "open_endpoint ep \<longleftrightarrow> ep \<in> {EpSetupStatus, EpSetup, EpLogin, EpLogout}"

section \<open>Who may do what\<close>

text \<open>The database but for its sessions.\<close>

definition but_for_sessions :: "'c world \<Rightarrow> 'c world \<Rightarrow> bool" where
  "but_for_sessions w w' \<longleftrightarrow> (\<exists>ss. w' = w\<lparr>w_db := (w_db w)\<lparr>db_sessions := ss\<rparr>\<rparr>)"

lemma Validate_sessions: "\<exists>ss. snd (Validate sha now rq d) = d\<lparr>db_sessions := ss\<rparr>"
proof -
  have "\<exists>ss. d = d\<lparr>db_sessions := ss\<rparr>" by (rule exI [of _ "db_sessions d"]) simp
  then show ?thesis
    by (auto simp: Validate_def Let_def DeleteSession_def TouchSession_def split: sum.splits)
qed

lemma but_for_sessions_validated: "but_for_sessions w (w\<lparr>w_db := snd (Validate sha now rq (w_db w))\<rparr>)"
  using Validate_sessions [of sha now rq "w_db w"] by (auto simp: but_for_sessions_def)

lemma serve_guarded:
  assumes "\<not> open_endpoint ep"
  shows "serve_api ap c ep rq (r, w) =
    keep_rate r (requireAuth ap (map_option ses_admin_id (fst (Validate (ap_sha ap) (cl_now c) rq (w_db w)))) rq (guarded_call ap c ep rq)
      (w\<lparr>w_db := snd (Validate (ap_sha ap) (cl_now c) rq (w_db w))\<rparr>))"
  using assms by (cases ep) (simp_all add: serve_api_def open_endpoint_def case_prod_beta Let_def)

text \<open>
  Nothing without a session.  A request to any endpoint but those for setting up, logging in and logging out is
  refused when no valid session comes with it: the reply is 401, and of the whole server only the table of
  sessions may have changed, where one that has run out is removed.
\<close>

theorem nothing_without_a_session:
  assumes "\<not> open_endpoint ep" and "fst (Validate (ap_sha ap) (cl_now c) rq (w_db w)) = None"
  shows "\<exists>w'. serve_api ap c ep rq (r, w) = (login_required, r, w') \<and> but_for_sessions w w'"
  using assms but_for_sessions_validated [of w "ap_sha ap" "cl_now c" rq]
  by (simp add: serve_guarded requireAuth_def keep_rate_def)

text \<open>A server, a call and a request for the examples.\<close>

definition sample_api :: "nat api" where
  "sample_api = \<lparr>ap_sealing = sample_sealing, ap_meanwhile = (\<lambda>_ _. []),
     ap_cron = \<lparr>cr_parses = (\<lambda>_. True), cr_zone = (\<lambda>_. True), cr_next = (\<lambda>_ _ t. t + hours 24)\<rparr>,
     ap_idkey = (\<lambda>pw salt _ _ _ n. take n (pw @ replicate n CHR 0x00)), ap_sha = (\<lambda>x. x), ap_url = (\<lambda>_. None), ap_public_url = [],
     ap_instance = ''i'', ap_version = ''1'', ap_restore_kinds = (\<lambda>_. False)\<rparr>"

definition demo_visit :: "instant \<Rightarrow> visit" where
  "demo_visit now = \<lparr>cl_now = now, cl_at = now, cl_id = (\<lambda>n. replicate (Suc n) CHR ''i''), cl_token = ''tok'', cl_csrf = ''csrf'',
     cl_salt = ''salt'', cl_random = Some ''r'', cl_pick = False, cl_flight = OwnFlight, cl_tflight = OwnFlight, cl_fault = (\<lambda>_. None)\<rparr>"

definition stranger :: "string \<Rightarrow> request" where
  "stranger meth = demo_request\<lparr>rq_method := meth, rq_cookies := []\<rparr>"

lemma stranger_has_no_session: "Validate sha now (stranger meth) d = (None, d)"
  by (simp add: Validate_def stranger_def demo_request_def cookie_def)

theorem nothing_without_a_session_witness:
  "fst (serve_api sample_api (demo_visit 0) EpDeletePlan (stranger ''DELETE'') (Map.empty, start_world empty_db)) = login_required"
proof -
  have "\<not> open_endpoint EpDeletePlan" by (simp add: open_endpoint_def)
  from nothing_without_a_session [OF this, where ap = sample_api and c = "demo_visit 0" and rq = "stranger ''DELETE''" and w = "start_world empty_db" and r = Map.empty]
  show ?thesis using stranger_has_no_session by force
qed

text \<open>
  A request of another site changes nothing.  Every endpoint that is not a GET, but for setting up and logging in,
  needs the token of the page: without it, with one that is not the cookie's, or with a foreign origin, the
  request is refused and only the table of sessions may have changed.
\<close>

theorem foreign_requests_change_nothing:
  assumes "rq_method rq = endpoint_method ep" and "endpoint_method ep \<noteq> ''GET''" and "ep \<noteq> EpSetup" and "ep \<noteq> EpLogin"
    and "rq_csrf rq = [] \<or> cookie rq CSRFCookie \<noteq> rq_csrf rq \<or> \<not> origin_ok (policyFor ap) rq"
  shows "\<exists>rep w'. serve_api ap c ep rq (r, w) = (rep, r, w') \<and> rep \<in> {login_required, csrf_failed} \<and> but_for_sessions w w'"
proof -
  let ?v = "Validate (ap_sha ap) (cl_now c) rq (w_db w)"
  have "endpoint_method ep \<in> {''GET'', ''POST'', ''PUT'', ''PATCH'', ''DELETE''}"
    by (cases ep) (simp_all add: endpoint_method_def routes_def)
  then have unsafe: "rq_method rq \<notin> {''GET'', ''HEAD'', ''OPTIONS''}" using assms(1,2) by auto
  then have no: "\<not> CheckCSRF (policyFor ap) rq" using assms(5) by (auto simp: CheckCSRF_def)
  note only = but_for_sessions_validated [of w "ap_sha ap" "cl_now c" rq]
  show ?thesis
  proof (cases "open_endpoint ep")
    case True
    have "endpoint_method EpSetupStatus = ''GET''" by code_simp
    then have "ep = EpLogout" using True assms(2,3,4) by (auto simp: open_endpoint_def)
    then show ?thesis using no only by (simp add: serve_api_def case_prod_beta Let_def RequireCSRF_def keep_rate_def)
  next
    case False
    then show ?thesis using no only unsafe
      by (cases "fst ?v") (simp_all add: serve_guarded requireAuth_def RequireCSRF_def keep_rate_def)
  qed
qed

theorem foreign_requests_change_nothing_witness:
  "fst (serve_api sample_api (demo_visit 0) EpDeletePlan (stranger ''DELETE'') (Map.empty, start_world empty_db)) \<in> {login_required, csrf_failed}"
proof -
  have m: "rq_method (stranger ''DELETE'') = endpoint_method EpDeletePlan" "endpoint_method EpDeletePlan \<noteq> ''GET''"
    by (simp_all add: stranger_def demo_request_def endpoint_method_def routes_def)
  have "rq_csrf (stranger ''DELETE'') = []" by (simp add: stranger_def demo_request_def)
  then show ?thesis
    using foreign_requests_change_nothing [OF m, where ap = sample_api and c = "demo_visit 0" and w = "start_world empty_db" and r = Map.empty] by force
qed

text \<open>
  Reading changes nothing.  The GET endpoints, but for those that browse snapshots and may start a run, and for
  the settings of Telegram, which may seal an old token anew, leave everything but the table of sessions
  as it is.
\<close>

theorem reading_changes_nothing:
  assumes "endpoint_method ep = ''GET''" and "ep \<notin> {EpRepoSnapshots, EpSnapshotTree, EpGetTelegram}" and "rq_method rq = ''GET''"
  shows "\<exists>rep w'. serve_api ap c ep rq (r, w) = (rep, r, w') \<and> but_for_sessions w w'"
proof -
  let ?d = "snd (Validate (ap_sha ap) (cl_now c) rq (w_db w))"
  have list: "ep \<in> {EpSetupStatus, EpMe, EpDashboard, EpServerLogs, EpAgentLogs, EpListAgents, EpListTokens, EpListTargets,
      EpListRepositories, EpListPlans, EpGetPlan, EpListRuns, EpGetRun, EpRunLogs, EpListRestores}"
    using assms(1,2) by (cases ep) (simp_all add: endpoint_method_def routes_def)
  have same: "snd (guarded_call ap c ep rq who v) = v" if "ep \<noteq> EpSetupStatus" for who v
    using list that
    by (auto simp: guarded_call_def handleMe_def handleDashboard_def handleListServerLogs_def handleListAgentLogs_def
        handleListAgents_def handleListEnrollmentTokens_def handleListStorageTargets_def handleListRepositories_def
        handleListPlans_def handleGetPlan_def handleListRuns_def handleGetRun_def handleRunLogs_def handleListRestores_def)
  note only = but_for_sessions_validated [of w "ap_sha ap" "cl_now c" rq]
  show ?thesis
  proof (cases "ep = EpSetupStatus")
    case True
    then show ?thesis using only
      by (simp add: serve_api_def case_prod_beta Let_def handleSetupStatus_def keep_rate_def)
  next
    case False
    then have "\<not> open_endpoint ep" using list by (auto simp: open_endpoint_def)
    then show ?thesis using only same [OF False] assms(3)
      by (simp add: serve_guarded requireAuth_def keep_rate_def split: option.split)
  qed
qed

theorem reading_changes_nothing_witness:
  "but_for_sessions (start_world empty_db :: nat world)
     (snd (snd (serve_api sample_api (demo_visit 0) EpListPlans (stranger ''GET'') (Map.empty, start_world empty_db))))"
proof -
  have m: "endpoint_method EpListPlans = ''GET''" "EpListPlans \<notin> {EpRepoSnapshots, EpSnapshotTree, EpGetTelegram}" "rq_method (stranger ''GET'') = ''GET''"
    by (simp_all add: stranger_def demo_request_def endpoint_method_def routes_def)
  show ?thesis
    using reading_changes_nothing [OF m, where ap = sample_api and c = "demo_visit 0" and w = "start_world empty_db" and r = Map.empty] by force
qed

end
