(* ===== verification/Served.thy ===== *)
theory Served
  imports Jobs_Restore Store_Steps
begin

text \<open>
  The database as the server uses it.  The store itself inserts whatever restore request it is given;
  that a run has at most one request, and that at most one request occupies the database restores, is
  due to the one place that writes such rows, \<open>StartRestore\<close>
  (\<open>internal/server/jobs/orchestrator.go\<close>).  A step here is any operation of the store apart from the
  two that create a request, with any arguments, or a whole call of \<open>StartRestore\<close>, whatever its
  input and outcome, also when it stops half way.  The requests of every database that is reached so
  are sound.
\<close>

section \<open>Steps\<close>

inductive server_step :: "'c world \<Rightarrow> 'c world \<Rightarrow> bool" where
  account: "account_step (w_db w) d \<Longrightarrow> server_step w (w\<lparr>w_db := d\<rparr>)"
| log: "log_step (w_db w) d \<Longrightarrow> server_step w (w\<lparr>w_db := d\<rparr>)"
| repo: "repo_step (w_db w) d \<Longrightarrow> server_step w (w\<lparr>w_db := d\<rparr>)"
| cache: "cache_step (w_db w) d \<Longrightarrow> server_step w (w\<lparr>w_db := d\<rparr>)"
| deletion: "deletion_step (w_db w) d \<Longrightarrow> server_step w (w\<lparr>w_db := d\<rparr>)"
| run: "run_step (w_db w) d \<Longrightarrow> server_step w (w\<lparr>w_db := d\<rparr>)"
| settle: "settle_step (w_db w) d \<Longrightarrow> server_step w (w\<lparr>w_db := d\<rparr>)"
| start: "StartRestore sl hash digest reqid rid aid now actorID inp w = (out, w') \<Longrightarrow> server_step w w'"
| elsewhere: "w_db w' = w_db w \<Longrightarrow> server_step w w'"

text \<open>A start is any database in which no restore was requested yet, such as the migrated one.\<close>

inductive server_state :: "'c world \<Rightarrow> bool" where
  unused: "runs_ok (db_runs (w_db w)) \<Longrightarrow> db_restores (w_db w) = [] \<Longrightarrow> server_state w"
| step: "server_state w \<Longrightarrow> server_step w w' \<Longrightarrow> server_state w'"

section \<open>The invariant\<close>

definition requests_sound :: "db \<Rightarrow> bool" where
  "requests_sound d \<longleftrightarrow> runs_ok (db_runs d) \<and> restore_inv d"

lemma requests_sound_core: "same_core d d' \<Longrightarrow> requests_sound d \<Longrightarrow> requests_sound d'"
  using same_core_keep [of d d'] by (simp add: requests_sound_def)

lemma requests_sound_run: "run_step d d' \<Longrightarrow> requests_sound d \<Longrightarrow> requests_sound d'"
  using run_step_runs_ok run_step_restore_inv by (simp add: requests_sound_def)

lemma requests_sound_settle: "settle_step d d' \<Longrightarrow> requests_sound d \<Longrightarrow> requests_sound d'"
  using settle_step_runs_ok settle_step_restore_inv by (simp add: requests_sound_def)

lemma requests_sound_try_transition:
  "field_mutator m \<Longrightarrow> requests_sound (w_db w) \<Longrightarrow> requests_sound (w_db (try_transition rid a b m w))"
  using requests_sound_run [OF run_step.transition] by (auto simp: try_transition_def split: sum.split)

text \<open>The rows of a restore, written together or one after the other, or only the first of them.\<close>

lemma insert_restore_rows_sound:
  assumes "insert_restore_rows now run rr d = (x, d1)" and same: "rr_run_id rr = run_id run" and ok: "requests_sound d"
  shows "requests_sound d1"
proof (cases "isDatabaseKind (rr_kind rr)")
  case True
  show ?thesis
  proof (cases "CreateDatabaseRestoreRun now run rr d")
    case (Inl e)
    with True assms show ?thesis by (simp add: insert_restore_rows_def)
  next
    case (Inr d2)
    then have "restore_step d d2" by (rule restore_step.database)
    with CreateDatabaseRestoreRun_inv [OF Inr _ same] restore_step_runs_ok ok True assms(1) Inr show ?thesis
      by (auto simp: insert_restore_rows_def requests_sound_def)
  qed
next
  case files: False
  show ?thesis
  proof (cases "CreateRun now run d")
    case (Inl e)
    with files assms show ?thesis by (simp add: insert_restore_rows_def)
  next
    case (Inr d2)
    have d2: "requests_sound d2" by (rule requests_sound_run [OF run_step.create [OF Inr] ok])
    have "find_run d (run_id run) = None" using CreateRun_fresh [of now run d d2] Inr by simp
    then have "\<forall>y\<in>set (db_restores d). rr_run_id y \<noteq> rr_run_id rr"
      using restores_ok_find_run [of d] ok same by (fastforce simp: requests_sound_def)
    moreover have "db_restores d2 = db_restores d" using insertRun_frame [of now run d d2] Inr by (auto simp: CreateRun_def)
    ultimately have fresh: "\<forall>y\<in>set (db_restores d2). rr_run_id y \<noteq> rr_run_id rr" by simp
    have quiet: "\<not> occupying rr" using files by (cases "rr_kind rr") (auto simp: occupying_def databaseRestoreKinds_def isDatabaseKind_def)
    show ?thesis
    proof (cases "CreateRestoreRequest rr d2")
      case (Inl e)
      with files Inr assms(1) d2 show ?thesis by (simp add: insert_restore_rows_def)
    next
      case req: (Inr d3)
      then have "restore_step d2 d3" by (rule restore_step.request)
      with CreateRestoreRequest_inv [OF req _ fresh quiet] restore_step_runs_ok d2 have "requests_sound d3"
        by (auto simp: requests_sound_def)
      with files Inr req assms(1) show ?thesis by (simp add: insert_restore_rows_def)
    qed
  qed
qed

lemma StartRestore_sound:
  assumes s: "StartRestore sl hash digest reqid rid aid now actorID inp w = (out, w')" and ok: "requests_sound (w_db w)"
  shows "requests_sound (w_db w')"
proof (cases "restore_preconditions hash digest (w_db w) (w_reg w) inp")
  case (Inl e)
  with assms show ?thesis by (simp add: StartRestore_def)
next
  case (Inr pre)
  obtain repo agent where pre: "pre = (repo, agent)" by force
  define rr where "rr = restore_request_of hash reqid rid now inp"
  define r where "r = restore_run_of sl rid now repo (target_agent_of inp repo) inp"
  obtain e persisted d1 where ins: "insert_restore_rows now r rr (w_db w) = ((e, persisted), d1)" by (metis prod.exhaust)
  have "rr_run_id rr = run_id r" by (simp add: rr_def r_def restore_request_of_def restore_run_of_def new_run_def)
  from insert_restore_rows_sound [OF ins this ok] have d1: "requests_sound d1" .
  have m: "field_mutator (request_failed now)" "field_mutator (secret_failed now msg)" for msg
    by (simp_all add: field_mutator_def request_failed_def secret_failed_def)
  have failed: "requests_sound (w_db (try_transition rid RunQueued RunFailed f (w\<lparr>w_db := d1\<rparr>)))" if "field_mutator f" for f
    by (rule requests_sound_try_transition [OF that]) (simp add: d1)
  show ?thesis
  proof (cases e)
    case (Some x)
    with s Inr pre ins show ?thesis
      using d1 failed [OF m(1)]
      by (auto simp: StartRestore_def rr_def [symmetric] r_def [symmetric] Let_def split: if_splits)
  next
    case None
    show ?thesis
    proof (cases "SaveRunTargetPassword (sl_seal sl) now rid (ri_target_password inp) d1")
      case (Inl x)
      with s Inr pre ins None show ?thesis
        using failed [OF m(2)] by (auto simp: StartRestore_def rr_def [symmetric] r_def [symmetric] Let_def)
    next
      case saved: (Inr d2)
      then have "account_step d1 d2" by (rule account_step.intros)
      then have d2: "requests_sound d2" using account_step_frame requests_sound_core d1 by blast
      from s Inr pre ins None saved have w': "w' = Audit aid now ''admin'' actorID ''restore.start'' ''restore_request'' reqid
          (restore_detail inp rr repo rid) (Enqueue rid (target_agent_of inp repo) (repo_id repo) (w\<lparr>w_db := d2\<rparr>))"
        by (auto simp: StartRestore_def rr_def [symmetric] r_def [symmetric] Let_def)
      obtain au where "w_db w' = (w_db (Enqueue rid (target_agent_of inp repo) (repo_id repo) (w\<lparr>w_db := d2\<rparr>)))\<lparr>db_audits := au\<rparr>"
        unfolding w' using Audit_db by blast
      then have "same_core d2 (w_db w')" by (simp add: same_core_def Enqueue_def push_job_def)
      then show ?thesis using requests_sound_core d2 by blast
    qed
  qed
qed

lemma server_step_sound:
  assumes "server_step w w'" and "requests_sound (w_db w)"
  shows "requests_sound (w_db w')"
  using assms(1)
proof cases
  case (account d)
  with account_step_frame requests_sound_core assms(2) show ?thesis by fastforce
next
  case (log d)
  with log_step_frame requests_sound_core assms(2) show ?thesis by fastforce
next
  case (repo d)
  with repo_step_frame requests_sound_core assms(2) show ?thesis by fastforce
next
  case (cache d)
  with cache_step_frame requests_sound_core assms(2) show ?thesis by fastforce
next
  case (deletion d)
  with deletion_step_frame requests_sound_core assms(2) show ?thesis by fastforce
next
  case (run d)
  with requests_sound_run assms(2) show ?thesis by simp
next
  case (settle d)
  with requests_sound_settle assms(2) show ?thesis by simp
next
  case (start sl hash digest reqid rid aid now actorID inp out)
  then show ?thesis using StartRestore_sound assms(2) by blast
next
  case elsewhere
  with assms(2) show ?thesis by simp
qed

lemma server_state_sound: "server_state w \<Longrightarrow> requests_sound (w_db w)"
proof (induction rule: server_state.induct)
  case (unused w)
  then show ?case by (simp add: requests_sound_def restores_ok_def exclusive_def)
next
  case (step w w')
  then show ?case using server_step_sound by blast
qed

section \<open>Properties\<close>

text \<open>C39: 
  In every database the server reaches, from one without restores by any operations of the store and
  by any calls of \<open>StartRestore\<close>, every restore request names an existing run, no run has two requests,
  and at most one request occupies the database restores.  The store would accept other rows; that
  they never arise is due to how \<open>StartRestore\<close> writes them: the run is new, the request names it, and a
  database restore is created in one transaction that refuses a second occupant.
\<close>

theorem server_keeps_restores_exclusive:
  assumes "server_state w" and "x \<in> set (db_restores (w_db w))"
  shows "find_run (w_db w) (rr_run_id x) \<noteq> None \<and>
    (\<forall>y\<in>set (db_restores (w_db w)). rr_id x = rr_id y \<or> rr_run_id x = rr_run_id y \<or> (occupying x \<and> occupying y) \<longrightarrow> x = y)"
proof -
  have inv: "restores_ok (db_runs (w_db w)) (db_restores (w_db w))" "exclusive (db_restores (w_db w))"
    using server_state_sound [OF assms(1)] by (simp_all add: requests_sound_def)
  have "x = y" if "y \<in> set (db_restores (w_db w))" "rr_id x = rr_id y" for y
    using inv(1) assms(2) that by (auto simp: restores_ok_def distinct_map dest: inj_onD)
  then show ?thesis
    using restores_ok_find_run [OF inv(1) assms(2)] restores_ok_run_unique [OF inv(1) assms(2)]
      exclusive_unique [OF inv(2) assms(2)] by blast
qed

theorem server_keeps_restores_exclusive_witness:
  "\<exists>out w' rr. StartRestore sample_sealing sample_hash (\<lambda>_. ''f'') ''q1'' ''r1'' ''e1'' 5 ''admin'' sample_input restore_world = (out, w') \<and>
     db_restores (w_db w') = [rr] \<and> find_run (w_db w') (rr_run_id rr) \<noteq> None"
proof -
  from sample_start obtain out w' where
    st: "StartRestore sample_sealing sample_hash (\<lambda>_. ''f'') ''q1'' ''r1'' ''e1'' 5 ''admin'' sample_input restore_world = (out, w')"
    and rows: "\<exists>rr. db_restores (w_db w') = [rr]" by auto
  have "server_state restore_world" by (rule server_state.unused) (simp_all add: restore_world_def start_world_def)
  then have "server_state w'" using server_step.start [OF st] by (rule server_state.step)
  with rows st server_keeps_restores_exclusive [of w'] show ?thesis by fastforce
qed

end
