(* ===== verification/Spec2Isabelle.thy ===== *)
theory Spec2Isabelle
  imports Startup Jobs_Browse Runner Adapters Api Served
begin

text \<open>
  A verification development of the backup management center: a control server that keeps plans,
  repositories and runs in one SQLite database, and agents on the machines to be backed up that run
  restic, rclone and the tools of four database systems.  File names below are relative to
  \<open>src/internal\<close>; a definition has the name of the Go function, method or type it is translated from
  wherever Isabelle allows it.

  \<^bold>\<open>How the program works.\<close>  A backup, a restore, a deletion or a question to an agent is a row in the table
  of runs.  The orchestrator (\<open>server/jobs\<close>) checks a request of the web API or of the scheduler, writes the
  run and hands it to the dispatcher (\<open>server/dispatchgrpc\<close>), which keeps one queue per repository, claims
  the run and sends the command through the registry of connected agents (\<open>server/agentreg\<close>).  The agent
  (\<open>agent/runner.go\<close>) accepts it, runs the operation (\<open>agent/pipeline\<close>) with an adapter of the kind of
  source (\<open>agent/backup\<close>) and restic (\<open>agent/restic\<close>), and reports logs, progress and one result, which the
  service of the agents writes back.  Everything the server knows survives in the database; queues,
  streams and flights of equal requests are memory of the process and are rebuilt when it starts.

  \<^bold>\<open>Foundations.\<close>
  \<^item> \<open>Prelude\<close>: instants (nanoseconds as \<open>int\<close>; the database keeps whole seconds), tables as lists.
  \<^item> \<open>Go_Strings\<close>, \<open>Paths\<close>, \<open>Go_Time\<close>: the parts of \<open>strings\<close>, \<open>path\<close> and \<open>time\<close> the program calls, on
    byte strings.  \<open>Go_Time\<close> proves that the order of the stored texts of times is that of the times.
  \<^item> \<open>Json\<close>, \<open>Json_Parse\<close>: documents, their text and reading it back.
  \<^item> \<open>Model\<close>, \<open>Version\<close>, \<open>Tasks\<close>: \<open>model/model.go\<close>, \<open>version/version.go\<close>, \<open>model/tasks.go\<close>.

  \<^bold>\<open>The database\<close> (\<open>server/store\<close>).  \<open>Store_State\<close> has the tables (record \<open>db\<close>) and the errors; an operation
  takes the database and returns it or an error.  A transaction that fails leaves it as it was.
  \<^item> \<open>Store_Runs\<close>: the run table; \<open>TransitionRun\<close> on every branch.
  \<^item> \<open>Store_Restore\<close>: restore requests, their admission and settlement.
  \<^item> \<open>Store_Cache\<close>: caches of snapshot lists and directories with generations.
  \<^item> \<open>Store_Deletions\<close>: deletion intents and orphan scans.
  \<^item> \<open>Store_Accounts\<close>, \<open>Store_Repos\<close>, \<open>Store_Logs\<close>, \<open>Secrets\<close>: the other tables and the sealed columns.
  \<^item> \<open>Store_Steps\<close>: any operation as a step; the invariant of every database that can be reached, and that
    an ended run stays ended.  Its two premises are on arguments fixed in the callers' texts: the function
    given to \<open>TransitionRun\<close> only fills in columns, and \<open>FailStaleRuns\<close> is called with active states.
  \<^item> \<open>Run_Contract\<close>: the locale \<open>run_store\<close> says what those who race for a run rely on, whatever they
    attempt: to move it, to finish its restore, to correct it, to resolve it, to end it as stale.  One of
    them ends it; the interpretation \<open>runs\<close> discharges the contract for the five operations of the store.
  \<^item> \<open>Served\<close>: what the store itself does not enforce.  That a run has one restore request, and that one
    request at most occupies the database restores, holds because \<open>StartRestore\<close> alone writes them.

  \<^bold>\<open>The server.\<close>  \<open>Server_State\<close> has the record \<open>world\<close>: the database, the registry, the queues, workers and
  marks of the dispatcher, and what was published and notified.
  \<^item> \<open>Registry\<close>: streams and capabilities; the locale \<open>agent_link\<close> is what senders rely on.
  \<^item> \<open>Dispatcher\<close>: \<open>processJob\<close> in its three stretches (admission, delivery, wait), cancelling, the watchdog
    and the recovery.  The relation \<open>disp_step\<close> has a free environment step for the rest of the world.
  \<^item> \<open>Agent_Service\<close>: enrolment, streams, every handler of a message, the loss of a stream.
  \<^item> \<open>Jobs_Runs\<close>, \<open>Jobs_Restore\<close>, \<open>Jobs_Cleanup\<close>, \<open>Jobs_Browse\<close>, \<open>Jobs_Repos\<close>: the orchestrator.  Where it
    waits for a run, what the others do meanwhile is an argument.  \<open>Flights\<close> is the sharing of equal
    requests as a step relation, with the branch of a caller whose context ends.
  \<^item> \<open>Scheduler\<close>, \<open>Startup\<close>: the tick and the start (\<open>cmd/server/main.go\<close>).
  \<^item> \<open>Auth\<close>, \<open>Redact\<close>: \<open>server/auth\<close>, the limiter of attempts, \<open>jobs/utils.go\<close>.
  \<^item> \<open>Api_Base\<close>, \<open>Api_Storage\<close>, \<open>Api_Plans\<close>, \<open>Api_Runs\<close>, \<open>Api_Accounts\<close>, \<open>Api\<close>: every handler of \<open>server/api\<close>;
    \<open>serve_api\<close> is one request from its session to its reply.  Nothing happens without a session, nothing
    for another site, and nothing on reading.

  \<^bold>\<open>The agent.\<close>  \<open>Agent_Tools\<close> has the record \<open>host\<close>: what commands, files and tools answer, as functions of
  a state of which nothing is assumed.  The record \<open>shell\<close> adds what the agent did: the commands it ran,
  the calls to adapters and fetched snapshots (\<open>sh_calls\<close>), logs and progress.
  \<^item> \<open>Agent_Paths\<close>: mappings, allow lists and the check of restored links.
  \<^item> \<open>Restic\<close>: all calls of restic, their output and errors, the retry behind a stale lock.
  \<^item> \<open>Pipeline\<close>, \<open>Pipeline_Ops\<close>: restores with protection backup and rollback; all other operations.
  \<^item> \<open>Adapter_Base\<close>, \<open>MySQL_Text\<close>, \<open>MySQL\<close>, \<open>PostgreSQL\<close>, \<open>MongoDB\<close>, \<open>SQLite_Adapter\<close>, \<open>Adapters\<close>: the four
    adapters, and that with them the pipeline's assumption on adapters holds.
  \<^item> \<open>Runner\<close>: the cache of finished runs (locale \<open>result_cache\<close>), acceptance, delivery and repetition of
    results.  The network of \<open>agent_step\<close> is changed by sending and, otherwise, only by \<open>drift\<close>, an argument.

  \<^bold>\<open>What is shown.\<close>
  \<^item> Invariants of all reachable databases and dispatcher states; what ends a run, and that it ends once.
  \<^item> Restores: admitted alone, authorised, carried out by one protocol - no call that changes a target comes
    before its absence is known or its protection snapshot is stored, and a rollback imports what was fetched
    with that snapshot - and reported so that the server releases settled targets only.
  \<^item> Delivery: a result is held until it is confirmed, a repeated command is answered from the cache.
  \<^item> Deletions: only unprotected, due snapshots, named one by one, after at most one unlock.
  \<^item> Paths: what the allow lists let through lies below a root, links included; the check always ends.
  \<^item> Optimised code against a specification: the cache against the recency list, path mappings, round trips
    of JSON, hashes, quoted names, sealed columns and deduplication keys.
  \<^item> Behaviour that contradicts a comment or looks unintended is stated as a theorem on a concrete input, as
    for \<open>restart_reverses_the_queue\<close>.

  \<^bold>\<open>Bounds and termination.\<close>  Loops over data are structural recursion or have a measure; the climb of the path
  check (\<open>climb\<close>) is a partial function and shown to return on every path.  The reader of JSON has fuel
  \<open>2 * length + 2\<close>, every use of which consumes a byte within two steps.  Retries are numbered as in the
  code: eight attempts at a busy database, one unlock.  Integers are \<open>int\<close> where the code's cannot overflow, and
  \<open>64 word\<close> where it can: sequence numbers of logs, the backoff of deletions, the digits of a cursor.

  \<^bold>\<open>Conventions.\<close>  Messages are in English and shortened; codes are exact.  The case of letters is folded for
  ASCII, except in \<open>ToUpper\<close>, where it matters.  Regular expressions are the scans they describe.  A JSON
  column is a document, so that marshalling a value again gives the same text; the audit detail of
  \<open>ResolveRestoreRequest\<close>, which the code writes with \<open>%q\<close>, is the object that is meant.  A NULL text is the
  empty text.  Clocks, identities, random bytes, hashes, AES-GCM, Argon2, the cron library, time zones and the
  parser of URLs are arguments; a theorem that needs a law of one of them names it, with a witness.

  \<^bold>\<open>Not modelled.\<close>  Transport and processes (\<open>agent/client.go\<close>, \<open>exec.go\<close>, reaping of orphans, gRPC and
  generated code), configuration and identity files, delivery of notifications, metrics and events to viewers,
  static files of the web interface, log output other than the run logs, the one-off migration of plan rows with
  a plain password, file modes, and goroutines inside one operation: operations are atomic except where a
  theory splits them (the stretches of \<open>processJob\<close>, waiting for a run, accepting and ending a run, flights).
\<close>

end
